(* ===== verification/BA_Prelude.thy ===== *)
theory BA_Prelude
  imports Main "HOL-Library.AList" "HOL-Library.Sublist"
begin

text \<open>
  Shared ground of the development: the Python values the program stores in rows and
  request bodies, the exceptions it raises, results with errors, stateful actions, and the
  string functions of the standard library that the code uses.

  Rows and bodies are Python dicts with string keys, kept as association lists in insertion
  order (\<open>AList.update\<close> replaces in place or appends, as \<open>d[k] = v\<close> does). Instants are
  microseconds since the epoch (a timezone-aware \<open>datetime\<close>). Text is ASCII. Floats are not
  modelled: no field of the modelled tables holds one.
\<close>

section \<open>Values\<close>

datatype pyval =
    VNone
  | VBool bool
  | VInt int
  | VStr string
  | VDate int
  | VList "pyval list"
  | VDict "(string \<times> pyval) list"

type_synonym row = "(string \<times> pyval) list"

named_theorems py_simps "evaluation of Python values, rows and actions"

text \<open>\<open>bool\<close> is a subclass of \<open>int\<close>: \<open>True == 1\<close>, and \<open>isinstance(True, int)\<close>.\<close>

fun py_num :: "pyval \<Rightarrow> int option" where
  "py_num (VBool b) = Some (if b then 1 else 0)"
| "py_num (VInt i) = Some i"
| "py_num _ = None"

fun py_eq :: "pyval \<Rightarrow> pyval \<Rightarrow> bool"
  and py_eq_list :: "pyval list \<Rightarrow> pyval list \<Rightarrow> bool"
  and py_eq_dict :: "(string \<times> pyval) list \<Rightarrow> (string \<times> pyval) list \<Rightarrow> bool" where
  "py_eq (VList xs) y = (case y of VList ys \<Rightarrow> py_eq_list xs ys | _ \<Rightarrow> False)"
| "py_eq (VDict d) y =
     (case y of VDict e \<Rightarrow> length d = length e \<and> py_eq_dict d e | _ \<Rightarrow> False)"
| "py_eq VNone y = (y = VNone)"
| "py_eq (VStr s) y = (y = VStr s)"
| "py_eq (VDate t) y = (y = VDate t)"
| "py_eq (VBool b) y = (py_num y = Some (if b then 1 else 0))"
| "py_eq (VInt i) y = (py_num y = Some i)"
| "py_eq_list [] ys = (ys = [])"
| "py_eq_list (x # xs) ys =
     (case ys of [] \<Rightarrow> False | y # ys' \<Rightarrow> py_eq x y \<and> py_eq_list xs ys')"
| "py_eq_dict [] e = True"
| "py_eq_dict ((k, v) # d) e =
     (case map_of e k of None \<Rightarrow> False | Some w \<Rightarrow> py_eq v w \<and> py_eq_dict d e)"

definition row_eq :: "row \<Rightarrow> row \<Rightarrow> bool" where
  "row_eq r r' = py_eq (VDict r) (VDict r')"

text \<open>Truth value testing (\<open>if x\<close>, \<open>not x\<close>, \<open>x or y\<close>).\<close>

fun py_truthy :: "pyval \<Rightarrow> bool" where
  "py_truthy VNone = False"
| "py_truthy (VBool b) = b"
| "py_truthy (VInt i) = (i \<noteq> 0)"
| "py_truthy (VStr s) = (s \<noteq> [])"
| "py_truthy (VDate _) = True"
| "py_truthy (VList xs) = (xs \<noteq> [])"
| "py_truthy (VDict d) = (d \<noteq> [])"

definition py_or :: "pyval \<Rightarrow> pyval \<Rightarrow> pyval" where
  "py_or a b = (if py_truthy a then a else b)"

section \<open>Exceptions, results and actions\<close>

text \<open>
  \<open>APIError\<close> carries the status, the code, the message and the extra body fields.
  \<open>AdapterError\<close> is whatever exception a database driver raises.
\<close>

datatype exn =
    ValueError
  | TypeError
  | KeyError
  | AttributeError
  | BetterAuthError string
  | AdapterError string
  | AccessControlError
  | OverflowError
  | NotImplementedError
  | AssertionError
  | RuntimeError string
  | APIError int string string row
  | OAuthFailure int string string "(string \<times> string) list"
  | HttpError
  | OAuthFetchError string
  | OAuthLinkError string "string option"
  | CallbackError string pyval string
  | StateError string pyval bool

type_synonym 'a result = "exn + 'a"

type_synonym ('s, 'a) action = "'s \<Rightarrow> 'a result \<times> 's"

definition bindR :: "'a result \<Rightarrow> ('a \<Rightarrow> 'b result) \<Rightarrow> 'b result" where
  "bindR m f = (case m of Inl e \<Rightarrow> Inl e | Inr a \<Rightarrow> f a)"

definition ret :: "'a \<Rightarrow> ('s, 'a) action" where
  "ret a s = (Inr a, s)"

definition raise :: "exn \<Rightarrow> ('s, 'a) action" where
  "raise e s = (Inl e, s)"

text \<open>An exception keeps the state changes made before it: nothing rolls back by itself.\<close>

definition bindA :: "('s, 'a) action \<Rightarrow> ('a \<Rightarrow> ('s, 'b) action) \<Rightarrow> ('s, 'b) action" where
  "bindA m f s = (case m s of (Inl e, s') \<Rightarrow> (Inl e, s') | (Inr a, s') \<Rightarrow> f a s')"

definition liftR :: "'a result \<Rightarrow> ('s, 'a) action" where
  "liftR r s = (r, s)"

text \<open>\<open>try: m except Exception: h\<close>.\<close>

definition catchA :: "('s, 'a) action \<Rightarrow> (exn \<Rightarrow> ('s, 'a) action) \<Rightarrow> ('s, 'a) action" where
  "catchA m h s = (case m s of (Inl e, s') \<Rightarrow> h e s' | (Inr a, s') \<Rightarrow> (Inr a, s'))"

lemma bindR_simps [simp, py_simps]:
  "bindR (Inl e) f = Inl e"
  "bindR (Inr a) f = f a"
  by (simp_all add: bindR_def)

lemma bindR_Inr_iff: "bindR m f = Inr b \<longleftrightarrow> (\<exists>a. m = Inr a \<and> f a = Inr b)"
  by (cases m) auto

lemma bindA_ret [simp, py_simps]: "bindA (ret a) f = f a"
  by (rule ext) (simp add: bindA_def ret_def)

lemma bindA_raise [simp, py_simps]: "bindA (raise e) f = raise e"
  by (rule ext) (simp add: bindA_def raise_def)

lemma bindA_liftR_Inr [simp, py_simps]: "bindA (liftR (Inr a)) f = f a"
  by (rule ext) (simp add: bindA_def liftR_def)

lemma bindA_liftR_Inl [simp, py_simps]: "bindA (liftR (Inl e)) f = raise e"
  by (rule ext) (simp add: bindA_def liftR_def raise_def)

lemma ret_apply [simp, py_simps]: "ret a s = (Inr a, s)"
  by (simp add: ret_def)

lemma raise_apply [simp, py_simps]: "raise e s = (Inl e, s)"
  by (simp add: raise_def)

lemma liftR_apply [simp, py_simps]: "liftR r s = (r, s)"
  by (simp add: liftR_def)

lemma bindA_Inr: "m s = (Inr a, s') \<Longrightarrow> bindA m f s = f a s'"
  by (simp add: bindA_def)

lemma bindA_Inl: "m s = (Inl e, s') \<Longrightarrow> bindA m f s = (Inl e, s')"
  by (simp add: bindA_def)

lemma bindA_InrE:
  assumes "bindA m f s = (Inr b, s'')"
  obtains a s' where "m s = (Inr a, s')" "f a s' = (Inr b, s'')"
  using assms by (auto simp: bindA_def split: prod.splits sum.splits)

section \<open>Dicts\<close>

text \<open>\<open>d.get(k)\<close>, \<open>k in d\<close>, \<open>d[k] = v\<close>, \<open>d.update(e)\<close> and \<open>{**d, **e}\<close>.\<close>

definition dget :: "row \<Rightarrow> string \<Rightarrow> pyval" where
  "dget d k = (case map_of d k of None \<Rightarrow> VNone | Some v \<Rightarrow> v)"

definition has_key :: "row \<Rightarrow> string \<Rightarrow> bool" where
  "has_key d k = (map_of d k \<noteq> None)"

definition dset :: "'k \<Rightarrow> 'v \<Rightarrow> ('k \<times> 'v) list \<Rightarrow> ('k \<times> 'v) list" where
  "dset k v d = AList.update k v d"

fun dmerge :: "('k \<times> 'v) list \<Rightarrow> ('k \<times> 'v) list \<Rightarrow> ('k \<times> 'v) list" where
  "dmerge d [] = d"
| "dmerge d ((k, v) # e) = dmerge (dset k v d) e"

text \<open>\<open>d[k]\<close>, which raises on a missing key.\<close>

definition dindex :: "row \<Rightarrow> string \<Rightarrow> pyval result" where
  "dindex d k = (case map_of d k of None \<Rightarrow> Inl KeyError | Some v \<Rightarrow> Inr v)"

definition ddrop :: "'k \<Rightarrow> ('k \<times> 'v) list \<Rightarrow> ('k \<times> 'v) list" where
  "ddrop k d = filter (\<lambda>(k', _). k' \<noteq> k) d"

lemma map_of_dset [simp]: "map_of (dset k v d) = (map_of d)(k \<mapsto> v)"
  by (simp add: dset_def AList.update_conv')

lemma dget_dset [simp]: "dget (dset k v d) k' = (if k' = k then v else dget d k')"
  by (simp add: dget_def)

lemma distinct_dset: "distinct (map fst d) \<Longrightarrow> distinct (map fst (dset k v d))"
  by (simp add: dset_def AList.distinct_update)

lemma map_of_dmerge:
  "distinct (map fst e) \<Longrightarrow> map_of (dmerge d e) = map_of d ++ map_of e"
proof (induction d e rule: dmerge.induct)
  case (2 d k v e)
  then have "map_of e k = None" by (simp add: map_of_eq_None_iff)
  with 2 show ?case by (auto simp: map_add_def fun_eq_iff split: option.splits)
qed simp

lemma dget_dmerge:
  "distinct (map fst e) \<Longrightarrow>
   dget (dmerge d e) k = (case map_of e k of None \<Rightarrow> dget d k | Some v \<Rightarrow> v)"
  by (simp add: dget_def map_of_dmerge map_add_def split: option.splits)

lemma dget_dmerge_notin:
  "k \<notin> fst ` set e \<Longrightarrow> dget (dmerge d e) k = dget d k"
  by (induction d e rule: dmerge.induct) auto

lemma distinct_dmerge: "distinct (map fst d) \<Longrightarrow> distinct (map fst (dmerge d e))"
  by (induction d e rule: dmerge.induct) (auto simp: distinct_dset)

lemma keys_dset: "fst ` set (dset k v d) = insert k (fst ` set d)"
  by (simp add: dset_def AList.dom_update)

lemma keys_dmerge: "fst ` set (dmerge d e) = fst ` set d \<union> fst ` set e"
  by (induction d e rule: dmerge.induct) (auto simp: keys_dset)

lemma dget_Cons [py_simps]: "dget ((k, v) # d) k' = (if k = k' then v else dget d k')"
  by (simp add: dget_def)

lemma dget_Nil [simp, py_simps]: "dget [] k = VNone"
  by (simp add: dget_def)

lemma dset_Cons [py_simps]:
  "dset k v ((k', v') # d) = (if k' = k then (k, v) # d else (k', v') # dset k v d)"
  by (simp add: dset_def)

lemma dset_Nil [simp, py_simps]: "dset k v [] = [(k, v)]"
  by (simp add: dset_def)

text \<open>\<open>len(v)\<close>.\<close>

definition py_len :: "pyval \<Rightarrow> int result" where
  "py_len v =
     (case v of
        VStr s \<Rightarrow> Inr (int (length s))
      | VList xs \<Rightarrow> Inr (int (length xs))
      | VDict d \<Rightarrow> Inr (int (length d))
      | _ \<Rightarrow> Inl TypeError)"

section \<open>Equality and order\<close>

lemma py_num_eq_None [simp]:
  "py_num (VStr s) = None" "py_num (VDate t) = None" "py_num VNone = None"
  by simp_all

lemma py_eq_right [simp, py_simps]:
  "py_eq v VNone = (v = VNone)"
  "py_eq v (VStr s) = (v = VStr s)"
  "py_eq v (VDate t) = (v = VDate t)"
  "py_eq v (VInt i) = (py_num v = Some i)"
  by (cases v; auto)+

lemma py_eq_list_refl: "(\<And>x. x \<in> set xs \<Longrightarrow> py_eq x x) \<Longrightarrow> py_eq_list xs xs"
  by (induction xs) auto

text \<open>Code points order characters, and strings lexicographically.\<close>

fun str_lt :: "string \<Rightarrow> string \<Rightarrow> bool" where
  "str_lt [] ys = (ys \<noteq> [])"
| "str_lt (x # xs) [] = False"
| "str_lt (x # xs) (y # ys) =
     (if x = y then str_lt xs ys else (of_char x :: nat) < of_char y)"

fun py_lt :: "pyval \<Rightarrow> pyval \<Rightarrow> bool result"
  and py_lt_list :: "pyval list \<Rightarrow> pyval list \<Rightarrow> bool result" where
  "py_lt (VStr a) y = (case y of VStr b \<Rightarrow> Inr (str_lt a b) | _ \<Rightarrow> Inl TypeError)"
| "py_lt (VDate a) y = (case y of VDate b \<Rightarrow> Inr (a < b) | _ \<Rightarrow> Inl TypeError)"
| "py_lt (VList xs) y = (case y of VList ys \<Rightarrow> py_lt_list xs ys | _ \<Rightarrow> Inl TypeError)"
| "py_lt (VBool a) y =
     (case py_num y of Some b \<Rightarrow> Inr ((if a then 1 else 0) < b) | None \<Rightarrow> Inl TypeError)"
| "py_lt (VInt a) y = (case py_num y of Some b \<Rightarrow> Inr (a < b) | None \<Rightarrow> Inl TypeError)"
| "py_lt VNone y = Inl TypeError"
| "py_lt (VDict d) y = Inl TypeError"
| "py_lt_list [] ys = Inr (ys \<noteq> [])"
| "py_lt_list (x # xs) ys =
     (case ys of [] \<Rightarrow> Inr False
      | y # ys' \<Rightarrow> if py_eq x y then py_lt_list xs ys' else py_lt x y)"

section \<open>Strings\<close>

definition lower_char :: "char \<Rightarrow> char" where
  "lower_char c = (let n = (of_char c :: nat) in if 65 \<le> n \<and> n \<le> 90 then char_of (n + 32) else c)"

definition str_lower :: "string \<Rightarrow> string" where
  "str_lower s = map lower_char s"

definition starts_with :: "string \<Rightarrow> string \<Rightarrow> bool" where
  "starts_with s p = (take (length p) s = p)"

definition ends_with :: "string \<Rightarrow> string \<Rightarrow> bool" where
  "ends_with s p = (length p \<le> length s \<and> drop (length s - length p) s = p)"

fun str_contains :: "string \<Rightarrow> string \<Rightarrow> bool" where
  "str_contains [] p = (p = [])"
| "str_contains (c # s) p = (starts_with (c # s) p \<or> str_contains s p)"

lemma starts_with_prefix: "starts_with s p \<longleftrightarrow> prefix p s"
  by (metis append_take_drop_id append_eq_conv_conj prefixE prefixI starts_with_def)

lemma lower_char_idem [simp]: "lower_char (lower_char c) = lower_char c"
proof (cases "65 \<le> (of_char c :: nat) \<and> of_char c \<le> (90 :: nat)")
  case True
  then have "of_char (char_of (of_char c + 32 :: nat)) = (of_char c + 32 :: nat)"
    by (simp add: of_char_of)
  with True show ?thesis by (simp add: lower_char_def Let_def)
next
  case False
  then show ?thesis by (auto simp: lower_char_def Let_def)
qed

lemma str_lower_idem [simp]: "str_lower (str_lower s) = str_lower s"
  by (simp add: str_lower_def)

section \<open>Lists\<close>

text \<open>\<open>dict.fromkeys(xs)\<close>: the first occurrence of each element.\<close>

definition dedup :: "'a list \<Rightarrow> 'a list" where
  "dedup xs = rev (remdups (rev xs))"

lemma set_dedup [simp]: "set (dedup xs) = set xs"
  by (simp add: dedup_def)

text \<open>Remove, or rewrite, the first element with a property.\<close>

fun drop_first :: "('a \<Rightarrow> bool) \<Rightarrow> 'a list \<Rightarrow> 'a list" where
  "drop_first P [] = []"
| "drop_first P (x # xs) = (if P x then xs else x # drop_first P xs)"

fun map_first :: "('a \<Rightarrow> bool) \<Rightarrow> ('a \<Rightarrow> 'a) \<Rightarrow> 'a list \<Rightarrow> 'a list" where
  "map_first P f [] = []"
| "map_first P f (x # xs) = (if P x then f x # xs else x # map_first P f xs)"

lemma drop_first_none [simp]: "\<forall>x\<in>set xs. \<not> P x \<Longrightarrow> drop_first P xs = xs"
  by (induction xs) auto

lemma map_first_none [simp]: "\<forall>x\<in>set xs. \<not> P x \<Longrightarrow> map_first P f xs = xs"
  by (induction xs) auto

lemma set_drop_first_subset: "set (drop_first P xs) \<subseteq> set xs"
  by (induction xs) auto

lemma length_map_first [simp]: "length (map_first P f xs) = length xs"
  by (induction xs) auto

lemma filter_drop_first: "(\<And>x. P x \<Longrightarrow> \<not> Q x) \<Longrightarrow> filter Q (drop_first P xs) = filter Q xs"
  by (induction xs) auto

lemma filter_map_first:
  "(\<And>x. P x \<Longrightarrow> \<not> Q x) \<Longrightarrow> (\<And>x. P x \<Longrightarrow> \<not> Q (f x)) \<Longrightarrow>
   filter Q (map_first P f xs) = filter Q xs"
  by (induction xs) auto

lemma map_map_first: "(\<And>x. P x \<Longrightarrow> g (f x) = g x) \<Longrightarrow> map g (map_first P f xs) = map g xs"
  by (induction xs) auto

lemma set_map_firstD: "y \<in> set (map_first P f xs) \<Longrightarrow> y \<in> set xs \<or> (\<exists>x\<in>set xs. P x \<and> y = f x)"
  by (induction xs) (auto split: if_splits)

lemma find_Some_in: "List.find P xs = Some x \<Longrightarrow> x \<in> set xs \<and> P x"
  by (auto simp: find_Some_iff)

lemma find_None_all: "List.find P xs = None \<longleftrightarrow> (\<forall>x\<in>set xs. \<not> P x)"
  by (auto simp: find_None_iff)

lemma find_cong_set: "(\<And>x. x \<in> set xs \<Longrightarrow> P x = Q x) \<Longrightarrow> List.find P xs = List.find Q xs"
  by (induction xs) auto

lemma map_first_cong_set:
  "(\<And>x. x \<in> set xs \<Longrightarrow> P x = Q x) \<Longrightarrow> map_first P f xs = map_first Q f xs"
  by (induction xs) auto

lemma find_drop_first_unique:
  assumes "distinct (map f xs)"
  shows "List.find (\<lambda>x. f x = k) (drop_first (\<lambda>x. f x = k) xs) = None"
  using assms
proof (induction xs)
  case (Cons x xs)
  show ?case
  proof (cases "f x = k")
    case True
    with Cons.prems have "\<forall>y\<in>set xs. f y \<noteq> k" by (metis distinct.simps(2) image_eqI list.simps(9) list.set_map)
    with True show ?thesis by (simp add: find_None_all)
  next
    case False
    with Cons show ?thesis by simp
  qed
qed simp

lemma drop_first_distinct:
  assumes "distinct (map f xs)"
  shows "drop_first (\<lambda>x. f x = k) xs = filter (\<lambda>x. f x \<noteq> k) xs"
  using assms
proof (induction xs)
  case (Cons x xs)
  show ?case
  proof (cases "f x = k")
    case True
    with Cons.prems have "\<forall>y\<in>set xs. f y \<noteq> k" by (metis distinct.simps(2) image_eqI list.simps(9) list.set_map)
    with True show ?thesis by (simp add: filter_id_conv)
  next
    case False
    with Cons show ?thesis by simp
  qed
qed simp

lemma find_map_first:
  "(\<And>x. P x \<Longrightarrow> P (f x)) \<Longrightarrow> List.find P (map_first P f xs) = map_option f (List.find P xs)"
  by (induction xs) auto

lemma find_map_first_other:
  "(\<And>x. P x \<Longrightarrow> \<not> Q x) \<Longrightarrow> (\<And>x. P x \<Longrightarrow> \<not> Q (f x)) \<Longrightarrow>
   List.find Q (map_first P f xs) = List.find Q xs"
  by (induction xs) auto

lemma find_append: "List.find P (xs @ ys) = (case List.find P xs of None \<Rightarrow> List.find P ys | Some x \<Rightarrow> Some x)"
  by (induction xs) auto

end
