(* ===== verification/Schema.thy ===== *)
theory Schema
  imports BA_Prelude
begin

text \<open>
  \<open>better_auth/schema.py\<close>: field declarations, the core tables, the merge of plugin
  schemas, the comparison of the expected schema with the columns a database holds, and the
  parse layer that filters what goes in from and out to clients.

  A default is either a value or a factory called at the time of the write; the factories and
  \<open>on_update\<close> callables are functions of the clock. DDL hints (\<open>references\<close>, \<open>sortable\<close>,
  \<open>index\<close>, \<open>bigint\<close>, \<open>field_name\<close>) are not consulted by the modelled code and are left out.
\<close>

section \<open>Fields and schemas\<close>

record field =
  f_type :: string
  f_required :: bool
  f_unique :: bool
  f_returned :: bool
  f_input :: bool
  f_default :: "pyval option"
  f_default_factory :: "(int \<Rightarrow> pyval) option"
  f_on_update :: "(int \<Rightarrow> pyval) option"
  f_transform_input :: "(pyval \<Rightarrow> pyval) option"

type_synonym fields = "(string \<times> field) list"
type_synonym schema = "(string \<times> fields) list"

definition mk_field :: "string \<Rightarrow> bool \<Rightarrow> field" where
  "mk_field ty req = \<lparr>f_type = ty, f_required = req, f_unique = False, f_returned = True,
     f_input = True, f_default = None, f_default_factory = None, f_on_update = None,
     f_transform_input = None\<rparr>"

definition has_default :: "field \<Rightarrow> bool" where
  "has_default f = (f_default f \<noteq> None \<or> f_default_factory f \<noteq> None)"

definition make_default :: "int \<Rightarrow> field \<Rightarrow> pyval" where
  "make_default now f =
     (case f_default_factory f of
        Some mk \<Rightarrow> mk now
      | None \<Rightarrow> (case f_default f of Some v \<Rightarrow> v | None \<Rightarrow> VNone))"

definition now_factory :: "int \<Rightarrow> pyval" where
  "now_factory now = VDate now"

definition epoch_ms_factory :: "int \<Rightarrow> pyval" where
  "epoch_ms_factory now = VInt (now div 1000)"

definition id_field :: field where
  "id_field = (mk_field ''string'' True)\<lparr>f_unique := True\<rparr>"

definition created_at_field :: field where
  "created_at_field = (mk_field ''datetime'' True)\<lparr>f_default_factory := Some now_factory\<rparr>"

definition updated_at_field :: field where
  "updated_at_field = created_at_field\<lparr>f_on_update := Some now_factory\<rparr>"

definition hidden_field :: "string \<Rightarrow> field" where
  "hidden_field ty = (mk_field ty False)\<lparr>f_returned := False\<rparr>"

definition CORE_SCHEMA :: schema where
  "CORE_SCHEMA = [
     (''user'', [
        (''id'', id_field),
        (''name'', mk_field ''string'' True),
        (''email'', (mk_field ''string'' True)\<lparr>f_unique := True\<rparr>),
        (''emailVerified'',
           (mk_field ''boolean'' True)\<lparr>f_default := Some (VBool False), f_input := False\<rparr>),
        (''image'', mk_field ''string'' False),
        (''createdAt'', created_at_field),
        (''updatedAt'', updated_at_field)]),
     (''session'', [
        (''id'', id_field),
        (''expiresAt'', mk_field ''datetime'' True),
        (''token'', (mk_field ''string'' True)\<lparr>f_unique := True\<rparr>),
        (''ipAddress'', mk_field ''string'' False),
        (''userAgent'', mk_field ''string'' False),
        (''userId'', mk_field ''string'' True),
        (''createdAt'', created_at_field),
        (''updatedAt'', updated_at_field)]),
     (''account'', [
        (''id'', id_field),
        (''accountId'', mk_field ''string'' True),
        (''providerId'', mk_field ''string'' True),
        (''userId'', mk_field ''string'' True),
        (''accessToken'', hidden_field ''text''),
        (''refreshToken'', hidden_field ''text''),
        (''idToken'', hidden_field ''text''),
        (''accessTokenExpiresAt'', hidden_field ''datetime''),
        (''refreshTokenExpiresAt'', hidden_field ''datetime''),
        (''scope'', mk_field ''string'' False),
        (''password'', hidden_field ''string''),
        (''createdAt'', created_at_field),
        (''updatedAt'', updated_at_field)]),
     (''verification'', [
        (''id'', id_field),
        (''identifier'', mk_field ''string'' True),
        (''value'', mk_field ''text'' True),
        (''expiresAt'', mk_field ''datetime'' True),
        (''createdAt'', created_at_field),
        (''updatedAt'', updated_at_field)])]"

definition rate_limit_model :: fields where
  "rate_limit_model = [
     (''id'', id_field),
     (''key'', (mk_field ''string'' True)\<lparr>f_unique := True\<rparr>),
     (''count'', mk_field ''number'' True),
     (''lastRequest'', (mk_field ''number'' True)\<lparr>f_default_factory := Some epoch_ms_factory\<rparr>)]"

definition fields_of :: "schema \<Rightarrow> string \<Rightarrow> fields" where
  "fields_of sch m = (case map_of sch m of None \<Rightarrow> [] | Some fs \<Rightarrow> fs)"

text \<open>\<open>merge_schema\<close>: one extension after the other, one model after the other.\<close>

fun merge_extension :: "schema \<Rightarrow> schema \<Rightarrow> schema" where
  "merge_extension sch [] = sch"
| "merge_extension sch ((m, fs) # ext) =
     merge_extension (dset m (dmerge (fields_of sch m) fs) sch) ext"

fun merge_schema :: "schema \<Rightarrow> schema list \<Rightarrow> schema" where
  "merge_schema base [] = base"
| "merge_schema base (ext # exts) = merge_schema (merge_extension base ext) exts"

section \<open>Comparison with the database\<close>

record column =
  c_name :: string
  c_nullable :: bool
  c_has_default :: bool

datatype schema_finding =
    MissingTable string
  | MissingColumn string string
  | UnexpectedRequired string string

definition written_columns :: "fields \<Rightarrow> string list" where
  "written_columns fs = dedup (''id'' # map fst fs)"

definition diff_table ::
    "string \<Rightarrow> fields \<Rightarrow> column list option \<Rightarrow> schema_finding list" where
  "diff_table table fs columns =
     (case columns of
        None \<Rightarrow> [MissingTable table]
      | Some cs \<Rightarrow>
          map (MissingColumn table)
            (filter (\<lambda>c. c \<notin> set (map c_name cs)) (written_columns fs)) @
          map (\<lambda>c. UnexpectedRequired table (c_name c))
            (filter (\<lambda>c. \<not> (c_name c \<in> set (written_columns fs) \<or> c_nullable c \<or> c_has_default c)) cs))"

fun diff_schema :: "schema \<Rightarrow> (string \<times> column list) list \<Rightarrow> schema_finding list" where
  "diff_schema [] actual = []"
| "diff_schema ((table, fs) # expected) actual =
     diff_table table fs (map_of actual table) @ diff_schema expected actual"

section \<open>The parse layer\<close>

definition filter_output_fields :: "row \<Rightarrow> fields \<Rightarrow> row" where
  "filter_output_fields r fs =
     (let hidden = map fst (filter (\<lambda>(_, spec). \<not> f_returned spec) fs)
      in filter (\<lambda>(k, _). k \<notin> set hidden) r)"

definition field_not_allowed :: "string \<Rightarrow> exn" where
  "field_not_allowed key =
     APIError 400 ''FIELD_NOT_ALLOWED'' (key @ '' is not allowed to be set'') []"

definition missing_field :: "string \<Rightarrow> exn" where
  "missing_field key = APIError 400 ''MISSING_FIELD'' (key @ '' is required'') []"

fun parse_fields :: "int \<Rightarrow> row \<Rightarrow> string \<Rightarrow> fields \<Rightarrow> row \<Rightarrow> row result" where
  "parse_fields now data action [] parsed = Inr parsed"
| "parse_fields now data action ((key, spec) # fs) parsed =
     (case map_of data key of
        Some v \<Rightarrow>
          if \<not> f_input spec then
            (if has_default spec \<and> action \<noteq> ''update'' then
               parse_fields now data action fs (dset key (make_default now spec) parsed)
             else if py_truthy v then Inl (field_not_allowed key)
             else parse_fields now data action fs parsed)
          else parse_fields now data action fs (dset key v parsed)
      | None \<Rightarrow>
          if has_default spec \<and> action = ''create'' then
            parse_fields now data action fs (dset key (make_default now spec) parsed)
          else if f_required spec \<and> action = ''create'' then Inl (missing_field key)
          else parse_fields now data action fs parsed)"

definition parse_input_data :: "int \<Rightarrow> row \<Rightarrow> fields \<Rightarrow> string \<Rightarrow> row result" where
  "parse_input_data now data fs action = parse_fields now data action fs []"

definition parse_user_output :: "row \<Rightarrow> fields \<Rightarrow> row" where
  "parse_user_output user fs = filter_output_fields user fs"

definition parse_session_output :: "row \<Rightarrow> fields \<Rightarrow> row" where
  "parse_session_output session fs = filter_output_fields session fs"

definition parse_account_output :: "row \<Rightarrow> fields option \<Rightarrow> row" where
  "parse_account_output account fs =
     filter_output_fields account
       (case fs of Some f \<Rightarrow> f | None \<Rightarrow> fields_of CORE_SCHEMA ''account'')"

section \<open>Lemmas\<close>

lemma map_of_filter_keys:
  "map_of (filter (\<lambda>(k, _). P k) r) k = (if P k then map_of r k else None)"
  by (induction r) auto

lemma map_of_filter_output:
  "map_of (filter_output_fields r fs) k =
     (if \<exists>spec. (k, spec) \<in> set fs \<and> \<not> f_returned spec then None else map_of r k)"
proof -
  have "k \<in> set (map fst (filter (\<lambda>(_, spec). \<not> f_returned spec) fs)) \<longleftrightarrow>
        (\<exists>spec. (k, spec) \<in> set fs \<and> \<not> f_returned spec)"
    by force
  then show ?thesis
    by (auto simp add: filter_output_fields_def Let_def map_of_filter_keys)
qed

lemma diff_table_Nil_iff:
  "diff_table t fs cols = [] \<longleftrightarrow>
     (\<exists>cs. cols = Some cs \<and>
        insert ''id'' (fst ` set fs) \<subseteq> c_name ` set cs \<and>
        (\<forall>c\<in>set cs. c_name c \<in> insert ''id'' (fst ` set fs) \<or> c_nullable c \<or> c_has_default c))"
proof (cases cols)
  case None
  then show ?thesis by (simp add: diff_table_def)
next
  case (Some cs)
  have "set (written_columns fs) = insert ''id'' (fst ` set fs)"
    by (auto simp: written_columns_def)
  with Some show ?thesis
    by (simp add: diff_table_def filter_empty_conv subset_iff) blast
qed

lemma parse_fields_Cons_cases:
  assumes "parse_fields now data action ((key, spec) # fs) parsed = Inr out"
  obtains
    (given) v where "map_of data key = Some v" "f_input spec"
      "parse_fields now data action fs (dset key v parsed) = Inr out"
  | (defaulted) "has_default spec"
      "parse_fields now data action fs (dset key (make_default now spec) parsed) = Inr out"
  | (skipped) "parse_fields now data action fs parsed = Inr out"
      "action = ''create'' \<Longrightarrow> \<not> (f_required spec \<and> (f_input spec \<or> has_default spec))"
  using assms by (auto split: option.splits if_splits)

lemma parse_fields_value:
  assumes "parse_fields now data action fs parsed = Inr out"
  shows "map_of out k = map_of parsed k \<or>
         (\<exists>spec. (k, spec) \<in> set fs \<and>
            (f_input spec \<and> map_of out k = map_of data k
             \<or> has_default spec \<and> map_of out k = Some (make_default now spec)))"
  using assms
proof (induction fs arbitrary: parsed)
  case Nil
  then show ?case by simp
next
  case (Cons f fs)
  obtain key spec where f: "f = (key, spec)" by (cases f)
  from Cons.prems[unfolded f] show ?case
  proof (cases rule: parse_fields_Cons_cases)
    case (given v)
    from Cons.IH[OF this(3)] given(1,2) f show ?thesis by (cases "k = key") auto
  next
    case defaulted
    from Cons.IH[OF this(2)] defaulted(1) f show ?thesis by (cases "k = key") auto
  next
    case skipped
    from Cons.IH[OF this(1)] f show ?thesis by auto
  qed
qed

lemma parse_fields_keeps:
  assumes "parse_fields now data action fs parsed = Inr out" "k \<in> dom (map_of parsed)"
  shows "k \<in> dom (map_of out)"
  using assms
proof (induction fs arbitrary: parsed)
  case (Cons f fs)
  obtain key spec where f: "f = (key, spec)" by (cases f)
  from Cons.prems(1)[unfolded f] show ?case
  proof (cases rule: parse_fields_Cons_cases)
    case (given v)
    from Cons.IH[OF this(3)] Cons.prems(2) show ?thesis by (simp add: dom_def)
  next
    case defaulted
    from Cons.IH[OF this(2)] Cons.prems(2) show ?thesis by (simp add: dom_def)
  next
    case skipped
    from Cons.IH[OF this(1)] Cons.prems(2) show ?thesis by simp
  qed
qed simp

lemma parse_fields_required:
  assumes "parse_fields now data ''create'' fs parsed = Inr out"
    and "(k, spec) \<in> set fs" "f_required spec" "f_input spec \<or> has_default spec"
  shows "k \<in> dom (map_of out)"
  using assms
proof (induction fs arbitrary: parsed)
  case (Cons f fs)
  obtain key sp where f: "f = (key, sp)" by (cases f)
  have upd: "k = key \<Longrightarrow> k \<in> dom (map_of (dset key v parsed))" for v by simp
  from Cons.prems(1)[unfolded f] show ?case
  proof (cases rule: parse_fields_Cons_cases)
    case (given v)
    then show ?thesis using Cons.IH Cons.prems(2-4) f upd parse_fields_keeps by fastforce
  next
    case defaulted
    then show ?thesis using Cons.IH Cons.prems(2-4) f upd parse_fields_keeps by fastforce
  next
    case skipped
    then show ?thesis using Cons.IH Cons.prems(2-4) f by auto
  qed
qed simp

end
