(* ===== verification/Adapter.thy ===== *)
theory Adapter
  imports Schema
begin

text \<open>
  The database adapter: conditions (\<open>Where\<close>, \<open>_eval\<close>, \<open>_matches\<close>), the transform pipeline of
  \<open>adapters/transform.py\<close>, and the operations of \<open>MemoryAdapter\<close> in \<open>adapters/memory.py\<close>,
  as actions on the store (model name to rows in insertion order).

  A call that reads the clock or generates an id takes both as the argument \<open>env\<close>: the time
  of the call, and the id the configured generator returns (\<open>None\<close> when the database is to
  generate it). No operation awaits between its reads and its writes, so each is one action.
\<close>

section \<open>Conditions\<close>

datatype oper =
    OEq | ONe | OIn | ONotIn | OContains | OStartsWith | OEndsWith | OGt | OGte | OLt | OLte
  | OOther string

datatype connector = AND | OR

record clause =
  cl_field :: string
  cl_value :: pyval
  cl_op :: oper
  cl_conn :: connector
  cl_insensitive :: bool

definition Where :: "string \<Rightarrow> pyval \<Rightarrow> clause" where
  "Where f v = \<lparr>cl_field = f, cl_value = v, cl_op = OEq, cl_conn = AND, cl_insensitive = False\<rparr>"

definition WhereOp :: "string \<Rightarrow> pyval \<Rightarrow> oper \<Rightarrow> clause" where
  "WhereOp f v oper = (Where f v)\<lparr>cl_op := oper\<rparr>"

fun lower_val :: "pyval \<Rightarrow> pyval" where
  "lower_val (VStr s) = VStr (str_lower s)"
| "lower_val v = v"

definition eval_in :: "bool \<Rightarrow> pyval \<Rightarrow> pyval \<Rightarrow> bool result" where
  "eval_in insensitive a b =
     (case b of
        VList vs \<Rightarrow>
          (let values = (if insensitive then map lower_val vs else vs);
               x = (if insensitive then lower_val a else a)
           in Inr (list_ex (\<lambda>v. py_eq x v) values))
      | _ \<Rightarrow> Inl ValueError)"

definition eval_text :: "oper \<Rightarrow> bool \<Rightarrow> pyval \<Rightarrow> pyval \<Rightarrow> bool" where
  "eval_text oper insensitive a b =
     (case (a, b) of
        (VStr sa, VStr sb) \<Rightarrow>
          (let aa = (if insensitive then str_lower sa else sa);
               bb = (if insensitive then str_lower sb else sb)
           in case oper of
                OContains \<Rightarrow> str_contains aa bb
              | OStartsWith \<Rightarrow> starts_with aa bb
              | _ \<Rightarrow> ends_with aa bb)
      | _ \<Rightarrow> False)"

definition eval_clause :: "row \<Rightarrow> clause \<Rightarrow> bool result" where
  "eval_clause r c =
     (let a = dget r (cl_field c); b = cl_value c; insensitive = cl_insensitive c
      in case cl_op c of
           OIn \<Rightarrow> eval_in insensitive a b
         | ONotIn \<Rightarrow> bindR (eval_in insensitive a b) (\<lambda>found. Inr (\<not> found))
         | OContains \<Rightarrow> Inr (eval_text OContains insensitive a b)
         | OStartsWith \<Rightarrow> Inr (eval_text OStartsWith insensitive a b)
         | OEndsWith \<Rightarrow> Inr (eval_text OEndsWith insensitive a b)
         | OEq \<Rightarrow>
             if b = VNone then Inr (a = VNone)
             else Inr (if insensitive then py_eq (lower_val a) (lower_val b) else py_eq a b)
         | ONe \<Rightarrow> Inr (\<not> (if insensitive then py_eq (lower_val a) (lower_val b) else py_eq a b))
         | OGt \<Rightarrow> if a = VNone then Inr False else py_lt b a
         | OGte \<Rightarrow> if a = VNone then Inr False else bindR (py_lt a b) (\<lambda>lt. Inr (\<not> lt))
         | OLt \<Rightarrow> if a = VNone then Inr False else py_lt a b
         | OLte \<Rightarrow> if a = VNone then Inr False else bindR (py_lt b a) (\<lambda>lt. Inr (\<not> lt))
         | OOther _ \<Rightarrow> Inl ValueError)"

fun fold_clauses :: "row \<Rightarrow> clause list \<Rightarrow> bool \<Rightarrow> bool result" where
  "fold_clauses r [] result = Inr result"
| "fold_clauses r (c # cs) result =
     bindR (eval_clause r c) (\<lambda>clause_result.
       fold_clauses r cs
         (if cl_conn c = OR then result \<or> clause_result else result \<and> clause_result))"

definition matches :: "row \<Rightarrow> clause list \<Rightarrow> bool result" where
  "matches r wh =
     (case wh of
        [] \<Rightarrow> Inr True
      | c # _ \<Rightarrow> bindR (eval_clause r c) (\<lambda>result. fold_clauses r wh result))"

section \<open>The transform pipeline\<close>

text \<open>
  What a backend stores natively. \<open>jsonlib\<close> and \<open>isolib\<close> are the codecs of the standard
  library the pipeline calls for a backend without the capability.
\<close>

record caps =
  cap_booleans :: bool
  cap_dates :: bool
  cap_json :: bool
  cap_arrays :: bool

record codec =
  json_dumps :: "pyval \<Rightarrow> string result"
  json_loads :: "string \<Rightarrow> pyval result"
  isoformat :: "int \<Rightarrow> string"
  strftime_s :: "int \<Rightarrow> string"
  fromisoformat :: "string \<Rightarrow> int result"

datatype id_strategy =
    GenDefault
  | GenFalse
  | GenSerial
  | GenUuid
  | GenFn "string \<Rightarrow> string"

text \<open>
  \<open>rnd_id\<close> and \<open>rnd_uuid\<close> are what \<open>generate_id()\<close> and \<open>uuid.uuid4()\<close> return in this call.
\<close>

record env =
  now :: int
  rnd_id :: string
  rnd_uuid :: string

record adapter =
  ad_schema :: schema
  ad_caps :: caps
  ad_codec :: codec
  ad_limit :: int
  ad_generate_id :: id_strategy

definition resolve_generated_id :: "env \<Rightarrow> string \<Rightarrow> id_strategy \<Rightarrow> string option" where
  "resolve_generated_id ev model gen =
     (case gen of
        GenFalse \<Rightarrow> None
      | GenSerial \<Rightarrow> None
      | GenUuid \<Rightarrow> Some (rnd_uuid ev)
      | GenFn f \<Rightarrow> Some (f model)
      | GenDefault \<Rightarrow> Some (rnd_id ev))"

definition is_str :: "pyval \<Rightarrow> bool" where
  "is_str v = (case v of VStr _ \<Rightarrow> True | _ \<Rightarrow> False)"

definition is_list :: "pyval \<Rightarrow> bool" where
  "is_list v = (case v of VList _ \<Rightarrow> True | _ \<Rightarrow> False)"

definition is_date :: "pyval \<Rightarrow> bool" where
  "is_date v = (case v of VDate _ \<Rightarrow> True | _ \<Rightarrow> False)"

definition is_bool :: "pyval \<Rightarrow> bool" where
  "is_bool v = (case v of VBool _ \<Rightarrow> True | _ \<Rightarrow> False)"

definition coerce_input :: "codec \<Rightarrow> caps \<Rightarrow> field \<Rightarrow> pyval \<Rightarrow> pyval result" where
  "coerce_input cd cp f v =
     (if v = VNone then Inr VNone
      else if \<not> cap_booleans cp \<and> is_bool v then Inr (VInt (if v = VBool True then 1 else 0))
      else if \<not> cap_dates cp \<and> f_type f = ''datetime'' \<and> is_date v
        then Inr (case v of VDate t \<Rightarrow> VStr (isoformat cd t) | _ \<Rightarrow> v)
      else if \<not> cap_json cp \<and> f_type f = ''json'' \<and> \<not> is_str v
        then bindR (json_dumps cd v) (\<lambda>s. Inr (VStr s))
      else if \<not> cap_arrays cp \<and> f_type f \<in> {''string[]'', ''number[]''} \<and> is_list v
        then bindR (json_dumps cd v) (\<lambda>s. Inr (VStr s))
      else Inr v)"

definition coerce_output :: "codec \<Rightarrow> caps \<Rightarrow> field \<Rightarrow> pyval \<Rightarrow> pyval result" where
  "coerce_output cd cp f v =
     (if v = VNone then Inr VNone
      else if \<not> cap_booleans cp \<and> f_type f = ''boolean'' \<and> py_num v \<noteq> None
        then Inr (VBool (py_num v = Some 1))
      else (case v of
          VStr s \<Rightarrow>
            if \<not> cap_dates cp \<and> f_type f = ''datetime'' then
              bindR (fromisoformat cd s) (\<lambda>t. Inr (VDate t))
            else if \<not> cap_json cp \<and> f_type f = ''json'' then json_loads cd s
            else if \<not> cap_arrays cp \<and> f_type f \<in> {''string[]'', ''number[]''} then json_loads cd s
            else Inr v
        | _ \<Rightarrow> Inr v))"

fun transform_fields ::
    "env \<Rightarrow> codec \<Rightarrow> caps \<Rightarrow> string \<Rightarrow> fields \<Rightarrow> row \<Rightarrow> row result" where
  "transform_fields ev cd cp action [] out = Inr out"
| "transform_fields ev cd cp action ((name, f) # fs) out =
     (let store = (\<lambda>v. bindR (coerce_input cd cp f v)
                     (\<lambda>w. transform_fields ev cd cp action fs (dset name w out)));
          skip = transform_fields ev cd cp action fs out
      in if name = ''id'' then skip
         else case map_of out name of
           Some v0 \<Rightarrow>
             (let v1 = (if action = ''create'' \<and> v0 = VNone \<and> f_required f \<and> has_default f
                        then make_default (now ev) f else v0);
                  v2 = (case f_transform_input f of Some g \<Rightarrow> g v1 | None \<Rightarrow> v1)
              in store v2)
         | None \<Rightarrow>
             if action = ''create'' \<and> has_default f then store (make_default (now ev) f)
             else if action = ''update'' then
               (case f_on_update f of Some g \<Rightarrow> store (g (now ev)) | None \<Rightarrow> skip)
             else skip)"

definition transform_input :: "adapter \<Rightarrow> env \<Rightarrow> string \<Rightarrow> row \<Rightarrow> string \<Rightarrow> row result" where
  "transform_input ad ev model data action =
     (case map_of (ad_schema ad) model of
        None \<Rightarrow> Inl KeyError
      | Some fs \<Rightarrow>
          let out = (if action = ''create'' \<and> \<not> has_key data ''id'' then
                       (case resolve_generated_id ev model (ad_generate_id ad) of
                          Some i \<Rightarrow> dset ''id'' (VStr i) data
                        | None \<Rightarrow> data)
                     else data)
          in transform_fields ev (ad_codec ad) (ad_caps ad) action fs out)"

fun output_items :: "codec \<Rightarrow> caps \<Rightarrow> fields \<Rightarrow> string list \<Rightarrow> row \<Rightarrow> row result" where
  "output_items cd cp fs select [] = Inr []"
| "output_items cd cp fs select ((key, v) # r) =
     (if select \<noteq> [] \<and> key \<notin> set select then output_items cd cp fs select r
      else bindR (case map_of fs key of Some f \<Rightarrow> coerce_output cd cp f v | None \<Rightarrow> Inr v)
             (\<lambda>v'. bindR (output_items cd cp fs select r) (\<lambda>r'. Inr ((key, v') # r'))))"

definition transform_output :: "adapter \<Rightarrow> string \<Rightarrow> string list \<Rightarrow> row \<Rightarrow> row result" where
  "transform_output ad model select r =
     output_items (ad_codec ad) (ad_caps ad) (fields_of (ad_schema ad) model) select r"

section \<open>The memory adapter\<close>

type_synonym store = "(string \<times> row list) list"

definition rows_of :: "store \<Rightarrow> string \<Rightarrow> row list" where
  "rows_of st model = (case map_of st model of None \<Rightarrow> [] | Some rs \<Rightarrow> rs)"

definition set_rows :: "string \<Rightarrow> row list \<Rightarrow> store \<Rightarrow> store" where
  "set_rows model rs st = dset model rs st"

definition mem_create ::
    "adapter \<Rightarrow> env \<Rightarrow> string \<Rightarrow> row \<Rightarrow> string list \<Rightarrow> (store, row) action" where
  "mem_create ad ev model data select =
     bindA (liftR (transform_input ad ev model data ''create'')) (\<lambda>r.
       \<lambda>st. (transform_output ad model select r, set_rows model (rows_of st model @ [r]) st))"

fun find_first :: "clause list \<Rightarrow> row list \<Rightarrow> row option result" where
  "find_first wh [] = Inr None"
| "find_first wh (r # rs) =
     bindR (matches r wh) (\<lambda>b. if b then Inr (Some r) else find_first wh rs)"

definition output_option :: "adapter \<Rightarrow> string \<Rightarrow> string list \<Rightarrow> row option \<Rightarrow> row option result" where
  "output_option ad model select ro =
     (case ro of
        None \<Rightarrow> Inr None
      | Some r \<Rightarrow> bindR (transform_output ad model select r) (\<lambda>out. Inr (Some out)))"

definition mem_find_one ::
    "adapter \<Rightarrow> string \<Rightarrow> clause list \<Rightarrow> string list \<Rightarrow> (store, row option) action" where
  "mem_find_one ad model wh select =
     (\<lambda>st. (bindR (find_first wh (rows_of st model)) (output_option ad model select), st))"

fun filter_rows :: "clause list \<Rightarrow> row list \<Rightarrow> row list result" where
  "filter_rows wh [] = Inr []"
| "filter_rows wh (r # rs) =
     bindR (matches r wh) (\<lambda>b. bindR (filter_rows wh rs) (\<lambda>kept.
       Inr (if b then r # kept else kept)))"

text \<open>
  \<open>_sort_key\<close> puts \<open>None\<close> first; \<open>list.sort\<close> is stable, and with \<open>reverse\<close> it keeps the
  original order of equal rows too. Comparing keys of different types raises.
\<close>

definition sort_key_lt :: "pyval \<Rightarrow> pyval \<Rightarrow> bool result" where
  "sort_key_lt a b =
     (if a = VNone then Inr (b \<noteq> VNone) else if b = VNone then Inr False else py_lt a b)"

fun insert_sorted :: "(row \<Rightarrow> row \<Rightarrow> bool result) \<Rightarrow> row \<Rightarrow> row list \<Rightarrow> row list result" where
  "insert_sorted lt x [] = Inr [x]"
| "insert_sorted lt x (y # ys) =
     bindR (lt y x) (\<lambda>b. if b then bindR (insert_sorted lt x ys) (\<lambda>zs. Inr (y # zs))
                        else Inr (x # y # ys))"

fun sort_rows :: "(row \<Rightarrow> row \<Rightarrow> bool result) \<Rightarrow> row list \<Rightarrow> row list result" where
  "sort_rows lt [] = Inr []"
| "sort_rows lt (x # xs) = bindR (sort_rows lt xs) (insert_sorted lt x)"

record sort_by =
  sb_field :: string
  sb_desc :: bool

definition row_lt :: "sort_by \<Rightarrow> row \<Rightarrow> row \<Rightarrow> bool result" where
  "row_lt sb r r' =
     (let a = dget r (sb_field sb); b = dget r' (sb_field sb)
      in if sb_desc sb then sort_key_lt b a else sort_key_lt a b)"

text \<open>\<open>xs[n:]\<close> and \<open>xs[:n]\<close>, with a negative bound counted from the end.\<close>

definition slice_bound :: "int \<Rightarrow> 'a list \<Rightarrow> nat" where
  "slice_bound n xs = nat (if n < 0 then int (length xs) + n else n)"

definition slice_from :: "int \<Rightarrow> 'a list \<Rightarrow> 'a list" where
  "slice_from n xs = drop (slice_bound n xs) xs"

definition slice_to :: "int \<Rightarrow> 'a list \<Rightarrow> 'a list" where
  "slice_to n xs = take (slice_bound n xs) xs"

fun output_rows :: "adapter \<Rightarrow> string \<Rightarrow> string list \<Rightarrow> row list \<Rightarrow> row list result" where
  "output_rows ad model select [] = Inr []"
| "output_rows ad model select (r # rs) =
     bindR (transform_output ad model select r) (\<lambda>out.
       bindR (output_rows ad model select rs) (\<lambda>outs. Inr (out # outs)))"

definition find_limit :: "adapter \<Rightarrow> int option \<Rightarrow> int" where
  "find_limit ad limit = (case limit of Some n \<Rightarrow> n | None \<Rightarrow> ad_limit ad)"

definition mem_find_many ::
    "adapter \<Rightarrow> string \<Rightarrow> clause list \<Rightarrow> int option \<Rightarrow> sort_by option \<Rightarrow> int option \<Rightarrow> string list \<Rightarrow>
     (store, row list) action" where
  "mem_find_many ad model wh limit order offset select = (\<lambda>st.
     (bindR (filter_rows wh (rows_of st model)) (\<lambda>rows.
        bindR (case order of None \<Rightarrow> Inr rows | Some sb \<Rightarrow> sort_rows (row_lt sb) rows) (\<lambda>sorted_rows.
          let from_offset = (case offset of None \<Rightarrow> sorted_rows | Some k \<Rightarrow> slice_from k sorted_rows)
          in output_rows ad model select (slice_to (find_limit ad limit) from_offset))), st))"

text \<open>\<open>stored.update(row)\<close> on the first matching row.\<close>

fun update_first :: "clause list \<Rightarrow> row \<Rightarrow> row list \<Rightarrow> row option result \<times> row list" where
  "update_first wh d [] = (Inr None, [])"
| "update_first wh d (r # rs) =
     (case matches r wh of
        Inl e \<Rightarrow> (Inl e, r # rs)
      | Inr True \<Rightarrow> (Inr (Some (dmerge r d)), dmerge r d # rs)
      | Inr False \<Rightarrow> (let (res, rs') = update_first wh d rs in (res, r # rs')))"

definition mem_update ::
    "adapter \<Rightarrow> env \<Rightarrow> string \<Rightarrow> clause list \<Rightarrow> row \<Rightarrow> (store, row option) action" where
  "mem_update ad ev model wh data =
     (if wh = [] then ret None
      else bindA (liftR (transform_input ad ev model data ''update'')) (\<lambda>d. \<lambda>st.
        let (res, rs') = update_first wh d (rows_of st model)
        in (bindR res (output_option ad model []), set_rows model rs' st)))"

fun update_all :: "clause list \<Rightarrow> row \<Rightarrow> row list \<Rightarrow> int result \<times> row list" where
  "update_all wh d [] = (Inr 0, [])"
| "update_all wh d (r # rs) =
     (case matches r wh of
        Inl e \<Rightarrow> (Inl e, r # rs)
      | Inr True \<Rightarrow>
          (let (res, rs') = update_all wh d rs in (bindR res (\<lambda>n. Inr (n + 1)), dmerge r d # rs'))
      | Inr False \<Rightarrow> (let (res, rs') = update_all wh d rs in (res, r # rs')))"

definition mem_update_many ::
    "adapter \<Rightarrow> env \<Rightarrow> string \<Rightarrow> clause list \<Rightarrow> row \<Rightarrow> (store, int) action" where
  "mem_update_many ad ev model wh data =
     bindA (liftR (transform_input ad ev model data ''update'')) (\<lambda>d. \<lambda>st.
       let (res, rs') = update_all wh d (rows_of st model) in (res, set_rows model rs' st))"

text \<open>Delete the first matching row, if any, and report it.\<close>

fun delete_first :: "clause list \<Rightarrow> row list \<Rightarrow> row option result \<times> row list" where
  "delete_first wh [] = (Inr None, [])"
| "delete_first wh (r # rs) =
     (case matches r wh of
        Inl e \<Rightarrow> (Inl e, r # rs)
      | Inr True \<Rightarrow> (Inr (Some r), rs)
      | Inr False \<Rightarrow> (let (res, rs') = delete_first wh rs in (res, r # rs')))"

definition mem_delete :: "string \<Rightarrow> clause list \<Rightarrow> (store, unit) action" where
  "mem_delete model wh =
     (if wh = [] then ret ()
      else (\<lambda>st. let (res, rs') = delete_first wh (rows_of st model)
                in (bindR res (\<lambda>_. Inr ()), set_rows model rs' st)))"

fun reject_rows :: "clause list \<Rightarrow> row list \<Rightarrow> row list result" where
  "reject_rows wh [] = Inr []"
| "reject_rows wh (r # rs) =
     bindR (matches r wh) (\<lambda>b. bindR (reject_rows wh rs) (\<lambda>kept.
       Inr (if b then kept else r # kept)))"

definition mem_delete_many :: "string \<Rightarrow> clause list \<Rightarrow> (store, int) action" where
  "mem_delete_many model wh = (\<lambda>st.
     case reject_rows wh (rows_of st model) of
       Inl e \<Rightarrow> (Inl e, st)
     | Inr kept \<Rightarrow>
         (Inr (int (length (rows_of st model)) - int (length kept)), set_rows model kept st))"

definition mem_count :: "string \<Rightarrow> clause list \<Rightarrow> (store, int) action" where
  "mem_count model wh = (\<lambda>st.
     (bindR (filter_rows wh (rows_of st model)) (\<lambda>rs. Inr (int (length rs))), st))"

definition mem_consume_one ::
    "adapter \<Rightarrow> string \<Rightarrow> clause list \<Rightarrow> (store, row option) action" where
  "mem_consume_one ad model wh = (\<lambda>st.
     let (res, rs') = delete_first wh (rows_of st model)
     in (bindR res (output_option ad model []), set_rows model rs' st))"

text \<open>
  \<open>check_increment\<close> of \<open>adapters/base.py\<close>: at least one of the two dicts is non-empty, and
  every delta is a number that is not a \<open>bool\<close>.
\<close>

definition is_delta :: "pyval \<Rightarrow> bool" where
  "is_delta v = (case v of VInt _ \<Rightarrow> True | _ \<Rightarrow> False)"

definition check_increment :: "row option \<Rightarrow> row option \<Rightarrow> row result" where
  "check_increment increment set_values =
     (let inc = (case increment of None \<Rightarrow> [] | Some d \<Rightarrow> d);
          sv = (case set_values of None \<Rightarrow> [] | Some d \<Rightarrow> d)
      in if inc = [] \<and> sv = [] then
           Inl (BetterAuthError ''incrementOne requires a non-empty `increment` or `set`; both were empty.'')
         else if \<not> list_all (\<lambda>(_, delta). is_delta delta) inc then
           Inl (BetterAuthError ''incrementOne requires finite increments and a set object for the atomic fallback.'')
         else Inr inc)"

definition add_delta :: "pyval \<Rightarrow> pyval \<Rightarrow> pyval" where
  "add_delta current delta =
     VInt ((case py_num current of Some n \<Rightarrow> n | None \<Rightarrow> 0) +
           (case py_num delta of Some n \<Rightarrow> n | None \<Rightarrow> 0))"

fun apply_increments :: "row \<Rightarrow> row \<Rightarrow> row" where
  "apply_increments r [] = r"
| "apply_increments r ((fld, delta) # inc) =
     apply_increments (dset fld (add_delta (dget r fld) delta) r) inc"

text \<open>Rewrite the first matching row with \<open>f\<close>, which may stop half-way with an error.\<close>

fun modify_first ::
    "clause list \<Rightarrow> (row \<Rightarrow> unit result \<times> row) \<Rightarrow> row list \<Rightarrow> row option result \<times> row list" where
  "modify_first wh f [] = (Inr None, [])"
| "modify_first wh f (r # rs) =
     (case matches r wh of
        Inl e \<Rightarrow> (Inl e, r # rs)
      | Inr True \<Rightarrow> (let (res, r') = f r in (bindR res (\<lambda>_. Inr (Some r')), r' # rs))
      | Inr False \<Rightarrow> (let (res, rs') = modify_first wh f rs in (res, r # rs')))"

definition mem_increment_one ::
    "adapter \<Rightarrow> env \<Rightarrow> string \<Rightarrow> clause list \<Rightarrow> row option \<Rightarrow> row option \<Rightarrow>
     (store, row option) action" where
  "mem_increment_one ad ev model wh increment set_values =
     bindA (liftR (check_increment increment set_values)) (\<lambda>inc. \<lambda>st.
       let step = (\<lambda>target.
             let target' = apply_increments target inc
             in case set_values of
                  None \<Rightarrow> (Inr (), target')
                | Some sv \<Rightarrow>
                    (case transform_input ad ev model sv ''update'' of
                       Inl e \<Rightarrow> (Inl e, target')
                     | Inr d \<Rightarrow> (Inr (), dmerge target' d)));
           (res, rs') = modify_first wh step (rows_of st model)
       in (bindR res (output_option ad model []), set_rows model rs' st))"

section \<open>Transactions\<close>

text \<open>
  \<open>_merge_transaction_into\<close>: a three-way merge by row id. Later rows win in the dict
  comprehensions that index the rows by id.
\<close>

definition by_id :: "row list \<Rightarrow> pyval \<Rightarrow> row option" where
  "by_id rs i = find (\<lambda>r. py_eq (dget r ''id'') i) (rev rs)"

definition merge_live :: "row list \<Rightarrow> row list \<Rightarrow> row list \<Rightarrow> row list" where
  "merge_live live base clone =
     List.map_filter (\<lambda>r.
       let i = dget r ''id''
       in case (by_id base i, by_id clone i) of
            (Some _, None) \<Rightarrow> None
          | (before, Some after) \<Rightarrow>
              Some (if (case before of None \<Rightarrow> True | Some b \<Rightarrow> \<not> row_eq after b) then after else r)
          | (None, None) \<Rightarrow> Some r) live"

definition placed_id :: "row list \<Rightarrow> row list \<Rightarrow> row list \<Rightarrow> pyval \<Rightarrow> bool" where
  "placed_id live base clone i =
     list_ex (\<lambda>r. py_eq (dget r ''id'') i \<and>
                 \<not> (by_id base (dget r ''id'') \<noteq> None \<and> by_id clone (dget r ''id'') = None)) live"

definition merge_rows :: "row list \<Rightarrow> row list \<Rightarrow> row list \<Rightarrow> row list" where
  "merge_rows live base clone =
     merge_live live base clone @
     filter (\<lambda>r. by_id base (dget r ''id'') = None \<and> \<not> placed_id live base clone (dget r ''id'')) clone"

fun merge_models :: "string list \<Rightarrow> store \<Rightarrow> store \<Rightarrow> store \<Rightarrow> store" where
  "merge_models [] target base clone = target"
| "merge_models (m # ms) target base clone =
     merge_models ms
       (case map_of clone m of
          None \<Rightarrow> ddrop m target
        | Some crs \<Rightarrow> set_rows m (merge_rows (rows_of target m) (rows_of base m) crs) target)
       base clone"

definition merge_transaction_into :: "store \<Rightarrow> store \<Rightarrow> store \<Rightarrow> store" where
  "merge_transaction_into target base clone =
     merge_models (remdups (map fst base @ map fst clone)) target base clone"

text \<open>
  \<open>MemoryAdapter.transaction\<close>: the callback runs on a copy of the store as it was at the start.
  \<open>meanwhile\<close> is what the other coroutines do to the live store before the callback returns.
\<close>

definition mem_transaction :: "(store, 'a) action \<Rightarrow> (store \<Rightarrow> store) \<Rightarrow> (store, 'a) action" where
  "mem_transaction callback meanwhile base =
     (case callback base of
        (Inl e, _) \<Rightarrow> (Inl e, meanwhile base)
      | (Inr a, clone) \<Rightarrow> (Inr a, merge_transaction_into (meanwhile base) base clone))"

end
