(* ===== verification/Adapter_Facts.thy ===== *)
theory Adapter_Facts
  imports Adapter
begin

text \<open>
  Laws of the memory adapter. \<open>native\<close> says that the backend stores every type natively, as
  \<open>MemoryAdapter\<close> does, so that the transforms are the identity on values. \<open>sel wh\<close> is the
  selection predicate of a where list, and \<open>safe wh rs\<close> says that evaluating it raises on no
  row; lists of equality clauses are always safe. Under \<open>safe\<close> every row loop is a library
  list function.
\<close>

section \<open>Values and transforms\<close>

definition all_caps :: caps where
  "all_caps = \<lparr>cap_booleans = True, cap_dates = True, cap_json = True, cap_arrays = True\<rparr>"

definition native :: "adapter \<Rightarrow> bool" where
  "native ad = (ad_caps ad = all_caps)"

lemma coerce_input_all_caps [simp]: "coerce_input cd all_caps f v = Inr v"
  by (simp add: coerce_input_def all_caps_def)

lemma coerce_output_all_caps [simp]: "coerce_output cd all_caps f v = Inr v"
  by (simp add: coerce_output_def all_caps_def split: pyval.splits)

lemma output_items_native [simp]: "output_items cd all_caps fs [] r = Inr r"
  by (induction r) (auto split: option.splits)

lemma transform_output_native [simp]: "native ad \<Longrightarrow> transform_output ad model [] r = Inr r"
  by (simp add: transform_output_def native_def)

lemma output_option_native [simp]: "native ad \<Longrightarrow> output_option ad model [] ro = Inr ro"
  by (cases ro) (simp_all add: output_option_def)

lemma output_rows_native [simp]: "native ad \<Longrightarrow> output_rows ad model [] rs = Inr rs"
  by (induction rs) simp_all

lemma transform_fields_total:
  "\<exists>out'. transform_fields ev cd all_caps action fs out = Inr out'"
  by (induction fs arbitrary: out) (auto simp: Let_def split: option.splits)

lemma transform_input_total:
  assumes "native ad" "map_of (ad_schema ad) model = Some fs"
  shows "\<exists>out. transform_input ad ev model data action = Inr out"
  using assms transform_fields_total by (simp add: transform_input_def native_def Let_def)

text \<open>
  What the pipeline stores under a declared field, given the value the caller passed:
  defaults on create, \<open>onUpdate\<close> on update, the field's own normalisation otherwise.
\<close>

definition field_value ::
    "env \<Rightarrow> string \<Rightarrow> string \<Rightarrow> field \<Rightarrow> pyval option \<Rightarrow> pyval option" where
  "field_value ev action name f given =
     (if name = ''id'' then given
      else case given of
        Some v0 \<Rightarrow>
          (let v1 = (if action = ''create'' \<and> v0 = VNone \<and> f_required f \<and> has_default f
                     then make_default (now ev) f else v0)
           in Some (case f_transform_input f of Some g \<Rightarrow> g v1 | None \<Rightarrow> v1))
      | None \<Rightarrow>
          if action = ''create'' \<and> has_default f then Some (make_default (now ev) f)
          else if action = ''update'' then map_option (\<lambda>g. g (now ev)) (f_on_update f)
          else None)"

lemma transform_fields_step:
  "\<exists>out2. transform_fields ev cd all_caps action ((name, f) # fs) out =
            transform_fields ev cd all_caps action fs out2 \<and>
         (\<forall>k. map_of out2 k =
            (if k = name then field_value ev action name f (map_of out name) else map_of out k)) \<and>
         (distinct (map fst out) \<longrightarrow> distinct (map fst out2))"
proof (cases "name = ''id'' \<or> field_value ev action name f (map_of out name) = None")
  case True
  then show ?thesis
    by (intro exI[of _ out])
      (auto simp: field_value_def Let_def split: option.splits if_splits)
next
  case False
  then obtain w where w: "field_value ev action name f (map_of out name) = Some w" by auto
  with False have "transform_fields ev cd all_caps action ((name, f) # fs) out =
      transform_fields ev cd all_caps action fs (dset name w out)"
    by (auto simp: field_value_def Let_def split: option.splits if_splits)
  with w show ?thesis
    by (intro exI[of _ "dset name w out"]) (auto simp: distinct_dset)
qed

lemma transform_fields_spec:
  assumes "distinct (map fst fs)"
  shows "\<exists>out'. transform_fields ev cd all_caps action fs out = Inr out' \<and>
           (\<forall>k. map_of out' k =
              (case map_of fs k of None \<Rightarrow> map_of out k
               | Some f \<Rightarrow> field_value ev action k f (map_of out k))) \<and>
           (distinct (map fst out) \<longrightarrow> distinct (map fst out'))"
  using assms
proof (induction fs arbitrary: out)
  case (Cons x fs)
  obtain name f where x: "x = (name, f)" by (cases x)
  obtain out2 where out2:
    "transform_fields ev cd all_caps action ((name, f) # fs) out =
       transform_fields ev cd all_caps action fs out2"
    "\<And>k. map_of out2 k =
       (if k = name then field_value ev action name f (map_of out name) else map_of out k)"
    "distinct (map fst out) \<longrightarrow> distinct (map fst out2)"
    using transform_fields_step[of ev cd action name f fs out] by blast
  obtain out' where out':
    "transform_fields ev cd all_caps action fs out2 = Inr out'"
    "\<And>k. map_of out' k =
       (case map_of fs k of None \<Rightarrow> map_of out2 k | Some f \<Rightarrow> field_value ev action k f (map_of out2 k))"
    "distinct (map fst out2) \<longrightarrow> distinct (map fst out')"
    using Cons.IH[of out2] Cons.prems by auto
  have "map_of fs name = None" using Cons.prems x by (simp add: map_of_eq_None_iff)
  with out2 out' show ?case
    by (intro exI[of _ out']) (auto simp: x split: option.splits)
qed simp

text \<open>One field of the pipeline, on any backend: skipped, or stored under its own name.\<close>

lemma transform_fields_Cons:
  assumes "transform_fields ev cd cp action ((name, f) # fs) out = Inr out'"
  obtains "transform_fields ev cd cp action fs out = Inr out'"
  | w where "name \<noteq> ''id''" "transform_fields ev cd cp action fs (dset name w out) = Inr out'"
      "\<And>v. action = ''update'' \<Longrightarrow> cp = all_caps \<Longrightarrow> f_transform_input f = None \<Longrightarrow>
           map_of out name = Some v \<Longrightarrow> w = v"
proof (cases "name = ''id''")
  case True
  with assms that(1) show ?thesis by (simp add: Let_def)
next
  case False
  show ?thesis
  proof (cases "map_of out name")
    case None
    with False assms that show ?thesis
      by (auto simp: Let_def bindR_Inr_iff split: option.splits if_splits)
  next
    case (Some v0)
    define v1 where "v1 = (if action = ''create'' \<and> v0 = VNone \<and> f_required f \<and> has_default f
                           then make_default (now ev) f else v0)"
    define v2 where "v2 = (case f_transform_input f of Some g \<Rightarrow> g v1 | None \<Rightarrow> v1)"
    from assms False Some
    have "bindR (coerce_input cd cp f v2)
            (\<lambda>w. transform_fields ev cd cp action fs (dset name w out)) = Inr out'"
      unfolding v1_def v2_def by (simp add: Let_def)
    then obtain w where w: "coerce_input cd cp f v2 = Inr w"
        "transform_fields ev cd cp action fs (dset name w out) = Inr out'"
      by (auto simp: bindR_Inr_iff)
    show ?thesis
      by (rule that(2)[OF False w(2)]) (use w(1) Some in \<open>auto simp: v1_def v2_def\<close>)
  qed
qed

lemma transform_fields_keeps:
  assumes "transform_fields ev cd cp action fs out = Inr out'"
  shows "map_of out' ''id'' = map_of out ''id''"
    and "distinct (map fst out) \<Longrightarrow> distinct (map fst out')"
    and "action = ''update'' \<Longrightarrow> cp = all_caps \<Longrightarrow> \<forall>f. (k, f) \<in> set fs \<longrightarrow> f_transform_input f = None \<Longrightarrow>
         map_of out k = Some v \<Longrightarrow> map_of out' k = Some v"
  using assms
proof (induction fs arbitrary: out)
  case (Cons x fs)
  obtain name f where x: "x = (name, f)" by (cases x)
  {
    case 1
    show ?case using 1[unfolded x]
      by (cases rule: transform_fields_Cons) (auto dest: Cons.IH(1))
  next
    case 2
    show ?case using 2(2)[unfolded x]
    proof (cases rule: transform_fields_Cons)
      case 1
      from Cons.IH(2)[OF 2(1) 1] show ?thesis .
    next
      case (2 w)
      from Cons.IH(2)[OF distinct_dset[OF \<open>distinct (map fst out)\<close>] 2(2)] show ?thesis .
    qed
  next
    case 3
    show ?case using 3(5)[unfolded x]
    proof (cases rule: transform_fields_Cons)
      case 1
      from Cons.IH(3)[OF 3(1,2) _ 3(4) 1] 3(3) x show ?thesis by auto
    next
      case (2 w)
      have "map_of (dset name w out) k = Some v"
        using 2(3)[OF 3(1,2)] 3(3,4) by (cases "k = name") (simp_all add: x)
      from Cons.IH(3)[OF 3(1,2) _ this 2(2)] 3(3) x show ?thesis by auto
    qed
  }
qed simp_all

section \<open>Conditions\<close>

definition sel :: "clause list \<Rightarrow> row \<Rightarrow> bool" where
  "sel wh r = (matches r wh = Inr True)"

definition safe :: "clause list \<Rightarrow> row list \<Rightarrow> bool" where
  "safe wh rs = (\<forall>r\<in>set rs. \<exists>b. matches r wh = Inr b)"

lemma safe_Nil [simp]: "safe wh []"
  by (simp add: safe_def)

lemma safe_Cons [simp]: "safe wh (r # rs) \<longleftrightarrow> matches r wh = Inr (sel wh r) \<and> safe wh rs"
  by (auto simp: safe_def sel_def)

lemma safe_append [simp]: "safe wh (rs @ rs') \<longleftrightarrow> safe wh rs \<and> safe wh rs'"
  by (auto simp: safe_def)

lemma safe_subset: "safe wh rs \<Longrightarrow> set rs' \<subseteq> set rs \<Longrightarrow> safe wh rs'"
  by (auto simp: safe_def)

lemma fold_clauses_and:
  assumes "\<And>c. c \<in> set wh \<Longrightarrow> cl_conn c = AND \<and> eval_clause r c = Inr (h c)"
  shows "fold_clauses r wh b = Inr (b \<and> list_all h wh)"
  using assms by (induction wh arbitrary: b) auto

lemma matches_and:
  assumes "\<And>c. c \<in> set wh \<Longrightarrow> cl_conn c = AND \<and> eval_clause r c = Inr (h c)"
  shows "matches r wh = Inr (list_all h wh)"
proof (cases wh)
  case (Cons c cs)
  then have "fold_clauses r wh (h c) = Inr (h c \<and> list_all h wh)"
    by (intro fold_clauses_and assms) simp
  with Cons assms[of c] show ?thesis by (auto simp: matches_def)
qed (simp add: matches_def)

lemma fold_clauses_snoc:
  "fold_clauses r (wh @ [c]) b =
     bindR (fold_clauses r wh b) (\<lambda>x. bindR (eval_clause r c) (\<lambda>y.
       Inr (if cl_conn c = OR then x \<or> y else x \<and> y)))"
  by (induction wh arbitrary: b) (auto simp: bindR_def split: sum.splits)

lemma matches_nonempty:
  "wh \<noteq> [] \<Longrightarrow> matches r wh = bindR (eval_clause r (hd wh)) (fold_clauses r wh)"
  by (cases wh) (simp_all add: matches_def del: fold_clauses.simps)

lemma matches_snoc:
  "wh \<noteq> [] \<Longrightarrow> matches r (wh @ [c]) =
     bindR (matches r wh) (\<lambda>x. bindR (eval_clause r c) (\<lambda>y.
       Inr (if cl_conn c = OR then x \<or> y else x \<and> y)))"
  by (cases "eval_clause r (hd wh)") (simp_all add: matches_nonempty fold_clauses_snoc)

text \<open>The value of an equality clause: with \<open>None\<close> it is an identity test.\<close>

definition eq_holds :: "row \<Rightarrow> clause \<Rightarrow> bool" where
  "eq_holds r c =
     (if cl_value c = VNone then dget r (cl_field c) = VNone
      else py_eq (dget r (cl_field c)) (cl_value c))"

lemma eval_Where [simp]:
  "eval_clause r (Where f v) = Inr (if v = VNone then dget r f = VNone else py_eq (dget r f) v)"
  by (simp add: eval_clause_def Where_def)

lemma conn_Where [simp]: "cl_conn (Where f v) = AND" "cl_conn (WhereOp f v oper) = AND"
  by (simp_all add: Where_def WhereOp_def)

lemma eval_WhereOp [simp]:
  "eval_clause r (WhereOp f v OGt) = (if dget r f = VNone then Inr False else py_lt v (dget r f))"
  "eval_clause r (WhereOp f v OGte) =
     (if dget r f = VNone then Inr False else bindR (py_lt (dget r f) v) (\<lambda>lt. Inr (\<not> lt)))"
  "eval_clause r (WhereOp f v OLt) = (if dget r f = VNone then Inr False else py_lt (dget r f) v)"
  "eval_clause r (WhereOp f v OLte) =
     (if dget r f = VNone then Inr False else bindR (py_lt v (dget r f)) (\<lambda>lt. Inr (\<not> lt)))"
  "eval_clause r (WhereOp f v OEq) = eval_clause r (Where f v)"
  "eval_clause r (WhereOp f v ONe) = Inr (\<not> py_eq (dget r f) v)"
  "eval_clause r (WhereOp f v OIn) = eval_in False (dget r f) v"
  by (simp_all add: eval_clause_def WhereOp_def Where_def Let_def)

lemma matches_Where1: "matches r [Where f v] = Inr (eq_holds r (Where f v))"
  by (simp add: matches_def eq_holds_def) (simp add: Where_def)

lemma matches_Where1_str [simp]: "matches r [Where f (VStr s)] = Inr (dget r f = VStr s)"
  by (simp add: matches_def)

lemma matches_Nil [simp]: "matches r [] = Inr True"
  by (simp add: matches_def)

lemma sel_Nil [simp]: "sel [] r"
  by (simp add: sel_def)

lemma sel_str [simp]: "sel [Where f (VStr s)] r \<longleftrightarrow> dget r f = VStr s"
  by (simp add: sel_def)

lemma safe_str [simp]: "safe [Where f (VStr s)] rs"
  by (simp add: safe_def)

lemma matches_Wheres:
  "matches r (map (\<lambda>(f, v). Where f v) fvs) =
     Inr (list_all (\<lambda>(f, v). if v = VNone then dget r f = VNone else py_eq (dget r f) v) fvs)"
proof -
  have "matches r (map (\<lambda>(f, v). Where f v) fvs) =
        Inr (list_all (eq_holds r) (map (\<lambda>(f, v). Where f v) fvs))"
    by (rule matches_and) (auto simp: eq_holds_def, auto simp: Where_def)
  then show ?thesis
    by (simp add: list_all_iff eq_holds_def Where_def split: prod.splits)
qed

section \<open>Row loops\<close>

lemma find_first_safe: "safe wh rs \<Longrightarrow> find_first wh rs = Inr (List.find (sel wh) rs)"
  by (induction rs) auto

lemma filter_rows_safe: "safe wh rs \<Longrightarrow> filter_rows wh rs = Inr (filter (sel wh) rs)"
  by (induction rs) auto

lemma reject_rows_safe: "safe wh rs \<Longrightarrow> reject_rows wh rs = Inr (filter (\<lambda>r. \<not> sel wh r) rs)"
  by (induction rs) auto

lemma delete_first_safe:
  "safe wh rs \<Longrightarrow> delete_first wh rs = (Inr (List.find (sel wh) rs), drop_first (sel wh) rs)"
  by (induction rs) (auto split: bool.splits)

lemma update_first_safe:
  "safe wh rs \<Longrightarrow> update_first wh d rs =
     (Inr (map_option (\<lambda>r. dmerge r d) (List.find (sel wh) rs)),
      map_first (sel wh) (\<lambda>r. dmerge r d) rs)"
  by (induction rs) (auto split: bool.splits)

lemma update_all_safe:
  "safe wh rs \<Longrightarrow> update_all wh d rs =
     (Inr (int (length (filter (sel wh) rs))), map (\<lambda>r. if sel wh r then dmerge r d else r) rs)"
  by (induction rs) (auto split: bool.splits)

lemma modify_first_safe:
  assumes "safe wh rs" "\<And>r. f r = (Inr (), g r)"
  shows "modify_first wh f rs =
     (Inr (map_option g (List.find (sel wh) rs)), map_first (sel wh) g rs)"
  using assms by (induction rs) (auto split: bool.splits)

section \<open>Stores\<close>

lemma rows_of_set_rows [simp]:
  "rows_of (set_rows m rs st) m' = (if m' = m then rs else rows_of st m')"
  by (simp add: rows_of_def set_rows_def)

lemma mem_find_one_safe:
  "native ad \<Longrightarrow> safe wh (rows_of st m) \<Longrightarrow>
   mem_find_one ad m wh [] st = (Inr (List.find (sel wh) (rows_of st m)), st)"
  by (simp add: mem_find_one_def find_first_safe)

lemma mem_find_many_safe:
  "native ad \<Longrightarrow> safe wh (rows_of st m) \<Longrightarrow>
   mem_find_many ad m wh limit None None [] st =
     (Inr (slice_to (find_limit ad limit) (filter (sel wh) (rows_of st m))), st)"
  by (simp add: mem_find_many_def filter_rows_safe)

lemma mem_delete_safe:
  "wh \<noteq> [] \<Longrightarrow> safe wh (rows_of st m) \<Longrightarrow>
   mem_delete m wh st = (Inr (), set_rows m (drop_first (sel wh) (rows_of st m)) st)"
  by (simp add: mem_delete_def delete_first_safe)

lemma mem_delete_many_safe:
  "safe wh (rows_of st m) \<Longrightarrow>
   mem_delete_many m wh st =
     (Inr (int (length (filter (sel wh) (rows_of st m)))),
      set_rows m (filter (\<lambda>r. \<not> sel wh r) (rows_of st m)) st)"
  using sum_length_filter_compl[of "sel wh" "rows_of st m"]
  by (simp add: mem_delete_many_def reject_rows_safe)

lemma mem_consume_one_safe:
  "native ad \<Longrightarrow> safe wh (rows_of st m) \<Longrightarrow>
   mem_consume_one ad m wh st =
     (Inr (List.find (sel wh) (rows_of st m)), set_rows m (drop_first (sel wh) (rows_of st m)) st)"
  by (simp add: mem_consume_one_def delete_first_safe)

lemma mem_create_ok:
  "native ad \<Longrightarrow> transform_input ad ev m data ''create'' = Inr r \<Longrightarrow>
   mem_create ad ev m data [] st = (Inr r, set_rows m (rows_of st m @ [r]) st)"
  by (simp add: mem_create_def)

lemma mem_update_ok:
  "native ad \<Longrightarrow> wh \<noteq> [] \<Longrightarrow> safe wh (rows_of st m) \<Longrightarrow>
   transform_input ad ev m data ''update'' = Inr d \<Longrightarrow>
   mem_update ad ev m wh data st =
     (Inr (map_option (\<lambda>r. dmerge r d) (List.find (sel wh) (rows_of st m))),
      set_rows m (map_first (sel wh) (\<lambda>r. dmerge r d) (rows_of st m)) st)"
  by (simp add: mem_update_def update_first_safe)

text \<open>The row \<open>increment_one\<close> leaves, given the transformed \<open>set\<close>.\<close>

definition incremented_row :: "row \<Rightarrow> row option \<Rightarrow> row \<Rightarrow> row" where
  "incremented_row inc d r =
     (case d of None \<Rightarrow> apply_increments r inc | Some d' \<Rightarrow> dmerge (apply_increments r inc) d')"

lemma mem_increment_one_ok:
  assumes "native ad" "safe wh (rows_of st m)"
    and "check_increment increment sv = Inr inc"
    and "case sv of None \<Rightarrow> d = None
         | Some s \<Rightarrow> (\<exists>d'. transform_input ad ev m s ''update'' = Inr d' \<and> d = Some d')"
  shows "mem_increment_one ad ev m wh increment sv st =
     (Inr (map_option (incremented_row inc d) (List.find (sel wh) (rows_of st m))),
      set_rows m (map_first (sel wh) (incremented_row inc d) (rows_of st m)) st)"
proof -
  let ?step = "\<lambda>target.
             let target' = apply_increments target inc
             in case sv of
                  None \<Rightarrow> (Inr (), target')
                | Some s \<Rightarrow>
                    (case transform_input ad ev m s ''update'' of
                       Inl e \<Rightarrow> (Inl e, target')
                     | Inr d \<Rightarrow> (Inr () :: unit result, dmerge target' d))"
  have "?step r = (Inr (), incremented_row inc d r)" for r
    using assms(4) by (auto simp: incremented_row_def Let_def split: option.splits)
  then have "modify_first wh ?step (rows_of st m) =
    (Inr (map_option (incremented_row inc d) (List.find (sel wh) (rows_of st m))),
     map_first (sel wh) (incremented_row inc d) (rows_of st m))"
    by (rule modify_first_safe[OF assms(2)])
  with assms show ?thesis by (simp add: mem_increment_one_def Let_def)
qed

end
