(* ===== verification/Fallback.thy ===== *)
theory Fallback
  imports Adapter_Facts
begin

text \<open>
  The shared atomic fallbacks of \<open>BaseAdapter\<close> (\<open>adapters/base.py\<close>): \<open>consume_one\<close> and
  \<open>increment_one\<close> for a backend without a native atomic statement. They read a snapshot and then
  write with a guard on that snapshot, so other coroutines may run between the two.

  The raw operations of the subclass are arguments. Each fallback is defined as its atomic steps
  (the read, the decision, the guarded write) and as their sequential composition; the
  interleaved machines below run the steps of many callers in any order.
\<close>

section \<open>Snapshot guards\<close>

definition is_scalar :: "pyval \<Rightarrow> bool" where
  "is_scalar v = (case v of VList _ \<Rightarrow> False | VDict _ \<Rightarrow> False | _ \<Rightarrow> True)"

definition err_no_id :: exn where
  "err_no_id = BetterAuthError ''Adapter must return the row id for atomic fallbacks.''"

definition err_or_structured :: exn where
  "err_or_structured = BetterAuthError
     ''Adapter must implement native atomic methods for OR predicates on structured values.''"

definition err_affected :: exn where
  "err_affected = BetterAuthError
     ''Adapter must return an affected row count of 0 or 1 from an atomic fallback.''"

definition err_not_numeric :: exn where
  "err_not_numeric = BetterAuthError
     ''Adapter must return finite numeric counter values or null for atomic increments.''"

definition err_unrepresentable :: exn where
  "err_unrepresentable = BetterAuthError
     ''Adapter cannot represent the requested counter increment safely.''"

definition err_contention :: exn where
  "err_contention = BetterAuthError
     ''Adapter could not complete an atomic increment due to contention.''"

fun guard_fields ::
    "row \<Rightarrow> bool \<Rightarrow> clause list \<Rightarrow> string list \<Rightarrow> clause list \<Rightarrow> clause list result" where
  "guard_fields r has_or wh [] guard = Inr guard"
| "guard_fields r has_or wh (fld # fs) guard =
     (if fld = ''id'' then guard_fields r has_or wh fs guard
      else let value = dget r fld
        in if \<not> is_scalar value then
             (if has_or \<and> list_ex (\<lambda>c. cl_field c = fld) wh then Inl err_or_structured
              else guard_fields r has_or wh fs guard)
           else guard_fields r has_or wh fs (guard @ [Where fld value]))"

definition snapshot_guard :: "row \<Rightarrow> string list \<Rightarrow> clause list \<Rightarrow> clause list result" where
  "snapshot_guard r fs wh =
     (if dget r ''id'' = VNone then Inl err_no_id
      else let has_or = list_ex (\<lambda>c. cl_conn c = OR) wh;
               guard = (if has_or then [Where ''id'' (dget r ''id'')]
                        else wh @ [Where ''id'' (dget r ''id'')])
           in guard_fields r has_or wh (dedup fs) guard)"

definition changed_one :: "int \<Rightarrow> bool result" where
  "changed_one count = (if count \<notin> {0, 1} then Inl err_affected else Inr (count = 1))"

section \<open>\<open>consume_one\<close>\<close>

definition consume_guard :: "row \<Rightarrow> clause list \<Rightarrow> clause list result" where
  "consume_guard r wh = snapshot_guard r (map fst r @ map cl_field wh) wh"

definition fb_consume_one ::
    "(clause list \<Rightarrow> ('s, row option) action) \<Rightarrow> (clause list \<Rightarrow> ('s, int) action) \<Rightarrow>
     clause list \<Rightarrow> ('s, row option) action" where
  "fb_consume_one find_one delete_many wh =
     bindA (find_one wh) (\<lambda>ro.
       case ro of
         None \<Rightarrow> ret None
       | Some r \<Rightarrow>
           bindA (liftR (consume_guard r wh)) (\<lambda>guard.
           bindA (delete_many guard) (\<lambda>n.
           bindA (liftR (changed_one n)) (\<lambda>won. ret (if won then Some r else None)))))"

section \<open>\<open>increment_one\<close>\<close>

text \<open>Fields with an \<open>onUpdate\<close> that a bare increment must not touch.\<close>

definition pinned_fields :: "fields \<Rightarrow> row \<Rightarrow> row option \<Rightarrow> string list" where
  "pinned_fields fs increment set_values =
     (case set_values of
        Some _ \<Rightarrow> []
      | None \<Rightarrow> map fst (filter (\<lambda>(name, f). f_on_update f \<noteq> None \<and> \<not> has_key increment name) fs))"

fun next_values :: "row \<Rightarrow> row \<Rightarrow> row \<Rightarrow> row result" where
  "next_values r [] update = Inr update"
| "next_values r ((fld, delta) # inc) update =
     (let current = (if dget r fld = VNone then VInt 0 else dget r fld)
      in if is_bool current \<or> py_num current = None then Inl err_not_numeric
         else let nxt = add_delta current delta
              in if py_num delta \<noteq> Some 0 \<and> py_eq nxt current then Inl err_unrepresentable
                 else next_values r inc (dset fld nxt update))"

definition is_noop :: "row \<Rightarrow> row \<Rightarrow> bool" where
  "is_noop r update =
     list_all (\<lambda>(k, v). case map_of r k of None \<Rightarrow> False | Some w \<Rightarrow> py_eq w v) update"

definition increment_guard ::
    "row \<Rightarrow> row \<Rightarrow> row option \<Rightarrow> string list \<Rightarrow> clause list \<Rightarrow> clause list result" where
  "increment_guard r inc set_values pinned wh =
     snapshot_guard r
       (map cl_field wh @ map fst inc @
        map fst (case set_values of None \<Rightarrow> [] | Some s \<Rightarrow> s) @ pinned) wh"

definition increment_write :: "row \<Rightarrow> row \<Rightarrow> string list \<Rightarrow> row" where
  "increment_write r update pinned = dmerge update (map (\<lambda>f. (f, dget r f)) pinned)"

text \<open>
  What one attempt decides from its snapshot: answer without a write, or try the guarded write
  of \<open>write\<close> and answer with \<open>result\<close> when it changes one row.
\<close>

datatype attempt = Answer "row option" | Try "clause list" row row

definition plan_attempt ::
    "clause list \<Rightarrow> row \<Rightarrow> row option \<Rightarrow> string list \<Rightarrow> row option \<Rightarrow> attempt result" where
  "plan_attempt wh inc set_values pinned ro =
     (case ro of
        None \<Rightarrow> Inr (Answer None)
      | Some r \<Rightarrow>
          bindR (next_values r inc (case set_values of None \<Rightarrow> [] | Some s \<Rightarrow> s)) (\<lambda>update.
            if is_noop r update then Inr (Answer (Some r))
            else bindR (increment_guard r inc set_values pinned wh) (\<lambda>guard.
              Inr (Try guard (increment_write r update pinned) (dmerge r update)))))"

definition MAX_ATTEMPTS :: nat where
  "MAX_ATTEMPTS = 5"

fun fb_attempts ::
    "nat \<Rightarrow> (clause list \<Rightarrow> ('s, row option) action) \<Rightarrow> (clause list \<Rightarrow> row \<Rightarrow> ('s, int) action) \<Rightarrow>
     clause list \<Rightarrow> row \<Rightarrow> row option \<Rightarrow> string list \<Rightarrow> ('s, row option) action" where
  "fb_attempts 0 find_one update_many wh inc sv pinned = raise err_contention"
| "fb_attempts (Suc n) find_one update_many wh inc sv pinned =
     bindA (find_one wh) (\<lambda>ro.
     bindA (liftR (plan_attempt wh inc sv pinned ro)) (\<lambda>plan.
       case plan of
         Answer res \<Rightarrow> ret res
       | Try guard write res \<Rightarrow>
           bindA (update_many guard write) (\<lambda>count.
           bindA (liftR (changed_one count)) (\<lambda>won.
             if won then ret (Some res)
             else fb_attempts n find_one update_many wh inc sv pinned))))"

definition fb_increment_one ::
    "(clause list \<Rightarrow> ('s, row option) action) \<Rightarrow> (clause list \<Rightarrow> row \<Rightarrow> ('s, int) action) \<Rightarrow>
     fields \<Rightarrow> clause list \<Rightarrow> row option \<Rightarrow> row option \<Rightarrow> ('s, row option) action" where
  "fb_increment_one find_one update_many fs wh increment set_values =
     bindA (liftR (check_increment increment set_values)) (\<lambda>inc.
       fb_attempts MAX_ATTEMPTS find_one update_many wh inc set_values
         (pinned_fields fs inc set_values))"

section \<open>Guards select the snapshot\<close>

lemma guard_fields_mono:
  "guard_fields r has_or wh fs guard = Inr guard' \<Longrightarrow> set guard \<subseteq> set guard'"
proof (induction fs arbitrary: guard)
  case (Cons f fs)
  from Cons.prems Cons.IH[of guard] Cons.IH[of "guard @ [Where f (dget r f)]"] show ?case
    by (auto simp: Let_def split: if_splits)
qed simp

lemma guard_fields_in:
  "guard_fields r has_or wh fs guard = Inr guard' \<Longrightarrow> fld \<in> set fs \<Longrightarrow> fld \<noteq> ''id'' \<Longrightarrow>
   is_scalar (dget r fld) \<Longrightarrow> Where fld (dget r fld) \<in> set guard'"
proof (induction fs arbitrary: guard)
  case (Cons f fs)
  then show ?case
    by (auto simp: Let_def dest: guard_fields_mono split: if_splits)
qed simp

lemma guard_fields_all_and:
  "guard_fields r has_or wh fs guard = Inr guard' \<Longrightarrow> \<forall>c\<in>set guard. cl_conn c = AND \<Longrightarrow>
   \<forall>c\<in>set guard'. cl_conn c = AND"
proof (induction fs arbitrary: guard)
  case (Cons f fs)
  from Cons.prems Cons.IH[of guard] Cons.IH[of "guard @ [Where f (dget r f)]"] show ?case
    by (auto simp: Let_def split: if_splits)
qed simp

lemma snapshot_guard_id:
  assumes "snapshot_guard r fs wh = Inr guard"
  shows "Where ''id'' (dget r ''id'') \<in> set guard" "dget r ''id'' \<noteq> VNone"
  using assms
  by (auto simp: snapshot_guard_def Let_def split: if_splits dest!: guard_fields_mono)

lemma snapshot_guard_all_and:
  assumes "snapshot_guard r fs wh = Inr guard"
  shows "\<forall>c\<in>set guard. cl_conn c = AND"
proof -
  obtain g where g: "guard_fields r (list_ex (\<lambda>c. cl_conn c = OR) wh) wh (dedup fs) g = Inr guard"
      "g = (if list_ex (\<lambda>c. cl_conn c = OR) wh then [Where ''id'' (dget r ''id'')]
            else wh @ [Where ''id'' (dget r ''id'')])"
    using assms by (auto simp: snapshot_guard_def Let_def split: if_splits)
  have "cl_conn c = AND" if "c \<in> set g" for c
    using that g(2) by (cases "cl_conn c") (auto simp: list_ex_iff split: if_splits)
  with guard_fields_all_and[OF g(1)] show ?thesis by blast
qed

lemma snapshot_guard_field:
  assumes "snapshot_guard r fs wh = Inr guard" "fld \<in> set fs" "fld \<noteq> ''id''"
    and "is_scalar (dget r fld)"
  shows "Where fld (dget r fld) \<in> set guard"
  using assms
  by (auto simp: snapshot_guard_def Let_def split: if_splits intro: guard_fields_in)

lemma fold_clauses_all_and:
  assumes "\<forall>c\<in>set wh. cl_conn c = AND" "fold_clauses r wh b = Inr True"
  shows "b \<and> (\<forall>c\<in>set wh. eval_clause r c = Inr True)"
  using assms
  by (induction wh arbitrary: b) (fastforce simp: bindR_Inr_iff)+

lemma sel_all_and:
  assumes "\<forall>c\<in>set wh. cl_conn c = AND" "sel wh r" "c \<in> set wh"
  shows "eval_clause r c = Inr True"
proof -
  have "wh \<noteq> []" using assms(3) by auto
  with assms(2) obtain b where "fold_clauses r wh b = Inr True"
    by (auto simp: sel_def matches_nonempty bindR_Inr_iff)
  with assms show ?thesis using fold_clauses_all_and by blast
qed

end
