(* ===== verification/Interleaving.thy ===== *)
theory Interleaving
  imports Fallback
begin

text \<open>
  Concurrency of the atomic fallbacks. Many callers run \<open>consume_one\<close> or \<open>increment_one\<close> on one
  table; each atomic step of a caller (read, guarded write) is a transition, and any other
  coroutine may run in between. The locales state what the fallbacks need of the raw operations
  of the subclass; they are interpreted on the memory adapter's operations.
\<close>

section \<open>What a raw adapter promises\<close>

definition row_ids :: "row list \<Rightarrow> pyval list" where
  "row_ids rs = map (\<lambda>r. dget r ''id'') rs"

definition str_ids :: "row list \<Rightarrow> bool" where
  "str_ids rs = (distinct (row_ids rs) \<and> list_all (\<lambda>r. is_str (dget r ''id'')) rs)"

locale raw_deletes =
  fixes rows :: "'s \<Rightarrow> row list"
    and find_one :: "clause list \<Rightarrow> ('s, row option) action"
    and delete_many :: "clause list \<Rightarrow> ('s, int) action"
  assumes find_one_state: "find_one wh s = (res, s') \<Longrightarrow> rows s' = rows s"
    and delete_many_rows: "delete_many wh s = (Inr n, s') \<Longrightarrow>
          rows s' = filter (\<lambda>r. \<not> sel wh r) (rows s) \<and> n = int (length (filter (sel wh) (rows s)))"
    and delete_many_err: "delete_many wh s = (Inl e, s') \<Longrightarrow> rows s' = rows s"

text \<open>
  \<open>plain k\<close>: field \<open>k\<close> has no \<open>transform.input\<close>, so what is written is what is stored.
\<close>

locale raw_updates =
  fixes rows :: "'s \<Rightarrow> row list"
    and plain :: "string \<Rightarrow> bool"
    and find_one :: "clause list \<Rightarrow> ('s, row option) action"
    and update_many :: "clause list \<Rightarrow> row \<Rightarrow> ('s, int) action"
  assumes find_one_row: "plain k \<Longrightarrow> find_one wh s = (Inr (Some r), s') \<Longrightarrow>
          r \<in> set (rows s) \<and> sel wh r"
    and find_one_keeps: "find_one wh s = (res, s') \<Longrightarrow> rows s' = rows s"
    and update_many_rows: "update_many wh d s = (Inr n, s') \<Longrightarrow> distinct (map fst d) \<Longrightarrow>
          n = int (length (filter (sel wh) (rows s))) \<and>
          (\<exists>d'. rows s' = map (\<lambda>r. if sel wh r then dmerge r d' else r) (rows s) \<and>
                distinct (map fst d') \<and>
                (\<forall>k v. plain k \<longrightarrow> map_of d k = Some v \<longrightarrow> map_of d' k = Some v) \<and>
                (map_of d ''id'' = None \<longrightarrow> map_of d' ''id'' = None))"

section \<open>Racing consumers\<close>

datatype consumer =
    CStart "clause list"
  | CRead row "clause list"
  | CDone "row option"
  | CFail exn

text \<open>Other coroutines may update and delete rows meanwhile, and never reuse an id.\<close>

definition benign :: "row list \<Rightarrow> row list \<Rightarrow> bool" where
  "benign rs rs' \<longleftrightarrow> str_ids rs' \<and> set (row_ids rs') \<subseteq> set (row_ids rs)"

inductive consume_step ::
    "('s \<Rightarrow> row list) \<Rightarrow> (clause list \<Rightarrow> ('s, row option) action) \<Rightarrow>
     (clause list \<Rightarrow> ('s, int) action) \<Rightarrow>
     's \<times> (nat \<Rightarrow> consumer) \<Rightarrow> 's \<times> (nat \<Rightarrow> consumer) \<Rightarrow> bool"
  for rows find_one delete_many where
  read: "ph i = CStart wh \<Longrightarrow> find_one wh s = (Inr (Some r), s') \<Longrightarrow> consume_guard r wh = Inr g \<Longrightarrow>
     consume_step rows find_one delete_many (s, ph) (s', ph(i := CRead r g))"
| read_guard_err: "ph i = CStart wh \<Longrightarrow> find_one wh s = (Inr (Some r), s') \<Longrightarrow>
     consume_guard r wh = Inl e \<Longrightarrow>
     consume_step rows find_one delete_many (s, ph) (s', ph(i := CFail e))"
| miss: "ph i = CStart wh \<Longrightarrow> find_one wh s = (Inr None, s') \<Longrightarrow>
     consume_step rows find_one delete_many (s, ph) (s', ph(i := CDone None))"
| read_err: "ph i = CStart wh \<Longrightarrow> find_one wh s = (Inl e, s') \<Longrightarrow>
     consume_step rows find_one delete_many (s, ph) (s', ph(i := CFail e))"
| claim: "ph i = CRead r g \<Longrightarrow> delete_many g s = (Inr n, s') \<Longrightarrow> changed_one n = Inr won \<Longrightarrow>
     consume_step rows find_one delete_many (s, ph) (s', ph(i := CDone (if won then Some r else None)))"
| claim_count_err: "ph i = CRead r g \<Longrightarrow> delete_many g s = (Inr n, s') \<Longrightarrow> changed_one n = Inl e \<Longrightarrow>
     consume_step rows find_one delete_many (s, ph) (s', ph(i := CFail e))"
| claim_err: "ph i = CRead r g \<Longrightarrow> delete_many g s = (Inl e, s') \<Longrightarrow>
     consume_step rows find_one delete_many (s, ph) (s', ph(i := CFail e))"
| other: "benign (rows s) (rows s') \<Longrightarrow>
     consume_step rows find_one delete_many (s, ph) (s', ph)"

definition won_by :: "(nat \<Rightarrow> consumer) \<Rightarrow> nat \<Rightarrow> row \<Rightarrow> bool" where
  "won_by ph i r = (ph i = CDone (Some r))"

definition consume_inv :: "('s \<Rightarrow> row list) \<Rightarrow> 's \<times> (nat \<Rightarrow> consumer) \<Rightarrow> bool" where
  "consume_inv rows = (\<lambda>(s, ph).
     str_ids (rows s) \<and>
     (\<forall>i r. won_by ph i r \<longrightarrow> dget r ''id'' \<notin> set (row_ids (rows s))) \<and>
     (\<forall>i j r r'. i \<noteq> j \<longrightarrow> won_by ph i r \<longrightarrow> won_by ph j r' \<longrightarrow> dget r ''id'' \<noteq> dget r' ''id'') \<and>
     (\<forall>i r g. ph i = CRead r g \<longrightarrow>
        Where ''id'' (dget r ''id'') \<in> set g \<and> (\<forall>c\<in>set g. cl_conn c = AND) \<and> dget r ''id'' \<noteq> VNone))"

lemma str_ids_filter: "str_ids rs \<Longrightarrow> str_ids (filter P rs)"
  by (auto simp: str_ids_def row_ids_def distinct_map list_all_iff intro: inj_on_subset)

lemma set_row_ids_filter: "set (row_ids (filter P rs)) \<subseteq> set (row_ids rs)"
  by (auto simp: row_ids_def)

lemma sel_id:
  assumes "Where ''id'' v \<in> set g" "\<forall>c\<in>set g. cl_conn c = AND" "sel g r"
    and "is_str (dget r ''id'')" "v \<noteq> VNone"
  shows "dget r ''id'' = v"
  using sel_all_and[OF assms(2,3,1)] assms(4,5)
  by (auto simp: is_str_def split: pyval.splits)

text \<open>The guarded delete that reports one row removed the only row with the snapshot's id.\<close>

lemma guarded_delete_removes:
  assumes ids: "str_ids rs" and g: "Where ''id'' v \<in> set g" "\<forall>c\<in>set g. cl_conn c = AND" "v \<noteq> VNone"
    and one: "filter (sel g) rs \<noteq> []"
  shows "v \<in> set (row_ids rs)" "v \<notin> set (row_ids (filter (\<lambda>r. \<not> sel g r) rs))"
proof -
  from one obtain q where q: "q \<in> set rs" "sel g q" by (auto simp: filter_empty_conv)
  with ids have "is_str (dget q ''id'')" by (auto simp: str_ids_def list_all_iff)
  with q g have qid: "dget q ''id'' = v" by (intro sel_id[of v g q]) auto
  with q show "v \<in> set (row_ids rs)" by (auto simp: row_ids_def)
  have "q' = q" if "q' \<in> set rs" "dget q' ''id'' = v" for q'
    using ids that q qid by (auto simp: str_ids_def row_ids_def distinct_map inj_on_def)
  with q show "v \<notin> set (row_ids (filter (\<lambda>r. \<not> sel g r) rs))"
    by (auto simp: row_ids_def)
qed

context raw_deletes
begin

lemma consume_step_inv:
  assumes "consume_step rows find_one delete_many c c'" "consume_inv rows c"
  shows "consume_inv rows c'"
  using assms
proof (induction rule: consume_step.induct)
  case (read ph i wh s r s' g)
  have "rows s' = rows s" using find_one_state read(2) by blast
  moreover have "Where ''id'' (dget r ''id'') \<in> set g" "dget r ''id'' \<noteq> VNone"
    "\<forall>c\<in>set g. cl_conn c = AND"
    using read(3) snapshot_guard_id snapshot_guard_all_and by (auto simp: consume_guard_def)
  ultimately show ?case using read(4) by (auto simp: consume_inv_def won_by_def)
next
  case (claim ph i r g s n s' won)
  note del = delete_many_rows[OF claim(2)]
  from claim(1,4) have g: "Where ''id'' (dget r ''id'') \<in> set g" "\<forall>c\<in>set g. cl_conn c = AND"
      "dget r ''id'' \<noteq> VNone"
    and ids: "str_ids (rows s)"
    and old: "\<And>j q. won_by ph j q \<Longrightarrow> dget q ''id'' \<notin> set (row_ids (rows s))"
    by (auto simp: consume_inv_def)
  have ids': "str_ids (rows s')" using del ids by (simp add: str_ids_filter)
  have sub: "set (row_ids (rows s')) \<subseteq> set (row_ids (rows s))"
    using del set_row_ids_filter by metis
  show ?case
  proof (cases won)
    case True
    with claim(3) del have "filter (sel g) (rows s) \<noteq> []"
      by (auto simp: changed_one_def split: if_splits)
    from guarded_delete_removes[OF ids g this] del
    have "dget r ''id'' \<in> set (row_ids (rows s))" "dget r ''id'' \<notin> set (row_ids (rows s'))"
      by auto
    moreover from this old have "dget q ''id'' \<noteq> dget r ''id''" if "ph j = CDone (Some q)" for j q
      using that by (metis won_by_def)
    ultimately show ?thesis using True claim(4) ids' sub
      by (auto simp: consume_inv_def won_by_def)
  next
    case False
    with claim(4) ids' sub show ?thesis
      by (auto simp: consume_inv_def won_by_def)
  qed
next
  case (other s s' ph)
  then show ?case by (auto simp: consume_inv_def benign_def)
next
  case (claim_count_err ph i r g s n s' e)
  note del = delete_many_rows[OF claim_count_err(2)]
  have "str_ids (rows s')" "set (row_ids (rows s')) \<subseteq> set (row_ids (rows s))"
    using del claim_count_err(4) set_row_ids_filter
    by (auto simp: consume_inv_def str_ids_filter)
  with claim_count_err(4) show ?case by (auto simp: consume_inv_def won_by_def)
qed (auto simp: consume_inv_def won_by_def dest: find_one_state delete_many_err)

lemma consume_run_inv:
  assumes "(consume_step rows find_one delete_many)\<^sup>*\<^sup>* c c'" "consume_inv rows c"
  shows "consume_inv rows c'"
  using assms by (induction rule: rtranclp_induct) (auto intro: consume_step_inv)

lemma single_winner:
  assumes "(consume_step rows find_one delete_many)\<^sup>*\<^sup>* (s\<^sub>0, ph\<^sub>0) (s, ph)"
    and "str_ids (rows s\<^sub>0)" "\<And>i. \<exists>wh. ph\<^sub>0 i = CStart wh"
    and "i \<noteq> j" "ph i = CDone (Some r)" "ph j = CDone (Some r')"
  shows "dget r ''id'' \<noteq> dget r' ''id''"
proof -
  have "ph\<^sub>0 i \<noteq> CDone x" "ph\<^sub>0 i \<noteq> CRead q g" for i x q g
    using assms(3)[of i] by auto
  with assms(2) have "consume_inv rows (s\<^sub>0, ph\<^sub>0)"
    by (auto simp: consume_inv_def won_by_def)
  from consume_run_inv[OF assms(1) this] assms(4-6) show ?thesis
    by (auto simp: consume_inv_def won_by_def)
qed

end

section \<open>The memory adapter's raw operations\<close>

lemma filter_rows_Inr:
  "reject_rows wh rs = Inr kept \<Longrightarrow> safe wh rs"
  by (induction rs arbitrary: kept) (auto simp: bindR_Inr_iff sel_def)

lemma mem_delete_many_Inr:
  assumes "mem_delete_many m wh s = (Inr n, s')"
  shows "safe wh (rows_of s m)"
  using assms filter_rows_Inr by (auto simp: mem_delete_many_def split: sum.splits)

lemma find_first_Inr:
  "find_first wh rs = Inr (Some r) \<Longrightarrow> r \<in> set rs \<and> sel wh r"
  by (induction rs) (auto simp: bindR_Inr_iff sel_def split: if_splits)

lemma update_all_Inr:
  "update_all wh d rs = (Inr n, rs') \<Longrightarrow> safe wh rs"
  by (induction rs arbitrary: n rs')
    (auto simp: bindR_Inr_iff sel_def split: sum.splits bool.splits prod.splits)

interpretation mem_raw: raw_deletes "\<lambda>s. rows_of s m" "\<lambda>wh. mem_find_one ad m wh []" "mem_delete_many m"
proof unfold_locales
  fix wh s n s'
  assume a: "mem_delete_many m wh s = (Inr n, s')"
  with mem_delete_many_safe[OF mem_delete_many_Inr[OF a]]
  show "rows_of s' m = filter (\<lambda>r. \<not> sel wh r) (rows_of s m) \<and>
        n = int (length (filter (sel wh) (rows_of s m)))"
    by auto
qed (auto simp: mem_find_one_def mem_delete_many_def split: sum.splits)

section \<open>Racing increments\<close>

text \<open>
  Callers \<open>0, 1, \<dots>\<close>: caller \<open>i\<close> runs a bare increment of one field by \<open>delta i\<close> on the row with id
  \<open>rid\<close>. A phase is the number of attempts left, the planned guarded write, or the outcome.
\<close>

datatype incrementer =
    IReady nat
  | ITry nat "clause list" row row
  | IDone "row option"
  | IFail exn

record inc_call =
  ic_where :: "clause list"
  ic_inc :: row
  ic_pinned :: "string list"

inductive increment_step ::
    "(clause list \<Rightarrow> ('s, row option) action) \<Rightarrow> (clause list \<Rightarrow> row \<Rightarrow> ('s, int) action) \<Rightarrow>
     (nat \<Rightarrow> inc_call) \<Rightarrow> 's \<times> (nat \<Rightarrow> incrementer) \<Rightarrow> 's \<times> (nat \<Rightarrow> incrementer) \<Rightarrow> bool"
  for find_one update_many calls where
  give_up: "ph i = IReady 0 \<Longrightarrow>
     increment_step find_one update_many calls (s, ph) (s, ph(i := IFail err_contention))"
| answer: "ph i = IReady (Suc n) \<Longrightarrow> find_one (ic_where (calls i)) s = (Inr ro, s') \<Longrightarrow>
     plan_attempt (ic_where (calls i)) (ic_inc (calls i)) None (ic_pinned (calls i)) ro =
       Inr (Answer res) \<Longrightarrow>
     increment_step find_one update_many calls (s, ph) (s', ph(i := IDone res))"
| plan: "ph i = IReady (Suc n) \<Longrightarrow> find_one (ic_where (calls i)) s = (Inr ro, s') \<Longrightarrow>
     plan_attempt (ic_where (calls i)) (ic_inc (calls i)) None (ic_pinned (calls i)) ro =
       Inr (Try g d res) \<Longrightarrow>
     increment_step find_one update_many calls (s, ph) (s', ph(i := ITry n g d res))"
| plan_err: "ph i = IReady (Suc n) \<Longrightarrow> find_one (ic_where (calls i)) s = (Inr ro, s') \<Longrightarrow>
     plan_attempt (ic_where (calls i)) (ic_inc (calls i)) None (ic_pinned (calls i)) ro = Inl e \<Longrightarrow>
     increment_step find_one update_many calls (s, ph) (s', ph(i := IFail e))"
| read_err: "ph i = IReady (Suc n) \<Longrightarrow> find_one (ic_where (calls i)) s = (Inl e, s') \<Longrightarrow>
     increment_step find_one update_many calls (s, ph) (s', ph(i := IFail e))"
| swap: "ph i = ITry n g d res \<Longrightarrow> update_many g d s = (Inr count, s') \<Longrightarrow>
     changed_one count = Inr True \<Longrightarrow>
     increment_step find_one update_many calls (s, ph) (s', ph(i := IDone (Some res)))"
| retry: "ph i = ITry n g d res \<Longrightarrow> update_many g d s = (Inr count, s') \<Longrightarrow>
     changed_one count = Inr False \<Longrightarrow>
     increment_step find_one update_many calls (s, ph) (s', ph(i := IReady n))"

text \<open>
  The transitions of a raw operation that raises, or reports more than one row, after it wrote are
  left out of the machine: with unique ids a guarded write changes at most one row, and the
  operations of the adapters raise before they write.
\<close>

definition count_of :: "pyval \<Rightarrow> int" where
  "count_of v = (case py_num v of Some n \<Rightarrow> n | None \<Rightarrow> 0)"

definition counter_at :: "row list \<Rightarrow> string \<Rightarrow> string \<Rightarrow> int" where
  "counter_at rs rid fld =
     (case List.find (\<lambda>r. dget r ''id'' = VStr rid) rs of
        None \<Rightarrow> 0 | Some r \<Rightarrow> count_of (dget r fld))"

definition earned :: "(nat \<Rightarrow> int) \<Rightarrow> (nat \<Rightarrow> incrementer) \<Rightarrow> nat \<Rightarrow> int" where
  "earned delta ph i = (case ph i of IDone (Some _) \<Rightarrow> delta i | _ \<Rightarrow> 0)"

definition counter_call :: "string \<Rightarrow> string \<Rightarrow> int \<Rightarrow> inc_call \<Rightarrow> bool" where
  "counter_call rid fld d c \<longleftrightarrow>
     ic_where c = [Where ''id'' (VStr rid)] \<and> ic_inc c = [(fld, VInt d)] \<and>
     fld \<notin> set (ic_pinned c) \<and> ''id'' \<notin> set (ic_pinned c) \<and> distinct (ic_pinned c)"

text \<open>What a planned write promises: it swaps the value it read for that value plus the delta.\<close>

definition swap_plan :: "string \<Rightarrow> string \<Rightarrow> int \<Rightarrow> clause list \<Rightarrow> row \<Rightarrow> bool" where
  "swap_plan rid fld delta g d \<longleftrightarrow>
     (\<exists>snap. Where ''id'' (VStr rid) \<in> set g \<and> Where fld snap \<in> set g \<and>
        (\<forall>c\<in>set g. cl_conn c = AND) \<and> distinct (map fst d) \<and> map_of d ''id'' = None \<and>
        map_of d fld = Some (VInt (count_of snap + delta)) \<and> (snap = VNone \<or> (\<exists>n. snap = VInt n)))"

lemma increment_write_facts:
  assumes "distinct (map fst update)" "distinct pinned"
  shows "distinct (map fst (increment_write r update pinned))"
    and "k \<notin> set pinned \<Longrightarrow> map_of (increment_write r update pinned) k = map_of update k"
proof -
  let ?p = "map (\<lambda>f. (f, dget r f)) pinned"
  have fst: "map fst ?p = pinned" by (simp add: comp_def)
  show "distinct (map fst (increment_write r update pinned))"
    using assms by (simp add: increment_write_def distinct_dmerge)
  show "map_of (increment_write r update pinned) k = map_of update k" if "k \<notin> set pinned"
  proof -
    have "map_of ?p k = None" using that by (simp add: map_of_eq_None_iff image_image)
    then show ?thesis
      using assms(2) fst by (simp add: increment_write_def map_of_dmerge map_add_def)
  qed
qed

lemma plan_attempt_swap:
  assumes call: "counter_call rid fld delta c" and fld: "fld \<noteq> ''id''"
    and plan: "plan_attempt (ic_where c) (ic_inc c) None (ic_pinned c) (Some r) = Inr (Try g d res)"
    and r: "dget r ''id'' = VStr rid"
  shows "swap_plan rid fld delta g d"
proof -
  note c = call[unfolded counter_call_def]
  let ?cur = "if dget r fld = VNone then VInt 0 else dget r fld"
  let ?upd = "[(fld, VInt (count_of ?cur + delta))]"
  from plan c have num: "\<not> is_bool ?cur" "py_num ?cur \<noteq> None"
    and guard: "increment_guard r [(fld, VInt delta)] None (ic_pinned c) [Where ''id'' (VStr rid)] = Inr g"
    and d: "d = increment_write r ?upd (ic_pinned c)"
    by (auto simp: plan_attempt_def bindR_Inr_iff Let_def add_delta_def count_of_def
        split: if_splits)
  have snap: "dget r fld = VNone \<or> (\<exists>n. dget r fld = VInt n)"
    using num by (cases "dget r fld") (auto simp: is_bool_def)
  then have scalar: "is_scalar (dget r fld)" by (auto simp: is_scalar_def)
  note sg = guard[unfolded increment_guard_def]
  from snapshot_guard_id[OF sg] r have "Where ''id'' (VStr rid) \<in> set g" by simp
  moreover from snapshot_guard_field[OF sg _ fld scalar] have "Where fld (dget r fld) \<in> set g" by simp
  moreover note snapshot_guard_all_and[OF sg]
  moreover have "distinct (map fst d)" "map_of d ''id'' = None"
    "map_of d fld = Some (VInt (count_of ?cur + delta))"
    using increment_write_facts[of ?upd "ic_pinned c"] c fld d by auto
  moreover have "count_of ?cur = count_of (dget r fld)" by (auto simp: count_of_def)
  ultimately show ?thesis using snap by (auto simp: swap_plan_def)
qed

lemma find_map_if:
  assumes "\<And>r. r \<in> set rs \<Longrightarrow> P (f r) = P r"
  shows "List.find P (map f rs) = map_option f (List.find P rs)"
  using assms by (induction rs) auto

text \<open>The effect of the guarded write on the counter, when it changes one row and when it changes none.\<close>

lemma swap_effect:
  assumes plan: "swap_plan rid fld delta g d" and ids: "str_ids rs" and fld: "fld \<noteq> ''id''"
    and d': "distinct (map fst d')" "map_of d' ''id'' = None"
       "map_of d' fld = Some (VInt v)" "map_of d fld = Some (VInt v)"
    and rs': "rs' = map (\<lambda>r. if sel g r then dmerge r d' else r) rs"
  shows "str_ids rs'"
    and "filter (sel g) rs = [] \<Longrightarrow> counter_at rs' rid fld = counter_at rs rid fld"
    and "filter (sel g) rs \<noteq> [] \<Longrightarrow> counter_at rs' rid fld = counter_at rs rid fld + delta"
proof -
  obtain snap where g: "Where ''id'' (VStr rid) \<in> set g" "Where fld snap \<in> set g"
      "\<forall>c\<in>set g. cl_conn c = AND" "v = count_of snap + delta" "snap = VNone \<or> (\<exists>n. snap = VInt n)"
    using plan d'(4) by (auto simp: swap_plan_def)
  have id': "dget (dmerge r d') ''id'' = dget r ''id''" for r
    using d' by (simp add: dget_dmerge)
  have ids_eq: "row_ids rs' = row_ids rs" by (simp add: rs' row_ids_def id')
  have "list_all (\<lambda>r. is_str (dget r ''id'')) rs'"
    using ids by (auto simp: rs' list_all_iff str_ids_def id')
  with ids ids_eq show "str_ids rs'" by (simp add: str_ids_def)
  show "counter_at rs' rid fld = counter_at rs rid fld" if "filter (sel g) rs = []"
  proof -
    have "rs' = rs" using that by (auto simp: rs' filter_empty_conv intro: map_idI)
    then show ?thesis by simp
  qed
  assume "filter (sel g) rs \<noteq> []"
  then obtain q where q: "q \<in> set rs" "sel g q" by (auto simp: filter_empty_conv)
  then have qid: "dget q ''id'' = VStr rid" "count_of (dget q fld) = count_of snap"
    using sel_all_and[OF g(3) q(2) g(1)] sel_all_and[OF g(3) q(2) g(2)] g(5)
    by (auto simp: count_of_def)
  have uniq: "q' = q" if "q' \<in> set rs" "dget q' ''id'' = VStr rid" for q'
    using ids that q qid by (auto simp: str_ids_def row_ids_def distinct_map inj_on_def)
  have found: "List.find (\<lambda>r. dget r ''id'' = VStr rid) rs = Some q"
  proof (cases "List.find (\<lambda>r. dget r ''id'' = VStr rid) rs")
    case None
    with q qid show ?thesis by (auto simp: find_None_all)
  next
    case (Some q')
    with find_Some_in[OF Some] uniq show ?thesis by auto
  qed
  have "List.find (\<lambda>r. dget r ''id'' = VStr rid) rs' = Some (dmerge q d')"
    unfolding rs' using found q(2) by (subst find_map_if) (auto simp: id')
  with found d' g(4) qid show "counter_at rs' rid fld = counter_at rs rid fld + delta"
    by (simp add: counter_at_def dget_dmerge count_of_def)
qed

lemma plan_attempt_answer:
  assumes call: "counter_call rid fld delta c"
    and plan: "plan_attempt (ic_where c) (ic_inc c) None (ic_pinned c) ro = Inr (Answer (Some r))"
  shows "delta = 0"
proof -
  note c = call[unfolded counter_call_def]
  obtain r' where ro: "ro = Some r'" using plan by (cases ro) (auto simp: plan_attempt_def)
  with plan c have "is_noop r' [(fld, add_delta (if dget r' fld = VNone then VInt 0 else dget r' fld) (VInt delta))]"
    by (auto simp: plan_attempt_def bindR_Inr_iff Let_def split: if_splits)
  then show ?thesis
    by (auto simp: is_noop_def dget_def add_delta_def split: option.splits if_splits)
qed

lemma sum_earned_upd:
  assumes "(i::nat) < n"
  shows "(\<Sum>k<n. earned delta (ph(i := x)) k) =
         (\<Sum>k<n. earned delta ph k) - earned delta ph i + earned delta (ph(i := x)) i"
proof -
  have split: "(\<Sum>k<n. earned delta p k) = earned delta p i + (\<Sum>k\<in>{..<n} - {i}. earned delta p k)" for p
    using assms by (subst sum.remove[of _ i]) auto
  have "(\<Sum>k\<in>{..<n} - {i}. earned delta (ph(i := x)) k) = (\<Sum>k\<in>{..<n} - {i}. earned delta ph k)"
    by (rule sum.cong) (auto simp: earned_def)
  then show ?thesis using split[of "ph(i := x)"] split[of ph] by simp
qed

definition increment_inv ::
    "('s \<Rightarrow> row list) \<Rightarrow> string \<Rightarrow> string \<Rightarrow> (nat \<Rightarrow> int) \<Rightarrow> nat \<Rightarrow> int \<Rightarrow>
     's \<times> (nat \<Rightarrow> incrementer) \<Rightarrow> bool" where
  "increment_inv rows rid fld delta n v0 = (\<lambda>(s, ph).
     str_ids (rows s) \<and>
     counter_at (rows s) rid fld = v0 + (\<Sum>k<n. earned delta ph k) \<and>
     (\<forall>i k g d res. ph i = ITry k g d res \<longrightarrow> swap_plan rid fld (delta i) g d) \<and>
     (\<forall>i\<ge>n. ph i = IDone None))"

lemma increment_inv_upd:
  assumes inv: "increment_inv rows rid fld delta n v0 (s, ph)" and busy: "ph i \<noteq> IDone None"
    and s': "str_ids (rows s')"
    and cnt: "counter_at (rows s') rid fld =
              counter_at (rows s) rid fld - earned delta ph i + earned delta (ph(i := x)) i"
    and x: "\<And>k g d res. x = ITry k g d res \<Longrightarrow> swap_plan rid fld (delta i) g d"
  shows "increment_inv rows rid fld delta n v0 (s', ph(i := x))"
proof -
  from inv busy have "i < n" by (auto simp: increment_inv_def not_le[symmetric])
  from sum_earned_upd[OF this, of delta ph x] inv s' cnt x \<open>i < n\<close> show ?thesis
    by (auto simp: increment_inv_def)
qed

context raw_updates
begin

lemma increment_step_inv:
  assumes calls: "\<And>i. counter_call rid fld (delta i) (calls i)" and fld: "fld \<noteq> ''id''" "plain fld"
    and step: "increment_step find_one update_many calls c c'"
    and inv: "increment_inv rows rid fld delta n v0 c"
  shows "increment_inv rows rid fld delta n v0 c'"
  using step inv
proof (induction rule: increment_step.induct)
  case (answer ph i k s ro s' res)
  have "earned delta (ph(i := IDone res)) i = 0"
    using plan_attempt_answer[OF calls[of i]] answer(3) by (cases res) (auto simp: earned_def)
  moreover have "rows s' = rows s" using find_one_keeps answer(2) by blast
  ultimately show ?case using answer(1,4)
    by (intro increment_inv_upd[OF answer(4)]) (auto simp: earned_def increment_inv_def)
next
  case (plan ph i k s ro s' g d res)
  obtain r where ro: "ro = Some r" using plan(3) by (cases ro) (auto simp: plan_attempt_def)
  have "sel [Where ''id'' (VStr rid)] r"
    using find_one_row[OF fld(2), of "ic_where (calls i)" s r s'] plan(2) ro calls[of i]
    by (simp add: counter_call_def)
  then have "dget r ''id'' = VStr rid" by simp
  with plan_attempt_swap[OF calls fld(1)] plan(3) ro
  have "swap_plan rid fld (delta i) g d" by blast
  moreover have "rows s' = rows s" using find_one_keeps plan(2) by blast
  ultimately show ?case using plan(1,4)
    by (intro increment_inv_upd[OF plan(4)]) (auto simp: earned_def increment_inv_def)
next
  case (swap ph i k g d res s count s')
  from swap(1,4) have sp: "swap_plan rid fld (delta i) g d" and ids: "str_ids (rows s)"
    by (auto simp: increment_inv_def)
  then obtain v where d: "distinct (map fst d)" "map_of d ''id'' = None" "map_of d fld = Some (VInt v)"
    by (auto simp: swap_plan_def)
  from update_many_rows[OF swap(2) d(1)] d(2,3) fld(2) obtain d' where
    n: "count = int (length (filter (sel g) (rows s)))"
    and rs': "rows s' = map (\<lambda>r. if sel g r then dmerge r d' else r) (rows s)"
    and d': "distinct (map fst d')" "map_of d' ''id'' = None" "map_of d' fld = Some (VInt v)"
    by blast
  have "filter (sel g) (rows s) \<noteq> []" using swap(3) n by (auto simp: changed_one_def split: if_splits)
  with swap_effect[OF sp ids fld(1) d' d(3) rs'] swap(1,4) show ?case
    by (intro increment_inv_upd[OF swap(4)]) (auto simp: earned_def)
next
  case (retry ph i k g d res s count s')
  from retry(1,4) have sp: "swap_plan rid fld (delta i) g d" and ids: "str_ids (rows s)"
    by (auto simp: increment_inv_def)
  then obtain v where d: "distinct (map fst d)" "map_of d ''id'' = None" "map_of d fld = Some (VInt v)"
    by (auto simp: swap_plan_def)
  from update_many_rows[OF retry(2) d(1)] d(2,3) fld(2) obtain d' where
    n: "count = int (length (filter (sel g) (rows s)))"
    and rs': "rows s' = map (\<lambda>r. if sel g r then dmerge r d' else r) (rows s)"
    and d': "distinct (map fst d')" "map_of d' ''id'' = None" "map_of d' fld = Some (VInt v)"
    by blast
  have "filter (sel g) (rows s) = []" using retry(3) n by (auto simp: changed_one_def split: if_splits)
  with swap_effect[OF sp ids fld(1) d' d(3) rs'] retry(1,4) show ?case
    by (intro increment_inv_upd[OF retry(4)]) (auto simp: earned_def)
next
  case (give_up ph i s)
  then show ?case
    by (intro increment_inv_upd[OF give_up(2)]) (auto simp: earned_def increment_inv_def)
next
  case (plan_err ph i k s ro s' e)
  have "rows s' = rows s" using find_one_keeps plan_err(2) by blast
  then show ?case using plan_err(1,4)
    by (intro increment_inv_upd[OF plan_err(4)]) (auto simp: earned_def increment_inv_def)
next
  case (read_err ph i k s e s')
  have "rows s' = rows s" using find_one_keeps read_err(2) by blast
  then show ?case using read_err(1,3)
    by (intro increment_inv_upd[OF read_err(3)]) (auto simp: earned_def increment_inv_def)
qed

lemma no_lost_update:
  assumes calls: "\<And>i. counter_call rid fld (delta i) (calls i)" and fld: "fld \<noteq> ''id''" "plain fld"
    and run: "(increment_step find_one update_many calls)\<^sup>*\<^sup>* (s\<^sub>0, ph\<^sub>0) (s, ph)"
    and ids: "str_ids (rows s\<^sub>0)"
    and start: "\<And>i. ph\<^sub>0 i = (if i < n then IReady MAX_ATTEMPTS else IDone None)"
  shows "counter_at (rows s) rid fld = counter_at (rows s\<^sub>0) rid fld + (\<Sum>k<n. earned delta ph k)"
proof -
  let ?inv = "increment_inv rows rid fld delta n (counter_at (rows s\<^sub>0) rid fld)"
  have "(\<Sum>k<n. earned delta ph\<^sub>0 k) = 0" by (simp add: earned_def start)
  with ids have "?inv (s\<^sub>0, ph\<^sub>0)" by (auto simp: increment_inv_def start)
  with run have "?inv (s, ph)"
    by (induction rule: rtranclp_induct) (auto intro: increment_step_inv[OF calls fld])
  then show ?thesis by (simp add: increment_inv_def)
qed

end

definition plain_field :: "adapter \<Rightarrow> string \<Rightarrow> string \<Rightarrow> bool" where
  "plain_field ad m k \<longleftrightarrow> native ad \<and>
     (\<forall>f. (k, f) \<in> set (fields_of (ad_schema ad) m) \<longrightarrow> f_transform_input f = None)"

lemma transform_input_keeps:
  assumes "transform_input ad ev m d ''update'' = Inr d'"
  shows "map_of d' ''id'' = map_of d ''id''"
    and "distinct (map fst d) \<Longrightarrow> distinct (map fst d')"
    and "plain_field ad m k \<Longrightarrow> map_of d k = Some v \<Longrightarrow> map_of d' k = Some v"
proof -
  obtain fs where fs: "map_of (ad_schema ad) m = Some fs"
      "transform_fields ev (ad_codec ad) (ad_caps ad) ''update'' fs d = Inr d'"
    using assms by (auto simp: transform_input_def Let_def split: option.splits)
  show "map_of d' ''id'' = map_of d ''id''" by (rule transform_fields_keeps(1)[OF fs(2)])
  show "distinct (map fst d) \<Longrightarrow> distinct (map fst d')" by (rule transform_fields_keeps(2)[OF fs(2)])
  show "plain_field ad m k \<Longrightarrow> map_of d k = Some v \<Longrightarrow> map_of d' k = Some v"
    using fs(1) transform_fields_keeps(3)[OF fs(2)]
    by (auto simp: plain_field_def native_def fields_of_def)
qed

lemma mem_update_many_Inr:
  assumes "mem_update_many ad ev m wh d s = (Inr n, s')"
  obtains d' where "transform_input ad ev m d ''update'' = Inr d'"
    "n = int (length (filter (sel wh) (rows_of s m)))"
    "rows_of s' m = map (\<lambda>r. if sel wh r then dmerge r d' else r) (rows_of s m)"
proof -
  from assms obtain d' where t: "transform_input ad ev m d ''update'' = Inr d'"
    by (cases "transform_input ad ev m d ''update''") (auto simp: mem_update_many_def)
  with assms have u: "update_all wh d' (rows_of s m) = (Inr n, rows_of s' m)"
    by (auto simp: mem_update_many_def split: prod.splits)
  with update_all_safe[OF update_all_Inr[OF u]] that t show ?thesis by auto
qed

interpretation mem_raw_updates: raw_updates "\<lambda>s. rows_of s m" "plain_field ad m"
    "\<lambda>wh. mem_find_one ad m wh []" "mem_update_many ad ev m"
proof unfold_locales
  fix k wh s r s'
  assume "plain_field ad m k" "mem_find_one ad m wh [] s = (Inr (Some r), s')"
  then have "find_first wh (rows_of s m) = Inr (Some r)"
    by (auto simp: mem_find_one_def bindR_Inr_iff plain_field_def)
  then show "r \<in> set (rows_of s m) \<and> sel wh r" by (rule find_first_Inr)
next
  fix wh d s n s'
  assume u: "mem_update_many ad ev m wh d s = (Inr n, s')" and d: "distinct (map fst d)"
  from mem_update_many_Inr[OF u] obtain d' where t: "transform_input ad ev m d ''update'' = Inr d'"
    and n: "n = int (length (filter (sel wh) (rows_of s m)))"
      "rows_of s' m = map (\<lambda>r. if sel wh r then dmerge r d' else r) (rows_of s m)" .
  from transform_input_keeps[OF t] d n
  show "n = int (length (filter (sel wh) (rows_of s m))) \<and>
      (\<exists>d'. rows_of s' m = map (\<lambda>r. if sel wh r then dmerge r d' else r) (rows_of s m) \<and>
            distinct (map fst d') \<and>
            (\<forall>k v. plain_field ad m k \<longrightarrow> map_of d k = Some v \<longrightarrow> map_of d' k = Some v) \<and>
            (map_of d ''id'' = None \<longrightarrow> map_of d' ''id'' = None))"
    by (intro conjI exI[of _ d']) auto
qed (auto simp: mem_find_one_def)

end
