(* ===== verification/Adapter_Props.thy ===== *)
theory Adapter_Props
  imports Interleaving "HOL-Library.Product_Lexorder"
begin

text \<open>
  Properties of the database adapter: conditions, sorting and limits, atomic operations,
  transactions, and the fallbacks under concurrency.
\<close>

section \<open>Sorting\<close>

text \<open>
  The order of \<open>_sort_key\<close> on a date column that may be null: nulls first, last when the
  direction is descending.
\<close>

definition date_key :: "sort_by \<Rightarrow> row \<Rightarrow> int \<times> int" where
  "date_key sb r =
     (case dget r (sb_field sb) of
        VDate t \<Rightarrow> if sb_desc sb then (0, - t) else (1, t)
      | _ \<Rightarrow> if sb_desc sb then (1, 0) else (0, 0))"

definition date_column :: "string \<Rightarrow> row list \<Rightarrow> bool" where
  "date_column f rs = list_all (\<lambda>r. dget r f = VNone \<or> is_date (dget r f)) rs"

lemma row_lt_date:
  assumes "dget r (sb_field sb) = VNone \<or> is_date (dget r (sb_field sb))"
    and "dget r' (sb_field sb) = VNone \<or> is_date (dget r' (sb_field sb))"
  shows "row_lt sb r r' = Inr (date_key sb r < date_key sb r')"
  using assms
  by (auto simp: row_lt_def sort_key_lt_def date_key_def is_date_def Let_def split: pyval.splits)

lemma insert_sorted_insort:
  assumes "date_column (sb_field sb) (x # ys)"
  shows "insert_sorted (row_lt sb) x ys = Inr (insort_key (date_key sb) x ys)"
  using assms
proof (induction ys)
  case (Cons y ys)
  then have "row_lt sb y x = Inr (date_key sb y < date_key sb x)"
    by (intro row_lt_date) (auto simp: date_column_def)
  with Cons show ?case by (auto simp: date_column_def)
qed simp

lemma sort_rows_sort_key:
  assumes "date_column (sb_field sb) rs"
  shows "sort_rows (row_lt sb) rs = Inr (sort_key (date_key sb) rs)"
  using assms
proof (induction rs)
  case (Cons x xs)
  then have "date_column (sb_field sb) (x # sort_key (date_key sb) xs)"
    by (simp add: date_column_def list_all_iff)
  with Cons show ?case
    by (simp add: insert_sorted_insort date_column_def)
qed simp

section \<open>Transactions\<close>

definition lookup_id :: "row list \<Rightarrow> string \<Rightarrow> row option" where
  "lookup_id rs i = List.find (\<lambda>r. dget r ''id'' = VStr i) rs"

lemma find_rev_unique:
  assumes "\<And>x y. x \<in> set xs \<Longrightarrow> y \<in> set xs \<Longrightarrow> P x \<Longrightarrow> P y \<Longrightarrow> x = y"
  shows "List.find P (rev xs) = List.find P xs"
proof (cases "List.find P xs")
  case None
  then show ?thesis by (metis find_None_all set_rev)
next
  case (Some x)
  then obtain y where "List.find P (rev xs) = Some y"
    by (metis find_None_all find_Some_in not_None_eq set_rev)
  with Some assms show ?thesis using find_Some_in[of P xs] find_Some_in[of P "rev xs"] by auto
qed

lemma by_id_lookup:
  assumes "str_ids rs"
  shows "by_id rs (VStr i) = lookup_id rs i"
proof -
  have "x = y" if "x \<in> set rs" "y \<in> set rs" "dget x ''id'' = VStr i" "dget y ''id'' = VStr i" for x y
    using assms that by (auto simp: str_ids_def row_ids_def distinct_map inj_on_def)
  then show ?thesis
    unfolding by_id_def lookup_id_def by (subst find_rev_unique) auto
qed

lemma lookup_id_append:
  "lookup_id (xs @ ys) i = (case lookup_id xs i of None \<Rightarrow> lookup_id ys i | Some r \<Rightarrow> Some r)"
  unfolding lookup_id_def find_append ..

lemma lookup_id_Some: "lookup_id rs i = Some r \<Longrightarrow> r \<in> set rs \<and> dget r ''id'' = VStr i"
  unfolding lookup_id_def by (rule find_Some_in)

lemma lookup_id_None: "lookup_id rs i = None \<longleftrightarrow> (\<forall>r\<in>set rs. dget r ''id'' \<noteq> VStr i)"
  by (simp add: lookup_id_def find_None_all)

lemma map_filter_cong_set:
  "(\<And>x. x \<in> set xs \<Longrightarrow> f x = g x) \<Longrightarrow> List.map_filter f xs = List.map_filter g xs"
  by (induction xs) (auto simp: map_filter_simps split: option.splits)

lemma lookup_id_map_filter:
  assumes "\<And>r r'. g r = Some r' \<Longrightarrow> dget r' ''id'' = dget r ''id''" "str_ids rs"
  shows "lookup_id (List.map_filter g rs) i = Option.bind (lookup_id rs i) g"
  using assms(2)
proof (induction rs)
  case (Cons r rs)
  then have ids: "str_ids rs" by (simp add: str_ids_def row_ids_def)
  have "lookup_id rs i = None" if "dget r ''id'' = VStr i"
    using Cons.prems that by (auto simp: lookup_id_None str_ids_def row_ids_def image_iff)
  with Cons.IH[OF ids] assms(1) show ?case
    by (cases "g r"; cases "dget r ''id'' = VStr i")
      (auto simp: lookup_id_def map_filter_simps)
qed (simp add: lookup_id_def map_filter_simps)

lemma lookup_id_filter:
  assumes "\<And>r. dget r ''id'' = VStr i \<Longrightarrow> P r = Q"
  shows "lookup_id (filter P rs) i = (if Q then lookup_id rs i else None)"
  using assms by (induction rs) (auto simp: lookup_id_def)

text \<open>The row a committed transaction leaves under an id, from the three versions of the table.\<close>

definition merged_row ::
    "row option \<Rightarrow> row option \<Rightarrow> row option \<Rightarrow> row option" where
  "merged_row live before after =
     (case (before, after) of
        (Some _, None) \<Rightarrow> None
      | (Some b, Some a) \<Rightarrow> (case live of None \<Rightarrow> None | Some l \<Rightarrow> Some (if row_eq a b then l else a))
      | (None, Some a) \<Rightarrow> Some a
      | (None, None) \<Rightarrow> live)"

lemma merge_rows_lookup:
  assumes live: "str_ids live" and base: "str_ids base" and clone: "str_ids clone"
  shows "lookup_id (merge_rows live base clone) i =
         merged_row (lookup_id live i) (lookup_id base i) (lookup_id clone i)"
proof -
  define g where "g = (\<lambda>r. let i = dget r ''id''
       in case (by_id base i, by_id clone i) of
            (Some _, None) \<Rightarrow> None
          | (before, Some after) \<Rightarrow>
              Some (if (case before of None \<Rightarrow> True | Some b \<Rightarrow> \<not> row_eq after b) then after else r)
          | (None, None) \<Rightarrow> Some r)"
  have by_id_id: "dget r' ''id'' = v" if "by_id rs v = Some r'" "is_str v" for rs r' v
    using find_Some_in[OF that(1)[unfolded by_id_def]] that(2)
    by (auto simp: is_str_def split: pyval.splits)
  have live_str: "is_str (dget r ''id'')" if "r \<in> set live" for r
    using live that by (auto simp: str_ids_def list_all_iff)
  define h where "h = (\<lambda>r. if is_str (dget r ''id'') then g r else None)"
  have "merge_live live base clone = List.map_filter g live"
    unfolding merge_live_def g_def by (simp add: Let_def)
  also have "\<dots> = List.map_filter h live"
    by (rule map_filter_cong_set) (simp add: h_def live_str)
  finally have ml: "merge_live live base clone = List.map_filter h live" .
  have "dget r' ''id'' = dget r ''id''" if "h r = Some r'" for r r'
    using that by_id_id
    by (auto simp: h_def g_def Let_def split: if_splits option.splits prod.splits)
  from lookup_id_map_filter[OF this live] ml
  have first: "lookup_id (merge_live live base clone) i = Option.bind (lookup_id live i) h" by simp
  have hv: "h r = g r" "g r = (case (lookup_id base i, lookup_id clone i) of
            (Some _, None) \<Rightarrow> None
          | (before, Some after) \<Rightarrow>
              Some (if (case before of None \<Rightarrow> True | Some b \<Rightarrow> \<not> row_eq after b) then after else r)
          | (None, None) \<Rightarrow> Some r)" if "dget r ''id'' = VStr i" for r
    using that by (simp_all add: h_def g_def is_str_def by_id_lookup[OF base] by_id_lookup[OF clone] Let_def
        cong: option.case_cong)
  have placed: "placed_id live base clone (VStr i) \<longleftrightarrow>
      lookup_id live i \<noteq> None \<and> \<not> (lookup_id base i \<noteq> None \<and> lookup_id clone i = None)"
  proof -
    have "lookup_id live i \<noteq> None \<longleftrightarrow> (\<exists>r\<in>set live. dget r ''id'' = VStr i)"
      by (auto simp: lookup_id_None)
    then show ?thesis
      by (auto simp: placed_id_def list_ex_iff by_id_lookup[OF base] by_id_lookup[OF clone])
  qed
  have second: "lookup_id (filter (\<lambda>r. by_id base (dget r ''id'') = None \<and>
        \<not> placed_id live base clone (dget r ''id'')) clone) i =
      (if lookup_id base i = None \<and> lookup_id live i = None then lookup_id clone i else None)"
    by (rule lookup_id_filter) (auto simp: placed by_id_lookup[OF base])
  show ?thesis
  proof (cases "lookup_id live i")
    case None
    then show ?thesis
      by (auto simp: merge_rows_def lookup_id_append first second merged_row_def split: option.splits)
  next
    case (Some l)
    with lookup_id_Some[OF Some] show ?thesis
      by (auto simp: merge_rows_def lookup_id_append first second merged_row_def hv split: option.splits)
  qed
qed

lemma merge_models_other:
  "m \<notin> set ms \<Longrightarrow> rows_of (merge_models ms target base clone) m = rows_of target m"
proof (induction ms arbitrary: target)
  case (Cons k ms)
  have "rows_of (ddrop k target) m = rows_of target m" if "m \<noteq> k"
    using that by (simp add: rows_of_def ddrop_def map_of_filter_keys[of "\<lambda>k'. k' \<noteq> k"])
  with Cons show ?case by (auto split: option.splits)
qed simp

lemma merge_models_rows:
  assumes "distinct ms" "m \<in> set ms" "map_of clone m \<noteq> None"
  shows "rows_of (merge_models ms target base clone) m =
         merge_rows (rows_of target m) (rows_of base m) (rows_of clone m)"
  using assms
proof (induction ms arbitrary: target)
  case (Cons k ms)
  show ?case
  proof (cases "k = m")
    case True
    with Cons.prems show ?thesis by (auto simp: merge_models_other rows_of_def[of clone] split: option.splits)
  next
    case False
    have drop: "rows_of (ddrop k target) m = rows_of target m"
      using False by (simp add: rows_of_def ddrop_def map_of_filter_keys[of "\<lambda>k'. k' \<noteq> k"])
    from False Cons show ?thesis by (auto simp: drop split: option.splits)
  qed
qed simp

section \<open>Properties\<close>

text \<open>A small table for the witnesses.\<close>

definition demo_adapter :: adapter where
  "demo_adapter = \<lparr>ad_schema = CORE_SCHEMA, ad_caps = all_caps,
     ad_codec = \<lparr>json_dumps = (\<lambda>_. Inl TypeError), json_loads = (\<lambda>_. Inl ValueError),
                isoformat = (\<lambda>_. []), strftime_s = (\<lambda>_. []), fromisoformat = (\<lambda>_. Inl ValueError)\<rparr>,
     ad_limit = 100, ad_generate_id = GenDefault\<rparr>"

definition demo_rows :: "row list" where
  "demo_rows = [
     [(''id'', VStr ''a''), (''identifier'', VStr ''x''), (''n'', VInt 1), (''createdAt'', VDate 10)],
     [(''id'', VStr ''b''), (''identifier'', VStr ''x''), (''n'', VInt 2), (''createdAt'', VDate 30)],
     [(''id'', VStr ''c''), (''identifier'', VStr ''y''), (''n'', VInt 3), (''createdAt'', VNone)]]"

definition demo_store :: store where
  "demo_store = [(''verification'', demo_rows)]"

lemma native_demo [simp]: "native demo_adapter"
  by (simp add: native_def demo_adapter_def)

text \<open>
  The left fold of \<open>_matches\<close>. A non-empty where list whose clauses are all joined by AND
  selects a row exactly when every clause holds of it, whatever the number of clauses, and one
  more clause joined by OR widens the selection to the rows that clause holds of; an error in
  the clause is raised.
\<close>
theorem matches_semantics:
  assumes "wh \<noteq> []"
  shows "((\<forall>c\<in>set wh. cl_conn c = AND \<and> eval_clause r c = Inr (h c)) \<longrightarrow>
            matches r wh = Inr (\<forall>c\<in>set wh. h c)) \<and>
         (cl_conn d = OR \<longrightarrow> matches r (wh @ [d]) =
            bindR (matches r wh) (\<lambda>x. bindR (eval_clause r d) (\<lambda>y. Inr (x \<or> y))))"
  using matches_and[of wh r h] matches_snoc[OF assms, of r d]
  by (auto simp: list_all_iff)

theorem matches_semantics_witness:
  "matches [(''n'', VInt 1)] ([WhereOp ''n'' (VInt 0) OGt] @ [(Where ''n'' (VInt 7))\<lparr>cl_conn := OR\<rparr>]) =
     Inr True"
  using matches_semantics[of "[WhereOp ''n'' (VInt 0) OGt]" "[(''n'', VInt 1)]" "\<lambda>_. True"
      "(Where ''n'' (VInt 7))\<lparr>cl_conn := OR\<rparr>"]
  by (simp add: dget_def) (simp add: eval_clause_def Where_def dget_def)

text \<open>
  \<open>find_many\<close> sorted on a date column that may be null returns exactly the matching rows, in
  stable order of that column (nulls first, or last when descending), from the offset and cut
  at the limit. In particular a descending read with limit 1 returns a latest matching row.
\<close>
theorem find_many_sorted:
  assumes "native ad" "safe wh (rows_of st m)" "date_column (sb_field sb) (rows_of st m)"
  shows "mem_find_many ad m wh limit (Some sb) offset [] st =
     (Inr (slice_to (find_limit ad limit)
        ((case offset of None \<Rightarrow> id | Some k \<Rightarrow> slice_from k)
          (sort_key (date_key sb) (filter (sel wh) (rows_of st m))))), st)"
proof -
  have "date_column (sb_field sb) (filter (sel wh) (rows_of st m))"
    using assms(3) by (simp add: date_column_def list_all_iff)
  with assms show ?thesis
    by (simp add: mem_find_many_def filter_rows_safe sort_rows_sort_key split: option.splits)
qed

theorem find_many_sorted_witness:
  "mem_find_many demo_adapter ''verification'' [Where ''identifier'' (VStr ''x'')] (Some 1)
     (Some \<lparr>sb_field = ''createdAt'', sb_desc = True\<rparr>) None [] demo_store =
   (Inr [demo_rows ! 1], demo_store)"
proof -
  have rows: "rows_of demo_store ''verification'' = demo_rows"
    by (simp add: rows_of_def demo_store_def)
  have "date_column ''createdAt'' demo_rows"
    by (simp add: date_column_def demo_rows_def dget_def is_date_def)
  with find_many_sorted[of demo_adapter "[Where ''identifier'' (VStr ''x'')]" demo_store
      "''verification''" "\<lparr>sb_field = ''createdAt'', sb_desc = True\<rparr>" "Some 1" None]
  show ?thesis
    by (simp add: rows) (simp add: demo_rows_def dget_def date_key_def find_limit_def
        slice_to_def slice_bound_def insort_key_def)
qed

text \<open>
  \<open>delete_many\<close> reports as many rows as \<open>count\<close> gave for the same condition, leaves none of
  them, and keeps every other row, in order and unchanged.
\<close>
theorem delete_many_count:
  assumes "safe wh (rows_of st m)"
  shows "\<exists>n st'. mem_count m wh st = (Inr n, st) \<and> mem_delete_many m wh st = (Inr n, st') \<and>
           mem_count m wh st' = (Inr 0, st') \<and>
           rows_of st' m = filter (\<lambda>r. \<not> sel wh r) (rows_of st m) \<and>
           (\<forall>m'. m' \<noteq> m \<longrightarrow> rows_of st' m' = rows_of st m')"
proof -
  have "safe wh (filter (\<lambda>r. \<not> sel wh r) (rows_of st m))"
    by (rule safe_subset[OF assms]) auto
  with assms show ?thesis
    by (simp add: mem_delete_many_safe mem_count_def filter_rows_safe filter_empty_conv)
qed

theorem delete_many_count_witness:
  "\<exists>st'. mem_delete_many ''verification'' [Where ''identifier'' (VStr ''x'')] demo_store = (Inr 2, st') \<and>
     mem_count ''verification'' [Where ''identifier'' (VStr ''x'')] st' = (Inr 0, st')"
proof -
  have "mem_count ''verification'' [Where ''identifier'' (VStr ''x'')] demo_store = (Inr 2, demo_store)"
    by (simp add: mem_count_def filter_rows_safe rows_of_def demo_store_def demo_rows_def dget_def)
  with delete_many_count[of "[Where ''identifier'' (VStr ''x'')]" demo_store "''verification''"]
  show ?thesis by auto
qed

text \<open>
  A credential row is consumed once. \<open>consume_one\<close> by id on a table with unique ids returns
  the row and deletes it and nothing else; a second call finds nothing and changes nothing.
\<close>
theorem consume_one_once:
  assumes "native ad" "str_ids (rows_of st m)" "mem_consume_one ad m [Where ''id'' (VStr i)] st = (Inr (Some r), st')"
  shows "r \<in> set (rows_of st m) \<and> dget r ''id'' = VStr i \<and>
         rows_of st' m = filter (\<lambda>q. dget q ''id'' \<noteq> VStr i) (rows_of st m) \<and>
         fst (mem_consume_one ad m [Where ''id'' (VStr i)] st') = Inr None \<and>
         rows_of (snd (mem_consume_one ad m [Where ''id'' (VStr i)] st')) m = rows_of st' m"
proof -
  let ?wh = "[Where ''id'' (VStr i)]" and ?rs = "rows_of st m"
  have sel: "sel ?wh = (\<lambda>q. dget q ''id'' = VStr i)" by (rule ext) simp
  from assms have r: "List.find (sel ?wh) ?rs = Some r" and st': "rows_of st' m = drop_first (sel ?wh) ?rs"
    by (auto simp: mem_consume_one_safe)
  have drop: "drop_first (\<lambda>q. dget q ''id'' = VStr i) ?rs = filter (\<lambda>q. dget q ''id'' \<noteq> VStr i) ?rs"
    using assms(2) by (intro drop_first_distinct) (simp add: str_ids_def row_ids_def)
  then have "List.find (sel ?wh) (rows_of st' m) = None"
    by (simp add: st' sel find_None_all)
  moreover have "drop_first (sel ?wh) (rows_of st' m) = rows_of st' m"
    by (simp add: st' sel drop)
  ultimately show ?thesis
    using find_Some_in[OF r] assms(1) by (simp add: mem_consume_one_safe st' sel drop)
qed

theorem consume_one_once_witness:
  "fst (mem_consume_one demo_adapter ''verification'' [Where ''id'' (VStr ''b'')]
     (snd (mem_consume_one demo_adapter ''verification'' [Where ''id'' (VStr ''b'')] demo_store))) = Inr None"
proof -
  have rows: "rows_of demo_store ''verification'' = demo_rows"
    by (simp add: rows_of_def demo_store_def)
  have ids: "str_ids demo_rows"
    by (simp add: str_ids_def row_ids_def demo_rows_def dget_def is_str_def)
  let ?out = "mem_consume_one demo_adapter ''verification'' [Where ''id'' (VStr ''b'')] demo_store"
  have "fst ?out = Inr (Some (demo_rows ! 1))"
    by (simp add: mem_consume_one_safe rows) (simp add: demo_rows_def dget_def)
  then have "?out = (Inr (Some (demo_rows ! 1)), snd ?out)"
    by (metis prod.collapse)
  from consume_one_once[OF native_demo _ this] ids rows show ?thesis by simp
qed

text \<open>Guarded counters: the column holds integers or nulls.\<close>

definition int_column :: "string \<Rightarrow> row list \<Rightarrow> bool" where
  "int_column f rs = list_all (\<lambda>r. dget r f = VNone \<or> dget r f = VInt (count_of (dget r f))) rs"

lemma int_columnD: "int_column f rs \<Longrightarrow> r \<in> set rs \<Longrightarrow> dget r f = VNone \<or> (\<exists>n. dget r f = VInt n)"
  by (auto simp: int_column_def list_all_iff)

definition below_guard :: "string \<Rightarrow> string \<Rightarrow> int \<Rightarrow> clause list" where
  "below_guard i f mx = [Where ''id'' (VStr i), WhereOp f (VInt mx) OLt]"

lemma matches_below_guard:
  assumes "dget r f = VNone \<or> (\<exists>n. dget r f = VInt n)"
  shows "matches r (below_guard i f mx) =
     Inr (dget r ''id'' = VStr i \<and> (\<exists>n. dget r f = VInt n \<and> n < mx))"
  using assms by (auto simp: below_guard_def matches_def)

lemma find_unique:
  assumes "\<And>x. x \<in> set xs \<Longrightarrow> P x \<Longrightarrow> x = y" "y \<in> set xs" "P y"
  shows "List.find P xs = Some y"
proof (cases "List.find P xs")
  case None
  with assms show ?thesis by (auto simp: find_None_all)
next
  case (Some x)
  with find_Some_in[OF Some] assms(1) show ?thesis by auto
qed

text \<open>
  A guarded increment never passes its bound and is never lost: with unique ids,
  \<open>increment_one\<close> under the guard \<open>f < max\<close> either adds the delta to a counter that was below the
  bound, and returns the row with the new value, or answers \<open>None\<close> and changes no row, which
  happens only when the row is missing, its counter is null, or the bound is reached.
\<close>
theorem increment_one_guarded:
  assumes ad: "native ad" and ids: "str_ids (rows_of st m)" and col: "int_column f (rows_of st m)"
    and f: "f \<noteq> ''id''"
    and out: "mem_increment_one ad ev m (below_guard i f mx) (Some [(f, VInt d)]) None st = (res, st')"
  shows "(\<exists>r r' n. res = Inr (Some r') \<and> lookup_id (rows_of st m) i = Some r \<and> dget r f = VInt n \<and>
             n < mx \<and> dget r' f = VInt (n + d) \<and> lookup_id (rows_of st' m) i = Some r' \<and>
             (\<forall>j. j \<noteq> i \<longrightarrow> lookup_id (rows_of st' m) j = lookup_id (rows_of st m) j)) \<or>
         (res = Inr None \<and> rows_of st' m = rows_of st m \<and>
           (case lookup_id (rows_of st m) i of None \<Rightarrow> True
            | Some r \<Rightarrow> dget r f = VNone \<or> (\<exists>n. dget r f = VInt n \<and> mx \<le> n)))"
proof -
  let ?rs = "rows_of st m" and ?wh = "below_guard i f mx"
  let ?P = "\<lambda>r. dget r ''id'' = VStr i \<and> (\<exists>n. dget r f = VInt n \<and> n < mx)"
  let ?g = "incremented_row [(f, VInt d)] None"
  have m: "matches r ?wh = Inr (?P r)" if "r \<in> set ?rs" for r
    using matches_below_guard int_columnD[OF col that] by blast
  then have safe: "safe ?wh ?rs" by (auto simp: safe_def)
  have find_eq: "List.find (sel ?wh) ?rs = List.find ?P ?rs"
    using m by (intro find_cong_set) (simp add: sel_def)
  have map_eq: "map_first (sel ?wh) ?g ?rs = map_first ?P ?g ?rs"
    using m by (intro map_first_cong_set) (simp add: sel_def)
  have "check_increment (Some [(f, VInt d)]) None = Inr [(f, VInt d)]"
    by (simp add: check_increment_def is_delta_def)
  from mem_increment_one_ok[OF ad safe this, of None ev] out find_eq map_eq
  have res: "res = Inr (map_option ?g (List.find ?P ?rs))" and st': "rows_of st' m = map_first ?P ?g ?rs"
    by auto
  have same: "x = y" if "x \<in> set ?rs" "y \<in> set ?rs" "dget x ''id'' = VStr i" "dget y ''id'' = VStr i" for x y
    using ids that by (auto simp: str_ids_def row_ids_def distinct_map inj_on_def)
  have g_id: "dget (?g r) ''id'' = dget r ''id''" for r
    using f by (simp add: incremented_row_def)
  show ?thesis
  proof (cases "List.find ?P ?rs")
    case (Some r)
    from find_Some_in[OF Some] obtain n where
      r: "r \<in> set ?rs" "dget r ''id'' = VStr i" "dget r f = VInt n" "n < mx" by auto
    have look: "lookup_id ?rs i = Some r"
      unfolding lookup_id_def using r same by (intro find_unique) auto
    have g_f: "dget (?g r) f = VInt (n + d)"
      using r by (simp add: incremented_row_def add_delta_def)
    have other: "lookup_id (map_first ?P ?g ?rs) j = lookup_id ?rs j" if "j \<noteq> i" for j
      unfolding lookup_id_def using that by (intro find_map_first_other) (auto simp: g_id)
    have "lookup_id (map_first ?P ?g ?rs) i = Some (?g r)"
    proof -
      have "q \<in> set ?rs \<Longrightarrow> dget q ''id'' = VStr i \<Longrightarrow> ?P q" for q
        using same[OF r(1) _ r(2)] r by auto
      then have "map_first ?P ?g ?rs = map_first (\<lambda>q. dget q ''id'' = VStr i) ?g ?rs"
        by (intro map_first_cong_set) auto
      then show ?thesis
        using look by (simp add: lookup_id_def find_map_first g_id)
    qed
    with Some r look g_f other show ?thesis by (auto simp: res st')
  next
    case None
    then have none: "\<forall>r\<in>set ?rs. \<not> ?P r" by (simp add: find_None_all)
    have "case lookup_id ?rs i of None \<Rightarrow> True
          | Some r \<Rightarrow> dget r f = VNone \<or> (\<exists>n. dget r f = VInt n \<and> mx \<le> n)"
      using none int_columnD[OF col] by (fastforce split: option.splits dest: lookup_id_Some)
    with None none show ?thesis by (simp add: res st')
  qed
qed

theorem increment_one_guarded_witness:
  "\<exists>st'. mem_increment_one demo_adapter \<lparr>now = 0, rnd_id = [], rnd_uuid = []\<rparr> ''verification''
     (below_guard ''b'' ''n'' 2) (Some [(''n'', VInt 1)]) None demo_store = (Inr None, st') \<and>
     rows_of st' ''verification'' = demo_rows"
proof -
  let ?ev = "\<lparr>now = 0, rnd_id = [], rnd_uuid = []\<rparr>"
  let ?out = "mem_increment_one demo_adapter ?ev ''verification''
     (below_guard ''b'' ''n'' 2) (Some [(''n'', VInt 1)]) None demo_store"
  have rows: "rows_of demo_store ''verification'' = demo_rows"
    by (simp add: rows_of_def demo_store_def)
  have ids: "str_ids demo_rows" and col: "int_column ''n'' demo_rows"
    by (simp_all add: str_ids_def row_ids_def demo_rows_def dget_def is_str_def int_column_def count_of_def)
  have look: "lookup_id demo_rows ''b'' = Some (demo_rows ! 1)"
    by (simp add: lookup_id_def demo_rows_def dget_def)
  have n: "dget (demo_rows ! 1) ''n'' = VInt 2" by (simp add: demo_rows_def dget_def)
  from increment_one_guarded[of demo_adapter demo_store "''verification''" "''n''" ?ev "''b''" 2 1 "fst ?out" "snd ?out"]
  show ?thesis by (auto simp: rows ids col look n[simplified] prod_eq_iff)
qed

text \<open>
  A committed transaction is merged row by row. With unique ids in the live table, in the
  snapshot the transaction started from and in its clone, the row left under an id is: gone if
  the transaction deleted it; the transaction's version if it created or changed the row and the
  row still lives; and the live version, with every concurrent edit, if the transaction did not
  change it. A failed callback leaves exactly what the concurrent writers made.
\<close>
theorem transaction_merge:
  assumes "str_ids (rows_of (meanwhile base) m)" "str_ids (rows_of base m)"
  shows "(\<forall>a clone. callback base = (Inr a, clone) \<longrightarrow> str_ids (rows_of clone m) \<longrightarrow>
            map_of clone m \<noteq> None \<longrightarrow>
            fst (mem_transaction callback meanwhile base) = Inr a \<and>
            lookup_id (rows_of (snd (mem_transaction callback meanwhile base)) m) i =
              merged_row (lookup_id (rows_of (meanwhile base) m) i)
                (lookup_id (rows_of base m) i) (lookup_id (rows_of clone m) i)) \<and>
         (\<forall>e clone. callback base = (Inl e, clone) \<longrightarrow>
            mem_transaction callback meanwhile base = (Inl e, meanwhile base))"
proof (intro conjI allI impI)
  fix a clone
  assume cb: "callback base = (Inr a, clone)" and ids: "str_ids (rows_of clone m)"
    and key: "map_of clone m \<noteq> None"
  have "m \<in> set (remdups (map fst base @ map fst clone))"
    using key by (auto simp: map_of_eq_None_iff)
  from merge_models_rows[OF distinct_remdups this key] merge_rows_lookup[OF assms ids, of i] cb
  show "lookup_id (rows_of (snd (mem_transaction callback meanwhile base)) m) i =
     merged_row (lookup_id (rows_of (meanwhile base) m) i)
       (lookup_id (rows_of base m) i) (lookup_id (rows_of clone m) i)"
    by (simp add: mem_transaction_def merge_transaction_into_def)
  show "fst (mem_transaction callback meanwhile base) = Inr a"
    using cb by (simp add: mem_transaction_def)
qed (simp add: mem_transaction_def)

text \<open>
  The witness: the transaction consumes row \<open>b\<close>; meanwhile another coroutine consumes row \<open>a\<close>.
\<close>
theorem transaction_merge_witness:
  "lookup_id (rows_of (snd (mem_transaction
      (mem_consume_one demo_adapter ''verification'' [Where ''id'' (VStr ''b'')])
      (set_rows ''verification'' (tl demo_rows)) demo_store)) ''verification'') ''b'' = None"
proof -
  let ?cb = "mem_consume_one demo_adapter ''verification'' [Where ''id'' (VStr ''b'')]"
  have rows: "rows_of demo_store ''verification'' = demo_rows"
    by (simp add: rows_of_def demo_store_def)
  have cb: "?cb demo_store = (Inr (Some (demo_rows ! 1)), set_rows ''verification'' [demo_rows ! 0, demo_rows ! 2] demo_store)"
    by (simp add: mem_consume_one_safe rows) (simp add: demo_rows_def dget_def)
  have ids: "str_ids demo_rows" "str_ids (tl demo_rows)" "str_ids [demo_rows ! 0, demo_rows ! 2]"
    by (simp_all add: str_ids_def row_ids_def demo_rows_def dget_def is_str_def)
  have look: "lookup_id demo_rows ''b'' = Some (demo_rows ! 1)"
    "lookup_id [demo_rows ! 0, demo_rows ! 2] ''b'' = None"
    by (simp_all add: lookup_id_def demo_rows_def dget_def)
  have key: "map_of (set_rows ''verification'' [demo_rows ! 0, demo_rows ! 2] demo_store) ''verification'' \<noteq> None"
    by (simp add: set_rows_def)
  from transaction_merge[of "set_rows ''verification'' (tl demo_rows)" demo_store "''verification''" ?cb "''b''"]
    ids rows cb key look
  show ?thesis by (simp add: merged_row_def)
qed

text \<open>
  The transform pipeline of a native backend. Under a declared field it stores the caller's
  value after the field's own normalisation, a default for an absent value (or for \<open>None\<close> in a
  required field) on create, and a fresh \<open>onUpdate\<close> value on update when none was given; an
  undeclared column is stored as given; \<open>id\<close> is kept when supplied and generated on create when
  the strategy generates one.
\<close>
theorem transform_input_spec:
  assumes "native ad" "map_of (ad_schema ad) m = Some fs" "distinct (map fst fs)"
  shows "\<exists>out. transform_input ad ev m data action = Inr out \<and>
     (\<forall>k. k \<noteq> ''id'' \<longrightarrow> map_of out k =
        (case map_of fs k of None \<Rightarrow> map_of data k | Some f \<Rightarrow> field_value ev action k f (map_of data k))) \<and>
     map_of out ''id'' =
        (if action = ''create'' \<and> map_of data ''id'' = None
         then map_option VStr (resolve_generated_id ev m (ad_generate_id ad)) else map_of data ''id'')"
proof -
  define d where "d = (if action = ''create'' \<and> \<not> has_key data ''id'' then
                       (case resolve_generated_id ev m (ad_generate_id ad) of
                          Some i \<Rightarrow> dset ''id'' (VStr i) data
                        | None \<Rightarrow> data)
                     else data)"
  have d: "map_of d k = map_of data k" if "k \<noteq> ''id''" for k
    using that by (simp add: d_def split: option.splits)
  have d_id: "map_of d ''id'' = (if action = ''create'' \<and> map_of data ''id'' = None
         then map_option VStr (resolve_generated_id ev m (ad_generate_id ad)) else map_of data ''id'')"
    by (auto simp: d_def has_key_def split: option.splits)
  from transform_fields_spec[OF assms(3), of ev "ad_codec ad" action d] obtain out where
    out: "transform_fields ev (ad_codec ad) all_caps action fs d = Inr out"
      "\<And>k. map_of out k = (case map_of fs k of None \<Rightarrow> map_of d k | Some f \<Rightarrow> field_value ev action k f (map_of d k))"
    by blast
  have "map_of out ''id'' = map_of d ''id''"
    by (rule transform_fields_keeps(1)[OF out(1)])
  with out assms(1,2) d d_id show ?thesis
    by (intro exI[of _ out]) (simp add: transform_input_def native_def d_def cong: option.case_cong)
qed

theorem transform_input_spec_witness:
  "\<exists>out. transform_input demo_adapter \<lparr>now = 5, rnd_id = ''r'', rnd_uuid = []\<rparr> ''verification''
     [(''value'', VStr ''v'')] ''create'' = Inr out \<and> map_of out ''id'' = Some (VStr ''r'') \<and>
     map_of out ''createdAt'' = Some (VDate 5) \<and> map_of out ''value'' = Some (VStr ''v'')"
proof -
  let ?fs = "fields_of CORE_SCHEMA ''verification''"
  have fs: "map_of (ad_schema demo_adapter) ''verification'' = Some ?fs" "distinct (map fst ?fs)"
    by (simp_all add: demo_adapter_def fields_of_def CORE_SCHEMA_def)
  from transform_input_spec[OF native_demo fs, of "\<lparr>now = 5, rnd_id = ''r'', rnd_uuid = []\<rparr>"
      "[(''value'', VStr ''v'')]" "''create''"]
  show ?thesis
    by (auto simp: resolve_generated_id_def demo_adapter_def field_value_def fields_of_def CORE_SCHEMA_def
        mk_field_def created_at_field_def has_default_def make_default_def now_factory_def)
qed

section \<open>The fallbacks under concurrency\<close>








text \<open>
  C1: No lost update. Callers \<open>0..<n\<close> each run the \<open>increment_one\<close> fallback, a bare increment by
  their own delta, on one row of the memory adapter, interleaved in any order: after any number
  of steps the counter is its initial value plus the deltas of exactly those callers that have
  been told they succeeded.
\<close>
theorem increment_fallback_no_lost_update:
  assumes "\<And>i. counter_call rid fld (delta i) (calls i)" "fld \<noteq> ''id''" "plain_field ad m fld"
    and "(increment_step (\<lambda>wh. mem_find_one ad m wh []) (mem_update_many ad ev m) calls)\<^sup>*\<^sup>*
           (s\<^sub>0, ph\<^sub>0) (s, ph)"
    and "str_ids (rows_of s\<^sub>0 m)"
    and "\<And>i. ph\<^sub>0 i = (if i < n then IReady MAX_ATTEMPTS else IDone None)"
  shows "counter_at (rows_of s m) rid fld =
         counter_at (rows_of s\<^sub>0 m) rid fld + (\<Sum>k<n. earned delta ph k)"
  using assms by (rule mem_raw_updates.no_lost_update)

text \<open>
  The witness: callers 0 and 1 read the same snapshot; 0 swaps first, 1 loses its swap, reads
  again and swaps.
\<close>

definition inc_ev :: env where
  "inc_ev = \<lparr>now = 0, rnd_id = [], rnd_uuid = []\<rparr>"

definition inc_calls :: "nat \<Rightarrow> inc_call" where
  "inc_calls i = \<lparr>ic_where = [Where ''id'' (VStr ''b'')],
     ic_inc = [(''n'', VInt (if i = 0 then 5 else 7))], ic_pinned = [''updatedAt'']\<rparr>"

definition inc_plan :: "nat \<Rightarrow> store \<Rightarrow> attempt" where
  "inc_plan i s =
     (case plan_attempt (ic_where (inc_calls i)) (ic_inc (inc_calls i)) None (ic_pinned (inc_calls i))
             (lookup_id (rows_of s ''verification'') ''b'') of
        Inr p \<Rightarrow> p | Inl _ \<Rightarrow> Answer None)"

definition try_guard :: "attempt \<Rightarrow> clause list" where
  "try_guard p = (case p of Try g _ _ \<Rightarrow> g | Answer _ \<Rightarrow> [])"

definition try_write :: "attempt \<Rightarrow> row" where
  "try_write p = (case p of Try _ d _ \<Rightarrow> d | Answer _ \<Rightarrow> [])"

definition try_result :: "attempt \<Rightarrow> row" where
  "try_result p = (case p of Try _ _ r \<Rightarrow> r | Answer _ \<Rightarrow> [])"

definition inc_after :: "nat \<Rightarrow> store \<Rightarrow> store \<Rightarrow> int result \<times> store" where
  "inc_after i read_at s = mem_update_many demo_adapter inc_ev ''verification''
     (try_guard (inc_plan i read_at)) (try_write (inc_plan i read_at)) s"

definition inc_s1 :: store where "inc_s1 = snd (inc_after 0 demo_store demo_store)"
definition inc_s2 :: store where "inc_s2 = snd (inc_after 1 inc_s1 inc_s1)"

lemma inc_facts:
  "mem_find_one demo_adapter ''verification'' (ic_where (inc_calls 0)) [] demo_store =
     (Inr (lookup_id (rows_of demo_store ''verification'') ''b''), demo_store)"
  "mem_find_one demo_adapter ''verification'' (ic_where (inc_calls 1)) [] demo_store =
     (Inr (lookup_id (rows_of demo_store ''verification'') ''b''), demo_store)"
  "mem_find_one demo_adapter ''verification'' (ic_where (inc_calls 1)) [] inc_s1 =
     (Inr (lookup_id (rows_of inc_s1 ''verification'') ''b''), inc_s1)"
  "inc_after 0 demo_store demo_store = (Inr 1, inc_s1)"
  "inc_after 1 demo_store inc_s1 = (Inr 0, inc_s1)"
  "inc_after 1 inc_s1 inc_s1 = (Inr 1, inc_s2)"
  by code_simp+

lemma inc_plans:
  "plan_attempt (ic_where (inc_calls 0)) (ic_inc (inc_calls 0)) None (ic_pinned (inc_calls 0))
     (lookup_id (rows_of demo_store ''verification'') ''b'') =
     Inr (Try (try_guard (inc_plan 0 demo_store)) (try_write (inc_plan 0 demo_store)) (try_result (inc_plan 0 demo_store)))"
  "plan_attempt (ic_where (inc_calls 1)) (ic_inc (inc_calls 1)) None (ic_pinned (inc_calls 1))
     (lookup_id (rows_of demo_store ''verification'') ''b'') =
     Inr (Try (try_guard (inc_plan 1 demo_store)) (try_write (inc_plan 1 demo_store)) (try_result (inc_plan 1 demo_store)))"
  "plan_attempt (ic_where (inc_calls 1)) (ic_inc (inc_calls 1)) None (ic_pinned (inc_calls 1))
     (lookup_id (rows_of inc_s1 ''verification'') ''b'') =
     Inr (Try (try_guard (inc_plan 1 inc_s1)) (try_write (inc_plan 1 inc_s1)) (try_result (inc_plan 1 inc_s1)))"
  by code_simp+

definition inc_start :: "nat \<Rightarrow> incrementer" where
  "inc_start i = (if i < 2 then IReady MAX_ATTEMPTS else IDone None)"

lemma inc_run:
  "(increment_step (\<lambda>wh. mem_find_one demo_adapter ''verification'' wh [])
      (mem_update_many demo_adapter inc_ev ''verification'') inc_calls)\<^sup>*\<^sup>*
     (demo_store, inc_start)
     (inc_s2, inc_start(0 := IDone (Some (try_result (inc_plan 0 demo_store))),
                        1 := IDone (Some (try_result (inc_plan 1 inc_s1)))))"
proof -
  let ?R = "increment_step (\<lambda>wh. mem_find_one demo_adapter ''verification'' wh [])
      (mem_update_many demo_adapter inc_ev ''verification'') inc_calls"
  let ?T = "\<lambda>k i s. ITry k (try_guard (inc_plan i s)) (try_write (inc_plan i s)) (try_result (inc_plan i s))"
  let ?p1 = "inc_start(0 := ?T 4 0 demo_store)"
  let ?p2 = "?p1(1 := ?T 4 1 demo_store)"
  let ?p3 = "?p2(0 := IDone (Some (try_result (inc_plan 0 demo_store))))"
  let ?p4 = "?p3(1 := IReady 4)"
  let ?p5 = "?p4(1 := ?T 3 1 inc_s1)"
  let ?p6 = "?p5(1 := IDone (Some (try_result (inc_plan 1 inc_s1))))"
  have ready: "inc_start 0 = IReady (Suc 4)" "inc_start 1 = IReady (Suc 4)"
    by (simp_all add: inc_start_def MAX_ATTEMPTS_def)
  have s1: "?R (demo_store, inc_start) (demo_store, ?p1)"
    by (rule increment_step.plan[where i = 0 and n = 4]) (rule ready inc_facts(1) inc_plans(1))+
  have s2: "?R (demo_store, ?p1) (demo_store, ?p2)"
    by (rule increment_step.plan[where i = 1 and n = 4, rotated], rule inc_facts(2), rule inc_plans(2))
      (simp add: ready[simplified])
  have s3: "?R (demo_store, ?p2) (inc_s1, ?p3)"
    by (rule increment_step.swap[where count = 1 and g = "try_guard (inc_plan 0 demo_store)" and d = "try_write (inc_plan 0 demo_store)"])
      (simp_all add: inc_facts[unfolded inc_after_def, simplified] changed_one_def)
  have s4: "?R (inc_s1, ?p3) (inc_s1, ?p4)"
    by (rule increment_step.retry[where count = 0 and g = "try_guard (inc_plan 1 demo_store)" and d = "try_write (inc_plan 1 demo_store)"])
      (simp_all add: inc_facts[unfolded inc_after_def, simplified] changed_one_def)
  have s5: "?R (inc_s1, ?p4) (inc_s1, ?p5)"
    by (rule increment_step.plan[where i = 1 and n = 3, rotated], rule inc_facts(3), rule inc_plans(3)) simp
  have s6: "?R (inc_s1, ?p5) (inc_s2, ?p6)"
    by (rule increment_step.swap[where count = 1 and g = "try_guard (inc_plan 1 inc_s1)" and d = "try_write (inc_plan 1 inc_s1)"])
      (simp_all add: inc_facts[unfolded inc_after_def, simplified] changed_one_def)
  have eq: "?p6 = inc_start(0 := IDone (Some (try_result (inc_plan 0 demo_store))),
                        1 := IDone (Some (try_result (inc_plan 1 inc_s1))))"
    by (rule ext) simp
  show ?thesis
    unfolding eq[symmetric]
    by (rule converse_rtranclp_into_rtranclp, rule s1,
        rule converse_rtranclp_into_rtranclp, rule s2,
        rule converse_rtranclp_into_rtranclp, rule s3,
        rule converse_rtranclp_into_rtranclp, rule s4,
        rule converse_rtranclp_into_rtranclp, rule s5,
        rule converse_rtranclp_into_rtranclp, rule s6, rule rtranclp.rtrancl_refl)
qed

theorem increment_fallback_no_lost_update_witness:
  "counter_at (rows_of inc_s2 ''verification'') ''b'' ''n'' = 2 + (5 + 7)"
proof -
  have call: "counter_call ''b'' ''n'' (if i = 0 then 5 else 7) (inc_calls i)" for i
    by (simp add: counter_call_def inc_calls_def)
  have plain: "plain_field demo_adapter ''verification'' ''n''"
    by (simp add: plain_field_def demo_adapter_def native_def fields_of_def CORE_SCHEMA_def)
  have ids: "str_ids (rows_of demo_store ''verification'')" by code_simp
  have v0: "counter_at (rows_of demo_store ''verification'') ''b'' ''n'' = 2" by code_simp
  from increment_fallback_no_lost_update[OF call _ plain inc_run ids, of 2]
  show ?thesis by (simp add: inc_start_def v0 earned_def lessThan_nat_numeral lessThan_Suc)
qed

end
