(* ===== verification/KV.thy ===== *)
theory KV
  imports BA_Prelude
begin

text \<open>
  \<open>secondary_storage.py\<close>: the key-value contract (sessions, verification values, rate-limit
  counters) and \<open>MemorySecondaryStorage\<close>, its in-process implementation.

  A stored string is represented by what \<open>json.loads\<close> makes of it: \<open>Json v\<close> is a JSON text
  whose value is \<open>v\<close>, \<open>Raw s\<close> a text that is not JSON. Time is monotonic microseconds; the
  readings of one call are taken at one instant. The contract is the locale \<open>kv_store\<close>, with
  the interpretation \<open>mem_kv\<close> on the memory store.
\<close>

section \<open>Stored text\<close>

datatype kvtext = Json pyval | Raw string

definition text_truthy :: "kvtext option \<Rightarrow> bool" where
  "text_truthy t = (t \<noteq> None \<and> t \<noteq> Some (Raw []))"

definition loads :: "kvtext \<Rightarrow> pyval result" where
  "loads t = (case t of Json v \<Rightarrow> Inr v | Raw _ \<Rightarrow> Inl ValueError)"

text \<open>\<open>json.dumps\<close> refuses a \<open>datetime\<close> anywhere in the value.\<close>

fun is_json :: "pyval \<Rightarrow> bool" where
  "is_json (VDate _) = False"
| "is_json (VList xs) = list_all is_json xs"
| "is_json (VDict d) = list_all is_json (map snd d)"
| "is_json _ = True"

definition dumps :: "pyval \<Rightarrow> kvtext result" where
  "dumps v = (if is_json v then Inr (Json v) else Inl TypeError)"

text \<open>\<open>int(text)\<close>: a decimal integer, which is also a JSON text.\<close>

definition text_int :: "kvtext \<Rightarrow> int result" where
  "text_int t = (case t of Json (VInt n) \<Rightarrow> Inr n | _ \<Rightarrow> Inl ValueError)"

lemma loads_dumps: "dumps v = Inr t \<Longrightarrow> loads t = Inr v"
  by (auto simp: dumps_def loads_def split: if_splits)

section \<open>The memory store\<close>

record kv =
  kv_items :: "(string \<times> kvtext \<times> int option) list"
  kv_ttls :: "(string \<times> int option) list"

definition kv_expired :: "int \<Rightarrow> string \<Rightarrow> kv \<Rightarrow> bool" where
  "kv_expired t key s =
     (case map_of (kv_items s) key of
        None \<Rightarrow> True
      | Some (_, expires_at) \<Rightarrow> (case expires_at of None \<Rightarrow> False | Some e \<Rightarrow> t > e))"

definition kv_get :: "int \<Rightarrow> string \<Rightarrow> (kv, kvtext option) action" where
  "kv_get t key = (\<lambda>s.
     if kv_expired t key s then (Inr None, s\<lparr>kv_items := ddrop key (kv_items s)\<rparr>)
     else (Inr (map_option fst (map_of (kv_items s) key)), s))"

definition kv_set :: "int \<Rightarrow> string \<Rightarrow> kvtext \<Rightarrow> int option \<Rightarrow> (kv, unit) action" where
  "kv_set t key value ttl = (\<lambda>s.
     (Inr (), s\<lparr>kv_items := dset key (value, map_option (\<lambda>n. t + n * 1000000) ttl) (kv_items s),
                kv_ttls := dset key ttl (kv_ttls s)\<rparr>))"

definition kv_delete :: "string \<Rightarrow> (kv, unit) action" where
  "kv_delete key = (\<lambda>s.
     (Inr (), s\<lparr>kv_items := ddrop key (kv_items s), kv_ttls := ddrop key (kv_ttls s)\<rparr>))"

definition kv_get_and_delete :: "int \<Rightarrow> string \<Rightarrow> (kv, kvtext option) action" where
  "kv_get_and_delete t key =
     bindA (kv_get t key) (\<lambda>value.
       if value \<noteq> None then bindA (kv_delete key) (\<lambda>_. ret value) else ret value)"

definition kv_increment :: "int \<Rightarrow> string \<Rightarrow> int option \<Rightarrow> (kv, int) action" where
  "kv_increment t key ttl = (\<lambda>s.
     if kv_expired t key s then
       bindA (kv_set t key (Json (VInt 1)) ttl) (\<lambda>_. ret 1)
         (s\<lparr>kv_items := ddrop key (kv_items s)\<rparr>)
     else (case map_of (kv_items s) key of
             None \<Rightarrow> (Inl KeyError, s)
           | Some (value, expires_at) \<Rightarrow>
               (case text_int value of
                  Inl e \<Rightarrow> (Inl e, s)
                | Inr n \<Rightarrow>
                    (let remaining = map_option (\<lambda>e. max ((e - t) div 1000000) 0) expires_at
                     in (Inr (n + 1),
                         s\<lparr>kv_items := dset key (Json (VInt (n + 1)), expires_at) (kv_items s),
                           kv_ttls := dset key remaining (kv_ttls s)\<rparr>)))))"

section \<open>The contract\<close>

text \<open>
  \<open>view s t k\<close> is what a reader finds under \<open>k\<close> at time \<open>t\<close>. A \<open>set\<close> is visible until its
  ttl has passed, a \<open>delete\<close> removes the key, a \<open>get\<close> changes no view.
\<close>

definition ttl_live :: "int option \<Rightarrow> int \<Rightarrow> int \<Rightarrow> bool" where
  "ttl_live ttl t t' = (case ttl of None \<Rightarrow> True | Some n \<Rightarrow> t' \<le> t + n * 1000000)"

locale kv_store =
  fixes view :: "'s \<Rightarrow> int \<Rightarrow> string \<Rightarrow> kvtext option"
    and get :: "int \<Rightarrow> string \<Rightarrow> ('s, kvtext option) action"
    and put :: "int \<Rightarrow> string \<Rightarrow> kvtext \<Rightarrow> int option \<Rightarrow> ('s, unit) action"
    and del :: "string \<Rightarrow> ('s, unit) action"
  assumes get_result: "fst (get t k s) = Inr (view s t k)"
    and get_view: "t \<le> t' \<Longrightarrow> view (snd (get t k s)) t' k' = view s t' k'"
    and put_result: "fst (put t k v ttl s) = Inr ()"
    and put_view: "t \<le> t' \<Longrightarrow> view (snd (put t k v ttl s)) t' k' =
        (if k' = k then (if ttl_live ttl t t' then Some v else None) else view s t' k')"
    and del_result: "fst (del k s) = Inr ()"
    and del_view: "view (snd (del k s)) t' k' = (if k' = k then None else view s t' k')"
begin

text \<open>The read-then-delete of a single-use value, for a store whose steps are not interleaved.\<close>

definition take_once :: "int \<Rightarrow> string \<Rightarrow> ('s, kvtext option) action" where
  "take_once t k =
     bindA (get t k) (\<lambda>value.
       if value \<noteq> None then bindA (del k) (\<lambda>_. ret value) else ret value)"

lemma take_once_eq:
  "take_once t k s =
     (case view s t k of
        None \<Rightarrow> (Inr None, snd (get t k s))
      | Some v \<Rightarrow> (Inr (Some v), snd (del k (snd (get t k s)))))"
  using get_result[of t k s] del_result[of k "snd (get t k s)"]
  by (cases "get t k s"; cases "del k (snd (get t k s))")
    (auto simp: take_once_def bindA_def split: option.splits)

lemma take_once_result: "fst (take_once t k s) = Inr (view s t k)"
  by (simp add: take_once_eq split: option.splits)

lemma take_once_gone:
  assumes "t \<le> t'" "view s t k = None \<Longrightarrow> view s t' k = None"
  shows "view (snd (take_once t k s)) t' k = None"
  using assms by (auto simp: take_once_eq get_view del_view split: option.splits)

lemma take_once_others:
  assumes "t \<le> t'" "k' \<noteq> k"
  shows "view (snd (take_once t k s)) t' k' = view s t' k'"
  using assms by (simp add: take_once_eq get_view del_view split: option.splits)

end

definition kv_view :: "kv \<Rightarrow> int \<Rightarrow> string \<Rightarrow> kvtext option" where
  "kv_view s t k = (if kv_expired t k s then None else map_option fst (map_of (kv_items s) k))"

lemma map_of_ddrop [simp]: "map_of (ddrop k d) k' = (if k' = k then None else map_of d k')"
  by (induction d) (auto simp: ddrop_def)

lemma kv_expired_later: "kv_expired t k s \<Longrightarrow> t \<le> t' \<Longrightarrow> kv_expired t' k s"
  by (auto simp: kv_expired_def split: option.splits)

interpretation mem_kv: kv_store kv_view kv_get kv_set kv_delete
proof (unfold_locales, goal_cases)
  case (1 t k s)
  then show ?case by (simp add: kv_get_def kv_view_def)
next
  case (2 t t' k s k')
  then show ?case
    using kv_expired_later[of t k s t']
    by (simp add: kv_get_def kv_view_def) (auto simp: kv_expired_def)
next
  case (3 t k v ttl s)
  then show ?case by (simp add: kv_set_def)
next
  case (4 t t' k v ttl s k')
  then show ?case
    by (auto simp: kv_set_def kv_view_def kv_expired_def ttl_live_def split: option.splits)
next
  case (5 k s)
  then show ?case by (simp add: kv_delete_def)
next
  case (6 k s t' k')
  then show ?case by (simp add: kv_delete_def kv_view_def kv_expired_def)
qed

lemma take_once_mem: "mem_kv.take_once = kv_get_and_delete"
  by (intro ext) (simp add: mem_kv.take_once_def kv_get_and_delete_def)

section \<open>Properties\<close>

text \<open>
  A value is taken once. \<open>get_and_delete\<close> answers what a reader would have found, at any
  later time the key is gone, so a second taker gets nothing, and no other key changes.
\<close>
theorem get_and_delete_once:
  assumes "t \<le> t'"
  shows "fst (kv_get_and_delete t k s) = Inr (kv_view s t k) \<and>
    fst (kv_get_and_delete t' k (snd (kv_get_and_delete t k s))) = Inr None \<and>
    (\<forall>k'. k' \<noteq> k \<longrightarrow> kv_view (snd (kv_get_and_delete t k s)) t' k' = kv_view s t' k')"
proof -
  have "kv_view s t k = None \<Longrightarrow> kv_view s t' k = None"
    using kv_expired_later[OF _ assms, of k s]
    by (auto simp: kv_view_def kv_expired_def split: if_splits option.splits)
  from mem_kv.take_once_gone[OF assms this] show ?thesis
    using mem_kv.take_once_result mem_kv.take_once_others[OF assms]
    by (simp add: take_once_mem)
qed

definition demo_kv :: kv where
  "demo_kv = \<lparr>kv_items = [(''a'', Json (VStr ''x''), Some 5000000), (''b'', Json (VInt 1), None)],
              kv_ttls = []\<rparr>"

theorem get_and_delete_once_witness:
  "fst (kv_get_and_delete 7 ''a'' (snd (kv_get_and_delete 5 ''a'' demo_kv))) = Inr None \<and>
   fst (kv_get_and_delete 5 ''a'' demo_kv) = Inr (Some (Json (VStr ''x''))) \<and>
   kv_view (snd (kv_get_and_delete 5 ''a'' demo_kv)) 7 ''b'' = Some (Json (VInt 1))"
proof -
  have "kv_view demo_kv 5 ''a'' = Some (Json (VStr ''x''))" "kv_view demo_kv 7 ''b'' = Some (Json (VInt 1))"
    by code_simp+
  with get_and_delete_once[of 5 7 "''a''" demo_kv] show ?thesis by simp
qed

end
