(* ===== verification/RateLimit.thy ===== *)
theory RateLimit
  imports KV Adapter_Facts
begin

text \<open>
  Rate limiting: the storages of \<open>adapters/rate_limit.py\<close> and the request flow of
  \<open>rate_limit.py\<close>. Times of the memory and database storages are epoch milliseconds, taken as
  arguments; windows are seconds.
\<close>

section \<open>The rolling-window step\<close>

record counter =
  c_count :: int
  c_last :: int

record rule =
  rule_window :: int
  rule_max :: int

record decision =
  d_allowed :: bool
  d_retry_after :: "int option"

text \<open>\<open>math.ceil(x / 1000)\<close>.\<close>

definition retry_after :: "int \<Rightarrow> int \<Rightarrow> int \<Rightarrow> int" where
  "retry_after last_request window now_ms = - ((- (last_request + window * 1000 - now_ms)) div 1000)"

definition decide_consume ::
    "counter option \<Rightarrow> int \<Rightarrow> int \<Rightarrow> int \<Rightarrow> counter \<times> bool \<times> bool \<times> int option" where
  "decide_consume data window maximum now_ms =
     (case data of
        None \<Rightarrow> (\<lparr>c_count = 1, c_last = now_ms\<rparr>, False, True, None)
      | Some d \<Rightarrow>
          if now_ms - c_last d \<ge> window * 1000
            then (\<lparr>c_count = 1, c_last = now_ms\<rparr>, True, True, None)
          else if c_count d \<ge> maximum
            then (d, True, False, Some (retry_after (c_last d) window now_ms))
          else (\<lparr>c_count = c_count d + 1, c_last = now_ms\<rparr>, True, True, None))"

text \<open>The read-decide-write of a storage that has only \<open>get\<close> and \<open>set\<close>.\<close>

definition legacy_consume ::
    "(string \<Rightarrow> ('s, counter option) action) \<Rightarrow> (string \<Rightarrow> counter \<Rightarrow> bool \<Rightarrow> ('s, unit) action) \<Rightarrow>
     int \<Rightarrow> string \<Rightarrow> rule \<Rightarrow> ('s, decision) action" where
  "legacy_consume get set_row now_ms key r =
     bindA (get key) (\<lambda>data.
       let (next_row, is_update, allowed, wait) =
             decide_consume data (rule_window r) (rule_max r) now_ms
       in if \<not> allowed then ret \<lparr>d_allowed = False, d_retry_after = wait\<rparr>
          else bindA (set_row key next_row is_update) (\<lambda>_.
                 ret \<lparr>d_allowed = True, d_retry_after = None\<rparr>))"

section \<open>The memory storage\<close>

text \<open>Key to row and expiry, in insertion order.\<close>

type_synonym rl_memory = "(string \<times> counter \<times> int) list"

definition MEMORY_STORE_MAX_ENTRIES :: nat where
  "MEMORY_STORE_MAX_ENTRIES = 100000"

definition rl_prune :: "int \<Rightarrow> rl_memory \<Rightarrow> rl_memory" where
  "rl_prune now_ms s =
     (let live = filter (\<lambda>(_, _, expires_at). \<not> now_ms \<ge> expires_at) s
      in drop (length live - MEMORY_STORE_MAX_ENTRIES) live)"

definition rl_mem_consume :: "int \<Rightarrow> string \<Rightarrow> rule \<Rightarrow> (rl_memory, decision) action" where
  "rl_mem_consume now_ms key r s =
     (let s1 = rl_prune now_ms s;
          current = (case map_of s1 key of
                       Some (row, expires_at) \<Rightarrow> if now_ms < expires_at then Some row else None
                     | None \<Rightarrow> None);
          (next_row, _, allowed, wait) =
            decide_consume current (rule_window r) (rule_max r) now_ms
      in (Inr \<lparr>d_allowed = allowed, d_retry_after = wait\<rparr>,
          if allowed then dset key (next_row, now_ms + rule_window r * 1000) s1 else s1))"

definition rl_mem_get :: "int \<Rightarrow> string \<Rightarrow> (rl_memory, counter option) action" where
  "rl_mem_get now_ms key s =
     (case map_of s key of
        None \<Rightarrow> (Inr None, ddrop key s)
      | Some (row, expires_at) \<Rightarrow>
          if now_ms \<ge> expires_at then (Inr None, ddrop key s) else (Inr (Some row), s))"

definition rl_mem_set ::
    "int \<Rightarrow> int \<Rightarrow> string \<Rightarrow> counter \<Rightarrow> bool \<Rightarrow> (rl_memory, unit) action" where
  "rl_mem_set window now_ms key v update s = (Inr (), dset key (v, now_ms + window * 1000) s)"

section \<open>The database storage\<close>

text \<open>The adapter operations the storage calls.\<close>

record 's rl_table =
  rt_find_many :: "clause list \<Rightarrow> int option \<Rightarrow> ('s, row list) action"
  rt_create :: "row \<Rightarrow> ('s, row) action"
  rt_update_many :: "clause list \<Rightarrow> row \<Rightarrow> ('s, int) action"
  rt_increment_one :: "clause list \<Rightarrow> row option \<Rightarrow> row option \<Rightarrow> ('s, row option) action"
  rt_delete_many :: "clause list \<Rightarrow> ('s, int) action"

definition RATE_LIMIT_MODEL :: string where
  "RATE_LIMIT_MODEL = ''rateLimit''"

definition rl_db_get :: "'s rl_table \<Rightarrow> string \<Rightarrow> ('s, row option) action" where
  "rl_db_get tb key =
     bindA (rt_find_many tb [Where ''key'' (VStr key)] (Some 1)) (\<lambda>rows.
       ret (case rows of [] \<Rightarrow> None | r # _ \<Rightarrow> Some r))"

definition rl_db_set :: "'s rl_table \<Rightarrow> string \<Rightarrow> counter \<Rightarrow> bool \<Rightarrow> ('s, unit) action" where
  "rl_db_set tb key v update =
     (if update then
        bindA (rt_update_many tb [Where ''key'' (VStr key)]
          [(''count'', VInt (c_count v)), (''lastRequest'', VInt (c_last v))]) (\<lambda>_. ret ())
      else
        bindA (rt_create tb [(''key'', VStr key), (''count'', VInt (c_count v)),
          (''lastRequest'', VInt (c_last v))]) (\<lambda>_. ret ()))"

text \<open>\<open>row["lastRequest"]\<close> as the operand of a subtraction.\<close>

definition last_request :: "row \<Rightarrow> int result" where
  "last_request r =
     bindR (dindex r ''lastRequest'') (\<lambda>v.
       case py_num v of None \<Rightarrow> Inl TypeError | Some n \<Rightarrow> Inr n)"

definition delete_expired_rows :: "'s rl_table \<Rightarrow> int \<Rightarrow> ('s, unit) action" where
  "delete_expired_rows tb cutoff =
     catchA (bindA (rt_delete_many tb [WhereOp ''lastRequest'' (VInt cutoff) OLt]) (\<lambda>_. ret ()))
       (\<lambda>_. ret ())"

definition allow :: decision where
  "allow = \<lparr>d_allowed = True, d_retry_after = None\<rparr>"

text \<open>
  One attempt reads the clock at its start and once more for \<open>retry_after\<close>. Each recursive call
  of \<open>consume\<close> takes the next pair of readings; \<open>None\<close> when there is none left, so that a
  \<open>consume\<close> that keeps retrying is a value of the model.
\<close>

fun rl_db_consume ::
    "'s rl_table \<Rightarrow> int \<Rightarrow> (int \<times> int) list \<Rightarrow> string \<Rightarrow> rule \<Rightarrow> ('s, decision option) action" where
  "rl_db_consume tb longest [] key r = ret None"
| "rl_db_consume tb longest ((now_ms, later) # readings) key r =
     (let window = rule_window r;
          horizon = max longest window;
          window_ms = window * 1000
      in bindA (rl_db_get tb key) (\<lambda>data.
         case data of
           None \<Rightarrow>
             catchA
               (bindA (rt_create tb [(''key'', VStr key), (''count'', VInt 1),
                   (''lastRequest'', VInt now_ms)]) (\<lambda>_. ret (Some allow)))
               (\<lambda>e. bindA (rl_db_get tb key) (\<lambda>again.
                  if again = None then raise e else rl_db_consume tb longest readings key r))
         | Some d \<Rightarrow>
             bindA (liftR (last_request d)) (\<lambda>last.
               if now_ms - last \<ge> window_ms then
                 bindA (rt_increment_one tb
                     [Where ''key'' (VStr key), WhereOp ''lastRequest'' (VInt last) OLte]
                     (Some []) (Some [(''count'', VInt 1), (''lastRequest'', VInt now_ms)])) (\<lambda>reset.
                   if reset = None then rl_db_consume tb longest readings key r
                   else bindA (delete_expired_rows tb (now_ms - horizon * 1000)) (\<lambda>_.
                          ret (Some allow)))
               else
                 bindA (rt_increment_one tb
                     [Where ''key'' (VStr key), WhereOp ''lastRequest'' (VInt (now_ms - window_ms)) OGt,
                      WhereOp ''count'' (VInt (rule_max r)) OLt]
                     (Some [(''count'', VInt 1)]) (Some [(''lastRequest'', VInt now_ms)])) (\<lambda>bumped.
                   if bumped \<noteq> None then ret (Some allow)
                   else bindA (rl_db_get tb key) (\<lambda>fresh.
                     case fresh of
                       None \<Rightarrow> rl_db_consume tb longest readings key r
                     | Some f \<Rightarrow>
                         bindA (liftR (last_request f)) (\<lambda>fresh_last.
                           if now_ms - fresh_last \<ge> window_ms
                             then rl_db_consume tb longest readings key r
                           else ret (Some \<lparr>d_allowed = False,
                                  d_retry_after = Some (retry_after fresh_last window later)\<rparr>)))))))"

text \<open>The storage over the \<open>MemoryAdapter\<close>.\<close>

definition mem_table :: "adapter \<Rightarrow> env \<Rightarrow> store rl_table" where
  "mem_table ad ev =
     \<lparr>rt_find_many = (\<lambda>wh limit. mem_find_many ad RATE_LIMIT_MODEL wh limit None None []),
      rt_create = (\<lambda>data. mem_create ad ev RATE_LIMIT_MODEL data []),
      rt_update_many = mem_update_many ad ev RATE_LIMIT_MODEL,
      rt_increment_one = mem_increment_one ad ev RATE_LIMIT_MODEL,
      rt_delete_many = mem_delete_many RATE_LIMIT_MODEL\<rparr>"

section \<open>The secondary storage\<close>

definition legacy_counter :: "kvtext option \<Rightarrow> counter option result" where
  "legacy_counter raw =
     (case raw of
        None \<Rightarrow> Inr None
      | Some t \<Rightarrow>
          if \<not> text_truthy raw then Inr None
          else bindR (loads t) (\<lambda>v.
            case v of
              VDict d \<Rightarrow>
                if d = [] then Inr None
                else bindR (last_request d) (\<lambda>last.
                  bindR (dindex d ''count'') (\<lambda>c.
                    case py_num c of
                      None \<Rightarrow> Inl TypeError
                    | Some n \<Rightarrow> Inr (Some \<lparr>c_count = n, c_last = last\<rparr>)))
            | _ \<Rightarrow> if py_truthy v then Inl TypeError else Inr None))"

definition rl_sec_get ::
    "(string \<Rightarrow> ('s, kvtext option) action) \<Rightarrow> string \<Rightarrow> ('s, counter option) action" where
  "rl_sec_get get key = bindA (get key) (\<lambda>raw. liftR (legacy_counter raw))"

definition rl_sec_set ::
    "(string \<Rightarrow> kvtext \<Rightarrow> int option \<Rightarrow> ('s, unit) action) \<Rightarrow> int \<Rightarrow> string \<Rightarrow> counter \<Rightarrow> bool \<Rightarrow>
     ('s, unit) action" where
  "rl_sec_set put window key v update =
     put key (Json (VDict [(''key'', VStr key), (''count'', VInt (c_count v)),
                           (''lastRequest'', VInt (c_last v))])) (Some window)"

text \<open>\<open>consume\<close> of a store with \<open>increment\<close>; \<open>rl_sec_legacy\<close> of one without.\<close>

definition rl_sec_consume ::
    "(string \<Rightarrow> int \<Rightarrow> ('s, int) action) \<Rightarrow> (string \<Rightarrow> ('s, unit) action) \<Rightarrow>
     string \<Rightarrow> rule \<Rightarrow> ('s, decision) action" where
  "rl_sec_consume increment del key r =
     bindA
       (catchA (increment key (rule_window r))
          (\<lambda>_. bindA (del key) (\<lambda>_. increment key (rule_window r))))
       (\<lambda>count.
          if count \<le> rule_max r then ret allow
          else ret \<lparr>d_allowed = False, d_retry_after = Some (rule_window r)\<rparr>)"

definition rl_sec_legacy ::
    "(string \<Rightarrow> ('s, kvtext option) action) \<Rightarrow> (string \<Rightarrow> kvtext \<Rightarrow> int option \<Rightarrow> ('s, unit) action) \<Rightarrow>
     int \<Rightarrow> int \<Rightarrow> string \<Rightarrow> rule \<Rightarrow> ('s, decision) action" where
  "rl_sec_legacy get put window = legacy_consume (rl_sec_get get) (rl_sec_set put window)"

section \<open>The request flow\<close>

definition NO_TRUSTED_IP :: string where
  "NO_TRUSTED_IP = ''no-trusted-ip''"

text \<open>A plugin rule: its path matcher and its window and max.\<close>

type_synonym path_rule = "(string \<Rightarrow> bool) \<times> int \<times> int"

definition SPECIAL_RULES :: "path_rule list" where
  "SPECIAL_RULES = [
     (\<lambda>p. list_ex (starts_with p)
            [''/sign-in'', ''/sign-up'', ''/change-password'', ''/change-email''], 10, 3),
     (\<lambda>p. p \<in> set [''/request-password-reset'', ''/send-verification-email''] \<or>
           starts_with p ''/forget-password'' \<or>
           p \<in> set [''/email-otp/send-verification-otp'', ''/email-otp/request-password-reset''],
      60, 3)]"

text \<open>
  A custom rule: \<open>False\<close>, a falsy value, a tuple or dict of window and max, or a callable from
  the request and the defaults to one of those.
\<close>

datatype custom_result = CFalse | CEmpty | CRule int int

datatype 'q custom_rule = CConst custom_result | CCall "'q \<Rightarrow> int \<Rightarrow> int \<Rightarrow> custom_result"

text \<open>\<open>fnmatch.fnmatchcase\<close> on \<open>*\<close> and \<open>?\<close>; character classes are not modelled.\<close>

fun fnmatchcase :: "string \<Rightarrow> string \<Rightarrow> bool" where
  "fnmatchcase [] [] = True"
| "fnmatchcase [] (c # p) = (c = CHR ''*'' \<and> fnmatchcase [] p)"
| "fnmatchcase (x # s) [] = False"
| "fnmatchcase (x # s) (c # p) =
     (if c = CHR ''*'' then fnmatchcase (x # s) p \<or> fnmatchcase s (c # p)
      else (c = CHR ''?'' \<or> c = x) \<and> fnmatchcase s p)"

definition rule_matches :: "string \<Rightarrow> string \<Rightarrow> bool" where
  "rule_matches path p = (if CHR ''*'' \<in> set p then fnmatchcase path p else p = path)"

datatype rl_storage = StMemory | StDatabase | StSecondary | StCustom

record 'q rl_config =
  cf_enabled :: "bool option"
  cf_window :: int
  cf_max :: int
  cf_custom_rules :: "(string \<times> 'q custom_rule) list"
  cf_storage :: rl_storage
  cf_plugin_rules :: "path_rule list list"
  cf_disable_ip_tracking :: bool

text \<open>The value of \<open>BETTER_AUTH_ENV\<close>, else of \<open>NODE_ENV\<close>, is the argument \<open>environ\<close>.\<close>

definition rl_is_enabled :: "'q rl_config \<Rightarrow> string option \<Rightarrow> bool" where
  "rl_is_enabled cfg environ =
     (case cf_enabled cfg of Some b \<Rightarrow> b | None \<Rightarrow> environ = Some ''production'')"

definition longest_configured_window :: "'q rl_config \<Rightarrow> int" where
  "longest_configured_window cfg =
     (let windows = cf_window cfg # map (\<lambda>(_, w, _). w) SPECIAL_RULES @
            concat (map (map (\<lambda>(_, w, _). w)) (cf_plugin_rules cfg)) @
            List.map_filter (\<lambda>(_, c). case c of CConst (CRule w _) \<Rightarrow> Some w | _ \<Rightarrow> None)
              (cf_custom_rules cfg);
          valid = filter (\<lambda>w. w > 0) windows
      in if valid = [] then cf_window cfg else fold max (tl valid) (hd valid))"

datatype override = NoOverride | Skip | Override int int

definition resolve_custom :: "'q rl_config \<Rightarrow> 'q \<Rightarrow> string \<Rightarrow> int \<Rightarrow> int \<Rightarrow> override" where
  "resolve_custom cfg request path window maximum =
     (case find (\<lambda>(p, _). rule_matches path p) (cf_custom_rules cfg) of
        None \<Rightarrow> NoOverride
      | Some (_, c) \<Rightarrow>
          (case (case c of CConst x \<Rightarrow> x | CCall f \<Rightarrow> f request window maximum) of
             CFalse \<Rightarrow> Skip
           | CEmpty \<Rightarrow> NoOverride
           | CRule w m \<Rightarrow> Override w m))"

definition first_rule :: "path_rule list \<Rightarrow> string \<Rightarrow> (int \<times> int) option" where
  "first_rule rules path = map_option snd (find (\<lambda>(matcher, _). matcher path) rules)"

fun plugin_rule :: "path_rule list list \<Rightarrow> string \<Rightarrow> (int \<times> int) option" where
  "plugin_rule [] path = None"
| "plugin_rule (rules # plugins) path =
     (case first_rule rules path of Some wm \<Rightarrow> Some wm | None \<Rightarrow> plugin_rule plugins path)"

text \<open>\<open>ip\<close> is what \<open>get_request_ip\<close> resolves for the request.\<close>

definition rl_resolve ::
    "'q rl_config \<Rightarrow> 'q \<Rightarrow> string \<Rightarrow> string option \<Rightarrow> (string \<times> int \<times> int) option" where
  "rl_resolve cfg request path ip =
     (let wm0 = (cf_window cfg, cf_max cfg);
          wm1 = (case first_rule SPECIAL_RULES path of Some wm \<Rightarrow> wm | None \<Rightarrow> wm0);
          wm2 = (case plugin_rule (cf_plugin_rules cfg) path of Some wm \<Rightarrow> wm | None \<Rightarrow> wm1)
      in case resolve_custom cfg request path (fst wm2) (snd wm2) of
           Skip \<Rightarrow> None
         | custom \<Rightarrow>
             let (window, maximum) = (case custom of Override w m \<Rightarrow> (w, m) | _ \<Rightarrow> wm2)
             in if ip = None \<and> cf_disable_ip_tracking cfg then None
                else Some ((case ip of Some a \<Rightarrow> if a = [] then NO_TRUSTED_IP else a
                                     | None \<Rightarrow> NO_TRUSTED_IP) @ ''|'' @ path,
                           window, maximum))"

text \<open>
  The storage is an argument: its \<open>consume\<close>, which for a custom storage without one is
  \<open>legacy_consume\<close> over its \<open>get\<close> and \<open>set\<close>.
\<close>

definition rl_check ::
    "'q rl_config \<Rightarrow> string option \<Rightarrow> (string \<Rightarrow> rule \<Rightarrow> ('s, decision) action) \<Rightarrow>
     'q \<Rightarrow> string \<Rightarrow> string option \<Rightarrow> ('s, int option) action" where
  "rl_check cfg environ consume request path ip =
     (if \<not> rl_is_enabled cfg environ then ret None
      else case rl_resolve cfg request path ip of
             None \<Rightarrow> ret None
           | Some (key, window, maximum) \<Rightarrow>
               bindA (consume key \<lparr>rule_window = window, rule_max = maximum\<rparr>) (\<lambda>res.
                 ret (if d_allowed res then None
                      else case d_retry_after res of Some w \<Rightarrow> Some w | None \<Rightarrow> Some window)))"

end
