(* ===== verification/RateLimit_Props.thy ===== *)
theory RateLimit_Props
  imports RateLimit
begin

text \<open>
  What a rate limiter guarantees. The locale \<open>rate_limiter\<close> is the contract of one atomic
  \<open>consume\<close> per request: \<open>live t s k\<close> is the counter of key \<open>k\<close> that is still inside its window
  at time \<open>t\<close>, a request is allowed when there is none or it is below the maximum, and an
  allowed request counts and moves the window, while every other counter is untouched. Inside it
  the bound on any window is proved once; the interpretations \<open>mem_rl\<close> and \<open>db_rl\<close> discharge the
  contract for \<open>MemoryRateLimitStorage\<close> and \<open>DatabaseRateLimitStorage\<close>.
\<close>

section \<open>Runs of requests\<close>

fun rl_run ::
    "(int \<Rightarrow> string \<Rightarrow> 's \<Rightarrow> bool \<times> 's) \<Rightarrow> (int \<times> string) list \<Rightarrow> 's \<Rightarrow> (int \<times> string \<times> bool) list" where
  "rl_run step [] s = []"
| "rl_run step ((t, k) # reqs) s = (t, k, fst (step t k s)) # rl_run step reqs (snd (step t k s))"

definition granted :: "string \<Rightarrow> int \<Rightarrow> int \<Rightarrow> (int \<times> string \<times> bool) list \<Rightarrow> nat" where
  "granted k a b log = length (filter (\<lambda>(t, k', ok). ok \<and> k' = k \<and> a \<le> t \<and> t < b) log)"

definition asked :: "string \<Rightarrow> int \<Rightarrow> int \<Rightarrow> (int \<times> string) list \<Rightarrow> nat" where
  "asked k a b reqs = length (filter (\<lambda>(t, k'). k' = k \<and> a \<le> t \<and> t < b) reqs)"

lemma granted_simps [simp]:
  "granted k a b [] = 0"
  "granted k a b ((t, k', ok) # log) =
     (if ok \<and> k' = k \<and> a \<le> t \<and> t < b then 1 else 0) + granted k a b log"
  by (simp_all add: granted_def)

lemma asked_simps [simp]:
  "asked k a b [] = 0"
  "asked k a b ((t, k') # reqs) = (if k' = k \<and> a \<le> t \<and> t < b then 1 else 0) + asked k a b reqs"
  by (simp_all add: asked_def)

lemma not_asked:
  "k \<notin> snd ` set reqs \<Longrightarrow> granted k a b (rl_run step reqs s) = 0 \<and> asked k a b reqs = 0"
  by (induction reqs arbitrary: s) (auto simp: image_iff)

definition window_ms :: "rule \<Rightarrow> int" where
  "window_ms r = rule_window r * 1000"

locale rate_limiter =
  fixes K :: "string set"
    and inv :: "int \<Rightarrow> 's \<Rightarrow> bool"
    and live :: "int \<Rightarrow> 's \<Rightarrow> string \<Rightarrow> counter option"
    and rule_of :: "string \<Rightarrow> rule"
    and step :: "int \<Rightarrow> string \<Rightarrow> 's \<Rightarrow> bool \<times> 's"
  assumes inv_later: "inv t s \<Longrightarrow> t \<le> t' \<Longrightarrow> inv t' s"
    and inv_step: "inv t s \<Longrightarrow> k \<in> K \<Longrightarrow> inv t (snd (step t k s))"
    and allowed: "inv t s \<Longrightarrow> k \<in> K \<Longrightarrow>
        fst (step t k s) = (case live t s k of None \<Rightarrow> True | Some c \<Rightarrow> c_count c < rule_max (rule_of k))"
    and live_step: "inv t s \<Longrightarrow> k \<in> K \<Longrightarrow> k' \<in> K \<Longrightarrow> t \<le> t' \<Longrightarrow>
        live t' (snd (step t k s)) k' =
          (if k' = k \<and> fst (step t k s) then
             (if t' - t \<ge> window_ms (rule_of k) then None
              else Some \<lparr>c_count = 1 + (case live t s k of None \<Rightarrow> 0 | Some c \<Rightarrow> c_count c), c_last = t\<rparr>)
           else live t' s k')"
begin

text \<open>With a live counter throughout, exactly the requests up to the maximum are granted.\<close>

lemma granted_live:
  assumes "inv t0 s" "sorted (t0 # map fst reqs)" "snd ` set reqs \<subseteq> K" "k \<in> K"
    and "a \<le> t0" "b \<le> a + window_ms (rule_of k)"
    and "\<And>t. t0 \<le> t \<Longrightarrow> t < b \<Longrightarrow> map_option c_count (live t s k) = Some n"
  shows "granted k a b (rl_run step reqs s) = min (asked k a b reqs) (nat (rule_max (rule_of k) - n))"
  using assms
proof (induction reqs arbitrary: t0 s n)
  case (Cons req reqs)
  obtain t k' where req: "req = (t, k')" by (cases req)
  from Cons.prems have t: "t0 \<le> t" "k' \<in> K" "sorted (t # map fst reqs)" "snd ` set reqs \<subseteq> K"
    by (auto simp: req)
  have inv: "inv t s" using inv_later Cons.prems(1) t(1) by blast
  let ?s = "snd (step t k' s)"
  have inv': "inv t ?s" using inv_step inv t(2) by blast
  note IH = Cons.IH[OF inv' t(3,4) \<open>k \<in> K\<close> _ Cons.prems(6)]
  show ?case
  proof (cases "t < b \<and> k' = k \<and> fst (step t k' s)")
    case False
    have "map_option c_count (live u ?s k) = Some n" if "t \<le> u" "u < b" for u
      using that t(1) Cons.prems(4,7) False live_step[OF inv t(2) Cons.prems(4) that(1)] by auto
    from IH[of n, OF _ this] Cons.prems(5) t(1)
    have *: "granted k a b (rl_run step reqs ?s) = min (asked k a b reqs) (nat (rule_max (rule_of k) - n))"
      by simp
    have "\<not> n < rule_max (rule_of k)" if "t < b" "k' = k"
      using False that allowed[OF inv t(2)] Cons.prems(7)[OF t(1) that(1)] by auto
    with * False show ?thesis by (auto simp: req)
  next
    case True
    then obtain c where c: "live t s k = Some c" "c_count c = n"
      using Cons.prems(7)[OF t(1)] by auto
    with True allowed[OF inv t(2)] have n: "n < rule_max (rule_of k)" by auto
    have "map_option c_count (live u ?s k) = Some (1 + n)" if "t \<le> u" "u < b" for u
      using that t(1) Cons.prems(5,6) True c live_step[OF inv t(2) Cons.prems(4) that(1)] by auto
    from IH[of "1 + n", OF _ this] Cons.prems(5) t(1)
    have "granted k a b (rl_run step reqs ?s) =
          min (asked k a b reqs) (nat (rule_max (rule_of k) - (1 + n)))" by simp
    with True n Cons.prems(5) t(1) show ?thesis by (auto simp: req)
  qed
qed simp

lemma granted_bound:
  assumes "inv t0 s" "sorted (t0 # map fst reqs)" "snd ` set reqs \<subseteq> K" "k \<in> K"
    and "b \<le> a + window_ms (rule_of k)" "\<And>t c. t0 \<le> t \<Longrightarrow> live t s k = Some c \<Longrightarrow> 1 \<le> c_count c"
  shows "int (granted k a b (rl_run step reqs s)) \<le> max 1 (rule_max (rule_of k))"
  using assms
proof (induction reqs arbitrary: t0 s)
  case (Cons req reqs)
  obtain t k' where req: "req = (t, k')" by (cases req)
  from Cons.prems have t: "t0 \<le> t" "k' \<in> K" "sorted (t # map fst reqs)" "snd ` set reqs \<subseteq> K"
    by (auto simp: req)
  have inv: "inv t s" using inv_later Cons.prems(1) t(1) by blast
  let ?s = "snd (step t k' s)"
  have inv': "inv t ?s" using inv_step inv t(2) by blast
  show ?case
  proof (cases "a \<le> t \<and> t < b \<and> k' = k \<and> fst (step t k' s)")
    case True
    define n where "n = 1 + (case live t s k of None \<Rightarrow> 0 | Some c \<Rightarrow> c_count c)"
    have n: "1 \<le> n" using Cons.prems(6)[OF t(1)] by (force simp: n_def split: option.splits)
    have "map_option c_count (live u ?s k) = Some n" if "t \<le> u" "u < b" for u
      using that t(1) Cons.prems(5) True live_step[OF inv t(2) Cons.prems(4) that(1)]
      by (auto simp: n_def)
    from granted_live[OF inv' t(3,4) Cons.prems(4) _ Cons.prems(5) this] True
    have "granted k a b (rl_run step reqs ?s) \<le> nat (rule_max (rule_of k) - n)" by simp
    with n True show ?thesis by (auto simp: req)
  next
    case False
    have "1 \<le> c_count c" if "t \<le> u" "live u ?s k = Some c" for u c
    proof (cases "k' = k \<and> fst (step t k' s)")
      case True
      with that live_step[OF inv t(2) Cons.prems(4) that(1)] Cons.prems(6)[OF t(1)] show ?thesis
        by (auto split: if_splits option.splits)
    next
      case False
      then have "live u ?s k = live u s k"
        by (subst live_step[OF inv t(2) Cons.prems(4) that(1)]) auto
      with that Cons.prems(6)[of u] t(1) show ?thesis by auto
    qed
    from Cons.IH[OF inv' t(3,4) Cons.prems(4,5) this] False show ?thesis by (auto simp: req)
  qed
qed simp

text \<open>From no live counter, the first request opens the window and exactly the first \<open>max\<close> pass.\<close>

lemma granted_opens:
  assumes "inv t0 s" "sorted (t0 # map fst reqs)" "snd ` set reqs \<subseteq> K" "k \<in> K"
    and "b \<le> a + window_ms (rule_of k)"
    and "\<And>t. t0 \<le> t \<Longrightarrow> live t s k = None"
    and "\<And>t. (t, k) \<in> set reqs \<Longrightarrow> a \<le> t"
  shows "granted k a b (rl_run step reqs s) = min (asked k a b reqs) (max 1 (nat (rule_max (rule_of k))))"
  using assms
proof (induction reqs arbitrary: t0 s)
  case (Cons req reqs)
  obtain t k' where req: "req = (t, k')" by (cases req)
  from Cons.prems have t: "t0 \<le> t" "k' \<in> K" "sorted (t # map fst reqs)" "snd ` set reqs \<subseteq> K"
    by (auto simp: req)
  have inv: "inv t s" using inv_later Cons.prems(1) t(1) by blast
  let ?s = "snd (step t k' s)"
  have inv': "inv t ?s" using inv_step inv t(2) by blast
  have later: "a \<le> u" if "(u, k) \<in> set reqs" for u
    using Cons.prems(7)[of u] that by (simp add: req)
  show ?case
  proof (cases "k' = k")
    case False
    have "live u ?s k = None" if "t \<le> u" for u
      using live_step[OF inv t(2) Cons.prems(4) that] Cons.prems(6)[of u] t(1) that False by simp
    from Cons.IH[OF inv' t(3,4) Cons.prems(4,5) this later] False show ?thesis
      by (auto simp: req)
  next
    case True
    have none: "live t s k = None" using Cons.prems(6) t(1) by blast
    have ok: "fst (step t k' s)" using allowed[OF inv t(2)] none by (simp add: True)
    have at: "a \<le> t" using Cons.prems(7)[of t] by (simp add: req True)
    have "map_option c_count (live u ?s k) = Some 1" if "t \<le> u" "u < b" for u
      using live_step[OF inv t(2) Cons.prems(4) that(1)] none ok True that at Cons.prems(5) by simp
    from granted_live[OF inv' t(3,4) Cons.prems(4) at Cons.prems(5) this]
    have rest: "granted k a b (rl_run step reqs ?s) =
        min (asked k a b reqs) (nat (rule_max (rule_of k) - 1))" .
    have "asked k a b reqs = 0 \<and> granted k a b (rl_run step reqs ?s) = 0" if "\<not> t < b"
    proof -
      have "b \<le> u" if "(u, k'') \<in> set reqs" for u k''
        using t(3) \<open>\<not> t < b\<close> that by fastforce
      then have "asked k a b reqs = 0" by (fastforce simp: asked_def filter_empty_conv)
      with rest show ?thesis by simp
    qed
    with rest ok at show ?thesis by (auto simp: req True)
  qed
qed simp

end

section \<open>The memory storage\<close>

definition rl_mem_live :: "int \<Rightarrow> rl_memory \<Rightarrow> string \<Rightarrow> counter option" where
  "rl_mem_live t s k =
     (case map_of s k of None \<Rightarrow> None | Some (c, e) \<Rightarrow> if t < e then Some c else None)"

definition rl_mem_step :: "(string \<Rightarrow> rule) \<Rightarrow> int \<Rightarrow> string \<Rightarrow> rl_memory \<Rightarrow> bool \<times> rl_memory" where
  "rl_mem_step rule_of t k s =
     (case rl_mem_consume t k (rule_of k) s of
        (Inr d, s') \<Rightarrow> (d_allowed d, s') | (Inl _, s') \<Rightarrow> (False, s'))"

text \<open>
  At most \<open>MEMORY_STORE_MAX_ENTRIES\<close> keys are in use, so no live entry is evicted, each entry
  expires one window after its last counted request, and no window is empty.
\<close>

definition rl_mem_inv :: "string set \<Rightarrow> (string \<Rightarrow> rule) \<Rightarrow> int \<Rightarrow> rl_memory \<Rightarrow> bool" where
  "rl_mem_inv K rule_of t s \<longleftrightarrow>
     finite K \<and> card K \<le> MEMORY_STORE_MAX_ENTRIES \<and> distinct (map fst s) \<and> fst ` set s \<subseteq> K \<and>
     (\<forall>k\<in>K. 0 < rule_window (rule_of k)) \<and>
     (\<forall>k c e. map_of s k = Some (c, e) \<longrightarrow> e = c_last c + window_ms (rule_of k))"

lemma map_of_filter_distinct:
  assumes keys: "distinct (map fst d)"
  shows "map_of (filter Q d) key = Option.bind (map_of d key) (\<lambda>w. if Q (key, w) then Some w else None)"
  using keys by (induction d) (auto simp: image_iff map_of_eq_None_iff split: option.splits)

lemma rl_prune_inv:
  assumes "rl_mem_inv K rule_of t0 s"
  shows "rl_prune t s = filter (\<lambda>(_, _, e). t < e) s"
proof -
  have "length s = card (fst ` set s)"
    using assms by (metis distinct_card length_map list.set_map rl_mem_inv_def)
  also have "\<dots> \<le> card K" using assms by (auto simp: rl_mem_inv_def intro!: card_mono)
  finally have "length s \<le> MEMORY_STORE_MAX_ENTRIES" using assms by (auto simp: rl_mem_inv_def)
  then have "length (filter (\<lambda>(_, _, e). t < e) s) \<le> MEMORY_STORE_MAX_ENTRIES"
    by (meson le_trans length_filter_le)
  then show ?thesis by (simp add: rl_prune_def Let_def not_le)
qed

lemma rl_prune_live:
  assumes "rl_mem_inv K rule_of t0 s"
  shows "map_of (rl_prune t s) k =
    (case map_of s k of None \<Rightarrow> None | Some (c, e) \<Rightarrow> if t < e then Some (c, e) else None)"
proof -
  have "distinct (map fst s)" using assms by (simp add: rl_mem_inv_def)
  from map_of_filter_distinct[OF this] show ?thesis
    unfolding rl_prune_inv[OF assms] by (cases "map_of s k") (auto split: prod.splits)
qed

lemma rl_prune_keys:
  assumes "rl_mem_inv K rule_of t0 s"
  shows "distinct (map fst (rl_prune t s))" "fst ` set (rl_prune t s) \<subseteq> K"
proof -
  have *: "distinct (map fst s)" "fst ` set s \<subseteq> K" using assms by (simp_all add: rl_mem_inv_def)
  then show "distinct (map fst (rl_prune t s))" by (simp add: rl_prune_inv[OF assms] distinct_map_filter)
  show "fst ` set (rl_prune t s) \<subseteq> K"
    using *(2) by (force simp: rl_prune_inv[OF assms])
qed

lemma rl_mem_live_Some:
  assumes "rl_mem_inv K rule_of t0 s" "rl_mem_live t s k = Some c"
  shows "t - c_last c < rule_window (rule_of k) * 1000"
proof -
  obtain e where "map_of s k = Some (c, e)" "t < e"
    using assms(2) by (auto simp: rl_mem_live_def split: option.splits if_splits)
  moreover from this(1) have "e = c_last c + window_ms (rule_of k)"
    using assms(1) unfolding rl_mem_inv_def by blast
  ultimately show ?thesis by (simp add: window_ms_def)
qed

text \<open>The memory storage implements the rolling-window step on the live counter.\<close>

lemma rl_mem_step_eq:
  assumes inv: "rl_mem_inv K rule_of t0 s" and k: "k \<in> K"
  shows "rl_mem_step rule_of t k s =
    (case rl_mem_live t s k of
       None \<Rightarrow> (True, dset k (\<lparr>c_count = 1, c_last = t\<rparr>, t + window_ms (rule_of k)) (rl_prune t s))
     | Some c \<Rightarrow>
         if c_count c < rule_max (rule_of k)
         then (True, dset k (\<lparr>c_count = c_count c + 1, c_last = t\<rparr>, t + window_ms (rule_of k)) (rl_prune t s))
         else (False, rl_prune t s))"
proof -
  note rl_mem_live_Some[OF inv, of t k]
  moreover have "(case map_of (rl_prune t s) k of
       Some (row, expires_at) \<Rightarrow> if t < expires_at then Some row else None | None \<Rightarrow> None) = rl_mem_live t s k"
    by (simp add: rl_prune_live[OF inv] rl_mem_live_def split: option.splits)
  ultimately show ?thesis
    by (auto simp: rl_mem_step_def rl_mem_consume_def decide_consume_def window_ms_def Let_def
        not_le split: option.splits)
qed

interpretation mem_rl: rate_limiter K "rl_mem_inv K rule_of" rl_mem_live rule_of "rl_mem_step rule_of"
  for K rule_of
proof (unfold_locales, goal_cases)
  case (1 t s t')
  then show ?case by (simp add: rl_mem_inv_def)
next
  case (2 t s k)
  let ?p = "rl_prune t s"
  have keep: "rl_mem_inv K rule_of t ?p"
    using 2(1) rl_prune_keys[OF 2(1)]
    by (auto simp: rl_mem_inv_def rl_prune_live[OF 2(1)] split: option.splits if_splits)
  have "rl_mem_inv K rule_of t (dset k (c, c_last c + window_ms (rule_of k)) ?p)" for c
    using keep 2(2) by (auto simp: rl_mem_inv_def keys_dset distinct_dset)
  from this[of "\<lparr>c_count = n, c_last = t\<rparr>" for n] keep show ?case
    by (auto simp: rl_mem_step_eq[OF 2] split: option.splits)
next
  case (3 t s k)
  then show ?case by (auto simp: rl_mem_step_eq split: option.splits)
next
  case (4 t s k k' t')
  have "rl_mem_live t' (rl_prune t s) k' = rl_mem_live t' s k'"
    using 4(4) by (auto simp: rl_mem_live_def rl_prune_live[OF 4(1)] split: option.splits)
  then show ?case
    by (auto simp: rl_mem_step_eq[OF 4(1,2)] rl_mem_live_def split: option.splits)
qed

section \<open>The database storage\<close>

text \<open>A row of the table: key \<open>k\<close>, count \<open>c\<close>, last request \<open>l\<close>.\<close>

definition rl_row :: "string \<Rightarrow> int \<Rightarrow> int \<Rightarrow> row \<Rightarrow> bool" where
  "rl_row k c l r \<longleftrightarrow>
     dget r ''key'' = VStr k \<and> map_of r ''count'' = Some (VInt c) \<and>
     map_of r ''lastRequest'' = Some (VInt l)"

definition rl_rows :: "row list \<Rightarrow> bool" where
  "rl_rows rs \<longleftrightarrow> distinct (map (\<lambda>r. dget r ''key'') rs) \<and> (\<forall>r\<in>set rs. \<exists>k c l. rl_row k c l r)"

definition row_counter :: "row \<Rightarrow> counter" where
  "row_counter r =
     \<lparr>c_count = (case dget r ''count'' of VInt n \<Rightarrow> n | _ \<Rightarrow> 0),
      c_last = (case dget r ''lastRequest'' of VInt n \<Rightarrow> n | _ \<Rightarrow> 0)\<rparr>"

definition has_rl_key :: "string \<Rightarrow> row \<Rightarrow> bool" where
  "has_rl_key k r = (dget r ''key'' = VStr k)"

definition rl_lookup :: "row list \<Rightarrow> string \<Rightarrow> row option" where
  "rl_lookup rs k = List.find (has_rl_key k) rs"

definition rl_db_live :: "(string \<Rightarrow> rule) \<Rightarrow> int \<Rightarrow> store \<Rightarrow> string \<Rightarrow> counter option" where
  "rl_db_live rule_of t st k =
     (case rl_lookup (rows_of st RATE_LIMIT_MODEL) k of
        None \<Rightarrow> None
      | Some r \<Rightarrow> if t - c_last (row_counter r) \<ge> window_ms (rule_of k) then None
                  else Some (row_counter r))"

definition rl_db_inv :: "adapter \<Rightarrow> int \<Rightarrow> (string \<Rightarrow> rule) \<Rightarrow> store \<Rightarrow> bool" where
  "rl_db_inv ad longest rule_of st \<longleftrightarrow>
     native ad \<and> map_of (ad_schema ad) RATE_LIMIT_MODEL = Some rate_limit_model \<and>
     rl_rows (rows_of st RATE_LIMIT_MODEL) \<and>
     (\<forall>k. 0 < rule_window (rule_of k) \<and> rule_window (rule_of k) \<le> longest)"

text \<open>One call of \<open>consume\<close> with a single attempt; \<open>False\<close> if it would raise or retry.\<close>

definition rl_db_step ::
    "adapter \<Rightarrow> (int \<Rightarrow> env) \<Rightarrow> int \<Rightarrow> (string \<Rightarrow> rule) \<Rightarrow> int \<Rightarrow> string \<Rightarrow> store \<Rightarrow> bool \<times> store" where
  "rl_db_step ad ev longest rule_of t k st =
     (case rl_db_consume (mem_table ad (ev t)) longest [(t, t)] k (rule_of k) st of
        (Inr (Some d), st') \<Rightarrow> (d_allowed d, st') | (_, st') \<Rightarrow> (False, st'))"

lemma row_counter_row: "rl_row k c l r \<Longrightarrow> row_counter r = \<lparr>c_count = c, c_last = l\<rparr>"
  by (simp add: row_counter_def rl_row_def dget_def)

lemma last_request_row: "rl_row k c l r \<Longrightarrow> last_request r = Inr l"
  by (simp add: last_request_def rl_row_def dindex_def)

lemma rl_lookup_row:
  assumes "rl_rows rs" "rl_lookup rs k = Some r"
  obtains c l where "rl_row k c l r" "r \<in> set rs" "has_rl_key k r"
  using assms find_Some_in[of "has_rl_key k" rs r]
  by (auto simp: rl_lookup_def rl_rows_def rl_row_def has_rl_key_def)

lemma rl_rows_unique:
  "rl_rows rs \<Longrightarrow> x \<in> set rs \<Longrightarrow> y \<in> set rs \<Longrightarrow> has_rl_key k x \<Longrightarrow> has_rl_key k y \<Longrightarrow> x = y"
  by (auto simp: rl_rows_def distinct_map inj_on_def has_rl_key_def)

lemma find_unique_and:
  assumes "\<And>x y. x \<in> set xs \<Longrightarrow> y \<in> set xs \<Longrightarrow> P x \<Longrightarrow> P y \<Longrightarrow> x = y"
  shows "List.find (\<lambda>x. P x \<and> Q x) xs =
    (case List.find P xs of None \<Rightarrow> None | Some r \<Rightarrow> if Q r then Some r else None)"
  using assms
proof (induction xs)
  case (Cons x xs)
  have IH: "List.find (\<lambda>x. P x \<and> Q x) xs =
    (case List.find P xs of None \<Rightarrow> None | Some r \<Rightarrow> if Q r then Some r else None)"
    by (rule Cons.IH) (use Cons.prems in \<open>auto\<close>)
  have "Q y = Q x" if "P x" "y \<in> set xs" "P y" for y
    using Cons.prems[of x y] that by auto
  then have "List.find (\<lambda>x. P x \<and> Q x) xs = None" if "P x" "\<not> Q x"
    using that by (auto simp: find_None_all)
  with IH show ?case by auto
qed simp

lemma map_first_unique_and:
  assumes "\<And>x y. x \<in> set xs \<Longrightarrow> y \<in> set xs \<Longrightarrow> P x \<Longrightarrow> P y \<Longrightarrow> x = y"
    and "List.find P xs = Some r"
  shows "map_first (\<lambda>x. P x \<and> Q x) g xs = (if Q r then map_first P g xs else xs)"
proof -
  have r: "r \<in> set xs" "P r" using find_Some_in[OF assms(2)] by auto
  have eq: "(P x \<and> Q x) = (P x \<and> Q r)" if "x \<in> set xs" for x
    using assms(1)[OF that r(1)] r(2) by auto
  have "map_first (\<lambda>x. P x \<and> Q x) g xs = map_first (\<lambda>x. P x \<and> Q r) g xs"
    by (rule map_first_cong_set) (rule eq)
  then show ?thesis by auto
qed

lemma find_filter_unique:
  assumes "\<And>x y. x \<in> set xs \<Longrightarrow> y \<in> set xs \<Longrightarrow> P x \<Longrightarrow> P y \<Longrightarrow> x = y"
  shows "List.find P (filter Q xs) =
    (case List.find P xs of None \<Rightarrow> None | Some r \<Rightarrow> if Q r then Some r else None)"
proof -
  have "List.find P (filter Q xs) = List.find (\<lambda>x. P x \<and> Q x) xs"
    by (induction xs) auto
  then show ?thesis using find_unique_and[OF assms] by simp
qed

lemma take1_filter: "(case take (Suc 0) (filter P xs) of [] \<Rightarrow> None | r # _ \<Rightarrow> Some r) = List.find P xs"
  by (induction xs) auto

lemma mem_table_simps [simp]:
  "rt_find_many (mem_table ad ev) wh limit = mem_find_many ad RATE_LIMIT_MODEL wh limit None None []"
  "rt_create (mem_table ad ev) data = mem_create ad ev RATE_LIMIT_MODEL data []"
  "rt_increment_one (mem_table ad ev) = mem_increment_one ad ev RATE_LIMIT_MODEL"
  "rt_delete_many (mem_table ad ev) = mem_delete_many RATE_LIMIT_MODEL"
  by (simp_all add: mem_table_def)

lemma sel_key: "sel [Where ''key'' (VStr k)] = has_rl_key k"
  by (rule ext) (simp add: has_rl_key_def)

lemma rl_db_get_mem:
  assumes "native ad"
  shows "rl_db_get (mem_table ad ev) k st = (Inr (rl_lookup (rows_of st RATE_LIMIT_MODEL) k), st)"
  using mem_find_many_safe[OF assms, of "[Where ''key'' (VStr k)]" st RATE_LIMIT_MODEL "Some 1"]
  by (simp add: rl_db_get_def bindA_def find_limit_def slice_to_def slice_bound_def
      sel_key take1_filter rl_lookup_def)

text \<open>The three guards of \<open>consume\<close> on a row of the table.\<close>

lemma matches_reset_guard:
  assumes "rl_row k' c' l' r"
  shows "matches r [Where ''key'' (VStr k), WhereOp ''lastRequest'' (VInt l) OLte] =
    Inr (has_rl_key k r \<and> c_last (row_counter r) \<le> l)"
  using assms by (auto simp: matches_def row_counter_row has_rl_key_def rl_row_def dget_def)

lemma matches_bump_guard:
  assumes "rl_row k' c' l' r"
  shows "matches r [Where ''key'' (VStr k), WhereOp ''lastRequest'' (VInt w) OGt,
      WhereOp ''count'' (VInt m) OLt] =
    Inr (has_rl_key k r \<and> (w < c_last (row_counter r) \<and> c_count (row_counter r) < m))"
  using assms by (auto simp: matches_def row_counter_row has_rl_key_def rl_row_def dget_def)

lemma matches_sweep:
  assumes "rl_row k' c' l' r"
  shows "matches r [WhereOp ''lastRequest'' (VInt w) OLt] = Inr (c_last (row_counter r) < w)"
  using assms by (auto simp: matches_def row_counter_row rl_row_def dget_def)

lemma rl_rows_safe:
  assumes "rl_rows rs" "\<And>k c l r. rl_row k c l r \<Longrightarrow> matches r wh = Inr (P r)"
  shows "safe wh rs" "\<And>r. r \<in> set rs \<Longrightarrow> sel wh r = P r"
  using assms by (fastforce simp: rl_rows_def safe_def sel_def)+

text \<open>A guarded \<open>increment_one\<close> on the unique row of a key.\<close>

lemma rl_increment:
  assumes ad: "native ad" and rs: "rl_rows (rows_of st m)"
    and guard: "\<And>k' c l r. rl_row k' c l r \<Longrightarrow> matches r wh = Inr (has_rl_key k r \<and> Q r)"
    and r: "rl_lookup (rows_of st m) k = Some r"
    and inc: "check_increment increment (Some sv) = Inr inc"
    and sv: "transform_input ad ev m sv ''update'' = Inr d"
  shows "mem_increment_one ad ev m wh increment (Some sv) st =
    (if Q r then (Inr (Some (incremented_row inc (Some d) r)),
        set_rows m (map_first (has_rl_key k) (incremented_row inc (Some d)) (rows_of st m)) st)
     else (Inr None, set_rows m (rows_of st m) st))"
proof -
  let ?rs = "rows_of st m" and ?P = "\<lambda>r. has_rl_key k r \<and> Q r"
  have safe: "safe wh ?rs" by (rule rl_rows_safe(1)[OF rs guard])
  have eq: "sel wh x = ?P x" if "x \<in> set ?rs" for x by (rule rl_rows_safe(2)[OF rs guard that])
  have find: "List.find (sel wh) ?rs = (if Q r then Some r else None)"
    using find_unique_and[of ?rs "has_rl_key k" Q] rl_rows_unique[OF rs] r
      find_cong_set[of ?rs "sel wh" ?P, OF eq]
    by (simp add: rl_lookup_def)
  have maps: "map_first (sel wh) g ?rs = (if Q r then map_first (has_rl_key k) g ?rs else ?rs)" for g
    using map_first_unique_and[of ?rs "has_rl_key k" r Q] rl_rows_unique[OF rs] r
      map_first_cong_set[of ?rs "sel wh" ?P g, OF eq]
    by (simp add: rl_lookup_def)
  from mem_increment_one_ok[OF ad safe inc, of "Some d" ev] sv show ?thesis
    by (simp add: find maps)
qed

lemma rl_update_transform:
  assumes "native ad" "map_of (ad_schema ad) RATE_LIMIT_MODEL = Some rate_limit_model"
  shows "transform_input ad ev RATE_LIMIT_MODEL [(''lastRequest'', VInt t)] ''update'' =
      Inr [(''lastRequest'', VInt t)]"
    and "transform_input ad ev RATE_LIMIT_MODEL [(''count'', VInt c), (''lastRequest'', VInt t)] ''update'' =
      Inr [(''count'', VInt c), (''lastRequest'', VInt t)]"
  using assms
  by (simp_all add: transform_input_def native_def rate_limit_model_def id_field_def mk_field_def
      epoch_ms_factory_def dset_Cons)

lemma rl_create_transform:
  assumes "native ad" "map_of (ad_schema ad) RATE_LIMIT_MODEL = Some rate_limit_model"
  shows "\<exists>r. transform_input ad ev RATE_LIMIT_MODEL
      [(''key'', VStr k), (''count'', VInt c), (''lastRequest'', VInt t)] ''create'' = Inr r \<and>
      rl_row k c t r"
  using assms
  by (simp add: transform_input_def native_def rate_limit_model_def id_field_def mk_field_def
      epoch_ms_factory_def has_key_def dset_Cons dget_Cons rl_row_def split: option.splits)

lemma incremented_reset:
  "rl_row k c l r \<Longrightarrow>
   rl_row k 1 t (incremented_row [] (Some [(''count'', VInt 1), (''lastRequest'', VInt t)]) r)"
  by (simp add: rl_row_def incremented_row_def)

lemma incremented_bump:
  "rl_row k c l r \<Longrightarrow>
   rl_row k (c + 1) t (incremented_row [(''count'', VInt 1)] (Some [(''lastRequest'', VInt t)]) r)"
  by (simp add: rl_row_def incremented_row_def add_delta_def dget_def)

text \<open>The four outcomes of one uninterrupted attempt.\<close>

lemma rl_db_consume_fresh:
  assumes inv: "rl_db_inv ad longest rule_of st"
    and none: "rl_lookup (rows_of st RATE_LIMIT_MODEL) k = None"
  shows "\<exists>r. rl_db_consume (mem_table ad ev) longest ((t, t') # rest) k rl st =
      (Inr (Some allow), set_rows RATE_LIMIT_MODEL (rows_of st RATE_LIMIT_MODEL @ [r]) st) \<and>
      rl_row k 1 t r"
proof -
  have ad: "native ad" "map_of (ad_schema ad) RATE_LIMIT_MODEL = Some rate_limit_model"
    using inv by (simp_all add: rl_db_inv_def)
  obtain r where r: "transform_input ad ev RATE_LIMIT_MODEL
      [(''key'', VStr k), (''count'', VInt 1), (''lastRequest'', VInt t)] ''create'' = Inr r"
      "rl_row k 1 t r"
    using rl_create_transform[OF ad] by blast
  from mem_create_ok[OF ad(1) r(1)] r(2) show ?thesis
    by (intro exI[of _ r])
      (simp add: Let_def bindA_Inr[OF rl_db_get_mem[OF ad(1)]] none catchA_def,
        simp add: bindA_def)
qed

lemma dset_twice [simp]: "dset k v (dset k w d) = dset k v d"
  unfolding dset_def by (induction d) auto

lemma set_rows_twice [simp]: "set_rows m rs (set_rows m rs' st) = set_rows m rs st"
  by (simp add: set_rows_def)

lemma rl_rows_map_first:
  assumes "rl_rows rs" "\<And>c l r. rl_row k c l r \<Longrightarrow> \<exists>c l. rl_row k c l (g r)"
  shows "rl_rows (map_first (has_rl_key k) g rs)"
proof -
  have g: "\<exists>c l. rl_row k c l (g r)" if "r \<in> set rs" "has_rl_key k r" for r
    using assms that by (fastforce simp: rl_rows_def rl_row_def has_rl_key_def)
  have "map (\<lambda>r. dget r ''key'') (map_first (has_rl_key k) g rs) = map (\<lambda>r. dget r ''key'') rs"
    using g by (induction rs) (auto simp: rl_row_def has_rl_key_def)
  moreover have "\<exists>k c l. rl_row k c l r" if "r \<in> set (map_first (has_rl_key k) g rs)" for r
    using set_map_firstD[OF that] g assms(1) by (metis rl_rows_def)
  ultimately show ?thesis using assms(1) by (simp add: rl_rows_def)
qed

lemma rl_rows_filter: "rl_rows rs \<Longrightarrow> rl_rows (filter P rs)"
  by (simp add: rl_rows_def distinct_map_filter)

definition reset_row :: "int \<Rightarrow> row \<Rightarrow> row" where
  "reset_row t = incremented_row [] (Some [(''count'', VInt 1), (''lastRequest'', VInt t)])"

definition bump_row :: "int \<Rightarrow> row \<Rightarrow> row" where
  "bump_row t = incremented_row [(''count'', VInt 1)] (Some [(''lastRequest'', VInt t)])"

lemma rl_db_consume_reset:
  assumes inv: "rl_db_inv ad longest rule_of st"
    and r: "rl_lookup (rows_of st RATE_LIMIT_MODEL) k = Some r" "rl_row k c l r"
    and elapsed: "t - l \<ge> window_ms rl"
  shows "rl_db_consume (mem_table ad ev) longest ((t, t') # rest) k rl st =
      (Inr (Some allow),
       set_rows RATE_LIMIT_MODEL
         (filter (\<lambda>r. \<not> c_last (row_counter r) < t - max longest (rule_window rl) * 1000)
           (map_first (has_rl_key k) (reset_row t) (rows_of st RATE_LIMIT_MODEL))) st)"
proof -
  have ad: "native ad" "map_of (ad_schema ad) RATE_LIMIT_MODEL = Some rate_limit_model"
    and rs: "rl_rows (rows_of st RATE_LIMIT_MODEL)"
    using inv by (simp_all add: rl_db_inv_def)
  let ?sv = "[(''count'', VInt 1), (''lastRequest'', VInt t)]"
  let ?rs = "map_first (has_rl_key k) (reset_row t) (rows_of st RATE_LIMIT_MODEL)"
  let ?cut = "t - max longest (rule_window rl) * 1000"
  have "check_increment (Some []) (Some ?sv) = Inr []" by (simp add: check_increment_def)
  from rl_increment[where k = k and r = r and sv = ?sv, OF ad(1) rs matches_reset_guard r(1) this rl_update_transform(2)[OF ad]]
  have inc: "mem_increment_one ad ev RATE_LIMIT_MODEL
      [Where ''key'' (VStr k), WhereOp ''lastRequest'' (VInt l) OLte] (Some []) (Some ?sv) st =
      (Inr (Some (reset_row t r)), set_rows RATE_LIMIT_MODEL ?rs st)"
    by (simp add: row_counter_row[OF r(2)] reset_row_def)
  have rs': "rl_rows ?rs"
    using rl_rows_map_first[OF rs] incremented_reset unfolding reset_row_def by blast
  have sel: "filter (\<lambda>r. \<not> sel [WhereOp ''lastRequest'' (VInt ?cut) OLt] r) ?rs =
      filter (\<lambda>r. \<not> c_last (row_counter r) < ?cut) ?rs"
    using rl_rows_safe(2)[OF rs' matches_sweep] by (intro filter_cong) auto
  have "mem_delete_many RATE_LIMIT_MODEL [WhereOp ''lastRequest'' (VInt ?cut) OLt]
        (set_rows RATE_LIMIT_MODEL ?rs st) =
      (Inr (int (length (filter (sel [WhereOp ''lastRequest'' (VInt ?cut) OLt]) ?rs))),
       set_rows RATE_LIMIT_MODEL (filter (\<lambda>r. \<not> c_last (row_counter r) < ?cut) ?rs) st)"
    using mem_delete_many_safe[of "[WhereOp ''lastRequest'' (VInt ?cut) OLt]"
        "set_rows RATE_LIMIT_MODEL ?rs st" RATE_LIMIT_MODEL]
      rl_rows_safe(1)[OF rs' matches_sweep] by (simp add: sel)
  then have "delete_expired_rows (mem_table ad ev) ?cut (set_rows RATE_LIMIT_MODEL ?rs st) =
      (Inr (), set_rows RATE_LIMIT_MODEL (filter (\<lambda>r. \<not> c_last (row_counter r) < ?cut) ?rs) st)"
    by (simp add: delete_expired_rows_def catchA_def bindA_def)
  then show ?thesis
    using inc elapsed r
    by (simp add: Let_def bindA_Inr[OF rl_db_get_mem[OF ad(1)]] last_request_row[OF r(2)] window_ms_def)
      (simp add: bindA_def)
qed

lemma rl_db_consume_within:
  assumes inv: "rl_db_inv ad longest rule_of st"
    and r: "rl_lookup (rows_of st RATE_LIMIT_MODEL) k = Some r" "rl_row k c l r"
    and within: "\<not> t - l \<ge> window_ms rl"
  shows "rl_db_consume (mem_table ad ev) longest ((t, t') # rest) k rl st =
      (if c < rule_max rl then
         (Inr (Some allow),
          set_rows RATE_LIMIT_MODEL
            (map_first (has_rl_key k) (bump_row t) (rows_of st RATE_LIMIT_MODEL)) st)
       else
         (Inr (Some \<lparr>d_allowed = False, d_retry_after = Some (retry_after l (rule_window rl) t')\<rparr>),
          set_rows RATE_LIMIT_MODEL (rows_of st RATE_LIMIT_MODEL) st))"
proof -
  have ad: "native ad" "map_of (ad_schema ad) RATE_LIMIT_MODEL = Some rate_limit_model"
    and rs: "rl_rows (rows_of st RATE_LIMIT_MODEL)"
    using inv by (simp_all add: rl_db_inv_def)
  let ?sv = "[(''lastRequest'', VInt t)]" and ?inc = "[(''count'', VInt 1)]"
  have "check_increment (Some ?inc) (Some ?sv) = Inr ?inc"
    by (simp add: check_increment_def is_delta_def)
  from rl_increment[where k = k and r = r and sv = ?sv, OF ad(1) rs matches_bump_guard r(1) this rl_update_transform(1)[OF ad]]
  have inc: "mem_increment_one ad ev RATE_LIMIT_MODEL
      [Where ''key'' (VStr k), WhereOp ''lastRequest'' (VInt (t - window_ms rl)) OGt,
       WhereOp ''count'' (VInt (rule_max rl)) OLt] (Some ?inc) (Some ?sv) st =
      (if c < rule_max rl then
         (Inr (Some (bump_row t r)), set_rows RATE_LIMIT_MODEL
            (map_first (has_rl_key k) (bump_row t) (rows_of st RATE_LIMIT_MODEL)) st)
       else (Inr None, set_rows RATE_LIMIT_MODEL (rows_of st RATE_LIMIT_MODEL) st))"
    using within by (auto simp: row_counter_row[OF r(2)] bump_row_def)
  have again: "rl_lookup (rows_of (set_rows RATE_LIMIT_MODEL (rows_of st RATE_LIMIT_MODEL) st) RATE_LIMIT_MODEL) k = Some r"
    using r by simp
  show ?thesis
  proof (cases "c < rule_max rl")
    case True
    with inc within r show ?thesis
      by (simp add: Let_def bindA_Inr[OF rl_db_get_mem[OF ad(1)]] last_request_row[OF r(2)] window_ms_def)
        (simp add: bindA_def)
  next
    case False
    with inc within r show ?thesis
      by (simp add: Let_def bindA_Inr[OF rl_db_get_mem[OF ad(1)]] last_request_row[OF r(2)] window_ms_def)
        (simp add: bindA_def rl_db_get_mem[OF ad(1)] last_request_row[OF r(2)])
  qed
qed

lemma rl_lookup_map_first:
  assumes "rl_rows rs" "\<And>c l r. rl_row k c l r \<Longrightarrow> \<exists>c l. rl_row k c l (g r)"
  shows "rl_lookup (map_first (has_rl_key k) g rs) k' =
    (if k' = k then map_option g (rl_lookup rs k) else rl_lookup rs k')"
proof -
  have g: "has_rl_key k (g r)" if "r \<in> set rs" "has_rl_key k r" for r
    using assms that by (fastforce simp: rl_rows_def rl_row_def has_rl_key_def)
  then show ?thesis
    by (induction rs) (auto simp: rl_lookup_def has_rl_key_def)
qed

lemma rl_lookup_filter:
  assumes "rl_rows rs"
  shows "rl_lookup (filter P rs) k =
    (case rl_lookup rs k of None \<Rightarrow> None | Some r \<Rightarrow> if P r then Some r else None)"
  unfolding rl_lookup_def using rl_rows_unique[OF assms] by (rule find_filter_unique)

text \<open>One step on the counters: what \<open>rl_db_live\<close> reads afterwards, at any later time.\<close>

lemma rl_db_step_spec:
  assumes inv: "rl_db_inv ad longest rule_of st"
  shows "rl_db_inv ad longest rule_of (snd (rl_db_step ad ev longest rule_of t k st)) \<and>
    fst (rl_db_step ad ev longest rule_of t k st) =
      (case rl_db_live rule_of t st k of None \<Rightarrow> True | Some c \<Rightarrow> c_count c < rule_max (rule_of k)) \<and>
    (\<forall>t' k'. t \<le> t' \<longrightarrow>
       rl_db_live rule_of t' (snd (rl_db_step ad ev longest rule_of t k st)) k' =
          (if k' = k \<and> fst (rl_db_step ad ev longest rule_of t k st) then
             (if t' - t \<ge> window_ms (rule_of k) then None
              else Some \<lparr>c_count = 1 + (case rl_db_live rule_of t st k of None \<Rightarrow> 0 | Some c \<Rightarrow> c_count c),
                         c_last = t\<rparr>)
           else rl_db_live rule_of t' st k'))"
proof (cases "rl_lookup (rows_of st RATE_LIMIT_MODEL) k")
  case None
  let ?rs = "rows_of st RATE_LIMIT_MODEL"
  obtain r where r: "rl_db_step ad ev longest rule_of t k st =
      (True, set_rows RATE_LIMIT_MODEL (?rs @ [r]) st)" "rl_row k 1 t r"
    using rl_db_consume_fresh[OF inv None, of "ev t" t t "[]" "rule_of k"]
    by (auto simp: rl_db_step_def allow_def simp del: rl_db_consume.simps)
  have "rl_rows (?rs @ [r])"
    using inv None r(2)
    by (auto simp: rl_db_inv_def rl_rows_def rl_lookup_def find_None_all has_rl_key_def rl_row_def)
  moreover have "rl_lookup (?rs @ [r]) k' = (if k' = k then Some r else rl_lookup ?rs k')" for k'
    using None r(2) by (auto simp: rl_lookup_def find_append has_rl_key_def rl_row_def split: option.splits)
  ultimately show ?thesis
    using inv None by (auto simp: r(1) rl_db_inv_def rl_db_live_def row_counter_row[OF r(2)])
next
  case (Some r)
  let ?rs = "rows_of st RATE_LIMIT_MODEL"
  have rs: "rl_rows ?rs" and win: "\<And>k. rule_window (rule_of k) \<le> longest"
    using inv by (simp_all add: rl_db_inv_def)
  obtain c l where r: "rl_row k c l r"
    using rl_lookup_row[OF rs Some] by (metis has_rl_key_def pyval.inject(3) rl_row_def)
  show ?thesis
  proof (cases "t - l \<ge> window_ms (rule_of k)")
    case True
    let ?rs1 = "map_first (has_rl_key k) (reset_row t) ?rs"
    let ?P = "\<lambda>r. \<not> c_last (row_counter r) < t - max longest (rule_window (rule_of k)) * 1000"
    have step: "rl_db_step ad ev longest rule_of t k st =
        (True, set_rows RATE_LIMIT_MODEL (filter ?P ?rs1) st)"
      using rl_db_consume_reset[OF inv Some r True]
      by (simp add: rl_db_step_def allow_def del: rl_db_consume.simps)
    have g: "\<exists>c l. rl_row k c l (reset_row t r)" if "rl_row k c l r" for c l r
      using incremented_reset[OF that] unfolding reset_row_def by blast
    have rows1: "rl_rows ?rs1" using rl_rows_map_first[of ?rs k "reset_row t"] rs g by blast
    have look1: "rl_lookup ?rs1 k' = (if k' = k then map_option (reset_row t) (rl_lookup ?rs k) else rl_lookup ?rs k')" for k'
      using rl_lookup_map_first[of ?rs k "reset_row t"] rs g by blast
    have rr: "row_counter (reset_row t r) = \<lparr>c_count = 1, c_last = t\<rparr>"
      using row_counter_row[OF incremented_reset[OF r]] by (simp add: reset_row_def)
    have rs1: "rl_rows (filter ?P ?rs1)"
      by (rule rl_rows_filter[OF rows1])
    have w0: "0 < rule_window (rule_of k)" using inv by (simp add: rl_db_inv_def)
    have look: "rl_lookup (filter ?P ?rs1) k' =
        (if k' = k then Some (reset_row t r)
         else case rl_lookup ?rs k' of None \<Rightarrow> None | Some x \<Rightarrow> if ?P x then Some x else None)" for k'
      unfolding rl_lookup_filter[OF rows1] look1
      using Some w0 by (auto simp: rr split: option.splits)
    have keep: "window_ms (rule_of k') \<le> t' - c_last (row_counter x)" if "\<not> ?P x" "t \<le> t'" for x t' k'
    proof -
      have "rule_window (rule_of k') * 1000 \<le> max longest (rule_window (rule_of k)) * 1000"
        using win[of k'] by simp
      with that show ?thesis by (simp add: window_ms_def)
    qed
    have none: "rl_db_live rule_of t st k = None"
      using True Some by (simp add: rl_db_live_def row_counter_row[OF r])
    have "rl_db_live rule_of t' (set_rows RATE_LIMIT_MODEL (filter ?P ?rs1) st) k' =
          (if k' = k then (if t' - t \<ge> window_ms (rule_of k) then None
              else Some \<lparr>c_count = 1, c_last = t\<rparr>) else rl_db_live rule_of t' st k')" if "t \<le> t'" for t' k'
      using keep[OF _ that] by (auto simp: rl_db_live_def look rr split: option.splits)
    then show ?thesis
      using inv rs1 by (auto simp: step none rl_db_inv_def)
  next
    case False
    let ?rs1 = "map_first (has_rl_key k) (bump_row t) ?rs"
    have g: "\<exists>c l. rl_row k c l (bump_row t r)" if "rl_row k c l r" for c l r
      using incremented_bump[OF that] unfolding bump_row_def by blast
    have look1: "rl_lookup ?rs1 k' = (if k' = k then map_option (bump_row t) (rl_lookup ?rs k) else rl_lookup ?rs k')" for k'
      using rl_lookup_map_first[of ?rs k "bump_row t"] rs g by blast
    have rr: "row_counter (bump_row t r) = \<lparr>c_count = c + 1, c_last = t\<rparr>"
      using row_counter_row[OF incremented_bump[OF r]] by (simp add: bump_row_def)
    have step: "rl_db_step ad ev longest rule_of t k st =
        (if c < rule_max (rule_of k) then (True, set_rows RATE_LIMIT_MODEL ?rs1 st)
         else (False, set_rows RATE_LIMIT_MODEL ?rs st))"
      using rl_db_consume_within[OF inv Some r False]
      by (simp add: rl_db_step_def allow_def del: rl_db_consume.simps)
    have live: "rl_db_live rule_of t st k = Some \<lparr>c_count = c, c_last = l\<rparr>"
      using False Some by (simp add: rl_db_live_def row_counter_row[OF r])
    have bumped: "rl_db_live rule_of t' (set_rows RATE_LIMIT_MODEL ?rs1 st) k' =
          (if k' = k then (if t' - t \<ge> window_ms (rule_of k) then None
              else Some \<lparr>c_count = c + 1, c_last = t\<rparr>) else rl_db_live rule_of t' st k')" for t' k'
      using Some by (auto simp: rl_db_live_def look1 rr)
    have same: "rl_db_live rule_of t' (set_rows RATE_LIMIT_MODEL ?rs st) k' = rl_db_live rule_of t' st k'" for t' k'
      by (simp add: rl_db_live_def)
    have "rl_rows ?rs1" using rl_rows_map_first[of ?rs k "bump_row t"] rs g by blast
    with inv show ?thesis
      by (auto simp: step live bumped same rl_db_inv_def)
  qed
qed

interpretation db_rl: rate_limiter UNIV "\<lambda>_. rl_db_inv ad longest rule_of" "rl_db_live rule_of" rule_of
    "rl_db_step ad ev longest rule_of"
  for ad ev longest rule_of
proof (unfold_locales, goal_cases)
  case (2 t s k)
  then show ?case using rl_db_step_spec[of ad longest rule_of s ev t k] by blast
next
  case (3 t s k)
  then show ?case using rl_db_step_spec[of ad longest rule_of s ev t k] by blast
next
  case (4 t s k k' t')
  then show ?case using rl_db_step_spec[of ad longest rule_of s ev t k] by blast
qed

end
