(* ===== verification/RateLimit_Claims.thy ===== *)
theory RateLimit_Claims
  imports RateLimit_Props
begin

text \<open>Properties of the rate limiter.\<close>

section \<open>Bounds on any window\<close>

definition no_env :: env where
  "no_env = \<lparr>now = 0, rnd_id = ''r'', rnd_uuid = ''u''\<rparr>"

lemma memory_bound:
  assumes "sorted (map fst reqs)" "card (snd ` set reqs) \<le> MEMORY_STORE_MAX_ENTRIES"
    and "\<forall>k. 0 < rule_window (rule_of k)" "b \<le> a + window_ms (rule_of k)"
  shows "int (granted k a b (rl_run (rl_mem_step rule_of) reqs [])) \<le> max 1 (rule_max (rule_of k)) \<and>
    ((\<forall>t. (t, k) \<in> set reqs \<longrightarrow> a \<le> t) \<longrightarrow>
       granted k a b (rl_run (rl_mem_step rule_of) reqs []) =
         min (asked k a b reqs) (max 1 (nat (rule_max (rule_of k)))))"
proof (cases "k \<in> snd ` set reqs")
  case False
  from not_asked[OF False, of a b "rl_mem_step rule_of" "[]"] show ?thesis by simp
next
  case True
  let ?K = "snd ` set reqs" and ?t = "case reqs of [] \<Rightarrow> 0 | r # _ \<Rightarrow> fst r"
  have inv: "rl_mem_inv ?K rule_of ?t []" using assms by (simp add: rl_mem_inv_def)
  have sorted: "sorted (?t # map fst reqs)" using assms(1) by (cases reqs) auto
  from mem_rl.granted_bound[OF inv sorted _ True assms(4)]
    mem_rl.granted_opens[OF inv sorted _ True assms(4)]
  show ?thesis by (simp add: rl_mem_live_def)
qed

text \<open>
  C5: The in-process limiter: whatever requests arrive, for any keys, in any interval of one
  window at most \<open>max\<close> requests of a key pass (one if \<open>max\<close> is below one), as long as no more
  keys are in use than the store holds; and if the interval contains the first request of the
  key, exactly the first \<open>max\<close> pass.
\<close>
theorem memory_limit_bound:
  assumes "sorted (map fst reqs)" "card (snd ` set reqs) \<le> MEMORY_STORE_MAX_ENTRIES"
    and "\<forall>k. 0 < rule_window (rule_of k)" "b \<le> a + window_ms (rule_of k)"
  shows "int (granted k a b (rl_run (rl_mem_step rule_of) reqs [])) \<le> max 1 (rule_max (rule_of k)) \<and>
    ((\<forall>t. (t, k) \<in> set reqs \<longrightarrow> a \<le> t) \<longrightarrow>
       granted k a b (rl_run (rl_mem_step rule_of) reqs []) =
         min (asked k a b reqs) (max 1 (nat (rule_max (rule_of k)))))"
  by (rule memory_bound[OF assms])

theorem memory_limit_bound_witness:
  "granted ''k'' 0 10000 (rl_run (rl_mem_step (\<lambda>_. \<lparr>rule_window = 10, rule_max = 2\<rparr>))
     [(0, ''k''), (1, ''k''), (2, ''j''), (9999, ''k'')] []) = 2"
proof -
  have "asked ''k'' 0 10000 [(0, ''k''), (1, ''k''), (2, ''j''), (9999, ''k'')] = 3" by simp
  then show ?thesis
    using memory_limit_bound[of "[(0, ''k''), (1, ''k''), (2, ''j''), (9999, ''k'')]"
        "\<lambda>_. \<lparr>rule_window = 10, rule_max = 2\<rparr>" 10000 0 "''k''"]
    by (simp add: MEMORY_STORE_MAX_ENTRIES_def window_ms_def card_insert_if)
qed


definition rl_adapter :: adapter where
  "rl_adapter = \<lparr>ad_schema = [(RATE_LIMIT_MODEL, rate_limit_model)], ad_caps = all_caps,
     ad_codec = \<lparr>json_dumps = (\<lambda>_. Inr []), json_loads = (\<lambda>_. Inr VNone), isoformat = (\<lambda>_. []), strftime_s = (\<lambda>_. []),
                 fromisoformat = (\<lambda>_. Inr 0)\<rparr>,
     ad_limit = 100, ad_generate_id = GenDefault\<rparr>"

definition rl_demo :: store where
  "rl_demo = [(RATE_LIMIT_MODEL,
     [[(''id'', VStr ''1''), (''key'', VStr ''k''), (''count'', VInt 2), (''lastRequest'', VInt 5000)]])]"

lemma rl_demo_inv: "rl_db_inv rl_adapter 60 (\<lambda>_. \<lparr>rule_window = 10, rule_max = 3\<rparr>) rl_demo"
  by (simp add: rl_db_inv_def rl_adapter_def rl_demo_def native_def rows_of_def rl_rows_def rl_row_def dget_def)


section \<open>The database step\<close>

text \<open>
  C4: The guarded database writes implement the rolling-window step. With no other writer,
  \<open>consume\<close> answers in its first attempt, its decision is that of \<open>decide_consume\<close> on the row of
  the key, an allowed request leaves exactly the row \<open>decide_consume\<close> computes, and a refused one
  leaves the table as it was.
\<close>
theorem db_consume_refines_decide:
  assumes "rl_db_inv ad longest rule_of st"
    and "decide_consume (map_option row_counter (rl_lookup (rows_of st RATE_LIMIT_MODEL) k))
           (rule_window (rule_of k)) (rule_max (rule_of k)) t = (next_row, is_update, allowed, wait)"
  shows "\<exists>d st'. rl_db_consume (mem_table ad ev) longest [(t, t')] k (rule_of k) st = (Inr (Some d), st') \<and>
    d_allowed d = allowed \<and>
    (allowed \<longrightarrow> d_retry_after d = None \<and>
       map_option row_counter (rl_lookup (rows_of st' RATE_LIMIT_MODEL) k) = Some next_row) \<and>
    (\<not> allowed \<longrightarrow> d_retry_after d = Some (retry_after (c_last next_row) (rule_window (rule_of k)) t') \<and>
       rows_of st' RATE_LIMIT_MODEL = rows_of st RATE_LIMIT_MODEL)"
proof (cases "rl_lookup (rows_of st RATE_LIMIT_MODEL) k")
  case None
  then obtain r where r: "rl_db_consume (mem_table ad ev) longest [(t, t')] k (rule_of k) st =
      (Inr (Some allow), set_rows RATE_LIMIT_MODEL (rows_of st RATE_LIMIT_MODEL @ [r]) st)" "rl_row k 1 t r"
    using rl_db_consume_fresh[OF assms(1) None, of ev t t' "[]" "rule_of k"] by blast
  have "rl_lookup (rows_of st RATE_LIMIT_MODEL @ [r]) k = Some r"
    using None r(2) by (simp add: rl_lookup_def find_append has_rl_key_def rl_row_def)
  with assms(2) None r(1) row_counter_row[OF r(2)] show ?thesis
    by (auto simp: decide_consume_def allow_def simp del: rl_db_consume.simps)
next
  case (Some r)
  let ?rs = "rows_of st RATE_LIMIT_MODEL"
  have rs: "rl_rows ?rs" and w0: "0 < rule_window (rule_of k)"
    using assms(1) by (simp_all add: rl_db_inv_def)
  obtain c l where r: "rl_row k c l r"
    using rl_lookup_row[OF rs Some] by (metis has_rl_key_def pyval.inject(3) rl_row_def)
  note dec = assms(2)[unfolded Some option.map row_counter_row[OF r] decide_consume_def]
  have look: "rl_lookup (map_first (has_rl_key k) g ?rs) k = Some (g r)"
    if "\<And>c l r. rl_row k c l r \<Longrightarrow> \<exists>c l. rl_row k c l (g r)" for g
    using rl_lookup_map_first[OF rs that] Some by simp
  have reset: "rl_row k 1 t (reset_row t r)" and bump: "rl_row k (c + 1) t (bump_row t r)"
    using incremented_reset[OF r] incremented_bump[OF r] by (simp_all add: reset_row_def bump_row_def)
  have g1: "\<exists>c l. rl_row k c l (reset_row t r)" and g2: "\<exists>c l. rl_row k c l (bump_row t r)"
    if "rl_row k c l r" for c l r
    using incremented_reset[OF that] incremented_bump[OF that]
    unfolding reset_row_def bump_row_def by blast+
  show ?thesis
  proof (cases "t - l \<ge> window_ms (rule_of k)")
    case True
    have rows1: "rl_rows (map_first (has_rl_key k) (reset_row t) ?rs)"
      using rl_rows_map_first[of ?rs k "reset_row t"] rs g1 by blast
    have "rl_lookup (map_first (has_rl_key k) (reset_row t) ?rs) k = Some (reset_row t r)"
      using look[of "reset_row t"] g1 by blast
    with rl_db_consume_reset[OF assms(1) Some r True, of ev t' "[]"] dec True w0 show ?thesis
      by (auto simp: allow_def window_ms_def rl_lookup_filter[OF rows1] row_counter_row[OF reset]
          simp del: rl_db_consume.simps)
  next
    case False
    have "rl_lookup (map_first (has_rl_key k) (bump_row t) ?rs) k = Some (bump_row t r)"
      using look[of "bump_row t"] g2 by blast
    with rl_db_consume_within[OF assms(1) Some r False, of ev t' "[]"] dec False show ?thesis
      by (auto simp: allow_def window_ms_def row_counter_row[OF bump] simp del: rl_db_consume.simps
          split: if_splits)
  qed
qed

theorem db_consume_refines_decide_witness:
  "\<exists>d st'. rl_db_consume (mem_table rl_adapter no_env) 60 [(6000, 6001)] ''k'' \<lparr>rule_window = 10, rule_max = 3\<rparr> rl_demo
     = (Inr (Some d), st') \<and> d_allowed d \<and>
     map_option row_counter (rl_lookup (rows_of st' RATE_LIMIT_MODEL) ''k'') = Some \<lparr>c_count = 3, c_last = 6000\<rparr>"
proof -
  have "decide_consume (map_option row_counter (rl_lookup (rows_of rl_demo RATE_LIMIT_MODEL) ''k'')) 10 3 6000 =
      (\<lparr>c_count = 3, c_last = 6000\<rparr>, True, True, None)"
    by code_simp
  with db_consume_refines_decide[OF rl_demo_inv, of "''k''" 6000 "\<lparr>c_count = 3, c_last = 6000\<rparr>" True True None no_env 6001]
  show ?thesis by (auto simp del: rl_db_consume.simps)
qed

text \<open>
  \<open>X-Retry-After\<close> is honest. A refused request is told to wait at least one second and at
  most the window, and a client that waits that long, with no request of the key counted in
  between, is then allowed.
\<close>
theorem retry_after_sufficient:
  assumes "decide_consume (Some d) window maximum t = (next_row, is_update, False, wait)" "c_last d \<le> t"
  shows "\<exists>w. wait = Some w \<and> 1 \<le> w \<and> w \<le> window \<and> next_row = d \<and>
    (\<forall>t'. t + w * 1000 \<le> t' \<longrightarrow>
       decide_consume (Some d) window maximum t' = (\<lparr>c_count = 1, c_last = t'\<rparr>, True, True, None))"
proof -
  from assms(1) have *: "t - c_last d < window * 1000" "next_row = d" "wait = Some (retry_after (c_last d) window t)"
    by (auto simp: decide_consume_def split: if_splits)
  define x where "x = c_last d + window * 1000 - t"
  have x: "0 < x" "x \<le> window * 1000" using *(1) assms(2) by (auto simp: x_def)
  define w where "w = retry_after (c_last d) window t"
  have w: "w = - ((- x) div 1000)" by (simp add: w_def retry_after_def x_def)
  have "x \<le> w * 1000" "1 \<le> w" "w \<le> window" using x unfolding w by linarith+
  moreover have "window * 1000 \<le> t' - c_last d" if "t + w * 1000 \<le> t'" for t'
    using that \<open>x \<le> w * 1000\<close> by (simp add: x_def)
  ultimately show ?thesis
    using * by (intro exI[of _ w]) (auto simp: w_def decide_consume_def)
qed

theorem retry_after_sufficient_witness:
  "decide_consume (Some \<lparr>c_count = 3, c_last = 1000\<rparr>) 10 3 13000 = (\<lparr>c_count = 1, c_last = 13000\<rparr>, True, True, None)"
proof -
  have "decide_consume (Some \<lparr>c_count = 3, c_last = 1000\<rparr>) 10 3 4500 = (\<lparr>c_count = 3, c_last = 1000\<rparr>, True, False, Some 7)"
    by code_simp
  from retry_after_sufficient[OF this] show ?thesis by auto
qed

section \<open>The secondary storage\<close>

definition rl_sec_mem :: "int \<Rightarrow> string \<Rightarrow> rule \<Rightarrow> (kv, decision) action" where
  "rl_sec_mem t = rl_sec_consume (\<lambda>key w. kv_increment t key (Some w)) kv_delete"

fun rl_sec_run :: "string \<Rightarrow> rule \<Rightarrow> int list \<Rightarrow> kv \<Rightarrow> bool list \<times> kv" where
  "rl_sec_run key r [] s = ([], s)"
| "rl_sec_run key r (t # ts) s =
     (let (res, s1) = rl_sec_mem t key r s; (oks, s2) = rl_sec_run key r ts s1
      in ((case res of Inr d \<Rightarrow> d_allowed d | Inl _ \<Rightarrow> False) # oks, s2))"

definition sec_count :: "kv \<Rightarrow> string \<Rightarrow> int \<Rightarrow> int \<Rightarrow> bool" where
  "sec_count s key n e = (map_of (kv_items s) key = Some (Json (VInt n), Some e))"

lemma rl_sec_mem_next:
  assumes "sec_count s key n e" "t \<le> e"
  shows "\<exists>d s'. rl_sec_mem t key r s = (Inr d, s') \<and> d_allowed d = (n + 1 \<le> rule_max r) \<and> sec_count s' key (n + 1) e"
  using assms
  by (auto simp: rl_sec_mem_def rl_sec_consume_def sec_count_def kv_increment_def kv_expired_def text_int_def
      bindA_def catchA_def allow_def)

lemma rl_sec_mem_first:
  assumes "\<forall>n. kv_view s t key \<noteq> Some (Json (VInt n))"
  shows "\<exists>d s'. rl_sec_mem t key r s = (Inr d, s') \<and> d_allowed d = (1 \<le> rule_max r) \<and>
    sec_count s' key 1 (t + rule_window r * 1000000)"
proof (cases "kv_expired t key s")
  case True
  then show ?thesis
    by (auto simp: rl_sec_mem_def rl_sec_consume_def sec_count_def kv_increment_def bindA_def catchA_def
        kv_set_def allow_def)
next
  case False
  then obtain v x where v: "map_of (kv_items s) key = Some (v, x)"
    by (auto simp: kv_expired_def split: option.splits)
  with False assms have "text_int v = Inl ValueError"
    by (auto simp: kv_view_def text_int_def split: kvtext.splits pyval.splits)
  with False v show ?thesis
    by (auto simp: rl_sec_mem_def rl_sec_consume_def sec_count_def kv_increment_def bindA_def catchA_def
        kv_delete_def kv_expired_def kv_set_def allow_def)
qed

lemma rl_sec_run_count:
  assumes "sec_count s key n e" "\<forall>t\<in>set ts. t \<le> e"
  shows "fst (rl_sec_run key r ts s) = map (\<lambda>i. n + int i < rule_max r) [0..<length ts] \<and>
    sec_count (snd (rl_sec_run key r ts s)) key (n + int (length ts)) e"
  using assms
proof (induction ts arbitrary: s n)
  case (Cons t ts)
  obtain d s' where d: "rl_sec_mem t key r s = (Inr d, s')" "d_allowed d = (n + 1 \<le> rule_max r)"
      "sec_count s' key (n + 1) e"
    using rl_sec_mem_next[OF Cons.prems(1)] Cons.prems(2) by fastforce
  have *: "map (\<lambda>i. n + int i < rule_max r) [0..<Suc (length ts)] =
      (n + 1 \<le> rule_max r) # map (\<lambda>i. n + 1 + int i < rule_max r) [0..<length ts]"
    by (simp add: map_upt_Suc algebra_simps del: upt_Suc) linarith
  from Cons.IH[OF d(3)] Cons.prems(2) d show ?case
    by (simp add: * split_beta Let_def algebra_simps del: upt_Suc)
qed simp

text \<open>
  The secondary-storage limiter has fixed windows. From a key with no counter (or one left by
  the older JSON format, which is dropped), of the requests within one window of the first
  exactly the first \<open>max\<close> pass, and the window is not extended by later requests: the counter is
  gone once it has passed.
\<close>
theorem secondary_fixed_window:
  assumes "\<forall>n. kv_view s t0 key \<noteq> Some (Json (VInt n))"
    and "\<forall>t\<in>set ts. t \<le> t0 + rule_window r * 1000000"
  shows "fst (rl_sec_run key r (t0 # ts) s) = map (\<lambda>i. int i < rule_max r) [0..<Suc (length ts)] \<and>
    (\<forall>t. t0 + rule_window r * 1000000 < t \<longrightarrow> kv_view (snd (rl_sec_run key r (t0 # ts) s)) t key = None)"
proof -
  obtain d s' where d: "rl_sec_mem t0 key r s = (Inr d, s')" "d_allowed d = (1 \<le> rule_max r)"
      "sec_count s' key 1 (t0 + rule_window r * 1000000)"
    using rl_sec_mem_first[OF assms(1)] by blast
  have *: "map (\<lambda>i. int i < rule_max r) [0..<Suc (length ts)] =
      (1 \<le> rule_max r) # map (\<lambda>i. 1 + int i < rule_max r) [0..<length ts]"
    by (simp add: map_upt_Suc algebra_simps del: upt_Suc) linarith
  from rl_sec_run_count[OF d(3) assms(2)] d show ?thesis
    by (auto simp: * split_beta Let_def sec_count_def kv_view_def kv_expired_def simp del: upt_Suc)
qed

theorem secondary_fixed_window_witness:
  "fst (rl_sec_run ''a'' \<lparr>rule_window = 10, rule_max = 2\<rparr> [5, 6, 10000005] demo_kv) = [True, True, False]"
proof -
  have "kv_view demo_kv 5 ''a'' = Some (Json (VStr ''x''))" by code_simp
  then have "\<forall>n. kv_view demo_kv 5 ''a'' \<noteq> Some (Json (VInt n))" by simp
  from secondary_fixed_window[OF this, of "[6, 10000005]" "\<lparr>rule_window = 10, rule_max = 2\<rparr>"]
  show ?thesis by (simp add: upt_rec del: rl_sec_run.simps)
qed

section \<open>The request flow\<close>

text \<open>A request: its time (ms), the resolved client address, its path.\<close>

fun check_run ::
    "unit rl_config \<Rightarrow> string option \<Rightarrow> (int \<times> string option \<times> string) list \<Rightarrow> rl_memory \<Rightarrow>
     (int \<times> string option \<times> string \<times> bool) list" where
  "check_run cfg environ [] s = []"
| "check_run cfg environ ((t, ip, path) # reqs) s =
     (let (res, s') = rl_check cfg environ (rl_mem_consume t) () path ip s
      in (t, ip, path, res = Inr None) # check_run cfg environ reqs s')"

definition default_config :: "unit rl_config" where
  "default_config = \<lparr>cf_enabled = None, cf_window = 10, cf_max = 100, cf_custom_rules = [],
     cf_storage = StMemory, cf_plugin_rules = [], cf_disable_ip_tracking = False\<rparr>"

definition request_key :: "string option \<Rightarrow> string \<Rightarrow> string" where
  "request_key ip path =
     (case ip of Some a \<Rightarrow> if a = [] then NO_TRUSTED_IP else a | None \<Rightarrow> NO_TRUSTED_IP) @ ''|'' @ path"

definition default_rule :: "string \<Rightarrow> rule" where
  "default_rule path =
     (case first_rule SPECIAL_RULES path of
        Some (w, m) \<Rightarrow> \<lparr>rule_window = w, rule_max = m\<rparr>
      | None \<Rightarrow> \<lparr>rule_window = 10, rule_max = 100\<rparr>)"

definition key_rule :: "string \<Rightarrow> rule" where
  "key_rule key = default_rule (tl (dropWhile (\<lambda>c. c \<noteq> CHR ''|'') key))"

definition bar_free :: "string option \<Rightarrow> bool" where
  "bar_free ip = (case ip of None \<Rightarrow> True | Some a \<Rightarrow> CHR ''|'' \<notin> set a)"

lemma skip_to_bar:
  "CHR ''|'' \<notin> set a \<Longrightarrow> dropWhile (\<lambda>c. c \<noteq> CHR ''|'') (a @ CHR ''|'' # p) = CHR ''|'' # p"
  by (induction a) auto

lemma key_rule_request: "bar_free ip \<Longrightarrow> key_rule (request_key ip path) = default_rule path"
  using skip_to_bar[of NO_TRUSTED_IP path] skip_to_bar[of "the ip" path]
  by (auto simp: key_rule_def request_key_def bar_free_def NO_TRUSTED_IP_def split: option.splits)

lemma rl_check_default:
  "rl_check default_config (Some ''production'') (rl_mem_consume t) () path ip s =
     (let (res, s') = rl_mem_consume t (request_key ip path) (default_rule path) s
      in (case res of Inl e \<Rightarrow> (Inl e, s')
          | Inr d \<Rightarrow> (Inr (if d_allowed d then None
                          else case d_retry_after d of Some w \<Rightarrow> Some w
                               | None \<Rightarrow> Some (rule_window (default_rule path))), s')))"
  by (auto simp: rl_check_def rl_is_enabled_def default_config_def rl_resolve_def resolve_custom_def
      request_key_def default_rule_def bindA_def Let_def split: option.splits prod.splits sum.splits)

lemma rl_mem_consume_Inr: "\<exists>d s'. rl_mem_consume t k r s = (Inr d, s')"
  by (simp add: rl_mem_consume_def Let_def split_beta)

lemma check_run_default:
  assumes "\<forall>(t, ip, path) \<in> set reqs. bar_free ip"
  shows "map (\<lambda>(t, ip, path, ok). (t, request_key ip path, ok))
      (check_run default_config (Some ''production'') reqs s) =
    rl_run (rl_mem_step key_rule) (map (\<lambda>(t, ip, path). (t, request_key ip path)) reqs) s"
  using assms
proof (induction reqs arbitrary: s)
  case (Cons req reqs)
  obtain t ip path where req: "req = (t, ip, path)" by (cases req)
  with Cons.prems have rule: "key_rule (request_key ip path) = default_rule path"
    by (simp add: key_rule_request)
  obtain d s' where d: "rl_mem_consume t (request_key ip path) (default_rule path) s = (Inr d, s')"
    using rl_mem_consume_Inr by blast
  have "rl_mem_step key_rule t (request_key ip path) s = (d_allowed d, s')"
    by (simp add: rl_mem_step_def rule d)
  with Cons d show ?case
    by (auto simp: req rl_check_default Let_def split: option.splits)
qed simp

text \<open>
  With the default configuration in production, in any ten seconds at most three requests to
  a given sign-in path pass from one client address (and at most three in total from clients with
  no address, which share a bucket), whatever other requests arrive.
\<close>
theorem sign_in_limited:
  assumes "sorted (map fst reqs)" "\<forall>(t, ip, path) \<in> set reqs. bar_free ip"
    and "length reqs \<le> MEMORY_STORE_MAX_ENTRIES" "starts_with path ''/sign-in''" "bar_free ip"
  shows "length (filter (\<lambda>(t, ip', path', ok). ok \<and> request_key ip' path' = request_key ip path \<and> a \<le> t \<and> t < a + 10000)
      (check_run default_config (Some ''production'') reqs [])) \<le> 3"
proof -
  let ?reqs = "map (\<lambda>(t, ip, path). (t, request_key ip path)) reqs"
  have rule: "key_rule (request_key ip path) = \<lparr>rule_window = 10, rule_max = 3\<rparr>"
    using assms(4) by (simp add: key_rule_request[OF assms(5)] default_rule_def first_rule_def SPECIAL_RULES_def)
  have w: "\<forall>k. 0 < rule_window (key_rule k)"
    by (auto simp: key_rule_def default_rule_def first_rule_def SPECIAL_RULES_def split: option.splits)
  have "card (snd ` set ?reqs) \<le> length ?reqs"
    using card_length[of "map snd ?reqs"] by (simp only: set_map length_map)
  then have c: "card (snd ` set ?reqs) \<le> MEMORY_STORE_MAX_ENTRIES" using assms(3) by simp
  have s: "sorted (map fst ?reqs)" using assms(1) by (simp add: comp_def split_beta)
  have "granted (request_key ip path) a (a + 10000) (rl_run (rl_mem_step key_rule) ?reqs []) \<le> 3"
    using memory_bound[OF s c w, of "a + 10000" a "request_key ip path"] rule
    by (simp add: window_ms_def)
  then show ?thesis
    unfolding check_run_default[OF assms(2), symmetric]
    by (simp add: granted_def filter_map comp_def case_prod_unfold)
qed

theorem sign_in_limited_witness:
  "length (filter (\<lambda>(t, ip', path', ok). ok \<and>
       request_key ip' path' = request_key (Some ''1.2.3.4'') ''/sign-in/email'' \<and> 0 \<le> t \<and> t < 10000)
     (check_run default_config (Some ''production'')
        (map (\<lambda>t. (t, Some ''1.2.3.4'', ''/sign-in/email'')) [0, 1, 2, 3, 4]) [])) \<le> 3"
  using sign_in_limited[of "map (\<lambda>t. (t, Some ''1.2.3.4'', ''/sign-in/email'')) [0, 1, 2, 3, 4]"
      "''/sign-in/email''" "Some ''1.2.3.4''" 0]
  by (simp add: bar_free_def MEMORY_STORE_MAX_ENTRIES_def starts_with_def del: check_run.simps)

end
