(* ===== verification/AccessControl.thy ===== *)
theory AccessControl
  imports BA_Prelude
begin

text \<open>
  \<open>access_control.py\<close>: roles as tables from resources to allowed actions, the check of a
  request against a role, and the default tables of the admin and organization plugins.
\<close>

section \<open>Authorization\<close>

type_synonym statements = "(string \<times> string list) list"

datatype authz_connector = ConnAnd | ConnOr

datatype authorize_result = Success | Failure string

definition unknown_resource_response :: "string \<Rightarrow> authorize_result" where
  "unknown_resource_response resource =
     Failure (''You are not allowed to access resource: '' @ resource)"

definition unauthorized_resource_response :: "string \<Rightarrow> authorize_result" where
  "unauthorized_resource_response resource =
     Failure (''unauthorized to access resource \"'' @ resource @ ''\"'')"

definition normalize_connector :: "pyval \<Rightarrow> authz_connector" where
  "normalize_connector v = (if v = VStr ''OR'' then ConnOr else ConnAnd)"

definition normalize_action_request :: "pyval \<Rightarrow> (pyval list \<times> authz_connector) result" where
  "normalize_action_request requested =
     (case requested of
        VList actions \<Rightarrow> Inr (actions, ConnAnd)
      | VDict d \<Rightarrow>
          (case dget d ''actions'' of
             VList actions \<Rightarrow> Inr (actions, normalize_connector (dget d ''connector''))
           | _ \<Rightarrow> Inr ([], normalize_connector (dget d ''connector'')))
      | _ \<Rightarrow> Inl AccessControlError)"

definition has_allowed_action :: "string list \<Rightarrow> pyval \<Rightarrow> bool" where
  "has_allowed_action allowed action =
     (case action of VStr a \<Rightarrow> a \<in> set allowed | _ \<Rightarrow> False)"

definition is_resource_authorized :: "string list \<Rightarrow> pyval list \<Rightarrow> authz_connector \<Rightarrow> bool" where
  "is_resource_authorized allowed actions connector =
     (if actions = [] then False
      else if connector = ConnOr then list_ex (has_allowed_action allowed) actions
      else list_all (has_allowed_action allowed) actions)"

fun authorize_loop ::
    "statements \<Rightarrow> authz_connector \<Rightarrow> row \<Rightarrow> bool \<Rightarrow> authorize_result result" where
  "authorize_loop st connector [] has_authorized =
     Inr (if has_authorized then Success else Failure ''Not authorized'')"
| "authorize_loop st connector ((resource, requested) # request) has_authorized =
     (case map_of st resource of
        None \<Rightarrow>
          if connector = ConnAnd then Inr (unknown_resource_response resource)
          else authorize_loop st connector request has_authorized
      | Some allowed \<Rightarrow>
          bindR (normalize_action_request requested) (\<lambda>(actions, action_connector).
            let is_authorized = is_resource_authorized allowed actions action_connector
            in if is_authorized \<and> connector = ConnOr then Inr Success
               else if \<not> is_authorized \<and> connector = ConnAnd
                 then Inr (unauthorized_resource_response resource)
               else authorize_loop st connector request (has_authorized \<or> is_authorized)))"

definition authorize :: "statements \<Rightarrow> row \<Rightarrow> authz_connector \<Rightarrow> authorize_result result" where
  "authorize st request connector = authorize_loop st connector request False"

section \<open>The default tables\<close>

definition ADMIN_DEFAULT_STATEMENTS :: statements where
  "ADMIN_DEFAULT_STATEMENTS = [
     (''user'', [''create'', ''list'', ''set-role'', ''ban'', ''impersonate'', ''impersonate-admins'',
        ''delete'', ''set-password'', ''set-email'', ''get'', ''update'']),
     (''session'', [''list'', ''revoke'', ''delete''])]"

definition ADMIN_DEFAULT_ROLES :: "(string \<times> statements) list" where
  "ADMIN_DEFAULT_ROLES = [
     (''admin'', [
        (''user'', [''create'', ''list'', ''set-role'', ''ban'', ''impersonate'', ''delete'',
           ''set-password'', ''set-email'', ''get'', ''update'']),
        (''session'', [''list'', ''revoke'', ''delete''])]),
     (''user'', [(''user'', []), (''session'', [])])]"

definition ORG_DEFAULT_STATEMENTS :: statements where
  "ORG_DEFAULT_STATEMENTS = [
     (''organization'', [''update'', ''delete'']),
     (''member'', [''create'', ''update'', ''delete'']),
     (''invitation'', [''create'', ''cancel'']),
     (''team'', [''create'', ''update'', ''delete'']),
     (''ac'', [''create'', ''read'', ''update'', ''delete''])]"

definition ORG_DEFAULT_ROLES :: "(string \<times> statements) list" where
  "ORG_DEFAULT_ROLES = [
     (''admin'', [
        (''organization'', [''update'']),
        (''invitation'', [''create'', ''cancel'']),
        (''member'', [''create'', ''update'', ''delete'']),
        (''team'', [''create'', ''update'', ''delete'']),
        (''ac'', [''create'', ''read'', ''update'', ''delete''])]),
     (''owner'', [
        (''organization'', [''update'', ''delete'']),
        (''member'', [''create'', ''update'', ''delete'']),
        (''invitation'', [''create'', ''cancel'']),
        (''team'', [''create'', ''update'', ''delete'']),
        (''ac'', [''create'', ''read'', ''update'', ''delete''])]),
     (''member'', [
        (''organization'', []),
        (''member'', []),
        (''invitation'', []),
        (''team'', []),
        (''ac'', [''read''])])]"

section \<open>What is granted\<close>

text \<open>The request for one resource is satisfied by a table.\<close>

definition satisfied :: "statements \<Rightarrow> string \<times> pyval \<Rightarrow> bool" where
  "satisfied st = (\<lambda>(resource, requested).
     case (map_of st resource, normalize_action_request requested) of
       (Some allowed, Inr (actions, connector)) \<Rightarrow> is_resource_authorized allowed actions connector
     | _ \<Rightarrow> False)"

definition well_formed_request :: "row \<Rightarrow> bool" where
  "well_formed_request request =
     list_all (\<lambda>(_, v). case v of VList _ \<Rightarrow> True | VDict _ \<Rightarrow> True | _ \<Rightarrow> False) request"

lemma normalize_total:
  assumes "case v of VList _ \<Rightarrow> True | VDict _ \<Rightarrow> True | _ \<Rightarrow> False"
  shows "\<exists>as c. normalize_action_request v = Inr (as, c)"
  using assms by (auto simp: normalize_action_request_def split: pyval.splits)

lemma authorize_loop_and:
  assumes "well_formed_request request"
  shows "authorize_loop st ConnAnd request b = Inr Success \<longleftrightarrow>
    (b \<or> request \<noteq> []) \<and> list_all (satisfied st) request"
  using assms
proof (induction request arbitrary: b)
  case (Cons x request)
  obtain res v where x: "x = (res, v)" by (cases x)
  with Cons.prems obtain as c where n: "normalize_action_request v = Inr (as, c)"
    using normalize_total[of v] by (auto simp: well_formed_request_def)
  from Cons show ?case
    by (auto simp: x n satisfied_def Let_def well_formed_request_def unknown_resource_response_def
        unauthorized_resource_response_def split: option.splits)
qed simp

lemma authorize_loop_or:
  assumes "well_formed_request request"
  shows "authorize_loop st ConnOr request b = Inr Success \<longleftrightarrow> b \<or> list_ex (satisfied st) request"
  using assms
proof (induction request arbitrary: b)
  case (Cons x request)
  obtain res v where x: "x = (res, v)" by (cases x)
  with Cons.prems obtain as c where n: "normalize_action_request v = Inr (as, c)"
    using normalize_total[of v] by (auto simp: well_formed_request_def)
  from Cons show ?case
    by (auto simp: x n satisfied_def Let_def well_formed_request_def split: option.splits)
qed simp

lemma authorize_loop_total:
  assumes "well_formed_request request"
  shows "\<exists>res. authorize_loop st connector request b = Inr res"
  using assms
proof (induction request arbitrary: b)
  case (Cons x request)
  obtain res v where x: "x = (res, v)" by (cases x)
  with Cons.prems obtain as c where n: "normalize_action_request v = Inr (as, c)"
    using normalize_total[of v] by (auto simp: well_formed_request_def)
  from Cons show ?case
    by (auto simp: x n Let_def well_formed_request_def split: option.splits)
qed simp

text \<open>
  A well-formed request never raises. With the connector AND it is granted exactly when it
  names at least one resource and every named resource is in the role's table and its actions are
  allowed; with OR exactly when some named resource is. A resource's actions are all allowed, or
  one of them for its own connector OR; an empty action list is never allowed.
\<close>
theorem authorize_spec:
  assumes "well_formed_request request"
  shows "(\<exists>res. authorize st request connector = Inr res) \<and>
    (authorize st request ConnAnd = Inr Success \<longleftrightarrow> request \<noteq> [] \<and> list_all (satisfied st) request) \<and>
    (authorize st request ConnOr = Inr Success \<longleftrightarrow> list_ex (satisfied st) request)"
  using authorize_loop_total[OF assms] authorize_loop_and[OF assms] authorize_loop_or[OF assms]
  by (simp add: authorize_def)

theorem authorize_spec_witness:
  "authorize [(''user'', [''list''])] [(''user'', VList [VStr ''list''])] ConnAnd = Inr Success"
proof -
  have "well_formed_request [(''user'', VList [VStr ''list''])]" by (simp add: well_formed_request_def)
  from authorize_spec[OF this, of "[(''user'', [''list''])]"] show ?thesis
    by (simp add: satisfied_def normalize_action_request_def is_resource_authorized_def has_allowed_action_def
       )
qed

definition table_le :: "statements \<Rightarrow> statements \<Rightarrow> bool" where
  "table_le st st' =
     list_all (\<lambda>(resource, _). case (map_of st resource, map_of st' resource) of
        (Some xs, Some ys) \<Rightarrow> list_all (\<lambda>x. x \<in> set ys) xs | _ \<Rightarrow> False) st"

lemma table_leD:
  assumes "table_le st st'" "map_of st r = Some xs"
  obtains ys where "map_of st' r = Some ys" "set xs \<subseteq> set ys"
proof -
  have "(r, xs) \<in> set st" using assms(2) by (rule map_of_SomeD)
  with assms have "case map_of st' r of Some ys \<Rightarrow> list_all (\<lambda>x. x \<in> set ys) xs | None \<Rightarrow> False"
    by (auto simp: table_le_def list_all_iff split: option.splits)
  with that show ?thesis by (auto simp: list_all_iff split: option.splits)
qed

lemma is_resource_authorized_mono:
  assumes "set xs \<subseteq> set ys" "is_resource_authorized xs as c"
  shows "is_resource_authorized ys as c"
proof -
  have "has_allowed_action ys a" if "has_allowed_action xs a" for a
    using that assms(1) by (auto simp: has_allowed_action_def split: pyval.splits)
  with assms(2) show ?thesis
    by (auto simp: is_resource_authorized_def list_all_iff list_ex_iff split: if_splits)
qed

lemma satisfied_mono:
  assumes "table_le st st'" "satisfied st x"
  shows "satisfied st' x"
proof -
  obtain r v where x: "x = (r, v)" by (cases x)
  with assms(2) obtain xs as c where "map_of st r = Some xs" "normalize_action_request v = Inr (as, c)"
      "is_resource_authorized xs as c"
    by (auto simp: satisfied_def split: option.splits sum.splits)
  with table_leD[OF assms(1)] is_resource_authorized_mono show ?thesis
    unfolding x satisfied_def by (metis (no_types, lifting) case_prod_conv option.simps(5) sum.simps(6))
qed

lemma authorize_mono:
  assumes "table_le st st'" "well_formed_request request" "authorize st request connector = Inr Success"
  shows "authorize st' request connector = Inr Success"
  using assms satisfied_mono[OF assms(1)]
  by (cases connector)
    (auto simp: authorize_def authorize_loop_and[OF assms(2)] authorize_loop_or[OF assms(2)]
      list_all_iff list_ex_iff)

definition role_table :: "(string \<times> statements) list \<Rightarrow> string \<Rightarrow> statements" where
  "role_table roles name = (case map_of roles name of Some st \<Rightarrow> st | None \<Rightarrow> [])"

text \<open>
  The default roles are ordered. Whatever an organization member may do, its admin may do,
  and whatever the admin may do, the owner may do; the admin alone cannot delete the organization.
  In the admin plugin the admin role may not impersonate admins and the user role is granted
  nothing.
\<close>
theorem default_roles_ordered:
  assumes "well_formed_request request"
  shows "(authorize (role_table ORG_DEFAULT_ROLES ''member'') request connector = Inr Success \<longrightarrow>
      authorize (role_table ORG_DEFAULT_ROLES ''admin'') request connector = Inr Success) \<and>
    (authorize (role_table ORG_DEFAULT_ROLES ''admin'') request connector = Inr Success \<longrightarrow>
      authorize (role_table ORG_DEFAULT_ROLES ''owner'') request connector = Inr Success) \<and>
    \<not> satisfied (role_table ORG_DEFAULT_ROLES ''admin'') (''organization'', VList [VStr ''delete'']) \<and>
    satisfied (role_table ORG_DEFAULT_ROLES ''owner'') (''organization'', VList [VStr ''delete'']) \<and>
    \<not> satisfied (role_table ADMIN_DEFAULT_ROLES ''admin'') (''user'', VList [VStr ''impersonate-admins'']) \<and>
    authorize (role_table ADMIN_DEFAULT_ROLES ''user'') request connector \<noteq> Inr Success"
proof -
  have "table_le (role_table ORG_DEFAULT_ROLES ''member'') (role_table ORG_DEFAULT_ROLES ''admin'')"
    and "table_le (role_table ORG_DEFAULT_ROLES ''admin'') (role_table ORG_DEFAULT_ROLES ''owner'')"
    by code_simp+
  moreover have "\<not> satisfied (role_table ORG_DEFAULT_ROLES ''admin'') (''organization'', VList [VStr ''delete''])"
    and "satisfied (role_table ORG_DEFAULT_ROLES ''owner'') (''organization'', VList [VStr ''delete''])"
    and "\<not> satisfied (role_table ADMIN_DEFAULT_ROLES ''admin'') (''user'', VList [VStr ''impersonate-admins''])"
    by code_simp+
  moreover have none: "\<not> satisfied (role_table ADMIN_DEFAULT_ROLES ''user'') x" for x
  proof -
    have "\<not> has_allowed_action [] a" for a
      by (simp add: has_allowed_action_def split: pyval.splits)
    then have "\<not> is_resource_authorized [] as c" for as c
      by (cases as) (auto simp: is_resource_authorized_def list_ex_iff)
    moreover have "xs = []" if "map_of (role_table ADMIN_DEFAULT_ROLES ''user'') r = Some xs" for r xs
      using that by (auto simp: role_table_def ADMIN_DEFAULT_ROLES_def split: if_splits)
    ultimately show ?thesis
      by (cases x; cases "map_of (role_table ADMIN_DEFAULT_ROLES ''user'') (fst x)";
          cases "normalize_action_request (snd x)") (auto simp: satisfied_def)
  qed
  have "authorize (role_table ADMIN_DEFAULT_ROLES ''user'') request connector \<noteq> Inr Success"
    using none
    by (cases connector)
      (auto simp: authorize_def authorize_loop_and[OF assms] authorize_loop_or[OF assms] list_ex_iff
        neq_Nil_conv)
  ultimately show ?thesis using authorize_mono[OF _ assms] by blast
qed

theorem default_roles_ordered_witness:
  "authorize (role_table ORG_DEFAULT_ROLES ''owner'') [(''member'', VList [VStr ''create''])] ConnAnd = Inr Success"
proof -
  have "well_formed_request [(''member'', VList [VStr ''create''])]" by (simp add: well_formed_request_def)
  moreover have "authorize (role_table ORG_DEFAULT_ROLES ''admin'') [(''member'', VList [VStr ''create''])] ConnAnd = Inr Success"
    by code_simp
  ultimately show ?thesis using default_roles_ordered[of "[(''member'', VList [VStr ''create''])]" ConnAnd] by blast
qed

end
