(* ===== verification/Crypto.thy ===== *)
theory Crypto
  imports BA_Prelude
begin

text \<open>
  \<open>crypto.py\<close>: base64, percent-encoding and signed cookie values, versioned secrets and
  encryption envelopes, one-time passwords and the constant-time comparison.

  Byte strings are lists of \<open>nat\<close> below 256 and text is ASCII. The primitives of \<open>hashlib\<close>,
  \<open>hmac\<close>, libsodium and the random sources are parameters; the encodings around them are
  defined. An escape of a byte above 127 is left in place by \<open>unquote\<close> (its UTF-8 decoding is
  outside ASCII text).
\<close>

section \<open>Decimal numbers\<close>

definition digit_char :: "nat \<Rightarrow> char" where
  "digit_char n = char_of (48 + n)"

fun nat_str :: "nat \<Rightarrow> string" where
  "nat_str n = (if n < 10 then [digit_char n] else nat_str (n div 10) @ [digit_char (n mod 10)])"

declare nat_str.simps [simp del]

definition int_str :: "int \<Rightarrow> string" where
  "int_str i = (if i < 0 then CHR ''-'' # nat_str (nat (- i)) else nat_str (nat i))"

definition is_digit :: "char \<Rightarrow> bool" where
  "is_digit c \<longleftrightarrow> 48 \<le> (of_char c :: nat) \<and> (of_char c :: nat) \<le> 57"

definition is_space :: "char \<Rightarrow> bool" where
  "is_space c \<longleftrightarrow> (of_char c :: nat) \<in> {9, 10, 11, 12, 13, 28, 29, 30, 31, 32}"

definition strip :: "string \<Rightarrow> string" where
  "strip s = rev (dropWhile is_space (rev (dropWhile is_space s)))"

text \<open>The digits of \<open>int(text)\<close>: single underscores may separate them.\<close>

fun parse_digits :: "nat \<Rightarrow> string \<Rightarrow> nat option" where
  "parse_digits acc [] = None"
| "parse_digits acc (c # s) =
     (if \<not> is_digit c then None
      else let acc' = 10 * acc + (of_char c - 48)
        in case s of
             [] \<Rightarrow> Some acc'
           | d # s' \<Rightarrow> if d = CHR ''_'' then parse_digits acc' s' else parse_digits acc' s)"

definition parse_int :: "string \<Rightarrow> int option" where
  "parse_int text =
     (case strip text of
        [] \<Rightarrow> None
      | c # s \<Rightarrow>
          if c = CHR ''-'' then map_option (\<lambda>n. - int n) (parse_digits 0 s)
          else if c = CHR ''+'' then map_option int (parse_digits 0 s)
          else map_option int (parse_digits 0 (c # s)))"

text \<open>\<open>s.partition(c)\<close> and \<open>s.rpartition(c)\<close>: before, whether \<open>c\<close> occurs, after.\<close>

definition partition_at :: "char \<Rightarrow> string \<Rightarrow> string \<times> bool \<times> string" where
  "partition_at c s =
     (case dropWhile (\<lambda>x. x \<noteq> c) s of
        [] \<Rightarrow> (s, False, [])
      | _ # after \<Rightarrow> (takeWhile (\<lambda>x. x \<noteq> c) s, True, after))"

definition rpartition_at :: "char \<Rightarrow> string \<Rightarrow> string \<times> bool \<times> string" where
  "rpartition_at c s =
     (case partition_at c (rev s) of
        (after, found, front) \<Rightarrow> if found then (rev front, True, rev after) else ([], False, s))"

section \<open>Base64\<close>

definition B64_STD :: string where
  "B64_STD = ''ABCDEFGHIJKLMNOPQRSTUVWXYZabcdefghijklmnopqrstuvwxyz0123456789+/''"

definition B64_URL :: string where
  "B64_URL = ''ABCDEFGHIJKLMNOPQRSTUVWXYZabcdefghijklmnopqrstuvwxyz0123456789-_''"

fun b64_sextets :: "nat list \<Rightarrow> nat list" where
  "b64_sextets [] = []"
| "b64_sextets [a] = [a div 4, (a mod 4) * 16]"
| "b64_sextets [a, b] = [a div 4, (a mod 4) * 16 + b div 16, (b mod 16) * 4]"
| "b64_sextets (a # b # c # bs) =
     a div 4 # ((a mod 4) * 16 + b div 16) # ((b mod 16) * 4 + c div 64) # (c mod 64) # b64_sextets bs"

definition b64_nopad :: "string \<Rightarrow> nat list \<Rightarrow> string" where
  "b64_nopad alphabet bs = map (\<lambda>n. alphabet ! n) (b64_sextets bs)"

definition b64encode :: "nat list \<Rightarrow> string" where
  "b64encode bs =
     (let s = b64_nopad B64_STD bs in s @ replicate ((4 - length s mod 4) mod 4) CHR ''='')"

definition b64url_encode_nopad :: "nat list \<Rightarrow> string" where
  "b64url_encode_nopad = b64_nopad B64_URL"

definition default_key_hasher :: "(string \<Rightarrow> nat list) \<Rightarrow> string \<Rightarrow> string" where
  "default_key_hasher sha256 token = b64url_encode_nopad (sha256 token)"

section \<open>Percent-encoding\<close>

definition hex_char :: "nat \<Rightarrow> char" where
  "hex_char n = (if n < 10 then char_of (48 + n) else char_of (55 + n))"

definition hex_value :: "char \<Rightarrow> nat option" where
  "hex_value c =
     (let n = of_char c
      in if 48 \<le> n \<and> n \<le> 57 then Some (n - 48)
         else if 65 \<le> n \<and> n \<le> 70 then Some (n - 55)
         else if 97 \<le> n \<and> n \<le> 102 then Some (n - 87)
         else None)"

definition unreserved :: "char \<Rightarrow> bool" where
  "unreserved c \<longleftrightarrow>
     (let n = (of_char c :: nat)
      in 48 \<le> n \<and> n \<le> 57 \<or> 65 \<le> n \<and> n \<le> 90 \<or> 97 \<le> n \<and> n \<le> 122) \<or> c \<in> set ''_.-~''"

text \<open>\<open>quote(s, safe="")\<close> and \<open>unquote(s)\<close>.\<close>

fun quote_all :: "string \<Rightarrow> string" where
  "quote_all [] = []"
| "quote_all (c # s) =
     (if unreserved c then c # quote_all s
      else CHR ''%'' # hex_char (of_char c div 16) # hex_char (of_char c mod 16) # quote_all s)"

definition unescape :: "char \<Rightarrow> char \<Rightarrow> char option" where
  "unescape a b =
     (case (hex_value a, hex_value b) of
        (Some x, Some y) \<Rightarrow> if 16 * x + y < 128 then Some (char_of (16 * x + y)) else None
      | _ \<Rightarrow> None)"

fun unquote_all :: "string \<Rightarrow> string" where
  "unquote_all (c # a # b # s) =
     (if c = CHR ''%'' then
        (case unescape a b of Some d \<Rightarrow> d # unquote_all s | None \<Rightarrow> c # unquote_all (a # b # s))
      else c # unquote_all (a # b # s))"
| "unquote_all (c # s) = c # unquote_all s"
| "unquote_all [] = []"

section \<open>Signed values\<close>

text \<open>\<open>hmac secret value\<close> is the HMAC-SHA256 digest.\<close>

type_synonym hmac = "string \<Rightarrow> string \<Rightarrow> nat list"

definition signature :: "hmac \<Rightarrow> string \<Rightarrow> string \<Rightarrow> string" where
  "signature hmac secret v = b64encode (hmac secret v)"

definition sign_hmac_b64url :: "hmac \<Rightarrow> string \<Rightarrow> string \<Rightarrow> string" where
  "sign_hmac_b64url hmac secret v = b64url_encode_nopad (hmac secret v)"

definition sign_value :: "hmac \<Rightarrow> string \<Rightarrow> string \<Rightarrow> string" where
  "sign_value hmac secret v = quote_all (v @ ''.'' @ signature hmac secret v)"

definition unsign_value :: "hmac \<Rightarrow> string \<Rightarrow> string \<Rightarrow> string option" where
  "unsign_value hmac secret signed =
     (let decoded = unquote_all signed;
          (v, _, sig) = rpartition_at CHR ''.'' decoded
      in if v = [] \<or> length sig \<noteq> 44 \<or> \<not> ends_with sig ''='' then None
         else if sig \<noteq> signature hmac secret v then None
         else Some v)"

section \<open>Versioned secrets\<close>

definition ENVELOPE_PREFIX :: string where
  "ENVELOPE_PREFIX = ''$ba$''"

definition DEFAULT_SECRET :: string where
  "DEFAULT_SECRET = ''better-auth-secret-12345678901234567890''"

record secret_config =
  sc_keys :: "(int \<times> string) list"
  sc_current_version :: int
  sc_legacy_secret :: "string option"

datatype secret_like = PlainSecret string | Versioned secret_config

definition parse_envelope :: "string \<Rightarrow> (int \<times> string) option" where
  "parse_envelope data =
     (if \<not> starts_with data ENVELOPE_PREFIX then None
      else let (version_str, sep, ciphertext) =
                 partition_at CHR ''$'' (drop (length ENVELOPE_PREFIX) data)
        in if \<not> sep then None
           else case parse_int version_str of
                  None \<Rightarrow> None
                | Some version \<Rightarrow> if version \<ge> 0 then Some (version, ciphertext) else None)"

definition format_envelope :: "int \<Rightarrow> string \<Rightarrow> string" where
  "format_envelope version ciphertext = ENVELOPE_PREFIX @ int_str version @ ''$'' @ ciphertext"

definition is_lower_hex :: "char \<Rightarrow> bool" where
  "is_lower_hex c \<longleftrightarrow> is_digit c \<or> 97 \<le> (of_char c :: nat) \<and> (of_char c :: nat) \<le> 102"

definition is_likely_encrypted :: "string \<Rightarrow> bool" where
  "is_likely_encrypted token =
     (if parse_envelope token \<noteq> None then True
      else length token \<ge> 80 \<and> length token mod 2 = 0 \<and> list_all is_lower_hex token)"

text \<open>\<open>enc key data\<close> is \<open>_raw_encrypt\<close> (with the nonce it draws), \<open>dec key text\<close> \<open>_raw_decrypt\<close>.\<close>

definition symmetric_encrypt ::
    "(string \<Rightarrow> string \<Rightarrow> string) \<Rightarrow> secret_like \<Rightarrow> string \<Rightarrow> string result" where
  "symmetric_encrypt enc secret data =
     (case secret of
        Versioned sc \<Rightarrow>
          (case map_of (sc_keys sc) (sc_current_version sc) of
             None \<Rightarrow> Inl ValueError
           | Some key \<Rightarrow> Inr (format_envelope (sc_current_version sc) (enc key data)))
      | PlainSecret key \<Rightarrow> Inr (enc key data))"

definition symmetric_decrypt ::
    "(string \<Rightarrow> string \<Rightarrow> string result) \<Rightarrow> secret_like \<Rightarrow> string \<Rightarrow> (int \<times> string) list \<Rightarrow>
     string result" where
  "symmetric_decrypt dec secret payload keys =
     (case secret of
        Versioned sc \<Rightarrow>
          (case parse_envelope payload of
             Some (version, ciphertext) \<Rightarrow>
               (case map_of (sc_keys sc) version of
                  None \<Rightarrow> Inl ValueError
                | Some key \<Rightarrow> dec key ciphertext)
           | None \<Rightarrow>
               (case sc_legacy_secret sc of
                  Some key \<Rightarrow> if key = [] then Inl ValueError else dec key payload
                | None \<Rightarrow> Inl ValueError))
      | PlainSecret key \<Rightarrow>
          (case parse_envelope payload of
             Some (version, ciphertext) \<Rightarrow>
               (case map_of keys version of
                  None \<Rightarrow> Inl ValueError
                | Some k \<Rightarrow> dec k ciphertext)
           | None \<Rightarrow> dec key payload))"

text \<open>The first pass of \<open>resolve_secret_config\<close> over its entries.\<close>

fun check_secrets :: "(int \<times> string) list \<Rightarrow> int list \<Rightarrow> unit result" where
  "check_secrets [] seen = Inr ()"
| "check_secrets ((version, v) # entries) seen =
     (if version < 0 \<or> v = [] \<or> version \<in> set seen then Inl ValueError
      else check_secrets entries (version # seen))"

definition resolve_secret_config ::
    "string \<Rightarrow> (int \<times> string) list option \<Rightarrow> secret_like result" where
  "resolve_secret_config secret secrets =
     (case secrets of
        None \<Rightarrow> Inr (PlainSecret secret)
      | Some entries \<Rightarrow>
          (case entries of
             [] \<Rightarrow> Inl ValueError
           | (first_version, _) # _ \<Rightarrow>
               bindR (check_secrets entries []) (\<lambda>_.
                 Inr (Versioned
                   \<lparr>sc_keys = entries, sc_current_version = first_version,
                    sc_legacy_secret =
                      (if secret \<noteq> [] \<and> secret \<noteq> DEFAULT_SECRET then Some secret else None)\<rparr>))))"

definition parse_secret_entry :: "string \<Rightarrow> (int \<times> string) result" where
  "parse_secret_entry raw =
     (let (version_str, colon, rest) = partition_at CHR '':'' (strip raw)
      in if \<not> colon then Inl ValueError
         else case parse_int version_str of
                None \<Rightarrow> Inl ValueError
              | Some version \<Rightarrow>
                  if version < 0 \<or> int_str version \<noteq> strip version_str then Inl ValueError
                  else if strip rest = [] then Inl ValueError
                  else Inr (version, strip rest))"

fun split_on :: "char \<Rightarrow> string \<Rightarrow> string list" where
  "split_on c [] = [[]]"
| "split_on c (x # s) =
     (if x = c then [] # split_on c s
      else case split_on c s of [] \<Rightarrow> [[x]] | w # ws \<Rightarrow> (x # w) # ws)"

fun parse_entries :: "string list \<Rightarrow> (int \<times> string) list result" where
  "parse_entries [] = Inr []"
| "parse_entries (raw # rs) =
     bindR (parse_secret_entry raw) (\<lambda>e. bindR (parse_entries rs) (\<lambda>es. Inr (e # es)))"

definition parse_secrets_env :: "string option \<Rightarrow> (int \<times> string) list option result" where
  "parse_secrets_env env_value =
     (case env_value of
        None \<Rightarrow> Inr None
      | Some s \<Rightarrow>
          if s = [] then Inr None
          else bindR (parse_entries (split_on CHR '','' s)) (\<lambda>es. Inr (Some es)))"

section \<open>One-time passwords\<close>

unbundle bit_operations_syntax

definition byte_at :: "string \<Rightarrow> nat \<Rightarrow> nat" where
  "byte_at s i = (if i < length s then of_char (s ! i) else 0)"

definition constant_time_equal :: "string \<Rightarrow> string \<Rightarrow> bool" where
  "constant_time_equal a b =
     (foldl (\<lambda>difference i. difference OR (byte_at a i XOR of_char (b ! i)))
        (length a XOR length b) [0..<length b] = (0 :: nat))"

definition zfill :: "nat \<Rightarrow> string \<Rightarrow> string" where
  "zfill n s = replicate (n - length s) CHR ''0'' @ s"

text \<open>\<open>mac counter\<close> is the HMAC of the 8-byte counter under the secret, at least 20 bytes.\<close>

definition hotp_truncate :: "nat list \<Rightarrow> nat" where
  "hotp_truncate mac =
     (let offset = last mac AND 15
      in push_bit 24 (mac ! offset AND 127) OR push_bit 16 (mac ! (offset + 1) AND 255) OR
         push_bit 8 (mac ! (offset + 2) AND 255) OR (mac ! (offset + 3) AND 255))"

definition generate_hotp :: "(int \<Rightarrow> nat list) \<Rightarrow> int \<Rightarrow> nat \<Rightarrow> string result" where
  "generate_hotp mac counter digits =
     (if digits < 1 \<or> digits > 8 then Inl ValueError
      else if counter < 0 \<or> counter \<ge> 2 ^ 64 then Inl OverflowError
      else Inr (zfill digits (nat_str (hotp_truncate (mac counter) mod 10 ^ digits))))"

definition generate_totp :: "(int \<Rightarrow> nat list) \<Rightarrow> nat \<Rightarrow> int \<Rightarrow> int \<Rightarrow> string result" where
  "generate_totp mac digits period seconds = generate_hotp mac (seconds div period) digits"

fun match_window ::
    "(int \<Rightarrow> nat list) \<Rightarrow> nat \<Rightarrow> string \<Rightarrow> int list \<Rightarrow> bool \<Rightarrow> bool result" where
  "match_window mac digits otp [] matched = Inr matched"
| "match_window mac digits otp (c # cs) matched =
     bindR (generate_hotp mac c digits) (\<lambda>candidate.
       match_window mac digits otp cs (constant_time_equal otp candidate \<or> matched))"

definition verify_totp ::
    "(int \<Rightarrow> nat list) \<Rightarrow> nat \<Rightarrow> int \<Rightarrow> int \<Rightarrow> int \<Rightarrow> string \<Rightarrow> bool result" where
  "verify_totp mac digits period window seconds otp =
     match_window mac digits otp (map (\<lambda>i. seconds div period + i) [- window..window]) False"

end
