(* ===== verification/Crypto_Props.thy ===== *)
theory Crypto_Props
  imports Crypto
begin

text \<open>
  Properties of the encodings: decimal numbers, base64 and percent-encoding are inverted by
  their readers, signed values and envelopes round-trip and accept nothing else, keys rotate, and
  one-time passwords are accepted exactly in their window.
\<close>

section \<open>Numbers and splitting\<close>

lemma is_digit_char: "n < 10 \<Longrightarrow> is_digit (digit_char n) \<and> of_char (digit_char n) = 48 + n"
  by (simp add: is_digit_def digit_char_def)

lemma nat_str_digits: "\<forall>c\<in>set (nat_str n). is_digit c"
proof (induction n rule: nat_str.induct)
  case (1 n)
  then show ?case by (subst nat_str.simps) (auto simp: is_digit_char)
qed

lemma nat_str_Nil [simp]: "nat_str n \<noteq> []"
  by (subst nat_str.simps) simp

lemma parse_digits_foldl:
  assumes "s \<noteq> []" "\<forall>c\<in>set s. is_digit c"
  shows "parse_digits acc s = Some (foldl (\<lambda>a c. 10 * a + (of_char c - 48)) acc s)"
  using assms
proof (induction s arbitrary: acc)
  case (Cons c s)
  have "d \<noteq> CHR ''_''" if "is_digit d" for d
    using that by (auto simp: is_digit_def)
  with Cons show ?case by (cases s) (auto simp: Let_def)
qed simp

lemma foldl_nat_str:
  "foldl (\<lambda>a c. 10 * a + (of_char c - 48)) acc (nat_str n) = acc * 10 ^ length (nat_str n) + n"
proof (induction n arbitrary: acc rule: nat_str.induct)
  case (1 n)
  show ?case
  proof (cases "n < 10")
    case True
    then show ?thesis by (simp add: nat_str.simps[of n] is_digit_char)
  next
    case False
    have "foldl (\<lambda>a c. 10 * a + (of_char c - 48)) acc (nat_str n) =
        10 * (acc * 10 ^ length (nat_str (n div 10)) + n div 10) + n mod 10"
      using 1 False by (simp add: nat_str.simps[of n] is_digit_char)
    with False show ?thesis by (simp add: nat_str.simps[of n] algebra_simps)
  qed
qed

lemma strip_id: "\<forall>c\<in>set s. \<not> is_space c \<Longrightarrow> strip s = s"
proof -
  assume "\<forall>c\<in>set s. \<not> is_space c"
  then have "dropWhile is_space s = s" "dropWhile is_space (rev s) = rev s"
    by (simp_all add: dropWhile_eq_self_iff) (metis hd_in_set set_rev rev_is_Nil_conv)
  then show ?thesis by (simp add: strip_def)
qed

lemma digit_not_space: "is_digit c \<Longrightarrow> \<not> is_space c"
  by (auto simp: is_digit_def is_space_def)

lemma parse_int_str: "0 \<le> i \<Longrightarrow> parse_int (int_str i) = Some i"
proof -
  assume i: "0 \<le> i"
  let ?s = "nat_str (nat i)"
  obtain c s where cs: "?s = c # s" by (cases ?s) auto
  have "is_digit c" using nat_str_digits[of "nat i"] cs by auto
  then have c: "c \<noteq> CHR ''-''" "c \<noteq> CHR ''+''" by (auto simp: is_digit_def)
  have "strip ?s = ?s" using nat_str_digits digit_not_space by (intro strip_id) blast
  moreover have "parse_digits 0 ?s = Some (nat i)"
    using parse_digits_foldl[OF nat_str_Nil nat_str_digits] foldl_nat_str[of 0] by simp
  ultimately show ?thesis using c i by (simp add: parse_int_def int_str_def cs)
qed

lemma partition_at_split: "c \<notin> set a \<Longrightarrow> partition_at c (a @ c # b) = (a, True, b)"
proof -
  assume c: "c \<notin> set a"
  have "dropWhile (\<lambda>x. x \<noteq> c) (a @ c # b) = c # b" "takeWhile (\<lambda>x. x \<noteq> c) (a @ c # b) = a"
    using c by (induction a) auto
  then show ?thesis by (simp add: partition_at_def)
qed

lemma partition_at_True: "partition_at c s = (a, True, b) \<Longrightarrow> s = a @ c # b"
  by (auto simp: partition_at_def split: list.splits)
    (metis (mono_tags, lifting) dropWhile_eq_Cons_conv takeWhile_dropWhile_id)

lemma rpartition_at_split: "c \<notin> set b \<Longrightarrow> rpartition_at c (a @ c # b) = (a, True, b)"
  using partition_at_split[of c "rev b" "rev a"] by (simp add: rpartition_at_def)

lemma rpartition_at_True:
  assumes "rpartition_at c s = (a, True, b)"
  shows "s = a @ c # b"
proof -
  obtain x f y where p: "partition_at c (rev s) = (x, f, y)" by (cases "partition_at c (rev s)")
  with assms have "f" "a = rev y" "b = rev x" by (auto simp: rpartition_at_def split: if_splits)
  with partition_at_True[of c "rev s" x y] p have "rev s = rev b @ c # rev a" by simp
  from arg_cong[OF this, of rev] show ?thesis by simp
qed

section \<open>Base64\<close>

lemma b64_sextets_bound: "\<forall>b\<in>set bs. b < 256 \<Longrightarrow> \<forall>n\<in>set (b64_sextets bs). n < 64"
proof (induction bs rule: b64_sextets.induct)
  case (4 a b c bs)
  have "a mod 4 * 16 + b div 16 < 64" "b mod 16 * 4 + c div 64 < 64"
    using 4(2) mod_less_divisor[of 4 a] mod_less_divisor[of 16 b] by (auto simp: less_mult_imp_div_less)
  with 4 show ?case by (auto simp: less_mult_imp_div_less)
qed (auto simp: less_mult_imp_div_less)

text \<open>The inverse of the encoding, on sextets.\<close>

fun b64_bytes :: "nat list \<Rightarrow> nat list" where
  "b64_bytes [w, x] = [w * 4 + x div 16]"
| "b64_bytes [w, x, y] = [w * 4 + x div 16, x mod 16 * 16 + y div 4]"
| "b64_bytes (w # x # y # z # ns) =
     (w * 4 + x div 16) # (x mod 16 * 16 + y div 4) # (y mod 4 * 64 + z) # b64_bytes ns"
| "b64_bytes _ = []"

lemma b64_sextets_Nil_iff: "b64_sextets bs = [] \<longleftrightarrow> bs = []"
  by (cases bs rule: b64_sextets.cases) auto

lemma pack_div_mod: "y < k \<Longrightarrow> (x * k + y) div k = x \<and> (x * k + y) mod k = (y :: nat)"
  by simp

lemmas pack_div = pack_div_mod[THEN conjunct1] and pack_mod = pack_div_mod[THEN conjunct2]

lemma mult4_div4: "n * 4 div 4 = (n :: nat)"
  by simp

lemma b64_bytes_sextets: "\<forall>b\<in>set bs. b < 256 \<Longrightarrow> b64_bytes (b64_sextets bs) = bs"
proof (induction bs rule: b64_sextets.induct)
  case (4 a b c bs)
  have "b < 256" "c < 256" using 4(2) by simp_all
  then have *: "b div 16 < 16" "c div 64 < 4" by (simp_all add: less_mult_imp_div_less)
  have "b64_bytes (b64_sextets bs) = bs" using 4 by simp
  then show ?case
    by (simp only: b64_sextets.simps b64_bytes.simps pack_div[OF *(1)] pack_mod[OF *(1)]
        pack_div[OF *(2)] pack_mod[OF *(2)] div_mult_mod_eq)
next
  case (3 a b)
  have "b < 256" using 3 by simp
  then have *: "b div 16 < 16" by (simp add: less_mult_imp_div_less)
  show ?case
    by (simp only: b64_sextets.simps b64_bytes.simps pack_div[OF *] pack_mod[OF *] mult4_div4
        div_mult_mod_eq)
next
  case (2 a)
  have "a mod 4 * 16 div 16 = a mod 4" by simp
  then show ?case by (simp only: b64_sextets.simps b64_bytes.simps div_mult_mod_eq)
qed simp

lemma nth_inj:
  assumes "distinct xs" "\<forall>n\<in>set ns. n < length xs" "\<forall>n\<in>set ms. n < length xs"
    and "map (\<lambda>n. xs ! n) ns = map (\<lambda>n. xs ! n) ms"
  shows "ns = ms"
proof (rule map_inj_on[OF assms(4)])
  show "inj_on (\<lambda>n. xs ! n) (set ns \<union> set ms)"
    by (rule inj_on_nth[OF assms(1)]) (use assms(2,3) in blast)
qed

lemma length_b64_sextets: "length (b64_sextets bs) = (length bs * 4 + 2) div 3"
proof (induction bs rule: b64_sextets.induct)
  case (4 a b c bs)
  have "(length (a # b # c # bs) * 4 + 2) div 3 = ((length bs * 4 + 2) + 4 * 3) div 3" by simp
  also have "\<dots> = 4 + (length bs * 4 + 2) div 3" by (rule div_mult_self1) simp
  finally show ?case using 4 by simp
qed simp_all

lemma b64_alphabets:
  "distinct B64_STD" "length B64_STD = 64" "distinct B64_URL" "length B64_URL = 64"
  "CHR ''.'' \<notin> set B64_STD" "CHR ''='' \<notin> set B64_STD"
  by (simp_all add: B64_STD_def B64_URL_def)

lemma b64_nopad_inj:
  assumes "distinct alphabet" "length alphabet = 64" "\<forall>b\<in>set bs. b < 256" "\<forall>b\<in>set bs'. b < 256"
    and "b64_nopad alphabet bs = b64_nopad alphabet bs'"
  shows "bs = bs'"
proof -
  have "b64_sextets bs = b64_sextets bs'"
    using assms(2,5) b64_sextets_bound[OF assms(3)] b64_sextets_bound[OF assms(4)]
    by (intro nth_inj[OF assms(1)]) (simp_all add: b64_nopad_def)
  then have "b64_bytes (b64_sextets bs) = b64_bytes (b64_sextets bs')" by (rule arg_cong)
  then show ?thesis by (simp only: b64_bytes_sextets[OF assms(3)] b64_bytes_sextets[OF assms(4)])
qed

lemma b64_nopad_set:
  assumes "length alphabet = 64" "\<forall>b\<in>set bs. b < 256"
  shows "set (b64_nopad alphabet bs) \<subseteq> set alphabet"
  using b64_sextets_bound[OF assms(2)] assms(1) by (auto simp: b64_nopad_def)

section \<open>Percent-encoding\<close>

lemma hex_value_char: "n < 16 \<Longrightarrow> hex_value (hex_char n) = Some n"
  by (auto simp: hex_value_def hex_char_def Let_def)

lemma unescape_hex: "(of_char c :: nat) < 128 \<Longrightarrow> unescape (hex_char (of_char c div 16)) (hex_char (of_char c mod 16)) = Some c"
  by (simp add: unescape_def hex_value_char less_mult_imp_div_less)

lemma unquote_plain: "c \<noteq> CHR ''%'' \<Longrightarrow> unquote_all (c # s) = c # unquote_all s"
  by (cases s rule: list.exhaust; cases "tl s") auto

lemma unquote_quote: "\<forall>c\<in>set s. (of_char c :: nat) < 128 \<Longrightarrow> unquote_all (quote_all s) = s"
proof (induction s)
  case (Cons c s)
  have "\<not> unreserved CHR ''%''" by (simp add: unreserved_def)
  then have "unreserved c \<Longrightarrow> c \<noteq> CHR ''%''" by auto
  with Cons show ?case by (auto simp: unquote_plain unescape_hex)
qed simp

section \<open>Signed values\<close>

text \<open>What the code relies on of HMAC-SHA256: the digest is 32 bytes.\<close>

definition hmac_256 :: "hmac \<Rightarrow> bool" where
  "hmac_256 hmac \<longleftrightarrow> (\<forall>k v. length (hmac k v) = 32 \<and> (\<forall>b\<in>set (hmac k v). b < 256))"

lemma signature_shape:
  assumes "hmac_256 hmac"
  shows "length (signature hmac k v) = 44" "ends_with (signature hmac k v) ''=''"
    "CHR ''.'' \<notin> set (signature hmac k v)" "\<forall>c\<in>set (signature hmac k v). (of_char c :: nat) < 128"
proof -
  have "length (b64_nopad B64_STD (hmac k v)) = 43"
    using assms by (simp add: hmac_256_def b64_nopad_def length_b64_sextets)
  then have sig: "signature hmac k v = b64_nopad B64_STD (hmac k v) @ ''=''"
    by (simp add: signature_def b64encode_def Let_def)
  have sub: "set (b64_nopad B64_STD (hmac k v)) \<subseteq> set B64_STD"
    using assms b64_nopad_set[OF b64_alphabets(2)] by (simp add: hmac_256_def)
  have "\<forall>c\<in>set B64_STD. (of_char c :: nat) < 128" by (simp add: B64_STD_def)
  with sub sig show "\<forall>c\<in>set (signature hmac k v). (of_char c :: nat) < 128" by auto
  show "length (signature hmac k v) = 44" using sig \<open>length _ = 43\<close> by simp
  show "ends_with (signature hmac k v) ''=''" by (simp add: sig ends_with_def)
  show "CHR ''.'' \<notin> set (signature hmac k v)" using sub b64_alphabets(5) by (auto simp: sig)
qed

lemma unsign_value_iff:
  assumes "hmac_256 hmac"
  shows "unsign_value hmac k signed = Some v \<longleftrightarrow>
    v \<noteq> [] \<and> unquote_all signed = v @ ''.'' @ signature hmac k v"
proof
  assume *: "unsign_value hmac k signed = Some v"
  obtain a f b where p: "rpartition_at CHR ''.'' (unquote_all signed) = (a, f, b)"
    by (cases "rpartition_at CHR ''.'' (unquote_all signed)")
  with * have v: "v = a" "v \<noteq> []" "b = signature hmac k v"
    by (auto simp: unsign_value_def split: if_splits)
  then have f using p by (auto simp: rpartition_at_def split: prod.splits if_splits)
  with p have "rpartition_at CHR ''.'' (unquote_all signed) = (a, True, b)" by simp
  from rpartition_at_True[OF this] v show "v \<noteq> [] \<and> unquote_all signed = v @ ''.'' @ signature hmac k v"
    by simp
next
  assume *: "v \<noteq> [] \<and> unquote_all signed = v @ ''.'' @ signature hmac k v"
  then have "rpartition_at CHR ''.'' (unquote_all signed) = (v, True, signature hmac k v)"
    using rpartition_at_split[OF signature_shape(3)[OF assms], of v k v] by simp
  with * signature_shape(1,2)[OF assms] show "unsign_value hmac k signed = Some v"
    by (simp add: unsign_value_def)
qed

lemma unsign_sign:
  assumes "hmac_256 hmac" "v \<noteq> []" "\<forall>c\<in>set v. (of_char c :: nat) < 128"
  shows "unsign_value hmac secret (sign_value hmac secret v) = Some v"
proof -
  have "unquote_all (sign_value hmac secret v) = v @ ''.'' @ signature hmac secret v"
    unfolding sign_value_def using assms(3) signature_shape(4)[OF assms(1)] by (intro unquote_quote) auto
  then show ?thesis using unsign_value_iff[OF assms(1)] assms(2) by (auto simp: signature_def)
qed

text \<open>
  C10: A signed cookie value is accepted with the value it was made from, and nothing else is: a
  text that \<open>unsign_value\<close> accepts decodes to the value, a dot, and the HMAC of exactly that value
  under the secret (so the last dot delimits the signature even when the value contains dots).
\<close>
theorem sign_unsign:
  assumes "hmac_256 hmac"
  shows "(v \<noteq> [] \<and> (\<forall>c\<in>set v. (of_char c :: nat) < 128) \<longrightarrow>
      unsign_value hmac secret (sign_value hmac secret v) = Some v) \<and>
    (unsign_value hmac secret signed = Some w \<longleftrightarrow>
      w \<noteq> [] \<and> unquote_all signed = w @ ''.'' @ b64encode (hmac secret w))"
  using unsign_sign[OF assms] unsign_value_iff[OF assms] by (auto simp: signature_def)

theorem sign_unsign_witness:
  "unsign_value (\<lambda>k v. map (\<lambda>i. (length k + length v) mod 256) [0..<32]) ''s3cret''
     (sign_value (\<lambda>k v. map (\<lambda>i. (length k + length v) mod 256) [0..<32]) ''s3cret'' ''a.b'') = Some ''a.b''"
proof -
  let ?h = "\<lambda>k v. map (\<lambda>i. (length k + length v) mod 256) [0..<32]"
  have "hmac_256 ?h" by (auto simp: hmac_256_def)
  from sign_unsign[OF this, of "''a.b''"] show ?thesis by simp
qed

section \<open>Envelopes and key rotation\<close>

lemma dollar_free: "0 \<le> v \<Longrightarrow> CHR ''$'' \<notin> set (int_str v)"
  using nat_str_digits[of "nat v"] by (auto simp: int_str_def is_digit_def)

lemma parse_format_envelope: "0 \<le> v \<Longrightarrow> parse_envelope (format_envelope v c) = Some (v, c)"
  by (simp add: parse_envelope_def format_envelope_def ENVELOPE_PREFIX_def starts_with_def
      partition_at_split[OF dollar_free] parse_int_str)

text \<open>
  C11: Keys rotate without losing data. What is encrypted under the current version of a
  configuration decrypts under any later configuration that still lists that version with that
  key, whatever its current version is; a payload written before versioning decrypts with the
  legacy secret; and once the version is retired decryption is refused.
\<close>
theorem key_rotation:
  assumes dec: "\<And>key d. dec key (enc key d) = Inr d"
    and valid: "\<forall>(v, _)\<in>set (sc_keys old). 0 \<le> v"
    and enc: "symmetric_encrypt enc (Versioned old) data = Inr payload"
  shows "(map_of (sc_keys new) (sc_current_version old) = map_of (sc_keys old) (sc_current_version old) \<longrightarrow>
      symmetric_decrypt dec (Versioned new) payload ks = Inr data) \<and>
    (map_of (sc_keys new) (sc_current_version old) = None \<longrightarrow>
      symmetric_decrypt dec (Versioned new) payload ks = Inl ValueError) \<and>
    (sc_legacy_secret new = Some s \<and> s \<noteq> [] \<and> parse_envelope (enc s d) = None \<longrightarrow>
      symmetric_decrypt dec (Versioned new) (enc s d) ks = Inr d)"
proof -
  from enc obtain key where key: "map_of (sc_keys old) (sc_current_version old) = Some key"
      "payload = format_envelope (sc_current_version old) (enc key data)"
    by (auto simp: symmetric_encrypt_def split: option.splits)
  then have "0 \<le> sc_current_version old" using valid map_of_SomeD[OF key(1)] by auto
  from parse_format_envelope[OF this] show ?thesis
    by (auto simp: symmetric_decrypt_def key dec)
qed

theorem key_rotation_witness:
  "symmetric_decrypt (\<lambda>key t. Inr (drop (length key) t))
     (Versioned \<lparr>sc_keys = [(2, ''new''), (1, ''old'')], sc_current_version = 2, sc_legacy_secret = None\<rparr>)
     ''$ba$1$oldtext'' [] = Inr ''text''"
proof -
  let ?old = "\<lparr>sc_keys = [(1, ''old'')], sc_current_version = 1, sc_legacy_secret = None\<rparr>"
  have "symmetric_encrypt (@) (Versioned ?old) ''text'' = Inr ''$ba$1$oldtext''"
    by code_simp
  from key_rotation[OF _ _ this, of "\<lambda>key t. Inr (drop (length key) t)"
      "\<lparr>sc_keys = [(2, ''new''), (1, ''old'')], sc_current_version = 2, sc_legacy_secret = None\<rparr>"]
  show ?thesis by simp
qed

section \<open>One-time passwords\<close>

lemma xor_zero_iff: "a XOR b = (0 :: nat) \<longleftrightarrow> a = b"
proof
  assume "a XOR b = 0"
  then have "(a XOR b) XOR b = b" by simp
  then show "a = b" by (simp add: ac_simps)
qed simp

lemma foldl_or_zero:
  "foldl (\<lambda>d i. d OR f i) d0 xs = (0 :: nat) \<longleftrightarrow> d0 = 0 \<and> (\<forall>i\<in>set xs. f i = 0)"
  by (induction xs arbitrary: d0) (auto simp: or_eq_0_iff)

lemma constant_time_equal_iff: "constant_time_equal a b \<longleftrightarrow> a = b"
proof
  assume "constant_time_equal a b"
  then have len: "length a = length b" and eq: "\<And>i. i < length b \<Longrightarrow> byte_at a i = of_char (b ! i)"
    by (auto simp: constant_time_equal_def foldl_or_zero xor_zero_iff)
  show "a = b"
  proof (rule nth_equalityI[OF len])
    fix i assume "i < length a"
    with eq[of i] len have "of_char (a ! i) = (of_char (b ! i) :: nat)" by (simp add: byte_at_def)
    then show "a ! i = b ! i" by simp
  qed
qed (simp add: constant_time_equal_def foldl_or_zero xor_zero_iff byte_at_def)

lemma match_window_ok:
  assumes "\<forall>c\<in>set cs. \<exists>p. generate_hotp mac c digits = Inr p"
  shows "match_window mac digits otp cs m = Inr (m \<or> (\<exists>c\<in>set cs. generate_hotp mac c digits = Inr otp))"
  using assms by (induction cs arbitrary: m) (auto simp: constant_time_equal_iff)

text \<open>
  C12: A one-time password is accepted exactly when it is the HOTP value of one of the counters
  within \<open>window\<close> steps of the current period, whatever the length of the submitted text, and the
  comparison by accumulated differences is equality.
\<close>
theorem verify_totp_window:
  assumes "1 \<le> digits" "digits \<le> 8" "window \<le> seconds div period" "seconds div period + window < 2 ^ 64"
  shows "verify_totp mac digits period window seconds otp =
    Inr (\<exists>i. - window \<le> i \<and> i \<le> window \<and> generate_hotp mac (seconds div period + i) digits = Inr otp)"
proof -
  have "\<exists>p. generate_hotp mac c digits = Inr p" if "c \<in> set (map (\<lambda>i. seconds div period + i) [- window..window])" for c
    using that assms by (auto simp: generate_hotp_def)
  with match_window_ok[of "map (\<lambda>i. seconds div period + i) [- window..window]" mac digits otp False]
  have "verify_totp mac digits period window seconds otp =
      Inr (\<exists>c\<in>(\<lambda>i. seconds div period + i) ` {- window..window}. generate_hotp mac c digits = Inr otp)"
    by (simp add: verify_totp_def del: image_add_atLeastAtMost)
  then show ?thesis by (simp add: Bex_def conj_assoc del: image_add_atLeastAtMost)
qed

theorem verify_totp_window_witness:
  "verify_totp (\<lambda>c. replicate 20 (nat c mod 256)) 6 30 1 90 ''263172'' =
     Inr (\<exists>i. - 1 \<le> i \<and> i \<le> 1 \<and> generate_hotp (\<lambda>c. replicate 20 (nat c mod 256)) (3 + i) 6 = Inr ''263172'')"
  using verify_totp_window[of 6 1 90 30 "\<lambda>c. replicate 20 (nat c mod 256)" "''263172''"] by simp

text \<open>
  A one-time password always has the requested number of decimal digits.
\<close>
theorem hotp_digits:
  assumes "generate_hotp mac counter digits = Inr otp"
  shows "length otp = digits \<and> (\<forall>c\<in>set otp. is_digit c)"
proof -
  have len: "length (nat_str n) \<le> d" if "n < 10 ^ d" "1 \<le> d" for n d
    using that
  proof (induction n arbitrary: d rule: nat_str.induct)
    case (1 n)
    show ?case
    proof (cases "n < 10")
      case False
      then have d: "2 \<le> d" using 1(2,3) by (cases "d = 1") auto
      then have "n div 10 < 10 ^ (d - 1)"
        using 1(2) by (cases d) (simp_all add: less_mult_imp_div_less mult.commute)
      then have "length (nat_str (n div 10)) \<le> d - 1" using 1(1)[OF False] d by simp
      with d False show ?thesis by (simp add: nat_str.simps[of n])
    qed (use 1 in \<open>simp add: nat_str.simps[of n]\<close>)
  qed
  let ?n = "hotp_truncate (mac counter) mod 10 ^ digits"
  from assms have d: "1 \<le> digits" "otp = zfill digits (nat_str ?n)"
    by (auto simp: generate_hotp_def split: if_splits)
  have "length (nat_str ?n) \<le> digits" by (rule len[OF _ d(1)]) simp
  moreover have "is_digit CHR ''0''" by (simp add: is_digit_def)
  ultimately show ?thesis using nat_str_digits by (auto simp: d(2) zfill_def)
qed

theorem hotp_digits_witness: "length (zfill 6 (nat_str 42)) = 6"
proof -
  have "generate_hotp (\<lambda>_. [0, 0, 0, 42] @ replicate 15 0 @ [0]) 7 6 = Inr (zfill 6 (nat_str 42))"
    by (simp add: generate_hotp_def hotp_truncate_def)
  from hotp_digits[OF this] show ?thesis by blast
qed

end
