(* ===== verification/Internal.thy ===== *)
theory Internal
  imports KV Adapter Crypto
begin

text \<open>
  \<open>internal_adapter.py\<close>: the layer between the endpoints and the database. It runs the
  database hooks around every write, queues the after-hooks of a transaction until it commits, and
  keeps sessions and verification values in the database, in the secondary storage, or in both.

  The state holds the store, the key-value store, the queue of deferred work and a log of the
  after-hooks that ran. A before-hook is a function of the data: keep it, merge a dict into it,
  abort, or raise; an after-hook may raise. The texts of instants (\<open>strftime\<close>, \<open>isoformat\<close>,
  \<open>fromisoformat\<close>) are those of the codec of the adapter. One call reads the clock once; \<open>now\<close> of its \<open>env\<close> is
  in microseconds.
\<close>

section \<open>State and configuration\<close>

datatype before_result = Keep | Abort | MergeData row

record db_hooks =
  hk_before :: "string \<Rightarrow> string \<Rightarrow> (row \<Rightarrow> before_result result) option"
  hk_after :: "string \<Rightarrow> string \<Rightarrow> (row option \<Rightarrow> unit result) option"

text \<open>What a queued closure will do: run after-hooks, or drop cached sessions.\<close>

datatype deferred =
    RunAfter string string "row option"
  | DropCached string pyval

record iworld =
  iw_db :: store
  iw_kv :: kv
  iw_queue :: "deferred list option"
  iw_log :: "(string \<times> string \<times> row option) list"

text \<open>
  \<open>storeIdentifier\<close>: unset, \<open>plain\<close>, \<open>hashed\<close> or a custom hasher, for all identifiers or by prefix
  with a default.
\<close>

datatype id_option = IdUnset | IdPlain | IdHashed | IdCustom "string \<Rightarrow> string"

datatype id_config = IdAll id_option | IdOverrides id_option "(string \<times> id_option) list"

record iconf =
  ic_ad :: adapter
  ic_secondary :: bool
  ic_atomic_take :: bool
  ic_hooks :: "db_hooks list"
  ic_session_expires_in :: int
  ic_store_session_in_database :: bool
  ic_store_identifier :: id_config
  ic_verification_in_database :: bool
  ic_sha256 :: "string \<Rightarrow> nat list"
  ic_validate_user_info :: "(row \<Rightarrow> row \<Rightarrow> row option result) option"

definition on_db :: "(store, 'a) action \<Rightarrow> (iworld, 'a) action" where
  "on_db m w = (case m (iw_db w) of (res, st) \<Rightarrow> (res, w\<lparr>iw_db := st\<rparr>))"

definition on_kv :: "(kv, 'a) action \<Rightarrow> (iworld, 'a) action" where
  "on_kv m w = (case m (iw_kv w) of (res, s) \<Rightarrow> (res, w\<lparr>iw_kv := s\<rparr>))"

section \<open>Helpers\<close>

definition DAY :: int where
  "DAY = 86400"

definition dt_ms :: "int \<Rightarrow> int" where
  "dt_ms t = t div 1000"

definition ttl_seconds :: "int \<Rightarrow> int \<Rightarrow> int" where
  "ttl_seconds expires_ms now_ms = max ((expires_ms - now_ms) div 1000) 0"

abbreviation ic_codec :: "iconf \<Rightarrow> codec" where
  "ic_codec ic \<equiv> ad_codec (ic_ad ic)"

text \<open>
  \<open>_js_iso\<close>, over the \<open>strftime\<close> of \<open>%Y-%m-%dT%H:%M:%S.\<close>, and \<open>_dumps\<close>: every instant becomes such a text, of
  milliseconds. \<open>_parse_dates\<close> reads back three columns; a date under another key stays a text.
\<close>

definition js_iso :: "codec \<Rightarrow> int \<Rightarrow> string" where
  "js_iso cd t = strftime_s cd t @ zfill 3 (nat_str (nat (t mod 1000000 div 1000))) @ ''Z''"

fun jsonify :: "codec \<Rightarrow> pyval \<Rightarrow> pyval" where
  "jsonify cd (VDate t) = VStr (js_iso cd t)"
| "jsonify cd (VList xs) = VList (map (jsonify cd) xs)"
| "jsonify cd (VDict d) = VDict (map (\<lambda>(k, v). (k, jsonify cd v)) d)"
| "jsonify cd v = v"

definition to_text :: "codec \<Rightarrow> pyval \<Rightarrow> kvtext" where
  "to_text cd v = Json (jsonify cd v)"

text \<open>\<open>datetime.fromisoformat(s.replace("Z", "+00:00"))\<close>.\<close>

definition expand_z :: "string \<Rightarrow> string" where
  "expand_z s = concat (map (\<lambda>c. if c = CHR ''Z'' then ''+00:00'' else [c]) s)"

definition parse_iso :: "codec \<Rightarrow> string \<Rightarrow> int result" where
  "parse_iso cd s = fromisoformat cd (expand_z s)"

fun parse_date_keys :: "codec \<Rightarrow> string list \<Rightarrow> row \<Rightarrow> row result" where
  "parse_date_keys cd [] r = Inr r"
| "parse_date_keys cd (k # ks) r =
     (case dget r k of
        VStr s \<Rightarrow> bindR (parse_iso cd s) (\<lambda>t. parse_date_keys cd ks (dset k (VDate t) r))
      | _ \<Rightarrow> parse_date_keys cd ks r)"

definition parse_dates :: "codec \<Rightarrow> row \<Rightarrow> row result" where
  "parse_dates cd = parse_date_keys cd [''expiresAt'', ''createdAt'', ''updatedAt'']"

text \<open>\<open>_safe_json\<close>, with \<open>None\<close> for a text that is absent or no JSON.\<close>

definition safe_json :: "kvtext option \<Rightarrow> pyval" where
  "safe_json raw = (case raw of Some (Json v) \<Rightarrow> v | _ \<Rightarrow> VNone)"

definition expires_ms :: "codec \<Rightarrow> pyval \<Rightarrow> int result" where
  "expires_ms cd v =
     (case v of
        VDate t \<Rightarrow> Inr (dt_ms t)
      | VStr s \<Rightarrow> bindR (parse_iso cd s) (\<lambda>t. Inr (dt_ms t))
      | VInt n \<Rightarrow> Inr n
      | VBool b \<Rightarrow> Inr (if b then 1 else 0)
      | _ \<Rightarrow> Inl TypeError)"

definition id_is_set :: "id_option \<Rightarrow> bool" where
  "id_is_set opt = (case opt of IdUnset \<Rightarrow> False | _ \<Rightarrow> True)"

definition id_is_plain :: "id_option \<Rightarrow> bool" where
  "id_is_plain opt = (case opt of IdPlain \<Rightarrow> True | _ \<Rightarrow> False)"

definition get_storage_option :: "string \<Rightarrow> id_config \<Rightarrow> id_option" where
  "get_storage_option identifier config =
     (case config of
        IdAll opt \<Rightarrow> opt
      | IdOverrides dflt overrides \<Rightarrow>
          (case find (\<lambda>(prefix, _). starts_with identifier prefix) overrides of
             Some (_, opt) \<Rightarrow> opt
           | None \<Rightarrow> dflt))"

definition process_identifier :: "(string \<Rightarrow> nat list) \<Rightarrow> string \<Rightarrow> id_option \<Rightarrow> string" where
  "process_identifier sha256 identifier opt =
     (case opt of
        IdHashed \<Rightarrow> default_key_hasher sha256 identifier
      | IdCustom h \<Rightarrow> h identifier
      | _ \<Rightarrow> identifier)"

definition hydrate_cached_verification :: "codec \<Rightarrow> kvtext option \<Rightarrow> row option" where
  "hydrate_cached_verification cd raw =
     (case safe_json raw of
        VDict d \<Rightarrow>
          (case parse_dates cd d of
             Inl _ \<Rightarrow> None
           | Inr parsed \<Rightarrow> if is_date (dget parsed ''expiresAt'') then Some parsed else None)
      | _ \<Rightarrow> None)"

section \<open>Hooks\<close>

fun run_before_fns :: "(row \<Rightarrow> before_result result) list \<Rightarrow> row \<Rightarrow> (row \<times> bool) result" where
  "run_before_fns [] actual = Inr (actual, False)"
| "run_before_fns (fn # fns) actual =
     bindR (fn actual) (\<lambda>res.
       case res of
         Abort \<Rightarrow> Inr (actual, True)
       | MergeData d \<Rightarrow> run_before_fns fns (dmerge actual d)
       | Keep \<Rightarrow> run_before_fns fns actual)"

definition run_before :: "iconf \<Rightarrow> string \<Rightarrow> string \<Rightarrow> row \<Rightarrow> (row \<times> bool) result" where
  "run_before ic model oper data =
     run_before_fns (List.map_filter (\<lambda>h. hk_before h model oper) (ic_hooks ic)) data"

definition after_fns :: "iconf \<Rightarrow> string \<Rightarrow> string \<Rightarrow> (row option \<Rightarrow> unit result) list" where
  "after_fns ic model oper = List.map_filter (\<lambda>h. hk_after h model oper) (ic_hooks ic)"

fun call_after ::
    "(row option \<Rightarrow> unit result) list \<Rightarrow> string \<Rightarrow> string \<Rightarrow> row option \<Rightarrow> (iworld, unit) action" where
  "call_after [] model oper payload = ret ()"
| "call_after (fn # fns) model oper payload = (\<lambda>w.
     let w' = w\<lparr>iw_log := iw_log w @ [(model, oper, payload)]\<rparr>
     in case fn payload of
          Inl e \<Rightarrow> (Inl e, w')
        | Inr _ \<Rightarrow> call_after fns model oper payload w')"

definition defer_or_run :: "deferred \<Rightarrow> (iworld, unit) action \<Rightarrow> (iworld, unit) action" where
  "defer_or_run d run = (\<lambda>w.
     case iw_queue w of
       Some q \<Rightarrow> (Inr (), w\<lparr>iw_queue := Some (q @ [d])\<rparr>)
     | None \<Rightarrow> run w)"

definition queue_after :: "iconf \<Rightarrow> string \<Rightarrow> string \<Rightarrow> row option \<Rightarrow> (iworld, unit) action" where
  "queue_after ic model oper payload =
     (let fns = after_fns ic model oper
      in if fns = [] then ret ()
         else defer_or_run (RunAfter model oper payload) (call_after fns model oper payload))"

section \<open>Writes with hooks\<close>

text \<open>A custom operation body: its side effect and whether the database write also runs.\<close>

record custom_fn =
  cu_fn :: "row \<Rightarrow> (iworld, row option) action"
  cu_execute_main :: bool

definition int_create ::
    "iconf \<Rightarrow> env \<Rightarrow> string \<Rightarrow> row \<Rightarrow> bool \<Rightarrow> custom_fn option \<Rightarrow> (iworld, row option) action" where
  "int_create ic ev model data0 force_allow_id custom =
     (let data1 = (if force_allow_id then data0 else ddrop ''id'' data0)
      in bindA (liftR (run_before ic model ''create'' data1)) (\<lambda>(data, aborted).
         if aborted then ret None
         else
           bindA
             (if (case custom of None \<Rightarrow> True | Some c \<Rightarrow> cu_execute_main c)
              then bindA (on_db (mem_create (ic_ad ic) ev model data [])) (\<lambda>r. ret (Some r))
              else ret None) (\<lambda>created.
           bindA
             (case custom of
                None \<Rightarrow> ret created
              | Some c \<Rightarrow> cu_fn c (case created of Some r \<Rightarrow> r | None \<Rightarrow> data)) (\<lambda>created'.
           bindA (queue_after ic model ''create'' created') (\<lambda>_. ret created')))))"

definition int_update ::
    "iconf \<Rightarrow> env \<Rightarrow> string \<Rightarrow> clause list \<Rightarrow> row \<Rightarrow> custom_fn option \<Rightarrow> (iworld, row option) action" where
  "int_update ic ev model wh data0 custom =
     bindA (liftR (run_before ic model ''update'' data0)) (\<lambda>(data, aborted).
       if aborted then ret None
       else
         bindA (case custom of None \<Rightarrow> ret None | Some c \<Rightarrow> cu_fn c data) (\<lambda>custom_result.
         bindA
           (if (case custom of None \<Rightarrow> True | Some c \<Rightarrow> cu_execute_main c)
            then on_db (mem_update (ic_ad ic) ev model wh data)
            else ret custom_result) (\<lambda>updated.
         bindA (queue_after ic model ''update'' updated) (\<lambda>_. ret updated))))"

definition int_delete :: "iconf \<Rightarrow> string \<Rightarrow> clause list \<Rightarrow> (iworld, bool) action" where
  "int_delete ic model wh =
     bindA
       (catchA
          (bindA (on_db (mem_find_many (ic_ad ic) model wh (Some 1) None None [])) (\<lambda>rows.
             ret (case rows of [] \<Rightarrow> None | r # _ \<Rightarrow> Some r)))
          (\<lambda>_. ret None)) (\<lambda>entity.
     bindA
       (case entity of
          None \<Rightarrow> ret False
        | Some r \<Rightarrow> bindA (liftR (run_before ic model ''delete'' r)) (\<lambda>(_, aborted). ret aborted))
       (\<lambda>aborted.
     if aborted then ret False
     else
       bindA (on_db (mem_delete model wh)) (\<lambda>_.
       bindA (case entity of None \<Rightarrow> ret () | Some r \<Rightarrow> queue_after ic model ''delete'' (Some r)) (\<lambda>_.
       ret (entity \<noteq> None)))))"

fun any_aborts :: "iconf \<Rightarrow> string \<Rightarrow> row list \<Rightarrow> bool result" where
  "any_aborts ic model [] = Inr False"
| "any_aborts ic model (r # rs) =
     bindR (run_before ic model ''delete'' r) (\<lambda>(_, aborted).
       if aborted then Inr True else any_aborts ic model rs)"

fun queue_after_each :: "iconf \<Rightarrow> string \<Rightarrow> row list \<Rightarrow> (iworld, unit) action" where
  "queue_after_each ic model [] = ret ()"
| "queue_after_each ic model (r # rs) =
     bindA (queue_after ic model ''delete'' (Some r)) (\<lambda>_. queue_after_each ic model rs)"

definition int_delete_many :: "iconf \<Rightarrow> string \<Rightarrow> clause list \<Rightarrow> (iworld, int option) action" where
  "int_delete_many ic model wh =
     bindA (catchA (on_db (mem_find_many (ic_ad ic) model wh None None None [])) (\<lambda>_. ret [])) (\<lambda>entities.
     bindA (liftR (any_aborts ic model entities)) (\<lambda>aborted.
       if aborted then ret None
       else
         bindA (on_db (mem_delete_many model wh)) (\<lambda>deleted.
         bindA (queue_after_each ic model entities) (\<lambda>_. ret (Some deleted)))))"

definition create_row :: "iconf \<Rightarrow> env \<Rightarrow> string \<Rightarrow> row \<Rightarrow> bool \<Rightarrow> (iworld, row option) action" where
  "create_row ic ev model data force_allow_id = int_create ic ev model data force_allow_id None"

definition update_row ::
    "iconf \<Rightarrow> env \<Rightarrow> string \<Rightarrow> clause list \<Rightarrow> row \<Rightarrow> (iworld, row option) action" where
  "update_row ic ev model wh data = int_update ic ev model wh data None"

definition delete_one :: "iconf \<Rightarrow> string \<Rightarrow> clause list \<Rightarrow> (iworld, unit) action" where
  "delete_one ic model wh = bindA (int_delete ic model wh) (\<lambda>_. ret ())"

definition delete_rows :: "iconf \<Rightarrow> string \<Rightarrow> clause list \<Rightarrow> (iworld, int) action" where
  "delete_rows ic model wh =
     bindA (int_delete_many ic model wh) (\<lambda>n. ret (case n of Some k \<Rightarrow> k | None \<Rightarrow> 0))"

section \<open>Cached sessions\<close>

text \<open>
  \<open>_safe_json(raw) or []\<close> as something iterated: the elements of a list, the keys of a dict, the
  characters of a string.
\<close>

definition json_items :: "pyval \<Rightarrow> pyval list result" where
  "json_items v =
     (if \<not> py_truthy v then Inr []
      else case v of
             VList xs \<Rightarrow> Inr xs
           | VDict d \<Rightarrow> Inr (map (\<lambda>(k, _). VStr k) d)
           | VStr s \<Rightarrow> Inr (map (\<lambda>c. VStr [c]) s)
           | _ \<Rightarrow> Inl TypeError)"

definition entry_field :: "pyval \<Rightarrow> string \<Rightarrow> pyval result" where
  "entry_field e k = (case e of VDict d \<Rightarrow> dindex d k | _ \<Rightarrow> Inl TypeError)"

text \<open>
  The entries that are unexpired and whose token is not among those dropped. The two conditions
  are tried in the order the caller writes them, and the second only when the first holds.
\<close>

definition entry_live :: "bool \<Rightarrow> int \<Rightarrow> pyval list \<Rightarrow> pyval \<Rightarrow> bool result" where
  "entry_live token_first now_ms dropped e =
     (let unexpired = bindR (entry_field e ''expiresAt'') (\<lambda>x. py_lt (VInt now_ms) x);
          kept = bindR (entry_field e ''token'') (\<lambda>tok. Inr (\<not> list_ex (py_eq tok) dropped))
      in if token_first then bindR kept (\<lambda>b. if b then unexpired else Inr False)
         else bindR unexpired (\<lambda>b. if b then kept else Inr False))"

fun live_entries :: "bool \<Rightarrow> int \<Rightarrow> pyval list \<Rightarrow> pyval list \<Rightarrow> row list result" where
  "live_entries token_first now_ms dropped [] = Inr []"
| "live_entries token_first now_ms dropped (e # es) =
     bindR (entry_live token_first now_ms dropped e) (\<lambda>keep.
     bindR (live_entries token_first now_ms dropped es) (\<lambda>rest.
       Inr (if keep then (case e of VDict d \<Rightarrow> d # rest | _ \<Rightarrow> rest) else rest)))"

definition expires_lt :: "row \<Rightarrow> row \<Rightarrow> bool result" where
  "expires_lt a b = py_lt (dget a ''expiresAt'') (dget b ''expiresAt'')"

definition entries_value :: "row list \<Rightarrow> pyval" where
  "entries_value es = VList (map VDict es)"

definition entry_ms :: "row \<Rightarrow> int result" where
  "entry_ms e = (case py_num (dget e ''expiresAt'') of Some n \<Rightarrow> Inr n | None \<Rightarrow> Inl TypeError)"

definition list_key :: "string \<Rightarrow> string" where
  "list_key user_id = ''active-sessions-'' @ user_id"

definition active_session_references ::
    "iconf \<Rightarrow> env \<Rightarrow> string \<Rightarrow> (iworld, pyval) action" where
  "active_session_references ic ev user_id =
     (if \<not> ic_secondary ic then ret (VList [])
      else bindA (on_kv (kv_get (now ev) (list_key user_id))) (\<lambda>raw.
             ret (if text_truthy raw then py_or (safe_json raw) (VList []) else VList [])))"

fun delete_tokens :: "pyval list \<Rightarrow> (iworld, unit) action" where
  "delete_tokens [] = ret ()"
| "delete_tokens (tok # toks) =
     (case tok of
        VStr s \<Rightarrow> bindA (on_kv (kv_delete s)) (\<lambda>_. delete_tokens toks)
      | _ \<Rightarrow> delete_tokens toks)"

text \<open>Set the active list of a user, or drop it when it is empty.\<close>

definition write_entries :: "iconf \<Rightarrow> env \<Rightarrow> string \<Rightarrow> row list \<Rightarrow> (iworld, unit) action" where
  "write_entries ic ev key entries =
     (if entries = [] then on_kv (kv_delete key)
      else bindA (liftR (entry_ms (last entries))) (\<lambda>furthest.
             on_kv (kv_set (now ev) key (to_text (ic_codec ic) (entries_value entries))
               (Some (ttl_seconds furthest (dt_ms (now ev)))))))"

fun map_fields :: "string \<Rightarrow> pyval list \<Rightarrow> pyval list result" where
  "map_fields k [] = Inr []"
| "map_fields k (e # es) =
     bindR (entry_field e k) (\<lambda>v. bindR (map_fields k es) (\<lambda>vs. Inr (v # vs)))"

definition drop_cached_sessions ::
    "iconf \<Rightarrow> env \<Rightarrow> string \<Rightarrow> pyval \<Rightarrow> (iworld, unit) action" where
  "drop_cached_sessions ic ev user_id references =
     catchA
       (bindA (liftR (bindR (json_items references) (map_fields ''token''))) (\<lambda>deleted.
        bindA (delete_tokens deleted) (\<lambda>_.
        bindA (active_session_references ic ev user_id) (\<lambda>current.
        bindA (liftR (bindR (json_items current) (\<lambda>items.
           bindR (live_entries False (dt_ms (now ev)) deleted items) (sort_rows expires_lt))))
          (\<lambda>remaining. write_entries ic ev (list_key user_id) remaining)))))
       (\<lambda>_. ret ())"

end
