(* ===== verification/Internal_Ops.thy ===== *)
theory Internal_Ops
  imports Internal
begin

text \<open>
  \<open>internal_adapter.py\<close>, continued: transactions, users and accounts, verification values, and
  sessions in the database and the secondary storage.
\<close>

section \<open>Transactions\<close>

definition run_deferred :: "iconf \<Rightarrow> env \<Rightarrow> deferred \<Rightarrow> (iworld, unit) action" where
  "run_deferred ic ev d =
     (case d of
        RunAfter model oper payload \<Rightarrow> call_after (after_fns ic model oper) model oper payload
      | DropCached user_id references \<Rightarrow> drop_cached_sessions ic ev user_id references)"

fun flush :: "iconf \<Rightarrow> env \<Rightarrow> deferred list \<Rightarrow> (iworld, unit) action" where
  "flush ic ev [] = ret ()"
| "flush ic ev (d # ds) = bindA (run_deferred ic ev d) (\<lambda>_. flush ic ev ds)"

text \<open>
  The callback runs on a copy of the store (\<open>mem_transaction\<close>), with the key-value store and the
  queue shared; no other coroutine writes meanwhile.
\<close>

definition int_transaction :: "iconf \<Rightarrow> env \<Rightarrow> (iworld, 'a) action \<Rightarrow> (iworld, 'a) action" where
  "int_transaction ic ev callback = (\<lambda>w.
     let outermost = (iw_queue w = None);
         w1 = (if outermost then w\<lparr>iw_queue := Some []\<rparr> else w)
     in case callback w1 of
          (Inl e, w2) \<Rightarrow>
            (Inl e, w2\<lparr>iw_db := iw_db w1,
                       iw_queue := (if outermost then None else iw_queue w2)\<rparr>)
        | (Inr a, w2) \<Rightarrow>
            (let w3 = w2\<lparr>iw_db := merge_transaction_into (iw_db w1) (iw_db w1) (iw_db w2)\<rparr>
             in if outermost then
                  (let queued = (case iw_queue w3 of Some q \<Rightarrow> q | None \<Rightarrow> [])
                   in bindA (flush ic ev queued) (\<lambda>_. ret a) (w3\<lparr>iw_queue := None\<rparr>))
                else (Inr a, w3)))"

section \<open>Users and accounts\<close>

definition forbidden :: "string \<Rightarrow> string \<Rightarrow> exn" where
  "forbidden code message = APIError 403 code message []"

text \<open>\<open>assert_valid_user_info_source\<close> of \<open>oauth/validate_user_info.py\<close>.\<close>

definition sub_field :: "row \<Rightarrow> string \<Rightarrow> string \<Rightarrow> pyval" where
  "sub_field d k k' = (case dget d k of VDict e \<Rightarrow> dget e k' | _ \<Rightarrow> VNone)"

definition assert_valid_source :: "row \<Rightarrow> unit result" where
  "assert_valid_source source =
     (let meth = dget source ''method''
      in if \<not> py_truthy meth then
           Inl (forbidden ''validation_source_missing'' ''User validation source is required'')
         else if meth = VStr ''oauth'' \<and> \<not> py_truthy (sub_field source ''oauth'' ''providerId'') then
           Inl (forbidden ''validation_source_missing''
             ''OAuth user validation source requires oauth.providerId'')
         else if meth \<in> {VStr ''sso-oidc'', VStr ''sso-saml''} \<and>
                 \<not> py_truthy (sub_field source ''sso'' ''providerId'') then
           Inl (forbidden ''validation_source_missing''
             ''SSO user validation source requires sso.providerId'')
         else Inr ())"

definition as_text :: "pyval \<Rightarrow> string" where
  "as_text v = (case v of VStr s \<Rightarrow> s | _ \<Rightarrow> [])"

definition assert_valid_user_info ::
    "(row \<Rightarrow> row \<Rightarrow> row option result) option \<Rightarrow> row \<Rightarrow> row \<Rightarrow> unit result" where
  "assert_valid_user_info validate user source =
     (case validate of
        None \<Rightarrow> Inr ()
      | Some check \<Rightarrow>
          bindR (assert_valid_source source) (\<lambda>_.
            case check user source of
              Inl _ \<Rightarrow> Inl (forbidden ''validation_failed'' ''User validation failed'')
            | Inr None \<Rightarrow> Inr ()
            | Inr (Some res) \<Rightarrow>
                if py_truthy (dget res ''error'') then
                  Inl (forbidden (as_text (dget res ''error''))
                    (as_text (py_or (dget res ''errorDescription'') (dget res ''error''))))
                else Inr ()))"

definition stamped :: "env \<Rightarrow> row \<Rightarrow> row" where
  "stamped ev data = dmerge [(''createdAt'', VDate (now ev)), (''updatedAt'', VDate (now ev))] data"

text \<open>\<open>ctx is None\<close> when \<open>has_ctx\<close> is false.\<close>

definition create_user ::
    "iconf \<Rightarrow> env \<Rightarrow> row \<Rightarrow> row option \<Rightarrow> bool \<Rightarrow> bool \<Rightarrow> (iworld, row option) action" where
  "create_user ic ev user source has_ctx force_allow_id =
     (let data0 = stamped ev user
      in bindA
           (liftR
             (if py_truthy (dget data0 ''email'') then
                (case dget data0 ''email'' of
                   VStr s \<Rightarrow> Inr (dset ''email'' (VStr (str_lower s)) data0)
                 | _ \<Rightarrow> Inl AttributeError)
              else Inr data0)) (\<lambda>data.
         bindA
           (liftR
             (if ic_validate_user_info ic = None then Inr ()
              else
                (let vs = dset ''action'' (VStr ''create-user'')
                            (case source of Some d \<Rightarrow> d | None \<Rightarrow> [])
                 in bindR (assert_valid_source vs) (\<lambda>_.
                      if \<not> has_ctx then
                        Inl (forbidden ''validation_context_missing''
                          ''User validation requires an endpoint context'')
                      else assert_valid_user_info (ic_validate_user_info ic) data vs)))) (\<lambda>_.
         int_create ic ev ''user'' data force_allow_id None)))"

definition update_user :: "iconf \<Rightarrow> env \<Rightarrow> pyval \<Rightarrow> row \<Rightarrow> (iworld, row option) action" where
  "update_user ic ev user_id data = int_update ic ev ''user'' [Where ''id'' user_id] data None"

definition database_stores_sessions :: "iconf \<Rightarrow> bool" where
  "database_stores_sessions ic = (\<not> ic_secondary ic \<or> ic_store_session_in_database ic)"

definition queue_cached_session_deletion ::
    "iconf \<Rightarrow> env \<Rightarrow> string \<Rightarrow> pyval \<Rightarrow> (iworld, unit) action" where
  "queue_cached_session_deletion ic ev user_id references =
     (if \<not> ic_secondary ic then ret ()
      else defer_or_run (DropCached user_id references)
             (drop_cached_sessions ic ev user_id references))"

definition delete_user :: "iconf \<Rightarrow> env \<Rightarrow> string \<Rightarrow> (iworld, unit) action" where
  "delete_user ic ev user_id =
     bindA (active_session_references ic ev user_id) (\<lambda>references.
     bindA
       (if database_stores_sessions ic
        then bindA (int_delete_many ic ''session'' [Where ''userId'' (VStr user_id)]) (\<lambda>_. ret ())
        else ret ()) (\<lambda>_.
     bindA (int_delete_many ic ''account'' [Where ''userId'' (VStr user_id)]) (\<lambda>_.
     bindA (int_delete ic ''user'' [Where ''id'' (VStr user_id)]) (\<lambda>gone.
       if gone then queue_cached_session_deletion ic ev user_id references else ret ()))))"

definition list_users ::
    "iconf \<Rightarrow> int option \<Rightarrow> int option \<Rightarrow> sort_by option \<Rightarrow> clause list \<Rightarrow> (iworld, row list) action" where
  "list_users ic limit offset order wh =
     on_db (mem_find_many (ic_ad ic) ''user'' wh limit order offset [])"

definition count_total_users :: "clause list \<Rightarrow> (iworld, int) action" where
  "count_total_users wh = on_db (mem_count ''user'' wh)"

definition create_account :: "iconf \<Rightarrow> env \<Rightarrow> row \<Rightarrow> bool \<Rightarrow> (iworld, row option) action" where
  "create_account ic ev account force_allow_id =
     int_create ic ev ''account'' (stamped ev account) force_allow_id None"

definition update_account :: "iconf \<Rightarrow> env \<Rightarrow> pyval \<Rightarrow> row \<Rightarrow> (iworld, row option) action" where
  "update_account ic ev account_id data =
     int_update ic ev ''account'' [Where ''id'' account_id] data None"

definition delete_account :: "iconf \<Rightarrow> pyval \<Rightarrow> (iworld, unit) action" where
  "delete_account ic account_id =
     bindA (int_delete ic ''account'' [Where ''id'' account_id]) (\<lambda>_. ret ())"

definition find_account_by_key :: "iconf \<Rightarrow> string \<Rightarrow> string \<Rightarrow> (iworld, row option) action" where
  "find_account_by_key ic provider_id account_id =
     bindA (on_db (mem_find_many (ic_ad ic) ''account''
         [Where ''providerId'' (VStr provider_id), Where ''accountId'' (VStr account_id)]
         (Some 2) None None [])) (\<lambda>rows.
       if length rows > 1 then
         raise (BetterAuthError ''Multiple accounts match the same accountId for provider'')
       else ret (case rows of [] \<Rightarrow> None | r # _ \<Rightarrow> Some r))"

definition find_account_owner_by_key ::
    "iconf \<Rightarrow> string \<Rightarrow> string \<Rightarrow> (iworld, (row \<times> row option) option) action" where
  "find_account_owner_by_key ic provider_id account_id =
     bindA (find_account_by_key ic provider_id account_id) (\<lambda>account.
       case account of
         None \<Rightarrow> ret None
       | Some a \<Rightarrow>
           bindA (liftR (dindex a ''userId'')) (\<lambda>uid.
           bindA (on_db (mem_find_one (ic_ad ic) ''user'' [Where ''id'' uid] [])) (\<lambda>user.
             ret (Some (a, user)))))"

definition update_password :: "iconf \<Rightarrow> env \<Rightarrow> string \<Rightarrow> string \<Rightarrow> (iworld, unit) action" where
  "update_password ic ev user_id password =
     bindA (int_update ic ev ''account''
         [Where ''userId'' (VStr user_id), Where ''providerId'' (VStr ''credential'')]
         [(''password'', VStr password)] None) (\<lambda>_. ret ())"

section \<open>Verification values\<close>

definition verification_key :: "string \<Rightarrow> string" where
  "verification_key stored = ''verification:'' @ stored"

definition stored_identifier :: "iconf \<Rightarrow> string \<Rightarrow> id_option \<times> string" where
  "stored_identifier ic identifier =
     (let opt = get_storage_option identifier (ic_store_identifier ic)
      in (opt, process_identifier (ic_sha256 ic) identifier opt))"

definition identifiers_to_try :: "iconf \<Rightarrow> string \<Rightarrow> string list" where
  "identifiers_to_try ic identifier =
     (let (opt, stored) = stored_identifier ic identifier
      in if id_is_set opt \<and> \<not> id_is_plain opt then [stored, identifier] else [stored])"

definition store_verification_kv :: "iconf \<Rightarrow> env \<Rightarrow> string \<Rightarrow> row \<Rightarrow> (iworld, row option) action" where
  "store_verification_kv ic ev stored vdata =
     bindA (liftR (bindR (dindex vdata ''expiresAt'') (expires_ms (ic_codec ic)))) (\<lambda>x.
       let ttl = ttl_seconds x (dt_ms (now ev))
       in bindA (if ttl > 0
                 then on_kv (kv_set (now ev) (verification_key stored) (to_text (ic_codec ic) (VDict vdata)) (Some ttl))
                 else ret ()) (\<lambda>_. ret (Some vdata)))"

definition create_verification_value ::
    "iconf \<Rightarrow> env \<Rightarrow> row \<Rightarrow> bool \<Rightarrow> (iworld, row option) action" where
  "create_verification_value ic ev data force_allow_id =
     bindA (liftR (dindex data ''identifier'')) (\<lambda>i.
       case i of
         VStr identifier \<Rightarrow>
           (let stored = snd (stored_identifier ic identifier);
                payload = dset ''identifier'' (VStr stored) (stamped ev data)
            in int_create ic ev ''verification'' payload force_allow_id
                 (if ic_secondary ic
                  then Some \<lparr>cu_fn = store_verification_kv ic ev stored,
                             cu_execute_main = ic_verification_in_database ic\<rparr>
                  else None))
       | _ \<Rightarrow> raise AttributeError)"

definition latest_verification :: "iconf \<Rightarrow> string \<Rightarrow> (iworld, row option) action" where
  "latest_verification ic stored =
     bindA (on_db (mem_find_many (ic_ad ic) ''verification'' [Where ''identifier'' (VStr stored)]
         (Some 1) (Some \<lparr>sb_field = ''createdAt'', sb_desc = True\<rparr>) None [])) (\<lambda>rows.
       ret (case rows of [] \<Rightarrow> None | r # _ \<Rightarrow> Some r))"

definition cached_verification :: "iconf \<Rightarrow> env \<Rightarrow> string \<Rightarrow> (iworld, row option) action" where
  "cached_verification ic ev stored =
     bindA (on_kv (kv_get (now ev) (verification_key stored))) (\<lambda>raw.
       ret (if text_truthy raw then hydrate_cached_verification (ic_codec ic) raw else None))"

definition find_verification_value :: "iconf \<Rightarrow> env \<Rightarrow> string \<Rightarrow> (iworld, row option) action" where
  "find_verification_value ic ev identifier =
     (let (opt, stored) = stored_identifier ic identifier;
          hashed = (id_is_set opt \<and> \<not> id_is_plain opt);
          from_db = bindA (latest_verification ic stored) (\<lambda>row.
            if row = None \<and> hashed then latest_verification ic identifier else ret row)
      in if ic_secondary ic then
           bindA (cached_verification ic ev stored) (\<lambda>hit.
             if hit \<noteq> None then ret hit
             else
               bindA (if hashed then cached_verification ic ev identifier else ret None) (\<lambda>plain_hit.
                 if plain_hit \<noteq> None then ret plain_hit
                 else if \<not> ic_verification_in_database ic then ret None
                 else from_db))
         else from_db)"

definition delete_verification_value :: "iconf \<Rightarrow> pyval \<Rightarrow> (iworld, unit) action" where
  "delete_verification_value ic verification_id =
     bindA (int_delete ic ''verification'' [Where ''id'' verification_id]) (\<lambda>_. ret ())"

text \<open>
  Consuming in the secondary storage. The fallback without \<open>get_and_delete\<close> runs under an
  in-process lock, so it is one step too; it keeps a text that does not hydrate.
\<close>

definition consume_cache_key :: "iconf \<Rightarrow> env \<Rightarrow> string \<Rightarrow> (iworld, row option) action" where
  "consume_cache_key ic ev key =
     (if ic_atomic_take ic then
        bindA (on_kv (kv_get_and_delete (now ev) key)) (\<lambda>raw. ret (hydrate_cached_verification (ic_codec ic) raw))
      else
        bindA (on_kv (kv_get (now ev) key)) (\<lambda>raw.
          case hydrate_cached_verification (ic_codec ic) raw of
            None \<Rightarrow> ret None
          | Some parsed \<Rightarrow> bindA (on_kv (kv_delete key)) (\<lambda>_. ret (Some parsed))))"

fun delete_verification_keys :: "string list \<Rightarrow> (iworld, unit) action" where
  "delete_verification_keys [] = ret ()"
| "delete_verification_keys (i # is) =
     bindA (on_kv (kv_delete (verification_key i))) (\<lambda>_. delete_verification_keys is)"

fun consume_cached ::
    "iconf \<Rightarrow> env \<Rightarrow> string list \<Rightarrow> string list \<Rightarrow> (iworld, row option) action" where
  "consume_cached ic ev every [] = ret None"
| "consume_cached ic ev every (i # is) =
     bindA (consume_cache_key ic ev (verification_key i)) (\<lambda>cached.
       case cached of
         None \<Rightarrow> consume_cached ic ev every is
       | Some r \<Rightarrow>
           bindA (delete_verification_keys (filter (\<lambda>other. other \<noteq> i) every)) (\<lambda>_. ret (Some r)))"

definition consume_by_identifier :: "iconf \<Rightarrow> env \<Rightarrow> string \<Rightarrow> (iworld, row option) action" where
  "consume_by_identifier ic ev row_id =
     int_transaction ic ev
       (bindA (latest_verification ic row_id) (\<lambda>latest.
          case latest of
            None \<Rightarrow> ret None
          | Some l \<Rightarrow>
              bindA (liftR (run_before ic ''verification'' ''delete'' l)) (\<lambda>(_, aborted).
                if aborted then ret None
                else
                  bindA (liftR (dindex l ''id'')) (\<lambda>i.
                  bindA (on_db (mem_consume_one (ic_ad ic) ''verification'' [Where ''id'' i])) (\<lambda>row.
                    case row of
                      None \<Rightarrow> ret None
                    | Some r \<Rightarrow>
                        bindA (on_db (mem_delete_many ''verification''
                            [Where ''identifier'' (VStr row_id)])) (\<lambda>_.
                        bindA (queue_after ic ''verification'' ''delete'' (Some r)) (\<lambda>_.
                          ret (Some r))))))))"

fun consume_stored :: "iconf \<Rightarrow> env \<Rightarrow> string list \<Rightarrow> (iworld, row option) action" where
  "consume_stored ic ev [] = ret None"
| "consume_stored ic ev (i # is) =
     bindA (consume_by_identifier ic ev i) (\<lambda>consumed.
       if consumed \<noteq> None \<and> consumed \<noteq> Some [] then ret consumed
       else if is = [] then ret consumed
       else consume_stored ic ev is)"

definition not_expired :: "env \<Rightarrow> row option \<Rightarrow> row option result" where
  "not_expired ev consumed =
     (case consumed of
        None \<Rightarrow> Inr None
      | Some r \<Rightarrow>
          bindR (dindex r ''expiresAt'') (\<lambda>x.
          bindR (py_lt x (VDate (now ev))) (\<lambda>late. Inr (if late then None else Some r))))"

definition consume_verification_value :: "iconf \<Rightarrow> env \<Rightarrow> string \<Rightarrow> (iworld, row option) action" where
  "consume_verification_value ic ev identifier =
     (let ids = identifiers_to_try ic identifier
      in bindA
           (if ic_secondary ic \<and> \<not> ic_verification_in_database ic then consume_cached ic ev ids ids
            else
              bindA (consume_stored ic ev ids) (\<lambda>consumed.
                if consumed \<noteq> None \<and> consumed \<noteq> Some [] \<and> ic_secondary ic then
                  bindA (delete_verification_keys ids) (\<lambda>_. ret consumed)
                else ret consumed)) (\<lambda>consumed.
         liftR (not_expired ev consumed)))"

definition update_verification_by_identifier ::
    "iconf \<Rightarrow> env \<Rightarrow> string \<Rightarrow> row \<Rightarrow> (iworld, row option) action" where
  "update_verification_by_identifier ic ev identifier data =
     (let stored = snd (stored_identifier ic identifier);
          database = int_update ic ev ''verification'' [Where ''identifier'' (VStr stored)] data None;
          uncached = (if \<not> ic_secondary ic \<or> ic_verification_in_database ic then database
                      else ret (Some data))
      in if ic_secondary ic then
           bindA (on_kv (kv_get (now ev) (verification_key stored))) (\<lambda>raw.
             if text_truthy raw \<and> py_truthy (safe_json raw) then
               (case safe_json raw of
                  VDict parsed \<Rightarrow>
                    (let updated = dmerge parsed data
                     in bindA (liftR (expires_ms (ic_codec ic)
                            (py_or (dget updated ''expiresAt'') (dget parsed ''expiresAt'')))) (\<lambda>x.
                        let ttl = ttl_seconds x (dt_ms (now ev))
                        in bindA (if ttl > 0
                                  then on_kv (kv_set (now ev) (verification_key stored)
                                         (to_text (ic_codec ic) (VDict updated)) (Some ttl))
                                  else ret ()) (\<lambda>_.
                           if \<not> ic_verification_in_database ic
                           then bindA (liftR (parse_dates (ic_codec ic) updated)) (\<lambda>u. ret (Some u))
                           else uncached)))
                | _ \<Rightarrow> raise TypeError)
             else uncached)
         else uncached)"

definition delete_verification_by_identifier :: "iconf \<Rightarrow> string \<Rightarrow> (iworld, unit) action" where
  "delete_verification_by_identifier ic identifier =
     (let stored = snd (stored_identifier ic identifier)
      in bindA (if ic_secondary ic then on_kv (kv_delete (verification_key stored)) else ret ()) (\<lambda>_.
         if \<not> ic_secondary ic \<or> ic_verification_in_database ic
         then bindA (int_delete_many ic ''verification'' [Where ''identifier'' (VStr stored)]) (\<lambda>_. ret ())
         else ret ()))"

definition err_reserve :: exn where
  "err_reserve = BetterAuthError
     ''reserveVerificationValue requires database-backed verification storage.''"

definition reservation_id :: "iconf \<Rightarrow> string \<Rightarrow> string" where
  "reservation_id ic identifier = b64url_encode_nopad (ic_sha256 ic (''reserve:'' @ identifier))"

definition reserve_verification_value ::
    "iconf \<Rightarrow> env \<Rightarrow> string \<Rightarrow> string \<Rightarrow> int \<Rightarrow> (iworld, bool) action" where
  "reserve_verification_value ic ev identifier v expires_at =
     (let rid = reservation_id ic identifier;
          stored = snd (stored_identifier ic identifier);
          reserved = [(''id'', VStr rid), (''identifier'', VStr stored), (''value'', VStr v),
                      (''expiresAt'', VDate expires_at)]
      in if ic_secondary ic \<and> \<not> ic_verification_in_database ic then raise err_reserve
         else
           bindA
             (catchA
                (bindA (on_db (mem_create (ic_ad ic) ev ''verification''
                    (reserved @ [(''createdAt'', VDate (now ev)), (''updatedAt'', VDate (now ev))]) []))
                  (\<lambda>_. ret True))
                (\<lambda>e. bindA (on_db (mem_find_one (ic_ad ic) ''verification'' [Where ''id'' (VStr rid)] []))
                  (\<lambda>found. if found \<noteq> None \<and> found \<noteq> Some [] then ret False else raise e))) (\<lambda>won.
           if \<not> won then ret False
           else
             (let ttl = ttl_seconds (dt_ms expires_at) (dt_ms (now ev))
              in bindA (if ic_secondary ic \<and> ttl > 0
                        then on_kv (kv_set (now ev) (verification_key stored)
                               (to_text (ic_codec ic) (VDict reserved)) (Some ttl))
                        else ret ()) (\<lambda>_. ret True))))"

section \<open>Sessions\<close>

text \<open>
  \<open>_store_session_kv\<close>: \<open>data\<close> is the row before the create hooks, \<open>session_data\<close> what was created.
\<close>

definition store_session_kv ::
    "iconf \<Rightarrow> env \<Rightarrow> string \<Rightarrow> row \<Rightarrow> row \<Rightarrow> (iworld, unit) action" where
  "store_session_kv ic ev user_id data session_data =
     (let now_ms = dt_ms (now ev)
      in bindA (liftR (dindex data ''token'')) (\<lambda>token.
         bindA (liftR (bindR (dindex data ''expiresAt'') (expires_ms (ic_codec ic)))) (\<lambda>x.
         bindA (on_kv (kv_get (now ev) (list_key user_id))) (\<lambda>current.
         bindA (liftR
           (bindR (if text_truthy current then json_items (safe_json current) else Inr []) (\<lambda>items.
            bindR (live_entries False now_ms [token] items) (\<lambda>live.
              sort_rows expires_lt (live @ [[(''token'', token), (''expiresAt'', VInt x)]]))))) (\<lambda>entries.
         bindA (liftR (entry_ms (last entries))) (\<lambda>furthest.
         let furthest_ttl = ttl_seconds furthest now_ms
         in bindA (if furthest_ttl > 0
                   then on_kv (kv_set (now ev) (list_key user_id) (to_text (ic_codec ic) (entries_value entries))
                          (Some furthest_ttl))
                   else ret ()) (\<lambda>_.
         bindA (on_db (mem_find_one (ic_ad ic) ''user'' [Where ''id'' (VStr user_id)] [])) (\<lambda>user.
         let session_ttl = ttl_seconds x now_ms
         in if session_ttl > 0
            then on_kv (kv_set (now ev) (as_text token)
                   (to_text (ic_codec ic) (VDict [(''session'', VDict session_data),
                                    (''user'', case user of Some u \<Rightarrow> VDict u | None \<Rightarrow> VNone)]))
                   (Some session_ttl))
            else ret ()))))))))"

text \<open>\<open>new_id\<close> and \<open>new_token\<close> are what \<open>generate_id\<close> returns for the session.\<close>

definition create_session ::
    "iconf \<Rightarrow> env \<Rightarrow> string \<Rightarrow> string \<Rightarrow> string \<Rightarrow> bool \<Rightarrow> row \<Rightarrow> string \<Rightarrow> string \<Rightarrow>
     (iworld, row option) action" where
  "create_session ic ev new_id new_token user_id dont_remember_me override ip_address user_agent =
     (let store_in_db = ic_store_session_in_database ic;
          rest = ddrop ''id'' override;
          expires_in = (if dont_remember_me then DAY else ic_session_expires_in ic);
          data = dmerge (dmerge
            ((if ic_secondary ic \<and> \<not> store_in_db then [(''id'', VStr new_id)] else []) @
             [(''ipAddress'', VStr ip_address), (''userAgent'', VStr user_agent)]) rest)
            [(''expiresAt'', VDate (now ev + expires_in * 1000000)), (''userId'', VStr user_id),
             (''token'', VStr new_token), (''createdAt'', VDate (now ev)), (''updatedAt'', VDate (now ev))];
          custom = (if ic_secondary ic
                    then Some \<lparr>cu_fn = (\<lambda>session_data.
                                 bindA (store_session_kv ic ev user_id data session_data) (\<lambda>_.
                                   ret (Some session_data))),
                               cu_execute_main = store_in_db\<rparr>
                    else None)
      in int_create ic ev ''session'' data True custom)"

definition index_value :: "pyval \<Rightarrow> string \<Rightarrow> pyval result" where
  "index_value v k = (case v of VDict d \<Rightarrow> dindex d k | _ \<Rightarrow> Inl TypeError)"

text \<open>\<open>_parse_dates(v)\<close>: \<open>dict(v)\<close> needs a mapping.\<close>

definition parse_dates_value :: "codec \<Rightarrow> pyval \<Rightarrow> row result" where
  "parse_dates_value cd v = (case v of VDict d \<Rightarrow> parse_dates cd d | _ \<Rightarrow> Inl TypeError)"

definition find_session :: "iconf \<Rightarrow> env \<Rightarrow> string \<Rightarrow> (iworld, (row \<times> row) option) action" where
  "find_session ic ev token =
     (let from_db =
            bindA (on_db (mem_find_one (ic_ad ic) ''session'' [Where ''token'' (VStr token)] [])) (\<lambda>session.
              case session of
                None \<Rightarrow> ret None
              | Some s \<Rightarrow>
                  bindA (liftR (dindex s ''userId'')) (\<lambda>uid.
                  bindA (on_db (mem_find_one (ic_ad ic) ''user'' [Where ''id'' uid] [])) (\<lambda>user.
                    ret (case user of None \<Rightarrow> None | Some u \<Rightarrow> Some (s, u)))))
      in if ic_secondary ic then
           bindA (on_kv (kv_get (now ev) token)) (\<lambda>raw.
             if \<not> text_truthy raw then
               (if \<not> ic_store_session_in_database ic then ret None else from_db)
             else if safe_json raw = VNone then ret None
             else
               bindA (liftR (bindR (index_value (safe_json raw) ''session'') (parse_dates_value (ic_codec ic)))) (\<lambda>s.
               bindA (liftR (bindR (index_value (safe_json raw) ''user'') (parse_dates_value (ic_codec ic)))) (\<lambda>u.
                 ret (Some (s, u)))))
         else from_db)"

text \<open>The loop of \<open>list_sessions\<close> over the active list, skipping expired and repeated tokens.\<close>

fun list_cached :: "iconf \<Rightarrow> env \<Rightarrow> pyval list \<Rightarrow> pyval list \<Rightarrow> (iworld, row list) action" where
  "list_cached ic ev seen [] = ret []"
| "list_cached ic ev seen (e # es) =
     bindA (liftR (entry_field e ''token'')) (\<lambda>token.
     bindA (liftR (bindR (entry_field e ''expiresAt'') (\<lambda>x.
        bindR (py_lt (VInt (dt_ms (now ev))) x) (\<lambda>later. Inr (\<not> later))))) (\<lambda>expired.
       if expired \<or> list_ex (py_eq token) seen then list_cached ic ev seen es
       else
         bindA (on_kv (kv_get (now ev) (as_text token))) (\<lambda>data.
           let parsed = safe_json data;
               session = (case parsed of VDict d \<Rightarrow> dget d ''session'' | _ \<Rightarrow> VNone)
           in if \<not> text_truthy data \<or> \<not> py_truthy session then list_cached ic ev (token # seen) es
              else
                bindA (liftR (parse_dates_value (ic_codec ic) session)) (\<lambda>s.
                bindA (list_cached ic ev (token # seen) es) (\<lambda>rest. ret (s # rest))))))"

definition list_sessions :: "iconf \<Rightarrow> env \<Rightarrow> string \<Rightarrow> (iworld, row list) action" where
  "list_sessions ic ev user_id =
     (if ic_secondary ic then
        bindA (on_kv (kv_get (now ev) (list_key user_id))) (\<lambda>raw.
          if \<not> text_truthy raw then ret []
          else bindA (liftR (json_items (safe_json raw))) (list_cached ic ev []))
      else on_db (mem_find_many (ic_ad ic) ''session'' [Where ''userId'' (VStr user_id)] None None None []))"

definition update_session_kv :: "iconf \<Rightarrow> env \<Rightarrow> string \<Rightarrow> row \<Rightarrow> (iworld, row option) action" where
  "update_session_kv ic ev token data =
     (let now_ms = dt_ms (now ev)
      in bindA (on_kv (kv_get (now ev) token)) (\<lambda>current.
         if \<not> text_truthy current \<or> safe_json current = VNone then ret None
         else
           bindA (liftR (bindR (index_value (safe_json current) ''session'') (\<lambda>s.
              case s of VDict d \<Rightarrow> parse_dates (ic_codec ic) (dmerge d data) | _ \<Rightarrow> Inl TypeError))) (\<lambda>merged.
           bindA (liftR (bindR (dindex merged ''expiresAt'') (expires_ms (ic_codec ic)))) (\<lambda>x.
           let session_ttl = ttl_seconds x now_ms
           in if session_ttl > 0 then
                bindA (liftR (index_value (safe_json current) ''user'')) (\<lambda>user.
                bindA (on_kv (kv_set (now ev) token
                    (to_text (ic_codec ic) (VDict [(''session'', VDict merged), (''user'', user)]))
                    (Some session_ttl))) (\<lambda>_.
                bindA (liftR (dindex merged ''userId'')) (\<lambda>uid.
                let key = list_key (as_text uid)
                in bindA (on_kv (kv_get (now ev) key)) (\<lambda>raw.
                   bindA (liftR
                     (bindR (json_items (safe_json raw)) (\<lambda>items.
                      bindR (live_entries True now_ms [VStr token] items) (\<lambda>live.
                        sort_rows expires_lt
                          (live @ [[(''token'', VStr token), (''expiresAt'', VInt x)]]))))) (\<lambda>entries.
                   bindA (liftR (entry_ms (last entries))) (\<lambda>furthest.
                   bindA
                     (if furthest > now_ms
                      then on_kv (kv_set (now ev) key (to_text (ic_codec ic) (entries_value entries))
                             (Some (ttl_seconds furthest now_ms)))
                      else on_kv (kv_delete key)) (\<lambda>_.
                   ret (Some merged))))))))
              else ret (Some merged)))))"

definition update_session :: "iconf \<Rightarrow> env \<Rightarrow> string \<Rightarrow> row \<Rightarrow> (iworld, row option) action" where
  "update_session ic ev token values =
     int_update ic ev ''session'' [Where ''token'' (VStr token)] values
       (if ic_secondary ic
        then Some \<lparr>cu_fn = update_session_kv ic ev token,
                   cu_execute_main = ic_store_session_in_database ic\<rparr>
        else None)"

definition delete_session :: "iconf \<Rightarrow> env \<Rightarrow> string \<Rightarrow> (iworld, unit) action" where
  "delete_session ic ev token =
     (let now_ms = dt_ms (now ev);
          from_db = bindA (int_delete ic ''session'' [Where ''token'' (VStr token)]) (\<lambda>_. ret ());
          finish = bindA (on_kv (kv_delete token)) (\<lambda>_.
            if \<not> ic_store_session_in_database ic then ret () else from_db)
      in if \<not> ic_secondary ic then from_db
         else
           bindA (on_kv (kv_get (now ev) token)) (\<lambda>raw.
             if \<not> text_truthy raw then finish
             else
               (let session = (case safe_json raw of VDict d \<Rightarrow> dget d ''session'' | _ \<Rightarrow> VNone)
                in if \<not> py_truthy session then ret ()
                   else
                     bindA (liftR (index_value session ''userId'')) (\<lambda>uid.
                     let key = list_key (as_text uid)
                     in bindA (on_kv (kv_get (now ev) key)) (\<lambda>current.
                        bindA
                          (if \<not> text_truthy current then ret ()
                           else
                             bindA (liftR
                               (bindR (json_items (safe_json current)) (\<lambda>items.
                                bindR (live_entries False now_ms [VStr token] items)
                                  (sort_rows expires_lt)))) (\<lambda>filtered.
                             if filtered = [] then on_kv (kv_delete key)
                             else
                               bindA (liftR (entry_ms (last filtered))) (\<lambda>furthest.
                                 if furthest \<noteq> 0 \<and> furthest > now_ms
                                 then on_kv (kv_set (now ev) key (to_text (ic_codec ic) (entries_value filtered))
                                        (Some (ttl_seconds furthest now_ms)))
                                 else on_kv (kv_delete key)))) (\<lambda>_. finish))))))"

fun delete_keys :: "string list \<Rightarrow> (iworld, unit) action" where
  "delete_keys [] = ret ()"
| "delete_keys (k # ks) = bindA (on_kv (kv_delete k)) (\<lambda>_. delete_keys ks)"

definition delete_sessions :: "iconf \<Rightarrow> string list \<Rightarrow> (iworld, unit) action" where
  "delete_sessions ic tokens =
     (let from_db = bindA (int_delete_many ic ''session''
            [WhereOp ''token'' (VList (map VStr tokens)) OIn]) (\<lambda>_. ret ())
      in if ic_secondary ic then
           bindA (delete_keys tokens) (\<lambda>_.
             if \<not> ic_store_session_in_database ic then ret () else from_db)
         else from_db)"

definition delete_user_sessions :: "iconf \<Rightarrow> env \<Rightarrow> string \<Rightarrow> (iworld, unit) action" where
  "delete_user_sessions ic ev user_id =
     bindA (active_session_references ic ev user_id) (\<lambda>references.
       if \<not> database_stores_sessions ic then queue_cached_session_deletion ic ev user_id references
       else
         bindA (int_delete_many ic ''session'' [Where ''userId'' (VStr user_id)]) (\<lambda>deleted.
           if deleted \<noteq> None then queue_cached_session_deletion ic ev user_id references else ret ()))"

section \<open>Unproven accounts\<close>

text \<open>Each poll of \<open>_wait_for_cleanup_lock\<close> reads the clock; there are as many as the deadline allows.\<close>

fun wait_for_cleanup_lock :: "iconf \<Rightarrow> env list \<Rightarrow> string \<Rightarrow> (iworld, unit) action" where
  "wait_for_cleanup_lock ic [] identifier = ret ()"
| "wait_for_cleanup_lock ic (ev # polls) identifier =
     bindA (find_verification_value ic ev identifier) (\<lambda>held.
       case held of
         None \<Rightarrow> ret ()
       | Some h \<Rightarrow>
           bindA (liftR (bindR (dindex h ''expiresAt'') (\<lambda>x.
              bindR (py_lt (VDate (now ev)) x) (\<lambda>later. Inr (\<not> later))))) (\<lambda>expired.
             if expired then delete_verification_by_identifier ic identifier
             else wait_for_cleanup_lock ic polls identifier))"

fun delete_accounts :: "iconf \<Rightarrow> row list \<Rightarrow> (iworld, unit) action" where
  "delete_accounts ic [] = ret ()"
| "delete_accounts ic (a # as) =
     bindA (liftR (dindex a ''id'')) (\<lambda>i. bindA (delete_account ic i) (\<lambda>_. delete_accounts ic as))"

definition CLEANUP_LOCK_EXPIRES :: int where
  "CLEANUP_LOCK_EXPIRES = 5000000"

definition find_user :: "iconf \<Rightarrow> string \<Rightarrow> (iworld, row option) action" where
  "find_user ic user_id = on_db (mem_find_one (ic_ad ic) ''user'' [Where ''id'' (VStr user_id)] [])"

text \<open>\<open>try: m finally: h\<close>, where \<open>h\<close> suppresses its own exceptions.\<close>

definition finally_quiet :: "('s, 'a) action \<Rightarrow> ('s, unit) action \<Rightarrow> ('s, 'a) action" where
  "finally_quiet m h s = (case m s of (res, s') \<Rightarrow> (res, snd (h s')))"

definition revoke_unproven_account_access ::
    "iconf \<Rightarrow> env \<Rightarrow> env list \<Rightarrow> string \<Rightarrow> (iworld, row option) action" where
  "revoke_unproven_account_access ic ev polls user_id =
     (let lock = ''revoke-unproven-account-access:'' @ user_id
      in bindA
           (catchA (reserve_verification_value ic ev lock user_id (now ev + CLEANUP_LOCK_EXPIRES))
              (\<lambda>e. if e = err_reserve then ret True else raise e)) (\<lambda>acquired.
         if \<not> acquired then
           bindA (wait_for_cleanup_lock ic polls lock) (\<lambda>_. find_user ic user_id)
         else
           finally_quiet
             (bindA (find_user ic user_id) (\<lambda>user.
                if user = None \<or> py_truthy (dget (the user) ''emailVerified'') then ret user
                else
                  bindA (on_db (mem_find_many (ic_ad ic) ''account'' [Where ''userId'' (VStr user_id)]
                      None None None [])) (\<lambda>accounts.
                  bindA (delete_accounts ic accounts) (\<lambda>_.
                  bindA (delete_user_sessions ic ev user_id) (\<lambda>_.
                    update_user ic ev (VStr user_id) [(''emailVerified'', VBool True)])))))
             (delete_verification_by_identifier ic lock)))"

end
