(* ===== verification/Internal_Props.thy ===== *)
theory Internal_Props
  imports Internal_Ops Adapter_Props
begin

text \<open>
  Laws of the internal adapter: what the actions on the two stores compute, the transaction merge
  of a callback that only deletes, the consumption of verification values, and the active-session
  lists of the secondary storage.
\<close>

section \<open>Actions on the two stores\<close>

lemma on_db_eq: "m (iw_db w) = (res, st) \<Longrightarrow> on_db m w = (res, w\<lparr>iw_db := st\<rparr>)"
  by (simp add: on_db_def)

lemma bind_kv_get:
  "bindA (on_kv (kv_get t k)) f w =
     f (kv_view (iw_kv w) t k) (w\<lparr>iw_kv := snd (kv_get t k (iw_kv w))\<rparr>)"
  using mem_kv.get_result[of t k "iw_kv w"]
  by (cases "kv_get t k (iw_kv w)") (simp add: bindA_def on_kv_def)

lemma bind_kv_set:
  "bindA (on_kv (kv_set t k v ttl)) f w = f () (w\<lparr>iw_kv := snd (kv_set t k v ttl (iw_kv w))\<rparr>)"
  by (simp add: bindA_def on_kv_def kv_set_def)

lemma bind_kv_delete:
  "bindA (on_kv (kv_delete k)) f w = f () (w\<lparr>iw_kv := snd (kv_delete k (iw_kv w))\<rparr>)"
  by (simp add: bindA_def on_kv_def kv_delete_def)

lemma run_kv_set:
  "on_kv (kv_set t k v ttl) w = (Inr (), w\<lparr>iw_kv := snd (kv_set t k v ttl (iw_kv w))\<rparr>)"
  by (simp add: on_kv_def kv_set_def)

lemma run_kv_delete: "on_kv (kv_delete k) w = (Inr (), w\<lparr>iw_kv := snd (kv_delete k (iw_kv w))\<rparr>)"
  by (simp add: on_kv_def kv_delete_def)

lemma bind_kv_take:
  "bindA (on_kv (kv_get_and_delete t k)) f w =
     f (kv_view (iw_kv w) t k) (w\<lparr>iw_kv := snd (kv_get_and_delete t k (iw_kv w))\<rparr>)"
  using mem_kv.take_once_result[of t k "iw_kv w"]
  by (cases "kv_get_and_delete t k (iw_kv w)") (simp add: bindA_def on_kv_def take_once_mem)

lemmas kv_views = mem_kv.get_view mem_kv.put_view mem_kv.del_view

lemma bindA_assoc: "bindA (bindA m f) g = bindA m (\<lambda>a. bindA (f a) g)"
  by (rule ext) (auto simp: bindA_def split: prod.splits sum.splits)

lemma bindA_ret_right [simp]: "bindA m ret = m"
  by (rule ext) (auto simp: bindA_def ret_def split: prod.splits sum.splits)

section \<open>Merging a transaction that only deletes\<close>

lemma is_str_iff: "is_str v \<longleftrightarrow> (\<exists>s. v = VStr s)"
  by (cases v) (auto simp: is_str_def)

lemma str_ids_inj:
  "str_ids rs \<Longrightarrow> x \<in> set rs \<Longrightarrow> y \<in> set rs \<Longrightarrow> dget x ''id'' = dget y ''id'' \<Longrightarrow> x = y"
  unfolding str_ids_def row_ids_def distinct_map by (blast dest: inj_onD)

lemma by_id_unique:
  assumes "str_ids rs" "r \<in> set rs"
  shows "by_id rs (dget r ''id'') = Some r"
proof -
  obtain i where i: "dget r ''id'' = VStr i"
    using assms by (auto simp: str_ids_def list_all_iff is_str_iff)
  have "x = r" if "x \<in> set rs" "dget x ''id'' = VStr i" for x
    by (rule str_ids_inj[OF assms(1) that(1) assms(2)]) (simp add: i that(2))
  from find_unique[of rs "\<lambda>x. dget x ''id'' = VStr i" r, OF this assms(2) i]
  have "lookup_id rs i = Some r" unfolding lookup_id_def by simp
  then show ?thesis using by_id_lookup[OF assms(1)] i by simp
qed

lemma text_ids_filter: "str_ids rs \<Longrightarrow> str_ids (filter P rs)"
  by (auto simp: str_ids_def row_ids_def list_all_iff distinct_map_filter)

lemma by_id_filter:
  assumes "str_ids rs" "r \<in> set rs"
  shows "by_id (filter P rs) (dget r ''id'') = (if P r then Some r else None)"
proof (cases "P r")
  case True
  with by_id_unique[OF text_ids_filter[OF assms(1)], of r P] assms(2) show ?thesis by simp
next
  case False
  have "\<not> py_eq (dget x ''id'') (dget r ''id'')" if "x \<in> set (filter P rs)" for x
  proof
    assume eq: "py_eq (dget x ''id'') (dget r ''id'')"
    have "is_str (dget r ''id'')" "is_str (dget x ''id'')"
      using assms that by (auto simp: str_ids_def list_all_iff)
    with eq have "dget x ''id'' = dget r ''id''" by (auto simp: is_str_def split: pyval.splits)
    then have "x = r" using str_ids_inj[OF assms(1) _ assms(2)] that by simp
    with that False show False by simp
  qed
  with False show ?thesis by (auto simp: by_id_def find_None_all)
qed

lemma merge_rows_filter:
  assumes "str_ids rs"
  shows "merge_rows rs rs (filter P rs) = filter P rs"
proof -
  have "merge_live rs rs (filter P rs) = List.map_filter (\<lambda>r. if P r then Some r else None) rs"
    unfolding merge_live_def
    by (rule map_filter_cong_set) (simp add: by_id_unique[OF assms] by_id_filter[OF assms] Let_def)
  also have "\<dots> = filter P rs" by (induction rs) (auto simp: map_filter_simps)
  finally have live: "merge_live rs rs (filter P rs) = filter P rs" .
  have "filter (\<lambda>r. by_id rs (dget r ''id'') = None \<and> Q r) (filter P rs) = []" for Q
    using by_id_unique[OF assms] by (auto simp: filter_empty_conv)
  then show ?thesis unfolding merge_rows_def live by simp
qed

lemma merge_transaction_filter:
  assumes "str_ids (rows_of st m)" "rows_of st' m = filter P (rows_of st m)" "map_of st' m \<noteq> None"
  shows "rows_of (merge_transaction_into st st st') m = filter P (rows_of st m)"
proof -
  have "m \<in> set (remdups (map fst st @ map fst st'))"
    using assms(3) by (auto simp: map_of_eq_None_iff)
  from merge_models_rows[OF distinct_remdups this assms(3)] merge_rows_filter[OF assms(1)] assms(2)
  show ?thesis by (simp add: merge_transaction_into_def)
qed

section \<open>Verification values in the database\<close>

definition verif_rows :: "iworld \<Rightarrow> row list" where
  "verif_rows w = rows_of (iw_db w) ''verification''"

definition has_identifier :: "string \<Rightarrow> row \<Rightarrow> bool" where
  "has_identifier i r = (dget r ''identifier'' = VStr i)"

text \<open>The latest row of an identifier, by creation time.\<close>

definition latest_row :: "row list \<Rightarrow> string \<Rightarrow> row option" where
  "latest_row rs i =
     (case sort_key (date_key \<lparr>sb_field = ''createdAt'', sb_desc = True\<rparr>) (filter (has_identifier i) rs) of
        [] \<Rightarrow> None | r # _ \<Rightarrow> Some r)"

lemma latest_row_in: "latest_row rs i = Some r \<Longrightarrow> r \<in> set rs \<and> has_identifier i r"
proof -
  assume *: "latest_row rs i = Some r"
  let ?xs = "sort_key (date_key \<lparr>sb_field = ''createdAt'', sb_desc = True\<rparr>) (filter (has_identifier i) rs)"
  obtain ys where "?xs = r # ys" using * by (auto simp: latest_row_def split: list.splits)
  then have "r \<in> set ?xs" by simp
  then show ?thesis by simp
qed

lemma latest_row_max:
  assumes "latest_row rs i = Some r" "x \<in> set rs" "has_identifier i x"
  shows "date_key \<lparr>sb_field = ''createdAt'', sb_desc = True\<rparr> r
           \<le> date_key \<lparr>sb_field = ''createdAt'', sb_desc = True\<rparr> x"
proof -
  let ?k = "date_key \<lparr>sb_field = ''createdAt'', sb_desc = True\<rparr>"
  let ?xs = "sort_key ?k (filter (has_identifier i) rs)"
  obtain ys where ys: "?xs = r # ys" using assms(1) by (auto simp: latest_row_def split: list.splits)
  have "sorted (map ?k ?xs)" by simp
  moreover have "x \<in> set ?xs" using assms(2,3) by simp
  ultimately show ?thesis unfolding ys by auto
qed

lemma latest_row_None: "latest_row rs i = None \<longleftrightarrow> (\<forall>r\<in>set rs. \<not> has_identifier i r)"
proof -
  let ?xs = "sort_key (date_key \<lparr>sb_field = ''createdAt'', sb_desc = True\<rparr>) (filter (has_identifier i) rs)"
  have "latest_row rs i = None \<longleftrightarrow> set ?xs = {}" by (cases ?xs) (simp_all add: latest_row_def)
  then show ?thesis by (simp only: set_sort set_filter) blast
qed

lemma latest_verification_eq:
  assumes "native (ic_ad ic)" "date_column ''createdAt'' (verif_rows w)"
  shows "latest_verification ic i w = (Inr (latest_row (verif_rows w) i), w)"
proof -
  let ?sb = "\<lparr>sb_field = ''createdAt'', sb_desc = True\<rparr>"
  let ?rs = "filter (has_identifier i) (verif_rows w)"
  have "sel [Where ''identifier'' (VStr i)] = has_identifier i"
    by (rule ext) (simp add: has_identifier_def)
  moreover have "date_column ''createdAt'' ?rs"
    using assms(2) by (simp add: date_column_def list_all_iff)
  ultimately have "mem_find_many (ic_ad ic) ''verification'' [Where ''identifier'' (VStr i)] (Some 1)
      (Some ?sb) None [] (iw_db w) = (Inr (take 1 (sort_key (date_key ?sb) ?rs)), iw_db w)"
    using assms
    by (simp add: mem_find_many_def filter_rows_safe sort_rows_sort_key verif_rows_def find_limit_def
        slice_to_def slice_bound_def)
  then show ?thesis
    by (simp add: latest_verification_def bindA_def on_db_def latest_row_def split: list.splits)
qed

lemma call_after_state:
  "call_after fns model oper payload w = (res, w') \<Longrightarrow>
   iw_db w' = iw_db w \<and> iw_kv w' = iw_kv w \<and> iw_queue w' = iw_queue w"
proof (induction fns arbitrary: w)
  case (Cons fn fns)
  then show ?case by (fastforce simp: Let_def split: sum.splits)
qed simp

lemma queue_after_in_transaction:
  assumes "iw_queue w = Some q"
  shows "\<exists>q'. queue_after ic model oper payload w = (Inr (), w\<lparr>iw_queue := Some q'\<rparr>) \<and>
    q' = q @ (if after_fns ic model oper = [] then [] else [RunAfter model oper payload])"
  using assms by (auto simp: queue_after_def defer_or_run_def Let_def)

lemma flush_after_state:
  "flush ic ev (if b then [] else [RunAfter model oper payload]) w = (res, w') \<Longrightarrow>
   iw_db w' = iw_db w \<and> iw_kv w' = iw_kv w \<and> iw_queue w' = iw_queue w"
  by (auto simp: run_deferred_def bindA_def split: if_splits prod.splits sum.splits dest: call_after_state)

lemma filter_drop_first_in:
  "(\<And>x. x \<in> set xs \<Longrightarrow> P x \<Longrightarrow> Q x) \<Longrightarrow>
   filter (\<lambda>x. \<not> Q x) (drop_first P xs) = filter (\<lambda>x. \<not> Q x) xs"
  by (induction xs) auto

text \<open>The state every step of consuming relies on.\<close>

definition verif_ok :: "iconf \<Rightarrow> iworld \<Rightarrow> bool" where
  "verif_ok ic w \<longleftrightarrow>
     native (ic_ad ic) \<and> str_ids (verif_rows w) \<and> date_column ''createdAt'' (verif_rows w) \<and>
     (\<forall>r\<in>set (verif_rows w). map_of r ''expiresAt'' \<noteq> None \<and> is_date (dget r ''expiresAt'')) \<and>
     map_of (iw_db w) ''verification'' \<noteq> None \<and> iw_queue w = None"

definition without :: "string \<Rightarrow> row list \<Rightarrow> row list" where
  "without i rs = filter (\<lambda>r. \<not> has_identifier i r) rs"

lemma verif_ok_subset:
  assumes "verif_ok ic w" "verif_rows w' = filter P (verif_rows w)"
    and "map_of (iw_db w') ''verification'' \<noteq> None" "iw_queue w' = None"
  shows "verif_ok ic w'"
  using assms by (auto simp: verif_ok_def text_ids_filter date_column_def list_all_iff)

lemma map_of_merge_models:
  assumes "map_of clone m \<noteq> None" "map_of target m \<noteq> None \<or> m \<in> set ms"
  shows "map_of (merge_models ms target base clone) m \<noteq> None"
  using assms
proof (induction ms arbitrary: target)
  case (Cons k ms)
  then show ?case
    by (cases "k = m"; cases "map_of clone k") (auto simp: set_rows_def intro!: Cons.IH)
qed simp

lemma map_of_merge_transaction:
  "map_of clone m \<noteq> None \<Longrightarrow> map_of (merge_transaction_into target base clone) m \<noteq> None"
  unfolding merge_transaction_into_def
  by (rule map_of_merge_models) (auto simp: map_of_eq_None_iff)

lemma consume_by_identifier_None:
  assumes "verif_ok ic w" "latest_row (verif_rows w) i = None"
  shows "\<exists>w'. consume_by_identifier ic ev i w = (Inr None, w') \<and> iw_kv w' = iw_kv w \<and>
    verif_rows w' = verif_rows w \<and> verif_ok ic w'"
proof -
  let ?w1 = "w\<lparr>iw_queue := Some []\<rparr>"
  have ad: "native (ic_ad ic)" "date_column ''createdAt'' (verif_rows ?w1)"
    and ids: "str_ids (verif_rows w)" and m: "map_of (iw_db w) ''verification'' \<noteq> None" "iw_queue w = None"
    using assms(1) by (simp_all add: verif_ok_def verif_rows_def)
  have lv: "latest_verification ic i ?w1 = (Inr None, ?w1)"
    using latest_verification_eq[OF ad] assms(2) by (simp add: verif_rows_def)
  let ?db = "merge_transaction_into (iw_db w) (iw_db w) (iw_db w)"
  have "consume_by_identifier ic ev i w = (Inr None, w\<lparr>iw_db := ?db\<rparr>)"
    using m by (simp add: consume_by_identifier_def int_transaction_def bindA_def lv Let_def)
  moreover have "rows_of ?db ''verification'' = verif_rows w"
    using merge_transaction_filter[of "iw_db w" "''verification''" "iw_db w" "\<lambda>_. True"] ids m
    by (simp add: verif_rows_def)
  ultimately show ?thesis
    using verif_ok_subset[OF assms(1), of "w\<lparr>iw_db := ?db\<rparr>" "\<lambda>_. True"] m
      map_of_merge_transaction[OF m(1)]
    by (auto simp: verif_rows_def)
qed

lemma consume_by_identifier_Some:
  assumes "verif_ok ic w" "latest_row (verif_rows w) i = Some r"
    and "run_before ic ''verification'' ''delete'' r = Inr (d, False)"
  shows "\<exists>res w'. consume_by_identifier ic ev i w = (res, w') \<and> iw_kv w' = iw_kv w \<and>
    verif_rows w' = without i (verif_rows w) \<and> verif_ok ic w' \<and>
    (res = Inr (Some r) \<or> (\<exists>e. res = Inl e) \<and> after_fns ic ''verification'' ''delete'' \<noteq> [])"
proof -
  let ?w1 = "w\<lparr>iw_queue := Some []\<rparr>" and ?v = "''verification''"
  have ad: "native (ic_ad ic)" "date_column ''createdAt'' (verif_rows ?w1)"
    and ids: "str_ids (verif_rows w)" and m: "map_of (iw_db w) ?v \<noteq> None" "iw_queue w = None"
    using assms(1) by (simp_all add: verif_ok_def verif_rows_def)
  have lv: "latest_verification ic i ?w1 = (Inr (Some r), ?w1)"
    using latest_verification_eq[OF ad] assms(2) by (simp add: verif_rows_def)
  have r: "r \<in> set (verif_rows w)" "has_identifier i r" using latest_row_in[OF assms(2)] by auto
  obtain k where k: "map_of r ''id'' = Some (VStr k)" "dget r ''id'' = VStr k"
    using ids r(1)
    by (auto simp: str_ids_def list_all_iff is_str_iff dget_def split: option.splits)
  let ?P = "sel [Where ''id'' (VStr k)]"
  have find: "List.find ?P (verif_rows w) = Some r"
  proof (rule find_unique[OF _ r(1)])
    show "x = r" if "x \<in> set (verif_rows w)" "?P x" for x
      using str_ids_inj[OF ids that(1) r(1)] that(2) k(2) by simp
  qed (simp add: k(2))
  define st1 where "st1 = set_rows ?v (drop_first ?P (verif_rows w)) (iw_db w)"
  have c1: "on_db (mem_consume_one (ic_ad ic) ?v [Where ''id'' (VStr k)]) ?w1 =
      (Inr (Some r), ?w1\<lparr>iw_db := st1\<rparr>)"
    using mem_consume_one_safe[OF ad(1), of "[Where ''id'' (VStr k)]" "iw_db w" ?v] find
    by (simp add: on_db_def st1_def verif_rows_def)
  define st2 where "st2 = set_rows ?v (without i (verif_rows w)) st1"
  have "filter (\<lambda>r. \<not> has_identifier i r) (drop_first ?P (verif_rows w)) = without i (verif_rows w)"
  proof -
    have "has_identifier i x" if "x \<in> set (verif_rows w)" "?P x" for x
      using str_ids_inj[OF ids that(1) r(1)] that(2) k(2) r(2) by simp
    then show ?thesis unfolding without_def by (rule filter_drop_first_in)
  qed
  then have "\<exists>n. on_db (mem_delete_many ?v [Where ''identifier'' (VStr i)]) (?w1\<lparr>iw_db := st1\<rparr>) =
      (Inr n, ?w1\<lparr>iw_db := st2\<rparr>)"
    using mem_delete_many_safe[of "[Where ''identifier'' (VStr i)]" st1 ?v]
    by (simp add: on_db_def st1_def st2_def has_identifier_def)
  then obtain n where c2: "on_db (mem_delete_many ?v [Where ''identifier'' (VStr i)]) (?w1\<lparr>iw_db := st1\<rparr>) =
      (Inr n, ?w1\<lparr>iw_db := st2\<rparr>)" by blast
  let ?q = "if after_fns ic ?v ''delete'' = [] then [] else [RunAfter ?v ''delete'' (Some r)]"
  have c3: "queue_after ic ?v ''delete'' (Some r) (?w1\<lparr>iw_db := st2\<rparr>) =
      (Inr (), w\<lparr>iw_db := st2, iw_queue := Some ?q\<rparr>)"
    using queue_after_in_transaction[of "?w1\<lparr>iw_db := st2\<rparr>" "[]" ic ?v "''delete''" "Some r"] by simp
  let ?db = "merge_transaction_into (iw_db w) (iw_db w) st2"
  have cb: "consume_by_identifier ic ev i w =
      bindA (flush ic ev ?q) (\<lambda>_. ret (Some r)) (w\<lparr>iw_db := ?db, iw_queue := None\<rparr>)"
    using m
    by (simp add: consume_by_identifier_def int_transaction_def bindA_def lv Let_def assms(3)
        dindex_def k(1) c1 c2 c3)
  have mv: "map_of st2 ?v \<noteq> None" by (simp add: st2_def set_rows_def)
  have rows: "rows_of ?db ?v = without i (verif_rows w)"
    using merge_transaction_filter[of "iw_db w" ?v st2 "\<lambda>r. \<not> has_identifier i r"] ids mv
    by (simp add: verif_rows_def st2_def without_def)
  obtain res w' where fl: "flush ic ev ?q (w\<lparr>iw_db := ?db, iw_queue := None\<rparr>) = (res, w')" by fastforce
  have st: "iw_db w' = ?db" "iw_kv w' = iw_kv w" "iw_queue w' = None"
    using flush_after_state[OF fl] m(2) by simp_all
  have "verif_ok ic w'"
    by (rule verif_ok_subset[OF assms(1), of _ "\<lambda>r. \<not> has_identifier i r"])
      (use st rows map_of_merge_transaction[OF mv] in \<open>simp_all add: verif_rows_def without_def\<close>)
  moreover have "res = Inr () \<or> (\<exists>e. res = Inl e) \<and> after_fns ic ?v ''delete'' \<noteq> []"
    using fl by (cases res) (auto split: if_splits)
  ultimately show ?thesis
    using st rows fl unfolding cb by (cases res) (auto simp: bindA_def verif_rows_def)
qed

lemma consume_by_identifier_skip:
  assumes "verif_ok ic w" "latest_row (verif_rows w) i = Some r"
    and "run_before ic ''verification'' ''delete'' r = Inl e \<or>
         (\<exists>d. run_before ic ''verification'' ''delete'' r = Inr (d, True))"
  shows "\<exists>res w'. consume_by_identifier ic ev i w = (res, w') \<and> iw_kv w' = iw_kv w \<and>
    verif_rows w' = verif_rows w \<and> verif_ok ic w' \<and> (res = Inr None \<or> (\<exists>e. res = Inl e))"
proof -
  let ?w1 = "w\<lparr>iw_queue := Some []\<rparr>" and ?v = "''verification''"
  have ad: "native (ic_ad ic)" "date_column ''createdAt'' (verif_rows ?w1)"
    and ids: "str_ids (verif_rows w)" and m: "map_of (iw_db w) ?v \<noteq> None" "iw_queue w = None"
    using assms(1) by (simp_all add: verif_ok_def verif_rows_def)
  have lv: "latest_verification ic i ?w1 = (Inr (Some r), ?w1)"
    using latest_verification_eq[OF ad] assms(2) by (simp add: verif_rows_def)
  let ?db = "merge_transaction_into (iw_db w) (iw_db w) (iw_db w)"
  have rows: "rows_of ?db ?v = verif_rows w"
    using merge_transaction_filter[of "iw_db w" ?v "iw_db w" "\<lambda>_. True"] ids m
    by (simp add: verif_rows_def)
  have ok: "verif_ok ic (w\<lparr>iw_db := ?db, iw_queue := None\<rparr>)"
    by (rule verif_ok_subset[OF assms(1), of _ "\<lambda>_. True"])
      (use rows map_of_merge_transaction[OF m(1)] in \<open>simp_all add: verif_rows_def\<close>)
  show ?thesis
  proof (cases "run_before ic ?v ''delete'' r")
    case (Inl e')
    have "verif_ok ic (w\<lparr>iw_queue := None\<rparr>)"
      using assms(1) by (simp add: verif_ok_def verif_rows_def)
    with Inl show ?thesis
      using m by (simp add: consume_by_identifier_def int_transaction_def bindA_def lv Let_def verif_rows_def)
  next
    case (Inr x)
    with assms(3) have "snd x" by auto
    with Inr have "consume_by_identifier ic ev i w = (Inr None, w\<lparr>iw_db := ?db, iw_queue := None\<rparr>)"
      using m by (simp add: consume_by_identifier_def int_transaction_def bindA_def lv Let_def split_beta)
    with ok rows show ?thesis by (simp add: verif_rows_def)
  qed
qed

lemma consume_by_identifier_cases:
  assumes "verif_ok ic w" "consume_by_identifier ic ev i w = (res, w')"
  shows "verif_ok ic w' \<and> iw_kv w' = iw_kv w \<and>
    ((\<exists>r. latest_row (verif_rows w) i = Some r \<and> verif_rows w' = without i (verif_rows w) \<and>
        (res = Inr (Some r) \<or> (\<exists>e. res = Inl e))) \<or>
     (verif_rows w' = verif_rows w \<and> (res = Inr None \<or> (\<exists>e. res = Inl e))))"
proof (cases "latest_row (verif_rows w) i")
  case None
  with consume_by_identifier_None[OF assms(1) None, of ev] assms(2) show ?thesis by auto
next
  case (Some r)
  show ?thesis
  proof (cases "run_before ic ''verification'' ''delete'' r")
    case (Inl e)
    with consume_by_identifier_skip[OF assms(1) Some, of e ev] assms(2) show ?thesis by auto
  next
    case (Inr x)
    obtain d b where x: "x = (d, b)" by (cases x)
    show ?thesis
    proof (cases b)
      case True
      with Inr x consume_by_identifier_skip[OF assms(1) Some, of _ ev] assms(2) show ?thesis by auto
    next
      case False
      with Inr x consume_by_identifier_Some[OF assms(1) Some, of d ev] assms(2) Some show ?thesis by auto
    qed
  qed
qed

lemma consume_stored_cases:
  assumes "verif_ok ic w" "consume_stored ic ev ids w = (Inr res, w')"
  shows "verif_ok ic w' \<and> iw_kv w' = iw_kv w \<and>
    (case res of
       None \<Rightarrow> verif_rows w' = verif_rows w
     | Some r \<Rightarrow> \<exists>i\<in>set ids. latest_row (verif_rows w) i = Some r \<and> verif_rows w' = without i (verif_rows w))"
  using assms
proof (induction ids arbitrary: w)
  case (Cons i ids)
  obtain r1 w1 where c: "consume_by_identifier ic ev i w = (r1, w1)" by fastforce
  note cases = consume_by_identifier_cases[OF Cons.prems(1) c]
  have rest: "consume_stored ic ev (i # ids) w =
      (case r1 of Inl e \<Rightarrow> (Inl e, w1)
       | Inr x \<Rightarrow> if x \<noteq> None \<and> x \<noteq> Some [] \<or> ids = [] then (Inr x, w1) else consume_stored ic ev ids w1)"
    by (simp add: bindA_def c split: sum.splits)
  obtain x where r1: "r1 = Inr x" using rest Cons.prems(2) by (cases r1) auto
  show ?case
  proof (cases x)
    case None
    with cases r1 have same: "verif_ok ic w1" "iw_kv w1 = iw_kv w" "verif_rows w1 = verif_rows w" by auto
    show ?thesis
    proof (cases "ids = []")
      case True
      with rest r1 None Cons.prems(2) same show ?thesis by auto
    next
      case False
      with rest r1 None Cons.prems(2) have "consume_stored ic ev ids w1 = (Inr res, w')" by simp
      from Cons.IH[OF same(1) this] same show ?thesis by (auto split: option.splits)
    qed
  next
    case (Some r)
    with cases r1 have *: "verif_ok ic w1" "iw_kv w1 = iw_kv w" "latest_row (verif_rows w) i = Some r"
        "verif_rows w1 = without i (verif_rows w)" by auto
    have "r \<in> set (verif_rows w)" using latest_row_in[OF *(3)] by blast
    with Cons.prems(1) have "map_of r ''expiresAt'' \<noteq> None" by (auto simp: verif_ok_def)
    then have "r \<noteq> []" by auto
    with rest r1 Some Cons.prems(2) have res: "res = Some r" "w' = w1" by simp_all
    show ?thesis
      unfolding res option.case using * by (intro conjI bexI[of _ i]) simp_all
  qed
qed simp

lemma delete_verification_keys_db:
  "delete_verification_keys ids w = (res, w') \<Longrightarrow> res = Inr () \<and> iw_db w' = iw_db w \<and> iw_queue w' = iw_queue w"
  by (induction ids arbitrary: w) (auto simp: bind_kv_delete)

lemma not_expired_date:
  assumes "map_of r ''expiresAt'' \<noteq> None" "is_date (dget r ''expiresAt'')"
  obtains x where "dget r ''expiresAt'' = VDate x"
    "not_expired ev (Some r) = Inr (if x < now ev then None else Some r)"
proof -
  obtain x where x: "dget r ''expiresAt'' = VDate x"
    using assms(2) by (cases "dget r ''expiresAt''") (auto simp: is_date_def)
  then have "dindex r ''expiresAt'' = Inr (VDate x)"
    using assms(1) by (auto simp: dindex_def dget_def split: option.splits)
  then have "not_expired ev (Some r) = Inr (if x < now ev then None else Some r)"
    by (simp add: not_expired_def)
  with x that show ?thesis by blast
qed

lemma consume_verification_cases:
  assumes ok: "verif_ok ic w" and db: "\<not> (ic_secondary ic \<and> \<not> ic_verification_in_database ic)"
    and out: "consume_verification_value ic ev identifier w = (Inr res, w')"
  shows "verif_ok ic w' \<and>
    ((res = None \<and> verif_rows w' = verif_rows w) \<or>
     (\<exists>i r x. i \<in> set (identifiers_to_try ic identifier) \<and> latest_row (verif_rows w) i = Some r \<and>
        verif_rows w' = without i (verif_rows w) \<and> dget r ''expiresAt'' = VDate x \<and>
        res = (if x < now ev then None else Some r)))"
proof -
  let ?ids = "identifiers_to_try ic identifier"
  obtain r1 w1 where c: "consume_stored ic ev ?ids w = (r1, w1)" by fastforce
  obtain c1 where r1: "r1 = Inr c1"
    using out c db by (cases r1) (auto simp: consume_verification_value_def Let_def bindA_def)
  define w2 where "w2 = (if c1 \<noteq> None \<and> c1 \<noteq> Some [] \<and> ic_secondary ic
      then snd (delete_verification_keys ?ids w1) else w1)"
  have w2: "iw_db w2 = iw_db w1" "iw_queue w2 = iw_queue w1"
    using delete_verification_keys_db[of ?ids w1] by (auto simp: w2_def prod_eq_iff)
  have "consume_verification_value ic ev identifier w = (not_expired ev c1, w2)"
    using db c r1 delete_verification_keys_db[of ?ids w1]
    by (cases "delete_verification_keys ?ids w1")
      (auto simp: consume_verification_value_def Let_def bindA_def w2_def)
  with out have res: "not_expired ev c1 = Inr res" "w' = w2" by auto
  note cases = consume_stored_cases[OF ok c[unfolded r1]]
  have ok': "verif_ok ic w'" "verif_rows w' = verif_rows w1"
    using cases w2 res(2) by (auto simp: verif_ok_def verif_rows_def)
  show ?thesis
  proof (cases c1)
    case None
    with res cases ok' show ?thesis by (auto simp: not_expired_def)
  next
    case (Some r)
    with cases obtain i where i: "i \<in> set ?ids" "latest_row (verif_rows w) i = Some r"
        "verif_rows w1 = without i (verif_rows w)" by auto
    have "r \<in> set (verif_rows w)" using latest_row_in[OF i(2)] by blast
    with ok have e: "map_of r ''expiresAt'' \<noteq> None" "is_date (dget r ''expiresAt'')" by (auto simp: verif_ok_def)
    obtain x where x: "dget r ''expiresAt'' = VDate x"
        "not_expired ev (Some r) = Inr (if x < now ev then None else Some r)"
      using not_expired_date[OF e] by blast
    with res(1) Some have "res = (if x < now ev then None else Some r)" by simp
    with i ok' x(1) show ?thesis
      by (intro conjI disjI2 exI[of _ i] exI[of _ r] exI[of _ x]) simp_all
  qed
qed

end
