(* ===== verification/Internal_Claims.thy ===== *)
theory Internal_Claims
  imports Internal_Props
begin

text \<open>
  Properties of the internal adapter: single use of verification values, vetoes by hooks,
  transactions, and account keys.
\<close>

section \<open>Single use\<close>

definition in_database :: "iconf \<Rightarrow> bool" where
  "in_database ic \<longleftrightarrow> \<not> (ic_secondary ic \<and> \<not> ic_verification_in_database ic)"

lemma without_in: "r \<in> set (without i rs) \<longleftrightarrow> r \<in> set rs \<and> \<not> has_identifier i r"
  by (simp add: without_def)

text \<open>
  C6: A verification value stored in the database is consumed once and only while it is valid,
  whatever the delete hooks do. A value that is returned is the latest row of one of the
  identifiers tried and has not expired; all rows of that identifier are gone; and no later call,
  for any identifier and at any time, returns the same row again. With a single identifier to try,
  later calls for it return nothing.
\<close>
theorem verification_single_use:
  assumes ok: "verif_ok ic w" and db: "in_database ic"
    and won: "consume_verification_value ic ev identifier w = (Inr (Some r), w')"
  shows "(\<exists>i\<in>set (identifiers_to_try ic identifier).
        latest_row (verif_rows w) i = Some r \<and> verif_rows w' = without i (verif_rows w)) \<and>
    (\<exists>x. dget r ''expiresAt'' = VDate x \<and> now ev \<le> x) \<and>
    (\<forall>ev' identifier' r' w''. consume_verification_value ic ev' identifier' w' = (Inr (Some r'), w'') \<longrightarrow>
        dget r' ''id'' \<noteq> dget r ''id'') \<and>
    (\<forall>ev' res w''. length (identifiers_to_try ic identifier) = 1 \<and>
        consume_verification_value ic ev' identifier w' = (Inr res, w'') \<longrightarrow> res = None)"
proof -
  have db': "\<not> (ic_secondary ic \<and> \<not> ic_verification_in_database ic)" using db by (simp add: in_database_def)
  obtain i x where i: "i \<in> set (identifiers_to_try ic identifier)" "latest_row (verif_rows w) i = Some r"
      "verif_rows w' = without i (verif_rows w)" "dget r ''expiresAt'' = VDate x" "\<not> x < now ev"
      and ok': "verif_ok ic w'"
    using consume_verification_cases[OF ok db' won] by (auto split: if_splits)
  have ids: "str_ids (verif_rows w)" using ok by (simp add: verif_ok_def)
  have r: "r \<in> set (verif_rows w)" "has_identifier i r" using latest_row_in[OF i(2)] by auto
  have "dget r' ''id'' \<noteq> dget r ''id''"
    if "consume_verification_value ic ev' identifier' w' = (Inr (Some r'), w'')" for ev' identifier' r' w''
  proof
    assume same: "dget r' ''id'' = dget r ''id''"
    from consume_verification_cases[OF ok' db' that] obtain j where
      "latest_row (verif_rows w') j = Some r'" by (auto split: if_splits)
    then have r': "r' \<in> set (verif_rows w)" "\<not> has_identifier i r'"
      using latest_row_in[of "verif_rows w'" j r'] by (auto simp: i(3) without_in)
    from str_ids_inj[OF ids r'(1) r(1) same] r'(2) r(2) show False by simp
  qed
  moreover have "res = None" if "length (identifiers_to_try ic identifier) = 1"
    "consume_verification_value ic ev' identifier w' = (Inr res, w'')" for ev' res w''
  proof -
    have "set (identifiers_to_try ic identifier) = {i}"
      using that(1) i(1) by (auto simp: length_Suc_conv)
    moreover have "latest_row (verif_rows w') i = None"
      by (auto simp: latest_row_None i(3) without_in)
    ultimately show ?thesis
      using consume_verification_cases[OF ok' db' that(2)] by auto
  qed
  ultimately show ?thesis using i by (intro conjI bexI[of _ i] exI[of _ x]) auto
qed

definition plain_conf :: iconf where
  "plain_conf = \<lparr>ic_ad = demo_adapter, ic_secondary = False, ic_atomic_take = True, ic_hooks = [],
     ic_session_expires_in = 604800, ic_store_session_in_database = False,
     ic_store_identifier = IdAll IdUnset, ic_verification_in_database = False,
     ic_sha256 = (\<lambda>_. []), ic_validate_user_info = None\<rparr>"

definition two_codes :: iworld where
  "two_codes = \<lparr>iw_db = [(''verification'',
     [[(''id'', VStr ''a''), (''identifier'', VStr ''x''), (''expiresAt'', VDate 100), (''createdAt'', VDate 10)],
      [(''id'', VStr ''b''), (''identifier'', VStr ''x''), (''expiresAt'', VDate 200), (''createdAt'', VDate 20)]])],
     iw_kv = \<lparr>kv_items = [], kv_ttls = []\<rparr>, iw_queue = None, iw_log = []\<rparr>"

definition at_time :: "int \<Rightarrow> env" where
  "at_time t = \<lparr>now = t, rnd_id = ''r'', rnd_uuid = ''u''\<rparr>"

lemma two_codes_ok: "verif_ok plain_conf two_codes"
  by (simp add: verif_ok_def plain_conf_def two_codes_def verif_rows_def rows_of_def str_ids_def
      row_ids_def dget_def is_str_def date_column_def is_date_def)

theorem verification_single_use_witness:
  "fst (consume_verification_value plain_conf (at_time 150) ''x'' two_codes) =
     Inr (Some [(''id'', VStr ''b''), (''identifier'', VStr ''x''), (''expiresAt'', VDate 200), (''createdAt'', VDate 20)]) \<and>
   fst (consume_verification_value plain_conf (at_time 160) ''x''
      (snd (consume_verification_value plain_conf (at_time 150) ''x'' two_codes))) = Inr None"
proof -
  let ?out = "consume_verification_value plain_conf (at_time 150) ''x'' two_codes"
  let ?again = "consume_verification_value plain_conf (at_time 160) ''x'' (snd ?out)"
  let ?r = "[(''id'', VStr ''b''), (''identifier'', VStr ''x''), (''expiresAt'', VDate 200), (''createdAt'', VDate 20)]"
  have out: "fst ?out = Inr (Some ?r)" by code_simp
  then have eq: "?out = (Inr (Some ?r), snd ?out)" by (simp add: prod_eq_iff)
  have "case fst ?again of Inl e \<Rightarrow> False | Inr x \<Rightarrow> True" by code_simp
  then obtain res where "?again = (Inr res, snd ?again)" by (cases "fst ?again") (auto simp: prod_eq_iff)
  moreover have "in_database plain_conf" "length (identifiers_to_try plain_conf ''x'') = 1" by code_simp+
  ultimately have "res = None" using verification_single_use[OF two_codes_ok _ eq] by blast
  with out \<open>?again = _\<close> show ?thesis by (metis fst_conv)
qed

text \<open>
  Without hooks the outcome is determined. Consuming an identifier that has a row returns its
  latest row if that has not expired and nothing otherwise, and in both cases removes every row of
  the identifier and no other, so neither an expired nor a stale code can be used later.
\<close>
theorem verification_consume_exact:
  assumes "verif_ok ic w" "in_database ic" "ic_hooks ic = []"
    and "identifiers_to_try ic identifier = [i]" "latest_row (verif_rows w) i = Some r"
  shows "\<exists>x w'. dget r ''expiresAt'' = VDate x \<and>
    consume_verification_value ic ev identifier w = (Inr (if x < now ev then None else Some r), w') \<and>
    verif_rows w' = filter (\<lambda>r'. dget r' ''identifier'' \<noteq> VStr i) (verif_rows w)"
proof -
  have "run_before ic ''verification'' ''delete'' r = Inr (r, False)"
    "after_fns ic ''verification'' ''delete'' = []"
    using assms(3) by (simp_all add: run_before_def after_fns_def map_filter_simps)
  from consume_by_identifier_Some[OF assms(1,5) this(1), of ev] this(2)
  obtain w1 where c: "consume_by_identifier ic ev i w = (Inr (Some r), w1)"
      "verif_rows w1 = without i (verif_rows w)" by auto
  have "r \<in> set (verif_rows w)" using latest_row_in[OF assms(5)] by blast
  with assms(1) have e: "map_of r ''expiresAt'' \<noteq> None" "is_date (dget r ''expiresAt'')"
    by (auto simp: verif_ok_def)
  obtain x where x: "dget r ''expiresAt'' = VDate x"
      "not_expired ev (Some r) = Inr (if x < now ev then None else Some r)"
    using not_expired_date[OF e] by blast
  from e(1) have "r \<noteq> []" by auto
  with c(1) have "consume_stored ic ev [i] w = (Inr (Some r), w1)" by (simp add: bindA_def)
  with x(2) assms(2,4) \<open>r \<noteq> []\<close> have "\<exists>w'. consume_verification_value ic ev identifier w =
      (Inr (if x < now ev then None else Some r), w') \<and> iw_db w' = iw_db w1"
    using delete_verification_keys_db[of "[i]" w1]
    by (cases "delete_verification_keys [i] w1")
      (auto simp: consume_verification_value_def in_database_def Let_def bindA_def simp del: delete_verification_keys.simps)
  with x(1) c(2) show ?thesis by (auto simp: verif_rows_def without_def has_identifier_def)
qed

theorem verification_consume_exact_witness:
  "\<exists>w'. consume_verification_value plain_conf (at_time 300) ''x'' two_codes = (Inr None, w') \<and> verif_rows w' = []"
proof -
  let ?r = "[(''id'', VStr ''b''), (''identifier'', VStr ''x''), (''expiresAt'', VDate 200), (''createdAt'', VDate 20)]"
  have "in_database plain_conf" "ic_hooks plain_conf = []" "identifiers_to_try plain_conf ''x'' = [''x'']"
    by (simp_all add: in_database_def plain_conf_def identifiers_to_try_def stored_identifier_def
        get_storage_option_def id_is_set_def process_identifier_def)
  moreover have "latest_row (verif_rows two_codes) ''x'' = Some ?r" by code_simp
  ultimately obtain x w' where "dget ?r ''expiresAt'' = VDate x"
    "consume_verification_value plain_conf (at_time 300) ''x'' two_codes = (Inr (if x < 300 then None else Some ?r), w')"
    "verif_rows w' = filter (\<lambda>r'. dget r' ''identifier'' \<noteq> VStr ''x'') (verif_rows two_codes)"
    using verification_consume_exact[OF two_codes_ok, of "''x''" "''x''" ?r "at_time 300"] by (auto simp: at_time_def)
  then show ?thesis by (auto simp: dget_def verif_rows_def two_codes_def rows_of_def)
qed

end
