(* ===== verification/Hooks_Claims.thy ===== *)
theory Hooks_Claims
  imports Internal_Props
begin

text \<open>
  Database hooks and transactions of the internal adapter: what a before-hook can veto, which rows
  the delete hooks see, and when the after-hooks of a transaction run.

  The contract of code that runs inside a transaction is \<open>defers\<close>: the after-hook log does not
  move and the queue only grows. It is closed under composition, and every write operation of the
  internal adapter keeps it. Callbacks are \<open>script\<close>s: trees of reads and of the internal adapter's writes,
  each chosen from the results before it, so that the claim needs no assumption on the callback.
\<close>

section \<open>Code inside a transaction\<close>

definition defers :: "(iworld, 'a) action \<Rightarrow> bool" where
  "defers m \<longleftrightarrow> (\<forall>w q. iw_queue w = Some q \<longrightarrow>
     iw_log (snd (m w)) = iw_log w \<and> (\<exists>q'. iw_queue (snd (m w)) = Some (q @ q')))"

lemma defersI:
  "(\<And>w q. iw_queue w = Some q \<Longrightarrow> iw_log (snd (m w)) = iw_log w \<and> (\<exists>q'. iw_queue (snd (m w)) = Some (q @ q')))
   \<Longrightarrow> defers m"
  by (auto simp: defers_def)

lemma defersD:
  assumes "defers m" "iw_queue w = Some q"
  obtains q' where "iw_log (snd (m w)) = iw_log w" "iw_queue (snd (m w)) = Some (q @ q')"
  using assms by (auto simp: defers_def)

named_theorems defers

lemma defers_ret [defers]: "defers (ret a)"
  by (simp add: defers_def)

lemma defers_Pair [defers]: "defers (Pair (Inr a))"
  by (simp add: defers_def)

lemma defers_raise [defers]: "defers (raise e)" "defers (Pair (Inl e))"
  by (simp_all add: defers_def)

lemma defers_liftR [defers]: "defers (liftR r)"
  by (simp add: defers_def)

lemma defers_on_db [defers]: "defers (on_db m)"
  by (simp add: defers_def on_db_def split: prod.splits)

lemma defers_on_kv [defers]: "defers (on_kv m)"
  by (simp add: defers_def on_kv_def split: prod.splits)

lemma defers_bindA [defers]:
  assumes "defers m" "\<And>a. defers (f a)"
  shows "defers (bindA m f)"
proof (rule defersI)
  fix w q assume q: "iw_queue (w :: iworld) = Some q"
  obtain q' where m: "iw_log (snd (m w)) = iw_log w" "iw_queue (snd (m w)) = Some (q @ q')"
    using defersD[OF assms(1) q] .
  show "iw_log (snd (bindA m f w)) = iw_log w \<and> (\<exists>q'. iw_queue (snd (bindA m f w)) = Some (q @ q'))"
  proof (cases "m w")
    case (Pair res w1)
    show ?thesis
    proof (cases res)
      case (Inl e)
      with Pair m show ?thesis by (simp add: bindA_def)
    next
      case (Inr a)
      from m Pair have "iw_queue w1 = Some (q @ q')" by simp
      from defersD[OF assms(2)[of a] this] obtain q'' where
        "iw_log (snd (f a w1)) = iw_log w1" "iw_queue (snd (f a w1)) = Some ((q @ q') @ q'')" .
      with Inr Pair m show ?thesis by (simp add: bindA_def)
    qed
  qed
qed

lemma defers_catchA [defers]:
  assumes "defers m" "\<And>e. defers (h e)"
  shows "defers (catchA m h)"
proof (rule defersI)
  fix w q assume q: "iw_queue (w :: iworld) = Some q"
  obtain q' where m: "iw_log (snd (m w)) = iw_log w" "iw_queue (snd (m w)) = Some (q @ q')"
    using defersD[OF assms(1) q] .
  show "iw_log (snd (catchA m h w)) = iw_log w \<and> (\<exists>q'. iw_queue (snd (catchA m h w)) = Some (q @ q'))"
  proof (cases "m w")
    case (Pair res w1)
    show ?thesis
    proof (cases res)
      case (Inr a)
      with Pair m show ?thesis by (simp add: catchA_def)
    next
      case (Inl e)
      from m Pair have "iw_queue w1 = Some (q @ q')" by simp
      from defersD[OF assms(2)[of e] this] obtain q'' where
        "iw_log (snd (h e w1)) = iw_log w1" "iw_queue (snd (h e w1)) = Some ((q @ q') @ q'')" .
      with Inl Pair m show ?thesis by (simp add: catchA_def)
    qed
  qed
qed

lemma defers_if [defers]: "defers a \<Longrightarrow> defers b \<Longrightarrow> defers (if c then a else b)"
  by simp

lemma defers_option [defers]:
  "defers a \<Longrightarrow> (\<And>x. defers (f x)) \<Longrightarrow> defers (case opt of None \<Rightarrow> a | Some x \<Rightarrow> f x)"
  by (simp split: option.split)

lemma defers_prod [defers]: "(\<And>x y. defers (f x y)) \<Longrightarrow> defers (case p of (x, y) \<Rightarrow> f x y)"
  by (simp split: prod.split)

lemma defers_defer_or_run [defers]: "defers (defer_or_run d m)"
  by (simp add: defers_def defer_or_run_def)

lemma defers_queue_after [defers]: "defers (queue_after ic model oper payload)"
  by (simp add: queue_after_def Let_def defers)

lemma defers_queue_each [defers]: "defers (queue_after_each ic model rows)"
  by (induction rows) (simp_all add: defers)

section \<open>Every operation defers\<close>

definition custom_defers :: "custom_fn option \<Rightarrow> bool" where
  "custom_defers custom \<longleftrightarrow> (\<forall>c data. custom = Some c \<longrightarrow> defers (cu_fn c data))"

lemma defers_custom [defers]:
  "custom_defers custom \<Longrightarrow> defers a \<Longrightarrow> defers (case custom of None \<Rightarrow> a | Some c \<Rightarrow> cu_fn c d)"
  by (auto simp: custom_defers_def split: option.split)

lemma custom_defers_None [simp]: "custom_defers None"
  by (simp add: custom_defers_def)

lemma defers_int_create [defers]: "custom_defers custom \<Longrightarrow> defers (int_create ic ev model data f custom)"
  unfolding int_create_def Let_def by (intro defers) simp_all

lemma defers_int_update [defers]: "custom_defers custom \<Longrightarrow> defers (int_update ic ev model wh data custom)"
  unfolding int_update_def Let_def by (intro defers) simp_all

lemma defers_int_delete [defers]: "defers (int_delete ic model wh)"
  unfolding int_delete_def by (intro defers)

lemma defers_int_delete_many [defers]: "defers (int_delete_many ic model wh)"
  unfolding int_delete_many_def by (intro defers)


lemma defers_update_user [defers]: "defers (update_user ic ev i data)"
  unfolding update_user_def by (intro defers) simp

lemma defers_create_user [defers]: "defers (create_user ic ev user source has_ctx f)"
  unfolding create_user_def Let_def by (intro defers) simp

lemma defers_create_account [defers]: "defers (create_account ic ev account f)"
  unfolding create_account_def by (intro defers) simp

lemma defers_delete_account [defers]: "defers (delete_account ic i)"
  unfolding delete_account_def by (intro defers)

lemma defers_references [defers]: "defers (active_session_references ic ev user_id)"
  unfolding active_session_references_def by (intro defers)

lemma defers_queue_deletion [defers]: "defers (queue_cached_session_deletion ic ev user_id refs)"
  unfolding queue_cached_session_deletion_def by (intro defers)

lemma defers_delete_user_sessions [defers]: "defers (delete_user_sessions ic ev user_id)"
  unfolding delete_user_sessions_def by (intro defers)

lemma defers_delete_user [defers]: "defers (delete_user ic ev user_id)"
  unfolding delete_user_def by (intro defers)

lemma defers_store_session_kv [defers]: "defers (store_session_kv ic ev user_id data session_data)"
  unfolding store_session_kv_def Let_def by (intro defers)

lemma defers_create_session [defers]:
  "defers (create_session ic ev i tok user_id dont_remember override ip agent)"
  unfolding create_session_def Let_def
  by (intro defers) (auto simp: custom_defers_def intro!: defers)

section \<open>Callbacks\<close>

text \<open>
  The code of a callback, as the sequence of the internal adapter's operations that it performs: each
  operation hands its result, or the exception it raised, to the rest of the callback, which may look
  at it in any way, catch the exception or let it pass.
\<close>

datatype 'a script =
  Return 'a
| Raise exn
| Find string "clause list" "row option result \<Rightarrow> 'a script"
| Create string row bool "row option result \<Rightarrow> 'a script"
| Update string "clause list" row "row option result \<Rightarrow> 'a script"
| Delete string "clause list" "bool result \<Rightarrow> 'a script"
| DeleteMany string "clause list" "int option result \<Rightarrow> 'a script"
| CreateUser row "row option" bool bool "row option result \<Rightarrow> 'a script"
| CreateAccount row bool "row option result \<Rightarrow> 'a script"
| DeleteUser string "unit result \<Rightarrow> 'a script"
| DeleteUserSessions string "unit result \<Rightarrow> 'a script"

definition stepA :: "(iworld, 'b) action \<Rightarrow> ('b result \<Rightarrow> (iworld, 'a) action) \<Rightarrow> (iworld, 'a) action" where
  "stepA m k = (\<lambda>w. case m w of (res, w') \<Rightarrow> k res w')"

primrec run_script :: "iconf \<Rightarrow> env \<Rightarrow> 'a script \<Rightarrow> (iworld, 'a) action" where
  "run_script ic ev (Return a) = ret a"
| "run_script ic ev (Raise e) = raise e"
| "run_script ic ev (Find model wh k) =
     stepA (on_db (mem_find_one (ic_ad ic) model wh [])) (\<lambda>res. run_script ic ev (k res))"
| "run_script ic ev (Create model data force_id k) =
     stepA (create_row ic ev model data force_id) (\<lambda>res. run_script ic ev (k res))"
| "run_script ic ev (Update model wh data k) =
     stepA (update_row ic ev model wh data) (\<lambda>res. run_script ic ev (k res))"
| "run_script ic ev (Delete model wh k) =
     stepA (int_delete ic model wh) (\<lambda>res. run_script ic ev (k res))"
| "run_script ic ev (DeleteMany model wh k) =
     stepA (int_delete_many ic model wh) (\<lambda>res. run_script ic ev (k res))"
| "run_script ic ev (CreateUser user source has_ctx force_id k) =
     stepA (create_user ic ev user source has_ctx force_id) (\<lambda>res. run_script ic ev (k res))"
| "run_script ic ev (CreateAccount account force_id k) =
     stepA (create_account ic ev account force_id) (\<lambda>res. run_script ic ev (k res))"
| "run_script ic ev (DeleteUser user_id k) =
     stepA (delete_user ic ev user_id) (\<lambda>res. run_script ic ev (k res))"
| "run_script ic ev (DeleteUserSessions user_id k) =
     stepA (delete_user_sessions ic ev user_id) (\<lambda>res. run_script ic ev (k res))"

lemma defers_stepA:
  assumes "defers m" "\<And>res. defers (k res)"
  shows "defers (stepA m k)"
proof (rule defersI)
  fix w q assume "iw_queue (w :: iworld) = Some q"
  from defersD[OF assms(1) this] obtain q' where
    m: "iw_log (snd (m w)) = iw_log w" "iw_queue (snd (m w)) = Some (q @ q')" .
  obtain res w1 where run: "m w = (res, w1)" by (cases "m w")
  with m have "iw_queue w1 = Some (q @ q')" by simp
  from defersD[OF assms(2)[of res] this] obtain q'' where
    "iw_log (snd (k res w1)) = iw_log w1" "iw_queue (snd (k res w1)) = Some ((q @ q') @ q'')" .
  with m run show "iw_log (snd (stepA m k w)) = iw_log w \<and> (\<exists>q'. iw_queue (snd (stepA m k w)) = Some (q @ q'))"
    by (simp add: stepA_def)
qed

lemma defers_create_row [defers]: "defers (create_row ic ev model data f)"
  unfolding create_row_def by (intro defers) simp

lemma defers_update_row [defers]: "defers (update_row ic ev model wh data)"
  unfolding update_row_def by (intro defers) simp

lemma defers_run_script: "defers (run_script ic ev callback)"
  by (induction callback) (simp_all add: defers defers_stepA del: ret_def raise_def)

section \<open>Commit and rollback\<close>

text \<open>An after-hook on created users and a delete hook that protects the session \<open>c\<close>; limit 2.\<close>

definition hook_conf :: iconf where
  "hook_conf = \<lparr>ic_ad = demo_adapter\<lparr>ad_limit := 2\<rparr>, ic_secondary = False, ic_atomic_take = True,
     ic_hooks =
       [\<lparr>hk_before = (\<lambda>model oper. if model = ''session'' \<and> oper = ''delete''
            then Some (\<lambda>r. Inr (if dget r ''token'' = VStr ''c'' then Abort else Keep)) else None),
         hk_after = (\<lambda>model oper. if model = ''user'' \<and> oper = ''create''
            then Some (\<lambda>_. Inr ()) else None)\<rparr>],
     ic_session_expires_in = 604800, ic_store_session_in_database = False,
     ic_store_identifier = IdAll IdUnset, ic_verification_in_database = False,
     ic_sha256 = (\<lambda>_. []), ic_validate_user_info = None\<rparr>"

definition sessions_of :: "string list \<Rightarrow> row list" where
  "sessions_of toks = map (\<lambda>t. [(''userId'', VStr ''u''), (''token'', VStr t)]) toks"

definition hook_world :: iworld where
  "hook_world = \<lparr>iw_db = [(''user'', []), (''session'', sessions_of [''a'', ''b'', ''c''])],
     iw_kv = \<lparr>kv_items = [], kv_ttls = []\<rparr>, iw_queue = None, iw_log = []\<rparr>"

definition at_5 :: env where
  "at_5 = \<lparr>now = 5, rnd_id = ''i'', rnd_uuid = ''u''\<rparr>"

definition failing_sign_up :: "unit script" where
  "failing_sign_up = CreateUser
     [(''name'', VStr ''n''), (''email'', VStr ''A@B.C''), (''emailVerified'', VBool False)] None False False
     (\<lambda>_. Raise ValueError)"

text \<open>
  What flushing a queue does besides the deletions of cached sessions, which suppress their own errors:
  the after-hooks are called in order, up to and with the first that raises, whose exception is raised.
\<close>

fun hooks_called ::
    "(row option \<Rightarrow> unit result) list \<Rightarrow> string \<times> string \<times> row option \<Rightarrow>
     unit result \<times> (string \<times> string \<times> row option) list" where
  "hooks_called [] call = (Inr (), [])"
| "hooks_called (fn # fns) call =
     (case fn (snd (snd call)) of
        Inl e \<Rightarrow> (Inl e, [call])
      | Inr _ \<Rightarrow> (fst (hooks_called fns call), call # snd (hooks_called fns call)))"

fun queue_called :: "iconf \<Rightarrow> deferred list \<Rightarrow> unit result \<times> (string \<times> string \<times> row option) list" where
  "queue_called ic [] = (Inr (), [])"
| "queue_called ic (RunAfter model oper payload # q) =
     (case hooks_called (after_fns ic model oper) (model, oper, payload) of
        (Inl e, calls) \<Rightarrow> (Inl e, calls)
      | (Inr _, calls) \<Rightarrow> (fst (queue_called ic q), calls @ snd (queue_called ic q)))"
| "queue_called ic (DropCached _ _ # q) = queue_called ic q"

lemma call_after_log:
  "call_after fns model oper payload w =
     (fst (hooks_called fns (model, oper, payload)),
      w\<lparr>iw_log := iw_log w @ snd (hooks_called fns (model, oper, payload))\<rparr>)"
  by (induction fns arbitrary: w) (auto simp: Let_def split: sum.split)

text \<open>Nothing in the flush of cached deletions touches the database, the log or the queue.\<close>

definition kv_only :: "(iworld, 'a) action \<Rightarrow> bool" where
  "kv_only m \<longleftrightarrow> (\<forall>w. \<exists>kv. snd (m w) = w\<lparr>iw_kv := kv\<rparr>)"

lemma kv_same: "\<exists>kv. w = w\<lparr>iw_kv := kv\<rparr>"
  by (rule exI[of _ "iw_kv w"]) simp

lemma kv_only_basic [defers]:
  "kv_only (ret a)" "kv_only (raise e)" "kv_only (liftR r)" "kv_only (on_kv m)" "kv_only (Pair (Inr a))"
  by (auto simp: kv_only_def on_kv_def kv_same split: prod.splits)

lemma kv_only_bindA [defers]:
  assumes "kv_only m" "\<And>a. kv_only (f a)"
  shows "kv_only (bindA m f)"
  unfolding kv_only_def
proof
  fix w
  obtain kv where m: "snd (m w) = w\<lparr>iw_kv := kv\<rparr>" using assms(1) by (auto simp: kv_only_def)
  show "\<exists>kv. snd (bindA m f w) = w\<lparr>iw_kv := kv\<rparr>"
  proof (cases "m w")
    case (Pair res w1)
    show ?thesis
    proof (cases res)
      case (Inl e)
      with Pair m show ?thesis by (auto simp: bindA_def)
    next
      case (Inr a)
      obtain kv' where "snd (f a w1) = w1\<lparr>iw_kv := kv'\<rparr>" using assms(2) by (auto simp: kv_only_def)
      with Inr Pair m show ?thesis by (auto simp: bindA_def)
    qed
  qed
qed

lemma kv_only_catchA [defers]:
  assumes "kv_only m"
  shows "kv_only (catchA m (\<lambda>_. ret ()))"
  using assms unfolding kv_only_def catchA_def by (auto split: prod.splits sum.splits; metis snd_conv)

lemma kv_only_delete_tokens [defers]: "kv_only (delete_tokens toks)"
  by (induction toks) (auto intro!: defers split: pyval.split)

lemma kv_only_drop_cached: "kv_only (drop_cached_sessions ic ev user_id refs)"
  unfolding drop_cached_sessions_def active_session_references_def write_entries_def
  by (intro defers kv_only_catchA) (auto intro!: defers)


lemma drop_cached_run: "\<exists>kv. drop_cached_sessions ic ev user_id refs w = (Inr (), w\<lparr>iw_kv := kv\<rparr>)"
proof -
  have "fst (drop_cached_sessions ic ev user_id refs w) = Inr ()"
    by (auto simp: drop_cached_sessions_def catchA_def split: prod.splits sum.splits)
  moreover obtain kv where "snd (drop_cached_sessions ic ev user_id refs w) = w\<lparr>iw_kv := kv\<rparr>"
    using kv_only_drop_cached[of ic ev user_id refs] by (auto simp: kv_only_def)
  ultimately show ?thesis by (metis prod.collapse)
qed

lemma flush_log:
  "\<exists>kv. flush ic ev q w = (fst (queue_called ic q), w\<lparr>iw_kv := kv, iw_log := iw_log w @ snd (queue_called ic q)\<rparr>)"
proof (induction q arbitrary: w)
  case Nil
  show ?case by (intro exI[of _ "iw_kv w"]) simp
next
  case (Cons d q)
  show ?case
  proof (cases d)
    case (RunAfter model oper payload)
    let ?called = "hooks_called (after_fns ic model oper) (model, oper, payload)"
    let ?w = "w\<lparr>iw_log := iw_log w @ snd ?called\<rparr>"
    have d: "run_deferred ic ev d w = (fst ?called, ?w)"
      using RunAfter by (simp add: run_deferred_def call_after_log)
    obtain kv where "flush ic ev q ?w =
        (fst (queue_called ic q), ?w\<lparr>iw_kv := kv, iw_log := iw_log ?w @ snd (queue_called ic q)\<rparr>)"
      using Cons.IH[of ?w] by blast
    with d RunAfter show ?thesis
      by (cases ?called; cases "fst ?called")
        (auto simp: bindA_def intro: exI[of _ kv] exI[of _ "iw_kv w"])
  next
    case (DropCached user_id refs)
    obtain kv where d: "drop_cached_sessions ic ev user_id refs w = (Inr (), w\<lparr>iw_kv := kv\<rparr>)"
      using drop_cached_run by blast
    let ?w = "w\<lparr>iw_kv := kv\<rparr>"
    obtain kv' where "flush ic ev q ?w =
        (fst (queue_called ic q), ?w\<lparr>iw_kv := kv', iw_log := iw_log ?w @ snd (queue_called ic q)\<rparr>)"
      using Cons.IH[of ?w] by blast
    with d DropCached show ?thesis by (intro exI[of _ kv']) (simp add: bindA_def run_deferred_def)
  qed
qed

text \<open>
  C8: After-hooks run only once their transaction has committed. The callback of an outermost
  transaction may be any sequence of reads and of the internal adapter's writes (rows created,
  updated and deleted one by one or in bulk, users and accounts created, a user or its sessions
  deleted), each chosen from the results before it, exceptions included. While it runs no after-hook
  is called. If it fails, the database is as before, no after-hook has been or will be called, and
  the queue is closed. If it returns, its writes are merged into the database, and then the
  after-hooks it queued are called in the order in which they were queued, up to the first that
  raises; its exception leaves the transaction and the writes stay. Otherwise the transaction
  returns what the callback did.
\<close>
theorem transaction_hooks_after_commit:
  assumes "iw_queue w = None"
  shows "case run_script ic ev callback (w\<lparr>iw_queue := Some []\<rparr>) of
      (Inl e, w2) \<Rightarrow>
        iw_log w2 = iw_log w \<and>
        (\<exists>w'. int_transaction ic ev (run_script ic ev callback) w = (Inl e, w') \<and> iw_db w' = iw_db w \<and>
          iw_log w' = iw_log w \<and> iw_queue w' = None)
    | (Inr a, w2) \<Rightarrow>
        iw_log w2 = iw_log w \<and>
        (\<exists>w' q. iw_queue w2 = Some q \<and>
          int_transaction ic ev (run_script ic ev callback) w =
            (case fst (queue_called ic q) of Inl e \<Rightarrow> Inl e | Inr _ \<Rightarrow> Inr a, w') \<and>
          iw_db w' = merge_transaction_into (iw_db w) (iw_db w) (iw_db w2) \<and>
          iw_log w' = iw_log w @ snd (queue_called ic q) \<and> iw_queue w' = None)"
proof -
  let ?w1 = "w\<lparr>iw_queue := Some []\<rparr>" and ?run = "run_script ic ev callback"
  obtain q where q: "iw_log (snd (?run ?w1)) = iw_log w" "iw_queue (snd (?run ?w1)) = Some q"
    using defersD[OF defers_run_script, of ?w1 "[]" ic ev callback] by auto
  show ?thesis
  proof (cases "?run ?w1")
    case (Pair res w2)
    show ?thesis
    proof (cases res)
      case (Inl e)
      with Pair q assms show ?thesis by (simp add: int_transaction_def)
    next
      case (Inr a)
      let ?w3 = "w2\<lparr>iw_db := merge_transaction_into (iw_db w) (iw_db w) (iw_db w2), iw_queue := None\<rparr>"
      obtain kv where "flush ic ev q ?w3 =
          (fst (queue_called ic q), ?w3\<lparr>iw_kv := kv, iw_log := iw_log ?w3 @ snd (queue_called ic q)\<rparr>)"
        using flush_log by blast
      with Inr Pair q assms show ?thesis
        by (cases "fst (queue_called ic q)") (simp_all add: int_transaction_def bindA_def)
    qed
  qed
qed

theorem transaction_hooks_after_commit_witness:
  "\<exists>w'. int_transaction hook_conf at_5 (run_script hook_conf at_5 failing_sign_up) hook_world = (Inl ValueError, w') \<and>
     iw_db w' = iw_db hook_world \<and> iw_log w' = [] \<and> iw_queue w' = None"
proof -
  have "iw_queue hook_world = None" "iw_log hook_world = []" by (simp_all add: hook_world_def)
  moreover have "fst (run_script hook_conf at_5 failing_sign_up (hook_world\<lparr>iw_queue := Some []\<rparr>)) = Inl ValueError"
    by code_simp
  ultimately show ?thesis
    using transaction_hooks_after_commit[of hook_world hook_conf at_5 failing_sign_up]
    by (cases "run_script hook_conf at_5 failing_sign_up (hook_world\<lparr>iw_queue := Some []\<rparr>)") auto
qed

section \<open>Vetoes on bulk deletion\<close>

definition vetoes :: "iconf \<Rightarrow> string \<Rightarrow> row \<Rightarrow> bool" where
  "vetoes ic model r = (case run_before ic model ''delete'' r of Inr (_, aborted) \<Rightarrow> aborted | Inl _ \<Rightarrow> False)"

text \<open>The rows a bulk deletion shows to the hooks: \<open>find_many\<close> without a limit uses the default.\<close>

definition rows_seen :: "iconf \<Rightarrow> string \<Rightarrow> clause list \<Rightarrow> iworld \<Rightarrow> row list" where
  "rows_seen ic model wh w = slice_to (ad_limit (ic_ad ic)) (filter (sel wh) (rows_of (iw_db w) model))"

lemma any_aborts_vetoes:
  "\<forall>r\<in>set rs. \<exists>p. run_before ic model ''delete'' r = Inr p \<Longrightarrow>
   any_aborts ic model rs = Inr (\<exists>r\<in>set rs. vetoes ic model r)"
  by (induction rs) (auto simp: vetoes_def split: prod.splits if_splits)

lemma queue_after_each_queue:
  "iw_queue w = Some q \<Longrightarrow>
   queue_after_each ic model rs w =
     (Inr (), w\<lparr>iw_queue := Some (q @ (if after_fns ic model ''delete'' = [] then []
                                     else map (\<lambda>r. RunAfter model ''delete'' (Some r)) rs))\<rparr>)"
  by (induction rs arbitrary: w q) (auto simp: bindA_def queue_after_def defer_or_run_def Let_def)

text \<open>
  C9: Bulk deletion runs the delete hooks on at most \<open>default_find_many_limit\<close> rows but deletes
  every matching row. A veto on one of the rows shown cancels the whole call with no effect;
  otherwise all matching rows go, shown or not, and the after-hooks are queued for the rows shown
  only. So a row beyond the limit is deleted although a hook would have refused it.
\<close>
theorem delete_many_hook_window:
  assumes "native (ic_ad ic)" "safe wh (rows_of (iw_db w) model)" "iw_queue w = Some q"
    and "\<forall>r\<in>set (rows_seen ic model wh w). \<exists>p. run_before ic model ''delete'' r = Inr p"
  shows "int_delete_many ic model wh w =
    (if \<exists>r\<in>set (rows_seen ic model wh w). vetoes ic model r then (Inr None, w)
     else (Inr (Some (int (length (filter (sel wh) (rows_of (iw_db w) model))))),
           w\<lparr>iw_db := set_rows model (filter (\<lambda>r. \<not> sel wh r) (rows_of (iw_db w) model)) (iw_db w),
             iw_queue := Some (q @ (if after_fns ic model ''delete'' = [] then []
               else map (\<lambda>r. RunAfter model ''delete'' (Some r)) (rows_seen ic model wh w)))\<rparr>))"
proof -
  have "catchA (on_db (mem_find_many (ic_ad ic) model wh None None None [])) (\<lambda>_. ret []) w =
      (Inr (rows_seen ic model wh w), w)"
    using assms(1,2) by (simp add: catchA_def on_db_def mem_find_many_safe rows_seen_def find_limit_def)
  then show ?thesis
    using assms(2,3) any_aborts_vetoes[OF assms(4)]
    by (simp add: int_delete_many_def bindA_def on_db_def mem_delete_many_safe queue_after_each_queue)
qed


theorem delete_many_hook_window_witness:
  "vetoes hook_conf ''session'' [(''userId'', VStr ''u''), (''token'', VStr ''c'')] \<and>
   (\<exists>w'. int_delete_many hook_conf ''session'' [Where ''userId'' (VStr ''u'')]
        (hook_world\<lparr>iw_queue := Some []\<rparr>) = (Inr (Some 3), w') \<and> rows_of (iw_db w') ''session'' = [])"
proof -
  let ?w = "hook_world\<lparr>iw_queue := Some []\<rparr>" and ?wh = "[Where ''userId'' (VStr ''u'')]"
  have seen: "rows_seen hook_conf ''session'' ?wh ?w = sessions_of [''a'', ''b'']" by code_simp
  have before: "run_before hook_conf ''session'' ''delete'' r =
      Inr (r, dget r ''token'' = VStr ''c'')" for r
    by (simp add: run_before_def hook_conf_def map_filter_simps)
  have "native (ic_ad hook_conf)" by (simp add: native_def hook_conf_def demo_adapter_def)
  from delete_many_hook_window[OF this, of ?wh ?w "''session''" "[]"]
  have "int_delete_many hook_conf ''session'' ?wh ?w =
      (if \<exists>r\<in>set (sessions_of [''a'', ''b'']). vetoes hook_conf ''session'' r then (Inr None, ?w)
       else (Inr (Some (int (length (filter (sel ?wh) (rows_of (iw_db ?w) ''session''))))),
         ?w\<lparr>iw_db := set_rows ''session'' (filter (\<lambda>r. \<not> sel ?wh r) (rows_of (iw_db ?w) ''session'')) (iw_db ?w),
           iw_queue := Some (if after_fns hook_conf ''session'' ''delete'' = [] then []
             else map (\<lambda>r. RunAfter ''session'' ''delete'' (Some r)) (sessions_of [''a'', ''b'']))\<rparr>))"
    by (simp add: seen before)
  moreover have "length (filter (sel ?wh) (rows_of (iw_db ?w) ''session'')) = 3"
    "filter (\<lambda>r. \<not> sel ?wh r) (rows_of (iw_db ?w) ''session'') = []"
    by code_simp+
  ultimately show ?thesis
    by (simp add: vetoes_def before sessions_of_def dget_Cons)
qed

end
