(* ===== verification/Session_Cache.thy ===== *)
theory Session_Cache
  imports Internal_Props
begin

text \<open>
  Sessions kept in the secondary storage only (\<open>store_session_in_database\<close> off, no hooks), as JSON in which
  an instant is its ISO text. The
  abstract state of a user's active list is a list of tokens with their expiry in milliseconds; the
  operations of \<open>internal_adapter.py\<close> are shown to refine insertion, replacement and removal on it,
  and a session found is the one that was created.
\<close>

section \<open>The active list\<close>

definition entry :: "string \<times> int \<Rightarrow> row" where
  "entry p = [(''token'', VStr (fst p)), (''expiresAt'', VInt (snd p))]"

definition entry_list :: "(string \<times> int) list \<Rightarrow> pyval list" where
  "entry_list es = map (\<lambda>p. VDict (entry p)) es"

text \<open>What the key of the list holds: nothing for no entries, otherwise their JSON array.\<close>

definition list_text :: "(string \<times> int) list \<Rightarrow> kvtext option" where
  "list_text es = (if es = [] then None else Some (Json (VList (entry_list es))))"

definition ordered :: "int \<Rightarrow> (string \<times> int) list \<Rightarrow> bool" where
  "ordered t es \<longleftrightarrow> sorted (map snd es) \<and> distinct (map fst es) \<and> (\<forall>p\<in>set es. dt_ms t < snd p)"

definition live_at :: "int \<Rightarrow> string \<Rightarrow> (string \<times> int) list \<Rightarrow> (string \<times> int) list" where
  "live_at t token es = filter (\<lambda>(tok, x). dt_ms t < x \<and> tok \<noteq> token) es"

definition with_entry :: "int \<Rightarrow> string \<Rightarrow> int \<Rightarrow> (string \<times> int) list \<Rightarrow> (string \<times> int) list" where
  "with_entry t token x es = sort_key snd (live_at t token es @ [(token, x)])"

lemma entry_get [simp]:
  "dget (entry p) ''token'' = VStr (fst p)" "dget (entry p) ''expiresAt'' = VInt (snd p)"
  by (simp_all add: entry_def dget_Cons)

lemma entry_index [simp]:
  "dindex (entry p) ''token'' = Inr (VStr (fst p))" "dindex (entry p) ''expiresAt'' = Inr (VInt (snd p))"
  by (simp_all add: entry_def dindex_def)

lemma entry_list_simps [simp]:
  "entry_list [] = []" "entry_list (p # es) = VDict (entry p) # entry_list es"
  by (simp_all add: entry_list_def)

lemma live_entries_list:
  "live_entries b (dt_ms t) [VStr token] (entry_list es) = Inr (map entry (live_at t token es))"
proof (induction es)
  case Nil
  show ?case by (simp add: live_at_def)
next
  case (Cons p es)
  have "entry_live b (dt_ms t) [VStr token] (VDict (entry p)) = Inr (dt_ms t < snd p \<and> fst p \<noteq> token)"
    by (cases b) (auto simp: entry_live_def entry_field_def Let_def)
  with Cons show ?case by (auto simp: live_at_def split: prod.splits)
qed

lemma insert_entry:
  "insert_sorted expires_lt (entry p) (map entry es) = Inr (map entry (insort_key snd p es))"
  by (induction es) (auto simp: expires_lt_def)

lemma sort_entries: "sort_rows expires_lt (map entry es) = Inr (map entry (sort_key snd es))"
  by (induction es) (simp_all add: insert_entry)

lemma entry_ms_last: "es \<noteq> [] \<Longrightarrow> entry_ms (last (map entry es)) = Inr (snd (last es))"
  by (simp add: last_map entry_ms_def)

lemma jsonify_entries: "to_text cd (entries_value (map entry es)) = Json (VList (entry_list es))"
  by (induction es) (auto simp: to_text_def entries_value_def entry_list_def entry_def)

lemma set_with_entry: "set (with_entry t token x es) = insert (token, x) (set (live_at t token es))"
  by (auto simp: with_entry_def)

lemma with_entry_nonempty [simp]: "with_entry t token x es \<noteq> []"
  using set_with_entry[of t token x es] by (metis insert_not_empty list.set(1))

lemma ordered_live: "ordered t es \<Longrightarrow> t \<le> t' \<Longrightarrow> ordered t' (live_at t' token es)"
  by (auto simp: ordered_def live_at_def sorted_filter distinct_map_filter)

lemma distinct_live: "distinct (map fst es) \<Longrightarrow> distinct (map fst (live_at t token es))"
  by (simp add: live_at_def distinct_map_filter)

lemma ordered_with_entry:
  assumes "ordered t es" "t \<le> t'" "dt_ms t' < x"
  shows "ordered t' (with_entry t' token x es)"
proof -
  have d: "distinct (map fst (live_at t' token es @ [(token, x)]))"
    using assms(1) distinct_live[of es t' token] by (auto simp: ordered_def live_at_def)
  then have "distinct (map fst (with_entry t' token x es))"
    by (simp only: with_entry_def distinct_map distinct_sort set_sort)
  with assms(3) show ?thesis
    by (auto simp: ordered_def set_with_entry live_at_def with_entry_def[of t' token x es])
qed

lemma last_with_entry: "x \<le> snd (last (with_entry t token x es))"
proof -
  let ?es = "with_entry t token x es"
  have sorted: "sorted (map snd (butlast ?es) @ [snd (last ?es)])"
    by (metis append_butlast_last_id list.simps(8) list.simps(9) map_append sorted_sort_key with_entry_def
        with_entry_nonempty)
  have "(token, x) \<in> set (butlast ?es @ [last ?es])"
    using set_with_entry[of t token x es] by (simp only: append_butlast_last_id[OF with_entry_nonempty]) simp
  then consider "(token, x) \<in> set (butlast ?es)" | "last ?es = (token, x)"
    by (metis UnE empty_iff empty_set set_ConsD set_append)
  then show ?thesis
  proof cases
    case 1
    then have "x \<in> set (map snd (butlast ?es))" by force
    with sorted show ?thesis by (auto simp: sorted_append)
  qed simp
qed


section \<open>Reading and writing the list\<close>

definition cached_list :: "iworld \<Rightarrow> int \<Rightarrow> string \<Rightarrow> kvtext option" where
  "cached_list w t user_id = kv_view (iw_kv w) t (list_key user_id)"

lemma list_items:
  "(if text_truthy (list_text es) then json_items (safe_json (list_text es)) else Inr []) =
     Inr (entry_list es)"
  by (auto simp: list_text_def text_truthy_def safe_json_def json_items_def py_truthy.simps entry_list_def)

lemma list_items': "json_items (safe_json (list_text es)) = Inr (entry_list es)"
  by (auto simp: list_text_def safe_json_def json_items_def py_truthy.simps entry_list_def)

lemma ttl_live_until: "0 \<le> n \<Longrightarrow> ttl_live (Some n) t t' \<longleftrightarrow> t' \<le> t + n * 1000000"
  by (simp add: ttl_live_def)

lemma ttl_pos: "0 < ttl_seconds x n \<longleftrightarrow> n + 1000 \<le> x"
  by (auto simp: ttl_seconds_def)

lemma ttl_mono: "x \<le> y \<Longrightarrow> ttl_seconds x n \<le> ttl_seconds y n"
  by (simp add: ttl_seconds_def zdiv_mono1 max_def)

lemma bind_on_db: "m (iw_db w) = (Inr a, st) \<Longrightarrow> bindA (on_db m) f w = f a (w\<lparr>iw_db := st\<rparr>)"
  by (simp add: bindA_def on_db_def)

definition cached_pair :: "codec \<Rightarrow> row \<Rightarrow> row \<Rightarrow> kvtext" where
  "cached_pair cd s u = to_text cd (VDict [(''session'', VDict s), (''user'', VDict u)])"

text \<open>
  Storing a session: the list becomes \<open>with_entry\<close> and the session itself is readable under its
  token, both for as many whole seconds as the session lives.
\<close>

lemma store_session_kv_refines:
  assumes list: "cached_list w (now ev) user_id = list_text es"
    and data: "dindex data ''token'' = Inr (VStr token)" "dindex data ''expiresAt'' = Inr (VDate x)"
    and live: "dt_ms (now ev) + 1000 \<le> dt_ms x"
    and user: "mem_find_one (ic_ad ic) ''user'' [Where ''id'' (VStr user_id)] [] (iw_db w) = (Inr (Some u), iw_db w)"
    and keys: "token \<noteq> list_key user_id"
  shows "\<exists>kv. store_session_kv ic ev user_id data session_data w = (Inr (), w\<lparr>iw_kv := kv\<rparr>) \<and>
    (\<forall>t. now ev \<le> t \<longrightarrow> kv_view kv t token =
       (if t \<le> now ev + ttl_seconds (dt_ms x) (dt_ms (now ev)) * 1000000 then Some (cached_pair (ic_codec ic) session_data u) else None)) \<and>
    (\<forall>t. now ev \<le> t \<longrightarrow> t \<le> now ev + ttl_seconds (dt_ms x) (dt_ms (now ev)) * 1000000 \<longrightarrow>
       kv_view kv t (list_key user_id) = list_text (with_entry (now ev) token (dt_ms x) es)) \<and>
    (\<forall>t k. now ev \<le> t \<longrightarrow> k \<noteq> token \<longrightarrow> k \<noteq> list_key user_id \<longrightarrow> kv_view kv t k = kv_view (iw_kv w) t k)"
proof -
  let ?es = "with_entry (now ev) token (dt_ms x) es"
  let ?n = "dt_ms (now ev)"
  let ?far = "ttl_seconds (snd (last ?es)) ?n" and ?ttl = "ttl_seconds (dt_ms x) ?n"
  have ttl: "?ttl > 0" using live by (simp add: ttl_pos)
  have far: "?far > 0" "?ttl \<le> ?far"
    using ttl ttl_mono[OF last_with_entry[of "dt_ms x" "now ev" token es], of ?n] by simp_all
  have view: "kv_view (iw_kv w) (now ev) (list_key user_id) = list_text es"
    using list by (simp add: cached_list_def)
  have items: "(if text_truthy (kv_view (iw_kv w) (now ev) (list_key user_id))
      then json_items (safe_json (kv_view (iw_kv w) (now ev) (list_key user_id))) else Inr []) = Inr (entry_list es)"
    unfolding view by (rule list_items)
  have entries: "sort_rows expires_lt (map entry (live_at (now ev) token es) @ [[(''token'', VStr token), (''expiresAt'', VInt (dt_ms x))]])
      = Inr (map entry ?es)"
    using sort_entries[of "live_at (now ev) token es @ [(token, dt_ms x)]"]
    by (simp add: with_entry_def entry_def)
  let ?kv1 = "snd (kv_get (now ev) (list_key user_id) (iw_kv w))"
  let ?kv2 = "snd (kv_set (now ev) (list_key user_id) (Json (VList (entry_list ?es))) (Some ?far) ?kv1)"
  let ?kv3 = "snd (kv_set (now ev) token (cached_pair (ic_codec ic) session_data u) (Some ?ttl) ?kv2)"
  have "store_session_kv ic ev user_id data session_data w = (Inr (), w\<lparr>iw_kv := ?kv3\<rparr>)"
    unfolding store_session_kv_def Let_def
    using data far(1) ttl user entries
    by (simp add: bind_kv_get items live_entries_list expires_ms_def entry_ms_last jsonify_entries
        bind_kv_set run_kv_set bind_on_db cached_pair_def as_text_def)
  moreover have "kv_view ?kv1 t k = kv_view (iw_kv w) t k" if "now ev \<le> t" for t k
    using that by (rule mem_kv.get_view)
  ultimately show ?thesis
    using keys far ttl
    by (intro exI[of _ ?kv3] conjI allI impI)
      (auto simp: kv_views ttl_live_until list_text_def dest!: order_trans)
qed


section \<open>Reading a session\<close>

definition cached_only :: "iconf \<Rightarrow> bool" where
  "cached_only ic \<longleftrightarrow> ic_secondary ic \<and> \<not> ic_store_session_in_database ic \<and> ic_hooks ic = []"

definition json_row :: "codec \<Rightarrow> row \<Rightarrow> row" where
  "json_row cd r = map (\<lambda>(k, v). (k, jsonify cd v)) r"

text \<open>
  An instant at millisecond precision, and the law of the two library functions: \<open>fromisoformat\<close> reads
  back the text that \<open>strftime\<close> and the milliseconds make of the instant.
\<close>

definition millis :: "int \<Rightarrow> int" where
  "millis t = t div 1000 * 1000"

definition iso_ok :: "codec \<Rightarrow> int \<Rightarrow> bool" where
  "iso_ok cd t \<longleftrightarrow> parse_iso cd (js_iso cd t) = Inr (millis t)"

abbreviation date_keys :: "string list" where
  "date_keys \<equiv> [''expiresAt'', ''createdAt'', ''updatedAt'']"

definition dates_ok :: "codec \<Rightarrow> row \<Rightarrow> bool" where
  "dates_ok cd r \<longleftrightarrow>
     list_all (\<lambda>k. case dget r k of VDate t \<Rightarrow> iso_ok cd t | v \<Rightarrow> \<not> is_str v) date_keys"

text \<open>
  The row that comes back from the storage: the three date columns at millisecond precision, every
  other column as JSON leaves it, so a date under another name is a text.
\<close>

fun put_dates :: "row \<Rightarrow> string list \<Rightarrow> row \<Rightarrow> row" where
  "put_dates r [] d = d"
| "put_dates r (k # ks) d =
     put_dates r ks (case dget r k of VDate t \<Rightarrow> dset k (VDate (millis t)) d | _ \<Rightarrow> d)"

definition restored :: "codec \<Rightarrow> row \<Rightarrow> row" where
  "restored cd r = put_dates r date_keys (json_row cd r)"

lemma jsonify_is_str [simp]: "is_str (jsonify cd v) \<longleftrightarrow> is_str v \<or> is_date v"
  by (cases v) (simp_all add: is_str_def is_date_def)

lemma jsonify_idem [simp]: "jsonify cd (jsonify cd v) = jsonify cd v"
  by (induction cd v rule: jsonify.induct) auto

lemma map_of_json_row [simp]: "map_of (json_row cd r) k = map_option (jsonify cd) (map_of r k)"
  unfolding json_row_def by (induction r) auto

lemma dget_json_row [simp]: "dget (json_row cd r) k = jsonify cd (dget r k)"
  by (simp add: dget_def split: option.split)

lemma json_row_idem [simp]: "json_row cd (json_row cd r) = json_row cd r"
  by (simp add: json_row_def comp_def case_prod_beta)

lemma dget_put_dates:
  "dget (put_dates r ks d) k =
     (case dget r k of VDate t \<Rightarrow> if k \<in> set ks then VDate (millis t) else dget d k | _ \<Rightarrow> dget d k)"
  by (induction ks arbitrary: d) (auto split: pyval.split)

lemma dget_restored:
  "dget (restored cd r) k =
     (case dget r k of VDate t \<Rightarrow> if k \<in> set date_keys then VDate (millis t) else VStr (js_iso cd t)
      | v \<Rightarrow> jsonify cd v)"
  unfolding restored_def dget_put_dates by (simp split: pyval.split)

lemma parse_date_keys_json:
  assumes "\<forall>k\<in>set ks. dget d k = jsonify cd (dget r k)" "distinct ks"
    and "\<forall>k\<in>set ks. case dget r k of VDate t \<Rightarrow> iso_ok cd t | v \<Rightarrow> \<not> is_str v"
  shows "parse_date_keys cd ks d = Inr (put_dates r ks d)"
  using assms
proof (induction ks arbitrary: d)
  case (Cons k ks)
  show ?case
  proof (cases "dget r k")
    case (VDate t)
    let ?d = "dset k (VDate (millis t)) d"
    have "\<forall>k'\<in>set ks. dget ?d k' = jsonify cd (dget r k')" using Cons.prems by auto
    with Cons VDate show ?thesis by (simp add: iso_ok_def)
  qed (use Cons in \<open>auto simp: is_str_def\<close>)
qed simp

lemma parse_dates_json: "dates_ok cd r \<Longrightarrow> parse_dates cd (json_row cd r) = Inr (restored cd r)"
  unfolding parse_dates_def restored_def dates_ok_def
  by (rule parse_date_keys_json) (auto simp: list_all_iff)

lemma cached_pair_parts [simp]:
  "text_truthy (Some (cached_pair cd s u))"
  "safe_json (Some (cached_pair cd s u)) =
     VDict [(''session'', VDict (json_row cd s)), (''user'', VDict (json_row cd u))]"
  by (simp_all add: text_truthy_def cached_pair_def to_text_def safe_json_def json_row_def)

lemma cached_pair_json [simp]: "cached_pair cd s (json_row cd u) = cached_pair cd s u"
  by (simp add: cached_pair_def to_text_def json_row_def comp_def case_prod_beta)

text \<open>What \<open>find_session\<close> returns is what the key of the token holds.\<close>

lemma find_session_cached:
  fixes ic defines "cd \<equiv> ic_codec ic"
  assumes "cached_only ic"
  shows "kv_view (iw_kv w) (now ev) token = None \<Longrightarrow> fst (find_session ic ev token w) = Inr None"
    and "kv_view (iw_kv w) (now ev) token = Some (cached_pair cd s u) \<Longrightarrow> dates_ok cd s \<Longrightarrow> dates_ok cd u \<Longrightarrow>
      fst (find_session ic ev token w) = Inr (Some (restored cd s, restored cd u))"
  using assms
  by (auto simp: find_session_def cached_only_def bind_kv_get text_truthy_def[of None] index_value_def
      dindex_def parse_dates_value_def parse_dates_json Let_def)

section \<open>Operations\<close>

definition lifetime :: "iconf \<Rightarrow> bool \<Rightarrow> int" where
  "lifetime ic dont_remember_me = (if dont_remember_me then DAY else ic_session_expires_in ic)"

lemma dt_ms_add: "dt_ms (t + n * 1000000) = dt_ms t + n * 1000"
  using div_mult_self1[of 1000 t "n * 1000"] by (simp add: dt_ms_def mult.assoc)

lemma ttl_lifetime: "0 \<le> n \<Longrightarrow> ttl_seconds (dt_ms (t + n * 1000000)) (dt_ms t) = n"
  by (simp add: dt_ms_add ttl_seconds_def)

lemma run_before_no_hooks [simp]: "ic_hooks ic = [] \<Longrightarrow> run_before ic model oper data = Inr (data, False)"
  by (simp add: run_before_def map_filter_simps)

lemma queue_after_no_hooks [simp]: "ic_hooks ic = [] \<Longrightarrow> queue_after ic model oper payload = ret ()"
  by (simp add: queue_after_def after_fns_def map_filter_simps)

text \<open>
  C7: A session created in the secondary storage is found until it expires and not after, with the
  user it belongs to, and the database is untouched. This is for sessions kept in the secondary storage
  only (\<open>store_session_in_database\<close> off) and an adapter without database hooks, and for instants whose
  ISO text the library reads back. It enters the active list of the user exactly once; the list stays
  sorted by expiry, free of repeated tokens and of expired entries. The session and the user come
  back with \<open>expiresAt\<close>, \<open>createdAt\<close> and \<open>updatedAt\<close> at millisecond precision and every other column as its
  JSON value, where any other date column is an ISO text.
\<close>
theorem session_cache_create:
  fixes ic defines "cd \<equiv> ic_codec ic"
  assumes "cached_only ic" "cached_list w (now ev) user_id = list_text es" "ordered (now ev) es"
    and user: "mem_find_one (ic_ad ic) ''user'' [Where ''id'' (VStr user_id)] [] (iw_db w) = (Inr (Some u), iw_db w)"
    and "dates_ok cd u" "token \<noteq> list_key user_id" "0 < lifetime ic dont_remember_me"
    and iso: "iso_ok cd (now ev)" "iso_ok cd (now ev + lifetime ic dont_remember_me * 1000000)"
  shows "\<exists>r w'. create_session ic ev new_id token user_id dont_remember_me override ip agent w = (Inr (Some r), w') \<and>
    dget r ''token'' = VStr token \<and> dget r ''userId'' = VStr user_id \<and>
    dget r ''expiresAt'' = VDate (now ev + lifetime ic dont_remember_me * 1000000) \<and> iw_db w' = iw_db w \<and>
    (\<forall>ev'. now ev \<le> now ev' \<longrightarrow> fst (find_session ic ev' token w') =
       Inr (if now ev' \<le> now ev + lifetime ic dont_remember_me * 1000000
            then Some (restored cd r, restored cd u) else None)) \<and>
    (\<exists>es'. cached_list w' (now ev) user_id = list_text es' \<and> ordered (now ev) es' \<and>
       set es' = insert (token, dt_ms (now ev) + lifetime ic dont_remember_me * 1000)
                   {p \<in> set es. fst p \<noteq> token})"
proof -
  let ?E = "lifetime ic dont_remember_me"
  let ?x = "now ev + ?E * 1000000"
  let ?r = "dmerge (dmerge ([(''id'', VStr new_id)] @
              [(''ipAddress'', VStr ip), (''userAgent'', VStr agent)]) (ddrop ''id'' override))
            [(''expiresAt'', VDate ?x), (''userId'', VStr user_id), (''token'', VStr token),
             (''createdAt'', VDate (now ev)), (''updatedAt'', VDate (now ev))]"
  have r: "map_of ?r ''token'' = Some (VStr token)" "map_of ?r ''userId'' = Some (VStr user_id)"
      "map_of ?r ''expiresAt'' = Some (VDate ?x)" "map_of ?r ''createdAt'' = Some (VDate (now ev))"
      "map_of ?r ''updatedAt'' = Some (VDate (now ev))"
    by (simp_all add: map_of_dmerge)
  have E: "0 \<le> ?E" "dt_ms (now ev) + 1000 \<le> dt_ms ?x" using assms(8) by (simp_all add: dt_ms_add)
  have ix: "dindex ?r ''token'' = Inr (VStr token)" "dindex ?r ''expiresAt'' = Inr (VDate ?x)"
    using r(1,3) by (simp_all add: dindex_def del: dmerge.simps append.simps)
  obtain kv where kv: "store_session_kv ic ev user_id ?r ?r w = (Inr (), w\<lparr>iw_kv := kv\<rparr>)"
      "\<And>t. now ev \<le> t \<Longrightarrow> kv_view kv t token = (if t \<le> now ev + ?E * 1000000 then Some (cached_pair cd ?r u) else None)"
      "kv_view kv (now ev) (list_key user_id) = list_text (with_entry (now ev) token (dt_ms ?x) es)"
    using store_session_kv_refines[OF assms(3) ix E(2) user assms(7), of ?r] E(1)
    unfolding ttl_lifetime[OF E(1)] cd_def by auto
  let ?w' = "w\<lparr>iw_kv := kv\<rparr>"
  have "create_session ic ev new_id token user_id dont_remember_me override ip agent w = (Inr (Some ?r), ?w')"
    using assms(2) kv(1)
    by (simp add: create_session_def int_create_def cached_only_def lifetime_def[symmetric] bindA_def Let_def
        del: dmerge.simps append.simps)
  moreover have "dates_ok cd ?r"
    using r(3-5) iso by (simp add: dates_ok_def dget_def del: dmerge.simps append.simps)
  moreover have "ordered (now ev) (with_entry (now ev) token (dt_ms ?x) es)"
    using ordered_with_entry[OF assms(4) order_refl] E(2) by simp
  moreover have "set (with_entry (now ev) token (dt_ms ?x) es) =
      insert (token, dt_ms (now ev) + ?E * 1000) {p \<in> set es. fst p \<noteq> token}"
    using assms(4) by (auto simp: set_with_entry live_at_def ordered_def dt_ms_add)
  ultimately show ?thesis
    using r(1-3) kv(2,3) find_session_cached[OF assms(2), folded cd_def] assms(6)
    by (intro exI[of _ ?r] exI[of _ ?w'] conjI exI[of _ "with_entry (now ev) token (dt_ms ?x) es"])
      (simp_all add: dget_def cached_list_def del: dmerge.simps append.simps)
qed


lemma list_text_truthy [simp]: "text_truthy (list_text es) \<longleftrightarrow> es \<noteq> []"
  by (auto simp: list_text_def text_truthy_def)

lemma sort_live: "ordered t es \<Longrightarrow> sort_key snd (live_at t' token es) = live_at t' token es"
  by (rule sort_key_id_if_sorted) (auto simp: live_at_def ordered_def sorted_filter)

lemma bindA_done: "bindA (\<lambda>a. (Inr (), g a)) f w = f () (g w)"
  by (simp add: bindA_def)

lemma delete_session_refines:
  assumes "cached_only ic" "cached_list w (now ev) user_id = list_text es" "ordered (now ev) es"
    and here: "kv_view (iw_kv w) (now ev) token = Some (cached_pair (ic_codec ic) s u)"
    and "dindex s ''userId'' = Inr (VStr user_id)" "token \<noteq> list_key user_id" "0 \<le> now ev"
  shows "\<exists>kv. delete_session ic ev token w = (Inr (), w\<lparr>iw_kv := kv\<rparr>) \<and>
    (\<forall>t. kv_view kv t token = None) \<and>
    kv_view kv (now ev) (list_key user_id) = list_text (live_at (now ev) token es) \<and>
    (\<forall>t k. now ev \<le> t \<longrightarrow> k \<noteq> token \<longrightarrow> k \<noteq> list_key user_id \<longrightarrow> kv_view kv t k = kv_view (iw_kv w) t k)"
proof -
  let ?es = "live_at (now ev) token es" and ?n = "dt_ms (now ev)" and ?key = "list_key user_id"
  let ?kv1 = "snd (kv_get (now ev) token (iw_kv w))"
  let ?kv2 = "snd (kv_get (now ev) ?key ?kv1)"
  let ?kv3 = "if es = [] then ?kv2 else if ?es = [] then snd (kv_delete ?key ?kv2)
    else snd (kv_set (now ev) ?key (Json (VList (entry_list ?es))) (Some (ttl_seconds (snd (last ?es)) ?n)) ?kv2)"
  let ?kv4 = "snd (kv_delete token ?kv3)"
  have view: "kv_view ?kv1 (now ev) ?key = list_text es"
    using assms(2) by (simp add: cached_list_def mem_kv.get_view)
  have uid: "index_value (VDict (json_row (ic_codec ic) s)) ''userId'' = Inr (VStr user_id)"
    using assms(5) by (auto simp: index_value_def dindex_def split: option.splits)
  have furthest: "?n < snd (last ?es)" "snd (last ?es) \<noteq> 0" if "?es \<noteq> []"
  proof -
    have "last ?es \<in> set ?es" using that by simp
    then show "?n < snd (last ?es)" by (auto simp: live_at_def)
    moreover have "0 \<le> ?n" using assms(7) by (simp add: dt_ms_def)
    ultimately show "snd (last ?es) \<noteq> 0" by simp
  qed
  have nonempty: "json_row (ic_codec ic) s \<noteq> []"
    using assms(5) by (cases s) (auto simp: json_row_def dindex_def)
  have "delete_session ic ev token w = (Inr (), w\<lparr>iw_kv := ?kv4\<rparr>)"
    using assms(1,3) furthest
    by (cases "es = []"; cases "?es = []")
      (simp_all add: delete_session_def cached_only_def Let_def bind_kv_get here dget_Cons nonempty uid view
        as_text_def list_items' live_entries_list sort_entries sort_live entry_ms_last jsonify_entries bindA_assoc
        bind_kv_set bind_kv_delete run_kv_delete run_kv_set bindA_done live_at_def[of "now ev" token "[]"])
  moreover have "kv_view ?kv2 t k = kv_view (iw_kv w) t k" if "now ev \<le> t" for t k
    using that by (simp add: mem_kv.get_view)
  moreover have "live_at (now ev) token [] = []" by (simp add: live_at_def)
  ultimately show ?thesis
    using assms(2,6)
    by (intro exI[of _ ?kv4] conjI allI impI)
      (auto simp: kv_views ttl_live_def list_text_def cached_list_def ttl_seconds_def)
qed


lemma find_session_view:
  assumes "cached_only ic" "kv_view (iw_kv w') (now ev) token = kv_view (iw_kv w) (now ev) token"
  shows "fst (find_session ic ev token w') = fst (find_session ic ev token w)"
  using assms by (simp add: find_session_def cached_only_def bind_kv_get Let_def)
    (simp add: bindA_def split: sum.split)

text \<open>
  Signing out ends the session everywhere. After \<open>delete_session\<close> the token is never found
  again, the active list loses exactly that token (and entries that have expired), every other
  session is found as before, and the database is untouched.
\<close>
theorem session_cache_delete:
  assumes "cached_only ic" "cached_list w (now ev) user_id = list_text es" "ordered (now ev) es"
    and "kv_view (iw_kv w) (now ev) token = Some (cached_pair (ic_codec ic) s u)" "dindex s ''userId'' = Inr (VStr user_id)"
    and "token \<noteq> list_key user_id" "0 \<le> now ev"
  shows "\<exists>w'. delete_session ic ev token w = (Inr (), w') \<and> iw_db w' = iw_db w \<and>
    (\<forall>ev'. fst (find_session ic ev' token w') = Inr None) \<and>
    cached_list w' (now ev) user_id = list_text (filter (\<lambda>p. fst p \<noteq> token) es) \<and>
    (\<forall>ev' token'. now ev \<le> now ev' \<longrightarrow> token' \<noteq> token \<longrightarrow> token' \<noteq> list_key user_id \<longrightarrow>
       fst (find_session ic ev' token' w') = fst (find_session ic ev' token' w))"
proof -
  have live: "live_at (now ev) token es = filter (\<lambda>p. fst p \<noteq> token) es"
    using assms(3) by (auto simp: live_at_def ordered_def intro!: filter_cong)
  obtain kv where kv: "delete_session ic ev token w = (Inr (), w\<lparr>iw_kv := kv\<rparr>)"
      "\<And>t. kv_view kv t token = None"
      "kv_view kv (now ev) (list_key user_id) = list_text (live_at (now ev) token es)"
      "\<And>t k. now ev \<le> t \<Longrightarrow> k \<noteq> token \<Longrightarrow> k \<noteq> list_key user_id \<Longrightarrow> kv_view kv t k = kv_view (iw_kv w) t k"
    using delete_session_refines[OF assms] by blast
  let ?w' = "w\<lparr>iw_kv := kv\<rparr>"
  have "fst (find_session ic ev' token ?w') = Inr None" for ev'
    by (rule find_session_cached(1)[OF assms(1)]) (simp add: kv(2))
  moreover have "fst (find_session ic ev' token' ?w') = fst (find_session ic ev' token' w)"
    if "now ev \<le> now ev'" "token' \<noteq> token" "token' \<noteq> list_key user_id" for ev' token'
    by (rule find_session_view[OF assms(1)]) (simp add: kv(4)[OF that])
  moreover have "cached_list ?w' (now ev) user_id = list_text (filter (\<lambda>p. fst p \<noteq> token) es)"
    using kv(3) by (simp add: cached_list_def live)
  moreover have "iw_db ?w' = iw_db w" by simp
  ultimately show ?thesis using kv(1) by blast
qed

text \<open>
  Extending a session keeps both copies in step. \<open>update_session\<close> with a new expiry returns the
  session with the values merged in; it is found with them until the new expiry and not after, and
  its entry in the active list carries the new expiry, once.
\<close>
theorem session_cache_update:
  fixes ic s vs defines "cd \<equiv> ic_codec ic"
  assumes "cached_only ic" "cached_list w (now ev) user_id = list_text es" "ordered (now ev) es"
    and here: "kv_view (iw_kv w) (now ev) token = Some (cached_pair cd s u)"
    and "parse_dates cd (dmerge (json_row cd s) vs) = Inr merged"
    and "dates_ok cd merged" "dates_ok cd u" "dget merged ''expiresAt'' = VDate x"
    and "dget merged ''userId'' = VStr user_id" "dt_ms (now ev) + 1000 \<le> dt_ms x" "token \<noteq> list_key user_id"
  shows "\<exists>w'. update_session ic ev token vs w = (Inr (Some merged), w') \<and> iw_db w' = iw_db w \<and>
    (\<forall>ev'. now ev \<le> now ev' \<longrightarrow> fst (find_session ic ev' token w') =
       Inr (if now ev' \<le> now ev + ttl_seconds (dt_ms x) (dt_ms (now ev)) * 1000000
            then Some (restored cd merged, restored cd u) else None)) \<and>
    (\<exists>es'. cached_list w' (now ev) user_id = list_text es' \<and> ordered (now ev) es' \<and>
       set es' = insert (token, dt_ms x) {p \<in> set es. fst p \<noteq> token})"
proof -
  let ?es = "with_entry (now ev) token (dt_ms x) es" and ?n = "dt_ms (now ev)" and ?key = "list_key user_id"
  let ?far = "ttl_seconds (snd (last ?es)) ?n" and ?ttl = "ttl_seconds (dt_ms x) ?n"
  have ttl: "?ttl > 0" using assms(11) by (simp add: ttl_pos)
  have far: "?ttl \<le> ?far" "?n < snd (last ?es)"
    using ttl_mono[OF last_with_entry[of "dt_ms x" "now ev" token es], of ?n]
      last_with_entry[of "dt_ms x" "now ev" token es] assms(11) by simp_all
  let ?kv1 = "snd (kv_get (now ev) token (iw_kv w))"
  let ?kv2 = "snd (kv_set (now ev) token (cached_pair cd merged u) (Some ?ttl) ?kv1)"
  let ?kv3 = "snd (kv_get (now ev) ?key ?kv2)"
  let ?kv4 = "snd (kv_set (now ev) ?key (Json (VList (entry_list ?es))) (Some ?far) ?kv3)"
  have view: "kv_view ?kv2 (now ev) ?key = list_text es"
    using assms(3,12) by (simp add: cached_list_def kv_views)
  have items: "json_items (safe_json (kv_view ?kv2 (now ev) ?key)) = Inr (entry_list es)"
    unfolding view by (rule list_items')
  have entries: "sort_rows expires_lt (map entry (live_at (now ev) token es) @ [[(''token'', VStr token), (''expiresAt'', VInt (dt_ms x))]])
      = Inr (map entry ?es)"
    using sort_entries[of "live_at (now ev) token es @ [(token, dt_ms x)]"]
    by (simp add: with_entry_def entry_def)
  have mix: "dindex merged ''expiresAt'' = Inr (VDate x)" "dindex merged ''userId'' = Inr (VStr user_id)"
    using assms(9,10) by (auto simp: dindex_def dget_def split: option.splits)
  have idx: "index_value (VDict [(''session'', VDict (json_row cd s)), (''user'', VDict (json_row cd u))]) ''session'' = Inr (VDict (json_row cd s))"
    "index_value (VDict [(''session'', VDict (json_row cd s)), (''user'', VDict (json_row cd u))]) ''user'' = Inr (VDict (json_row cd u))"
    by (simp_all add: index_value_def dindex_def)
  have "update_session_kv ic ev token vs w = (Inr (Some merged), w\<lparr>iw_kv := ?kv4\<rparr>)"
    using mix assms(6) ttl entries far(2)
    by (simp add: update_session_kv_def Let_def bind_kv_get here idx cd_def[symmetric] expires_ms_def
        bind_kv_set run_kv_set cached_pair_def[symmetric] items live_entries_list entry_ms_last jsonify_entries
        as_text_def bindA_done)
  then have "update_session ic ev token vs w = (Inr (Some merged), w\<lparr>iw_kv := ?kv4\<rparr>)"
    using assms(2) by (simp add: update_session_def int_update_def cached_only_def bindA_def)
  moreover have "kv_view ?kv4 t token = (if t \<le> now ev + ?ttl * 1000000 then Some (cached_pair cd merged u) else None)"
    if "now ev \<le> t" for t
    using that assms(12) ttl by (simp add: kv_views ttl_live_until)
  moreover have "kv_view ?kv4 (now ev) ?key = list_text ?es"
    using far ttl by (simp add: kv_views ttl_live_until list_text_def)
  moreover have "ordered (now ev) ?es"
    using ordered_with_entry[OF assms(4) order_refl] assms(11) by simp
  moreover have "set ?es = insert (token, dt_ms x) {p \<in> set es. fst p \<noteq> token}"
    using assms(4) by (auto simp: set_with_entry live_at_def ordered_def)
  ultimately show ?thesis
    using find_session_cached[OF assms(2), folded cd_def] assms(7,8)
    by (intro exI[of _ "w\<lparr>iw_kv := ?kv4\<rparr>"] conjI exI[of _ ?es]) (simp_all add: cached_list_def)
qed


section \<open>Witnesses\<close>

text \<open>A codec that knows seven instants of January 1970, in microseconds.\<close>

definition iso_seconds :: "int \<Rightarrow> string" where
  "iso_seconds t =
     (case map_of [(0, ''01T00:00:00''), (500, ''01T00:08:20''), (900, ''01T00:15:00''), (1000, ''01T00:16:40''), (604800, ''08T00:00:00'')]
             (t div 1000000) of
        Some d \<Rightarrow> ''1970-01-'' @ d @ ''.'' | None \<Rightarrow> [])"

definition iso_codec :: codec where
  "iso_codec = (ad_codec demo_adapter)\<lparr>strftime_s := iso_seconds,
     fromisoformat := (\<lambda>s.
       case find (\<lambda>t. iso_seconds t @ zfill 3 (nat_str (nat (t mod 1000000 div 1000))) @ ''+00:00'' = s)
              [0, 1000, 500000000, 900000000, 1000000000, 604800000000, 604800001000] of
         Some t \<Rightarrow> Inr t | None \<Rightarrow> Inl ValueError)\<rparr>"

definition cache_conf :: iconf where
  "cache_conf = \<lparr>ic_ad = demo_adapter\<lparr>ad_codec := iso_codec\<rparr>, ic_secondary = True, ic_atomic_take = True, ic_hooks = [],
     ic_session_expires_in = 604800, ic_store_session_in_database = False,
     ic_store_identifier = IdAll IdUnset, ic_verification_in_database = False,
     ic_sha256 = (\<lambda>_. []), ic_validate_user_info = None\<rparr>"

definition user_u :: row where
  "user_u = [(''id'', VStr ''u''), (''email'', VStr ''e''), (''createdAt'', VDate 0)]"

definition session_a :: row where
  "session_a = [(''userId'', VStr ''u''), (''token'', VStr ''a''), (''expiresAt'', VDate 500000000)]"

text \<open>One user with two cached sessions, \<open>a\<close> until 500 s and \<open>b\<close> until 600 s.\<close>

definition cache_world :: iworld where
  "cache_world = \<lparr>iw_db = [(''user'', [user_u])],
     iw_kv = \<lparr>kv_items = [(list_key ''u'', Json (VList (entry_list [(''a'', 500000), (''b'', 600000)])), Some 600000000),
                        (''a'', cached_pair iso_codec session_a user_u, Some 500000000)], kv_ttls = []\<rparr>,
     iw_queue = None, iw_log = []\<rparr>"

definition clock :: "int \<Rightarrow> env" where
  "clock t = \<lparr>now = t, rnd_id = ''r'', rnd_uuid = ''u''\<rparr>"

lemma cache_world_facts:
  "cached_only cache_conf" "cached_list cache_world 1000 ''u'' = list_text [(''a'', 500000), (''b'', 600000)]"
  "ordered 1000 [(''a'', 500000), (''b'', 600000)]"
  "kv_view (iw_kv cache_world) 1000 ''a'' = Some (cached_pair iso_codec session_a user_u)"
  "mem_find_one (ic_ad cache_conf) ''user'' [Where ''id'' (VStr ''u'')] [] (iw_db cache_world) =
     (Inr (Some user_u), iw_db cache_world)"
  by code_simp+

lemma cache_codec [simp]: "ic_codec cache_conf = iso_codec"
  by (simp add: cache_conf_def)

lemma iso_known:
  "iso_ok iso_codec 0" "iso_ok iso_codec 1000" "iso_ok iso_codec 500000000" "iso_ok iso_codec 900000000"
  "iso_ok iso_codec 1000000000" "iso_ok iso_codec 604800001000"
  unfolding iso_ok_def by code_simp+

lemma rows_dates_ok: "dates_ok iso_codec user_u" "dates_ok iso_codec session_a"
  using iso_known by (simp_all add: dates_ok_def user_u_def session_a_def dget_Cons is_str_def)

theorem session_cache_create_witness:
  "\<exists>r w'. create_session cache_conf (clock 1000) ''s3'' ''c'' ''u'' False [] ''ip'' ''ua'' cache_world = (Inr (Some r), w') \<and>
     fst (find_session cache_conf (clock (1000 + 604800000000)) ''c'' w') =
       Inr (Some (restored iso_codec r, restored iso_codec user_u)) \<and>
     fst (find_session cache_conf (clock (1001 + 604800000000)) ''c'' w') = Inr None"
proof -
  have "''c'' \<noteq> list_key ''u''" "lifetime cache_conf False = 604800" by code_simp+
  with session_cache_create[OF cache_world_facts(1), of cache_world "clock 1000" "''u''" _ user_u "''c''" False "''s3''" "[]" "''ip''" "''ua''"]
    cache_world_facts rows_dates_ok(1) iso_known
  show ?thesis by (fastforce simp: clock_def)
qed

theorem session_cache_delete_witness:
  "\<exists>w'. delete_session cache_conf (clock 1000) ''a'' cache_world = (Inr (), w') \<and>
     fst (find_session cache_conf (clock 2000) ''a'' w') = Inr None \<and>
     cached_list w' 1000 ''u'' = list_text [(''b'', 600000)]"
proof -
  have "''a'' \<noteq> list_key ''u''" "dindex session_a ''userId'' = Inr (VStr ''u'')" by code_simp+
  with session_cache_delete[OF cache_world_facts(1), of cache_world "clock 1000" "''u''" "[(''a'', 500000), (''b'', 600000)]" "''a''" session_a user_u]
    cache_world_facts
  obtain w' where "delete_session cache_conf (clock 1000) ''a'' cache_world = (Inr (), w')"
    "\<forall>ev'. fst (find_session cache_conf ev' ''a'' w') = Inr None"
    "cached_list w' 1000 ''u'' = list_text (filter (\<lambda>p. fst p \<noteq> ''a'') [(''a'', 500000), (''b'', 600000)])"
    unfolding clock_def by auto
  then show ?thesis by auto
qed

theorem session_cache_update_witness:
  "\<exists>r w'. update_session cache_conf (clock 1000) ''a'' [(''expiresAt'', VDate 900000000)] cache_world = (Inr (Some r), w') \<and>
     (\<exists>es. cached_list w' 1000 ''u'' = list_text es \<and> set es = {(''a'', 900000), (''b'', 600000)})"
proof -
  let ?vs = "[(''expiresAt'', VDate 900000000)]" and ?n = "[(''userId'', VStr ''u''), (''token'', VStr ''a''), (''expiresAt'', VDate 900000000)]"
  have "''a'' \<noteq> list_key ''u''" "parse_dates iso_codec (dmerge (json_row iso_codec session_a) ?vs) = Inr ?n"
    "dget ?n ''userId'' = VStr ''u''" "dget ?n ''expiresAt'' = VDate 900000000" "dt_ms 900000000 = 900000" "dt_ms 1000 = 1"
    by code_simp+
  moreover have "dates_ok iso_codec ?n"
    using iso_known by (simp add: dates_ok_def dget_Cons is_str_def)
  ultimately obtain w' es where
    "update_session cache_conf (clock 1000) ''a'' ?vs cache_world = (Inr (Some ?n), w')"
    "cached_list w' 1000 ''u'' = list_text es"
    "set es = insert (''a'', 900000) {p \<in> set [(''a'', 500000), (''b'', 600000)]. fst p \<noteq> ''a''}"
    using session_cache_update[OF cache_world_facts(1), of cache_world "clock 1000" "''u''" "[(''a'', 500000), (''b'', 600000)]" "''a''" session_a user_u ?vs ?n 900000000]
      cache_world_facts rows_dates_ok(1) by (auto simp: clock_def)
  then show ?thesis by fastforce
qed

end
