(* ===== verification/Urls.thy ===== *)
theory Urls
  imports Crypto
begin

text \<open>
  URLs and origin patterns: the parts of \<open>urllib.parse.urlsplit\<close> that \<open>origin.py\<close> and \<open>base_url.py\<close>
  use, their wildcard matcher, custom-scheme origins, safe relative URLs and the choice of the
  public host of a dynamic base URL.

  \<open>urlsplit\<close> is written out for ASCII text; whether a bracketed host is an IP literal is the
  parameter \<open>valid_bracketed\<close>. A wildcard pattern becomes a list of tokens and matching is the
  backtracking of the regular expression; \<open>$\<close> also matches before a final newline.
\<close>

section \<open>Splitting a URL\<close>

definition nl :: char where "nl = CHR 0x0A"

definition is_alpha :: "char \<Rightarrow> bool" where
  "is_alpha c \<longleftrightarrow> (let n = (of_char c :: nat) in 65 \<le> n \<and> n \<le> 90 \<or> 97 \<le> n \<and> n \<le> 122)"

definition is_alnum :: "char \<Rightarrow> bool" where
  "is_alnum c \<longleftrightarrow> is_alpha c \<or> is_digit c"

definition is_scheme_char :: "char \<Rightarrow> bool" where
  "is_scheme_char c \<longleftrightarrow> is_alnum c \<or> c \<in> set ''+-.''"

definition is_control :: "char \<Rightarrow> bool" where
  "is_control c \<longleftrightarrow> (let n = (of_char c :: nat) in n < 32 \<or> 127 \<le> n \<and> n \<le> 159)"

text \<open>Leading controls and spaces go, then every tab, carriage return and newline.\<close>

definition clean_url :: "string \<Rightarrow> string" where
  "clean_url url =
     filter (\<lambda>c. (of_char c :: nat) \<notin> {9, 10, 13}) (dropWhile (\<lambda>c. (of_char c :: nat) \<le> 32) url)"

text \<open>The text before and from the first character of a set.\<close>

definition split_at :: "char set \<Rightarrow> string \<Rightarrow> string \<times> string" where
  "split_at cs s = (takeWhile (\<lambda>c. c \<notin> cs) s, dropWhile (\<lambda>c. c \<notin> cs) s)"

record split_url =
  u_scheme :: string
  u_netloc :: string
  u_path :: string
  u_query :: string
  u_fragment :: string

definition split_scheme :: "string \<Rightarrow> string \<times> string" where
  "split_scheme url =
     (case partition_at CHR '':'' url of
        (front, found, after) \<Rightarrow>
          if found \<and> front \<noteq> [] \<and> is_alpha (hd front) \<and> list_all is_scheme_char front
          then (str_lower front, after) else ([], url))"

definition urlsplit :: "(string \<Rightarrow> bool) \<Rightarrow> string \<Rightarrow> split_url result" where
  "urlsplit valid_bracketed url =
     (let (scheme, rest) = split_scheme (clean_url url);
          (netloc, rest1) = (if starts_with rest ''//'' then split_at (set ''/?#'') (drop 2 rest) else ([], rest));
          (before_frag, _, fragment) = partition_at CHR ''#'' rest1;
          (path, _, query) = partition_at CHR ''?'' before_frag
      in if (CHR ''['' \<in> set netloc) \<noteq> (CHR '']'' \<in> set netloc) then Inl ValueError
         else if CHR ''['' \<in> set netloc \<and> \<not> valid_bracketed netloc then Inl ValueError
         else Inr \<lparr>u_scheme = scheme, u_netloc = netloc, u_path = path, u_query = query,
                   u_fragment = fragment\<rparr>)"

type_synonym bracketed = "string \<Rightarrow> bool"

definition get_origin :: "bracketed \<Rightarrow> string \<Rightarrow> string option result" where
  "get_origin vb url =
     bindR (urlsplit vb url) (\<lambda>parts.
       Inr (if u_scheme parts \<in> {''http'', ''https''} \<and> u_netloc parts \<noteq> []
            then Some (u_scheme parts @ ''://'' @ u_netloc parts) else None))"

definition get_protocol :: "bracketed \<Rightarrow> string \<Rightarrow> string option result" where
  "get_protocol vb url =
     bindR (urlsplit vb url) (\<lambda>parts.
       Inr (if u_scheme parts \<noteq> [] then Some (u_scheme parts @ '':'') else None))"

definition get_host :: "bracketed \<Rightarrow> string \<Rightarrow> string option result" where
  "get_host vb url =
     bindR (urlsplit vb url) (\<lambda>parts. Inr (if u_netloc parts \<noteq> [] then Some (u_netloc parts) else None))"

section \<open>Wildcards\<close>

datatype token = Lit char | AnyOne | AnyRun | AnyDeep

fun wildcard_tokens :: "string \<Rightarrow> token list" where
  "wildcard_tokens [] = []"
| "wildcard_tokens (c # s) =
     (if c = CHR ''*'' then
        (case s of
           [] \<Rightarrow> [AnyRun]
         | d # s' \<Rightarrow> if d = CHR ''*'' then AnyDeep # wildcard_tokens s' else AnyRun # wildcard_tokens s)
      else if c = CHR ''?'' then AnyOne # wildcard_tokens s
      else Lit c # wildcard_tokens s)"

definition no_separator :: "char \<Rightarrow> bool" where
  "no_separator c \<longleftrightarrow> c \<noteq> CHR ''/'' \<and> c \<noteq> CHR 0x5C"

fun match_tokens :: "token list \<Rightarrow> string \<Rightarrow> bool" where
  "match_tokens [] s = (s = [] \<or> s = [nl])"
| "match_tokens (Lit c # p) s = (case s of [] \<Rightarrow> False | x # xs \<Rightarrow> x = c \<and> match_tokens p xs)"
| "match_tokens (AnyOne # p) s = (case s of [] \<Rightarrow> False | x # xs \<Rightarrow> no_separator x \<and> match_tokens p xs)"
| "match_tokens (AnyRun # p) [] = match_tokens p []"
| "match_tokens (AnyRun # p) (x # xs) =
     (match_tokens p (x # xs) \<or> (no_separator x \<and> match_tokens (AnyRun # p) xs))"
| "match_tokens (AnyDeep # p) [] = match_tokens p []"
| "match_tokens (AnyDeep # p) (x # xs) =
     (match_tokens p (x # xs) \<or> (x \<noteq> nl \<and> match_tokens (AnyDeep # p) xs))"

definition wildcard_match :: "string \<Rightarrow> string \<Rightarrow> bool" where
  "wildcard_match pattern s = match_tokens (wildcard_tokens pattern) s"

section \<open>Paths and custom schemes\<close>

fun malformed_percent :: "string \<Rightarrow> bool" where
  "malformed_percent [] = False"
| "malformed_percent (c # s) =
     ((c = CHR ''%'' \<and> \<not> (length s \<ge> 2 \<and> hex_value (s ! 0) \<noteq> None \<and> hex_value (s ! 1) \<noteq> None)) \<or>
      malformed_percent s)"

fun resolve_segments :: "string list \<Rightarrow> string list \<Rightarrow> string list" where
  "resolve_segments done [] = done"
| "resolve_segments done (seg # segs) =
     (if seg = ''..'' then resolve_segments (butlast done) segs
      else if seg = ''.'' \<or> seg = [] then resolve_segments done segs
      else resolve_segments (done @ [seg]) segs)"

definition join_path :: "string list \<Rightarrow> string" where
  "join_path segs = concat (map (\<lambda>s. ''/'' @ s) segs)"

definition normalize_path :: "string \<Rightarrow> string" where
  "normalize_path path =
     (let decoded = (if malformed_percent path then path else unquote_all path)
      in join_path (resolve_segments [] (split_on CHR ''/'' decoded)))"

definition parse_custom_scheme :: "string \<Rightarrow> (string \<times> string \<times> string) option" where
  "parse_custom_scheme v =
     (if list_ex is_control v then None
      else case partition_at CHR '':'' v of
             (front, found, rest0) \<Rightarrow>
               if \<not> found \<or> front = [] then None
               else
                 (let (authority, rest) =
                        (if starts_with rest0 ''//'' then split_at (set ''/?#'') (drop 2 rest0) else ([], rest0))
                  in Some (str_lower front, str_lower authority,
                           normalize_path (fst (split_at (set ''?#'') rest)))))"

fun encoded_separator :: "string \<Rightarrow> bool" where
  "encoded_separator (c # a # b # s) =
     ((c = CHR ''%'' \<and> (a = CHR ''2'' \<and> b \<in> set ''fF'' \<or> a = CHR ''5'' \<and> b \<in> set ''cC'')) \<or>
      encoded_separator (a # b # s))"
| "encoded_separator _ = False"

definition is_safe_relative_url :: "string \<Rightarrow> bool" where
  "is_safe_relative_url v =
     (if \<not> starts_with v ''/'' \<or> starts_with v ''//'' \<or> CHR 0x5C \<in> set v \<or> list_ex is_control v then False
      else \<not> encoded_separator (fst (split_at (set ''?#'') v)))"

definition matches_origin_pattern :: "bracketed \<Rightarrow> string \<Rightarrow> string \<Rightarrow> bool \<Rightarrow> bool result" where
  "matches_origin_pattern vb url pattern allow_relative =
     (if starts_with url ''/'' then Inr (allow_relative \<and> is_safe_relative_url url)
      else if CHR ''*'' \<in> set pattern \<or> CHR ''?'' \<in> set pattern then
        (if str_contains pattern ''://'' then
           bindR (get_origin vb url) (\<lambda>org.
             Inr (wildcard_match pattern (case org of Some x \<Rightarrow> x | None \<Rightarrow> url)))
         else
           bindR (get_host vb url) (\<lambda>h.
             Inr (case h of Some x \<Rightarrow> wildcard_match pattern x | None \<Rightarrow> False)))
      else
        bindR (get_protocol vb url) (\<lambda>protocol.
          if protocol \<in> {Some ''http:'', Some ''https:'', None} then
            bindR (get_origin vb url) (\<lambda>org. Inr (Some pattern = org))
          else
            Inr (case (parse_custom_scheme url, parse_custom_scheme pattern) of
                   (Some (s, a, p), Some (s', a', p')) \<Rightarrow>
                     s = s' \<and> (a' = [] \<or> a = a') \<and>
                     (p' = [] \<or> p = p' \<or> starts_with p (p' @ ''/''))
                 | _ \<Rightarrow> False)))"

section \<open>Proxy headers and the dynamic base URL\<close>

definition re_space :: "char \<Rightarrow> bool" where
  "re_space c \<longleftrightarrow> is_space c"

definition suspicious_host :: "string \<Rightarrow> bool" where
  "suspicious_host h =
     (let l = str_lower h
      in str_contains h ''..'' \<or> CHR 0x00 \<in> set h \<or> list_ex re_space h \<or> starts_with h ''.'' \<or>
         list_ex (\<lambda>c. c \<in> set [CHR ''<'', CHR ''>'', CHR 0x27, CHR 0x22]) h \<or>
         str_contains l ''javascript:'' \<or> str_contains l ''file:'' \<or> str_contains l ''data:'')"

text \<open>A DNS label: letters, digits and inner hyphens, at most 63 characters.\<close>

definition is_label :: "string \<Rightarrow> bool" where
  "is_label s \<longleftrightarrow>
     s \<noteq> [] \<and> length s \<le> 63 \<and> is_alnum (hd s) \<and> is_alnum (last s) \<and>
     list_all (\<lambda>c. is_alnum c \<or> c = CHR ''-'') s"

definition is_port :: "string \<Rightarrow> bool" where
  "is_port s \<longleftrightarrow> 1 \<le> length s \<and> length s \<le> 5 \<and> list_all is_digit s"

definition is_bracketed_hex :: "string \<Rightarrow> bool" where
  "is_bracketed_hex s \<longleftrightarrow>
     length s \<ge> 3 \<and> hd s = CHR ''['' \<and> last s = CHR '']'' \<and>
     list_all (\<lambda>c. hex_value c \<noteq> None \<or> c = CHR '':'') (tl (butlast s))"

text \<open>A host name, dotted IPv4, bracketed IPv6 or localhost, with an optional port.\<close>

definition host_shape :: "string \<Rightarrow> bool" where
  "host_shape h =
     (let name = (\<lambda>s. list_all is_label (split_on CHR ''.'' s) \<or> is_bracketed_hex s);
          (host, found, port) = rpartition_at CHR '':'' h
      in name h \<or> (found \<and> name host \<and> is_port port))"

definition validate_proxy_header :: "string \<Rightarrow> string \<Rightarrow> bool" where
  "validate_proxy_header header kind =
     (if header = [] \<or> strip header = [] then False
      else if kind = ''proto'' then header \<in> {''http'', ''https''}
      else if kind = ''host'' then \<not> suspicious_host header \<and> host_shape header
      else False)"

definition drop_port :: "string \<Rightarrow> string" where
  "drop_port s =
     (case rpartition_at CHR '':'' s of
        (front, found, port) \<Rightarrow>
          if found \<and> port \<noteq> [] \<and> list_all is_digit port then front else s)"

definition re_drop_port :: "string \<Rightarrow> string" where
  "re_drop_port s =
     (if s \<noteq> [] \<and> last s = nl then drop_port (butlast s) @ [nl] else drop_port s)"

definition strip_brackets :: "string \<Rightarrow> string" where
  "strip_brackets s =
     (let p = (\<lambda>c. c = CHR ''['' \<or> c = CHR '']'') in rev (dropWhile p (rev (dropWhile p s))))"

definition is_loopback :: "string \<Rightarrow> bool" where
  "is_loopback host =
     (let hostname = str_lower (strip_brackets (re_drop_port host))
      in hostname = ''localhost'' \<or> ends_with hostname ''.localhost'' \<or> hostname = ''::1'' \<or>
         starts_with hostname ''127.'')"

type_synonym headers = "(string \<times> string) list"

definition get_host_from_source :: "headers \<Rightarrow> bool \<Rightarrow> string option" where
  "get_host_from_source headers trusted =
     (let valid = (\<lambda>k. case map_of headers k of
                         Some h \<Rightarrow> if h \<noteq> [] \<and> validate_proxy_header h ''host'' then Some h else None
                       | None \<Rightarrow> None)
      in case (if trusted then valid ''x-forwarded-host'' else None) of
           Some h \<Rightarrow> Some h
         | None \<Rightarrow> valid ''host'')"

definition get_protocol_from_source :: "headers \<Rightarrow> string option \<Rightarrow> bool \<Rightarrow> string" where
  "get_protocol_from_source headers config_protocol trusted =
     (let forwarded =
            (if trusted then
               (case map_of headers ''x-forwarded-proto'' of
                  Some p \<Rightarrow> if p \<noteq> [] \<and> validate_proxy_header p ''proto'' then Some p else None
                | None \<Rightarrow> None)
             else None);
          by_host = (case get_host_from_source headers trusted of
                       Some h \<Rightarrow> if is_loopback h then ''http'' else ''https''
                     | None \<Rightarrow> ''https'')
      in if config_protocol \<in> {Some ''http'', Some ''https''} then the config_protocol
         else case forwarded of Some q \<Rightarrow> q | None \<Rightarrow> by_host)"

definition normalize_host :: "string \<Rightarrow> string" where
  "normalize_host v =
     (let bare = (if starts_with v ''https://'' then drop 8 v
                  else if starts_with v ''http://'' then drop 7 v else v)
      in str_lower (hd (split_on CHR ''/'' bare)))"

definition matches_host_pattern :: "string \<Rightarrow> string \<Rightarrow> bool" where
  "matches_host_pattern host pattern =
     (if host = [] \<or> pattern = [] then False
      else
        (let h = normalize_host host; p = normalize_host pattern
         in if CHR ''*'' \<in> set p \<or> CHR ''?'' \<in> set p then wildcard_match p h else h = p))"

record dynamic_base =
  db_allowed :: "string list"
  db_fallback :: "string option"
  db_protocol :: "string option"

definition rstrip_slash :: "string \<Rightarrow> string" where
  "rstrip_slash s = rev (dropWhile (\<lambda>c. c = CHR ''/'') (rev s))"

definition use_fallback :: "dynamic_base \<Rightarrow> string result" where
  "use_fallback cfg =
     (case db_fallback cfg of
        Some f \<Rightarrow> if f \<noteq> [] then Inr (rstrip_slash f) else Inl ValueError
      | None \<Rightarrow> Inl ValueError)"

definition resolve_dynamic_base_url :: "dynamic_base \<Rightarrow> headers \<Rightarrow> bool \<Rightarrow> string result" where
  "resolve_dynamic_base_url cfg headers trusted =
     (case get_host_from_source headers trusted of
        None \<Rightarrow> use_fallback cfg
      | Some host \<Rightarrow>
          if list_ex (matches_host_pattern host) (db_allowed cfg)
          then Inr (get_protocol_from_source headers (db_protocol cfg) trusted @ ''://'' @ host)
          else use_fallback cfg)"

definition origins_of_host :: "string option \<Rightarrow> string \<Rightarrow> string list" where
  "origins_of_host protocol host =
     (if str_contains host ''://'' then [host]
      else (if protocol \<in> {None, Some ''https'', Some ''auto''} then [''https://'' @ host] else []) @
           (if protocol \<in> {Some ''http'', Some ''auto''} \<or> is_loopback host then [''http://'' @ host] else []))"

definition expand_trusted_origins :: "bracketed \<Rightarrow> dynamic_base \<Rightarrow> string list result" where
  "expand_trusted_origins vb cfg =
     (let origins = concat (map (origins_of_host (db_protocol cfg)) (db_allowed cfg))
      in case db_fallback cfg of
           None \<Rightarrow> Inr origins
         | Some f \<Rightarrow>
             if f = [] then Inr origins
             else bindR (get_origin vb f) (\<lambda>org. Inr (origins @ (case org of Some x \<Rightarrow> [x] | None \<Rightarrow> []))))"

section \<open>The host of a dynamic base URL\<close>

definition host_char :: "char \<Rightarrow> bool" where
  "host_char c \<longleftrightarrow> is_alnum c \<or> c \<in> set ''-.:[]''"

lemma split_on_nonempty: "split_on c s \<noteq> []"
  by (induction s) (auto split: list.splits)

lemma split_on_step:
  "split_on c (x # s) =
     (if x = c then [] # split_on c s else (x # hd (split_on c s)) # tl (split_on c s))"
  using split_on_nonempty[of c s] by (auto split: list.splits)

lemma set_split_on: "x \<in> set s \<Longrightarrow> x = c \<or> (\<exists>w\<in>set (split_on c s). x \<in> set w)"
proof (induction s)
  case (Cons y s)
  have "split_on c s = hd (split_on c s) # tl (split_on c s)" using split_on_nonempty[of c s] by simp
  then have "set (split_on c s) = insert (hd (split_on c s)) (set (tl (split_on c s)))" by (metis list.simps(15))
  with Cons show ?case by (auto simp: split_on_step simp del: split_on.simps)
qed simp

lemma label_chars: "is_label s \<Longrightarrow> list_all host_char s"
  by (auto simp: is_label_def host_char_def list_all_iff)

lemma hex_alnum: "hex_value c \<noteq> None \<Longrightarrow> is_alnum c"
  by (auto simp: hex_value_def is_alnum_def is_alpha_def is_digit_def Let_def split: if_splits)

lemma bracketed_chars:
  assumes "is_bracketed_hex s"
  shows "list_all host_char s"
proof -
  from assms obtain a m b where s: "s = a # m @ [b]"
    by (cases s; cases "tl s" rule: rev_cases) (auto simp: is_bracketed_hex_def)
  with assms have "a = CHR ''[''" "b = CHR '']''" "list_all (\<lambda>c. hex_value c \<noteq> None \<or> c = CHR '':'') m"
    by (simp_all add: is_bracketed_hex_def butlast_append)
  moreover from this(3) have "\<forall>c\<in>set m. host_char c"
    using hex_alnum by (auto simp: list_all_iff host_char_def simp del: not_None_eq)
  ultimately show ?thesis using s by (auto simp: list_all_iff host_char_def)
qed

lemma name_chars:
  assumes "list_all is_label (split_on CHR ''.'' s) \<or> is_bracketed_hex s"
  shows "list_all host_char s"
  using assms
proof
  assume labels: "list_all is_label (split_on CHR ''.'' s)"
  have "host_char x" if "x \<in> set s" for x
    using set_split_on[OF that, of "CHR ''.''"] labels label_chars
    by (auto simp: list_all_iff host_char_def)
  then show ?thesis by (simp add: list_all_iff)
qed (rule bracketed_chars)

lemma rpartition_found:
  assumes "rpartition_at c s = (front, True, after)"
  shows "s = front @ c # after"
proof -
  from assms have p: "partition_at c (rev s) = (rev after, True, rev front)"
    by (auto simp: rpartition_at_def split: prod.splits if_splits)
  then obtain y where d: "dropWhile (\<lambda>x. x \<noteq> c) (rev s) = y # rev front" "takeWhile (\<lambda>x. x \<noteq> c) (rev s) = rev after"
    by (auto simp: partition_at_def split: list.splits)
  then have "y = c" using hd_dropWhile[of "\<lambda>x. x \<noteq> c" "rev s"] by fastforce
  with d have "rev s = rev after @ c # rev front" by (metis takeWhile_dropWhile_id)
  then show ?thesis by (metis rev_append rev_rev_ident rev.simps(2) append.assoc append_Cons append_Nil)
qed

lemma host_shape_chars:
  assumes "host_shape h"
  shows "list_all host_char h"
proof -
  obtain host found port where r: "rpartition_at CHR '':'' h = (host, found, port)" by (metis prod_cases3)
  show ?thesis
  proof (cases "list_all is_label (split_on CHR ''.'' h) \<or> is_bracketed_hex h")
    case False
    with assms r have p: "found" "list_all is_label (split_on CHR ''.'' host) \<or> is_bracketed_hex host" "is_port port"
      by (auto simp: host_shape_def)
    then have "h = host @ CHR '':'' # port" using rpartition_found r by simp
    with name_chars[OF p(2)] p(3) show ?thesis
      by (auto simp: is_port_def list_all_iff host_char_def is_alnum_def)
  qed (rule name_chars)
qed

lemma get_host_valid: "get_host_from_source hs trusted = Some h \<Longrightarrow> validate_proxy_header h ''host''"
  by (auto simp: get_host_from_source_def Let_def split: option.splits if_splits)

lemma get_protocol_values: "get_protocol_from_source hs cfg trusted \<in> {''http'', ''https''}"
  by (auto simp: get_protocol_from_source_def validate_proxy_header_def Let_def split: option.splits if_splits)

text \<open>
  A Host header cannot inject an origin. The base URL of a request is the configured fallback, or
  \<open>http\<close> or \<open>https\<close> with a host that matches an allowed pattern and is made of letters, digits and
  the characters \<open>- . : [ ]\<close>, so it holds no path, credentials, space or quote.
\<close>
theorem dynamic_host_contained:
  assumes "resolve_dynamic_base_url cfg hs trusted = Inr u"
  shows "(\<exists>f. db_fallback cfg = Some f \<and> u = rstrip_slash f) \<or>
    (\<exists>protocol host. u = protocol @ ''://'' @ host \<and> protocol \<in> {''http'', ''https''} \<and>
       (\<exists>p\<in>set (db_allowed cfg). matches_host_pattern host p) \<and> list_all host_char host)"
proof (cases "get_host_from_source hs trusted")
  case None
  with assms show ?thesis by (auto simp: resolve_dynamic_base_url_def use_fallback_def split: option.splits if_splits)
next
  case (Some host)
  have "host_shape host" using get_host_valid[OF Some] by (auto simp: validate_proxy_header_def split: if_splits)
  then have chars: "list_all host_char host" by (rule host_shape_chars)
  show ?thesis
  proof (cases "list_ex (matches_host_pattern host) (db_allowed cfg)")
    case True
    with Some assms have "u = get_protocol_from_source hs (db_protocol cfg) trusted @ ''://'' @ host"
      by (simp add: resolve_dynamic_base_url_def)
    moreover have "\<exists>p\<in>set (db_allowed cfg). matches_host_pattern host p" using True by (simp add: list_ex_iff)
    ultimately show ?thesis using chars get_protocol_values[of hs "db_protocol cfg" trusted] by blast
  next
    case False
    with Some assms show ?thesis
      by (auto simp: resolve_dynamic_base_url_def use_fallback_def split: option.splits if_splits)
  qed
qed

theorem dynamic_host_contained_witness:
  "\<exists>protocol host. ''https://a.ex.com:8080'' = protocol @ ''://'' @ host \<and> list_all host_char host"
proof -
  have "resolve_dynamic_base_url \<lparr>db_allowed = [''*.ex.com:8080''], db_fallback = None, db_protocol = None\<rparr>
      [(''host'', ''a.ex.com:8080'')] False = Inr ''https://a.ex.com:8080''" by code_simp
  from dynamic_host_contained[OF this] show ?thesis by fastforce
qed

end
