(* ===== verification/Ip.thy ===== *)
theory Ip
  imports Crypto "HOL-Library.Word"
begin

text \<open>
  \<open>ip.py\<close>: which address a request came from. Addresses are words, of 32 bits for IPv4 and 128 for
  IPv6; a network is an address with a prefix length. The readers and the printer of the
  \<open>ipaddress\<close> module are the fields of \<open>ip_lib\<close>; the arithmetic on addresses, the walk over a
  forwarded chain and the choice of a header are defined.
\<close>

section \<open>Addresses\<close>

datatype addr = V4 "32 word" | V6 "128 word"

datatype network = Net4 "32 word" nat | Net6 "128 word" nat

record ip_lib =
  ip_address :: "string \<Rightarrow> addr option"
  ip_network :: "string \<Rightarrow> network option"
  ip_str :: "addr \<Rightarrow> string"

text \<open>The IPv4 address inside \<open>::ffff:0:0/96\<close>.\<close>

definition ipv4_mapped :: "128 word \<Rightarrow> 32 word option" where
  "ipv4_mapped a = (if drop_bit 32 a = 0xFFFF then Some (ucast a) else None)"

definition canonical_addr :: "ip_lib \<Rightarrow> string \<Rightarrow> addr option" where
  "canonical_addr lib ip =
     (case ip_address lib ip of
        Some (V6 a) \<Rightarrow> (case ipv4_mapped a of Some b \<Rightarrow> Some (V4 b) | None \<Rightarrow> Some (V6 a))
      | other \<Rightarrow> other)"

definition is_valid_ip :: "ip_lib \<Rightarrow> string \<Rightarrow> bool" where
  "is_valid_ip lib ip = (ip_address lib ip \<noteq> None)"

text \<open>The address with all but its first \<open>p\<close> bits cleared.\<close>

definition network_address :: "nat \<Rightarrow> 'a::len word \<Rightarrow> 'a word" where
  "network_address p a = push_bit (LENGTH('a) - p) (drop_bit (LENGTH('a) - p) a)"

definition in_network :: "addr \<Rightarrow> network \<Rightarrow> bool" where
  "in_network x net =
     (case (x, net) of
        (V4 a, Net4 n p) \<Rightarrow> network_address p a = network_address p n
      | (V6 a, Net6 n p) \<Rightarrow> network_address p a = network_address p n
      | _ \<Rightarrow> False)"

definition clamp_prefix :: "int \<Rightarrow> nat" where
  "clamp_prefix n = nat (max 0 (min 128 n))"

definition normalize_ip :: "ip_lib \<Rightarrow> string \<Rightarrow> int \<Rightarrow> string" where
  "normalize_ip lib ip ipv6_subnet =
     (case canonical_addr lib ip of
        None \<Rightarrow> str_lower ip
      | Some (V4 a) \<Rightarrow> ip_str lib (V4 a)
      | Some (V6 a) \<Rightarrow> ip_str lib (V6 (network_address (clamp_prefix ipv6_subnet) a)))"

definition parse_cidr :: "ip_lib \<Rightarrow> string \<Rightarrow> network option" where
  "parse_cidr lib v =
     (let prefix = (if CHR ''/'' \<in> set v then snd (snd (rpartition_at CHR ''/'' v)) else [])
      in if prefix \<noteq> [] \<and> \<not> list_all is_digit prefix then None else ip_network lib v)"

section \<open>The forwarded chain\<close>

definition hops :: "string \<Rightarrow> string list" where
  "hops v = filter (\<lambda>ip. ip \<noteq> []) (map strip (split_on CHR '','' v))"

definition proxies_of :: "ip_lib \<Rightarrow> string list \<Rightarrow> network list" where
  "proxies_of lib trusted = List.map_filter (parse_cidr lib) trusted"

text \<open>The walk from the last hop to the first: trusted proxies are skipped, a malformed hop ends it.\<close>

fun walk_hops :: "ip_lib \<Rightarrow> int \<Rightarrow> network list \<Rightarrow> string list \<Rightarrow> string option" where
  "walk_hops lib subnet proxies [] = None"
| "walk_hops lib subnet proxies (ip # ips) =
     (case canonical_addr lib ip of
        None \<Rightarrow> None
      | Some a \<Rightarrow>
          if list_ex (in_network a) proxies then walk_hops lib subnet proxies ips
          else Some (normalize_ip lib ip subnet))"

definition get_ip_from_header ::
    "ip_lib \<Rightarrow> string \<Rightarrow> int \<Rightarrow> string list \<Rightarrow> string option" where
  "get_ip_from_header lib v subnet trusted =
     (let forwarded = hops v; proxies = proxies_of lib trusted
      in if forwarded = [] then None
         else if proxies \<noteq> [] then walk_hops lib subnet proxies (rev forwarded)
         else if length forwarded \<noteq> 1 \<or> \<not> is_valid_ip lib (forwarded ! 0) then None
         else Some (normalize_ip lib (forwarded ! 0) subnet))"

section \<open>The address of a request\<close>

record ip_options =
  io_disable :: bool
  io_headers :: "string list"
  io_subnet :: int
  io_trusted :: "string list"

record request =
  rq_method :: string
  rq_path :: string
  rq_headers :: "(string \<times> string) list"
  rq_query :: "(string \<times> string) list"
  rq_cookies :: "(string \<times> string) list"
  rq_client_ip :: "string option"
  rq_url :: "string option"

fun first_header_ip :: "ip_lib \<Rightarrow> ip_options \<Rightarrow> request \<Rightarrow> string list \<Rightarrow> string option" where
  "first_header_ip lib io rq [] = rq_client_ip rq"
| "first_header_ip lib io rq (key # keys) =
     (case map_of (rq_headers rq) (str_lower key) of
        None \<Rightarrow> first_header_ip lib io rq keys
      | Some v \<Rightarrow>
          (case get_ip_from_header lib v (io_subnet io) (io_trusted io) of
             None \<Rightarrow> first_header_ip lib io rq keys
           | Some ip \<Rightarrow> if ip = [] then first_header_ip lib io rq keys else Some ip))"

definition get_request_ip :: "ip_lib \<Rightarrow> ip_options \<Rightarrow> request \<Rightarrow> string option" where
  "get_request_ip lib io rq =
     (if io_disable io then None else first_header_ip lib io rq (io_headers io))"

section \<open>Properties\<close>

lemma split_on_append:
  "split_on c (xs @ c # ys) = split_on c xs @ split_on c ys"
proof (induction xs)
  case (Cons x xs)
  have "split_on c xs \<noteq> []" for xs by (induction xs) (auto split: list.splits)
  with Cons show ?case by (auto split: list.splits)
qed simp

lemma hops_append: "hops (xs @ CHR '','' # ys) = hops xs @ hops ys"
  by (simp add: hops_def split_on_append)

lemma walk_hops_append:
  "walk_hops lib subnet proxies hs = Some ip \<Longrightarrow> walk_hops lib subnet proxies (hs @ hs') = Some ip"
  by (induction hs) (auto split: option.splits if_splits)

lemma walk_hops_Some:
  "walk_hops lib subnet proxies hs = Some ip \<Longrightarrow>
   \<exists>near hop far a. hs = near @ hop # far \<and> ip = normalize_ip lib hop subnet \<and>
     canonical_addr lib hop = Some a \<and> \<not> list_ex (in_network a) proxies \<and>
     (\<forall>h\<in>set near. \<exists>b. canonical_addr lib h = Some b \<and> list_ex (in_network b) proxies)"
proof (induction hs)
  case (Cons h hs)
  show ?case
  proof (cases "walk_hops lib subnet proxies hs = Some ip \<and>
      (\<exists>b. canonical_addr lib h = Some b \<and> list_ex (in_network b) proxies)")
    case True
    then obtain near hop far a where ih: "hs = near @ hop # far" "ip = normalize_ip lib hop subnet"
      "canonical_addr lib hop = Some a" "\<not> list_ex (in_network a) proxies"
      "\<forall>h\<in>set near. \<exists>b. canonical_addr lib h = Some b \<and> list_ex (in_network b) proxies"
      using Cons.IH by blast
    with True show ?thesis by (intro exI[of _ "h # near"] exI[of _ hop] exI[of _ far] exI[of _ a]) auto
  next
    case False
    with Cons.prems obtain a where "canonical_addr lib h = Some a" "\<not> list_ex (in_network a) proxies"
      "ip = normalize_ip lib h subnet" by (auto split: option.splits if_splits)
    then show ?thesis by (intro exI[of _ "[]"] exI[of _ h] exI[of _ hs] exI[of _ a]) auto
  qed
qed simp

text \<open>
  C20: A client cannot choose its address. Behind trusted proxies, the address a forwarded header
  resolves to is that of a hop that is no trusted proxy while every hop after it is one; and
  whatever a client puts in front of a chain that resolves leaves the result as it is.
\<close>
theorem forwarded_chain_unspoofable:
  assumes "get_ip_from_header lib v subnet trusted = Some ip" "proxies_of lib trusted \<noteq> []"
  shows "(\<exists>far hop near a. hops v = far @ hop # near \<and> ip = normalize_ip lib hop subnet \<and>
      canonical_addr lib hop = Some a \<and> \<not> list_ex (in_network a) (proxies_of lib trusted) \<and>
      (\<forall>h\<in>set near. \<exists>b. canonical_addr lib h = Some b \<and> list_ex (in_network b) (proxies_of lib trusted))) \<and>
    get_ip_from_header lib (forged @ '','' @ v) subnet trusted = Some ip"
proof -
  have walk: "walk_hops lib subnet (proxies_of lib trusted) (rev (hops v)) = Some ip"
    using assms by (auto simp: get_ip_from_header_def Let_def split: if_splits)
  from walk_hops_Some[OF this] obtain near hop far a where
    "rev (hops v) = near @ hop # far" and rest: "ip = normalize_ip lib hop subnet"
      "canonical_addr lib hop = Some a" "\<not> list_ex (in_network a) (proxies_of lib trusted)"
      "\<forall>h\<in>set near. \<exists>b. canonical_addr lib h = Some b \<and> list_ex (in_network b) (proxies_of lib trusted)"
    by blast
  then have "hops v = rev far @ hop # rev near" by (metis append.assoc append_Cons append_Nil rev.simps(2) rev_append rev_rev_ident)
  moreover have "\<forall>h\<in>set (rev near). \<exists>b. canonical_addr lib h = Some b \<and> list_ex (in_network b) (proxies_of lib trusted)"
    using rest(4) by simp
  moreover have "get_ip_from_header lib (forged @ '','' @ v) subnet trusted = Some ip"
    using walk walk_hops_append[OF walk, of "rev (hops forged)"] assms(2)
    by (auto simp: get_ip_from_header_def Let_def hops_append)
  ultimately show ?thesis using rest(1-3) by blast
qed

text \<open>A toy reader of one-letter addresses for the witnesses.\<close>

definition letters :: ip_lib where
  "letters = \<lparr>ip_address = (\<lambda>s. case s of [c] \<Rightarrow> Some (V4 (of_nat (of_char c))) | _ \<Rightarrow> None),
     ip_network = (\<lambda>s. case s of [c] \<Rightarrow> Some (Net4 (of_nat (of_char c)) 32) | _ \<Rightarrow> None),
     ip_str = (\<lambda>a. case a of V4 w \<Rightarrow> [char_of (unat w)] | V6 w \<Rightarrow> [])\<rparr>"

theorem forwarded_chain_unspoofable_witness:
  "get_ip_from_header letters ''x, c, p'' 64 [''p''] = Some ''c''"
proof -
  have "get_ip_from_header letters '' c, p'' 64 [''p''] = Some ''c''" "proxies_of letters [''p''] \<noteq> []"
    by code_simp+
  from forwarded_chain_unspoofable[OF this, of "''x''"] show ?thesis by simp
qed

lemma network_address_bit:
  "bit (network_address p (a :: 'a::len word)) n \<longleftrightarrow> LENGTH('a) - p \<le> n \<and> bit a n"
  by (auto simp: network_address_def bit_push_bit_iff bit_drop_bit_eq bit_imp_le_length)

lemma network_address_eq:
  "network_address p a = network_address p b \<longleftrightarrow> (\<forall>i\<ge>LENGTH('a) - p. bit (a :: 'a::len word) i = bit b i)"
  by (auto simp: bit_eq_iff network_address_bit dest: bit_imp_le_length)

text \<open>
  Rate limits and session records see one key per IPv6 subnet: two addresses normalize to the
  same text exactly when they agree on the first \<open>ipv6_subnet\<close> bits (clamped to 0..128), so moving
  inside the own subnet does not give a client a new key, and no other subnet shares it.
\<close>
theorem ip_key_per_subnet:
  assumes "inj (ip_str lib)" "canonical_addr lib x = Some (V6 a)" "canonical_addr lib y = Some (V6 b)"
  shows "normalize_ip lib x n = normalize_ip lib y n \<longleftrightarrow> (\<forall>i\<ge>128 - clamp_prefix n. bit a i = bit b i)"
  using assms(2,3) inj_eq[OF assms(1)] by (simp add: normalize_ip_def network_address_eq)

text \<open>Addresses read from and printed as binary text.\<close>

definition binary :: ip_lib where
  "binary = \<lparr>ip_address = (\<lambda>s. Some (V6 (of_nat (length s)))), ip_network = (\<lambda>_. None),
     ip_str = (\<lambda>a. case a of V4 w \<Rightarrow> CHR ''4'' # replicate (unat w) CHR ''1''
                         | V6 w \<Rightarrow> CHR ''6'' # replicate (unat w) CHR ''1'')\<rparr>"

lemma binary_inj: "inj (ip_str binary)"
  by (auto simp: inj_def binary_def replicate_eq_replicate word_unat_eq_iff split: addr.splits)

theorem ip_key_per_subnet_witness:
  "normalize_ip binary ''aaaa'' 127 = normalize_ip binary ''aaaaa'' 127"
proof -
  have addrs: "canonical_addr binary ''aaaa'' = Some (V6 4)" "canonical_addr binary ''aaaaa'' = Some (V6 5)"
    by code_simp+
  have "bit (4 :: 128 word) i = bit (5 :: 128 word) i" if "128 - clamp_prefix 127 \<le> i" for i
  proof -
    have "1 \<le> i" using that by (simp add: clamp_prefix_def)
    then obtain j where "i = Suc j" by (cases i) simp_all
    then show ?thesis by (simp add: bit_Suc)
  qed
  with ip_key_per_subnet[OF binary_inj addrs, of 127] show ?thesis by blast
qed

lemma network_address_idem [simp]: "network_address p (network_address p a) = network_address p a"
  by (rule bit_word_eqI) (simp add: network_address_bit)

end
