(* ===== verification/Origin.thy ===== *)
theory Origin
  imports Urls Ip
begin

text \<open>
  \<open>origin.py\<close>: the origin and CSRF check that runs before every state-changing request, and the check of
  the callback URLs in its body. A request body is given by what \<open>json.loads\<close> and \<open>parse_qsl\<close> make of
  it; the callable form of \<open>trusted_origins\<close> is a function of the request.
\<close>

section \<open>Configuration\<close>

datatype trusted = TrustedList "string list" | TrustedFn "request \<Rightarrow> string list result"

datatype origin_skip = SkipNone | SkipAll | SkipPaths "string list"

record origin_conf =
  oc_dynamic :: "string list"
  oc_base_url :: string
  oc_trusted :: trusted
  oc_disable_csrf :: "bool option"
  oc_skip :: origin_skip
  oc_trusted_proxy :: bool
  oc_bracketed :: bracketed

record body =
  bd_empty :: bool
  bd_json :: "pyval option"
  bd_form :: "(string \<times> string) list"

definition header :: "request \<Rightarrow> string \<Rightarrow> string" where
  "header rq k = (case map_of (rq_headers rq) k of Some v \<Rightarrow> v | None \<Rightarrow> [])"

section \<open>Trusted origins\<close>

definition resolve_trusted_origins :: "origin_conf \<Rightarrow> request \<Rightarrow> string list result" where
  "resolve_trusted_origins oc rq =
     bindR
       (if oc_dynamic oc \<noteq> [] then Inr (oc_dynamic oc)
        else bindR (get_origin (oc_bracketed oc) (oc_base_url oc)) (\<lambda>b.
               Inr (case b of Some org \<Rightarrow> [org] | None \<Rightarrow> []))) (\<lambda>origins.
     case oc_trusted oc of
       TrustedFn f \<Rightarrow> bindR (f rq) (\<lambda>more. Inr (origins @ filter (\<lambda>p. p \<noteq> []) more))
     | TrustedList ps \<Rightarrow> Inr (origins @ ps))"

fun any_matches :: "bracketed \<Rightarrow> string \<Rightarrow> bool \<Rightarrow> string list \<Rightarrow> bool result" where
  "any_matches vb url allow_relative [] = Inr False"
| "any_matches vb url allow_relative (p # ps) =
     bindR (matches_origin_pattern vb url p allow_relative) (\<lambda>hit.
       if hit then Inr True else any_matches vb url allow_relative ps)"

definition is_trusted_origin :: "origin_conf \<Rightarrow> request \<Rightarrow> string \<Rightarrow> bool \<Rightarrow> bool result" where
  "is_trusted_origin oc rq url allow_relative =
     bindR (resolve_trusted_origins oc rq) (any_matches (oc_bracketed oc) url allow_relative)"

definition URL_ERROR_CODES :: "(string \<times> string) list" where
  "URL_ERROR_CODES = [
     (''origin'', ''INVALID_ORIGIN''),
     (''callbackURL'', ''INVALID_CALLBACK_URL''),
     (''redirectURL'', ''INVALID_REDIRECT_URL''),
     (''errorCallbackURL'', ''INVALID_ERROR_CALLBACK_URL''),
     (''newUserCallbackURL'', ''INVALID_NEW_USER_CALLBACK_URL'')]"

definition validate_url :: "origin_conf \<Rightarrow> request \<Rightarrow> pyval \<Rightarrow> string \<Rightarrow> unit result" where
  "validate_url oc rq url label =
     (if \<not> py_truthy url then Inr ()
      else case url of
             VStr s \<Rightarrow>
               bindR (is_trusted_origin oc rq s (label \<noteq> ''origin'')) (\<lambda>ok.
                 if ok then Inr ()
                 else case map_of URL_ERROR_CODES label of
                        Some code \<Rightarrow> Inl (APIError 403 code (''Invalid '' @ label) [])
                      | None \<Rightarrow> Inl KeyError)
           | _ \<Rightarrow> Inl (APIError 400 ''BAD_REQUEST'' (''Invalid '' @ label @ '': expected a string'') []))"

text \<open>The origin the request was sent to.\<close>

definition request_origin :: "origin_conf \<Rightarrow> request \<Rightarrow> string option result" where
  "request_origin oc rq =
     (let host = header rq ''x-forwarded-host''; proto = header rq ''x-forwarded-proto''
      in if host \<noteq> [] \<and> proto \<noteq> [] \<and> oc_trusted_proxy oc \<and> validate_proxy_header proto ''proto'' \<and>
            validate_proxy_header host ''host''
         then get_origin (oc_bracketed oc) (proto @ ''://'' @ host)
         else case rq_url rq of
                Some u \<Rightarrow> if u \<noteq> [] then get_origin (oc_bracketed oc) u else Inr None
              | None \<Rightarrow> Inr None)"

definition should_skip :: "origin_conf \<Rightarrow> string \<Rightarrow> bool" where
  "should_skip oc path =
     (case oc_skip oc of
        SkipAll \<Rightarrow> True
      | SkipPaths ps \<Rightarrow> list_ex (\<lambda>p. path = rstrip_slash p \<or> starts_with path (rstrip_slash p @ ''/'')) ps
      | SkipNone \<Rightarrow> False)"

text \<open>\<open>disable_csrf_check\<close>, or \<open>disable_origin_check=True\<close> with that option unset.\<close>

definition csrf_off :: "origin_conf \<Rightarrow> bool" where
  "csrf_off oc \<longleftrightarrow> oc_disable_csrf oc = Some True \<or> (oc_skip oc = SkipAll \<and> oc_disable_csrf oc = None)"

definition has_header :: "request \<Rightarrow> string \<Rightarrow> bool" where
  "has_header rq k \<longleftrightarrow> map_of (rq_headers rq) k \<noteq> None"

text \<open>What stands for the origin of a request: its own target for a same-origin \<open>Origin: null\<close>.\<close>

definition effective_origin :: "origin_conf \<Rightarrow> request \<Rightarrow> string result" where
  "effective_origin oc rq =
     (let claimed = (if header rq ''origin'' \<noteq> [] then header rq ''origin'' else header rq ''referer'')
      in bindR
           (if header rq ''origin'' = ''null'' \<and> header rq ''sec-fetch-site'' = ''same-origin''
            then request_origin oc rq else Inr None) (\<lambda>inferred.
         Inr (case inferred of Some x \<Rightarrow> if x \<noteq> [] then x else claimed | None \<Rightarrow> claimed)))"

definition validate_origin :: "origin_conf \<Rightarrow> request \<Rightarrow> bool \<Rightarrow> unit result" where
  "validate_origin oc rq force =
     (if csrf_off oc then Inr ()
      else if should_skip oc (rq_path rq) then Inr ()
      else if \<not> (force \<or> has_header rq ''cookie'') then Inr ()
      else
        bindR (effective_origin oc rq) (\<lambda>org.
          if org = [] \<or> org = ''null'' then
            Inl (APIError 403 ''MISSING_OR_NULL_ORIGIN'' ''Missing or null Origin'' [])
          else
            bindR (is_trusted_origin oc rq org False) (\<lambda>ok.
              if ok then Inr () else Inl (APIError 403 ''INVALID_ORIGIN'' ''Invalid origin'' []))))"

definition err_cross_site :: exn where
  "err_cross_site = APIError 403 ''CROSS_SITE_NAVIGATION_LOGIN_BLOCKED''
     ''Cross-site navigation login blocked. This request appears to be a CSRF attack.'' []"

definition validate_form_csrf :: "origin_conf \<Rightarrow> request \<Rightarrow> unit result" where
  "validate_form_csrf oc rq =
     (if csrf_off oc then Inr ()
      else if has_header rq ''cookie'' then validate_origin oc rq False
      else
        (let site = strip (header rq ''sec-fetch-site'');
             mode = strip (header rq ''sec-fetch-mode'');
             dest = strip (header rq ''sec-fetch-dest'')
         in if site \<noteq> [] \<or> mode \<noteq> [] \<or> dest \<noteq> [] then
              (if site = ''cross-site'' \<and> mode = ''navigate'' then Inl err_cross_site
               else validate_origin oc rq True)
            else if header rq ''origin'' \<noteq> [] \<or> header rq ''referer'' \<noteq> [] then
              validate_origin oc rq True
            else Inr ()))"

section \<open>The check\<close>

definition err_invalid_json :: exn where
  "err_invalid_json = APIError 400 ''INVALID_BODY'' ''Invalid JSON body'' []"

definition err_not_object :: exn where
  "err_not_object = APIError 400 ''INVALID_BODY'' ''Expected a JSON object'' []"

text \<open>\<open>AuthRequest.json\<close> of \<open>types.py\<close>.\<close>

definition request_json :: "body \<Rightarrow> row result" where
  "request_json b =
     (if bd_empty b then Inr []
      else case bd_json b of
             None \<Rightarrow> Inl err_invalid_json
           | Some (VDict d) \<Rightarrow> Inr d
           | Some _ \<Rightarrow> Inl err_not_object)"

definition body_for_origin_check :: "request \<Rightarrow> body \<Rightarrow> row result" where
  "body_for_origin_check rq b =
     (if bd_empty b then Inr []
      else if str_lower (strip (hd (split_on CHR '';'' (header rq ''content-type'')))) =
              ''application/x-www-form-urlencoded''
      then Inr (map (\<lambda>(k, v). (k, VStr v)) (dmerge [] (bd_form b)))
      else request_json b)"

definition query_value :: "request \<Rightarrow> string \<Rightarrow> pyval" where
  "query_value rq k = (case map_of (rq_query rq) k of Some v \<Rightarrow> VStr v | None \<Rightarrow> VNone)"

definition check_origin :: "origin_conf \<Rightarrow> request \<Rightarrow> body \<Rightarrow> unit result" where
  "check_origin oc rq b =
     (if rq_method rq \<in> {''GET'', ''OPTIONS'', ''HEAD''} then Inr ()
      else
        bindR (validate_origin oc rq False) (\<lambda>_.
        bindR
          (if starts_with (rq_path rq) ''/sign-in'' \<or> starts_with (rq_path rq) ''/sign-up''
           then validate_form_csrf oc rq else Inr ()) (\<lambda>_.
        if should_skip oc (rq_path rq) then Inr ()
        else
          bindR (body_for_origin_check rq b) (\<lambda>d.
          bindR (validate_url oc rq (py_or (dget d ''callbackURL'') (query_value rq ''callbackURL'')) ''callbackURL'') (\<lambda>_.
          bindR (validate_url oc rq (dget d ''redirectTo'') ''redirectURL'') (\<lambda>_.
          bindR (validate_url oc rq (dget d ''errorCallbackURL'') ''errorCallbackURL'') (\<lambda>_.
            validate_url oc rq (dget d ''newUserCallbackURL'') ''newUserCallbackURL'')))))))"

section \<open>Relative URLs and wildcards\<close>

lemma control_chars: "\<not> is_control c \<Longrightarrow> (of_char c :: nat) \<notin> {9, 10, 13}"
  by (auto simp: is_control_def Let_def)

lemma clean_relative:
  assumes "v = CHR ''/'' # s" "\<not> list_ex is_control v"
  shows "clean_url v = v"
  using assms control_chars by (auto simp: clean_url_def list_ex_iff intro!: filter_True)

text \<open>A URL accepted as relative has neither a scheme nor a host of its own.\<close>

lemma safe_relative_split:
  assumes "is_safe_relative_url v"
  shows "\<exists>parts. urlsplit vb v = Inr parts \<and> u_scheme parts = [] \<and> u_netloc parts = []"
proof -
  from assms have p: "starts_with v ''/''" "\<not> starts_with v ''//''" "\<not> list_ex is_control v"
    by (auto simp: is_safe_relative_url_def split: if_splits)
  then obtain s where v: "v = CHR ''/'' # s" by (auto simp: starts_with_prefix elim: prefixE)
  have "clean_url v = v" by (rule clean_relative[OF v p(3)])
  moreover have "split_scheme v = ([], v)"
    by (auto simp: split_scheme_def v partition_at_def is_alpha_def split: list.splits)
  ultimately show ?thesis using p(2) by (auto simp: urlsplit_def Let_def split: prod.splits)
qed

definition plain_text :: "string \<Rightarrow> bool" where
  "plain_text s \<longleftrightarrow> CHR ''*'' \<notin> set s \<and> CHR ''?'' \<notin> set s"

lemma wildcard_tokens_plain: "plain_text s \<Longrightarrow> wildcard_tokens s = map Lit s"
  by (induction s) (auto simp: plain_text_def)

lemma match_literal: "match_tokens (map Lit p) s \<longleftrightarrow> s = p \<or> s = p @ [nl]"
  by (induction p arbitrary: s) (auto split: list.splits)

lemma match_any_run:
  "match_tokens (AnyRun # p) s \<longleftrightarrow> (\<exists>x y. s = x @ y \<and> list_all no_separator x \<and> match_tokens p y)"
proof (induction s)
  case (Cons c s)
  show ?case
  proof
    assume "match_tokens (AnyRun # p) (c # s)"
    then consider "match_tokens p (c # s)" | "no_separator c" "match_tokens (AnyRun # p) s" by auto
    then show "\<exists>x y. c # s = x @ y \<and> list_all no_separator x \<and> match_tokens p y"
    proof cases
      case 1
      then show ?thesis by (intro exI[of _ "[]"] exI[of _ "c # s"]) simp
    next
      case 2
      with Cons.IH obtain x y where "s = x @ y" "list_all no_separator x" "match_tokens p y" by auto
      with 2 show ?thesis by (intro exI[of _ "c # x"] exI[of _ y]) simp
    qed
  next
    assume "\<exists>x y. c # s = x @ y \<and> list_all no_separator x \<and> match_tokens p y"
    then obtain x y where "c # s = x @ y" "list_all no_separator x" "match_tokens p y" by blast
    then show "match_tokens (AnyRun # p) (c # s)" using Cons.IH by (cases x) auto
  qed
qed simp

text \<open>
  A one-star pattern trusts exactly the names with that ending: \<open>*\<close> followed by plain text
  matches a string when some run without a slash or backslash precedes the text, up to one final
  newline. So \<open>*.example.com\<close> cannot be satisfied by a path or by a backslash behind another host.
\<close>
theorem wildcard_ending:
  assumes "plain_text ending" "ending = [] \<or> hd ending \<noteq> CHR ''*''"
  shows "wildcard_match (CHR ''*'' # ending) s \<longleftrightarrow>
    (\<exists>x. list_all no_separator x \<and> (s = x @ ending \<or> s = x @ ending @ [nl]))"
proof -
  have "wildcard_tokens (CHR ''*'' # ending) = AnyRun # map Lit ending"
    using assms wildcard_tokens_plain[OF assms(1)] by (cases ending) auto
  then show ?thesis by (auto simp: wildcard_match_def match_any_run match_literal simp del: match_tokens.simps)
qed

theorem wildcard_ending_witness:
  "wildcard_match ''*.ex.com'' ''a.b.ex.com'' \<and> \<not> wildcard_match ''*.ex.com'' ''evil.com/.ex.com''"
proof -
  have e: "plain_text ''.ex.com''" "hd ''.ex.com'' \<noteq> CHR ''*''" by (simp_all add: plain_text_def)
  have "list_all no_separator ''a.b''" by (simp add: no_separator_def)
  then have "wildcard_match ''*.ex.com'' ''a.b.ex.com''"
    using wildcard_ending[OF e(1), of "''a.b.ex.com''"] e(2) by (metis append_Cons append_Nil)
  moreover have "\<not> list_all no_separator x" if "''evil.com/.ex.com'' = x @ ''.ex.com''" for x
  proof -
    from that have "''evil.com/'' @ ''.ex.com'' = x @ ''.ex.com''" by simp
    then have "x = ''evil.com/''" by (metis append_same_eq)
    then show ?thesis by (simp add: no_separator_def)
  qed
  moreover have "''evil.com/.ex.com'' \<noteq> x @ ''.ex.com'' @ [nl]" for x
  proof
    assume "''evil.com/.ex.com'' = x @ ''.ex.com'' @ [nl]"
    then have "last ''evil.com/.ex.com'' = nl" by (metis append_assoc last_snoc)
    then show False by (simp add: nl_def)
  qed
  ultimately show ?thesis
    using wildcard_ending[OF e(1), of "''evil.com/.ex.com''"] e(2) by auto
qed

section \<open>What a passed check guarantees\<close>

definition trusted_by :: "origin_conf \<Rightarrow> request \<Rightarrow> string \<Rightarrow> bool \<Rightarrow> bool" where
  "trusted_by oc rq url allow_relative \<longleftrightarrow>
     (\<exists>ps. resolve_trusted_origins oc rq = Inr ps \<and>
        (\<exists>p\<in>set ps. matches_origin_pattern (oc_bracketed oc) url p allow_relative = Inr True))"

lemma any_matches_True:
  "any_matches vb url rel ps = Inr True \<Longrightarrow> \<exists>p\<in>set ps. matches_origin_pattern vb url p rel = Inr True"
  by (induction ps) (auto simp: bindR_Inr_iff split: if_splits)

lemma is_trusted_originD: "is_trusted_origin oc rq url rel = Inr True \<Longrightarrow> trusted_by oc rq url rel"
  by (auto simp: is_trusted_origin_def trusted_by_def bindR_Inr_iff dest: any_matches_True)

lemma validate_originD:
  assumes "validate_origin oc rq force = Inr ()" "\<not> csrf_off oc" "\<not> should_skip oc (rq_path rq)"
    and "force \<or> has_header rq ''cookie''"
  shows "\<exists>org. effective_origin oc rq = Inr org \<and> org \<notin> {[], ''null''} \<and> trusted_by oc rq org False"
  using assms by (auto simp: validate_origin_def bindR_Inr_iff split: if_splits dest!: is_trusted_originD)

lemma check_originD:
  assumes "check_origin oc rq b = Inr ()" "rq_method rq \<notin> {''GET'', ''OPTIONS'', ''HEAD''}"
  shows "validate_origin oc rq False = Inr ()"
    and "starts_with (rq_path rq) ''/sign-in'' \<or> starts_with (rq_path rq) ''/sign-up'' \<Longrightarrow> validate_form_csrf oc rq = Inr ()"
  using assms by (auto simp: check_origin_def bindR_Inr_iff split: if_splits)

lemma validate_urlD:
  assumes "validate_url oc rq (VStr url) label = Inr ()" "url \<noteq> []" "label \<noteq> ''origin''"
  shows "trusted_by oc rq url True"
  using assms
  by (auto simp: validate_url_def bindR_Inr_iff py_truthy.simps split: if_splits option.splits dest!: is_trusted_originD)

text \<open>
  C13: Cross-site requests cannot ride on a cookie. If a state-changing request that carries a cookie
  passes the check, with CSRF protection on and its path not exempted, then its origin (the
  \<open>Origin\<close> header, else \<open>Referer\<close>, or its own target for a same-origin form with a null origin) is
  present and matches a trusted origin.
\<close>
theorem cookie_requests_trusted:
  assumes "check_origin oc rq b = Inr ()" "rq_method rq \<notin> {''GET'', ''OPTIONS'', ''HEAD''}"
    and "\<not> csrf_off oc" "\<not> should_skip oc (rq_path rq)" "has_header rq ''cookie''"
  shows "\<exists>org. effective_origin oc rq = Inr org \<and> org \<notin> {[], ''null''} \<and> trusted_by oc rq org False"
  using validate_originD[OF check_originD(1)[OF assms(1,2)] assms(3,4)] assms(5) by blast

text \<open>
  Login forms are protected before there is a cookie. A sign-in or sign-up request without a
  cookie that passes the check is no cross-site navigation, and whenever it carries Fetch Metadata,
  an \<open>Origin\<close> or a \<open>Referer\<close> (and its path is not exempted) its origin is trusted.
\<close>
theorem login_forms_trusted:
  assumes "check_origin oc rq b = Inr ()" "rq_method rq \<notin> {''GET'', ''OPTIONS'', ''HEAD''}"
    and "\<not> csrf_off oc" "\<not> has_header rq ''cookie''"
    and "starts_with (rq_path rq) ''/sign-in'' \<or> starts_with (rq_path rq) ''/sign-up''"
  shows "\<not> (strip (header rq ''sec-fetch-site'') = ''cross-site'' \<and> strip (header rq ''sec-fetch-mode'') = ''navigate'') \<and>
    ((\<exists>k\<in>{''sec-fetch-site'', ''sec-fetch-mode'', ''sec-fetch-dest''}. strip (header rq k) \<noteq> []) \<or>
     header rq ''origin'' \<noteq> [] \<or> header rq ''referer'' \<noteq> [] \<longrightarrow> \<not> should_skip oc (rq_path rq) \<longrightarrow>
     (\<exists>org. effective_origin oc rq = Inr org \<and> org \<notin> {[], ''null''} \<and> trusted_by oc rq org False))"
proof -
  have form: "validate_form_csrf oc rq = Inr ()" by (rule check_originD(2)[OF assms(1,2,5)])
  have "strip (header rq ''sec-fetch-site'') \<noteq> ''cross-site'' \<or> strip (header rq ''sec-fetch-mode'') \<noteq> ''navigate''"
    using form assms(3,4) by (auto simp: validate_form_csrf_def Let_def split: if_splits)
  moreover have "validate_origin oc rq True = Inr ()"
    if "(\<exists>k\<in>{''sec-fetch-site'', ''sec-fetch-mode'', ''sec-fetch-dest''}. strip (header rq k) \<noteq> []) \<or>
      header rq ''origin'' \<noteq> [] \<or> header rq ''referer'' \<noteq> []"
    using form assms(3,4) that by (auto simp: validate_form_csrf_def Let_def split: if_splits)
  ultimately show ?thesis using validate_originD[of oc rq True] assms(3) by blast
qed

text \<open>
  C19: Redirect targets stay on trusted ground. When the check passes on a path that is not exempted,
  a callback, redirect, error-callback or new-user URL in the body is either a relative reference
  with no scheme and no host of its own, or an absolute URL that matches a trusted origin.
\<close>
theorem redirect_targets_trusted:
  assumes "check_origin oc rq b = Inr ()" "rq_method rq \<notin> {''GET'', ''OPTIONS'', ''HEAD''}"
    and "\<not> should_skip oc (rq_path rq)" "body_for_origin_check rq b = Inr d"
    and target: "dget d k = VStr url" "k \<in> {''callbackURL'', ''redirectTo'', ''errorCallbackURL'', ''newUserCallbackURL''}" "url \<noteq> []"
  shows "if starts_with url ''/''
    then \<exists>parts. urlsplit vb url = Inr parts \<and> u_scheme parts = [] \<and> u_netloc parts = []
    else trusted_by oc rq url True"
proof -
  have urls: "validate_url oc rq (py_or (dget d ''callbackURL'') (query_value rq ''callbackURL'')) ''callbackURL'' = Inr ()"
    "validate_url oc rq (dget d ''redirectTo'') ''redirectURL'' = Inr ()"
    "validate_url oc rq (dget d ''errorCallbackURL'') ''errorCallbackURL'' = Inr ()"
    "validate_url oc rq (dget d ''newUserCallbackURL'') ''newUserCallbackURL'' = Inr ()"
    using assms(1-4) by (auto simp: check_origin_def bindR_Inr_iff split: if_splits)
  have "py_or (VStr url) v = VStr url" for v using target(3) by (simp add: py_or_def py_truthy.simps)
  with urls target have trusted: "trusted_by oc rq url True"
    by (auto intro: validate_urlD[OF _ target(3)])
  show ?thesis
  proof (cases "starts_with url ''/''")
    case True
    from trusted obtain p where "matches_origin_pattern (oc_bracketed oc) url p True = Inr True"
      by (auto simp: trusted_by_def)
    with True have "is_safe_relative_url url" by (simp add: matches_origin_pattern_def)
    with True show ?thesis using safe_relative_split by simp
  next
    case False
    with trusted show ?thesis by simp
  qed
qed

section \<open>Witnesses\<close>

definition demo_origin :: origin_conf where
  "demo_origin = \<lparr>oc_dynamic = [], oc_base_url = ''https://app.ex'', oc_trusted = TrustedList [''https://*.ex.com''],
     oc_disable_csrf = None, oc_skip = SkipNone, oc_trusted_proxy = False, oc_bracketed = (\<lambda>_. True)\<rparr>"

definition demo_post :: "string \<Rightarrow> (string \<times> string) list \<Rightarrow> request" where
  "demo_post path hs = \<lparr>rq_method = ''POST'', rq_path = path, rq_headers = hs, rq_query = [], rq_cookies = [],
     rq_client_ip = None, rq_url = None\<rparr>"

definition demo_body :: body where
  "demo_body = \<lparr>bd_empty = False, bd_json = Some (VDict [(''callbackURL'', VStr ''/home'')]), bd_form = []\<rparr>"

theorem cookie_requests_trusted_witness:
  "\<exists>org. effective_origin demo_origin (demo_post ''/sign-out'' [(''cookie'', ''s=1''), (''origin'', ''https://a.ex.com'')]) = Inr org \<and>
     trusted_by demo_origin (demo_post ''/sign-out'' [(''cookie'', ''s=1''), (''origin'', ''https://a.ex.com'')]) org False"
proof -
  let ?rq = "demo_post ''/sign-out'' [(''cookie'', ''s=1''), (''origin'', ''https://a.ex.com'')]"
  have "check_origin demo_origin ?rq demo_body = Inr ()" "rq_method ?rq \<notin> {''GET'', ''OPTIONS'', ''HEAD''}"
    "\<not> csrf_off demo_origin" "\<not> should_skip demo_origin (rq_path ?rq)" "has_header ?rq ''cookie''"
    by code_simp+
  from cookie_requests_trusted[OF this] show ?thesis by blast
qed

theorem login_forms_trusted_witness:
  "trusted_by demo_origin (demo_post ''/sign-in/email'' [(''origin'', ''https://app.ex'')]) ''https://app.ex'' False"
proof -
  let ?rq = "demo_post ''/sign-in/email'' [(''origin'', ''https://app.ex'')]"
  have "check_origin demo_origin ?rq demo_body = Inr ()" "rq_method ?rq \<notin> {''GET'', ''OPTIONS'', ''HEAD''}"
    "\<not> csrf_off demo_origin" "\<not> has_header ?rq ''cookie''"
    "starts_with (rq_path ?rq) ''/sign-in'' \<or> starts_with (rq_path ?rq) ''/sign-up''"
    "header ?rq ''origin'' \<noteq> []" "\<not> should_skip demo_origin (rq_path ?rq)"
    "effective_origin demo_origin ?rq = Inr ''https://app.ex''"
    by code_simp+
  with login_forms_trusted[OF this(1-5)] show ?thesis by auto
qed

theorem redirect_targets_trusted_witness:
  "\<exists>parts. urlsplit (\<lambda>_. True) ''/home'' = Inr parts \<and> u_netloc parts = []"
proof -
  let ?rq = "demo_post ''/sign-in/email'' [(''origin'', ''https://app.ex'')]"
  have "check_origin demo_origin ?rq demo_body = Inr ()" "rq_method ?rq \<notin> {''GET'', ''OPTIONS'', ''HEAD''}"
    "\<not> should_skip demo_origin (rq_path ?rq)" "starts_with ''/home'' ''/''"
    "body_for_origin_check ?rq demo_body = Inr [(''callbackURL'', VStr ''/home'')]"
    "dget [(''callbackURL'', VStr ''/home'')] ''callbackURL'' = VStr ''/home''"
    by code_simp+
  with redirect_targets_trusted[OF this(1-3,5,6), of "\<lambda>_. True"] show ?thesis by auto
qed

text \<open>
  A \<open>**\<close> in a pattern also spans a backslash, which \<open>urlsplit\<close> leaves in the host and a browser reads
  as the start of the path: \<open>https://evil.com\.ex.com\<close> passes for \<open>**.ex.com\<close>.
\<close>
lemma deep_wildcard_spans_backslash:
  "matches_origin_pattern (\<lambda>_. True) (''https://evil.com'' @ [CHR 0x5C] @ ''.ex.com'') ''**.ex.com'' True = Inr True"
  by code_simp

end
