(* ===== verification/Session.thy ===== *)
theory Session
  imports Internal_Ops Ip
begin

text \<open>
  \<open>session.py\<close> and \<open>cookie_cache.py\<close>: session cookies, reading the token of a request, creating and
  validating a session, and the signed cookie that caches it, in the compact and the jwt strategy.

  JSON text is produced by \<open>au_dumps\<close>; \<open>au_envelope\<close> is \<open>json.loads\<close> after base64url decoding, \<open>None\<close>
  when either fails. In JSON an instant is its ISO text, as in the internal adapter. PyJWT and the signer
  of the jwt plugin are the parameters \<open>au_cache_jwt\<close> and \<open>au_cache_signer\<close>; verification against a
  remote key set is left out. The numbers of a decoded payload are integers, as the code writes them. All
  readings of the clock in a call are one instant.
\<close>

section \<open>Configuration\<close>

text \<open>
  The \<open>jwt\<close> strategy of the cookie cache: PyJWT with HS256, and the signer that the jwt plugin may install
  for it. Each gets the seconds or the instant of the call.
\<close>

record cache_jwt =
  cj_encode :: "row \<Rightarrow> string \<Rightarrow> string"
  cj_decode :: "int \<Rightarrow> string \<Rightarrow> string \<Rightarrow> row option"

record cache_signer =
  cs_sign :: "int \<Rightarrow> row \<Rightarrow> int \<Rightarrow> string"
  cs_verify :: "int \<Rightarrow> string \<Rightarrow> (row \<times> int) option"

record auth =
  au_prefix :: string
  au_secure :: bool
  au_domain :: string
  au_secret :: string
  au_hmac :: hmac
  au_ic :: iconf
  au_schema :: schema
  au_ip_lib :: ip_lib
  au_ip :: ip_options
  au_expires_in :: int
  au_update_age :: int
  au_disable_refresh :: bool
  au_defer :: bool
  au_cache :: bool
  au_cache_age :: int
  au_cache_version :: string
  au_dumps :: "pyval \<Rightarrow> string"
  au_envelope :: "string \<Rightarrow> pyval option"
  au_cache_jwt :: "cache_jwt option"
  au_cache_signer :: "cache_signer option"

section \<open>Cookies\<close>

definition DONT_REMEMBER_EXPIRES_IN :: int where
  "DONT_REMEMBER_EXPIRES_IN = 86400"

definition cookie_name :: "auth \<Rightarrow> string \<Rightarrow> string" where
  "cookie_name au base =
     (let name = au_prefix au @ ''.'' @ base in if au_secure au then ''__Secure-'' @ name else name)"

fun join_parts :: "string \<Rightarrow> string list \<Rightarrow> string" where
  "join_parts sep [] = []"
| "join_parts sep [p] = p"
| "join_parts sep (p # q # ps) = p @ sep @ join_parts sep (q # ps)"

definition build_cookie :: "auth \<Rightarrow> string \<Rightarrow> int option \<Rightarrow> string \<Rightarrow> bool \<Rightarrow> string" where
  "build_cookie au v max_age base http_only =
     join_parts ''; ''
       ([cookie_name au base @ ''='' @ v, ''Path=/''] @
        (if http_only then [''HttpOnly''] else []) @ [''SameSite=Lax''] @
        (case max_age of Some n \<Rightarrow> [''Max-Age='' @ int_str n] | None \<Rightarrow> []) @
        (if au_secure au then [''Secure''] else []) @
        (if au_domain au \<noteq> [] then [''Domain='' @ au_domain au] else []))"

definition clear_cookie :: "auth \<Rightarrow> string \<Rightarrow> string" where
  "clear_cookie au base = build_cookie au [] (Some 0) base True"

definition delete_session_cookies :: "auth \<Rightarrow> string list" where
  "delete_session_cookies au =
     [clear_cookie au ''session_token'', clear_cookie au ''session_data'', clear_cookie au ''dont_remember'']"

definition get_cookie :: "auth \<Rightarrow> request \<Rightarrow> string \<Rightarrow> string option" where
  "get_cookie au rq base = map_of (rq_cookies rq) (cookie_name au base)"

definition read_token :: "auth \<Rightarrow> request \<Rightarrow> string option" where
  "read_token au rq =
     (case get_cookie au rq ''session_token'' of
        Some raw \<Rightarrow> unsign_value (au_hmac au) (au_secret au) raw
      | None \<Rightarrow>
          (let authorization = (case map_of (rq_headers rq) ''authorization'' of Some h \<Rightarrow> h | None \<Rightarrow> [])
           in if starts_with (str_lower authorization) ''bearer '' then
                (let bearer = strip (drop 7 authorization)
                 in case unsign_value (au_hmac au) (au_secret au) bearer of
                      Some token \<Rightarrow> Some token
                    | None \<Rightarrow> Some bearer)
              else None))"

section \<open>The cookie cache\<close>

text \<open>\<open>^\d{4}-\d{2}-\d{2}T\d{2}:\d{2}:\d{2}(?:\.\d+)?Z$\<close>, which also matches before one final newline.\<close>

definition iso_date_text :: "string \<Rightarrow> bool" where
  "iso_date_text s =
     (let t = (if s \<noteq> [] \<and> last s = CHR 0x0A then butlast s else s);
          shape = map (\<lambda>c. if is_digit c then CHR ''0'' else c) t;
          rest = drop 19 shape
      in take 19 shape = ''0000-00-00T00:00:00'' \<and>
         (rest = ''Z'' \<or>
          (rest \<noteq> [] \<and> hd rest = CHR ''.'' \<and> last rest = CHR ''Z'' \<and> butlast (tl rest) \<noteq> [] \<and>
           list_all (\<lambda>c. c = CHR ''0'') (butlast (tl rest)))))"

definition is_iso_date :: "pyval \<Rightarrow> bool" where
  "is_iso_date v = (case v of VStr s \<Rightarrow> iso_date_text s | _ \<Rightarrow> False)"

definition is_bool :: "pyval \<Rightarrow> bool" where
  "is_bool v = (case v of VBool _ \<Rightarrow> True | _ \<Rightarrow> False)"

definition is_int :: "pyval \<Rightarrow> bool" where
  "is_int v = (case v of VInt _ \<Rightarrow> True | _ \<Rightarrow> False)"

definition none_or_text :: "pyval \<Rightarrow> bool" where
  "none_or_text v \<longleftrightarrow> v = VNone \<or> is_str v"

definition absent_or_date :: "row \<Rightarrow> string \<Rightarrow> bool" where
  "absent_or_date d k \<longleftrightarrow> (case map_of d k of None \<Rightarrow> True | Some v \<Rightarrow> is_iso_date v)"

definition session_shape :: "row \<Rightarrow> bool" where
  "session_shape s \<longleftrightarrow>
     is_str (dget s ''id'') \<and> dget s ''userId'' \<noteq> VNone \<and> is_iso_date (dget s ''expiresAt'') \<and>
     is_str (dget s ''token'') \<and> none_or_text (dget s ''ipAddress'') \<and> none_or_text (dget s ''userAgent'') \<and>
     absent_or_date s ''createdAt'' \<and> absent_or_date s ''updatedAt''"

definition user_shape :: "row \<Rightarrow> bool" where
  "user_shape u \<longleftrightarrow>
     is_str (dget u ''id'') \<and> is_str (dget u ''email'') \<and> is_str (dget u ''name'') \<and>
     (case map_of u ''emailVerified'' of None \<Rightarrow> True | Some v \<Rightarrow> is_bool v) \<and>
     none_or_text (dget u ''image'') \<and> absent_or_date u ''createdAt'' \<and> absent_or_date u ''updatedAt''"

definition payload_ok :: "row \<Rightarrow> bool" where
  "payload_ok p \<longleftrightarrow>
     (case dget p ''session'' of VDict s \<Rightarrow> session_shape s | _ \<Rightarrow> False) \<and>
     (case dget p ''user'' of VDict u \<Rightarrow> user_shape u | _ \<Rightarrow> False) \<and>
     is_int (dget p ''updatedAt'') \<and> none_or_text (dget p ''version'')"

definition cache_payload :: "auth \<Rightarrow> env \<Rightarrow> row \<Rightarrow> row \<Rightarrow> row" where
  "cache_payload au ev session user =
     map (\<lambda>(k, v). (k, jsonify (ic_codec (au_ic au)) v))
       [(''session'', VDict (parse_session_output session (fields_of (au_schema au) ''session''))),
        (''user'', VDict (parse_user_output user (fields_of (au_schema au) ''user''))),
        (''updatedAt'', VInt (dt_ms (now ev))),
        (''version'', VStr (au_cache_version au))]"

definition encode_text :: "string \<Rightarrow> string" where
  "encode_text s = b64url_encode_nopad (map of_char s)"

definition cache_signature :: "auth \<Rightarrow> row \<Rightarrow> int \<Rightarrow> string" where
  "cache_signature au payload expires_at =
     sign_hmac_b64url (au_hmac au) (au_secret au)
       (au_dumps au (VDict (dset ''expiresAt'' (VInt expires_at) payload)))"

definition cache_envelope :: "auth \<Rightarrow> row \<Rightarrow> int \<Rightarrow> pyval" where
  "cache_envelope au payload expires_at =
     VDict [(''session'', VDict payload), (''expiresAt'', VInt expires_at),
            (''signature'', VStr (cache_signature au payload expires_at))]"

text \<open>\<open>max_age or default\<close>, where a browser session has no age.\<close>

definition age_or :: "int option \<Rightarrow> int \<Rightarrow> int" where
  "age_or max_age d = (case max_age of Some n \<Rightarrow> if n \<noteq> 0 then n else d | None \<Rightarrow> d)"

definition cache_claims :: "env \<Rightarrow> row \<Rightarrow> int option \<Rightarrow> row" where
  "cache_claims ev payload max_age =
     (let issued = now ev div 1000000
      in dmerge payload [(''iat'', VInt issued), (''exp'', VInt (issued + age_or max_age 300))])"

definition encode_cache :: "auth \<Rightarrow> env \<Rightarrow> row \<Rightarrow> int option \<Rightarrow> string" where
  "encode_cache au ev payload max_age =
     (case au_cache_jwt au of
        Some j \<Rightarrow> cj_encode j (cache_claims ev payload max_age) (au_secret au)
      | None \<Rightarrow>
          (let expires_at = dt_ms (now ev) + age_or max_age 60 * 1000
           in encode_text (au_dumps au (cache_envelope au payload expires_at))))"

definition make_cache_value :: "auth \<Rightarrow> env \<Rightarrow> row \<Rightarrow> row \<Rightarrow> string" where
  "make_cache_value au ev session user =
     encode_cache au ev (cache_payload au ev session user) (Some (au_cache_age au))"

definition signer_of :: "auth \<Rightarrow> cache_signer option" where
  "signer_of au = (if au_cache_jwt au = None then None else au_cache_signer au)"

text \<open>\<open>set_cookie_cache_async\<close>, which all the paths of a session use.\<close>

definition set_cookie_cache :: "auth \<Rightarrow> env \<Rightarrow> row \<Rightarrow> row \<Rightarrow> bool \<Rightarrow> string option" where
  "set_cookie_cache au ev session user dont_remember =
     (if \<not> au_cache au then None
      else
        (let max_age = (if dont_remember then None else Some (au_cache_age au));
             payload = cache_payload au ev session user;
             v = (case signer_of au of
                    Some sg \<Rightarrow> cs_sign sg (now ev) payload (age_or max_age 300)
                  | None \<Rightarrow> encode_cache au ev payload max_age)
         in Some (build_cookie au v max_age ''session_data'' True)))"

definition expire_cookie_cache :: "auth \<Rightarrow> string" where
  "expire_cookie_cache au = build_cookie au [] (Some 0) ''session_data'' True"

definition clear_cookie_cache :: "auth \<Rightarrow> string option" where
  "clear_cookie_cache au = (if \<not> au_cache au then None else Some (expire_cookie_cache au))"

definition decode_envelope :: "auth \<Rightarrow> string \<Rightarrow> (row \<times> int) option" where
  "decode_envelope au v =
     (case au_envelope au v of
        Some (VDict envelope) \<Rightarrow>
          (case (dget envelope ''session'', dget envelope ''signature'', dget envelope ''expiresAt'') of
             (VDict payload, VStr sig, VInt expires_at) \<Rightarrow>
               if sig \<noteq> cache_signature au payload expires_at then None
               else if payload_ok payload then Some (payload, expires_at) else None
           | _ \<Rightarrow> None)
      | _ \<Rightarrow> None)"

definition decode_sync :: "auth \<Rightarrow> env \<Rightarrow> string \<Rightarrow> (row \<times> int) option" where
  "decode_sync au ev v =
     (case au_cache_jwt au of
        None \<Rightarrow> decode_envelope au v
      | Some j \<Rightarrow>
          (case cj_decode j (now ev div 1000000) v (au_secret au) of
             None \<Rightarrow> None
           | Some claims \<Rightarrow>
               if \<not> payload_ok claims then None
               else Some (claims, case dget claims ''exp'' of
                                    VInt x \<Rightarrow> if x \<noteq> 0 then x * 1000 else dt_ms (now ev)
                                  | _ \<Rightarrow> dt_ms (now ev))))"

definition decode_cookie_cache :: "auth \<Rightarrow> env \<Rightarrow> string \<Rightarrow> (row \<times> int) option" where
  "decode_cookie_cache au ev v =
     (case signer_of au of Some sg \<Rightarrow> cs_verify sg (now ev) v | None \<Rightarrow> decode_sync au ev v)"

definition cache_is_current :: "auth \<Rightarrow> env \<Rightarrow> row \<times> int \<Rightarrow> bool" where
  "cache_is_current au ev decoded =
     (let (payload, expires_at) = decoded
      in if py_or (dget payload ''version'') (VStr ''1'') \<noteq> VStr (au_cache_version au) then False
         else expires_at * 1000 \<ge> now ev \<and>
              (case dget payload ''session'' of
                 VDict s \<Rightarrow> (case dget s ''expiresAt'' of
                    VStr x \<Rightarrow> (case parse_iso (ic_codec (au_ic au)) x of Inr t \<Rightarrow> t \<ge> now ev | Inl _ \<Rightarrow> False)
                  | _ \<Rightarrow> False)
               | _ \<Rightarrow> False))"

definition sub_dict :: "row \<Rightarrow> string \<Rightarrow> row" where
  "sub_dict d k = (case dget d k of VDict e \<Rightarrow> e | _ \<Rightarrow> [])"

definition get_cookie_cache :: "auth \<Rightarrow> env \<Rightarrow> request \<Rightarrow> (row \<times> row) option" where
  "get_cookie_cache au ev rq =
     (if \<not> au_cache au \<or> signer_of au \<noteq> None then None
      else case get_cookie au rq ''session_data'' of
             None \<Rightarrow> None
           | Some raw \<Rightarrow>
               (case (if raw \<noteq> [] then decode_sync au ev raw else None) of
                  None \<Rightarrow> None
                | Some decoded \<Rightarrow>
                    if cache_is_current au ev decoded
                    then Some (sub_dict (fst decoded) ''session'', sub_dict (fst decoded) ''user'') else None))"

section \<open>Creating a session\<close>

type_synonym ids = "string \<times> string"

definition new_session_row :: "auth \<Rightarrow> env \<Rightarrow> request \<Rightarrow> pyval \<Rightarrow> bool \<Rightarrow> ids \<Rightarrow> row" where
  "new_session_row au ev rq user_id remember_me fresh =
     (let expires_in = (if remember_me then au_expires_in au else DONT_REMEMBER_EXPIRES_IN)
      in [(''id'', VStr (fst fresh)), (''token'', VStr (snd fresh)), (''userId'', user_id),
          (''expiresAt'', VDate (now ev + expires_in * 1000000)),
          (''ipAddress'', VStr (case get_request_ip (au_ip_lib au) (au_ip au) rq of Some ip \<Rightarrow> ip | None \<Rightarrow> [])),
          (''userAgent'', VStr (case map_of (rq_headers rq) ''user-agent'' of Some h \<Rightarrow> h | None \<Rightarrow> [])),
          (''createdAt'', VDate (now ev)), (''updatedAt'', VDate (now ev))])"

definition find_user_row :: "auth \<Rightarrow> pyval \<Rightarrow> (iworld, row option) action" where
  "find_user_row au user_id =
     on_db (mem_find_one (ic_ad (au_ic au)) ''user'' [Where ''id'' user_id] [])"

text \<open>
  \<open>new_session\<close> of the context is the pair of the session and the user; \<open>has_ctx\<close> says whether a
  context was given. What the create returned is not used.
\<close>

definition session_create ::
    "auth \<Rightarrow> env \<Rightarrow> request \<Rightarrow> pyval \<Rightarrow> bool \<Rightarrow> row option \<Rightarrow> bool \<Rightarrow> ids \<Rightarrow>
     (iworld, row \<times> string list \<times> (row \<times> row option) option) action" where
  "session_create au ev rq user_id remember_me given has_ctx fresh =
     (let session = new_session_row au ev rq user_id remember_me fresh;
          signed = sign_value (au_hmac au) (au_secret au) (snd fresh);
          cookies = (if remember_me
            then [build_cookie au signed (Some (au_expires_in au)) ''session_token'' True,
                  clear_cookie au ''dont_remember'']
            else [build_cookie au signed None ''session_token'' True,
                  build_cookie au ''true'' None ''dont_remember'' True])
      in bindA (create_row (au_ic au) ev ''session'' session True) (\<lambda>_.
         bindA (if given = None \<and> (has_ctx \<or> au_cache au) then find_user_row au user_id else ret given) (\<lambda>user.
           let cache = (case user of
                          Some u \<Rightarrow> set_cookie_cache au ev session u (\<not> remember_me)
                        | None \<Rightarrow> None)
           in ret (session, cookies @ (case cache of Some c \<Rightarrow> [c] | None \<Rightarrow> []),
                   if has_ctx then Some (session, user) else None))))"

definition is_dont_remember :: "auth \<Rightarrow> request \<Rightarrow> bool" where
  "is_dont_remember au rq = (get_cookie au rq ''dont_remember'' \<noteq> None)"

definition refresh_session_cookie :: "auth \<Rightarrow> request \<Rightarrow> string \<Rightarrow> string" where
  "refresh_session_cookie au rq token =
     build_cookie au (sign_value (au_hmac au) (au_secret au) token)
       (if is_dont_remember au rq then None else Some (au_expires_in au)) ''session_token'' True"

definition set_session_cookies :: "auth \<Rightarrow> env \<Rightarrow> request \<Rightarrow> row \<Rightarrow> row \<Rightarrow> string list result" where
  "set_session_cookies au ev rq session user =
     bindR (dindex session ''token'') (\<lambda>token.
       case token of
         VStr t \<Rightarrow>
           Inr (refresh_session_cookie au rq t #
                (case set_cookie_cache au ev session user (is_dont_remember au rq) of
                   Some c \<Rightarrow> [c] | None \<Rightarrow> []))
       | _ \<Rightarrow> Inl TypeError)"

section \<open>Validating a session\<close>

record validated =
  va_session :: row
  va_user :: row
  va_needs_refresh :: "bool option"

definition date_of :: "row \<Rightarrow> string \<Rightarrow> int result" where
  "date_of r k = bindR (dindex r k) (\<lambda>v. case v of VDate t \<Rightarrow> Inr t | _ \<Rightarrow> Inl TypeError)"

text \<open>The cached pair for the token, when the request may use it.\<close>

definition cache_hit :: "auth \<Rightarrow> env \<Rightarrow> string \<Rightarrow> string \<Rightarrow> validated option" where
  "cache_hit au ev token cache_value =
     (case decode_cookie_cache au ev cache_value of
        None \<Rightarrow> None
      | Some decoded \<Rightarrow>
          if dget (sub_dict (fst decoded) ''session'') ''token'' = VStr token \<and> cache_is_current au ev decoded
          then Some \<lparr>va_session = sub_dict (fst decoded) ''session'', va_user = sub_dict (fst decoded) ''user'',
                     va_needs_refresh = None\<rparr>
          else None)"

text \<open>The answer for a session that is valid, with the cookies set so far.\<close>

definition answer_session ::
    "auth \<Rightarrow> env \<Rightarrow> request \<Rightarrow> row \<Rightarrow> string list \<Rightarrow> bool option \<Rightarrow>
     (iworld, validated option \<times> string list) action" where
  "answer_session au ev rq session cookies needs_refresh =
     bindA (liftR (dindex session ''userId'')) (\<lambda>uid.
     bindA (find_user_row au uid) (\<lambda>user.
       case user of
         None \<Rightarrow> ret (None, cookies @ delete_session_cookies au)
       | Some u \<Rightarrow>
           ret (Some \<lparr>va_session = session, va_user = u, va_needs_refresh = needs_refresh\<rparr>,
                cookies @ (case set_cookie_cache au ev session u (is_dont_remember au rq) of
                             Some c \<Rightarrow> [c] | None \<Rightarrow> []))))"

definition refresh_row :: "auth \<Rightarrow> env \<Rightarrow> string \<Rightarrow> row \<Rightarrow> (iworld, row) action" where
  "refresh_row au ev token session =
     bindA (update_row (au_ic au) ev ''session'' [Where ''token'' (VStr token)]
         [(''expiresAt'', VDate (now ev + au_expires_in au * 1000000)), (''updatedAt'', VDate (now ev))])
       (\<lambda>updated. ret (case updated of Some r \<Rightarrow> if r \<noteq> [] then r else session | None \<Rightarrow> session))"

text \<open>The part of \<open>get_session\<close> that reads the database.\<close>

definition validate_stored ::
    "auth \<Rightarrow> env \<Rightarrow> request \<Rightarrow> string \<Rightarrow> string list \<Rightarrow> bool \<Rightarrow> bool \<Rightarrow>
     (iworld, validated option \<times> string list) action" where
  "validate_stored au ev rq token cookies disable_refresh is_post =
     (let gone = cookies @ delete_session_cookies au;
          defer = (au_defer au \<and> \<not> is_post);
          dont_remember = is_dont_remember au rq
      in bindA (on_db (mem_find_one (ic_ad (au_ic au)) ''session'' [Where ''token'' (VStr token)] [])) (\<lambda>found.
         case found of
           None \<Rightarrow> ret (None, gone)
         | Some session \<Rightarrow>
             bindA (liftR (date_of session ''expiresAt'')) (\<lambda>expires.
             if expires \<le> now ev then
               bindA (if \<not> defer then bindA (delete_rows (au_ic au) ''session'' [Where ''token'' (VStr token)]) (\<lambda>_. ret ())
                      else ret ()) (\<lambda>_. ret (None, gone))
             else
               (let due_at = expires - au_expires_in au * 1000000 + au_update_age au * 1000000;
                    needs_refresh = (due_at \<le> now ev \<and> \<not> (disable_refresh \<or> au_disable_refresh au));
                    needs = (if defer \<and> \<not> dont_remember \<and> \<not> disable_refresh then Some needs_refresh else None)
                in if needs_refresh \<and> \<not> dont_remember \<and> \<not> defer then
                     bindA (refresh_row au ev token session) (\<lambda>session'.
                       answer_session au ev rq session'
                         (cookies @ [build_cookie au (sign_value (au_hmac au) (au_secret au) token)
                            (Some (au_expires_in au)) ''session_token'' True]) needs)
                   else answer_session au ev rq session cookies needs))))"

definition get_session ::
    "auth \<Rightarrow> env \<Rightarrow> request \<Rightarrow> bool \<Rightarrow> bool \<Rightarrow> bool \<Rightarrow>
     (iworld, validated option \<times> string list) action" where
  "get_session au ev rq disable_cache disable_refresh is_post =
     (let cache_value = (case get_cookie au rq ''session_data'' of Some v \<Rightarrow> v | None \<Rightarrow> []);
          stale = (if cache_value \<noteq> [] \<and> \<not> au_cache au then [expire_cookie_cache au] else [])
      in case read_token au rq of
           None \<Rightarrow> ret (None, if au_cache au then [] else stale)
         | Some token \<Rightarrow>
             if au_cache au \<and> \<not> disable_cache \<and> cache_value \<noteq> [] then
               (case cache_hit au ev token cache_value of
                  Some v \<Rightarrow> ret (Some v, [])
                | None \<Rightarrow>
                    validate_stored au ev rq token (stale @ [expire_cookie_cache au]) disable_refresh is_post)
             else validate_stored au ev rq token stale disable_refresh is_post)"

end
