(* ===== verification/Session_Props.thy ===== *)
theory Session_Props
  imports Session Session_Cache Crypto_Props
begin

text \<open>
  Sessions and cookies: which requests are authenticated, when a session slides forward, what a
  deferred read may write, and the cookie cache.
\<close>

section \<open>Configurations and steps\<close>

text \<open>The memory adapter with the core session table and no hooks.\<close>

definition plain_sessions :: "auth \<Rightarrow> bool" where
  "plain_sessions au \<longleftrightarrow>
     native (ic_ad (au_ic au)) \<and> ic_hooks (au_ic au) = [] \<and>
     map_of (ad_schema (ic_ad (au_ic au))) ''session'' = map_of CORE_SCHEMA ''session''"

definition session_rows :: "iworld \<Rightarrow> row list" where
  "session_rows w = rows_of (iw_db w) ''session''"

definition by_token :: "string \<Rightarrow> row list \<Rightarrow> row option" where
  "by_token token rs = List.find (\<lambda>r. dget r ''token'' = VStr token) rs"

lemma refresh_input:
  assumes "native ad" "map_of (ad_schema ad) ''session'' = map_of CORE_SCHEMA ''session''"
  shows "transform_input ad ev ''session'' [(''expiresAt'', VDate t), (''updatedAt'', VDate u)] ''update'' =
    Inr [(''expiresAt'', VDate t), (''updatedAt'', VDate u)]"
  using assms
  by (simp add: transform_input_def native_def CORE_SCHEMA_def Let_def mk_field_def id_field_def
      created_at_field_def updated_at_field_def dset_Cons)

lemma sel_token: "sel [Where ''token'' (VStr token)] = (\<lambda>r. dget r ''token'' = VStr token)"
  by (intro ext) simp

lemma find_session_row:
  assumes "native (ic_ad (au_ic au))"
  shows "bindA (on_db (mem_find_one (ic_ad (au_ic au)) ''session'' [Where ''token'' (VStr token)] [])) f w =
    f (by_token token (session_rows w)) w"
  using assms by (simp add: bind_on_db mem_find_one_safe sel_token by_token_def session_rows_def)

lemma by_token_Some: "by_token token rs = Some r \<Longrightarrow> r \<in> set rs \<and> dget r ''token'' = VStr token"
  unfolding by_token_def by (rule find_Some_in)

text \<open>Reading the user row leaves the world as it is.\<close>

lemma find_user_pure: "\<exists>res. find_user_row au uid w = (res, w)"
  by (simp add: find_user_row_def on_db_def mem_find_one_def)

section \<open>Authenticated requests\<close>

text \<open>A row the refresh wrote: the new expiry and update time over the old row.\<close>

definition refreshed :: "auth \<Rightarrow> env \<Rightarrow> row \<Rightarrow> row" where
  "refreshed au ev s =
     dmerge s [(''expiresAt'', VDate (now ev + au_expires_in au * 1000000)), (''updatedAt'', VDate (now ev))]"

definition store_refreshed :: "auth \<Rightarrow> env \<Rightarrow> string \<Rightarrow> iworld \<Rightarrow> iworld" where
  "store_refreshed au ev token w = w\<lparr>iw_db := set_rows ''session''
     (map_first (\<lambda>r. dget r ''token'' = VStr token) (refreshed au ev) (session_rows w)) (iw_db w)\<rparr>"

lemma refreshed_simps [simp]:
  "dget (refreshed au ev s) ''token'' = dget s ''token''"
  "dget (refreshed au ev s) ''userId'' = dget s ''userId''"
  "dget (refreshed au ev s) ''expiresAt'' = VDate (now ev + au_expires_in au * 1000000)"
  "refreshed au ev s \<noteq> []"
proof -
  show "refreshed au ev s \<noteq> []"
  proof
    assume "refreshed au ev s = []"
    then have "dget (refreshed au ev s) ''updatedAt'' = VNone" by simp
    then show False by (simp add: refreshed_def)
  qed
qed (simp_all add: refreshed_def)

lemma update_session_row:
  assumes "plain_sessions au" "by_token token (session_rows w) = Some s"
  shows "update_row (au_ic au) ev ''session'' [Where ''token'' (VStr token)]
      [(''expiresAt'', VDate (now ev + au_expires_in au * 1000000)), (''updatedAt'', VDate (now ev))] w =
    (Inr (Some (refreshed au ev s)), store_refreshed au ev token w)"
proof -
  have ad: "native (ic_ad (au_ic au))" "ic_hooks (au_ic au) = []"
    "map_of (ad_schema (ic_ad (au_ic au))) ''session'' = map_of CORE_SCHEMA ''session''"
    using assms(1) by (simp_all add: plain_sessions_def)
  let ?d = "[(''expiresAt'', VDate (now ev + au_expires_in au * 1000000)), (''updatedAt'', VDate (now ev))]"
  have "mem_update (ic_ad (au_ic au)) ev ''session'' [Where ''token'' (VStr token)] ?d (iw_db w) =
      (Inr (Some (refreshed au ev s)), set_rows ''session''
        (map_first (\<lambda>r. dget r ''token'' = VStr token) (refreshed au ev) (session_rows w)) (iw_db w))"
    using mem_update_ok[OF ad(1) _ _ refresh_input[OF ad(1,3)], of "[Where ''token'' (VStr token)]" "iw_db w" ev
        "now ev + au_expires_in au * 1000000" "now ev"] assms(2)
    by (simp add: sel_token by_token_def session_rows_def refreshed_def[abs_def])
  then show ?thesis
    using ad(2) by (simp add: update_row_def int_update_def bindA_def on_db_def store_refreshed_def)
qed

text \<open>When the stored session is due for a refresh that this call may write.\<close>

definition refresh_due :: "auth \<Rightarrow> env \<Rightarrow> request \<Rightarrow> bool \<Rightarrow> bool \<Rightarrow> int \<Rightarrow> bool" where
  "refresh_due au ev rq disable_refresh is_post expires \<longleftrightarrow>
     now ev \<ge> expires - au_expires_in au * 1000000 + au_update_age au * 1000000 \<and>
     \<not> disable_refresh \<and> \<not> au_disable_refresh au \<and> \<not> is_dont_remember au rq \<and> (is_post \<or> \<not> au_defer au)"

text \<open>The database part on a session that is there and has not expired.\<close>

lemma refresh_row_eq:
  assumes "plain_sessions au" "by_token token (session_rows w) = Some s"
  shows "bindA (refresh_row au ev token s) f w = f (refreshed au ev s) (store_refreshed au ev token w)"
  using update_session_row[OF assms] by (simp add: refresh_row_def bindA_def)

lemma answer_session_Some:
  assumes "answer_session au ev rq s cookies needs w = (Inr (Some v, cs), w')"
  shows "va_session v = s \<and> w' = w \<and> va_needs_refresh v = needs \<and>
    (\<exists>uid. dindex s ''userId'' = Inr uid \<and> find_user_row au uid w = (Inr (Some (va_user v)), w))"
proof -
  obtain uid where uid: "dindex s ''userId'' = Inr uid"
    using assms by (cases "dindex s ''userId''") (simp_all add: answer_session_def bindA_def)
  obtain res where "find_user_row au uid w = (res, w)" using find_user_pure by blast
  with uid assms show ?thesis
    by (auto simp: answer_session_def bindA_def split: sum.splits option.splits)
qed

lemma validate_stored_live:
  assumes "plain_sessions au" "by_token token (session_rows w) = Some s"
    and "dindex s ''expiresAt'' = Inr (VDate x)" "now ev < x"
  shows "\<exists>cookies' needs. validate_stored au ev rq token cookies disable_refresh is_post w =
    (if refresh_due au ev rq disable_refresh is_post x
     then answer_session au ev rq (refreshed au ev s) cookies' needs (store_refreshed au ev token w)
     else answer_session au ev rq s cookies' needs w)"
proof -
  have ad: "native (ic_ad (au_ic au))" using assms(1) by (simp add: plain_sessions_def)
  show ?thesis
    using assms(3,4)
    by (auto simp: validate_stored_def Let_def find_session_row[OF ad] assms(2) date_of_def refresh_due_def
        refresh_row_eq[OF assms(1,2)])
qed

lemma bindA_const: "bindA m (\<lambda>_. ret a) w = (Inr b, w') \<Longrightarrow> b = a"
  by (auto simp: bindA_def split: prod.splits sum.splits)

lemma validate_stored_Some:
  assumes "plain_sessions au"
    and "validate_stored au ev rq token cookies disable_refresh is_post w = (Inr (Some v, cs), w')"
  shows "\<exists>s x. by_token token (session_rows w) = Some s \<and> dindex s ''expiresAt'' = Inr (VDate x) \<and> now ev < x"
proof -
  have ad: "native (ic_ad (au_ic au))" using assms(1) by (simp add: plain_sessions_def)
  obtain s where s: "by_token token (session_rows w) = Some s"
    using assms(2) by (cases "by_token token (session_rows w)")
      (simp_all add: validate_stored_def Let_def find_session_row[OF ad])
  obtain x where x: "date_of s ''expiresAt'' = Inr x"
    using assms(2) s by (cases "date_of s ''expiresAt''")
      (simp_all add: validate_stored_def Let_def find_session_row[OF ad])
  have "now ev < x"
  proof (rule ccontr)
    assume "\<not> now ev < x"
    then have "bindA (if \<not> (au_defer au \<and> \<not> is_post)
        then bindA (delete_rows (au_ic au) ''session'' [Where ''token'' (VStr token)]) (\<lambda>_. ret ()) else ret ())
        (\<lambda>_. ret (None, cookies @ delete_session_cookies au)) w = (Inr (Some v, cs), w')"
      using assms(2) s x by (simp add: validate_stored_def Let_def find_session_row[OF ad])
    from bindA_const[OF this] show False by simp
  qed
  moreover from x have "dindex s ''expiresAt'' = Inr (VDate x)"
    by (cases "dindex s ''expiresAt''") (auto simp: date_of_def split: pyval.splits)
  ultimately show ?thesis using s by blast
qed

lemma get_session_cases:
  assumes "get_session au ev rq disable_cache disable_refresh is_post w = (Inr (Some v, cs), w')"
  obtains token where "read_token au rq = Some token"
      "\<exists>raw. get_cookie au rq ''session_data'' = Some raw \<and> cache_hit au ev token raw = Some v" "au_cache au" "w' = w"
    | token cookies where "read_token au rq = Some token"
      "validate_stored au ev rq token cookies disable_refresh is_post w = (Inr (Some v, cs), w')"
  using assms
  by (auto simp: get_session_def Let_def split: option.splits if_splits)

text \<open>
  C14: Who is authenticated. A request gets a session only with a token it presented: the value of a
  correctly signed session cookie, or the bearer header when there is no cookie. The session is the
  cached one for exactly that token, with neither window ended and nothing written; or it is the
  stored row of that token, not expired, with the user its \<open>userId\<close> names. A stored session
  slides to \<open>now + expires_in\<close> exactly when it is older than \<open>update_age\<close> and neither the request,
  the options, a browser-session marker nor deferral forbids it; otherwise nothing is written.
\<close>
theorem session_authenticates:
  assumes "plain_sessions au" "get_session au ev rq disable_cache disable_refresh is_post w = (Inr (Some v, cs), w')"
  shows "\<exists>token. read_token au rq = Some token \<and>
    ((au_cache au \<and> w' = w \<and> dget (va_session v) ''token'' = VStr token \<and>
      (\<exists>raw payload expires_at. get_cookie au rq ''session_data'' = Some raw \<and>
         decode_cookie_cache au ev raw = Some (payload, expires_at) \<and> cache_is_current au ev (payload, expires_at) \<and>
         va_session v = sub_dict payload ''session'' \<and> va_user v = sub_dict payload ''user'')) \<or>
     (\<exists>s x. by_token token (session_rows w) = Some s \<and> dget s ''token'' = VStr token \<and>
        dindex s ''expiresAt'' = Inr (VDate x) \<and> now ev < x \<and>
        (\<exists>uid. dindex (va_session v) ''userId'' = Inr uid \<and> find_user_row au uid w' = (Inr (Some (va_user v)), w')) \<and>
        (if refresh_due au ev rq disable_refresh is_post x
         then va_session v = refreshed au ev s \<and> w' = store_refreshed au ev token w
         else va_session v = s \<and> w' = w)))"
  using assms(2)
proof (cases rule: get_session_cases)
  case (1 token)
  then obtain raw where raw: "get_cookie au rq ''session_data'' = Some raw" "cache_hit au ev token raw = Some v" by blast
  obtain payload expires_at where "decode_cookie_cache au ev raw = Some (payload, expires_at)"
    "cache_is_current au ev (payload, expires_at)" "dget (sub_dict payload ''session'') ''token'' = VStr token"
    "va_session v = sub_dict payload ''session''" "va_user v = sub_dict payload ''user''"
    using raw(2) by (auto simp: cache_hit_def split: option.splits if_splits)
  with 1 raw(1) show ?thesis by (intro exI[of _ token]) auto
next
  case (2 token cookies)
  obtain s x where s: "by_token token (session_rows w) = Some s" "dindex s ''expiresAt'' = Inr (VDate x)" "now ev < x"
    using validate_stored_Some[OF assms(1) 2(2)] by blast
  have "dget s ''token'' = VStr token" using by_token_Some[OF s(1)] by blast
  moreover from validate_stored_live[OF assms(1) s] obtain cookies' needs where
    run: "validate_stored au ev rq token cookies disable_refresh is_post w =
    (if refresh_due au ev rq disable_refresh is_post x
     then answer_session au ev rq (refreshed au ev s) cookies' needs (store_refreshed au ev token w)
     else answer_session au ev rq s cookies' needs w)"
    by blast
  ultimately have tok: "dget s ''token'' = VStr token" by blast
  let ?due = "refresh_due au ev rq disable_refresh is_post x"
  obtain s' w2 where ans: "answer_session au ev rq s' cookies' needs w2 = (Inr (Some v, cs), w')"
      and "if ?due then s' = refreshed au ev s \<and> w2 = store_refreshed au ev token w else s' = s \<and> w2 = w"
    using 2(2) run by (cases ?due) auto
  with answer_session_Some[OF ans] have
    "\<exists>uid. dindex (va_session v) ''userId'' = Inr uid \<and> find_user_row au uid w' = (Inr (Some (va_user v)), w')"
    "if ?due then va_session v = refreshed au ev s \<and> w' = store_refreshed au ev token w
     else va_session v = s \<and> w' = w"
    by auto
  with 2(1) s tok show ?thesis by blast
qed

text \<open>A request that the cookie cache answers: the cookie is there, may be used, and is a hit for its token.\<close>

definition served_from_cache :: "auth \<Rightarrow> env \<Rightarrow> request \<Rightarrow> bool \<Rightarrow> bool" where
  "served_from_cache au ev rq disable_cache \<longleftrightarrow>
     au_cache au \<and> \<not> disable_cache \<and>
     (case (read_token au rq, get_cookie au rq ''session_data'') of
        (Some token, Some raw) \<Rightarrow> raw \<noteq> [] \<and> cache_hit au ev token raw \<noteq> None
      | _ \<Rightarrow> False)"

lemma get_session_stored:
  assumes "read_token au rq = Some token" "\<not> served_from_cache au ev rq disable_cache"
  shows "\<exists>cookies. get_session au ev rq disable_cache disable_refresh is_post =
    validate_stored au ev rq token cookies disable_refresh is_post"
  using assms by (auto simp: get_session_def served_from_cache_def Let_def split: option.splits)

section \<open>Deferred reads\<close>

lemma find_one_pure: "\<exists>res. on_db (mem_find_one ad m wh fs) w = (res, w)"
  by (simp add: on_db_def mem_find_one_def)

lemma answer_session_pure: "snd (answer_session au ev rq s cookies needs w) = w"
proof (cases "dindex s ''userId''")
  case (Inr uid)
  obtain res where "find_user_row au uid w = (res, w)" using find_user_pure by blast
  with Inr show ?thesis by (auto simp: answer_session_def bindA_def split: sum.splits option.splits)
qed (simp add: answer_session_def bindA_def)

lemma validate_stored_deferred:
  assumes "au_defer au" "\<not> is_post"
  shows "snd (validate_stored au ev rq token cookies disable_refresh is_post w) = w"
proof -
  obtain res where find: "on_db (mem_find_one (ic_ad (au_ic au)) ''session'' [Where ''token'' (VStr token)] []) w = (res, w)"
    using find_one_pure by blast
  have pure: "snd (answer_session au ev rq s cookies needs w) = w" for s needs by (rule answer_session_pure)
  show ?thesis
    using assms find
    by (cases res; cases "projr res") 
      (auto simp: validate_stored_def Let_def bindA_def pure split: sum.splits option.splits prod.splits if_splits)
qed

text \<open>
  With \<open>deferSessionRefresh\<close> only the POST handler writes. Whatever the request, the state of the
  session, the hooks and the flags, validating a session by any other call leaves the database, the
  secondary storage, the hook queue and the hook log as they are.
\<close>
theorem deferred_reads_write_nothing:
  assumes "au_defer au"
  shows "snd (get_session au ev rq disable_cache disable_refresh False w) = w"
  using validate_stored_deferred[OF assms, of False]
  by (auto simp: get_session_def Let_def split: option.splits)

section \<open>Expiry\<close>





section \<open>Signing in\<close>

lemma create_session_row:
  assumes "plain_sessions au"
  shows "create_row (au_ic au) ev ''session'' (new_session_row au ev rq (VStr user_id) remember fresh) True w =
    (Inr (Some (new_session_row au ev rq (VStr user_id) remember fresh)),
     w\<lparr>iw_db := set_rows ''session'' (session_rows w @ [new_session_row au ev rq (VStr user_id) remember fresh]) (iw_db w)\<rparr>)"
proof -
  let ?r = "new_session_row au ev rq (VStr user_id) remember fresh"
  have ad: "native (ic_ad (au_ic au))" "ic_hooks (au_ic au) = []"
    "map_of (ad_schema (ic_ad (au_ic au))) ''session'' = map_of CORE_SCHEMA ''session''"
    using assms by (simp_all add: plain_sessions_def)
  have "transform_input (ic_ad (au_ic au)) ev ''session'' ?r ''create'' = Inr ?r"
    using ad(1,3)
    by (simp add: transform_input_def native_def CORE_SCHEMA_def Let_def mk_field_def id_field_def has_key_def
        created_at_field_def updated_at_field_def dset_Cons new_session_row_def)
  from mem_create_ok[OF ad(1) this] show ?thesis
    using ad(2) by (simp add: create_row_def int_create_def bindA_def on_db_def session_rows_def)
qed

lemma read_signed_cookie:
  assumes "hmac_256 (au_hmac au)" "token \<noteq> []" "\<forall>c\<in>set token. (of_char c :: nat) < 128"
    and "get_cookie au rq ''session_token'' = Some (sign_value (au_hmac au) (au_secret au) token)"
  shows "read_token au rq = Some token"
proof -
  have "unquote_all (sign_value (au_hmac au) (au_secret au) token) = token @ ''.'' @ signature (au_hmac au) (au_secret au) token"
    unfolding sign_value_def using assms(3) signature_shape(4)[OF assms(1)] by (intro unquote_quote) auto
  then have "unsign_value (au_hmac au) (au_secret au) (sign_value (au_hmac au) (au_secret au) token) = Some token"
    using unsign_value_iff[OF assms(1)] assms(2) by blast
  with assms(4) show ?thesis by (simp add: read_token_def)
qed

text \<open>
  C16: Signing in works, for the memory adapter without database hooks. A session that was created for an
  existing user is found again by any request that carries the cookie value that was set, for as long as
  it lasts and before a refresh is due: the answer is the row that was created and the user, and nothing
  is written. That is for a request not answered from a cookie-cache copy, whose answer is the cached one.
\<close>
theorem create_then_get_session:
  assumes "plain_sessions au" "hmac_256 (au_hmac au)" "\<not> served_from_cache au ev' rq' dc"
    and "snd fresh \<noteq> []" "\<forall>c\<in>set (snd fresh). (of_char c :: nat) < 128"
    and "by_token (snd fresh) (session_rows w) = None"
    and user: "\<And>w'. rows_of (iw_db w') ''user'' = rows_of (iw_db w) ''user'' \<Longrightarrow>
      find_user_row au (VStr user_id) w' = (Inr (Some u), w')"
    and cookie: "get_cookie au rq' ''session_token'' = Some (sign_value (au_hmac au) (au_secret au) (snd fresh))"
    and "now ev' < now ev + (if remember then au_expires_in au else DONT_REMEMBER_EXPIRES_IN) * 1000000"
    and "is_dont_remember au rq' \<or>
      now ev' < now ev + (if remember then au_update_age au
                          else DONT_REMEMBER_EXPIRES_IN - au_expires_in au + au_update_age au) * 1000000"
  shows "\<exists>cs w' cs'. session_create au ev rq (VStr user_id) remember None False fresh w =
      (Inr (new_session_row au ev rq (VStr user_id) remember fresh, cs, None), w') \<and>
    sign_value (au_hmac au) (au_secret au) (snd fresh) \<in> {v. \<exists>age. build_cookie au v age ''session_token'' True \<in> set cs} \<and>
    get_session au ev' rq' dc dr post w' =
      (Inr (Some \<lparr>va_session = new_session_row au ev rq (VStr user_id) remember fresh, va_user = u,
         va_needs_refresh = (if au_defer au \<and> \<not> post \<and> \<not> is_dont_remember au rq' \<and> \<not> dr then Some False else None)\<rparr>, cs'), w')"
proof -
  let ?r = "new_session_row au ev rq (VStr user_id) remember fresh"
  let ?w' = "w\<lparr>iw_db := set_rows ''session'' (session_rows w @ [?r]) (iw_db w)\<rparr>"
  let ?x = "now ev + (if remember then au_expires_in au else DONT_REMEMBER_EXPIRES_IN) * 1000000"
  have ad: "native (ic_ad (au_ic au))" using assms(1) by (simp add: plain_sessions_def)
  have created: "\<exists>cs. session_create au ev rq (VStr user_id) remember None False fresh w = (Inr (?r, cs, None), ?w') \<and>
      (\<exists>age. build_cookie au (sign_value (au_hmac au) (au_secret au) (snd fresh)) age ''session_token'' True \<in> set cs)"
    using create_session_row[OF assms(1)] user[of ?w']
    by (auto simp: session_create_def Let_def bindA_def)
  have r: "dget ?r ''token'' = VStr (snd fresh)" "dindex ?r ''expiresAt'' = Inr (VDate ?x)" "dindex ?r ''userId'' = Inr (VStr user_id)"
    by (simp_all add: new_session_row_def dget_Cons dindex_def)
  have found: "by_token (snd fresh) (session_rows ?w') = Some ?r"
    using assms(6) r(1) by (simp add: by_token_def session_rows_def find_append)
  have token: "read_token au rq' = Some (snd fresh)"
    by (rule read_signed_cookie[OF assms(2,4,5) cookie])
  have not_due: "is_dont_remember au rq' \<or> \<not> ?x - au_expires_in au * 1000000 + au_update_age au * 1000000 \<le> now ev'"
    using assms(10) by (auto simp: algebra_simps split: if_splits)
  have "find_user_row au (VStr user_id) ?w' = (Inr (Some u), ?w')" by (rule user) simp
  then have user_step: "bindA (find_user_row au (VStr user_id)) f ?w' = f (Some u) ?w'"
    for f :: "row option \<Rightarrow> (iworld, validated option \<times> string list) action"
    by (simp add: bindA_def)
  have "\<exists>cs'. get_session au ev' rq' dc dr post ?w' = (Inr (Some \<lparr>va_session = ?r, va_user = u,
         va_needs_refresh = (if au_defer au \<and> \<not> post \<and> \<not> is_dont_remember au rq' \<and> \<not> dr then Some False else None)\<rparr>, cs'), ?w')"
    using get_session_stored[OF token assms(3), of dr post] assms(9) not_due
    by (auto simp: validate_stored_def Let_def find_session_row[OF ad] found date_of_def r(2)
        answer_session_def r(3) user_step)
  with created show ?thesis by blast
qed

section \<open>Witnesses\<close>

definition demo_hmac :: hmac where
  "demo_hmac k v = map (\<lambda>i. (length k + length v) mod 256) [0..<32]"

lemma hmac_256_demo: "hmac_256 demo_hmac"
  by (auto simp: hmac_256_def demo_hmac_def)

text \<open>Sessions of 1000 s that slide after 100 s, without cookie cache.\<close>

definition demo_auth :: auth where
  "demo_auth = \<lparr>au_prefix = ''ba'', au_secure = False, au_domain = [], au_secret = ''s3cret'', au_hmac = demo_hmac,
     au_ic = \<lparr>ic_ad = demo_adapter, ic_secondary = False, ic_atomic_take = True, ic_hooks = [],
       ic_session_expires_in = 1000, ic_store_session_in_database = False, ic_store_identifier = IdAll IdUnset,
       ic_verification_in_database = False, ic_sha256 = (\<lambda>_. []), ic_validate_user_info = None\<rparr>,
     au_schema = CORE_SCHEMA, au_ip_lib = letters,
     au_ip = \<lparr>io_disable = True, io_headers = [], io_subnet = 64, io_trusted = []\<rparr>,
     au_expires_in = 1000, au_update_age = 100, au_disable_refresh = False, au_defer = False,
     au_cache = False, au_cache_age = 300, au_cache_version = ''1'',
     au_dumps = (\<lambda>_. []), au_envelope = (\<lambda>_. None),
     au_cache_jwt = None, au_cache_signer = None\<rparr>"

definition token_request :: "string \<Rightarrow> request" where
  "token_request tok = \<lparr>rq_method = ''GET'', rq_path = ''/get-session'',
     rq_headers = [(''authorization'', ''Bearer '' @ tok)], rq_query = [], rq_cookies = [],
     rq_client_ip = None, rq_url = None\<rparr>"

definition stored_session :: row where
  "stored_session = [(''token'', VStr ''t''), (''userId'', VStr ''u''), (''expiresAt'', VDate 500000000)]"

definition demo_sessions :: iworld where
  "demo_sessions = \<lparr>iw_db = [(''user'', [[(''id'', VStr ''u'')]]), (''session'', [stored_session])],
     iw_kv = \<lparr>kv_items = [], kv_ttls = []\<rparr>, iw_queue = None, iw_log = []\<rparr>"

definition at_us :: "int \<Rightarrow> env" where
  "at_us t = \<lparr>now = t, rnd_id = ''r'', rnd_uuid = ''u''\<rparr>"

lemma plain_demo: "plain_sessions demo_auth"
  by (simp add: plain_sessions_def demo_auth_def native_def demo_adapter_def)

lemma demo_session_found:
  "by_token ''t'' (session_rows demo_sessions) = Some stored_session"
  "dindex stored_session ''expiresAt'' = Inr (VDate 500000000)"
  "read_token demo_auth (token_request ''t'') = Some ''t''"
  by code_simp+

theorem session_authenticates_witness:
  "\<exists>v cs w'. get_session demo_auth (at_us 10000000) (token_request ''t'') False False False demo_sessions = (Inr (Some v, cs), w') \<and>
     dget (va_session v) ''expiresAt'' = VDate 1010000000"
proof -
  let ?run = "get_session demo_auth (at_us 10000000) (token_request ''t'') False False False demo_sessions"
  have "case fst ?run of Inr (Some _, _) \<Rightarrow> True | _ \<Rightarrow> False" by code_simp
  then obtain v cs w' where run: "?run = (Inr (Some v, cs), w')"
    by (cases ?run) (auto split: sum.splits prod.splits option.splits)
  have "refresh_due demo_auth (at_us 10000000) (token_request ''t'') False False 500000000" "\<not> au_cache demo_auth"
    "dget (refreshed demo_auth (at_us 10000000) stored_session) ''expiresAt'' = VDate 1010000000"
    by code_simp+
  with session_authenticates[OF plain_demo run] demo_session_found run show ?thesis by auto
qed

theorem deferred_reads_write_nothing_witness:
  "snd (get_session (demo_auth\<lparr>au_defer := True\<rparr>) (at_us 10000000) (token_request ''t'') False False False demo_sessions) = demo_sessions"
  by (rule deferred_reads_write_nothing) simp


definition cookie_request :: "string \<Rightarrow> request" where
  "cookie_request v = (token_request [])\<lparr>rq_headers := [], rq_cookies := [(''ba.session_token'', v)]\<rparr>"

theorem create_then_get_session_witness:
  "\<exists>r cs w' cs'. session_create demo_auth (at_us 0) (token_request []) (VStr ''u'') True None False (''i'', ''tok'') demo_sessions = (Inr (r, cs, None), w') \<and>
     get_session demo_auth (at_us 99000000) (cookie_request (sign_value demo_hmac ''s3cret'' ''tok'')) False False False w' =
       (Inr (Some \<lparr>va_session = r, va_user = [(''id'', VStr ''u'')], va_needs_refresh = None\<rparr>, cs'), w')"
proof -
  have facts: "\<not> au_cache demo_auth" "snd (''i'', ''tok'') \<noteq> []" "\<forall>c\<in>set (snd (''i'', ''tok'')). (of_char c :: nat) < 128"
    "by_token (snd (''i'', ''tok'')) (session_rows demo_sessions) = None" "au_secret demo_auth = ''s3cret''"
    "\<not> au_defer demo_auth" "au_expires_in demo_auth = 1000" "au_update_age demo_auth = 100"
    "get_cookie demo_auth (cookie_request (sign_value demo_hmac ''s3cret'' ''tok'')) ''session_token'' =
       Some (sign_value demo_hmac ''s3cret'' ''tok'')"
    "List.find (\<lambda>r. dget r ''id'' = VStr ''u'') (rows_of (iw_db demo_sessions) ''user'') = Some [(''id'', VStr ''u'')]"
    by code_simp+
  have hmac: "au_hmac demo_auth = demo_hmac" by (simp add: demo_auth_def)
  have user: "find_user_row demo_auth (VStr ''u'') w' = (Inr (Some [(''id'', VStr ''u'')]), w')"
    if "rows_of (iw_db w') ''user'' = rows_of (iw_db demo_sessions) ''user''" for w'
  proof -
    have "native (ic_ad (au_ic demo_auth))" using plain_demo by (simp add: plain_sessions_def)
    moreover have "sel [Where ''id'' (VStr ''u'')] = (\<lambda>r. dget r ''id'' = VStr ''u'')" by (intro ext) simp
    ultimately show ?thesis using that facts(10) by (simp add: find_user_row_def on_db_def mem_find_one_safe)
  qed
  from create_then_get_session[of demo_auth "at_us 99000000" "cookie_request (sign_value demo_hmac ''s3cret'' ''tok'')" False
      "(''i'', ''tok'')" demo_sessions "''u''" "[(''id'', VStr ''u'')]" "at_us 0" True "token_request []" False False]
  show ?thesis
    using plain_demo hmac_256_demo facts hmac user by (fastforce simp: at_us_def served_from_cache_def)
qed

end
