(* ===== verification/Cookie_Props.thy ===== *)
theory Cookie_Props
  imports Session_Props
begin

text \<open>
  The signed cookie cache in its compact strategy: what it gives back, for whom and until when; and a session
  that a hook refused but that the cache still serves.
\<close>

section \<open>Round trip\<close>

text \<open>\<open>json.loads\<close> after base64url decoding reads back what \<open>json.dumps\<close> and the encoding wrote.\<close>

definition reads_back :: "auth \<Rightarrow> pyval \<Rightarrow> bool" where
  "reads_back au v \<longleftrightarrow> au_envelope au (encode_text (au_dumps au v)) = Some v"

lemma decode_own_envelope:
  assumes "au_cache_jwt au = None" "au_envelope au text = Some (cache_envelope au payload expires_at)"
  shows "decode_cookie_cache au ev text = (if payload_ok payload then Some (payload, expires_at) else None)"
  using assms
  by (simp add: decode_cookie_cache_def signer_of_def decode_sync_def decode_envelope_def cache_envelope_def dget_Cons)

text \<open>The window of a cache cookie in milliseconds: its age, or 60 s for a browser session.\<close>

definition cache_until :: "auth \<Rightarrow> env \<Rightarrow> bool \<Rightarrow> int" where
  "cache_until au ev dont_remember =
     dt_ms (now ev) + (if dont_remember \<or> au_cache_age au = 0 then 60 else au_cache_age au) * 1000"

definition cached_envelope :: "auth \<Rightarrow> env \<Rightarrow> row \<Rightarrow> row \<Rightarrow> bool \<Rightarrow> pyval" where
  "cached_envelope au ev session user dont_remember =
     cache_envelope au (cache_payload au ev session user) (cache_until au ev dont_remember)"

definition cached_value :: "auth \<Rightarrow> env \<Rightarrow> row \<Rightarrow> row \<Rightarrow> bool \<Rightarrow> string" where
  "cached_value au ev session user dont_remember =
     encode_cache au ev (cache_payload au ev session user)
       (if dont_remember then None else Some (au_cache_age au))"

lemma decode_cached_value:
  assumes "au_cache_jwt au = None" "reads_back au (cached_envelope au ev session user dont_remember)"
    and "payload_ok (cache_payload au ev session user)"
  shows "decode_cookie_cache au ev' (cached_value au ev session user dont_remember) =
    Some (cache_payload au ev session user, cache_until au ev dont_remember)"
proof -
  have "au_envelope au (cached_value au ev session user dont_remember) =
      Some (cache_envelope au (cache_payload au ev session user) (cache_until au ev dont_remember))"
    using assms(1,2)
    by (auto simp: cached_value_def encode_cache_def cache_until_def age_or_def cached_envelope_def reads_back_def Let_def)
  from decode_own_envelope[OF assms(1) this] assms(3) show ?thesis by simp
qed

lemma map_jsonify: "map (\<lambda>(k, v). (k, jsonify cd v)) r = json_row cd r"
  by (simp add: json_row_def)

abbreviation au_codec :: "auth \<Rightarrow> codec" where
  "au_codec au \<equiv> ic_codec (au_ic au)"

lemma cache_payload_parts:
  "sub_dict (cache_payload au ev session user) ''session'' =
     json_row (au_codec au) (parse_session_output session (fields_of (au_schema au) ''session''))"
  "sub_dict (cache_payload au ev session user) ''user'' =
     json_row (au_codec au) (parse_user_output user (fields_of (au_schema au) ''user''))"
  "dget (cache_payload au ev session user) ''version'' = VStr (au_cache_version au)"
  "dget (cache_payload au ev session user) ''session'' =
     VDict (json_row (au_codec au) (parse_session_output session (fields_of (au_schema au) ''session'')))"
  by (simp_all add: cache_payload_def sub_dict_def dget_Cons map_jsonify[symmetric])

lemma own_cache_hit:
  fixes au defines "cd \<equiv> au_codec au"
  assumes "au_cache_jwt au = None" "reads_back au (cached_envelope au ev session user dont_remember)"
    and "payload_ok (cache_payload au ev session user)" "au_cache_version au \<noteq> []"
    and out: "parse_session_output session (fields_of (au_schema au) ''session'') = s"
      "parse_user_output user (fields_of (au_schema au) ''user'') = u"
    and "dget s ''expiresAt'' = VDate x" "iso_ok cd x" "dget s ''token'' = VStr tok"
  shows "cache_hit au ev' token (cached_value au ev session user dont_remember) =
    (if token = tok \<and> now ev' \<le> cache_until au ev dont_remember * 1000 \<and> now ev' \<le> millis x
     then Some \<lparr>va_session = json_row cd s, va_user = json_row cd u, va_needs_refresh = None\<rparr> else None)"
  using assms(5,8,9,10)
  by (auto simp: cache_hit_def decode_cached_value[OF assms(2-4)] cache_is_current_def cache_payload_parts out
      iso_ok_def cd_def py_or_def py_truthy.simps)

text \<open>
  C17: The cookie cache, in its compact strategy, answers like the database, for its own session only and
  for a bounded time. The value written for a session and user of the expected shape, presented together
  with the session's token while the cache is on and not disabled by the request, yields exactly the
  returned columns of both, as JSON (an instant is its ISO text), with nothing read or written, until the
  cache window or the session ends (in milliseconds), whichever is first; with any other token, after
  that time, or under another cache version it is not a hit. Assumed of the libraries: reading JSON after
  base64url decoding inverts writing it, and the ISO text of the expiry is read back.
\<close>
theorem cookie_cache_roundtrip:
  fixes au defines "cd \<equiv> au_codec au"
  assumes "au_cache_jwt au = None" "reads_back au (cached_envelope au ev session user dont_remember)"
    and "payload_ok (cache_payload au ev session user)" "au_cache_version au \<noteq> []"
    and out: "parse_session_output session (fields_of (au_schema au) ''session'') = s"
      "parse_user_output user (fields_of (au_schema au) ''user'') = u"
    and "dget s ''expiresAt'' = VDate x" "iso_ok cd x" "dget s ''token'' = VStr tok"
  shows "cache_hit au ev' token (cached_value au ev session user dont_remember) =
      (if token = tok \<and> now ev' \<le> cache_until au ev dont_remember * 1000 \<and> now ev' \<le> millis x
       then Some \<lparr>va_session = json_row cd s, va_user = json_row cd u, va_needs_refresh = None\<rparr> else None) \<and>
    (au_cache au \<and> read_token au rq = Some tok \<and>
     get_cookie au rq ''session_data'' = Some (cached_value au ev session user dont_remember) \<and>
     cached_value au ev session user dont_remember \<noteq> [] \<and>
     now ev' \<le> cache_until au ev dont_remember * 1000 \<and> now ev' \<le> millis x \<longrightarrow>
       get_session au ev' rq False disable_refresh is_post w =
         (Inr (Some \<lparr>va_session = json_row cd s, va_user = json_row cd u, va_needs_refresh = None\<rparr>, []), w)) \<and>
    (version \<noteq> au_cache_version au \<longrightarrow>
       \<not> cache_is_current (au\<lparr>au_cache_version := version\<rparr>) ev'
          (cache_payload au ev session user, cache_until au ev dont_remember))"
  using own_cache_hit[OF assms(2-5) out assms(8) assms(9)[unfolded cd_def] assms(10), of ev' token]
    own_cache_hit[OF assms(2-5) out assms(8) assms(9)[unfolded cd_def] assms(10), of ev' tok] assms(5)
  by (auto simp: cd_def get_session_def Let_def cache_is_current_def cache_payload_parts py_or_def py_truthy.simps)

section \<open>A refused session\<close>

lemma output_keeps:
  assumes "\<And>f. (k, f) \<in> set fs \<Longrightarrow> f_returned f"
  shows "dget (parse_session_output r fs) k = dget r k"
proof -
  have keep: "map_of (filter (\<lambda>(k', _). k' \<notin> K) r) k = map_of r k" if "k \<notin> K" for K
    using that by (induction r) auto
  have "k \<notin> set (map fst (filter (\<lambda>(_, spec). \<not> f_returned spec) fs))" using assms by auto
  from keep[OF this] show ?thesis
    by (simp add: parse_session_output_def filter_output_fields_def dget_def Let_def)
qed

lemma refused_create:
  assumes "run_before (au_ic au) ''session'' ''create'' (new_session_row au ev rq (VStr user_id) remember fresh) = Inr (d, True)"
  shows "create_row (au_ic au) ev ''session'' (new_session_row au ev rq (VStr user_id) remember fresh) True w = (Inr None, w)"
  using assms by (simp add: create_row_def int_create_def bindA_def)

lemma session_row_output:
  assumes "\<forall>k\<in>{''token'', ''expiresAt''}. \<forall>f. (k, f) \<in> set (fields_of (au_schema au) ''session'') \<longrightarrow> f_returned f"
  shows "dget (parse_session_output (new_session_row au ev rq uid remember fresh) (fields_of (au_schema au) ''session''))
      ''expiresAt'' = VDate (now ev + (if remember then au_expires_in au else DONT_REMEMBER_EXPIRES_IN) * 1000000)"
    "dget (parse_session_output (new_session_row au ev rq uid remember fresh) (fields_of (au_schema au) ''session''))
      ''token'' = VStr (snd fresh)"
  using assms by (simp_all add: output_keeps new_session_row_def dget_Cons Let_def)

text \<open>
  C18: The answer of the create is ignored. With the cookie cache on (compact strategy) and the user at
  hand, as after a sign-in: when a before-hook refuses to create a session, nothing is stored, yet the
  caller gets the session, its signed session cookie and its cache cookie. Any later request with that
  token and that cache cookie is then authenticated as the user, with the session's and the user's
  returned columns as JSON, until the cache window or the expiry of the session that was never stored.
\<close>
theorem refused_session_served:
  fixes au ev rq user_id remember fresh u
  defines "r \<equiv> new_session_row au ev rq (VStr user_id) remember fresh" and "cd \<equiv> au_codec au"
    and "x \<equiv> now ev + (if remember then au_expires_in au else DONT_REMEMBER_EXPIRES_IN) * 1000000"
  assumes "run_before (au_ic au) ''session'' ''create'' r = Inr (d, True)"
    and "au_cache au" "au_cache_jwt au = None" "reads_back au (cached_envelope au ev r u (\<not> remember))"
    and "payload_ok (cache_payload au ev r u)" "au_cache_version au \<noteq> []" "snd fresh = tok" "iso_ok cd x"
    and "\<forall>k\<in>{''token'', ''expiresAt''}. \<forall>f. (k, f) \<in> set (fields_of (au_schema au) ''session'') \<longrightarrow> f_returned f"
    and "read_token au rq' = Some tok"
    and "get_cookie au rq' ''session_data'' = Some (cached_value au ev r u (\<not> remember))"
    and "cached_value au ev r u (\<not> remember) \<noteq> []"
    and "now ev' \<le> cache_until au ev (\<not> remember) * 1000" "now ev' \<le> millis x"
  shows "\<exists>cs. session_create au ev rq (VStr user_id) remember (Some u) has_ctx fresh w =
      (Inr (r, cs, if has_ctx then Some (r, Some u) else None), w) \<and>
    build_cookie au (sign_value (au_hmac au) (au_secret au) tok)
      (if remember then Some (au_expires_in au) else None) ''session_token'' True \<in> set cs \<and>
    build_cookie au (cached_value au ev r u (\<not> remember))
      (if remember then Some (au_cache_age au) else None) ''session_data'' True \<in> set cs \<and>
    get_session au ev' rq' False False post w =
      (Inr (Some \<lparr>va_session = json_row cd (parse_session_output r (fields_of (au_schema au) ''session'')),
                  va_user = json_row cd (parse_user_output u (fields_of (au_schema au) ''user'')),
                  va_needs_refresh = None\<rparr>, []), w)"
proof -
  have out: "dget (parse_session_output r (fields_of (au_schema au) ''session'')) ''expiresAt'' = VDate x"
    "dget (parse_session_output r (fields_of (au_schema au) ''session'')) ''token'' = VStr tok"
    using session_row_output[OF assms(12)] assms(10) by (simp_all add: r_def x_def)
  have "get_session au ev' rq' False False post w =
      (Inr (Some \<lparr>va_session = json_row cd (parse_session_output r (fields_of (au_schema au) ''session'')),
                  va_user = json_row cd (parse_user_output u (fields_of (au_schema au) ''user'')),
                  va_needs_refresh = None\<rparr>, []), w)"
    using own_cache_hit[OF assms(6-9) refl refl out(1) assms(11)[unfolded cd_def] out(2), of ev' tok] assms(5,13-17)
    by (simp add: get_session_def Let_def cd_def)
  moreover have "create_row (au_ic au) ev ''session'' r True w = (Inr None, w)"
    unfolding r_def by (rule refused_create[OF assms(4)[unfolded r_def]])
  ultimately show ?thesis
    using assms(5,6,10)
    by (auto simp: session_create_def Let_def bindA_def set_cookie_cache_def cached_value_def signer_of_def r_def)
qed

section \<open>Witnesses\<close>

text \<open>A user, and the cache on; the one value that is printed reads back as the envelope.\<close>

definition demo_user :: row where
  "demo_user = [(''id'', VStr ''u''), (''email'', VStr ''e''), (''name'', VStr ''n''), (''emailVerified'', VBool True)]"

definition iso_auth :: auth where
  "iso_auth = demo_auth\<lparr>au_ic := (au_ic demo_auth)\<lparr>ic_ad := demo_adapter\<lparr>ad_codec := iso_codec\<rparr>\<rparr>\<rparr>"

definition refusing :: iconf where
  "refusing = (au_ic iso_auth)\<lparr>ic_hooks := [\<lparr>hk_before = (\<lambda>model oper. Some (\<lambda>r. Inr Abort)),
     hk_after = (\<lambda>model oper. None)\<rparr>]\<rparr>"

definition demo_row :: row where
  "demo_row = new_session_row demo_auth (at_us 0) (token_request []) (VStr ''u'') True (''i'', ''tok'')"

definition cache_auth :: auth where
  "cache_auth = demo_auth\<lparr>au_cache := True, au_ic := refusing, au_dumps := (\<lambda>_. ''x''), au_envelope := (\<lambda>_. Some
     (VDict [(''session'', VDict (cache_payload iso_auth (at_us 0) demo_row demo_user)),
             (''expiresAt'', VInt 300000), (''signature'', VStr (sign_hmac_b64url demo_hmac ''s3cret'' ''x''))]))\<rparr>"

lemma cache_auth_parts [simp]:
  "au_hmac cache_auth = demo_hmac" "au_secret cache_auth = ''s3cret''" "au_dumps cache_auth = (\<lambda>_. ''x'')"
  "au_schema cache_auth = CORE_SCHEMA" "au_cache_version cache_auth = ''1''" "au_cache_age cache_auth = 300"
  "au_expires_in cache_auth = 1000" "au_prefix cache_auth = ''ba''" "au_secure cache_auth = False" "au_cache cache_auth"
  "au_ic cache_auth = refusing" "au_cache_jwt cache_auth = None" "ic_codec refusing = iso_codec"
  "new_session_row cache_auth ev rq (VStr user_id) remember fresh = new_session_row demo_auth ev rq (VStr user_id) remember fresh"
  "cache_payload cache_auth ev s u = cache_payload iso_auth ev s u"
  by (simp_all add: cache_auth_def iso_auth_def refusing_def demo_auth_def new_session_row_def cache_payload_def)

lemma cache_auth_facts:
  "reads_back cache_auth (cached_envelope cache_auth (at_us 0) demo_row demo_user False)"
  "payload_ok (cache_payload cache_auth (at_us 0) demo_row demo_user)"
  "cache_until cache_auth (at_us 0) False = 300000"
  "cached_value cache_auth (at_us 0) demo_row demo_user False = ''eA''"
proof -
  show until: "cache_until cache_auth (at_us 0) False = 300000" by (simp add: cache_until_def at_us_def dt_ms_def)
  show "payload_ok (cache_payload cache_auth (at_us 0) demo_row demo_user)" by (simp, code_simp)
  show "reads_back cache_auth (cached_envelope cache_auth (at_us 0) demo_row demo_user False)"
    by (simp add: reads_back_def cached_envelope_def cache_envelope_def cache_signature_def until)
      (simp add: cache_auth_def)
  have "encode_text ''x'' = ''eA''" by code_simp
  then show "cached_value cache_auth (at_us 0) demo_row demo_user False = ''eA''"
    by (simp add: cached_value_def encode_cache_def Let_def)
qed

lemma now_at_us [simp]: "now (at_us t) = t"
  by (simp add: at_us_def)

definition cache_request :: request where
  "cache_request = (token_request ''tok'')\<lparr>rq_cookies := [(''ba.session_data'', ''eA'')]\<rparr>"

lemma cache_request_facts:
  "read_token cache_auth cache_request = Some ''tok''" "get_cookie cache_auth cache_request ''session_data'' = Some ''eA''"
proof -
  have "unquote_all ''tok'' = ''tok''" by code_simp
  moreover have "rpartition_at CHR ''.'' ''tok'' = ([], False, ''tok'')" by code_simp
  moreover have "strip (drop 7 ''Bearer tok'') = ''tok''" "starts_with (str_lower ''Bearer tok'') ''bearer ''" by code_simp+
  ultimately show "read_token cache_auth cache_request = Some ''tok''"
    by (simp add: read_token_def get_cookie_def cookie_name_def cache_request_def token_request_def unsign_value_def)
  show "get_cookie cache_auth cache_request ''session_data'' = Some ''eA''"
    by (simp add: get_cookie_def cookie_name_def cache_request_def)
qed

lemma demo_row_output:
  "parse_session_output demo_row (fields_of CORE_SCHEMA ''session'') = demo_row"
  "parse_user_output demo_user (fields_of CORE_SCHEMA ''user'') = demo_user"
  "dget demo_row ''expiresAt'' = VDate 1000000000" "dget demo_row ''token'' = VStr ''tok''"
  by code_simp+

theorem cookie_cache_roundtrip_witness:
  "get_session cache_auth (at_us 200000000) cache_request False False False demo_sessions =
     (Inr (Some \<lparr>va_session = json_row iso_codec demo_row, va_user = json_row iso_codec demo_user, va_needs_refresh = None\<rparr>, []), demo_sessions)"
  using cookie_cache_roundtrip[OF _ cache_auth_facts(1,2), of demo_row demo_user 1000000000 "''tok''" "at_us 200000000" "''tok''" cache_request False False demo_sessions "''2''"]
    cache_request_facts demo_row_output cache_auth_facts(3,4) iso_known
  by (simp add: millis_def)

lemma session_columns_returned:
  "\<forall>k\<in>{''token'', ''expiresAt''}. \<forall>f. (k, f) \<in> set (fields_of CORE_SCHEMA ''session'') \<longrightarrow> f_returned f"
  by (auto simp: fields_of_def CORE_SCHEMA_def mk_field_def id_field_def created_at_field_def updated_at_field_def)

theorem refused_session_served_witness:
  "\<exists>cs v. session_create cache_auth (at_us 0) (token_request []) (VStr ''u'') True (Some demo_user) False (''i'', ''tok'') demo_sessions =
       (Inr (demo_row, cs, None), demo_sessions) \<and>
     get_session cache_auth (at_us 200000000) cache_request False False False demo_sessions = (Inr (Some v, []), demo_sessions) \<and>
     va_user v = json_row iso_codec demo_user"
proof -
  have "run_before refusing ''session'' ''create'' demo_row = Inr (demo_row, True)"
    by (simp add: run_before_def refusing_def map_filter_simps)
  then show ?thesis
    using refused_session_served[of cache_auth "at_us 0" "token_request []" "''u''" True "(''i'', ''tok'')" demo_row demo_user
        "''tok''" cache_request "at_us 200000000" False demo_sessions False]
      cache_auth_facts cache_request_facts session_columns_returned demo_row_output(2) iso_known
    by (auto simp: demo_row_def[symmetric] millis_def)
qed

end
