(* ===== verification/OrgAccess.thy ===== *)
theory OrgAccess
  imports AccessControl Adapter_Facts Crypto
begin

text \<open>
  The permission check of the organization plugin (\<open>plugins_ext/organization.py\<close>, \<open>has_permission\<close>
  and what it calls): static roles, the dynamic roles an organization keeps in its
  \<open>organizationRole\<close> rows, and the rule that the creator role may do everything.
  \<open>json.loads\<close> is the parameter \<open>loads\<close> (\<open>None\<close> when it raises \<open>ValueError\<close>).
\<close>

record org_plugin =
  op_creator_role :: string
  op_roles :: "(string \<times> statements) list"
  op_dac_enabled :: bool
  op_has_ac :: bool

definition str_items :: "pyval list \<Rightarrow> string list" where
  "str_items vs = List.map_filter (\<lambda>v. case v of VStr s \<Rightarrow> Some s | _ \<Rightarrow> None) vs"

definition is_valid_role_permission :: "pyval \<Rightarrow> bool" where
  "is_valid_role_permission v =
     (case v of
        VDict d \<Rightarrow> list_all (\<lambda>(_, x). case x of VList vs \<Rightarrow> list_all is_str vs | _ \<Rightarrow> False) d
      | _ \<Rightarrow> False)"

text \<open>The table a valid permission value spells.\<close>

definition table_of :: "pyval \<Rightarrow> statements" where
  "table_of v =
     (case v of
        VDict d \<Rightarrow> map (\<lambda>(k, x). (k, case x of VList vs \<Rightarrow> str_items vs | _ \<Rightarrow> [])) d
      | _ \<Rightarrow> [])"

definition resolve_roles :: "org_plugin \<Rightarrow> (string \<times> statements) list" where
  "resolve_roles op = dmerge ORG_DEFAULT_ROLES (op_roles op)"

text \<open>The statements of a table for one resource, \<open>[]\<close> when it has none.\<close>

definition allowed_actions :: "statements \<Rightarrow> string \<Rightarrow> string list" where
  "allowed_actions st k = (case map_of st k of Some actions \<Rightarrow> actions | None \<Rightarrow> [])"

fun union_statements :: "statements \<Rightarrow> statements \<Rightarrow> statements" where
  "union_statements st [] = st"
| "union_statements st ((k, actions) # more_st) =
     union_statements (dset k (dedup (allowed_actions st k @ actions)) st) more_st"

definition err_role_permissions :: "pyval \<Rightarrow> exn" where
  "err_role_permissions role_name =
     APIError 500 ''INTERNAL_SERVER_ERROR''
       (''Invalid permissions for role '' @ (case role_name of VStr s \<Rightarrow> s | _ \<Rightarrow> [])) []"

text \<open>One dynamic row layered on the roles collected so far.\<close>

definition merge_dynamic ::
    "(string \<Rightarrow> pyval option) \<Rightarrow> (string \<times> statements) list \<Rightarrow> row \<Rightarrow> (string \<times> statements) list result" where
  "merge_dynamic loads roles r =
     bindR (dindex r ''role'') (\<lambda>role_name.
     bindR (dindex r ''permission'') (\<lambda>text.
       case text of
         VStr t \<Rightarrow>
           (case loads t of
              None \<Rightarrow> Inl ValueError
            | Some parsed \<Rightarrow>
                if \<not> is_valid_role_permission parsed then Inl (err_role_permissions role_name)
                else
                  (case role_name of
                     VStr name \<Rightarrow>
                       (let existing = (case map_of roles name of Some st \<Rightarrow> st | None \<Rightarrow> [])
                        in Inr (dset name (union_statements existing (table_of parsed)) roles))
                   | _ \<Rightarrow> Inr roles))
       | _ \<Rightarrow> Inl TypeError))"

fun merge_all_dynamic ::
    "(string \<Rightarrow> pyval option) \<Rightarrow> (string \<times> statements) list \<Rightarrow> row list \<Rightarrow>
     (string \<times> statements) list result" where
  "merge_all_dynamic loads roles [] = Inr roles"
| "merge_all_dynamic loads roles (r # rs) =
     bindR (merge_dynamic loads roles r) (\<lambda>roles'. merge_all_dynamic loads roles' rs)"

text \<open>Is one of the roles authorized? The first that is ends the loop.\<close>

fun any_role_authorizes :: "(string \<times> statements) list \<Rightarrow> row \<Rightarrow> string list \<Rightarrow> bool result" where
  "any_role_authorizes ac_roles permissions [] = Inr False"
| "any_role_authorizes ac_roles permissions (r # rs) =
     (case map_of ac_roles r of
        None \<Rightarrow> any_role_authorizes ac_roles permissions rs
      | Some st \<Rightarrow>
          bindR (authorize st permissions ConnAnd) (\<lambda>res.
            if res = Success then Inr True else any_role_authorizes ac_roles permissions rs))"

definition has_permission_fn ::
    "string \<Rightarrow> row \<Rightarrow> org_plugin \<Rightarrow> (string \<times> statements) list \<Rightarrow> bool \<Rightarrow> bool result" where
  "has_permission_fn role permissions op ac_roles allow_creator =
     (if permissions = [] then Inr False
      else
        (let roles = split_on CHR '','' role;
             creator_role = (if op_creator_role op = [] then ''owner'' else op_creator_role op)
         in if creator_role \<in> set roles \<and> allow_creator then Inr True
            else any_role_authorizes ac_roles permissions roles))"

definition has_permission ::
    "adapter \<Rightarrow> (string \<Rightarrow> pyval option) \<Rightarrow> org_plugin \<Rightarrow> pyval \<Rightarrow> row \<Rightarrow> pyval \<Rightarrow> bool \<Rightarrow>
     (store, bool) action" where
  "has_permission ad loads op role permissions organization_id allow_creator =
     bindA (if py_truthy organization_id \<and> op_dac_enabled op \<and> op_has_ac op
            then bindA (mem_find_many ad ''organizationRole'' [Where ''organizationId'' organization_id] None None None [])
              (\<lambda>rs. liftR (merge_all_dynamic loads (resolve_roles op) rs))
            else ret (resolve_roles op)) (\<lambda>ac_roles.
       case role of
         VStr r \<Rightarrow> liftR (has_permission_fn r permissions op ac_roles allow_creator)
       | _ \<Rightarrow> if permissions = [] then ret False else raise AttributeError)"

section \<open>What dynamic roles can do\<close>

text \<open>A merged table grants at least what the table did before.\<close>

lemma table_leI:
  assumes "\<And>r xs. map_of st r = Some xs \<Longrightarrow> \<exists>ys. map_of st' r = Some ys \<and> set xs \<subseteq> set ys"
  shows "table_le st st'"
  unfolding table_le_def list_all_iff
proof (rule ballI)
  fix p assume "p \<in> set st"
  then have "map_of st (fst p) \<noteq> None" by (simp add: map_of_eq_None_iff)
  then obtain xs where xs: "map_of st (fst p) = Some xs" by blast
  from assms[OF xs] obtain ys where "map_of st' (fst p) = Some ys" "set xs \<subseteq> set ys" by blast
  with xs show "case p of (r, _) \<Rightarrow> (case (map_of st r, map_of st' r) of
      (Some xs, Some ys) \<Rightarrow> \<forall>x\<in>set xs. x \<in> set ys | _ \<Rightarrow> False)"
    by (auto simp: split_beta)
qed

lemma table_le_refl: "table_le st st"
  by (rule table_leI) simp

lemma table_le_trans:
  assumes "table_le a b" "table_le b c"
  shows "table_le a c"
proof (rule table_leI)
  fix r xs assume "map_of a r = Some xs"
  from table_leD[OF assms(1) this] obtain ys where ys: "map_of b r = Some ys" "set xs \<subseteq> set ys" .
  from table_leD[OF assms(2) ys(1)] obtain zs where "map_of c r = Some zs" "set ys \<subseteq> set zs" .
  with ys(2) show "\<exists>zs. map_of c r = Some zs \<and> set xs \<subseteq> set zs" by blast
qed

lemma union_statements_le: "table_le st (union_statements st new_st)"
proof (induction st new_st rule: union_statements.induct)
  case (2 st k actions new_st)
  have "table_le st (dset k (dedup (allowed_actions st k @ actions)) st)"
    by (rule table_leI) (auto simp: allowed_actions_def)
  from table_le_trans[OF this 2] show ?case by simp
qed (simp add: table_le_refl)

definition roles_le :: "(string \<times> statements) list \<Rightarrow> (string \<times> statements) list \<Rightarrow> bool" where
  "roles_le roles roles' \<longleftrightarrow>
     (\<forall>name st. map_of roles name = Some st \<longrightarrow> (\<exists>st'. map_of roles' name = Some st' \<and> table_le st st'))"

lemma roles_le_refl: "roles_le roles roles"
  by (auto simp: roles_le_def table_le_refl)

lemma roles_le_trans: "roles_le a b \<Longrightarrow> roles_le b c \<Longrightarrow> roles_le a c"
  unfolding roles_le_def by (meson table_le_trans)

lemma roles_le_dset:
  "map_of roles name = None \<Longrightarrow> roles_le roles (dset name st roles)"
  "map_of roles name = Some st0 \<Longrightarrow> roles_le roles (dset name (union_statements st0 st) roles)"
  by (auto simp: roles_le_def table_le_refl union_statements_le)

lemma merge_dynamic_le: "merge_dynamic loads roles r = Inr roles' \<Longrightarrow> roles_le roles roles'"
  unfolding merge_dynamic_def bindR_Inr_iff Let_def
  by (elim exE conjE) (auto intro: roles_le_refl roles_le_dset split: pyval.split_asm option.split_asm if_split_asm)

lemma merge_all_dynamic_le: "merge_all_dynamic loads roles rs = Inr roles' \<Longrightarrow> roles_le roles roles'"
proof (induction rs arbitrary: roles)
  case (Cons r rs)
  then show ?case by (auto simp: bindR_Inr_iff dest: merge_dynamic_le intro: roles_le_trans)
qed (simp add: roles_le_refl)

lemma any_role_authorizes_iff:
  assumes "well_formed_request permissions"
  shows "any_role_authorizes roles permissions names =
    Inr (\<exists>n\<in>set names. \<exists>st. map_of roles n = Some st \<and> authorize st permissions ConnAnd = Inr Success)"
proof (induction names)
  case (Cons n names)
  show ?case
  proof (cases "map_of roles n")
    case (Some st)
    obtain res where "authorize st permissions ConnAnd = Inr res"
      using authorize_loop_total[OF assms] unfolding authorize_def by blast
    with Some Cons show ?thesis by (cases "res = Success") auto
  qed (use Cons in simp)
qed simp

text \<open>
  C28: Dynamic roles only add. Whatever roles an organization stores, a member whose static roles (or
  the creator role) authorize a well-formed request stays authorized once the stored roles are
  merged in: a dynamic role augments the static role of its name and never shadows it.
\<close>
theorem dynamic_roles_augment:
  assumes "well_formed_request permissions"
    and "has_permission_fn role permissions op (resolve_roles op) creator = Inr True"
    and "merge_all_dynamic loads (resolve_roles op) rs = Inr roles"
  shows "has_permission_fn role permissions op roles creator = Inr True"
proof -
  have le: "roles_le (resolve_roles op) roles" by (rule merge_all_dynamic_le[OF assms(3)])
  have "any_role_authorizes roles permissions names = Inr True"
    if won: "any_role_authorizes (resolve_roles op) permissions names = Inr True" for names
  proof -
    from won obtain n st where n: "n \<in> set names" "map_of (resolve_roles op) n = Some st"
      "authorize st permissions ConnAnd = Inr Success"
      by (auto simp: any_role_authorizes_iff[OF assms(1)])
    from le n(2) obtain st' where "map_of roles n = Some st'" "table_le st st'" by (auto simp: roles_le_def)
    with n(1) authorize_mono[OF _ assms(1) n(3)] show ?thesis
      unfolding any_role_authorizes_iff[OF assms(1)] by blast
  qed
  with assms(2) show ?thesis by (auto simp: has_permission_fn_def Let_def split: if_splits)
qed

text \<open>The member role of a stored row that lets members invite.\<close>

definition demo_org :: org_plugin where
  "demo_org = \<lparr>op_creator_role = [], op_roles = [], op_dac_enabled = True, op_has_ac = True\<rparr>"

definition demo_role_loads :: "string \<Rightarrow> pyval option" where
  "demo_role_loads t =
     (if t = ''I'' then Some (VDict [(''invitation'', VList [VStr ''create''])]) else None)"

theorem dynamic_roles_augment_witness:
  "has_permission_fn ''guest,member'' [(''ac'', VList [VStr ''read''])] demo_org
     (case merge_all_dynamic demo_role_loads (resolve_roles demo_org)
        [[(''role'', VStr ''member''), (''permission'', VStr ''I'')]] of Inr roles \<Rightarrow> roles | Inl _ \<Rightarrow> []) True = Inr True"
proof -
  let ?rs = "[[(''role'', VStr ''member''), (''permission'', VStr ''I'')]]"
  have a: "well_formed_request [(''ac'', VList [VStr ''read''])]" by code_simp
  have b: "has_permission_fn ''guest,member'' [(''ac'', VList [VStr ''read''])] demo_org (resolve_roles demo_org) True = Inr True"
    by code_simp
  have "case merge_all_dynamic demo_role_loads (resolve_roles demo_org) ?rs of Inr _ \<Rightarrow> True | Inl _ \<Rightarrow> False"
    by code_simp
  then obtain roles where c: "merge_all_dynamic demo_role_loads (resolve_roles demo_org) ?rs = Inr roles"
    by (auto split: sum.splits)
  from dynamic_roles_augment[OF a b c] c show ?thesis by simp
qed

end
