(* ===== verification/ApiKey.thy ===== *)
theory ApiKey
  imports Session OrgAccess
begin

text \<open>
  \<open>plugins_ext/api_key.py\<close>, first half: configurations, the table, verification and the guarded
  claims that consume a use (the remaining count, the refill, the rate limit).

  The store is the memory adapter's. Instants are exact microseconds, so the comparisons the code
  makes in floating-point milliseconds and days are made exactly. A round of the rate-limit claim
  reads the clock once; the readings are the list \<open>rounds\<close>, and a call that needs more of them than
  given answers \<open>None\<close>. Callables of a configuration are functions, JSON text is made and read by
  \<open>kl_dumps\<close> and \<open>kl_loads\<close> (\<open>None\<close> when \<open>json.loads\<close> raises).
\<close>

section \<open>Error codes\<close>

definition API_KEY_ERROR_CODES :: "(string \<times> string) list" where
  "API_KEY_ERROR_CODES = [
     (''INVALID_METADATA_TYPE'', ''metadata must be an object or undefined''),
     (''REFILL_AMOUNT_AND_INTERVAL_REQUIRED'', ''refillAmount is required when refillInterval is provided''),
     (''REFILL_INTERVAL_AND_AMOUNT_REQUIRED'', ''refillInterval is required when refillAmount is provided''),
     (''USER_BANNED'', ''User is banned''),
     (''UNAUTHORIZED_SESSION'', ''Unauthorized or invalid session''),
     (''KEY_NOT_FOUND'', ''API Key not found''),
     (''KEY_DISABLED'', ''API Key is disabled''),
     (''KEY_EXPIRED'', ''API Key has expired''),
     (''USAGE_EXCEEDED'', ''API Key has reached its usage limit''),
     (''KEY_NOT_RECOVERABLE'', ''API Key is not recoverable''),
     (''EXPIRES_IN_IS_TOO_SMALL'', ''The expiresIn is smaller than the predefined minimum value.''),
     (''EXPIRES_IN_IS_TOO_LARGE'', ''The expiresIn is larger than the predefined maximum value.''),
     (''INVALID_REMAINING'', ''The remaining count is either too large or too small.''),
     (''INVALID_PREFIX_LENGTH'', ''The prefix length is either too large or too small.''),
     (''INVALID_NAME_LENGTH'', ''The name length is either too large or too small.''),
     (''METADATA_DISABLED'', ''Metadata is disabled.''),
     (''RATE_LIMIT_EXCEEDED'', ''Rate limit exceeded.''),
     (''NO_VALUES_TO_UPDATE'', ''No values to update.''),
     (''KEY_DISABLED_EXPIRATION'', ''Custom key expiration values are disabled.''),
     (''INVALID_API_KEY'', ''Invalid API key.''),
     (''INVALID_USER_ID_FROM_API_KEY'', ''The user id from the API key is invalid.''),
     (''INVALID_REFERENCE_ID_FROM_API_KEY'', ''The reference id from the API key is invalid.''),
     (''INVALID_API_KEY_GETTER_RETURN_TYPE'', ''API Key getter returned an invalid key type. Expected string.''),
     (''SERVER_ONLY_PROPERTY'',
        ''The property you're trying to set can only be set from the server auth instance only.''),
     (''FAILED_TO_UPDATE_API_KEY'', ''Failed to update API key''),
     (''NAME_REQUIRED'', ''API Key name is required.''),
     (''ORGANIZATION_ID_REQUIRED'', ''Organization ID is required for organization-owned API keys.''),
     (''USER_NOT_MEMBER_OF_ORGANIZATION'',
        ''You are not a member of the organization that owns this API key.''),
     (''INSUFFICIENT_API_KEY_PERMISSIONS'',
        ''You do not have permission to perform this action on organization API keys.''),
     (''NO_DEFAULT_API_KEY_CONFIGURATION_FOUND'', ''No default api-key configuration found.''),
     (''ORGANIZATION_PLUGIN_REQUIRED'',
        ''Organization plugin is required for organization-owned API keys. Please install and configure the organization plugin.'')]"

definition key_error :: "int \<Rightarrow> string \<Rightarrow> exn" where
  "key_error status code =
     APIError status code (case map_of API_KEY_ERROR_CODES code of Some m \<Rightarrow> m | None \<Rightarrow> []) []"

definition DAY_MS :: int where
  "DAY_MS = 1000 * 60 * 60 * 24"

definition rate_limited :: "int \<Rightarrow> exn" where
  "rate_limited try_again_in =
     APIError 429 ''RATE_LIMITED'' ''Rate limit exceeded.''
       [(''details'', VDict [(''tryAgainIn'', VInt try_again_in)])]"

section \<open>Configurations\<close>

datatype key_headers = OneHeader string | Headers "string list"

datatype permission_source = PermsValue pyval | PermsCall "string \<Rightarrow> pyval"

record key_config =
  kc_config_id :: "string option"
  kc_headers :: key_headers
  kc_disable_hashing :: bool
  kc_key_length :: int
  kc_prefix :: "string option"
  kc_max_prefix :: int
  kc_min_prefix :: int
  kc_max_name :: int
  kc_min_name :: int
  kc_require_name :: bool
  kc_metadata :: bool
  kc_sessions :: bool
  kc_references :: string
  kc_store_start :: bool
  kc_start_length :: int
  kc_expires_in :: "int option"
  kc_disable_custom_expires :: bool
  kc_min_expires :: int
  kc_max_expires :: int
  kc_rate_enabled :: bool
  kc_rate_window :: int
  kc_rate_max :: int
  kc_permissions :: permission_source
  kc_generator :: "(int \<Rightarrow> pyval \<Rightarrow> string) option"
  kc_getter :: "(request \<Rightarrow> pyval) option"
  kc_validator :: "(request \<Rightarrow> string \<Rightarrow> bool) option"

text \<open>What the caller passes: an option per key, \<open>None\<close> for a key that is absent.\<close>

record raw_config =
  rc_storage :: "string option"
  rc_custom_storage :: bool
  rc_config_id :: "string option"
  rc_headers :: "key_headers option"
  rc_disable_hashing :: "bool option"
  rc_key_length :: "int option"
  rc_prefix :: "string option"
  rc_max_prefix :: "int option"
  rc_min_prefix :: "int option"
  rc_max_name :: "int option"
  rc_min_name :: "int option"
  rc_require_name :: "bool option"
  rc_metadata :: "bool option"
  rc_sessions :: "bool option"
  rc_references :: "string option"
  rc_store_start :: "bool option"
  rc_start_length :: "int option"
  rc_expires_in :: "int option"
  rc_disable_custom_expires :: "bool option"
  rc_min_expires :: "int option"
  rc_max_expires :: "int option"
  rc_rate_enabled :: "bool option"
  rc_rate_window :: "int option"
  rc_rate_max :: "int option"
  rc_permissions :: "permission_source option"
  rc_generator :: "(int \<Rightarrow> pyval \<Rightarrow> string) option"
  rc_getter :: "(request \<Rightarrow> pyval) option"
  rc_validator :: "(request \<Rightarrow> string \<Rightarrow> bool) option"

text \<open>\<open>raw.get(k, d)\<close>.\<close>

definition or_default :: "'a option \<Rightarrow> 'a \<Rightarrow> 'a" where
  "or_default v d = (case v of Some x \<Rightarrow> x | None \<Rightarrow> d)"

definition normalize_config :: "raw_config \<Rightarrow> key_config result" where
  "normalize_config rc =
     (if or_default (rc_storage rc) ''database'' \<noteq> ''database'' \<or> rc_custom_storage rc then Inl NotImplementedError
      else Inr \<lparr>
        kc_config_id = rc_config_id rc,
        kc_headers = or_default (rc_headers rc) (OneHeader ''x-api-key''),
        kc_disable_hashing = or_default (rc_disable_hashing rc) False,
        kc_key_length = (if or_default (rc_key_length rc) 0 = 0 then 64 else or_default (rc_key_length rc) 0),
        kc_prefix = rc_prefix rc,
        kc_max_prefix = or_default (rc_max_prefix rc) 32,
        kc_min_prefix = or_default (rc_min_prefix rc) 1,
        kc_max_name = or_default (rc_max_name rc) 32,
        kc_min_name = or_default (rc_min_name rc) 1,
        kc_require_name = or_default (rc_require_name rc) False,
        kc_metadata = or_default (rc_metadata rc) False,
        kc_sessions = or_default (rc_sessions rc) False,
        kc_references = or_default (rc_references rc) ''user'',
        kc_store_start = or_default (rc_store_start rc) True,
        kc_start_length = or_default (rc_start_length rc) 6,
        kc_expires_in = rc_expires_in rc,
        kc_disable_custom_expires = or_default (rc_disable_custom_expires rc) False,
        kc_min_expires = or_default (rc_min_expires rc) 1,
        kc_max_expires = or_default (rc_max_expires rc) 365,
        kc_rate_enabled = or_default (rc_rate_enabled rc) True,
        kc_rate_window = or_default (rc_rate_window rc) DAY_MS,
        kc_rate_max = or_default (rc_rate_max rc) 10,
        kc_permissions = or_default (rc_permissions rc) (PermsValue VNone),
        kc_generator = rc_generator rc,
        kc_getter = rc_getter rc,
        kc_validator = rc_validator rc\<rparr>)"

fun normalize_all :: "raw_config list \<Rightarrow> key_config list result" where
  "normalize_all [] = Inr []"
| "normalize_all (rc # rcs) =
     bindR (normalize_config rc) (\<lambda>kc. bindR (normalize_all rcs) (\<lambda>kcs. Inr (kc # kcs)))"

definition optional_field :: "string \<Rightarrow> field" where
  "optional_field ty = (mk_field ty False)\<lparr>f_input := False\<rparr>"

definition needed_field :: "string \<Rightarrow> field" where
  "needed_field ty = (mk_field ty True)\<lparr>f_input := False\<rparr>"

definition build_schema :: "(pyval \<Rightarrow> string) \<Rightarrow> int \<Rightarrow> int \<Rightarrow> schema" where
  "build_schema js default_rate_max default_window = [(''apikey'', [
     (''configId'', (needed_field ''string'')\<lparr>f_default := Some (VStr ''default'')\<rparr>),
     (''name'', optional_field ''string''),
     (''start'', optional_field ''string''),
     (''referenceId'', needed_field ''string''),
     (''prefix'', optional_field ''string''),
     (''key'', needed_field ''string''),
     (''refillInterval'', optional_field ''number''),
     (''refillAmount'', optional_field ''number''),
     (''lastRefillAt'', optional_field ''datetime''),
     (''enabled'', (optional_field ''boolean'')\<lparr>f_default := Some (VBool True)\<rparr>),
     (''rateLimitEnabled'', (optional_field ''boolean'')\<lparr>f_default := Some (VBool True)\<rparr>),
     (''rateLimitTimeWindow'', (optional_field ''number'')\<lparr>f_default := Some (VInt default_window)\<rparr>),
     (''rateLimitMax'', (optional_field ''number'')\<lparr>f_default := Some (VInt default_rate_max)\<rparr>),
     (''requestCount'', (optional_field ''number'')\<lparr>f_default := Some (VInt 0)\<rparr>),
     (''remaining'', optional_field ''number''),
     (''lastRequest'', optional_field ''datetime''),
     (''expiresAt'', optional_field ''datetime''),
     (''createdAt'', needed_field ''datetime''),
     (''updatedAt'', needed_field ''datetime''),
     (''permissions'', optional_field ''string''),
     (''metadata'', (mk_field ''string'' False)\<lparr>f_transform_input := Some (\<lambda>v. VStr (js v))\<rparr>)])]"

datatype config_arg = SingleConfig raw_config | ConfigList "raw_config list"

record key_plugin =
  kp_configs :: "key_config list"
  kp_schema :: schema

text \<open>\<open>ApiKeyPlugin.__init__\<close>.\<close>

definition make_plugin :: "(pyval \<Rightarrow> string) \<Rightarrow> config_arg \<Rightarrow> schema \<Rightarrow> key_plugin result" where
  "make_plugin js arg ext =
     bindR
       (case arg of
          SingleConfig rc \<Rightarrow> Inr [rc]
        | ConfigList rcs \<Rightarrow>
            if rcs \<noteq> [] \<and> \<not> list_all (\<lambda>rc. rc_config_id rc \<noteq> None \<and> rc_config_id rc \<noteq> Some []) rcs
            then Inl ValueError
            else if \<not> distinct (map rc_config_id rcs) then Inl ValueError
            else Inr rcs) (\<lambda>raws.
     bindR (normalize_all raws) (\<lambda>configs.
       let (rate_max, window) =
             (case configs of [kc] \<Rightarrow> (kc_rate_max kc, kc_rate_window kc) | _ \<Rightarrow> (10, DAY_MS))
       in Inr \<lparr>kp_configs = configs, kp_schema = merge_extension (build_schema js rate_max window) ext\<rparr>))"

definition opt_str :: "string option \<Rightarrow> pyval" where
  "opt_str s = (case s of Some t \<Rightarrow> VStr t | None \<Rightarrow> VNone)"

definition is_default_config_id :: "pyval \<Rightarrow> bool" where
  "is_default_config_id v \<longleftrightarrow> \<not> py_truthy v \<or> v = VStr ''default''"

definition config_id_matches :: "pyval \<Rightarrow> pyval \<Rightarrow> bool" where
  "config_id_matches key_config_id expected \<longleftrightarrow>
     is_default_config_id key_config_id \<and> is_default_config_id expected \<or> py_eq key_config_id expected"

fun default_config :: "key_config list \<Rightarrow> key_config result" where
  "default_config [] = Inl (key_error 400 ''NO_DEFAULT_API_KEY_CONFIGURATION_FOUND'')"
| "default_config (kc # kcs) =
     (if is_default_config_id (opt_str (kc_config_id kc)) then Inr (kc\<lparr>kc_config_id := Some ''default''\<rparr>)
      else default_config kcs)"

definition resolve_config :: "key_plugin \<Rightarrow> pyval \<Rightarrow> key_config result" where
  "resolve_config kp config_id =
     (if \<not> py_truthy config_id then default_config (kp_configs kp)
      else case find (\<lambda>kc. opt_str (kc_config_id kc) = config_id) (kp_configs kp) of
             Some kc \<Rightarrow> Inr kc
           | None \<Rightarrow> default_config (kp_configs kp))"

definition config_for_key :: "key_plugin \<Rightarrow> pyval \<Rightarrow> key_config option" where
  "config_for_key kp key_config_id =
     find (\<lambda>kc. if is_default_config_id key_config_id then is_default_config_id (opt_str (kc_config_id kc))
                else opt_str (kc_config_id kc) = key_config_id) (kp_configs kp)"

section \<open>The rate-limit decision\<close>

datatype decision =
    Skip "int option"
  | Start int
  | Deny int
  | Reset int int
  | Increment int pyval int

text \<open>\<open>math.ceil(window_ms - delta_ms)\<close> for microseconds.\<close>

definition ceil_ms :: "int \<Rightarrow> int" where
  "ceil_ms us = - ((- us) div 1000)"

definition evaluate_rate_limit :: "key_config \<Rightarrow> int \<Rightarrow> row \<Rightarrow> decision result" where
  "evaluate_rate_limit kc t key =
     (let last_request = dget key ''lastRequest'';
          window_ms = dget key ''rateLimitTimeWindow'';
          max_requests = dget key ''rateLimitMax'';
          request_count = (case map_of key ''requestCount'' of Some v \<Rightarrow> v | None \<Rightarrow> VInt 0)
      in if \<not> kc_rate_enabled kc then Inr (Skip (Some t))
         else if dget key ''rateLimitEnabled'' = VBool False then Inr (Skip (Some t))
         else if window_ms = VNone \<or> max_requests = VNone then Inr (Skip None)
         else if last_request = VNone then Inr (Start t)
         else
           (case (last_request, py_num window_ms) of
              (VDate l, Some w) \<Rightarrow>
                (let delta = t - l; window_start = t - w * 1000
                 in if delta > w * 1000 then Inr (Reset t window_start)
                    else bindR (py_lt request_count max_requests) (\<lambda>below.
                      if \<not> below then Inr (Deny (ceil_ms (w * 1000 - delta)))
                      else Inr (Increment t max_requests window_start)))
            | _ \<Rightarrow> Inl TypeError))"

section \<open>Claiming a use\<close>

definition at_time_of :: "env \<Rightarrow> int \<Rightarrow> env" where
  "at_time_of ev t = ev\<lparr>now := t\<rparr>"

definition invalid_key :: exn where
  "invalid_key = key_error 401 ''INVALID_API_KEY''"

fun consume_rate_limit ::
    "adapter \<Rightarrow> env \<Rightarrow> key_config \<Rightarrow> int list \<Rightarrow> row \<Rightarrow> (store, row option) action" where
  "consume_rate_limit ad ev kc [] key = ret None"
| "consume_rate_limit ad ev kc (t # rounds) key =
     bindA (liftR (evaluate_rate_limit kc t key)) (\<lambda>d.
     bindA (liftR (dindex key ''id'')) (\<lambda>i.
       let claim = (\<lambda>guard increment set_values.
             bindA (mem_increment_one ad (at_time_of ev t) ''apikey'' (Where ''id'' i # guard) increment (Some set_values))
               (\<lambda>claimed.
                  case claimed of
                    Some r \<Rightarrow> ret (Some r)
                  | None \<Rightarrow>
                      bindA (mem_find_one ad ''apikey'' [Where ''id'' i] []) (\<lambda>fresh.
                        case fresh of
                          None \<Rightarrow> raise invalid_key
                        | Some r \<Rightarrow> consume_rate_limit ad ev kc rounds r)))
       in case d of
            Deny n \<Rightarrow> raise (rate_limited n)
          | Skip None \<Rightarrow> ret (Some key)
          | Skip (Some l) \<Rightarrow>
              bindA (mem_update ad (at_time_of ev t) ''apikey'' [Where ''id'' i] [(''lastRequest'', VDate l)])
                (\<lambda>updated. ret (Some (case updated of Some r \<Rightarrow> if r \<noteq> [] then r else key | None \<Rightarrow> key)))
          | Increment n max_requests window_start \<Rightarrow>
              claim [WhereOp ''lastRequest'' (VDate window_start) OGt, WhereOp ''requestCount'' max_requests OLt]
                (Some [(''requestCount'', VInt 1)]) [(''lastRequest'', VDate n)]
          | Reset n window_start \<Rightarrow>
              claim [WhereOp ''lastRequest'' (VDate window_start) OLte] None
                [(''requestCount'', VInt 1), (''lastRequest'', VDate n)]
          | Start n \<Rightarrow>
              claim [WhereOp ''lastRequest'' VNone OEq] None
                [(''requestCount'', VInt 1), (''lastRequest'', VDate n)]))"

text \<open>\<open>(now - last).total_seconds() * 1000 > interval\<close>.\<close>

definition refill_due :: "int \<Rightarrow> pyval \<Rightarrow> pyval \<Rightarrow> bool result" where
  "refill_due t since interval =
     (case (since, py_num interval) of
        (VDate l, Some n) \<Rightarrow> Inr (t - l > n * 1000)
      | _ \<Rightarrow> Inl TypeError)"

text \<open>\<open>refill_amount - 1\<close>.\<close>

definition one_less :: "pyval \<Rightarrow> pyval result" where
  "one_less v = (case py_num v of Some n \<Rightarrow> Inr (VInt (n - 1)) | None \<Rightarrow> Inl TypeError)"

definition try_refill :: "adapter \<Rightarrow> env \<Rightarrow> row \<Rightarrow> (store, row option) action" where
  "try_refill ad ev key =
     (let interval = dget key ''refillInterval''; amount = dget key ''refillAmount''
      in if py_truthy interval \<and> py_truthy amount then
           bindA (if py_truthy (dget key ''lastRefillAt'') then ret (dget key ''lastRefillAt'')
                  else liftR (dindex key ''createdAt'')) (\<lambda>since.
           bindA (liftR (refill_due (now ev) since interval)) (\<lambda>due.
             if due then
               bindA (liftR (one_less amount)) (\<lambda>rest.
               bindA (liftR (dindex key ''id'')) (\<lambda>i.
                 mem_increment_one ad ev ''apikey'' [Where ''id'' i, Where ''lastRefillAt'' (dget key ''lastRefillAt'')]
                   None (Some [(''remaining'', rest), (''lastRefillAt'', VDate (now ev))])))
             else ret None))
         else ret None)"

definition consume_remaining :: "adapter \<Rightarrow> env \<Rightarrow> row \<Rightarrow> (store, row) action" where
  "consume_remaining ad ev key =
     bindA (try_refill ad ev key) (\<lambda>refilled.
       case refilled of
         Some r \<Rightarrow> ret r
       | None \<Rightarrow>
           bindA (liftR (dindex key ''id'')) (\<lambda>i.
           bindA (mem_increment_one ad ev ''apikey'' [Where ''id'' i, WhereOp ''remaining'' (VInt 0) OGt]
               (Some [(''remaining'', VInt (- 1))]) None) (\<lambda>decremented.
             case decremented of
               None \<Rightarrow> raise (key_error 429 ''USAGE_EXCEEDED'')
             | Some r \<Rightarrow> ret r)))"

definition claim_usage :: "adapter \<Rightarrow> env \<Rightarrow> int list \<Rightarrow> key_config \<Rightarrow> row \<Rightarrow> (store, row option) action" where
  "claim_usage ad ev rounds kc key =
     bindA (if dget key ''remaining'' \<noteq> VNone then consume_remaining ad ev key else ret key) (\<lambda>r.
     bindA (consume_rate_limit ad ev kc rounds r) (\<lambda>limited.
       case limited of
         None \<Rightarrow> ret None
       | Some r' \<Rightarrow>
           bindA (liftR (dindex r' ''id'')) (\<lambda>i.
           bindA (mem_update ad ev ''apikey'' [Where ''id'' i] [(''updatedAt'', VDate (now ev))]) (\<lambda>final.
             case final of
               None \<Rightarrow> raise invalid_key
             | Some f \<Rightarrow> ret (Some f)))))"

section \<open>Verification\<close>

record key_lib =
  kl_ad :: adapter
  kl_sha256 :: "string \<Rightarrow> nat list"
  kl_dumps :: "pyval \<Rightarrow> string"
  kl_loads :: "string \<Rightarrow> pyval option"
  kl_format :: "pyval \<Rightarrow> string"
  kl_str :: "exn \<Rightarrow> string"

definition parse_metadata :: "key_lib \<Rightarrow> pyval \<Rightarrow> pyval" where
  "parse_metadata kl v =
     (case v of
        VDict _ \<Rightarrow> v
      | VStr t \<Rightarrow> (case kl_loads kl t of Some x \<Rightarrow> x | None \<Rightarrow> VNone)
      | _ \<Rightarrow> VNone)"

definition parse_permissions :: "key_lib \<Rightarrow> pyval \<Rightarrow> pyval" where
  "parse_permissions kl v =
     (if \<not> py_truthy v then VNone
      else case v of
             VDict _ \<Rightarrow> v
           | VStr t \<Rightarrow> (case kl_loads kl t of Some x \<Rightarrow> x | None \<Rightarrow> VNone)
           | _ \<Rightarrow> VNone)"

definition strip_key :: "key_lib \<Rightarrow> row \<Rightarrow> row" where
  "strip_key kl r =
     dset ''permissions'' (parse_permissions kl (dget r ''permissions''))
       (dset ''metadata'' (parse_metadata kl (dget r ''metadata'')) (ddrop ''key'' r))"

definition hash_key :: "key_lib \<Rightarrow> key_config \<Rightarrow> string \<Rightarrow> string" where
  "hash_key kl kc full_key = (if kc_disable_hashing kc then full_key else default_key_hasher (kl_sha256 kl) full_key)"

text \<open>
  The permission gate. Permissions stored in another shape than an object of string lists are
  outside the model and answered with \<open>TypeError\<close>.
\<close>

definition check_permissions :: "key_lib \<Rightarrow> row \<Rightarrow> row \<Rightarrow> unit result" where
  "check_permissions kl key permissions =
     (if permissions = [] then Inr ()
      else
        (let key_perms = parse_permissions kl (dget key ''permissions'')
         in if \<not> py_truthy key_perms then Inl (key_error 401 ''KEY_NOT_FOUND'')
            else if \<not> is_valid_role_permission key_perms then Inl TypeError
            else bindR (authorize (table_of key_perms) permissions ConnAnd) (\<lambda>res.
              if res = Success then Inr () else Inl (key_error 401 ''KEY_NOT_FOUND''))))"

definition delete_key_row :: "row \<Rightarrow> exn \<Rightarrow> (store, 'a) action" where
  "delete_key_row key e =
     bindA (liftR (dindex key ''id'')) (\<lambda>i.
     bindA (mem_delete ''apikey'' [Where ''id'' i]) (\<lambda>_. raise e))"

definition key_expired :: "env \<Rightarrow> row \<Rightarrow> bool result" where
  "key_expired ev key =
     (let v = dget key ''expiresAt''
      in if \<not> py_truthy v then Inr False
         else case v of VDate t \<Rightarrow> Inr (now ev > t) | _ \<Rightarrow> Inl TypeError)"

text \<open>The checks of a row that was found, in the order of the code.\<close>

definition admit_key ::
    "key_lib \<Rightarrow> env \<Rightarrow> int list \<Rightarrow> key_config \<Rightarrow> row \<Rightarrow> row \<Rightarrow> (store, row option) action" where
  "admit_key kl ev rounds kc permissions key =
     (if dget key ''enabled'' = VBool False then raise (key_error 401 ''KEY_DISABLED'')
      else bindA (liftR (key_expired ev key)) (\<lambda>gone.
        if gone then delete_key_row key (key_error 401 ''KEY_EXPIRED'')
        else bindA (liftR (check_permissions kl key permissions)) (\<lambda>_.
          if py_eq (dget key ''remaining'') (VInt 0) \<and> dget key ''refillAmount'' = VNone
          then delete_key_row key (key_error 429 ''USAGE_EXCEEDED'')
          else claim_usage (kl_ad kl) ev rounds kc key)))"

definition validate_api_key ::
    "key_lib \<Rightarrow> key_plugin \<Rightarrow> env \<Rightarrow> int list \<Rightarrow> request \<Rightarrow> string \<Rightarrow> key_config \<Rightarrow> row \<Rightarrow> pyval \<Rightarrow> bool \<Rightarrow>
     (store, (row \<times> key_config) option) action" where
  "validate_api_key kl kp ev rounds rq key lookup permissions expected run_validator =
     bindA (mem_find_one (kl_ad kl) ''apikey'' [Where ''key'' (VStr (hash_key kl lookup key))] []) (\<lambda>found.
       case found of
         None \<Rightarrow> raise invalid_key
       | Some api_key \<Rightarrow>
           if expected \<noteq> VNone \<and> \<not> config_id_matches (dget api_key ''configId'') expected then raise invalid_key
           else bindA (liftR (resolve_config kp (dget api_key ''configId''))) (\<lambda>kc.
             if run_validator \<and> (case kc_validator kc of Some f \<Rightarrow> \<not> f rq key | None \<Rightarrow> False)
             then raise (key_error 401 ''KEY_NOT_FOUND'')
             else bindA (admit_key kl ev rounds kc permissions api_key) (\<lambda>admitted.
               ret (map_option (\<lambda>r. (r, kc)) admitted))))"

text \<open>The answers of \<open>verify_api_key\<close>; only an \<open>APIError\<close> becomes one.\<close>

definition rejection :: "row \<Rightarrow> row" where
  "rejection error = [(''valid'', VBool False), (''error'', VDict error), (''key'', VNone)]"

definition verify_api_key ::
    "key_lib \<Rightarrow> key_plugin \<Rightarrow> env \<Rightarrow> int list \<Rightarrow> request \<Rightarrow> string \<Rightarrow> pyval \<Rightarrow> row \<Rightarrow> (store, row option) action" where
  "verify_api_key kl kp ev rounds rq key config_id permissions =
     bindA (liftR (resolve_config kp config_id)) (\<lambda>lookup.
       if config_id \<noteq> VNone \<and> (case kc_validator lookup of Some f \<Rightarrow> \<not> f rq key | None \<Rightarrow> False)
       then ret (Some (rejection [(''message'', VStr ''Invalid API key.''), (''code'', VStr ''KEY_NOT_FOUND'')]))
       else
         catchA
           (bindA (validate_api_key kl kp ev rounds rq key lookup permissions config_id (config_id = VNone)) (\<lambda>res.
              ret (map_option (\<lambda>(r, _).
                [(''valid'', VBool True), (''error'', VNone), (''key'', VDict (strip_key kl r))]) res)))
           (\<lambda>e. case e of
                  APIError status code message extra \<Rightarrow>
                    ret (Some (rejection (dmerge extra [(''message'', VStr message), (''code'', VStr code)])))
                | _ \<Rightarrow> raise e))"

end
