(* ===== verification/ApiKey_Routes.thy ===== *)
theory ApiKey_Routes
  imports ApiKey
begin

text \<open>
  \<open>plugins_ext/api_key.py\<close>, second half: minting, ownership, the HTTP routes, the sweep of expired
  keys with its throttle, and the hook that turns a key into a session.

  \<open>get_session\<close> of \<open>_create\<close> and \<open>_update\<close> is the modelled one, without the cookie cache; the session
  a route asks its context for (\<open>require_session\<close>) is an argument, \<open>None\<close> without one. All readings
  of the clock in a call are one instant, but for the rounds of a verification.
\<close>

section \<open>The world of the plugin\<close>

text \<open>The state of the internal adapter, and the module global \<open>_last_checked\<close>.\<close>

record kworld =
  kw_int :: iworld
  kw_checked :: "int option"

definition on_int :: "(iworld, 'a) action \<Rightarrow> (kworld, 'a) action" where
  "on_int m w = (case m (kw_int w) of (res, i) \<Rightarrow> (res, w\<lparr>kw_int := i\<rparr>))"

definition on_store :: "(store, 'a) action \<Rightarrow> (kworld, 'a) action" where
  "on_store m = on_int (on_db m)"

record key_env =
  ke_lib :: key_lib
  ke_plugin :: key_plugin
  ke_auth :: auth
  ke_org :: "org_plugin option"

definition sweep_rows :: "env \<Rightarrow> (store, unit) action" where
  "sweep_rows ev =
     catchA
       (bindA (mem_delete_many ''apikey''
          [WhereOp ''expiresAt'' (VDate (now ev)) OLt, WhereOp ''expiresAt'' VNone ONe]) (\<lambda>_. ret ()))
       (\<lambda>_. ret ())"

definition delete_all_expired :: "env \<Rightarrow> bool \<Rightarrow> (kworld, unit) action" where
  "delete_all_expired ev bypass w =
     (if (case kw_checked w of Some c \<Rightarrow> \<not> bypass \<and> now ev - c < 10000 * 1000 | None \<Rightarrow> False) then (Inr (), w)
      else on_store (sweep_rows ev) (w\<lparr>kw_checked := Some (now ev)\<rparr>))"

section \<open>Organization keys\<close>

definition check_org_permission :: "key_env \<Rightarrow> pyval \<Rightarrow> pyval \<Rightarrow> string \<Rightarrow> (store, row) action" where
  "check_org_permission ke user_id organization_id act =
     (case ke_org ke of
        None \<Rightarrow> raise (key_error 500 ''ORGANIZATION_PLUGIN_REQUIRED'')
      | Some op \<Rightarrow>
          bindA (mem_find_one (kl_ad (ke_lib ke)) ''member''
                  [Where ''userId'' user_id, Where ''organizationId'' organization_id] []) (\<lambda>found.
            case found of
              None \<Rightarrow> raise (key_error 403 ''USER_NOT_MEMBER_OF_ORGANIZATION'')
            | Some member \<Rightarrow>
                bindA (catchA
                    (bindA (liftR (dindex member ''role'')) (\<lambda>role.
                       has_permission (kl_ad (ke_lib ke)) (kl_loads (ke_lib ke)) op role
                         [(''apiKey'', VList [VStr act])] organization_id True))
                    (\<lambda>_. ret False)) (\<lambda>ok.
                  if ok then ret member else raise (key_error 403 ''INSUFFICIENT_API_KEY_PERMISSIONS''))))"

section \<open>Minting a key\<close>

definition given :: "row \<Rightarrow> string \<Rightarrow> bool" where
  "given d k \<longleftrightarrow> dget d k \<noteq> VNone"

definition uses_server_only :: "row \<Rightarrow> bool" where
  "uses_server_only d \<longleftrightarrow>
     list_ex (given d) [''remaining'', ''refillAmount'', ''refillInterval'', ''rateLimitMax'',
       ''rateLimitTimeWindow'', ''rateLimitEnabled'', ''permissions'']"

definition unauthorized_session :: exn where
  "unauthorized_session = key_error 401 ''UNAUTHORIZED_SESSION''"

text \<open>Who owns the new key; \<open>user\<close> is the user of the session, \<open>[]\<close> without one.\<close>

definition resolve_reference :: "key_env \<Rightarrow> key_config \<Rightarrow> row \<Rightarrow> row \<Rightarrow> bool \<Rightarrow> (store, pyval) action" where
  "resolve_reference ke kc user d server =
     (if kc_references kc = ''organization'' then
        (let org_id = dget d ''organizationId''; user_id = py_or (dget user ''id'') (dget d ''userId'')
         in if \<not> py_truthy org_id then raise (key_error 400 ''ORGANIZATION_ID_REQUIRED'')
            else if \<not> py_truthy user_id then raise unauthorized_session
            else bindA (check_org_permission ke user_id org_id ''create'') (\<lambda>_. ret org_id))
      else if \<not> server then
        (if \<not> py_truthy (dget user ''id'') then raise unauthorized_session else ret (dget user ''id''))
      else
        (let ctx_user_id = dget d ''userId''; session_user_id = dget user ''id''
         in if \<not> py_truthy session_user_id \<and> \<not> py_truthy ctx_user_id then raise unauthorized_session
            else if user \<noteq> [] \<and> py_truthy ctx_user_id \<and> \<not> py_eq session_user_id ctx_user_id
              then raise unauthorized_session
            else ret (py_or session_user_id ctx_user_id)))"

definition check_length :: "pyval \<Rightarrow> int \<Rightarrow> int \<Rightarrow> exn \<Rightarrow> unit result" where
  "check_length v lo hi e = bindR (py_len v) (\<lambda>n. if n < lo \<or> n > hi then Inl e else Inr ())"

text \<open>\<open>expires_in / 86400\<close> against the bounds, in days, exactly.\<close>

definition check_expires_bounds :: "key_config \<Rightarrow> pyval \<Rightarrow> unit result" where
  "check_expires_bounds kc v =
     (case py_num v of
        None \<Rightarrow> Inl TypeError
      | Some s \<Rightarrow>
          if kc_min_expires kc * 86400 > s then Inl (key_error 400 ''EXPIRES_IN_IS_TOO_SMALL'')
          else if kc_max_expires kc * 86400 < s then Inl (key_error 400 ''EXPIRES_IN_IS_TOO_LARGE'')
          else Inr ())"

definition check_metadata :: "key_config \<Rightarrow> row \<Rightarrow> unit result" where
  "check_metadata kc d =
     (case dget d ''metadata'' of
        VNone \<Rightarrow> Inr ()
      | v \<Rightarrow> if \<not> kc_metadata kc then Inl (key_error 400 ''METADATA_DISABLED'')
             else (case v of VDict _ \<Rightarrow> Inr () | _ \<Rightarrow> Inl (key_error 400 ''INVALID_METADATA_TYPE'')))"

definition check_refill :: "row \<Rightarrow> unit result" where
  "check_refill d =
     (let amount = py_truthy (dget d ''refillAmount''); interval = py_truthy (dget d ''refillInterval'')
      in if amount \<and> \<not> interval then Inl (key_error 400 ''REFILL_AMOUNT_AND_INTERVAL_REQUIRED'')
         else if interval \<and> \<not> amount then Inl (key_error 400 ''REFILL_INTERVAL_AND_AMOUNT_REQUIRED'')
         else Inr ())"

definition check_expires :: "key_config \<Rightarrow> row \<Rightarrow> unit result" where
  "check_expires kc d =
     (let v = dget d ''expiresIn''
      in if \<not> py_truthy v then Inr ()
         else if kc_disable_custom_expires kc then Inl (key_error 400 ''KEY_DISABLED_EXPIRATION'')
         else check_expires_bounds kc v)"

definition check_prefix :: "key_config \<Rightarrow> row \<Rightarrow> unit result" where
  "check_prefix kc d =
     (let v = dget d ''prefix''
      in if \<not> py_truthy v then Inr ()
         else check_length v (kc_min_prefix kc) (kc_max_prefix kc) (key_error 400 ''INVALID_PREFIX_LENGTH''))"

definition check_name :: "key_config \<Rightarrow> row \<Rightarrow> unit result" where
  "check_name kc d =
     (let v = dget d ''name''
      in if py_truthy v
         then check_length v (kc_min_name kc) (kc_max_name kc) (key_error 400 ''INVALID_NAME_LENGTH'')
         else if kc_require_name kc then Inl (key_error 400 ''NAME_REQUIRED'') else Inr ())"

definition check_new_key :: "key_config \<Rightarrow> row \<Rightarrow> unit result" where
  "check_new_key kc d =
     bindR (check_metadata kc d) (\<lambda>_. bindR (check_refill d) (\<lambda>_. bindR (check_expires kc d) (\<lambda>_.
     bindR (check_prefix kc d) (\<lambda>_. check_name kc d))))"

text \<open>
  \<open>_generate_key\<close>; \<open>random\<close> is the string \<open>generate_random_string\<close> returns in this call, and
  \<open>kl_format\<close> how an f-string shows a prefix that is not a string.
\<close>

definition generate_key :: "key_lib \<Rightarrow> key_config \<Rightarrow> pyval \<Rightarrow> string \<Rightarrow> string" where
  "generate_key kl kc pfx random =
     (case kc_generator kc of
        Some g \<Rightarrow> g (kc_key_length kc) pfx
      | None \<Rightarrow>
          (if \<not> py_truthy pfx then [] else case pfx of VStr p \<Rightarrow> p | v \<Rightarrow> kl_format kl v) @ random)"

definition new_permissions :: "key_lib \<Rightarrow> key_config \<Rightarrow> row \<Rightarrow> pyval \<Rightarrow> pyval" where
  "new_permissions kl kc d reference_id =
     (let body_perms = dget d ''permissions'';
          default_perms =
            (case kc_permissions kc of
               PermsValue v \<Rightarrow> v
             | PermsCall f \<Rightarrow> f (case reference_id of VStr s \<Rightarrow> s | v \<Rightarrow> kl_format kl v))
      in if py_truthy body_perms then VStr (kl_dumps kl body_perms)
         else if py_truthy default_perms then VStr (kl_dumps kl default_perms)
         else VNone)"

definition new_expiry :: "key_config \<Rightarrow> env \<Rightarrow> row \<Rightarrow> pyval result" where
  "new_expiry kc ev d =
     (let v = dget d ''expiresIn''
      in if py_truthy v then
           (case py_num v of Some s \<Rightarrow> Inr (VDate (now ev + s * 1000000)) | None \<Rightarrow> Inl TypeError)
         else case kc_expires_in kc of
                Some s \<Rightarrow> Inr (if s \<noteq> 0 then VDate (now ev + s * 1000000) else VNone)
              | None \<Rightarrow> Inr VNone)"

definition if_given :: "row \<Rightarrow> string \<Rightarrow> pyval \<Rightarrow> pyval" where
  "if_given d k other = (if given d k then dget d k else other)"

definition new_key_row ::
    "key_lib \<Rightarrow> key_config \<Rightarrow> env \<Rightarrow> row \<Rightarrow> pyval \<Rightarrow> string \<Rightarrow> pyval \<Rightarrow> row" where
  "new_key_row kl kc ev d reference_id full_key expires_at =
     [(''configId'', VStr (case kc_config_id kc of Some c \<Rightarrow> if c \<noteq> [] then c else ''default'' | None \<Rightarrow> ''default'')),
      (''createdAt'', VDate (now ev)), (''updatedAt'', VDate (now ev)),
      (''name'', dget d ''name''), (''prefix'', py_or (dget d ''prefix'') (opt_str (kc_prefix kc))),
      (''start'', if kc_store_start kc then VStr (slice_to (kc_start_length kc) full_key) else VNone),
      (''key'', VStr (hash_key kl kc full_key)), (''enabled'', VBool True),
      (''expiresAt'', expires_at), (''referenceId'', reference_id),
      (''lastRefillAt'', VNone), (''lastRequest'', VNone),
      (''rateLimitMax'', if_given d ''rateLimitMax'' (VInt (kc_rate_max kc))),
      (''rateLimitTimeWindow'', if_given d ''rateLimitTimeWindow'' (VInt (kc_rate_window kc))),
      (''remaining'', dget d ''remaining''), (''refillAmount'', dget d ''refillAmount''),
      (''refillInterval'', dget d ''refillInterval''),
      (''rateLimitEnabled'', if_given d ''rateLimitEnabled'' (VBool (kc_rate_enabled kc))),
      (''requestCount'', VInt 0), (''permissions'', new_permissions kl kc d reference_id)] @
     (if given d ''metadata'' then [(''metadata'', dget d ''metadata'')] else [])"

definition mint_key ::
    "key_lib \<Rightarrow> key_config \<Rightarrow> env \<Rightarrow> row \<Rightarrow> pyval \<Rightarrow> string \<Rightarrow> (store, row) action" where
  "mint_key kl kc ev d reference_id random =
     (let full_key = generate_key kl kc (py_or (dget d ''prefix'') (opt_str (kc_prefix kc))) random
      in bindA (liftR (new_expiry kc ev d)) (\<lambda>expires_at.
         bindA (mem_create (kl_ad kl) ev ''apikey'' (new_key_row kl kc ev d reference_id full_key expires_at) [])
           (\<lambda>r. ret (dset ''permissions'' (parse_permissions kl (dget r ''permissions''))
                  (dset ''metadata'' (dget d ''metadata'') (dset ''key'' (VStr full_key) r))))))"

definition session_user :: "key_env \<Rightarrow> env \<Rightarrow> request \<Rightarrow> (kworld, row) action" where
  "session_user ke ev rq =
     bindA (on_int (get_session (ke_auth ke) ev rq True False False)) (\<lambda>(found, _).
       ret (case found of Some v \<Rightarrow> va_user v | None \<Rightarrow> []))"

definition create_key ::
    "key_env \<Rightarrow> env \<Rightarrow> request \<Rightarrow> row \<Rightarrow> bool \<Rightarrow> string \<Rightarrow> (kworld, row) action" where
  "create_key ke ev rq d server random =
     bindA (liftR (resolve_config (ke_plugin ke) (dget d ''configId''))) (\<lambda>kc.
     bindA (session_user ke ev rq) (\<lambda>user.
       if \<not> server \<and> uses_server_only d then raise (key_error 400 ''SERVER_ONLY_PROPERTY'')
       else if \<not> server \<and> given d ''userId'' then raise unauthorized_session
       else
         bindA (on_store (resolve_reference ke kc user d server)) (\<lambda>reference_id.
         bindA (liftR (check_new_key kc d)) (\<lambda>_.
         bindA (delete_all_expired ev False) (\<lambda>_.
           on_store (mint_key (ke_lib ke) kc ev d reference_id random))))))"

section \<open>Ownership\<close>

text \<open>\<open>_lookup_and_own\<close>: the row, if it is in the scope of the configuration and the user's own.\<close>

definition lookup_and_own ::
    "key_env \<Rightarrow> pyval \<Rightarrow> pyval \<Rightarrow> pyval \<Rightarrow> string \<Rightarrow> (store, row \<times> key_config) action" where
  "lookup_and_own ke key_id config_id user_id act =
     bindA (liftR (resolve_config (ke_plugin ke) config_id)) (\<lambda>lookup.
     bindA (mem_find_one (kl_ad (ke_lib ke)) ''apikey'' [Where ''id'' key_id] []) (\<lambda>found.
       case found of
         None \<Rightarrow> raise (key_error 404 ''KEY_NOT_FOUND'')
       | Some api_key \<Rightarrow>
           if \<not> config_id_matches (dget api_key ''configId'') (opt_str (kc_config_id lookup))
           then raise (key_error 404 ''KEY_NOT_FOUND'')
           else bindA (liftR (resolve_config (ke_plugin ke) (dget api_key ''configId''))) (\<lambda>kc.
                bindA (liftR (dindex api_key ''referenceId'')) (\<lambda>reference_id.
                  if kc_references kc = ''organization'' then
                    bindA (check_org_permission ke user_id reference_id act) (\<lambda>_. ret (api_key, kc))
                  else if \<not> py_eq reference_id user_id then raise (key_error 404 ''KEY_NOT_FOUND'')
                  else ret (api_key, kc)))))"

text \<open>\<open>body.get(k, "")\<close> and \<open>query.get(k)\<close>.\<close>

definition get_or_empty :: "row \<Rightarrow> string \<Rightarrow> pyval" where
  "get_or_empty d k = (case map_of d k of Some v \<Rightarrow> v | None \<Rightarrow> VStr [])"

definition query_row :: "request \<Rightarrow> row" where
  "query_row rq = map (\<lambda>(k, v). (k, VStr v)) (rq_query rq)"

definition require_session :: "(row \<times> row) option \<Rightarrow> ('s, row \<times> row) action" where
  "require_session sess =
     (case sess of
        None \<Rightarrow> raise (APIError 401 ''UNAUTHORIZED'' ''Unauthorized'' [])
      | Some s \<Rightarrow> ret s)"

definition route_get :: "key_env \<Rightarrow> env \<Rightarrow> request \<Rightarrow> (row \<times> row) option \<Rightarrow> (kworld, row) action" where
  "route_get ke ev rq sess =
     bindA (require_session sess) (\<lambda>(_, user).
     bindA (liftR (dindex user ''id'')) (\<lambda>user_id.
     bindA (on_store (lookup_and_own ke (get_or_empty (query_row rq) ''id'') (dget (query_row rq) ''configId'')
              user_id ''read'')) (\<lambda>(api_key, _).
     bindA (delete_all_expired ev False) (\<lambda>_.
       ret (strip_key (ke_lib ke) api_key)))))"

section \<open>Updating a key\<close>

definition upd_name :: "key_config \<Rightarrow> row \<Rightarrow> row result" where
  "upd_name kc d =
     (if \<not> given d ''name'' then Inr []
      else bindR (check_length (dget d ''name'') (kc_min_name kc) (kc_max_name kc) (key_error 400 ''INVALID_NAME_LENGTH''))
             (\<lambda>_. Inr [(''name'', dget d ''name'')]))"

definition upd_expires :: "key_config \<Rightarrow> env \<Rightarrow> row \<Rightarrow> row result" where
  "upd_expires kc ev d =
     (case map_of d ''expiresIn'' of
        None \<Rightarrow> Inr []
      | Some v \<Rightarrow>
          if kc_disable_custom_expires kc then Inl (key_error 400 ''KEY_DISABLED_EXPIRATION'')
          else bindR (if v = VNone then Inr () else check_expires_bounds kc v) (\<lambda>_.
            Inr [(''expiresAt'',
                  case py_num v of Some s \<Rightarrow> if s \<noteq> 0 then VDate (now ev + s * 1000000) else VNone | None \<Rightarrow> VNone)]))"

definition upd_metadata :: "key_config \<Rightarrow> row \<Rightarrow> row result" where
  "upd_metadata kc d =
     (if \<not> given d ''metadata'' \<or> \<not> kc_metadata kc then Inr []
      else case dget d ''metadata'' of
             VDict m \<Rightarrow> Inr [(''metadata'', VDict m)]
           | _ \<Rightarrow> Inl (key_error 400 ''INVALID_METADATA_TYPE''))"

definition upd_refill :: "row \<Rightarrow> row result" where
  "upd_refill d =
     (if given d ''refillAmount'' \<and> \<not> given d ''refillInterval''
      then Inl (key_error 400 ''REFILL_AMOUNT_AND_INTERVAL_REQUIRED'')
      else if given d ''refillInterval'' \<and> \<not> given d ''refillAmount''
      then Inl (key_error 400 ''REFILL_INTERVAL_AND_AMOUNT_REQUIRED'')
      else if given d ''refillAmount''
      then Inr [(''refillAmount'', dget d ''refillAmount''), (''refillInterval'', dget d ''refillInterval'')]
      else Inr [])"

definition upd_given :: "row \<Rightarrow> string \<Rightarrow> row" where
  "upd_given d k = (if given d k then [(k, dget d k)] else [])"

definition new_values :: "key_lib \<Rightarrow> key_config \<Rightarrow> env \<Rightarrow> row \<Rightarrow> row result" where
  "new_values kl kc ev d =
     bindR (upd_name kc d) (\<lambda>name.
     bindR (upd_expires kc ev d) (\<lambda>expires.
     bindR (upd_metadata kc d) (\<lambda>metadata.
     bindR (upd_refill d) (\<lambda>refill.
       let vals = name @ upd_given d ''enabled'' @ expires @ metadata @ upd_given d ''remaining'' @ refill @
             upd_given d ''rateLimitEnabled'' @ upd_given d ''rateLimitTimeWindow'' @ upd_given d ''rateLimitMax'' @
             (if given d ''permissions'' then [(''permissions'', VStr (kl_dumps kl (dget d ''permissions'')))] else [])
       in if vals = [] then Inl (key_error 400 ''NO_VALUES_TO_UPDATE'') else Inr vals))))"

text \<open>\<open>except Exception as e: raise APIError(500, ..., str(e))\<close>.\<close>

definition storage_error :: "key_lib \<Rightarrow> exn \<Rightarrow> ('s, 'a) action" where
  "storage_error kl e = raise (APIError 500 ''INTERNAL_SERVER_ERROR'' (kl_str kl e) [])"

definition update_key :: "key_env \<Rightarrow> env \<Rightarrow> request \<Rightarrow> row \<Rightarrow> bool \<Rightarrow> (kworld, row) action" where
  "update_key ke ev rq d server =
     bindA (session_user ke ev rq) (\<lambda>user.
       let user_id = (if py_truthy (dget user ''id'') then dget user ''id''
                      else if server then dget d ''userId'' else VNone);
           kl = ke_lib ke
       in if \<not> py_truthy user_id then raise unauthorized_session
          else if user \<noteq> [] \<and> py_truthy (dget d ''userId'') \<and> \<not> py_eq (dget user ''id'') (dget d ''userId'')
            then raise unauthorized_session
          else if \<not> server \<and> uses_server_only d then raise (key_error 400 ''SERVER_ONLY_PROPERTY'')
          else
            bindA (on_store (lookup_and_own ke (get_or_empty d ''keyId'') (dget d ''configId'') user_id ''update''))
              (\<lambda>(api_key, kc).
            bindA (liftR (new_values kl kc ev d)) (\<lambda>vals.
            bindA (liftR (dindex api_key ''id'')) (\<lambda>i.
            bindA (on_store (catchA (mem_update (kl_ad kl) ev ''apikey'' [Where ''id'' i] vals) (storage_error kl)))
              (\<lambda>updated.
            bindA (delete_all_expired ev False) (\<lambda>_.
              ret (strip_key kl (case updated of Some r \<Rightarrow> if r \<noteq> [] then r else api_key | None \<Rightarrow> api_key))))))))"

section \<open>Deleting and listing\<close>

definition route_delete ::
    "key_env \<Rightarrow> env \<Rightarrow> (row \<times> row) option \<Rightarrow> row \<Rightarrow> (kworld, row) action" where
  "route_delete ke ev sess d =
     bindA (require_session sess) (\<lambda>(_, user).
       if dget user ''banned'' = VBool True then raise (key_error 401 ''USER_BANNED'')
       else
         bindA (liftR (dindex user ''id'')) (\<lambda>user_id.
         bindA (on_store (lookup_and_own ke (get_or_empty d ''keyId'') (dget d ''configId'') user_id ''delete''))
           (\<lambda>(api_key, _).
         bindA (liftR (dindex api_key ''id'')) (\<lambda>i.
         bindA (on_store (catchA (mem_delete ''apikey'' [Where ''id'' i]) (storage_error (ke_lib ke)))) (\<lambda>_.
         bindA (delete_all_expired ev False) (\<lambda>_.
           ret [(''success'', VBool True)]))))))"

text \<open>\<open>int(query[k]) if query.get(k) else None\<close>.\<close>

definition query_int :: "request \<Rightarrow> string \<Rightarrow> int option result" where
  "query_int rq k =
     (case map_of (rq_query rq) k of
        None \<Rightarrow> Inr None
      | Some t \<Rightarrow>
          if t = [] then Inr None
          else case parse_int t of Some n \<Rightarrow> Inr (Some n) | None \<Rightarrow> Inl ValueError)"

definition keep_key :: "key_plugin \<Rightarrow> pyval \<Rightarrow> pyval \<Rightarrow> string \<Rightarrow> row \<Rightarrow> bool result" where
  "keep_key kp config_id reference_id expected_type r =
     (let ref_type =
            (case config_for_key kp (dget r ''configId'') of
               Some kc \<Rightarrow> if kc_references kc = [] then ''user'' else kc_references kc
             | None \<Rightarrow> ''user'')
      in if ref_type \<noteq> expected_type then Inr False
         else bindR (dindex r ''referenceId'') (\<lambda>ref.
           if \<not> py_eq ref reference_id then Inr False
           else Inr (\<not> (py_truthy config_id \<and> \<not> config_id_matches (dget r ''configId'') config_id))))"

fun keep_keys :: "(row \<Rightarrow> bool result) \<Rightarrow> row list \<Rightarrow> row list result" where
  "keep_keys keep [] = Inr []"
| "keep_keys keep (r # rs) =
     bindR (keep r) (\<lambda>k. bindR (keep_keys keep rs) (\<lambda>rs'. Inr (if k then r # rs' else rs')))"

definition opt_int :: "int option \<Rightarrow> pyval" where
  "opt_int n = (case n of Some i \<Rightarrow> VInt i | None \<Rightarrow> VNone)"

definition route_list :: "key_env \<Rightarrow> env \<Rightarrow> request \<Rightarrow> (row \<times> row) option \<Rightarrow> (kworld, row) action" where
  "route_list ke ev rq sess =
     bindA (require_session sess) (\<lambda>(_, user).
     bindA (liftR (query_int rq ''limit'')) (\<lambda>limit.
     bindA (liftR (query_int rq ''offset'')) (\<lambda>offset.
     bindA (liftR (dindex user ''id'')) (\<lambda>user_id.
       let config_id = dget (query_row rq) ''configId'';
           organization_id = dget (query_row rq) ''organizationId'';
           reference_id = py_or organization_id user_id;
           expected_type = (if py_truthy organization_id then ''organization'' else ''user'');
           kl = ke_lib ke
       in
       bindA (if py_truthy organization_id
              then bindA (on_store (check_org_permission ke user_id organization_id ''read'')) (\<lambda>_. ret ())
              else ret ()) (\<lambda>_.
       bindA (on_store (mem_find_many (kl_ad kl) ''apikey'' [Where ''referenceId'' reference_id] None None None []))
         (\<lambda>rows.
       bindA (liftR (keep_keys (keep_key (ke_plugin ke) config_id reference_id expected_type) rows)) (\<lambda>filtered.
       bindA (delete_all_expired ev False) (\<lambda>_.
         let from_offset = (case offset of Some n \<Rightarrow> slice_from n filtered | None \<Rightarrow> filtered);
             shown = (case limit of Some n \<Rightarrow> slice_to n from_offset | None \<Rightarrow> from_offset)
         in ret [(''apiKeys'', VList (map (\<lambda>r. VDict (strip_key kl r)) shown)),
                 (''total'', VInt (int (length filtered))),
                 (''limit'', opt_int limit), (''offset'', opt_int offset)]))))))))"

definition delete_all_expired_api_keys :: "env \<Rightarrow> (kworld, row) action" where
  "delete_all_expired_api_keys ev =
     bindA (delete_all_expired ev True) (\<lambda>_. ret [(''success'', VBool True), (''error'', VNone)])"

section \<open>Sessions from keys\<close>

definition key_from_config :: "request \<Rightarrow> key_config \<Rightarrow> pyval" where
  "key_from_config rq kc =
     (case kc_getter kc of
        Some f \<Rightarrow> f rq
      | None \<Rightarrow>
          (case kc_headers kc of
             OneHeader h \<Rightarrow> opt_str (map_of (rq_headers rq) (str_lower h))
           | Headers hs \<Rightarrow>
               (case find (\<lambda>h. py_truthy (opt_str (map_of (rq_headers rq) (str_lower h)))) hs of
                  Some h \<Rightarrow> opt_str (map_of (rq_headers rq) (str_lower h))
                | None \<Rightarrow> VNone)))"

fun find_key_and_config :: "request \<Rightarrow> key_config list \<Rightarrow> (pyval \<times> key_config) option" where
  "find_key_and_config rq [] = None"
| "find_key_and_config rq (kc # kcs) =
     (if kc_sessions kc \<and> py_truthy (key_from_config rq kc) then Some (key_from_config rq kc, kc)
      else find_key_and_config rq kcs)"

definition bad_reference :: exn where
  "bad_reference = key_error 401 ''INVALID_REFERENCE_ID_FROM_API_KEY''"

definition mock_session :: "key_env \<Rightarrow> env \<Rightarrow> request \<Rightarrow> string \<Rightarrow> row \<Rightarrow> row result" where
  "mock_session ke ev rq key api_key =
     bindR (dindex api_key ''id'') (\<lambda>i.
     bindR (dindex api_key ''referenceId'') (\<lambda>reference_id.
       Inr [(''id'', i), (''token'', VStr key), (''userId'', reference_id),
            (''userAgent'', opt_str (map_of (rq_headers rq) ''user-agent'')),
            (''ipAddress'', opt_str (get_request_ip (au_ip_lib (ke_auth ke)) (au_ip (ke_auth ke)) rq)),
            (''createdAt'', VDate (now ev)), (''updatedAt'', VDate (now ev)),
            (''expiresAt'', py_or (dget api_key ''expiresAt'') (VDate (now ev + au_expires_in (ke_auth ke) * 1000000)))]))"

text \<open>
  \<open>_session_hook\<close> answers the session it installs in the context, and whether it also answers the
  request; \<open>None\<close> inside when no configuration has a key, or when the rounds are used up.
\<close>

definition session_hook ::
    "key_env \<Rightarrow> env \<Rightarrow> int list \<Rightarrow> request \<Rightarrow> (kworld, (row \<times> row \<times> bool) option) action" where
  "session_hook ke ev rounds rq =
     (case find_key_and_config rq (kp_configs (ke_plugin ke)) of
        None \<Rightarrow> ret None
      | Some (VStr key, kc) \<Rightarrow>
          if int (length key) < kc_key_length kc then raise (key_error 403 ''INVALID_API_KEY'')
          else if (case kc_validator kc of Some f \<Rightarrow> \<not> f rq key | None \<Rightarrow> False)
          then raise (key_error 403 ''INVALID_API_KEY'')
          else
            bindA (on_store (validate_api_key (ke_lib ke) (ke_plugin ke) ev rounds rq key kc []
                     (opt_str (kc_config_id kc)) False)) (\<lambda>validated.
              case validated of
                None \<Rightarrow> ret None
              | Some (api_key, _) \<Rightarrow>
                  bindA (delete_all_expired ev False) (\<lambda>_.
                    if kc_references kc \<noteq> [] \<and> kc_references kc \<noteq> ''user'' then raise bad_reference
                    else
                      bindA (liftR (dindex api_key ''referenceId'')) (\<lambda>reference_id.
                      bindA (on_store (mem_find_one (kl_ad (ke_lib ke)) ''user'' [Where ''id'' reference_id] []))
                        (\<lambda>user.
                        case user of
                          None \<Rightarrow> raise bad_reference
                        | Some u \<Rightarrow>
                            bindA (liftR (mock_session ke ev rq key api_key)) (\<lambda>session.
                              ret (Some (session, u, rq_path rq = ''/get-session'')))))))
      | Some _ \<Rightarrow> raise (key_error 400 ''INVALID_API_KEY_GETTER_RETURN_TYPE''))"

end
