(* ===== verification/ApiKey_Props.thy ===== *)
theory ApiKey_Props
  imports ApiKey_Routes RateLimit_Props Adapter_Props
begin

text \<open>
  How much a key can be used. The guarded claims of \<open>api_key.py\<close> are run in any order with any stale
  copies of the row; what they grant is bounded by a budget that every grant lowers (locale
  \<open>metered\<close>, interpreted for the remaining count with its refill and for the rate limit).
\<close>

section \<open>Metered steps\<close>

text \<open>Run steps one after the other and count those that grant.\<close>

fun grants :: "('a \<Rightarrow> 's \<Rightarrow> bool \<times> 's) \<Rightarrow> 'a list \<Rightarrow> 's \<Rightarrow> nat \<times> 's" where
  "grants step [] s = (0, s)"
| "grants step (a # as) s =
     (let (g, s1) = step a s; (n, s2) = grants step as s1 in (n + of_bool g, s2))"

fun admissible :: "('s \<Rightarrow> 'a \<Rightarrow> bool) \<Rightarrow> ('a \<Rightarrow> 's \<Rightarrow> bool \<times> 's) \<Rightarrow> 'a list \<Rightarrow> 's \<Rightarrow> bool" where
  "admissible ok step [] s = True"
| "admissible ok step (a # as) s = (ok s a \<and> admissible ok step as (snd (step a s)))"

locale metered =
  fixes inv :: "'s \<Rightarrow> bool" and budget :: "'s \<Rightarrow> int"
    and ok :: "'s \<Rightarrow> 'a \<Rightarrow> bool" and step :: "'a \<Rightarrow> 's \<Rightarrow> bool \<times> 's"
  assumes meter: "inv s \<Longrightarrow> ok s a \<Longrightarrow> step a s = (g, s') \<Longrightarrow> inv s' \<and> budget s' + of_bool g \<le> budget s"
    and budget_nonneg: "inv s \<Longrightarrow> 0 \<le> budget s"
begin

lemma grants_lower_budget:
  assumes "inv s" "admissible ok step as s" "grants step as s = (n, s')"
  shows "inv s' \<and> budget s' + int n \<le> budget s"
  using assms
proof (induction as arbitrary: s n)
  case (Cons a as)
  obtain g s1 where a: "step a s = (g, s1)" by (cases "step a s")
  obtain m where rest: "grants step as s1 = (m, s')" "n = m + of_bool g"
    using Cons.prems(3) by (auto simp: a Let_def split: prod.splits)
  have s1: "inv s1" "budget s1 + of_bool g \<le> budget s"
    using meter[OF Cons.prems(1) _ a] Cons.prems(2) by auto
  have "inv s' \<and> budget s' + int m \<le> budget s1"
    using Cons.IH[OF s1(1) _ rest(1)] Cons.prems(2) by (simp add: a)
  with s1(2) rest(2) show ?case by auto
qed simp

lemma grants_within_budget:
  assumes "inv s" "admissible ok step as s"
  shows "int (fst (grants step as s)) \<le> budget s"
proof -
  obtain n s' where run: "grants step as s = (n, s')" by (cases "grants step as s")
  from grants_lower_budget[OF assms run] budget_nonneg[of s'] run show ?thesis by simp
qed

end

section \<open>The table of keys\<close>

definition none_or :: "(pyval \<Rightarrow> bool) \<Rightarrow> pyval \<Rightarrow> bool" where
  "none_or P v \<longleftrightarrow> v = VNone \<or> P v"

definition key_typed :: "row \<Rightarrow> bool" where
  "key_typed r \<longleftrightarrow>
     is_str (dget r ''id'') \<and> none_or is_int (dget r ''remaining'') \<and> none_or is_date (dget r ''lastRefillAt'') \<and>
     none_or is_date (dget r ''lastRequest'') \<and> is_int (dget r ''requestCount'')"

definition plain_updates :: "fields \<Rightarrow> bool" where
  "plain_updates fs \<longleftrightarrow>
     list_all (\<lambda>(k, f). f_on_update f = None \<and> (k = ''metadata'' \<or> f_transform_input f = None)) fs"

definition key_store :: "adapter \<Rightarrow> store \<Rightarrow> bool" where
  "key_store ad st \<longleftrightarrow>
     native ad \<and> (case map_of (ad_schema ad) ''apikey'' of Some fs \<Rightarrow> plain_updates fs | None \<Rightarrow> False) \<and>
     str_ids (rows_of st ''apikey'') \<and> list_all key_typed (rows_of st ''apikey'')"

definition key_at :: "store \<Rightarrow> string \<Rightarrow> row option" where
  "key_at st i = lookup_id (rows_of st ''apikey'') i"

definition put_key :: "string \<Rightarrow> (row \<Rightarrow> row) \<Rightarrow> store \<Rightarrow> store" where
  "put_key i g st =
     set_rows ''apikey'' (map_first (\<lambda>r. dget r ''id'' = VStr i) g (rows_of st ''apikey'')) st"

text \<open>The schema the plugin declares has plain updates, whatever its parameters.\<close>

lemma build_schema_plain:
  "plain_updates (fields_of (build_schema js m w) ''apikey'')"
  by (simp add: plain_updates_def fields_of_def build_schema_def needed_field_def optional_field_def mk_field_def)

lemma transform_fields_update_same:
  assumes "\<And>k f. (k, f) \<in> set fs \<Longrightarrow>
    f_on_update f = None \<and> (f_transform_input f = None \<or> map_of out k = None)"
  shows "transform_fields ev cd all_caps ''update'' fs out = Inr out"
  using assms
proof (induction fs)
  case (Cons x fs)
  obtain k f where x: "x = (k, f)" by (cases x)
  have IH: "transform_fields ev cd all_caps ''update'' fs out = Inr out"
    using Cons by auto
  have "f_on_update f = None" "f_transform_input f = None \<or> map_of out k = None"
    using Cons.prems[of k f] by (auto simp: x)
  moreover have "map_of out k = Some v \<Longrightarrow> dset k v out = out" for v
    by (simp add: dset_def update_triv)
  ultimately show ?case using IH by (auto simp: x Let_def split: option.splits)
qed simp

lemma key_update_transform:
  assumes "key_store ad st" "map_of data ''metadata'' = None"
  shows "transform_input ad ev ''apikey'' data ''update'' = Inr data"
proof -
  from assms(1) obtain fs where fs: "map_of (ad_schema ad) ''apikey'' = Some fs" "plain_updates fs" "native ad"
    by (auto simp: key_store_def split: option.splits)
  have "transform_fields ev (ad_codec ad) all_caps ''update'' fs data = Inr data"
    using fs(2) assms(2) by (intro transform_fields_update_same) (auto simp: plain_updates_def list_all_iff)
  with fs show ?thesis by (simp add: transform_input_def native_def)
qed

lemma key_unique:
  assumes "key_store ad st" "x \<in> set (rows_of st ''apikey'')" "y \<in> set (rows_of st ''apikey'')"
    and "dget x ''id'' = VStr i" "dget y ''id'' = VStr i"
  shows "x = y"
  using assms by (auto simp: key_store_def str_ids_def row_ids_def distinct_map inj_on_def)

lemma key_at_typed: "key_store ad st \<Longrightarrow> key_at st i = Some r \<Longrightarrow> key_typed r \<and> dget r ''id'' = VStr i"
  using lookup_id_Some[of "rows_of st ''apikey''" i r]
  by (auto simp: key_store_def key_at_def list_all_iff)

lemma key_at_put:
  assumes "\<And>q. dget (g q) ''id'' = dget q ''id''"
  shows "key_at (put_key i g st) j = (if j = i then map_option g (key_at st i) else key_at st j)"
proof (cases "j = i")
  case True
  then show ?thesis
    by (simp add: key_at_def put_key_def lookup_id_def) (rule find_map_first, simp add: assms)
next
  case False
  then show ?thesis
    by (simp add: key_at_def put_key_def lookup_id_def) (rule find_map_first_other, auto simp: assms)
qed

lemma key_store_put:
  assumes "key_store ad st" "key_at st i = Some r" "key_typed (g r)"
    and ids: "\<And>q. dget (g q) ''id'' = dget q ''id''"
  shows "key_store ad (put_key i g st)"
proof -
  let ?rs = "rows_of st ''apikey''" and ?P = "\<lambda>q. dget q ''id'' = VStr i"
  have r: "r \<in> set ?rs" "?P r" using lookup_id_Some[of ?rs i r] assms(2) by (auto simp: key_at_def)
  have "row_ids (map_first ?P g ?rs) = row_ids ?rs"
    unfolding row_ids_def by (rule map_map_first) (simp add: ids)
  moreover have "key_typed q \<and> is_str (dget q ''id'')" if "q \<in> set (map_first ?P g ?rs)" for q
  proof -
    from set_map_firstD[OF that] have "q \<in> set ?rs \<or> (\<exists>p\<in>set ?rs. ?P p \<and> q = g p)" by auto
    then have "key_typed q"
      using assms(1,3) key_unique[OF assms(1) _ r(1) _ r(2)] by (auto simp: key_store_def list_all_iff)
    then show ?thesis by (simp add: key_typed_def)
  qed
  ultimately show ?thesis
    using assms(1) by (auto simp: key_store_def put_key_def str_ids_def list_all_iff)
qed

text \<open>A guarded \<open>increment_one\<close> on the row of one key.\<close>

lemma key_increment:
  assumes st: "key_store ad st" and r: "key_at st i = Some r"
    and guard: "\<And>q. key_typed q \<Longrightarrow> matches q (Where ''id'' (VStr i) # wh) = Inr (dget q ''id'' = VStr i \<and> Q q)"
    and inc: "check_increment increment sv = Inr inc"
    and sv: "case sv of None \<Rightarrow> True | Some s \<Rightarrow> map_of s ''metadata'' = None"
  shows "mem_increment_one ad ev ''apikey'' (Where ''id'' (VStr i) # wh) increment sv st =
    (Inr (if Q r then Some (incremented_row inc sv r) else None),
     put_key i (if Q r then incremented_row inc sv else id) st)"
proof -
  let ?rs = "rows_of st ''apikey''" and ?P = "\<lambda>q. dget q ''id'' = VStr i"
    and ?wh = "Where ''id'' (VStr i) # wh"
  have m: "matches q ?wh = Inr (?P q \<and> Q q)" if "q \<in> set ?rs" for q
    using guard[of q] st that by (auto simp: key_store_def list_all_iff)
  then have safe: "safe ?wh ?rs" by (auto simp: safe_def)
  have eq: "sel ?wh q = (?P q \<and> Q q)" if "q \<in> set ?rs" for q using m[OF that] by (simp add: sel_def)
  have uniq: "x \<in> set ?rs \<Longrightarrow> y \<in> set ?rs \<Longrightarrow> ?P x \<Longrightarrow> ?P y \<Longrightarrow> x = y" for x y
    by (rule key_unique[OF st])
  have found: "List.find ?P ?rs = Some r" using r by (simp add: key_at_def lookup_id_def)
  have find: "List.find (sel ?wh) ?rs = (if Q r then Some r else None)"
  proof -
    have "List.find (sel ?wh) ?rs = List.find (\<lambda>q. ?P q \<and> Q q) ?rs" by (rule find_cong_set) (rule eq)
    also have "\<dots> = (case List.find ?P ?rs of None \<Rightarrow> None | Some r \<Rightarrow> if Q r then Some r else None)"
      by (rule find_unique_and) (rule uniq)
    finally show ?thesis by (simp add: found)
  qed
  have maps: "map_first (sel ?wh) g ?rs = (if Q r then map_first ?P g ?rs else ?rs)" for g
  proof -
    have "map_first (sel ?wh) g ?rs = map_first (\<lambda>q. ?P q \<and> Q q) g ?rs" by (rule map_first_cong_set) (rule eq)
    also have "\<dots> = (if Q r then map_first ?P g ?rs else ?rs)"
      by (rule map_first_unique_and) (rule uniq, assumption+, rule found)
    finally show ?thesis .
  qed
  have same: "map_first ?P id xs = xs" for xs :: "row list" by (induction xs) auto
  have d: "case sv of None \<Rightarrow> sv = None
      | Some s \<Rightarrow> \<exists>d'. transform_input ad ev ''apikey'' s ''update'' = Inr d' \<and> sv = Some d'"
    using sv key_update_transform[OF st] by (auto split: option.splits)
  have "native ad" using st by (simp add: key_store_def)
  from mem_increment_one_ok[OF this safe inc d] show ?thesis
    by (simp add: find maps put_key_def same)
qed

section \<open>The remaining count\<close>

definition uses_left :: "row \<Rightarrow> int" where
  "uses_left r = (case dget r ''remaining'' of VInt n \<Rightarrow> n | _ \<Rightarrow> 0)"

text \<open>The instant the refill interval counts from.\<close>

definition refill_origin :: "row \<Rightarrow> int" where
  "refill_origin r =
     (case dget r ''lastRefillAt'' of
        VDate l \<Rightarrow> l
      | _ \<Rightarrow> (case dget r ''createdAt'' of VDate c \<Rightarrow> c | _ \<Rightarrow> 0))"

text \<open>A copy of the row of key \<open>i\<close>, of whatever age: what no claim changes is as it was at creation.\<close>

definition refill_terms :: "string \<Rightarrow> int \<Rightarrow> int \<Rightarrow> int \<Rightarrow> row \<Rightarrow> bool" where
  "refill_terms i every amount created r \<longleftrightarrow>
     dget r ''id'' = VStr i \<and> dget r ''refillInterval'' = VInt every \<and> dget r ''refillAmount'' = VInt amount \<and>
     dget r ''createdAt'' = VDate created \<and> none_or is_date (dget r ''lastRefillAt'')"

definition never_refills :: "string \<Rightarrow> row \<Rightarrow> bool" where
  "never_refills i r \<longleftrightarrow>
     dget r ''id'' = VStr i \<and> \<not> (py_truthy (dget r ''refillInterval'') \<and> py_truthy (dget r ''refillAmount''))"

definition use_step :: "adapter \<Rightarrow> env \<Rightarrow> int \<times> row \<Rightarrow> store \<Rightarrow> bool \<times> store" where
  "use_step ad ev = (\<lambda>(t, copy) st.
     case consume_remaining ad (at_time_of ev t) copy st of (res, st') \<Rightarrow> (case res of Inr _ \<Rightarrow> True | Inl _ \<Rightarrow> False, st'))"

definition refill_row :: "int \<Rightarrow> int \<Rightarrow> row \<Rightarrow> row" where
  "refill_row t amount r = dmerge r [(''remaining'', VInt (amount - 1)), (''lastRefillAt'', VDate t)]"

definition one_fewer :: "row \<Rightarrow> row" where
  "one_fewer r = dset ''remaining'' (VInt (uses_left r - 1)) r"

lemma key_at_put_id [simp]: "key_at (put_key i id st) j = key_at st j"
  using key_at_put[of id i st j] by (simp add: option.map_id)

lemma key_store_put_id: "key_store ad st \<Longrightarrow> key_at st i = Some r \<Longrightarrow> key_store ad (put_key i id st)"
  using key_store_put[of ad st i r id] key_at_typed[of ad st i r] by simp

lemma decrement_effect:
  assumes st: "key_store ad st" "key_at st i = Some r"
  shows "mem_increment_one ad ev ''apikey'' [Where ''id'' (VStr i), WhereOp ''remaining'' (VInt 0) OGt]
      (Some [(''remaining'', VInt (- 1))]) None st =
    (Inr (if 0 < uses_left r then Some (one_fewer r) else None),
     put_key i (if 0 < uses_left r then incremented_row [(''remaining'', VInt (- 1))] None else id) st)"
    and "0 < uses_left r \<Longrightarrow> incremented_row [(''remaining'', VInt (- 1))] None r = one_fewer r"
proof -
  show row: "incremented_row [(''remaining'', VInt (- 1))] None r = one_fewer r" if "0 < uses_left r"
    using that key_at_typed[OF st]
    by (auto simp: incremented_row_def one_fewer_def uses_left_def key_typed_def none_or_def is_int_def add_delta_def
        split: pyval.splits)
  have "matches q [Where ''id'' (VStr i), WhereOp ''remaining'' (VInt 0) OGt] =
      Inr (dget q ''id'' = VStr i \<and> 0 < uses_left q)" if "key_typed q" for q
    using that by (auto simp: matches_def key_typed_def none_or_def is_int_def uses_left_def split: pyval.splits)
  from key_increment[OF st this, of "Some [(''remaining'', VInt (- 1))]" None "[(''remaining'', VInt (- 1))]" ev] row
  show "mem_increment_one ad ev ''apikey'' [Where ''id'' (VStr i), WhereOp ''remaining'' (VInt 0) OGt]
      (Some [(''remaining'', VInt (- 1))]) None st =
    (Inr (if 0 < uses_left r then Some (one_fewer r) else None),
     put_key i (if 0 < uses_left r then incremented_row [(''remaining'', VInt (- 1))] None else id) st)"
    by (auto simp: check_increment_def is_delta_def)
qed

lemma refill_effect:
  assumes st: "key_store ad st" "key_at st i = Some r" and l: "none_or is_date l"
  shows "mem_increment_one ad ev ''apikey'' [Where ''id'' (VStr i), Where ''lastRefillAt'' l]
      None (Some [(''remaining'', VInt (n - 1)), (''lastRefillAt'', VDate t)]) st =
    (Inr (if dget r ''lastRefillAt'' = l then Some (refill_row t n r) else None),
     put_key i (if dget r ''lastRefillAt'' = l then refill_row t n else id) st)"
proof -
  have "matches q [Where ''id'' (VStr i), Where ''lastRefillAt'' l] =
      Inr (dget q ''id'' = VStr i \<and> dget q ''lastRefillAt'' = l)" if "key_typed q" for q
    using l by (auto simp: matches_def none_or_def is_date_def split: pyval.splits)
  moreover have "incremented_row [] (Some [(''remaining'', VInt (n - 1)), (''lastRefillAt'', VDate t)]) = refill_row t n"
    by (rule ext) (simp add: incremented_row_def refill_row_def)
  ultimately show ?thesis
    using key_increment[OF st, of "[Where ''lastRefillAt'' l]" "\<lambda>q. dget q ''lastRefillAt'' = l" None
        "Some [(''remaining'', VInt (n - 1)), (''lastRefillAt'', VDate t)]" "[]" ev]
    by (simp add: check_increment_def)
qed

text \<open>The guarded decrement as a step on the state.\<close>

lemma decrement_step:
  assumes st: "key_store ad st" "key_at st i = Some r"
  obtains st' where
    "mem_increment_one ad ev ''apikey'' [Where ''id'' (VStr i), WhereOp ''remaining'' (VInt 0) OGt]
       (Some [(''remaining'', VInt (- 1))]) None st =
     (Inr (if 0 < uses_left r then Some (one_fewer r) else None), st')"
    "key_store ad st'" "key_at st' i = Some (if 0 < uses_left r then one_fewer r else r)"
proof -
  let ?g = "if 0 < uses_left r then incremented_row [(''remaining'', VInt (- 1))] None else id"
  have ids: "dget (?g q) ''id'' = dget q ''id''" for q by (simp add: incremented_row_def)
  have g: "?g r = (if 0 < uses_left r then one_fewer r else r)" using decrement_effect(2)[OF st] by simp
  have "key_typed (?g r)"
    using key_at_typed[OF st] unfolding g by (auto simp: key_typed_def one_fewer_def none_or_def is_int_def)
  with that[OF decrement_effect(1)[OF st]] key_store_put[OF st _ ids] key_at_put[OF ids, of i st i] st(2) g
  show thesis by simp
qed

lemma dindex_dget: "dget r k = v \<Longrightarrow> v \<noteq> VNone \<Longrightarrow> dindex r k = Inr v"
  by (auto simp: dget_def dindex_def split: option.splits)

text \<open>What \<open>consume_remaining\<close> does once no refill is taken.\<close>

lemma consume_without_refill:
  assumes refill: "try_refill ad ev copy st = (Inr None, st1)" and i: "dget copy ''id'' = VStr i"
    and st: "key_store ad st1" "key_at st1 i = Some r"
  obtains st' where
    "consume_remaining ad ev copy st =
       (if 0 < uses_left r then Inr (one_fewer r) else Inl (key_error 429 ''USAGE_EXCEEDED''), st')"
    "key_store ad st'" "key_at st' i = Some (if 0 < uses_left r then one_fewer r else r)"
proof -
  obtain st' where d: "mem_increment_one ad ev ''apikey'' [Where ''id'' (VStr i), WhereOp ''remaining'' (VInt 0) OGt]
       (Some [(''remaining'', VInt (- 1))]) None st1 =
     (Inr (if 0 < uses_left r then Some (one_fewer r) else None), st')"
    "key_store ad st'" "key_at st' i = Some (if 0 < uses_left r then one_fewer r else r)"
    by (rule decrement_step[OF st])
  have first: "bindA (try_refill ad ev copy) f st = f None st1" for f :: "row option \<Rightarrow> (store, row) action"
    using refill by (simp add: bindA_def)
  have second: "bindA (mem_increment_one ad ev ''apikey'' [Where ''id'' (VStr i), WhereOp ''remaining'' (VInt 0) OGt]
       (Some [(''remaining'', VInt (- 1))]) None) f st1 = f (if 0 < uses_left r then Some (one_fewer r) else None) st'"
    for f :: "row option \<Rightarrow> (store, row) action"
    using d(1) by (simp add: bindA_def)
  have "consume_remaining ad ev copy st =
       (if 0 < uses_left r then Inr (one_fewer r) else Inl (key_error 429 ''USAGE_EXCEEDED''), st')"
    unfolding consume_remaining_def first using dindex_dget[OF i] second by simp
  with d(2,3) that show thesis by blast
qed

lemma try_refill_never: "never_refills i copy \<Longrightarrow> try_refill ad ev copy = ret None"
  by (auto simp: try_refill_def never_refills_def Let_def)

lemma try_refill_terms:
  assumes "refill_terms i every amount created copy" "every \<noteq> 0" "amount \<noteq> 0"
  shows "try_refill ad ev copy =
    (if now ev - refill_origin copy > every * 1000
     then mem_increment_one ad ev ''apikey'' [Where ''id'' (VStr i), Where ''lastRefillAt'' (dget copy ''lastRefillAt'')]
       None (Some [(''remaining'', VInt (amount - 1)), (''lastRefillAt'', VDate (now ev))])
     else ret None)"
proof -
  have c: "dindex copy ''createdAt'' = Inr (VDate created)" "dindex copy ''id'' = Inr (VStr i)"
    using assms(1) by (auto simp: refill_terms_def intro!: dindex_dget)
  from assms(1) consider "dget copy ''lastRefillAt'' = VNone" | l where "dget copy ''lastRefillAt'' = VDate l"
    by (auto simp: refill_terms_def none_or_def is_date_def split: pyval.splits)
  then show ?thesis
    by cases (use assms c in \<open>simp_all add: try_refill_def refill_terms_def Let_def refill_origin_def refill_due_def
      one_less_def fun_eq_iff\<close>)
qed

text \<open>One claim of a key that refills, with a copy of any age.\<close>

lemma consume_refilling:
  assumes st: "key_store ad st" "key_at st i = Some r"
    and r: "refill_terms i every amount created r" and copy: "refill_terms i every amount created copy"
    and pos: "0 < every" "0 < amount"
    and step: "use_step ad ev (t, copy) st = (won, st')"
  obtains r' where "key_store ad st'" "key_at st' i = Some r'" "refill_terms i every amount created r'"
    and "(won \<and> r' = refill_row t amount r \<and> t - refill_origin r > every * 1000) \<or>
         (won \<and> r' = one_fewer r \<and> 0 < uses_left r) \<or> (\<not> won \<and> r' = r)"
proof -
  let ?l = "dget copy ''lastRefillAt''" and ?ev = "at_time_of ev t"
  have l: "none_or is_date ?l" and i: "dget copy ''id'' = VStr i" using copy by (auto simp: refill_terms_def)
  have now_t [simp]: "now ?ev = t" by (simp add: at_time_of_def)
  have keep: "refill_terms i every amount created (refill_row t amount r)" "refill_terms i every amount created (one_fewer r)"
    using r by (auto simp: refill_terms_def refill_row_def one_fewer_def none_or_def is_date_def dget_dmerge)
  have refill: "try_refill ad ?ev copy =
    (if t - refill_origin copy > every * 1000
     then mem_increment_one ad ?ev ''apikey'' [Where ''id'' (VStr i), Where ''lastRefillAt'' ?l]
       None (Some [(''remaining'', VInt (amount - 1)), (''lastRefillAt'', VDate t)])
     else ret None)"
    using try_refill_terms[OF copy, of ad ?ev] pos by simp
  show thesis
  proof (cases "t - refill_origin copy > every * 1000 \<and> dget r ''lastRefillAt'' = ?l")
    case True
    then have same: "?l = dget r ''lastRefillAt''" "dget copy ''createdAt'' = dget r ''createdAt''"
      using r copy by (simp_all add: refill_terms_def)
    have origin: "refill_origin copy = refill_origin r" unfolding refill_origin_def same by (rule refl)
    have "consume_remaining ad ?ev copy st = (Inr (refill_row t amount r), put_key i (refill_row t amount) st)"
      using True refill_effect[OF st l, of ?ev amount t] refill by (simp add: consume_remaining_def bindA_def)
    moreover have ids: "dget (refill_row t amount q) ''id'' = dget q ''id''" for q by (simp add: refill_row_def)
    have typed: "key_typed (refill_row t amount r)"
      using key_at_typed[OF st] by (auto simp: key_typed_def refill_row_def none_or_def is_int_def is_date_def)
    ultimately have "won" "st' = put_key i (refill_row t amount) st"
      using step by (auto simp: use_step_def)
    with that[of "refill_row t amount r"] key_store_put[OF st typed ids] key_at_put[OF ids, of i st i] st(2) keep(1) True origin
    show thesis by simp
  next
    case False
    have "\<exists>st1. try_refill ad ?ev copy st = (Inr None, st1) \<and> key_store ad st1 \<and> key_at st1 i = Some r"
      using False refill refill_effect[OF st l, of ?ev amount t] st key_store_put_id[OF st] by auto
    then obtain st1 where st1: "try_refill ad ?ev copy st = (Inr None, st1)" "key_store ad st1" "key_at st1 i = Some r"
      by blast
    obtain st2 where c: "consume_remaining ad ?ev copy st =
       (if 0 < uses_left r then Inr (one_fewer r) else Inl (key_error 429 ''USAGE_EXCEEDED''), st2)"
      "key_store ad st2" "key_at st2 i = Some (if 0 < uses_left r then one_fewer r else r)"
      by (rule consume_without_refill[OF st1(1) i st1(2,3)])
    from step c(1) have "won = (0 < uses_left r)" "st' = st2" by (auto simp: use_step_def split: if_splits)
    with that[of "if 0 < uses_left r then one_fewer r else r"] c(2,3) keep(2) r show thesis by (auto split: if_splits)
  qed
qed

subsection \<open>The budget of a key that refills\<close>

definition refill_inv :: "adapter \<Rightarrow> string \<Rightarrow> int \<Rightarrow> int \<Rightarrow> int \<Rightarrow> int \<Rightarrow> store \<Rightarrow> bool" where
  "refill_inv ad i every amount created latest st \<longleftrightarrow>
     0 < every \<and> 0 < amount \<and> key_store ad st \<and> (case key_at st i of
       Some r \<Rightarrow> refill_terms i every amount created r \<and> 0 \<le> uses_left r \<and> refill_origin r \<le> latest
     | None \<Rightarrow> False)"

definition refill_budget :: "string \<Rightarrow> int \<Rightarrow> int \<Rightarrow> int \<Rightarrow> store \<Rightarrow> int" where
  "refill_budget i every amount latest st =
     (case key_at st i of
        Some r \<Rightarrow> uses_left r + amount * ((latest - refill_origin r) div (every * 1000))
      | None \<Rightarrow> 0)"

definition refill_ok :: "string \<Rightarrow> int \<Rightarrow> int \<Rightarrow> int \<Rightarrow> int \<Rightarrow> store \<Rightarrow> int \<times> row \<Rightarrow> bool" where
  "refill_ok i every amount created latest = (\<lambda>_ (t, copy). t \<le> latest \<and> refill_terms i every amount created copy)"

lemma refill_row_values:
  "uses_left (refill_row t amount r) = amount - 1" "refill_origin (refill_row t amount r) = t"
  by (simp_all add: uses_left_def refill_origin_def refill_row_def)

lemma one_fewer_values:
  "uses_left (one_fewer r) = uses_left r - 1" "refill_origin (one_fewer r) = refill_origin r"
proof -
  show "uses_left (one_fewer r) = uses_left r - 1" by (simp add: uses_left_def one_fewer_def)
  have same: "dget (one_fewer r) ''lastRefillAt'' = dget r ''lastRefillAt''"
    "dget (one_fewer r) ''createdAt'' = dget r ''createdAt''" by (simp_all add: one_fewer_def)
  show "refill_origin (one_fewer r) = refill_origin r" unfolding refill_origin_def same by (rule refl)
qed

text \<open>A new interval uses up one of those left.\<close>

lemma interval_div:
  assumes "0 < d" "t \<le> latest" "d \<le> t - origin"
  shows "(latest - t) div d + 1 \<le> (latest - origin :: int) div d"
proof -
  have "(latest - t) div d + 1 = (latest - t + d) div d" using div_add_self2[of d "latest - t"] assms(1) by simp
  also have "\<dots> \<le> (latest - origin) div d" using assms by (intro zdiv_mono1) auto
  finally show ?thesis .
qed

interpretation refills: metered "refill_inv ad i every amount created latest" "refill_budget i every amount latest"
    "refill_ok i every amount created latest" "use_step ad ev" for ad i every amount created latest ev
proof
  fix st :: store and a g st'
  assume inv: "refill_inv ad i every amount created latest st" and ok: "refill_ok i every amount created latest st a"
    and step: "use_step ad ev a st = (g, st')"
  obtain t copy where a: "a = (t, copy)" by (cases a)
  from inv obtain r where r: "key_store ad st" "key_at st i = Some r" "refill_terms i every amount created r"
    "0 \<le> uses_left r" "refill_origin r \<le> latest" and pos: "0 < every" "0 < amount"
    by (auto simp: refill_inv_def split: option.splits)
  have copy: "t \<le> latest" "refill_terms i every amount created copy" using ok by (simp_all add: refill_ok_def a)
  obtain r' where r': "key_store ad st'" "key_at st' i = Some r'" "refill_terms i every amount created r'"
    and cases: "(g \<and> r' = refill_row t amount r \<and> t - refill_origin r > every * 1000) \<or>
         (g \<and> r' = one_fewer r \<and> 0 < uses_left r) \<or> (\<not> g \<and> r' = r)"
    by (rule consume_refilling[OF r(1-3) copy(2) pos step[unfolded a]])
  have "amount * ((latest - t) div (every * 1000)) + amount \<le> amount * ((latest - refill_origin r) div (every * 1000))"
    if "t - refill_origin r > every * 1000"
  proof -
    have "amount * ((latest - t) div (every * 1000) + 1) \<le> amount * ((latest - refill_origin r) div (every * 1000))"
      using interval_div[OF _ copy(1) less_imp_le[OF that]] pos by (intro mult_left_mono) auto
    then show ?thesis by (simp add: distrib_left)
  qed
  then show "refill_inv ad i every amount created latest st' \<and>
      refill_budget i every amount latest st' + of_bool g \<le> refill_budget i every amount latest st"
    using cases r r' copy(1) pos
    by (auto simp: refill_inv_def refill_budget_def refill_row_values one_fewer_values)
next
  fix st assume "refill_inv ad i every amount created latest st"
  then show "0 \<le> refill_budget i every amount latest st"
    by (auto simp: refill_inv_def refill_budget_def pos_imp_zdiv_nonneg_iff split: option.splits)
qed

lemma refill_admissible:
  "\<forall>(t, copy)\<in>set calls. t \<le> latest \<and> refill_terms i every amount created copy \<Longrightarrow>
   admissible (refill_ok i every amount created latest) step calls st"
  by (induction calls arbitrary: st) (auto simp: refill_ok_def)

text \<open>
  C22: A refilling key is never overdrawn. However its verifications interleave - every claim may work on
  a copy of the row of any age and read the clock in any order - the uses granted up to an instant
  are at most what was left plus the refill amount for every whole refill interval that has passed
  since the last refill (or the creation of the key), and the count never becomes negative.
\<close>
theorem refill_never_overdrawn:
  assumes "key_store ad st" "key_at st i = Some r" "refill_terms i every amount created r"
    and "0 < every" "0 < amount" "0 \<le> uses_left r" "refill_origin r \<le> latest"
    and "\<forall>(t, copy)\<in>set calls. t \<le> latest \<and> refill_terms i every amount created copy"
  shows "int (fst (grants (use_step ad ev) calls st)) \<le>
      uses_left r + amount * ((latest - refill_origin r) div (every * 1000)) \<and>
    (\<exists>r'. key_at (snd (grants (use_step ad ev) calls st)) i = Some r' \<and> 0 \<le> uses_left r')"
proof -
  have inv: "refill_inv ad i every amount created latest st" using assms by (simp add: refill_inv_def)
  have ok: "admissible (refill_ok i every amount created latest) (use_step ad ev) calls st"
    by (rule refill_admissible[OF assms(8)])
  obtain n st' where run: "grants (use_step ad ev) calls st = (n, st')" by (cases "grants (use_step ad ev) calls st")
  from refills.grants_lower_budget[OF inv ok run] have "refill_inv ad i every amount created latest st'" by simp
  then have "\<exists>r'. key_at st' i = Some r' \<and> 0 \<le> uses_left r'" by (auto simp: refill_inv_def split: option.splits)
  with refills.grants_within_budget[OF inv ok] assms(2) run show ?thesis by (simp add: refill_budget_def)
qed

end
