(* ===== verification/ApiKey_Claims.thy ===== *)
theory ApiKey_Claims
  imports ApiKey_Props
begin

text \<open>
  The exact count of a key without refill, and the rate limit of a key: what its guarded claims grant
  when they interleave with copies of any age, and what one undisturbed claim decides.
\<close>

section \<open>Keys without refill\<close>

lemma consume_plain:
  assumes st: "key_store ad st" "key_at st i = Some r" and copy: "never_refills i copy"
  obtains st' where "use_step ad ev (t, copy) st = (0 < uses_left r, st')" "key_store ad st'"
    "key_at st' i = Some (if 0 < uses_left r then one_fewer r else r)"
proof -
  have refill: "try_refill ad (at_time_of ev t) copy st = (Inr None, st)"
    by (simp add: try_refill_never[OF copy])
  have i: "dget copy ''id'' = VStr i" using copy by (simp add: never_refills_def)
  show thesis
  proof (rule consume_without_refill[OF refill i st])
    fix st' assume "consume_remaining ad (at_time_of ev t) copy st =
       (if 0 < uses_left r then Inr (one_fewer r) else Inl (key_error 429 ''USAGE_EXCEEDED''), st')"
      and rest: "key_store ad st'" "key_at st' i = Some (if 0 < uses_left r then one_fewer r else r)"
    then have "use_step ad ev (t, copy) st = (0 < uses_left r, st')" by (simp add: use_step_def)
    with rest that show thesis by blast
  qed
qed

text \<open>
  C23: A key without refill is used exactly as often as it says. However its verifications interleave, with
  copies of any age and at any times, the first \<open>remaining\<close> claims succeed, every later one is
  refused, and the stored count is what is left.
\<close>
theorem remaining_exact:
  assumes "key_store ad st" "key_at st i = Some r" "0 \<le> uses_left r"
    and "\<forall>(t, copy)\<in>set calls. never_refills i copy"
  shows "fst (grants (use_step ad ev) calls st) = min (nat (uses_left r)) (length calls) \<and>
    (\<exists>r'. key_at (snd (grants (use_step ad ev) calls st)) i = Some r' \<and>
      uses_left r' = uses_left r - int (fst (grants (use_step ad ev) calls st)))"
  using assms
proof (induction calls arbitrary: st r)
  case (Cons call calls)
  obtain t copy where call: "call = (t, copy)" by (cases call)
  with Cons.prems(4) have copy: "never_refills i copy" by simp
  let ?r1 = "if 0 < uses_left r then one_fewer r else r"
  obtain st1 where st1: "use_step ad ev (t, copy) st = (0 < uses_left r, st1)" "key_store ad st1" "key_at st1 i = Some ?r1"
    by (rule consume_plain[OF Cons.prems(1,2) copy])
  have "0 \<le> uses_left ?r1" using Cons.prems(3) by (simp add: one_fewer_values)
  from Cons.IH[OF st1(2,3) this] Cons.prems(4)
  have IH: "fst (grants (use_step ad ev) calls st1) = min (nat (uses_left ?r1)) (length calls)"
    "\<exists>r'. key_at (snd (grants (use_step ad ev) calls st1)) i = Some r' \<and>
      uses_left r' = uses_left ?r1 - int (fst (grants (use_step ad ev) calls st1))" by auto
  obtain n st2 where run: "grants (use_step ad ev) calls st1 = (n, st2)" by (cases "grants (use_step ad ev) calls st1")
  have "grants (use_step ad ev) (call # calls) st = (n + of_bool (0 < uses_left r), st2)"
    by (simp add: call st1(1) run)
  with IH Cons.prems(3) run show ?case by (auto simp: one_fewer_values)
qed simp

section \<open>The rate limit\<close>

text \<open>A copy of the row of key \<open>i\<close> with window \<open>w\<close> (milliseconds) and maximum \<open>m\<close>.\<close>

definition rate_terms :: "string \<Rightarrow> int \<Rightarrow> int \<Rightarrow> row \<Rightarrow> bool" where
  "rate_terms i w m r \<longleftrightarrow>
     dget r ''id'' = VStr i \<and> dget r ''rateLimitEnabled'' \<noteq> VBool False \<and>
     dget r ''rateLimitTimeWindow'' = VInt w \<and> dget r ''rateLimitMax'' = VInt m \<and>
     none_or is_date (dget r ''lastRequest'') \<and> is_int (dget r ''requestCount'')"

definition requests :: "row \<Rightarrow> int" where
  "requests r = (case dget r ''requestCount'' of VInt n \<Rightarrow> n | _ \<Rightarrow> 0)"

definition last_claim :: "row \<Rightarrow> int option" where
  "last_claim r = (case dget r ''lastRequest'' of VDate t \<Rightarrow> Some t | _ \<Rightarrow> None)"


definition started :: "int \<Rightarrow> row \<Rightarrow> row" where
  "started t r = dmerge r [(''requestCount'', VInt 1), (''lastRequest'', VDate t)]"

definition bumped :: "int \<Rightarrow> row \<Rightarrow> row" where
  "bumped t r = dset ''lastRequest'' (VDate t) (dset ''requestCount'' (VInt (requests r + 1)) r)"



lemma key_find:
  assumes "key_store ad st"
  shows "mem_find_one ad ''apikey'' [Where ''id'' (VStr i)] [] st = (Inr (key_at st i), st)"
proof -
  have "sel [Where ''id'' (VStr i)] = (\<lambda>r. dget r ''id'' = VStr i)" by (rule ext) simp
  with assms show ?thesis by (simp add: key_store_def mem_find_one_safe key_at_def lookup_id_def)
qed

definition answers :: "('s, 'a) action \<Rightarrow> 's \<Rightarrow> 'a \<Rightarrow> 's \<Rightarrow> bool" where
  "answers act st a st' \<longleftrightarrow> act st = (Inr a, st')"

lemma answers_bind: "answers act st a st' \<Longrightarrow> bindA act f st = f a st'"
  by (simp add: answers_def bindA_def)

text \<open>The three guarded writes, as one lemma: the guard is \<open>Q\<close> and the new row \<open>g r\<close>.\<close>

lemma rate_write:
  assumes st: "key_store ad st" "key_at st i = Some r"
    and guard: "\<And>q. key_typed q \<Longrightarrow> matches q (Where ''id'' (VStr i) # wh) = Inr (dget q ''id'' = VStr i \<and> Q q)"
    and inc: "check_increment increment (Some sv) = Inr inc" "map_of sv ''metadata'' = None"
    and g: "Q r \<Longrightarrow> incremented_row inc (Some sv) r = g"
    and typed: "key_typed g" "\<And>q. dget (incremented_row inc (Some sv) q) ''id'' = dget q ''id''"
  obtains st' where
    "answers (mem_increment_one ad ev ''apikey'' (Where ''id'' (VStr i) # wh) increment (Some sv)) st (if Q r then Some g else None) st'"
    "key_store ad st'" "key_at st' i = Some (if Q r then g else r)"
proof -
  let ?f = "if Q r then incremented_row inc (Some sv) else id"
  have out: "mem_increment_one ad ev ''apikey'' (Where ''id'' (VStr i) # wh) increment (Some sv) st =
       (Inr (if Q r then Some g else None), put_key i ?f st)"
    using key_increment[OF st guard inc(1), of ev] inc(2) g by simp
  have ids: "dget (?f q) ''id'' = dget q ''id''" for q using typed(2) by simp
  have "?f r = (if Q r then g else r)" using g by simp
  moreover have "key_typed (?f r)" using key_at_typed[OF st] typed(1) g by simp
  moreover have "answers (mem_increment_one ad ev ''apikey'' (Where ''id'' (VStr i) # wh) increment (Some sv)) st
      (if Q r then Some g else None) (put_key i ?f st)"
    using out by (simp add: answers_def)
  ultimately show thesis
    using that[of "put_key i ?f st"] key_store_put[OF st _ ids] key_at_put[OF ids, of i st i] st(2) by simp
qed

lemma key_typed_started: "key_typed r \<Longrightarrow> key_typed (started t r)"
  by (simp add: key_typed_def started_def none_or_def is_date_def is_int_def)

lemma key_typed_bumped: "key_typed r \<Longrightarrow> key_typed (bumped t r)"
  by (simp add: key_typed_def bumped_def none_or_def is_date_def is_int_def)

lemma typed_last_request:
  assumes "key_typed q"
  shows "dget q ''lastRequest'' = (case last_claim q of Some l \<Rightarrow> VDate l | None \<Rightarrow> VNone)"
    and "dget q ''requestCount'' = VInt (requests q)"
  using assms by (auto simp: key_typed_def none_or_def is_date_def is_int_def last_claim_def requests_def split: pyval.splits)

lemma start_guard:
  assumes "key_typed q"
  shows "matches q [Where ''id'' (VStr i), WhereOp ''lastRequest'' VNone OEq] =
    Inr (dget q ''id'' = VStr i \<and> last_claim q = None)"
  using typed_last_request(1)[OF assms]
  by (auto simp: matches_def eval_clause_def Where_def WhereOp_def split: option.splits)

lemma reset_guard:
  assumes "key_typed q"
  shows "matches q [Where ''id'' (VStr i), WhereOp ''lastRequest'' (VDate ws) OLte] =
    Inr (dget q ''id'' = VStr i \<and> (\<exists>l. last_claim q = Some l \<and> l \<le> ws))"
  using typed_last_request(1)[OF assms] by (auto simp: matches_def not_less split: option.splits)

lemma increment_guard_key:
  assumes "key_typed q"
  shows "matches q [Where ''id'' (VStr i), WhereOp ''lastRequest'' (VDate ws) OGt, WhereOp ''requestCount'' (VInt m) OLt] =
    Inr (dget q ''id'' = VStr i \<and> ((\<exists>l. last_claim q = Some l \<and> ws < l) \<and> requests q < m))"
  using typed_last_request[OF assms] by (auto simp: matches_def split: option.splits)

text \<open>What one round grants on the stored row, and the row it leaves.\<close>

definition round_grants :: "int \<Rightarrow> int \<Rightarrow> int \<Rightarrow> row \<Rightarrow> row \<Rightarrow> bool" where
  "round_grants w m t r r' \<longleftrightarrow>
     (r' = started t r \<and> (case last_claim r of None \<Rightarrow> True | Some l \<Rightarrow> l \<le> t - w * 1000)) \<or>
     (r' = bumped t r \<and> (case last_claim r of None \<Rightarrow> False | Some l \<Rightarrow> t - w * 1000 < l) \<and> requests r < m)"

text \<open>The decision on a copy with the terms of the key.\<close>

lemma decision_cases:
  assumes "rate_terms i w m copy" "kc_rate_enabled kc"
  shows "evaluate_rate_limit kc t copy =
    (case last_claim copy of
       None \<Rightarrow> Inr (Start t)
     | Some l \<Rightarrow>
         if t - l > w * 1000 then Inr (Reset t (t - w * 1000))
         else if requests copy < m then Inr (Increment t (VInt m) (t - w * 1000))
         else Inr (Deny (ceil_ms (w * 1000 - (t - l)))))"
proof -
  have c: "map_of copy ''requestCount'' = Some (VInt (requests copy))"
    using assms(1) by (auto simp: rate_terms_def is_int_def requests_def dget_def split: pyval.splits option.splits)
  from assms(1) consider "dget copy ''lastRequest'' = VNone" "last_claim copy = None"
    | l where "dget copy ''lastRequest'' = VDate l" "last_claim copy = Some l"
    by (auto simp: rate_terms_def none_or_def is_date_def last_claim_def split: pyval.splits)
  then show ?thesis
    by cases (use assms c in \<open>simp_all add: evaluate_rate_limit_def rate_terms_def Let_def\<close>)
qed

lemma bindA_step: "m s = (Inr a, s') \<Longrightarrow> bindA m (f :: 'a \<Rightarrow> ('s, 'b) action) s = f a s'"
  by (simp add: bindA_def)

text \<open>The guarded writes of a round as steps on the state.\<close>

lemma start_values:
  "incremented_row [] (Some [(''requestCount'', VInt 1), (''lastRequest'', VDate t)]) q = started t q"
  by (simp add: incremented_row_def started_def)

lemma bump_values:
  "key_typed q \<Longrightarrow>
   incremented_row [(''requestCount'', VInt 1)] (Some [(''lastRequest'', VDate t)]) q = bumped t q"
  using typed_last_request(2)[of q] by (simp add: incremented_row_def bumped_def add_delta_def)

lemma start_write:
  assumes "key_store ad st" "key_at st i = Some r"
  obtains st' where
    "answers (mem_increment_one ad ev ''apikey'' [Where ''id'' (VStr i), WhereOp ''lastRequest'' VNone OEq] None
         (Some [(''requestCount'', VInt 1), (''lastRequest'', VDate t)])) st (if last_claim r = None then Some (started t r) else None) st'"
    "key_store ad st'" "key_at st' i = Some (if last_claim r = None then started t r else r)"
  by (rule rate_write[OF assms start_guard, where inc = "[]" and g = "started t r"
        and sv = "[(''requestCount'', VInt 1), (''lastRequest'', VDate t)]" and increment = None and ev = ev])
    (use key_at_typed[OF assms] in \<open>simp_all add: check_increment_def start_values key_typed_started, simp add: started_def\<close>)

lemma reset_write:
  assumes "key_store ad st" "key_at st i = Some r"
  obtains st' where
    "answers (mem_increment_one ad ev ''apikey'' [Where ''id'' (VStr i), WhereOp ''lastRequest'' (VDate ws) OLte] None
         (Some [(''requestCount'', VInt 1), (''lastRequest'', VDate t)])) st (if \<exists>l. last_claim r = Some l \<and> l \<le> ws then Some (started t r) else None) st'"
    "key_store ad st'" "key_at st' i = Some (if \<exists>l. last_claim r = Some l \<and> l \<le> ws then started t r else r)"
  by (rule rate_write[OF assms reset_guard[where ws = ws], where inc = "[]" and g = "started t r"
        and sv = "[(''requestCount'', VInt 1), (''lastRequest'', VDate t)]" and increment = None and ev = ev])
    (use key_at_typed[OF assms] in \<open>simp_all add: check_increment_def start_values key_typed_started, simp add: started_def\<close>)

lemma increment_write_key:
  assumes "key_store ad st" "key_at st i = Some r"
  obtains st' where
    "answers (mem_increment_one ad ev ''apikey''
         [Where ''id'' (VStr i), WhereOp ''lastRequest'' (VDate ws) OGt, WhereOp ''requestCount'' (VInt m) OLt]
         (Some [(''requestCount'', VInt 1)]) (Some [(''lastRequest'', VDate t)])) st (if (\<exists>l. last_claim r = Some l \<and> ws < l) \<and> requests r < m then Some (bumped t r) else None) st'"
    "key_store ad st'"
    "key_at st' i = Some (if (\<exists>l. last_claim r = Some l \<and> ws < l) \<and> requests r < m then bumped t r else r)"
  by (rule rate_write[OF assms increment_guard_key[where ws = ws and m = m], where inc = "[(''requestCount'', VInt 1)]" and g = "bumped t r"
        and sv = "[(''lastRequest'', VDate t)]" and increment = "Some [(''requestCount'', VInt 1)]" and ev = ev])
    (use key_at_typed[OF assms] in \<open>simp_all add: check_increment_def is_delta_def bump_values key_typed_bumped,
      simp add: incremented_row_def\<close>)

text \<open>
  One round: it is denied, or the guarded write grants and leaves its row, or the write misses and the
  claim goes on with the stored row.
\<close>

lemma rate_round:
  assumes st: "key_store ad st" "key_at st i = Some r"
    and terms: "rate_terms i w m copy" "kc_rate_enabled kc"
  obtains (denied) n where "consume_rate_limit ad ev kc (t # rounds) copy st = (Inl (rate_limited n), st)"
      "\<exists>l. last_claim copy = Some l \<and> t - l \<le> w * 1000 \<and> m \<le> requests copy"
  | (won) r' st' where "consume_rate_limit ad ev kc (t # rounds) copy st = (Inr (Some r'), st')"
      "round_grants w m t r r'" "key_store ad st'" "key_at st' i = Some r'"
      "copy = r \<Longrightarrow> last_claim r \<noteq> Some (t - w * 1000)"
  | (again) st' where "consume_rate_limit ad ev kc (t # rounds) copy st = consume_rate_limit ad ev kc rounds r st'"
      "key_store ad st'" "key_at st' i = Some r"
      "copy = r \<Longrightarrow> last_claim r = Some (t - w * 1000) \<and> requests r < m"
proof -
  have typed: "key_typed r" using key_at_typed[OF st] by simp
  have i: "dindex copy ''id'' = Inr (VStr i)" using terms(1) by (intro dindex_dget) (simp_all add: rate_terms_def)
  have lost: "bindA (mem_find_one ad ''apikey'' [Where ''id'' (VStr i)] []) (\<lambda>fresh.
      case fresh of None \<Rightarrow> raise invalid_key | Some x \<Rightarrow> consume_rate_limit ad ev kc rounds x) st1 =
      consume_rate_limit ad ev kc rounds r st1" if "key_store ad st1" "key_at st1 i = Some r" for st1
    using key_find[OF that(1), of i] that(2) by (simp add: bindA_def)
  show thesis
  proof (cases "last_claim copy")
    case None
    then have d: "evaluate_rate_limit kc t copy = Inr (Start t)" using decision_cases[OF terms] by simp
    obtain st1 where w: "answers (mem_increment_one ad (at_time_of ev t) ''apikey''
          [Where ''id'' (VStr i), WhereOp ''lastRequest'' VNone OEq] None
          (Some [(''requestCount'', VInt 1), (''lastRequest'', VDate t)])) st (if last_claim r = None then Some (started t r) else None) st1"
      and st1: "key_store ad st1" "key_at st1 i = Some (if last_claim r = None then started t r else r)"
      by (rule start_write[OF st, where ev = "at_time_of ev t" and t = t])
    have out: "consume_rate_limit ad ev kc (t # rounds) copy st =
        (if last_claim r = None then (Inr (Some (started t r)), st1) else consume_rate_limit ad ev kc rounds r st1)"
      using d i lost[of st1] st1 by (auto simp: answers_bind[OF w] split: if_splits)
    show thesis
    proof (cases "last_claim r = None")
      case True
      with won[of "started t r" st1] out st1 show thesis by (auto simp: round_grants_def)
    next
      case False
      show thesis by (rule again[of st1]) (use out st1 None False in \<open>auto simp del: consume_rate_limit.simps\<close>)
    qed
  next
    case (Some l)
    show thesis
    proof (cases "t - l > w * 1000")
      case True
      let ?Q = "\<exists>l. last_claim r = Some l \<and> l \<le> t - w * 1000"
      have d: "evaluate_rate_limit kc t copy = Inr (Reset t (t - w * 1000))"
        using decision_cases[OF terms] Some True by simp
      obtain st1 where w: "answers (mem_increment_one ad (at_time_of ev t) ''apikey''
            [Where ''id'' (VStr i), WhereOp ''lastRequest'' (VDate (t - w * 1000)) OLte] None
            (Some [(''requestCount'', VInt 1), (''lastRequest'', VDate t)])) st (if ?Q then Some (started t r) else None) st1"
        and st1: "key_store ad st1" "key_at st1 i = Some (if ?Q then started t r else r)"
        by (rule reset_write[OF st, where ev = "at_time_of ev t" and t = t and ws = "t - w * 1000"])
      have out: "consume_rate_limit ad ev kc (t # rounds) copy st =
          (if ?Q then (Inr (Some (started t r)), st1) else consume_rate_limit ad ev kc rounds r st1)"
        using d i lost[of st1] st1 by (auto simp: answers_bind[OF w] split: if_splits)
      show thesis
      proof (cases ?Q)
        case True
        have "copy = r \<Longrightarrow> last_claim r \<noteq> Some (t - w * 1000)" using Some \<open>t - l > w * 1000\<close> by auto
        with won[of "started t r" st1] out st1 True show thesis
          by (auto simp: round_grants_def simp del: consume_rate_limit.simps)
      next
        case False
        show thesis by (rule again[of st1])
          (use out st1 Some False \<open>t - l > w * 1000\<close> in \<open>auto simp del: consume_rate_limit.simps\<close>)
      qed
    next
      case False
      note late = this
      show thesis
      proof (cases "requests copy < m")
        case True
        let ?Q = "(\<exists>l. last_claim r = Some l \<and> t - w * 1000 < l) \<and> requests r < m"
        have d: "evaluate_rate_limit kc t copy = Inr (Increment t (VInt m) (t - w * 1000))"
          using decision_cases[OF terms] Some True late by simp
        obtain st1 where w: "answers (mem_increment_one ad (at_time_of ev t) ''apikey''
              [Where ''id'' (VStr i), WhereOp ''lastRequest'' (VDate (t - w * 1000)) OGt, WhereOp ''requestCount'' (VInt m) OLt]
              (Some [(''requestCount'', VInt 1)]) (Some [(''lastRequest'', VDate t)])) st (if ?Q then Some (bumped t r) else None) st1"
          and st1: "key_store ad st1" "key_at st1 i = Some (if ?Q then bumped t r else r)"
          by (rule increment_write_key[OF st, where ev = "at_time_of ev t" and t = t and ws = "t - w * 1000" and m = m])
        have out: "consume_rate_limit ad ev kc (t # rounds) copy st =
            (if ?Q then (Inr (Some (bumped t r)), st1) else consume_rate_limit ad ev kc rounds r st1)"
          using d i lost[of st1] st1 by (auto simp: answers_bind[OF w] split: if_splits)
        show thesis
        proof (cases ?Q)
          case True
          with won[of "bumped t r" st1] out st1 show thesis by (auto simp: round_grants_def)
        next
          case False
          show thesis by (rule again[of st1])
            (use out st1 Some late True False in \<open>auto simp del: consume_rate_limit.simps\<close>)
        qed
      next
        case False
        have "evaluate_rate_limit kc t copy = Inr (Deny (ceil_ms (w * 1000 - (t - l))))"
          using decision_cases[OF terms] Some False late by simp
        with denied[of "ceil_ms (w * 1000 - (t - l))"] i Some False late show thesis by simp
      qed
    qed
  qed
qed













text \<open>What a verification at one reading of the clock decides on the row it reads.\<close>

definition verdict :: "int \<Rightarrow> int \<Rightarrow> int \<Rightarrow> row \<Rightarrow> row option result" where
  "verdict w m t r =
     (case last_claim r of
        None \<Rightarrow> Inr (Some (started t r))
      | Some l \<Rightarrow>
          if l < t - w * 1000 then Inr (Some (started t r))
          else if requests r < m then Inr (Some (bumped t r))
          else Inl (rate_limited (ceil_ms (w * 1000 - (t - l)))))"

definition on_boundary :: "int \<Rightarrow> int \<Rightarrow> int \<Rightarrow> row \<Rightarrow> bool" where
  "on_boundary w m t r \<longleftrightarrow> last_claim r = Some (t - w * 1000) \<and> requests r < m"

lemma own_round:
  assumes "key_store ad st" "key_at st i = Some r" "rate_terms i w m r" "kc_rate_enabled kc"
  obtains (again) st' where "on_boundary w m t r" "key_store ad st'" "key_at st' i = Some r"
      "consume_rate_limit ad ev kc (t # rounds) r st = consume_rate_limit ad ev kc rounds r st'"
  | (decided) "\<not> on_boundary w m t r" "fst (consume_rate_limit ad ev kc (t # rounds) r st) = verdict w m t r"
proof (cases "\<exists>l. last_claim r = Some l \<and> t - l \<le> w * 1000 \<and> m \<le> requests r")
  case True
  then obtain l where l: "last_claim r = Some l" "t - l \<le> w * 1000" "m \<le> requests r" by blast
  have "dindex r ''id'' = Inr (VStr i)" using assms(3) by (intro dindex_dget) (simp_all add: rate_terms_def)
  with l decision_cases[OF assms(3,4), of t] show thesis
    by (intro decided) (auto simp: on_boundary_def verdict_def)
next
  case False
  show thesis
  proof (rule rate_round[OF assms, of ev t rounds])
    fix st' assume "consume_rate_limit ad ev kc (t # rounds) r st = consume_rate_limit ad ev kc rounds r st'"
      "key_store ad st'" "key_at st' i = Some r" "r = r \<Longrightarrow> last_claim r = Some (t - w * 1000) \<and> requests r < m"
    then show thesis by (intro again[of st']) (simp_all add: on_boundary_def)
  next
    fix r' st' assume "consume_rate_limit ad ev kc (t # rounds) r st = (Inr (Some r'), st')"
      "round_grants w m t r r'" "r = r \<Longrightarrow> last_claim r \<noteq> Some (t - w * 1000)"
    then show thesis
      by (intro decided) (auto simp: on_boundary_def verdict_def round_grants_def split: option.splits)
  qed (use False in blast)
qed

lemma verdict_returns: "verdict w m t r \<noteq> Inr None"
  by (auto simp: verdict_def split: option.splits)

text \<open>
  C24: A verification that is not disturbed ends after at most two rounds, and its outcome is exact. On the
  current row of a key, \<open>_consume_rate_limit\<close> asks for a second reading of the clock exactly when the
  first falls on the end of the window to the microsecond with the count below the maximum, where neither
  the reset nor the guarded increment applies. It decides at the second reading then, when the clock has
  advanced, and at the first otherwise: a first use or an ended window starts a new window with count one;
  within the window the count goes up while it is below the maximum, and from then on the request is
  refused with the time that is left.
\<close>
theorem rate_limit_returns:
  assumes "key_store ad st" "key_at st i = Some r" "rate_terms i w m r" "kc_rate_enabled kc" "t1 < t2"
  shows "(fst (consume_rate_limit ad ev kc [t1] r st) = Inr None \<longleftrightarrow>
      last_claim r = Some (t1 - w * 1000) \<and> requests r < m) \<and>
    fst (consume_rate_limit ad ev kc (t1 # t2 # rounds) r st) =
      verdict w m (if last_claim r = Some (t1 - w * 1000) \<and> requests r < m then t2 else t1) r"
proof
  show "fst (consume_rate_limit ad ev kc [t1] r st) = Inr None \<longleftrightarrow>
      last_claim r = Some (t1 - w * 1000) \<and> requests r < m"
    by (rule own_round[OF assms(1-4), of t1 ev "[]"]) (auto simp: on_boundary_def verdict_returns ret_def)
next
  show "fst (consume_rate_limit ad ev kc (t1 # t2 # rounds) r st) =
      verdict w m (if last_claim r = Some (t1 - w * 1000) \<and> requests r < m then t2 else t1) r"
  proof (rule own_round[OF assms(1-4), of t1 ev "t2 # rounds"])
    fix st' assume on: "on_boundary w m t1 r" and st': "key_store ad st'" "key_at st' i = Some r"
      and run: "consume_rate_limit ad ev kc (t1 # t2 # rounds) r st = consume_rate_limit ad ev kc (t2 # rounds) r st'"
    have "\<not> on_boundary w m t2 r" using on assms(5) by (simp add: on_boundary_def)
    then have "fst (consume_rate_limit ad ev kc (t2 # rounds) r st') = verdict w m t2 r"
      using own_round[OF st' assms(3,4), of t2 ev rounds] by metis
    with run on show ?thesis by (simp add: on_boundary_def)
  next
    assume "\<not> on_boundary w m t1 r" "fst (consume_rate_limit ad ev kc (t1 # t2 # rounds) r st) = verdict w m t1 r"
    then show ?thesis by (auto simp: on_boundary_def)
  qed
qed

section \<open>Instances\<close>

text \<open>A store with one key, granted ten requests a second, three uses and two more a minute.\<close>

definition key_ad :: adapter where
  "key_ad = \<lparr>ad_schema = build_schema (\<lambda>_. ''{}'') 10 1000, ad_caps = all_caps,
     ad_codec = \<lparr>json_dumps = (\<lambda>_. Inl TypeError), json_loads = (\<lambda>_. Inl ValueError),
       isoformat = (\<lambda>_. []), strftime_s = (\<lambda>_. []), fromisoformat = (\<lambda>_. Inl ValueError)\<rparr>,
     ad_limit = 100, ad_generate_id = GenDefault\<rparr>"

definition plain_raw :: raw_config where
  "plain_raw = \<lparr>rc_storage = None, rc_custom_storage = False, rc_config_id = None, rc_headers = None,
     rc_disable_hashing = None, rc_key_length = None, rc_prefix = None, rc_max_prefix = None, rc_min_prefix = None,
     rc_max_name = None, rc_min_name = None, rc_require_name = None, rc_metadata = None, rc_sessions = None,
     rc_references = None, rc_store_start = None, rc_start_length = None, rc_expires_in = None,
     rc_disable_custom_expires = None, rc_min_expires = None, rc_max_expires = None, rc_rate_enabled = None,
     rc_rate_window = None, rc_rate_max = None, rc_permissions = None, rc_generator = None, rc_getter = None,
     rc_validator = None\<rparr>"

definition plain_key_config :: key_config where
  "plain_key_config = (case normalize_config plain_raw of Inr kc \<Rightarrow> kc | Inl _ \<Rightarrow> undefined)"

definition demo_key :: "pyval \<Rightarrow> pyval \<Rightarrow> row" where
  "demo_key every amount =
     [(''id'', VStr ''k''), (''remaining'', VInt 3), (''refillInterval'', every), (''refillAmount'', amount),
      (''createdAt'', VDate 0), (''rateLimitTimeWindow'', VInt 1000), (''rateLimitMax'', VInt 2),
      (''requestCount'', VInt 0)]"

definition key_env_0 :: env where
  "key_env_0 = \<lparr>now = 0, rnd_id = ''i'', rnd_uuid = ''u''\<rparr>"

lemma demo_key_store: "key_store key_ad [(''apikey'', [demo_key every amount])]"
proof -
  have "plain_updates (fields_of (ad_schema key_ad) ''apikey'')"
    by (simp add: key_ad_def build_schema_plain)
  then show ?thesis
    by (simp add: key_store_def native_def key_ad_def fields_of_def rows_of_def demo_key_def str_ids_def row_ids_def
        key_typed_def is_str_def is_int_def none_or_def dget_Cons build_schema_def)
qed

lemma demo_key_at: "key_at [(''apikey'', [demo_key every amount])] ''k'' = Some (demo_key every amount)"
  by (simp add: key_at_def lookup_id_def rows_of_def demo_key_def dget_Cons)

text \<open>Four claims with the same stale copy: three are granted.\<close>

theorem remaining_exact_witness:
  "fst (grants (use_step key_ad key_env_0) (replicate 4 (5, demo_key VNone VNone))
     [(''apikey'', [demo_key VNone VNone])]) = 3"
proof -
  have "0 \<le> uses_left (demo_key VNone VNone)" "never_refills ''k'' (demo_key VNone VNone)"
    by (simp_all add: uses_left_def never_refills_def demo_key_def dget_Cons)
  then show ?thesis
    using remaining_exact[OF demo_key_store demo_key_at, of VNone VNone "replicate 4 (5, demo_key VNone VNone)" key_env_0]
    by (simp add: uses_left_def demo_key_def dget_Cons)
qed

text \<open>In the first two and a half minutes at most 3 + 2 * 2 uses.\<close>

theorem refill_never_overdrawn_witness:
  "int (fst (grants (use_step key_ad key_env_0)
      (replicate 5 (1, demo_key (VInt 60000) (VInt 2)) @ [(150000000, demo_key (VInt 60000) (VInt 2))])
      [(''apikey'', [demo_key (VInt 60000) (VInt 2)])])) \<le> 7"
proof -
  let ?r = "demo_key (VInt 60000) (VInt 2)"
  have r: "refill_terms ''k'' 60000 2 0 ?r" "0 \<le> uses_left ?r" "refill_origin ?r = 0" "uses_left ?r = 3"
    by (simp_all add: refill_terms_def uses_left_def refill_origin_def demo_key_def dget_Cons none_or_def)
  have "int (fst (grants (use_step key_ad key_env_0) (replicate 5 (1, ?r) @ [(150000000, ?r)])
      [(''apikey'', [?r])])) \<le> uses_left ?r + 2 * ((150000000 - refill_origin ?r) div (60000 * 1000))"
    by (rule refill_never_overdrawn[OF demo_key_store demo_key_at r(1), THEN conjunct1]) (use r in auto)
  then show ?thesis by (simp add: r)
qed

lemma demo_rate_terms: "rate_terms ''k'' 1000 2 (demo_key every amount)" "last_claim (demo_key every amount) = None"
  by (simp_all add: rate_terms_def last_claim_def demo_key_def dget_Cons none_or_def is_int_def)

lemma plain_rate_enabled: "kc_rate_enabled plain_key_config"
  by (simp add: plain_key_config_def plain_raw_def normalize_config_def or_default_def)


text \<open>A window that ends at the microsecond of the first reading.\<close>

theorem rate_limit_returns_witness:
  "fst (consume_rate_limit key_ad key_env_0 plain_key_config [1000000, 1000001]
      (dset ''lastRequest'' (VDate 0) (demo_key VNone VNone))
      [(''apikey'', [dset ''lastRequest'' (VDate 0) (demo_key VNone VNone)])]) =
    Inr (Some (started 1000001 (dset ''lastRequest'' (VDate 0) (demo_key VNone VNone))))"
proof -
  let ?r = "dset ''lastRequest'' (VDate 0) (demo_key VNone VNone)"
  have "key_store key_ad [(''apikey'', [?r])]" "key_at [(''apikey'', [?r])] ''k'' = Some ?r" "rate_terms ''k'' 1000 2 ?r"
    "last_claim ?r = Some 0" "requests ?r = 0"
    using demo_key_store[of VNone VNone] demo_key_at[of VNone VNone] demo_rate_terms(1)[of VNone VNone]
    by (simp_all add: key_store_def rows_of_def key_at_def lookup_id_def str_ids_def row_ids_def key_typed_def
        rate_terms_def none_or_def is_date_def last_claim_def requests_def demo_key_def dget_Cons)
  with rate_limit_returns[OF this(1-3) plain_rate_enabled, of 1000000 1000001 key_env_0 "[]"]
  show ?thesis by (simp add: verdict_def)
qed

end
