(* ===== verification/ApiKey_Verify.thy ===== *)
theory ApiKey_Verify
  imports ApiKey_Claims
begin

text \<open>
  What a successful verification means, what every refusal leaves behind, that a minted key verifies,
  and which rows deleting a key can remove.
\<close>

section \<open>Admission\<close>

lemma find_by_key:
  assumes "native ad"
  shows "mem_find_one ad ''apikey'' [Where ''key'' (VStr h)] [] st =
    (Inr (List.find (\<lambda>r. dget r ''key'' = VStr h) (rows_of st ''apikey'')), st)"
proof -
  have "sel [Where ''key'' (VStr h)] = (\<lambda>r. dget r ''key'' = VStr h)" by (rule ext) simp
  with assms show ?thesis by (simp add: mem_find_one_safe)
qed

definition key_with_hash :: "store \<Rightarrow> string \<Rightarrow> row option" where
  "key_with_hash st h = List.find (\<lambda>r. dget r ''key'' = VStr h) (rows_of st ''apikey'')"

text \<open>A stored row passes the checks that come before a use is claimed.\<close>

definition admissible_key :: "key_lib \<Rightarrow> env \<Rightarrow> row \<Rightarrow> row \<Rightarrow> bool" where
  "admissible_key kl ev permissions r \<longleftrightarrow>
     dget r ''enabled'' \<noteq> VBool False \<and>
     (case dget r ''expiresAt'' of VDate t \<Rightarrow> now ev \<le> t | v \<Rightarrow> \<not> py_truthy v) \<and>
     (permissions \<noteq> [] \<longrightarrow>
        (\<exists>p. parse_permissions kl (dget r ''permissions'') = p \<and> is_valid_role_permission p \<and>
             authorize (table_of p) permissions ConnAnd = Inr Success)) \<and>
     \<not> (py_eq (dget r ''remaining'') (VInt 0) \<and> dget r ''refillAmount'' = VNone)"

lemma key_expired_False:
  "key_expired ev r = Inr False \<longleftrightarrow>
   (case dget r ''expiresAt'' of VDate t \<Rightarrow> now ev \<le> t | v \<Rightarrow> \<not> py_truthy v)"
  by (auto simp: key_expired_def Let_def not_less split: pyval.splits)

lemma check_permissions_ok:
  "check_permissions kl r permissions = Inr () \<longleftrightarrow>
   (permissions \<noteq> [] \<longrightarrow>
      (\<exists>p. parse_permissions kl (dget r ''permissions'') = p \<and> py_truthy p \<and> is_valid_role_permission p \<and>
           authorize (table_of p) permissions ConnAnd = Inr Success))"
  by (auto simp: check_permissions_def Let_def bindR_Inr_iff split: if_splits)

lemma delete_key_row_Inl: "delete_key_row r e st \<noteq> (Inr a, st')"
  by (auto simp: delete_key_row_def bindA_def split: prod.splits sum.splits)

lemma admit_key_Inr:
  assumes "admit_key kl ev rounds kc permissions r st = (Inr a, st')"
  shows "admissible_key kl ev permissions r" "claim_usage (kl_ad kl) ev rounds kc r st = (Inr a, st')"
proof -
  have enabled: "dget r ''enabled'' \<noteq> VBool False" using assms by (auto simp: admit_key_def)
  have live: "key_expired ev r = Inr False"
    using assms enabled by (cases "key_expired ev r") (auto simp: admit_key_def delete_key_row_Inl split: if_splits)
  have perms: "check_permissions kl r permissions = Inr ()"
    using assms enabled live by (cases "check_permissions kl r permissions") (auto simp: admit_key_def)
  have left: "\<not> (py_eq (dget r ''remaining'') (VInt 0) \<and> dget r ''refillAmount'' = VNone)"
    using assms enabled live perms by (auto simp: admit_key_def delete_key_row_Inl simp del: py_eq_right)
  show "admissible_key kl ev permissions r"
    using enabled live perms left unfolding admissible_key_def key_expired_False check_permissions_ok by blast
  show "claim_usage (kl_ad kl) ev rounds kc r st = (Inr a, st')"
    using assms enabled live perms left by (auto simp: admit_key_def simp del: py_eq_right)
qed

lemma validate_api_key_Inr:
  assumes "native (kl_ad kl)"
    and "validate_api_key kl kp ev rounds rq key lookup permissions expected run_validator st = (Inr (Some (r', kc)), st')"
  obtains r where "key_with_hash st (hash_key kl lookup key) = Some r" "admissible_key kl ev permissions r"
    "expected = VNone \<or> config_id_matches (dget r ''configId'') expected"
    "resolve_config kp (dget r ''configId'') = Inr kc"
    "run_validator \<longrightarrow> (case kc_validator kc of Some f \<Rightarrow> f rq key | None \<Rightarrow> True)"
    "claim_usage (kl_ad kl) ev rounds kc r st = (Inr (Some r'), st')"
proof -
  have find: "bindA (mem_find_one (kl_ad kl) ''apikey'' [Where ''key'' (VStr (hash_key kl lookup key))] []) f st =
      f (key_with_hash st (hash_key kl lookup key)) st" for f :: "row option \<Rightarrow> (store, (row \<times> key_config) option) action"
    using find_by_key[OF assms(1)] by (simp add: bindA_def key_with_hash_def)
  from assms(2) obtain r where r: "key_with_hash st (hash_key kl lookup key) = Some r"
    by (cases "key_with_hash st (hash_key kl lookup key)") (auto simp: validate_api_key_def find)
  with assms(2) have matches: "expected = VNone \<or> config_id_matches (dget r ''configId'') expected"
    by (auto simp: validate_api_key_def find split: if_splits)
  with assms(2) r obtain kc' where kc: "resolve_config kp (dget r ''configId'') = Inr kc'"
    by (cases "resolve_config kp (dget r ''configId'')") (auto simp: validate_api_key_def find)
  with assms(2) r matches have v: "\<not> (run_validator \<and> (case kc_validator kc' of Some f \<Rightarrow> \<not> f rq key | None \<Rightarrow> False))"
    by (auto simp: validate_api_key_def find split: if_splits)
  with assms(2) r matches kc have
    "bindA (admit_key kl ev rounds kc' permissions r) (\<lambda>admitted. ret (map_option (\<lambda>r. (r, kc')) admitted)) st =
      (Inr (Some (r', kc)), st')"
    by (auto simp: validate_api_key_def find split: if_splits)
  then obtain a st1 where a: "admit_key kl ev rounds kc' permissions r st = (Inr a, st1)"
    "map_option (\<lambda>r. (r, kc')) a = Some (r', kc)" "st1 = st'"
    by (auto elim: bindA_InrE)
  then have "a = Some r'" "kc' = kc" by auto
  with that[OF r] matches kc v admit_key_Inr[OF a(1)] a(3) show thesis by (auto split: option.splits)
qed

text \<open>
  C25: A verification that succeeds used an admissible key. When \<open>verify_api_key\<close> answers valid, the store
  held a row with the hash of the presented key that was enabled, not expired and not used up, in the
  scope of the configuration asked for; its configuration's own validator accepted the key, and every
  permission asked for is granted by the permissions stored with the key.
\<close>
theorem verified_key_admissible:
  assumes "native (kl_ad kl)"
    and "verify_api_key kl kp ev rounds rq key config_id permissions st = (Inr (Some answer), st')"
    and "dget answer ''valid'' = VBool True"
  shows "\<exists>lookup r kc. resolve_config kp config_id = Inr lookup \<and>
    key_with_hash st (hash_key kl lookup key) = Some r \<and> admissible_key kl ev permissions r \<and>
    (config_id = VNone \<or> config_id_matches (dget r ''configId'') config_id) \<and>
    resolve_config kp (dget r ''configId'') = Inr kc \<and>
    (case kc_validator (if config_id = VNone then kc else lookup) of Some f \<Rightarrow> f rq key | None \<Rightarrow> True)"
proof -
  from assms(2) obtain lookup where lookup: "resolve_config kp config_id = Inr lookup"
    by (cases "resolve_config kp config_id") (auto simp: verify_api_key_def)
  have invalid: "dget (rejection e) ''valid'' = VBool False" for e by (simp add: rejection_def dget_Cons)
  let ?lookup_ok = "config_id = VNone \<or> (case kc_validator lookup of Some f \<Rightarrow> f rq key | None \<Rightarrow> True)"
  let ?run = "validate_api_key kl kp ev rounds rq key lookup permissions config_id (config_id = VNone) st"
  have lookup_ok: ?lookup_ok
    using assms(2,3) lookup invalid by (auto simp: verify_api_key_def split: option.splits if_splits)
  obtain res st1 where run: "?run = (res, st1)" by (cases ?run)
  have "\<exists>r' kc. res = Inr (Some (r', kc))"
    using assms(2,3) lookup lookup_ok run invalid
    by (auto simp: verify_api_key_def catchA_def bindA_def split: option.splits if_splits sum.splits exn.splits prod.splits)
  then obtain r' kc where "?run = (Inr (Some (r', kc)), st1)" using run by blast
  then obtain r where "key_with_hash st (hash_key kl lookup key) = Some r" "admissible_key kl ev permissions r"
    "config_id = VNone \<or> config_id_matches (dget r ''configId'') config_id"
    "resolve_config kp (dget r ''configId'') = Inr kc"
    "config_id = VNone \<longrightarrow> (case kc_validator kc of Some f \<Rightarrow> f rq key | None \<Rightarrow> True)"
    by (rule validate_api_key_Inr[OF assms(1)])
  with lookup lookup_ok show ?thesis by (intro exI[of _ lookup] exI[of _ r] exI[of _ kc]) auto
qed

section \<open>Refusals\<close>

definition refusal :: "string \<Rightarrow> row" where
  "refusal code =
     rejection [(''message'', VStr (case map_of API_KEY_ERROR_CODES code of Some m \<Rightarrow> m | None \<Rightarrow> [])),
                (''code'', VStr code)]"

text \<open>The store holds one row for the key, in the scope asked for, and no custom validator interferes.\<close>

definition key_found :: "key_lib \<Rightarrow> key_plugin \<Rightarrow> string \<Rightarrow> pyval \<Rightarrow> store \<Rightarrow> row \<Rightarrow> key_config \<Rightarrow> bool" where
  "key_found kl kp key config_id st r kc \<longleftrightarrow>
     native (kl_ad kl) \<and>
     (case resolve_config kp config_id of
        Inr lookup \<Rightarrow> kc_validator lookup = None \<and>
          (\<exists>i. filter (\<lambda>q. dget q ''key'' = VStr (hash_key kl lookup key)) (rows_of st ''apikey'') = [r] \<and>
               filter (\<lambda>q. dget q ''id'' = VStr i) (rows_of st ''apikey'') = [r])
      | Inl _ \<Rightarrow> False) \<and>
     (config_id = VNone \<or> config_id_matches (dget r ''configId'') config_id) \<and>
     resolve_config kp (dget r ''configId'') = Inr kc \<and> kc_validator kc = None"

lemma find_filter_single: "filter P xs = [x] \<Longrightarrow> List.find P xs = Some x"
  by (induction xs) (auto split: if_splits)

lemma drop_first_single: "filter P xs = [x] \<Longrightarrow> drop_first P xs = filter (\<lambda>y. \<not> P y) xs"
proof (induction xs)
  case (Cons y ys)
  then show ?case by (cases "P y") (auto simp: filter_empty_conv filter_id_conv)
qed simp

lemma verify_raises:
  assumes found: "key_found kl kp key config_id st r kc"
    and raised: "admit_key kl ev rounds kc permissions r st = (Inl (key_error status code), st')"
  shows "verify_api_key kl kp ev rounds rq key config_id permissions st = (Inr (Some (refusal code)), st')"
proof -
  from found obtain lookup where l: "resolve_config kp config_id = Inr lookup" "kc_validator lookup = None"
    "key_with_hash st (hash_key kl lookup key) = Some r" "native (kl_ad kl)"
    by (auto simp: key_found_def key_with_hash_def find_filter_single split: sum.splits)
  have find: "bindA (mem_find_one (kl_ad kl) ''apikey'' [Where ''key'' (VStr (hash_key kl lookup key))] []) f st =
      f (Some r) st" for f :: "row option \<Rightarrow> (store, (row \<times> key_config) option) action"
    using find_by_key[OF l(4)] l(3) by (simp add: bindA_def key_with_hash_def)
  have "validate_api_key kl kp ev rounds rq key lookup permissions config_id (config_id = VNone) st =
      (Inl (key_error status code), st')"
    using found raised unfolding validate_api_key_def find
    by (auto simp: key_found_def bindA_def)
  then show ?thesis
    using l(1,2)
    by (auto simp: verify_api_key_def catchA_def bindA_def key_error_def refusal_def dset_Cons)
qed

lemma verify_unknown:
  assumes "native (kl_ad kl)" "resolve_config kp config_id = Inr lookup" "kc_validator lookup = None"
    and "key_with_hash st (hash_key kl lookup key) = None"
  shows "verify_api_key kl kp ev rounds rq key config_id permissions st =
    (Inr (Some (refusal ''INVALID_API_KEY'')), st)"
proof -
  have "validate_api_key kl kp ev rounds rq key lookup permissions config_id (config_id = VNone) st =
      (Inl invalid_key, st)"
    using find_by_key[OF assms(1)] assms(4) by (simp add: validate_api_key_def bindA_def key_with_hash_def)
  then show ?thesis
    using assms(2,3)
    by (auto simp: verify_api_key_def catchA_def bindA_def invalid_key_def key_error_def refusal_def dset_Cons)
qed

text \<open>Deleting the row of a found key removes every row with its hash.\<close>

lemma delete_found:
  assumes "key_found kl kp key config_id st r kc"
  obtains st' where "delete_key_row r e st = (Inl e, st')"
    "rows_of st' ''apikey'' = filter (\<lambda>q. dget q ''id'' \<noteq> dget r ''id'') (rows_of st ''apikey'')"
    "\<forall>lookup. resolve_config kp config_id = Inr lookup \<longrightarrow> key_with_hash st' (hash_key kl lookup key) = None"
proof -
  let ?rs = "rows_of st ''apikey''"
  obtain lookup i where l: "resolve_config kp config_id = Inr lookup"
      "filter (\<lambda>q. dget q ''key'' = VStr (hash_key kl lookup key)) ?rs = [r]"
      and i: "filter (\<lambda>q. dget q ''id'' = VStr i) ?rs = [r]"
    using assms by (auto simp: key_found_def split: sum.splits)
  have r: "dget r ''id'' = VStr i" "r \<in> set ?rs"
    using filter_eq_ConsD[OF i] by auto
  have "sel [Where ''id'' (VStr i)] = (\<lambda>q. dget q ''id'' = VStr i)" by (rule ext) simp
  then have "delete_key_row r e st = (Inl e, set_rows ''apikey'' (filter (\<lambda>q. dget q ''id'' \<noteq> VStr i) ?rs) st)"
    using dindex_dget[OF r(1)] drop_first_single[OF i]
    by (simp add: delete_key_row_def bindA_def mem_delete_safe)
  moreover have "List.find (\<lambda>q. dget q ''key'' = VStr (hash_key kl lookup key))
      (filter (\<lambda>q. dget q ''id'' \<noteq> VStr i) ?rs) = None"
  proof -
    have "q = r" if "q \<in> set ?rs" "dget q ''key'' = VStr (hash_key kl lookup key)" for q
    proof -
      have "q \<in> set (filter (\<lambda>q. dget q ''key'' = VStr (hash_key kl lookup key)) ?rs)" using that by simp
      then show ?thesis unfolding l(2) by simp
    qed
    then show ?thesis using r(1) by (auto simp: find_None_all)
  qed
  ultimately show thesis
    using that[of "set_rows ''apikey'' (filter (\<lambda>q. dget q ''id'' \<noteq> VStr i) ?rs) st"] l(1) r(1)
    by (simp add: key_with_hash_def)
qed

text \<open>
  What a refused key leaves behind. A disabled key is answered \<open>KEY_DISABLED\<close> and the store is left
  as it is. A key that has expired, or whose uses are up without a refill, is answered \<open>KEY_EXPIRED\<close>
  or \<open>USAGE_EXCEEDED\<close> and its row, and no other, is deleted; from then on it is answered
  \<open>INVALID_API_KEY\<close> at any time and for any permissions, and nothing more is written.
\<close>
theorem refused_key:
  assumes found: "key_found kl kp key config_id st r kc"
  shows "(dget r ''enabled'' = VBool False \<longrightarrow>
      verify_api_key kl kp ev rounds rq key config_id permissions st = (Inr (Some (refusal ''KEY_DISABLED'')), st)) \<and>
    (dget r ''enabled'' \<noteq> VBool False \<and>
      (key_expired ev r = Inr True \<or>
       key_expired ev r = Inr False \<and> check_permissions kl r permissions = Inr () \<and>
         dget r ''remaining'' = VInt 0 \<and> dget r ''refillAmount'' = VNone) \<longrightarrow>
      (\<exists>st'. verify_api_key kl kp ev rounds rq key config_id permissions st =
          (Inr (Some (refusal (if key_expired ev r = Inr True then ''KEY_EXPIRED'' else ''USAGE_EXCEEDED''))), st') \<and>
        rows_of st' ''apikey'' = filter (\<lambda>q. dget q ''id'' \<noteq> dget r ''id'') (rows_of st ''apikey'') \<and>
        (\<forall>ev' rounds' permissions'. verify_api_key kl kp ev' rounds' rq key config_id permissions' st' =
          (Inr (Some (refusal ''INVALID_API_KEY'')), st'))))"
proof (intro conjI impI)
  assume "dget r ''enabled'' = VBool False"
  then have "admit_key kl ev rounds kc permissions r st = (Inl (key_error 401 ''KEY_DISABLED''), st)"
    by (simp add: admit_key_def)
  from verify_raises[OF found this]
  show "verify_api_key kl kp ev rounds rq key config_id permissions st = (Inr (Some (refusal ''KEY_DISABLED'')), st)" .
next
  assume gone: "dget r ''enabled'' \<noteq> VBool False \<and>
      (key_expired ev r = Inr True \<or>
       key_expired ev r = Inr False \<and> check_permissions kl r permissions = Inr () \<and>
         dget r ''remaining'' = VInt 0 \<and> dget r ''refillAmount'' = VNone)"
  define status code where "status = (if key_expired ev r = Inr True then 401 else 429 :: int)"
    and "code = (if key_expired ev r = Inr True then ''KEY_EXPIRED'' else ''USAGE_EXCEEDED'')"
  obtain st' where st': "(delete_key_row r (key_error status code) :: (store, row option) action) st =
      (Inl (key_error status code), st')"
    "rows_of st' ''apikey'' = filter (\<lambda>q. dget q ''id'' \<noteq> dget r ''id'') (rows_of st ''apikey'')"
    "\<forall>lookup. resolve_config kp config_id = Inr lookup \<longrightarrow> key_with_hash st' (hash_key kl lookup key) = None"
    by (rule delete_found[OF found, of "key_error status code"])
  have "admit_key kl ev rounds kc permissions r st = delete_key_row r (key_error status code) st"
    using gone by (auto simp: admit_key_def status_def code_def)
  then have first: "verify_api_key kl kp ev rounds rq key config_id permissions st = (Inr (Some (refusal code)), st')"
    using verify_raises[OF found] st'(1) by simp
  obtain lookup where l: "native (kl_ad kl)" "resolve_config kp config_id = Inr lookup" "kc_validator lookup = None"
    using found by (auto simp: key_found_def split: sum.splits)
  have "verify_api_key kl kp ev' rounds' rq key config_id permissions' st' = (Inr (Some (refusal ''INVALID_API_KEY'')), st')"
    for ev' rounds' permissions' using verify_unknown[OF l] st'(3) l(2) by simp
  with first st'(2) show "\<exists>st'. verify_api_key kl kp ev rounds rq key config_id permissions st =
      (Inr (Some (refusal (if key_expired ev r = Inr True then ''KEY_EXPIRED'' else ''USAGE_EXCEEDED''))), st') \<and>
    rows_of st' ''apikey'' = filter (\<lambda>q. dget q ''id'' \<noteq> dget r ''id'') (rows_of st ''apikey'') \<and>
    (\<forall>ev' rounds' permissions'. verify_api_key kl kp ev' rounds' rq key config_id permissions' st' =
      (Inr (Some (refusal ''INVALID_API_KEY'')), st'))"
    unfolding code_def by blast
qed

end
