(* ===== verification/ApiKey_Mint.thy ===== *)
theory ApiKey_Mint
  imports ApiKey_Verify
begin

text \<open>
  A minted key verifies; what deleting a key can remove from the table.
\<close>

section \<open>Minting\<close>

lemma transform_fields_create_same:
  assumes "\<And>k f. (k, f) \<in> set fs \<Longrightarrow>
    (case map_of out k of
       None \<Rightarrow> \<not> has_default f
     | Some v \<Rightarrow> (v = VNone \<longrightarrow> \<not> (f_required f \<and> has_default f)) \<and> f_transform_input f = None)"
  shows "transform_fields ev cd all_caps ''create'' fs out = Inr out"
  using assms
proof (induction fs)
  case (Cons x fs)
  obtain k f where x: "x = (k, f)" by (cases x)
  have IH: "transform_fields ev cd all_caps ''create'' fs out = Inr out" using Cons by auto
  have "map_of out k = Some v \<Longrightarrow> dset k v out = out" for v by (simp add: dset_def update_triv)
  then show ?case using IH Cons.prems[of k f] by (auto simp: x Let_def split: option.splits)
qed simp

lemma key_update_some:
  assumes st: "key_store ad st" "key_at st i = Some r" and data: "map_of data ''metadata'' = None"
  shows "mem_update ad ev ''apikey'' [Where ''id'' (VStr i)] data st =
    (Inr (Some (dmerge r data)), put_key i (\<lambda>q. dmerge q data) st)"
proof -
  have sel: "sel [Where ''id'' (VStr i)] = (\<lambda>q. dget q ''id'' = VStr i)" by (rule ext) simp
  have "native ad" using st(1) by (simp add: key_store_def)
  from mem_update_ok[OF this, where wh = "[Where ''id'' (VStr i)]" and st = st and m = "''apikey''" and ev = ev
      and data = data and d = data] key_update_transform[OF st(1) data, of ev] st(2)
  show ?thesis by (simp add: sel put_key_def key_at_def lookup_id_def)
qed

text \<open>The row a client mints without metadata.\<close>

definition minted :: "key_lib \<Rightarrow> key_config \<Rightarrow> env \<Rightarrow> row \<Rightarrow> pyval \<Rightarrow> string \<Rightarrow> pyval \<Rightarrow> row" where
  "minted kl kc ev d reference_id full_key expires_at =
     new_key_row kl kc ev d reference_id full_key expires_at @ [(''id'', VStr (rnd_id ev))]"

definition full_key_of :: "key_lib \<Rightarrow> key_config \<Rightarrow> row \<Rightarrow> string \<Rightarrow> string" where
  "full_key_of kl kc d random = generate_key kl kc (py_or (dget d ''prefix'') (opt_str (kc_prefix kc))) random"

definition key_table :: "adapter \<Rightarrow> bool" where
  "key_table ad \<longleftrightarrow>
     ad_generate_id ad = GenDefault \<and>
     (\<exists>js m w. map_of (ad_schema ad) ''apikey'' = Some (fields_of (build_schema js m w) ''apikey''))"

text \<open>Every column of the table but \<open>metadata\<close> is given a value, and a required one is not null.\<close>

lemma minted_columns:
  assumes "\<not> given d ''metadata''"
  shows "list_all (\<lambda>(k, f). case map_of (minted kl kc ev d reference_id full_key expires_at) k of
       None \<Rightarrow> \<not> has_default f
     | Some v \<Rightarrow> (v = VNone \<longrightarrow> \<not> (f_required f \<and> has_default f)) \<and> f_transform_input f = None)
    (fields_of (build_schema js m w) ''apikey'')"
  using assms
  by (simp add: fields_of_def build_schema_def minted_def new_key_row_def needed_field_def optional_field_def
      mk_field_def has_default_def)

lemma mint_stores:
  assumes st: "native (kl_ad kl)" and table: "key_table (kl_ad kl)"
    and d: "\<not> given d ''metadata''" and e: "new_expiry kc ev d = Inr expires_at" and reference: "reference_id \<noteq> VNone"
  shows "mint_key kl kc ev d reference_id random st =
    (Inr (dset ''permissions'' (parse_permissions kl (new_permissions kl kc d reference_id))
       (dset ''metadata'' VNone (dset ''key'' (VStr (full_key_of kl kc d random))
         (minted kl kc ev d reference_id (full_key_of kl kc d random) expires_at)))),
     set_rows ''apikey''
       (rows_of st ''apikey'' @ [minted kl kc ev d reference_id (full_key_of kl kc d random) expires_at]) st)"
proof -
  let ?full = "full_key_of kl kc d random"
  let ?row = "new_key_row kl kc ev d reference_id ?full expires_at"
  let ?new = "minted kl kc ev d reference_id ?full expires_at"
  obtain js m w where fs: "map_of (ad_schema (kl_ad kl)) ''apikey'' = Some (fields_of (build_schema js m w) ''apikey'')"
    using table by (auto simp: key_table_def)
  have id: "dset ''id'' (VStr (rnd_id ev)) ?row = ?new" "\<not> has_key ?row ''id''"
    using d by (simp_all add: new_key_row_def minted_def dset_Cons has_key_def)
  have "transform_fields ev (ad_codec (kl_ad kl)) all_caps ''create'' (fields_of (build_schema js m w) ''apikey'') ?new = Inr ?new"
    by (rule transform_fields_create_same)
      (drule minted_columns[OF d, unfolded list_all_iff, THEN bspec], simp only: prod.case)
  then have "transform_input (kl_ad kl) ev ''apikey'' ?row ''create'' = Inr ?new"
    using st table id fs by (simp add: transform_input_def native_def key_table_def resolve_generated_id_def)
  then have create: "mem_create (kl_ad kl) ev ''apikey'' ?row [] st = (Inr ?new, set_rows ''apikey'' (rows_of st ''apikey'' @ [?new]) st)"
    by (rule mem_create_ok[OF st])
  have p: "dget ?new ''permissions'' = new_permissions kl kc d reference_id" "dget d ''metadata'' = VNone"
    using d by (simp_all add: minted_def new_key_row_def dget_Cons given_def)
  show ?thesis
    unfolding mint_key_def Let_def full_key_of_def[symmetric] e
    by (simp add: bindA_def create p)
qed

text \<open>The columns of a key minted by a client that a verification reads.\<close>

lemma minted_values:
  fixes kl kc ev d reference_id full_key expires_at
  defines "r \<equiv> minted kl kc ev d reference_id full_key expires_at"
  assumes "\<not> given d ''metadata''" "\<not> uses_server_only d"
  shows "dget r ''id'' = VStr (rnd_id ev)" "dget r ''key'' = VStr (hash_key kl kc full_key)"
    "dget r ''enabled'' = VBool True" "dget r ''expiresAt'' = expires_at" "dget r ''remaining'' = VNone"
    "dget r ''referenceId'' = reference_id" "dget r ''lastRequest'' = VNone" "dget r ''lastRefillAt'' = VNone"
    "dget r ''requestCount'' = VInt 0" "dget r ''rateLimitMax'' = VInt (kc_rate_max kc)"
    "dget r ''rateLimitTimeWindow'' = VInt (kc_rate_window kc)"
    "dget r ''rateLimitEnabled'' = VBool (kc_rate_enabled kc)"
    "dget r ''configId'' = VStr (case kc_config_id kc of Some c \<Rightarrow> if c \<noteq> [] then c else ''default'' | None \<Rightarrow> ''default'')"
proof -
  have "dget d ''remaining'' = VNone" using assms(3) by (simp add: uses_server_only_def given_def)
  moreover have "if_given d k v = v" if "k \<in> {''rateLimitMax'', ''rateLimitTimeWindow'', ''rateLimitEnabled''}" for k v
    using assms(3) that by (auto simp: uses_server_only_def if_given_def)
  ultimately show "dget r ''id'' = VStr (rnd_id ev)" "dget r ''key'' = VStr (hash_key kl kc full_key)"
    "dget r ''enabled'' = VBool True" "dget r ''expiresAt'' = expires_at" "dget r ''remaining'' = VNone"
    "dget r ''referenceId'' = reference_id" "dget r ''lastRequest'' = VNone" "dget r ''lastRefillAt'' = VNone"
    "dget r ''requestCount'' = VInt 0" "dget r ''rateLimitMax'' = VInt (kc_rate_max kc)"
    "dget r ''rateLimitTimeWindow'' = VInt (kc_rate_window kc)"
    "dget r ''rateLimitEnabled'' = VBool (kc_rate_enabled kc)"
    "dget r ''configId'' = VStr (case kc_config_id kc of Some c \<Rightarrow> if c \<noteq> [] then c else ''default'' | None \<Rightarrow> ''default'')"
    using assms(2) by (simp_all add: r_def minted_def new_key_row_def dget_Cons)
qed

text \<open>A claim on a key that was never used is granted in its first round.\<close>

lemma first_claim:
  assumes st: "key_store ad st" "key_at st i = Some r"
    and r: "dget r ''remaining'' = VNone" "dget r ''lastRequest'' = VNone" "dget r ''rateLimitTimeWindow'' = VInt w"
      "dget r ''rateLimitMax'' = VInt m" "dget r ''rateLimitEnabled'' = VBool (kc_rate_enabled kc)"
      "dget r ''requestCount'' = VInt 0"
  obtains f st' where "claim_usage ad ev (t # rounds) kc r st = (Inr (Some f), st')"
proof -
  have id: "dget r ''id'' = VStr i" using key_at_typed[OF st] by simp
  obtain r1 st1 where r1: "consume_rate_limit ad ev kc (t # rounds) r st = (Inr (Some r1), st1)"
    "key_store ad st1" "key_at st1 i = Some r1"
  proof (cases "kc_rate_enabled kc")
    case True
    have terms: "rate_terms i w m r"
      using r id True by (simp add: rate_terms_def none_or_def is_int_def)
    have "last_claim r = None" using r(2) by (simp add: last_claim_def)
    show thesis
    proof (rule rate_round[OF st terms True, of ev t rounds])
      fix r' st' assume "consume_rate_limit ad ev kc (t # rounds) r st = (Inr (Some r'), st')"
        "key_store ad st'" "key_at st' i = Some r'"
      then show thesis by (rule that)
    qed (use \<open>last_claim r = None\<close> in simp_all)
  next
    case False
    have "evaluate_rate_limit kc t r = Inr (decision.Skip (Some t))" using False by (simp add: evaluate_rate_limit_def Let_def)
    moreover have "mem_update ad (at_time_of ev t) ''apikey'' [Where ''id'' (VStr i)] [(''lastRequest'', VDate t)] st =
      (Inr (Some (dset ''lastRequest'' (VDate t) r)), put_key i (\<lambda>q. dset ''lastRequest'' (VDate t) q) st)"
      using key_update_some[OF st, of "[(''lastRequest'', VDate t)]"] by simp
    moreover have "dset ''lastRequest'' (VDate t) r \<noteq> []"
      using dget_dset[of "''lastRequest''" "VDate t" r "''lastRequest''"] by (metis dget_Nil pyval.distinct(7))
    ultimately have "consume_rate_limit ad ev kc (t # rounds) r st =
        (Inr (Some (dset ''lastRequest'' (VDate t) r)), put_key i (\<lambda>q. dset ''lastRequest'' (VDate t) q) st)"
      using dindex_dget[OF id] by (simp add: bindA_def)
    moreover have typed: "key_typed (dset ''lastRequest'' (VDate t) r)"
      using key_at_typed[OF st] by (simp add: key_typed_def none_or_def is_date_def is_str_def)
    ultimately show thesis
      using that key_store_put[OF st, of "\<lambda>q. dset ''lastRequest'' (VDate t) q"]
        key_at_put[of "\<lambda>q. dset ''lastRequest'' (VDate t) q" i st i] st(2) by simp
  qed
  have id1: "dget r1 ''id'' = VStr i" using key_at_typed[OF r1(2,3)] by simp
  have "claim_usage ad ev (t # rounds) kc r st =
      (Inr (Some (dmerge r1 [(''updatedAt'', VDate (now ev))])), put_key i (\<lambda>q. dmerge q [(''updatedAt'', VDate (now ev))]) st1)"
    using r(1) r1(1) dindex_dget[OF id1] key_update_some[OF r1(2,3), of "[(''updatedAt'', VDate (now ev))]" ev]
    by (simp add: claim_usage_def bindA_def del: consume_rate_limit.simps)
  then show thesis by (rule that)
qed

lemma key_foundI:
  assumes "native (kl_ad kl)" "resolve_config kp config_id = Inr lookup" "kc_validator lookup = None"
    and "filter (\<lambda>q. dget q ''key'' = VStr (hash_key kl lookup key)) (rows_of st ''apikey'') = [r]"
    and "filter (\<lambda>q. dget q ''id'' = VStr i) (rows_of st ''apikey'') = [r]"
    and "config_id = VNone \<or> config_id_matches (dget r ''configId'') config_id"
    and "resolve_config kp (dget r ''configId'') = Inr kc" "kc_validator kc = None"
  shows "key_found kl kp key config_id st r kc"
  unfolding key_found_def using assms by fastforce

text \<open>A found key that is admitted is answered valid.\<close>

lemma verify_accepts:
  assumes found: "key_found kl kp key config_id st r kc"
    and admitted: "admit_key kl ev rounds kc permissions r st = (Inr (Some f), st')"
  shows "verify_api_key kl kp ev rounds rq key config_id permissions st =
    (Inr (Some [(''valid'', VBool True), (''error'', VNone), (''key'', VDict (strip_key kl f))]), st')"
proof -
  from found obtain lookup where l: "resolve_config kp config_id = Inr lookup" "kc_validator lookup = None"
    "key_with_hash st (hash_key kl lookup key) = Some r" "native (kl_ad kl)"
    by (auto simp: key_found_def key_with_hash_def find_filter_single split: sum.splits)
  have find: "bindA (mem_find_one (kl_ad kl) ''apikey'' [Where ''key'' (VStr (hash_key kl lookup key))] []) g st =
      g (Some r) st" for g :: "row option \<Rightarrow> (store, (row \<times> key_config) option) action"
    using find_by_key[OF l(4)] l(3) by (simp add: bindA_def key_with_hash_def)
  have "validate_api_key kl kp ev rounds rq key lookup permissions config_id (config_id = VNone) st =
      (Inr (Some (f, kc)), st')"
    using found admitted unfolding validate_api_key_def find by (auto simp: key_found_def bindA_def)
  then show ?thesis
    using l(1,2) by (auto simp: verify_api_key_def catchA_def bindA_def)
qed

text \<open>
  C26: A minted key verifies. A key minted by a client under the default configuration - no server-only
  property, no metadata, an id and a hash that are not taken - is stored only as its hash, and the
  key that is returned is answered valid by its first verification at any time up to its expiry,
  owned by the reference it was minted for, whether the rate limit is on or off.
\<close>
theorem minted_key_verifies:
  assumes "key_store (kl_ad kl) st" "key_table (kl_ad kl)"
    and "resolve_config kp VNone = Inr kc" "resolve_config kp (VStr ''default'') = Inr kc" "kc_validator kc = None"
    and "\<not> given d ''metadata''" "\<not> uses_server_only d" "new_expiry kc ev d = Inr expires_at" "is_str reference_id"
    and "key_at st (rnd_id ev) = None" "key_with_hash st (hash_key kl kc (full_key_of kl kc d random)) = None"
    and "expires_at = VNone \<or> (\<exists>x. expires_at = VDate x \<and> now ev' \<le> x)"
  shows "\<exists>r st1 answer st2. mint_key kl kc ev d reference_id random st = (Inr r, st1) \<and>
    dget r ''key'' = VStr (full_key_of kl kc d random) \<and>
    key_at st1 (rnd_id ev) = Some (minted kl kc ev d reference_id (full_key_of kl kc d random) expires_at) \<and>
    dget (minted kl kc ev d reference_id (full_key_of kl kc d random) expires_at) ''key'' =
      VStr (hash_key kl kc (full_key_of kl kc d random)) \<and>
    dget r ''referenceId'' = reference_id \<and>
    verify_api_key kl kp ev' (t # rounds) rq (full_key_of kl kc d random) VNone [] st1 = (Inr (Some answer), st2) \<and>
    dget answer ''valid'' = VBool True"
proof -
  let ?full = "full_key_of kl kc d random"
  let ?r = "minted kl kc ev d reference_id ?full expires_at"
  let ?st1 = "set_rows ''apikey'' (rows_of st ''apikey'' @ [?r]) st"
  note v = minted_values[OF assms(6,7), of kl kc ev reference_id ?full expires_at]
  have native: "native (kl_ad kl)" using assms(1) by (simp add: key_store_def)
  have "reference_id \<noteq> VNone" using assms(9) by (auto simp: is_str_def)
  note mint = mint_stores[OF native assms(2,6,8) this, of random st]
  have at: "key_at ?st1 (rnd_id ev) = Some ?r"
    using assms(10) v(1) by (simp add: key_at_def lookup_id_append) (simp add: lookup_id_def)
  have store: "key_store (kl_ad kl) ?st1"
    using assms(1,10) v
    by (auto simp: key_store_def str_ids_def row_ids_def key_typed_def none_or_def is_str_def is_int_def key_at_def lookup_id_None)
  have found: "key_with_hash ?st1 (hash_key kl kc ?full) = Some ?r"
    using assms(11) v(2) by (simp add: key_with_hash_def find_append)
  obtain f st2 where claim: "claim_usage (kl_ad kl) ev' (t # rounds) kc ?r ?st1 = (Inr (Some f), st2)"
    by (rule first_claim[OF store at v(5,7,11,10,12,9)])
  have live: "key_expired ev' ?r = Inr False" using assms(12) v(4) by (auto simp: key_expired_def Let_def)
  have admit: "admit_key kl ev' (t # rounds) kc [] ?r ?st1 = (Inr (Some f), st2)"
    using live v(3,5) claim by (simp add: admit_key_def check_permissions_def)
  have kc: "kc_config_id kc = Some ''default''"
  proof -
    have "default_config kcs = Inr kc \<Longrightarrow> kc_config_id kc = Some ''default''" for kcs
      by (induction kcs) (auto split: if_splits)
    then show ?thesis using assms(3) by (simp add: resolve_config_def)
  qed
  have rows: "filter (\<lambda>q. dget q ''key'' = VStr (hash_key kl kc ?full)) (rows_of ?st1 ''apikey'') = [?r]"
    "filter (\<lambda>q. dget q ''id'' = VStr (rnd_id ev)) (rows_of ?st1 ''apikey'') = [?r]"
    using assms(10,11) v(1,2) by (auto simp: key_at_def lookup_id_None key_with_hash_def find_None_all filter_empty_conv)
  have "key_found kl kp ?full VNone ?st1 ?r kc"
    by (rule key_foundI[OF native assms(3,5) rows]) (use v(13) kc assms(4,5) in simp_all)
  note verify_accepts[OF this admit, of rq]
  moreover have "dget [(''valid'', VBool True), (''error'', VNone), (''key'', VDict (strip_key kl f))] ''valid'' = VBool True"
    by (simp add: dget_Cons)
  ultimately show ?thesis
    using mint at v(2,6)
    by (intro exI conjI) (assumption | simp)+
qed

section \<open>Instances\<close>

text \<open>One default configuration; the hash of a key is its character codes.\<close>

definition demo_kl :: key_lib where
  "demo_kl = \<lparr>kl_ad = key_ad, kl_sha256 = (\<lambda>s. map of_char s), kl_dumps = (\<lambda>_. ''{}''), kl_loads = (\<lambda>_. None),
     kl_format = (\<lambda>_. []), kl_str = (\<lambda>_. [])\<rparr>"

definition demo_kp :: key_plugin where
  "demo_kp = \<lparr>kp_configs = [plain_key_config], kp_schema = build_schema (\<lambda>_. ''{}'') 10 DAY_MS\<rparr>"

definition no_request :: request where
  "no_request = \<lparr>rq_method = ''GET'', rq_path = ''/get-session'', rq_headers = [], rq_query = [], rq_cookies = [],
     rq_client_ip = None, rq_url = None\<rparr>"

definition default_kc :: key_config where
  "default_kc = plain_key_config\<lparr>kc_config_id := Some ''default''\<rparr>"

lemma demo_resolve:
  "resolve_config demo_kp VNone = Inr default_kc" "resolve_config demo_kp (VStr ''default'') = Inr default_kc"
  by (simp_all add: resolve_config_def demo_kp_def default_kc_def plain_key_config_def plain_raw_def normalize_config_def
      or_default_def is_default_config_id_def opt_str_def)

lemma default_kc_validator: "kc_validator default_kc = None"
  by (simp add: default_kc_def plain_key_config_def plain_raw_def normalize_config_def or_default_def)

theorem minted_key_verifies_witness:
  "\<exists>r st1 answer st2. mint_key demo_kl default_kc key_env_0 [] (VStr ''u1'') ''abc'' [(''apikey'', [])] = (Inr r, st1) \<and>
    verify_api_key demo_kl demo_kp key_env_0 [7] no_request (full_key_of demo_kl default_kc [] ''abc'') VNone [] st1 =
      (Inr (Some answer), st2) \<and> dget answer ''valid'' = VBool True"
proof -
  have "key_store (kl_ad demo_kl) [(''apikey'', [])]"
  proof -
    have "plain_updates (fields_of (ad_schema key_ad) ''apikey'')" by (simp add: key_ad_def build_schema_plain)
    then show ?thesis
      by (simp add: key_store_def demo_kl_def native_def key_ad_def fields_of_def rows_of_def str_ids_def row_ids_def build_schema_def)
  qed
  moreover have "key_table (kl_ad demo_kl)"
  proof -
    have "map_of (ad_schema key_ad) ''apikey'' = Some (fields_of (build_schema (\<lambda>_. ''{}'') 10 1000) ''apikey'')"
      by (simp add: key_ad_def fields_of_def build_schema_def)
    moreover have "ad_generate_id key_ad = GenDefault" by (simp add: key_ad_def)
    ultimately show ?thesis unfolding key_table_def demo_kl_def by auto
  qed
  moreover have "\<not> given [] ''metadata''" "\<not> uses_server_only []" by (simp_all add: given_def uses_server_only_def)
  moreover have "new_expiry default_kc key_env_0 [] = Inr VNone"
    by (simp add: new_expiry_def default_kc_def plain_key_config_def plain_raw_def normalize_config_def or_default_def Let_def)
  moreover have "key_at [(''apikey'', [])] (rnd_id key_env_0) = None"
    "key_with_hash [(''apikey'', [])] (hash_key demo_kl default_kc (full_key_of demo_kl default_kc [] ''abc'')) = None"
    by (simp_all add: key_at_def lookup_id_def key_with_hash_def rows_of_def)
  moreover have "is_str (VStr ''u1'')" by (simp add: is_str_def)
  ultimately show ?thesis
    using minted_key_verifies[of demo_kl "[(''apikey'', [])]" demo_kp default_kc "[]" key_env_0 VNone "VStr ''u1''" "''abc''"
        key_env_0 7 "[]" no_request] demo_resolve default_kc_validator
    by blast
qed

text \<open>A stored key that expires at 5, with the hash of the one-letter key.\<close>

definition expiring_key :: row where
  "expiring_key = [(''id'', VStr ''k''), (''key'', VStr (hash_key demo_kl default_kc ''a'')), (''enabled'', VBool True),
     (''configId'', VStr ''default''), (''expiresAt'', VDate 5), (''referenceId'', VStr ''u1''), (''requestCount'', VInt 0),
     (''rateLimitEnabled'', VBool True), (''rateLimitTimeWindow'', VInt 1000), (''rateLimitMax'', VInt 2)]"

lemma key_row_shape: "key_found demo_kl demo_kp ''a'' VNone [(''apikey'', [expiring_key])] expiring_key default_kc"
  by (simp add: key_found_def native_def demo_kl_def key_ad_def demo_resolve default_kc_validator rows_of_def)
    (simp add: expiring_key_def dget_Cons demo_resolve demo_kl_def key_ad_def)

theorem verified_key_admissible_witness:
  "\<exists>answer st'. verify_api_key demo_kl demo_kp key_env_0 [0] no_request ''a'' VNone [] [(''apikey'', [expiring_key])] =
      (Inr (Some answer), st') \<and> dget answer ''valid'' = VBool True \<and>
    admissible_key demo_kl key_env_0 [] expiring_key"
proof -
  let ?out = "verify_api_key demo_kl demo_kp key_env_0 [0] no_request ''a'' VNone [] [(''apikey'', [expiring_key])]"
  have "plain_updates (fields_of (ad_schema key_ad) ''apikey'')" by (simp add: key_ad_def build_schema_plain)
  then have store: "key_store (kl_ad demo_kl) [(''apikey'', [expiring_key])]"
    by (simp add: key_store_def demo_kl_def native_def key_ad_def fields_of_def rows_of_def expiring_key_def str_ids_def
        row_ids_def key_typed_def is_str_def is_int_def none_or_def dget_Cons build_schema_def)
  have at: "key_at [(''apikey'', [expiring_key])] ''k'' = Some expiring_key"
    by (simp add: key_at_def lookup_id_def rows_of_def expiring_key_def dget_Cons)
  have enabled: "kc_rate_enabled default_kc" by (simp add: default_kc_def plain_rate_enabled)
  obtain f st' where "claim_usage (kl_ad demo_kl) key_env_0 [0] default_kc expiring_key [(''apikey'', [expiring_key])] = (Inr (Some f), st')"
    by (rule first_claim[OF store at, of 1000 2 default_kc key_env_0 0 "[]"])
      (simp_all add: expiring_key_def dget_Cons enabled)
  then have "admit_key demo_kl key_env_0 [0] default_kc [] expiring_key [(''apikey'', [expiring_key])] = (Inr (Some f), st')"
    by (simp add: admit_key_def key_expired_def expiring_key_def dget_Cons key_env_0_def check_permissions_def Let_def)
  from verify_accepts[OF key_row_shape this, of no_request]
  obtain answer where a: "?out = (Inr (Some answer), st')" "dget answer ''valid'' = VBool True"
    by (simp add: dget_Cons)
  have n: "native (kl_ad demo_kl)" by (simp add: native_def demo_kl_def key_ad_def)
  obtain lookup r where "resolve_config demo_kp VNone = Inr lookup"
    "key_with_hash [(''apikey'', [expiring_key])] (hash_key demo_kl lookup ''a'') = Some r" "admissible_key demo_kl key_env_0 [] r"
    using verified_key_admissible[OF n a] by blast
  then have "admissible_key demo_kl key_env_0 [] expiring_key"
    by (auto simp: key_with_hash_def rows_of_def split: if_splits)
  with a show ?thesis by blast
qed

theorem refused_key_witness:
  "\<exists>st'. verify_api_key demo_kl demo_kp (key_env_0\<lparr>now := 6\<rparr>) [6] no_request ''a'' VNone [] [(''apikey'', [expiring_key])] =
      (Inr (Some (refusal ''KEY_EXPIRED'')), st') \<and> rows_of st' ''apikey'' = []"
proof -
  have "key_expired (key_env_0\<lparr>now := 6\<rparr>) expiring_key = Inr True"
    by (simp add: key_expired_def expiring_key_def dget_Cons key_env_0_def Let_def)
  moreover have "dget expiring_key ''enabled'' \<noteq> VBool False" by (simp add: expiring_key_def dget_Cons)
  ultimately show ?thesis
    using refused_key[OF key_row_shape, of "key_env_0\<lparr>now := 6\<rparr>" "[6]" no_request "[]"]
    by (auto simp: rows_of_def)
qed

end
