(* ===== verification/ApiKey_Owner.thy ===== *)
theory ApiKey_Owner
  imports ApiKey_Mint
begin

text \<open>
  Whose keys the delete route can remove. The look-ups before the delete only read the store; the
  delete removes the row that was looked up, and the sweep after it removes expired rows.
\<close>

section \<open>Actions that only read\<close>

named_theorems reading

definition reads :: "('s, 'a) action \<Rightarrow> bool" where
  "reads act \<longleftrightarrow> (\<forall>s. snd (act s) = s)"

lemma readsD: "reads act \<Longrightarrow> act s = (res, s') \<Longrightarrow> s' = s"
  unfolding reads_def by (metis snd_conv)

lemma reads_ret [reading]: "reads (ret a)"
  by (simp add: reads_def)

lemma reads_raise [reading]: "reads (raise e)"
  by (simp add: reads_def)

lemma reads_liftR [reading]: "reads (liftR r)"
  by (simp add: reads_def)

lemma reads_bindA [reading]:
  assumes "reads act" "\<And>a. reads (f a)"
  shows "reads (bindA act f)"
  unfolding reads_def
proof
  fix s
  have "snd (act s) = s" using assms(1) by (simp add: reads_def)
  moreover have "snd (f a s) = s" for a using assms(2) by (simp add: reads_def)
  ultimately show "snd (bindA act f s) = s" by (auto simp: bindA_def split: prod.splits sum.splits)
qed

lemma reads_catchA [reading]:
  assumes "reads act" "\<And>e. reads (h e)"
  shows "reads (catchA act h)"
  unfolding reads_def
proof
  fix s
  have "snd (act s) = s" using assms(1) by (simp add: reads_def)
  moreover have "snd (h e s) = s" for e using assms(2) by (simp add: reads_def)
  ultimately show "snd (catchA act h s) = s" by (auto simp: catchA_def split: prod.splits sum.splits)
qed

lemma reads_find_one [reading]: "reads (mem_find_one ad m wh select)"
  by (simp add: reads_def mem_find_one_def)

lemma reads_find_many [reading]: "reads (mem_find_many ad m wh limit order offset select)"
  by (simp add: reads_def mem_find_many_def)

lemma reads_if [reading]: "(P \<Longrightarrow> reads a) \<Longrightarrow> (\<not> P \<Longrightarrow> reads b) \<Longrightarrow> reads (if P then a else b)"
  by simp

lemma reads_option [reading]:
  "reads a \<Longrightarrow> (\<And>x. reads (b x)) \<Longrightarrow> reads (case v of None \<Rightarrow> a | Some x \<Rightarrow> b x)"
  by (simp split: option.split)

lemma reads_has_permission [reading]: "reads (has_permission ad js op role permissions org creator)"
  unfolding has_permission_def
proof (rule reads_bindA)
  fix ac_roles
  show "reads (case role of VStr r \<Rightarrow> liftR (has_permission_fn r permissions op ac_roles creator)
      | _ \<Rightarrow> if permissions = [] then ret False else raise AttributeError)"
    by (cases role) (simp_all add: reads_ret reads_raise reads_liftR)
qed (intro reading)

lemma reads_check_org [reading]: "reads (check_org_permission ke user_id org act)"
  unfolding check_org_permission_def by (intro reading)

lemma reads_lookup [reading]: "reads (lookup_and_own ke key_id config_id user_id act)"
  unfolding lookup_and_own_def by (intro reading)

section \<open>What is removed\<close>

text \<open>The row is the user's own, or of an organization in which the user may do the action.\<close>

definition owns_key :: "key_env \<Rightarrow> store \<Rightarrow> pyval \<Rightarrow> string \<Rightarrow> row \<Rightarrow> bool" where
  "owns_key ke st user_id act r \<longleftrightarrow>
     (\<exists>kc. resolve_config (ke_plugin ke) (dget r ''configId'') = Inr kc \<and>
       (if kc_references kc = ''organization''
        then \<exists>member. check_org_permission ke user_id (dget r ''referenceId'') act st = (Inr member, st)
        else py_eq (dget r ''referenceId'') user_id))"

definition expired_key :: "env \<Rightarrow> row \<Rightarrow> bool" where
  "expired_key ev r \<longleftrightarrow> (case dget r ''expiresAt'' of VDate t \<Rightarrow> t < now ev | _ \<Rightarrow> False)"

lemma lookup_and_own_Inr:
  assumes "native (kl_ad (ke_lib ke))" "lookup_and_own ke key_id config_id user_id act st = (Inr (r, kc), st')"
  shows "owns_key ke st user_id act r \<and> List.find (sel [Where ''id'' key_id]) (rows_of st ''apikey'') = Some r"
proof -
  have "safe [Where ''id'' key_id] (rows_of st ''apikey'')" by (simp add: safe_def matches_Where1)
  then have find: "mem_find_one (kl_ad (ke_lib ke)) ''apikey'' [Where ''id'' key_id] [] st =
      (Inr (List.find (sel [Where ''id'' key_id]) (rows_of st ''apikey'')), st)"
    by (rule mem_find_one_safe[OF assms(1)])
  from assms(2) obtain lookup where "resolve_config (ke_plugin ke) config_id = Inr lookup"
    by (cases "resolve_config (ke_plugin ke) config_id") (auto simp: lookup_and_own_def)
  with assms(2) find obtain row where row: "List.find (sel [Where ''id'' key_id]) (rows_of st ''apikey'') = Some row"
    and out: "bindA (liftR (resolve_config (ke_plugin ke) (dget row ''configId''))) (\<lambda>kc.
                bindA (liftR (dindex row ''referenceId'')) (\<lambda>reference_id.
                  if kc_references kc = ''organization'' then
                    bindA (check_org_permission ke user_id reference_id act) (\<lambda>_. ret (row, kc))
                  else if \<not> py_eq reference_id user_id then raise (key_error 404 ''KEY_NOT_FOUND'')
                  else ret (row, kc))) st = (Inr (r, kc), st')"
    by (cases "List.find (sel [Where ''id'' key_id]) (rows_of st ''apikey'')")
      (auto simp: lookup_and_own_def bindA_def[of "mem_find_one _ _ _ _"] split: if_splits)
  obtain kc' where kc': "resolve_config (ke_plugin ke) (dget row ''configId'') = Inr kc'"
    using out by (cases "resolve_config (ke_plugin ke) (dget row ''configId'')") auto
  obtain reference_id where ref: "dindex row ''referenceId'' = Inr reference_id" "dget row ''referenceId'' = reference_id"
    using out kc' by (cases "map_of row ''referenceId''") (auto simp: dindex_def dget_def)
  show ?thesis
  proof (cases "kc_references kc' = ''organization''")
    case True
    then obtain member st1 where m: "check_org_permission ke user_id reference_id act st = (Inr member, st1)" "r = row"
      using out kc' ref by (auto elim!: bindA_InrE)
    then have "st1 = st" using readsD[OF reads_check_org] by blast
    with m True kc' ref row show ?thesis by (auto simp: owns_key_def)
  next
    case False
    with out kc' ref row show ?thesis by (auto simp: owns_key_def split: if_splits)
  qed
qed

lemma drop_first_removed: "x \<in> set xs \<Longrightarrow> x \<notin> set (drop_first P xs) \<Longrightarrow> List.find P xs = Some x"
  by (induction xs) (auto split: if_splits)

lemma py_lt_date: "py_lt v (VDate t) = Inr True \<longleftrightarrow> (\<exists>x. v = VDate x \<and> x < t)"
  by (cases v) auto

lemma sweep_removed:
  assumes "sweep_rows ev st = (res, st')" "r \<in> set (rows_of st ''apikey'')" "r \<notin> set (rows_of st' ''apikey'')"
  shows "expired_key ev r"
proof -
  let ?wh = "[WhereOp ''expiresAt'' (VDate (now ev)) OLt, WhereOp ''expiresAt'' VNone ONe]"
  have kept: "r \<in> set kept" if "reject_rows ?wh rs = Inr kept" "r \<in> set rs" "\<not> expired_key ev r" for rs kept
    using that
  proof (induction rs arbitrary: kept)
    case (Cons x rs)
    from Cons.prems(1) obtain b kept' where x: "matches x ?wh = Inr b" "reject_rows ?wh rs = Inr kept'"
      "kept = (if b then kept' else x # kept')" by (auto simp: bindR_Inr_iff)
    have "expired_key ev x" if b
      using x(1) that by (auto simp: matches_def bindR_Inr_iff expired_key_def py_lt_date split: if_splits)
    with Cons x show ?case by (auto split: if_splits)
  qed simp
  have "rows_of st' ''apikey'' = rows_of st ''apikey'' \<or> reject_rows ?wh (rows_of st ''apikey'') = Inr (rows_of st' ''apikey'')"
    using assms(1)
    by (auto simp: sweep_rows_def catchA_def bindA_def mem_delete_many_def split: sum.splits prod.splits)
  with assms(2,3) kept show ?thesis by auto
qed

abbreviation key_rows :: "kworld \<Rightarrow> row list" where
  "key_rows w \<equiv> rows_of (iw_db (kw_int w)) ''apikey''"

lemma on_store_run: "on_store act w = (fst (act (iw_db (kw_int w))),
    w\<lparr>kw_int := (kw_int w)\<lparr>iw_db := snd (act (iw_db (kw_int w)))\<rparr>\<rparr>)"
  by (simp add: on_store_def on_int_def on_db_def split_beta)

lemma sweep_world_removed:
  assumes "delete_all_expired ev bypass w = (res, w')" "r \<in> set (key_rows w)" "r \<notin> set (key_rows w')"
  shows "expired_key ev r"
proof -
  have "key_rows w' = key_rows w \<or>
      key_rows w' = rows_of (snd (sweep_rows ev (iw_db (kw_int w)))) ''apikey''"
    using assms(1) by (auto simp: delete_all_expired_def on_store_run split: if_splits)
  with assms(2,3) sweep_removed[of ev "iw_db (kw_int w)" _ "snd (sweep_rows ev (iw_db (kw_int w)))" r]
  show ?thesis by (metis prod.collapse)
qed

lemma delete_removed:
  assumes "mem_delete ''apikey'' [Where ''id'' i] st = (res, st')"
    and "r \<in> set (rows_of st ''apikey'')" "r \<notin> set (rows_of st' ''apikey'')"
  shows "List.find (sel [Where ''id'' i]) (rows_of st ''apikey'') = Some r"
proof -
  have "safe [Where ''id'' i] (rows_of st ''apikey'')" by (simp add: safe_def matches_Where1)
  with assms show ?thesis by (auto simp: mem_delete_safe intro: drop_first_removed)
qed

text \<open>Two look-ups of a text id find the same row.\<close>

lemma same_id_row:
  assumes "str_ids rs" "List.find (sel [Where ''id'' a]) rs = Some x" "dindex x ''id'' = Inr i"
    and "List.find (sel [Where ''id'' i]) rs = Some y"
  shows "y = x"
proof -
  have x: "x \<in> set rs" using find_Some_in[OF assms(2)] by simp
  have i: "dget x ''id'' = i" using assms(3) by (auto simp: dindex_def dget_def split: option.splits)
  have "is_str i" using assms(1) x i by (auto simp: str_ids_def list_all_iff)
  then obtain t where t: "i = VStr t" by (cases i) (auto simp: is_str_def)
  have y: "y \<in> set rs" "dget y ''id'' = VStr t" using find_Some_in[OF assms(4)] by (auto simp: t)
  with assms(1) x i t show ?thesis by (auto simp: str_ids_def row_ids_def distinct_map inj_on_def)
qed

lemma bindA_cases:
  assumes "bindA act f s = (res, s')"
  obtains (raised) e where "act s = (Inl e, s')" "res = Inl e"
  | (went) a s1 where "act s = (Inr a, s1)" "f a s1 = (res, s')"
  using assms by (auto simp: bindA_def split: prod.splits sum.splits)

text \<open>
  C27: The delete route removes no key of others. Whatever the body asks for and whether the call succeeds or
  not, a row that is missing from the table afterwards had expired, or is one the signed-in user may
  delete: its own, or one of an organization whose stored membership lets that user delete keys.
  Without a session, or for a banned user, nothing changes.
\<close>
theorem delete_route_own_keys:
  assumes "native (kl_ad (ke_lib ke))" "str_ids (key_rows w)"
    and "route_delete ke ev sess d w = (res, w')"
  shows "(case sess of
      None \<Rightarrow> w' = w
    | Some (session, user) \<Rightarrow> (dget user ''banned'' = VBool True \<longrightarrow> w' = w) \<and>
        (\<forall>r\<in>set (key_rows w) - set (key_rows w'). expired_key ev r \<or>
           owns_key ke (iw_db (kw_int w)) (dget user ''id'') ''delete'' r))"
proof (cases sess)
  case None
  with assms(3) show ?thesis by (simp add: route_delete_def require_session_def)
next
  case (Some s)
  obtain session user where s: "s = (session, user)" by (cases s)
  let ?st = "iw_db (kw_int w)"
  let ?look = "lookup_and_own ke (get_or_empty d ''keyId'') (dget d ''configId'') (dget user ''id'') ''delete''"
  show ?thesis
  proof (cases "dget user ''banned'' = VBool True \<or> map_of user ''id'' = None")
    case True
    with assms(3) have "w' = w" by (auto simp: route_delete_def require_session_def Some s dindex_def split: if_splits)
    then show ?thesis by (simp add: Some s)
  next
    case False
    have uid: "dindex user ''id'' = Inr (dget user ''id'')" using False by (auto simp: dindex_def dget_def)
    have out: "bindA (on_store ?look) (\<lambda>(api_key, _).
         bindA (liftR (dindex api_key ''id'')) (\<lambda>i.
         bindA (on_store (catchA (mem_delete ''apikey'' [Where ''id'' i]) (storage_error (ke_lib ke)))) (\<lambda>_.
         bindA (delete_all_expired ev False) (\<lambda>_. ret [(''success'', VBool True)])))) w = (res, w')"
      using assms(3) False uid by (simp add: route_delete_def require_session_def Some s)
    have still: "w\<lparr>kw_int := (kw_int w)\<lparr>iw_db := snd (?look ?st)\<rparr>\<rparr> = w"
      using reads_lookup[unfolded reads_def] by simp
    have "expired_key ev r \<or> owns_key ke ?st (dget user ''id'') ''delete'' r"
      if gone: "r \<in> set (key_rows w)" "r \<notin> set (key_rows w')" for r
    proof (rule bindA_cases[OF out])
      fix e assume "on_store ?look w = (Inl e, w')"
      with gone still show ?thesis by (simp add: on_store_run)
    next
      fix a w1 assume look: "on_store ?look w = (Inr a, w1)"
        and rest: "(case a of (api_key, _) \<Rightarrow>
         bindA (liftR (dindex api_key ''id'')) (\<lambda>i.
         bindA (on_store (catchA (mem_delete ''apikey'' [Where ''id'' i]) (storage_error (ke_lib ke)))) (\<lambda>_.
         bindA (delete_all_expired ev False) (\<lambda>_. ret [(''success'', VBool True)])))) w1 = (res, w')"
      obtain x kc where a: "a = (x, kc)" by (cases a)
      have w1: "w1 = w" and found: "?look ?st = (Inr (x, kc), snd (?look ?st))"
        using look still by (auto simp: on_store_run a prod_eq_iff)
      note own = lookup_and_own_Inr[OF assms(1) found]
      show ?thesis
      proof (cases "dindex x ''id''")
        case (Inl e)
        with rest gone show ?thesis by (simp add: a w1)
      next
        case (Inr i)
        let ?del = "catchA (mem_delete ''apikey'' [Where ''id'' i]) (storage_error (ke_lib ke))"
        let ?w2 = "w\<lparr>kw_int := (kw_int w)\<lparr>iw_db := snd (?del ?st)\<rparr>\<rparr>"
        have del: "snd (?del ?st) = snd (mem_delete ''apikey'' [Where ''id'' i] ?st)"
          by (auto simp: catchA_def storage_error_def split: prod.splits sum.splits)
        have deleted: "owns_key ke ?st (dget user ''id'') ''delete'' r" if "r \<notin> set (key_rows ?w2)"
        proof -
          obtain d st2 where m: "mem_delete ''apikey'' [Where ''id'' i] ?st = (d, st2)"
            by (cases "mem_delete ''apikey'' [Where ''id'' i] ?st")
          from that have "r \<notin> set (rows_of st2 ''apikey'')" using del m by simp
          from delete_removed[OF m gone(1) this] same_id_row[OF assms(2) _ Inr] own show ?thesis by blast
        qed
        have w2: "on_store ?del w = (fst (?del ?st), ?w2)" by (rule on_store_run)
        have rest': "bindA (on_store ?del) (\<lambda>_. bindA (delete_all_expired ev False) (\<lambda>_. ret [(''success'', VBool True)])) w = (res, w')"
          using rest Inr by (simp add: a w1)
        show ?thesis
        proof (rule bindA_cases[OF rest'])
          fix e assume "on_store ?del w = (Inl e, w')"
          with w2 deleted gone(2) show ?thesis by auto
        next
          fix u w2' assume "on_store ?del w = (Inr u, w2')"
            and sweep: "bindA (delete_all_expired ev False) (\<lambda>_. ret [(''success'', VBool True)]) w2' = (res, w')"
          then have "w2' = ?w2" using w2 by simp
          moreover have "\<exists>res'. delete_all_expired ev False w2' = (res', w')"
            using sweep by (auto elim!: bindA_cases)
          ultimately show ?thesis
            using deleted gone(2) sweep_world_removed[of ev False ?w2 _ w' r] by blast
        qed
      qed
    qed
    with False show ?thesis by (auto simp: Some s)
  qed
qed

text \<open>The user \<open>u1\<close> deletes its own key and leaves the other.\<close>

definition demo_auth_env :: "auth \<Rightarrow> key_env" where
  "demo_auth_env au = \<lparr>ke_lib = demo_kl, ke_plugin = demo_kp, ke_auth = au, ke_org = None\<rparr>"

definition two_keys :: kworld where
  "two_keys = \<lparr>kw_int = \<lparr>iw_db = [(''apikey'', [expiring_key,
       [(''id'', VStr ''l''), (''configId'', VStr ''default''), (''referenceId'', VStr ''u2'')]])],
     iw_kv = \<lparr>kv_items = [], kv_ttls = []\<rparr>, iw_queue = None, iw_log = []\<rparr>, kw_checked = Some 0\<rparr>"

lemma demo_references: "kc_references default_kc = ''user''" "kc_config_id default_kc = Some ''default''"
  by (simp_all add: default_kc_def plain_key_config_def plain_raw_def normalize_config_def or_default_def)

theorem delete_route_own_keys_witness:
  "\<forall>au. expired_key key_env_0 expiring_key \<or>
     owns_key (demo_auth_env au) (iw_db (kw_int two_keys)) (VStr ''u1'') ''delete'' expiring_key"
proof
  fix au
  let ?sess = "Some ([], [(''id'', VStr ''u1'')]) :: (row \<times> row) option"
  obtain res w' where out: "route_delete (demo_auth_env au) key_env_0 ?sess [(''keyId'', VStr ''k'')] two_keys = (res, w')"
    by (cases "route_delete (demo_auth_env au) key_env_0 ?sess [(''keyId'', VStr ''k'')] two_keys")
  have native: "native (kl_ad (ke_lib (demo_auth_env au)))" by (simp add: demo_auth_env_def demo_kl_def native_def key_ad_def)
  have ids: "str_ids (key_rows two_keys)"
    by (simp add: two_keys_def rows_of_def expiring_key_def str_ids_def row_ids_def is_str_def dget_Cons)
  have "expiring_key \<in> set (key_rows two_keys)" by (simp add: two_keys_def rows_of_def)
  moreover have "expiring_key \<notin> set (key_rows w')"
  proof -
    let ?st = "iw_db (kw_int two_keys)"
    have own: "lookup_and_own (demo_auth_env au) (VStr ''k'') VNone (VStr ''u1'') ''delete'' ?st = (Inr (expiring_key, default_kc), ?st)"
      using mem_find_one_safe[of key_ad "[Where ''id'' (VStr ''k'')]" ?st "''apikey''"] native
      by (simp add: lookup_and_own_def demo_auth_env_def demo_resolve demo_kl_def bindA_def two_keys_def rows_of_def
          expiring_key_def dget_Cons dindex_def demo_references config_id_matches_def is_default_config_id_def opt_str_def)
    have "mem_delete ''apikey'' [Where ''id'' (VStr ''k'')] ?st = (Inr (), set_rows ''apikey''
        [[(''id'', VStr ''l''), (''configId'', VStr ''default''), (''referenceId'', VStr ''u2'')]] ?st)"
      by (simp add: mem_delete_safe two_keys_def rows_of_def expiring_key_def dget_Cons)
    moreover have "dindex expiring_key ''id'' = Inr (VStr ''k'')" "kw_checked two_keys = Some 0" "now key_env_0 = 0"
      by (simp_all add: expiring_key_def dindex_def two_keys_def key_env_0_def)
    moreover have "get_or_empty [(''keyId'', VStr ''k'')] ''keyId'' = VStr ''k''" "dget [(''keyId'', VStr ''k'')] ''configId'' = VNone"
      "dget [(''id'', VStr ''u1'')] ''banned'' = VNone" "dindex [(''id'', VStr ''u1'')] ''id'' = Inr (VStr ''u1'')"
      by (simp_all add: get_or_empty_def dget_Cons dindex_def)
    ultimately have "w' = two_keys\<lparr>kw_int := (kw_int two_keys)\<lparr>iw_db := set_rows ''apikey''
        [[(''id'', VStr ''l''), (''configId'', VStr ''default''), (''referenceId'', VStr ''u2'')]] ?st\<rparr>\<rparr>"
      using out own
      by (simp add: route_delete_def require_session_def bindA_def on_store_run catchA_def delete_all_expired_def)
    then show ?thesis by (simp add: expiring_key_def)
  qed
  ultimately show "expired_key key_env_0 expiring_key \<or>
      owns_key (demo_auth_env au) (iw_db (kw_int two_keys)) (VStr ''u1'') ''delete'' expiring_key"
    using delete_route_own_keys[OF native ids out] by (auto simp: dget_Cons)
qed

end
