(* ===== verification/Endpoint_Base.thy ===== *)
theory Endpoint_Base
  imports Session Origin
begin

text \<open>
  What the handlers of \<open>endpoints.py\<close> share: the options they read (\<open>config.py\<close>), the response, the
  password functions and the email-verification token of \<open>crypto.py\<close>, the query-string helpers, the
  validation of a body, and the callbacks of the application.

  scrypt and PyJWT are parameters: \<open>es_scrypt password salt\<close> is the derived key (over the normalised
  password), \<open>jwt_encode\<close> and \<open>jwt_decode\<close> sign and verify with HS256. The callbacks that send mail or
  observe an event are functions that return or raise; each call is recorded in the state. The random
  values of a call are its argument \<open>draws\<close>, and all its readings of the clock are one instant.
  \<open>es_format\<close> is how an f-string shows a value that is no text, and \<open>es_logout_url\<close> gives the
  \<open>create_end_session_url\<close> of a provider that has one.
\<close>

section \<open>Options and state\<close>

text \<open>A call of an application callback, with its arguments; a plugin names the callback of its options.\<close>

datatype event =
    ResetMail row string string
  | VerifyMail row string string
  | ChangeMail row string string string
  | DeleteMail row string string
  | PasswordReset row
  | BeforeDelete row
  | AfterDelete row
  | PluginCall string "pyval list"

type_synonym mailer = "row \<Rightarrow> string \<Rightarrow> string \<Rightarrow> unit result"

datatype jwt_error = ExpiredSignature | InvalidToken

record jwt_lib =
  jwt_encode :: "row \<Rightarrow> string \<Rightarrow> string"
  jwt_decode :: "int \<Rightarrow> string \<Rightarrow> string \<Rightarrow> jwt_error + row"

record site =
  es_auth :: auth
  es_origin :: origin_conf
  es_base_path :: string
  es_enabled :: bool
  es_disable_sign_up :: bool
  es_min_password :: int
  es_max_password :: int
  es_require_verified :: bool
  es_auto_sign_in :: bool
  es_send_reset :: "mailer option"
  es_reset_expires_in :: int
  es_revoke_on_reset :: bool
  es_on_reset :: "(row \<Rightarrow> unit result) option"
  es_send_verify :: "mailer option"
  es_send_on_sign_up :: bool
  es_auto_after_verify :: bool
  es_verify_expires_in :: int
  es_change_enabled :: bool
  es_send_change :: "(row \<Rightarrow> string \<Rightarrow> string \<Rightarrow> string \<Rightarrow> unit result) option"
  es_update_unverified :: bool
  es_delete_enabled :: bool
  es_send_delete :: "mailer option"
  es_before_delete :: "(row \<Rightarrow> unit result) option"
  es_after_delete :: "(row \<Rightarrow> unit result) option"
  es_delete_expires_in :: int
  es_fresh_age :: int
  es_allow_unlinking_all :: bool
  es_legacy_selection :: bool
  es_input_fields :: "string \<Rightarrow> fields"
  es_password_checks :: "(string \<Rightarrow> string \<Rightarrow> unit result) list"
  es_scrypt :: "string \<Rightarrow> string \<Rightarrow> nat list"
  es_jwt :: jwt_lib
  es_format :: "pyval \<Rightarrow> string"
  es_logout_url :: "string \<Rightarrow> (pyval \<Rightarrow> pyval \<Rightarrow> pyval \<Rightarrow> pyval result) option"

text \<open>The state: that of the internal adapter, the callbacks called, and \<open>ctx.new_session\<close>.\<close>

record sworld =
  sw_int :: iworld
  sw_events :: "event list"
  sw_new_session :: "(row \<times> row option) option"

definition on_core :: "(iworld, 'a) action \<Rightarrow> (sworld, 'a) action" where
  "on_core m w = (case m (sw_int w) of (res, i) \<Rightarrow> (res, w\<lparr>sw_int := i\<rparr>))"

definition on_rows :: "(store, 'a) action \<Rightarrow> (sworld, 'a) action" where
  "on_rows m = on_core (on_db m)"

definition notify :: "event \<Rightarrow> unit result \<Rightarrow> (sworld, unit) action" where
  "notify e res w = (res, w\<lparr>sw_events := sw_events w @ [e]\<rparr>)"

text \<open>What \<open>generate_id\<close>, \<open>generate_random_string\<close> and \<open>token_hex\<close> return in a call.\<close>

record draws =
  dr_user_id :: string
  dr_other_id :: string
  dr_account_id :: string
  dr_session :: ids
  dr_salt :: string
  dr_token :: string

abbreviation core :: "site \<Rightarrow> iconf" where
  "core es \<equiv> au_ic (es_auth es)"

abbreviation store_ad :: "site \<Rightarrow> adapter" where
  "store_ad es \<equiv> ic_ad (core es)"

section \<open>Responses and errors\<close>

record response =
  rs_status :: int
  rs_body :: pyval
  rs_headers :: "(string \<times> string) list"
  rs_redirect :: "string option"

definition reply_value :: "pyval \<Rightarrow> response" where
  "reply_value v = \<lparr>rs_status = 200, rs_body = v, rs_headers = [], rs_redirect = None\<rparr>"

definition reply :: "row \<Rightarrow> response" where
  "reply b = reply_value (VDict b)"

definition redirect_to :: "string \<Rightarrow> response" where
  "redirect_to url = \<lparr>rs_status = 200, rs_body = VNone, rs_headers = [], rs_redirect = Some url\<rparr>"

definition add_cookies :: "string list \<Rightarrow> response \<Rightarrow> response" where
  "add_cookies cs rs = rs\<lparr>rs_headers := rs_headers rs @ map (\<lambda>c. (''set-cookie'', c)) cs\<rparr>"

definition api_error :: "int \<Rightarrow> string \<Rightarrow> string \<Rightarrow> exn" where
  "api_error status code message = APIError status code message []"

text \<open>\<open>code.replace("_", " ").capitalize()\<close>.\<close>

definition upper_char :: "char \<Rightarrow> char" where
  "upper_char c =
     (let n = of_char c in if 97 \<le> n \<and> n \<le> (122::nat) then char_of (n - 32) else c)"

definition code_message :: "string \<Rightarrow> string" where
  "code_message code =
     (case str_lower (map (\<lambda>c. if c = CHR ''_'' then CHR '' '' else c) code) of
        [] \<Rightarrow> []
      | c # s \<Rightarrow> upper_char c # s)"

section \<open>Passwords\<close>

definition hex_byte :: "nat \<Rightarrow> string" where
  "hex_byte n = [''0123456789abcdef'' ! (n div 16 mod 16), ''0123456789abcdef'' ! (n mod 16)]"

definition bytes_hex :: "nat list \<Rightarrow> string" where
  "bytes_hex bs = concat (map hex_byte bs)"

definition hash_password :: "(string \<Rightarrow> string \<Rightarrow> nat list) \<Rightarrow> string \<Rightarrow> string \<Rightarrow> string" where
  "hash_password scrypt salt password = salt @ '':'' @ bytes_hex (scrypt password salt)"

definition verify_password :: "(string \<Rightarrow> string \<Rightarrow> nat list) \<Rightarrow> string \<Rightarrow> string \<Rightarrow> bool" where
  "verify_password scrypt stored password =
     (case partition_at CHR '':'' stored of
        (salt, _, key_hex) \<Rightarrow>
          if salt = [] \<or> key_hex = [] then False
          else bytes_hex (scrypt password salt) = key_hex)"

text \<open>A value used as text: in \<open>quote\<close>, \<open>re.match\<close> or \<open>normalize\<close>, and in a method call.\<close>

definition str_arg :: "pyval \<Rightarrow> string result" where
  "str_arg v = (case v of VStr s \<Rightarrow> Inr s | _ \<Rightarrow> Inl TypeError)"

definition lower_arg :: "pyval \<Rightarrow> string result" where
  "lower_arg v = (case v of VStr s \<Rightarrow> Inr (str_lower s) | _ \<Rightarrow> Inl AttributeError)"

definition check_stored :: "site \<Rightarrow> pyval \<Rightarrow> pyval \<Rightarrow> bool result" where
  "check_stored es stored password =
     (case stored of
        VStr s \<Rightarrow> bindR (str_arg password) (\<lambda>p. Inr (verify_password (es_scrypt es) s p))
      | _ \<Rightarrow> Inl AttributeError)"

definition f_string :: "site \<Rightarrow> pyval \<Rightarrow> string" where
  "f_string es v = (case v of VStr s \<Rightarrow> s | _ \<Rightarrow> es_format es v)"

text \<open>\<open>dummy_verify\<close>: only an argument that is no text is observable.\<close>

definition dummy_verify :: "pyval \<Rightarrow> unit result" where
  "dummy_verify password = bindR (str_arg password) (\<lambda>_. Inr ())"

fun run_checks :: "(string \<Rightarrow> string \<Rightarrow> unit result) list \<Rightarrow> string \<Rightarrow> string \<Rightarrow> unit result" where
  "run_checks [] password path = Inr ()"
| "run_checks (check # checks) password path =
     bindR (check password path) (\<lambda>_. run_checks checks password path)"

definition hash_password_checked :: "site \<Rightarrow> draws \<Rightarrow> request \<Rightarrow> pyval \<Rightarrow> string result" where
  "hash_password_checked es dr rq password =
     bindR (str_arg password) (\<lambda>p.
     bindR (run_checks (es_password_checks es) p (rq_path rq)) (\<lambda>_.
       Inr (hash_password (es_scrypt es) (dr_salt dr) p)))"

section \<open>Validating a body\<close>

fun require_fields :: "row \<Rightarrow> string list \<Rightarrow> unit result" where
  "require_fields d [] = Inr ()"
| "require_fields d (name # names) =
     (if dget d name = VNone \<or> dget d name = VStr []
      then Inl (api_error 400 ''INVALID_BODY'' ([CHR 0x27] @ name @ [CHR 0x27] @ '' is required''))
      else require_fields d names)"

text \<open>
  \<open>^[^@\s]+@[^@\s]+\.[^@\s]+$\<close> under \<open>re.match\<close>: \<open>$\<close> also matches before one final newline.
\<close>

definition email_text :: "string \<Rightarrow> bool" where
  "email_text s \<longleftrightarrow>
     (case partition_at CHR ''@'' s of
        (front, found, domain) \<Rightarrow>
          found \<and> front \<noteq> [] \<and> list_all (\<lambda>c. \<not> is_space c) front \<and>
          list_all (\<lambda>c. c \<noteq> CHR ''@'' \<and> \<not> is_space c) domain \<and>
          domain \<noteq> [] \<and> CHR ''.'' \<in> set (butlast (tl domain)))"

definition matches_email :: "string \<Rightarrow> bool" where
  "matches_email s \<longleftrightarrow> email_text s \<or> (s \<noteq> [] \<and> last s = CHR 0x0A \<and> email_text (butlast s))"

definition validate_email :: "pyval \<Rightarrow> string result" where
  "validate_email v =
     bindR (str_arg v) (\<lambda>s.
       if matches_email s then Inr (str_lower s) else Inl (api_error 400 ''INVALID_EMAIL'' ''Invalid email''))"

definition assert_password_not_too_long :: "site \<Rightarrow> pyval \<Rightarrow> unit result" where
  "assert_password_not_too_long es password =
     bindR (py_len password) (\<lambda>n.
       if n > es_max_password es then Inl (api_error 400 ''PASSWORD_TOO_LONG'' ''Password too long'')
       else Inr ())"

definition validate_password :: "site \<Rightarrow> pyval \<Rightarrow> unit result" where
  "validate_password es password =
     bindR (py_len password) (\<lambda>n.
       if n < es_min_password es then Inl (api_error 400 ''PASSWORD_TOO_SHORT'' ''Password too short'')
       else assert_password_not_too_long es password)"

definition require_email_password_enabled :: "site \<Rightarrow> unit result" where
  "require_email_password_enabled es =
     (if es_enabled es then Inr ()
      else Inl (api_error 400 ''EMAIL_PASSWORD_DISABLED'' ''Email and password is not enabled''))"

section \<open>URLs\<close>

text \<open>\<open>_sync_trusted_origins\<close>; \<open>oc_dynamic\<close> is not empty exactly for a dynamic base URL.\<close>

definition sync_trusted_origins :: "site \<Rightarrow> string list result" where
  "sync_trusted_origins es =
     (let oc = es_origin es
      in bindR
           (if oc_dynamic oc \<noteq> [] then Inr (oc_dynamic oc)
            else bindR (urlsplit (oc_bracketed oc) (oc_base_url oc)) (\<lambda>parts.
                   Inr (if u_scheme parts \<noteq> [] \<and> u_netloc parts \<noteq> []
                        then [u_scheme parts @ ''://'' @ u_netloc parts] else []))) (\<lambda>origins.
         Inr (origins @ (case oc_trusted oc of TrustedFn _ \<Rightarrow> [] | TrustedList ps \<Rightarrow> ps))))"

definition ensure_trusted_url :: "site \<Rightarrow> pyval \<Rightarrow> unit result" where
  "ensure_trusted_url es url =
     bindR (sync_trusted_origins es) (\<lambda>origins.
     bindR (case url of
              VStr u \<Rightarrow> any_matches (oc_bracketed (es_origin es)) u True origins
            | _ \<Rightarrow> if origins = [] then Inr False else Inl AttributeError) (\<lambda>ok.
       if ok then Inr () else Inl (api_error 403 ''INVALID_CALLBACK_URL'' ''Invalid callbackURL'')))"

definition absolute_url :: "site \<Rightarrow> string \<Rightarrow> string" where
  "absolute_url es url = (if starts_with url ''/'' then oc_base_url (es_origin es) @ url else url)"

definition USES_NETLOC :: "string list" where
  "USES_NETLOC = ['''', ''ftp'', ''http'', ''gopher'', ''nntp'', ''telnet'', ''imap'', ''wais'', ''file'',
     ''mms'', ''https'', ''shttp'', ''snews'', ''prospero'', ''rtsp'', ''rtsps'', ''rtspu'', ''rsync'', ''svn'',
     ''svn+ssh'', ''sftp'', ''nfs'', ''git'', ''git+ssh'', ''ws'', ''wss'']"

definition urlunsplit :: "split_url \<Rightarrow> string" where
  "urlunsplit p =
     (let path = u_path p;
          url = (if u_netloc p \<noteq> [] \<or> (u_scheme p \<noteq> [] \<and> u_scheme p \<in> set USES_NETLOC) \<or> take 2 path = ''//''
                 then ''//'' @ u_netloc p @ (if path \<noteq> [] \<and> take 1 path \<noteq> ''/'' then ''/'' @ path else path)
                 else path)
      in (if u_scheme p \<noteq> [] then u_scheme p @ '':'' else []) @ url @
         (if u_query p \<noteq> [] then ''?'' @ u_query p else []) @
         (if u_fragment p \<noteq> [] then ''#'' @ u_fragment p else []))"

text \<open>\<open>quote_plus\<close>, \<open>urlencode\<close> and \<open>parse_qsl(..., keep_blank_values=True)\<close>.\<close>

definition quote_plus :: "string \<Rightarrow> string" where
  "quote_plus s = concat (map (\<lambda>c. if c = CHR '' '' then ''+'' else quote_all [c]) s)"

definition urlencode :: "(string \<times> string) list \<Rightarrow> string" where
  "urlencode ps = join_parts ''&'' (map (\<lambda>(k, v). quote_plus k @ ''='' @ quote_plus v) ps)"

definition unquote_plus :: "string \<Rightarrow> string" where
  "unquote_plus s = unquote_all (map (\<lambda>c. if c = CHR ''+'' then CHR '' '' else c) s)"

definition parse_qsl :: "string \<Rightarrow> (string \<times> string) list" where
  "parse_qsl q =
     map (\<lambda>nv. case partition_at CHR ''='' nv of (n, _, v) \<Rightarrow> (unquote_plus n, unquote_plus v))
       (filter (\<lambda>nv. nv \<noteq> []) (split_on CHR ''&'' q))"

definition set_query_params :: "site \<Rightarrow> string \<Rightarrow> (string \<times> string) list \<Rightarrow> string result" where
  "set_query_params es url params =
     bindR (urlsplit (oc_bracketed (es_origin es)) url) (\<lambda>p.
       Inr (urlunsplit (p\<lparr>u_query := urlencode
              (filter (\<lambda>(k, _). k \<notin> fst ` set params) (parse_qsl (u_query p)) @ params)\<rparr>)))"

text \<open>\<open>append_query_params\<close> of \<open>base_url.py\<close>.\<close>

definition append_query_params :: "bracketed \<Rightarrow> string \<Rightarrow> (string \<times> string) list \<Rightarrow> string result" where
  "append_query_params vb url params =
     (if starts_with url ''//'' \<or> starts_with url [CHR ''/'', CHR 0x5C] then Inl ValueError
      else bindR (urlsplit vb url) (\<lambda>p.
        let relative = starts_with url ''/'';
            query = urlencode params;
            search = u_query p;
            joined = (if search \<noteq> [] then search @ (if ends_with search ''&'' then [] else ''&'') @ query else query);
            scheme = str_lower (u_scheme p);
            path = (if u_path p \<noteq> [] then u_path p else if scheme \<in> {''http'', ''https''} then ''/'' else [])
        in if \<not> relative \<and> u_scheme p = [] then Inl ValueError
           else if query = [] then Inr url
           else if relative then Inr (urlunsplit (p\<lparr>u_scheme := [], u_netloc := [], u_query := joined\<rparr>))
           else Inr (urlunsplit (p\<lparr>u_scheme := scheme, u_netloc := str_lower (u_netloc p), u_path := path,
                                  u_query := joined\<rparr>))))"

section \<open>Verification tokens\<close>

definition sign_email_verification_token ::
    "site \<Rightarrow> env \<Rightarrow> pyval \<Rightarrow> pyval \<Rightarrow> row \<Rightarrow> string result" where
  "sign_email_verification_token es ev email update_to extra =
     bindR (lower_arg email) (\<lambda>e.
     bindR (if py_truthy update_to then bindR (lower_arg update_to) (\<lambda>u. Inr [(''updateTo'', VStr u)])
            else Inr []) (\<lambda>upd.
       let issued = now ev div 1000000;
           payload = dmerge ((''email'', VStr e) # upd) extra
       in Inr (jwt_encode (es_jwt es)
                 (dset ''exp'' (VInt (issued + es_verify_expires_in es)) (dset ''iat'' (VInt issued) payload))
                 (au_secret (es_auth es)))))"

definition decode_email_verification_token :: "site \<Rightarrow> env \<Rightarrow> string \<Rightarrow> jwt_error + row" where
  "decode_email_verification_token es ev token =
     jwt_decode (es_jwt es) (now ev div 1000000) token (au_secret (es_auth es))"

definition verify_email_url :: "site \<Rightarrow> string \<Rightarrow> string \<Rightarrow> string" where
  "verify_email_url es token callback_url =
     oc_base_url (es_origin es) @ es_base_path es @ ''/verify-email?token='' @ token @
     ''&callbackURL='' @ quote_all callback_url"

text \<open>Mails the user a token for the address, when mails are configured.\<close>

definition send_verification_email :: "site \<Rightarrow> env \<Rightarrow> row \<Rightarrow> pyval \<Rightarrow> (sworld, bool) action" where
  "send_verification_email es ev user callback_url =
     (case es_send_verify es of
        None \<Rightarrow> ret False
      | Some send \<Rightarrow>
          bindA (liftR (bindR (dindex user ''email'') (\<lambda>e. sign_email_verification_token es ev e VNone []))) (\<lambda>token.
          bindA (liftR (str_arg callback_url)) (\<lambda>cb.
            let url = verify_email_url es token cb
            in bindA (notify (VerifyMail user url token) (send user url token)) (\<lambda>_. ret True))))"

definition or_root :: "pyval \<Rightarrow> pyval" where
  "or_root v = py_or v (VStr ''/'')"

section \<open>Sessions of a request\<close>

definition load_session :: "site \<Rightarrow> env \<Rightarrow> request \<Rightarrow> (sworld, validated option) action" where
  "load_session es ev rq =
     bindA (on_core (get_session (es_auth es) ev rq False False False)) (\<lambda>(found, _). ret found)"

definition require_login :: "site \<Rightarrow> env \<Rightarrow> request \<Rightarrow> (sworld, validated) action" where
  "require_login es ev rq =
     bindA (load_session es ev rq) (\<lambda>found.
       case found of
         None \<Rightarrow> raise (api_error 401 ''UNAUTHORIZED'' ''Unauthorized'')
       | Some v \<Rightarrow> ret v)"

text \<open>\<open>create_session\<close> with the context: it records the new session.\<close>

definition start_session ::
    "site \<Rightarrow> env \<Rightarrow> request \<Rightarrow> pyval \<Rightarrow> bool \<Rightarrow> draws \<Rightarrow> (sworld, row \<times> string list) action" where
  "start_session es ev rq user_id remember_me dr =
     bindA (on_core (session_create (es_auth es) ev rq user_id remember_me None True (dr_session dr)))
       (\<lambda>(session, cookies, created) w. (Inr (session, cookies), w\<lparr>sw_new_session := created\<rparr>))"

definition credential_account :: "site \<Rightarrow> pyval \<Rightarrow> (sworld, row option) action" where
  "credential_account es user_id =
     on_rows (mem_find_one (store_ad es) ''account''
       [Where ''userId'' user_id, Where ''providerId'' (VStr ''credential''), Where ''accountId'' user_id] [])"

definition find_user_by_email :: "site \<Rightarrow> pyval \<Rightarrow> (sworld, row option) action" where
  "find_user_by_email es email = on_rows (mem_find_one (store_ad es) ''user'' [Where ''email'' email] [])"

definition user_output :: "site \<Rightarrow> row \<Rightarrow> pyval" where
  "user_output es user = VDict (parse_user_output user (fields_of (au_schema (es_auth es)) ''user''))"

definition session_output :: "site \<Rightarrow> row \<Rightarrow> pyval" where
  "session_output es session = VDict (parse_session_output session (fields_of (au_schema (es_auth es)) ''session''))"

end
