(* ===== verification/Email_Endpoints.thy ===== *)
theory Email_Endpoints
  imports Endpoint_Base
begin

text \<open>
  \<open>endpoints.py\<close>: sign-up and sign-in with email and password, the password routes, the password
  reset, email verification and the change of address. Each handler is an action over the state of
  \<open>Endpoint_Base\<close> with the request, its parsed body and the random draws of the call.
\<close>

section \<open>Sign-up and sign-in\<close>

definition new_user_row :: "row \<Rightarrow> env \<Rightarrow> string \<Rightarrow> string \<Rightarrow> row" where
  "new_user_row d ev user_id email =
     [(''id'', VStr user_id), (''name'', dget d ''name''), (''email'', VStr email),
      (''emailVerified'', VBool False), (''image'', dget d ''image''),
      (''createdAt'', VDate (now ev)), (''updatedAt'', VDate (now ev))]"

definition new_account_row :: "env \<Rightarrow> string \<Rightarrow> pyval \<Rightarrow> pyval \<Rightarrow> string \<Rightarrow> row" where
  "new_account_row ev account_id owner user_id password_hash =
     [(''id'', VStr account_id), (''accountId'', owner), (''providerId'', VStr ''credential''),
      (''userId'', user_id), (''password'', VStr password_hash),
      (''createdAt'', VDate (now ev)), (''updatedAt'', VDate (now ev))]"

text \<open>The answer that does not tell a new address from a known one.\<close>

definition generic_sign_up :: "site \<Rightarrow> row \<Rightarrow> response" where
  "generic_sign_up es user = reply [(''token'', VNone), (''user'', user_output es user)]"

definition generic_duplicate :: "site \<Rightarrow> bool" where
  "generic_duplicate es \<longleftrightarrow> es_require_verified es \<or> \<not> es_auto_sign_in es"

definition remember :: "row \<Rightarrow> bool" where
  "remember d = (case map_of d ''rememberMe'' of None \<Rightarrow> True | Some v \<Rightarrow> py_truthy v)"

text \<open>What follows the creation of the user: the account, the mail, and the session.\<close>

definition finish_sign_up ::
    "site \<Rightarrow> env \<Rightarrow> request \<Rightarrow> row \<Rightarrow> draws \<Rightarrow> string \<Rightarrow> row \<Rightarrow> (sworld, response) action" where
  "finish_sign_up es ev rq d dr password_hash user =
     bindA (liftR (dindex user ''id'')) (\<lambda>uid.
     bindA (on_core (create_row (core es) ev ''account''
              (new_account_row ev (dr_account_id dr) uid uid password_hash) True)) (\<lambda>_.
     bindA (if es_require_verified es \<or> es_send_on_sign_up es
            then send_verification_email es ev user (or_root (dget d ''callbackURL'')) else ret False) (\<lambda>_.
       if generic_duplicate es then ret (generic_sign_up es user)
       else
         bindA (start_session es ev rq uid (remember d) dr) (\<lambda>(session, cookies).
           ret (add_cookies cookies
             (reply [(''token'', dget session ''token''), (''user'', user_output es user)]))))))"

definition sign_up_email :: "site \<Rightarrow> env \<Rightarrow> request \<Rightarrow> body \<Rightarrow> draws \<Rightarrow> (sworld, response) action" where
  "sign_up_email es ev rq b dr =
     (if \<not> es_enabled es \<or> es_disable_sign_up es then
        raise (api_error 400 ''EMAIL_PASSWORD_SIGN_UP_DISABLED'' ''Email and password sign up is not enabled'')
      else
        bindA (liftR (request_json b)) (\<lambda>d.
        bindA (liftR (require_fields d [''name'', ''email'', ''password''])) (\<lambda>_.
        bindA (liftR (validate_email (dget d ''email''))) (\<lambda>email.
        bindA (liftR (validate_password es (dget d ''password''))) (\<lambda>_.
        bindA (find_user_by_email es (VStr email)) (\<lambda>existing.
        bindA (liftR (hash_password_checked es dr rq (dget d ''password''))) (\<lambda>password_hash.
          let user = new_user_row d ev (dr_user_id dr) email
          in case existing of
               Some _ \<Rightarrow>
                 if generic_duplicate es then ret (generic_sign_up es user)
                 else raise (api_error 422 ''USER_ALREADY_EXISTS_USE_ANOTHER_EMAIL''
                        ''User already exists. Use another email.'')
             | None \<Rightarrow>
                 bindA
                   (catchA
                      (bindA (on_core (create_user (core es) ev user
                          (Some [(''method'', VStr ''email-password'')]) True True)) (\<lambda>created. ret (Inr created)))
                      (\<lambda>e. case e of
                             APIError status _ _ _ \<Rightarrow>
                               if status = 403 \<and> generic_duplicate es
                               then ret (Inl (generic_sign_up es (dset ''id'' (VStr (dr_other_id dr)) user)))
                               else raise e
                           | _ \<Rightarrow> raise e)) (\<lambda>outcome.
                 case outcome of
                   Inl answer \<Rightarrow> ret answer
                 | Inr None \<Rightarrow> raise (api_error 400 ''FAILED_TO_CREATE_USER'' ''Failed to create user'')
                 | Inr (Some created) \<Rightarrow> finish_sign_up es ev rq d dr password_hash created))))))))"

definition invalid_credentials :: exn where
  "invalid_credentials = api_error 401 ''INVALID_EMAIL_OR_PASSWORD'' ''Invalid email or password''"

definition account_password :: "row option \<Rightarrow> pyval" where
  "account_password account =
     (case account of None \<Rightarrow> VNone | Some a \<Rightarrow> dget a ''password'')"

text \<open>The user of the address, when the password is that of its credential account.\<close>

definition check_credentials :: "site \<Rightarrow> string \<Rightarrow> pyval \<Rightarrow> (sworld, row) action" where
  "check_credentials es email password =
     bindA (find_user_by_email es (VStr email)) (\<lambda>found.
       case found of
         None \<Rightarrow> bindA (liftR (dummy_verify password)) (\<lambda>_. raise invalid_credentials)
       | Some user \<Rightarrow>
           bindA (liftR (dindex user ''id'')) (\<lambda>uid.
           bindA (credential_account es uid) (\<lambda>account.
             if \<not> py_truthy (account_password account)
             then bindA (liftR (dummy_verify password)) (\<lambda>_. raise invalid_credentials)
             else
               bindA (liftR (check_stored es (account_password account) password)) (\<lambda>good.
                 if \<not> good then raise invalid_credentials else ret user))))"

definition sign_in_user ::
    "site \<Rightarrow> env \<Rightarrow> request \<Rightarrow> row \<Rightarrow> row \<Rightarrow> draws \<Rightarrow> (sworld, response) action" where
  "sign_in_user es ev rq d user dr =
     bindA (if es_require_verified es then liftR (dindex user ''emailVerified'') else ret (VBool True)) (\<lambda>verified.
       if \<not> py_truthy verified then
         bindA (send_verification_email es ev user (or_root (dget d ''callbackURL''))) (\<lambda>_.
           raise (api_error 403 ''EMAIL_NOT_VERIFIED'' ''Email not verified''))
       else
         (let callback_url = dget d ''callbackURL''
          in bindA (if py_truthy callback_url then liftR (ensure_trusted_url es callback_url) else ret ()) (\<lambda>_.
             bindA (liftR (dindex user ''id'')) (\<lambda>uid.
             bindA (start_session es ev rq uid (remember d) dr) (\<lambda>(session, cookies).
               ret (add_cookies cookies
                 (reply [(''redirect'', VBool (py_truthy callback_url)), (''token'', dget session ''token''),
                         (''url'', callback_url), (''user'', user_output es user)])))))))"

definition sign_in_email :: "site \<Rightarrow> env \<Rightarrow> request \<Rightarrow> body \<Rightarrow> draws \<Rightarrow> (sworld, response) action" where
  "sign_in_email es ev rq b dr =
     bindA (liftR (require_email_password_enabled es)) (\<lambda>_.
     bindA (liftR (request_json b)) (\<lambda>d.
     bindA (liftR (require_fields d [''email'', ''password''])) (\<lambda>_.
     bindA (liftR (validate_email (dget d ''email''))) (\<lambda>email.
     bindA (liftR (assert_password_not_too_long es (dget d ''password''))) (\<lambda>_.
     bindA (check_credentials es email (dget d ''password'')) (\<lambda>user.
       sign_in_user es ev rq d user dr))))))"

section \<open>Passwords of a signed-in user\<close>

definition credential_not_found :: exn where
  "credential_not_found = api_error 400 ''CREDENTIAL_ACCOUNT_NOT_FOUND'' ''Credential account not found''"

definition invalid_password :: exn where
  "invalid_password = api_error 400 ''INVALID_PASSWORD'' ''Invalid password''"

text \<open>The credential account of the user, when the password is its own.\<close>

definition confirm_password :: "site \<Rightarrow> pyval \<Rightarrow> pyval \<Rightarrow> (sworld, row) action" where
  "confirm_password es user_id password =
     bindA (credential_account es user_id) (\<lambda>account.
       case account of
         None \<Rightarrow> raise credential_not_found
       | Some a \<Rightarrow>
           if \<not> py_truthy (dget a ''password'') then raise credential_not_found
           else
             bindA (liftR (check_stored es (dget a ''password'') password)) (\<lambda>good.
               if \<not> good then raise invalid_password else ret a))"

definition status_true :: response where
  "status_true = reply [(''status'', VBool True)]"

definition change_password :: "site \<Rightarrow> env \<Rightarrow> request \<Rightarrow> body \<Rightarrow> draws \<Rightarrow> (sworld, response) action" where
  "change_password es ev rq b dr =
     bindA (require_login es ev rq) (\<lambda>login.
     bindA (liftR (request_json b)) (\<lambda>d.
     bindA (liftR (require_fields d [''newPassword'', ''currentPassword''])) (\<lambda>_.
     bindA (liftR (validate_password es (dget d ''newPassword''))) (\<lambda>_.
     bindA (liftR (assert_password_not_too_long es (dget d ''currentPassword''))) (\<lambda>_.
     bindA (liftR (dindex (va_user login) ''id'')) (\<lambda>uid.
     bindA (confirm_password es uid (dget d ''currentPassword'')) (\<lambda>account.
     bindA (liftR (dindex account ''id'')) (\<lambda>aid.
     bindA (liftR (hash_password_checked es dr rq (dget d ''newPassword''))) (\<lambda>password_hash.
     bindA (on_core (update_row (core es) ev ''account'' [Where ''id'' aid]
              [(''password'', VStr password_hash), (''updatedAt'', VDate (now ev))])) (\<lambda>_.
     bindA
       (if py_truthy (dget d ''revokeOtherSessions'') then
          bindA (on_core (delete_rows (core es) ''session'' [Where ''userId'' uid])) (\<lambda>_.
          bindA (start_session es ev rq uid True dr) (\<lambda>(session, cookies).
            ret (dget session ''token'', cookies)))
        else ret (VNone, [])) (\<lambda>(token, cookies).
       ret (add_cookies cookies
         (reply [(''token'', token), (''user'', user_output es (va_user login))])))))))))))))"

definition set_password :: "site \<Rightarrow> env \<Rightarrow> request \<Rightarrow> body \<Rightarrow> draws \<Rightarrow> (sworld, response) action" where
  "set_password es ev rq b dr =
     bindA (require_login es ev rq) (\<lambda>login.
     bindA (liftR (request_json b)) (\<lambda>d.
     bindA (liftR (require_fields d [''newPassword''])) (\<lambda>_.
     bindA (liftR (validate_password es (dget d ''newPassword''))) (\<lambda>_.
     bindA (liftR (dindex (va_user login) ''id'')) (\<lambda>uid.
     bindA (credential_account es uid) (\<lambda>account.
       if py_truthy (account_password account)
       then raise (api_error 400 ''PASSWORD_ALREADY_SET'' ''User already has a password set'')
       else
         bindA (liftR (hash_password_checked es dr rq (dget d ''newPassword''))) (\<lambda>password_hash.
         bindA
           (case account of
              Some a \<Rightarrow>
                bindA (liftR (dindex a ''id'')) (\<lambda>aid.
                  on_core (update_row (core es) ev ''account'' [Where ''id'' aid]
                    [(''password'', VStr password_hash), (''updatedAt'', VDate (now ev))]))
            | None \<Rightarrow>
                on_core (create_row (core es) ev ''account''
                  (new_account_row ev (dr_account_id dr) uid uid password_hash) True)) (\<lambda>_.
           ret status_true))))))))"

definition verify_password_handler :: "site \<Rightarrow> env \<Rightarrow> request \<Rightarrow> body \<Rightarrow> (sworld, response) action" where
  "verify_password_handler es ev rq b =
     bindA (require_login es ev rq) (\<lambda>login.
     bindA (liftR (request_json b)) (\<lambda>d.
     bindA (liftR (require_fields d [''password''])) (\<lambda>_.
     bindA (liftR (assert_password_not_too_long es (dget d ''password''))) (\<lambda>_.
     bindA (liftR (dindex (va_user login) ''id'')) (\<lambda>uid.
     bindA (confirm_password es uid (dget d ''password'')) (\<lambda>_. ret status_true))))))"

section \<open>Password reset\<close>

definition request_password_reset :: "site \<Rightarrow> env \<Rightarrow> body \<Rightarrow> draws \<Rightarrow> (sworld, response) action" where
  "request_password_reset es ev b dr =
     bindA (liftR (require_email_password_enabled es)) (\<lambda>_.
     bindA (liftR (request_json b)) (\<lambda>d.
     bindA (liftR (require_fields d [''email''])) (\<lambda>_.
       case es_send_reset es of
         None \<Rightarrow> raise (api_error 400 ''RESET_PASSWORD_NOT_ENABLED'' ''Reset password isn't enabled'')
       | Some send \<Rightarrow>
           bindA (liftR (lower_arg (dget d ''email''))) (\<lambda>email.
           bindA (find_user_by_email es (VStr email)) (\<lambda>found.
             case found of
               None \<Rightarrow> ret status_true
             | Some user \<Rightarrow>
                 bindA (liftR (dindex user ''id'')) (\<lambda>uid.
                 bindA (on_core (create_verification_value (core es) ev
                   [(''identifier'', VStr (''reset-password:'' @ dr_token dr)), (''value'', uid),
                    (''expiresAt'', VDate (now ev + es_reset_expires_in es * 1000000))] False)) (\<lambda>_.
                 let target = or_root (dget d ''redirectTo'')
                 in bindA (liftR (ensure_trusted_url es target)) (\<lambda>_.
                    bindA (liftR (str_arg target)) (\<lambda>redirect_url.
                    let url = oc_base_url (es_origin es) @ es_base_path es @ ''/reset-password/'' @ dr_token dr @
                          ''?callbackURL='' @ quote_all redirect_url
                    in bindA (notify (ResetMail user url (dr_token dr)) (send user url (dr_token dr)))
                         (\<lambda>_. ret status_true))))))))))"

definition query_get :: "request \<Rightarrow> string \<Rightarrow> string" where
  "query_get rq k = (case map_of (rq_query rq) k of Some v \<Rightarrow> v | None \<Rightarrow> [])"

definition reset_password_redirect ::
    "site \<Rightarrow> env \<Rightarrow> request \<Rightarrow> string \<Rightarrow> (sworld, response) action" where
  "reset_password_redirect es ev rq token =
     (let callback_url = query_get rq ''callbackURL''
      in if callback_url = [] then
           ret (redirect_to (oc_base_url (es_origin es) @ es_base_path es @ ''/error?error=invalid_token''))
         else
           bindA (liftR (ensure_trusted_url es (VStr callback_url))) (\<lambda>_.
           let target = (if starts_with callback_url ''http'' then callback_url
                         else oc_base_url (es_origin es) @ callback_url)
           in bindA (on_core (find_verification_value (core es) ev (''reset-password:'' @ token))) (\<lambda>found.
              bindA
                (case found of
                   None \<Rightarrow> ret True
                 | Some r \<Rightarrow> liftR (bindR (dindex r ''expiresAt'') (\<lambda>x. py_lt x (VDate (now ev))))) (\<lambda>stale.
              bindA (liftR (set_query_params es target
                       [if stale then (''error'', ''INVALID_TOKEN'') else (''token'', token)])) (\<lambda>url.
                ret (redirect_to url))))))"

definition invalid_token :: exn where
  "invalid_token = api_error 400 ''INVALID_TOKEN'' ''Invalid token''"

text \<open>Gives the credential account of the user the password, creating the account if need be.\<close>

definition store_password ::
    "site \<Rightarrow> env \<Rightarrow> draws \<Rightarrow> row \<Rightarrow> pyval \<Rightarrow> string \<Rightarrow> (sworld, unit) action" where
  "store_password es ev dr user user_id password_hash =
     bindA (credential_account es user_id) (\<lambda>account.
       case account of
         None \<Rightarrow>
           bindA (liftR (dindex user ''id'')) (\<lambda>owner.
           bindA (on_rows (mem_create (store_ad es) ev ''account''
                    (new_account_row ev (dr_account_id dr) owner user_id password_hash) [])) (\<lambda>_. ret ()))
       | Some a \<Rightarrow>
           bindA (liftR (dindex a ''id'')) (\<lambda>aid.
           bindA (on_rows (mem_update (store_ad es) ev ''account'' [Where ''id'' aid]
                    [(''password'', VStr password_hash), (''updatedAt'', VDate (now ev))])) (\<lambda>_. ret ())))"

definition finish_reset :: "site \<Rightarrow> env \<Rightarrow> request \<Rightarrow> row \<Rightarrow> draws \<Rightarrow> row \<Rightarrow> (sworld, response) action" where
  "finish_reset es ev rq d dr r =
     bindA (liftR (dindex r ''value'')) (\<lambda>user_id.
     bindA (on_rows (mem_find_one (store_ad es) ''user'' [Where ''id'' user_id] [])) (\<lambda>found.
       case found of
         None \<Rightarrow> raise (api_error 400 ''USER_NOT_FOUND'' ''User not found'')
       | Some user \<Rightarrow>
           bindA (liftR (hash_password_checked es dr rq (dget d ''newPassword''))) (\<lambda>password_hash.
           bindA (store_password es ev dr user user_id password_hash) (\<lambda>_.
           bindA (case es_on_reset es of
                    None \<Rightarrow> ret ()
                  | Some f \<Rightarrow> notify (PasswordReset user) (f user)) (\<lambda>_.
           bindA (if es_revoke_on_reset es
                  then bindA (on_rows (mem_delete_many ''session'' [Where ''userId'' user_id])) (\<lambda>_. ret ())
                  else ret ()) (\<lambda>_.
             ret status_true))))))"

definition reset_token :: "request \<Rightarrow> row \<Rightarrow> pyval" where
  "reset_token rq d = py_or (dget d ''token'') (query_value rq ''token'')"

definition reset_password :: "site \<Rightarrow> env \<Rightarrow> request \<Rightarrow> body \<Rightarrow> draws \<Rightarrow> (sworld, response) action" where
  "reset_password es ev rq b dr =
     bindA (liftR (require_email_password_enabled es)) (\<lambda>_.
     bindA (liftR (request_json b)) (\<lambda>d.
     bindA (liftR (require_fields d [''newPassword''])) (\<lambda>_.
       let token = reset_token rq d
       in if \<not> py_truthy token then raise invalid_token
          else
            bindA (liftR (validate_password es (dget d ''newPassword''))) (\<lambda>_.
            bindA (on_core (consume_verification_value (core es) ev (''reset-password:'' @ f_string es token))) (\<lambda>consumed.
              case consumed of
                None \<Rightarrow> raise invalid_token
              | Some r \<Rightarrow> finish_reset es ev rq d dr r)))))"

end
