(* ===== verification/Account_Endpoints.thy ===== *)
theory Account_Endpoints
  imports Email_Endpoints
begin

text \<open>
  \<open>endpoints.py\<close>, second half: the session routes and sign-out, updates of the session and the user,
  email verification with the change of address, the deletion of a user, and the linked accounts.
  \<open>/account-info\<close>, which calls a provider over the network, is modelled up to the choice of the account.
\<close>

section \<open>Sessions\<close>

definition query_flag :: "request \<Rightarrow> string \<Rightarrow> bool" where
  "query_flag rq name =
     (case map_of (rq_query rq) name of None \<Rightarrow> False | Some v \<Rightarrow> v \<noteq> ''false'' \<and> v \<noteq> ''0'')"

definition get_session_handler :: "site \<Rightarrow> env \<Rightarrow> request \<Rightarrow> bool \<Rightarrow> (sworld, response) action" where
  "get_session_handler es ev rq is_post =
     bindA (on_core (get_session (es_auth es) ev rq (query_flag rq ''disableCookieCache'')
              (query_flag rq ''disableRefresh'') is_post)) (\<lambda>(found, cookies).
       let answer = (case found of
             None \<Rightarrow> VNone
           | Some v \<Rightarrow> VDict ([(''session'', session_output es (va_session v)), (''user'', user_output es (va_user v))] @
                        (case va_needs_refresh v of Some n \<Rightarrow> [(''needsRefresh'', VBool n)] | None \<Rightarrow> [])))
       in ret (add_cookies cookies
            \<lparr>rs_status = 200, rs_body = answer,
             rs_headers = [(''cache-control'', ''no-store''), (''pragma'', ''no-cache'')], rs_redirect = None\<rparr>))"

definition get_session_post :: "site \<Rightarrow> env \<Rightarrow> request \<Rightarrow> (sworld, response) action" where
  "get_session_post es ev rq =
     (if \<not> au_defer (es_auth es) then
        raise (api_error 405 ''METHOD_NOT_ALLOWED_DEFER_SESSION_REQUIRED''
          ''POST method requires deferSessionRefresh to be enabled in session config'')
      else get_session_handler es ev rq True)"

text \<open>The accounts whose provider has an end-session URL, the last updated first.\<close>

definition newer_account :: "row \<Rightarrow> row \<Rightarrow> bool result" where
  "newer_account a b =
     bindR (dindex a ''updatedAt'') (\<lambda>x. bindR (dindex b ''updatedAt'') (\<lambda>y. py_lt y x))"

fun logout_accounts :: "site \<Rightarrow> row list \<Rightarrow> row list result" where
  "logout_accounts es [] = Inr []"
| "logout_accounts es (a # accounts) =
     bindR (dindex a ''providerId'') (\<lambda>p.
     bindR (logout_accounts es accounts) (\<lambda>rest.
     case p of
       VStr provider \<Rightarrow>
         if es_logout_url es provider = None then Inr rest
         else bindR (dindex a ''updatedAt'') (\<lambda>_. Inr (a # rest))
     | _ \<Rightarrow> Inr rest))"

fun first_logout_url :: "site \<Rightarrow> pyval \<Rightarrow> pyval \<Rightarrow> string list \<Rightarrow> row list \<Rightarrow> string option" where
  "first_logout_url es post_logout st seen [] = None"
| "first_logout_url es post_logout st seen (a # accounts) =
     (case dget a ''providerId'' of
        VStr provider \<Rightarrow>
          if provider \<in> set seen then first_logout_url es post_logout st seen accounts
          else
            (case es_logout_url es provider of
               None \<Rightarrow> first_logout_url es post_logout st (provider # seen) accounts
             | Some create \<Rightarrow>
                 (case create (dget a ''idToken'') post_logout st of
                    Inr url \<Rightarrow>
                      if py_truthy url then Some (f_string es url)
                      else first_logout_url es post_logout st (provider # seen) accounts
                  | Inl _ \<Rightarrow> first_logout_url es post_logout st (provider # seen) accounts))
      | _ \<Rightarrow> first_logout_url es post_logout st seen accounts)"

definition provider_logout_url :: "site \<Rightarrow> pyval \<Rightarrow> row \<Rightarrow> (sworld, string option) action" where
  "provider_logout_url es user_id d =
     bindA (on_rows (mem_find_many (store_ad es) ''account'' [Where ''userId'' user_id] None None None [])) (\<lambda>accounts.
     bindA (liftR (bindR (logout_accounts es accounts) (sort_rows newer_account))) (\<lambda>ordered.
     bindA (if py_truthy (dget d ''callbackURL'')
            then liftR (case dget d ''callbackURL'' of
                          VStr u \<Rightarrow> Inr (VStr (absolute_url es u)) | _ \<Rightarrow> Inl AttributeError)
            else ret VNone) (\<lambda>post_logout.
       ret (first_logout_url es post_logout (dget d ''state'') [] ordered))))"

text \<open>\<open>try: m except Exception: log\<close>.\<close>

definition attempt :: "('s, 'a) action \<Rightarrow> 'a \<Rightarrow> ('s, 'a) action" where
  "attempt m fallback = catchA m (\<lambda>_. ret fallback)"

definition clear_session :: "site \<Rightarrow> response \<Rightarrow> response" where
  "clear_session es rs = add_cookies (delete_session_cookies (es_auth es)) rs"

definition sign_out :: "site \<Rightarrow> request \<Rightarrow> body \<Rightarrow> (sworld, response) action" where
  "sign_out es rq b =
     bindA (liftR (request_json b)) (\<lambda>d.
     bindA
       (case read_token (es_auth es) rq of
          None \<Rightarrow> ret None
        | Some token \<Rightarrow>
            if token = [] then ret None
            else
              bindA (attempt (on_rows (mem_find_one (store_ad es) ''session'' [Where ''token'' (VStr token)] [])) None)
                (\<lambda>current.
              bindA (attempt (bindA (on_core (delete_rows (core es) ''session'' [Where ''token'' (VStr token)]))
                       (\<lambda>_. ret ())) ()) (\<lambda>_. ret current))) (\<lambda>current.
     bindA
       (case current of
          None \<Rightarrow> ret None
        | Some s \<Rightarrow>
            attempt (bindA (liftR (dindex s ''userId'')) (\<lambda>uid. provider_logout_url es uid d)) None) (\<lambda>logout_url.
       let redirect = (\<not> py_truthy (dget d ''disableRedirect''));
           response = (case logout_url of
               Some url \<Rightarrow>
                 if url = [] then reply [(''success'', VBool True)]
                 else (reply [(''success'', VBool True), (''url'', VStr url), (''redirect'', VBool redirect)])
                        \<lparr>rs_headers := (if redirect then [(''location'', url)] else [])\<rparr>
             | None \<Rightarrow> reply [(''success'', VBool True)])
       in ret (clear_session es response))))"

definition list_sessions_route :: "site \<Rightarrow> env \<Rightarrow> request \<Rightarrow> (sworld, response) action" where
  "list_sessions_route es ev rq =
     bindA (require_login es ev rq) (\<lambda>login.
     bindA (liftR (dindex (va_user login) ''id'')) (\<lambda>uid.
     bindA (on_rows (mem_find_many (store_ad es) ''session''
              [Where ''userId'' uid, WhereOp ''expiresAt'' (VDate (now ev)) OGt] None None None [])) (\<lambda>sessions.
       ret (reply_value (VList (map VDict sessions))))))"

definition revoke_session :: "site \<Rightarrow> env \<Rightarrow> request \<Rightarrow> body \<Rightarrow> (sworld, response) action" where
  "revoke_session es ev rq b =
     bindA (require_login es ev rq) (\<lambda>login.
     bindA (liftR (request_json b)) (\<lambda>d.
     bindA (liftR (require_fields d [''token''])) (\<lambda>_.
     bindA (on_rows (mem_find_one (store_ad es) ''session'' [Where ''token'' (dget d ''token'')] [])) (\<lambda>found.
     bindA
       (case found of
          None \<Rightarrow> ret False
        | Some s \<Rightarrow> liftR (bindR (dindex s ''userId'') (\<lambda>owner.
                          bindR (dindex (va_user login) ''id'') (\<lambda>uid. Inr (py_eq owner uid))))) (\<lambda>own.
     bindA (if own then bindA (on_rows (mem_delete_many ''session'' [Where ''token'' (dget d ''token'')])) (\<lambda>_. ret ())
            else ret ()) (\<lambda>_.
       ret status_true))))))"

definition revoke_sessions :: "site \<Rightarrow> env \<Rightarrow> request \<Rightarrow> (sworld, response) action" where
  "revoke_sessions es ev rq =
     bindA (require_login es ev rq) (\<lambda>login.
     bindA (liftR (dindex (va_user login) ''id'')) (\<lambda>uid.
     bindA (on_rows (mem_delete_many ''session'' [Where ''userId'' uid])) (\<lambda>_.
       ret status_true)))"

definition revoke_other_sessions :: "site \<Rightarrow> env \<Rightarrow> request \<Rightarrow> (sworld, response) action" where
  "revoke_other_sessions es ev rq =
     bindA (require_login es ev rq) (\<lambda>login.
     bindA (liftR (dindex (va_user login) ''id'')) (\<lambda>uid.
     bindA (liftR (dindex (va_session login) ''token'')) (\<lambda>token.
     bindA (on_rows (mem_delete_many ''session'' [Where ''userId'' uid, WhereOp ''token'' token ONe])) (\<lambda>_.
       ret status_true))))"

text \<open>\<open>updated or {**old, **updates}\<close>.\<close>

definition or_merged :: "row option \<Rightarrow> row \<Rightarrow> row \<Rightarrow> row" where
  "or_merged updated old updates =
     (case updated of Some r \<Rightarrow> if r \<noteq> [] then r else dmerge old updates | None \<Rightarrow> dmerge old updates)"

definition no_fields :: exn where
  "no_fields = api_error 400 ''BAD_REQUEST'' ''No fields to update''"

definition update_session_route :: "site \<Rightarrow> env \<Rightarrow> request \<Rightarrow> body \<Rightarrow> (sworld, response) action" where
  "update_session_route es ev rq b =
     bindA (require_login es ev rq) (\<lambda>login.
     bindA (liftR (request_json b)) (\<lambda>d.
     bindA (liftR (parse_input_data (now ev) d (es_input_fields es ''session'') ''update'')) (\<lambda>parsed.
       if parsed = [] then raise no_fields
       else
         (let updates = dset ''updatedAt'' (VDate (now ev)) parsed
          in bindA (liftR (dindex (va_session login) ''token'')) (\<lambda>token.
             bindA (on_core (update_row (core es) ev ''session'' [Where ''token'' token] updates)) (\<lambda>updated.
             let session = or_merged updated (va_session login) updates
             in bindA (liftR (set_session_cookies (es_auth es) ev rq session (va_user login))) (\<lambda>cookies.
                  ret (add_cookies cookies (reply [(''session'', session_output es session)])))))))))"

section \<open>Updating the user\<close>

definition pick_key :: "row \<Rightarrow> string \<Rightarrow> row" where
  "pick_key d k = (case map_of d k of None \<Rightarrow> [] | Some v \<Rightarrow> [(k, v)])"

definition update_user_route :: "site \<Rightarrow> env \<Rightarrow> request \<Rightarrow> body \<Rightarrow> (sworld, response) action" where
  "update_user_route es ev rq b =
     bindA (require_login es ev rq) (\<lambda>login.
     bindA (liftR (request_json b)) (\<lambda>d.
       if py_truthy (dget d ''email'')
       then raise (api_error 400 ''EMAIL_CAN_NOT_BE_UPDATED'' ''Email can not be updated'')
       else
         bindA (liftR (parse_input_data (now ev) d (es_input_fields es ''user'') ''update'')) (\<lambda>parsed.
         let given = dmerge (pick_key d ''name'' @ pick_key d ''image'') parsed
         in if given = [] then raise no_fields
            else
              (let updates = dset ''updatedAt'' (VDate (now ev)) given
               in bindA (liftR (dindex (va_user login) ''id'')) (\<lambda>uid.
                  bindA (on_core (update_row (core es) ev ''user'' [Where ''id'' uid] updates)) (\<lambda>updated.
                  bindA (liftR (set_session_cookies (es_auth es) ev rq (va_session login)
                           (or_merged updated (va_user login) updates))) (\<lambda>cookies.
                    ret (add_cookies cookies status_true))))))))"

section \<open>Verifying an address\<close>

definition send_verification_email_handler :: "site \<Rightarrow> env \<Rightarrow> body \<Rightarrow> (sworld, response) action" where
  "send_verification_email_handler es ev b =
     (case es_send_verify es of
        None \<Rightarrow> raise (api_error 400 ''VERIFICATION_EMAIL_NOT_ENABLED'' ''Verification email isn't enabled'')
      | Some _ \<Rightarrow>
          bindA (liftR (request_json b)) (\<lambda>d.
          bindA (liftR (require_fields d [''email''])) (\<lambda>_.
          bindA (liftR (validate_email (dget d ''email''))) (\<lambda>email.
          bindA (find_user_by_email es (VStr email)) (\<lambda>found.
            case found of
              None \<Rightarrow> raise (api_error 400 ''USER_NOT_FOUND'' ''User not found'')
            | Some user \<Rightarrow>
                bindA (liftR (ensure_trusted_url es (or_root (dget d ''callbackURL'')))) (\<lambda>_.
                bindA (send_verification_email es ev user (or_root (dget d ''callbackURL''))) (\<lambda>_.
                  ret status_true)))))))"

text \<open>The closures \<open>fail\<close> and \<open>succeed\<close> of \<open>verify_email\<close>; the callback URL is empty without one.\<close>

definition verify_fail :: "site \<Rightarrow> string \<Rightarrow> string \<Rightarrow> (sworld, response) action" where
  "verify_fail es callback_url code =
     (if callback_url \<noteq> [] then
        bindA (liftR (append_query_params (oc_bracketed (es_origin es)) (absolute_url es callback_url)
                 [(''error'', code)])) (\<lambda>url. ret (redirect_to url))
      else raise (api_error 401 code (code_message code)))"

definition verify_succeed :: "site \<Rightarrow> string \<Rightarrow> row option \<Rightarrow> string list \<Rightarrow> response" where
  "verify_succeed es callback_url user cookies =
     add_cookies cookies
       (if callback_url \<noteq> [] then redirect_to (absolute_url es callback_url)
        else reply [(''status'', VBool True), (''user'', case user of Some u \<Rightarrow> VDict u | None \<Rightarrow> VNone)])"

text \<open>The cookies of the session at hand for the changed user, or of a new session.\<close>

definition change_cookies ::
    "site \<Rightarrow> env \<Rightarrow> request \<Rightarrow> validated option \<Rightarrow> row \<Rightarrow> draws \<Rightarrow> (sworld, string list) action" where
  "change_cookies es ev rq login user dr =
     (case login of
        Some v \<Rightarrow> liftR (set_session_cookies (es_auth es) ev rq (va_session v) user)
      | None \<Rightarrow>
          bindA (liftR (dindex user ''id'')) (\<lambda>uid.
          bindA (start_session es ev rq uid True dr) (\<lambda>(_, cookies). ret cookies)))"

definition mail_token :: "site \<Rightarrow> row \<Rightarrow> string \<Rightarrow> string \<Rightarrow> (sworld, unit) action" where
  "mail_token es user token callback_url =
     (case es_send_verify es of
        None \<Rightarrow> ret ()
      | Some send \<Rightarrow>
          (let url = verify_email_url es token callback_url
           in notify (VerifyMail user url token) (send user url token)))"

definition or_slash :: "string \<Rightarrow> string" where
  "or_slash s = (if s \<noteq> [] then s else ''/'')"

definition verify_change_email ::
    "site \<Rightarrow> env \<Rightarrow> request \<Rightarrow> row \<Rightarrow> pyval \<Rightarrow> pyval \<Rightarrow> pyval \<Rightarrow> string \<Rightarrow> draws \<Rightarrow> (sworld, response) action" where
  "verify_change_email es ev rq user email update_to request_type callback_url dr =
     bindA (load_session es ev rq) (\<lambda>login.
     bindA
       (case login of
          None \<Rightarrow> ret False
        | Some v \<Rightarrow> liftR (bindR (dindex (va_user v) ''email'') (\<lambda>e. Inr (\<not> py_eq e email)))) (\<lambda>foreign.
       if foreign then verify_fail es callback_url ''INVALID_USER''
       else if request_type = VStr ''change-email-confirmation'' then
         bindA (liftR (sign_email_verification_token es ev email update_to
                  [(''requestType'', VStr ''change-email-verification'')])) (\<lambda>token.
         bindA (mail_token es (dset ''email'' update_to user) token (or_slash callback_url)) (\<lambda>_.
           ret (if callback_url \<noteq> [] then redirect_to (absolute_url es callback_url) else status_true)))
       else
         (let confirmed = (request_type = VStr ''change-email-verification'')
          in bindA (liftR (dindex user ''id'')) (\<lambda>uid.
             bindA (on_rows (mem_update (store_ad es) ev ''user'' [Where ''id'' uid]
                      [(''email'', update_to), (''emailVerified'', VBool confirmed), (''updatedAt'', VDate (now ev))]))
               (\<lambda>updated.
             let changed = or_merged updated user [(''email'', update_to), (''emailVerified'', VBool confirmed)]
             in bindA
                  (if confirmed \<or> es_send_verify es = None then ret ()
                   else bindA (liftR (sign_email_verification_token es ev update_to VNone [])) (\<lambda>token.
                        mail_token es changed token (or_slash callback_url))) (\<lambda>_.
                bindA (change_cookies es ev rq login changed dr) (\<lambda>cookies.
                  ret (verify_succeed es callback_url (Some changed) cookies))))))))"

definition verify_email :: "site \<Rightarrow> env \<Rightarrow> request \<Rightarrow> draws \<Rightarrow> (sworld, response) action" where
  "verify_email es ev rq dr =
     (let token = query_get rq ''token''; callback_url = query_get rq ''callbackURL''
      in bindA (if callback_url \<noteq> [] then liftR (ensure_trusted_url es (VStr callback_url)) else ret ()) (\<lambda>_.
         if token = [] then verify_fail es callback_url ''INVALID_TOKEN''
         else
           (case decode_email_verification_token es ev token of
              Inl ExpiredSignature \<Rightarrow> verify_fail es callback_url ''TOKEN_EXPIRED''
            | Inl InvalidToken \<Rightarrow> verify_fail es callback_url ''INVALID_TOKEN''
            | Inr payload \<Rightarrow>
                (let email = dget payload ''email''
                 in bindA (if py_truthy email then find_user_by_email es email else ret None) (\<lambda>found.
                    case found of
                      None \<Rightarrow> verify_fail es callback_url ''USER_NOT_FOUND''
                    | Some user \<Rightarrow>
                        if py_truthy (dget payload ''updateTo'') then
                          verify_change_email es ev rq user email (dget payload ''updateTo'')
                            (dget payload ''requestType'') callback_url dr
                        else
                          bindA (liftR (dindex user ''emailVerified'')) (\<lambda>verified.
                          bindA
                            (if py_truthy verified then ret ()
                             else bindA (liftR (dindex user ''id'')) (\<lambda>uid.
                                  bindA (on_rows (mem_update (store_ad es) ev ''user'' [Where ''id'' uid]
                                    [(''emailVerified'', VBool True), (''updatedAt'', VDate (now ev))])) (\<lambda>_. ret ()))) (\<lambda>_.
                          bindA
                            (if es_auto_after_verify es
                             then bindA (liftR (dindex user ''id'')) (\<lambda>uid.
                                  bindA (start_session es ev rq uid True dr) (\<lambda>(_, cookies). ret cookies))
                             else ret []) (\<lambda>cookies.
                            ret (verify_succeed es callback_url None cookies)))))))))"

end
