(* ===== verification/User_Endpoints.thy ===== *)
theory User_Endpoints
  imports Account_Endpoints
begin

text \<open>
  \<open>endpoints.py\<close>, last part: asking for a change of address, the deletion of a user, the linked
  accounts and the error page. Of \<open>/account-info\<close> the choice of the account is modelled; the call of
  the provider that follows is network code.
\<close>

section \<open>Asking for a change of address\<close>

definition email_disabled :: exn where
  "email_disabled = api_error 400 ''BAD_REQUEST'' ''Verification email isn't enabled''"

definition can_skip_verification :: "site \<Rightarrow> pyval \<Rightarrow> bool" where
  "can_skip_verification es verified \<longleftrightarrow> verified \<noteq> VBool True \<and> es_update_unverified es"

definition change_email :: "site \<Rightarrow> env \<Rightarrow> request \<Rightarrow> body \<Rightarrow> (sworld, response) action" where
  "change_email es ev rq b =
     bindA (require_login es ev rq) (\<lambda>login.
       let user = va_user login
       in if \<not> es_change_enabled es
          then raise (api_error 400 ''CHANGE_EMAIL_DISABLED'' ''Change email is disabled'')
          else
            bindA (liftR (request_json b)) (\<lambda>d.
            bindA (liftR (require_fields d [''newEmail''])) (\<lambda>_.
            bindA (liftR (validate_email (dget d ''newEmail''))) (\<lambda>new_email.
            bindA (liftR (dindex user ''email'')) (\<lambda>email.
              if py_eq (VStr new_email) email then raise (api_error 400 ''BAD_REQUEST'' ''Email is the same'')
              else
                bindA (liftR (dindex user ''emailVerified'')) (\<lambda>verified.
                let skip = can_skip_verification es verified;
                    can_confirm = (es_send_verify es \<noteq> None \<and> py_truthy verified \<and> es_send_change es \<noteq> None);
                    callback_url = or_root (dget d ''callbackURL'')
                in if \<not> skip \<and> \<not> can_confirm \<and> es_send_verify es = None then raise email_disabled
                   else
                     bindA (find_user_by_email es (VStr new_email)) (\<lambda>existing.
                       if existing \<noteq> None then
                         bindA (liftR (sign_email_verification_token es ev email (VStr new_email) [])) (\<lambda>_.
                           ret status_true)
                       else if skip then
                         bindA (liftR (dindex user ''id'')) (\<lambda>uid.
                         bindA (on_rows (mem_update (store_ad es) ev ''user'' [Where ''id'' uid]
                                  [(''email'', VStr new_email), (''updatedAt'', VDate (now ev))])) (\<lambda>updated.
                         bindA (liftR (set_session_cookies (es_auth es) ev rq (va_session login)
                                  (or_merged updated user [(''email'', VStr new_email)]))) (\<lambda>cookies.
                         bindA
                           (if es_send_verify es = None then ret ()
                            else
                              bindA (liftR (sign_email_verification_token es ev (VStr new_email) VNone [])) (\<lambda>token.
                              bindA (liftR (str_arg callback_url)) (\<lambda>cb.
                                mail_token es (dset ''email'' (VStr new_email) user) token cb))) (\<lambda>_.
                           ret (add_cookies cookies status_true)))))
                       else
                         bindA (liftR (sign_email_verification_token es ev email (VStr new_email)
                                  [(''requestType'', VStr (if can_confirm then ''change-email-confirmation''
                                                           else ''change-email-verification''))])) (\<lambda>token.
                         bindA (liftR (str_arg callback_url)) (\<lambda>cb.
                         bindA
                           (case es_send_change es of
                              Some send \<Rightarrow>
                                if can_confirm then
                                  (let url = verify_email_url es token cb
                                   in notify (ChangeMail user new_email url token) (send user new_email url token))
                                else mail_token es (dset ''email'' (VStr new_email) user) token cb
                            | None \<Rightarrow> mail_token es (dset ''email'' (VStr new_email) user) token cb) (\<lambda>_.
                           ret status_true))))))))))"

section \<open>Deleting a user\<close>

definition call_hook :: "event \<Rightarrow> (row \<Rightarrow> unit result) option \<Rightarrow> row \<Rightarrow> (sworld, unit) action" where
  "call_hook e hook user = (case hook of None \<Rightarrow> ret () | Some f \<Rightarrow> notify e (f user))"

definition purge_user :: "site \<Rightarrow> row \<Rightarrow> bool \<Rightarrow> (sworld, unit) action" where
  "purge_user es user cascade_accounts =
     bindA (call_hook (BeforeDelete user) (es_before_delete es) user) (\<lambda>_.
     bindA (liftR (dindex user ''id'')) (\<lambda>uid.
     bindA (on_rows (mem_delete_many ''user'' [Where ''id'' uid])) (\<lambda>_.
     bindA (on_rows (mem_delete_many ''session'' [Where ''userId'' uid])) (\<lambda>_.
     bindA (if cascade_accounts
            then bindA (on_rows (mem_delete_many ''account'' [Where ''userId'' uid])) (\<lambda>_. ret ())
            else ret ()) (\<lambda>_.
       call_hook (AfterDelete user) (es_after_delete es) user)))))"

definition not_found :: exn where
  "not_found = api_error 404 ''NOT_FOUND'' ''Not found''"

definition consume_delete_token :: "site \<Rightarrow> env \<Rightarrow> row \<Rightarrow> pyval \<Rightarrow> (sworld, unit) action" where
  "consume_delete_token es ev user token =
     bindA (on_core (consume_verification_value (core es) ev (''delete-account-'' @ f_string es token))) (\<lambda>consumed.
     bindA
       (case consumed of
          None \<Rightarrow> ret False
        | Some r \<Rightarrow> liftR (bindR (dindex r ''value'') (\<lambda>v. bindR (dindex user ''id'') (\<lambda>uid. Inr (py_eq v uid)))))
       (\<lambda>own.
       if own then ret () else raise (api_error 404 ''INVALID_TOKEN'' ''Invalid token'')))"

definition user_deleted :: response where
  "user_deleted = reply [(''success'', VBool True), (''message'', VStr ''User deleted'')]"

text \<open>Whether the session is old: \<open>(utcnow() - createdAt).total_seconds() >= fresh_age\<close>.\<close>

definition stale_session :: "site \<Rightarrow> env \<Rightarrow> row \<Rightarrow> bool result" where
  "stale_session es ev session =
     bindR (date_of session ''createdAt'') (\<lambda>created. Inr (now ev - created \<ge> es_fresh_age es * 1000000))"

definition delete_user_route :: "site \<Rightarrow> env \<Rightarrow> request \<Rightarrow> body \<Rightarrow> draws \<Rightarrow> (sworld, response) action" where
  "delete_user_route es ev rq b dr =
     (if \<not> es_delete_enabled es then raise not_found
      else
        bindA (require_login es ev rq) (\<lambda>login.
        bindA (liftR (request_json b)) (\<lambda>d.
        let user = va_user login; password = dget d ''password''
        in bindA
             (if py_truthy password then
                bindA (liftR (assert_password_not_too_long es password)) (\<lambda>_.
                bindA (liftR (dindex user ''id'')) (\<lambda>uid.
                bindA (confirm_password es uid password) (\<lambda>_. ret ())))
              else ret ()) (\<lambda>_.
           if py_truthy (dget d ''token'') then
             bindA (consume_delete_token es ev user (dget d ''token'')) (\<lambda>_.
             bindA (purge_user es user True) (\<lambda>_.
               ret (clear_session es user_deleted)))
           else
             (case es_send_delete es of
                Some send \<Rightarrow>
                  bindA (liftR (dindex user ''id'')) (\<lambda>uid.
                  bindA (on_core (create_verification_value (core es) ev
                    [(''identifier'', VStr (''delete-account-'' @ dr_token dr)), (''value'', uid),
                     (''expiresAt'', VDate (now ev + es_delete_expires_in es * 1000000))] False)) (\<lambda>_.
                  bindA (liftR (str_arg (or_root (dget d ''callbackURL'')))) (\<lambda>cb.
                  let url = oc_base_url (es_origin es) @ es_base_path es @ ''/delete-user/callback?token='' @ dr_token dr @
                        ''&callbackURL='' @ quote_all cb
                  in bindA (notify (DeleteMail user url (dr_token dr)) (send user url (dr_token dr))) (\<lambda>_.
                       ret (reply [(''success'', VBool True), (''message'', VStr ''Verification email sent'')])))))
              | None \<Rightarrow>
                  bindA (if \<not> py_truthy password \<and> es_fresh_age es \<noteq> 0
                         then liftR (stale_session es ev (va_session login)) else ret False) (\<lambda>stale.
                    if stale then raise (api_error 400 ''SESSION_EXPIRED'' ''Session is not fresh'')
                    else
                      bindA (purge_user es user False) (\<lambda>_. ret (clear_session es user_deleted)))))) ))"

definition delete_user_callback :: "site \<Rightarrow> env \<Rightarrow> request \<Rightarrow> (sworld, response) action" where
  "delete_user_callback es ev rq =
     (if \<not> es_delete_enabled es then raise not_found
      else
        bindA (load_session es ev rq) (\<lambda>found.
          case found of
            None \<Rightarrow> raise (api_error 404 ''FAILED_TO_GET_USER_INFO'' ''Failed to get user info'')
          | Some login \<Rightarrow>
              bindA (consume_delete_token es ev (va_user login) (query_value rq ''token'')) (\<lambda>_.
              bindA (purge_user es (va_user login) True) (\<lambda>_.
              let callback_url = query_get rq ''callbackURL''
              in if callback_url \<noteq> [] then
                   bindA (liftR (ensure_trusted_url es (VStr callback_url))) (\<lambda>_.
                     ret (clear_session es (redirect_to (absolute_url es callback_url))))
                 else ret (clear_session es user_deleted)))))"

section \<open>Linked accounts\<close>

text \<open>\<open>parse_stored_scopes\<close> of \<open>oauth/flow.py\<close>: \<open>re.split(r"[,\s]+", scope or "")\<close> without empty parts.\<close>

fun split_scopes :: "string \<Rightarrow> string \<Rightarrow> string list" where
  "split_scopes acc [] = (if acc = [] then [] else [rev acc])"
| "split_scopes acc (c # s) =
     (if c = CHR '','' \<or> is_space c
      then (if acc = [] then split_scopes [] s else rev acc # split_scopes [] s)
      else split_scopes (c # acc) s)"

definition parse_stored_scopes :: "pyval \<Rightarrow> string list result" where
  "parse_stored_scopes v =
     (if \<not> py_truthy v then Inr [] else bindR (str_arg v) (\<lambda>s. Inr (split_scopes [] s)))"

definition account_item :: "site \<Rightarrow> row \<Rightarrow> pyval result" where
  "account_item es account =
     (let item = parse_account_output account (Some (fields_of (au_schema (es_auth es)) ''account''))
      in bindR (parse_stored_scopes (dget item ''scope'')) (\<lambda>scopes.
           Inr (VDict (dset ''scopes'' (VList (map VStr scopes)) (ddrop ''scope'' item)))))"

fun account_items :: "site \<Rightarrow> row list \<Rightarrow> pyval list result" where
  "account_items es [] = Inr []"
| "account_items es (a # accounts) =
     bindR (account_item es a) (\<lambda>item. bindR (account_items es accounts) (\<lambda>rest. Inr (item # rest)))"

definition user_accounts :: "site \<Rightarrow> pyval \<Rightarrow> (sworld, row list) action" where
  "user_accounts es user_id =
     on_rows (mem_find_many (store_ad es) ''account'' [Where ''userId'' user_id] None None None [])"

definition list_accounts :: "site \<Rightarrow> env \<Rightarrow> request \<Rightarrow> (sworld, response) action" where
  "list_accounts es ev rq =
     bindA (require_login es ev rq) (\<lambda>login.
     bindA (liftR (dindex (va_user login) ''id'')) (\<lambda>uid.
     bindA (user_accounts es uid) (\<lambda>accounts.
     bindA (liftR (account_items es accounts)) (\<lambda>items.
       ret (reply_value (VList items))))))"

definition require_fresh_session :: "site \<Rightarrow> env \<Rightarrow> request \<Rightarrow> (sworld, validated) action" where
  "require_fresh_session es ev rq =
     bindA (require_login es ev rq) (\<lambda>login.
     bindA (if es_fresh_age es \<noteq> 0 then liftR (stale_session es ev (va_session login)) else ret False) (\<lambda>stale.
       if stale then raise (api_error 403 ''SESSION_NOT_FRESH'' ''Session is not fresh'') else ret login))"

definition account_not_found :: exn where
  "account_not_found = api_error 400 ''ACCOUNT_NOT_FOUND'' ''Account not found''"

definition last_account :: exn where
  "last_account = api_error 400 ''FAILED_TO_UNLINK_LAST_ACCOUNT'' ''You can't unlink your last account''"

fun keep_matching :: "(row \<Rightarrow> bool result) \<Rightarrow> row list \<Rightarrow> row list result" where
  "keep_matching p [] = Inr []"
| "keep_matching p (r # rs) =
     bindR (p r) (\<lambda>hit. bindR (keep_matching p rs) (\<lambda>rest. Inr (if hit then r # rest else rest)))"

text \<open>\<open>next((a for a in accounts if p(a)), None)\<close>.\<close>

fun first_matching :: "(row \<Rightarrow> bool result) \<Rightarrow> row list \<Rightarrow> row option result" where
  "first_matching p [] = Inr None"
| "first_matching p (r # rs) = bindR (p r) (\<lambda>hit. if hit then Inr (Some r) else first_matching p rs)"

definition has_field :: "string \<Rightarrow> pyval \<Rightarrow> row \<Rightarrow> bool result" where
  "has_field k v r = bindR (dindex r k) (\<lambda>x. Inr (py_eq x v))"

definition both :: "bool result \<Rightarrow> bool result \<Rightarrow> bool result" where
  "both a b = bindR a (\<lambda>x. if x then b else Inr False)"

fun unlink_accounts :: "site \<Rightarrow> row list \<Rightarrow> (sworld, unit) action" where
  "unlink_accounts es [] = ret ()"
| "unlink_accounts es (a # accounts) =
     bindA (liftR (dindex a ''id'')) (\<lambda>aid.
     bindA (on_core (delete_one (core es) ''account'' [Where ''id'' aid])) (\<lambda>_. unlink_accounts es accounts))"

definition legacy_unlink_account :: "site \<Rightarrow> pyval \<Rightarrow> row \<Rightarrow> (sworld, response) action" where
  "legacy_unlink_account es user_id d =
     bindA (user_accounts es user_id) (\<lambda>accounts.
     bindA (liftR (keep_matching (\<lambda>a.
              both (has_field ''providerId'' (dget d ''providerId'') a)
                (if \<not> py_truthy (dget d ''accountId'') then Inr True
                 else has_field ''accountId'' (dget d ''accountId'') a)) accounts)) (\<lambda>matching.
       if matching = [] then raise account_not_found
       else if \<not> es_allow_unlinking_all es \<and> length accounts - length matching < 1 then raise last_account
       else bindA (unlink_accounts es matching) (\<lambda>_. ret status_true)))"

definition unlink_account :: "site \<Rightarrow> env \<Rightarrow> request \<Rightarrow> body \<Rightarrow> (sworld, response) action" where
  "unlink_account es ev rq b =
     bindA (require_fresh_session es ev rq) (\<lambda>login.
     bindA (liftR (request_json b)) (\<lambda>d.
     bindA (liftR (dindex (va_user login) ''id'')) (\<lambda>uid.
       if es_legacy_selection es \<and> has_key d ''providerId'' then legacy_unlink_account es uid d
       else if fst ` set d \<noteq> {''accountId''} \<or> \<not> is_str (dget d ''accountId'')
         then raise (api_error 400 ''INVALID_BODY'' ([CHR 0x27] @ ''accountId'' @ [CHR 0x27] @ '' is required''))
       else
         bindA (user_accounts es uid) (\<lambda>accounts.
           if length accounts = 1 \<and> \<not> es_allow_unlinking_all es then raise last_account
           else
             bindA (liftR (first_matching (has_field ''id'' (dget d ''accountId'')) accounts)) (\<lambda>found.
               case found of
                 None \<Rightarrow> raise account_not_found
               | Some account \<Rightarrow>
                   bindA (liftR (dindex account ''id'')) (\<lambda>aid.
                   bindA (on_core (delete_one (core es) ''account'' [Where ''id'' aid])) (\<lambda>_. ret status_true)))))))"

section \<open>Choosing an account\<close>

definition account_selection :: "row \<Rightarrow> row result" where
  "account_selection d =
     (let keys = fst ` set d - {''userId''}
      in if keys = {''accountId''} \<and> is_str (dget d ''accountId'') then Inr d
         else if keys = {''useAccountCookie''} \<and>
                 (py_eq (dget d ''useAccountCookie'') (VBool True) \<or> dget d ''useAccountCookie'' = VStr ''true'')
         then Inr d
         else Inl (api_error 400 ''INVALID_BODY'' ''Pass either accountId or useAccountCookie''))"

definition resolve_user_account :: "site \<Rightarrow> pyval \<Rightarrow> row \<Rightarrow> (sworld, row) action" where
  "resolve_user_account es user_id selection =
     (if has_key selection ''accountId'' then
        bindA (user_accounts es user_id) (\<lambda>accounts.
        bindA (liftR (first_matching (has_field ''id'' (dget selection ''accountId'')) accounts)) (\<lambda>found.
          case found of Some a \<Rightarrow> ret a | None \<Rightarrow> raise account_not_found))
      else raise account_not_found)"

definition legacy_account_info_account :: "site \<Rightarrow> pyval \<Rightarrow> row \<Rightarrow> (sworld, row) action" where
  "legacy_account_info_account es user_id q =
     bindA (user_accounts es user_id) (\<lambda>accounts.
     let account_id = dget q ''accountId''; provider_id = dget q ''providerId''
     in bindA
          (if provider_id = VNone then liftR (first_matching (has_field ''id'' account_id) accounts) else ret None)
          (\<lambda>by_row.
          case by_row of
            Some a \<Rightarrow> ret a
          | None \<Rightarrow>
              bindA (liftR (keep_matching (\<lambda>a.
                       if \<not> py_truthy account_id then Inr False
                       else both (has_field ''accountId'' account_id a)
                              (if \<not> py_truthy provider_id then Inr True else has_field ''providerId'' provider_id a))
                     accounts)) (\<lambda>matching.
                if length matching > 1 then
                  raise (api_error 400 ''AMBIGUOUS_ACCOUNT''
                    ''Multiple accounts share this account ID. Pass a providerId to disambiguate.'')
                else case matching of [] \<Rightarrow> raise account_not_found | a # _ \<Rightarrow> ret a)))"

section \<open>The error page\<close>

definition safe_error_char :: "char \<Rightarrow> bool" where
  "safe_error_char c \<longleftrightarrow> c = CHR 0x27 \<or> is_alnum c \<or> c = CHR ''_'' \<or> c = CHR ''-''"

definition shown_error_char :: "char \<Rightarrow> bool" where
  "shown_error_char c \<longleftrightarrow> is_alnum c \<or> c \<in> set ''_- .''"

text \<open>The redirect to the page of the application, or the code shown on the built-in page.\<close>

definition error_page :: "site \<Rightarrow> string \<Rightarrow> request \<Rightarrow> (string + string) result" where
  "error_page es error_url rq =
     (let raw_error = (case map_of (rq_query rq) ''error'' of Some v \<Rightarrow> v | None \<Rightarrow> ''Unknown error'')
      in if error_url \<noteq> [] then
           (let code = (if raw_error \<noteq> [] \<and> list_all safe_error_char raw_error then raw_error else ''UNKNOWN'');
                description = query_get rq ''error_description''
            in bindR (append_query_params (oc_bracketed (es_origin es)) error_url
                 ((''error'', code) # (if description \<noteq> [] then [(''error_description'', description)] else [])))
               (\<lambda>url. Inr (Inl url)))
         else Inr (Inr (filter shown_error_char raw_error)))"

end
