(* ===== verification/Endpoint_Props.thy ===== *)
theory Endpoint_Props
  imports User_Endpoints Session_Props Internal_Claims
begin

text \<open>
  Laws the claims about the endpoints share: the state of a request, look-ups on the memory adapter,
  passwords, and inversion of the handlers.
\<close>

section \<open>Look-ups\<close>

definition table :: "sworld \<Rightarrow> string \<Rightarrow> row list" where
  "table w m = rows_of (iw_db (sw_int w)) m"

text \<open>What the clause \<open>Where f v\<close> asks of a row.\<close>

definition is_field :: "row \<Rightarrow> string \<Rightarrow> pyval \<Rightarrow> bool" where
  "is_field r f v \<longleftrightarrow> (if v = VNone then dget r f = VNone else py_eq (dget r f) v)"

lemma is_field_str [simp]: "is_field r f (VStr s) \<longleftrightarrow> dget r f = VStr s"
  by (simp add: is_field_def)

lemma matches_fields:
  "matches r (map (\<lambda>(f, v). Where f v) fvs) = Inr (list_all (\<lambda>(f, v). is_field r f v) fvs)"
  by (simp add: matches_Wheres is_field_def[abs_def])

lemma matches_field1: "matches r [Where f v] = Inr (is_field r f v)"
  using matches_fields[of r "[(f, v)]"] by simp

lemma matches_field3:
  "matches r [Where f v, Where g u, Where h t] = Inr (is_field r f v \<and> is_field r g u \<and> is_field r h t)"
  using matches_fields[of r "[(f, v), (g, u), (h, t)]"] by simp

lemma safe_fields [simp]: "safe [Where f v] rs" "safe [Where f v, Where g u, Where h t] rs"
  by (simp_all add: safe_def matches_field1 matches_field3)

lemma sel_field1: "sel [Where f v] = (\<lambda>r. is_field r f v)"
  by (simp add: fun_eq_iff sel_def matches_field1)

lemma sel_field3:
  "sel [Where f v, Where g u, Where h t] = (\<lambda>r. is_field r f v \<and> is_field r g u \<and> is_field r h t)"
  by (simp add: fun_eq_iff sel_def matches_field3)

lemma world_same [simp]: "w\<lparr>sw_int := sw_int w\<rparr> = w" "i\<lparr>iw_db := iw_db i\<rparr> = i"
  by simp_all

lemma find_row_step:
  assumes "native ad" "safe wh (table w m)"
  shows "bindA (on_rows (mem_find_one ad m wh [])) f w = f (List.find (sel wh) (table w m)) w"
  using assms by (simp add: bindA_def on_rows_def on_core_def on_db_def mem_find_one_safe table_def)

lemma find_user_step:
  assumes "native (store_ad es)"
  shows "bindA (find_user_by_email es v) f w = f (List.find (\<lambda>r. is_field r ''email'' v) (table w ''user'')) w"
  using assms by (simp add: find_user_by_email_def find_row_step sel_field1)

text \<open>The credential account of a user.\<close>

definition credential_of :: "pyval \<Rightarrow> row \<Rightarrow> bool" where
  "credential_of uid a \<longleftrightarrow>
     is_field a ''userId'' uid \<and> dget a ''providerId'' = VStr ''credential'' \<and> is_field a ''accountId'' uid"

lemma find_credential_step:
  assumes "native (store_ad es)"
  shows "bindA (credential_account es uid) f w = f (List.find (credential_of uid) (table w ''account'')) w"
  using assms by (simp add: credential_account_def find_row_step sel_field3 credential_of_def[abs_def])

lemma bind_lift: "bindA (liftR m) f w = (case m of Inl e \<Rightarrow> (Inl e, w) | Inr a \<Rightarrow> f a w)"
  by (cases m) simp_all

lemma bind_liftE:
  assumes "bindA (liftR m) f w = (Inr x, w')"
  obtains a where "m = Inr a" "f a w = (Inr x, w')"
  using assms by (cases m) simp_all

section \<open>Passwords\<close>

lemma bytes_hex_Nil: "bytes_hex bs = [] \<longleftrightarrow> bs = []"
  by (cases bs) (simp_all add: bytes_hex_def hex_byte_def)

lemma partition_hash:
  assumes "CHR '':'' \<notin> set salt"
  shows "partition_at CHR '':'' (salt @ '':'' @ h) = (salt, True, h)"
  using partition_at_split[of "CHR '':''" salt h] assms by simp

text \<open>A stored password verifies against exactly the derivation it was made from.\<close>

lemma verify_hash:
  assumes "salt \<noteq> []" "CHR '':'' \<notin> set salt" "scrypt password salt \<noteq> []"
  shows "verify_password scrypt (hash_password scrypt salt password) password' \<longleftrightarrow>
    bytes_hex (scrypt password' salt) = bytes_hex (scrypt password salt)"
  using assms by (simp only: verify_password_def hash_password_def partition_hash[OF assms(2)] prod.case) (simp add: bytes_hex_Nil)

section \<open>Inversion\<close>

lemma check_credentials_ok:
  assumes "native (store_ad es)" "check_credentials es email password w = (Inr user, w')"
  shows "w' = w \<and> user \<in> set (table w ''user'') \<and> dget user ''email'' = VStr email \<and>
    (\<exists>a stored p. a \<in> set (table w ''account'') \<and> credential_of (dget user ''id'') a \<and>
       dget a ''password'' = VStr stored \<and> password = VStr p \<and> verify_password (es_scrypt es) stored p)"
proof -
  let ?found = "List.find (\<lambda>r. is_field r ''email'' (VStr email)) (table w ''user'')"
  from assms(2) have run: "(case ?found of
      None \<Rightarrow> bindA (liftR (dummy_verify password)) (\<lambda>_. raise invalid_credentials)
    | Some user \<Rightarrow>
        bindA (liftR (dindex user ''id'')) (\<lambda>uid.
        bindA (credential_account es uid) (\<lambda>account.
          if \<not> py_truthy (account_password account)
          then bindA (liftR (dummy_verify password)) (\<lambda>_. raise invalid_credentials)
          else bindA (liftR (check_stored es (account_password account) password)) (\<lambda>good.
              if \<not> good then raise invalid_credentials else ret user)))) w = (Inr user, w')"
    by (simp add: check_credentials_def find_user_step[OF assms(1)])
  then obtain u where u: "?found = Some u"
    by (cases ?found) (auto simp: bind_lift split: sum.splits)
  with run obtain uid where uid: "dindex u ''id'' = Inr uid"
    by (cases "dindex u ''id''") simp_all
  let ?acc = "List.find (credential_of uid) (table w ''account'')"
  from run u uid have "py_truthy (account_password ?acc)"
      "check_stored es (account_password ?acc) password = Inr True" "u = user" "w' = w"
    by (auto simp: find_credential_step[OF assms(1)] bind_lift split: sum.splits if_splits)
  moreover from this(1) obtain a where "?acc = Some a" by (cases ?acc) (auto simp: account_password_def)
  moreover have "dget u ''id'' = uid" using uid by (auto simp: dindex_def dget_def split: option.splits)
  ultimately show ?thesis
    using find_Some_in[OF u] find_Some_in[of "credential_of uid" "table w ''account''"]
    by (fastforce simp: account_password_def check_stored_def str_arg_def bindR_Inr_iff split: pyval.splits)
qed

lemma dindex_value: "dindex r k = Inr v \<Longrightarrow> dget r k = v"
  by (auto simp: dindex_def dget_def split: option.splits)

lemma sign_in_user_ok:
  assumes "sign_in_user es ev rq d user dr w = (Inr rs, w')"
  shows "(es_require_verified es \<longrightarrow> py_truthy (dget user ''emailVerified'')) \<and>
    (\<exists>session cookies. start_session es ev rq (dget user ''id'') (remember d) dr w = (Inr (session, cookies), w') \<and>
       rs = add_cookies cookies
         (reply [(''redirect'', VBool (py_truthy (dget d ''callbackURL''))), (''token'', dget session ''token''),
                 (''url'', dget d ''callbackURL''), (''user'', user_output es user)]))"
proof -
  from assms obtain verified w1 where v: "(if es_require_verified es then liftR (dindex user ''emailVerified'')
      else ret (VBool True)) w = (Inr verified, w1)"
    and rest: "(if \<not> py_truthy verified then
         bindA (send_verification_email es ev user (or_root (dget d ''callbackURL''))) (\<lambda>_.
           raise (api_error 403 ''EMAIL_NOT_VERIFIED'' ''Email not verified''))
       else
         (let callback_url = dget d ''callbackURL''
          in bindA (if py_truthy callback_url then liftR (ensure_trusted_url es callback_url) else ret ()) (\<lambda>_.
             bindA (liftR (dindex user ''id'')) (\<lambda>uid.
             bindA (start_session es ev rq uid (remember d) dr) (\<lambda>(session, cookies).
               ret (add_cookies cookies
                 (reply [(''redirect'', VBool (py_truthy callback_url)), (''token'', dget session ''token''),
                         (''url'', callback_url), (''user'', user_output es user)]))))))) w1 = (Inr rs, w')"
    unfolding sign_in_user_def by (elim bindA_InrE)
  have w1: "w1 = w" "es_require_verified es \<Longrightarrow> dget user ''emailVerified'' = verified"
    using v by (auto dest: dindex_value split: if_splits)
  show ?thesis
    using rest w1 by (auto simp: Let_def bindA_def dest!: dindex_value split: if_splits prod.splits sum.splits)
qed

end
