(* ===== verification/Sign_Up_Claims.thy ===== *)
theory Sign_Up_Claims
  imports Endpoint_Props ApiKey_Mint
begin

text \<open>
  Signing up and signing in: on a site with the core tables and no hooks, the user that a sign-up stores
  is the one a sign-in with the same password finds, and a refused sign-in does not tell why.
\<close>

section \<open>A plain site\<close>

definition core_tables :: "adapter \<Rightarrow> bool" where
  "core_tables ad \<longleftrightarrow> native ad \<and>
     (\<forall>m\<in>{''user'', ''session'', ''account''}. map_of (ad_schema ad) m = map_of CORE_SCHEMA m)"

definition plain_site :: "site \<Rightarrow> bool" where
  "plain_site es \<longleftrightarrow>
     core_tables (store_ad es) \<and> ic_hooks (core es) = [] \<and> ic_validate_user_info (core es) = None \<and>
     es_enabled es \<and> \<not> es_disable_sign_up es \<and> \<not> es_require_verified es \<and> es_auto_sign_in es \<and>
     \<not> es_send_on_sign_up es \<and> es_password_checks es = []"

lemma plain_siteD:
  assumes "plain_site es"
  shows "native (store_ad es)" "plain_sessions (es_auth es)" "ic_hooks (core es) = []"
    "map_of (ad_schema (store_ad es)) ''user'' = map_of CORE_SCHEMA ''user''"
    "map_of (ad_schema (store_ad es)) ''account'' = map_of CORE_SCHEMA ''account''"
    "core_tables (store_ad es)"
  using assms by (simp_all add: plain_site_def core_tables_def plain_sessions_def)

text \<open>The state with the rows of a table replaced.\<close>

definition with_rows :: "string \<Rightarrow> row list \<Rightarrow> sworld \<Rightarrow> sworld" where
  "with_rows m rs w = w\<lparr>sw_int := (sw_int w)\<lparr>iw_db := set_rows m rs (iw_db (sw_int w))\<rparr>\<rparr>"

lemma table_with_rows [simp]: "table (with_rows m rs w) m' = (if m' = m then rs else table w m')"
  by (simp add: with_rows_def table_def rows_of_set_rows)

section \<open>What the steps store\<close>

lemma create_row_plain:
  assumes "native (ic_ad ic)" "ic_hooks ic = []" "transform_input (ic_ad ic) ev m data ''create'' = Inr r"
  shows "bindA (on_core (create_row ic ev m data True)) f w = f (Some r) (with_rows m (table w m @ [r]) w)"
  using assms mem_create_ok[OF assms(1,3)]
  by (simp add: create_row_def int_create_def bindA_def on_core_def on_db_def with_rows_def table_def)

lemma start_session_plain:
  assumes "plain_sessions (es_auth es)"
  shows "\<exists>cookies w'. (\<forall>f :: row \<times> string list \<Rightarrow> (sworld, response) action.
      bindA (start_session es ev rq (VStr uid) rem dr) f w =
        f (new_session_row (es_auth es) ev rq (VStr uid) rem (dr_session dr), cookies) w') \<and>
    (\<forall>m. m \<noteq> ''session'' \<longrightarrow> table w' m = table w m)"
proof -
  let ?r = "new_session_row (es_auth es) ev rq (VStr uid) rem (dr_session dr)"
  let ?w = "(sw_int w)\<lparr>iw_db := set_rows ''session'' (session_rows (sw_int w) @ [?r]) (iw_db (sw_int w))\<rparr>"
  from create_session_row[OF assms, of ev rq uid rem "dr_session dr" "sw_int w"]
  have "\<exists>cookies created. session_create (es_auth es) ev rq (VStr uid) rem None True (dr_session dr) (sw_int w) =
      (Inr (?r, cookies, created), ?w)"
    using find_user_pure[of "es_auth es" "VStr uid" ?w] assms
    by (auto simp: session_create_def Let_def bindA_def find_user_row_def on_db_def plain_sessions_def
        mem_find_one_safe)
  then obtain cookies created where "session_create (es_auth es) ev rq (VStr uid) rem None True (dr_session dr) (sw_int w) =
      (Inr (?r, cookies, created), ?w)" by blast
  then have "start_session es ev rq (VStr uid) rem dr w = (Inr (?r, cookies), w\<lparr>sw_int := ?w, sw_new_session := created\<rparr>)"
    by (simp add: start_session_def bindA_def on_core_def)
  then have "bindA (start_session es ev rq (VStr uid) rem dr) f w = f (?r, cookies) (w\<lparr>sw_int := ?w, sw_new_session := created\<rparr>)"
    for f :: "row \<times> string list \<Rightarrow> (sworld, response) action"
    by (simp add: bindA_def)
  moreover have "table (w\<lparr>sw_int := ?w, sw_new_session := created\<rparr>) m = table w m" if "m \<noteq> ''session''" for m
    using that by (simp add: table_def rows_of_set_rows)
  ultimately show ?thesis by blast
qed

lemma bind_catch:
  "bindA (catchA m h) f w = (case m w of (Inl e, s) \<Rightarrow> bindA (h e) f s | (Inr a, s) \<Rightarrow> f a s)"
  by (auto simp: bindA_def catchA_def split: prod.splits sum.splits)

lemma new_session_token: "dget (new_session_row au ev rq uid rem ids) ''token'' = VStr (snd ids)"
  by (simp add: new_session_row_def dget_Cons)

text \<open>The rows as the adapter stores them: the keys in the order the program writes them.\<close>

definition stored_user :: "row \<Rightarrow> env \<Rightarrow> string \<Rightarrow> string \<Rightarrow> row" where
  "stored_user d ev user_id email =
     [(''createdAt'', VDate (now ev)), (''updatedAt'', VDate (now ev)), (''id'', VStr user_id),
      (''name'', dget d ''name''), (''email'', VStr email), (''emailVerified'', VBool False), (''image'', dget d ''image'')]"

lemma create_user_plain:
  assumes "plain_site es" "str_lower email = email" "email \<noteq> []"
  shows "create_user (core es) ev (new_user_row d ev uid email) (Some src) True True (sw_int w) =
    (Inr (Some (stored_user d ev uid email)),
     sw_int (with_rows ''user'' (table w ''user'' @ [stored_user d ev uid email]) w))"
proof -
  have st: "stamped ev (new_user_row d ev uid email) = stored_user d ev uid email"
    by (simp add: stamped_def new_user_row_def stored_user_def dset_Cons)
  have ti: "transform_input (store_ad es) ev ''user'' (stored_user d ev uid email) ''create'' = Inr (stored_user d ev uid email)"
    using plain_siteD[OF assms(1)]
    by (simp add: transform_input_def native_def CORE_SCHEMA_def Let_def mk_field_def id_field_def has_key_def
        created_at_field_def updated_at_field_def dset_Cons stored_user_def has_default_def)
  have lower: "dset ''email'' (VStr email) (stored_user d ev uid email) = stored_user d ev uid email"
    "dget (stored_user d ev uid email) ''email'' = VStr email"
    by (simp_all add: stored_user_def dset_Cons dget_Cons)
  have "int_create (core es) ev ''user'' (stored_user d ev uid email) True None (sw_int w) =
      (Inr (Some (stored_user d ev uid email)),
       sw_int (with_rows ''user'' (table w ''user'' @ [stored_user d ev uid email]) w))"
    using mem_create_ok[OF plain_siteD(1)[OF assms(1)] ti] plain_siteD(3)[OF assms(1)]
    by (simp add: int_create_def bindA_def on_core_def on_db_def with_rows_def table_def)
  then show ?thesis
    using assms by (simp add: create_user_def st lower bindA_def plain_site_def)
qed

lemma account_columns:
  "list_all (\<lambda>(k, f).
    case map_of (new_account_row ev aid owner uid h) k of
       None \<Rightarrow> \<not> has_default f
     | Some v \<Rightarrow> (v = VNone \<longrightarrow> \<not> (f_required f \<and> has_default f)) \<and> f_transform_input f = None)
    (fields_of CORE_SCHEMA ''account'')"
  by (simp add: fields_of_def CORE_SCHEMA_def new_account_row_def mk_field_def id_field_def created_at_field_def
      updated_at_field_def hidden_field_def has_default_def)

lemma account_input:
  assumes "core_tables (store_ad es)"
  shows "transform_input (store_ad es) ev ''account'' (new_account_row ev aid owner uid h) ''create'' =
    Inr (new_account_row ev aid owner uid h)"
proof -
  let ?new = "new_account_row ev aid owner uid h"
  have "transform_fields ev (ad_codec (store_ad es)) all_caps ''create'' (fields_of CORE_SCHEMA ''account'') ?new = Inr ?new"
    by (rule transform_fields_create_same)
      (drule account_columns[unfolded list_all_iff, THEN bspec], simp only: prod.case)
  moreover have "map_of CORE_SCHEMA ''account'' = Some (fields_of CORE_SCHEMA ''account'')"
    by (simp add: fields_of_def CORE_SCHEMA_def)
  ultimately show ?thesis
    using assms by (simp add: transform_input_def core_tables_def native_def has_key_def new_account_row_def)
qed

lemma validated_email:
  assumes "validate_email v = Inr email"
  shows "str_lower email = email" "email \<noteq> []" "v \<noteq> VNone" "v \<noteq> VStr []"
proof -
  from assms obtain s where s: "v = VStr s" "matches_email s" "email = str_lower s"
    by (auto simp: validate_email_def str_arg_def bindR_Inr_iff split: pyval.splits if_splits)
  then have "s \<noteq> []" by (auto simp: matches_email_def email_text_def partition_at_def)
  with s show "str_lower email = email" "email \<noteq> []" "v \<noteq> VNone" "v \<noteq> VStr []"
    by (simp_all add: str_lower_idem) (simp add: str_lower_def)
qed

section \<open>Credentials\<close>

text \<open>What \<open>/sign-in/email\<close> answers to a well-formed request: the session, or one refusal for all.\<close>

definition credentials_match :: "site \<Rightarrow> string \<Rightarrow> string \<Rightarrow> sworld \<Rightarrow> row \<Rightarrow> bool" where
  "credentials_match es email p w user \<longleftrightarrow>
     List.find (\<lambda>u. dget u ''email'' = VStr email) (table w ''user'') = Some user \<and>
     (case List.find (credential_of (dget user ''id'')) (table w ''account'') of
        Some a \<Rightarrow> \<exists>s. dget a ''password'' = VStr s \<and> s \<noteq> [] \<and> verify_password (es_scrypt es) s p
      | None \<Rightarrow> False)"

text \<open>Every user has an id, and a stored password is text.\<close>

definition typed_credentials :: "sworld \<Rightarrow> bool" where
  "typed_credentials w \<longleftrightarrow>
     (\<forall>u\<in>set (table w ''user''). dindex u ''id'' \<noteq> Inl KeyError) \<and>
     (\<forall>a\<in>set (table w ''account''). dget a ''password'' = VNone \<or> is_str (dget a ''password''))"

lemma dindex_ok: "dindex r k \<noteq> Inl KeyError \<Longrightarrow> dindex r k = Inr (dget r k)"
  by (auto simp: dindex_def dget_def split: option.splits)

lemma check_credentials_eq:
  assumes "native (store_ad es)" "typed_credentials w"
  shows "check_credentials es email (VStr p) w =
    (case List.find (\<lambda>u. dget u ''email'' = VStr email) (table w ''user'') of
       Some user \<Rightarrow> if credentials_match es email p w user then (Inr user, w) else (Inl invalid_credentials, w)
     | None \<Rightarrow> (Inl invalid_credentials, w))"
proof (cases "List.find (\<lambda>u. dget u ''email'' = VStr email) (table w ''user'')")
  case None
  then show ?thesis
    by (simp add: check_credentials_def find_user_step[OF assms(1)] dummy_verify_def str_arg_def)
next
  case (Some user)
  then have "user \<in> set (table w ''user'')" using find_Some_in[OF Some] by simp
  then have uid: "dindex user ''id'' = Inr (dget user ''id'')"
    using assms(2) by (intro dindex_ok) (simp add: typed_credentials_def)
  let ?acc = "List.find (credential_of (dget user ''id'')) (table w ''account'')"
  have "dget a ''password'' = VNone \<or> (\<exists>s. dget a ''password'' = VStr s)" if "?acc = Some a" for a
    using find_Some_in[OF that] assms(2) by (auto simp: typed_credentials_def is_str_iff)
  then show ?thesis
    using Some by (cases ?acc)
      (auto simp: check_credentials_def find_user_step[OF assms(1)] find_credential_step[OF assms(1)] uid
        account_password_def dummy_verify_def str_arg_def check_stored_def credentials_match_def)
qed

definition sign_in_request :: "site \<Rightarrow> body \<Rightarrow> string \<Rightarrow> string \<Rightarrow> bool" where
  "sign_in_request es b email p \<longleftrightarrow>
     (\<exists>d. request_json b = Inr d \<and> validate_email (dget d ''email'') = Inr email \<and>
        dget d ''password'' = VStr p \<and> p \<noteq> [] \<and> int (length p) \<le> es_max_password es)"

lemma sign_in_run:
  assumes "es_enabled es" "request_json b = Inr d" "validate_email (dget d ''email'') = Inr email"
    and "dget d ''password'' = VStr p" "p \<noteq> []" "int (length p) \<le> es_max_password es"
  shows "sign_in_email es ev rq b dr w =
    bindA (check_credentials es email (VStr p)) (\<lambda>user. sign_in_user es ev rq d user dr) w"
  using assms validated_email[OF assms(3)]
  by (simp add: sign_in_email_def require_email_password_enabled_def assert_password_not_too_long_def py_len_def)

text \<open>
  C30: A refused sign-in does not tell why. For any well-formed request, an unknown address, a user
  without a password and a wrong password get the same error 401 with the same code and message, and
  nothing is written: the answer reveals nothing about which addresses are registered.
\<close>
theorem sign_in_refusal_uniform:
  assumes "native (store_ad es)" "es_enabled es" "typed_credentials w" "sign_in_request es b email p"
    and "\<forall>user. \<not> credentials_match es email p w user"
  shows "sign_in_email es ev rq b dr w = (Inl invalid_credentials, w)"
proof -
  from assms(4) obtain d where "request_json b = Inr d" "validate_email (dget d ''email'') = Inr email"
      "dget d ''password'' = VStr p" "p \<noteq> []" "int (length p) \<le> es_max_password es"
    by (auto simp: sign_in_request_def)
  from sign_in_run[OF assms(2) this] check_credentials_eq[OF assms(1,3), of email p] assms(5) show ?thesis
    by (simp add: bindA_def split: option.splits)
qed

section \<open>Signing up\<close>

text \<open>A request that may sign up: a name, a fresh address, and a password of admissible length.\<close>

definition sign_up_request :: "site \<Rightarrow> sworld \<Rightarrow> draws \<Rightarrow> row \<Rightarrow> string \<Rightarrow> string \<Rightarrow> bool" where
  "sign_up_request es w dr d email p \<longleftrightarrow>
     dget d ''name'' \<noteq> VNone \<and> dget d ''name'' \<noteq> VStr [] \<and> validate_email (dget d ''email'') = Inr email \<and>
     dget d ''password'' = VStr p \<and> p \<noteq> [] \<and>
     es_min_password es \<le> int (length p) \<and> int (length p) \<le> es_max_password es \<and>
     (\<forall>u\<in>set (table w ''user''). dget u ''email'' \<noteq> VStr email) \<and>
     (\<forall>a\<in>set (table w ''account''). dget a ''userId'' \<noteq> VStr (dr_user_id dr))"

definition hash_of :: "site \<Rightarrow> draws \<Rightarrow> string \<Rightarrow> string" where
  "hash_of es dr p = hash_password (es_scrypt es) (dr_salt dr) p"

lemma sign_up_run:
  assumes "plain_site es" "request_json b = Inr d" "sign_up_request es w dr d email p"
  shows "\<exists>cookies w1. sign_up_email es ev rq b dr w =
      (Inr (add_cookies cookies (reply [(''token'', VStr (snd (dr_session dr))),
         (''user'', user_output es (stored_user d ev (dr_user_id dr) email))])), w1) \<and>
    table w1 ''user'' = table w ''user'' @ [stored_user d ev (dr_user_id dr) email] \<and>
    table w1 ''account'' = table w ''account'' @
      [new_account_row ev (dr_account_id dr) (VStr (dr_user_id dr)) (VStr (dr_user_id dr)) (hash_of es dr p)]"
proof -
  note site = plain_siteD[OF assms(1)]
  let ?u = "stored_user d ev (dr_user_id dr) email" and ?uid = "VStr (dr_user_id dr)"
  let ?acc = "new_account_row ev (dr_account_id dr) ?uid ?uid (hash_of es dr p)"
  let ?wu = "with_rows ''user'' (table w ''user'' @ [?u]) w"
  let ?wa = "with_rows ''account'' (table ?wu ''account'' @ [?acc]) ?wu"
  have req: "validate_email (dget d ''email'') = Inr email" "dget d ''password'' = VStr p"
    using assms(3) by (simp_all add: sign_up_request_def)
  note email = validated_email[OF req(1)]
  have none: "List.find (\<lambda>u. dget u ''email'' = VStr email) (table w ''user'') = None"
    using assms(3) by (simp add: sign_up_request_def find_None_iff)
  have uid: "dindex ?u ''id'' = Inr ?uid" by (simp add: dindex_def stored_user_def)
  obtain cookies w1 where sess: "\<And>f :: row \<times> string list \<Rightarrow> (sworld, response) action.
        bindA (start_session es ev rq ?uid (remember d) dr) f ?wa =
        f (new_session_row (es_auth es) ev rq ?uid (remember d) (dr_session dr), cookies) w1"
    and w1: "\<And>m. m \<noteq> ''session'' \<Longrightarrow> table w1 m = table ?wa m"
    using start_session_plain[OF site(2), of ev rq "dr_user_id dr" "remember d" dr ?wa] by blast
  have finish: "finish_sign_up es ev rq d dr (hash_of es dr p) ?u ?wu =
      (Inr (add_cookies cookies (reply [(''token'', VStr (snd (dr_session dr))), (''user'', user_output es ?u)])), w1)"
    using assms(1)
    by (simp add: finish_sign_up_def uid create_row_plain[OF site(1,3) account_input[OF site(6)]] plain_site_def
        generic_duplicate_def sess new_session_token del: table_with_rows)
  have created: "bindA (on_core (create_user (core es) ev (new_user_row d ev (dr_user_id dr) email)
        (Some [(''method'', VStr ''email-password'')]) True True)) f w = f (Some ?u) ?wu"
    for f :: "row option \<Rightarrow> (sworld, response + row option) action"
    using create_user_plain[OF assms(1) email(1,2)] by (simp add: bindA_def on_core_def with_rows_def)
  have "sign_up_email es ev rq b dr w = finish_sign_up es ev rq d dr (hash_of es dr p) ?u ?wu"
    using assms email
    by (simp add: sign_up_email_def plain_site_def sign_up_request_def validate_password_def py_len_def
        assert_password_not_too_long_def find_user_step[OF site(1)] none hash_password_checked_def str_arg_def
        hash_of_def bind_catch created Let_def)
  with finish w1 show ?thesis by auto
qed

text \<open>
  C31: Signing up and signing in fit together, on a site that signs users in on sign-up, requires no
  verified address and has no database hooks, user validation or password checks. After a sign-up with a
  fresh address, a sign-in that names the address and the same password and gives no \<open>callbackURL\<close> succeeds
  in any later state where the user's row and its credential account are as the sign-up left them, and
  answers with the user that the sign-up stored; with a password whose derived key differs, it is refused
  and nothing is written.
\<close>
theorem sign_up_then_sign_in:
  assumes "plain_site es" "request_json b = Inr d" "sign_up_request es w dr d email p"
    and "dr_salt dr \<noteq> []" "CHR '':'' \<notin> set (dr_salt dr)" "es_scrypt es p (dr_salt dr) \<noteq> []"
    and "request_json b' = Inr d'" "validate_email (dget d' ''email'') = Inr email" "dget d' ''callbackURL'' = VNone"
    and "dget d' ''password'' = VStr p'" "p' \<noteq> []" "int (length p') \<le> es_max_password es"
  shows "\<exists>rs w1. sign_up_email es ev rq b dr w = (Inr rs, w1) \<and>
    (\<forall>w2. List.find (\<lambda>u. dget u ''email'' = VStr email) (table w2 ''user'') =
             List.find (\<lambda>u. dget u ''email'' = VStr email) (table w1 ''user'') \<longrightarrow>
       List.find (credential_of (VStr (dr_user_id dr))) (table w2 ''account'') =
         List.find (credential_of (VStr (dr_user_id dr))) (table w1 ''account'') \<longrightarrow>
      (if bytes_hex (es_scrypt es p' (dr_salt dr)) = bytes_hex (es_scrypt es p (dr_salt dr))
       then \<exists>cookies w3. sign_in_email es ev' rq' b' dr' w2 =
         (Inr (add_cookies cookies (reply [(''redirect'', VBool False), (''token'', VStr (snd (dr_session dr'))),
            (''url'', VNone), (''user'', user_output es (stored_user d ev (dr_user_id dr) email))])), w3)
       else sign_in_email es ev' rq' b' dr' w2 = (Inl invalid_credentials, w2)))"
proof -
  note site = plain_siteD[OF assms(1)]
  let ?u = "stored_user d ev (dr_user_id dr) email" and ?uid = "VStr (dr_user_id dr)"
  let ?acc = "new_account_row ev (dr_account_id dr) ?uid ?uid (hash_of es dr p)"
  obtain cookies w1 where up: "sign_up_email es ev rq b dr w =
      (Inr (add_cookies cookies (reply [(''token'', VStr (snd (dr_session dr))), (''user'', user_output es ?u)])), w1)"
    and rows: "table w1 ''user'' = table w ''user'' @ [?u]" "table w1 ''account'' = table w ''account'' @ [?acc]"
    using sign_up_run[OF assms(1-3)] by blast
  have fresh: "List.find (\<lambda>u. dget u ''email'' = VStr email) (table w ''user'') = None"
      "List.find (credential_of ?uid) (table w ''account'') = None"
    using assms(3) by (auto simp: sign_up_request_def find_None_iff credential_of_def)
  have u: "dget ?u ''email'' = VStr email" "dindex ?u ''id'' = Inr ?uid" "dget ?u ''id'' = ?uid"
    by (simp_all add: stored_user_def dget_Cons dindex_def)
  have acc: "credential_of ?uid ?acc" "dget ?acc ''password'' = VStr (hash_of es dr p)"
    by (simp_all add: credential_of_def new_account_row_def dget_Cons)
  have hash: "hash_of es dr p \<noteq> []" using assms(4) by (simp add: hash_of_def hash_password_def)
  have verify: "verify_password (es_scrypt es) (hash_of es dr p) p' \<longleftrightarrow>
      bytes_hex (es_scrypt es p' (dr_salt dr)) = bytes_hex (es_scrypt es p (dr_salt dr))"
    using verify_hash[of "dr_salt dr" "es_scrypt es" p p'] assms(4-6) by (simp add: hash_of_def)
  have later: "if bytes_hex (es_scrypt es p' (dr_salt dr)) = bytes_hex (es_scrypt es p (dr_salt dr))
      then \<exists>cookies w3. sign_in_email es ev' rq' b' dr' w2 =
        (Inr (add_cookies cookies (reply [(''redirect'', VBool False), (''token'', VStr (snd (dr_session dr'))),
            (''url'', VNone), (''user'', user_output es ?u)])), w3)
      else sign_in_email es ev' rq' b' dr' w2 = (Inl invalid_credentials, w2)"
    if same: "List.find (\<lambda>u. dget u ''email'' = VStr email) (table w2 ''user'') =
        List.find (\<lambda>u. dget u ''email'' = VStr email) (table w1 ''user'')"
      "List.find (credential_of ?uid) (table w2 ''account'') = List.find (credential_of ?uid) (table w1 ''account'')"
    for w2
  proof -
    have cred: "check_credentials es email (VStr p') w2 =
        (if verify_password (es_scrypt es) (hash_of es dr p) p' then (Inr ?u, w2) else (Inl invalid_credentials, w2))"
      using hash by (simp add: check_credentials_def find_user_step[OF site(1)] same rows find_append fresh u
          find_credential_step[OF site(1)] acc account_password_def check_stored_def str_arg_def)
    have run: "sign_in_email es ev' rq' b' dr' w2 =
        bindA (check_credentials es email (VStr p')) (\<lambda>user. sign_in_user es ev' rq' d' user dr') w2"
      using assms(1) by (intro sign_in_run[OF _ assms(7,8,10-12)]) (simp add: plain_site_def)
    obtain cookies' w3 where sess: "\<And>f :: row \<times> string list \<Rightarrow> (sworld, response) action.
          bindA (start_session es ev' rq' ?uid (remember d') dr') f w2 =
          f (new_session_row (es_auth es) ev' rq' ?uid (remember d') (dr_session dr'), cookies') w3"
      using start_session_plain[OF site(2), of ev' rq' "dr_user_id dr" "remember d'" dr' w2] by blast
    have "sign_in_user es ev' rq' d' ?u dr' w2 =
        (Inr (add_cookies cookies' (reply [(''redirect'', VBool False), (''token'', VStr (snd (dr_session dr'))),
            (''url'', VNone), (''user'', user_output es ?u)])), w3)"
      using assms(1,9) by (simp add: sign_in_user_def plain_site_def u sess new_session_token)
    with run cred verify show ?thesis by (auto simp: bindA_def)
  qed
  with up show ?thesis by blast
qed

end
