(* ===== verification/Frames.thy ===== *)
theory Frames
  imports Hooks_Claims
begin

text \<open>
  Frame properties: which parts of a state an action leaves alone. \<open>keeps R act\<close> says that every run of
  the action, failing ones included, relates the state before to the state after; the locale \<open>frame\<close>
  gives the rules that compose such facts for any preorder. It is interpreted on \<open>same_table m\<close>, the
  actions of the internal adapter that leave the table \<open>m\<close> as it is.
\<close>

section \<open>Preorders kept by actions\<close>

definition keeps :: "('s \<Rightarrow> 's \<Rightarrow> bool) \<Rightarrow> ('s, 'a) action \<Rightarrow> bool" where
  "keeps R act \<longleftrightarrow> (\<forall>s. R s (snd (act s)))"

lemma keepsD: "keeps R act \<Longrightarrow> act s = (res, s') \<Longrightarrow> R s s'"
  unfolding keeps_def by (metis snd_conv)

locale frame =
  fixes R :: "'s \<Rightarrow> 's \<Rightarrow> bool"
  assumes same_refl: "R s s" and same_trans: "R a b \<Longrightarrow> R b c \<Longrightarrow> R a c"
begin

lemma keeps_ret: "keeps R (ret a)"
  by (simp add: keeps_def same_refl)

lemma keeps_Pair: "keeps R (Pair x)"
  by (simp add: keeps_def same_refl)

lemma keeps_raise: "keeps R (raise e)"
  by (simp add: keeps_def same_refl)

lemma keeps_liftR: "keeps R (liftR r)"
  by (simp add: keeps_def same_refl)

lemma keeps_bindA:
  assumes "keeps R act" "\<And>a. keeps R (f a)"
  shows "keeps R (bindA act f)"
  unfolding keeps_def
proof
  fix s
  have *: "R s (snd (act s))" using assms(1) by (simp add: keeps_def)
  show "R s (snd (bindA act f s))"
  proof (cases "act s")
    case (Pair res s')
    with * assms(2) show ?thesis
      by (cases res) (auto simp: bindA_def keeps_def intro: same_trans)
  qed
qed

lemma keeps_catchA:
  assumes "keeps R act" "\<And>e. keeps R (h e)"
  shows "keeps R (catchA act h)"
  unfolding keeps_def
proof
  fix s
  have *: "R s (snd (act s))" using assms(1) by (simp add: keeps_def)
  show "R s (snd (catchA act h s))"
  proof (cases "act s")
    case (Pair res s')
    with * assms(2) show ?thesis
      by (cases res) (auto simp: catchA_def keeps_def intro: same_trans)
  qed
qed

end

lemma keeps_if: "(P \<Longrightarrow> keeps R a) \<Longrightarrow> (\<not> P \<Longrightarrow> keeps R b) \<Longrightarrow> keeps R (if P then a else b)"
  by simp

lemma keeps_option:
  "(x = None \<Longrightarrow> keeps R a) \<Longrightarrow> (\<And>y. x = Some y \<Longrightarrow> keeps R (f y)) \<Longrightarrow>
   keeps R (case x of None \<Rightarrow> a | Some y \<Rightarrow> f y)"
  by (cases x) simp_all

lemma keeps_prod: "(\<And>a b. x = (a, b) \<Longrightarrow> keeps R (f a b)) \<Longrightarrow> keeps R (case x of (a, b) \<Rightarrow> f a b)"
  by (cases x) simp

lemma keeps_list:
  "(x = [] \<Longrightarrow> keeps R a) \<Longrightarrow> (\<And>y ys. x = y # ys \<Longrightarrow> keeps R (f y ys)) \<Longrightarrow>
   keeps R (case x of [] \<Rightarrow> a | y # ys \<Rightarrow> f y ys)"
  by (cases x) simp_all

lemmas keeps_cases = keeps_if keeps_option keeps_prod keeps_list

section \<open>A table of the store\<close>

text \<open>
  The table \<open>m\<close> has the same rows, and still exists if it did; where a transaction merges its copy back
  this rests on row ids that are distinct texts.
\<close>

definition same_rows :: "string \<Rightarrow> store \<Rightarrow> store \<Rightarrow> bool" where
  "same_rows m st st' \<longleftrightarrow>
     rows_of st' m = rows_of st m \<and> (map_of st m \<noteq> None \<longrightarrow> map_of st' m \<noteq> None)"

definition same_table :: "string \<Rightarrow> iworld \<Rightarrow> iworld \<Rightarrow> bool" where
  "same_table m w w' \<longleftrightarrow> (str_ids (rows_of (iw_db w) m) \<longrightarrow> same_rows m (iw_db w) (iw_db w'))"

interpretation kept_rows: frame "same_rows m" for m
  by unfold_locales (auto simp: same_rows_def)

interpretation kept_table: frame "same_table m" for m
  by unfold_locales (auto simp: same_rows_def same_table_def)

lemma same_rows_set: "m' \<noteq> m \<Longrightarrow> same_rows m st (set_rows m' rs st)"
  by (simp add: same_rows_def rows_of_set_rows) (simp add: set_rows_def)

lemma keeps_other_model:
  assumes "m' \<noteq> m"
  shows "keeps (same_rows m) (mem_create ad ev m' data select)"
    "keeps (same_rows m) (mem_update ad ev m' wh data)"
    "keeps (same_rows m) (mem_delete m' wh)"
    "keeps (same_rows m) (mem_delete_many m' wh)"
    "keeps (same_rows m) (mem_consume_one ad m' wh)"
    "keeps (same_rows m) (mem_increment_one ad ev m' wh inc sv)"
proof -
  note set = same_rows_set[OF assms]
  show "keeps (same_rows m) (mem_create ad ev m' data select)"
    unfolding mem_create_def
    by (intro kept_rows.keeps_bindA kept_rows.keeps_liftR) (simp add: keeps_def set)
  show "keeps (same_rows m) (mem_update ad ev m' wh data)"
    unfolding mem_update_def
    by (intro keeps_if kept_rows.keeps_ret kept_rows.keeps_bindA kept_rows.keeps_liftR)
      (simp add: keeps_def set Let_def split: prod.split)
  show "keeps (same_rows m) (mem_delete m' wh)"
    unfolding mem_delete_def
    by (intro keeps_if kept_rows.keeps_ret) (simp add: keeps_def set Let_def split: prod.split)
  show "keeps (same_rows m) (mem_delete_many m' wh)"
    by (simp add: mem_delete_many_def keeps_def set kept_rows.same_refl split: sum.split)
  show "keeps (same_rows m) (mem_consume_one ad m' wh)"
    by (simp add: mem_consume_one_def keeps_def set Let_def split: prod.split)
  show "keeps (same_rows m) (mem_increment_one ad ev m' wh inc sv)"
    unfolding mem_increment_one_def
    by (intro kept_rows.keeps_bindA kept_rows.keeps_liftR) (simp add: keeps_def set Let_def split: prod.split)
qed

lemma keeps_reads:
  "keeps (same_rows m) (mem_find_one ad m' wh select)"
  "keeps (same_rows m) (mem_find_many ad m' wh limit order offset select)"
  by (simp_all add: keeps_def mem_find_one_def mem_find_many_def kept_rows.same_refl)

lemma keeps_on_db:
  assumes "keeps (same_rows m) act"
  shows "keeps (same_table m) (on_db act)"
  unfolding keeps_def
proof
  fix w :: iworld
  have "same_rows m (iw_db w) (snd (act (iw_db w)))" using assms by (simp add: keeps_def)
  then show "same_table m w (snd (on_db act w))"
    by (auto simp: on_db_def same_table_def split: prod.split)
qed

lemma same_db: "iw_db (w' :: iworld) = iw_db w \<Longrightarrow> same_table m w w'"
  by (simp add: same_table_def same_rows_def)

lemma keeps_on_kv: "keeps (same_table m) (on_kv act)"
  by (auto simp: keeps_def on_kv_def intro: same_db split: prod.split)

lemma keeps_call_after: "keeps (same_table m) (call_after fns model oper payload)"
  unfolding keeps_def by (metis call_after_state prod.collapse same_db)

lemma keeps_kv_only: "kv_only act \<Longrightarrow> keeps (same_table m) act"
  unfolding keeps_def kv_only_def by (metis iworld.select_convs(1) iworld.surjective iworld.update_convs(2) same_db)

lemma keeps_defer_or_run: "keeps (same_table m) act \<Longrightarrow> keeps (same_table m) (defer_or_run d act)"
  unfolding keeps_def defer_or_run_def by (auto intro: same_db split: option.split)

lemma keeps_queue_after: "keeps (same_table m) (queue_after ic model oper payload)"
  unfolding queue_after_def Let_def
  by (intro keeps_if kept_table.keeps_ret keeps_defer_or_run keeps_call_after)

lemma keeps_flush: "keeps (same_table m) (flush ic ev ds)"
proof (induction ds)
  case (Cons d ds)
  have "keeps (same_table m) (run_deferred ic ev d)"
    unfolding run_deferred_def
    by (cases d) (simp_all add: keeps_call_after keeps_kv_only[OF kv_only_drop_cached])
  with Cons show ?case by (simp add: kept_table.keeps_bindA)
qed (simp add: keeps_def same_db)

text \<open>A transaction merges a copy that has the table unchanged.\<close>

lemma merge_same:
  assumes "str_ids (rows_of st m)" "same_rows m st st'"
  shows "same_rows m st (merge_transaction_into st st st')"
proof (cases "map_of st' m = None")
  case True
  with assms(2) have "map_of st m = None" by (auto simp: same_rows_def)
  with True have "m \<notin> set (remdups (map fst st @ map fst st'))" by (auto simp: map_of_eq_None_iff)
  with \<open>map_of st m = None\<close> show ?thesis
    by (simp add: same_rows_def merge_transaction_into_def merge_models_other)
next
  case False
  have "rows_of st' m = filter (\<lambda>_. True) (rows_of st m)" using assms(2) by (simp add: same_rows_def)
  from merge_transaction_filter[OF assms(1) this False] map_of_merge_transaction[OF False] show ?thesis
    by (simp add: same_rows_def)
qed

lemma keeps_int_transaction:
  assumes "keeps (same_table m) act"
  shows "keeps (same_table m) (int_transaction ic ev act)"
  unfolding keeps_def
proof
  fix w :: iworld
  obtain w1 where w1: "w1 = (if iw_queue w = None then w\<lparr>iw_queue := Some []\<rparr> else w)" by blast
  obtain res w2 where run: "act w1 = (res, w2)" by (cases "act w1")
  have db1: "iw_db w1 = iw_db w" by (simp add: w1)
  have step: "same_table m w1 w2" using assms run by (rule keepsD)
  note unfold = int_transaction_def Let_def w1[symmetric]
  show "same_table m w (snd (int_transaction ic ev act w))"
  proof (cases res)
    case (Inl e)
    then show ?thesis using run by (simp add: unfold same_db db1)
  next
    case (Inr a)
    let ?w3 = "w2\<lparr>iw_db := merge_transaction_into (iw_db w1) (iw_db w1) (iw_db w2)\<rparr>"
    have w3: "same_table m w x" if "iw_db x = iw_db ?w3" for x
      using step merge_same[of "iw_db w" m "iw_db w2"] that by (simp add: same_table_def db1)
    have "keeps (same_table m) (bindA (flush ic ev q) (\<lambda>_. ret a))" for q
      by (intro kept_table.keeps_bindA keeps_flush kept_table.keeps_ret)
    then have "same_table m w (snd (bindA (flush ic ev q) (\<lambda>_. ret a) (?w3\<lparr>iw_queue := None\<rparr>)))" for q
      using w3[of "?w3\<lparr>iw_queue := None\<rparr>"] by (auto simp: keeps_def intro: kept_table.same_trans)
    with run Inr w3[of ?w3] show ?thesis by (simp add: unfold)
  qed
qed

text \<open>The rules a frame proof of an action of the internal adapter uses.\<close>

lemmas table_frame = keeps_cases keeps_on_db keeps_other_model keeps_reads keeps_on_kv keeps_queue_after
  keeps_int_transaction kept_table.keeps_ret kept_table.keeps_Pair kept_table.keeps_raise kept_table.keeps_liftR
  kept_table.keeps_bindA kept_table.keeps_catchA

section \<open>Verification values leave the other tables alone\<close>

lemma keeps_delete_verification_keys: "keeps (same_table m) (delete_verification_keys ids)"
  by (induction ids) (auto intro!: table_frame)

lemma keeps_consume_cached: "keeps (same_table m) (consume_cached ic ev every ids)"
proof (induction ids)
  case (Cons i ids)
  then show ?case
    by (auto intro!: table_frame keeps_delete_verification_keys simp: consume_cache_key_def)
qed (auto intro!: table_frame)

lemma keeps_consume_stored:
  assumes "m \<noteq> ''verification''"
  shows "keeps (same_table m) (consume_stored ic ev ids)"
proof (induction ids)
  case (Cons i ids)
  have "keeps (same_table m) (consume_by_identifier ic ev i)"
    unfolding consume_by_identifier_def latest_verification_def using assms by (intro table_frame) auto
  with Cons show ?case by (auto intro!: table_frame)
qed (auto intro!: table_frame)

lemma keeps_consume_verification:
  assumes "m \<noteq> ''verification''"
  shows "keeps (same_table m) (consume_verification_value ic ev identifier)"
  unfolding consume_verification_value_def Let_def
  by (intro table_frame keeps_consume_cached keeps_consume_stored keeps_delete_verification_keys assms)

end
