(* ===== verification/Reset_Claims.thy ===== *)
theory Reset_Claims
  imports Sign_Up_Claims Frames
begin

text \<open>
  The password reset: a reset token sets the password of its own user, once.
\<close>

section \<open>Setting the password\<close>

lemma consume_frame:
  assumes "consume_verification_value ic ev i w = (res, w')" "m \<noteq> ''verification''"
    and "str_ids (rows_of (iw_db w) m)"
  shows "rows_of (iw_db w') m = rows_of (iw_db w) m"
  using keepsD[OF keeps_consume_verification[OF assms(2)] assms(1)] assms(3)
  by (simp add: same_table_def same_rows_def)

lemma transform_fields_update_columns:
  assumes "\<And>k f. (k, f) \<in> set fs \<Longrightarrow>
    (case map_of out k of None \<Rightarrow> f_on_update f = None | Some v \<Rightarrow> f_transform_input f = None)"
  shows "transform_fields ev cd all_caps ''update'' fs out = Inr out"
  using assms
proof (induction fs)
  case (Cons x fs)
  obtain k f where x: "x = (k, f)" by (cases x)
  have IH: "transform_fields ev cd all_caps ''update'' fs out = Inr out" using Cons by auto
  have "map_of out k = Some v \<Longrightarrow> dset k v out = out" for v by (simp add: dset_def update_triv)
  then show ?case using IH Cons.prems[of k f] by (auto simp: x Let_def split: option.splits)
qed simp

definition password_columns :: "env \<Rightarrow> string \<Rightarrow> row" where
  "password_columns ev h = [(''password'', VStr h), (''updatedAt'', VDate (now ev))]"

lemma password_update_columns:
  "list_all (\<lambda>(k, f).
    case map_of (password_columns ev h) k of
       None \<Rightarrow> f_on_update f = None
     | Some v \<Rightarrow> f_transform_input f = None)
    (fields_of CORE_SCHEMA ''account'')"
  by (simp add: fields_of_def CORE_SCHEMA_def password_columns_def mk_field_def id_field_def created_at_field_def
      updated_at_field_def hidden_field_def)

lemma password_update:
  assumes "core_tables (store_ad es)"
  shows "transform_input (store_ad es) ev' ''account'' (password_columns ev h) ''update'' =
    Inr (password_columns ev h)"
proof -
  have "transform_fields ev' (ad_codec (store_ad es)) all_caps ''update'' (fields_of CORE_SCHEMA ''account'')
      (password_columns ev h) = Inr (password_columns ev h)"
    by (rule transform_fields_update_columns)
      (drule password_update_columns[unfolded list_all_iff, THEN bspec], simp only: prod.case)
  moreover have "map_of CORE_SCHEMA ''account'' = Some (fields_of CORE_SCHEMA ''account'')"
    by (simp add: fields_of_def CORE_SCHEMA_def)
  ultimately show ?thesis using assms by (simp add: transform_input_def native_def core_tables_def)
qed

lemma with_password_other:
  "k \<noteq> ''password'' \<Longrightarrow> k \<noteq> ''updatedAt'' \<Longrightarrow> dget (dmerge a (password_columns ev h)) k = dget a k"
  by (simp add: password_columns_def)

lemma with_password [simp]:
  "dget (dmerge a (password_columns ev h)) ''password'' = VStr h"
  "credential_of uid (dmerge a (password_columns ev h)) = credential_of uid a"
proof -
  let ?r = "dmerge a (password_columns ev h)"
  show "dget ?r ''password'' = VStr h" by (simp add: password_columns_def)
  have "dget ?r ''userId'' = dget a ''userId''" "dget ?r ''providerId'' = dget a ''providerId''"
      "dget ?r ''accountId'' = dget a ''accountId''"
    by (simp_all add: with_password_other)
  then show "credential_of uid ?r = credential_of uid a" unfolding credential_of_def is_field_def by (simp only:)
qed

text \<open>The account that holds the password, and the accounts afterwards.\<close>

definition password_stored :: "row list \<Rightarrow> row list \<Rightarrow> pyval \<Rightarrow> string \<Rightarrow> bool" where
  "password_stored before_rows after_rows uid h \<longleftrightarrow>
     (\<exists>a\<in>set after_rows. credential_of uid a \<and> dget a ''password'' = VStr h) \<and>
     filter (\<lambda>a. \<not> credential_of uid a) after_rows = filter (\<lambda>a. \<not> credential_of uid a) before_rows"

lemma map_first_at:
  assumes "x \<in> set xs" "P x" "\<And>y. y \<in> set xs \<Longrightarrow> P y \<Longrightarrow> y = x"
  shows "f x \<in> set (map_first P f xs)"
  using assms
proof (induction xs)
  case (Cons y ys)
  show ?case
  proof (cases "P y")
    case True
    then have "y = x" by (rule Cons.prems(3)[rotated]) simp
    with True show ?thesis by simp
  next
    case False
    have "f x \<in> set (map_first P f ys)"
      by (rule Cons.IH) (use Cons.prems(1,2) False in \<open>auto intro: Cons.prems(3)\<close>)
    with False show ?thesis by simp
  qed
qed simp

lemma filter_map_first_off:
  assumes "\<And>x. x \<in> set xs \<Longrightarrow> P x \<Longrightarrow> \<not> Q x \<and> \<not> Q (f x)"
  shows "filter Q (map_first P f xs) = filter Q xs"
  using assms by (induction xs) auto

lemma store_password_run:
  assumes "native (store_ad es)"
  shows "store_password es ev dr user uid h w =
    (case List.find (credential_of uid) (table w ''account'') of
       None \<Rightarrow>
         bindA (liftR (dindex user ''id'')) (\<lambda>owner.
         bindA (on_rows (mem_create (store_ad es) ev ''account''
                  (new_account_row ev (dr_account_id dr) owner uid h) [])) (\<lambda>_. ret ())) w
     | Some a \<Rightarrow>
         bindA (liftR (dindex a ''id'')) (\<lambda>aid.
         bindA (on_rows (mem_update (store_ad es) ev ''account'' [Where ''id'' aid] (password_columns ev h)))
           (\<lambda>_. ret ())) w)"
  by (simp add: store_password_def find_credential_step[OF assms] password_columns_def split: option.splits)

lemma on_create_step:
  assumes "native ad" "transform_input ad ev m data ''create'' = Inr r"
  shows "bindA (on_rows (mem_create ad ev m data [])) f w = f r (with_rows m (table w m @ [r]) w)"
  using mem_create_ok[OF assms] by (simp add: bindA_def on_rows_def on_core_def on_db_def with_rows_def table_def)

lemma on_update_step:
  assumes "native ad" "wh \<noteq> []" "safe wh (table w m)" "transform_input ad ev m data ''update'' = Inr d"
  shows "bindA (on_rows (mem_update ad ev m wh data)) f w =
    f (map_option (\<lambda>r. dmerge r d) (List.find (sel wh) (table w m)))
      (with_rows m (map_first (sel wh) (\<lambda>r. dmerge r d) (table w m)) w)"
  using mem_update_ok[OF assms(1,2) assms(3)[unfolded table_def] assms(4)]
  by (simp add: bindA_def on_rows_def on_core_def on_db_def with_rows_def table_def)

lemma store_password_ok:
  assumes "core_tables (store_ad es)" "str_ids (table w ''account'')" "dget user ''id'' = VStr uid"
    and run: "store_password es ev dr user (VStr uid) h w = (Inr (), w')"
  shows "\<exists>rs. w' = with_rows ''account'' rs w \<and> password_stored (table w ''account'') rs (VStr uid) h"
proof -
  have native: "native (store_ad es)" using assms(1) by (simp add: core_tables_def)
  let ?found = "List.find (credential_of (VStr uid)) (table w ''account'')"
  note run = run[unfolded store_password_run[OF native]]
  show ?thesis
  proof (cases ?found)
    case None
    let ?new = "new_account_row ev (dr_account_id dr) (VStr uid) (VStr uid) h"
    from run None obtain owner where owner: "dindex user ''id'' = Inr owner"
      by (auto elim: bind_liftE)
    then have "owner = VStr uid" using dindex_value[OF owner] assms(3) by simp
    with run None owner have "bindA (on_rows (mem_create (store_ad es) ev ''account'' ?new [])) (\<lambda>_. ret ()) w = (Inr (), w')"
      by simp
    then have "w' = with_rows ''account'' (table w ''account'' @ [?new]) w"
      by (simp add: on_create_step[OF native account_input[OF assms(1)]])
    then show ?thesis
      by (auto simp: password_stored_def credential_of_def new_account_row_def dget_Cons)
  next
    case (Some a)
    then have a: "a \<in> set (table w ''account'')" "credential_of (VStr uid) a" by (auto dest: find_Some_in)
    with assms(2) obtain aid where aid: "dget a ''id'' = VStr aid"
      by (auto simp: str_ids_def list_all_iff is_str_iff)
    let ?P = "\<lambda>r. dget r ''id'' = VStr aid"
    let ?rs = "map_first ?P (\<lambda>r. dmerge r (password_columns ev h)) (table w ''account'')"
    have sel: "sel [Where ''id'' (VStr aid)] = ?P" by (rule ext) simp
    have only: "y = a" if "y \<in> set (table w ''account'')" "?P y" for y
      using str_ids_inj[OF assms(2) that(1) a(1)] that(2) aid by simp
    from run Some obtain owner where owner: "dindex a ''id'' = Inr owner"
      by (auto elim: bind_liftE)
    then have "owner = VStr aid" using dindex_value[OF owner] aid by simp
    with run Some owner have "bindA (on_rows (mem_update (store_ad es) ev ''account'' [Where ''id'' (VStr aid)]
        (password_columns ev h))) (\<lambda>_. ret ()) w = (Inr (), w')"
      by simp
    then have "w' = with_rows ''account'' ?rs w"
      by (simp add: on_update_step[OF native _ _ password_update[OF assms(1)]] sel)
    moreover have "dmerge a (password_columns ev h) \<in> set ?rs"
      by (rule map_first_at[OF a(1)]) (use aid only in auto)
    moreover have "filter (\<lambda>a. \<not> credential_of (VStr uid) a) ?rs =
        filter (\<lambda>a. \<not> credential_of (VStr uid) a) (table w ''account'')"
      by (rule filter_map_first_off) (use a(2) only in auto)
    ultimately show ?thesis using a(2) unfolding password_stored_def by (metis with_password)
  qed
qed

section \<open>Finishing a reset\<close>

lemma on_delete_many_step:
  assumes "safe wh (table w m)"
  shows "bindA (on_rows (mem_delete_many m wh)) (\<lambda>_. ret ()) w =
    (Inr (), with_rows m (filter (\<lambda>r. \<not> sel wh r) (table w m)) w)"
  using mem_delete_many_safe[OF assms[unfolded table_def]]
  by (auto simp: bindA_def on_rows_def on_core_def on_db_def with_rows_def table_def)

text \<open>What a finished reset leaves, for the user that the token names.\<close>

definition reset_done :: "site \<Rightarrow> string \<Rightarrow> string \<Rightarrow> sworld \<Rightarrow> sworld \<Rightarrow> bool" where
  "reset_done es uid h w w' \<longleftrightarrow>
     password_stored (table w ''account'') (table w' ''account'') (VStr uid) h \<and>
     table w' ''session'' =
       (if es_revoke_on_reset es then filter (\<lambda>s. dget s ''userId'' \<noteq> VStr uid) (table w ''session'')
        else table w ''session'') \<and>
     table w' ''user'' = table w ''user'' \<and> map_of (iw_db (sw_int w')) ''verification'' = map_of (iw_db (sw_int w)) ''verification''"

lemma notify_table: "notify e res w = (out, w') \<Longrightarrow> sw_int w' = sw_int w"
  by (auto simp: notify_def)

lemma finish_reset_ok:
  assumes "core_tables (store_ad es)" "str_ids (table w ''user'')" "str_ids (table w ''account'')"
    and run: "finish_reset es ev rq d dr r w = (Inr rs, w')"
  shows "\<exists>uid user p. dget r ''value'' = VStr uid \<and> user \<in> set (table w ''user'') \<and>
    dget user ''id'' = VStr uid \<and> dget d ''newPassword'' = VStr p \<and> reset_done es uid (hash_of es dr p) w w' \<and>
    rs = status_true \<and> iw_queue (sw_int w') = iw_queue (sw_int w)"
proof -
  have native: "native (store_ad es)" using assms(1) by (simp add: core_tables_def)
  from run obtain v where v: "dindex r ''value'' = Inr v"
    and rest: "(case List.find (\<lambda>u. is_field u ''id'' v) (table w ''user'') of
        None \<Rightarrow> raise (api_error 400 ''USER_NOT_FOUND'' ''User not found'')
      | Some user \<Rightarrow>
          bindA (liftR (hash_password_checked es dr rq (dget d ''newPassword''))) (\<lambda>h.
          bindA (store_password es ev dr user v h) (\<lambda>_.
          bindA (case es_on_reset es of None \<Rightarrow> ret () | Some f \<Rightarrow> notify (PasswordReset user) (f user)) (\<lambda>_.
          bindA (if es_revoke_on_reset es
                 then bindA (on_rows (mem_delete_many ''session'' [Where ''userId'' v])) (\<lambda>_. ret ())
                 else ret ()) (\<lambda>_. ret status_true))))) w = (Inr rs, w')"
    unfolding finish_reset_def
    by (elim bind_liftE) (simp only: find_row_step[OF native safe_fields(1)] sel_field1)
  from rest obtain user where found: "List.find (\<lambda>u. is_field u ''id'' v) (table w ''user'') = Some user"
    by (auto split: option.splits)
  from rest[unfolded found option.case] obtain h w1 w2 where
        hash: "hash_password_checked es dr rq (dget d ''newPassword'') = Inr h"
    and store: "store_password es ev dr user v h w = (Inr (), w1)"
    and mail: "(case es_on_reset es of None \<Rightarrow> ret () | Some f \<Rightarrow> notify (PasswordReset user) (f user)) w1 = (Inr (), w2)"
    and revoke: "(if es_revoke_on_reset es then bindA (on_rows (mem_delete_many ''session'' [Where ''userId'' v])) (\<lambda>_. ret ())
         else ret ()) w2 = (Inr (), w')"
    and rs: "rs = status_true"
    by (elim bind_liftE bindA_InrE) simp
  have user: "user \<in> set (table w ''user'')" "is_field user ''id'' v" using find_Some_in[OF found] by auto
  with assms(2) obtain uid where uid: "dget user ''id'' = VStr uid"
    by (auto simp: str_ids_def list_all_iff is_str_iff)
  have veq: "v = VStr uid" using user(2) uid by (auto simp: is_field_def split: if_splits)
  obtain p where p: "dget d ''newPassword'' = VStr p" "h = hash_of es dr p"
    using hash by (auto simp: hash_password_checked_def str_arg_def bindR_Inr_iff hash_of_def split: pyval.splits)
  from store_password_ok[OF assms(1,3) uid store[unfolded veq]] obtain rows where
    rows: "w1 = with_rows ''account'' rows w" "password_stored (table w ''account'') rows (VStr uid) h" by blast
  have w2: "sw_int w2 = sw_int w1" using mail notify_table by (auto split: option.splits)
  then have t2: "table w2 m = table w1 m" for m by (simp add: table_def)
  have q: "iw_queue (sw_int (with_rows t x y)) = iw_queue (sw_int y)" for t x y by (simp add: with_rows_def)
  have sel: "sel [Where ''userId'' (VStr uid)] = (\<lambda>s. dget s ''userId'' = VStr uid)" by (rule ext) simp
  have "w' = (if es_revoke_on_reset es then with_rows ''session''
      (filter (\<lambda>s. dget s ''userId'' \<noteq> VStr uid) (table w2 ''session'')) w2 else w2)"
    using revoke on_delete_many_step[of "[Where ''userId'' (VStr uid)]" w2 "''session''"]
    by (auto simp: veq sel split: if_splits)
  moreover have "map_of (iw_db (sw_int (with_rows t x y))) ''verification'' = map_of (iw_db (sw_int y)) ''verification''"
    if "t \<noteq> ''verification''" for t x y
    using that by (simp add: with_rows_def set_rows_def)
  ultimately have "reset_done es uid h w w'" "iw_queue (sw_int w') = iw_queue (sw_int w)"
    using rows(2) by (simp_all add: reset_done_def t2 rows(1) q w2)
  with user uid p rs dindex_value[OF v] veq show ?thesis by blast
qed

section \<open>The token\<close>

lemma reset_password_ok:
  assumes "reset_password es ev rq b dr w = (Inr rs, w')"
  shows "\<exists>d r w1. request_json b = Inr d \<and> validate_password es (dget d ''newPassword'') = Inr () \<and>
    consume_verification_value (core es) ev (''reset-password:'' @ f_string es (reset_token rq d)) (sw_int w) =
      (Inr (Some r), sw_int w1) \<and>
    finish_reset es ev rq d dr r w1 = (Inr rs, w')"
proof -
  from assms obtain d where d: "request_json b = Inr d"
    and rest: "(let token = reset_token rq d
       in if \<not> py_truthy token then raise invalid_token
          else
            bindA (liftR (validate_password es (dget d ''newPassword''))) (\<lambda>_.
            bindA (on_core (consume_verification_value (core es) ev (''reset-password:'' @ f_string es token))) (\<lambda>consumed.
              case consumed of
                None \<Rightarrow> raise invalid_token
              | Some r \<Rightarrow> finish_reset es ev rq d dr r))) w = (Inr rs, w')"
    unfolding reset_password_def by (elim bind_liftE) (simp del: require_fields.simps)
  from rest have "py_truthy (reset_token rq d)" by (auto simp: Let_def split: if_splits)
  with rest obtain consumed w1 where v: "validate_password es (dget d ''newPassword'') = Inr ()"
    and c: "on_core (consume_verification_value (core es) ev (''reset-password:'' @ f_string es (reset_token rq d))) w =
        (Inr consumed, w1)"
    and f: "(case consumed of None \<Rightarrow> raise invalid_token | Some r \<Rightarrow> finish_reset es ev rq d dr r) w1 = (Inr rs, w')"
    by (simp only: Let_def if_True not_not refl if_False simp_thms) (elim bind_liftE bindA_InrE, simp)
  from f obtain r where "consumed = Some r" "finish_reset es ev rq d dr r w1 = (Inr rs, w')"
    by (cases consumed) simp_all
  moreover from c this(1) have "consume_verification_value (core es) ev
      (''reset-password:'' @ f_string es (reset_token rq d)) (sw_int w) = (Inr (Some r), sw_int w1)"
    by (auto simp: on_core_def split: prod.splits)
  ultimately show ?thesis using d v by blast
qed

lemma validated_password:
  assumes "validate_password es (VStr p) = Inr ()"
  shows "es_min_password es \<le> int (length p) \<and> int (length p) \<le> es_max_password es"
  using assms by (auto simp: validate_password_def assert_password_not_too_long_def py_len_def split: if_splits)

text \<open>
  C40: A reset token sets the password of its own user, once, with verification values kept in the database.
  Whenever \<open>/reset-password\<close> answers, the token named a stored and unexpired verification value, under
  its identifier as stored or, where identifiers are stored one way, the plain one that is tried next; the
  user of that value now has a credential account with the hash of the new password, whose length is within
  the limits; no account of another user or provider changed; with \<open>revoke_sessions_on_password_reset\<close>
  exactly that user's rows of the session table are gone (the route leaves copies in a secondary storage
  alone); every verification value under the identifier the token was found by is gone; and, where only
  one identifier is tried, any later reset with the same token is refused, at any time and with any password.
\<close>
theorem reset_token_single_use:
  assumes "core_tables (store_ad es)" "verif_ok (core es) (sw_int w)" "in_database (core es)"
    and "list_all (\<lambda>m. str_ids (table w m)) [''user'', ''account'', ''session'']"
    and "reset_password es ev rq b dr w = (Inr rs, w')"
  shows "\<exists>d r uid p x i. request_json b = Inr d \<and> dget d ''newPassword'' = VStr p \<and>
    es_min_password es \<le> int (length p) \<and> int (length p) \<le> es_max_password es \<and>
    i \<in> set (identifiers_to_try (core es) (''reset-password:'' @ f_string es (reset_token rq d))) \<and>
    latest_row (table w ''verification'') i = Some r \<and> dget r ''expiresAt'' = VDate x \<and> now ev \<le> x \<and>
    dget r ''value'' = VStr uid \<and> (\<exists>user\<in>set (table w ''user''). dget user ''id'' = VStr uid) \<and>
    table w' ''verification'' = without i (table w ''verification'') \<and>
    password_stored (table w ''account'') (table w' ''account'') (VStr uid) (hash_of es dr p) \<and>
    table w' ''session'' =
      (if es_revoke_on_reset es then filter (\<lambda>s. dget s ''userId'' \<noteq> VStr uid) (table w ''session'')
       else table w ''session'') \<and>
    (length (identifiers_to_try (core es) (''reset-password:'' @ f_string es (reset_token rq d))) = 1 \<longrightarrow>
       (\<forall>ev' rq' b' d' dr'. request_json b' = Inr d' \<longrightarrow> reset_token rq' d' = reset_token rq d \<longrightarrow>
          (\<exists>e w''. reset_password es ev' rq' b' dr' w' = (Inl e, w''))))"
proof -
  have db: "\<not> (ic_secondary (core es) \<and> \<not> ic_verification_in_database (core es))"
    using assms(3) by (simp add: in_database_def)
  let ?name = "\<lambda>rq d. ''reset-password:'' @ f_string es (reset_token rq d)"
  from reset_password_ok[OF assms(5)] obtain d r w1 where d: "request_json b = Inr d"
      "validate_password es (dget d ''newPassword'') = Inr ()"
    and c: "consume_verification_value (core es) ev (?name rq d) (sw_int w) = (Inr (Some r), sw_int w1)"
    and f: "finish_reset es ev rq d dr r w1 = (Inr rs, w')" by blast
  from consume_verification_cases[OF assms(2) db c] obtain i x where
      ok1: "verif_ok (core es) (sw_int w1)" and
      i: "i \<in> set (identifiers_to_try (core es) (?name rq d))" "latest_row (table w ''verification'') i = Some r"
        "table w1 ''verification'' = without i (table w ''verification'')" "dget r ''expiresAt'' = VDate x" "\<not> x < now ev"
    by (auto simp: verif_rows_def table_def split: if_splits)
  have same: "table w1 m = table w m" if "m \<in> {''user'', ''account'', ''session''}" for m
    using consume_frame[OF c, of m] that assms(4) by (auto simp: table_def)
  have ids: "str_ids (table w1 ''user'')" "str_ids (table w1 ''account'')" using assms(4) same by simp_all
  from finish_reset_ok[OF assms(1) ids f] obtain uid user p where
      p: "dget r ''value'' = VStr uid" "user \<in> set (table w1 ''user'')" "dget user ''id'' = VStr uid"
        "dget d ''newPassword'' = VStr p" "reset_done es uid (hash_of es dr p) w1 w'"
      and queue: "iw_queue (sw_int w') = iw_queue (sw_int w1)" by blast
  have same_verif: "table w' ''verification'' = table w1 ''verification''"
    using p(5) by (simp add: reset_done_def table_def rows_of_def)
  have gone: "table w' ''verification'' = without i (table w ''verification'')"
    using same_verif i(3) by simp
  have "False" if one: "length (identifiers_to_try (core es) (?name rq d)) = 1"
      and b': "request_json b' = Inr d'" "reset_token rq' d' = reset_token rq d"
      and again: "reset_password es ev' rq' b' dr' w' = (Inr rs', w'')" for ev' rq' b' d' dr' rs' w''
  proof -
    from reset_password_ok[OF again] b' obtain r' w2 where
      c': "consume_verification_value (core es) ev' (?name rq d) (sw_int w') = (Inr (Some r'), w2)" by auto
    have ok': "verif_ok (core es) (sw_int w')"
      using ok1 p(5) queue same_verif by (simp add: verif_ok_def reset_done_def table_def verif_rows_def)
    from consume_verification_cases[OF ok' db c'] obtain j where
        "j \<in> set (identifiers_to_try (core es) (?name rq d))" "latest_row (table w' ''verification'') j = Some r'"
      by (auto simp: verif_rows_def table_def split: if_splits)
    with one i(1) have "latest_row (table w' ''verification'') i = Some r'" by (auto simp: length_Suc_conv)
    from latest_row_in[OF this] show False by (simp add: gone without_def)
  qed
  then have refused: "length (identifiers_to_try (core es) (?name rq d)) = 1 \<longrightarrow>
      (\<forall>ev' rq' b' d' dr'. request_json b' = Inr d' \<longrightarrow> reset_token rq' d' = reset_token rq d \<longrightarrow>
        (\<exists>e w''. reset_password es ev' rq' b' dr' w' = (Inl e, w'')))"
    by (metis sumE surj_pair)
  have done': "password_stored (table w ''account'') (table w' ''account'') (VStr uid) (hash_of es dr p)"
      "table w' ''session'' =
        (if es_revoke_on_reset es then filter (\<lambda>s. dget s ''userId'' \<noteq> VStr uid) (table w ''session'')
         else table w ''session'')"
    using p(5) same by (simp_all add: reset_done_def)
  have owner: "\<exists>user\<in>set (table w ''user''). dget user ''id'' = VStr uid" using p(2,3) same by auto
  have x: "now ev \<le> x" using i(5) by simp
  note v = validated_password[OF d(2)[unfolded p(4)]]
  show ?thesis
    by (rule exI[of _ d], rule exI[of _ r], rule exI[of _ uid], rule exI[of _ p], rule exI[of _ x], rule exI[of _ i])
      (intro conjI d(1) p(4) v[THEN conjunct1] v[THEN conjunct2] i(1,2,4) x p(1) owner gone done' refused)
qed

end
