(* ===== verification/Endpoint_Claims.thy ===== *)
theory Endpoint_Claims
  imports Endpoint_Props
begin

text \<open>
  What the core endpoints guarantee: who gets a session, that a refusal does not tell why, that a reset
  token works once, which sessions and accounts a user can remove.
\<close>

section \<open>Signing in\<close>

text \<open>
  C29: A sign-in with email and password succeeds only for the owner of the credential. Whenever
  \<open>/sign-in/email\<close> answers, the address of the body, lower-cased, is that of a stored user; the user
  has a credential account whose stored hash verifies the password of the body; the password is within
  the length limit and, where the site requires it, the address is verified. The answer then holds the
  new session of exactly this user.
\<close>
theorem sign_in_authenticates:
  assumes "native (store_ad es)" "sign_in_email es ev rq b dr w = (Inr rs, w')"
  shows "\<exists>d email user a stored p. request_json b = Inr d \<and> validate_email (dget d ''email'') = Inr email \<and>
    user \<in> set (table w ''user'') \<and> dget user ''email'' = VStr email \<and>
    a \<in> set (table w ''account'') \<and> credential_of (dget user ''id'') a \<and> dget a ''password'' = VStr stored \<and>
    dget d ''password'' = VStr p \<and> int (length p) \<le> es_max_password es \<and>
    verify_password (es_scrypt es) stored p \<and>
    (es_require_verified es \<longrightarrow> py_truthy (dget user ''emailVerified'')) \<and>
    (\<exists>session cookies. start_session es ev rq (dget user ''id'') (remember d) dr w = (Inr (session, cookies), w') \<and>
       rs = add_cookies cookies
         (reply [(''redirect'', VBool (py_truthy (dget d ''callbackURL''))), (''token'', dget session ''token''),
                 (''url'', dget d ''callbackURL''), (''user'', user_output es user)]))"
proof -
  from assms(2) obtain d email user w1 where req: "request_json b = Inr d" "validate_email (dget d ''email'') = Inr email"
      "assert_password_not_too_long es (dget d ''password'') = Inr ()"
    and cred: "check_credentials es email (dget d ''password'') w = (Inr user, w1)"
    and run: "sign_in_user es ev rq d user dr w1 = (Inr rs, w')"
    unfolding sign_in_email_def by (elim bind_liftE bindA_InrE) (simp del: require_fields.simps)
  from check_credentials_ok[OF assms(1) cred] obtain a stored p where c: "w1 = w" "user \<in> set (table w ''user'')"
      "dget user ''email'' = VStr email" "a \<in> set (table w ''account'')" "credential_of (dget user ''id'') a"
      "dget a ''password'' = VStr stored" "dget d ''password'' = VStr p" "verify_password (es_scrypt es) stored p"
    by blast
  have "int (length p) \<le> es_max_password es"
    using req(3) by (simp add: assert_password_not_too_long_def py_len_def c(7) split: if_splits)
  with sign_in_user_ok[OF run] req c show ?thesis by blast
qed

end
