(* ===== verification/Endpoint_Demo.thy ===== *)
theory Endpoint_Demo
  imports Reset_Claims Endpoint_Claims
begin

text \<open>A concrete site and state, at which the hypotheses of the endpoint claims hold.\<close>

definition demo_scrypt :: "string \<Rightarrow> string \<Rightarrow> nat list" where
  "demo_scrypt password salt = map of_char password"

definition demo_jwt :: jwt_lib where
  "demo_jwt = \<lparr>jwt_encode = (\<lambda>_ _. ''jwt''), jwt_decode = (\<lambda>_ _ _. Inl InvalidToken)\<rparr>"

definition demo_site :: site where
  "demo_site = \<lparr>es_auth = demo_auth,
     es_origin = \<lparr>oc_dynamic = [], oc_base_url = ''https://a.io'', oc_trusted = TrustedList [], oc_disable_csrf = None,
       oc_skip = SkipNone, oc_trusted_proxy = False, oc_bracketed = (\<lambda>_. True)\<rparr>,
     es_base_path = ''/api'', es_enabled = True, es_disable_sign_up = False, es_min_password = 8,
     es_max_password = 128, es_require_verified = False, es_auto_sign_in = True, es_send_reset = None,
     es_reset_expires_in = 3600, es_revoke_on_reset = True, es_on_reset = None, es_send_verify = None,
     es_send_on_sign_up = False, es_auto_after_verify = False, es_verify_expires_in = 3600,
     es_change_enabled = False, es_send_change = None, es_update_unverified = False, es_delete_enabled = True,
     es_send_delete = None, es_before_delete = None, es_after_delete = None, es_delete_expires_in = 86400,
     es_fresh_age = 86400, es_allow_unlinking_all = False, es_legacy_selection = False,
     es_input_fields = (\<lambda>_. []), es_password_checks = [], es_scrypt = demo_scrypt, es_jwt = demo_jwt,
     es_format = (\<lambda>_. []), es_logout_url = (\<lambda>_. None)\<rparr>"

definition ann :: row where
  "ann = [(''id'', VStr ''u''), (''email'', VStr ''ann@a.io''), (''emailVerified'', VBool True), (''name'', VStr ''Ann'')]"

definition ann_account :: row where
  "ann_account = [(''id'', VStr ''c''), (''accountId'', VStr ''u''), (''providerId'', VStr ''credential''),
     (''userId'', VStr ''u''), (''password'', VStr (hash_password demo_scrypt ''salt'' ''password1''))]"

definition ann_github :: row where
  "ann_github = [(''id'', VStr ''g''), (''accountId'', VStr ''77''), (''providerId'', VStr ''github''), (''userId'', VStr ''u'')]"

definition ann_token :: row where
  "ann_token = [(''id'', VStr ''v''), (''identifier'', VStr ''reset-password:tok''), (''value'', VStr ''u''),
     (''expiresAt'', VDate 900), (''createdAt'', VDate 10)]"

definition demo_sworld :: sworld where
  "demo_sworld = \<lparr>sw_int = \<lparr>iw_db = [(''user'', [ann]), (''account'', [ann_account, ann_github]),
       (''session'', [(''id'', VStr ''s'') # stored_session]), (''verification'', [ann_token])],
       iw_kv = \<lparr>kv_items = [], kv_ttls = []\<rparr>, iw_queue = None, iw_log = []\<rparr>,
     sw_events = [], sw_new_session = None\<rparr>"

definition demo_draws :: draws where
  "demo_draws = \<lparr>dr_user_id = ''n'', dr_other_id = ''o'', dr_account_id = ''a'', dr_session = (''i'', ''tok''),
     dr_salt = ''salt'', dr_token = ''token''\<rparr>"

definition json_body :: "row \<Rightarrow> body" where
  "json_body d = \<lparr>bd_empty = False, bd_json = Some (VDict d), bd_form = []\<rparr>"

abbreviation no_token :: request where
  "no_token \<equiv> token_request []"

lemma request_json_body [simp]: "request_json (json_body d) = Inr d"
  by (simp add: request_json_def json_body_def)

lemma demo_native [simp]: "native (store_ad demo_site)"
  by (simp add: demo_site_def demo_auth_def)

lemma core_tables_demo: "core_tables (store_ad demo_site)"
  by (simp add: core_tables_def demo_site_def demo_auth_def demo_adapter_def native_def)

lemma plain_demo_site: "plain_site demo_site"
  by (simp add: plain_site_def core_tables_demo) (simp add: demo_site_def demo_auth_def)

lemma typed_demo: "typed_credentials demo_sworld"
  by (simp add: typed_credentials_def) code_simp

definition ann_login :: "string \<Rightarrow> row" where
  "ann_login p = [(''email'', VStr ''Ann@a.io''), (''password'', VStr p)]"

section \<open>Signing in\<close>

lemma sign_in_runs:
  "case fst (sign_in_email demo_site (at_us 0) no_token (json_body (ann_login ''password1'')) demo_draws demo_sworld) of
     Inr _ \<Rightarrow> True | Inl _ \<Rightarrow> False"
  by code_simp

theorem sign_in_authenticates_witness:
  "\<exists>rs w' user. sign_in_email demo_site (at_us 0) no_token (json_body (ann_login ''password1'')) demo_draws demo_sworld =
     (Inr rs, w') \<and> user \<in> set (table demo_sworld ''user'') \<and> dget user ''email'' = VStr ''ann@a.io''"
proof -
  let ?run = "sign_in_email demo_site (at_us 0) no_token (json_body (ann_login ''password1'')) demo_draws demo_sworld"
  obtain rs w' where run: "?run = (Inr rs, w')"
    using sign_in_runs by (cases ?run) (auto split: sum.splits)
  have "validate_email (dget (ann_login ''password1'') ''email'') = Inr ''ann@a.io''" by code_simp
  with sign_in_authenticates[OF demo_native run] run show ?thesis by auto
qed

theorem sign_in_refusal_uniform_witness:
  "sign_in_email demo_site (at_us 0) no_token (json_body (ann_login ''password2'')) demo_draws demo_sworld =
     (Inl invalid_credentials, demo_sworld)"
proof (rule sign_in_refusal_uniform[OF demo_native _ typed_demo])
  show "es_enabled demo_site" by (simp add: demo_site_def)
  have "validate_email (dget (ann_login ''password2'') ''email'') = Inr ''ann@a.io''"
      "dget (ann_login ''password2'') ''password'' = VStr ''password2''" by code_simp+
  then show "sign_in_request demo_site (json_body (ann_login ''password2'')) ''ann@a.io'' ''password2''"
    by (simp add: sign_in_request_def demo_site_def)
  have "List.find (\<lambda>u. dget u ''email'' = VStr ''ann@a.io'') (table demo_sworld ''user'') = Some ann"
      "List.find (credential_of (dget ann ''id'')) (table demo_sworld ''account'') = Some ann_account"
      "dget ann_account ''password'' = VStr (hash_password demo_scrypt ''salt'' ''password1'')"
      "\<not> verify_password (es_scrypt demo_site) (hash_password demo_scrypt ''salt'' ''password1'') ''password2''"
    by code_simp+
  then show "\<forall>user. \<not> credentials_match demo_site ''ann@a.io'' ''password2'' demo_sworld user"
    by (simp add: credentials_match_def)
qed

section \<open>Signing up\<close>

definition bob_up :: row where
  "bob_up = [(''name'', VStr ''Bob''), (''email'', VStr ''bob@a.io''), (''password'', VStr ''password1'')]"

definition bob_login :: row where
  "bob_login = [(''email'', VStr ''BOB@a.io''), (''password'', VStr ''password1'')]"

theorem sign_up_then_sign_in_witness:
  "\<exists>rs w1 rs' w2. sign_up_email demo_site (at_us 5) no_token (json_body bob_up) demo_draws demo_sworld = (Inr rs, w1) \<and>
     sign_in_email demo_site (at_us 9) no_token (json_body bob_login) demo_draws w1 = (Inr rs', w2)"
proof -
  have facts: "validate_email (dget bob_up ''email'') = Inr ''bob@a.io''"
      "validate_email (dget bob_login ''email'') = Inr ''bob@a.io''"
      "dget bob_login ''password'' = VStr ''password1''" "dget bob_login ''callbackURL'' = VNone"
      "dr_salt demo_draws \<noteq> []" "CHR '':'' \<notin> set (dr_salt demo_draws)"
      "es_scrypt demo_site ''password1'' (dr_salt demo_draws) \<noteq> []"
      "int (length ''password1'') \<le> es_max_password demo_site"
    by code_simp+
  have req: "sign_up_request demo_site demo_sworld demo_draws bob_up ''bob@a.io'' ''password1''"
    unfolding sign_up_request_def using facts(1)
    by (intro conjI) (assumption | code_simp)+
  from sign_up_then_sign_in[OF plain_demo_site request_json_body req facts(5-7) request_json_body facts(2,4,3) _ facts(8),
    of "at_us 5" no_token "at_us 9" no_token demo_draws]
  show ?thesis by (auto simp: bob_login_def)
qed

section \<open>Resetting a password\<close>

definition reset_body :: row where
  "reset_body = [(''token'', VStr ''tok''), (''newPassword'', VStr ''password2'')]"

lemma reset_consumes:
  "fst (consume_verification_value (core demo_site) (at_us 500) ''reset-password:tok'' (sw_int demo_sworld)) =
     Inr (Some ann_token)"
  "iw_db (snd (consume_verification_value (core demo_site) (at_us 500) ''reset-password:tok'' (sw_int demo_sworld))) =
     set_rows ''verification'' [] (iw_db (sw_int demo_sworld))"
  by code_simp+

lemma reset_finishes:
  assumes "table w ''user'' = [ann]" "table w ''account'' = [ann_account, ann_github]"
  shows "\<exists>w'. finish_reset demo_site (at_us 500) no_token reset_body demo_draws ann_token w = (Inr status_true, w')"
proof -
  have steps: "dindex ann_token ''value'' = Inr (VStr ''u'')" "List.find (\<lambda>u. is_field u ''id'' (VStr ''u'')) [ann] = Some ann"
      "List.find (credential_of (VStr ''u'')) [ann_account, ann_github] = Some ann_account"
      "dindex ann_account ''id'' = Inr (VStr ''c'')" "es_on_reset demo_site = None"
      "hash_password_checked demo_site demo_draws no_token (dget reset_body ''newPassword'') =
        Inr (hash_password demo_scrypt ''salt'' ''password2'')"
    by code_simp+
  have "\<exists>w1. store_password demo_site (at_us 500) demo_draws ann (VStr ''u'') h w = (Inr (), w1)" for h
    using assms(2) steps(3,4)
    by (simp add: store_password_run on_update_step[OF demo_native _ _ password_update[OF core_tables_demo]])
  then obtain w1 where store: "store_password demo_site (at_us 500) demo_draws ann (VStr ''u'')
      (hash_password demo_scrypt ''salt'' ''password2'') w = (Inr (), w1)" by blast
  have revoke: "es_revoke_on_reset demo_site" by (simp add: demo_site_def)
  have "bindA (bindA (on_rows (mem_delete_many ''session'' [Where ''userId'' (VStr ''u'')])) (\<lambda>_. ret ())) f w1 =
      f () (with_rows ''session'' (filter (\<lambda>r. \<not> sel [Where ''userId'' (VStr ''u'')] r) (table w1 ''session'')) w1)"
    for f :: "unit \<Rightarrow> (sworld, response) action"
    by (rule bindA_Inr) (rule on_delete_many_step, simp)
  moreover have "bindA (store_password demo_site (at_us 500) demo_draws ann (VStr ''u'')
      (hash_password demo_scrypt ''salt'' ''password2'')) f w = f () w1" for f :: "unit \<Rightarrow> (sworld, response) action"
    by (rule bindA_Inr) (rule store)
  ultimately show ?thesis
    using assms(1) steps revoke by (simp add: finish_reset_def find_row_step sel_field1)
qed

lemma reset_runs: "\<exists>w'. reset_password demo_site (at_us 500) no_token (json_body reset_body) demo_draws demo_sworld =
    (Inr status_true, w')"
proof -
  let ?i = "snd (consume_verification_value (core demo_site) (at_us 500) ''reset-password:tok'' (sw_int demo_sworld))"
  let ?w = "demo_sworld\<lparr>sw_int := ?i\<rparr>"
  have facts: "require_email_password_enabled demo_site = Inr ()" "reset_token no_token reset_body = VStr ''tok''"
      "require_fields reset_body [''newPassword''] = Inr ()"
      "validate_password demo_site (dget reset_body ''newPassword'') = Inr ()"
      "table demo_sworld ''user'' = [ann]" "table demo_sworld ''account'' = [ann_account, ann_github]"
    by code_simp+
  have "table ?w ''user'' = [ann]" "table ?w ''account'' = [ann_account, ann_github]"
    using facts(5,6) by (simp_all add: table_def reset_consumes)
  from reset_finishes[OF this] obtain w' where
    f: "finish_reset demo_site (at_us 500) no_token reset_body demo_draws ann_token ?w = (Inr status_true, w')" by blast
  have "on_core (consume_verification_value (core demo_site) (at_us 500) ''reset-password:tok'') demo_sworld =
      (Inr (Some ann_token), ?w)"
    using reset_consumes(1) by (simp add: on_core_def split: prod.split) (metis fst_conv snd_conv)
  then have "bindA (on_core (consume_verification_value (core demo_site) (at_us 500) ''reset-password:tok'')) f demo_sworld =
      f (Some ann_token) ?w" for f :: "row option \<Rightarrow> (sworld, response) action"
    by (simp add: bindA_def)
  with f facts(1-4) show ?thesis
    by (auto simp: reset_password_def f_string_def simp del: require_fields.simps)
qed

lemma verif_ok_demo: "verif_ok (core demo_site) (sw_int demo_sworld)"
proof -
  have ann: "verif_rows (sw_int demo_sworld) = [ann_token]" "iw_queue (sw_int demo_sworld) = None"
      "map_of (iw_db (sw_int demo_sworld)) ''verification'' = Some [ann_token]"
    by code_simp+
  show ?thesis by (simp add: verif_ok_def ann) (simp add: str_ids_def row_ids_def ann_token_def dget_Cons date_column_def is_date_def is_str_def)
qed

theorem reset_token_single_use_witness:
  "\<exists>rs w' e w''. reset_password demo_site (at_us 500) no_token (json_body reset_body) demo_draws demo_sworld = (Inr rs, w') \<and>
     table w' ''session'' = [] \<and>
     reset_password demo_site (at_us 600) no_token (json_body reset_body) demo_draws w' = (Inl e, w'')"
proof -
  let ?run = "reset_password demo_site (at_us 500) no_token (json_body reset_body) demo_draws demo_sworld"
  from reset_runs obtain w' where run: "?run = (Inr status_true, w')" by blast
  let ?name = "''reset-password:'' @ f_string demo_site (reset_token no_token reset_body)"
  have facts: "in_database (core demo_site)" "es_revoke_on_reset demo_site"
      "length (identifiers_to_try (core demo_site) (''reset-password:'' @ f_string demo_site (reset_token no_token reset_body))) = 1"
      "list_all (\<lambda>m. str_ids (table demo_sworld m)) [''user'', ''account'', ''session'']"
      "latest_row (table demo_sworld ''verification'') ''reset-password:tok'' = Some ann_token"
      "dget ann_token ''value'' = VStr ''u''"
      "filter (\<lambda>s. dget s ''userId'' \<noteq> VStr ''u'') (table demo_sworld ''session'') = []"
      "identifiers_to_try (core demo_site) (''reset-password:'' @ f_string demo_site (reset_token no_token reset_body)) =
        [''reset-password:tok'']"
    by code_simp+
  from reset_token_single_use[OF core_tables_demo verif_ok_demo facts(1,4) run]
  obtain d r uid i where d: "request_json (json_body reset_body) = Inr d"
    and i: "i \<in> set (identifiers_to_try (core demo_site) (''reset-password:'' @ f_string demo_site (reset_token no_token d)))"
      "latest_row (table demo_sworld ''verification'') i = Some r" "dget r ''value'' = VStr uid"
    and sessions: "table w' ''session'' = (if es_revoke_on_reset demo_site
        then filter (\<lambda>s. dget s ''userId'' \<noteq> VStr uid) (table demo_sworld ''session'') else table demo_sworld ''session'')"
    and refused: "length (identifiers_to_try (core demo_site)
          (''reset-password:'' @ f_string demo_site (reset_token no_token d))) = 1 \<longrightarrow>
        (\<forall>ev' rq' b' d' dr'. request_json b' = Inr d' \<longrightarrow> reset_token rq' d' = reset_token no_token d \<longrightarrow>
          (\<exists>e w''. reset_password demo_site ev' rq' b' dr' w' = (Inl e, w'')))"
    by blast
  have d: "d = reset_body" using d by simp
  have "i = ''reset-password:tok''" using i(1) facts(8) by (simp add: d)
  then have "uid = ''u''" using i(2,3) facts(5,6) by simp
  with sessions facts(2,7) have "table w' ''session'' = []" by simp
  moreover obtain e w'' where
      "reset_password demo_site (at_us 600) no_token (json_body reset_body) demo_draws w' = (Inl e, w'')"
    using refused facts(3) d request_json_body by blast
  ultimately show ?thesis using run by blast
qed

end
