(* ===== verification/Plugin_Base.thy ===== *)
theory Plugin_Base
  imports User_Endpoints
begin

text \<open>
  What the plugins share: how a code or token is kept at rest, values read from stored rows, and the
  start and the end of a session for a user at hand. The cipher and SHA-256 are parameters; \<open>row_env\<close>
  gives the rows that one call stores their own ids.
\<close>

section \<open>Codes and tokens at rest\<close>

record ciphers =
  cx_secret :: secret_like
  cx_encrypt :: "string \<Rightarrow> string \<Rightarrow> string"
  cx_decrypt :: "string \<Rightarrow> string \<Rightarrow> string result"
  cx_sha256 :: "string \<Rightarrow> nat list"

text \<open>A storage option of a code: a known name or the callbacks \<open>hash\<close>, \<open>encrypt\<close> and \<open>decrypt\<close> it gives.\<close>

datatype code_store =
    StorePlain
  | StoreHashed
  | StoreEncrypted
  | StoreCustom "(pyval \<Rightarrow> string result) option" "(string \<Rightarrow> string result) option" "(string \<Rightarrow> string result) option"

definition store_code :: "ciphers \<Rightarrow> code_store \<Rightarrow> string \<Rightarrow> string result" where
  "store_code cx st code =
     (case st of
        StoreHashed \<Rightarrow> Inr (default_key_hasher (cx_sha256 cx) code)
      | StoreCustom (Some h) _ _ \<Rightarrow> h (VStr code)
      | StoreCustom None (Some e) _ \<Rightarrow> e code
      | StoreEncrypted \<Rightarrow> symmetric_encrypt (cx_encrypt cx) (cx_secret cx) code
      | _ \<Rightarrow> Inr code)"

text \<open>\<open>symmetric_decrypt(secret, stored)\<close> of a stored value.\<close>

definition open_secret :: "ciphers \<Rightarrow> pyval \<Rightarrow> string result" where
  "open_secret cx stored =
     (case stored of
        VStr s \<Rightarrow> symmetric_decrypt (cx_decrypt cx) (cx_secret cx) s []
      | _ \<Rightarrow> Inl AttributeError)"

text \<open>A storage option of a token: as it is, hashed, or under the hasher of the application.\<close>

datatype token_store = TokenPlain | TokenHashed | TokenCustom "pyval \<Rightarrow> string result"

section \<open>Values and rows\<close>

definition text_value :: "pyval \<Rightarrow> string result" where
  "text_value v = (case v of VStr s \<Rightarrow> Inr s | _ \<Rightarrow> Inl AttributeError)"

text \<open>A row that is not there, or an empty one: both are false in Python.\<close>

definition real_row :: "row option \<Rightarrow> row option" where
  "real_row r = (case r of Some (c # cs) \<Rightarrow> Some (c # cs) | _ \<Rightarrow> None)"

definition row_env :: "env \<Rightarrow> (nat \<Rightarrow> string) \<Rightarrow> nat \<Rightarrow> env" where
  "row_env ev ids n = ev\<lparr>rnd_id := ids n, rnd_uuid := ids n\<rparr>"

section \<open>Sessions\<close>

text \<open>\<open>create_session\<close> for a user at hand, recorded in the context.\<close>

definition start_session_for ::
    "site \<Rightarrow> env \<Rightarrow> request \<Rightarrow> pyval \<Rightarrow> bool \<Rightarrow> row \<Rightarrow> ids \<Rightarrow> (sworld, row \<times> string list) action" where
  "start_session_for es ev rq user_id remember_me user fresh =
     bindA (on_core (session_create (es_auth es) ev rq user_id remember_me (Some user) True fresh))
       (\<lambda>(session, cookies, created) w. (Inr (session, cookies), w\<lparr>sw_new_session := created\<rparr>))"

definition end_session :: "site \<Rightarrow> env \<Rightarrow> pyval \<Rightarrow> (sworld, unit) action" where
  "end_session es ev token =
     bindA (liftR (str_arg token)) (\<lambda>t. on_core (delete_session (core es) ev t))"

definition token_reply :: "site \<Rightarrow> pyval \<Rightarrow> row \<Rightarrow> response" where
  "token_reply es token user = reply [(''token'', token), (''user'', user_output es user)]"

end
