(* ===== verification/Two_Factor.thy ===== *)
theory Two_Factor
  imports Plugin_Base
begin

text \<open>
  \<open>plugins_ext/two_factor.py\<close>: the second factor by one-time passwords, mailed codes and backup codes,
  with the challenge of a sign-in, its attempt budget, the account lockout and trusted devices.

  The cipher, the JSON codec and the callbacks of the options are parameters. The random values of a call
  are its argument \<open>tf_draws\<close>; \<open>td_ids n\<close> is the id of the \<open>n\<close>-th row that the call stores. A code of the
  body that is no text is refused with a type error.
\<close>

section \<open>Options\<close>

datatype backup_store =
    BackupPlain
  | BackupEncrypted
  | BackupCustom "(string \<Rightarrow> string result) option" "(pyval \<Rightarrow> string result) option"

record two_factor =
  tf_issuer :: string
  tf_table :: string
  tf_skip_on_enable :: bool
  tf_allow_passwordless :: bool
  tf_cookie_max_age :: int
  tf_trust_max_age :: int
  tf_lock_enabled :: bool
  tf_lock_max :: int
  tf_lock_seconds :: int
  tf_totp_digits :: nat
  tf_totp_period :: int
  tf_totp_disable :: bool
  tf_totp_passwordless :: bool
  tf_otp_digits :: nat
  tf_otp_seconds :: int
  tf_otp_allowed :: int
  tf_otp_store :: code_store
  tf_otp_send :: "(row \<Rightarrow> string \<Rightarrow> unit result) option"
  tf_backup_amount :: nat
  tf_backup_store :: backup_store
  tf_backup_custom :: "pyval list option"
  tf_backup_passwordless :: bool
  tf_ciphers :: ciphers
  tf_mac :: "string \<Rightarrow> int \<Rightarrow> nat list"
  tf_dumps :: "pyval \<Rightarrow> string"
  tf_loads :: "string \<Rightarrow> pyval option"

text \<open>The columns the plugin adds to the users, and those of its own table.\<close>

definition two_factor_user_fields :: fields where
  "two_factor_user_fields =
     [(''twoFactorEnabled'', (mk_field ''boolean'' False)\<lparr>f_default := Some (VBool False), f_input := False\<rparr>)]"

definition two_factor_fields :: fields where
  "two_factor_fields =
     [(''secret'', (mk_field ''string'' True)\<lparr>f_returned := False\<rparr>),
      (''backupCodes'', (mk_field ''string'' True)\<lparr>f_returned := False\<rparr>),
      (''userId'', (mk_field ''string'' True)\<lparr>f_returned := False\<rparr>),
      (''verified'', (mk_field ''boolean'' False)\<lparr>f_default := Some (VBool True), f_input := False\<rparr>),
      (''failedVerificationCount'',
       (mk_field ''number'' False)\<lparr>f_default := Some (VInt 0), f_input := False, f_returned := False\<rparr>),
      (''lockedUntil'', (mk_field ''datetime'' False)\<lparr>f_input := False, f_returned := False\<rparr>)]"

record tf_draws =
  td_secret :: string
  td_backup :: "nat \<Rightarrow> string"
  td_otp :: string
  td_trust :: string
  td_challenge :: string
  td_session :: ids
  td_ids :: "nat \<Rightarrow> string"

definition ALLOWED_ATTEMPTS :: int where
  "ALLOWED_ATTEMPTS = 5"

definition DEFAULT_APP_NAME :: string where
  "DEFAULT_APP_NAME = ''Better Auth''"

definition TF_ERRORS :: "(string \<times> string) list" where
  "TF_ERRORS =
     [(''OTP_NOT_ENABLED'', ''OTP not enabled''),
      (''OTP_NOT_CONFIGURED'', ''OTP is not available''),
      (''OTP_HAS_EXPIRED'', ''OTP has expired''),
      (''TOTP_NOT_ENABLED'', ''TOTP not enabled''),
      (''TOTP_ALREADY_ENABLED'', ''TOTP is already enabled''),
      (''TOTP_NOT_CONFIGURED'', ''TOTP is not available''),
      (''TWO_FACTOR_NOT_ENABLED'', ''Two factor isn't enabled''),
      (''BACKUP_CODES_NOT_ENABLED'', ''Backup codes aren't enabled''),
      (''INVALID_BACKUP_CODE'', ''Invalid backup code''),
      (''INVALID_CODE'', ''Invalid code''),
      (''TOO_MANY_ATTEMPTS_REQUEST_NEW_CODE'', ''Too many attempts. Please request a new code.''),
      (''ACCOUNT_TEMPORARILY_LOCKED'',
       ''Too many failed verification attempts. Your account is temporarily locked. Please try again later.''),
      (''INVALID_TWO_FACTOR_COOKIE'', ''Invalid two factor cookie'')]"

definition tf_err :: "int \<Rightarrow> string \<Rightarrow> exn" where
  "tf_err status key = (case map_of TF_ERRORS key of Some m \<Rightarrow> api_error status key m | None \<Rightarrow> KeyError)"

section \<open>Helpers\<close>

text \<open>\<open>_as_datetime\<close>; a stored text is parsed with its \<open>Z\<close> as an offset.\<close>

definition as_datetime :: "site \<Rightarrow> pyval \<Rightarrow> int option result" where
  "as_datetime es v =
     (case v of
        VDate t \<Rightarrow> Inr (Some t)
      | VStr s \<Rightarrow> bindR (parse_iso (ad_codec (store_ad es)) s) (\<lambda>t. Inr (Some t))
      | _ \<Rightarrow> Inr None)"

definition tf_credential :: "site \<Rightarrow> pyval \<Rightarrow> (sworld, row option) action" where
  "tf_credential es user_id =
     on_rows (mem_find_one (store_ad es) ''account''
       [Where ''userId'' user_id, Where ''providerId'' (VStr ''credential'')] [])"

definition should_require_password :: "site \<Rightarrow> pyval \<Rightarrow> bool \<Rightarrow> (sworld, bool) action" where
  "should_require_password es user_id allow_passwordless =
     (if \<not> allow_passwordless then ret True
      else bindA (tf_credential es user_id) (\<lambda>account. ret (py_truthy (account_password account))))"

definition password_valid :: "site \<Rightarrow> pyval \<Rightarrow> pyval \<Rightarrow> (sworld, bool) action" where
  "password_valid es user_id password =
     bindA (tf_credential es user_id) (\<lambda>account.
       if \<not> py_truthy (account_password account) then ret False
       else liftR (check_stored es (account_password account) password))"

definition tf_require_password :: "site \<Rightarrow> pyval \<Rightarrow> pyval \<Rightarrow> bool \<Rightarrow> (sworld, unit) action" where
  "tf_require_password es user_id password allow_passwordless =
     bindA (should_require_password es user_id allow_passwordless) (\<lambda>required.
       if \<not> required then ret ()
       else if \<not> py_truthy password then raise invalid_password
       else
         bindA (liftR (assert_password_not_too_long es password)) (\<lambda>_.
         bindA (password_valid es user_id password) (\<lambda>ok.
           if ok then ret () else raise invalid_password)))"

definition tf_session :: "site \<Rightarrow> env \<Rightarrow> request \<Rightarrow> bool \<Rightarrow> (sworld, validated) action" where
  "tf_session es ev rq disable_cache =
     bindA (on_core (get_session (es_auth es) ev rq disable_cache False False)) (\<lambda>(found, _).
       case found of
         None \<Rightarrow> raise (api_error 401 ''UNAUTHORIZED'' ''Unauthorized'')
       | Some v \<Rightarrow>
           if va_session v = [] then raise (api_error 401 ''UNAUTHORIZED'' ''Unauthorized'') else ret v)"

definition tf_row :: "site \<Rightarrow> two_factor \<Rightarrow> pyval \<Rightarrow> (sworld, row option) action" where
  "tf_row es tf user_id =
     bindA (on_rows (mem_find_one (store_ad es) (tf_table tf) [Where ''userId'' user_id] [])) (\<lambda>r. ret (real_row r))"

section \<open>Codes at rest\<close>

definition generate_backup_codes :: "two_factor \<Rightarrow> tf_draws \<Rightarrow> pyval list" where
  "generate_backup_codes tf td =
     (case tf_backup_custom tf of
        Some codes \<Rightarrow> codes
      | None \<Rightarrow> map (\<lambda>i. VStr (take 5 (td_backup td i) @ ''-'' @ drop 5 (td_backup td i))) [0..<tf_backup_amount tf])"

definition encode_backup_codes :: "two_factor \<Rightarrow> pyval list \<Rightarrow> string result" where
  "encode_backup_codes tf codes =
     (let payload = tf_dumps tf (VList codes)
      in case tf_backup_store tf of
           BackupEncrypted \<Rightarrow> symmetric_encrypt (cx_encrypt (tf_ciphers tf)) (cx_secret (tf_ciphers tf)) payload
         | BackupCustom (Some f) _ \<Rightarrow> f payload
         | _ \<Rightarrow> Inr payload)"

definition decode_backup_codes :: "two_factor \<Rightarrow> pyval \<Rightarrow> pyval list option result" where
  "decode_backup_codes tf stored =
     bindR
       (case tf_backup_store tf of
          BackupEncrypted \<Rightarrow> bindR (open_secret (tf_ciphers tf) stored) (\<lambda>p. Inr (Some p))
        | BackupCustom _ (Some f) \<Rightarrow> bindR (f stored) (\<lambda>p. Inr (Some p))
        | _ \<Rightarrow> Inr (case stored of VStr s \<Rightarrow> Some s | _ \<Rightarrow> None)) (\<lambda>decrypted.
       Inr (case decrypted of
              None \<Rightarrow> None
            | Some p \<Rightarrow> (case tf_loads tf p of Some (VList codes) \<Rightarrow> Some codes | _ \<Rightarrow> None)))"

definition compare_otp :: "two_factor \<Rightarrow> string \<Rightarrow> pyval \<Rightarrow> bool result" where
  "compare_otp tf stored provided =
     (let same = (\<lambda>plain. case provided of VStr p \<Rightarrow> Inr (plain = p) | _ \<Rightarrow> Inl AttributeError)
      in case tf_otp_store tf of
           StoreHashed \<Rightarrow>
             (case provided of
                VStr p \<Rightarrow> Inr (stored = default_key_hasher (cx_sha256 (tf_ciphers tf)) p)
              | _ \<Rightarrow> Inl AttributeError)
         | StoreCustom (Some h) _ _ \<Rightarrow> bindR (h provided) (\<lambda>x. Inr (stored = x))
         | StoreCustom None _ (Some d) \<Rightarrow> bindR (d stored) same
         | StoreEncrypted \<Rightarrow> bindR (open_secret (tf_ciphers tf) (VStr stored)) same
         | _ \<Rightarrow> same stored)"

section \<open>Account lockout\<close>

definition assert_not_locked :: "site \<Rightarrow> two_factor \<Rightarrow> env \<Rightarrow> row \<Rightarrow> (sworld, unit) action" where
  "assert_not_locked es tf ev r =
     bindA (liftR (as_datetime es (dget r ''lockedUntil''))) (\<lambda>locked.
       case locked of
         None \<Rightarrow> ret ()
       | Some until \<Rightarrow>
           if \<not> tf_lock_enabled tf then ret ()
           else if until > now ev then raise (tf_err 429 ''ACCOUNT_TEMPORARILY_LOCKED'')
           else
             bindA (liftR (dindex r ''id'')) (\<lambda>rid.
             bindA (on_rows (mem_increment_one (store_ad es) ev (tf_table tf)
                      [Where ''id'' rid, WhereOp ''lockedUntil'' (VDate (now ev)) OLte] (Some [])
                      (Some [(''failedVerificationCount'', VInt 0), (''lockedUntil'', VNone)]))) (\<lambda>_. ret ())))"

text \<open>\<open>(updated or {}).get("failedVerificationCount", 0) >= max_failed\<close>.\<close>

definition failures_reach :: "two_factor \<Rightarrow> row option \<Rightarrow> bool result" where
  "failures_reach tf updated =
     (case map_of (case updated of Some r \<Rightarrow> r | None \<Rightarrow> []) ''failedVerificationCount'' of
        None \<Rightarrow> Inr (0 \<ge> tf_lock_max tf)
      | Some v \<Rightarrow> (case py_num v of Some n \<Rightarrow> Inr (n \<ge> tf_lock_max tf) | None \<Rightarrow> Inl TypeError))"

definition record_failure :: "site \<Rightarrow> two_factor \<Rightarrow> env \<Rightarrow> row \<Rightarrow> (sworld, unit) action" where
  "record_failure es tf ev r =
     (if \<not> tf_lock_enabled tf then ret ()
      else
        bindA (liftR (dindex r ''id'')) (\<lambda>rid.
        bindA (on_rows (mem_increment_one (store_ad es) ev (tf_table tf) [Where ''id'' rid]
                 (Some [(''failedVerificationCount'', VInt 1)]) None)) (\<lambda>updated.
        bindA (liftR (failures_reach tf updated)) (\<lambda>reached.
          if \<not> reached then ret ()
          else
            bindA (on_rows (mem_increment_one (store_ad es) ev (tf_table tf)
                     [Where ''id'' rid, WhereOp ''failedVerificationCount'' (VInt (tf_lock_max tf)) OGte] (Some [])
                     (Some [(''lockedUntil'', VDate (now ev + tf_lock_seconds tf * 1000000))]))) (\<lambda>_. ret ())))))"

definition reset_failures :: "site \<Rightarrow> two_factor \<Rightarrow> env \<Rightarrow> row \<Rightarrow> (sworld, unit) action" where
  "reset_failures es tf ev r =
     (if \<not> tf_lock_enabled tf then ret ()
      else
        bindA (liftR (dindex r ''id'')) (\<lambda>rid.
        bindA (on_rows (mem_update (store_ad es) ev (tf_table tf) [Where ''id'' rid]
                 [(''failedVerificationCount'', VInt 0), (''lockedUntil'', VNone)])) (\<lambda>_. ret ())))"

section \<open>Challenges\<close>

text \<open>
  \<open>_Challenge\<close>: a sign-in that waits for its second factor, or a signed-in user who verifies again; then
  \<open>ch_session\<close> is the active session.
\<close>

record challenge =
  ch_sign_in :: bool
  ch_user :: row
  ch_session :: "row option"
  ch_identifier :: string
  ch_key :: string
  ch_dont_remember :: bool
  ch_expires_at :: pyval

definition invalid_cookie :: exn where
  "invalid_cookie = tf_err 401 ''INVALID_TWO_FACTOR_COOKIE''"

definition too_many_attempts :: exn where
  "too_many_attempts = tf_err 400 ''TOO_MANY_ATTEMPTS_REQUEST_NEW_CODE''"

definition counter_name :: "string \<Rightarrow> string" where
  "counter_name identifier = ''2fa-attempts-'' @ identifier"

text \<open>The identifier that a signed cookie of the plugin carries; an empty one counts as none.\<close>

definition signed_cookie :: "site \<Rightarrow> request \<Rightarrow> string \<Rightarrow> string option" where
  "signed_cookie es rq base =
     (case get_cookie (es_auth es) rq base of
        None \<Rightarrow> None
      | Some raw \<Rightarrow>
          if raw = [] then None
          else
            (case unsign_value (au_hmac (es_auth es)) (au_secret (es_auth es)) raw of
               Some i \<Rightarrow> if i = [] then None else Some i
             | None \<Rightarrow> None))"

definition sign_in_challenge :: "site \<Rightarrow> env \<Rightarrow> request \<Rightarrow> (sworld, challenge) action" where
  "sign_in_challenge es ev rq =
     (case signed_cookie es rq ''two_factor'' of
        None \<Rightarrow> raise invalid_cookie
      | Some identifier \<Rightarrow>
          bindA (on_core (find_verification_value (core es) ev identifier)) (\<lambda>verification.
            case real_row verification of
              None \<Rightarrow> raise invalid_cookie
            | Some r \<Rightarrow>
                bindA (liftR (dindex r ''value'')) (\<lambda>uid.
                bindA (on_rows (mem_find_one (store_ad es) ''user'' [Where ''id'' uid] [])) (\<lambda>found.
                  case real_row found of
                    None \<Rightarrow> raise invalid_cookie
                  | Some user \<Rightarrow>
                      bindA (liftR (dindex r ''expiresAt'')) (\<lambda>expires_at.
                        ret \<lparr>ch_sign_in = True, ch_user = user, ch_session = None, ch_identifier = identifier,
                             ch_key = identifier, ch_dont_remember = is_dont_remember (es_auth es) rq,
                             ch_expires_at = expires_at\<rparr>)))))"

definition verify_two_factor :: "site \<Rightarrow> env \<Rightarrow> request \<Rightarrow> (sworld, challenge) action" where
  "verify_two_factor es ev rq =
     bindA (load_session es ev rq) (\<lambda>found.
       case found of
         Some v \<Rightarrow>
           if va_session v \<noteq> [] then
             bindA (liftR (dindex (va_user v) ''id'')) (\<lambda>uid.
             bindA (liftR (dindex (va_session v) ''id'')) (\<lambda>sid.
               ret \<lparr>ch_sign_in = False, ch_user = va_user v, ch_session = Some (va_session v), ch_identifier = [],
                    ch_key = f_string es uid @ ''!'' @ f_string es sid, ch_dont_remember = False,
                    ch_expires_at = VNone\<rparr>))
           else sign_in_challenge es ev rq
       | None \<Rightarrow> sign_in_challenge es ev rq)"

text \<open>\<open>int(value)\<close>, or \<open>-1\<close> for what is no number; then the count is the whole budget.\<close>

definition attempts_of :: "int \<Rightarrow> pyval \<Rightarrow> int" where
  "attempts_of allowed v =
     (let parsed = (case v of
            VStr s \<Rightarrow> (case parse_int s of Some n \<Rightarrow> n | None \<Rightarrow> - 1)
          | _ \<Rightarrow> (case py_num v of Some n \<Rightarrow> n | None \<Rightarrow> - 1))
      in if parsed \<ge> 0 then parsed else allowed)"

text \<open>
  \<open>begin_attempt\<close>: takes the counter of the challenge, so that of concurrent attempts one goes on. The
  result is the count so far, nothing for a verification that is not capped.
\<close>

definition begin_attempt :: "site \<Rightarrow> env \<Rightarrow> challenge \<Rightarrow> int \<Rightarrow> (sworld, int option) action" where
  "begin_attempt es ev ch allowed =
     (if \<not> ch_sign_in ch then ret None
      else
        bindA (catchA (on_core (consume_verification_value (core es) ev (counter_name (ch_identifier ch)))) (\<lambda>_. ret None))
          (\<lambda>consumed.
          case real_row consumed of
            None \<Rightarrow> raise invalid_cookie
          | Some r \<Rightarrow>
              bindA (liftR (dindex r ''value'')) (\<lambda>v.
                if attempts_of allowed v \<ge> allowed then
                  bindA (catchA (on_core (consume_verification_value (core es) ev (ch_identifier ch)))
                           (\<lambda>_. raise (api_error 500 ''FAILED_TO_INVALIDATE_TWO_FACTOR_CHALLENGE''
                              ''Failed to invalidate two-factor challenge''))) (\<lambda>_.
                    raise too_many_attempts)
                else ret (Some (attempts_of allowed v)))))"

text \<open>\<open>rearm\<close>: writes the counter back; an error here is swallowed.\<close>

definition rearm :: "site \<Rightarrow> env \<Rightarrow> challenge \<Rightarrow> int \<Rightarrow> (sworld, unit) action" where
  "rearm es ev ch count =
     catchA
       (bindA (on_core (create_verification_value (core es) ev
          [(''value'', VStr (int_str count)), (''identifier'', VStr (counter_name (ch_identifier ch))),
           (''expiresAt'', ch_expires_at ch)] False)) (\<lambda>_. ret ()))
       (\<lambda>_. ret ())"

definition attempt_failed :: "site \<Rightarrow> env \<Rightarrow> challenge \<Rightarrow> int option \<Rightarrow> (sworld, unit) action" where
  "attempt_failed es ev ch taken =
     (case taken of Some n \<Rightarrow> rearm es ev ch (n + 1) | None \<Rightarrow> ret ())"

definition attempt_restored :: "site \<Rightarrow> env \<Rightarrow> challenge \<Rightarrow> int option \<Rightarrow> (sworld, unit) action" where
  "attempt_restored es ev ch taken =
     (case taken of Some n \<Rightarrow> rearm es ev ch n | None \<Rightarrow> ret ())"

definition make_trust_cookie ::
    "site \<Rightarrow> two_factor \<Rightarrow> env \<Rightarrow> tf_draws \<Rightarrow> pyval \<Rightarrow> (sworld, string) action" where
  "make_trust_cookie es tf ev td user_id =
     (let au = es_auth es;
          trust_id = ''trust-device-'' @ td_trust td;
          token = sign_hmac_b64url (au_hmac au) (au_secret au) (f_string es user_id @ ''!'' @ trust_id)
      in bindA (on_core (create_verification_value (core es) (row_env ev (td_ids td) 0)
           [(''value'', user_id), (''identifier'', VStr trust_id),
            (''expiresAt'', VDate (now ev + tf_trust_max_age tf * 1000000))] False)) (\<lambda>_.
           ret (build_cookie au (sign_value (au_hmac au) (au_secret au) (token @ ''!'' @ trust_id))
                  (Some (tf_trust_max_age tf)) ''trust_device'' True)))"

text \<open>\<open>_Challenge.valid\<close>: the session of the sign-in, once; or the active session again.\<close>

definition challenge_valid ::
    "site \<Rightarrow> two_factor \<Rightarrow> env \<Rightarrow> request \<Rightarrow> tf_draws \<Rightarrow> challenge \<Rightarrow> bool \<Rightarrow> (sworld, response) action" where
  "challenge_valid es tf ev rq td ch trust_device =
     (if \<not> ch_sign_in ch then
        (case ch_session ch of
           None \<Rightarrow> raise TypeError
         | Some active \<Rightarrow>
             bindA (liftR (dindex active ''token'')) (\<lambda>token. ret (token_reply es token (ch_user ch))))
      else
          bindA (on_core (consume_verification_value (core es) ev (ch_identifier ch))) (\<lambda>consumed.
            case real_row consumed of
              None \<Rightarrow> raise invalid_cookie
            | Some r \<Rightarrow>
                bindA (liftR (dindex r ''value'')) (\<lambda>v.
                bindA (liftR (dindex (ch_user ch) ''id'')) (\<lambda>uid.
                  if \<not> py_eq v uid then raise invalid_cookie
                  else
                    bindA (start_session_for es ev rq v (\<not> ch_dont_remember ch) (ch_user ch) (td_session td))
                      (\<lambda>(session, cookies).
                      let answer = add_cookies (cookies @ [clear_cookie (es_auth es) ''two_factor''])
                            (token_reply es (dget session ''token'') (ch_user ch))
                      in if trust_device then
                           bindA (make_trust_cookie es tf ev td uid) (\<lambda>trust.
                             ret (add_cookies [trust, clear_cookie (es_auth es) ''dont_remember''] answer))
                         else ret answer)))))"

section \<open>Provisioning URI\<close>

text \<open>Base32 of the bytes, without padding; the bits of a byte come most significant first.\<close>

definition byte_bits :: "nat \<Rightarrow> bool list" where
  "byte_bits n = map (\<lambda>i. odd (n div 2 ^ (7 - i))) [0..<8]"

definition bits_value :: "bool list \<Rightarrow> nat" where
  "bits_value bs = foldl (\<lambda>v b. 2 * v + (if b then 1 else 0)) 0 bs"

fun b32_digits :: "bool list \<Rightarrow> string" where
  "b32_digits [] = []"
| "b32_digits (b # bs) =
     (let group = take 5 (b # bs); padded = group @ replicate (5 - length group) False
      in ''ABCDEFGHIJKLMNOPQRSTUVWXYZ234567'' ! bits_value padded # b32_digits (drop 4 bs))"

definition otpauth_url :: "string \<Rightarrow> string \<Rightarrow> string \<Rightarrow> nat \<Rightarrow> int \<Rightarrow> string" where
  "otpauth_url secret issuer account digits period =
     (let label = quote_all issuer @ '':'' @ quote_all account;
          b32 = b32_digits (concat (map byte_bits (map of_char secret)))
      in ''otpauth://totp/'' @ label @ ''?'' @
         urlencode [(''secret'', b32), (''issuer'', issuer), (''digits'', nat_str digits), (''period'', int_str period)])"

definition totp_uri :: "two_factor \<Rightarrow> string \<Rightarrow> pyval \<Rightarrow> row \<Rightarrow> string result" where
  "totp_uri tf secret issuer user =
     bindR (dindex user ''email'') (\<lambda>email.
     bindR (str_arg issuer) (\<lambda>i.
     bindR (str_arg email) (\<lambda>e. Inr (otpauth_url secret i e (tf_totp_digits tf) (tf_totp_period tf)))))"

section \<open>Enabling and disabling\<close>

text \<open>Sets the flag of the user; then a new session replaces that of the request.\<close>

definition switch_two_factor ::
    "site \<Rightarrow> env \<Rightarrow> pyval \<Rightarrow> bool \<Rightarrow> (sworld, row) action" where
  "switch_two_factor es ev user_id enabled =
     bindA (on_core (update_user (core es) ev user_id [(''twoFactorEnabled'', VBool enabled)])) (\<lambda>updated.
       case updated of None \<Rightarrow> raise AssertionError | Some u \<Rightarrow> ret u)"

definition replace_session ::
    "site \<Rightarrow> env \<Rightarrow> request \<Rightarrow> tf_draws \<Rightarrow> pyval \<Rightarrow> row \<Rightarrow> row \<Rightarrow> (sworld, row \<times> string list) action" where
  "replace_session es ev rq td user_id updated active =
     bindA (start_session_for es ev rq user_id True updated (td_session td)) (\<lambda>(session, cookies).
     bindA (liftR (dindex active ''token'')) (\<lambda>token.
     bindA (end_session es ev token) (\<lambda>_. ret (session, cookies))))"

definition enable_user ::
    "site \<Rightarrow> env \<Rightarrow> request \<Rightarrow> tf_draws \<Rightarrow> validated \<Rightarrow> (sworld, string list) action" where
  "enable_user es ev rq td login =
     bindA (liftR (dindex (va_user login) ''id'')) (\<lambda>uid.
     bindA (switch_two_factor es ev uid True) (\<lambda>updated.
     bindA (liftR (dindex updated ''id'')) (\<lambda>uid'.
     bindA (replace_session es ev rq td uid' updated (va_session login)) (\<lambda>(_, cookies). ret cookies))))"

definition enroll_totp ::
    "site \<Rightarrow> two_factor \<Rightarrow> env \<Rightarrow> request \<Rightarrow> tf_draws \<Rightarrow> validated \<Rightarrow> row \<Rightarrow> pyval \<Rightarrow> row option \<Rightarrow>
     (sworld, response) action" where
  "enroll_totp es tf ev rq td login d uid existing =
     (let codes = generate_backup_codes tf td
      in bindA (liftR (encode_backup_codes tf codes)) (\<lambda>encoded.
         bindA (liftR (symmetric_encrypt (cx_encrypt (tf_ciphers tf)) (cx_secret (tf_ciphers tf)) (td_secret td))) (\<lambda>secret.
         bindA (if tf_skip_on_enable tf then enable_user es ev rq td login else ret []) (\<lambda>cookies.
         let data = [(''secret'', VStr secret), (''backupCodes'', VStr encoded),
                     (''verified'', VBool (tf_skip_on_enable tf))]
         in bindA
              (case existing of
                 Some e \<Rightarrow>
                   bindA (liftR (dindex e ''id'')) (\<lambda>rid.
                   bindA (on_rows (mem_update (store_ad es) ev (tf_table tf) [Where ''id'' rid] data)) (\<lambda>_. ret ()))
               | None \<Rightarrow>
                   bindA (on_rows (mem_create (store_ad es) (row_env ev (td_ids td) 1) (tf_table tf) (data @ [(''userId'', uid)]) []))
                     (\<lambda>_. ret ())) (\<lambda>_.
            bindA (liftR (totp_uri tf (td_secret td)
                     (py_or (dget d ''issuer'') (py_or (VStr (tf_issuer tf)) (VStr DEFAULT_APP_NAME)))
                     (va_user login))) (\<lambda>uri.
              ret (add_cookies cookies
                (reply [(''method'', VStr ''totp''), (''totpURI'', VStr uri), (''backupCodes'', VList codes)]))))))))"

definition route_enable ::
    "site \<Rightarrow> two_factor \<Rightarrow> env \<Rightarrow> request \<Rightarrow> body \<Rightarrow> tf_draws \<Rightarrow> (sworld, response) action" where
  "route_enable es tf ev rq b td =
     bindA (tf_session es ev rq False) (\<lambda>login.
     bindA (liftR (request_json b)) (\<lambda>d.
     bindA (liftR (dindex (va_user login) ''id'')) (\<lambda>uid.
     bindA (tf_require_password es uid (dget d ''password'') (tf_allow_passwordless tf)) (\<lambda>_.
     let mode = (case map_of d ''method'' of None \<Rightarrow> VStr ''totp'' | Some v \<Rightarrow> v)
     in if mode \<noteq> VStr ''otp'' \<and> mode \<noteq> VStr ''totp'' then
          raise (api_error 400 ''INVALID_BODY''
            (''method must be '' @ [CHR 0x27] @ ''otp'' @ [CHR 0x27] @ '' or '' @ [CHR 0x27] @ ''totp'' @ [CHR 0x27]))
        else if mode = VStr ''otp'' \<and> tf_otp_send tf = None then raise (tf_err 400 ''OTP_NOT_CONFIGURED'')
        else if mode = VStr ''totp'' \<and> tf_totp_disable tf then raise (tf_err 400 ''TOTP_NOT_CONFIGURED'')
        else if mode = VStr ''otp'' then
          bindA (enable_user es ev rq td login) (\<lambda>cookies.
            ret (add_cookies cookies (reply [(''method'', VStr ''otp'')])))
        else
          bindA (tf_row es tf uid) (\<lambda>existing.
            if (case existing of Some e \<Rightarrow> dget e ''verified'' \<noteq> VBool False | None \<Rightarrow> False)
            then raise (tf_err 400 ''TOTP_ALREADY_ENABLED'')
            else enroll_totp es tf ev rq td login d uid existing)))))"

text \<open>The trust record that the cookie of the request names goes with the second factor.\<close>

definition revoke_trust :: "site \<Rightarrow> request \<Rightarrow> response \<Rightarrow> (sworld, response) action" where
  "revoke_trust es rq rs =
     (case signed_cookie es rq ''trust_device'' of
        None \<Rightarrow> ret rs
      | Some trust \<Rightarrow>
          (case partition_at CHR ''!'' trust of
             (_, _, trust_id) \<Rightarrow>
               bindA (if trust_id \<noteq> [] then on_core (delete_verification_by_identifier (core es) trust_id) else ret ())
                 (\<lambda>_. ret (add_cookies [clear_cookie (es_auth es) ''trust_device''] rs))))"

definition route_disable ::
    "site \<Rightarrow> two_factor \<Rightarrow> env \<Rightarrow> request \<Rightarrow> body \<Rightarrow> tf_draws \<Rightarrow> (sworld, response) action" where
  "route_disable es tf ev rq b td =
     bindA (tf_session es ev rq True) (\<lambda>login.
     bindA (liftR (request_json b)) (\<lambda>d.
     bindA (liftR (dindex (va_user login) ''id'')) (\<lambda>uid.
     bindA (tf_require_password es uid (dget d ''password'') (tf_allow_passwordless tf)) (\<lambda>_.
     bindA (switch_two_factor es ev uid False) (\<lambda>updated.
     bindA (liftR (dindex updated ''id'')) (\<lambda>uid'.
     bindA (on_rows (mem_delete_many (tf_table tf) [Where ''userId'' uid'])) (\<lambda>_.
     bindA (replace_session es ev rq td uid' updated (va_session login)) (\<lambda>(_, cookies).
       revoke_trust es rq (add_cookies cookies status_true)))))))))"

definition route_get_totp_uri ::
    "site \<Rightarrow> two_factor \<Rightarrow> env \<Rightarrow> request \<Rightarrow> body \<Rightarrow> (sworld, response) action" where
  "route_get_totp_uri es tf ev rq b =
     (if tf_totp_disable tf then raise (api_error 400 ''TOTP_NOT_CONFIGURED'' ''totp isn't configured'')
      else
        bindA (tf_session es ev rq False) (\<lambda>login.
        bindA (liftR (dindex (va_user login) ''id'')) (\<lambda>uid.
        bindA (tf_row es tf uid) (\<lambda>found.
          case found of
            None \<Rightarrow> raise (tf_err 400 ''TOTP_NOT_ENABLED'')
          | Some r \<Rightarrow>
              bindA (liftR (dindex r ''secret'')) (\<lambda>stored.
              bindA (liftR (open_secret (tf_ciphers tf) stored)) (\<lambda>secret.
              bindA (liftR (request_json b)) (\<lambda>d.
              bindA (tf_require_password es uid (dget d ''password'') (tf_totp_passwordless tf)) (\<lambda>_.
              bindA (liftR (totp_uri tf secret (py_or (VStr (tf_issuer tf)) (VStr DEFAULT_APP_NAME)) (va_user login)))
                (\<lambda>uri. ret (reply [(''totpURI'', VStr uri)]))))))))))"

section \<open>Time-based codes\<close>

definition totp_status :: "two_factor \<Rightarrow> env \<Rightarrow> row \<Rightarrow> pyval \<Rightarrow> bool result" where
  "totp_status tf ev r code =
     bindR (dindex r ''secret'') (\<lambda>stored.
     bindR (open_secret (tf_ciphers tf) stored) (\<lambda>secret.
     bindR (str_arg code) (\<lambda>otp.
       verify_totp (tf_mac tf secret) (tf_totp_digits tf) (tf_totp_period tf) 1 (now ev div 1000000) otp)))"

text \<open>\<open>try: ... except Exception: await taken.restore(); raise\<close>.\<close>

definition or_restore :: "site \<Rightarrow> env \<Rightarrow> challenge \<Rightarrow> int option \<Rightarrow> 'a result \<Rightarrow> (sworld, 'a) action" where
  "or_restore es ev ch taken res =
     catchA (liftR res) (\<lambda>e. bindA (attempt_restored es ev ch taken) (\<lambda>_. raise e))"

definition refuse_code ::
    "site \<Rightarrow> two_factor \<Rightarrow> env \<Rightarrow> challenge \<Rightarrow> int option \<Rightarrow> row \<Rightarrow> exn \<Rightarrow> (sworld, 'a) action" where
  "refuse_code es tf ev ch taken r e =
     bindA (attempt_failed es ev ch taken) (\<lambda>_.
     bindA (if ch_sign_in ch then record_failure es tf ev r else ret ()) (\<lambda>_. raise e))"

definition mark_verified :: "site \<Rightarrow> two_factor \<Rightarrow> env \<Rightarrow> row \<Rightarrow> (sworld, unit) action" where
  "mark_verified es tf ev r =
     bindA (liftR (dindex r ''id'')) (\<lambda>rid.
     bindA (on_rows (mem_update (store_ad es) ev (tf_table tf) [Where ''id'' rid] [(''verified'', VBool True)]))
       (\<lambda>_. ret ()))"

text \<open>The second factor is switched on by its first code: \<open>active\<close> is the session of the request.\<close>

definition finish_enrollment ::
    "site \<Rightarrow> env \<Rightarrow> request \<Rightarrow> tf_draws \<Rightarrow> challenge \<Rightarrow> (sworld, unit) action \<Rightarrow> (sworld, response) action" where
  "finish_enrollment es ev rq td ch mark =
     bindA (liftR (dindex (ch_user ch) ''id'')) (\<lambda>uid.
     bindA (switch_two_factor es ev uid True) (\<lambda>updated.
     bindA (start_session_for es ev rq uid True updated (td_session td)) (\<lambda>(session, cookies).
     bindA (case ch_session ch of Some active \<Rightarrow> liftR (dindex active ''token'') | None \<Rightarrow> raise TypeError) (\<lambda>token.
     bindA (end_session es ev token) (\<lambda>_.
     bindA mark (\<lambda>_.
       ret (add_cookies cookies (token_reply es (dget session ''token'') updated))))))))"

definition accept_totp ::
    "site \<Rightarrow> two_factor \<Rightarrow> env \<Rightarrow> request \<Rightarrow> row \<Rightarrow> tf_draws \<Rightarrow> challenge \<Rightarrow> row \<Rightarrow> (sworld, response) action" where
  "accept_totp es tf ev rq d td ch r =
     bindA (if ch_sign_in ch then reset_failures es tf ev r else ret ()) (\<lambda>_.
       if dget r ''verified'' \<noteq> VBool True \<and> \<not> py_truthy (dget (ch_user ch) ''twoFactorEnabled'')
       then finish_enrollment es ev rq td ch (mark_verified es tf ev r)
       else
         bindA (if dget r ''verified'' \<noteq> VBool True then mark_verified es tf ev r else ret ()) (\<lambda>_.
           challenge_valid es tf ev rq td ch (py_truthy (dget d ''trustDevice''))))"

definition check_totp ::
    "site \<Rightarrow> two_factor \<Rightarrow> env \<Rightarrow> request \<Rightarrow> row \<Rightarrow> tf_draws \<Rightarrow> challenge \<Rightarrow> row \<Rightarrow> (sworld, response) action" where
  "check_totp es tf ev rq d td ch r =
     bindA (if ch_sign_in ch then assert_not_locked es tf ev r else ret ()) (\<lambda>_.
     bindA (begin_attempt es ev ch ALLOWED_ATTEMPTS) (\<lambda>taken.
     bindA (or_restore es ev ch taken (totp_status tf ev r (dget d ''code''))) (\<lambda>status.
       if \<not> status then refuse_code es tf ev ch taken r (tf_err 401 ''INVALID_CODE'')
       else accept_totp es tf ev rq d td ch r)))"

definition route_verify_totp ::
    "site \<Rightarrow> two_factor \<Rightarrow> env \<Rightarrow> request \<Rightarrow> body \<Rightarrow> tf_draws \<Rightarrow> (sworld, response) action" where
  "route_verify_totp es tf ev rq b td =
     (if tf_totp_disable tf then raise (api_error 400 ''TOTP_NOT_CONFIGURED'' ''totp isn't configured'')
      else
        bindA (liftR (request_json b)) (\<lambda>d.
        bindA (liftR (require_fields d [''code''])) (\<lambda>_.
        bindA (verify_two_factor es ev rq) (\<lambda>ch.
        bindA (liftR (dindex (ch_user ch) ''id'')) (\<lambda>uid.
        bindA (tf_row es tf uid) (\<lambda>found.
          case found of
            None \<Rightarrow> raise (tf_err 400 ''TOTP_NOT_ENABLED'')
          | Some r \<Rightarrow>
              if ch_sign_in ch \<and> dget r ''verified'' = VBool False then raise (tf_err 400 ''TOTP_NOT_ENABLED'')
              else check_totp es tf ev rq d td ch r))))))"

section \<open>Mailed codes\<close>

definition otp_name :: "challenge \<Rightarrow> string" where
  "otp_name ch = ''2fa-otp-'' @ ch_key ch"

definition route_send_otp ::
    "site \<Rightarrow> two_factor \<Rightarrow> env \<Rightarrow> request \<Rightarrow> tf_draws \<Rightarrow> (sworld, response) action" where
  "route_send_otp es tf ev rq td =
     (case tf_otp_send tf of
        None \<Rightarrow> raise (api_error 400 ''OTP_NOT_CONFIGURED'' ''otp isn't configured'')
      | Some send \<Rightarrow>
          bindA (verify_two_factor es ev rq) (\<lambda>ch.
          bindA (liftR (store_code (tf_ciphers tf) (tf_otp_store tf) (td_otp td))) (\<lambda>stored.
          bindA (on_core (create_verification_value (core es) (row_env ev (td_ids td) 0)
                   [(''value'', VStr (stored @ '':0'')), (''identifier'', VStr (otp_name ch)),
                    (''expiresAt'', VDate (now ev + tf_otp_seconds tf * 1000000))] False)) (\<lambda>_.
          bindA (notify (PluginCall ''send_otp'' [VDict (ch_user ch), VStr (td_otp td)]) (send (ch_user ch) (td_otp td))) (\<lambda>_.
            ret status_true)))))"

definition accept_otp ::
    "site \<Rightarrow> two_factor \<Rightarrow> env \<Rightarrow> request \<Rightarrow> row \<Rightarrow> tf_draws \<Rightarrow> challenge \<Rightarrow> row option \<Rightarrow> (sworld, response) action" where
  "accept_otp es tf ev rq d td ch found =
     bindA (case found of Some r \<Rightarrow> reset_failures es tf ev r | None \<Rightarrow> ret ()) (\<lambda>_.
       if \<not> py_truthy (dget (ch_user ch) ''twoFactorEnabled'') then
         (if real_row (ch_session ch) = None
          then raise (api_error 400 ''FAILED_TO_CREATE_SESSION'' ''failed to create session'')
          else finish_enrollment es ev rq td ch (ret ()))
       else challenge_valid es tf ev rq td ch (py_truthy (dget d ''trustDevice'')))"

definition refuse_otp ::
    "site \<Rightarrow> two_factor \<Rightarrow> env \<Rightarrow> challenge \<Rightarrow> row option \<Rightarrow> string \<Rightarrow> int \<Rightarrow> pyval \<Rightarrow> (sworld, response) action" where
  "refuse_otp es tf ev ch found stored attempts expires_at =
     bindA (on_core (create_verification_value (core es) ev
              [(''value'', VStr (stored @ '':'' @ int_str (attempts + 1))), (''identifier'', VStr (otp_name ch)),
               (''expiresAt'', expires_at)] False)) (\<lambda>_.
     bindA (case found of Some r \<Rightarrow> record_failure es tf ev r | None \<Rightarrow> ret ()) (\<lambda>_.
       raise (tf_err 401 ''INVALID_CODE'')))"

definition otp_counter :: "string \<Rightarrow> int" where
  "otp_counter s = (case parse_int s of Some n \<Rightarrow> n | None \<Rightarrow> 0)"

definition check_otp ::
    "site \<Rightarrow> two_factor \<Rightarrow> env \<Rightarrow> request \<Rightarrow> row \<Rightarrow> tf_draws \<Rightarrow> challenge \<Rightarrow> row option \<Rightarrow> (sworld, response) action" where
  "check_otp es tf ev rq d td ch found =
     bindA (on_core (consume_verification_value (core es) ev (otp_name ch))) (\<lambda>consumed.
       case real_row consumed of
         None \<Rightarrow> raise (tf_err 400 ''OTP_HAS_EXPIRED'')
       | Some r \<Rightarrow>
           bindA (liftR (bindR (dindex r ''value'') text_value)) (\<lambda>v.
           let (stored, _, counter) = partition_at CHR '':'' v; attempts = otp_counter counter
           in if attempts \<ge> tf_otp_allowed tf then raise too_many_attempts
              else
                bindA (liftR (compare_otp tf stored (dget d ''code''))) (\<lambda>same.
                  if same then accept_otp es tf ev rq d td ch found
                  else
                    bindA (liftR (dindex r ''expiresAt'')) (\<lambda>expires_at.
                      refuse_otp es tf ev ch found stored attempts expires_at))))"

definition route_verify_otp ::
    "site \<Rightarrow> two_factor \<Rightarrow> env \<Rightarrow> request \<Rightarrow> body \<Rightarrow> tf_draws \<Rightarrow> (sworld, response) action" where
  "route_verify_otp es tf ev rq b td =
     bindA (liftR (request_json b)) (\<lambda>d.
     bindA (liftR (require_fields d [''code''])) (\<lambda>_.
     bindA (verify_two_factor es ev rq) (\<lambda>ch.
     bindA
       (if ch_sign_in ch then
          bindA (liftR (dindex (ch_user ch) ''id'')) (\<lambda>uid.
          bindA (tf_row es tf uid) (\<lambda>found.
          bindA (case found of Some r \<Rightarrow> assert_not_locked es tf ev r | None \<Rightarrow> ret ()) (\<lambda>_. ret found)))
        else ret None) (\<lambda>found.
       check_otp es tf ev rq d td ch found))))"

section \<open>Backup codes\<close>

definition conflict :: exn where
  "conflict = api_error 409 ''CONFLICT'' ''Failed to verify backup code. Please try again.''"

text \<open>
  Takes the code out of the stored ones, provided they are still the value read before: of two uses of a
  code at the same time one gets the conflict.
\<close>

definition spend_code ::
    "site \<Rightarrow> two_factor \<Rightarrow> env \<Rightarrow> row \<Rightarrow> pyval \<Rightarrow> pyval list \<Rightarrow> (sworld, unit) action" where
  "spend_code es tf ev r code codes =
     bindA (liftR (encode_backup_codes tf (filter (\<lambda>c. \<not> py_eq c code) codes))) (\<lambda>encoded.
     bindA (liftR (dindex r ''id'')) (\<lambda>rid.
     bindA (liftR (dindex r ''backupCodes'')) (\<lambda>old.
     bindA (on_rows (mem_increment_one (store_ad es) ev (tf_table tf) [Where ''id'' rid, Where ''backupCodes'' old]
              (Some []) (Some [(''backupCodes'', VStr encoded)]))) (\<lambda>updated.
       case real_row updated of None \<Rightarrow> raise conflict | Some _ \<Rightarrow> ret ()))))"

definition finish_backup ::
    "site \<Rightarrow> two_factor \<Rightarrow> env \<Rightarrow> request \<Rightarrow> row \<Rightarrow> tf_draws \<Rightarrow> challenge \<Rightarrow> row \<Rightarrow> (sworld, response) action" where
  "finish_backup es tf ev rq d td ch r =
     bindA (if ch_sign_in ch then reset_failures es tf ev r else ret ()) (\<lambda>_.
       if \<not> py_truthy (dget d ''disableSession'')
       then challenge_valid es tf ev rq td ch (py_truthy (dget d ''trustDevice''))
       else
         bindA (case real_row (ch_session ch) of Some s \<Rightarrow> liftR (dindex s ''token'') | None \<Rightarrow> ret VNone) (\<lambda>token.
           ret (token_reply es token (ch_user ch))))"

definition check_backup_code ::
    "site \<Rightarrow> two_factor \<Rightarrow> env \<Rightarrow> request \<Rightarrow> row \<Rightarrow> tf_draws \<Rightarrow> challenge \<Rightarrow> row \<Rightarrow> (sworld, response) action" where
  "check_backup_code es tf ev rq d td ch r =
     bindA (if ch_sign_in ch then assert_not_locked es tf ev r else ret ()) (\<lambda>_.
     bindA (begin_attempt es ev ch ALLOWED_ATTEMPTS) (\<lambda>taken.
     bindA (or_restore es ev ch taken (bindR (dindex r ''backupCodes'') (decode_backup_codes tf))) (\<lambda>codes.
     let code = dget d ''code''
     in case codes of
          Some cs \<Rightarrow>
            if \<exists>c\<in>set cs. py_eq c code then
              bindA (spend_code es tf ev r code cs) (\<lambda>_. finish_backup es tf ev rq d td ch r)
            else refuse_code es tf ev ch taken r (tf_err 401 ''INVALID_BACKUP_CODE'')
        | None \<Rightarrow> refuse_code es tf ev ch taken r (tf_err 401 ''INVALID_BACKUP_CODE''))))"

definition route_verify_backup_code ::
    "site \<Rightarrow> two_factor \<Rightarrow> env \<Rightarrow> request \<Rightarrow> body \<Rightarrow> tf_draws \<Rightarrow> (sworld, response) action" where
  "route_verify_backup_code es tf ev rq b td =
     bindA (liftR (request_json b)) (\<lambda>d.
     bindA (liftR (require_fields d [''code''])) (\<lambda>_.
     bindA (verify_two_factor es ev rq) (\<lambda>ch.
     bindA (liftR (dindex (ch_user ch) ''id'')) (\<lambda>uid.
     bindA (tf_row es tf uid) (\<lambda>found.
       case found of
         None \<Rightarrow> raise (tf_err 400 ''BACKUP_CODES_NOT_ENABLED'')
       | Some r \<Rightarrow> check_backup_code es tf ev rq d td ch r)))))"

definition route_generate_backup_codes ::
    "site \<Rightarrow> two_factor \<Rightarrow> env \<Rightarrow> request \<Rightarrow> body \<Rightarrow> tf_draws \<Rightarrow> (sworld, response) action" where
  "route_generate_backup_codes es tf ev rq b td =
     bindA (tf_session es ev rq False) (\<lambda>login.
       if \<not> py_truthy (dget (va_user login) ''twoFactorEnabled'') then raise (tf_err 400 ''TWO_FACTOR_NOT_ENABLED'')
       else
         bindA (liftR (dindex (va_user login) ''id'')) (\<lambda>uid.
         bindA (liftR (request_json b)) (\<lambda>d.
         bindA (tf_require_password es uid (dget d ''password'') (tf_backup_passwordless tf)) (\<lambda>_.
         bindA (tf_row es tf uid) (\<lambda>found.
           case found of
             None \<Rightarrow> raise (tf_err 400 ''TWO_FACTOR_NOT_ENABLED'')
           | Some r \<Rightarrow>
               let codes = generate_backup_codes tf td
               in bindA (liftR (encode_backup_codes tf codes)) (\<lambda>encoded.
                  bindA (liftR (dindex r ''id'')) (\<lambda>rid.
                  bindA (on_rows (mem_update (store_ad es) ev (tf_table tf) [Where ''id'' rid]
                           [(''backupCodes'', VStr encoded)])) (\<lambda>_.
                    ret (reply [(''status'', VBool True), (''backupCodes'', VList codes)])))))))))"

definition view_backup_codes :: "site \<Rightarrow> two_factor \<Rightarrow> pyval \<Rightarrow> (sworld, row) action" where
  "view_backup_codes es tf user_id =
     bindA (tf_row es tf user_id) (\<lambda>found.
       case found of
         None \<Rightarrow> raise (tf_err 400 ''BACKUP_CODES_NOT_ENABLED'')
       | Some r \<Rightarrow>
           bindA (liftR (bindR (dindex r ''backupCodes'') (decode_backup_codes tf))) (\<lambda>codes.
             case codes of
               None \<Rightarrow> raise (tf_err 400 ''INVALID_BACKUP_CODE'')
             | Some cs \<Rightarrow> ret [(''status'', VBool True), (''backupCodes'', VList cs)]))"

definition generate_totp_code :: "two_factor \<Rightarrow> env \<Rightarrow> string \<Rightarrow> row result" where
  "generate_totp_code tf ev secret =
     (if tf_totp_disable tf then Inl (api_error 400 ''TOTP_NOT_CONFIGURED'' ''totp isn't configured'')
      else bindR (generate_totp (tf_mac tf secret) (tf_totp_digits tf) (tf_totp_period tf) (now ev div 1000000)) (\<lambda>code.
             Inr [(''code'', VStr code)]))"

section \<open>The gate after a sign-in\<close>

definition sign_in_matcher :: "request \<Rightarrow> bool" where
  "sign_in_matcher rq \<longleftrightarrow> rq_path rq \<in> {''/sign-in/email'', ''/sign-in/username'', ''/sign-in/phone-number''}"

definition sets_session_cookie :: "auth \<Rightarrow> string \<times> string \<Rightarrow> bool" where
  "sets_session_cookie au h \<longleftrightarrow>
     str_lower (fst h) = ''set-cookie'' \<and>
     (let name = takeWhile (\<lambda>c. c \<noteq> CHR ''='') (snd h)
      in name = cookie_name au ''session_token'' \<or> name = cookie_name au ''session_data'' \<or>
         starts_with name (cookie_name au ''session_data'' @ ''.''))"

definition scrub_session_cookies :: "auth \<Rightarrow> response \<Rightarrow> response" where
  "scrub_session_cookies au rs =
     add_cookies [clear_cookie au ''session_token'', clear_cookie au ''session_data'']
       (rs\<lparr>rs_headers := filter (\<lambda>h. \<not> sets_session_cookie au h) (rs_headers rs)\<rparr>)"

text \<open>Whether the record of a trusted device is that of the user and has not expired.\<close>

definition trusted_record :: "site \<Rightarrow> env \<Rightarrow> pyval \<Rightarrow> row option \<Rightarrow> bool result" where
  "trusted_record es ev uid record =
     (case real_row record of
        None \<Rightarrow> Inr False
      | Some r \<Rightarrow>
          bindR (dindex r ''expiresAt'') (\<lambda>x.
          bindR (as_datetime es x) (\<lambda>expires.
          bindR (dindex r ''value'') (\<lambda>v.
            Inr (py_eq v uid \<and> (case expires of Some t \<Rightarrow> t > now ev | None \<Rightarrow> False))))))"

text \<open>The answer when the device is trusted, with a fresh cookie; otherwise the answer to go on with.\<close>

definition check_trusted_device ::
    "site \<Rightarrow> two_factor \<Rightarrow> env \<Rightarrow> request \<Rightarrow> tf_draws \<Rightarrow> pyval \<Rightarrow> response \<Rightarrow> (sworld, response + response) action" where
  "check_trusted_device es tf ev rq td uid rs =
     (let au = es_auth es; cleared = add_cookies [clear_cookie au ''trust_device''] rs
      in case signed_cookie es rq ''trust_device'' of
           None \<Rightarrow> ret (Inr rs)
         | Some trust_cookie \<Rightarrow>
             (case partition_at CHR ''!'' trust_cookie of
                (token, _, trust_id) \<Rightarrow>
                  if token = [] \<or> trust_id = [] \<or>
                     token \<noteq> sign_hmac_b64url (au_hmac au) (au_secret au) (f_string es uid @ ''!'' @ trust_id)
                  then ret (Inr cleared)
                  else
                    bindA (on_core (find_verification_value (core es) ev trust_id)) (\<lambda>record.
                    bindA (liftR (trusted_record es ev uid record)) (\<lambda>ok.
                      if \<not> ok then ret (Inr cleared)
                      else
                        bindA (on_core (delete_verification_by_identifier (core es) trust_id)) (\<lambda>_.
                        bindA (make_trust_cookie es tf ev td uid) (\<lambda>trust.
                          ret (Inl (add_cookies [trust] rs))))))))"

definition two_factor_methods :: "site \<Rightarrow> two_factor \<Rightarrow> pyval \<Rightarrow> (sworld, pyval list) action" where
  "two_factor_methods es tf uid =
     bindA
       (if tf_totp_disable tf then ret []
        else
          bindA (tf_row es tf uid) (\<lambda>found.
            ret (case found of
                   Some r \<Rightarrow> if dget r ''verified'' \<noteq> VBool False then [VStr ''totp''] else []
                 | None \<Rightarrow> []))) (\<lambda>totp.
       ret (totp @ (if tf_otp_send tf = None then [] else [VStr ''otp''])))"

text \<open>The session goes, and the challenge with its counter takes its place.\<close>

definition arm_challenge ::
    "site \<Rightarrow> two_factor \<Rightarrow> env \<Rightarrow> tf_draws \<Rightarrow> row \<Rightarrow> pyval \<Rightarrow> response \<Rightarrow> (sworld, response) action" where
  "arm_challenge es tf ev td session uid rs =
     bindA (liftR (dindex session ''token'')) (\<lambda>token.
     bindA (end_session es ev token) (\<lambda>_.
     bindA (\<lambda>w. (Inr (), w\<lparr>sw_new_session := None\<rparr>)) (\<lambda>_.
     let au = es_auth es; identifier = ''2fa-'' @ td_challenge td;
         expires_at = VDate (now ev + tf_cookie_max_age tf * 1000000)
     in bindA (on_core (create_verification_value (core es) (row_env ev (td_ids td) 0)
          [(''value'', uid), (''identifier'', VStr identifier), (''expiresAt'', expires_at)] False)) (\<lambda>_.
        bindA (on_core (create_verification_value (core es) (row_env ev (td_ids td) 1)
          [(''value'', VStr ''0''), (''identifier'', VStr (counter_name identifier)), (''expiresAt'', expires_at)] False)) (\<lambda>_.
        bindA (two_factor_methods es tf uid) (\<lambda>factors.
          ret ((add_cookies
              [build_cookie au (sign_value (au_hmac au) (au_secret au) identifier) (Some (tf_cookie_max_age tf))
                 ''two_factor'' True]
              (scrub_session_cookies au rs))
            \<lparr>rs_status := 200,
             rs_body := VDict [(''twoFactorRedirect'', VBool True), (''twoFactorMethods'', VList factors)]\<rparr>)))))))"

definition after_sign_in ::
    "site \<Rightarrow> two_factor \<Rightarrow> env \<Rightarrow> request \<Rightarrow> tf_draws \<Rightarrow> response \<Rightarrow> (sworld, response) action" where
  "after_sign_in es tf ev rq td rs w =
     (case sw_new_session w of
        Some (session, Some user) \<Rightarrow>
          if \<not> py_truthy (dget user ''twoFactorEnabled'') then (Inr rs, w)
          else
            bindA (liftR (dindex user ''id'')) (\<lambda>uid.
            bindA (check_trusted_device es tf ev rq td uid rs) (\<lambda>checked.
              case checked of
                Inl answer \<Rightarrow> ret answer
              | Inr rs' \<Rightarrow> arm_challenge es tf ev td session uid rs')) w
      | _ \<Rightarrow> (Inr rs, w))"

end
