(* ===== verification/Verif_Values.thy ===== *)
theory Verif_Values
  imports Reset_Claims
begin

text \<open>
  Verification values on a plain site: identifiers are stored as they are, in the core table of the memory
  adapter, without hooks and without a secondary storage. What creating and consuming a value does to the
  table, and that it leaves the other tables alone.
\<close>

definition plain_values :: "iconf \<Rightarrow> bool" where
  "plain_values ic \<longleftrightarrow>
     native (ic_ad ic) \<and> ic_hooks ic = [] \<and> \<not> ic_secondary ic \<and> ic_store_identifier ic = IdAll IdUnset \<and>
     map_of (ad_schema (ic_ad ic)) ''verification'' = map_of CORE_SCHEMA ''verification''"

lemma plain_valuesD:
  assumes "plain_values ic"
  shows "native (ic_ad ic)" "ic_hooks ic = []" "\<not> ic_secondary ic" "in_database ic"
    "identifiers_to_try ic i = [i]" "stored_identifier ic i = (IdUnset, i)"
  using assms by (simp_all add: plain_values_def in_database_def identifiers_to_try_def stored_identifier_def
      get_storage_option_def id_is_set_def process_identifier_def)

definition fresh_value_id :: "iconf \<Rightarrow> env \<Rightarrow> iworld \<Rightarrow> bool" where
  "fresh_value_id ic ev w \<longleftrightarrow>
     (case resolve_generated_id ev ''verification'' (ad_generate_id (ic_ad ic)) of
        Some i \<Rightarrow> VStr i \<notin> set (row_ids (verif_rows w))
      | None \<Rightarrow> False)"

definition value_row :: "env \<Rightarrow> string \<Rightarrow> string \<Rightarrow> string \<Rightarrow> int \<Rightarrow> row" where
  "value_row ev rid i v x =
     [(''createdAt'', VDate (now ev)), (''updatedAt'', VDate (now ev)), (''value'', VStr v),
      (''identifier'', VStr i), (''expiresAt'', VDate x), (''id'', VStr rid)]"

definition value_data :: "string \<Rightarrow> string \<Rightarrow> int \<Rightarrow> row" where
  "value_data i v x = [(''value'', VStr v), (''identifier'', VStr i), (''expiresAt'', VDate x)]"

lemma value_input:
  assumes "plain_values ic" "resolve_generated_id ev ''verification'' (ad_generate_id (ic_ad ic)) = Some rid"
  shows "transform_input (ic_ad ic) ev ''verification'' (ddrop ''id'' (dset ''identifier'' (VStr i) (stamped ev (value_data i v x))))
    ''create'' = Inr (value_row ev rid i v x)"
  using assms
  by (simp add: plain_values_def transform_input_def native_def CORE_SCHEMA_def Let_def mk_field_def id_field_def has_key_def
      created_at_field_def updated_at_field_def stamped_def value_data_def value_row_def dset_Cons ddrop_def has_default_def)

lemma create_value:
  assumes "plain_values ic" "resolve_generated_id ev ''verification'' (ad_generate_id (ic_ad ic)) = Some rid"
  shows "create_verification_value ic ev (value_data i v x) False w =
    (Inr (Some (value_row ev rid i v x)),
     w\<lparr>iw_db := set_rows ''verification'' (verif_rows w @ [value_row ev rid i v x]) (iw_db w)\<rparr>)"
proof -
  note plain = plain_valuesD[OF assms(1)]
  have "dindex (value_data i v x) ''identifier'' = Inr (VStr i)" by (simp add: value_data_def dindex_def)
  moreover have "queue_after ic m oper p u = (Inr (), u)" for m oper p u
    using plain(2) by (simp add: queue_after_def after_fns_def map_filter_simps)
  moreover have "run_before ic m oper d = Inr (d, False)" for m oper d
    using plain(2) by (simp add: run_before_def map_filter_simps)
  ultimately show ?thesis
    using mem_create_ok[OF plain(1) value_input[OF assms]] plain(3,6)
    by (simp add: create_verification_value_def int_create_def bindA_def on_db_def verif_rows_def Let_def)
qed

lemma created_ok:
  assumes "verif_ok ic w" "VStr rid \<notin> set (row_ids (verif_rows w))"
  shows "verif_ok ic (w\<lparr>iw_db := set_rows ''verification'' (verif_rows w @ [value_row ev rid i v x]) (iw_db w)\<rparr>)"
proof -
  have "map_of (set_rows m rs st) m \<noteq> None" for m rs st by (simp add: set_rows_def)
  with assms show ?thesis
    by (auto simp: verif_ok_def verif_rows_def str_ids_def row_ids_def value_row_def dget_Cons is_str_def is_date_def
        date_column_def)
qed

text \<open>Consuming an identifier: its latest row unless that has expired, and no row of it is left.\<close>

lemma consume_value_plain:
  assumes "plain_values ic" "verif_ok ic w"
  shows "\<exists>res w'. consume_verification_value ic ev i w = (Inr res, w') \<and> verif_ok ic w' \<and>
    verif_rows w' = without i (verif_rows w) \<and>
    (case latest_row (verif_rows w) i of
       None \<Rightarrow> res = None
     | Some r \<Rightarrow> \<exists>x. dget r ''expiresAt'' = VDate x \<and> res = (if x < now ev then None else Some r))"
proof -
  note plain = plain_valuesD[OF assms(1)]
  have db: "\<not> (ic_secondary ic \<and> \<not> ic_verification_in_database ic)" using plain(3) by simp
  show ?thesis
  proof (cases "latest_row (verif_rows w) i")
    case None
    from consume_by_identifier_None[OF assms(2) None, of ev] obtain w1 where
      c: "consume_by_identifier ic ev i w = (Inr None, w1)" "verif_rows w1 = verif_rows w" "verif_ok ic w1" by blast
    have "without i (verif_rows w) = verif_rows w"
      using None by (auto simp: without_def latest_row_None intro: filter_True)
    moreover have "consume_verification_value ic ev i w = (Inr None, w1)"
      using c(1) plain(3,5) by (simp add: consume_verification_value_def bindA_def not_expired_def)
    ultimately show ?thesis using c None by auto
  next
    case (Some r)
    from verification_consume_exact[OF assms(2) plain(4,2,5) Some, of ev] obtain x w' where
      c: "dget r ''expiresAt'' = VDate x" "consume_verification_value ic ev i w = (Inr (if x < now ev then None else Some r), w')"
      "verif_rows w' = filter (\<lambda>r'. dget r' ''identifier'' \<noteq> VStr i) (verif_rows w)" by blast
    from consume_verification_cases[OF assms(2) db c(2)] have "verif_ok ic w'" by blast
    with c Some show ?thesis by (auto simp: without_def has_identifier_def)
  qed
qed

text \<open>A consumed row is not empty, so the callers' test for a missing row does not confuse the two.\<close>

lemma latest_row_real:
  assumes "verif_ok ic w" "latest_row (verif_rows w) i = Some r"
  shows "r \<noteq> []"
  using assms latest_row_in[OF assms(2)] by (auto simp: verif_ok_def)

text \<open>The rows of an identifier, and what a consumption does to them.\<close>

definition value_rows :: "sworld \<Rightarrow> string \<Rightarrow> row list" where
  "value_rows w i = filter (has_identifier i) (table w ''verification'')"

lemma value_rows_without:
  "filter (has_identifier i) (without j rs) = (if i = j then [] else filter (has_identifier i) rs)"
  by (auto simp: without_def has_identifier_def filter_empty_conv intro!: filter_cong)

lemma consume_step:
  assumes "plain_values (core es)" "verif_ok (core es) (sw_int w)"
    and "on_core (consume_verification_value (core es) ev i) w = (res, w')"
  shows "\<exists>found. res = Inr found \<and> verif_ok (core es) (sw_int w') \<and>
    table w' ''verification'' = without i (table w ''verification'') \<and>
    (\<forall>r. found = Some r \<longrightarrow> r \<in> set (value_rows w i) \<and> r \<noteq> [])"
proof -
  from consume_value_plain[OF assms(1,2), of ev i] obtain found w1 where
    c: "consume_verification_value (core es) ev i (sw_int w) = (Inr found, w1)" "verif_ok (core es) w1"
      "verif_rows w1 = without i (verif_rows (sw_int w))"
      "case latest_row (verif_rows (sw_int w)) i of None \<Rightarrow> found = None
       | Some r \<Rightarrow> \<exists>x. dget r ''expiresAt'' = VDate x \<and> found = (if x < now ev then None else Some r)" by blast
  have "r \<in> set (value_rows w i) \<and> r \<noteq> []" if "found = Some r" for r
  proof -
    from c(4) that have l: "latest_row (verif_rows (sw_int w)) i = Some r"
      by (auto split: option.splits if_splits)
    from latest_row_in[OF l] latest_row_real[OF assms(2) l] show ?thesis
      by (simp add: value_rows_def verif_rows_def table_def)
  qed
  with c(1-3) assms(3) show ?thesis by (auto simp: on_core_def verif_rows_def table_def)
qed

lemma create_step:
  assumes "plain_values (core es)" "verif_ok (core es) (sw_int w)" "fresh_value_id (core es) ev (sw_int w)"
  shows "\<exists>rid. on_core (create_verification_value (core es) ev (value_data i v x) False) w =
      (Inr (Some (value_row ev rid i v x)),
       with_rows ''verification'' (table w ''verification'' @ [value_row ev rid i v x]) w) \<and>
    verif_ok (core es) (sw_int (with_rows ''verification'' (table w ''verification'' @ [value_row ev rid i v x]) w))"
proof -
  from assms(3) obtain rid where rid: "resolve_generated_id ev ''verification'' (ad_generate_id (store_ad es)) = Some rid"
      "VStr rid \<notin> set (row_ids (verif_rows (sw_int w)))"
    by (auto simp: fresh_value_id_def split: option.splits)
  from create_value[OF assms(1) rid(1), of i v x "sw_int w"] created_ok[OF assms(2) rid(2), of ev i v x] show ?thesis
    by (intro exI[of _ rid]) (simp add: on_core_def with_rows_def verif_rows_def table_def)
qed

lemma value_row_fields [simp]:
  "dget (value_row ev rid i v x) ''value'' = VStr v" "has_identifier j (value_row ev rid i v x) \<longleftrightarrow> j = i"
  "dget (value_row ev rid i v x) ''expiresAt'' = VDate x"
  by (auto simp: value_row_def dget_Cons has_identifier_def)

end
