(* ===== verification/Budget.thy ===== *)
theory Budget
  imports Adapter
begin

text \<open>
  Attempt budgets. A code, or the challenge it answers, is guarded by a counter in a stored row. An attempt
  begins by taking the row, so that of concurrent attempts one goes on; a wrong code puts the row back with
  the next count, an attempt that could not compare the code puts it back as it was. The machine below
  runs these steps of any number of requests in any order, between other steps that leave the row alone.
  The locale states what the storage promises; under its laws no interleaving makes more attempts than the
  budget.
\<close>

section \<open>The machine\<close>

text \<open>
  An attempt under way has taken the count \<open>n\<close>. It is checking its code, or has found it wrong, or could not
  compare it. The state of the machine has the number of codes compared so far.
\<close>

datatype attempt = Checking int | Wrong int | Unread int

type_synonym 's budget = "'s \<times> attempt list \<times> int"

inductive budget_step ::
    "(env \<Rightarrow> ('s, row option) action) \<Rightarrow> (env \<Rightarrow> int \<Rightarrow> ('s, unit) action) \<Rightarrow> (row \<Rightarrow> int) \<Rightarrow> (env \<Rightarrow> 's \<Rightarrow> bool) \<Rightarrow>
     ('s \<Rightarrow> 's \<Rightarrow> bool) \<Rightarrow> int \<Rightarrow> 's budget \<Rightarrow> 's budget \<Rightarrow> bool"
  for take_row put_row count fresh elsewhere allowed where
  started: "take_row ev s = (Inr (Some r), s') \<Longrightarrow> count r < allowed \<Longrightarrow>
    budget_step take_row put_row count fresh elsewhere allowed (s, going, used) (s', Checking (count r) # going, used)"
| refused: "take_row ev s = (res, s') \<Longrightarrow> (\<And>r. res = Inr (Some r) \<Longrightarrow> allowed \<le> count r) \<Longrightarrow>
    budget_step take_row put_row count fresh elsewhere allowed (s, going, used) (s', going, used)"
| right: "Checking n \<in> set going \<Longrightarrow>
    budget_step take_row put_row count fresh elsewhere allowed (s, going, used) (s, remove1 (Checking n) going, used + 1)"
| wrong: "Checking n \<in> set going \<Longrightarrow>
    budget_step take_row put_row count fresh elsewhere allowed (s, going, used)
      (s, Wrong n # remove1 (Checking n) going, used + 1)"
| unread: "Checking n \<in> set going \<Longrightarrow>
    budget_step take_row put_row count fresh elsewhere allowed (s, going, used)
      (s, Unread n # remove1 (Checking n) going, used)"
| failed: "Wrong n \<in> set going \<Longrightarrow> fresh ev s \<Longrightarrow> put_row ev (n + 1) s = (res, s') \<Longrightarrow>
    budget_step take_row put_row count fresh elsewhere allowed (s, going, used) (s', remove1 (Wrong n) going, used)"
| restored: "Unread n \<in> set going \<Longrightarrow> fresh ev s \<Longrightarrow> put_row ev n s = (res, s') \<Longrightarrow>
    budget_step take_row put_row count fresh elsewhere allowed (s, going, used) (s', remove1 (Unread n) going, used)"
| dropped: "a \<in> set going \<Longrightarrow>
    budget_step take_row put_row count fresh elsewhere allowed (s, going, used) (s, remove1 a going, used)"
| elsewhere: "elsewhere s s' \<Longrightarrow>
    budget_step take_row put_row count fresh elsewhere allowed (s, going, used) (s', going, used)"

section \<open>The contract of the storage\<close>

locale counted_row =
  fixes ok :: "'s \<Rightarrow> bool" and held :: "'s \<Rightarrow> row list"
    and take_row :: "env \<Rightarrow> ('s, row option) action" and put_row :: "env \<Rightarrow> int \<Rightarrow> ('s, unit) action"
    and count :: "row \<Rightarrow> int" and fresh :: "env \<Rightarrow> 's \<Rightarrow> bool"
  assumes take_law: "ok s \<Longrightarrow> take_row ev s = (res, s') \<Longrightarrow>
      ok s' \<and> (res = Inr None \<or> held s' = []) \<and> (\<forall>r. res = Inr (Some r) \<longrightarrow> r \<in> set (held s)) \<and>
      (held s' = [] \<or> held s' = held s)"
    and put_law: "ok s \<Longrightarrow> fresh ev s \<Longrightarrow> 0 \<le> n \<Longrightarrow> held s = [] \<Longrightarrow> put_row ev n s = (put_res, s') \<Longrightarrow>
      ok s' \<and> (\<exists>r. held s' = [r] \<and> count r = n)"
begin

text \<open>At most one attempt is under way; while none is, a row that is left counts the codes compared.\<close>

definition spent_by :: "attempt \<Rightarrow> int \<Rightarrow> int \<Rightarrow> bool" where
  "spent_by a allowed used \<longleftrightarrow>
     (case a of
        Checking n \<Rightarrow> used = n \<and> n < allowed
      | Wrong n \<Rightarrow> used = n + 1
      | Unread n \<Rightarrow> used = n)"

definition budgeted :: "int \<Rightarrow> 's budget \<Rightarrow> bool" where
  "budgeted allowed b \<longleftrightarrow> (case b of (s, going, used) \<Rightarrow>
     ok s \<and> 0 \<le> used \<and> used \<le> allowed \<and>
     ((going = [] \<and> (held s = [] \<or> (\<exists>r. held s = [r] \<and> count r = used))) \<or>
      (\<exists>a. going = [a] \<and> held s = [] \<and> spent_by a allowed used)))"

lemma budgeted_busy:
  "budgeted allowed (s, going, used) \<Longrightarrow> a \<in> set going \<Longrightarrow>
   going = [a] \<and> held s = [] \<and> spent_by a allowed used \<and> ok s \<and> 0 \<le> used \<and> used \<le> allowed"
  by (auto simp: budgeted_def)

definition untouched :: "'s \<Rightarrow> 's \<Rightarrow> bool" where
  "untouched s s' \<longleftrightarrow> ok s' \<and> held s' = held s"

lemma budgeted_step:
  assumes "budget_step take_row put_row count fresh untouched allowed b b'" "budgeted allowed b"
  shows "budgeted allowed b'"
  using assms
proof (induction rule: budget_step.induct)
  case (started ev s r s' going used)
  then have ok: "ok s" and r: "r \<in> set (held s)" "held s' = []" "ok s'"
    using take_law[of s ev "Inr (Some r)" s'] by (auto simp: budgeted_def)
  from r(1) started.prems have "going = []" "count r = used" "0 \<le> used" by (auto simp: budgeted_def)
  with r started.hyps(2) show ?case by (simp add: budgeted_def spent_by_def)
next
  case (refused ev s res s' going used)
  then have "ok s'" "held s' = [] \<or> held s' = held s"
    using take_law[of s ev res s'] by (auto simp: budgeted_def)
  with refused.prems show ?case by (auto simp: budgeted_def)
next
  case (right n going s used)
  from budgeted_busy[OF right(2,1)] show ?case by (simp add: budgeted_def spent_by_def)
next
  case (wrong n going s used)
  from budgeted_busy[OF wrong(2,1)] show ?case by (simp add: budgeted_def spent_by_def)
next
  case (unread n going s used)
  from budgeted_busy[OF unread(2,1)] show ?case by (simp add: budgeted_def spent_by_def)
next
  case (failed n going ev s res s' used)
  from budgeted_busy[OF failed.prems failed.hyps(1)]
  have n: "going = [Wrong n]" "held s = []" "used = n + 1" "ok s" "0 \<le> n + 1" "used \<le> allowed"
    by (auto simp: spent_by_def)
  from put_law[OF n(4) failed.hyps(2) n(5) n(2) failed.hyps(3)] n show ?case by (simp add: budgeted_def)
next
  case (restored n going ev s res s' used)
  from budgeted_busy[OF restored.prems restored.hyps(1)]
  have n: "going = [Unread n]" "held s = []" "used = n" "ok s" "0 \<le> n" "used \<le> allowed"
    by (auto simp: spent_by_def)
  from put_law[OF n(4) restored.hyps(2) n(5) n(2) restored.hyps(3)] n show ?case by (simp add: budgeted_def)
next
  case (dropped a going s used)
  from budgeted_busy[OF dropped(2,1)] show ?case by (simp add: budgeted_def)
next
  case (elsewhere s s' going used)
  then show ?case by (auto simp: budgeted_def untouched_def)
qed

lemma budgeted_run:
  assumes "(budget_step take_row put_row count fresh untouched allowed)\<^sup>*\<^sup>* b b'" "budgeted allowed b"
  shows "budgeted allowed b'"
  using assms by (induction rule: rtranclp_induct) (auto intro: budgeted_step)

lemma budget_bound:
  assumes "(budget_step take_row put_row count fresh untouched allowed)\<^sup>*\<^sup>* (s, [], 0) (s', going, used)"
    and "ok s" "0 \<le> allowed" "held s = [] \<or> (\<exists>r. held s = [r] \<and> count r = 0)"
  shows "used \<le> allowed \<and> length going \<le> 1"
  using budgeted_run[OF assms(1)] assms(2-4) by (auto simp: budgeted_def)

end

end
