(* ===== verification/Two_Factor_Claims.thy ===== *)
theory Two_Factor_Claims
  imports Two_Factor Verif_Values Budget Crypto_Props Endpoint_Demo
begin

text \<open>
  The second factor: the attempt budget that TOTP and backup codes share under any interleaving, the single use of a backup
  code, the gate after a sign-in, and the lockout of an account.
\<close>

section \<open>The attempt budget\<close>

text \<open>The counter of a challenge as a stored row, and the steps of a plain site on it.\<close>

definition counter_ok :: "site \<Rightarrow> challenge \<Rightarrow> sworld \<Rightarrow> bool" where
  "counter_ok es ch w \<longleftrightarrow>
     plain_values (core es) \<and> ch_sign_in ch \<and> is_date (ch_expires_at ch) \<and> verif_ok (core es) (sw_int w)"

abbreviation counter_rows :: "challenge \<Rightarrow> sworld \<Rightarrow> row list" where
  "counter_rows ch w \<equiv> value_rows w (counter_name (ch_identifier ch))"

definition take_counter :: "site \<Rightarrow> challenge \<Rightarrow> env \<Rightarrow> (sworld, row option) action" where
  "take_counter es ch ev = on_core (consume_verification_value (core es) ev (counter_name (ch_identifier ch)))"

definition row_attempts :: "row \<Rightarrow> int" where
  "row_attempts r = attempts_of ALLOWED_ATTEMPTS (dget r ''value'')"

definition new_row_ok :: "site \<Rightarrow> env \<Rightarrow> sworld \<Rightarrow> bool" where
  "new_row_ok es ev w = fresh_value_id (core es) ev (sw_int w)"

lemma rearm_step:
  assumes "counter_ok es ch w" "new_row_ok es ev w"
  shows "\<exists>rid x. rearm es ev ch n w = (Inr (), with_rows ''verification''
      (table w ''verification'' @ [value_row ev rid (counter_name (ch_identifier ch)) (int_str n) x]) w) \<and>
    counter_ok es ch (with_rows ''verification''
      (table w ''verification'' @ [value_row ev rid (counter_name (ch_identifier ch)) (int_str n) x]) w)"
proof -
  from assms(1) obtain x where x: "ch_expires_at ch = VDate x"
    by (cases "ch_expires_at ch") (auto simp: counter_ok_def is_date_def)
  have data: "[(''value'', VStr (int_str n)), (''identifier'', VStr (counter_name (ch_identifier ch))),
      (''expiresAt'', ch_expires_at ch)] = value_data (counter_name (ch_identifier ch)) (int_str n) x"
    by (simp add: value_data_def x)
  from create_step[of es w ev "counter_name (ch_identifier ch)" "int_str n" x] assms
  obtain rid where
    "on_core (create_verification_value (core es) ev (value_data (counter_name (ch_identifier ch)) (int_str n) x) False) w =
      (Inr (Some (value_row ev rid (counter_name (ch_identifier ch)) (int_str n) x)),
       with_rows ''verification'' (table w ''verification'' @ [value_row ev rid (counter_name (ch_identifier ch)) (int_str n) x]) w)"
    "verif_ok (core es) (sw_int (with_rows ''verification''
      (table w ''verification'' @ [value_row ev rid (counter_name (ch_identifier ch)) (int_str n) x]) w))"
    by (auto simp: counter_ok_def new_row_ok_def)
  then show ?thesis using assms(1)
    by (intro exI[of _ rid] exI[of _ x]) (simp add: rearm_def data catchA_def bindA_def counter_ok_def)
qed

interpretation challenge_counter: counted_row "counter_ok es ch" "counter_rows ch" "take_counter es ch"
    "\<lambda>ev n. rearm es ev ch n" row_attempts "new_row_ok es" for es ch
proof
  fix s ev res s'
  assume ok: "counter_ok es ch s" and run: "take_counter es ch ev s = (res, s')"
  from consume_step[OF _ _ run[unfolded take_counter_def]] ok obtain found where
    c: "res = Inr found" "verif_ok (core es) (sw_int s')"
      "table s' ''verification'' = without (counter_name (ch_identifier ch)) (table s ''verification'')"
      "\<forall>r. found = Some r \<longrightarrow> r \<in> set (counter_rows ch s) \<and> r \<noteq> []"
    by (auto simp: counter_ok_def)
  have "counter_rows ch s' = []" by (simp add: value_rows_def c(3) value_rows_without)
  with c ok show "counter_ok es ch s' \<and> (res = Inr None \<or> counter_rows ch s' = []) \<and>
      (\<forall>r. res = Inr (Some r) \<longrightarrow> r \<in> set (counter_rows ch s)) \<and>
      (counter_rows ch s' = [] \<or> counter_rows ch s' = counter_rows ch s)"
    by (auto simp: counter_ok_def)
next
  fix s ev n put_res s'
  assume *: "counter_ok es ch s" "new_row_ok es ev s" "0 \<le> n" "counter_rows ch s = []"
    "rearm es ev ch n s = (put_res, s')"
  from rearm_step[OF *(1,2), of n] *(5) obtain rid x where
    s': "s' = with_rows ''verification'' (table s ''verification'' @
      [value_row ev rid (counter_name (ch_identifier ch)) (int_str n) x]) s" "counter_ok es ch s'" by auto
  then have "counter_rows ch s' = [value_row ev rid (counter_name (ch_identifier ch)) (int_str n) x]"
    using *(4) by (simp add: value_rows_def)
  with s'(2) *(3) show "counter_ok es ch s' \<and> (\<exists>r. counter_rows ch s' = [r] \<and> row_attempts r = n)"
    by (simp add: row_attempts_def attempts_of_def parse_int_str)
qed

text \<open>
  What the requests to \<open>/verify-totp\<close> and \<open>/verify-backup-code\<close> of one challenge do, in any order: begin an
  attempt or be turned away, compare the code that was sent, record a wrong one, put the counter back when
  the comparison raised, or stop on the way; and what other requests do meanwhile.
\<close>

definition backup_status :: "two_factor \<Rightarrow> row \<Rightarrow> pyval \<Rightarrow> bool result" where
  "backup_status tf r code =
     bindR (bindR (dindex r ''backupCodes'') (decode_backup_codes tf)) (\<lambda>codes.
       Inr (case codes of Some cs \<Rightarrow> \<exists>c\<in>set cs. py_eq c code | None \<Rightarrow> False))"

definition elsewhere :: "site \<Rightarrow> challenge \<Rightarrow> sworld \<Rightarrow> sworld \<Rightarrow> bool" where
  "elsewhere es ch w w' \<longleftrightarrow> verif_ok (core es) (sw_int w') \<and> counter_rows ch w' = counter_rows ch w"

inductive attempt_step :: "site \<Rightarrow> two_factor \<Rightarrow> challenge \<Rightarrow> sworld budget \<Rightarrow> sworld budget \<Rightarrow> bool" for es tf ch where
  begun: "begin_attempt es ev ch ALLOWED_ATTEMPTS w = (Inr (Some n), w') \<Longrightarrow>
    attempt_step es tf ch (w, going, used) (w', Checking n # going, used)"
| turned_away: "begin_attempt es ev ch ALLOWED_ATTEMPTS w = (Inl e, w') \<Longrightarrow>
    attempt_step es tf ch (w, going, used) (w', going, used)"
| right_code: "Checking n \<in> set going \<Longrightarrow> totp_status tf ev r code = Inr True \<or> backup_status tf r code = Inr True \<Longrightarrow>
    attempt_step es tf ch (w, going, used) (w, remove1 (Checking n) going, used + 1)"
| wrong_code: "Checking n \<in> set going \<Longrightarrow> totp_status tf ev r code = Inr False \<or> backup_status tf r code = Inr False \<Longrightarrow>
    attempt_step es tf ch (w, going, used) (w, Wrong n # remove1 (Checking n) going, used + 1)"
| unreadable: "Checking n \<in> set going \<Longrightarrow> totp_status tf ev r code = Inl e \<or> backup_status tf r code = Inl e \<Longrightarrow>
    attempt_step es tf ch (w, going, used) (w, Unread n # remove1 (Checking n) going, used)"
| counted: "Wrong n \<in> set going \<Longrightarrow> new_row_ok es ev w \<Longrightarrow> attempt_failed es ev ch (Some n) w = (res, w') \<Longrightarrow>
    attempt_step es tf ch (w, going, used) (w', remove1 (Wrong n) going, used)"
| put_back: "Unread n \<in> set going \<Longrightarrow> new_row_ok es ev w \<Longrightarrow> attempt_restored es ev ch (Some n) w = (res, w') \<Longrightarrow>
    attempt_step es tf ch (w, going, used) (w', remove1 (Unread n) going, used)"
| stopped: "a \<in> set going \<Longrightarrow> attempt_step es tf ch (w, going, used) (w, remove1 a going, used)"
| meanwhile: "elsewhere es ch w w' \<Longrightarrow> attempt_step es tf ch (w, going, used) (w', going, used)"

text \<open>Taking the counter is the first thing an attempt does.\<close>

lemma begin_attempt_takes:
  assumes "counter_ok es ch w" "begin_attempt es ev ch ALLOWED_ATTEMPTS w = (res, w')"
  shows "\<exists>found w1. take_counter es ch ev w = (Inr found, w1) \<and> counter_ok es ch w1 \<and>
    (case found of
       None \<Rightarrow> (\<exists>e. res = Inl e) \<and> w' = w1
     | Some r \<Rightarrow>
         if row_attempts r < ALLOWED_ATTEMPTS then w' = w1 \<and> res = Inr (Some (row_attempts r))
         else (\<exists>e. res = Inl e) \<and> elsewhere es ch w1 w')"
proof -
  obtain res0 w1 where run: "take_counter es ch ev w = (res0, w1)" by fastforce
  from consume_step[OF _ _ run[unfolded take_counter_def]] assms(1) obtain found where
    c: "res0 = Inr found" "verif_ok (core es) (sw_int w1)" "\<forall>r. found = Some r \<longrightarrow> r \<noteq> []"
    by (auto simp: counter_ok_def)
  then have ok: "counter_ok es ch w1" using assms(1) by (simp add: counter_ok_def)
  have b: "(case real_row found of
      None \<Rightarrow> raise invalid_cookie
    | Some r \<Rightarrow>
        bindA (liftR (dindex r ''value'')) (\<lambda>v.
          if attempts_of ALLOWED_ATTEMPTS v \<ge> ALLOWED_ATTEMPTS then
            bindA (catchA (on_core (consume_verification_value (core es) ev (ch_identifier ch)))
                     (\<lambda>_. raise (api_error 500 ''FAILED_TO_INVALIDATE_TWO_FACTOR_CHALLENGE''
                        ''Failed to invalidate two-factor challenge''))) (\<lambda>_.
              raise too_many_attempts)
          else ret (Some (attempts_of ALLOWED_ATTEMPTS v)))) w1 = (res, w')"
    using assms run c(1)
    by (simp add: begin_attempt_def counter_ok_def take_counter_def[symmetric] bind_catch)
  show ?thesis
  proof (cases found)
    case None
    with b run c ok show ?thesis by (auto simp: real_row_def)
  next
    case (Some r)
    with c(3) have real: "real_row found = Some r" by (auto simp: real_row_def neq_Nil_conv)
    show ?thesis
    proof (cases "dindex r ''value''")
      case (Inl e)
      then have "dget r ''value'' = VNone" by (auto simp: dindex_def dget_def split: option.splits)
      then have "row_attempts r = ALLOWED_ATTEMPTS" by (simp add: row_attempts_def attempts_of_def ALLOWED_ATTEMPTS_def)
      moreover have "elsewhere es ch w1 w1" using c(2) by (simp add: elsewhere_def)
      ultimately show ?thesis using b run c ok Some real Inl by auto
    next
      case (Inr v)
      have v: "row_attempts r = attempts_of ALLOWED_ATTEMPTS v" using dindex_value[OF Inr] by (simp add: row_attempts_def)
      obtain res1 w2 where cancel: "on_core (consume_verification_value (core es) ev (ch_identifier ch)) w1 = (res1, w2)"
        by fastforce
      from consume_step[OF _ c(2) cancel] assms(1) have w2: "\<exists>x. res1 = Inr x" "verif_ok (core es) (sw_int w2)"
          "table w2 ''verification'' = without (ch_identifier ch) (table w1 ''verification'')"
        by (auto simp: counter_ok_def)
      have "counter_name (ch_identifier ch) \<noteq> ch_identifier ch"
        by (metis counter_name_def append_self_conv2 list.distinct(1))
      then have "elsewhere es ch w1 w2" using w2 by (simp add: elsewhere_def value_rows_def value_rows_without)
      with b run c ok Some real Inr v w2(1) cancel show ?thesis by (auto simp: bind_catch not_le split: if_splits)
    qed
  qed
qed

abbreviation counter_step :: "site \<Rightarrow> challenge \<Rightarrow> sworld budget \<Rightarrow> sworld budget \<Rightarrow> bool" where
  "counter_step es ch \<equiv> budget_step (take_counter es ch) (\<lambda>ev n. rearm es ev ch n) row_attempts (new_row_ok es)
     (challenge_counter.untouched es ch) ALLOWED_ATTEMPTS"

lemma untouched_elsewhere:
  "counter_ok es ch w \<Longrightarrow> elsewhere es ch w w' \<Longrightarrow> challenge_counter.untouched es ch w w'"
  by (simp add: challenge_counter.untouched_def elsewhere_def counter_ok_def)

lemma attempt_step_counter:
  assumes "attempt_step es tf ch b b'" "counter_ok es ch (fst b)"
  shows "(counter_step es ch)\<^sup>*\<^sup>* b b'"
  using assms
proof (cases rule: attempt_step.cases)
  case (begun ev w n w' going used)
  from begin_attempt_takes[OF _ begun(3)] assms(2) begun(1) obtain r where
    r: "take_counter es ch ev w = (Inr (Some r), w')" "row_attempts r < ALLOWED_ATTEMPTS" "n = row_attempts r"
    by (auto split: option.splits if_splits)
  have "counter_step es ch (w, going, used) (w', Checking (row_attempts r) # going, used)"
    by (rule budget_step.started[where count = row_attempts]) (rule r(1), rule r(2))
  with begun(1,2) r(3) show ?thesis by auto
next
  case (turned_away ev w e w' going used)
  from begin_attempt_takes[OF _ turned_away(3)] assms(2) turned_away(1) obtain found w1 where
    f: "take_counter es ch ev w = (Inr found, w1)" "counter_ok es ch w1" "w' = w1 \<or> elsewhere es ch w1 w'"
      "\<And>r. found = Some r \<Longrightarrow> ALLOWED_ATTEMPTS \<le> row_attempts r"
    by (fastforce split: option.splits if_splits)
  have "counter_step es ch b (w1, going, used)"
    using f(1,4) turned_away(1) by (auto intro!: budget_step.refused)
  moreover have "w' = w1 \<or> counter_step es ch (w1, going, used) b'"
    using f(2,3) turned_away(2) by (auto intro!: budget_step.elsewhere untouched_elsewhere)
  ultimately show ?thesis using turned_away(2) by (auto intro: rtranclp.rtrancl_into_rtrancl)
next
  case (right_code n going ev r code w used)
  then show ?thesis by (auto intro!: r_into_rtranclp budget_step.right)
next
  case (wrong_code n going ev r code w used)
  then show ?thesis by (auto intro!: r_into_rtranclp budget_step.wrong)
next
  case (unreadable n going ev r code e w used)
  then show ?thesis by (auto intro!: r_into_rtranclp budget_step.unread)
next
  case (counted n going ev w res w' used)
  then show ?thesis
    by (auto simp: attempt_failed_def intro!: r_into_rtranclp budget_step.failed)
next
  case (put_back n going ev w res w' used)
  then show ?thesis
    by (auto simp: attempt_restored_def intro!: r_into_rtranclp budget_step.restored)
next
  case (stopped a going w used)
  then show ?thesis by (auto intro!: r_into_rtranclp budget_step.dropped)
next
  case (meanwhile w w' going used)
  then show ?thesis
    using assms(2) by (auto intro!: r_into_rtranclp budget_step.elsewhere untouched_elsewhere)
qed

lemma attempt_run_counter:
  assumes "(attempt_step es tf ch)\<^sup>*\<^sup>* b b'" "challenge_counter.budgeted es ch ALLOWED_ATTEMPTS b"
  shows "(counter_step es ch)\<^sup>*\<^sup>* b b'"
  using assms
proof (induction rule: rtranclp_induct)
  case (step b' b'')
  then have run: "(counter_step es ch)\<^sup>*\<^sup>* b b'" by blast
  from challenge_counter.budgeted_run[OF run step.prems] have "counter_ok es ch (fst b')"
    by (auto simp: challenge_counter.budgeted_def)
  with attempt_step_counter[OF step.hyps(2)] run show ?case by auto
qed simp

text \<open>
  The two routes take these steps: past the lockout, what each does up to its answer is a run of the machine
  for one request that compares at most one code, followed by what the answer needs.
\<close>

lemma begin_attempt_counts:
  "ch_sign_in ch \<Longrightarrow> begin_attempt es ev ch allowed w \<noteq> (Inr None, w')"
  by (auto simp: begin_attempt_def bindA_def catchA_def ret_def raise_def liftR_def split: prod.splits sum.splits option.splits if_splits)

lemma compared_steps:
  assumes "status = totp_status tf ev r code \<or> status = backup_status tf r code" "new_row_ok es ev w"
  shows "case status of
      Inr True \<Rightarrow> (attempt_step es tf ch)\<^sup>*\<^sup>* (w, [Checking n], used) (w, [], used + 1)
    | Inr False \<Rightarrow> (attempt_step es tf ch)\<^sup>*\<^sup>* (w, [Checking n], used) (snd (attempt_failed es ev ch (Some n) w), [], used + 1)
    | Inl e \<Rightarrow> (attempt_step es tf ch)\<^sup>*\<^sup>* (w, [Checking n], used) (snd (attempt_restored es ev ch (Some n) w), [], used)"
proof (cases status)
  case (Inl e)
  with assms(1) have "attempt_step es tf ch (w, [Checking n], used) (w, [Unread n], used)"
    using attempt_step.unreadable[of n "[Checking n]" tf ev r code e] by auto
  moreover have "attempt_step es tf ch (w, [Unread n], used) (snd (attempt_restored es ev ch (Some n) w), [], used)"
    using attempt_step.put_back[of n "[Unread n]" es ev w ch] assms(2)
    by (cases "attempt_restored es ev ch (Some n) w") auto
  ultimately show ?thesis using Inl by auto
next
  case (Inr matched)
  show ?thesis
  proof (cases matched)
    case True
    with Inr assms(1) show ?thesis using attempt_step.right_code[of n "[Checking n]" tf ev r code] by auto
  next
    case False
    with Inr assms(1) have "attempt_step es tf ch (w, [Checking n], used) (w, [Wrong n], used + 1)"
      using attempt_step.wrong_code[of n "[Checking n]" tf ev r code] by auto
    moreover have "attempt_step es tf ch (w, [Wrong n], used + 1) (snd (attempt_failed es ev ch (Some n) w), [], used + 1)"
      using attempt_step.counted[of n "[Wrong n]" es ev w ch] assms(2)
      by (cases "attempt_failed es ev ch (Some n) w") auto
    ultimately show ?thesis using Inr False by auto
  qed
qed

lemma rearm_returns: "\<exists>w'. attempt_failed es ev ch taken w = (Inr (), w')" "\<exists>w'. attempt_restored es ev ch taken w = (Inr (), w')"
  by (auto simp: attempt_failed_def attempt_restored_def rearm_def catchA_def ret_def
      split: option.splits prod.splits sum.splits)

definition ends_with :: "site \<Rightarrow> two_factor \<Rightarrow> env \<Rightarrow> row \<Rightarrow> (sworld, response) action \<Rightarrow> (sworld, response) action \<Rightarrow> bool" where
  "ends_with es tf ev r accept rest \<longleftrightarrow>
     rest = accept \<or> (\<exists>e. rest = raise e \<or> rest = bindA (record_failure es tf ev r) (\<lambda>_. raise e))"

definition runs_machine :: "site \<Rightarrow> two_factor \<Rightarrow> env \<Rightarrow> challenge \<Rightarrow> row \<Rightarrow> (sworld, response) action \<Rightarrow>
    sworld \<Rightarrow> response result \<times> sworld \<Rightarrow> bool" where
  "runs_machine es tf ev ch r accept w out \<longleftrightarrow>
     (\<forall>used. \<exists>w1 used' rest. (attempt_step es tf ch)\<^sup>*\<^sup>* (w, [], used) (w1, [], used') \<and> used' \<le> used + 1 \<and>
        rest w1 = out \<and> ends_with es tf ev r accept rest)"

text \<open>What both routes do with the result of the comparison.\<close>

lemma compared_runs:
  assumes "ch_sign_in ch" "status = totp_status tf ev r code \<or> status = backup_status tf r code"
    and "begin_attempt es ev ch ALLOWED_ATTEMPTS w = (Inr (Some n), w1)" "new_row_ok es ev w1"
    and "(case status of
        Inl e \<Rightarrow> bindA (attempt_restored es ev ch (Some n)) (\<lambda>_. raise e)
      | Inr True \<Rightarrow> accept
      | Inr False \<Rightarrow> refuse_code es tf ev ch (Some n) r no_match) w1 = out"
  shows "runs_machine es tf ev ch r accept w out"
  unfolding runs_machine_def
proof
  fix used
  have start: "(attempt_step es tf ch)\<^sup>*\<^sup>* (w, [], used) (w1, [Checking n], used)"
    using attempt_step.begun[OF assms(3), of tf "[]" used] by auto
  note steps = compared_steps[OF assms(2,4), of ch n used]
  show "\<exists>w2 used' rest. (attempt_step es tf ch)\<^sup>*\<^sup>* (w, [], used) (w2, [], used') \<and> used' \<le> used + 1 \<and>
      rest w2 = out \<and> ends_with es tf ev r accept rest"
  proof (cases status)
    case (Inl e)
    obtain w2 where "attempt_restored es ev ch (Some n) w1 = (Inr (), w2)" using rearm_returns(2) by blast
    with Inl assms(5) steps start show ?thesis
      by (intro exI[of _ w2] exI[of _ used] exI[of _ "raise e"]) (auto simp: bindA_def ends_with_def)
  next
    case (Inr matched)
    show ?thesis
    proof (cases matched)
      case True
      with Inr assms(5) steps start show ?thesis
        by (intro exI[of _ w1] exI[of _ "used + 1"] exI[of _ accept]) (auto simp: ends_with_def)
    next
      case False
      obtain w2 where "attempt_failed es ev ch (Some n) w1 = (Inr (), w2)" using rearm_returns(1) by blast
      with Inr False assms(1,5) steps start show ?thesis
        by (intro exI[of _ w2] exI[of _ "used + 1"] exI[of _ "bindA (record_failure es tf ev r) (\<lambda>_. raise no_match)"])
          (auto simp: bindA_def ends_with_def refuse_code_def)
    qed
  qed
qed

lemma turned_away_runs:
  assumes "begin_attempt es ev ch ALLOWED_ATTEMPTS w = (Inl e, w1)"
  shows "runs_machine es tf ev ch r accept w (Inl e, w1)"
  unfolding runs_machine_def
proof
  fix used
  have "(attempt_step es tf ch)\<^sup>*\<^sup>* (w, [], used) (w1, [], used)"
    using attempt_step.turned_away[OF assms, of tf "[]" used] by blast
  moreover have "raise e w1 = (Inl e, w1)" "ends_with es tf ev r accept (raise e)" by (auto simp: ends_with_def)
  ultimately show "\<exists>w2 used' rest. (attempt_step es tf ch)\<^sup>*\<^sup>* (w, [], used) (w2, [], used') \<and> used' \<le> used + 1 \<and>
      rest w2 = (Inl e, w1) \<and> ends_with es tf ev r accept rest"
    by (metis less_add_one order_less_imp_le)
qed

lemma check_totp_runs:
  assumes "ch_sign_in ch" "assert_not_locked es tf ev r w0 = (Inr (), w)"
    and "\<And>n w1. begin_attempt es ev ch ALLOWED_ATTEMPTS w = (Inr (Some n), w1) \<Longrightarrow> new_row_ok es ev w1"
  shows "runs_machine es tf ev ch r (accept_totp es tf ev rq d td ch r) w (check_totp es tf ev rq d td ch r w0)"
proof (cases "begin_attempt es ev ch ALLOWED_ATTEMPTS w")
  case (Pair res w1)
  show ?thesis
  proof (cases res)
    case (Inl e)
    with Pair assms(1,2) turned_away_runs[of es ev ch w e w1] show ?thesis by (simp add: check_totp_def bindA_def)
  next
    case (Inr taken)
    with Pair begin_attempt_counts[OF assms(1)] obtain n where n: "taken = Some n" by (cases taken) auto
    show ?thesis
    proof (rule compared_runs[OF assms(1) disjI1[OF refl]])
      show run: "begin_attempt es ev ch ALLOWED_ATTEMPTS w = (Inr (Some n), w1)" using Pair Inr n by simp
      show "new_row_ok es ev w1" by (rule assms(3)[OF run])
      show "(case totp_status tf ev r (dget d ''code'') of
          Inl e \<Rightarrow> bindA (attempt_restored es ev ch (Some n)) (\<lambda>_. raise e)
        | Inr True \<Rightarrow> accept_totp es tf ev rq d td ch r
        | Inr False \<Rightarrow> refuse_code es tf ev ch (Some n) r (tf_err 401 ''INVALID_CODE'')) w1 =
          check_totp es tf ev rq d td ch r w0"
        using assms(1,2) run
        by (auto simp: check_totp_def bindA_def or_restore_def catchA_def split: sum.splits bool.splits prod.splits)
    qed
  qed
qed

lemma check_backup_runs:
  assumes "ch_sign_in ch" "assert_not_locked es tf ev r w0 = (Inr (), w)"
    and "\<And>n w1. begin_attempt es ev ch ALLOWED_ATTEMPTS w = (Inr (Some n), w1) \<Longrightarrow> new_row_ok es ev w1"
  shows "\<exists>cs. runs_machine es tf ev ch r
      (bindA (spend_code es tf ev r (dget d ''code'') cs) (\<lambda>_. finish_backup es tf ev rq d td ch r)) w
      (check_backup_code es tf ev rq d td ch r w0)"
proof (cases "begin_attempt es ev ch ALLOWED_ATTEMPTS w")
  case (Pair res w1)
  show ?thesis
  proof (cases res)
    case (Inl e)
    with Pair assms(1,2) turned_away_runs[of es ev ch w e w1] show ?thesis by (simp add: check_backup_code_def bindA_def)
  next
    case (Inr taken)
    with Pair begin_attempt_counts[OF assms(1)] obtain n where n: "taken = Some n" by (cases taken) auto
    let ?read = "bindR (dindex r ''backupCodes'') (decode_backup_codes tf)"
    let ?cs = "case ?read of Inr (Some cs) \<Rightarrow> cs | _ \<Rightarrow> []"
    have run: "begin_attempt es ev ch ALLOWED_ATTEMPTS w = (Inr (Some n), w1)" using Pair Inr n by simp
    have "(case backup_status tf r (dget d ''code'') of
          Inl e \<Rightarrow> bindA (attempt_restored es ev ch (Some n)) (\<lambda>_. raise e)
        | Inr True \<Rightarrow> bindA (spend_code es tf ev r (dget d ''code'') ?cs) (\<lambda>_. finish_backup es tf ev rq d td ch r)
        | Inr False \<Rightarrow> refuse_code es tf ev ch (Some n) r (tf_err 401 ''INVALID_BACKUP_CODE'')) w1 =
          check_backup_code es tf ev rq d td ch r w0"
      using assms(1,2) run
      by (cases ?read)
        (auto simp: check_backup_code_def backup_status_def bindA_def or_restore_def catchA_def Let_def
          split: sum.splits bool.splits prod.splits option.splits)
    from compared_runs[OF assms(1) disjI2[OF refl] run assms(3)[OF run] this] show ?thesis by blast
  qed
qed

text \<open>
  C36: The attempt budget that TOTP codes and backup codes share holds under concurrency. Starting from the
  counter that the gate of a sign-in stores, let the requests to \<open>/verify-totp\<close> and \<open>/verify-backup-code\<close> for
  one challenge take their steps in any order, with any number of them at once and any other requests in
  between that leave the counter alone: at most five codes are compared in all, with the secret or with the
  backup codes, and at most one request at a time is between taking the counter away and being done. A
  comparison that raises compares nothing and gives its attempt back. Mailed codes have a counter of their
  own in \<open>/verify-otp\<close>, which this budget does not cover.
\<close>
theorem challenge_budget:
  assumes "plain_values (core es)" "verif_ok (core es) (sw_int w)" "ch_sign_in ch" "is_date (ch_expires_at ch)"
    and "counter_rows ch w = [r]" "dget r ''value'' = VStr ''0''"
    and "(attempt_step es tf ch)\<^sup>*\<^sup>* (w, [], 0) (w', going, used)"
  shows "used \<le> 5 \<and> length going \<le> 1"
proof -
  have ok: "counter_ok es ch w" using assms(1-4) by (simp add: counter_ok_def)
  have "int_str 0 = ''0''" by code_simp
  then have "row_attempts r = 0"
    using assms(6) parse_int_str[of 0] by (simp add: row_attempts_def attempts_of_def)
  then have start: "counter_rows ch w = [] \<or> (\<exists>r. counter_rows ch w = [r] \<and> row_attempts r = 0)" using assms(5) by auto
  then have "challenge_counter.budgeted es ch ALLOWED_ATTEMPTS (w, [], 0)"
    using ok assms(5) \<open>row_attempts r = 0\<close> by (simp add: challenge_counter.budgeted_def ALLOWED_ATTEMPTS_def)
  from challenge_counter.budget_bound[OF attempt_run_counter[OF assms(7) this] ok _ start] show ?thesis
    by (simp add: ALLOWED_ATTEMPTS_def)
qed

definition armed_rows :: "row list" where
  "armed_rows =
     [[(''id'', VStr ''x''), (''identifier'', VStr ''2fa-ch''), (''value'', VStr ''u''), (''expiresAt'', VDate 900), (''createdAt'', VDate 10)],
      [(''id'', VStr ''y''), (''identifier'', VStr ''2fa-attempts-2fa-ch''), (''value'', VStr ''0''), (''expiresAt'', VDate 900),
       (''createdAt'', VDate 10)]]"

definition armed_world :: sworld where
  "armed_world = with_rows ''verification'' armed_rows demo_sworld"

definition ann_challenge :: challenge where
  "ann_challenge = \<lparr>ch_sign_in = True, ch_user = ann, ch_session = None, ch_identifier = ''2fa-ch'', ch_key = ''2fa-ch'',
     ch_dont_remember = False, ch_expires_at = VDate 900\<rparr>"

lemma armed_ok: "plain_values (core demo_site)" "verif_ok (core demo_site) (sw_int armed_world)"
    "ch_sign_in ann_challenge" "is_date (ch_expires_at ann_challenge)"
proof -
  show "plain_values (core demo_site)"
    by (simp add: plain_values_def demo_site_def demo_auth_def demo_adapter_def native_def)
  have t: "verif_rows (sw_int armed_world) = armed_rows" "iw_queue (sw_int armed_world) = None"
    by code_simp+
  have "map_of (iw_db (sw_int armed_world)) ''verification'' \<noteq> None"
    by (simp add: armed_world_def with_rows_def set_rows_def)
  then show "verif_ok (core demo_site) (sw_int armed_world)"
    by (simp add: verif_ok_def t) (simp add: str_ids_def row_ids_def armed_rows_def dget_Cons date_column_def is_date_def is_str_def)
qed (simp_all add: ann_challenge_def is_date_def)

lemma armed_begins:
  "fst (begin_attempt demo_site (at_us 500) ann_challenge ALLOWED_ATTEMPTS armed_world) = Inr (Some 0)"
  by code_simp

section \<open>Backup codes\<close>

text \<open>The codes decode to what was encoded: the cipher and the JSON codec of the options give them back.\<close>

definition codes_readable :: "two_factor \<Rightarrow> pyval list \<Rightarrow> bool" where
  "codes_readable tf cs \<longleftrightarrow>
     (case encode_backup_codes tf cs of
        Inr s \<Rightarrow> decode_backup_codes tf (VStr s) = Inr (Some cs)
      | Inl _ \<Rightarrow> True)"

text \<open>The table of the plugin: the memory adapter with the columns it declares, and rows with distinct ids.\<close>

definition factor_store :: "site \<Rightarrow> two_factor \<Rightarrow> sworld \<Rightarrow> bool" where
  "factor_store es tf w \<longleftrightarrow>
     native (store_ad es) \<and> map_of (ad_schema (store_ad es)) (tf_table tf) = Some ((''id'', id_field) # two_factor_fields) \<and>
     str_ids (table w (tf_table tf))"

lemma factor_input:
  assumes "factor_store es tf w"
  shows "transform_input (store_ad es) ev (tf_table tf) d ''update'' = Inr d"
proof -
  have "transform_fields ev (ad_codec (store_ad es)) all_caps ''update'' ((''id'', id_field) # two_factor_fields) d = Inr d"
    by (rule transform_fields_update_columns)
      (auto simp: two_factor_fields_def mk_field_def id_field_def split: option.splits)
  with assms show ?thesis by (simp add: factor_store_def transform_input_def native_def)
qed

text \<open>A guarded write to the row \<open>r\<close> of the plugin's table.\<close>

lemma guarded_step:
  assumes "factor_store es tf w" "safe wh (table w (tf_table tf))" "inc \<noteq> [] \<or> sv \<noteq> []" "list_all (\<lambda>(_, d). is_delta d) inc"
  shows "bindA (on_rows (mem_increment_one (store_ad es) ev (tf_table tf) wh (Some inc) (if sv = [] then None else Some sv))) f w =
    f (map_option (\<lambda>r. dmerge (apply_increments r inc) sv) (List.find (sel wh) (table w (tf_table tf))))
      (with_rows (tf_table tf) (map_first (sel wh) (\<lambda>r. dmerge (apply_increments r inc) sv) (table w (tf_table tf))) w)"
proof -
  have native: "native (store_ad es)" using assms(1) by (simp add: factor_store_def)
  have check: "check_increment (Some inc) (if sv = [] then None else Some sv) = Inr inc"
    using assms(3,4) by (auto simp: check_increment_def)
  have row: "incremented_row inc (if sv = [] then None else Some sv) = (\<lambda>r. dmerge (apply_increments r inc) sv)"
    by (auto simp: fun_eq_iff incremented_row_def)
  have "mem_increment_one (store_ad es) ev (tf_table tf) wh (Some inc) (if sv = [] then None else Some sv) (iw_db (sw_int w)) =
      (Inr (map_option (\<lambda>r. dmerge (apply_increments r inc) sv) (List.find (sel wh) (table w (tf_table tf)))),
       set_rows (tf_table tf) (map_first (sel wh) (\<lambda>r. dmerge (apply_increments r inc) sv) (table w (tf_table tf)))
         (iw_db (sw_int w)))"
    using mem_increment_one_ok[OF native assms(2)[unfolded table_def] check, of "if sv = [] then None else Some sv" ev]
      factor_input[OF assms(1), of ev sv]
    by (simp add: table_def row split: if_splits)
  then show ?thesis by (simp add: bindA_def on_rows_def on_core_def on_db_def with_rows_def)
qed

lemma spend_code_run:
  assumes st: "factor_store es tf w" and r: "dget r ''id'' = VStr rid" "dget r ''backupCodes'' = VStr old"
    and e: "encode_backup_codes tf (filter (\<lambda>c. \<not> py_eq c code) codes) = Inr new"
  defines "P \<equiv> \<lambda>q. dget q ''id'' = VStr rid \<and> dget q ''backupCodes'' = VStr old"
  shows "spend_code es tf ev r code codes w =
    (if \<exists>q\<in>set (table w (tf_table tf)). P q
     then (Inr (), with_rows (tf_table tf) (map_first P (dset ''backupCodes'' (VStr new)) (table w (tf_table tf))) w)
     else (Inl conflict, with_rows (tf_table tf) (table w (tf_table tf)) w))"
proof -
  let ?wh = "[Where ''id'' (VStr rid), Where ''backupCodes'' (VStr old)]" and ?t = "table w (tf_table tf)"
  have "matches q ?wh = Inr (is_field q ''id'' (VStr rid) \<and> is_field q ''backupCodes'' (VStr old))" for q
    using matches_fields[of q "[(''id'', VStr rid), (''backupCodes'', VStr old)]"] by simp
  then have wh: "safe ?wh ?t" "sel ?wh = P" by (auto simp: safe_def sel_def P_def fun_eq_iff)
  have idx: "dindex r ''id'' = Inr (VStr rid)" "dindex r ''backupCodes'' = Inr (VStr old)"
    using r by (auto simp: dindex_def dget_def split: option.splits)
  have real: "real_row (Some (dset ''backupCodes'' (VStr new) q)) = Some (dset ''backupCodes'' (VStr new) q)" for q
    by (cases "dset ''backupCodes'' (VStr new) q") (auto simp: real_row_def dest: arg_cong[where f = "\<lambda>d. map_of d ''backupCodes''"])
  have none: "map_first P f ?t = ?t" if "List.find P ?t = None" for f
    using that by (simp add: find_None_all)
  note step = guarded_step[OF st wh(1), of "[]" "[(''backupCodes'', VStr new)]", simplified]
  show ?thesis
  proof (cases "List.find P ?t")
    case None
    then have "\<not> (\<exists>q\<in>set ?t. P q)" by (simp add: find_None_all)
    with None show ?thesis by (simp add: spend_code_def e idx wh(2) none step real_row_def)
  next
    case (Some q)
    then have "\<exists>q\<in>set ?t. P q" by (auto dest: find_Some_in)
    with Some show ?thesis by (simp add: spend_code_def e idx wh(2) real step)
  qed
qed

text \<open>
  C37: A backup code works once. When a code is spent, the stored codes are, from then on, the same without
  that code, in the one row it was read from: no other row and no other column of the row changes. Any
  other use that read the row before, of the same code or of another, and comes to spend it now, fails
  with no effect, since the write is guarded by the codes read; and a use that reads the row afterwards
  does not find the code any more.
\<close>
theorem backup_code_single_use:
  assumes "factor_store es tf w" "codes_readable tf (filter (\<lambda>c. \<not> py_eq c code) codes)"
    and "dget r ''id'' = VStr rid" "dget r ''backupCodes'' = VStr old"
    and "decode_backup_codes tf (VStr old) = Inr (Some codes)" "\<exists>c\<in>set codes. py_eq c code"
    and "spend_code es tf ev r code codes w = (Inr (), w')"
  shows "\<exists>r' new. table w' (tf_table tf) = map_first (\<lambda>q. dget q ''id'' = VStr rid) (\<lambda>_. r') (table w (tf_table tf)) \<and>
    r' \<in> set (table w' (tf_table tf)) \<and> dget r' ''backupCodes'' = VStr new \<and>
    (\<exists>q\<in>set (table w (tf_table tf)). dget q ''id'' = VStr rid \<and> r' = dset ''backupCodes'' (VStr new) q) \<and>
    decode_backup_codes tf (VStr new) = Inr (Some (filter (\<lambda>c. \<not> py_eq c code) codes)) \<and>
    (\<forall>ev' code' w2. table w2 (tf_table tf) = table w' (tf_table tf) \<longrightarrow>
       (\<exists>e w3. spend_code es tf ev' r code' codes w2 = (Inl e, w3) \<and> (\<forall>m. table w3 m = table w2 m)))"
proof -
  let ?t = "table w (tf_table tf)" and ?id = "\<lambda>q. dget q ''id'' = VStr rid"
  let ?P = "\<lambda>q. ?id q \<and> dget q ''backupCodes'' = VStr old"
  have ids: "str_ids ?t" using assms(1) by (simp add: factor_store_def)
  obtain new where e: "encode_backup_codes tf (filter (\<lambda>c. \<not> py_eq c code) codes) = Inr new"
    using assms(7) unfolding spend_code_def by (elim bind_liftE)
  from spend_code_run[OF assms(1,3,4) e, of ev] assms(7) obtain q where
    q: "q \<in> set ?t" "?P q" and w': "table w' (tf_table tf) = map_first ?P (dset ''backupCodes'' (VStr new)) ?t"
    by (auto split: if_splits)
  have only: "x = q" if "x \<in> set ?t" "?id x" for x
    by (rule str_ids_inj[OF ids that(1) q(1)]) (simp add: that(2) q(2))
  let ?r' = "dset ''backupCodes'' (VStr new) q"
  have rows: "map_first ?P f ?t = map_first ?id (\<lambda>_. f q) ?t" for f
  proof -
    have "map_first ?P f xs = map_first ?id (\<lambda>_. f q) xs" if "set xs \<subseteq> set ?t" for xs
      using that
    proof (induction xs)
      case (Cons x xs)
      show ?case
      proof (cases "?id x")
        case True
        with only Cons.prems have "x = q" by auto
        with q(2) show ?thesis by simp
      qed (use Cons in auto)
    qed simp
    then show ?thesis by blast
  qed
  have in': "?r' \<in> set (table w' (tf_table tf))"
    unfolding w' using map_first_at[OF q(1), of ?P "dset ''backupCodes'' (VStr new)"] q(2) only by blast
  have read: "decode_backup_codes tf (VStr new) = Inr (Some (filter (\<lambda>c. \<not> py_eq c code) codes))"
    using assms(2) e by (simp add: codes_readable_def)
  have "filter (\<lambda>c. \<not> py_eq c code) codes \<noteq> codes"
    using assms(6) by (auto simp: filter_id_conv)
  with read assms(5) have changed: "new \<noteq> old" by auto
  have "map (\<lambda>q. dget q ''id'') (table w' (tf_table tf)) = map (\<lambda>q. dget q ''id'') ?t"
    unfolding w' by (rule map_map_first) simp
  then have ids': "str_ids (table w' (tf_table tf))"
    using ids by (simp only: str_ids_def row_ids_def list_all_iff)
      (metis (mono_tags, lifting) image_iff image_set)
  have changed_row: "\<not> ?P x" if "x \<in> set (table w' (tf_table tf))" for x
  proof
    assume x: "?P x"
    have "x = ?r'" by (rule str_ids_inj[OF ids' that in']) (use x q(2) in simp)
    with x changed show False by simp
  qed
  have stale: "\<exists>e w3. spend_code es tf ev' r code' codes w2 = (Inl e, w3) \<and> (\<forall>m. table w3 m = table w2 m)"
    if same: "table w2 (tf_table tf) = table w' (tf_table tf)" for ev' code' w2
  proof (cases "encode_backup_codes tf (filter (\<lambda>c. \<not> py_eq c code') codes)")
    case (Inl e)
    then show ?thesis by (simp add: spend_code_def)
  next
    case (Inr new')
    have "factor_store es tf w2" using assms(1) ids' same by (simp add: factor_store_def)
    from spend_code_run[OF this assms(3,4) Inr, of ev'] changed_row same show ?thesis by auto
  qed
  have one: "table w' (tf_table tf) = map_first ?id (\<lambda>_. ?r') ?t"
    unfolding w' by (rule rows)
  show ?thesis
    by (rule exI[of _ ?r'], rule exI[of _ new]) (use one in' q read stale in auto)
qed

definition demo_factor :: two_factor where
  "demo_factor = \<lparr>tf_issuer = [], tf_table = ''twoFactor'', tf_skip_on_enable = False, tf_allow_passwordless = False,
     tf_cookie_max_age = 600, tf_trust_max_age = 2592000, tf_lock_enabled = True, tf_lock_max = 10, tf_lock_seconds = 900,
     tf_totp_digits = 6, tf_totp_period = 30, tf_totp_disable = False, tf_totp_passwordless = False, tf_otp_digits = 6,
     tf_otp_seconds = 180, tf_otp_allowed = 5, tf_otp_store = StorePlain, tf_otp_send = None, tf_backup_amount = 2,
     tf_backup_store = BackupPlain, tf_backup_custom = None, tf_backup_passwordless = False,
     tf_ciphers = \<lparr>cx_secret = PlainSecret ''s'', cx_encrypt = (\<lambda>_ s. s), cx_decrypt = (\<lambda>_ s. Inr s), cx_sha256 = (\<lambda>_. [])\<rparr>,
     tf_mac = (\<lambda>_ _. replicate 20 0),
     tf_dumps = (\<lambda>v. case v of VList [] \<Rightarrow> ''0'' | _ \<Rightarrow> ''1''),
     tf_loads = (\<lambda>s. if s = ''0'' then Some (VList []) else if s = ''1'' then Some (VList [VStr ''aa'']) else None)\<rparr>"

definition factor_site :: site where
  "factor_site = demo_site\<lparr>es_auth := demo_auth\<lparr>au_ic := (au_ic demo_auth)\<lparr>ic_ad := demo_adapter\<lparr>ad_schema :=
     (''twoFactor'', (''id'', id_field) # two_factor_fields) # CORE_SCHEMA\<rparr>\<rparr>\<rparr>\<rparr>"

definition ann_factor :: row where
  "ann_factor = [(''id'', VStr ''f''), (''userId'', VStr ''u''), (''backupCodes'', VStr ''1''),
     (''failedVerificationCount'', VInt 9), (''lockedUntil'', VNone)]"

theorem challenge_budget_witness:
  "\<exists>w' going used. (attempt_step demo_site demo_factor ann_challenge)\<^sup>*\<^sup>* (armed_world, [], 0) (w', going, used) \<and>
     going = [Wrong 0] \<and> used = 1 \<and> used \<le> 5"
proof -
  let ?run = "begin_attempt demo_site (at_us 500) ann_challenge ALLOWED_ATTEMPTS armed_world"
  let ?steps = "(attempt_step demo_site demo_factor ann_challenge)\<^sup>*\<^sup>*"
  obtain w' where "?run = (Inr (Some 0), w')" using armed_begins by (cases ?run) simp
  from attempt_step.begun[OF this, of demo_factor "[]" 0]
  have "?steps (armed_world, [], 0) (w', [Checking 0], 0)" by auto
  moreover have "backup_status demo_factor ann_factor (VStr ''zz'') = Inr False" by code_simp
  then have "attempt_step demo_site demo_factor ann_challenge (w', [Checking 0], 0) (w', [Wrong 0], 1)"
    using attempt_step.wrong_code[of 0 "[Checking 0]" demo_factor "at_us 0" ann_factor "VStr ''zz''" demo_site ann_challenge w' 0] by simp
  ultimately have step: "?steps (armed_world, [], 0) (w', [Wrong 0], 1)" by simp
  obtain r where "counter_rows ann_challenge armed_world = [r]" "dget r ''value'' = VStr ''0''"
  proof
    show "counter_rows ann_challenge armed_world = [armed_rows ! 1]" by code_simp
    show "dget (armed_rows ! 1) ''value'' = VStr ''0''" by code_simp
  qed
  from challenge_budget[OF armed_ok this step] step show ?thesis
    by (intro exI[of _ w'] exI[of _ "[Wrong 0]"] exI[of _ 1]) simp
qed

definition factor_world :: sworld where
  "factor_world = with_rows ''twoFactor'' [ann_factor] armed_world"

lemma factor_demo: "factor_store factor_site demo_factor factor_world"
  by (simp add: factor_store_def factor_site_def demo_factor_def demo_adapter_def native_def factor_world_def demo_site_def
      demo_auth_def str_ids_def row_ids_def ann_factor_def dget_Cons is_str_def)

theorem backup_code_single_use_witness:
  "\<exists>w'. spend_code factor_site demo_factor (at_us 0) ann_factor (VStr ''aa'') [VStr ''aa''] factor_world = (Inr (), w') \<and>
     (\<exists>e w3. spend_code factor_site demo_factor (at_us 0) ann_factor (VStr ''aa'') [VStr ''aa''] w' = (Inl e, w3))"
proof -
  let ?spend = "spend_code factor_site demo_factor (at_us 0) ann_factor (VStr ''aa'') [VStr ''aa'']"
  have facts: "dget ann_factor ''id'' = VStr ''f''" "dget ann_factor ''backupCodes'' = VStr ''1''"
      "decode_backup_codes demo_factor (VStr ''1'') = Inr (Some [VStr ''aa''])" "\<exists>c\<in>set [VStr ''aa'']. py_eq c (VStr ''aa'')"
      "codes_readable demo_factor (filter (\<lambda>c. \<not> py_eq c (VStr ''aa'')) [VStr ''aa''])"
      "encode_backup_codes demo_factor (filter (\<lambda>c. \<not> py_eq c (VStr ''aa'')) [VStr ''aa'']) = Inr ''0''"
    by code_simp+
  have t: "table factor_world (tf_table demo_factor) = [ann_factor]" by (simp add: factor_world_def demo_factor_def)
  obtain w' where run: "?spend factor_world = (Inr (), w')"
    using spend_code_run[OF factor_demo facts(1,2,6), of "at_us 0"] facts(1,2) t by auto
  from backup_code_single_use[OF factor_demo facts(5,1,2,3,4) run]
  show ?thesis using run by blast
qed

section \<open>The gate after a sign-in\<close>

lemma partition_at_found: "partition_at c s = (a, found, b) \<Longrightarrow> b \<noteq> [] \<Longrightarrow> s = a @ [c] @ b"
proof (induction s arbitrary: a)
  case (Cons x s)
  show ?case
  proof (cases "x = c")
    case True
    with Cons.prems show ?thesis by (auto simp: partition_at_def)
  next
    case False
    obtain a' where a': "partition_at c s = (a', found, b)" "a = x # a'"
      using Cons.prems False by (cases "dropWhile (\<lambda>x. x \<noteq> c) s") (auto simp: partition_at_def)
    from Cons.IH[OF a'(1) Cons.prems(2)] a'(2) show ?thesis by simp
  qed
qed (simp add: partition_at_def)

lemma end_session_step:
  assumes "plain_values (core es)"
  shows "bindA (end_session es ev (VStr token)) f w =
    f () (with_rows ''session'' (drop_first (\<lambda>s. dget s ''token'' = VStr token) (table w ''session'')) w)"
proof -
  note plain = plain_valuesD[OF assms]
  let ?wh = "[Where ''token'' (VStr token)]"
  have "queue_after (core es) m oper p u = (Inr (), u)" for m oper p u
    using plain(2) by (simp add: queue_after_def after_fns_def map_filter_simps)
  moreover have "run_before (core es) m oper d = Inr (d, False)" for m oper d
    using plain(2) by (simp add: run_before_def map_filter_simps)
  moreover have "safe ?wh rs" for rs by simp
  ultimately have "int_delete (core es) ''session'' ?wh i = (Inr (b i),
      i\<lparr>iw_db := set_rows ''session'' (drop_first (sel ?wh) (rows_of (iw_db i) ''session'')) (iw_db i)\<rparr>)"
    if "b = (\<lambda>i. slice_to (find_limit (store_ad es) (Some 1)) (filter (sel ?wh) (rows_of (iw_db i) ''session'')) \<noteq> [])" for i b
    using that by (auto simp: int_delete_def bindA_def catchA_def on_db_def mem_find_many_safe[OF plain(1)] mem_delete_safe
        split: list.splits)
  moreover have "sel ?wh = (\<lambda>s. dget s ''token'' = VStr token)" by (rule ext) simp
  ultimately show ?thesis
    using plain(3) by (simp add: end_session_def str_arg_def delete_session_def bindA_def on_core_def with_rows_def table_def)
qed

lemma bindA_through: "bindA (bindA m (\<lambda>r. ret (g r))) f = bindA m (\<lambda>r. f (g r))"
  by (auto simp: bindA_def fun_eq_iff split: prod.splits sum.splits)

lemma tf_row_step:
  assumes "native (store_ad es)"
  shows "bindA (tf_row es tf v) f w = f (real_row (List.find (\<lambda>r. is_field r ''userId'' v) (table w (tf_table tf)))) w"
  by (simp add: tf_row_def bindA_through find_row_step[OF assms] sel_field1)

text \<open>A response sets no session: every session cookie it carries is the one that clears it.\<close>

definition clears_session :: "auth \<Rightarrow> response \<Rightarrow> bool" where
  "clears_session au rs \<longleftrightarrow>
     (\<forall>h\<in>set (rs_headers rs). sets_session_cookie au h \<longrightarrow>
        snd h \<in> {clear_cookie au ''session_token'', clear_cookie au ''session_data''})"

lemma cookie_name_split: "\<exists>pre. \<forall>base. cookie_name au base = pre @ base" 
  by (intro exI[of _ "(if au_secure au then ''__Secure-'' else []) @ au_prefix au @ ''.''"])
    (simp add: cookie_name_def Let_def)

lemma build_cookie_name:
  assumes "CHR ''='' \<notin> set (au_prefix au)" "CHR ''='' \<notin> set base"
  shows "takeWhile (\<lambda>c. c \<noteq> CHR ''='') (build_cookie au v max_age base http) = cookie_name au base"
proof -
  have "CHR ''='' \<notin> set (cookie_name au base)" using assms by (auto simp: cookie_name_def Let_def)
  then have "takeWhile (\<lambda>c. c \<noteq> CHR ''='') (cookie_name au base @ CHR ''='' # rest) = cookie_name au base" for rest
    by (subst takeWhile_append2) auto
  moreover have "\<exists>rest. build_cookie au v max_age base http = cookie_name au base @ CHR ''='' # rest"
    by (simp add: build_cookie_def)
  ultimately show ?thesis by auto
qed

lemma gate_headers:
  assumes "CHR ''='' \<notin> set (au_prefix au)"
  shows "clears_session au (add_cookies [build_cookie au v max_age ''two_factor'' True] (scrub_session_cookies au rs))"
proof -
  obtain pre where pre: "\<And>base. cookie_name au base = pre @ base" using cookie_name_split by blast
  have "\<not> sets_session_cookie au (''set-cookie'', build_cookie au v max_age ''two_factor'' True)"
    by (simp add: sets_session_cookie_def build_cookie_name[OF assms] pre starts_with_def)
  then show ?thesis by (auto simp: clears_session_def scrub_session_cookies_def add_cookies_def)
qed

lemma new_session_with_rows [simp]: "sw_new_session (with_rows t rs w) = sw_new_session w"
  by (simp add: with_rows_def)

lemma clears_session_status [simp]: "clears_session au (rs\<lparr>rs_status := n, rs_body := b\<rparr>) = clears_session au rs"
  by (simp add: clears_session_def)

lemma find_value_step:
  assumes "plain_values (core es)" "verif_ok (core es) (sw_int w)"
  shows "bindA (on_core (find_verification_value (core es) ev i)) f w = f (latest_row (table w ''verification'') i) w"
proof -
  note plain = plain_valuesD[OF assms(1)]
  have "date_column ''createdAt'' (verif_rows (sw_int w))" using assms(2) by (simp add: verif_ok_def)
  from latest_verification_eq[OF plain(1) this] have
    "find_verification_value (core es) ev i (sw_int w) = (Inr (latest_row (table w ''verification'') i), sw_int w)"
    using plain(3,6) by (simp add: find_verification_value_def bindA_def id_is_set_def verif_rows_def table_def)
  then show ?thesis by (simp add: bindA_def on_core_def)
qed

text \<open>The challenge that the gate stores, and its counter.\<close>

definition challenge_rows :: "two_factor \<Rightarrow> env \<Rightarrow> tf_draws \<Rightarrow> string \<Rightarrow> row list" where
  "challenge_rows tf ev td uid =
     (let i = ''2fa-'' @ td_challenge td; x = now ev + tf_cookie_max_age tf * 1000000
      in [value_row ev (td_ids td 0) i uid x, value_row ev (td_ids td 1) (counter_name i) ''0'' x])"

definition gated :: "site \<Rightarrow> two_factor \<Rightarrow> env \<Rightarrow> tf_draws \<Rightarrow> string \<Rightarrow> string \<Rightarrow> sworld \<Rightarrow> response \<Rightarrow> sworld \<Rightarrow> bool" where
  "gated es tf ev td uid token w rs w' \<longleftrightarrow>
     sw_new_session w' = None \<and> clears_session (es_auth es) rs \<and>
     (\<exists>factors. rs_body rs = VDict [(''twoFactorRedirect'', VBool True), (''twoFactorMethods'', VList factors)]) \<and>
     table w' ''session'' = drop_first (\<lambda>s. dget s ''token'' = VStr token) (table w ''session'') \<and>
     table w' ''verification'' = table w ''verification'' @ challenge_rows tf ev td uid"

lemma create_any_step:
  assumes "plain_values (core es)" "ad_generate_id (store_ad es) = GenDefault"
  shows "bindA (on_core (create_verification_value (core es) (row_env ev ids n) (value_data i v x) False)) f w =
    f (Some (value_row ev (ids n) i v x)) (with_rows ''verification'' (table w ''verification'' @ [value_row ev (ids n) i v x]) w)"
proof -
  have "resolve_generated_id (row_env ev ids n) ''verification'' (ad_generate_id (store_ad es)) = Some (ids n)"
    by (simp add: assms(2) resolve_generated_id_def row_env_def)
  from create_value[OF assms(1) this, of i v x "sw_int w"] show ?thesis
    by (simp add: bindA_def on_core_def with_rows_def verif_rows_def table_def value_row_def row_env_def)
qed

definition factors_of :: "site \<Rightarrow> two_factor \<Rightarrow> pyval \<Rightarrow> sworld \<Rightarrow> pyval list" where
  "factors_of es tf v w =
     (if tf_totp_disable tf then []
      else case real_row (List.find (\<lambda>r. is_field r ''userId'' v) (table w (tf_table tf))) of
             Some r \<Rightarrow> if dget r ''verified'' \<noteq> VBool False then [VStr ''totp''] else []
           | None \<Rightarrow> []) @
     (if tf_otp_send tf = None then [] else [VStr ''otp''])"

lemma two_factor_methods_step:
  assumes "native (store_ad es)"
  shows "bindA (two_factor_methods es tf v) f w = f (factors_of es tf v w) w"
  by (simp add: two_factor_methods_def factors_of_def bindA_through tf_row_step[OF assms])

lemma table_new_session [simp]: "table (w\<lparr>sw_new_session := x\<rparr>) t = table w t"
  by (simp add: table_def)

lemma arm_challenge_ok:
  assumes "plain_values (core es)" "ad_generate_id (store_ad es) = GenDefault" "CHR ''='' \<notin> set (au_prefix (es_auth es))"
    and "arm_challenge es tf ev td session (VStr uid) rs w = (Inr rs', w')"
  shows "\<exists>token. dget session ''token'' = VStr token \<and> gated es tf ev td uid token w rs' w'"
proof -
  note native = plain_valuesD(1)[OF assms(1)]
  let ?i = "''2fa-'' @ td_challenge td" and ?x = "now ev + tf_cookie_max_age tf * 1000000"
  from assms(4) obtain v where v: "dindex session ''token'' = Inr v"
    unfolding arm_challenge_def by (elim bind_liftE)
  with assms(4) obtain token where t: "v = VStr token"
    by (cases v) (simp_all add: arm_challenge_def end_session_def str_arg_def)
  have data: "[(''value'', VStr a), (''identifier'', VStr b), (''expiresAt'', VDate ?x)] = value_data b a ?x" for a b
    by (simp add: value_data_def)
  have nil: "\<And>f u. bindA (\<lambda>u. (Inr (), u\<lparr>sw_new_session := None\<rparr>)) f u = f () (u\<lparr>sw_new_session := None\<rparr>)"
    by (simp add: bindA_def)
  have "gated es tf ev td uid token w rs' w'"
    using assms(4) unfolding arm_challenge_def v t
    by (auto simp: end_session_step[OF assms(1)] Let_def data create_any_step[OF assms(1,2)] nil
        two_factor_methods_step[OF native] gated_def clears_session_status gate_headers[OF assms(3)] challenge_rows_def)
  then show ?thesis using dindex_value[OF v] t by blast
qed

text \<open>A request presents a trusted device: its signed cookie holds the record of one that is still good.\<close>

definition trusted_device :: "site \<Rightarrow> env \<Rightarrow> request \<Rightarrow> string \<Rightarrow> sworld \<Rightarrow> bool" where
  "trusted_device es ev rq uid w \<longleftrightarrow>
     (let au = es_auth es in
      \<exists>i. signed_cookie es rq ''trust_device'' =
            Some (sign_hmac_b64url (au_hmac au) (au_secret au) (uid @ ''!'' @ i) @ ''!'' @ i) \<and>
        trusted_record es ev (VStr uid) (latest_row (table w ''verification'') i) = Inr True)"

lemma check_trusted_cases:
  assumes "plain_values (core es)" "verif_ok (core es) (sw_int w)"
    and "check_trusted_device es tf ev rq td (VStr uid) rs w = (Inr checked, w')"
  shows "case checked of
      Inl _ \<Rightarrow> trusted_device es ev rq uid w
    | Inr rs' \<Rightarrow> w' = w"
proof -
  have "f_string es (VStr uid) = uid" by (simp add: f_string_def)
  note run = assms(3)[unfolded check_trusted_device_def Let_def this]
  show ?thesis
  proof (cases "signed_cookie es rq ''trust_device''")
    case None
    with run show ?thesis by auto
  next
    case (Some cookie)
    obtain token found i where part: "partition_at CHR ''!'' cookie = (token, found, i)" by (metis prod_cases3)
    show ?thesis
    proof (cases "token = [] \<or> i = [] \<or>
        token \<noteq> sign_hmac_b64url (au_hmac (es_auth es)) (au_secret (es_auth es)) (uid @ ''!'' @ i)")
      case True
      with run Some part show ?thesis by auto
    next
      case False
      then have "sign_hmac_b64url (au_hmac (es_auth es)) (au_secret (es_auth es)) (uid @ ''!'' @ i) \<noteq> []"
          "i \<noteq> []" "token = sign_hmac_b64url (au_hmac (es_auth es)) (au_secret (es_auth es)) (uid @ ''!'' @ i)" by auto
      with run Some part have r: "bindA (liftR (trusted_record es ev (VStr uid) (latest_row (table w ''verification'') i)))
          (\<lambda>ok. if \<not> ok then ret (Inr (add_cookies [clear_cookie (es_auth es) ''trust_device''] rs))
            else bindA (on_core (delete_verification_by_identifier (core es) i))
              (\<lambda>_. bindA (make_trust_cookie es tf ev td (VStr uid)) (\<lambda>trust. ret (Inl (add_cookies [trust] rs))))) w =
          (Inr checked, w')"
        by (simp add: find_value_step[OF assms(1,2)])
      from r obtain ok where ok: "trusted_record es ev (VStr uid) (latest_row (table w ''verification'') i) = Inr ok"
        by (elim bind_liftE)
      show ?thesis
      proof (cases ok)
        case True
        with partition_at_found[OF part] False Some ok have "trusted_device es ev rq uid w"
          by (auto simp: trusted_device_def Let_def)
        moreover have "\<exists>a. checked = Inl a" using r ok True by (auto elim!: bindA_InrE)
        ultimately show ?thesis by auto
      next
        case False
        with r ok show ?thesis by auto
      qed
    qed
  qed
qed

text \<open>
  C35: After a sign-in of a user whose account has two-factor authentication enabled, the plugin's hook lets
  the answer through only if the request presents a trusted device, that is a signed cookie holding the
  HMAC of this user and of a record that is stored, names the user and has not expired. In every other case
  the answer is the challenge: the session that the sign-in opened is deleted from the session table, the
  request's new session is forgotten, no session cookie is set other than those that clear it, the body
  holds nothing but the redirect and the methods, and the challenge for this user with a counter at zero is
  stored.
\<close>
theorem second_factor_gate:
  assumes "plain_values (core es)" "verif_ok (core es) (sw_int w)"
    and "ad_generate_id (store_ad es) = GenDefault" "CHR ''='' \<notin> set (au_prefix (es_auth es))"
    and "sw_new_session w = Some (session, Some user)" "py_truthy (dget user ''twoFactorEnabled'')"
    and "dget user ''id'' = VStr uid"
    and "after_sign_in es tf ev rq td rs w = (Inr rs', w')"
  shows "trusted_device es ev rq uid w \<or>
    (\<exists>token. dget session ''token'' = VStr token \<and> gated es tf ev td uid token w rs' w')"
proof -
  from assms(8) obtain checked w1 where
    c: "check_trusted_device es tf ev rq td (VStr uid) rs w = (Inr checked, w1)"
    "(case checked of Inl answer \<Rightarrow> ret answer | Inr rs0 \<Rightarrow> arm_challenge es tf ev td session (VStr uid) rs0) w1 = (Inr rs', w')"
    using assms(5-6) dindex_dget[OF assms(7)] by (auto simp: after_sign_in_def elim!: bindA_InrE)
  from check_trusted_cases[OF assms(1,2) c(1)] show ?thesis
  proof (cases checked)
    case (Inr rs0)
    with check_trusted_cases[OF assms(1,2) c(1)] c(2) have
      "arm_challenge es tf ev td session (VStr uid) rs0 w = (Inr rs', w')" by simp
    from arm_challenge_ok[OF assms(1,3,4) this] show ?thesis ..
  qed simp
qed

definition tf_user :: row where
  "tf_user = (''twoFactorEnabled'', VBool True) # ann"

definition signed_in_world :: sworld where
  "signed_in_world = armed_world\<lparr>sw_new_session := Some (stored_session, Some tf_user)\<rparr>"

definition demo_tf_draws :: tf_draws where
  "demo_tf_draws = \<lparr>td_secret = ''sec'', td_backup = (\<lambda>_. ''0123456789''), td_otp = ''123456'', td_trust = ''tr'',
     td_challenge = ''cc'', td_session = (''i'', ''tok''), td_ids = (\<lambda>n. if n = 0 then ''x0'' else ''x1'')\<rparr>"

definition signed_in_reply :: response where
  "signed_in_reply = \<lparr>rs_status = 200, rs_body = VDict [], rs_headers = [(''set-cookie'', ''better-auth.session_token=abc'')],
     rs_redirect = None\<rparr>"

lemma gate_runs:
  "case fst (after_sign_in demo_site demo_factor (at_us 500) no_token demo_tf_draws signed_in_reply signed_in_world) of
     Inr _ \<Rightarrow> True | Inl _ \<Rightarrow> False"
  by code_simp

theorem second_factor_gate_witness:
  "\<exists>rs' w'. after_sign_in demo_site demo_factor (at_us 500) no_token demo_tf_draws signed_in_reply signed_in_world = (Inr rs', w') \<and>
     gated demo_site demo_factor (at_us 500) demo_tf_draws ''u'' ''t'' signed_in_world rs' w'"
proof -
  let ?run = "after_sign_in demo_site demo_factor (at_us 500) no_token demo_tf_draws signed_in_reply signed_in_world"
  obtain rs' w' where run: "?run = (Inr rs', w')" using gate_runs by (cases ?run) (auto split: sum.splits)
  have ok: "verif_ok (core demo_site) (sw_int signed_in_world)"
    using armed_ok(2) by (simp add: verif_ok_def signed_in_world_def)
  have default: "ad_generate_id (store_ad demo_site) = GenDefault"
    by (simp add: demo_site_def demo_auth_def demo_adapter_def)
  have facts: "CHR ''='' \<notin> set (au_prefix (es_auth demo_site))"
      "sw_new_session signed_in_world = Some (stored_session, Some tf_user)"
      "py_truthy (dget tf_user ''twoFactorEnabled'')" "dget tf_user ''id'' = VStr ''u''"
      "signed_cookie demo_site no_token ''trust_device'' = None" "dget stored_session ''token'' = VStr ''t''"
    by code_simp+
  have "\<not> trusted_device demo_site (at_us 500) no_token ''u'' signed_in_world"
    by (simp add: trusted_device_def facts(5))
  with second_factor_gate[OF armed_ok(1) ok default facts(1-4) run] facts(6) run show ?thesis by auto
qed

end
