(* ===== verification/Session_Frames.thy ===== *)
theory Session_Frames
  imports Two_Factor_Claims
begin

text \<open>
  Reading, opening and ending sessions, and storing rows of other models, leave a table alone: the frame
  rules of \<open>Frames\<close> for the operations of the internal adapter and for the state of the handlers.
\<close>

section \<open>The generic operations\<close>

lemma keeps_int_create:
  assumes "m' \<noteq> m" "\<And>c r. custom = Some c \<Longrightarrow> keeps (same_table m) (cu_fn c r)"
  shows "keeps (same_table m) (int_create ic ev m' data force_id custom)"
  unfolding int_create_def Let_def by (intro table_frame) (use assms in auto)

lemma keeps_int_update:
  assumes "m' \<noteq> m" "\<And>c r. custom = Some c \<Longrightarrow> keeps (same_table m) (cu_fn c r)"
  shows "keeps (same_table m) (int_update ic ev m' wh data custom)"
  unfolding int_update_def by (intro table_frame) (use assms in auto)

lemma keeps_int_delete: "m' \<noteq> m \<Longrightarrow> keeps (same_table m) (int_delete ic m' wh)"
  unfolding int_delete_def by (intro table_frame) auto

lemma keeps_queue_after_each: "keeps (same_table m) (queue_after_each ic m' rs)"
  by (induction rs) (auto intro!: table_frame)

lemma keeps_int_delete_many: "m' \<noteq> m \<Longrightarrow> keeps (same_table m) (int_delete_many ic m' wh)"
  unfolding int_delete_many_def by (intro table_frame keeps_queue_after_each) auto

lemma keeps_rows:
  assumes "m' \<noteq> m"
  shows "keeps (same_table m) (create_row ic ev m' data force_id)"
    "keeps (same_table m) (update_row ic ev m' wh data)"
    "keeps (same_table m) (delete_rows ic m' wh)"
  unfolding create_row_def update_row_def delete_rows_def
  by (intro table_frame keeps_int_create keeps_int_update keeps_int_delete_many assms; simp)+

section \<open>Sessions\<close>

lemma keeps_get_session:
  assumes "m \<noteq> ''session''"
  shows "keeps (same_table m) (get_session au ev rq disable_cache disable_refresh is_post)"
proof -
  have answer: "keeps (same_table m) (answer_session au ev rq s cs n)" for s cs n
    unfolding answer_session_def find_user_row_def by (intro table_frame)
  have "keeps (same_table m) (refresh_row au ev token s)" for token s
    unfolding refresh_row_def using assms by (intro table_frame keeps_rows) auto
  then have "keeps (same_table m) (validate_stored au ev rq token cs dr post)" for token cs dr post
    unfolding validate_stored_def Let_def using assms by (intro table_frame keeps_rows answer) auto
  then show ?thesis unfolding get_session_def Let_def by (intro table_frame)
qed

lemma keeps_store_session_kv: "keeps (same_table m) (store_session_kv ic ev uid data session)"
  unfolding store_session_kv_def Let_def by (intro table_frame)

lemma keeps_create_session:
  assumes "m \<noteq> ''session''"
  shows "keeps (same_table m) (create_session ic ev new_id token uid dont ov ip ua)"
  unfolding create_session_def Let_def using assms
  by (intro keeps_int_create) (auto intro!: table_frame keeps_store_session_kv split: if_splits)

section \<open>The state of the handlers\<close>

definition same_site_table :: "string \<Rightarrow> sworld \<Rightarrow> sworld \<Rightarrow> bool" where
  "same_site_table m w w' \<longleftrightarrow> same_table m (sw_int w) (sw_int w')"

interpretation kept_site: frame "same_site_table m" for m
  by unfold_locales (auto simp: same_site_table_def intro: kept_table.same_refl kept_table.same_trans)

lemma keeps_on_core: "keeps (same_table m) act \<Longrightarrow> keeps (same_site_table m) (on_core act)"
  unfolding keeps_def same_site_table_def on_core_def by (metis (no_types, lifting) case_prod_beta snd_conv sworld.select_convs(1)
      sworld.surjective sworld.update_convs(1))

lemma keeps_on_rows: "keeps (same_rows m) act \<Longrightarrow> keeps (same_site_table m) (on_rows act)"
  unfolding on_rows_def by (intro keeps_on_core keeps_on_db)

lemma keeps_notify: "keeps (same_site_table m) (notify e res)"
  by (simp add: keeps_def notify_def same_site_table_def kept_table.same_refl)

lemma keeps_outside: "(\<And>w. sw_int (f w) = sw_int w) \<Longrightarrow> keeps (same_site_table m) (\<lambda>w. (res, f w))"
  by (simp add: keeps_def same_site_table_def kept_table.same_refl)

lemmas site_frame = keeps_cases keeps_on_core keeps_on_rows keeps_other_model keeps_reads keeps_notify
  kept_site.keeps_ret kept_site.keeps_Pair kept_site.keeps_raise kept_site.keeps_liftR
  kept_site.keeps_bindA kept_site.keeps_catchA

lemma same_site_tableD:
  "same_site_table m w w' \<Longrightarrow> str_ids (table w m) \<Longrightarrow> table w' m = table w m"
  by (simp add: same_site_table_def same_table_def same_rows_def table_def)

lemma keeps_load_session: "m \<noteq> ''session'' \<Longrightarrow> keeps (same_site_table m) (load_session es ev rq)"
  unfolding load_session_def by (intro site_frame keeps_get_session)

end
