(* ===== verification/One_Time_Token.thy ===== *)
theory One_Time_Token
  imports Plugin_Base
begin

text \<open>
  \<open>plugins_ext/one_time_token.py\<close>: a short-lived token for the session at hand, redeemed once for that
  session. The hasher and the generator of the options are parameters; a stored value that is no text is
  refused with a type error.
\<close>

section \<open>Tokens at rest\<close>

text \<open>What a plugin stores of a token it is given: \<open>_stored_token\<close> here and \<open>_store\<close> of the magic link.\<close>

definition store_token :: "(string \<Rightarrow> nat list) \<Rightarrow> token_store \<Rightarrow> pyval \<Rightarrow> pyval result" where
  "store_token sha256 st token =
     (case st of
        TokenHashed \<Rightarrow>
          (case token of VStr t \<Rightarrow> Inr (VStr (default_key_hasher sha256 t)) | _ \<Rightarrow> Inl AttributeError)
      | TokenCustom h \<Rightarrow> bindR (h token) (\<lambda>s. Inr (VStr s))
      | TokenPlain \<Rightarrow> Inr token)"

record one_time_token =
  ot_expires_in :: int
  ot_disable_client :: bool
  ot_generate :: "(row \<Rightarrow> row option \<Rightarrow> string result) option"
  ot_disable_cookie :: bool
  ot_store :: token_store
  ot_set_header :: bool
  ot_sha256 :: "string \<Rightarrow> nat list"

definition ott_name :: "site \<Rightarrow> pyval \<Rightarrow> string" where
  "ott_name es stored = ''one-time-token:'' @ f_string es stored"

definition ott_invalid :: "string \<Rightarrow> exn" where
  "ott_invalid message = api_error 400 ''BAD_REQUEST'' message"

section \<open>Operations\<close>

text \<open>\<open>_generate_token\<close> for a session and its user; \<open>fresh\<close> is the random string.\<close>

definition ott_generate_token ::
    "site \<Rightarrow> one_time_token \<Rightarrow> env \<Rightarrow> string \<Rightarrow> row \<Rightarrow> row option \<Rightarrow> (sworld, string) action" where
  "ott_generate_token es ot ev fresh session user =
     bindA (liftR (case ot_generate ot of Some g \<Rightarrow> g session user | None \<Rightarrow> Inr fresh)) (\<lambda>token.
     bindA (liftR (store_token (ot_sha256 ot) (ot_store ot) (VStr token))) (\<lambda>stored.
     bindA (liftR (dindex session ''token'')) (\<lambda>session_token.
     bindA (on_core (create_verification_value (core es) ev
              [(''value'', session_token), (''identifier'', VStr (ott_name es stored)),
               (''expiresAt'', VDate (now ev + ot_expires_in ot * 60 * 1000000))] False)) (\<lambda>_.
       ret token))))"

definition ott_generate_route ::
    "site \<Rightarrow> one_time_token \<Rightarrow> env \<Rightarrow> request \<Rightarrow> string \<Rightarrow> (sworld, response) action" where
  "ott_generate_route es ot ev rq fresh =
     (if ot_disable_client ot then raise (ott_invalid ''Client requests are disabled'')
      else
        bindA (require_login es ev rq) (\<lambda>login.
        bindA (ott_generate_token es ot ev fresh (va_session login) (Some (va_user login))) (\<lambda>token.
          ret (reply [(''token'', VStr token)]))))"

text \<open>The answer for the session found; the cookie is queued before the expiry is looked at.\<close>

definition ott_answer ::
    "site \<Rightarrow> one_time_token \<Rightarrow> env \<Rightarrow> request \<Rightarrow> row \<Rightarrow> row \<Rightarrow> (sworld, response) action" where
  "ott_answer es ot ev rq session user =
     (let plain = reply [(''session'', VDict session), (''user'', VDict user)]
      in bindA
           (if ot_disable_cookie ot then ret plain
            else
              bindA (liftR (bindR (dindex session ''token'') text_value)) (\<lambda>t.
              bindA (\<lambda>w. (Inr (), w\<lparr>sw_new_session := Some (session, Some user)\<rparr>)) (\<lambda>_.
                ret (add_cookies [refresh_session_cookie (es_auth es) rq t] plain)))) (\<lambda>rs.
         bindA (liftR (bindR (dindex session ''expiresAt'') (\<lambda>x. py_lt x (VDate (now ev))))) (\<lambda>expired.
           if expired then raise (ott_invalid ''Session expired'') else ret rs)))"

definition ott_verify_route ::
    "site \<Rightarrow> one_time_token \<Rightarrow> env \<Rightarrow> request \<Rightarrow> body \<Rightarrow> (sworld, response) action" where
  "ott_verify_route es ot ev rq b =
     bindA (liftR (request_json b)) (\<lambda>d.
     let token = dget d ''token''
     in if \<not> py_truthy token then raise (ott_invalid ''Invalid token'')
        else
          bindA (liftR (store_token (ot_sha256 ot) (ot_store ot) token)) (\<lambda>stored.
          bindA (on_core (consume_verification_value (core es) ev (ott_name es stored))) (\<lambda>found.
            case found of
              None \<Rightarrow> raise (ott_invalid ''Invalid token'')
            | Some r \<Rightarrow>
                bindA (liftR (bindR (dindex r ''value'') str_arg)) (\<lambda>session_token.
                bindA (on_core (find_session (core es) ev session_token)) (\<lambda>session.
                  case session of
                    None \<Rightarrow> raise (ott_invalid ''Session not found'')
                  | Some (s, u) \<Rightarrow> ott_answer es ot ev rq s u)))))"

section \<open>The header on a new session\<close>

text \<open>\<open>add_expose_headers\<close> of \<open>plugins.py\<close>: merges names into the exposed headers.\<close>

definition exposes :: "string \<times> string \<Rightarrow> bool" where
  "exposes h \<longleftrightarrow> str_lower (fst h) = ''access-control-expose-headers''"

fun merge_names :: "string list \<Rightarrow> string list \<Rightarrow> string list" where
  "merge_names vs [] = vs"
| "merge_names vs (n # ns) = merge_names (if n \<in> set vs then vs else vs @ [n]) ns"

definition add_expose_headers :: "string list \<Rightarrow> response \<Rightarrow> response" where
  "add_expose_headers names rs =
     (let hs = rs_headers rs; old = List.find exposes hs;
          vs = (case old of Some h \<Rightarrow> filter (\<lambda>p. p \<noteq> []) (map strip (split_on CHR '','' (snd h))) | None \<Rightarrow> []);
          merged = (''Access-Control-Expose-Headers'', join_parts '', '' (merge_names vs names))
      in rs\<lparr>rs_headers := (if old = None then hs @ [merged] else takeWhile (\<lambda>h. \<not> exposes h) hs @ merged # tl (dropWhile (\<lambda>h. \<not> exposes h) hs))\<rparr>)"

definition ott_header_hook ::
    "site \<Rightarrow> one_time_token \<Rightarrow> env \<Rightarrow> string \<Rightarrow> response option \<Rightarrow> (sworld, response option) action" where
  "ott_header_hook es ot ev fresh answer w =
     (case sw_new_session w of
        Some (session, user) \<Rightarrow>
          if \<not> ot_set_header ot then (Inr answer, w)
          else
            bindA (ott_generate_token es ot ev fresh session user) (\<lambda>token.
              ret (case answer of
                     None \<Rightarrow> None
                   | Some rs \<Rightarrow>
                       Some (add_expose_headers [''set-ott'']
                         (rs\<lparr>rs_headers := rs_headers rs @ [(''set-ott'', token)]\<rparr>)))) w
      | None \<Rightarrow> (Inr answer, w))"

end
