(* ===== verification/Magic_Link.thy ===== *)
theory Magic_Link
  imports One_Time_Token
begin

text \<open>
  \<open>plugins_ext/magic_link.py\<close>: sign-in by a mailed link, with the part of \<open>urllib.parse.urljoin\<close> it uses
  written out. The callbacks of the options and the JSON codec are parameters; the payload of a stored
  value is what the codec reads from it. \<open>polls\<close> are the clock readings while another request cleans
  the user's accounts up.
\<close>

section \<open>Joining URLs\<close>

definition USES_PARAMS :: "string list" where
  "USES_PARAMS = ['''', ''ftp'', ''hdl'', ''prospero'', ''http'', ''https'', ''shttp'', ''rtsp'', ''rtsps'', ''rtspu'',
     ''sip'', ''sips'', ''mms'', ''sftp'', ''tel'']"

definition USES_RELATIVE :: "string list" where
  "USES_RELATIVE = ['''', ''ftp'', ''http'', ''gopher'', ''nntp'', ''imap'', ''wais'', ''file'', ''https'', ''shttp'',
     ''mms'', ''prospero'', ''rtsp'', ''rtsps'', ''rtspu'', ''sftp'', ''svn'', ''svn+ssh'', ''ws'', ''wss'']"

text \<open>The parameters after the first semicolon of the last segment; the flag tells that a path has some.\<close>

definition split_params :: "string \<Rightarrow> string \<Rightarrow> string \<times> string" where
  "split_params scheme path =
     (if scheme \<in> set USES_PARAMS \<and> CHR '';'' \<in> set path then
        (case rpartition_at CHR ''/'' path of
           (dir, found, name) \<Rightarrow>
             if CHR '';'' \<in> set name then
               (case partition_at CHR '';'' name of
                  (front, _, params) \<Rightarrow> ((if found then dir @ ''/'' else []) @ front, params))
             else (path, []))
      else (path, []))"

definition resolve_step :: "string list \<Rightarrow> string \<Rightarrow> string list" where
  "resolve_step acc seg = (if seg = ''..'' then butlast acc else if seg = ''.'' then acc else acc @ [seg])"

definition join_segments :: "string \<Rightarrow> string \<Rightarrow> string" where
  "join_segments bpath path =
     (let parts = split_on CHR ''/'' bpath;
          base = (if last parts \<noteq> [] then butlast parts else parts);
          whole = base @ split_on CHR ''/'' path;
          segments =
            (if take 1 path = ''/'' then split_on CHR ''/'' path
             else if length whole < 2 then whole
             else hd whole # filter (\<lambda>s. s \<noteq> []) (butlast (tl whole)) @ [last whole]);
          resolved = foldl resolve_step [] segments;
          closed = (if last segments \<in> {''.'', ''..''} then resolved @ [[]] else resolved)
      in case join_parts ''/'' closed of [] \<Rightarrow> ''/'' | p \<Rightarrow> p)"

definition with_params :: "string \<Rightarrow> string \<Rightarrow> string" where
  "with_params path params = (if params = [] then path else path @ '';'' @ params)"

definition urljoin :: "bracketed \<Rightarrow> string \<Rightarrow> string \<Rightarrow> string result" where
  "urljoin vb base url =
     (if base = [] then Inr url
      else if url = [] then Inr base
      else
        bindR (urlsplit vb base) (\<lambda>b.
        bindR (urlsplit vb url) (\<lambda>u.
          let scheme = (if u_scheme u = [] then u_scheme b else u_scheme u);
              (bpath, bparams) = split_params (u_scheme b) (u_path b);
              (path, params) = split_params scheme (u_path u);
              own = u\<lparr>u_scheme := scheme\<rparr>
          in Inr (
            if scheme \<noteq> u_scheme b \<or> scheme \<notin> set USES_RELATIVE then url
            else if scheme \<in> set USES_NETLOC \<and> u_netloc u \<noteq> [] then urlunsplit own
            else
              let joined = own\<lparr>u_netloc := (if scheme \<in> set USES_NETLOC then u_netloc b else u_netloc u)\<rparr>
              in if path = [] \<and> params = [] then
                   urlunsplit (joined\<lparr>u_path := with_params bpath bparams,
                     u_query := (if u_query u = [] then u_query b else u_query u)\<rparr>)
                 else urlunsplit (joined\<lparr>u_path := with_params (join_segments bpath path) params\<rparr>)))))"

section \<open>Options\<close>

record magic_link =
  ml_send :: "pyval \<Rightarrow> unit result"
  ml_expires_in :: int
  ml_disable_sign_up :: bool
  ml_generate :: "(string \<Rightarrow> string result) option"
  ml_store :: token_store
  ml_sha256 :: "string \<Rightarrow> nat list"
  ml_dumps :: "pyval \<Rightarrow> string"
  ml_loads :: "string \<Rightarrow> pyval result"

definition ml_resolve :: "site \<Rightarrow> string \<Rightarrow> string result" where
  "ml_resolve es v =
     urljoin (oc_bracketed (es_origin es)) (rstrip_slash (oc_base_url (es_origin es)) @ ''/'') v"

text \<open>A redirect that carries an error; the parameters of the URL form a dict.\<close>

definition redirect_with_error :: "site \<Rightarrow> string \<Rightarrow> string \<Rightarrow> string option \<Rightarrow> response result" where
  "redirect_with_error es url err description =
     bindR (urlsplit (oc_bracketed (es_origin es)) url) (\<lambda>p.
       let q0 = dset ''error'' err (dmerge [] (parse_qsl (u_query p)));
           q = (case description of
                  Some (c # cs) \<Rightarrow> dset ''error_description'' (c # cs) q0
                | _ \<Rightarrow> q0)
       in Inr (redirect_to (urlunsplit (p\<lparr>u_query := urlencode q\<rparr>))))"

section \<open>Sending a link\<close>

text \<open>A parameter of the link: \<open>urlencode\<close> quotes the text of the value.\<close>

definition ml_param :: "site \<Rightarrow> row \<Rightarrow> string \<Rightarrow> (string \<times> string) list" where
  "ml_param es d k = (if py_truthy (dget d k) then [(k, f_string es (dget d k))] else [])"

definition ml_url :: "site \<Rightarrow> row \<Rightarrow> string \<Rightarrow> string" where
  "ml_url es d token =
     oc_base_url (es_origin es) @ es_base_path es @ ''/magic-link/verify?'' @
     urlencode ([(''token'', token), (''callbackURL'', f_string es (or_root (dget d ''callbackURL'')))] @
       ml_param es d ''newUserCallbackURL'' @ ml_param es d ''errorCallbackURL'')"

definition ml_sign_in ::
    "site \<Rightarrow> magic_link \<Rightarrow> env \<Rightarrow> body \<Rightarrow> string \<Rightarrow> (sworld, response) action" where
  "ml_sign_in es ml ev b fresh =
     bindA (liftR (request_json b)) (\<lambda>d.
       case dget d ''email'' of
         VStr email \<Rightarrow>
           if CHR ''@'' \<notin> set email then raise (api_error 400 ''INVALID_EMAIL'' ''Invalid email'')
           else
             bindA (liftR (case ml_generate ml of Some g \<Rightarrow> g email | None \<Rightarrow> Inr fresh)) (\<lambda>token.
             bindA (liftR (store_token (ml_sha256 ml) (ml_store ml) (VStr token))) (\<lambda>stored.
             let payload = (''email'', VStr email) #
                   (if dget d ''name'' = VNone then [] else [(''name'', dget d ''name'')])
             in bindA (on_core (create_verification_value (core es) ev
                  [(''identifier'', stored), (''value'', VStr (ml_dumps ml (VDict payload))),
                   (''expiresAt'', VDate (now ev + ml_expires_in ml * 1000000))] False)) (\<lambda>_.
                let mail = [(''email'', VStr email), (''url'', VStr (ml_url es d token)), (''token'', VStr token),
                            (''metadata'', dget d ''metadata'')]
                in bindA (notify (PluginCall ''send_magic_link'' [VDict mail]) (ml_send ml (VDict mail))) (\<lambda>_.
                   ret (reply [(''status'', VBool True)])))))
       | _ \<Rightarrow> raise (api_error 400 ''INVALID_EMAIL'' ''Invalid email''))"

section \<open>Opening a link\<close>

definition ml_origin_check :: "site \<Rightarrow> request \<Rightarrow> string option \<Rightarrow> unit result" where
  "ml_origin_check es rq v =
     (case v of
        Some (c # cs) \<Rightarrow>
          bindR (is_trusted_origin (es_origin es) rq (c # cs) True) (\<lambda>ok.
            if ok then Inr () else Inl (api_error 403 ''INVALID_CALLBACK_URL'' ''Invalid callbackURL''))
      | _ \<Rightarrow> Inr ())"

definition or_text :: "string option \<Rightarrow> string \<Rightarrow> string" where
  "or_text v other = (case v of Some (c # cs) \<Rightarrow> c # cs | _ \<Rightarrow> other)"

text \<open>The callback, error and new-user URLs of a request, once they are trusted.\<close>

definition ml_urls :: "site \<Rightarrow> request \<Rightarrow> (string \<times> string \<times> string) result" where
  "ml_urls es rq =
     (let q = map_of (rq_query rq)
      in bindR (ml_origin_check es rq (q ''callbackURL'')) (\<lambda>_.
         bindR (ml_origin_check es rq (q ''newUserCallbackURL'')) (\<lambda>_.
         bindR (ml_origin_check es rq (q ''errorCallbackURL'')) (\<lambda>_.
         bindR (ml_resolve es (or_text (q ''callbackURL'') ''/'')) (\<lambda>callback.
         bindR (ml_resolve es (or_text (q ''errorCallbackURL'') callback)) (\<lambda>error.
         bindR (ml_resolve es (or_text (q ''newUserCallbackURL'') callback)) (\<lambda>new_user.
           Inr (callback, error, new_user))))))))"

text \<open>The value of the link, consumed.\<close>

definition ml_consume ::
    "site \<Rightarrow> magic_link \<Rightarrow> env \<Rightarrow> string option \<Rightarrow> (sworld, row option) action" where
  "ml_consume es ml ev token =
     (case token of
        Some (c # cs) \<Rightarrow>
          bindA (liftR (bindR (store_token (ml_sha256 ml) (ml_store ml) (VStr (c # cs))) str_arg)) (\<lambda>stored.
            if stored = [] then ret None
            else on_core (consume_verification_value (core es) ev stored))
      | _ \<Rightarrow> ret None)"

text \<open>The user of the address, or a new one; \<open>Inl\<close> is a redirect, the flag says that the user is new.\<close>

definition ml_find_or_create ::
    "site \<Rightarrow> magic_link \<Rightarrow> env \<Rightarrow> string \<Rightarrow> pyval \<Rightarrow> pyval \<Rightarrow> (sworld, response + row \<times> bool) action" where
  "ml_find_or_create es ml ev error_url email name =
     (let refuse = (\<lambda>code message. bindA (liftR (redirect_with_error es error_url code message)) (\<lambda>rs. ret (Inl rs)))
      in bindA (liftR (lower_arg email)) (\<lambda>address.
         bindA (find_user_by_email es (VStr address)) (\<lambda>found.
           case found of
             Some user \<Rightarrow> ret (Inr (user, False))
           | None \<Rightarrow>
               if ml_disable_sign_up ml then refuse ''new_user_signup_disabled'' None
               else
                 bindA
                   (catchA
                      (bindA (on_core (create_user (core es) ev
                          [(''email'', email), (''emailVerified'', VBool True), (''name'', py_or name (VStr []))]
                          (Some [(''method'', VStr ''magic-link'')]) True False)) (\<lambda>created. ret (Inr created)))
                      (\<lambda>e. case e of
                             APIError _ code message _ \<Rightarrow>
                               if code = [] then raise e
                               else bindA (refuse code (Some message)) (\<lambda>r.
                                 ret (case r of Inl rs \<Rightarrow> Inl rs | Inr _ \<Rightarrow> Inr None))
                           | _ \<Rightarrow> raise e)) (\<lambda>outcome.
                   case outcome of
                     Inl rs \<Rightarrow> ret (Inl rs)
                   | Inr None \<Rightarrow> refuse ''failed_to_create_user'' None
                   | Inr (Some user) \<Rightarrow> ret (Inr (user, True))))))"

text \<open>An unproven address: the accounts and sessions of the user go, and the address counts as verified.\<close>

definition ml_promote ::
    "site \<Rightarrow> env \<Rightarrow> env list \<Rightarrow> row \<Rightarrow> (sworld, row option) action" where
  "ml_promote es ev polls user =
     (if py_truthy (dget user ''emailVerified'') then ret (Some user)
      else
        bindA (liftR (bindR (dindex user ''id'') str_arg)) (\<lambda>uid.
          on_core (revoke_unproven_account_access (core es) ev polls uid)))"

definition ml_finish ::
    "site \<Rightarrow> env \<Rightarrow> request \<Rightarrow> ids \<Rightarrow> string \<Rightarrow> row \<Rightarrow> (sworld, response) action" where
  "ml_finish es ev rq fresh target user =
     bindA (liftR (dindex user ''id'')) (\<lambda>uid.
     bindA (start_session_for es ev rq uid True user fresh) (\<lambda>(session, cookies).
       if or_text (map_of (rq_query rq) ''callbackURL'') [] = [] then
         bindA (liftR (dindex session ''token'')) (\<lambda>token.
           ret (add_cookies cookies (reply [(''token'', token), (''user'', user_output es user),
             (''session'', session_output es session)])))
       else ret (add_cookies cookies (redirect_to target))))"

definition ml_verify ::
    "site \<Rightarrow> magic_link \<Rightarrow> env \<Rightarrow> env list \<Rightarrow> request \<Rightarrow> ids \<Rightarrow> (sworld, response) action" where
  "ml_verify es ml ev polls rq fresh =
     bindA (liftR (ml_urls es rq)) (\<lambda>(callback, error_url, new_user).
     bindA (ml_consume es ml ev (map_of (rq_query rq) ''token'')) (\<lambda>found.
       case found of
         None \<Rightarrow> liftR (redirect_with_error es error_url ''INVALID_TOKEN'' None)
       | Some r \<Rightarrow>
           bindA (liftR (bindR (dindex r ''value'') (\<lambda>v. bindR (str_arg v) (ml_loads ml)))) (\<lambda>payload.
           bindA (liftR (index_value payload ''email'')) (\<lambda>email.
           let name = (case payload of VDict d \<Rightarrow> dget d ''name'' | _ \<Rightarrow> VNone)
           in bindA (ml_find_or_create es ml ev error_url email name) (\<lambda>outcome.
                case outcome of
                  Inl rs \<Rightarrow> ret rs
                | Inr (user, is_new) \<Rightarrow>
                    bindA (ml_promote es ev polls user) (\<lambda>promoted.
                      case promoted of
                        None \<Rightarrow> liftR (redirect_with_error es error_url ''user_not_found'' None)
                      | Some user' \<Rightarrow> ml_finish es ev rq fresh (if is_new then new_user else callback) user'))))))"

end
