(* ===== verification/Device_Authorization.thy ===== *)
theory Device_Authorization
  imports Magic_Link
begin

text \<open>
  \<open>plugins_ext/device_authorization.py\<close>: the device authorization grant (RFC 8628). The generators, the
  client validation and the hooks of a grant are parameters; \<open>dv_unique\<close> tells which exception of the
  store reports a unique violation. Durations are exact. The random codes of the attempts of one call are
  the functions \<open>dd_device\<close> and \<open>dd_user\<close>. An error of the plugin is the exception \<open>OAuthFailure\<close>; the
  headers that a raised API error carries are not modelled.
\<close>

section \<open>Schema and durations\<close>

definition DEVICE_FIELDS :: fields where
  "DEVICE_FIELDS =
     [(''deviceCode'', mk_field ''string'' True), (''userCode'', mk_field ''string'' True),
      (''userId'', mk_field ''string'' False), (''expiresAt'', mk_field ''datetime'' True),
      (''status'', mk_field ''string'' True), (''lastPolledAt'', mk_field ''datetime'' False),
      (''pollingInterval'', mk_field ''number'' False), (''clientId'', mk_field ''string'' False),
      (''scope'', mk_field ''string'' False)]"

definition DEVICE_CODE_MAX_LENGTH :: nat where
  "DEVICE_CODE_MAX_LENGTH = 191"

definition GRANT_TYPE :: string where
  "GRANT_TYPE = ''urn:ietf:params:oauth:grant-type:device_code''"

definition USER_CODE_ALPHABET :: string where
  "USER_CODE_ALPHABET = ''ABCDEFGHJKLMNPQRSTUVWXYZ23456789''"

definition MAX_GENERATION_ATTEMPTS :: nat where
  "MAX_GENERATION_ATTEMPTS = 3"

definition BASE_REQUEST_FIELDS :: "string list" where
  "BASE_REQUEST_FIELDS = [''client_id'', ''user_id'', ''scope'']"

definition NO_STORE :: "(string \<times> string) list" where
  "NO_STORE = [(''Cache-Control'', ''no-store''), (''Pragma'', ''no-cache'')]"

text \<open>The milliseconds of a unit; a year has 365.25 days.\<close>

definition unit_ms :: "string \<Rightarrow> int option" where
  "unit_ms u =
     (if u \<in> {''s'', ''sec'', ''secs'', ''second'', ''seconds''} then Some 1000
      else if u \<in> {''m'', ''min'', ''mins'', ''minute'', ''minutes''} then Some 60000
      else if u \<in> {''h'', ''hr'', ''hrs'', ''hour'', ''hours''} then Some 3600000
      else if u \<in> {''d'', ''day'', ''days''} then Some 86400000
      else if u \<in> {''w'', ''week'', ''weeks''} then Some 604800000
      else if u \<in> {''mo'', ''month'', ''months''} then Some 2592000000
      else if u \<in> {''y'', ''yr'', ''yrs'', ''year'', ''years''} then Some 31557600000
      else None)"

text \<open>\<open>round\<close>: to the nearest integer, and to the even one of two.\<close>

definition round_div :: "int \<Rightarrow> int \<Rightarrow> int" where
  "round_div n d =
     (let q = n div d; r = 2 * (n mod d)
      in if r < d then q else if r > d then q + 1 else if even q then q else q + 1)"

definition digits_value :: "string \<Rightarrow> int" where
  "digits_value s = foldl (\<lambda>n c. n * 10 + (int (of_char c) - 48)) 0 s"

definition parse_time_ms :: "string \<Rightarrow> int result" where
  "parse_time_ms v =
     (let s = strip v; whole = takeWhile is_digit s; rest = dropWhile is_digit s;
          (frac, tail) =
            (if take 1 rest = ''.'' then (takeWhile is_digit (tl rest), dropWhile is_digit (tl rest)) else ([], rest));
          u = (if take 1 tail = '' '' then tl tail else tail)
      in if whole = [] \<or> (take 1 rest = ''.'' \<and> frac = []) then Inl ValueError
         else case unit_ms (str_lower u) of
                None \<Rightarrow> Inl ValueError
              | Some ms \<Rightarrow> Inr (round_div (digits_value (whole @ frac) * ms) (10 ^ length frac)))"

section \<open>Options\<close>

text \<open>A token grant that owns some of the codes.\<close>

record device_grant =
  gr_request_fields :: "string list"
  gr_authorize :: "row \<Rightarrow> (pyval \<times> row) option result"
  gr_assert :: "row \<Rightarrow> unit result"
  gr_context :: "row \<Rightarrow> row option result"

record device_plugin =
  dv_expires_in :: string
  dv_interval :: string
  dv_generate_device :: "(nat \<Rightarrow> pyval result) option"
  dv_generate_user :: "(nat \<Rightarrow> pyval result) option"
  dv_validate_client :: "(pyval \<Rightarrow> bool result) option"
  dv_on_request :: "(pyval \<Rightarrow> pyval \<Rightarrow> unit result) option"
  dv_verification_uri :: "string option"
  dv_grant :: "device_grant option"
  dv_unique :: "exn \<Rightarrow> bool"

record device_draws =
  dd_device :: "nat \<Rightarrow> string"
  dd_user :: "nat \<Rightarrow> string"

definition dv_fail :: "int \<Rightarrow> string \<Rightarrow> string \<Rightarrow> exn" where
  "dv_fail status error description = OAuthFailure status error description []"

section \<open>Requests and codes\<close>

definition dv_request_body :: "request \<Rightarrow> body \<Rightarrow> (row \<times> (string \<times> string) list option) result" where
  "dv_request_body rq b =
     (if str_contains (str_lower (header rq ''content-type'')) ''application/x-www-form-urlencoded''
      then Inr (map (\<lambda>(k, v). (k, VStr v)) (dmerge [] (bd_form b)), Some (bd_form b))
      else bindR (request_json b) (\<lambda>d. Inr (d, None)))"

text \<open>An empty field counts as left out, and a field of a form must not be repeated.\<close>

fun normalize_form :: "row \<Rightarrow> (string \<times> string) list \<Rightarrow> string list \<Rightarrow> row result" where
  "normalize_form d pairs [] = Inr d"
| "normalize_form d pairs (name # names) =
     (let vs = map snd (filter (\<lambda>(k, v). k = name \<and> v \<noteq> []) pairs)
      in if length vs > 1 then Inl (dv_fail 400 ''invalid_request'' (name @ '' must not be repeated''))
         else normalize_form (dset name (case vs of v # _ \<Rightarrow> VStr v | [] \<Rightarrow> VNone) d) pairs names)"

definition blank_to_none :: "row \<Rightarrow> string \<Rightarrow> row" where
  "blank_to_none d name = (if map_of d name = Some (VStr []) then dset name VNone d else d)"

definition normalize_base_request :: "row \<Rightarrow> (string \<times> string) list option \<Rightarrow> row result" where
  "normalize_base_request d pairs =
     (let d' = foldl blank_to_none d BASE_REQUEST_FIELDS
      in case pairs of None \<Rightarrow> Inr d' | Some ps \<Rightarrow> normalize_form d' ps BASE_REQUEST_FIELDS)"

definition validate_generated_code :: "string \<Rightarrow> pyval \<Rightarrow> string result" where
  "validate_generated_code label code =
     (case code of
        VStr s \<Rightarrow>
          if length s > DEVICE_CODE_MAX_LENGTH
          then Inl (dv_fail 400 ''invalid_request'' (''Generated '' @ label @ '' code must be at most 191 characters''))
          else Inr s
      | _ \<Rightarrow> Inl (dv_fail 400 ''invalid_request'' (''Generated '' @ label @ '' code must be a string'')))"

definition dv_new_code :: "(nat \<Rightarrow> pyval result) option \<Rightarrow> (nat \<Rightarrow> string) \<Rightarrow> string \<Rightarrow> nat \<Rightarrow> string result" where
  "dv_new_code generate fresh label n =
     bindR (case generate of Some g \<Rightarrow> g n | None \<Rightarrow> Inr (VStr (fresh n))) (validate_generated_code label)"

text \<open>The code as it is, or with punctuation removed and letters upper-cased.\<close>

definition code_with :: "site \<Rightarrow> string \<Rightarrow> (sworld, row option) action" where
  "code_with es v =
     bindA (on_rows (mem_find_one (store_ad es) ''deviceCode'' [Where ''userCode'' (VStr v)] [])) (\<lambda>found.
       ret (case real_row found of
              Some r \<Rightarrow> if py_eq (dget r ''userCode'') (VStr v) then Some r else None
            | None \<Rightarrow> None))"

definition normalized_user_code :: "string \<Rightarrow> string" where
  "normalized_user_code s = map upper_char (filter is_alnum s)"

definition find_device_code_by_user_code :: "site \<Rightarrow> string \<Rightarrow> (sworld, row option) action" where
  "find_device_code_by_user_code es user_code =
     bindA (code_with es user_code) (\<lambda>exact.
       case exact of
         Some r \<Rightarrow> ret (Some r)
       | None \<Rightarrow>
           let plain = normalized_user_code user_code
           in if plain = user_code \<or> plain = [] \<or> \<not> list_all (\<lambda>c. c \<in> set USER_CODE_ALPHABET) plain then ret None
              else code_with es plain)"

section \<open>Redeeming a code\<close>

text \<open>A poll before the interval is over.\<close>

definition polls_too_soon :: "env \<Rightarrow> row \<Rightarrow> bool result" where
  "polls_too_soon ev r =
     (let polled = dget r ''lastPolledAt''; interval = dget r ''pollingInterval''
      in if \<not> (py_truthy polled \<and> py_truthy interval) then Inr False
         else case polled of
                VDate t \<Rightarrow> (case py_num interval of Some n \<Rightarrow> Inr (now ev - t < n * 1000) | None \<Rightarrow> Inl TypeError)
              | _ \<Rightarrow> Inl TypeError)"

definition drop_code :: "site \<Rightarrow> pyval \<Rightarrow> exn \<Rightarrow> (sworld, 'a) action" where
  "drop_code es rid e = bindA (on_rows (mem_delete ''deviceCode'' [Where ''id'' rid])) (\<lambda>_. raise e)"

text \<open>The state of a code that was polled in time; only an approved one goes on.\<close>

definition judge_status :: "site \<Rightarrow> env \<Rightarrow> row \<Rightarrow> pyval \<Rightarrow> (sworld, unit) action" where
  "judge_status es ev r rid =
     bindA (liftR (bindR (dindex r ''expiresAt'') (\<lambda>x. py_lt x (VDate (now ev))))) (\<lambda>expired.
       if expired then drop_code es rid (dv_fail 400 ''expired_token'' ''Device code has expired'')
       else
         bindA (liftR (dindex r ''status'')) (\<lambda>status.
           if status = VStr ''pending'' then raise (dv_fail 400 ''authorization_pending'' ''Authorization pending'')
           else if status = VStr ''denied'' then drop_code es rid (dv_fail 400 ''access_denied'' ''Access denied'')
           else if status \<noteq> VStr ''approved'' \<or> \<not> py_truthy (dget r ''userId'')
           then raise (dv_fail 500 ''server_error'' ''Invalid device code status'')
           else ret ()))"

definition slow_down :: exn where
  "slow_down = dv_fail 400 ''slow_down'' ''Polling too frequently''"

definition invalid_grant :: exn where
  "invalid_grant = dv_fail 400 ''invalid_grant'' ''Invalid device code''"

text \<open>The claim of an approved code under its ownership clause, and the user it is for.\<close>

definition claim_code :: "site \<Rightarrow> row \<Rightarrow> pyval \<Rightarrow> clause \<Rightarrow> (sworld, row \<times> row) action" where
  "claim_code es r rid ownership =
     bindA (liftR (dindex r ''userId'')) (\<lambda>uid.
     bindA (on_rows (mem_find_one (store_ad es) ''user'' [Where ''id'' uid] [])) (\<lambda>user.
       case user of
         None \<Rightarrow> raise (dv_fail 500 ''server_error'' ''User not found'')
       | Some u \<Rightarrow>
           bindA (on_rows (mem_consume_one (store_ad es) ''deviceCode''
                    [Where ''id'' rid, ownership, Where ''status'' (VStr ''approved'')])) (\<lambda>claimed.
             case claimed of
               None \<Rightarrow> raise invalid_grant
             | Some c \<Rightarrow> if py_truthy (dget c ''userId'') then ret (c, u) else raise invalid_grant)))"

definition redeem_device_code ::
    "site \<Rightarrow> env \<Rightarrow> string \<Rightarrow> (row \<Rightarrow> (clause \<times> 'c) result) \<Rightarrow> (row \<Rightarrow> 'c \<Rightarrow> (sworld, 'p) action) \<Rightarrow>
     (sworld, row \<times> 'c \<times> 'p \<times> row) action" where
  "redeem_device_code es ev device_code authorize prepare =
     bindA (on_rows (mem_find_one (store_ad es) ''deviceCode'' [Where ''deviceCode'' (VStr device_code)] [])) (\<lambda>found.
       case found of
         None \<Rightarrow> raise invalid_grant
       | Some r \<Rightarrow>
           bindA (liftR (authorize r)) (\<lambda>(ownership, context).
           bindA (liftR (polls_too_soon ev r)) (\<lambda>soon.
             if soon then raise slow_down
             else
               bindA (liftR (dindex r ''id'')) (\<lambda>rid.
               bindA (on_rows (mem_increment_one (store_ad es) ev ''deviceCode''
                        [Where ''id'' rid, Where ''lastPolledAt'' (dget r ''lastPolledAt'')] None
                        (Some [(''lastPolledAt'', VDate (now ev))]))) (\<lambda>polled.
                 if polled = None then raise slow_down
                 else
                   bindA (judge_status es ev r rid) (\<lambda>_.
                   bindA (prepare r context) (\<lambda>redemption.
                   bindA (claim_code es r rid ownership) (\<lambda>(claimed, user).
                     ret (claimed, context, redemption, user)))))))))"

section \<open>Routes\<close>

definition build_verification_uris :: "site \<Rightarrow> string option \<Rightarrow> string \<Rightarrow> (string \<times> string) result" where
  "build_verification_uris es uri user_code =
     bindR (urljoin (oc_bracketed (es_origin es)) (oc_base_url (es_origin es) @ es_base_path es)
              (or_text uri ''/device'')) (\<lambda>resolved.
     bindR (urlsplit (oc_bracketed (es_origin es)) resolved) (\<lambda>p.
       let params = filter (\<lambda>(k, _). k \<noteq> ''user_code'') (parse_qsl (u_query p)) @ [(''user_code'', user_code)]
       in Inr (resolved, urlunsplit (p\<lparr>u_query := urlencode params\<rparr>))))"

text \<open>\<open>_handles_errors\<close>: an error of the plugin becomes its answer.\<close>

definition missing_headers :: "(string \<times> string) list \<Rightarrow> (string \<times> string) list" where
  "missing_headers hs = filter (\<lambda>(k, _). str_lower k \<notin> str_lower ` fst ` set hs) NO_STORE"

definition handles_errors :: "bool \<Rightarrow> (sworld, response) action \<Rightarrow> (sworld, response) action" where
  "handles_errors no_store handler =
     catchA handler (\<lambda>e. case e of
       OAuthFailure status error description headers \<Rightarrow>
         ret \<lparr>rs_status = status,
              rs_body = VDict [(''error'', VStr error), (''error_description'', VStr description)],
              rs_headers = headers @ (if no_store then missing_headers headers else []), rs_redirect = None\<rparr>
     | _ \<Rightarrow> raise e)"

definition with_no_store :: "response \<Rightarrow> response" where
  "with_no_store rs = rs\<lparr>rs_headers := rs_headers rs @ NO_STORE\<rparr>"

text \<open>The client that may ask for a code; a grant may answer for its own clients.\<close>

definition dv_authorize_client ::
    "device_plugin \<Rightarrow> row \<Rightarrow> (pyval \<times> row) result" where
  "dv_authorize_client dv d =
     bindR (case dv_grant dv of Some g \<Rightarrow> gr_authorize g d | None \<Rightarrow> Inr None) (\<lambda>authorization.
     let client_id = (case authorization of Some (c, _) \<Rightarrow> c | None \<Rightarrow> dget d ''client_id'');
         columns = (case authorization of Some (_, cs) \<Rightarrow> cs | None \<Rightarrow> [])
     in bindR
          (if authorization \<noteq> None then Inr ()
           else if \<not> py_truthy client_id then Inl (dv_fail 400 ''invalid_request'' ''client_id is required'')
           else case dv_validate_client dv of
                  None \<Rightarrow>
                    if dv_grant dv \<noteq> None then Inl (dv_fail 400 ''invalid_client'' ''Invalid client ID'') else Inr ()
                | Some valid \<Rightarrow>
                    bindR (valid client_id) (\<lambda>ok.
                      if ok then Inr () else Inl (dv_fail 400 ''invalid_client'' ''Invalid client ID''))) (\<lambda>_.
        if \<not> py_truthy client_id then Inl (dv_fail 400 ''invalid_request'' ''client_id is required'')
        else Inr (client_id, columns)))"

definition dv_code_row :: "env \<Rightarrow> row \<Rightarrow> pyval \<Rightarrow> row \<Rightarrow> int \<Rightarrow> int \<Rightarrow> string \<Rightarrow> string \<Rightarrow> row" where
  "dv_code_row ev d client_id columns lifetime_ms interval_ms device_code user_code =
     dmerge columns
       [(''deviceCode'', VStr device_code), (''userCode'', VStr user_code),
        (''userId'', py_or (dget d ''user_id'') VNone), (''expiresAt'', VDate (now ev + lifetime_ms * 1000)),
        (''status'', VStr ''pending''), (''pollingInterval'', VInt interval_ms), (''clientId'', client_id),
        (''scope'', dget d ''scope'')]"

fun dv_store_code ::
    "site \<Rightarrow> device_plugin \<Rightarrow> env \<Rightarrow> device_draws \<Rightarrow> (string \<Rightarrow> string \<Rightarrow> row) \<Rightarrow> nat \<Rightarrow> nat \<Rightarrow>
     (sworld, string \<times> string) action" where
  "dv_store_code es dv ev dd new_row n 0 =
     raise (dv_fail 500 ''server_error'' ''Failed to generate a unique device code'')"
| "dv_store_code es dv ev dd new_row n (Suc left) =
     bindA (liftR (dv_new_code (dv_generate_device dv) (dd_device dd) ''device'' n)) (\<lambda>device_code.
     bindA (liftR (dv_new_code (dv_generate_user dv) (dd_user dd) ''user'' n)) (\<lambda>user_code.
     bindA
       (catchA
          (bindA (on_rows (mem_create (store_ad es) ev ''deviceCode'' (new_row device_code user_code) [])) (\<lambda>_. ret True))
          (\<lambda>e. if dv_unique dv e then ret False else raise e)) (\<lambda>stored.
       if stored then ret (device_code, user_code) else dv_store_code es dv ev dd new_row (Suc n) left)))"

definition dv_device_code ::
    "site \<Rightarrow> device_plugin \<Rightarrow> env \<Rightarrow> request \<Rightarrow> body \<Rightarrow> device_draws \<Rightarrow> (sworld, response) action" where
  "dv_device_code es dv ev rq b dd =
     bindA (liftR (dv_request_body rq b)) (\<lambda>(raw, pairs).
     let allowed = BASE_REQUEST_FIELDS @ (case dv_grant dv of Some g \<Rightarrow> gr_request_fields g | None \<Rightarrow> []);
         d0 = filter (\<lambda>(k, _). k \<in> set allowed) raw
     in if dv_grant dv = None \<and> \<not> is_str (dget d0 ''client_id'')
        then raise (dv_fail 400 ''invalid_request'' ([CHR 0x27] @ ''client_id'' @ [CHR 0x27] @ '' is required''))
        else
          bindA (liftR (normalize_base_request d0 pairs)) (\<lambda>d.
          bindA (liftR (dv_authorize_client dv d)) (\<lambda>(client_id, columns).
          bindA (case dv_on_request dv of
                   None \<Rightarrow> ret ()
                 | Some f \<Rightarrow>
                     notify (PluginCall ''on_device_auth_request'' [client_id, dget d ''scope''])
                       (f client_id (dget d ''scope''))) (\<lambda>_.
          bindA (liftR (parse_time_ms (dv_expires_in dv))) (\<lambda>lifetime_ms.
          bindA (liftR (parse_time_ms (dv_interval dv))) (\<lambda>interval_ms.
          bindA (dv_store_code es dv ev dd (dv_code_row ev d client_id columns lifetime_ms interval_ms) 0
                   MAX_GENERATION_ATTEMPTS) (\<lambda>(device_code, user_code).
          bindA (liftR (build_verification_uris es (dv_verification_uri dv) user_code)) (\<lambda>(uri, uri_complete).
            ret (with_no_store (reply
              [(''device_code'', VStr device_code), (''user_code'', VStr user_code), (''verification_uri'', VStr uri),
               (''verification_uri_complete'', VStr uri_complete), (''expires_in'', VInt (lifetime_ms div 1000)),
               (''interval'', VInt (interval_ms div 1000))]))))))))))"

text \<open>A session for the user of a redeemed code; the seconds left are truncated toward zero.\<close>

definition dv_token_answer ::
    "site \<Rightarrow> env \<Rightarrow> ids \<Rightarrow> row \<Rightarrow> row \<Rightarrow> (sworld, response) action" where
  "dv_token_answer es ev fresh claimed user =
     bindA (liftR (bindR (dindex user ''id'') str_arg)) (\<lambda>uid.
     bindA (on_core (create_session (core es) ev (fst fresh) (snd fresh) uid False [] [] [])) (\<lambda>created.
       case created of
         None \<Rightarrow> raise (dv_fail 500 ''server_error'' ''Failed to create session'')
       | Some session \<Rightarrow>
           bindA (\<lambda>w. (Inr (), w\<lparr>sw_new_session := Some (session, Some user)\<rparr>)) (\<lambda>_.
           bindA (liftR (bindR (dindex session ''expiresAt'') (\<lambda>x.
                    case x of VDate t \<Rightarrow> Inr t | _ \<Rightarrow> Inl TypeError))) (\<lambda>expires_at.
           bindA (liftR (dindex session ''token'')) (\<lambda>token.
           let left = expires_at - now ev
           in ret (with_no_store (reply
                [(''access_token'', token), (''token_type'', VStr ''Bearer''),
                 (''expires_in'', VInt (sgn left * (\<bar>left\<bar> div 1000000))),
                 (''scope'', py_or (dget claimed ''scope'') (VStr []))]))))))) "

definition dv_authorize_token ::
    "device_plugin \<Rightarrow> string \<Rightarrow> row \<Rightarrow> (clause \<times> unit) result" where
  "dv_authorize_token dv client_id r =
     (if py_truthy (dget r ''clientId'') \<and> \<not> py_eq (dget r ''clientId'') (VStr client_id)
      then Inl (dv_fail 400 ''invalid_grant'' ''Client ID mismatch'')
      else bindR (case dv_grant dv of Some g \<Rightarrow> gr_assert g r | None \<Rightarrow> Inr ()) (\<lambda>_.
             Inr (Where ''clientId'' (VStr client_id), ())))"

definition dv_device_token ::
    "site \<Rightarrow> device_plugin \<Rightarrow> env \<Rightarrow> request \<Rightarrow> body \<Rightarrow> ids \<Rightarrow> (sworld, response) action" where
  "dv_device_token es dv ev rq b fresh =
     bindA (liftR (dv_request_body rq b)) (\<lambda>(d, _).
       case (dget d ''device_code'', dget d ''client_id'') of
         (VStr device_code, VStr client_id) \<Rightarrow>
           if dget d ''grant_type'' \<noteq> VStr GRANT_TYPE
           then raise (dv_fail 400 ''invalid_request'' ''Invalid device token request'')
           else
             bindA (liftR (case dv_validate_client dv of Some f \<Rightarrow> f (VStr client_id) | None \<Rightarrow> Inr True)) (\<lambda>valid.
               if \<not> valid then raise (dv_fail 400 ''invalid_grant'' ''Invalid client ID'')
               else
                 bindA (redeem_device_code es ev device_code (dv_authorize_token dv client_id) (\<lambda>_ _. ret ()))
                   (\<lambda>(claimed, _, _, user). dv_token_answer es ev fresh claimed user))
       | _ \<Rightarrow> raise (dv_fail 400 ''invalid_request'' ''Invalid device token request''))"

text \<open>The code of a request, not expired; \<open>field\<close> names where it comes from.\<close>

definition dv_live_code :: "site \<Rightarrow> env \<Rightarrow> string \<Rightarrow> (sworld, row) action" where
  "dv_live_code es ev user_code =
     bindA (find_device_code_by_user_code es user_code) (\<lambda>found.
       case found of
         None \<Rightarrow> raise (dv_fail 400 ''invalid_request'' ''Invalid user code'')
       | Some r \<Rightarrow>
           bindA (liftR (bindR (dindex r ''expiresAt'') (\<lambda>x. py_lt x (VDate (now ev))))) (\<lambda>expired.
             if expired then raise (dv_fail 400 ''expired_token'' ''User code has expired'') else ret r))"

text \<open>The signed-in user claims a pending code that has no user yet; the row as the answer sees it.\<close>

definition dv_claim :: "site \<Rightarrow> env \<Rightarrow> row \<Rightarrow> pyval \<Rightarrow> (sworld, row) action" where
  "dv_claim es ev r uid =
     bindA (liftR (dindex r ''status'')) (\<lambda>status.
       if py_truthy uid \<and> \<not> py_truthy (dget r ''userId'') \<and> status = VStr ''pending'' then
         bindA (liftR (dindex r ''id'')) (\<lambda>rid.
         bindA (on_rows (mem_increment_one (store_ad es) ev ''deviceCode''
                  [Where ''id'' rid, Where ''status'' (VStr ''pending''), Where ''userId'' VNone] None
                  (Some [(''userId'', uid)]))) (\<lambda>claimed.
           ret (if claimed = None then r else dset ''userId'' uid r)))
       else ret r)"

definition dv_show :: "string \<Rightarrow> row \<Rightarrow> row \<Rightarrow> row" where
  "dv_show name r shown =
     (if dget r name = VNone then ddrop name shown else dset name (dget r name) shown)"

definition dv_verify_answer :: "device_plugin \<Rightarrow> row \<Rightarrow> string \<Rightarrow> bool \<Rightarrow> response result" where
  "dv_verify_answer dv r user_code owner =
     bindR (case dv_grant dv of
              Some g \<Rightarrow> if owner then bindR (gr_context g r) (\<lambda>c. Inr (case c of Some d \<Rightarrow> d | None \<Rightarrow> [])) else Inr []
            | None \<Rightarrow> Inr []) (\<lambda>front.
     bindR (dindex r ''status'') (\<lambda>status.
       let base = dmerge front [(''user_code'', VStr user_code), (''status'', status)];
           shown = (if owner
             then dv_show ''scope'' r
                    (if dget r ''clientId'' = VNone then ddrop ''client_id'' base
                     else dset ''client_id'' (dget r ''clientId'') base)
             else base)
       in Inr (reply shown)))"

definition dv_device_verify ::
    "site \<Rightarrow> device_plugin \<Rightarrow> env \<Rightarrow> request \<Rightarrow> (sworld, response) action" where
  "dv_device_verify es dv ev rq =
     (case map_of (rq_query rq) ''user_code'' of
        Some (c # cs) \<Rightarrow>
          bindA (dv_live_code es ev (c # cs)) (\<lambda>r.
          bindA (load_session es ev rq) (\<lambda>session.
          bindA (liftR (case session of Some v \<Rightarrow> dindex (va_user v) ''id'' | None \<Rightarrow> Inr VNone)) (\<lambda>uid.
          bindA (if py_truthy uid then dv_claim es ev r uid else ret r) (\<lambda>r'.
            liftR (dv_verify_answer dv r' (c # cs) (uid \<noteq> VNone \<and> py_eq (dget r' ''userId'') uid))))))
      | _ \<Rightarrow> raise (dv_fail 400 ''invalid_request'' ([CHR 0x27] @ ''user_code'' @ [CHR 0x27] @ '' is required'')))"

text \<open>Whether the user may settle the code.\<close>

definition dv_may_resolve :: "string \<Rightarrow> row \<Rightarrow> pyval \<Rightarrow> unit result" where
  "dv_may_resolve verb r uid =
     bindR (dindex r ''status'') (\<lambda>status.
       if status \<noteq> VStr ''pending'' then Inl (dv_fail 400 ''invalid_request'' ''Device code already processed'')
       else if \<not> py_truthy (dget r ''userId'') then
         Inl (dv_fail 400 ''invalid_request''
           ''Device code has not been claimed by a verifying session; call `GET /device` with the `user_code` while signed in before approving or denying'')
       else if \<not> py_eq (dget r ''userId'') uid then
         Inl (dv_fail 403 ''access_denied'' (''You are not authorized to '' @ verb @ '' this device authorization''))
       else Inr ())"

definition dv_resolve ::
    "site \<Rightarrow> env \<Rightarrow> request \<Rightarrow> body \<Rightarrow> string \<Rightarrow> string \<Rightarrow> (sworld, response) action" where
  "dv_resolve es ev rq b new_status verb =
     bindA (load_session es ev rq) (\<lambda>session.
       case session of
         None \<Rightarrow> raise (dv_fail 401 ''unauthorized'' ''Authentication required'')
       | Some v \<Rightarrow>
           bindA (liftR (dv_request_body rq b)) (\<lambda>(d, _).
             case dget d ''userCode'' of
               VStr (c # cs) \<Rightarrow>
                 bindA (dv_live_code es ev (c # cs)) (\<lambda>r.
                 bindA (liftR (dindex (va_user v) ''id'')) (\<lambda>uid.
                 bindA (liftR (dv_may_resolve verb r uid)) (\<lambda>_.
                 bindA (liftR (dindex r ''id'')) (\<lambda>rid.
                 bindA (on_rows (mem_update (store_ad es) ev ''deviceCode'' [Where ''id'' rid]
                          [(''status'', VStr new_status), (''userId'', uid)])) (\<lambda>_.
                   ret (reply [(''success'', VBool True)]))))))
             | _ \<Rightarrow> raise (dv_fail 400 ''invalid_request'' ([CHR 0x27] @ ''userCode'' @ [CHR 0x27] @ '' is required''))))"

definition route_device_code ::
    "site \<Rightarrow> device_plugin \<Rightarrow> env \<Rightarrow> request \<Rightarrow> body \<Rightarrow> device_draws \<Rightarrow> (sworld, response) action" where
  "route_device_code es dv ev rq b dd = handles_errors True (dv_device_code es dv ev rq b dd)"

definition route_device_token ::
    "site \<Rightarrow> device_plugin \<Rightarrow> env \<Rightarrow> request \<Rightarrow> body \<Rightarrow> ids \<Rightarrow> (sworld, response) action" where
  "route_device_token es dv ev rq b fresh = handles_errors True (dv_device_token es dv ev rq b fresh)"

definition route_device_verify :: "site \<Rightarrow> device_plugin \<Rightarrow> env \<Rightarrow> request \<Rightarrow> (sworld, response) action" where
  "route_device_verify es dv ev rq = handles_errors False (dv_device_verify es dv ev rq)"

definition route_device_approve :: "site \<Rightarrow> env \<Rightarrow> request \<Rightarrow> body \<Rightarrow> (sworld, response) action" where
  "route_device_approve es ev rq b = handles_errors False (dv_resolve es ev rq b ''approved'' ''approve'')"

definition route_device_deny :: "site \<Rightarrow> env \<Rightarrow> request \<Rightarrow> body \<Rightarrow> (sworld, response) action" where
  "route_device_deny es ev rq b = handles_errors False (dv_resolve es ev rq b ''denied'' ''deny'')"

end
