(* ===== verification/Device_Claims.thy ===== *)
theory Device_Claims
  imports Session_Frames Device_Authorization
begin

text \<open>
  The device grant: a code is redeemed at most once, and only for a user who approved it from a session of
  his own, whatever requests come in between.
\<close>

section \<open>The table of codes\<close>

abbreviation codes :: "sworld \<Rightarrow> row list" where
  "codes w \<equiv> table w ''deviceCode''"

definition device_store :: "site \<Rightarrow> sworld \<Rightarrow> bool" where
  "device_store es w \<longleftrightarrow>
     native (store_ad es) \<and> ad_generate_id (store_ad es) = GenDefault \<and>
     map_of (ad_schema (store_ad es)) ''deviceCode'' = Some ((''id'', id_field) # DEVICE_FIELDS) \<and>
     str_ids (codes w)"

lemma device_input:
  assumes "device_store es w"
  shows "transform_input (store_ad es) ev ''deviceCode'' d ''update'' = Inr d"
    "\<not> has_key d ''id'' \<Longrightarrow>
      transform_input (store_ad es) ev ''deviceCode'' d ''create'' = Inr (dset ''id'' (VStr (rnd_id ev)) d)"
proof -
  have "transform_fields ev (ad_codec (store_ad es)) all_caps ''update'' ((''id'', id_field) # DEVICE_FIELDS) d = Inr d"
    by (rule transform_fields_update_same) (auto simp: DEVICE_FIELDS_def mk_field_def id_field_def)
  with assms show "transform_input (store_ad es) ev ''deviceCode'' d ''update'' = Inr d"
    by (simp add: device_store_def transform_input_def native_def)
  have "transform_fields ev (ad_codec (store_ad es)) all_caps ''create'' ((''id'', id_field) # DEVICE_FIELDS) e = Inr e" for e
    by (rule transform_fields_create_same)
      (auto simp: DEVICE_FIELDS_def mk_field_def id_field_def has_default_def split: option.splits)
  with assms show "transform_input (store_ad es) ev ''deviceCode'' d ''create'' = Inr (dset ''id'' (VStr (rnd_id ev)) d)"
    if "\<not> has_key d ''id''"
    using that by (simp add: device_store_def transform_input_def native_def resolve_generated_id_def)
qed

lemma wheres:
  "safe (map (\<lambda>(f, v). Where f v) fvs) rs"
  "sel (map (\<lambda>(f, v). Where f v) fvs) = (\<lambda>r. list_all (\<lambda>(f, v). is_field r f v) fvs)"
  by (simp_all add: safe_def sel_def matches_fields fun_eq_iff)

text \<open>The guarded assignment of the columns \<open>sv\<close>, which all the writes of the plugin to an existing row are.\<close>

lemma device_assign_step:
  assumes "device_store es w" "sv \<noteq> []"
  shows "bindA (on_rows (mem_increment_one (store_ad es) ev ''deviceCode'' (map (\<lambda>(f, v). Where f v) fvs) None (Some sv))) f w =
    f (map_option (\<lambda>r. dmerge r sv) (List.find (\<lambda>r. list_all (\<lambda>(f, v). is_field r f v) fvs) (codes w)))
      (with_rows ''deviceCode'' (map_first (\<lambda>r. list_all (\<lambda>(f, v). is_field r f v) fvs) (\<lambda>r. dmerge r sv) (codes w)) w)"
proof -
  have native: "native (store_ad es)" using assms(1) by (simp add: device_store_def)
  have check: "check_increment None (Some sv) = Inr []" using assms(2) by (simp add: check_increment_def)
  have row: "incremented_row [] (Some sv) = (\<lambda>r. dmerge r sv)"
    by (simp add: fun_eq_iff incremented_row_def)
  from mem_increment_one_ok[OF native wheres(1) check, of "Some sv" ev "''deviceCode''" fvs "iw_db (sw_int w)"]
    device_input(1)[OF assms(1)] show ?thesis
    by (simp add: bindA_def on_rows_def on_core_def on_db_def with_rows_def table_def row wheres(2))
qed

section \<open>Who approved what\<close>

text \<open>The codes that can be redeemed, each with the user it would sign in.\<close>

definition approved_pairs :: "row list \<Rightarrow> (pyval \<times> pyval) set" where
  "approved_pairs rs = (\<lambda>r. (dget r ''id'', dget r ''userId'')) ` {r \<in> set rs. dget r ''status'' = VStr ''approved''}"

definition approvals_in :: "site \<Rightarrow> (pyval \<times> pyval) set \<Rightarrow> sworld \<Rightarrow> bool" where
  "approvals_in es A w \<longleftrightarrow> device_store es w \<and> approved_pairs (codes w) \<subseteq> A"

definition no_approval :: "site \<Rightarrow> (pyval \<times> pyval) set \<Rightarrow> sworld \<Rightarrow> sworld \<Rightarrow> bool" where
  "no_approval es A w w' \<longleftrightarrow> (approvals_in es A w \<longrightarrow> approvals_in es A w')"

interpretation unapproved: frame "no_approval es A" for es A
  by unfold_locales (auto simp: no_approval_def)

lemma no_approval_same: "same_site_table ''deviceCode'' w w' \<Longrightarrow> no_approval es A w w'"
  using same_site_tableD[of "''deviceCode''" w w'] by (auto simp: no_approval_def approvals_in_def device_store_def)

lemma unapproved_same: "keeps (same_site_table ''deviceCode'') act \<Longrightarrow> keeps (no_approval es A) act"
  by (auto simp: keeps_def intro: no_approval_same)

lemma approved_pairs_filter: "set rs' \<subseteq> set rs \<Longrightarrow> approved_pairs rs' \<subseteq> approved_pairs rs"
  by (auto simp: approved_pairs_def)

lemma str_ids_drop_first: "str_ids rs \<Longrightarrow> str_ids (drop_first P rs)"
proof (induction rs)
  case (Cons r rs)
  have "set (drop_first P rs) \<subseteq> set rs" by (induction rs) auto
  with Cons show ?case by (auto simp: str_ids_def row_ids_def)
qed simp

lemma set_drop_first: "set (drop_first P rs) \<subseteq> set rs"
  by (induction rs) auto

lemma str_ids_by_ids: "str_ids rs \<longleftrightarrow> distinct (row_ids rs) \<and> list_all is_str (row_ids rs)"
  by (simp add: str_ids_def row_ids_def list.pred_map comp_def)

lemma unapproved_drop:
  assumes "set (codes w') \<subseteq> set (codes w)" "str_ids (codes w) \<Longrightarrow> str_ids (codes w')"
  shows "no_approval es A w w'"
  using approved_pairs_filter[OF assms(1)] assms(2) by (auto simp: no_approval_def approvals_in_def device_store_def)

text \<open>An assignment that changes neither the status nor the user, or one to rows that are pending.\<close>

lemma unapproved_assign:
  assumes "codes w' = map_first P (\<lambda>r. dmerge r sv) (codes w)"
    and "dget sv ''id'' = VNone" "\<And>r. dget (dmerge r sv) ''id'' = dget r ''id''"
    and "\<And>r. dget (dmerge r sv) ''status'' = VStr ''approved'' \<Longrightarrow> P r \<Longrightarrow>
      dget r ''status'' = VStr ''approved'' \<and> dget (dmerge r sv) ''userId'' = dget r ''userId''"
  shows "no_approval es A w w'"
proof -
  have "approved_pairs (codes w') \<subseteq> approved_pairs (codes w)"
  proof
    fix p
    assume "p \<in> approved_pairs (codes w')"
    then obtain y where y: "y \<in> set (codes w')" "dget y ''status'' = VStr ''approved''" "p = (dget y ''id'', dget y ''userId'')"
      by (auto simp: approved_pairs_def)
    from set_map_firstD[OF y(1)[unfolded assms(1)]] show "p \<in> approved_pairs (codes w)"
      using y(2,3) assms(3,4) by (auto simp: approved_pairs_def)
  qed
  moreover have "row_ids (codes w') = row_ids (codes w)"
    unfolding row_ids_def assms(1) by (rule map_map_first) (rule assms(3))
  then have "str_ids (codes w') = str_ids (codes w)"
    by (simp only: str_ids_by_ids)
  ultimately show ?thesis by (auto simp: no_approval_def approvals_in_def device_store_def)
qed

section \<open>The steps of the handlers\<close>

lemma unapproved_step:
  assumes "\<And>w. \<exists>w1. act w = (fst (act w), w1) \<and> no_approval es A w w1"
  shows "keeps (no_approval es A) act"
  using assms unfolding keeps_def by (metis snd_conv)

lemma native_codes: "approvals_in es A w \<Longrightarrow> native (store_ad es)"
  by (simp add: approvals_in_def device_store_def)

lemma unapproved_assign_keeps:
  assumes "sv \<noteq> []" "dget sv ''id'' = VNone" "\<And>r. dget (dmerge r sv) ''id'' = dget r ''id''"
    and "\<And>r. dget (dmerge r sv) ''status'' = VStr ''approved'' \<Longrightarrow> list_all (\<lambda>(f, v). is_field r f v) fvs \<Longrightarrow>
      dget r ''status'' = VStr ''approved'' \<and> dget (dmerge r sv) ''userId'' = dget r ''userId''"
  shows "keeps (no_approval es A)
    (on_rows (mem_increment_one (store_ad es) ev ''deviceCode'' (map (\<lambda>(f, v). Where f v) fvs) None (Some sv)))"
  unfolding keeps_def
proof
  fix w
  let ?act = "on_rows (mem_increment_one (store_ad es) ev ''deviceCode'' (map (\<lambda>(f, v). Where f v) fvs) None (Some sv))"
  let ?P = "\<lambda>r. list_all (\<lambda>(f, v). is_field r f v) fvs"
  show "no_approval es A w (snd (?act w))"
  proof (cases "device_store es w")
    case True
    have "bindA ?act (\<lambda>x. ret x) w = ?act w" by (auto simp: bindA_def split: prod.split sum.split)
    with device_assign_step[OF True assms(1), of ev fvs ret]
    have "codes (snd (?act w)) = map_first ?P (\<lambda>r. dmerge r sv) (codes w)" by simp
    from unapproved_assign[OF this assms(2,3)] assms(4) show ?thesis by blast
  qed (simp add: no_approval_def approvals_in_def)
qed

lemma unapproved_delete: "keeps (no_approval es A) (on_rows (mem_delete ''deviceCode'' [Where f v]))"
  unfolding keeps_def
proof
  fix w
  have "mem_delete ''deviceCode'' [Where f v] (iw_db (sw_int w)) =
      (Inr (), set_rows ''deviceCode'' (drop_first (sel [Where f v]) (codes w)) (iw_db (sw_int w)))"
    by (simp add: mem_delete_safe table_def)
  then have "codes (snd (on_rows (mem_delete ''deviceCode'' [Where f v]) w)) = drop_first (sel [Where f v]) (codes w)"
    by (simp add: on_rows_def on_core_def on_db_def table_def)
  then show "no_approval es A w (snd (on_rows (mem_delete ''deviceCode'' [Where f v]) w))"
    by (intro unapproved_drop) (simp_all add: set_drop_first str_ids_drop_first)
qed

lemma delete_first_sub:
  "set (snd (delete_first wh rs)) \<subseteq> set rs \<and> (str_ids rs \<longrightarrow> str_ids (snd (delete_first wh rs)))"
proof (induction rs)
  case (Cons r rs)
  obtain res rs' where d: "delete_first wh rs = (res, rs')" by fastforce
  from Cons d show ?case
    by (cases "matches r wh") (auto simp: str_ids_def row_ids_def split: bool.split)
qed simp

lemma unapproved_consume: "keeps (no_approval es A) (on_rows (mem_consume_one (store_ad es) ''deviceCode'' wh))"
  unfolding keeps_def
proof
  fix w
  have "codes (snd (on_rows (mem_consume_one (store_ad es) ''deviceCode'' wh) w)) = snd (delete_first wh (codes w))"
    by (simp add: mem_consume_one_def on_rows_def on_core_def on_db_def table_def split: prod.split)
  with delete_first_sub[of wh "codes w"] show
    "no_approval es A w (snd (on_rows (mem_consume_one (store_ad es) ''deviceCode'' wh) w))"
    by (intro unapproved_drop) simp_all
qed

lemmas unapproved_frame = keeps_cases unapproved.keeps_ret unapproved.keeps_Pair unapproved.keeps_raise unapproved.keeps_liftR
  unapproved.keeps_bindA unapproved.keeps_catchA unapproved_delete

lemma unapproved_find: "keeps (no_approval es A) (on_rows (mem_find_one ad m wh select))"
  by (intro unapproved_same keeps_on_rows keeps_reads)

lemma keeps_pyval_pair:
  assumes "\<And>s t. keeps R (f s t)" "keeps R g"
  shows "keeps R (case p of (VStr s, VStr t) \<Rightarrow> f s t | _ \<Rightarrow> g)"
  using assms by (auto split: prod.split pyval.split)

lemma unapproved_token: "keeps (no_approval es A) (dv_device_token es dv ev rq b fresh)"
proof -
  have poll: "keeps (no_approval es A) (on_rows (mem_increment_one (store_ad es) ev ''deviceCode''
      [Where ''id'' rid, Where ''lastPolledAt'' v] None (Some [(''lastPolledAt'', x)])))" for rid v x
    using unapproved_assign_keeps[of "[(''lastPolledAt'', x)]" "[(''id'', rid), (''lastPolledAt'', v)]" es A ev]
    by (simp add: dget_def)
  have judge: "keeps (no_approval es A) (judge_status es ev r rid)" for r rid
    unfolding judge_status_def drop_code_def by (intro unapproved_frame)
  have answer: "keeps (no_approval es A) (dv_token_answer es ev fresh c u)" for c u
    unfolding dv_token_answer_def Let_def
    by (intro unapproved_same site_frame keeps_create_session keeps_outside) simp_all
  show ?thesis
    unfolding dv_device_token_def redeem_device_code_def claim_code_def
    by (intro unapproved_frame unapproved_find unapproved_consume poll judge answer keeps_pyval_pair)
qed

lemma unapproved_lookup: "keeps (no_approval es A) (find_device_code_by_user_code es c)"
  unfolding find_device_code_by_user_code_def code_with_def Let_def
  by (intro unapproved_frame unapproved_find)

lemma unapproved_live: "keeps (no_approval es A) (dv_live_code es ev c)"
  unfolding dv_live_code_def by (intro unapproved_frame unapproved_lookup)

lemma unapproved_load_session: "keeps (no_approval es A) (load_session es ev rq)"
  by (intro unapproved_same keeps_load_session) simp

lemma unapproved_verify: "keeps (no_approval es A) (dv_device_verify es dv ev rq)"
proof -
  have claim: "keeps (no_approval es A) (on_rows (mem_increment_one (store_ad es) ev ''deviceCode''
      [Where ''id'' rid, Where ''status'' (VStr ''pending''), Where ''userId'' VNone] None (Some [(''userId'', uid)])))" for rid uid
    using unapproved_assign_keeps[of "[(''userId'', uid)]"
        "[(''id'', rid), (''status'', VStr ''pending''), (''userId'', VNone)]" es A ev]
    by (simp add: dget_def)
  show ?thesis
    unfolding dv_device_verify_def dv_claim_def
    by (intro unapproved_frame unapproved_live unapproved_load_session claim)
qed

text \<open>Looking a code up changes nothing.\<close>

lemma lookup_pure:
  assumes "native (store_ad es)"
  shows "\<exists>found. find_device_code_by_user_code es c w = (Inr found, w) \<and> (\<forall>r. found = Some r \<longrightarrow> r \<in> set (codes w))"
proof -
  have one: "code_with es v w =
      (Inr (case real_row (List.find (\<lambda>r. is_field r ''userCode'' (VStr v)) (codes w)) of
         Some r \<Rightarrow> if py_eq (dget r ''userCode'') (VStr v) then Some r else None
       | None \<Rightarrow> None), w)" for v
    by (simp add: code_with_def find_row_step[OF assms] sel_field1)
  have "r \<in> set (codes w)" if "fst (code_with es v w) = Inr (Some r)" for v r
    using that find_Some_in[of "\<lambda>r. is_field r ''userCode'' (VStr v)" "codes w"]
    by (auto simp: one real_row_def split: option.splits list.splits if_splits)
  then show ?thesis
    by (auto simp: find_device_code_by_user_code_def bindA_def one Let_def split: option.splits)
qed

text \<open>The user of the session and the code that a request to settle a code means.\<close>

definition settles :: "site \<Rightarrow> env \<Rightarrow> request \<Rightarrow> body \<Rightarrow> sworld \<Rightarrow> pyval \<Rightarrow> pyval \<Rightarrow> bool" where
  "settles es ev rq b w rid uid \<longleftrightarrow>
     (\<exists>v w0 d pairs c r. load_session es ev rq w = (Inr (Some v), w0) \<and> dv_request_body rq b = Inr (d, pairs) \<and>
        dget d ''userCode'' = VStr c \<and> find_device_code_by_user_code es c w0 = (Inr (Some r), w0) \<and>
        dget r ''id'' = rid \<and> dget (va_user v) ''id'' = uid \<and> py_eq (dget r ''userId'') uid)"

lemma load_session_codes:
  assumes "device_store es w" "load_session es ev rq w = (res, w')"
  shows "device_store es w' \<and> codes w' = codes w"
  using keepsD[OF keeps_load_session assms(2), of "''deviceCode''"] same_site_tableD[of "''deviceCode''" w w'] assms(1)
  by (simp add: device_store_def)

lemma resolve_cases:
  assumes "device_store es w" "dv_resolve es ev rq b new_status verb w = (res, w')"
  shows "codes w' = codes w \<or>
    (\<exists>rid uid. settles es ev rq b w rid uid \<and>
       codes w' = map_first (\<lambda>q. is_field q ''id'' rid)
         (\<lambda>q. dmerge q [(''status'', VStr new_status), (''userId'', uid)]) (codes w))"
proof -
  obtain found w0 where load: "load_session es ev rq w = (found, w0)" by fastforce
  note w0 = load_session_codes[OF assms(1) load]
  have native: "native (store_ad es)" using assms(1) by (simp add: device_store_def)
  show ?thesis
  proof (cases "\<exists>v. found = Inr (Some v)")
    case False
    with assms(2) load have "w' = w0"
      by (auto simp: dv_resolve_def bindA_def split: sum.splits option.splits)
    with w0 show ?thesis by simp
  next
    case True
    then obtain v where v: "found = Inr (Some v)" by blast
    show ?thesis
    proof (cases "\<exists>d pairs a cs. dv_request_body rq b = Inr (d, pairs) \<and> dget d ''userCode'' = VStr (a # cs)")
      case False
      with assms(2) load v have "w' = w0"
        by (auto simp: dv_resolve_def bindA_def liftR_def split: sum.splits pyval.splits list.splits)
      with w0 show ?thesis by simp
    next
      case True
      then obtain d pairs a cs where d: "dv_request_body rq b = Inr (d, pairs)" "dget d ''userCode'' = VStr (a # cs)" by blast
      from lookup_pure[OF native, of "a # cs" w0] obtain code where
        code: "find_device_code_by_user_code es (a # cs) w0 = (Inr code, w0)" by blast
      let ?rest = "\<lambda>r. bindA (liftR (dindex (va_user v) ''id'')) (\<lambda>uid.
          bindA (liftR (dv_may_resolve verb r uid)) (\<lambda>_.
          bindA (liftR (dindex r ''id'')) (\<lambda>rid.
          bindA (on_rows (mem_update (store_ad es) ev ''deviceCode'' [Where ''id'' rid]
                   [(''status'', VStr new_status), (''userId'', uid)])) (\<lambda>_.
            ret (reply [(''success'', VBool True)])))))"
      have run: "bindA (dv_live_code es ev (a # cs)) ?rest w0 = (res, w')"
        using assms(2) load v d by (simp add: dv_resolve_def bindA_def liftR_def)
      have "w' = w0 \<or> (\<exists>r uid rid. code = Some r \<and> dindex (va_user v) ''id'' = Inr uid \<and> dv_may_resolve verb r uid = Inr () \<and>
          dindex r ''id'' = Inr rid \<and> codes w' = map_first (\<lambda>q. is_field q ''id'' rid)
            (\<lambda>q. dmerge q [(''status'', VStr new_status), (''userId'', uid)]) (codes w0))"
      proof (cases "\<exists>r. dv_live_code es ev (a # cs) w0 = (Inr r, w0)")
        case False
        with run code show ?thesis
          by (auto simp: dv_live_code_def bindA_def liftR_def split: option.splits sum.splits if_splits)
      next
        case True
        then obtain r where r: "dv_live_code es ev (a # cs) w0 = (Inr r, w0)" by blast
        with code have "code = Some r"
          by (auto simp: dv_live_code_def bindA_def liftR_def split: option.splits sum.splits if_splits)
        with run r show ?thesis
          by (auto simp: bindA_def[of "dv_live_code es ev (a # cs)"] sel_field1
              on_update_step[OF native _ safe_fields(1) device_input(1)[OF conjunct1[OF w0]]]
              liftR_def bindA_def[of "liftR _"] split: sum.splits)
      qed
      then show ?thesis
      proof
        assume "\<exists>r uid rid. code = Some r \<and> dindex (va_user v) ''id'' = Inr uid \<and> dv_may_resolve verb r uid = Inr () \<and>
          dindex r ''id'' = Inr rid \<and> codes w' = map_first (\<lambda>q. is_field q ''id'' rid)
            (\<lambda>q. dmerge q [(''status'', VStr new_status), (''userId'', uid)]) (codes w0)"
        then obtain r uid rid where r: "code = Some r" "dindex (va_user v) ''id'' = Inr uid" "dv_may_resolve verb r uid = Inr ()"
            "dindex r ''id'' = Inr rid" and c: "codes w' = map_first (\<lambda>q. is_field q ''id'' rid)
            (\<lambda>q. dmerge q [(''status'', VStr new_status), (''userId'', uid)]) (codes w0)" by blast
        have "py_eq (dget r ''userId'') uid"
          using r(3) by (auto simp: dv_may_resolve_def bindR_Inr_iff split: if_splits)
        then have "settles es ev rq b w rid uid"
          unfolding settles_def using load v d code r dindex_value[OF r(2)] dindex_value[OF r(4)] by blast
        with c w0 show ?thesis by auto
      qed (use w0 in simp)
    qed
  qed
qed

text \<open>Issuing a code stores one more pending row, provided the id it draws is new.\<close>

definition issues :: "site \<Rightarrow> env \<Rightarrow> (pyval \<times> pyval) set \<Rightarrow> sworld \<Rightarrow> sworld \<Rightarrow> bool" where
  "issues es ev A w w' \<longleftrightarrow>
     (approvals_in es A w \<and> VStr (rnd_id ev) \<notin> set (row_ids (codes w)) \<longrightarrow> approvals_in es A w')"

lemma issues_ret: "keeps (issues es ev A) (ret a)" and issues_raise: "keeps (issues es ev A) (raise e)"
  by (simp_all add: keeps_def issues_def)

lemma issues_lift: "(\<And>a. keeps (issues es ev A) (f a)) \<Longrightarrow> keeps (issues es ev A) (bindA (liftR r) f)"
  by (cases r) (simp_all add: keeps_def issues_def)

lemma issues_prefix:
  assumes "\<And>w. codes (snd (act w)) = codes w" "\<And>a. keeps (issues es ev A) (f a)"
  shows "keeps (issues es ev A) (bindA act f)"
  unfolding keeps_def
proof
  fix w
  have same: "issues es ev A (snd (act w)) w1 \<Longrightarrow> issues es ev A w w1" "issues es ev A w (snd (act w))" for w1
    using assms(1)[of w] by (auto simp: issues_def approvals_in_def device_store_def)
  show "issues es ev A w (snd (bindA act f w))"
  proof (cases "act w")
    case (Pair x w1)
    with same assms(2) show ?thesis by (cases x) (auto simp: bindA_def keeps_def)
  qed
qed

lemma issues_suffix:
  assumes "keeps (issues es ev A) act" "\<And>a. keeps (no_approval es A) (f a)"
  shows "keeps (issues es ev A) (bindA act f)"
  unfolding keeps_def
proof
  fix w
  have *: "issues es ev A w (snd (act w))" using assms(1) by (simp add: keeps_def)
  show "issues es ev A w (snd (bindA act f w))"
  proof (cases "act w")
    case (Pair x w1)
    with * assms(2) show ?thesis
      by (cases x) (auto simp: bindA_def keeps_def issues_def no_approval_def)
  qed
qed

lemma issues_create:
  assumes "\<not> has_key d ''id''" "dget d ''status'' = VStr ''pending''"
  shows "keeps (issues es ev A) (on_rows (mem_create (store_ad es) ev ''deviceCode'' d []))"
  unfolding keeps_def
proof
  fix w
  let ?new = "dset ''id'' (VStr (rnd_id ev)) d"
  have "approvals_in es A (snd (on_rows (mem_create (store_ad es) ev ''deviceCode'' d []) w))"
    if a: "approvals_in es A w" "VStr (rnd_id ev) \<notin> set (row_ids (codes w))"
  proof -
    have st: "device_store es w" using a(1) by (simp add: approvals_in_def)
    then have "native (store_ad es)" by (simp add: device_store_def)
    from mem_create_ok[OF this device_input(2)[OF st assms(1)]]
    have c: "codes (snd (on_rows (mem_create (store_ad es) ev ''deviceCode'' d []) w)) = codes w @ [?new]"
      by (simp add: on_rows_def on_core_def on_db_def table_def)
    have "dget ?new ''id'' = VStr (rnd_id ev)" "dget ?new ''status'' = VStr ''pending''" using assms(2) by simp_all
    with a st show ?thesis
      by (auto simp: approvals_in_def device_store_def c str_ids_def row_ids_def is_str_def approved_pairs_def)
  qed
  then show "issues es ev A w (snd (on_rows (mem_create (store_ad es) ev ''deviceCode'' d []) w))" by (simp add: issues_def)
qed

lemma code_row_pending:
  "dget (dv_code_row ev d client_id [] e i dc uc) ''status'' = VStr ''pending''"
  "\<not> has_key (dv_code_row ev d client_id [] e i dc uc) ''id''"
  by (simp_all add: dv_code_row_def has_key_def dset_def dget_def)

lemma create_never_fails:
  assumes "device_store es w" "\<not> has_key d ''id''"
  shows "\<exists>r w1. on_rows (mem_create (store_ad es) ev ''deviceCode'' d []) w = (Inr r, w1)"
proof -
  have "native (store_ad es)" using assms(1) by (simp add: device_store_def)
  from mem_create_ok[OF this device_input(2)[OF assms]] show ?thesis
    by (simp add: on_rows_def on_core_def on_db_def split: prod.split)
qed

lemma issues_store:
  "keeps (issues es ev A) (dv_store_code es dv ev dd (dv_code_row ev d client_id [] e i) n (Suc left))"
  unfolding keeps_def
proof
  fix w
  let ?run = "dv_store_code es dv ev dd (dv_code_row ev d client_id [] e i) n (Suc left)"
  show "issues es ev A w (snd (?run w))"
  proof (cases "device_store es w")
    case True
    show ?thesis
    proof (cases "dv_new_code (dv_generate_device dv) (dd_device dd) ''device'' n")
      case (Inr dc)
      note dc = Inr
      show ?thesis
      proof (cases "dv_new_code (dv_generate_user dv) (dd_user dd) ''user'' n")
        case (Inr uc)
        let ?d = "dv_code_row ev d client_id [] e i dc uc"
        from create_never_fails[OF True code_row_pending(2)] obtain r w1 where
          c: "on_rows (mem_create (store_ad es) ev ''deviceCode'' ?d []) w = (Inr r, w1)" by blast
        then have "snd (?run w) = w1" by (simp add: dc Inr bindA_def catchA_def)
        moreover have "issues es ev A w w1" using issues_create[OF code_row_pending(2,1)] c by (metis keepsD)
        ultimately show ?thesis by simp
      qed (simp add: dc issues_def)
    qed (simp add: issues_def)
  qed (simp add: issues_def approvals_in_def)
qed

lemma issues_device_code:
  assumes "dv_grant dv = None"
  shows "keeps (issues es ev A) (dv_device_code es dv ev rq b dd)"
proof -
  have notify: "codes (snd (notify x y w)) = codes w" for x y w by (simp add: notify_def table_def)
  have columns: "dv_authorize_client dv d = Inr (c, cols) \<Longrightarrow> cols = []" for d c cols
    using assms by (auto simp: dv_authorize_client_def Let_def bindR_Inr_iff split: if_splits)
  have rest: "keeps (issues es ev A)
      (bindA (case dv_on_request dv of None \<Rightarrow> ret ()
         | Some f \<Rightarrow> notify (PluginCall ''on_device_auth_request'' [c, dget d ''scope'']) (f c (dget d ''scope''))) (\<lambda>_.
       bindA (liftR (parse_time_ms (dv_expires_in dv))) (\<lambda>lifetime_ms.
       bindA (liftR (parse_time_ms (dv_interval dv))) (\<lambda>interval_ms.
       bindA (dv_store_code es dv ev dd (dv_code_row ev d c [] lifetime_ms interval_ms) 0 MAX_GENERATION_ATTEMPTS)
         (\<lambda>(device_code, user_code).
       bindA (liftR (build_verification_uris es (dv_verification_uri dv) user_code)) (\<lambda>(uri, uri_complete).
         ret (with_no_store (reply
           [(''device_code'', VStr device_code), (''user_code'', VStr user_code), (''verification_uri'', VStr uri),
            (''verification_uri_complete'', VStr uri_complete), (''expires_in'', VInt (lifetime_ms div 1000)),
            (''interval'', VInt (interval_ms div 1000))]))))))))" for c d
    unfolding MAX_GENERATION_ATTEMPTS_def numeral_3_eq_3
    by (intro issues_prefix issues_lift issues_suffix issues_store unapproved_frame)
      (simp split: option.split add: notify)
  have split: "keeps (issues es ev A) (bindA (liftR (dv_authorize_client dv d)) f)"
    if "\<And>c. keeps (issues es ev A) (f (c, []))" for d and f :: "pyval \<times> row \<Rightarrow> (sworld, response) action"
    using that columns[of d] by (cases "dv_authorize_client dv d") (auto simp: keeps_def issues_def)
  show ?thesis
    unfolding dv_device_code_def Let_def
    by (rule issues_lift, rule keeps_prod, rule keeps_if, rule issues_raise, rule issues_lift, rule split,
        simp only: prod.case, rule rest)
qed

section \<open>Requests in any order\<close>

text \<open>
  The requests of any number of devices and users, each run as a whole, and the set of the approvals given:
  the code and the user of every successful call of the approve route. What other parts of the server do
  leaves the table of codes alone.
\<close>

inductive device_step ::
    "site \<Rightarrow> device_plugin \<Rightarrow> sworld \<times> (pyval \<times> pyval) set \<Rightarrow> sworld \<times> (pyval \<times> pyval) set \<Rightarrow> bool" for es dv where
  issued: "VStr (rnd_id ev) \<notin> set (row_ids (codes w)) \<Longrightarrow> dv_device_code es dv ev rq b dd w = (res, w') \<Longrightarrow>
    device_step es dv (w, A) (w', A)"
| shown: "dv_device_verify es dv ev rq w = (res, w') \<Longrightarrow> device_step es dv (w, A) (w', A)"
| approved: "dv_resolve es ev rq b ''approved'' ''approve'' w = (res, w') \<Longrightarrow>
    device_step es dv (w, A) (w', A \<union> {(rid, uid) | rid uid. settles es ev rq b w rid uid})"
| denied: "dv_resolve es ev rq b ''denied'' ''deny'' w = (res, w') \<Longrightarrow> device_step es dv (w, A) (w', A)"
| polled: "dv_device_token es dv ev rq b fresh w = (res, w') \<Longrightarrow> device_step es dv (w, A) (w', A)"
| meanwhile: "codes w' = codes w \<Longrightarrow> device_step es dv (w, A) (w', A)"

lemma approved_pairs_settled:
  assumes "str_ids rs"
  shows "approved_pairs (map_first (\<lambda>q. is_field q ''id'' rid) (\<lambda>q. dmerge q [(''status'', s), (''userId'', uid)]) rs) \<subseteq>
    approved_pairs rs \<union> (if s = VStr ''approved'' then {(rid, uid)} else {})" (is "approved_pairs ?rs' \<subseteq> _")
proof
  fix p
  assume "p \<in> approved_pairs ?rs'"
  then obtain y where y: "y \<in> set ?rs'" "dget y ''status'' = VStr ''approved''" "p = (dget y ''id'', dget y ''userId'')"
    by (auto simp: approved_pairs_def)
  from set_map_firstD[OF y(1)] consider "y \<in> set rs" | q where "q \<in> set rs" "is_field q ''id'' rid"
      "y = dmerge q [(''status'', s), (''userId'', uid)]" by blast
  then show "p \<in> approved_pairs rs \<union> (if s = VStr ''approved'' then {(rid, uid)} else {})"
  proof cases
    case 1
    with y show ?thesis by (auto simp: approved_pairs_def)
  next
    case (2 q)
    from assms 2(1) obtain i where i: "dget q ''id'' = VStr i" by (auto simp: str_ids_def list_all_iff is_str_iff)
    with 2(2) have "rid = VStr i" by (cases rid) (auto simp: is_field_def split: if_splits)
    with y(2,3) 2(3) i show ?thesis by auto
  qed
qed

lemma str_ids_settled:
  "str_ids (map_first P (\<lambda>q. dset ''userId'' uid (dset ''status'' s q)) rs) = str_ids rs"
proof -
  have "row_ids (map_first P (\<lambda>q. dset ''userId'' uid (dset ''status'' s q)) rs) = row_ids rs"
    unfolding row_ids_def by (rule map_map_first) simp
  then show ?thesis by (simp only: str_ids_by_ids)
qed

lemma device_step_approvals:
  assumes "device_step es dv b b'" "dv_grant dv = None" "approvals_in es (snd b) (fst b)"
  shows "approvals_in es (snd b') (fst b')"
  using assms
proof (induction rule: device_step.induct)
  case (issued ev w rq b dd res w' A)
  then show ?case using keepsD[OF issues_device_code[OF assms(2)] issued.hyps(2)] by (simp add: issues_def)
next
  case (shown ev rq w res w' A)
  then show ?case using keepsD[OF unapproved_verify shown.hyps(1)] by (simp add: no_approval_def)
next
  case (approved ev rq b w res w' A)
  then have st: "device_store es w" "approved_pairs (codes w) \<subseteq> A" by (simp_all add: approvals_in_def)
  from resolve_cases[OF st(1) approved.hyps(1)] show ?case
  proof
    assume "\<exists>rid uid. settles es ev rq b w rid uid \<and> codes w' = map_first (\<lambda>q. is_field q ''id'' rid)
        (\<lambda>q. dmerge q [(''status'', VStr ''approved''), (''userId'', uid)]) (codes w)"
    then obtain rid uid where r: "settles es ev rq b w rid uid" "codes w' = map_first (\<lambda>q. is_field q ''id'' rid)
        (\<lambda>q. dmerge q [(''status'', VStr ''approved''), (''userId'', uid)]) (codes w)" by blast
    have "str_ids (codes w)" using st(1) by (simp add: device_store_def)
    from approved_pairs_settled[OF this, of rid "VStr ''approved''" uid] r st show ?case
      by (auto simp: approvals_in_def device_store_def str_ids_settled)
  qed (use st in \<open>auto simp: approvals_in_def device_store_def\<close>)
next
  case (denied ev rq b w res w' A)
  then have st: "device_store es w" "approved_pairs (codes w) \<subseteq> A" by (simp_all add: approvals_in_def)
  from resolve_cases[OF st(1) denied.hyps(1)] show ?case
  proof
    assume "\<exists>rid uid. settles es ev rq b w rid uid \<and> codes w' = map_first (\<lambda>q. is_field q ''id'' rid)
        (\<lambda>q. dmerge q [(''status'', VStr ''denied''), (''userId'', uid)]) (codes w)"
    then obtain rid uid where r: "codes w' = map_first (\<lambda>q. is_field q ''id'' rid)
        (\<lambda>q. dmerge q [(''status'', VStr ''denied''), (''userId'', uid)]) (codes w)" by blast
    have "str_ids (codes w)" using st(1) by (simp add: device_store_def)
    from approved_pairs_settled[OF this, of rid "VStr ''denied''" uid] r st show ?case
      by (auto simp: approvals_in_def device_store_def str_ids_settled)
  qed (use st in \<open>auto simp: approvals_in_def device_store_def\<close>)
next
  case (polled ev rq b fresh w res w' A)
  then show ?case using keepsD[OF unapproved_token polled.hyps(1)] by (simp add: no_approval_def)
next
  case (meanwhile w' w A)
  then show ?case by (simp add: approvals_in_def device_store_def)
qed

lemma device_run_approvals:
  assumes "(device_step es dv)\<^sup>*\<^sup>* b b'" "dv_grant dv = None" "approvals_in es (snd b) (fst b)"
  shows "approvals_in es (snd b') (fst b')"
  using assms by (induction rule: rtranclp_induct) (auto intro: device_step_approvals)

section \<open>Redeeming a code\<close>

lemma device_consume_step:
  assumes "native (store_ad es)"
  shows "bindA (on_rows (mem_consume_one (store_ad es) ''deviceCode'' (map (\<lambda>(f, v). Where f v) fvs))) f w =
    f (List.find (\<lambda>r. list_all (\<lambda>(f, v). is_field r f v) fvs) (codes w))
      (with_rows ''deviceCode'' (drop_first (\<lambda>r. list_all (\<lambda>(f, v). is_field r f v) fvs) (codes w)) w)"
  by (simp add: bindA_def on_rows_def on_core_def on_db_def with_rows_def table_def wheres
      mem_consume_one_safe[OF assms wheres(1)])

text \<open>The claim of a code, once the user of the code is read.\<close>

definition claimable :: "string \<Rightarrow> string \<Rightarrow> pyval \<Rightarrow> row \<Rightarrow> bool" where
  "claimable i f v r \<longleftrightarrow>
     is_field r ''id'' (VStr i) \<and> is_field r f v \<and> is_field r ''status'' (VStr ''approved'')"

lemma claim_code_step:
  assumes "native (store_ad es)"
  shows "claim_code es r (VStr i) (Where f v) w =
    (case dindex r ''userId'' of
       Inl e \<Rightarrow> (Inl e, w)
     | Inr uid \<Rightarrow>
         (case List.find (\<lambda>q. is_field q ''id'' uid) (table w ''user'') of
            None \<Rightarrow> raise (dv_fail 500 ''server_error'' ''User not found'') w
          | Some u \<Rightarrow>
              (case List.find (claimable i f v) (codes w) of
                 None \<Rightarrow> raise invalid_grant
               | Some c \<Rightarrow> if py_truthy (dget c ''userId'') then ret (c, u) else raise invalid_grant)
                (with_rows ''deviceCode'' (drop_first (claimable i f v) (codes w)) w)))"
proof -
  have "claimable i f v =
      (\<lambda>r. list_all (\<lambda>(f, v). is_field r f v) [(''id'', VStr i), (f, v), (''status'', VStr ''approved'')])"
    by (simp add: fun_eq_iff claimable_def)
  then show ?thesis
    by (simp add: claim_code_def find_row_step[OF assms] sel_field1 split: sum.split option.split
        add: device_consume_step[OF assms, where fvs = "[(''id'', VStr i), (f, v), (''status'', VStr ''approved'')]", simplified])
qed

text \<open>A code that is gone cannot be claimed, by whichever poll read it before.\<close>

lemma claim_gone:
  assumes "native (store_ad es)" "\<forall>r\<in>set (codes w). dget r ''id'' \<noteq> VStr i"
  shows "\<exists>e w'. claim_code es r (VStr i) (Where f v) w = (Inl e, w')"
proof -
  have "List.find (claimable i f v) (codes w) = None"
    using assms(2) by (auto simp: find_None_all claimable_def is_field_def)
  then show ?thesis
    by (simp add: claim_code_step[OF assms(1)] raise_def split: sum.split option.split)
qed

lemma claim_code_Inr:
  assumes "native (store_ad es)" "claim_code es r (VStr i) (Where f v) w = (Inr (c, u), w')"
  shows "List.find (\<lambda>q. is_field q ''id'' (dget r ''userId'')) (table w ''user'') = Some u"
    "List.find (claimable i f v) (codes w) = Some c"
    "codes w' = drop_first (claimable i f v) (codes w)"
  using assms(2) dindex_value[of r "''userId''"]
  by (auto simp: claim_code_step[OF assms(1)] raise_def ret_def split: sum.splits option.splits if_splits)

lemma judge_status_Inr:
  assumes "judge_status es ev r rid w = (Inr (), w')"
  shows "w' = w" "dget r ''status'' = VStr ''approved''" "py_truthy (dget r ''userId'')"
    "py_lt (dget r ''expiresAt'') (VDate (now ev)) = Inr False"
  using assms dindex_value[of r "''status''"] dindex_value[of r "''expiresAt''"]
  by (auto simp: judge_status_def drop_code_def bindA_def liftR_def bindR_Inr_iff raise_def ret_def
      split: sum.splits prod.splits if_splits)

lemma drop_first_one_id:
  assumes "str_ids rs" "List.find (claimable i f v) rs = Some c"
  shows "drop_first (claimable i f v) rs = filter (\<lambda>q. dget q ''id'' \<noteq> VStr i) rs"
  using assms
proof (induction rs)
  case (Cons q rs)
  show ?case
  proof (cases "claimable i f v q")
    case True
    then have "dget q ''id'' = VStr i"
      using Cons.prems(1) by (auto simp: claimable_def is_field_def str_ids_def is_str_iff split: if_splits)
    moreover from this Cons.prems(1) have "filter (\<lambda>q. dget q ''id'' \<noteq> VStr i) rs = rs"
      unfolding filter_id_conv by (auto simp: str_ids_def row_ids_def) (metis image_eqI)
    ultimately show ?thesis using True by simp
  next
    case False
    with Cons.prems find_Some_in[of "claimable i f v" rs c] have c: "c \<in> set rs" "claimable i f v c" by auto
    then have "dget c ''id'' = VStr i"
      using Cons.prems(1) by (auto simp: claimable_def is_field_def str_ids_def is_str_iff list_all_iff split: if_splits)
    with c(1) Cons.prems(1) have "dget q ''id'' \<noteq> VStr i" by (auto simp: str_ids_def row_ids_def rev_image_eqI)
    moreover have "str_ids rs" using Cons.prems(1) by (simp add: str_ids_def row_ids_def)
    ultimately show ?thesis using Cons False by simp
  qed
qed simp

text \<open>The row that a successful poll redeems.\<close>

definition redeemable :: "env \<Rightarrow> string \<Rightarrow> row \<Rightarrow> bool" where
  "redeemable ev client_id r \<longleftrightarrow>
     dget r ''status'' = VStr ''approved'' \<and> py_truthy (dget r ''userId'') \<and>
     is_field r ''clientId'' (VStr client_id) \<and> py_lt (dget r ''expiresAt'') (VDate (now ev)) = Inr False \<and>
     polls_too_soon ev r = Inr False"

text \<open>What a successful redemption went through.\<close>

lemma redeem_steps:
  assumes st: "device_store es w"
    and run: "redeem_device_code es ev code (dv_authorize_token dv client_id) (\<lambda>_ _. ret ()) w = (Inr (claimed, c, p, user), w')"
  obtains r i w1 where "r \<in> set (codes w)" "dget r ''deviceCode'' = VStr code" "dget r ''id'' = VStr i"
    "polls_too_soon ev r = Inr False"
    "codes w1 = map_first (\<lambda>q. is_field q ''id'' (VStr i) \<and> is_field q ''lastPolledAt'' (dget r ''lastPolledAt''))
       (\<lambda>q. dset ''lastPolledAt'' (VDate (now ev)) q) (codes w)"
    "table w1 ''user'' = table w ''user''"
    "judge_status es ev r (VStr i) w1 = (Inr (), w1)"
    "claim_code es r (VStr i) (Where ''clientId'' (VStr client_id)) w1 = (Inr (claimed, user), w')"
proof -
  have native: "native (store_ad es)" and ids: "str_ids (codes w)" using st by (simp_all add: device_store_def)
  let ?authorize = "dv_authorize_token dv client_id"
  from run obtain r where found: "List.find (\<lambda>q. dget q ''deviceCode'' = VStr code) (codes w) = Some r"
    by (auto simp: redeem_device_code_def find_row_step[OF native] sel_field1 raise_def split: option.splits)
  from find_Some_in[OF found] have r: "r \<in> set (codes w)" "dget r ''deviceCode'' = VStr code"
    by (auto simp: is_field_def split: if_splits)
  from ids r(1) obtain i where i: "dget r ''id'' = VStr i" by (auto simp: str_ids_def list_all_iff is_str_iff)
  then have rid: "dindex r ''id'' = Inr (VStr i)" by (rule dindex_dget) simp
  let ?poll = "[(''id'', VStr i), (''lastPolledAt'', dget r ''lastPolledAt'')]" and ?set = "[(''lastPolledAt'', VDate (now ev))]"
  let ?P = "\<lambda>q. list_all (\<lambda>(f, v). is_field q f v) ?poll"
  define w1 where "w1 = with_rows ''deviceCode'' (map_first ?P (\<lambda>q. dmerge q ?set) (codes w)) w"
  note step = device_assign_step[OF st, of ?set ev ?poll, folded w1_def, simplified]
  from run obtain own where own: "?authorize r = Inr (own, ())"
    by (cases "?authorize r") (auto simp: redeem_device_code_def find_row_step[OF native] sel_field1 found raise_def)
  then have own_eq: "own = Where ''clientId'' (VStr client_id)"
    by (auto simp: dv_authorize_token_def bindR_Inr_iff split: if_splits)
  from run have soon: "polls_too_soon ev r = Inr False"
    by (cases "polls_too_soon ev r")
      (auto simp: redeem_device_code_def find_row_step[OF native] sel_field1 found own raise_def split: if_splits)
  from run obtain w2 where judged: "judge_status es ev r (VStr i) w1 = (Inr (), w2)"
    and claim: "claim_code es r (VStr i) own w2 = (Inr (claimed, user), w')"
    by (auto simp: redeem_device_code_def find_row_step[OF native] sel_field1 found own soon rid step raise_def ret_def
        split: if_splits elim!: bindA_InrE)
  have "table w1 ''user'' = table w ''user''" by (simp add: w1_def)
  moreover have "codes w1 = map_first (\<lambda>q. is_field q ''id'' (VStr i) \<and> is_field q ''lastPolledAt'' (dget r ''lastPolledAt''))
       (\<lambda>q. dset ''lastPolledAt'' (VDate (now ev)) q) (codes w)"
    by (simp add: w1_def)
  ultimately show ?thesis
    using that[OF r i soon] judged claim judge_status_Inr(1)[OF judged] own_eq by simp
qed

lemma redeem_ok:
  assumes st: "device_store es w"
    and run: "redeem_device_code es ev code (dv_authorize_token dv client_id) (\<lambda>_ _. ret ()) w = (Inr (claimed, c, p, user), w')"
  shows "\<exists>r i. r \<in> set (codes w) \<and> dget r ''deviceCode'' = VStr code \<and> dget r ''id'' = VStr i \<and> redeemable ev client_id r \<and>
    user \<in> set (table w ''user'') \<and> is_field user ''id'' (dget r ''userId'') \<and>
    codes w' = filter (\<lambda>q. dget q ''id'' \<noteq> VStr i) (codes w)"
proof -
  have native: "native (store_ad es)" and ids: "str_ids (codes w)" using st by (simp_all add: device_store_def)
  from redeem_steps[OF st run] obtain r i w1 where
    r: "r \<in> set (codes w)" "dget r ''deviceCode'' = VStr code" "dget r ''id'' = VStr i" and soon: "polls_too_soon ev r = Inr False"
    and w1: "codes w1 = map_first (\<lambda>q. is_field q ''id'' (VStr i) \<and> is_field q ''lastPolledAt'' (dget r ''lastPolledAt''))
       (\<lambda>q. dset ''lastPolledAt'' (VDate (now ev)) q) (codes w)" (is "_ = map_first ?P ?f _")
    and users: "table w1 ''user'' = table w ''user''"
    and judged: "judge_status es ev r (VStr i) w1 = (Inr (), w1)"
    and claim: "claim_code es r (VStr i) (Where ''clientId'' (VStr client_id)) w1 = (Inr (claimed, user), w')" by blast
  note claimed = claim_code_Inr[OF native claim]
  have "row_ids (codes w1) = row_ids (codes w)"
    unfolding row_ids_def w1 by (rule map_map_first) simp
  then have ids1: "str_ids (codes w1)" using ids by (simp only: str_ids_by_ids)
  have "filter (\<lambda>q. dget q ''id'' \<noteq> VStr i) (codes w1) = filter (\<lambda>q. dget q ''id'' \<noteq> VStr i) (codes w)"
    unfolding w1 by (rule filter_map_first) (auto simp: is_field_def split: if_splits)
  with claimed(3) drop_first_one_id[OF ids1 claimed(2)] have
    gone: "codes w' = filter (\<lambda>q. dget q ''id'' \<noteq> VStr i) (codes w)" by simp
  from find_Some_in[OF claimed(2)] have c: "claimed \<in> set (codes w1)"
    "is_field claimed ''id'' (VStr i)" "is_field claimed ''clientId'' (VStr client_id)"
    by (auto simp: claimable_def)
  from set_map_firstD[OF c(1)[unfolded w1]] obtain q where q: "q \<in> set (codes w)" "claimed = q \<or> claimed = ?f q" by blast
  with c have "dget q ''id'' = VStr i" "is_field q ''clientId'' (VStr client_id)"
    by (auto simp: is_field_def split: if_splits)
  then have "is_field r ''clientId'' (VStr client_id)"
    using inj_onD[of "\<lambda>r. dget r ''id''" "set (codes w)" q r] ids q(1) r(1,3)
    by (auto simp: str_ids_def row_ids_def distinct_map)
  with judge_status_Inr[OF judged] soon have "redeemable ev client_id r" by (simp add: redeemable_def)
  with r gone find_Some_in[OF claimed(1)] users show ?thesis by auto
qed

section \<open>A session needs an approval, and uses it up\<close>

lemma keeps_token_answer: "keeps (same_site_table ''deviceCode'') (dv_token_answer es ev fresh c u)"
  unfolding dv_token_answer_def Let_def
  by (intro site_frame keeps_create_session keeps_outside) simp_all

text \<open>The row of a session opened without hooks names the user it was opened for.\<close>

definition opened_row :: "env \<Rightarrow> int \<Rightarrow> string \<Rightarrow> string \<Rightarrow> string \<Rightarrow> string \<Rightarrow> row" where
  "opened_row ev x uid tok ip ua = [(''ipAddress'', VStr ip), (''userAgent'', VStr ua), (''expiresAt'', VDate x),
     (''userId'', VStr uid), (''token'', VStr tok), (''createdAt'', VDate (now ev)), (''updatedAt'', VDate (now ev))]"

lemma opened_columns:
  "list_all (\<lambda>(k, f).
    case map_of (opened_row ev x uid tok ip ua @ rest) k of
       None \<Rightarrow> \<not> has_default f
     | Some v \<Rightarrow> (v = VNone \<longrightarrow> \<not> (f_required f \<and> has_default f)) \<and> f_transform_input f = None)
    (tl (fields_of CORE_SCHEMA ''session''))"
  by (simp add: fields_of_def CORE_SCHEMA_def opened_row_def mk_field_def id_field_def created_at_field_def
      updated_at_field_def has_default_def)

lemma opened_input:
  assumes "native ad" "map_of (ad_schema ad) ''session'' = map_of CORE_SCHEMA ''session''"
  shows "\<exists>r. transform_input ad ev ''session'' (opened_row ev x uid tok ip ua) ''create'' = Inr r \<and> dget r ''userId'' = VStr uid"
proof -
  let ?d = "opened_row ev x uid tok ip ua" and ?fs = "fields_of CORE_SCHEMA ''session''"
  have fs: "map_of CORE_SCHEMA ''session'' = Some ?fs" "?fs = (''id'', id_field) # tl ?fs"
    by (simp_all add: fields_of_def CORE_SCHEMA_def)
  have same: "transform_fields ev (ad_codec ad) all_caps ''create'' ?fs (?d @ rest) = Inr (?d @ rest)" for rest
  proof -
    have "transform_fields ev (ad_codec ad) all_caps ''create'' (tl ?fs) (?d @ rest) = Inr (?d @ rest)"
      by (rule transform_fields_create_same)
        (drule opened_columns[unfolded list_all_iff, THEN bspec], simp only: prod.case)
    then show ?thesis by (subst fs(2)) simp
  qed
  have add: "dset ''id'' i ?d = ?d @ [(''id'', i)]" for i by (simp add: opened_row_def dset_Cons)
  have "has_key ?d ''id'' = False" by (simp add: opened_row_def has_key_def)
  with same[of "[]"] same assms fs(1) show ?thesis
    by (cases "resolve_generated_id ev ''session'' (ad_generate_id ad)")
      (simp_all add: transform_input_def native_def add, simp_all add: opened_row_def dget_Cons)
qed

lemma created_session_owner:
  assumes "plain_sessions (es_auth es)"
    and "create_session (core es) ev new_id tok uid False [] ip ua w = (Inr (Some session), w')"
  shows "dget session ''userId'' = VStr uid \<and> (\<not> ic_secondary (core es) \<longrightarrow> session \<in> set (rows_of (iw_db w') ''session''))"
proof -
  have ad: "native (store_ad es)" "ic_hooks (core es) = []"
    "map_of (ad_schema (store_ad es)) ''session'' = map_of CORE_SCHEMA ''session''"
    using assms(1) by (simp_all add: plain_sessions_def)
  let ?d = "opened_row ev (now ev + ic_session_expires_in (core es) * 1000000) uid tok ip ua"
  obtain r where r: "transform_input (store_ad es) ev ''session'' ?d ''create'' = Inr r" "dget r ''userId'' = VStr uid"
    using opened_input[OF ad(1,3)] by blast
  have d: "dmerge (dmerge ([(''ipAddress'', VStr ip), (''userAgent'', VStr ua)]) (ddrop ''id'' []))
      [(''expiresAt'', VDate (now ev + ic_session_expires_in (core es) * 1000000)), (''userId'', VStr uid),
       (''token'', VStr tok), (''createdAt'', VDate (now ev)), (''updatedAt'', VDate (now ev))] = ?d"
    by (simp add: opened_row_def dset_Cons ddrop_def)
  have created: "mem_create (store_ad es) ev ''session'' ?d [] st = (Inr r, set_rows ''session'' (rows_of st ''session'' @ [r]) st)" for st
    by (rule mem_create_ok[OF ad(1) r(1)])
  show ?thesis
  proof (cases "ic_secondary (core es)")
    case False
    with assms(2) ad(2) r(2) created show ?thesis
      by (simp add: create_session_def int_create_def Let_def bindA_def d on_db_def del: dmerge.simps)
        (auto simp: rows_of_set_rows)
  next
    case True
    then show ?thesis using assms(2) ad(2) r(2) created
      by (cases "ic_store_session_in_database (core es)")
        (auto simp: create_session_def int_create_def Let_def bindA_def d on_db_def dget_dmerge
          simp del: dmerge.simps split: prod.splits sum.splits)
  qed
qed

lemma token_answer_session:
  assumes "plain_sessions (es_auth es)" "dv_token_answer es ev fresh claimed user w = (Inr rs, w')"
  shows "\<exists>session uid. sw_new_session w' = Some (session, Some user) \<and> dget user ''id'' = VStr uid \<and>
    dget session ''userId'' = VStr uid \<and> (\<not> ic_secondary (core es) \<longrightarrow> session \<in> set (table w' ''session''))"
proof -
  from assms(2) obtain uid session w1 where
      uid: "dindex user ''id'' = Inr (VStr uid)"
    and made: "on_core (create_session (core es) ev (fst fresh) (snd fresh) uid False [] [] []) w = (Inr (Some session), w1)"
    and w': "w' = w1\<lparr>sw_new_session := Some (session, Some user)\<rparr>"
    by (auto simp: dv_token_answer_def Let_def liftR_def ret_def raise_def bindR_Inr_iff str_arg_def
        split: option.splits sum.splits if_splits pyval.splits elim!: bindA_InrE)
  from made obtain wi where "create_session (core es) ev (fst fresh) (snd fresh) uid False [] [] [] (sw_int w) = (Inr (Some session), wi)"
      "w1 = w\<lparr>sw_int := wi\<rparr>"
    by (auto simp: on_core_def split: prod.splits)
  from created_session_owner[OF assms(1) this(1)] this(2) w' dindex_value[OF uid] show ?thesis
    by (intro exI[of _ session] exI[of _ uid]) (simp add: table_def)
qed

lemma token_steps:
  assumes "dv_device_token es dv ev rq b fresh w = (Inr rs, w')"
  obtains code client_id claimed c p user w1 where
    "redeem_device_code es ev code (dv_authorize_token dv client_id) (\<lambda>_ _. ret ()) w = (Inr (claimed, c, p, user), w1)"
    "dv_token_answer es ev fresh claimed user w1 = (Inr rs, w')"
proof -
  from assms obtain d pairs where d: "dv_request_body rq b = Inr (d, pairs)"
    by (auto simp: dv_device_token_def elim!: bind_liftE)
  show ?thesis
    using assms d that
    by (auto simp: dv_device_token_def raise_def liftR_def split: pyval.splits prod.splits if_splits option.splits
        elim!: bind_liftE bindA_InrE)
qed

text \<open>
  C39: Whatever devices and users request in whatever order, the token route of a server without extension
  grants opens a session only for a code that was approved: some user called the approve route with that
  code, signed in, while the code was recorded as that user's (it had been shown to the user, or
  \<open>/device/code\<close> had been called with the user's id). Without database hooks on sessions, the session is
  that user's: its \<open>userId\<close> is the user who approved, and without a secondary storage it is a row of the
  session table. The code is gone afterwards: a poll that read it before cannot claim it any more.
\<close>

theorem device_code_needs_approval:
  fixes w0 w w' :: sworld
  assumes grant: "dv_grant dv = None" and plain: "plain_sessions (es_auth es)"
    and start: "device_store es w0" "approved_pairs (codes w0) = {}"
    and run: "(device_step es dv)\<^sup>*\<^sup>* (w0, {}) (w, A)"
    and token: "dv_device_token es dv ev rq b fresh w = (Inr rs, w')"
  shows "\<exists>i uid session user. (VStr i, uid) \<in> A \<and>
    user \<in> set (table w ''user'') \<and> dget user ''id'' = uid \<and> sw_new_session w' = Some (session, Some user) \<and>
    dget session ''userId'' = uid \<and> (\<not> ic_secondary (core es) \<longrightarrow> session \<in> set (table w' ''session'')) \<and>
    codes w' = filter (\<lambda>q. dget q ''id'' \<noteq> VStr i) (codes w) \<and>
    (\<forall>r client_id w2. codes w2 = codes w' \<longrightarrow>
       (\<exists>e w3. claim_code es r (VStr i) (Where ''clientId'' (VStr client_id)) w2 = (Inl e, w3)))"
proof -
  have "approvals_in es A w"
    using device_run_approvals[OF run grant] start by (simp add: approvals_in_def)
  then have st: "device_store es w" and approved: "approved_pairs (codes w) \<subseteq> A" by (simp_all add: approvals_in_def)
  then have native: "native (store_ad es)" by (simp add: device_store_def)
  from token_steps[OF token] obtain code client_id claimed c p user w1 where
    redeem: "redeem_device_code es ev code (dv_authorize_token dv client_id) (\<lambda>_ _. ret ()) w = (Inr (claimed, c, p, user), w1)"
    and answer: "dv_token_answer es ev fresh claimed user w1 = (Inr rs, w')" by blast
  from redeem_ok[OF st redeem] obtain r i where r: "r \<in> set (codes w)" "dget r ''id'' = VStr i" "redeemable ev client_id r"
    and user: "user \<in> set (table w ''user'')" "is_field user ''id'' (dget r ''userId'')"
    and gone: "codes w1 = filter (\<lambda>q. dget q ''id'' \<noteq> VStr i) (codes w)" by blast
  have "(VStr i, dget r ''userId'') \<in> A"
    using approved r by (auto simp: approved_pairs_def redeemable_def intro: rev_image_eqI)
  moreover have "codes w' = codes w1"
    using same_site_tableD[OF keepsD[OF keeps_token_answer answer]] str_ids_filter[of "codes w"] gone st
    by (simp add: device_store_def)
  moreover from token_answer_session[OF plain answer] user(2) obtain session where
    "sw_new_session w' = Some (session, Some user)" "dget user ''id'' = dget r ''userId''"
    "dget session ''userId'' = dget r ''userId''" "\<not> ic_secondary (core es) \<longrightarrow> session \<in> set (table w' ''session'')"
    by (auto simp: is_field_def split: if_splits)
  moreover have "\<exists>e w3. claim_code es r' (VStr i) (Where ''clientId'' v) w2 = (Inl e, w3)" if "codes w2 = codes w'" for r' v w2
    using claim_gone[OF native, of w2 i] that gone \<open>codes w' = codes w1\<close> by simp
  ultimately show ?thesis
    using user gone by (intro exI[of _ i] exI[of _ "dget r ''userId''"] exI[of _ session] exI[of _ user]) auto
qed

definition demo_device :: device_plugin where
  "demo_device = \<lparr>dv_expires_in = ''30m'', dv_interval = ''5s'', dv_generate_device = None, dv_generate_user = None,
     dv_validate_client = None, dv_on_request = None, dv_verification_uri = None, dv_grant = None, dv_unique = (\<lambda>_. False)\<rparr>"

definition device_site :: site where
  "device_site = demo_site\<lparr>es_auth := demo_auth\<lparr>au_ic := (au_ic demo_auth)\<lparr>ic_ad := demo_adapter\<lparr>ad_schema :=
     (''deviceCode'', (''id'', id_field) # DEVICE_FIELDS) # CORE_SCHEMA\<rparr>\<rparr>\<rparr>\<rparr>"

text \<open>A code that was shown to Ann, and her requests.\<close>

definition shown_code :: row where
  "shown_code = [(''id'', VStr ''dc''), (''deviceCode'', VStr ''D''), (''userCode'', VStr ''ABCD''), (''userId'', VStr ''u''),
     (''expiresAt'', VDate 900000000), (''status'', VStr ''pending''), (''clientId'', VStr ''tv''), (''pollingInterval'', VInt 5000)]"

definition device_world :: sworld where
  "device_world = with_rows ''deviceCode'' [shown_code] demo_sworld"

abbreviation ann_approves :: "(sworld, response) action" where
  "ann_approves \<equiv> dv_resolve device_site (at_us 500) (token_request ''t'') (json_body [(''userCode'', VStr ''ABCD'')])
     ''approved'' ''approve''"

abbreviation tv_polls :: "(sworld, response) action" where
  "tv_polls \<equiv> dv_device_token device_site demo_device (at_us 700) no_token
     (json_body [(''grant_type'', VStr GRANT_TYPE), (''device_code'', VStr ''D''), (''client_id'', VStr ''tv'')]) (''i2'', ''tok2'')"

lemma tv_runs: "case fst (tv_polls (snd (ann_approves device_world))) of Inr _ \<Rightarrow> True | Inl _ \<Rightarrow> False"
  by code_simp

lemma device_demo: "device_store device_site device_world" "approved_pairs (codes device_world) = {}"
  by (simp_all add: device_store_def device_site_def device_world_def demo_site_def demo_auth_def demo_adapter_def native_def
      str_ids_def row_ids_def shown_code_def is_str_def approved_pairs_def dget_Cons)

theorem device_code_needs_approval_witness:
  "\<exists>i uid session user. settles device_site (at_us 500) (token_request ''t'') (json_body [(''userCode'', VStr ''ABCD'')])
       device_world (VStr i) uid \<and>
     user \<in> set (table (snd (ann_approves device_world)) ''user'') \<and> dget user ''id'' = uid \<and>
     sw_new_session (snd (tv_polls (snd (ann_approves device_world)))) = Some (session, Some user) \<and>
     dget session ''userId'' = uid"
proof -
  let ?w = "snd (ann_approves device_world)"
  obtain rs w' where polled: "tv_polls ?w = (Inr rs, w')" using tv_runs by (cases "tv_polls ?w") (auto split: sum.splits)
  have grant: "dv_grant demo_device = None" by (simp add: demo_device_def)
  have plain: "plain_sessions (es_auth device_site)"
    by (simp add: plain_sessions_def device_site_def demo_auth_def demo_adapter_def native_def)
  have "device_step device_site demo_device (device_world, {})
      (?w, {} \<union> {(rid, uid) | rid uid. settles device_site (at_us 500) (token_request ''t'')
         (json_body [(''userCode'', VStr ''ABCD'')]) device_world rid uid})"
    by (rule device_step.approved) (rule prod.collapse[symmetric])
  then have run: "(device_step device_site demo_device)\<^sup>*\<^sup>* (device_world, {}) (?w, {} \<union> {(rid, uid) | rid uid.
      settles device_site (at_us 500) (token_request ''t'') (json_body [(''userCode'', VStr ''ABCD'')]) device_world rid uid})"
    by (rule r_into_rtranclp)
  from device_code_needs_approval[OF grant plain device_demo run polled] polled show ?thesis by auto
qed

end
