(* ===== verification/Email_Otp.thy ===== *)
theory Email_Otp
  imports Plugin_Base
begin

text \<open>
  \<open>plugins_ext/email_otp.py\<close>: one-time codes sent by mail, for sign-in, address verification, password
  reset and the change of address. The cipher and the callbacks of the options are parameters; a call
  stores at most one verification value, one user, one account and one session, whose random values are
  those of the environment and of \<open>draws\<close>, and \<open>fresh\<close> is the random code. A generator that returns
  nothing is the empty text; a stored value and an address that are no text are refused with an error.
\<close>

section \<open>Options\<close>

record email_otp =
  eo_send :: "string \<Rightarrow> string \<Rightarrow> string \<Rightarrow> unit result"
  eo_expires_in :: int
  eo_generate :: "(string \<Rightarrow> string \<Rightarrow> string result) option"
  eo_on_sign_up :: bool
  eo_disable_sign_up :: bool
  eo_allowed :: int
  eo_store :: code_store
  eo_reuse :: bool
  eo_change_enabled :: bool
  eo_verify_current :: bool
  eo_override :: bool
  eo_before :: "(row \<Rightarrow> unit result) option"
  eo_after :: "(row \<Rightarrow> unit result) option"
  eo_ciphers :: ciphers

definition EO_TYPES :: "string list" where
  "EO_TYPES = [''email-verification'', ''sign-in'', ''forget-password'', ''change-email'']"

definition otp_expired :: exn where
  "otp_expired = api_error 400 ''OTP_EXPIRED'' ''OTP expired''"

definition invalid_otp :: exn where
  "invalid_otp = api_error 400 ''INVALID_OTP'' ''Invalid OTP''"

definition too_many_otp :: exn where
  "too_many_otp = api_error 403 ''TOO_MANY_ATTEMPTS'' ''Too many attempts''"

definition otp_user_not_found :: exn where
  "otp_user_not_found = api_error 400 ''USER_NOT_FOUND'' ''User not found''"

definition bad_request :: "string \<Rightarrow> exn" where
  "bad_request message = api_error 400 ''BAD_REQUEST'' message"

definition success_true :: response where
  "success_true = reply [(''success'', VBool True)]"

section \<open>Codes at rest\<close>

definition to_identifier :: "string \<Rightarrow> string \<Rightarrow> string" where
  "to_identifier otp_type email = otp_type @ ''-otp-'' @ email"

definition split_at_last_colon :: "string \<Rightarrow> string \<times> string" where
  "split_at_last_colon v =
     (case rpartition_at CHR '':'' v of (a, found, b) \<Rightarrow> if found then (a, b) else (v, []))"

text \<open>\<open>int(attempts)\<close> of the counter behind the colon, or nothing when there is none.\<close>

definition attempts_in :: "string \<Rightarrow> int option result" where
  "attempts_in s =
     (if s = [] then Inr None else case parse_int s of Some n \<Rightarrow> Inr (Some n) | None \<Rightarrow> Inl ValueError)"

text \<open>\<open>hmac.compare_digest\<close> of a text and a value of the body: both must be ASCII text.\<close>

definition is_ascii :: "string \<Rightarrow> bool" where
  "is_ascii s \<longleftrightarrow> list_all (\<lambda>c. (of_char c :: nat) < 128) s"

definition digest_equal :: "pyval \<Rightarrow> string \<Rightarrow> bool result" where
  "digest_equal v s =
     (case v of
        VStr t \<Rightarrow> if is_ascii t \<and> is_ascii s then Inr (t = s) else Inl TypeError
      | _ \<Rightarrow> Inl TypeError)"

definition verify_stored :: "email_otp \<Rightarrow> string \<Rightarrow> pyval \<Rightarrow> bool result" where
  "verify_stored eo stored provided =
     (case eo_store eo of
        StoreEncrypted \<Rightarrow> bindR (open_secret (eo_ciphers eo) (VStr stored)) (digest_equal provided)
      | StoreHashed \<Rightarrow>
          bindR (text_value provided) (\<lambda>p.
            digest_equal (VStr (default_key_hasher (cx_sha256 (eo_ciphers eo)) p)) stored)
      | StoreCustom (Some h) _ _ \<Rightarrow> bindR (h provided) (\<lambda>x. digest_equal (VStr x) stored)
      | StoreCustom None _ (Some d) \<Rightarrow> bindR (d stored) (digest_equal provided)
      | _ \<Rightarrow> digest_equal provided stored)"

text \<open>The code in the clear, when the storage lets it be recovered.\<close>

definition retrieve_otp :: "email_otp \<Rightarrow> string \<Rightarrow> string option result" where
  "retrieve_otp eo stored =
     (case eo_store eo of
        StorePlain \<Rightarrow> Inr (Some stored)
      | StoreEncrypted \<Rightarrow> bindR (open_secret (eo_ciphers eo) (VStr stored)) (\<lambda>p. Inr (Some p))
      | StoreCustom _ _ (Some d) \<Rightarrow> bindR (d stored) (\<lambda>p. Inr (Some p))
      | _ \<Rightarrow> Inr None)"

definition eo_new_code :: "email_otp \<Rightarrow> string \<Rightarrow> string \<Rightarrow> string \<Rightarrow> string result" where
  "eo_new_code eo fresh email otp_type =
     (case eo_generate eo of
        None \<Rightarrow> Inr fresh
      | Some g \<Rightarrow> bindR (g email otp_type) (\<lambda>s. Inr (if s = [] then fresh else s)))"

definition eo_expires_at :: "email_otp \<Rightarrow> env \<Rightarrow> pyval" where
  "eo_expires_at eo ev = VDate (now ev + eo_expires_in eo * 1000000)"

definition value_expired :: "env \<Rightarrow> row \<Rightarrow> bool result" where
  "value_expired ev r = bindR (dindex r ''expiresAt'') (\<lambda>x. py_lt x (VDate (now ev)))"

definition eo_create_value :: "site \<Rightarrow> email_otp \<Rightarrow> env \<Rightarrow> string \<Rightarrow> string \<Rightarrow> (sworld, unit) action" where
  "eo_create_value es eo ev identifier stored =
     bindA (on_core (create_verification_value (core es) ev
              [(''value'', VStr (stored @ '':0'')), (''identifier'', VStr identifier),
               (''expiresAt'', eo_expires_at eo ev)] False)) (\<lambda>_. ret ())"

definition store_new_code :: "site \<Rightarrow> email_otp \<Rightarrow> env \<Rightarrow> string \<Rightarrow> string \<Rightarrow> string \<Rightarrow> string \<Rightarrow> (sworld, string) action" where
  "store_new_code es eo ev fresh email otp_type identifier =
     bindA (liftR (eo_new_code eo fresh email otp_type)) (\<lambda>otp.
     bindA (liftR (store_code (eo_ciphers eo) (eo_store eo) otp)) (\<lambda>stored.
     bindA (eo_create_value es eo ev identifier stored) (\<lambda>_. ret otp)))"

text \<open>The code and the counter in a stored value.\<close>

definition code_and_attempts :: "row \<Rightarrow> (string \<times> int option) result" where
  "code_and_attempts r =
     bindR (bindR (dindex r ''value'') text_value) (\<lambda>v.
     let (stored, counter) = split_at_last_colon v
     in bindR (attempts_in counter) (\<lambda>n. Inr (stored, n)))"

definition try_reuse_otp :: "site \<Rightarrow> email_otp \<Rightarrow> env \<Rightarrow> string \<Rightarrow> (sworld, string option) action" where
  "try_reuse_otp es eo ev identifier =
     bindA (on_core (find_verification_value (core es) ev identifier)) (\<lambda>existing.
       case real_row existing of
         None \<Rightarrow> ret None
       | Some r \<Rightarrow>
           bindA (liftR (value_expired ev r)) (\<lambda>expired.
             if expired then ret None
             else
               bindA (liftR (code_and_attempts r)) (\<lambda>(stored, n).
                 if (case n of Some k \<Rightarrow> k \<ge> eo_allowed eo | None \<Rightarrow> False) then ret None
                 else
                   bindA (liftR (retrieve_otp eo stored)) (\<lambda>plain.
                     if plain = None \<or> plain = Some [] then ret None
                     else
                       bindA (on_core (update_verification_by_identifier (core es) ev identifier
                                [(''expiresAt'', eo_expires_at eo ev)])) (\<lambda>_. ret plain)))))"

definition resolve_otp :: "site \<Rightarrow> email_otp \<Rightarrow> env \<Rightarrow> string \<Rightarrow> string \<Rightarrow> string \<Rightarrow> (sworld, string) action" where
  "resolve_otp es eo ev fresh email otp_type =
     (let identifier = to_identifier otp_type email
      in bindA (if eo_reuse eo then try_reuse_otp es eo ev identifier else ret None) (\<lambda>reused.
           case reused of
             Some otp \<Rightarrow> ret otp
           | None \<Rightarrow> store_new_code es eo ev fresh email otp_type identifier))"

section \<open>Verifying a code\<close>

text \<open>Consumes the code of the identifier; a wrong one is stored again with its counter raised.\<close>

definition judge_code :: "site \<Rightarrow> email_otp \<Rightarrow> env \<Rightarrow> string \<Rightarrow> pyval \<Rightarrow> row \<Rightarrow> (sworld, unit) action" where
  "judge_code es eo ev identifier provided r =
     bindA (liftR (code_and_attempts r)) (\<lambda>(stored, n).
     let used = (case n of Some k \<Rightarrow> k | None \<Rightarrow> 0)
     in if used \<ge> eo_allowed eo then raise too_many_otp
        else
          bindA (liftR (verify_stored eo stored provided)) (\<lambda>ok.
            if ok then ret ()
            else
              bindA (liftR (dindex r ''expiresAt'')) (\<lambda>x.
              bindA (on_core (create_verification_value (core es) ev
                       [(''value'', VStr (stored @ '':'' @ int_str (used + 1))), (''identifier'', VStr identifier),
                        (''expiresAt'', x)] False)) (\<lambda>_.
                raise invalid_otp))))"

definition atomic_verify :: "site \<Rightarrow> email_otp \<Rightarrow> env \<Rightarrow> string \<Rightarrow> pyval \<Rightarrow> (sworld, unit) action" where
  "atomic_verify es eo ev identifier provided =
     bindA (on_core (find_verification_value (core es) ev identifier)) (\<lambda>existing.
     bindA (case real_row existing of None \<Rightarrow> ret False | Some r \<Rightarrow> liftR (value_expired ev r)) (\<lambda>expired.
       if expired then
         bindA (on_core (delete_verification_by_identifier (core es) identifier)) (\<lambda>_. raise otp_expired)
       else
         bindA (on_core (consume_verification_value (core es) ev identifier)) (\<lambda>consumed.
           case consumed of
             None \<Rightarrow> raise invalid_otp
           | Some r \<Rightarrow> judge_code es eo ev identifier provided r)))"

section \<open>Sending codes\<close>

definition eo_mail :: "email_otp \<Rightarrow> string \<Rightarrow> string \<Rightarrow> string \<Rightarrow> (sworld, unit) action" where
  "eo_mail eo email otp otp_type =
     notify (PluginCall ''send_verification_otp'' [VStr email, VStr otp, VStr otp_type]) (eo_send eo email otp otp_type)"

text \<open>An address that is not registered gets no mail, and its code is dropped.\<close>

definition send_verification_otp_impl ::
    "site \<Rightarrow> email_otp \<Rightarrow> env \<Rightarrow> string \<Rightarrow> string \<Rightarrow> string \<Rightarrow> (sworld, unit) action" where
  "send_verification_otp_impl es eo ev fresh email otp_type =
     bindA (resolve_otp es eo ev fresh email otp_type) (\<lambda>otp.
     bindA (find_user_by_email es (VStr email)) (\<lambda>user.
       if user = None \<and> \<not> (otp_type = ''sign-in'' \<and> \<not> eo_disable_sign_up eo) then
         on_core (delete_verification_by_identifier (core es) (to_identifier otp_type email))
       else eo_mail eo email otp otp_type))"

definition override_email_sender :: "site \<Rightarrow> email_otp \<Rightarrow> env \<Rightarrow> string \<Rightarrow> row \<Rightarrow> (sworld, unit) action" where
  "override_email_sender es eo ev fresh user =
     bindA (liftR (bindR (dindex user ''email'') lower_arg)) (\<lambda>email.
       send_verification_otp_impl es eo ev fresh email ''email-verification'')"

definition create_verification_otp ::
    "site \<Rightarrow> email_otp \<Rightarrow> env \<Rightarrow> string \<Rightarrow> string \<Rightarrow> string \<Rightarrow> (sworld, string) action" where
  "create_verification_otp es eo ev fresh email otp_type =
     (let e = str_lower email in store_new_code es eo ev fresh e otp_type (to_identifier otp_type e))"

definition get_verification_otp ::
    "site \<Rightarrow> email_otp \<Rightarrow> env \<Rightarrow> string \<Rightarrow> string \<Rightarrow> (sworld, string option) action" where
  "get_verification_otp es eo ev email otp_type =
     bindA (on_core (find_verification_value (core es) ev (to_identifier otp_type (str_lower email)))) (\<lambda>found.
       case real_row found of
         None \<Rightarrow> ret None
       | Some r \<Rightarrow>
           bindA (liftR (value_expired ev r)) (\<lambda>expired.
             if expired then ret None
             else if (case eo_store eo of StoreHashed \<Rightarrow> True | StoreCustom (Some _) _ _ \<Rightarrow> True | _ \<Rightarrow> False)
             then raise (bad_request ''OTP is hashed, cannot return the plain text OTP'')
             else
               bindA (liftR (bindR (dindex r ''value'') text_value)) (\<lambda>v.
               let stored = fst (split_at_last_colon v)
               in liftR (case eo_store eo of
                    StoreEncrypted \<Rightarrow> bindR (open_secret (eo_ciphers eo) (VStr stored)) (\<lambda>p. Inr (Some p))
                  | StoreCustom _ _ (Some d) \<Rightarrow> bindR (d stored) (\<lambda>p. Inr (Some p))
                  | _ \<Rightarrow> Inr (Some stored)))))"

text \<open>The hook after a sign-up: a code for the address of the user in the answer.\<close>

definition sign_up_matcher :: "email_otp \<Rightarrow> request \<Rightarrow> bool" where
  "sign_up_matcher eo rq \<longleftrightarrow> starts_with (rq_path rq) ''/sign-up'' \<and> eo_on_sign_up eo \<and> \<not> eo_override eo"

definition answer_email :: "response option \<Rightarrow> pyval" where
  "answer_email answer =
     (case map_option rs_body answer of
        Some (VDict d) \<Rightarrow> (case dget d ''user'' of VDict u \<Rightarrow> dget u ''email'' | _ \<Rightarrow> VNone)
      | _ \<Rightarrow> VNone)"

definition after_sign_up ::
    "site \<Rightarrow> email_otp \<Rightarrow> env \<Rightarrow> string \<Rightarrow> response option \<Rightarrow> (sworld, unit) action" where
  "after_sign_up es eo ev fresh answer =
     (if \<not> py_truthy (answer_email answer) then ret ()
      else
        bindA (liftR (str_arg (answer_email answer))) (\<lambda>email.
        bindA (store_new_code es eo ev fresh email ''email-verification'' (to_identifier ''email-verification'' email)) (\<lambda>otp.
          eo_mail eo email otp ''email-verification'')))"

section \<open>Routes\<close>

definition otp_type_of :: "row \<Rightarrow> string result" where
  "otp_type_of d =
     (case dget d ''type'' of
        VStr t \<Rightarrow> if t \<in> set EO_TYPES then Inr t else Inl (bad_request ''Invalid OTP type'')
      | _ \<Rightarrow> Inl (bad_request ''Invalid OTP type''))"

definition route_send_verification_otp ::
    "site \<Rightarrow> email_otp \<Rightarrow> env \<Rightarrow> request \<Rightarrow> body \<Rightarrow> string \<Rightarrow> (sworld, response) action" where
  "route_send_verification_otp es eo ev rq b fresh =
     bindA (liftR (validate_form_csrf (es_origin es) rq)) (\<lambda>_.
     bindA (liftR (request_json b)) (\<lambda>d.
     bindA (liftR (require_fields d [''email'', ''type''])) (\<lambda>_.
     bindA (liftR (validate_email (dget d ''email''))) (\<lambda>email.
       if dget d ''type'' = VStr ''change-email'' then raise (bad_request ''Invalid OTP type'')
       else
         bindA (liftR (otp_type_of d)) (\<lambda>otp_type.
         bindA (send_verification_otp_impl es eo ev fresh email otp_type) (\<lambda>_. ret success_true))))))"

text \<open>The check that does not consume: a wrong code raises the counter of the stored one.\<close>

definition check_code ::
    "site \<Rightarrow> email_otp \<Rightarrow> env \<Rightarrow> string \<Rightarrow> pyval \<Rightarrow> row \<Rightarrow> (sworld, unit) action" where
  "check_code es eo ev identifier provided r =
     bindA (liftR (code_and_attempts r)) (\<lambda>(stored, n).
       if (case n of Some k \<Rightarrow> k \<ge> eo_allowed eo | None \<Rightarrow> False) then
         bindA (on_core (delete_verification_by_identifier (core es) identifier)) (\<lambda>_. raise too_many_otp)
       else
         bindA (liftR (verify_stored eo stored provided)) (\<lambda>ok.
           if ok then ret ()
           else
             bindA (on_core (update_verification_by_identifier (core es) ev identifier
                      [(''value'', VStr (stored @ '':'' @ int_str ((case n of Some k \<Rightarrow> k | None \<Rightarrow> 0) + 1)))])) (\<lambda>_.
               raise invalid_otp)))"

definition check_verification_otp ::
    "site \<Rightarrow> email_otp \<Rightarrow> env \<Rightarrow> string \<Rightarrow> pyval \<Rightarrow> (sworld, unit) action" where
  "check_verification_otp es eo ev identifier provided =
     bindA (on_core (find_verification_value (core es) ev identifier)) (\<lambda>found.
       case real_row found of
         None \<Rightarrow> raise invalid_otp
       | Some r \<Rightarrow>
           bindA (liftR (value_expired ev r)) (\<lambda>expired.
             if expired then
               bindA (on_core (delete_verification_by_identifier (core es) identifier)) (\<lambda>_. raise otp_expired)
             else check_code es eo ev identifier provided r))"

definition route_check_verification_otp ::
    "site \<Rightarrow> email_otp \<Rightarrow> env \<Rightarrow> body \<Rightarrow> (sworld, response) action" where
  "route_check_verification_otp es eo ev b =
     bindA (liftR (request_json b)) (\<lambda>d.
     bindA (liftR (require_fields d [''email'', ''type'', ''otp''])) (\<lambda>_.
     bindA (liftR (validate_email (dget d ''email''))) (\<lambda>email.
     bindA (liftR (otp_type_of d)) (\<lambda>otp_type.
     bindA (check_verification_otp es eo ev (to_identifier otp_type email) (dget d ''otp'')) (\<lambda>_.
     bindA (find_user_by_email es (VStr email)) (\<lambda>user.
       if user = None then raise otp_user_not_found else ret success_true))))))"

text \<open>The user with the address verified; the callbacks around it are optional.\<close>

definition eo_observe :: "string \<Rightarrow> (row \<Rightarrow> unit result) option \<Rightarrow> row \<Rightarrow> (sworld, unit) action" where
  "eo_observe name callback user =
     (case callback of None \<Rightarrow> ret () | Some f \<Rightarrow> notify (PluginCall name [VDict user]) (f user))"

definition mark_verified :: "site \<Rightarrow> email_otp \<Rightarrow> env \<Rightarrow> row \<Rightarrow> string \<Rightarrow> (sworld, row) action" where
  "mark_verified es eo ev user email =
     bindA (eo_observe ''before_email_verification'' (eo_before eo) user) (\<lambda>_.
     bindA (liftR (dindex user ''id'')) (\<lambda>uid.
     let columns = [(''email'', VStr email), (''emailVerified'', VBool True)]
     in bindA (on_core (update_user (core es) ev uid columns)) (\<lambda>updated.
        let user' = (case real_row updated of Some u \<Rightarrow> u | None \<Rightarrow> dmerge user columns)
        in bindA (eo_observe ''after_email_verification'' (eo_after eo) user') (\<lambda>_. ret user'))))"

definition eo_session_answer ::
    "site \<Rightarrow> env \<Rightarrow> request \<Rightarrow> draws \<Rightarrow> row \<Rightarrow> row \<Rightarrow> (sworld, response) action" where
  "eo_session_answer es ev rq dr front user =
     bindA (liftR (dindex user ''id'')) (\<lambda>uid.
     bindA (start_session_for es ev rq uid True user (dr_session dr)) (\<lambda>(session, cookies).
     bindA (liftR (dindex session ''token'')) (\<lambda>token.
       ret (add_cookies cookies (reply (front @ [(''token'', token), (''user'', user_output es user)]))))))"

text \<open>The answer when no session is opened; the verified user's own session gets a fresh cache cookie.\<close>

definition eo_verified_answer :: "site \<Rightarrow> env \<Rightarrow> request \<Rightarrow> row \<Rightarrow> (sworld, response) action" where
  "eo_verified_answer es ev rq user =
     (let rs = reply [(''status'', VBool True), (''token'', VNone), (''user'', user_output es user)]
      in bindA (load_session es ev rq) (\<lambda>current.
           case current of
             None \<Rightarrow> ret rs
           | Some v \<Rightarrow>
               bindA (liftR (dindex (va_user v) ''id'')) (\<lambda>mine.
               bindA (liftR (dindex user ''id'')) (\<lambda>uid.
                 if \<not> py_eq mine uid then ret rs
                 else
                   bindA (liftR (dindex user ''emailVerified'')) (\<lambda>verified.
                   ret (if \<not> py_truthy verified then rs
                        else case set_cookie_cache (es_auth es) ev (va_session v)
                               (dset ''emailVerified'' (VBool True) (va_user v)) (is_dont_remember (es_auth es) rq) of
                               Some c \<Rightarrow> add_cookies [c] rs
                             | None \<Rightarrow> rs))))))"

definition eo_verify_email ::
    "site \<Rightarrow> email_otp \<Rightarrow> env \<Rightarrow> request \<Rightarrow> body \<Rightarrow> draws \<Rightarrow> (sworld, response) action" where
  "eo_verify_email es eo ev rq b dr =
     bindA (liftR (request_json b)) (\<lambda>d.
     bindA (liftR (require_fields d [''email'', ''otp''])) (\<lambda>_.
     bindA (liftR (validate_email (dget d ''email''))) (\<lambda>email.
     bindA (atomic_verify es eo ev (to_identifier ''email-verification'' email) (dget d ''otp'')) (\<lambda>_.
     bindA (find_user_by_email es (VStr email)) (\<lambda>found.
       case found of
         None \<Rightarrow> raise otp_user_not_found
       | Some user \<Rightarrow>
           bindA (mark_verified es eo ev user email) (\<lambda>user'.
             if es_auto_after_verify es then eo_session_answer es ev rq dr [(''status'', VBool True)] user'
             else eo_verified_answer es ev rq user'))))))"

text \<open>The new user of a sign-in: the remaining fields of the body are its input columns.\<close>

definition eo_new_user :: "site \<Rightarrow> env \<Rightarrow> row \<Rightarrow> string \<Rightarrow> row result" where
  "eo_new_user es ev d email =
     (let rest = filter (\<lambda>(k, _). k \<notin> {''email'', ''otp'', ''name'', ''image''}) d
      in bindR (parse_input_data (now ev) rest (es_input_fields es ''user'') ''create'') (\<lambda>additional.
           Inr (dmerge additional
             [(''email'', VStr email), (''emailVerified'', VBool True),
              (''name'', py_or (dget d ''name'') (VStr [])), (''image'', dget d ''image'')])))"

definition eo_user_for_session ::
    "site \<Rightarrow> email_otp \<Rightarrow> env \<Rightarrow> env list \<Rightarrow> row \<Rightarrow> string \<Rightarrow> row option \<Rightarrow> (sworld, row) action" where
  "eo_user_for_session es eo ev polls d email found =
     (case found of
        None \<Rightarrow>
          if eo_disable_sign_up eo then raise invalid_otp
          else
            bindA (liftR (eo_new_user es ev d email)) (\<lambda>data.
            bindA (on_core (create_user (core es) ev data (Some [(''method'', VStr ''email-otp'')]) True False)) (\<lambda>created.
              case created of Some user \<Rightarrow> ret user | None \<Rightarrow> raise AssertionError))
      | Some user \<Rightarrow>
          bindA (liftR (dindex user ''emailVerified'')) (\<lambda>verified.
            if py_truthy verified then ret user
            else
              bindA (liftR (bindR (dindex user ''id'') str_arg)) (\<lambda>uid.
              bindA (on_core (revoke_unproven_account_access (core es) ev polls uid)) (\<lambda>promoted.
                case promoted of Some user' \<Rightarrow> ret user' | None \<Rightarrow> raise invalid_otp))))"

definition eo_sign_in ::
    "site \<Rightarrow> email_otp \<Rightarrow> env \<Rightarrow> env list \<Rightarrow> request \<Rightarrow> body \<Rightarrow> draws \<Rightarrow> (sworld, response) action" where
  "eo_sign_in es eo ev polls rq b dr =
     bindA (liftR (request_json b)) (\<lambda>d.
     bindA (liftR (require_fields d [''email'', ''otp''])) (\<lambda>_.
     bindA (liftR (lower_arg (dget d ''email''))) (\<lambda>email.
     bindA (atomic_verify es eo ev (to_identifier ''sign-in'' email) (dget d ''otp'')) (\<lambda>_.
     bindA (find_user_by_email es (VStr email)) (\<lambda>found.
     bindA (eo_user_for_session es eo ev polls d email found) (\<lambda>user.
       eo_session_answer es ev rq dr [] user))))))"

definition eo_request_password_reset ::
    "site \<Rightarrow> email_otp \<Rightarrow> env \<Rightarrow> body \<Rightarrow> string \<Rightarrow> (sworld, response) action" where
  "eo_request_password_reset es eo ev b fresh =
     bindA (liftR (request_json b)) (\<lambda>d.
     bindA (liftR (require_fields d [''email''])) (\<lambda>_.
     bindA (liftR (lower_arg (dget d ''email''))) (\<lambda>email.
     bindA (resolve_otp es eo ev fresh email ''forget-password'') (\<lambda>otp.
     bindA (find_user_by_email es (VStr email)) (\<lambda>user.
     bindA (if user = None
            then on_core (delete_verification_by_identifier (core es) (to_identifier ''forget-password'' email))
            else eo_mail eo email otp ''forget-password'') (\<lambda>_.
       ret success_true))))))"

definition eo_store_password ::
    "site \<Rightarrow> env \<Rightarrow> pyval \<Rightarrow> string \<Rightarrow> (sworld, unit) action" where
  "eo_store_password es ev uid password_hash =
     bindA (on_rows (mem_find_one (store_ad es) ''account''
              [Where ''userId'' uid, Where ''providerId'' (VStr ''credential'')] [])) (\<lambda>account.
       case account of
         None \<Rightarrow>
           bindA (on_core (create_account (core es) ev
                    [(''userId'', uid), (''providerId'', VStr ''credential''), (''accountId'', uid),
                     (''password'', VStr password_hash)] False)) (\<lambda>_. ret ())
       | Some a \<Rightarrow>
           bindA (liftR (dindex a ''id'')) (\<lambda>aid.
           bindA (on_core (update_account (core es) ev aid [(''password'', VStr password_hash)])) (\<lambda>_. ret ())))"

definition eo_reset_password ::
    "site \<Rightarrow> email_otp \<Rightarrow> env \<Rightarrow> request \<Rightarrow> body \<Rightarrow> draws \<Rightarrow> (sworld, response) action" where
  "eo_reset_password es eo ev rq b dr =
     bindA (liftR (request_json b)) (\<lambda>d.
     bindA (liftR (require_fields d [''email'', ''otp'', ''password''])) (\<lambda>_.
     bindA (liftR (lower_arg (dget d ''email''))) (\<lambda>email.
     bindA (liftR (validate_password es (dget d ''password''))) (\<lambda>_.
     bindA (atomic_verify es eo ev (to_identifier ''forget-password'' email) (dget d ''otp'')) (\<lambda>_.
     bindA (find_user_by_email es (VStr email)) (\<lambda>found.
       case found of
         None \<Rightarrow> raise otp_user_not_found
       | Some user \<Rightarrow>
           bindA (liftR (hash_password_checked es dr rq (dget d ''password''))) (\<lambda>password_hash.
           bindA (liftR (dindex user ''id'')) (\<lambda>uid.
           bindA (eo_store_password es ev uid password_hash) (\<lambda>_.
           bindA (case es_on_reset es of
                    None \<Rightarrow> ret ()
                  | Some f \<Rightarrow> notify (PasswordReset user) (f user)) (\<lambda>_.
           bindA (liftR (dindex user ''emailVerified'')) (\<lambda>verified.
           bindA (if py_truthy verified then ret None
                  else on_core (update_user (core es) ev uid [(''emailVerified'', VBool True)])) (\<lambda>_.
           bindA (if es_revoke_on_reset es
                  then bindA (liftR (str_arg uid)) (\<lambda>u. on_core (delete_user_sessions (core es) ev u))
                  else ret ()) (\<lambda>_.
             ret success_true)))))))))))))"

section \<open>Changing the address\<close>

definition sensitive_session :: "site \<Rightarrow> env \<Rightarrow> request \<Rightarrow> (sworld, validated) action" where
  "sensitive_session es ev rq =
     bindA (on_core (get_session (es_auth es) ev rq True False False)) (\<lambda>(found, _).
       case found of
         None \<Rightarrow> raise (api_error 401 ''UNAUTHORIZED'' ''Unauthorized'')
       | Some v \<Rightarrow>
           if va_session v = [] then raise (api_error 401 ''UNAUTHORIZED'' ''Unauthorized'') else ret v)"

text \<open>The session, the body, and the current and the new address of a change.\<close>

definition change_request ::
    "site \<Rightarrow> email_otp \<Rightarrow> env \<Rightarrow> request \<Rightarrow> body \<Rightarrow> string list \<Rightarrow> (sworld, validated \<times> row \<times> string \<times> string) action" where
  "change_request es eo ev rq b needed =
     bindA (sensitive_session es ev rq) (\<lambda>v.
       if \<not> eo_change_enabled eo then raise (bad_request ''Change email with OTP is disabled'')
       else
         bindA (liftR (bindR (dindex (va_user v) ''email'') lower_arg)) (\<lambda>email.
         bindA (liftR (request_json b)) (\<lambda>d.
         bindA (liftR (require_fields d needed)) (\<lambda>_.
         bindA (liftR (validate_email (dget d ''newEmail''))) (\<lambda>new_email.
           if new_email = email then raise (bad_request ''Email is the same'')
           else ret (v, d, email, new_email))))))"

definition change_identifier :: "string \<Rightarrow> string \<Rightarrow> string" where
  "change_identifier email new_email = to_identifier ''change-email'' (email @ ''-'' @ new_email)"

definition route_request_email_change ::
    "site \<Rightarrow> email_otp \<Rightarrow> env \<Rightarrow> request \<Rightarrow> body \<Rightarrow> string \<Rightarrow> (sworld, response) action" where
  "route_request_email_change es eo ev rq b fresh =
     bindA (change_request es eo ev rq b [''newEmail'']) (\<lambda>(v, d, email, new_email).
     bindA
       (if \<not> eo_verify_current eo then ret ()
        else if \<not> py_truthy (dget d ''otp'') then raise (bad_request ''OTP is required to verify current email'')
        else atomic_verify es eo ev (to_identifier ''email-verification'' email) (dget d ''otp'')) (\<lambda>_.
     bindA (store_new_code es eo ev fresh new_email ''change-email'' (change_identifier email new_email)) (\<lambda>otp.
     bindA (find_user_by_email es (VStr new_email)) (\<lambda>taken.
     bindA (if taken \<noteq> None
            then on_core (delete_verification_by_identifier (core es) (change_identifier email new_email))
            else eo_mail eo new_email otp ''change-email'') (\<lambda>_.
       ret success_true)))))"

text \<open>The cookies of the session after the change.\<close>

definition changed_cookies :: "site \<Rightarrow> env \<Rightarrow> request \<Rightarrow> validated \<Rightarrow> string \<Rightarrow> string list result" where
  "changed_cookies es ev rq v new_email =
     bindR (bindR (dindex (va_session v) ''token'') text_value) (\<lambda>token.
       Inr (refresh_session_cookie (es_auth es) rq token #
         (case set_cookie_cache (es_auth es) ev (va_session v)
                 (dmerge (va_user v) [(''email'', VStr new_email), (''emailVerified'', VBool True)])
                 (is_dont_remember (es_auth es) rq) of
            Some c \<Rightarrow> [c]
          | None \<Rightarrow> [])))"

definition route_change_email ::
    "site \<Rightarrow> email_otp \<Rightarrow> env \<Rightarrow> request \<Rightarrow> body \<Rightarrow> (sworld, response) action" where
  "route_change_email es eo ev rq b =
     bindA (change_request es eo ev rq b [''newEmail'', ''otp'']) (\<lambda>(v, d, email, new_email).
     bindA (atomic_verify es eo ev (change_identifier email new_email) (dget d ''otp'')) (\<lambda>_.
     bindA (find_user_by_email es (VStr email)) (\<lambda>found.
       case found of
         None \<Rightarrow> raise otp_user_not_found
       | Some user \<Rightarrow>
           bindA (find_user_by_email es (VStr new_email)) (\<lambda>taken.
             if taken \<noteq> None then raise (bad_request ''Email already in use'')
             else
               bindA (mark_verified es eo ev user new_email) (\<lambda>_.
               bindA (liftR (changed_cookies es ev rq v new_email)) (\<lambda>cookies.
                 ret (add_cookies cookies success_true)))))))"

end
