(* ===== verification/Admin.thy ===== *)
theory Admin
  imports Magic_Link OrgAccess
begin

text \<open>
  \<open>plugins_ext/admin.py\<close>: the administration of users. Roles and their statements are those of
  \<open>AccessControl\<close>; the message for a banned user is a parameter when it is a function. A \<open>data\<close> of a body
  that is no object is refused with a type error; a duration is a whole number of seconds. The two database
  hooks are actions of their own, since one of them reads and writes users.
\<close>

section \<open>Options and errors\<close>

record admin_plugin =
  ap_default_role :: string
  ap_admin_roles :: "string list"
  ap_roles :: "(string \<times> statements) list"
  ap_admin_ids :: "string list"
  ap_ban_reason :: "string option"
  ap_ban_expires_in :: "int option"
  ap_impersonation :: int
  ap_allow_admins :: bool
  ap_banned_message :: "string + (row \<Rightarrow> string result)"

definition ADMIN_ERROR_CODES :: "(string \<times> string) list" where
  "ADMIN_ERROR_CODES = [
     (''FAILED_TO_CREATE_USER'', ''Failed to create user''),
     (''USER_ALREADY_EXISTS'', ''User already exists.''),
     (''USER_ALREADY_EXISTS_USE_ANOTHER_EMAIL'', ''User already exists. Use another email.''),
     (''YOU_CANNOT_BAN_YOURSELF'', ''You cannot ban yourself''),
     (''YOU_ARE_NOT_ALLOWED_TO_CHANGE_USERS_ROLE'', ''You are not allowed to change users role''),
     (''YOU_ARE_NOT_ALLOWED_TO_CREATE_USERS'', ''You are not allowed to create users''),
     (''YOU_ARE_NOT_ALLOWED_TO_LIST_USERS'', ''You are not allowed to list users''),
     (''YOU_ARE_NOT_ALLOWED_TO_LIST_USERS_SESSIONS'', ''You are not allowed to list users sessions''),
     (''YOU_ARE_NOT_ALLOWED_TO_BAN_USERS'', ''You are not allowed to ban users''),
     (''YOU_ARE_NOT_ALLOWED_TO_IMPERSONATE_USERS'', ''You are not allowed to impersonate users''),
     (''YOU_ARE_NOT_ALLOWED_TO_REVOKE_USERS_SESSIONS'', ''You are not allowed to revoke users sessions''),
     (''YOU_ARE_NOT_ALLOWED_TO_DELETE_USERS'', ''You are not allowed to delete users''),
     (''YOU_ARE_NOT_ALLOWED_TO_SET_USERS_PASSWORD'', ''You are not allowed to set users password''),
     (''BANNED_USER'', ''You have been banned from this application''),
     (''YOU_ARE_NOT_ALLOWED_TO_GET_USER'', ''You are not allowed to get user''),
     (''NO_DATA_TO_UPDATE'', ''No data to update''),
     (''YOU_ARE_NOT_ALLOWED_TO_UPDATE_USERS'', ''You are not allowed to update users''),
     (''YOU_CANNOT_REMOVE_YOURSELF'', ''You cannot remove yourself''),
     (''YOU_ARE_NOT_ALLOWED_TO_SET_NON_EXISTENT_VALUE'', ''You are not allowed to set a non-existent role value''),
     (''YOU_CANNOT_IMPERSONATE_ADMINS'', ''You cannot impersonate admins''),
     (''INVALID_ROLE_TYPE'', ''Invalid role type''),
     (''YOU_ARE_NOT_ALLOWED_TO_SET_USERS_EMAIL'', ''You are not allowed to update users email''),
     (''PASSWORD_CANNOT_BE_UPDATED_VIA_UPDATE_USER'',
      ''Password cannot be updated through update-user. Use the set-user-password endpoint instead'')]"

definition admin_err :: "int \<Rightarrow> string \<Rightarrow> exn" where
  "admin_err status code =
     api_error status code (case map_of ADMIN_ERROR_CODES code of Some m \<Rightarrow> m | None \<Rightarrow> [])"

definition admin_not_found :: exn where
  "admin_not_found = api_error 404 ''USER_NOT_FOUND'' ''User not found''"

definition ADMIN_SCHEMA :: schema where
  "ADMIN_SCHEMA =
     [(''user'',
       [(''role'', (mk_field ''string'' False)\<lparr>f_input := False\<rparr>),
        (''banned'', (mk_field ''boolean'' False)\<lparr>f_input := False, f_default := Some (VBool False)\<rparr>),
        (''banReason'', (mk_field ''string'' False)\<lparr>f_input := False\<rparr>),
        (''banExpires'', (mk_field ''datetime'' False)\<lparr>f_input := False\<rparr>)]),
      (''session'', [(''impersonatedBy'', (mk_field ''string'' False)\<lparr>f_input := False\<rparr>)])]"

definition BAN_FIELDS :: "string list" where
  "BAN_FIELDS = [''banned'', ''banReason'', ''banExpires'']"

text \<open>The check of configured admin roles in the constructor.\<close>

definition admin_roles_ok :: "(string \<times> statements) list \<Rightarrow> string list \<Rightarrow> bool" where
  "admin_roles_ok roles admin_roles \<longleftrightarrow>
     list_all (\<lambda>r. str_lower r \<in> str_lower ` fst ` set (if roles = [] then ADMIN_DEFAULT_ROLES else roles)) admin_roles"

section \<open>Values of a request\<close>

text \<open>\<open>int(value)\<close> of a query parameter; absent, invalid and zero become nothing.\<close>

definition to_int :: "string option \<Rightarrow> int option" where
  "to_int v = (case v of None \<Rightarrow> None | Some s \<Rightarrow> (case parse_int s of Some n \<Rightarrow> if n = 0 then None else Some n | None \<Rightarrow> None))"

fun texts_of :: "pyval list \<Rightarrow> string list result" where
  "texts_of [] = Inr []"
| "texts_of (v # vs) = bindR (str_arg v) (\<lambda>s. bindR (texts_of vs) (\<lambda>ss. Inr (s # ss)))"

definition parse_roles :: "pyval \<Rightarrow> pyval result" where
  "parse_roles v =
     (case v of
        VList vs \<Rightarrow> bindR (texts_of vs) (\<lambda>ss. Inr (VStr (join_parts '','' ss)))
      | _ \<Rightarrow> Inr v)"

definition as_items :: "pyval \<Rightarrow> pyval list" where
  "as_items v = (case v of VList vs \<Rightarrow> vs | _ \<Rightarrow> [v])"

text \<open>\<open>r in self.roles\<close>: a list or an object cannot be looked up.\<close>

definition role_known :: "admin_plugin \<Rightarrow> pyval \<Rightarrow> bool result" where
  "role_known ap v =
     (case v of
        VStr s \<Rightarrow> Inr (map_of (ap_roles ap) s \<noteq> None)
      | VList _ \<Rightarrow> Inl TypeError
      | VDict _ \<Rightarrow> Inl TypeError
      | _ \<Rightarrow> Inr False)"

fun roles_known :: "admin_plugin \<Rightarrow> pyval list \<Rightarrow> unit result" where
  "roles_known ap [] = Inr ()"
| "roles_known ap (r # rs) =
     bindR (role_known ap r) (\<lambda>ok.
       if ok then roles_known ap rs else Inl (admin_err 400 ''YOU_ARE_NOT_ALLOWED_TO_SET_NON_EXISTENT_VALUE''))"

text \<open>The roles of a new or changed user: texts, and known ones when roles are configured.\<close>

fun roles_valid :: "admin_plugin \<Rightarrow> pyval list \<Rightarrow> unit result" where
  "roles_valid ap [] = Inr ()"
| "roles_valid ap (r # rs) =
     (case r of
        VStr s \<Rightarrow>
          if ap_roles ap \<noteq> [] \<and> map_of (ap_roles ap) s = None
          then Inl (admin_err 400 ''YOU_ARE_NOT_ALLOWED_TO_SET_NON_EXISTENT_VALUE'')
          else roles_valid ap rs
      | _ \<Rightarrow> Inl (admin_err 400 ''INVALID_ROLE_TYPE''))"

definition data_of :: "row \<Rightarrow> row result" where
  "data_of b =
     (case dget b ''data'' of
        VDict d \<Rightarrow> Inr d
      | v \<Rightarrow> if py_truthy v then Inl TypeError else Inr [])"

definition str_of :: "site \<Rightarrow> row \<Rightarrow> string \<Rightarrow> string result" where
  "str_of es b k = bindR (dindex b k) (\<lambda>v. Inr (f_string es v))"

section \<open>Permissions\<close>

definition acting_roles :: "admin_plugin \<Rightarrow> (string \<times> statements) list" where
  "acting_roles ap = (if ap_roles ap = [] then ADMIN_DEFAULT_ROLES else ap_roles ap)"

text \<open>\<open>role or self.default_role or "user"\<close>.\<close>

definition role_or_default :: "admin_plugin \<Rightarrow> pyval \<Rightarrow> pyval" where
  "role_or_default ap role = py_or (py_or role (VStr (ap_default_role ap))) (VStr ''user'')"

definition is_admin_id :: "admin_plugin \<Rightarrow> pyval \<Rightarrow> bool" where
  "is_admin_id ap v \<longleftrightarrow> list_ex (\<lambda>i. py_eq v (VStr i)) (ap_admin_ids ap)"

definition admin_may :: "admin_plugin \<Rightarrow> pyval \<Rightarrow> pyval \<Rightarrow> pyval \<Rightarrow> bool result" where
  "admin_may ap user_id role permissions =
     (if py_truthy user_id \<and> is_admin_id ap user_id then Inr True
      else if \<not> py_truthy permissions then Inr False
      else
        bindR (text_value (role_or_default ap role)) (\<lambda>r.
          let names = split_on CHR '','' r
          in case permissions of
               VDict p \<Rightarrow> any_role_authorizes (acting_roles ap) p names
             | _ \<Rightarrow> if list_ex (\<lambda>n. map_of (acting_roles ap) n \<noteq> None) names then Inl AttributeError else Inr False))"

definition grant :: "string \<Rightarrow> string \<Rightarrow> pyval" where
  "grant resource action = VDict [(resource, VList [VStr action])]"

definition admin_require :: "admin_plugin \<Rightarrow> row \<Rightarrow> pyval \<Rightarrow> string \<Rightarrow> unit result" where
  "admin_require ap user permissions code =
     bindR (dindex user ''id'') (\<lambda>uid.
     bindR (admin_may ap uid (dget user ''role'') permissions) (\<lambda>ok.
       if ok then Inr () else Inl (admin_err 403 code)))"

text \<open>A session that is read past the cookie cache.\<close>

definition admin_session :: "site \<Rightarrow> env \<Rightarrow> request \<Rightarrow> (sworld, validated) action" where
  "admin_session es ev rq =
     bindA (on_core (get_session (es_auth es) ev rq True False False)) (\<lambda>(found, _).
       case found of
         None \<Rightarrow> raise (api_error 401 ''UNAUTHORIZED'' ''Not authenticated'')
       | Some v \<Rightarrow> ret v)"

text \<open>The first steps of the routes: who asks, and whether the role allows it.\<close>

definition admin_as ::
    "site \<Rightarrow> admin_plugin \<Rightarrow> env \<Rightarrow> request \<Rightarrow> pyval \<Rightarrow> string \<Rightarrow> (validated \<Rightarrow> (sworld, 'a) action) \<Rightarrow> (sworld, 'a) action" where
  "admin_as es ap ev rq permissions code act =
     bindA (admin_session es ev rq) (\<lambda>v.
     bindA (liftR (admin_require ap (va_user v) permissions code)) (\<lambda>_. act v))"

definition find_by_id :: "site \<Rightarrow> pyval \<Rightarrow> (sworld, row option) action" where
  "find_by_id es v = on_rows (mem_find_one (store_ad es) ''user'' [Where ''id'' v] [])"

definition admin_target :: "site \<Rightarrow> pyval \<Rightarrow> (sworld, row) action" where
  "admin_target es v =
     bindA (find_by_id es v) (\<lambda>found. case found of None \<Rightarrow> raise admin_not_found | Some u \<Rightarrow> ret u)"

text \<open>A row that an update returned: \<open>parse_user_output\<close> of nothing fails.\<close>

definition shown_user :: "site \<Rightarrow> row option \<Rightarrow> pyval result" where
  "shown_user es u = (case u of Some r \<Rightarrow> Inr (user_output es r) | None \<Rightarrow> Inl AttributeError)"

section \<open>Database hooks\<close>

definition admin_user_before :: "admin_plugin \<Rightarrow> row \<Rightarrow> row" where
  "admin_user_before ap data = dmerge [(''role'', VStr (ap_default_role ap))] data"

text \<open>
  The hook before a session is created: a ban that has lapsed is lifted, a banned user is refused. An
  instant kept as a text is not modelled.
\<close>

definition ban_lapsed :: "env \<Rightarrow> row \<Rightarrow> bool result" where
  "ban_lapsed ev user =
     (case dget user ''banExpires'' of
        VNone \<Rightarrow> Inr False
      | VDate t \<Rightarrow> Inr (t < now ev)
      | VStr _ \<Rightarrow> Inl ValueError
      | _ \<Rightarrow> Inl AttributeError)"

definition admin_session_before ::
    "site \<Rightarrow> admin_plugin \<Rightarrow> env \<Rightarrow> row \<Rightarrow> (sworld, unit) action" where
  "admin_session_before es ap ev data =
     bindA (liftR (dindex data ''userId'')) (\<lambda>uid.
     bindA (find_by_id es uid) (\<lambda>found.
       case real_row found of
         None \<Rightarrow> ret ()
       | Some user \<Rightarrow>
           if \<not> py_truthy (dget user ''banned'') then ret ()
           else
             bindA (liftR (ban_lapsed ev user)) (\<lambda>lapsed.
               if lapsed then
                 bindA (on_core (update_user (core es) ev uid
                   [(''banned'', VBool False), (''banReason'', VNone), (''banExpires'', VNone)])) (\<lambda>_. ret ())
               else
                 bindA (liftR (case ap_banned_message ap of Inl m \<Rightarrow> Inr m | Inr f \<Rightarrow> f user)) (\<lambda>message.
                   raise (api_error 403 ''BANNED_USER'' message)))))"

section \<open>Users\<close>

definition admin_set_role ::
    "site \<Rightarrow> admin_plugin \<Rightarrow> env \<Rightarrow> request \<Rightarrow> body \<Rightarrow> (sworld, response) action" where
  "admin_set_role es ap ev rq b =
     admin_as es ap ev rq (grant ''user'' ''set-role'') ''YOU_ARE_NOT_ALLOWED_TO_CHANGE_USERS_ROLE'' (\<lambda>_.
       bindA (liftR (request_json b)) (\<lambda>d.
       bindA (liftR (dindex d ''role'')) (\<lambda>role.
       bindA (liftR (if ap_roles ap = [] then Inr () else roles_known ap (as_items role))) (\<lambda>_.
       bindA (liftR (str_of es d ''userId'')) (\<lambda>uid.
       bindA (admin_target es (VStr uid)) (\<lambda>_.
       bindA (liftR (parse_roles role)) (\<lambda>value.
       bindA (on_core (update_user (core es) ev (VStr uid) [(''role'', value)])) (\<lambda>updated.
       bindA (liftR (shown_user es updated)) (\<lambda>shown.
         ret (reply [(''user'', shown)]))))))))))"

definition admin_get_user ::
    "site \<Rightarrow> admin_plugin \<Rightarrow> env \<Rightarrow> request \<Rightarrow> (sworld, response) action" where
  "admin_get_user es ap ev rq =
     admin_as es ap ev rq (grant ''user'' ''get'') ''YOU_ARE_NOT_ALLOWED_TO_GET_USER'' (\<lambda>_.
       bindA (admin_target es (case map_of (rq_query rq) ''id'' of Some i \<Rightarrow> VStr i | None \<Rightarrow> VNone)) (\<lambda>user.
         ret (reply_value (user_output es user))))"

text \<open>The role that a request for a new user asks for, and what is left of its \<open>data\<close>.\<close>

definition requested_role :: "row \<Rightarrow> row \<Rightarrow> pyval" where
  "requested_role d data = (if dget d ''role'' \<noteq> VNone then dget d ''role'' else dget data ''role'')"

definition admin_may_create :: "admin_plugin \<Rightarrow> row \<Rightarrow> pyval \<Rightarrow> row \<Rightarrow> unit result" where
  "admin_may_create ap asker role data =
     bindR (if role = VNone then Inr ()
            else
              bindR (admin_require ap asker (grant ''user'' ''set-role'') ''YOU_ARE_NOT_ALLOWED_TO_CHANGE_USERS_ROLE'') (\<lambda>_.
                roles_valid ap (as_items role))) (\<lambda>_.
       if list_ex (has_key data) BAN_FIELDS
       then admin_require ap asker (grant ''user'' ''ban'') ''YOU_ARE_NOT_ALLOWED_TO_BAN_USERS''
       else Inr ())"

text \<open>The address of the new user, and the length of the password.\<close>

definition admin_new_address :: "site \<Rightarrow> row \<Rightarrow> string result" where
  "admin_new_address es d =
     bindR (str_of es d ''email'') (\<lambda>e.
       let address = str_lower e
       in if \<not> matches_email address then Inl (api_error 400 ''INVALID_EMAIL'' ''Invalid email'')
          else bindR (if py_truthy (dget d ''password'') then assert_password_not_too_long es (dget d ''password'') else Inr ())
                 (\<lambda>_. Inr address))"

definition admin_credential ::
    "site \<Rightarrow> env \<Rightarrow> request \<Rightarrow> draws \<Rightarrow> pyval \<Rightarrow> pyval \<Rightarrow> (sworld, unit) action" where
  "admin_credential es ev rq dr uid password =
     bindA (liftR (hash_password_checked es dr rq password)) (\<lambda>hashed.
     bindA (on_core (create_account (core es) (ev\<lparr>rnd_id := dr_account_id dr\<rparr>)
              [(''accountId'', uid), (''providerId'', VStr ''credential''), (''password'', VStr hashed), (''userId'', uid)]
              False)) (\<lambda>_. ret ()))"

definition admin_create_user ::
    "site \<Rightarrow> admin_plugin \<Rightarrow> env \<Rightarrow> request \<Rightarrow> body \<Rightarrow> draws \<Rightarrow> (sworld, response) action" where
  "admin_create_user es ap ev rq b dr =
     bindA (liftR (request_json b)) (\<lambda>d.
     admin_as es ap ev rq (grant ''user'' ''create'') ''YOU_ARE_NOT_ALLOWED_TO_CREATE_USERS'' (\<lambda>v.
       bindA (liftR (data_of d)) (\<lambda>given.
       let role = requested_role d given; data = ddrop ''role'' given
       in bindA (liftR (admin_may_create ap (va_user v) role data)) (\<lambda>_.
          bindA (liftR (admin_new_address es d)) (\<lambda>address.
          bindA (find_user_by_email es (VStr address)) (\<lambda>existing.
            if existing \<noteq> None then raise (admin_err 400 ''USER_ALREADY_EXISTS_USE_ANOTHER_EMAIL'')
            else
              bindA (liftR (dindex d ''name'')) (\<lambda>name.
              bindA (liftR (if role = VNone then Inr (VStr (ap_default_role ap)) else parse_roles role)) (\<lambda>stored_role.
              bindA (on_core (create_user (core es) (ev\<lparr>rnd_id := dr_user_id dr\<rparr>)
                       (dmerge data [(''email'', VStr address), (''name'', name), (''role'', stored_role)])
                       (Some [(''method'', VStr ''admin'')]) True False)) (\<lambda>created.
                case created of
                  None \<Rightarrow> raise (admin_err 500 ''FAILED_TO_CREATE_USER'')
                | Some user \<Rightarrow>
                    bindA (if py_truthy (dget d ''password'')
                           then bindA (liftR (dindex user ''id'')) (\<lambda>uid. admin_credential es ev rq dr uid (dget d ''password''))
                           else ret ()) (\<lambda>_.
                      ret (reply [(''user'', user_output es user)]))))))))))) "

text \<open>What an update may change, step by step: the role, the ban, the address.\<close>

definition admin_update_role :: "admin_plugin \<Rightarrow> row \<Rightarrow> row \<Rightarrow> row result" where
  "admin_update_role ap asker data =
     (if \<not> has_key data ''role'' then Inr data
      else
        bindR (admin_require ap asker (grant ''user'' ''set-role'') ''YOU_ARE_NOT_ALLOWED_TO_CHANGE_USERS_ROLE'') (\<lambda>_.
        bindR (roles_valid ap (as_items (dget data ''role''))) (\<lambda>_.
        bindR (parse_roles (VList (as_items (dget data ''role'')))) (\<lambda>role.
          Inr (dset ''role'' role data)))))"

definition admin_update_ban :: "admin_plugin \<Rightarrow> row \<Rightarrow> string \<Rightarrow> row \<Rightarrow> unit result" where
  "admin_update_ban ap asker uid data =
     (if \<not> list_ex (has_key data) BAN_FIELDS then Inr ()
      else
        bindR (admin_require ap asker (grant ''user'' ''ban'') ''YOU_ARE_NOT_ALLOWED_TO_BAN_USERS'') (\<lambda>_.
        bindR (if dget data ''banned'' = VBool True then bindR (dindex asker ''id'') (\<lambda>i. Inr (py_eq (VStr uid) i)) else Inr False)
          (\<lambda>own. if own then Inl (admin_err 400 ''YOU_CANNOT_BAN_YOURSELF'') else Inr ())))"

definition admin_update_email ::
    "site \<Rightarrow> admin_plugin \<Rightarrow> row \<Rightarrow> string \<Rightarrow> row \<Rightarrow> (sworld, row) action" where
  "admin_update_email es ap asker uid data =
     (if \<not> (has_key data ''email'' \<or> has_key data ''emailVerified'') then ret data
      else
        bindA (liftR (admin_require ap asker (grant ''user'' ''set-email'') ''YOU_ARE_NOT_ALLOWED_TO_SET_USERS_EMAIL'')) (\<lambda>_.
          if \<not> has_key data ''email'' then ret data
          else
            let address = str_lower (f_string es (dget data ''email''))
            in if \<not> matches_email address then raise (api_error 400 ''INVALID_EMAIL'' ''Invalid email'')
               else
                 bindA (find_user_by_email es (VStr address)) (\<lambda>existing.
                 bindA (liftR (case existing of
                          None \<Rightarrow> Inr False | Some r \<Rightarrow> bindR (dindex r ''id'') (\<lambda>i. Inr (\<not> py_eq i (VStr uid))))) (\<lambda>other.
                   if other then raise (admin_err 400 ''USER_ALREADY_EXISTS_USE_ANOTHER_EMAIL'')
                   else ret (dset ''email'' (VStr address) data)))))"

definition admin_update_user ::
    "site \<Rightarrow> admin_plugin \<Rightarrow> env \<Rightarrow> request \<Rightarrow> body \<Rightarrow> (sworld, response) action" where
  "admin_update_user es ap ev rq b =
     admin_as es ap ev rq (grant ''user'' ''update'') ''YOU_ARE_NOT_ALLOWED_TO_UPDATE_USERS'' (\<lambda>v.
       bindA (liftR (request_json b)) (\<lambda>d.
       bindA (liftR (data_of d)) (\<lambda>data.
         if data = [] then raise (admin_err 400 ''NO_DATA_TO_UPDATE'')
         else if has_key data ''password'' then raise (admin_err 400 ''PASSWORD_CANNOT_BE_UPDATED_VIA_UPDATE_USER'')
         else
           bindA (liftR (str_of es d ''userId'')) (\<lambda>uid.
           bindA (liftR (admin_update_role ap (va_user v) data)) (\<lambda>data1.
           bindA (liftR (admin_update_ban ap (va_user v) uid data1)) (\<lambda>_.
           bindA (admin_update_email es ap (va_user v) uid data1) (\<lambda>data2.
           bindA (admin_target es (VStr uid)) (\<lambda>_.
           bindA (on_core (update_user (core es) ev (VStr uid) data2)) (\<lambda>updated.
           bindA (if dget data2 ''banned'' = VBool True then on_core (delete_user_sessions (core es) ev uid) else ret ()) (\<lambda>_.
           bindA (liftR (shown_user es updated)) (\<lambda>shown.
             ret (reply_value shown))))))))))))"

text \<open>The operator of a condition by its name.\<close>

definition oper_named :: "string \<Rightarrow> oper" where
  "oper_named s =
     (case map_of [(''eq'', OEq), (''ne'', ONe), (''in'', OIn), (''not_in'', ONotIn), (''contains'', OContains),
        (''starts_with'', OStartsWith), (''ends_with'', OEndsWith), (''gt'', OGt), (''gte'', OGte), (''lt'', OLt),
        (''lte'', OLte)] s of
        Some oper \<Rightarrow> oper
      | None \<Rightarrow> OOther s)"

definition list_conditions :: "(string \<rightharpoonup> string) \<Rightarrow> clause list" where
  "list_conditions q =
     (case q ''searchValue'' of
        Some (c # cs) \<Rightarrow>
          [WhereOp (or_text (q ''searchField'') ''email'') (VStr (c # cs)) (oper_named (or_text (q ''searchOperator'') ''contains''))]
      | _ \<Rightarrow> []) @
     (case q ''filterValue'' of
        Some v \<Rightarrow> [WhereOp (or_text (q ''filterField'') ''email'') (VStr v) (oper_named (or_text (q ''filterOperator'') ''eq''))]
      | None \<Rightarrow> [])"

definition list_order :: "(string \<rightharpoonup> string) \<Rightarrow> sort_by option" where
  "list_order q =
     (case q ''sortBy'' of
        Some (c # cs) \<Rightarrow> Some \<lparr>sb_field = c # cs, sb_desc = (or_text (q ''sortDirection'') ''asc'' = ''desc'')\<rparr>
      | _ \<Rightarrow> None)"

definition admin_list_users ::
    "site \<Rightarrow> admin_plugin \<Rightarrow> env \<Rightarrow> request \<Rightarrow> (sworld, response) action" where
  "admin_list_users es ap ev rq =
     admin_as es ap ev rq (grant ''user'' ''list'') ''YOU_ARE_NOT_ALLOWED_TO_LIST_USERS'' (\<lambda>_.
       let q = map_of (rq_query rq); wh = list_conditions q; limit = to_int (q ''limit''); offset = to_int (q ''offset'')
       in catchA
            (bindA (on_core (list_users (core es) limit offset (list_order q) wh)) (\<lambda>users.
             bindA (on_core (count_total_users wh)) (\<lambda>total.
               ret (reply ([(''users'', VList (map (user_output es) users)), (''total'', VInt total)] @
                 (case limit of Some n \<Rightarrow> [(''limit'', VInt n)] | None \<Rightarrow> []) @
                 (case offset of Some n \<Rightarrow> [(''offset'', VInt n)] | None \<Rightarrow> []))))))
            (\<lambda>_. ret (reply [(''users'', VList []), (''total'', VInt 0)])))"

section \<open>Bans\<close>

text \<open>When a new ban ends: after the seconds asked for, or the default, or never.\<close>

definition ban_expires :: "admin_plugin \<Rightarrow> env \<Rightarrow> pyval \<Rightarrow> pyval result" where
  "ban_expires ap ev asked =
     (let seconds = py_or asked (case ap_ban_expires_in ap of Some n \<Rightarrow> VInt n | None \<Rightarrow> VNone)
      in if \<not> py_truthy seconds then Inr VNone
         else case py_num seconds of
                Some n \<Rightarrow> Inr (VDate (now ev + n * 1000000))
              | None \<Rightarrow> Inl TypeError)"

definition ban_reason :: "admin_plugin \<Rightarrow> pyval \<Rightarrow> pyval" where
  "ban_reason ap asked =
     py_or (py_or asked (case ap_ban_reason ap of Some r \<Rightarrow> VStr r | None \<Rightarrow> VNone)) (VStr ''No reason'')"

definition admin_ban_user ::
    "site \<Rightarrow> admin_plugin \<Rightarrow> env \<Rightarrow> request \<Rightarrow> body \<Rightarrow> (sworld, response) action" where
  "admin_ban_user es ap ev rq b =
     admin_as es ap ev rq (grant ''user'' ''ban'') ''YOU_ARE_NOT_ALLOWED_TO_BAN_USERS'' (\<lambda>v.
       bindA (liftR (request_json b)) (\<lambda>d.
       bindA (liftR (str_of es d ''userId'')) (\<lambda>uid.
       bindA (admin_target es (VStr uid)) (\<lambda>_.
       bindA (liftR (dindex (va_user v) ''id'')) (\<lambda>own.
         if py_eq (VStr uid) own then raise (admin_err 400 ''YOU_CANNOT_BAN_YOURSELF'')
         else
           bindA (liftR (ban_expires ap ev (dget d ''banExpiresIn''))) (\<lambda>until.
           bindA (on_core (update_user (core es) ev (VStr uid)
                    [(''banned'', VBool True), (''banReason'', ban_reason ap (dget d ''banReason'')),
                     (''banExpires'', until), (''updatedAt'', VDate (now ev))])) (\<lambda>updated.
           bindA (on_core (delete_user_sessions (core es) ev uid)) (\<lambda>_.
           bindA (liftR (shown_user es updated)) (\<lambda>shown.
             ret (reply [(''user'', shown)]))))))))))"

definition admin_unban_user ::
    "site \<Rightarrow> admin_plugin \<Rightarrow> env \<Rightarrow> request \<Rightarrow> body \<Rightarrow> (sworld, response) action" where
  "admin_unban_user es ap ev rq b =
     admin_as es ap ev rq (grant ''user'' ''ban'') ''YOU_ARE_NOT_ALLOWED_TO_BAN_USERS'' (\<lambda>_.
       bindA (liftR (request_json b)) (\<lambda>d.
       bindA (liftR (str_of es d ''userId'')) (\<lambda>uid.
       bindA (admin_target es (VStr uid)) (\<lambda>_.
       bindA (on_core (update_user (core es) ev (VStr uid)
                [(''banned'', VBool False), (''banExpires'', VNone), (''banReason'', VNone), (''updatedAt'', VDate (now ev))]))
         (\<lambda>updated.
       bindA (liftR (shown_user es updated)) (\<lambda>shown.
         ret (reply [(''user'', shown)])))))))"

section \<open>Sessions and impersonation\<close>

definition admin_list_user_sessions ::
    "site \<Rightarrow> admin_plugin \<Rightarrow> env \<Rightarrow> request \<Rightarrow> body \<Rightarrow> (sworld, response) action" where
  "admin_list_user_sessions es ap ev rq b =
     admin_as es ap ev rq (grant ''session'' ''list'') ''YOU_ARE_NOT_ALLOWED_TO_LIST_USERS_SESSIONS'' (\<lambda>_.
       bindA (liftR (request_json b)) (\<lambda>d.
       bindA (liftR (str_of es d ''userId'')) (\<lambda>uid.
       bindA (on_core (list_sessions (core es) ev uid)) (\<lambda>sessions.
         ret (reply [(''sessions'', VList (map (session_output es) sessions))])))))"

text \<open>Whether the user to act as is an admin.\<close>

definition is_target_admin :: "admin_plugin \<Rightarrow> row \<Rightarrow> bool result" where
  "is_target_admin ap target =
     bindR (text_value (role_or_default ap (dget target ''role''))) (\<lambda>r.
       if list_ex (\<lambda>n. n \<in> strip ` set (ap_admin_roles ap)) (split_on CHR '','' r) then Inr True
       else bindR (dindex target ''id'') (\<lambda>i. Inr (is_admin_id ap i)))"

definition may_impersonate :: "admin_plugin \<Rightarrow> row \<Rightarrow> row \<Rightarrow> unit result" where
  "may_impersonate ap asker target =
     bindR (is_target_admin ap target) (\<lambda>admin.
       if \<not> admin then Inr ()
       else
         bindR (if ap_allow_admins ap then Inr True
                else bindR (dindex asker ''id'') (\<lambda>uid.
                       admin_may ap uid (dget asker ''role'') (grant ''user'' ''impersonate-admins''))) (\<lambda>can.
           if can then Inr () else Inl (admin_err 403 ''YOU_CANNOT_IMPERSONATE_ADMINS'')))"

definition impersonation_row ::
    "site \<Rightarrow> admin_plugin \<Rightarrow> env \<Rightarrow> request \<Rightarrow> ids \<Rightarrow> pyval \<Rightarrow> pyval \<Rightarrow> row" where
  "impersonation_row es ap ev rq fresh target_id asker_id =
     [(''id'', VStr (fst fresh)), (''token'', VStr (snd fresh)), (''userId'', target_id),
      (''impersonatedBy'', asker_id), (''expiresAt'', VDate (now ev + ap_impersonation ap * 1000000)),
      (''ipAddress'', VStr (case get_request_ip (au_ip_lib (es_auth es)) (au_ip (es_auth es)) rq of
         Some ip \<Rightarrow> ip | None \<Rightarrow> [])),
      (''userAgent'', VStr (header rq ''user-agent'')), (''createdAt'', VDate (now ev)), (''updatedAt'', VDate (now ev))]"

text \<open>The cookies: the admin session to return to, and the new session until the browser closes.\<close>

definition impersonation_cookies :: "site \<Rightarrow> request \<Rightarrow> pyval \<Rightarrow> string \<Rightarrow> string list" where
  "impersonation_cookies es rq admin_token token =
     (let au = es_auth es; sign = sign_value (au_hmac au) (au_secret au);
          flag = (if is_dont_remember au rq then ''true'' else [])
      in [build_cookie au (sign (f_string es admin_token @ '':'' @ flag)) (Some (au_expires_in au)) ''admin_session'' True,
          build_cookie au (sign token) None ''session_token'' True,
          build_cookie au ''true'' None ''dont_remember'' True])"

definition admin_impersonate ::
    "site \<Rightarrow> admin_plugin \<Rightarrow> env \<Rightarrow> request \<Rightarrow> body \<Rightarrow> ids \<Rightarrow> (sworld, response) action" where
  "admin_impersonate es ap ev rq b fresh =
     admin_as es ap ev rq (grant ''user'' ''impersonate'') ''YOU_ARE_NOT_ALLOWED_TO_IMPERSONATE_USERS'' (\<lambda>v.
       bindA (liftR (request_json b)) (\<lambda>d.
       bindA (liftR (str_of es d ''userId'')) (\<lambda>uid.
       bindA (admin_target es (VStr uid)) (\<lambda>target.
       bindA (liftR (may_impersonate ap (va_user v) target)) (\<lambda>_.
       bindA (liftR (dindex target ''id'')) (\<lambda>target_id.
       bindA (liftR (dindex (va_user v) ''id'')) (\<lambda>asker_id.
       bindA (on_core (create_row (core es) ev ''session'' (impersonation_row es ap ev rq fresh target_id asker_id) True))
         (\<lambda>created.
           case created of
             None \<Rightarrow> raise (admin_err 500 ''FAILED_TO_CREATE_USER'')
           | Some session \<Rightarrow>
               bindA (liftR (dindex (va_session v) ''token'')) (\<lambda>admin_token.
                 ret (add_cookies (impersonation_cookies es rq admin_token (snd fresh))
                   (reply [(''session'', session_output es session), (''user'', user_output es target)])))))))))))"

definition admin_bad_request :: "string \<Rightarrow> exn" where
  "admin_bad_request message = api_error 400 ''BAD_REQUEST'' message"

definition server_fault :: "string \<Rightarrow> exn" where
  "server_fault message = api_error 500 ''INTERNAL_SERVER_ERROR'' message"

text \<open>The session that the admin cookie names, and whether it was remembered.\<close>

definition admin_cookie :: "site \<Rightarrow> request \<Rightarrow> (string \<times> string) option" where
  "admin_cookie es rq =
     (case get_cookie (es_auth es) rq ''admin_session'' of
        Some (c # cs) \<Rightarrow>
          (case unsign_value (au_hmac (es_auth es)) (au_secret (es_auth es)) (c # cs) of
             Some (x # xs) \<Rightarrow> (case partition_at CHR '':'' (x # xs) of (token, _, flag) \<Rightarrow> Some (token, flag))
           | _ \<Rightarrow> None)
      | _ \<Rightarrow> None)"

definition return_cookies :: "site \<Rightarrow> string \<Rightarrow> string \<Rightarrow> string list" where
  "return_cookies es token flag =
     (let au = es_auth es; signed = sign_value (au_hmac au) (au_secret au) token
      in (if flag \<noteq> []
          then [build_cookie au signed None ''session_token'' True, build_cookie au ''true'' None ''dont_remember'' True]
          else [build_cookie au signed (Some (au_expires_in au)) ''session_token'' True, clear_cookie au ''dont_remember'']) @
         [clear_cookie au ''admin_session''])"

definition admin_stop_impersonating :: "site \<Rightarrow> env \<Rightarrow> request \<Rightarrow> (sworld, response) action" where
  "admin_stop_impersonating es ev rq =
     bindA (admin_session es ev rq) (\<lambda>v.
     let by_id = dget (va_session v) ''impersonatedBy''
     in if \<not> py_truthy by_id then raise (admin_bad_request ''You are not impersonating anyone'')
        else
          bindA (find_by_id es by_id) (\<lambda>found.
            case found of
              None \<Rightarrow> raise (server_fault ''Failed to find user'')
            | Some admin \<Rightarrow>
                (case admin_cookie es rq of
                   None \<Rightarrow> raise (server_fault ''Failed to find admin session'')
                 | Some (token, flag) \<Rightarrow>
                     bindA (on_core (find_session (core es) ev token)) (\<lambda>held.
                     bindA (liftR (case held of
                              None \<Rightarrow> Inr None
                            | Some (s, u) \<Rightarrow>
                                bindR (dindex s ''userId'') (\<lambda>owner. bindR (dindex admin ''id'') (\<lambda>i.
                                  Inr (if py_eq owner i then Some (s, u) else None))))) (\<lambda>own.
                       case own of
                         None \<Rightarrow> raise (server_fault ''Failed to find admin session'')
                       | Some (s, u) \<Rightarrow>
                           bindA (liftR (dindex (va_session v) ''token'')) (\<lambda>imp_token.
                           bindA (end_session es ev imp_token) (\<lambda>_.
                             ret (add_cookies (return_cookies es token flag)
                               (reply [(''session'', session_output es s), (''user'', user_output es u)]))))))))) "

definition admin_revoke_user_session ::
    "site \<Rightarrow> admin_plugin \<Rightarrow> env \<Rightarrow> request \<Rightarrow> body \<Rightarrow> (sworld, response) action" where
  "admin_revoke_user_session es ap ev rq b =
     admin_as es ap ev rq (grant ''session'' ''revoke'') ''YOU_ARE_NOT_ALLOWED_TO_REVOKE_USERS_SESSIONS'' (\<lambda>_.
       bindA (liftR (request_json b)) (\<lambda>d.
       bindA (liftR (dindex d ''sessionToken'')) (\<lambda>token.
       bindA (end_session es ev token) (\<lambda>_.
         ret (reply [(''success'', VBool True)])))))"

definition admin_revoke_user_sessions ::
    "site \<Rightarrow> admin_plugin \<Rightarrow> env \<Rightarrow> request \<Rightarrow> body \<Rightarrow> (sworld, response) action" where
  "admin_revoke_user_sessions es ap ev rq b =
     admin_as es ap ev rq (grant ''session'' ''revoke'') ''YOU_ARE_NOT_ALLOWED_TO_REVOKE_USERS_SESSIONS'' (\<lambda>_.
       bindA (liftR (request_json b)) (\<lambda>d.
       bindA (liftR (str_of es d ''userId'')) (\<lambda>uid.
       bindA (on_core (delete_user_sessions (core es) ev uid)) (\<lambda>_.
         ret (reply [(''success'', VBool True)])))))"

definition admin_remove_user ::
    "site \<Rightarrow> admin_plugin \<Rightarrow> env \<Rightarrow> request \<Rightarrow> body \<Rightarrow> (sworld, response) action" where
  "admin_remove_user es ap ev rq b =
     admin_as es ap ev rq (grant ''user'' ''delete'') ''YOU_ARE_NOT_ALLOWED_TO_DELETE_USERS'' (\<lambda>v.
       bindA (liftR (request_json b)) (\<lambda>d.
       bindA (liftR (str_of es d ''userId'')) (\<lambda>uid.
       bindA (liftR (dindex (va_user v) ''id'')) (\<lambda>own.
         if py_eq (VStr uid) own then raise (admin_err 400 ''YOU_CANNOT_REMOVE_YOURSELF'')
         else
           bindA (admin_target es (VStr uid)) (\<lambda>_.
           bindA (on_core (delete_user_sessions (core es) ev uid)) (\<lambda>_.
           bindA (on_core (delete_user (core es) ev uid)) (\<lambda>_.
             ret (reply [(''success'', VBool True)]))))))))"

section \<open>Passwords and permissions\<close>

definition admin_set_user_password ::
    "site \<Rightarrow> admin_plugin \<Rightarrow> env \<Rightarrow> request \<Rightarrow> body \<Rightarrow> draws \<Rightarrow> (sworld, response) action" where
  "admin_set_user_password es ap ev rq b dr =
     admin_as es ap ev rq (grant ''user'' ''set-password'') ''YOU_ARE_NOT_ALLOWED_TO_SET_USERS_PASSWORD'' (\<lambda>_.
       bindA (liftR (request_json b)) (\<lambda>d.
       bindA (liftR (dindex d ''newPassword'')) (\<lambda>password.
       bindA (liftR (str_of es d ''userId'')) (\<lambda>uid.
       bindA (liftR (validate_password es password)) (\<lambda>_.
       bindA (admin_target es (VStr uid)) (\<lambda>_.
       bindA (liftR (hash_password_checked es dr rq password)) (\<lambda>hashed.
       bindA (on_rows (mem_find_many (store_ad es) ''account'' [Where ''userId'' (VStr uid)] None None None [])) (\<lambda>accounts.
       bindA (if list_ex (\<lambda>a. dget a ''providerId'' = VStr ''credential'') accounts
              then on_core (update_password (core es) ev uid hashed)
              else bindA (on_core (create_account (core es) (ev\<lparr>rnd_id := dr_account_id dr\<rparr>)
                     [(''userId'', VStr uid), (''providerId'', VStr ''credential''), (''accountId'', VStr uid),
                      (''password'', VStr hashed)] False)) (\<lambda>_. ret ())) (\<lambda>_.
         ret (reply [(''status'', VBool True)]))))))))))"

definition admin_has_permission ::
    "site \<Rightarrow> admin_plugin \<Rightarrow> env \<Rightarrow> request \<Rightarrow> body \<Rightarrow> (sworld, response) action" where
  "admin_has_permission es ap ev rq b =
     bindA (liftR (request_json b)) (\<lambda>d.
     let permissions = py_or (dget d ''permissions'') (dget d ''permission'')
     in if \<not> py_truthy permissions
        then raise (admin_bad_request ''invalid permission check. no permission(s) were passed.'')
        else
          bindA (admin_session es ev rq) (\<lambda>v.
          bindA (liftR (dindex (va_user v) ''id'')) (\<lambda>uid.
          bindA (liftR (admin_may ap uid (dget (va_user v) ''role'') permissions)) (\<lambda>ok.
            ret (reply [(''error'', VNone), (''success'', VBool ok)])))))"

text \<open>The hook after \<open>/list-sessions\<close>: a user does not see the sessions of admins acting as him.\<close>

fun own_sessions :: "pyval list \<Rightarrow> pyval list result" where
  "own_sessions [] = Inr []"
| "own_sessions (s # ss) =
     (case s of
        VDict d \<Rightarrow>
          bindR (own_sessions ss) (\<lambda>rest. Inr (if py_truthy (dget d ''impersonatedBy'') then rest else VDict d # rest))
      | _ \<Rightarrow> Inl AttributeError)"

definition filter_impersonated_sessions :: "response \<Rightarrow> response result" where
  "filter_impersonated_sessions rs =
     (case rs_body rs of
        VList items \<Rightarrow>
          bindR (own_sessions items) (\<lambda>kept. Inr \<lparr>rs_status = rs_status rs, rs_body = VList kept,
            rs_headers = rs_headers rs, rs_redirect = None\<rparr>)
      | _ \<Rightarrow> Inr rs)"

text \<open>The route table.\<close>

definition admin_dispatch ::
    "site \<Rightarrow> admin_plugin \<Rightarrow> env \<Rightarrow> request \<Rightarrow> body \<Rightarrow> draws \<Rightarrow> (sworld, response) action option" where
  "admin_dispatch es ap ev rq b dr =
     map_of
       [((''POST'', ''/admin/set-role''), admin_set_role es ap ev rq b),
        ((''GET'', ''/admin/get-user''), admin_get_user es ap ev rq),
        ((''POST'', ''/admin/create-user''), admin_create_user es ap ev rq b dr),
        ((''POST'', ''/admin/update-user''), admin_update_user es ap ev rq b),
        ((''GET'', ''/admin/list-users''), admin_list_users es ap ev rq),
        ((''POST'', ''/admin/list-user-sessions''), admin_list_user_sessions es ap ev rq b),
        ((''POST'', ''/admin/ban-user''), admin_ban_user es ap ev rq b),
        ((''POST'', ''/admin/unban-user''), admin_unban_user es ap ev rq b),
        ((''POST'', ''/admin/impersonate-user''), admin_impersonate es ap ev rq b (dr_session dr)),
        ((''POST'', ''/admin/stop-impersonating''), admin_stop_impersonating es ev rq),
        ((''POST'', ''/admin/revoke-user-session''), admin_revoke_user_session es ap ev rq b),
        ((''POST'', ''/admin/revoke-user-sessions''), admin_revoke_user_sessions es ap ev rq b),
        ((''POST'', ''/admin/remove-user''), admin_remove_user es ap ev rq b),
        ((''POST'', ''/admin/set-user-password''), admin_set_user_password es ap ev rq b dr),
        ((''POST'', ''/admin/has-permission''), admin_has_permission es ap ev rq b)]
       (rq_method rq, rq_path rq)"

end
