(* ===== verification/Multi_Session.thy ===== *)
theory Multi_Session
  imports Magic_Link
begin

text \<open>
  \<open>plugins_ext/multi_session.py\<close>: several sessions of one device, each proven by a signed cookie of its own
  beside the session cookie. The hooks get the answer that a handler gave.
\<close>

definition invalid_session_token :: exn where
  "invalid_session_token = api_error 401 ''INVALID_SESSION_TOKEN'' ''Invalid session token''"

section \<open>Cookies\<close>

definition is_multi_session_cookie :: "string \<Rightarrow> bool" where
  "is_multi_session_cookie key = str_contains key ''_multi-''"

definition multi_base :: "string \<Rightarrow> string" where
  "multi_base token = ''session_token_multi-'' @ str_lower token"

text \<open>The token that a cookie value proves; an empty one counts as none.\<close>

definition proven_token :: "auth \<Rightarrow> string \<Rightarrow> string option" where
  "proven_token au raw =
     (case unsign_value (au_hmac au) (au_secret au) raw of Some (c # cs) \<Rightarrow> Some (c # cs) | _ \<Rightarrow> None)"

definition device_cookies :: "request \<Rightarrow> (string \<times> string) list" where
  "device_cookies rq = filter (\<lambda>(k, _). is_multi_session_cookie k) (rq_cookies rq)"

definition device_tokens :: "auth \<Rightarrow> request \<Rightarrow> string list" where
  "device_tokens au rq = List.map_filter (\<lambda>(_, raw). proven_token au raw) (device_cookies rq)"

text \<open>The token of the cookie that is named after the token in the body, as a base name and a value.\<close>

definition requested_device :: "site \<Rightarrow> request \<Rightarrow> row \<Rightarrow> (string \<times> string) result" where
  "requested_device es rq d =
     bindR (require_fields d [''sessionToken'']) (\<lambda>_.
     bindR (text_value (dget d ''sessionToken'')) (\<lambda>asked.
       case get_cookie (es_auth es) rq (multi_base asked) of
         None \<Rightarrow> Inl invalid_session_token
       | Some raw \<Rightarrow>
           (case unsign_value (au_hmac (es_auth es)) (au_secret (es_auth es)) raw of
              None \<Rightarrow> Inl invalid_session_token
            | Some token \<Rightarrow> Inr (multi_base asked, token))))"

text \<open>Makes a session the main one of the browser.\<close>

definition activate_session ::
    "site \<Rightarrow> env \<Rightarrow> request \<Rightarrow> row \<Rightarrow> row \<Rightarrow> response \<Rightarrow> (sworld, response) action" where
  "activate_session es ev rq session user rs =
     bindA (liftR (set_session_cookies (es_auth es) ev rq session user)) (\<lambda>cookies.
     bindA (\<lambda>w. (Inr (), w\<lparr>sw_new_session := Some (session, Some user)\<rparr>)) (\<lambda>_.
       ret (add_cookies cookies rs)))"

definition pair_output :: "site \<Rightarrow> row \<times> row \<Rightarrow> pyval" where
  "pair_output es p = VDict [(''session'', session_output es (fst p)), (''user'', user_output es (snd p))]"

section \<open>Routes\<close>

text \<open>The sessions still valid, one for each user; a user id that cannot be hashed is refused.\<close>

fun device_sessions ::
    "site \<Rightarrow> env \<Rightarrow> pyval list \<Rightarrow> string list \<Rightarrow> (sworld, pyval list) action" where
  "device_sessions es ev seen [] = ret []"
| "device_sessions es ev seen (token # tokens) =
     bindA (on_core (find_session (core es) ev token)) (\<lambda>found.
       case found of
         None \<Rightarrow> device_sessions es ev seen tokens
       | Some (s, u) \<Rightarrow>
           bindA (liftR (date_of s ''expiresAt'')) (\<lambda>expires.
             if expires \<le> now ev then device_sessions es ev seen tokens
             else
               bindA (liftR (dindex u ''id'')) (\<lambda>uid.
               bindA (liftR (case uid of VList _ \<Rightarrow> Inl TypeError | VDict _ \<Rightarrow> Inl TypeError | _ \<Rightarrow> Inr ())) (\<lambda>_.
                 if list_ex (py_eq uid) seen then device_sessions es ev seen tokens
                 else
                   bindA (device_sessions es ev (uid # seen) tokens) (\<lambda>rest. ret (pair_output es (s, u) # rest))))))"

definition ms_list_device_sessions :: "site \<Rightarrow> env \<Rightarrow> request \<Rightarrow> (sworld, response) action" where
  "ms_list_device_sessions es ev rq =
     bindA (device_sessions es ev [] (device_tokens (es_auth es) rq)) (\<lambda>body. ret (reply_value (VList body)))"

definition ms_set_active ::
    "site \<Rightarrow> env \<Rightarrow> request \<Rightarrow> body \<Rightarrow> (sworld, response) action" where
  "ms_set_active es ev rq b =
     bindA (liftR (bindR (request_json b) (requested_device es rq))) (\<lambda>(base, token).
     bindA (on_core (find_session (core es) ev token)) (\<lambda>found.
     bindA (liftR (case found of
              None \<Rightarrow> Inr None
            | Some (s, u) \<Rightarrow> bindR (date_of s ''expiresAt'') (\<lambda>x. Inr (if x < now ev then None else Some (s, u))))) (\<lambda>live.
       case live of
         None \<Rightarrow>
           ret (add_cookies [clear_cookie (es_auth es) base]
             \<lparr>rs_status = 401, rs_body = VDict [(''code'', VStr ''INVALID_SESSION_TOKEN''),
                (''message'', VStr ''Invalid session token'')], rs_headers = [], rs_redirect = None\<rparr>)
       | Some (s, u) \<Rightarrow> activate_session es ev rq s u (reply_value (pair_output es (s, u))))))"

text \<open>The sessions of the device that are still valid, in the order of the cookies.\<close>

fun valid_device_sessions ::
    "site \<Rightarrow> env \<Rightarrow> string list \<Rightarrow> (sworld, (row \<times> row) list) action" where
  "valid_device_sessions es ev [] = ret []"
| "valid_device_sessions es ev (token # tokens) =
     bindA (on_core (find_session (core es) ev token)) (\<lambda>found.
     bindA (liftR (case found of
              None \<Rightarrow> Inr []
            | Some (s, u) \<Rightarrow> bindR (date_of s ''expiresAt'') (\<lambda>x. Inr (if x > now ev then [(s, u)] else [])))) (\<lambda>here.
     bindA (valid_device_sessions es ev tokens) (\<lambda>rest. ret (here @ rest))))"

definition ms_revoke :: "site \<Rightarrow> env \<Rightarrow> request \<Rightarrow> body \<Rightarrow> (sworld, response) action" where
  "ms_revoke es ev rq b =
     bindA (require_login es ev rq) (\<lambda>active.
     bindA (liftR (bindR (request_json b) (requested_device es rq))) (\<lambda>(base, token).
     bindA (on_core (delete_session (core es) ev token)) (\<lambda>_.
     let rs = add_cookies [clear_cookie (es_auth es) base] (reply [(''status'', VBool True)])
     in bindA (liftR (dindex (va_session active) ''token'')) (\<lambda>current.
          if \<not> py_eq current (VStr token) then ret rs
          else
            bindA (valid_device_sessions es ev (device_tokens (es_auth es) rq)) (\<lambda>valid.
              case valid of
                (s, u) # _ \<Rightarrow> activate_session es ev rq s u rs
              | [] \<Rightarrow> ret (add_cookies [clear_cookie (es_auth es) ''session_token'',
                         clear_cookie (es_auth es) ''dont_remember''] rs))))))"

section \<open>Hooks\<close>

definition set_cookie_values :: "response \<Rightarrow> string list" where
  "set_cookie_values rs = map snd (filter (\<lambda>(k, _). str_lower k = ''set-cookie'') (rs_headers rs))"

definition set_cookie_name :: "string \<Rightarrow> string" where
  "set_cookie_name v = strip (takeWhile (\<lambda>c. c \<noteq> CHR ''='') (takeWhile (\<lambda>c. c \<noteq> CHR '';'') v))"

text \<open>The tokens of the device that belong to the user, whose cookies give way to the new one.\<close>

fun stale_tokens :: "site \<Rightarrow> env \<Rightarrow> row option \<Rightarrow> string list \<Rightarrow> (sworld, string list) action" where
  "stale_tokens es ev user [] = ret []"
| "stale_tokens es ev user (token # tokens) =
     bindA (on_core (find_session (core es) ev token)) (\<lambda>found.
     bindA (liftR (case found of
              None \<Rightarrow> Inr False
            | Some (_, u) \<Rightarrow>
                bindR (dindex u ''id'') (\<lambda>i.
                bindR (case user of None \<Rightarrow> Inl TypeError | Some v \<Rightarrow> dindex v ''id'') (\<lambda>j. Inr (py_eq i j))))) (\<lambda>same.
     bindA (stale_tokens es ev user tokens) (\<lambda>rest. ret (if same then token # rest else rest))))"

fun delete_each :: "site \<Rightarrow> env \<Rightarrow> string list \<Rightarrow> (sworld, unit) action" where
  "delete_each es ev [] = ret ()"
| "delete_each es ev (t # ts) = bindA (on_core (delete_session (core es) ev t)) (\<lambda>_. delete_each es ev ts)"

definition ms_after_new_session ::
    "site \<Rightarrow> int \<Rightarrow> env \<Rightarrow> request \<Rightarrow> response \<Rightarrow> (sworld, response) action" where
  "ms_after_new_session es maximum ev rq rs w =
     (let au = es_auth es; initial = set_cookie_values rs
      in case sw_new_session w of
           None \<Rightarrow> (Inr rs, w)
         | Some (session, user) \<Rightarrow>
             if initial = [] then (Inr rs, w)
             else
               bindA (liftR (bindR (dindex session ''token'') text_value)) (\<lambda>token.
               let target = cookie_name au (multi_base token)
               in if target \<in> set_cookie_name ` set initial \<or> target \<in> fst ` set (rq_cookies rq) then ret rs
                  else
                    bindA (stale_tokens es ev user (device_tokens au rq)) (\<lambda>stale.
                    let rs1 = add_cookies (map (\<lambda>t. clear_cookie au (multi_base t)) stale) rs
                    in bindA (delete_each es ev stale) (\<lambda>_.
                       let main = list_ex (\<lambda>v. str_contains v (cookie_name au ''session_token'')) initial;
                           count = int (length (device_cookies rq)) - int (length stale) + (if main then 1 else 0)
                       in if count > maximum then ret rs1
                          else ret (add_cookies [build_cookie au (sign_value (au_hmac au) (au_secret au) token)
                                 (Some (au_expires_in au)) (multi_base token) True] rs1)))) w)"

text \<open>After a sign-out, every session that the device proves goes too.\<close>

definition ms_after_sign_out ::
    "site \<Rightarrow> env \<Rightarrow> request \<Rightarrow> response \<Rightarrow> (sworld, response) action" where
  "ms_after_sign_out es ev rq rs =
     (let au = es_auth es; tokens = device_tokens au rq
      in bindA (delete_each es ev tokens) (\<lambda>_.
           ret (add_cookies (map (\<lambda>t. clear_cookie au (multi_base t)) tokens) rs)))"

end
