(* ===== verification/Anonymous.thy ===== *)
theory Anonymous
  imports Magic_Link
begin

text \<open>
  \<open>plugins_ext/anonymous.py\<close>: a throwaway user with a session, removed once the visitor signs in for real.
  The generators of names and addresses and the callback of a link are parameters.
\<close>

record anonymous_plugin =
  an_domain :: "string option"
  an_on_link :: "(row \<Rightarrow> row \<Rightarrow> row \<Rightarrow> row option \<Rightarrow> unit result) option"
  an_disable_delete :: bool
  an_name :: "pyval result option"
  an_email :: "pyval result option"

definition ANONYMOUS_ERROR_CODES :: "(string \<times> string) list" where
  "ANONYMOUS_ERROR_CODES = [
     (''INVALID_EMAIL_FORMAT'', ''Email was not generated in a valid format''),
     (''FAILED_TO_CREATE_USER'', ''Failed to create user''),
     (''COULD_NOT_CREATE_SESSION'', ''Could not create session''),
     (''ANONYMOUS_USERS_CANNOT_SIGN_IN_AGAIN_ANONYMOUSLY'', ''Anonymous users cannot sign in again anonymously''),
     (''FAILED_TO_DELETE_ANONYMOUS_USER'', ''Failed to delete anonymous user''),
     (''FAILED_TO_DELETE_ANONYMOUS_USER_SESSIONS'', ''Failed to delete anonymous user sessions''),
     (''USER_IS_NOT_ANONYMOUS'', ''User is not anonymous''),
     (''DELETE_ANONYMOUS_USER_DISABLED'', ''Deleting anonymous users is disabled'')]"

definition anonymous_err :: "int \<Rightarrow> string \<Rightarrow> exn" where
  "anonymous_err status code =
     api_error status code (case map_of ANONYMOUS_ERROR_CODES code of Some m \<Rightarrow> m | None \<Rightarrow> [])"

definition ANONYMOUS_SCHEMA :: schema where
  "ANONYMOUS_SCHEMA =
     [(''user'', [(''isAnonymous'', (mk_field ''boolean'' False)\<lparr>f_input := False, f_default := Some (VBool False)\<rparr>)])]"

definition LINK_OR_VERIFY_PREFIXES :: "string list" where
  "LINK_OR_VERIFY_PREFIXES =
     [''/sign-in'', ''/sign-up'', ''/callback'', ''/oauth2/callback'', ''/magic-link/verify'', ''/email-otp/verify-email'',
      ''/one-tap/callback'', ''/passkey/verify-authentication'', ''/phone-number/verify'', ''/verify-email'']"

section \<open>Helpers\<close>

text \<open>The session of the request as it is, without sliding its expiry.\<close>

definition peek_session :: "site \<Rightarrow> env \<Rightarrow> request \<Rightarrow> (sworld, validated option) action" where
  "peek_session es ev rq =
     bindA (on_core (get_session (es_auth es) ev rq False True False)) (\<lambda>(found, _). ret found)"

definition matches_link_or_verify_path :: "request \<Rightarrow> bool" where
  "matches_link_or_verify_path rq \<longleftrightarrow> list_ex (starts_with (rq_path rq)) LINK_OR_VERIFY_PREFIXES"

definition response_set_session_cookie :: "auth \<Rightarrow> response option \<Rightarrow> bool" where
  "response_set_session_cookie au answer =
     (case answer of
        None \<Rightarrow> False
      | Some rs \<Rightarrow>
          list_ex (\<lambda>(k, v). str_lower k = ''set-cookie'' \<and> starts_with v (cookie_name au ''session_token'' @ ''=''))
            (rs_headers rs))"

definition is_anonymous :: "validated option \<Rightarrow> bool" where
  "is_anonymous found = (case found of Some v \<Rightarrow> py_truthy (dget (va_user v) ''isAnonymous'') | None \<Rightarrow> False)"

text \<open>The address of an anonymous user; \<open>new_id\<close> is the random id.\<close>

definition anon_email :: "anonymous_plugin \<Rightarrow> string \<Rightarrow> string result" where
  "anon_email an new_id =
     bindR (case an_email an of None \<Rightarrow> Inr VNone | Some r \<Rightarrow> r) (\<lambda>custom.
       if py_truthy custom then
         bindR (str_arg custom) (\<lambda>e. if matches_email e then Inr e else Inl (anonymous_err 400 ''INVALID_EMAIL_FORMAT''))
       else
         Inr (case an_domain an of
                Some (c # cs) \<Rightarrow> ''temp-'' @ new_id @ ''@'' @ c # cs
              | _ \<Rightarrow> new_id @ ''@anonymous.placeholder.invalid''))"

definition anonymous_session :: "site \<Rightarrow> env \<Rightarrow> request \<Rightarrow> (sworld, validated) action" where
  "anonymous_session es ev rq =
     bindA (on_core (get_session (es_auth es) ev rq True False False)) (\<lambda>(found, _).
       case found of
         None \<Rightarrow> raise (api_error 401 ''UNAUTHORIZED'' ''Not authenticated'')
       | Some v \<Rightarrow> ret v)"

section \<open>Routes\<close>

definition sign_in_anonymous ::
    "site \<Rightarrow> anonymous_plugin \<Rightarrow> env \<Rightarrow> request \<Rightarrow> draws \<Rightarrow> (sworld, response) action" where
  "sign_in_anonymous es an ev rq dr =
     bindA (peek_session es ev rq) (\<lambda>existing.
       if is_anonymous existing then raise (anonymous_err 400 ''ANONYMOUS_USERS_CANNOT_SIGN_IN_AGAIN_ANONYMOUSLY'')
       else
         bindA (liftR (anon_email an (dr_other_id dr))) (\<lambda>email.
         bindA (liftR (case an_name an of None \<Rightarrow> Inr VNone | Some r \<Rightarrow> r)) (\<lambda>name.
         bindA (on_core (create_user (core es) (ev\<lparr>rnd_id := dr_user_id dr\<rparr>)
                  [(''email'', VStr email), (''emailVerified'', VBool False), (''isAnonymous'', VBool True),
                   (''name'', py_or name (VStr ''Anonymous''))]
                  (Some [(''method'', VStr ''anonymous'')]) True False)) (\<lambda>created.
           case created of
             None \<Rightarrow> raise (anonymous_err 500 ''FAILED_TO_CREATE_USER'')
           | Some user \<Rightarrow>
               bindA (liftR (dindex user ''id'')) (\<lambda>uid.
               bindA (start_session_for es ev rq uid True user (dr_session dr)) (\<lambda>(session, cookies).
               bindA (liftR (dindex session ''token'')) (\<lambda>token.
                 ret (add_cookies cookies (token_reply es token user)))))))))"

definition delete_anonymous_user ::
    "site \<Rightarrow> anonymous_plugin \<Rightarrow> env \<Rightarrow> request \<Rightarrow> (sworld, response) action" where
  "delete_anonymous_user es an ev rq =
     bindA (anonymous_session es ev rq) (\<lambda>v.
       if an_disable_delete an then raise (anonymous_err 400 ''DELETE_ANONYMOUS_USER_DISABLED'')
       else if \<not> py_truthy (dget (va_user v) ''isAnonymous'') then raise (anonymous_err 403 ''USER_IS_NOT_ANONYMOUS'')
       else
         let uid = bindR (dindex (va_user v) ''id'') str_arg
         in bindA (catchA (bindA (liftR uid) (\<lambda>i. on_core (delete_user_sessions (core es) ev i)))
                (\<lambda>_. raise (anonymous_err 500 ''FAILED_TO_DELETE_ANONYMOUS_USER_SESSIONS''))) (\<lambda>_.
            bindA (catchA (bindA (liftR uid) (\<lambda>i. on_core (delete_user (core es) ev i)))
                (\<lambda>_. raise (anonymous_err 500 ''FAILED_TO_DELETE_ANONYMOUS_USER''))) (\<lambda>_.
              ret (add_cookies [clear_cookie (es_auth es) ''session_token'', clear_cookie (es_auth es) ''dont_remember'']
                (reply [(''success'', VBool True)])))))"

section \<open>The hook after a sign-in\<close>

text \<open>Removes the anonymous user unless it is the new one; a failure is swallowed.\<close>

definition drop_anonymous ::
    "site \<Rightarrow> anonymous_plugin \<Rightarrow> env \<Rightarrow> row \<Rightarrow> row \<Rightarrow> (sworld, unit) action" where
  "drop_anonymous es an ev old new_user =
     (if an_disable_delete an \<or> py_eq (dget new_user ''id'') (dget old ''id'') \<or> py_truthy (dget new_user ''isAnonymous'')
      then ret ()
      else
        catchA (bindA (liftR (bindR (dindex old ''id'') str_arg)) (\<lambda>i. on_core (delete_user (core es) ev i))) (\<lambda>_. ret ()))"

definition after_link_or_verify ::
    "site \<Rightarrow> anonymous_plugin \<Rightarrow> env \<Rightarrow> request \<Rightarrow> response option \<Rightarrow> (sworld, unit) action" where
  "after_link_or_verify es an ev rq answer =
     (if \<not> response_set_session_cookie (es_auth es) answer then ret ()
      else
        bindA (peek_session es ev rq) (\<lambda>existing.
          case existing of
            None \<Rightarrow> ret ()
          | Some v \<Rightarrow>
              if \<not> py_truthy (dget (va_user v) ''isAnonymous'') then ret ()
              else (\<lambda>w.
                case sw_new_session w of
                  None \<Rightarrow>
                    if rq_path rq = ''/sign-in/anonymous''
                    then (Inl (anonymous_err 400 ''ANONYMOUS_USERS_CANNOT_SIGN_IN_AGAIN_ANONYMOUSLY''), w)
                    else (Inr (), w)
                | Some (session, user) \<Rightarrow>
                    bindA (case an_on_link an of
                             None \<Rightarrow> ret ()
                           | Some f \<Rightarrow>
                               notify (PluginCall ''on_link_account'' [VDict (va_session v), VDict (va_user v), VDict session,
                                   (case user of Some u \<Rightarrow> VDict u | None \<Rightarrow> VNone)])
                                 (f (va_session v) (va_user v) session user)) (\<lambda>_.
                      drop_anonymous es an ev (va_user v) (case user of Some u \<Rightarrow> u | None \<Rightarrow> [])) w)))"

end
