(* ===== verification/Session_Hooks.thy ===== *)
theory Session_Hooks
  imports One_Time_Token
begin

text \<open>
  Small plugins around the session of a request: \<open>plugins_ext/bearer.py\<close>, \<open>custom_session.py\<close> and
  \<open>last_login_method.py\<close>. A request carries the jar that is parsed from its cookie header beside the header:
  the bearer plugin extends both, and of two cookies of one name the later counts, as in \<open>SimpleCookie\<close>.
\<close>

section \<open>Bearer tokens\<close>

definition BEARER_SCHEME :: string where
  "BEARER_SCHEME = ''bearer ''"

definition has_authorization :: "request \<Rightarrow> bool" where
  "has_authorization rq \<longleftrightarrow> header rq ''authorization'' \<noteq> []"

text \<open>The signed value that a bearer token is or becomes; \<open>None\<close> when a signature is required and missing.\<close>

definition bearer_signed :: "auth \<Rightarrow> bool \<Rightarrow> string \<Rightarrow> string option" where
  "bearer_signed au require_signature token =
     (if CHR ''.'' \<in> set token then Some token
      else if require_signature then None
      else Some (sign_value (au_hmac au) (au_secret au) token))"

definition with_cookie :: "auth \<Rightarrow> string \<Rightarrow> request \<Rightarrow> request" where
  "with_cookie au v rq =
     (let name = cookie_name au ''session_token''; existing = header rq ''cookie'';
          extended = (if existing \<noteq> [] then existing @ ''; '' @ name @ ''='' @ v else name @ ''='' @ v)
      in rq\<lparr>rq_headers := dset ''cookie'' extended (rq_headers rq), rq_cookies := dset name v (rq_cookies rq)\<rparr>)"

definition bearer_before :: "auth \<Rightarrow> bool \<Rightarrow> request \<Rightarrow> request" where
  "bearer_before au require_signature rq =
     (let authorization = header rq ''authorization''; token = strip (drop (length BEARER_SCHEME) authorization)
      in if str_lower (take (length BEARER_SCHEME) authorization) \<noteq> BEARER_SCHEME \<or> token = [] then rq
         else case bearer_signed au require_signature token of
                None \<Rightarrow> rq\<lparr>rq_headers := ddrop ''authorization'' (rq_headers rq)\<rparr>
              | Some proof_value \<Rightarrow>
                  (case unsign_value (au_hmac au) (au_secret au) proof_value of
                     None \<Rightarrow> rq
                   | Some raw \<Rightarrow> with_cookie au (sign_value (au_hmac au) (au_secret au) raw) rq))"

text \<open>The value of the session cookie that an answer sets; one that expires at once counts as none.\<close>

definition expires_now :: "string \<Rightarrow> bool" where
  "expires_now attr =
     (case partition_at CHR ''='' (strip attr) of (name, _, v) \<Rightarrow> str_lower (strip name) = ''max-age'' \<and> strip v = ''0'')"

fun session_cookie_value :: "string \<Rightarrow> (string \<times> string) list \<Rightarrow> string option" where
  "session_cookie_value name [] = None"
| "session_cookie_value name ((k, raw) # hs) =
     (if str_lower k \<noteq> ''set-cookie'' then session_cookie_value name hs
      else
        (case split_on CHR '';'' raw of
           [] \<Rightarrow> session_cookie_value name hs
         | part # attrs \<Rightarrow>
             (case partition_at CHR ''='' part of (cname, _, v) \<Rightarrow>
                if strip cname \<noteq> name then session_cookie_value name hs
                else if list_ex expires_now attrs then None
                else Some v)))"

definition bearer_after :: "auth \<Rightarrow> response \<Rightarrow> response" where
  "bearer_after au rs =
     (case session_cookie_value (cookie_name au ''session_token'') (rs_headers rs) of
        None \<Rightarrow> rs
      | Some v \<Rightarrow> add_expose_headers [''set-auth-token''] (rs\<lparr>rs_headers := rs_headers rs @ [(''set-auth-token'', v)]\<rparr>))"

section \<open>Custom sessions\<close>

text \<open>\<open>fn\<close> is the function of the integrator over the body of the core route.\<close>

definition custom_get_session ::
    "site \<Rightarrow> (pyval \<Rightarrow> pyval result) \<Rightarrow> env \<Rightarrow> request \<Rightarrow> (sworld, response) action" where
  "custom_get_session es fn ev rq =
     bindA (catchA (bindA (get_session_handler es ev rq False) (\<lambda>rs. ret (Some rs))) (\<lambda>_. ret None)) (\<lambda>answer.
       case answer of
         None \<Rightarrow> ret (reply_value VNone)
       | Some rs \<Rightarrow>
           if rs_body rs = VNone then ret (reply_value VNone)
           else bindA (liftR (fn (rs_body rs))) (\<lambda>v. ret ((reply_value v)\<lparr>rs_headers := rs_headers rs\<rparr>)))"

fun each_value :: "(pyval \<Rightarrow> pyval result) \<Rightarrow> pyval list \<Rightarrow> pyval list result" where
  "each_value fn [] = Inr []"
| "each_value fn (v # vs) = bindR (fn v) (\<lambda>x. bindR (each_value fn vs) (\<lambda>xs. Inr (x # xs)))"

definition matches_list_device_sessions :: "bool \<Rightarrow> request \<Rightarrow> bool" where
  "matches_list_device_sessions should_mutate rq \<longleftrightarrow>
     rq_path rq = ''/multi-session/list-device-sessions'' \<and> should_mutate"

definition custom_mutate :: "(pyval \<Rightarrow> pyval result) \<Rightarrow> response \<Rightarrow> response result" where
  "custom_mutate fn rs =
     (case rs_body rs of
        VList items \<Rightarrow> bindR (each_value fn items) (\<lambda>vs. Inr (rs\<lparr>rs_body := VList vs\<rparr>))
      | _ \<Rightarrow> Inr rs)"

section \<open>The last login method\<close>

text \<open>The callbacks see the request; \<open>lm_before_store\<close> is the consent gate.\<close>

record login_method =
  lm_cookie :: string
  lm_max_age :: int
  lm_resolve :: "(request \<Rightarrow> string option result) option"
  lm_in_database :: bool
  lm_before_store :: "(request \<Rightarrow> string \<Rightarrow> bool result) option"

definition rstrip_slash :: "string \<Rightarrow> string" where
  "rstrip_slash s = rev (dropWhile (\<lambda>c. c = CHR ''/'') (rev s))"

definition default_resolve_method :: "string \<Rightarrow> (string \<rightharpoonup> string) \<Rightarrow> string option" where
  "default_resolve_method path params =
     (let param = (\<lambda>k other. case params k of Some (c # cs) \<Rightarrow> c # cs | _ \<Rightarrow> other)
      in if starts_with path ''/callback/'' \<or> starts_with path ''/oauth2/callback/''
         then Some (param ''id'' (param ''providerId'' (param ''provider''
                (case rpartition_at CHR ''/'' (rstrip_slash path) of (_, found, b) \<Rightarrow> if found then b else rstrip_slash path))))
         else if path = ''/sign-in/email'' \<or> path = ''/sign-up/email'' then Some ''email''
         else if str_contains path ''siwe'' then Some ''siwe''
         else if str_contains path ''/passkey/verify-authentication'' then Some ''passkey''
         else if starts_with path ''/magic-link/verify'' then Some ''magic-link''
         else if path = ''/sign-in/email-otp'' then Some ''email-otp''
         else None)"

definition resolve_method :: "login_method \<Rightarrow> request option \<Rightarrow> (string \<rightharpoonup> string) \<Rightarrow> string option result" where
  "resolve_method lm ctx params =
     (case ctx of
        None \<Rightarrow> Inr None
      | Some rq \<Rightarrow>
          (case lm_resolve lm of
             Some f \<Rightarrow> f rq
           | None \<Rightarrow> Inr (default_resolve_method (rq_path rq) params)))"

definition has_session_token :: "auth \<Rightarrow> response \<Rightarrow> bool" where
  "has_session_token au rs \<longleftrightarrow>
     list_ex (\<lambda>(k, v). str_lower k = ''set-cookie'' \<and> str_contains v (cookie_name au ''session_token'')) (rs_headers rs)"

definition login_cookie :: "auth \<Rightarrow> login_method \<Rightarrow> string \<Rightarrow> string" where
  "login_cookie au lm v =
     join_parts ''; ''
       ([lm_cookie lm @ ''='' @ v, ''Path=/'', ''SameSite=Lax'', ''Max-Age='' @ int_str (lm_max_age lm)] @
        (if au_secure au then [''Secure''] else []) @
        (if au_domain au \<noteq> [] then [''Domain='' @ au_domain au] else []))"

definition may_store_cookie :: "login_method \<Rightarrow> request \<Rightarrow> string \<Rightarrow> bool" where
  "may_store_cookie lm rq m =
     (case lm_before_store lm of
        None \<Rightarrow> True
      | Some f \<Rightarrow> (case f rq m of Inr ok \<Rightarrow> ok | Inl _ \<Rightarrow> False))"

definition login_after ::
    "site \<Rightarrow> login_method \<Rightarrow> env \<Rightarrow> request \<Rightarrow> (string \<rightharpoonup> string) \<Rightarrow> response \<Rightarrow> (sworld, response) action" where
  "login_after es lm ev rq params rs =
     bindA (liftR (resolve_method lm (Some rq) params)) (\<lambda>found.
       case found of
         Some (c # cs) \<Rightarrow> (\<lambda>w.
           let m = c # cs;
               rs' = (if has_session_token (es_auth es) rs \<and> may_store_cookie lm rq m
                      then add_cookies [login_cookie (es_auth es) lm m] rs else rs)
           in (case sw_new_session w of
                 Some (session, user) \<Rightarrow>
                   if \<not> lm_in_database lm then (Inr rs', w)
                   else
                     bindA (liftR (case user of Some u \<Rightarrow> dindex u ''id'' | None \<Rightarrow> Inl TypeError)) (\<lambda>uid.
                     bindA (on_core (update_user (core es) ev uid [(''lastLoginMethod'', VStr m)])) (\<lambda>_. ret rs')) w
               | None \<Rightarrow> (Inr rs', w)))
       | _ \<Rightarrow> ret rs)"

definition login_user_before :: "login_method \<Rightarrow> request option \<Rightarrow> (string \<rightharpoonup> string) \<Rightarrow> row \<Rightarrow> before_result result" where
  "login_user_before lm ctx params user =
     bindR (resolve_method lm ctx params) (\<lambda>found.
       Inr (case found of
              Some (c # cs) \<Rightarrow> MergeData (dset ''lastLoginMethod'' (VStr (c # cs)) user)
            | _ \<Rightarrow> Keep))"

end
