(* ===== verification/Username.thy ===== *)
theory Username
  imports Magic_Link
begin

text \<open>
  \<open>plugins_ext/username.py\<close>: sign-in by a username. The validators and normalisers of the options are
  parameters over texts; \<open>un_mail_on_sign_in\<close> is the option \<open>send_on_sign_in\<close> of \<open>EmailVerification\<close>. The
  before-hooks of \<open>/sign-up/email\<close> and \<open>/update-user\<close> change the body they are given, which is what they
  return here.
\<close>

section \<open>Options and errors\<close>

definition USERNAME_ERROR_CODES :: "(string \<times> string) list" where
  "USERNAME_ERROR_CODES = [
     (''INVALID_USERNAME_OR_PASSWORD'', ''Invalid username or password''),
     (''EMAIL_NOT_VERIFIED'', ''Email not verified''),
     (''UNEXPECTED_ERROR'', ''Unexpected error''),
     (''USERNAME_IS_ALREADY_TAKEN'', ''Username is already taken. Please try another.''),
     (''USERNAME_TOO_SHORT'', ''Username is too short''),
     (''USERNAME_TOO_LONG'', ''Username is too long''),
     (''INVALID_USERNAME'', ''Username is invalid''),
     (''INVALID_DISPLAY_USERNAME'', ''Display username is invalid''),
     (''USERNAME_IS_IMMUTABLE'', ''Username cannot be updated'')]"

definition username_err :: "int \<Rightarrow> string \<Rightarrow> exn" where
  "username_err status code =
     api_error status code (case map_of USERNAME_ERROR_CODES code of Some m \<Rightarrow> m | None \<Rightarrow> [])"

text \<open>\<open>un_normalize\<close>: the default lower-casing, switched off, or a function. \<open>un_post\<close>: post-normalization.\<close>

datatype normalizer = LowerCase | NoChange | NormalizeWith "string \<Rightarrow> string"

datatype when_validated = Unset | PreNormalization | PostNormalization

record username_plugin =
  un_min :: int
  un_max :: int
  un_validator :: "(string \<Rightarrow> bool result) option"
  un_display_validator :: "(string \<Rightarrow> bool result) option"
  un_normalize :: normalizer
  un_display_normalize :: "(string \<Rightarrow> string) option"
  un_order :: when_validated
  un_display_order :: when_validated
  un_immutable :: bool
  un_display :: bool
  un_mail_on_sign_in :: bool

definition HTTP_HOOK_PATHS :: "string list" where
  "HTTP_HOOK_PATHS = [''/sign-up/email'', ''/update-user'']"

text \<open>\<open>^[a-zA-Z0-9_.]+$\<close> under \<open>re.match\<close>: \<open>$\<close> also matches before one final newline.\<close>

definition username_char :: "char \<Rightarrow> bool" where
  "username_char c \<longleftrightarrow> is_alnum c \<or> c = CHR ''_'' \<or> c = CHR ''.''"

definition username_text :: "string \<Rightarrow> bool" where
  "username_text s \<longleftrightarrow> s \<noteq> [] \<and> list_all username_char s"

definition matches_username :: "string \<Rightarrow> bool" where
  "matches_username s \<longleftrightarrow> username_text s \<or> (s \<noteq> [] \<and> last s = CHR 0x0A \<and> username_text (butlast s))"

section \<open>Normalisation and validation\<close>

definition normalize_name :: "username_plugin \<Rightarrow> string \<Rightarrow> string" where
  "normalize_name un s =
     (case un_normalize un of NoChange \<Rightarrow> s | NormalizeWith f \<Rightarrow> f s | LowerCase \<Rightarrow> str_lower s)"

definition normalize_display :: "username_plugin \<Rightarrow> string \<Rightarrow> string" where
  "normalize_display un s = (case un_display_normalize un of Some f \<Rightarrow> f s | None \<Rightarrow> s)"

text \<open>The same on a value that need not be a text; these are the input transforms of the schema.\<close>

definition normalize_value :: "(string \<Rightarrow> string) \<Rightarrow> pyval \<Rightarrow> pyval" where
  "normalize_value f v = (case v of VStr s \<Rightarrow> VStr (f s) | _ \<Rightarrow> v)"

definition username_schema :: "username_plugin \<Rightarrow> schema" where
  "username_schema un =
     [(''user'',
       (''username'', (mk_field ''string'' False)\<lparr>f_unique := True,
          f_transform_input := Some (normalize_value (normalize_name un))\<rparr>) #
       (if un_display un
        then [(''displayUsername'', (mk_field ''string'' False)\<lparr>f_transform_input :=
                Some (normalize_value (normalize_display un))\<rparr>)]
        else []))]"

definition run_validator :: "username_plugin \<Rightarrow> string \<Rightarrow> bool result" where
  "run_validator un s = (case un_validator un of Some f \<Rightarrow> f s | None \<Rightarrow> Inr (matches_username s))"

text \<open>The code of the first failure, if any.\<close>

definition name_fault :: "username_plugin \<Rightarrow> string \<Rightarrow> string option result" where
  "name_fault un s =
     (if int (length s) < un_min un then Inr (Some ''USERNAME_TOO_SHORT'')
      else if int (length s) > un_max un then Inr (Some ''USERNAME_TOO_LONG'')
      else bindR (run_validator un s) (\<lambda>ok. Inr (if ok then None else Some ''INVALID_USERNAME'')))"

definition validate_value :: "username_plugin \<Rightarrow> string \<Rightarrow> string option result" where
  "validate_value un s = name_fault un (if un_order un = PostNormalization then normalize_name un s else s)"

definition refuse_fault :: "int \<Rightarrow> string option \<Rightarrow> unit result" where
  "refuse_fault status fault = (case fault of None \<Rightarrow> Inr () | Some code \<Rightarrow> Inl (username_err status code))"

definition find_username :: "site \<Rightarrow> username_plugin \<Rightarrow> string \<Rightarrow> (sworld, row option) action" where
  "find_username es un s =
     on_rows (mem_find_one (store_ad es) ''user'' [Where ''username'' (VStr (normalize_name un s))] [])"

text \<open>The check of a display name that is given.\<close>

definition display_ok :: "username_plugin \<Rightarrow> string \<Rightarrow> unit result" where
  "display_ok un s =
     (case un_display_validator un of
        None \<Rightarrow> Inr ()
      | Some f \<Rightarrow>
          bindR (f (if un_display_order un = PostNormalization then normalize_display un s else s)) (\<lambda>ok.
            if ok then Inr () else Inl (username_err 400 ''INVALID_DISPLAY_USERNAME'')))"

text \<open>Whether the row that holds the name is another one than that of the user.\<close>

definition taken_by_other :: "row option \<Rightarrow> pyval \<Rightarrow> bool result" where
  "taken_by_other found uid =
     (case found of
        None \<Rightarrow> Inr False
      | Some r \<Rightarrow> if \<not> py_truthy uid then Inr True else bindR (dindex r ''id'') (\<lambda>i. Inr (\<not> py_eq i uid)))"

definition validate_full :: "site \<Rightarrow> username_plugin \<Rightarrow> string \<Rightarrow> pyval \<Rightarrow> pyval \<Rightarrow> (sworld, unit) action" where
  "validate_full es un name display uid =
     bindA (liftR (bindR (validate_value un name) (refuse_fault 400))) (\<lambda>_.
     bindA (find_username es un name) (\<lambda>found.
     bindA (liftR (taken_by_other found uid)) (\<lambda>other.
       if other then raise (username_err 400 ''USERNAME_IS_ALREADY_TAKEN'')
       else if \<not> py_truthy display then ret ()
       else liftR (case display of
                     VStr s \<Rightarrow> display_ok un s
                   | _ \<Rightarrow> if un_display_validator un = None then Inr () else Inl TypeError))))"

section \<open>Database hooks\<close>

text \<open>The data to store, with the name that the request carries; \<open>ctx\<close> is absent for internal calls.\<close>

definition merge_name :: "username_plugin \<Rightarrow> bool \<Rightarrow> string \<Rightarrow> pyval \<Rightarrow> row \<Rightarrow> row" where
  "merge_name un is_update name display data =
     (let merged = dset ''username'' (VStr name) data
      in if \<not> un_display un then merged
         else if py_truthy display then dset ''displayUsername'' display merged
         else if is_update then merged
         else dset ''displayUsername'' (VStr name) merged)"

definition given_or_body :: "row \<Rightarrow> row \<Rightarrow> string \<Rightarrow> pyval" where
  "given_or_body data b k = (if has_key data k then dget data k else dget b k)"

definition username_db_before ::
    "site \<Rightarrow> username_plugin \<Rightarrow> env \<Rightarrow> (request \<times> body) option \<Rightarrow> bool \<Rightarrow> row \<Rightarrow> (sworld, row) action" where
  "username_db_before es un ev ctx is_update data =
     bindA (liftR (case ctx of None \<Rightarrow> Inr [] | Some (_, b) \<Rightarrow> request_json b)) (\<lambda>b.
     let display = given_or_body data b ''displayUsername'';
         skip = (case ctx of None \<Rightarrow> False | Some (rq, _) \<Rightarrow> rq_path rq \<in> set HTTP_HOOK_PATHS)
     in case given_or_body data b ''username'' of
          VStr (c # cs) \<Rightarrow>
            bindA (if skip then ret ()
                   else
                     bindA (if \<not> is_update then ret VNone
                            else
                              bindA (case ctx of None \<Rightarrow> ret None | Some (rq, _) \<Rightarrow> load_session es ev rq) (\<lambda>session.
                              bindA (liftR (case session of None \<Rightarrow> Inr VNone | Some v \<Rightarrow> dindex (va_user v) ''id'')) (\<lambda>uid.
                                ret (py_or uid (dget data ''id''))))) (\<lambda>uid.
                       validate_full es un (c # cs) display uid)) (\<lambda>_.
              ret (merge_name un is_update (c # cs) display data))
        | _ \<Rightarrow> ret (if py_truthy display \<and> un_display un then dset ''displayUsername'' display data else data))"

section \<open>Hooks before the core routes\<close>

definition hook_infer_display :: "username_plugin \<Rightarrow> row \<Rightarrow> row result" where
  "hook_infer_display un b =
     (case dget b ''displayUsername'' of
        VStr s \<Rightarrow>
          if has_key b ''username'' then Inr b
          else bindR (validate_value un s) (\<lambda>fault. Inr (if fault = None then dset ''username'' (VStr s) b else b))
      | _ \<Rightarrow> Inr b)"

text \<open>The name of the session's user may not change once it is set.\<close>

definition immutable_ok :: "username_plugin \<Rightarrow> validated option \<Rightarrow> string \<Rightarrow> unit result" where
  "immutable_ok un session normalized =
     (let current = (case session of Some v \<Rightarrow> dget (va_user v) ''username'' | None \<Rightarrow> VNone)
      in if un_immutable un \<and> py_truthy current \<and> \<not> py_eq current (VStr normalized)
         then Inl (username_err 400 ''USERNAME_IS_IMMUTABLE'') else Inr ())"

definition hook_validate_name ::
    "site \<Rightarrow> username_plugin \<Rightarrow> env \<Rightarrow> request \<Rightarrow> string \<Rightarrow> (sworld, unit) action" where
  "hook_validate_name es un ev rq name =
     (let is_update = (rq_path rq = ''/update-user'')
      in bindA (liftR (bindR (validate_value un name) (refuse_fault 400))) (\<lambda>_.
         bindA (if is_update then load_session es ev rq else ret None) (\<lambda>session.
         bindA (liftR (if is_update then immutable_ok un session (normalize_name un name) else Inr ())) (\<lambda>_.
         bindA (find_username es un name) (\<lambda>existing.
           if rq_path rq = ''/sign-up/email'' \<and> existing \<noteq> None then raise (username_err 400 ''USERNAME_IS_ALREADY_TAKEN'')
           else
             bindA (liftR (case (is_update, existing) of
                      (True, Some r) \<Rightarrow>
                        (case session of
                           None \<Rightarrow> Inr True
                         | Some v \<Rightarrow> bindR (dindex r ''id'') (\<lambda>i. bindR (dindex (va_user v) ''id'') (\<lambda>uid. Inr (\<not> py_eq i uid))))
                    | _ \<Rightarrow> Inr False)) (\<lambda>other.
               if other then raise (username_err 400 ''USERNAME_IS_ALREADY_TAKEN'') else ret ()))))))"

definition hook_validate :: "site \<Rightarrow> username_plugin \<Rightarrow> env \<Rightarrow> request \<Rightarrow> row \<Rightarrow> (sworld, unit) action" where
  "hook_validate es un ev rq b =
     bindA (case dget b ''username'' of VStr s \<Rightarrow> hook_validate_name es un ev rq s | _ \<Rightarrow> ret ()) (\<lambda>_.
       if \<not> un_display un then ret ()
       else liftR (case dget b ''displayUsername'' of VStr s \<Rightarrow> display_ok un s | _ \<Rightarrow> Inr ()))"

definition hook_default_display :: "username_plugin \<Rightarrow> row \<Rightarrow> row" where
  "hook_default_display un b =
     (if un_display un \<and> py_truthy (dget b ''username'') \<and> \<not> py_truthy (dget b ''displayUsername'')
      then dset ''displayUsername'' (dget b ''username'') b else b)"

text \<open>The hooks in their order, on the body of a request to one of the two paths.\<close>

definition username_before :: "site \<Rightarrow> username_plugin \<Rightarrow> env \<Rightarrow> request \<Rightarrow> row \<Rightarrow> (sworld, row) action" where
  "username_before es un ev rq b =
     (let sign_up = (rq_path rq = ''/sign-up/email'')
      in bindA (liftR (if sign_up then hook_infer_display un b else Inr b)) (\<lambda>b1.
         bindA (if rq_path rq \<in> set HTTP_HOOK_PATHS then hook_validate es un ev rq b1 else ret ()) (\<lambda>_.
           ret (if sign_up then hook_default_display un b1 else b1))))"

section \<open>Routes\<close>

definition invalid_login :: exn where
  "invalid_login = username_err 401 ''INVALID_USERNAME_OR_PASSWORD''"

text \<open>The check of a credential of the user, by the plugin's own query.\<close>

definition username_credential :: "site \<Rightarrow> row \<Rightarrow> pyval \<Rightarrow> (sworld, unit) action" where
  "username_credential es user password =
     bindA (liftR (dindex user ''id'')) (\<lambda>uid.
     bindA (on_rows (mem_find_one (store_ad es) ''account'' [Where ''userId'' uid, Where ''providerId'' (VStr ''credential'')] []))
       (\<lambda>account.
          case account of
            None \<Rightarrow> raise invalid_login
          | Some a \<Rightarrow>
              if \<not> py_truthy (dget a ''password'') then raise invalid_login
              else bindA (liftR (check_stored es (dget a ''password'') password)) (\<lambda>ok. if ok then ret () else raise invalid_login)))"

text \<open>An unverified user is refused, after a mail where the options ask for one.\<close>

definition username_unverified :: "site \<Rightarrow> username_plugin \<Rightarrow> env \<Rightarrow> row \<Rightarrow> row \<Rightarrow> (sworld, 'a) action" where
  "username_unverified es un ev b user =
     bindA (if un_mail_on_sign_in un then send_verification_email es ev user (or_root (dget b ''callbackURL'')) else ret False)
       (\<lambda>_. raise (username_err 403 ''EMAIL_NOT_VERIFIED''))"

definition username_start ::
    "site \<Rightarrow> env \<Rightarrow> request \<Rightarrow> row \<Rightarrow> row \<Rightarrow> ids \<Rightarrow> (sworld, response) action" where
  "username_start es ev rq b user fresh =
     bindA (liftR (dindex user ''id'')) (\<lambda>uid.
     bindA (start_session_for es ev rq uid (dget b ''rememberMe'' \<noteq> VBool False) user fresh) (\<lambda>(session, cookies).
     bindA (liftR (dindex session ''token'')) (\<lambda>token.
     let cb = dget b ''callbackURL'';
         rs = add_cookies cookies (reply [(''redirect'', VBool (py_truthy cb)), (''token'', token), (''url'', cb),
                (''user'', user_output es user)])
     in ret (if py_truthy cb then rs\<lparr>rs_headers := rs_headers rs @ [(''location'', f_string es cb)]\<rparr> else rs))))"

text \<open>
  The name as a route checks it. A list or an object has a length too, but no validator takes it.
\<close>

definition checked_name :: "username_plugin \<Rightarrow> (string \<Rightarrow> string) \<Rightarrow> pyval \<Rightarrow> string result" where
  "checked_name un prepare v =
     (case v of
        VStr s \<Rightarrow> bindR (bindR (name_fault un (prepare s)) (refuse_fault 422)) (\<lambda>_. Inr (prepare s))
      | _ \<Rightarrow>
          bindR (py_len v) (\<lambda>n.
            if n < un_min un then Inl (username_err 422 ''USERNAME_TOO_SHORT'')
            else if n > un_max un then Inl (username_err 422 ''USERNAME_TOO_LONG'')
            else Inl TypeError))"

definition username_sign_in ::
    "site \<Rightarrow> username_plugin \<Rightarrow> env \<Rightarrow> request \<Rightarrow> body \<Rightarrow> ids \<Rightarrow> (sworld, response) action" where
  "username_sign_in es un ev rq b fresh =
     bindA (liftR (request_json b)) (\<lambda>d.
     let password = dget d ''password''
     in if \<not> py_truthy (dget d ''username'') \<or> \<not> py_truthy password then raise invalid_login
        else
          bindA (liftR (checked_name un (if un_order un = PreNormalization then normalize_name un else id) (dget d ''username''))) (\<lambda>name.
          bindA (liftR (assert_password_not_too_long es password)) (\<lambda>_.
          bindA (find_username es un name) (\<lambda>found.
            case found of
              None \<Rightarrow> bindA (liftR (dummy_verify password)) (\<lambda>_. raise invalid_login)
            | Some user \<Rightarrow>
                bindA (username_credential es user password) (\<lambda>_.
                  if es_require_verified es \<and> \<not> py_truthy (dget user ''emailVerified'')
                  then username_unverified es un ev d user
                  else username_start es ev rq d user fresh)))))"

definition username_available ::
    "site \<Rightarrow> username_plugin \<Rightarrow> body \<Rightarrow> (sworld, response) action" where
  "username_available es un b =
     bindA (liftR (request_json b)) (\<lambda>d.
       if \<not> py_truthy (dget d ''username'') then raise (username_err 422 ''INVALID_USERNAME'')
       else
         bindA (liftR (checked_name un id (dget d ''username''))) (\<lambda>name.
         bindA (find_username es un name) (\<lambda>found. ret (reply [(''available'', VBool (found = None))]))))"

end
