(* ===== verification/Phone_Number.thy ===== *)
theory Phone_Number
  imports Magic_Link
begin

text \<open>
  \<open>plugins_ext/phone_number.py\<close>: sign-in, verification and password resets by codes sent to a phone. The
  senders, the validator, the custom verifier and the generators of a new user are parameters; the code that a
  call draws is the argument \<open>otp\<close>. A sender may fail without failing the request.
\<close>

section \<open>Options and errors\<close>

definition PHONE_ERROR_CODES :: "(string \<times> string) list" where
  "PHONE_ERROR_CODES = [
     (''INVALID_PHONE_NUMBER'', ''Invalid phone number''),
     (''PHONE_NUMBER_EXIST'', ''Phone number already exists''),
     (''PHONE_NUMBER_NOT_EXIST'', ''phone number isn'' @ [CHR 0x27] @ ''t registered''),
     (''INVALID_PHONE_NUMBER_OR_PASSWORD'', ''Invalid phone number or password''),
     (''UNEXPECTED_ERROR'', ''Unexpected error''),
     (''OTP_NOT_FOUND'', ''OTP not found''),
     (''OTP_EXPIRED'', ''OTP expired''),
     (''INVALID_OTP'', ''Invalid OTP''),
     (''PHONE_NUMBER_NOT_VERIFIED'', ''Phone number not verified''),
     (''PHONE_NUMBER_CANNOT_BE_UPDATED'', ''Phone number cannot be updated''),
     (''SEND_OTP_NOT_IMPLEMENTED'', ''sendOTP not implemented''),
     (''TOO_MANY_ATTEMPTS'', ''Too many attempts'')]"

definition phone_err :: "string \<Rightarrow> int \<Rightarrow> exn" where
  "phone_err code status =
     api_error status code (case map_of PHONE_ERROR_CODES code of Some m \<Rightarrow> m | None \<Rightarrow> [])"

definition PHONE_SCHEMA :: schema where
  "PHONE_SCHEMA =
     [(''user'',
       [(''phoneNumber'', (mk_field ''string'' False)\<lparr>f_unique := True\<rparr>),
        (''phoneNumberVerified'', (mk_field ''boolean'' False)\<lparr>f_input := False\<rparr>)])]"

type_synonym otp_sender = "string \<Rightarrow> string \<Rightarrow> unit result"

text \<open>\<open>sign_up_on_verification\<close>: the address and the name of a new user by the phone number.\<close>

record temp_user =
  tu_email :: "string \<Rightarrow> pyval result"
  tu_name :: "(string \<Rightarrow> pyval result) option"

record phone_plugin =
  ph_expires_in :: int
  ph_allowed :: "int option"
  ph_send :: "otp_sender option"
  ph_verify :: "(string \<Rightarrow> string \<Rightarrow> bool result) option"
  ph_send_reset :: "otp_sender option"
  ph_validator :: "(string \<Rightarrow> bool result) option"
  ph_require_verified :: bool
  ph_callback :: "(string \<Rightarrow> row \<Rightarrow> unit result) option"
  ph_sign_up :: "temp_user option"

definition VERIFY_RESERVED :: "string list" where
  "VERIFY_RESERVED = [''phoneNumber'', ''code'', ''disableSession'', ''updatePhoneNumber'']"

section \<open>Helpers\<close>

definition required_str :: "row \<Rightarrow> string \<Rightarrow> string result" where
  "required_str b k =
     (case dget b k of
        VStr s \<Rightarrow> Inr s
      | _ \<Rightarrow> Inl (api_error 400 ''INVALID_BODY'' ([CHR 0x27] @ k @ [CHR 0x27] @ '' is required'')))"

text \<open>The counter behind the first colon; a missing, corrupt or negative one counts as 0.\<close>

definition parse_attempts :: "string \<Rightarrow> int" where
  "parse_attempts v =
     (case split_on CHR '':'' v of
        _ # raw # _ \<Rightarrow>
          if CHR ''_'' \<in> set raw then 0
          else
            (case parse_int (if strip raw = [] then ''0'' else strip raw) of
               Some n \<Rightarrow> if 0 < n \<and> n \<le> 2 ^ 53 - 1 then n else 0
             | None \<Rightarrow> 0)
      | _ \<Rightarrow> 0)"

definition validate_phone :: "phone_plugin \<Rightarrow> string \<Rightarrow> unit result" where
  "validate_phone ph phone =
     (case ph_validator ph of
        None \<Rightarrow> Inr ()
      | Some f \<Rightarrow> bindR (f phone) (\<lambda>ok. if ok then Inr () else Inl (phone_err ''INVALID_PHONE_NUMBER'' 400)))"

definition run_send :: "otp_sender \<Rightarrow> string \<Rightarrow> string \<Rightarrow> (sworld, unit) action" where
  "run_send send phone otp =
     catchA (notify (PluginCall ''send_otp'' [VStr phone, VStr otp]) (send phone otp)) (\<lambda>_. ret ())"

definition phone_value :: "site \<Rightarrow> phone_plugin \<Rightarrow> env \<Rightarrow> string \<Rightarrow> string \<Rightarrow> (sworld, unit) action" where
  "phone_value es ph ev identifier v =
     bindA (on_core (create_verification_value (core es) ev
              [(''value'', VStr v), (''identifier'', VStr identifier),
               (''expiresAt'', VDate (now ev + ph_expires_in ph * 1000000))] False)) (\<lambda>_. ret ())"

definition allowed_attempts :: "phone_plugin \<Rightarrow> int" where
  "allowed_attempts ph = (case ph_allowed ph of Some n \<Rightarrow> n | None \<Rightarrow> 3)"

definition invalid_phone_otp :: exn where
  "invalid_phone_otp = phone_err ''INVALID_OTP'' 400"

text \<open>What may stand in the way of a code before it is consumed: absent, expired, guessed too often.\<close>

definition peek_phone_otp :: "site \<Rightarrow> phone_plugin \<Rightarrow> env \<Rightarrow> string \<Rightarrow> (sworld, unit) action" where
  "peek_phone_otp es ph ev identifier =
     bindA (on_core (find_verification_value (core es) ev identifier)) (\<lambda>found.
       case found of
         None \<Rightarrow> raise (phone_err ''OTP_NOT_FOUND'' 400)
       | Some r \<Rightarrow>
           let drop = on_core (delete_verification_by_identifier (core es) identifier)
           in bindA (liftR (bindR (dindex r ''expiresAt'') (\<lambda>x. py_lt x (VDate (now ev))))) (\<lambda>expired.
                if expired then bindA drop (\<lambda>_. raise (phone_err ''OTP_EXPIRED'' 400))
                else
                  bindA (liftR (bindR (dindex r ''value'') text_value)) (\<lambda>v.
                    if parse_attempts v \<ge> allowed_attempts ph
                    then bindA drop (\<lambda>_. raise (phone_err ''TOO_MANY_ATTEMPTS'' 403))
                    else ret ())))"

text \<open>The code of a consumed row against the one provided; a wrong one is put back with its counter raised.\<close>

definition judge_phone_otp :: "site \<Rightarrow> phone_plugin \<Rightarrow> env \<Rightarrow> string \<Rightarrow> string \<Rightarrow> row \<Rightarrow> (sworld, unit) action" where
  "judge_phone_otp es ph ev identifier provided r =
     bindA (liftR (bindR (dindex r ''value'') text_value)) (\<lambda>v.
     let otp = fst (partition_at CHR '':'' v); attempts = parse_attempts v
     in if attempts \<ge> allowed_attempts ph then raise (phone_err ''TOO_MANY_ATTEMPTS'' 403)
        else if otp \<noteq> provided then
          bindA (liftR (dindex r ''expiresAt'')) (\<lambda>x.
          bindA (on_core (create_verification_value (core es) ev
                   [(''value'', VStr (otp @ '':'' @ int_str (attempts + 1))), (''identifier'', VStr identifier),
                    (''expiresAt'', x)] False)) (\<lambda>_.
            raise invalid_phone_otp))
        else ret ())"

definition consume_phone_otp :: "site \<Rightarrow> phone_plugin \<Rightarrow> env \<Rightarrow> string \<Rightarrow> string \<Rightarrow> (sworld, unit) action" where
  "consume_phone_otp es ph ev identifier provided =
     bindA (peek_phone_otp es ph ev identifier) (\<lambda>_.
     bindA (on_core (consume_verification_value (core es) ev identifier)) (\<lambda>consumed.
       case consumed of
         None \<Rightarrow> raise invalid_phone_otp
       | Some r \<Rightarrow> judge_phone_otp es ph ev identifier provided r))"

definition verify_and_consume :: "site \<Rightarrow> phone_plugin \<Rightarrow> env \<Rightarrow> string \<Rightarrow> string \<Rightarrow> (sworld, unit) action" where
  "verify_and_consume es ph ev phone otp =
     (case ph_verify ph of
        None \<Rightarrow> consume_phone_otp es ph ev phone otp
      | Some f \<Rightarrow>
          bindA (liftR (f phone otp)) (\<lambda>ok.
            if \<not> ok then raise invalid_phone_otp
            else on_core (delete_verification_by_identifier (core es) phone)))"

definition find_by_phone :: "site \<Rightarrow> string \<Rightarrow> (sworld, row option) action" where
  "find_by_phone es phone = on_rows (mem_find_one (store_ad es) ''user'' [Where ''phoneNumber'' (VStr phone)] [])"

definition phone_credential :: "site \<Rightarrow> pyval \<Rightarrow> (sworld, row option) action" where
  "phone_credential es uid =
     on_rows (mem_find_one (store_ad es) ''account'' [Where ''userId'' uid, Where ''providerId'' (VStr ''credential'')] [])"

section \<open>Hooks\<close>

text \<open>A number that is cleared is no longer verified, in the same write.\<close>

definition phone_before_update :: "row \<Rightarrow> before_result" where
  "phone_before_update data =
     (if has_key data ''phoneNumber'' \<and> dget data ''phoneNumber'' = VNone
      then MergeData (dset ''phoneNumberVerified'' (VBool False) data) else Keep)"

definition blocks_phone_change :: "request \<Rightarrow> body \<Rightarrow> unit result" where
  "blocks_phone_change rq b =
     (if rq_path rq \<noteq> ''/update-user'' then Inr ()
      else bindR (request_json b) (\<lambda>d.
             if dget d ''phoneNumber'' \<noteq> VNone then Inl (phone_err ''PHONE_NUMBER_CANNOT_BE_UPDATED'' 400) else Inr ()))"

section \<open>Routes\<close>

definition phone_session ::
    "site \<Rightarrow> env \<Rightarrow> request \<Rightarrow> bool \<Rightarrow> draws \<Rightarrow> row \<Rightarrow> (pyval \<Rightarrow> pyval \<Rightarrow> response) \<Rightarrow> (sworld, response) action" where
  "phone_session es ev rq remember_me dr user answer =
     bindA (liftR (dindex user ''id'')) (\<lambda>uid.
     bindA (start_session es ev rq uid remember_me dr) (\<lambda>(session, cookies).
     bindA (liftR (dindex session ''token'')) (\<lambda>token.
       ret (add_cookies cookies (answer token (user_output es user))))))"

text \<open>An unverified number gets a new code instead of a session.\<close>

definition phone_unverified :: "site \<Rightarrow> phone_plugin \<Rightarrow> env \<Rightarrow> string \<Rightarrow> string \<Rightarrow> (sworld, 'a) action" where
  "phone_unverified es ph ev phone otp =
     bindA (phone_value es ph ev phone otp) (\<lambda>_.
     bindA (case ph_send ph of Some send \<Rightarrow> run_send send phone otp | None \<Rightarrow> ret ()) (\<lambda>_.
       raise (phone_err ''PHONE_NUMBER_NOT_VERIFIED'' 401)))"

definition phone_sign_in ::
    "site \<Rightarrow> phone_plugin \<Rightarrow> env \<Rightarrow> request \<Rightarrow> body \<Rightarrow> string \<Rightarrow> draws \<Rightarrow> (sworld, response) action" where
  "phone_sign_in es ph ev rq b otp dr =
     bindA (liftR (request_json b)) (\<lambda>d.
     bindA (liftR (required_str d ''phoneNumber'')) (\<lambda>phone.
     bindA (liftR (required_str d ''password'')) (\<lambda>password.
     bindA (liftR (validate_phone ph phone)) (\<lambda>_.
     bindA (liftR (assert_password_not_too_long es (VStr password))) (\<lambda>_.
     bindA (find_by_phone es phone) (\<lambda>found.
       case found of
         None \<Rightarrow> raise (phone_err ''INVALID_PHONE_NUMBER_OR_PASSWORD'' 401)
       | Some user \<Rightarrow>
           if ph_require_verified ph \<and> \<not> py_truthy (dget user ''phoneNumberVerified'')
           then phone_unverified es ph ev phone otp
           else
             bindA (liftR (dindex user ''id'')) (\<lambda>uid.
             bindA (phone_credential es uid) (\<lambda>account.
               case account of
                 None \<Rightarrow> raise (phone_err ''INVALID_PHONE_NUMBER_OR_PASSWORD'' 401)
               | Some a \<Rightarrow>
                   if \<not> py_truthy (dget a ''password'') then raise (phone_err ''UNEXPECTED_ERROR'' 401)
                   else
                     bindA (liftR (check_stored es (dget a ''password'') (VStr password))) (\<lambda>ok.
                       if \<not> ok then raise (phone_err ''INVALID_PHONE_NUMBER_OR_PASSWORD'' 401)
                       else phone_session es ev rq (dget d ''rememberMe'' \<noteq> VBool False) dr user
                              (\<lambda>token shown. reply [(''token'', token), (''user'', shown)]))))))))))"

definition phone_send_otp ::
    "site \<Rightarrow> phone_plugin \<Rightarrow> env \<Rightarrow> body \<Rightarrow> string \<Rightarrow> (sworld, response) action" where
  "phone_send_otp es ph ev b otp =
     (case ph_send ph of
        None \<Rightarrow> raise (phone_err ''SEND_OTP_NOT_IMPLEMENTED'' 501)
      | Some send \<Rightarrow>
          bindA (liftR (request_json b)) (\<lambda>d.
          bindA (liftR (required_str d ''phoneNumber'')) (\<lambda>phone.
          bindA (liftR (validate_phone ph phone)) (\<lambda>_.
          bindA (phone_value es ph ev phone (otp @ '':0'')) (\<lambda>_.
          bindA (run_send send phone otp) (\<lambda>_.
            ret (reply [(''message'', VStr ''code sent'')])))))))"

definition update_failed :: exn where
  "update_failed = api_error 500 ''FAILED_TO_UPDATE_USER'' ''Failed to update user''"

definition fire_callback :: "phone_plugin \<Rightarrow> string \<Rightarrow> row \<Rightarrow> (sworld, unit) action" where
  "fire_callback ph phone user =
     (case ph_callback ph of
        None \<Rightarrow> ret ()
      | Some f \<Rightarrow> notify (PluginCall ''callback_on_verification'' [VStr phone, VDict user]) (f phone user))"

text \<open>The verified number becomes that of the signed-in user, unless somebody has it.\<close>

definition verify_update_phone ::
    "site \<Rightarrow> phone_plugin \<Rightarrow> env \<Rightarrow> request \<Rightarrow> string \<Rightarrow> (sworld, response) action" where
  "verify_update_phone es ph ev rq phone =
     bindA (load_session es ev rq) (\<lambda>session.
       case session of
         None \<Rightarrow> raise (api_error 401 ''USER_NOT_FOUND'' ''User not found'')
       | Some v \<Rightarrow>
           bindA (on_rows (mem_find_many (store_ad es) ''user'' [Where ''phoneNumber'' (VStr phone)] None None None [])) (\<lambda>others.
             if others \<noteq> [] then raise (phone_err ''PHONE_NUMBER_EXIST'' 400)
             else
               bindA (liftR (dindex (va_user v) ''id'')) (\<lambda>uid.
               bindA (on_core (update_user (core es) ev uid
                        [(''phoneNumber'', VStr phone), (''phoneNumberVerified'', VBool True)])) (\<lambda>updated.
                 case updated of
                   None \<Rightarrow> raise update_failed
                 | Some user \<Rightarrow>
                     bindA (fire_callback ph phone user) (\<lambda>_.
                     bindA (liftR (dindex (va_session v) ''token'')) (\<lambda>token.
                       ret (reply [(''status'', VBool True), (''token'', token), (''user'', user_output es user)])))))))"

definition phone_sign_up ::
    "site \<Rightarrow> temp_user \<Rightarrow> env \<Rightarrow> string \<Rightarrow> row \<Rightarrow> (sworld, row) action" where
  "phone_sign_up es tu ev phone d =
     bindA (liftR (parse_input_data (now ev) (filter (\<lambda>(k, _). k \<notin> set VERIFY_RESERVED) d)
              (es_input_fields es ''user'') ''create'')) (\<lambda>additional.
     bindA (liftR (tu_email tu phone)) (\<lambda>email.
     bindA (liftR (case tu_name tu of Some f \<Rightarrow> f phone | None \<Rightarrow> Inr (VStr phone))) (\<lambda>name.
     bindA (on_core (create_user (core es) ev
              (dmerge additional [(''email'', email), (''name'', name), (''phoneNumber'', VStr phone),
                (''phoneNumberVerified'', VBool True)])
              (Some [(''method'', VStr ''phone-number'')]) True False)) (\<lambda>created.
       case created of
         None \<Rightarrow> raise (api_error 500 ''FAILED_TO_CREATE_USER'' ''Failed to create user'')
       | Some user \<Rightarrow> ret user))))"

definition phone_verify ::
    "site \<Rightarrow> phone_plugin \<Rightarrow> env \<Rightarrow> request \<Rightarrow> body \<Rightarrow> draws \<Rightarrow> (sworld, response) action" where
  "phone_verify es ph ev rq b dr =
     bindA (liftR (request_json b)) (\<lambda>d.
     bindA (liftR (required_str d ''phoneNumber'')) (\<lambda>phone.
     bindA (liftR (required_str d ''code'')) (\<lambda>otp.
     bindA (verify_and_consume es ph ev phone otp) (\<lambda>_.
       if py_truthy (dget d ''updatePhoneNumber'') then verify_update_phone es ph ev rq phone
       else
         bindA (find_by_phone es phone) (\<lambda>found.
         bindA (case found of
                  None \<Rightarrow>
                    (case ph_sign_up ph of
                       None \<Rightarrow> ret None
                     | Some tu \<Rightarrow> bindA (phone_sign_up es tu (ev\<lparr>rnd_id := dr_user_id dr\<rparr>) phone d) (\<lambda>u. ret (Some u)))
                | Some u \<Rightarrow>
                    bindA (liftR (dindex u ''id'')) (\<lambda>uid.
                      on_core (update_user (core es) ev uid [(''phoneNumberVerified'', VBool True)]))) (\<lambda>user.
           case user of
             None \<Rightarrow> raise update_failed
           | Some u \<Rightarrow>
               bindA (fire_callback ph phone u) (\<lambda>_.
                 if \<not> py_truthy (dget d ''disableSession'')
                 then phone_session es ev rq True dr u
                        (\<lambda>token shown. reply [(''status'', VBool True), (''token'', token), (''user'', shown)])
                 else ret (reply [(''status'', VBool True), (''token'', VNone), (''user'', user_output es u)]))))))))"

section \<open>Password resets\<close>

definition reset_identifier :: "string \<Rightarrow> string" where
  "reset_identifier phone = phone @ ''-request-password-reset''"

definition status_true :: response where
  "status_true = reply [(''status'', VBool True)]"

definition phone_request_reset ::
    "site \<Rightarrow> phone_plugin \<Rightarrow> env \<Rightarrow> body \<Rightarrow> string \<Rightarrow> (sworld, response) action" where
  "phone_request_reset es ph ev b otp =
     bindA (liftR (request_json b)) (\<lambda>d.
     bindA (liftR (required_str d ''phoneNumber'')) (\<lambda>phone.
     bindA (find_by_phone es phone) (\<lambda>user.
     bindA (phone_value es ph ev (reset_identifier phone) (otp @ '':0'')) (\<lambda>_.
     bindA (case (user, ph_send_reset ph) of
              (Some _, Some send) \<Rightarrow> run_send send phone otp
            | _ \<Rightarrow> ret ()) (\<lambda>_.
       ret status_true)))))"

definition phone_store_password :: "site \<Rightarrow> env \<Rightarrow> draws \<Rightarrow> pyval \<Rightarrow> string \<Rightarrow> (sworld, unit) action" where
  "phone_store_password es ev dr uid hashed =
     bindA (phone_credential es uid) (\<lambda>account.
       case account of
         None \<Rightarrow>
           bindA (on_core (create_account (core es) (ev\<lparr>rnd_id := dr_account_id dr\<rparr>)
                    [(''userId'', uid), (''providerId'', VStr ''credential''), (''accountId'', uid),
                     (''password'', VStr hashed)] False)) (\<lambda>_. ret ())
       | Some a \<Rightarrow>
           bindA (liftR (dindex a ''id'')) (\<lambda>aid.
           bindA (on_core (update_row (core es) ev ''account'' [Where ''id'' aid]
                    [(''password'', VStr hashed), (''updatedAt'', VDate (now ev))])) (\<lambda>_. ret ())))"

definition phone_reset_password ::
    "site \<Rightarrow> phone_plugin \<Rightarrow> env \<Rightarrow> request \<Rightarrow> body \<Rightarrow> draws \<Rightarrow> (sworld, response) action" where
  "phone_reset_password es ph ev rq b dr =
     bindA (liftR (request_json b)) (\<lambda>d.
     bindA (liftR (required_str d ''phoneNumber'')) (\<lambda>phone.
     bindA (liftR (required_str d ''newPassword'')) (\<lambda>password.
     bindA (liftR (required_str d ''otp'')) (\<lambda>otp.
     bindA (consume_phone_otp es ph ev (reset_identifier phone) otp) (\<lambda>_.
     bindA (find_by_phone es phone) (\<lambda>found.
       case found of
         None \<Rightarrow> raise (phone_err ''UNEXPECTED_ERROR'' 400)
       | Some user \<Rightarrow>
           bindA (liftR (validate_password es (VStr password))) (\<lambda>_.
           bindA (liftR (hash_password_checked es dr rq (VStr password))) (\<lambda>hashed.
           bindA (liftR (dindex user ''id'')) (\<lambda>uid.
           bindA (phone_store_password es ev dr uid hashed) (\<lambda>_.
           bindA (case es_on_reset es of None \<Rightarrow> ret () | Some f \<Rightarrow> notify (PasswordReset user) (f user)) (\<lambda>_.
           bindA (if es_revoke_on_reset es
                  then bindA (liftR (str_arg uid)) (\<lambda>u. on_core (delete_user_sessions (core es) ev u))
                  else ret ()) (\<lambda>_.
             ret status_true))))))))))))"

end
