(* ===== verification/Org_Base.thy ===== *)
theory Org_Base
  imports Magic_Link OrgAccess
begin

text \<open>
  The organization plugin, \<open>plugins_ext/organization.py\<close>: its options, errors, tables, hooks and the first
  steps that its routes share. A limit is a number or a callback of the application; \<open>bool\<close> where a number is
  expected is not modelled, nor is the awaiting of a result. A hook is given its payload, and what it returns
  under \<open>data\<close> counts for the hooks that may change a value; each call is recorded as an event. The text codec
  of a column is \<open>og_dumps\<close> and \<open>og_loads\<close>.
\<close>

section \<open>Options\<close>

datatype 'f limit = NoLimit | AtMost int | LimitBy 'f

record organization_plugin =
  og_access :: org_plugin
  og_resources :: "string list"
  og_may_create :: "bool + (row \<Rightarrow> bool result)"
  og_limit :: "(row \<Rightarrow> bool result) limit"
  og_members :: "(row \<Rightarrow> row \<Rightarrow> int result) limit"
  og_no_deletion :: bool
  og_expires_in :: int
  og_invitations :: "(row \<Rightarrow> int result) limit"
  og_cancel_pending :: bool
  og_require_verified :: "bool option"
  og_send_invitation :: "(row \<Rightarrow> unit result) option"
  og_teams :: bool
  og_default_team :: bool
  og_custom_team :: "(row \<Rightarrow> (sworld, row) action) option"
  og_max_teams :: "(row \<Rightarrow> int result) limit"
  og_max_team_members :: "(row \<Rightarrow> int result) limit"
  og_remove_all_teams :: bool
  og_max_roles :: "(pyval \<Rightarrow> int result) limit"
  og_hooks :: "string \<Rightarrow> (row \<Rightarrow> row option result) option"
  og_extra :: "string \<Rightarrow> fields"
  og_dumps :: "pyval \<Rightarrow> string"
  og_loads :: "string \<Rightarrow> pyval option"
  og_sha256 :: "string \<Rightarrow> nat list"

definition creator_role_of :: "organization_plugin \<Rightarrow> string" where
  "creator_role_of og = (if op_creator_role (og_access og) = [] then ''owner'' else op_creator_role (og_access og))"

definition default_members_limit :: "organization_plugin \<Rightarrow> int" where
  "default_members_limit og = (case og_members og of AtMost n \<Rightarrow> n | _ \<Rightarrow> 100)"

section \<open>Errors\<close>

definition ORG_ERROR_CODES :: "(string \<times> string) list" where
  "ORG_ERROR_CODES = [
     (''YOU_ARE_NOT_ALLOWED_TO_CREATE_A_NEW_ORGANIZATION'',
      ''You are not allowed to create a new organization''),
     (''YOU_HAVE_REACHED_THE_MAXIMUM_NUMBER_OF_ORGANIZATIONS'',
      ''You have reached the maximum number of organizations''),
     (''ORGANIZATION_ALREADY_EXISTS'', ''Organization already exists''),
     (''ORGANIZATION_SLUG_ALREADY_TAKEN'', ''Organization slug already taken''),
     (''ORGANIZATION_NOT_FOUND'', ''Organization not found''),
     (''USER_IS_NOT_A_MEMBER_OF_THE_ORGANIZATION'', ''User is not a member of the organization''),
     (''YOU_ARE_NOT_ALLOWED_TO_UPDATE_THIS_ORGANIZATION'',
      ''You are not allowed to update this organization''),
     (''YOU_ARE_NOT_ALLOWED_TO_DELETE_THIS_ORGANIZATION'',
      ''You are not allowed to delete this organization''),
     (''NO_ACTIVE_ORGANIZATION'', ''No active organization''),
     (''USER_IS_ALREADY_A_MEMBER_OF_THIS_ORGANIZATION'',
      ''User is already a member of this organization''),
     (''MEMBER_NOT_FOUND'', ''Member not found''),
     (''ROLE_NOT_FOUND'', ''Role not found''),
     (''YOU_ARE_NOT_ALLOWED_TO_CREATE_A_NEW_TEAM'', ''You are not allowed to create a new team''),
     (''TEAM_ALREADY_EXISTS'', ''Team already exists''),
     (''TEAM_NOT_FOUND'', ''Team not found''),
     (''YOU_CANNOT_LEAVE_THE_ORGANIZATION_AS_THE_ONLY_OWNER'',
      ''You cannot leave the organization as the only owner''),
     (''YOU_CANNOT_LEAVE_THE_ORGANIZATION_WITHOUT_AN_OWNER'',
      ''You cannot leave the organization without an owner''),
     (''YOU_ARE_NOT_ALLOWED_TO_DELETE_THIS_MEMBER'', ''You are not allowed to delete this member''),
     (''YOU_ARE_NOT_ALLOWED_TO_INVITE_USERS_TO_THIS_ORGANIZATION'',
      ''You are not allowed to invite users to this organization''),
     (''USER_IS_ALREADY_INVITED_TO_THIS_ORGANIZATION'',
      ''User is already invited to this organization''),
     (''INVITATION_NOT_FOUND'', ''Invitation not found''),
     (''YOU_ARE_NOT_THE_RECIPIENT_OF_THE_INVITATION'',
      ''You are not the recipient of the invitation''),
     (''EMAIL_VERIFICATION_REQUIRED_BEFORE_ACCEPTING_OR_REJECTING_INVITATION'',
      ''Email verification required before accepting or rejecting invitation''),
     (''EMAIL_VERIFICATION_REQUIRED_FOR_INVITATION'',
      ''Email verification required to view or list invitations for the session email''),
     (''YOU_ARE_NOT_ALLOWED_TO_CANCEL_THIS_INVITATION'',
      ''You are not allowed to cancel this invitation''),
     (''INVITER_IS_NO_LONGER_A_MEMBER_OF_THE_ORGANIZATION'',
      ''Inviter is no longer a member of the organization''),
     (''YOU_ARE_NOT_ALLOWED_TO_INVITE_USER_WITH_THIS_ROLE'',
      ''You are not allowed to invite a user with this role''),
     (''FAILED_TO_RETRIEVE_INVITATION'', ''Failed to retrieve invitation''),
     (''YOU_HAVE_REACHED_THE_MAXIMUM_NUMBER_OF_TEAMS'',
      ''You have reached the maximum number of teams''),
     (''UNABLE_TO_REMOVE_LAST_TEAM'', ''Unable to remove last team''),
     (''YOU_ARE_NOT_ALLOWED_TO_UPDATE_THIS_MEMBER'', ''You are not allowed to update this member''),
     (''ORGANIZATION_MEMBERSHIP_LIMIT_REACHED'', ''Organization membership limit reached''),
     (''YOU_ARE_NOT_ALLOWED_TO_CREATE_TEAMS_IN_THIS_ORGANIZATION'',
      ''You are not allowed to create teams in this organization''),
     (''YOU_ARE_NOT_ALLOWED_TO_DELETE_TEAMS_IN_THIS_ORGANIZATION'',
      ''You are not allowed to delete teams in this organization''),
     (''YOU_ARE_NOT_ALLOWED_TO_UPDATE_THIS_TEAM'', ''You are not allowed to update this team''),
     (''YOU_ARE_NOT_ALLOWED_TO_DELETE_THIS_TEAM'', ''You are not allowed to delete this team''),
     (''INVITATION_LIMIT_REACHED'', ''Invitation limit reached''),
     (''TEAM_MEMBER_LIMIT_REACHED'', ''Team member limit reached''),
     (''USER_IS_NOT_A_MEMBER_OF_THE_TEAM'', ''User is not a member of the team''),
     (''YOU_CAN_NOT_ACCESS_THE_MEMBERS_OF_THIS_TEAM'',
      ''You are not allowed to list the members of this team''),
     (''YOU_DO_NOT_HAVE_AN_ACTIVE_TEAM'', ''You do not have an active team''),
     (''YOU_ARE_NOT_ALLOWED_TO_CREATE_A_NEW_TEAM_MEMBER'',
      ''You are not allowed to create a new member''),
     (''YOU_ARE_NOT_ALLOWED_TO_REMOVE_A_TEAM_MEMBER'',
      ''You are not allowed to remove a team member''),
     (''YOU_ARE_NOT_ALLOWED_TO_ACCESS_THIS_ORGANIZATION'',
      ''You are not allowed to access this organization as an owner''),
     (''YOU_ARE_NOT_A_MEMBER_OF_THIS_ORGANIZATION'', ''You are not a member of this organization''),
     (''MISSING_AC_INSTANCE'',
      ''Dynamic Access Control requires a pre-defined ac instance on the server auth plugin. Read server logs for more information''),
     (''YOU_MUST_BE_IN_AN_ORGANIZATION_TO_CREATE_A_ROLE'',
      ''You must be in an organization to create a role''),
     (''YOU_ARE_NOT_ALLOWED_TO_CREATE_A_ROLE'', ''You are not allowed to create a role''),
     (''YOU_ARE_NOT_ALLOWED_TO_UPDATE_A_ROLE'', ''You are not allowed to update a role''),
     (''YOU_ARE_NOT_ALLOWED_TO_DELETE_A_ROLE'', ''You are not allowed to delete a role''),
     (''YOU_ARE_NOT_ALLOWED_TO_READ_A_ROLE'', ''You are not allowed to read a role''),
     (''YOU_ARE_NOT_ALLOWED_TO_LIST_A_ROLE'', ''You are not allowed to list a role''),
     (''YOU_ARE_NOT_ALLOWED_TO_GET_A_ROLE'', ''You are not allowed to get a role''),
     (''TOO_MANY_ROLES'', ''This organization has too many roles''),
     (''INVALID_RESOURCE'', ''The provided permission includes an invalid resource''),
     (''ROLE_NAME_IS_ALREADY_TAKEN'', ''That role name is already taken''),
     (''CANNOT_DELETE_A_PRE_DEFINED_ROLE'', ''Cannot delete a pre-defined role''),
     (''ROLE_IS_ASSIGNED_TO_MEMBERS'',
      ''Cannot delete a role that is assigned to members. Please reassign the members to a different role first''),
     (''INVALID_TEAM_ID'', ''Team id contains a reserved character'')]"

definition org_err :: "int \<Rightarrow> string \<Rightarrow> exn" where
  "org_err status code =
     api_error status code (case map_of ORG_ERROR_CODES code of Some m \<Rightarrow> m | None \<Rightarrow> [])"

definition bad_request :: "string \<Rightarrow> exn" where
  "bad_request message = api_error 400 ''BAD_REQUEST'' message"

definition invalid_body :: "string \<Rightarrow> exn" where
  "invalid_body message = api_error 400 ''INVALID_BODY'' message"

section \<open>Values\<close>

definition parse_metadata :: "organization_plugin \<Rightarrow> pyval \<Rightarrow> pyval result" where
  "parse_metadata og v =
     (case v of
        VStr s \<Rightarrow> (case og_loads og s of Some x \<Rightarrow> Inr x | None \<Rightarrow> Inl ValueError)
      | _ \<Rightarrow> Inr v)"

definition required_str :: "row \<Rightarrow> string \<Rightarrow> string result" where
  "required_str b key =
     (case dget b key of
        VStr s \<Rightarrow> Inr s
      | _ \<Rightarrow> Inl (invalid_body ([CHR 0x27] @ key @ [CHR 0x27] @ '' is required'')))"

definition required_nonempty_str :: "row \<Rightarrow> string \<Rightarrow> string result" where
  "required_nonempty_str b key =
     bindR (required_str b key) (\<lambda>s.
       if s = [] then Inl (invalid_body ([CHR 0x27] @ key @ [CHR 0x27] @ '' must not be empty'')) else Inr s)"

fun all_texts :: "pyval list \<Rightarrow> string list result" where
  "all_texts [] = Inr []"
| "all_texts (v # vs) = bindR (str_arg v) (\<lambda>s. bindR (all_texts vs) (\<lambda>ss. Inr (s # ss)))"

text \<open>\<open>parse_roles\<close>: several roles are joined with commas.\<close>

definition join_roles :: "pyval \<Rightarrow> pyval result" where
  "join_roles v =
     (case v of
        VList vs \<Rightarrow> bindR (all_texts vs) (\<lambda>ss. Inr (VStr (join_parts '','' ss)))
      | _ \<Rightarrow> Inr v)"

text \<open>\<open>[p.strip() for p in s.split(",") if p.strip()]\<close>.\<close>

definition role_parts :: "string \<Rightarrow> string list" where
  "role_parts s = filter (\<lambda>p. p \<noteq> []) (map strip (split_on CHR '','' s))"

text \<open>Whether a role column names the role among the parts between commas, as they are.\<close>

definition holds_role :: "string \<Rightarrow> pyval \<Rightarrow> bool result" where
  "holds_role name v = bindR (text_value v) (\<lambda>s. Inr (name \<in> set (split_on CHR '','' s)))"

definition member_holds :: "string \<Rightarrow> row \<Rightarrow> bool result" where
  "member_holds name m = bindR (dindex m ''role'') (holds_role name)"

text \<open>The rows of a list with a role.\<close>

fun holders :: "string \<Rightarrow> row list \<Rightarrow> row list result" where
  "holders name [] = Inr []"
| "holders name (m # ms) =
     bindR (member_holds name m) (\<lambda>h. bindR (holders name ms) (\<lambda>hs. Inr (if h then m # hs else hs)))"

text \<open>A value that a set or dict takes as a key.\<close>

definition hashable :: "pyval \<Rightarrow> unit result" where
  "hashable v = (case v of VList _ \<Rightarrow> Inl TypeError | VDict _ \<Rightarrow> Inl TypeError | _ \<Rightarrow> Inr ())"

section \<open>Tables\<close>

definition text_field :: "bool \<Rightarrow> field" where
  "text_field req = mk_field ''string'' req"

definition team_tables :: "organization_plugin \<Rightarrow> schema" where
  "team_tables og =
     [(''team'', dmerge [
         (''id'', (text_field True)\<lparr>f_unique := True\<rparr>),
         (''name'', text_field True),
         (''memberCount'', (mk_field ''number'' True)\<lparr>f_default := Some (VInt 0), f_input := False, f_returned := False\<rparr>),
         (''organizationId'', text_field True),
         (''createdAt'', mk_field ''datetime'' True),
         (''updatedAt'', mk_field ''datetime'' False)] (og_extra og ''team'')),
      (''teamMember'', [
         (''id'', (text_field True)\<lparr>f_unique := True\<rparr>),
         (''teamId'', text_field True),
         (''userId'', text_field True),
         (''membershipKey'', (text_field False)\<lparr>f_unique := True, f_input := False, f_returned := False\<rparr>),
         (''createdAt'', mk_field ''datetime'' False)])]"

definition role_table_schema :: "organization_plugin \<Rightarrow> schema" where
  "role_table_schema og =
     [(''organizationRole'', dmerge [
         (''id'', (text_field True)\<lparr>f_unique := True\<rparr>),
         (''organizationId'', text_field True),
         (''role'', text_field True),
         (''permission'', text_field True),
         (''createdAt'', mk_field ''datetime'' True),
         (''updatedAt'', (mk_field ''datetime'' False)\<lparr>f_on_update := Some now_factory\<rparr>)] (og_extra og ''organizationRole''))]"

definition org_schema :: "organization_plugin \<Rightarrow> schema" where
  "org_schema og =
     [(''organization'', dmerge [
         (''id'', (text_field True)\<lparr>f_unique := True\<rparr>),
         (''name'', text_field True),
         (''slug'', (text_field True)\<lparr>f_unique := True\<rparr>),
         (''logo'', text_field False),
         (''metadata'', text_field False),
         (''createdAt'', mk_field ''datetime'' True)] (og_extra og ''organization'')),
      (''member'', dmerge [
         (''id'', (text_field True)\<lparr>f_unique := True\<rparr>),
         (''organizationId'', text_field True),
         (''userId'', text_field True),
         (''role'', (text_field True)\<lparr>f_default := Some (VStr ''member'')\<rparr>),
         (''createdAt'', mk_field ''datetime'' True)] (og_extra og ''member'')),
      (''invitation'', dmerge ([
         (''id'', (text_field True)\<lparr>f_unique := True\<rparr>),
         (''organizationId'', text_field True),
         (''email'', text_field True),
         (''role'', text_field False)] @
         (if og_teams og then [(''teamId'', text_field False)] else []) @ [
         (''status'', (text_field True)\<lparr>f_default := Some (VStr ''pending'')\<rparr>),
         (''expiresAt'', mk_field ''datetime'' True),
         (''createdAt'', mk_field ''datetime'' True),
         (''inviterId'', text_field True)]) (og_extra og ''invitation'')),
      (''session'',
         (''activeOrganizationId'', (text_field False)\<lparr>f_input := False\<rparr>) #
         (if og_teams og then [(''activeTeamId'', (text_field False)\<lparr>f_input := False\<rparr>)] else []))] @
     (if og_teams og then team_tables og else []) @
     (if op_dac_enabled (og_access og) then role_table_schema og else [])"

text \<open>The filters \<open>_filter_org\<close>, \<open>_filter_invitation\<close>, \<open>_filter_team\<close>, \<open>_filter_team_member\<close> and \<open>_filter_role\<close>.\<close>

definition org_output :: "organization_plugin \<Rightarrow> string \<Rightarrow> row \<Rightarrow> row" where
  "org_output og model r = filter_output_fields r (fields_of (org_schema og) model)"

section \<open>Hooks\<close>

definition run_before_hook :: "organization_plugin \<Rightarrow> string \<Rightarrow> row \<Rightarrow> (sworld, row option) action" where
  "run_before_hook og name payload =
     (case og_hooks og name of
        None \<Rightarrow> ret None
      | Some f \<Rightarrow>
          bindA (notify (PluginCall name [VDict payload]) (Inr ())) (\<lambda>_. liftR (f payload)))"

definition run_after_hook :: "organization_plugin \<Rightarrow> string \<Rightarrow> row \<Rightarrow> (sworld, unit) action" where
  "run_after_hook og name payload =
     (case og_hooks og name of
        None \<Rightarrow> ret ()
      | Some f \<Rightarrow> notify (PluginCall name [VDict payload]) (bindR (f payload) (\<lambda>_. Inr ())))"

text \<open>\<open>{**data, **merged}\<close> when the hook gave some.\<close>

definition merge_hook :: "row \<Rightarrow> row option \<Rightarrow> row" where
  "merge_hook d merged = (case merged of None \<Rightarrow> d | Some m \<Rightarrow> dmerge d m)"

section \<open>Who asks\<close>

definition org_session :: "site \<Rightarrow> env \<Rightarrow> request \<Rightarrow> (sworld, validated) action" where
  "org_session es ev rq =
     bindA (load_session es ev rq) (\<lambda>found.
       case found of
         None \<Rightarrow> raise (api_error 401 ''UNAUTHORIZED'' ''Not authenticated'')
       | Some v \<Rightarrow> ret v)"

definition asker_id :: "validated \<Rightarrow> pyval result" where
  "asker_id v = dindex (va_user v) ''id''"

definition active_org :: "validated \<Rightarrow> pyval" where
  "active_org v = dget (va_session v) ''activeOrganizationId''"

text \<open>The organization a request is about: that of its body or query, or the active one.\<close>

definition chosen_org :: "pyval \<Rightarrow> validated \<Rightarrow> exn \<Rightarrow> pyval result" where
  "chosen_org asked v missing =
     (let org = py_or asked (active_org v) in if py_truthy org then Inr org else Inl missing)"

definition session_token :: "validated \<Rightarrow> string result" where
  "session_token v = bindR (dindex (va_session v) ''token'') str_arg"

definition set_active_org :: "site \<Rightarrow> env \<Rightarrow> validated \<Rightarrow> pyval \<Rightarrow> (sworld, row option) action" where
  "set_active_org es ev v org =
     bindA (liftR (session_token v)) (\<lambda>t. on_core (update_session (core es) ev t [(''activeOrganizationId'', org)]))"

definition set_active_team :: "site \<Rightarrow> env \<Rightarrow> validated \<Rightarrow> pyval \<Rightarrow> (sworld, row option) action" where
  "set_active_team es ev v team =
     bindA (liftR (session_token v)) (\<lambda>t. on_core (update_session (core es) ev t [(''activeTeamId'', team)]))"

text \<open>\<open>_apply_session_cookie\<close>: the session cookie again, and its cached copy.\<close>

definition apply_session_cookie ::
    "site \<Rightarrow> env \<Rightarrow> request \<Rightarrow> validated \<Rightarrow> row option \<Rightarrow> response \<Rightarrow> response result" where
  "apply_session_cookie es ev rq v session rs =
     bindR (session_token v) (\<lambda>t.
       Inr (add_cookies (refresh_session_cookie (es_auth es) rq t #
         (case session of
            None \<Rightarrow> []
          | Some s \<Rightarrow> (case set_cookie_cache (es_auth es) ev s (va_user v) (is_dont_remember (es_auth es) rq) of
              Some c \<Rightarrow> [c] | None \<Rightarrow> []))) rs))"

section \<open>Permissions\<close>

definition org_grant :: "string \<Rightarrow> string \<Rightarrow> row" where
  "org_grant resource action = [(resource, VList [VStr action])]"

definition member_may ::
    "site \<Rightarrow> organization_plugin \<Rightarrow> row \<Rightarrow> row \<Rightarrow> pyval \<Rightarrow> bool \<Rightarrow> (sworld, bool) action" where
  "member_may es og member permissions org allow_creator =
     bindA (liftR (dindex member ''role'')) (\<lambda>role.
       on_rows (has_permission (store_ad es) (og_loads og) (og_access og) role permissions org allow_creator))"

definition member_must ::
    "site \<Rightarrow> organization_plugin \<Rightarrow> row \<Rightarrow> row \<Rightarrow> pyval \<Rightarrow> exn \<Rightarrow> (sworld, unit) action" where
  "member_must es og member permissions org denied =
     bindA (member_may es og member permissions org False) (\<lambda>ok. if ok then ret () else raise denied)"

text \<open>
  A permission that a body asks about need not be an object: then no role can be asked. The dynamic roles
  are read before that.
\<close>

definition known_roles :: "site \<Rightarrow> organization_plugin \<Rightarrow> pyval \<Rightarrow> (sworld, (string \<times> statements) list) action" where
  "known_roles es og org =
     (if py_truthy org \<and> op_dac_enabled (og_access og) \<and> op_has_ac (og_access og)
      then bindA (on_rows (mem_find_many (store_ad es) ''organizationRole'' [Where ''organizationId'' org] None None None []))
        (\<lambda>rs. liftR (merge_all_dynamic (og_loads og) (resolve_roles (og_access og)) rs))
      else ret (resolve_roles (og_access og)))"

definition member_may_value ::
    "site \<Rightarrow> organization_plugin \<Rightarrow> row \<Rightarrow> pyval \<Rightarrow> pyval \<Rightarrow> (sworld, bool) action" where
  "member_may_value es og member permissions org =
     (case permissions of
        VDict d \<Rightarrow> member_may es og member d org False
      | _ \<Rightarrow>
          if \<not> py_truthy permissions then member_may es og member [] org False
          else
            bindA (liftR (dindex member ''role'')) (\<lambda>role.
            bindA (known_roles es og org) (\<lambda>roles.
            bindA (liftR (text_value role)) (\<lambda>r.
              if list_ex (\<lambda>n. map_of roles n \<noteq> None) (split_on CHR '','' r) then raise AttributeError else ret False))))"

text \<open>The names among those unknown to the static roles that no dynamic role of the organization has either.\<close>

definition has_role_name :: "row list \<Rightarrow> string \<Rightarrow> bool result" where
  "has_role_name rs name =
     (if list_ex (\<lambda>r. \<not> has_key r ''role'') rs then Inl KeyError
      else Inr (list_ex (\<lambda>r. dget r ''role'' = VStr name) rs))"

fun without_rows :: "row list \<Rightarrow> string list \<Rightarrow> string list result" where
  "without_rows rs [] = Inr []"
| "without_rows rs (n # ns) =
     bindR (has_role_name rs n) (\<lambda>found. bindR (without_rows rs ns) (\<lambda>rest. Inr (if found then rest else n # rest)))"

definition filter_dynamic_role_names ::
    "site \<Rightarrow> organization_plugin \<Rightarrow> pyval \<Rightarrow> string list \<Rightarrow> (sworld, string list) action" where
  "filter_dynamic_role_names es og org unknown =
     (if \<not> op_dac_enabled (og_access og) then ret unknown
      else
        bindA (on_rows (mem_find_many (store_ad es) ''organizationRole'' [Where ''organizationId'' org] None None None []))
          (\<lambda>rs. liftR (without_rows rs unknown)))"

text \<open>The roles asked for exist; the message names those that do not.\<close>

definition roles_must_exist ::
    "site \<Rightarrow> organization_plugin \<Rightarrow> pyval \<Rightarrow> string list \<Rightarrow> string \<Rightarrow> (sworld, unit) action" where
  "roles_must_exist es og org names label =
     (let unknown = filter (\<lambda>n. map_of (resolve_roles (og_access og)) n = None) names
      in if unknown = [] then ret ()
         else
           bindA (filter_dynamic_role_names es og org unknown) (\<lambda>bad.
             if bad = [] then ret ()
             else raise (api_error 400 ''ROLE_NOT_FOUND'' (label @ '': '' @ join_parts '', '' bad))))"

end
