(* ===== verification/Org_Store.thy ===== *)
theory Org_Store
  imports Org_Base
begin

text \<open>
  The store of the organization plugin: what \<open>plugins_ext/organization.py\<close> calls its plugin-local adapter.
  Organizations, members, invitations and teams are rows that it reads and writes past the internal adapter.
  A team keeps its number of members in a counter of its own, \<open>memberCount\<close>, which only guarded increments
  change.
\<close>

section \<open>Organizations and members\<close>

definition shape_member :: "organization_plugin \<Rightarrow> row \<Rightarrow> row \<Rightarrow> row result" where
  "shape_member og m user =
     bindR (dindex user ''id'') (\<lambda>i.
     bindR (dindex user ''name'') (\<lambda>n.
     bindR (dindex user ''email'') (\<lambda>e.
       Inr (dset ''user'' (VDict [(''id'', i), (''name'', n), (''email'', e), (''image'', dget user ''image'')])
              (org_output og ''member'' m)))))"

definition find_user :: "site \<Rightarrow> pyval \<Rightarrow> (sworld, row option) action" where
  "find_user es uid = on_rows (mem_find_one (store_ad es) ''user'' [Where ''id'' uid] [])"

definition attach_user :: "site \<Rightarrow> organization_plugin \<Rightarrow> row \<Rightarrow> (sworld, row option) action" where
  "attach_user es og m =
     bindA (liftR (dindex m ''userId'')) (\<lambda>uid.
     bindA (find_user es uid) (\<lambda>user.
       case user of
         None \<Rightarrow> ret None
       | Some u \<Rightarrow> bindA (liftR (shape_member og m u)) (\<lambda>shaped. ret (Some shaped))))"

definition find_org_by :: "site \<Rightarrow> organization_plugin \<Rightarrow> string \<Rightarrow> pyval \<Rightarrow> (sworld, row option) action" where
  "find_org_by es og column v =
     bindA (on_rows (mem_find_one (store_ad es) ''organization'' [Where column v] [])) (\<lambda>org.
       ret (map_option (org_output og ''organization'') org))"

definition find_org_by_slug :: "site \<Rightarrow> organization_plugin \<Rightarrow> pyval \<Rightarrow> (sworld, row option) action" where
  "find_org_by_slug es og slug = find_org_by es og ''slug'' slug"

definition find_org_by_id :: "site \<Rightarrow> organization_plugin \<Rightarrow> pyval \<Rightarrow> (sworld, row option) action" where
  "find_org_by_id es og org = find_org_by es og ''id'' org"

text \<open>The organization with the id, which a route cannot do without.\<close>

definition org_must_exist :: "site \<Rightarrow> organization_plugin \<Rightarrow> pyval \<Rightarrow> (sworld, row) action" where
  "org_must_exist es og org =
     bindA (find_org_by_id es og org) (\<lambda>found.
       case found of None \<Rightarrow> raise (org_err 400 ''ORGANIZATION_NOT_FOUND'') | Some r \<Rightarrow> ret r)"

definition with_parsed_metadata :: "organization_plugin \<Rightarrow> row \<Rightarrow> row result" where
  "with_parsed_metadata og r =
     bindR (parse_metadata og (dget r ''metadata'')) (\<lambda>m. Inr (dset ''metadata'' m r))"

definition create_org :: "site \<Rightarrow> organization_plugin \<Rightarrow> env \<Rightarrow> row \<Rightarrow> (sworld, row) action" where
  "create_org es og ev org_data =
     (let m = dget org_data ''metadata'';
          data = (if py_truthy m then dset ''metadata'' (VStr (og_dumps og m)) org_data else ddrop ''metadata'' org_data)
      in bindA (on_rows (mem_create (store_ad es) ev ''organization'' data [])) (\<lambda>org.
           liftR (with_parsed_metadata og (org_output og ''organization'' org))))"

definition create_member :: "site \<Rightarrow> organization_plugin \<Rightarrow> env \<Rightarrow> row \<Rightarrow> (sworld, row) action" where
  "create_member es og ev data =
     bindA (on_rows (mem_create (store_ad es) ev ''member'' (dset ''createdAt'' (VDate (now ev)) data) [])) (\<lambda>m.
       ret (org_output og ''member'' m))"

definition check_membership :: "site \<Rightarrow> pyval \<Rightarrow> pyval \<Rightarrow> (sworld, row option) action" where
  "check_membership es uid org =
     on_rows (mem_find_one (store_ad es) ''member'' [Where ''userId'' uid, Where ''organizationId'' org] [])"

definition attach_found :: "site \<Rightarrow> organization_plugin \<Rightarrow> row option \<Rightarrow> (sworld, row option) action" where
  "attach_found es og m = (case m of None \<Rightarrow> ret None | Some r \<Rightarrow> attach_user es og r)"

definition find_member_by_org :: "site \<Rightarrow> organization_plugin \<Rightarrow> pyval \<Rightarrow> pyval \<Rightarrow> (sworld, row option) action" where
  "find_member_by_org es og uid org = bindA (check_membership es uid org) (attach_found es og)"

definition find_member_by_id :: "site \<Rightarrow> organization_plugin \<Rightarrow> pyval \<Rightarrow> (sworld, row option) action" where
  "find_member_by_id es og i =
     bindA (on_rows (mem_find_one (store_ad es) ''member'' [Where ''id'' i] [])) (attach_found es og)"

definition find_member_by_email ::
    "site \<Rightarrow> organization_plugin \<Rightarrow> string \<Rightarrow> pyval \<Rightarrow> (sworld, row option) action" where
  "find_member_by_email es og email org =
     bindA (find_user_by_email es (VStr (str_lower email))) (\<lambda>user.
       case user of
         None \<Rightarrow> ret None
       | Some u \<Rightarrow>
           bindA (liftR (dindex u ''id'')) (\<lambda>uid.
           bindA (on_rows (mem_find_one (store_ad es) ''member'' [Where ''organizationId'' org, Where ''userId'' uid] [])) (\<lambda>m.
             case m of
               None \<Rightarrow> ret None
             | Some r \<Rightarrow> bindA (liftR (shape_member og r u)) (\<lambda>shaped. ret (Some shaped)))))"

text \<open>The user of a request as a member of the organization, or the error of the route.\<close>

definition asking_member ::
    "site \<Rightarrow> organization_plugin \<Rightarrow> validated \<Rightarrow> pyval \<Rightarrow> exn \<Rightarrow> (sworld, row) action" where
  "asking_member es og v org missing =
     bindA (liftR (asker_id v)) (\<lambda>uid.
     bindA (find_member_by_org es og uid org) (\<lambda>found.
       case found of None \<Rightarrow> raise missing | Some m \<Rightarrow> ret m))"

text \<open>The users of a list of members, by id; of two rows with one id the later counts.\<close>

fun user_map :: "row list \<Rightarrow> (pyval \<times> row) list result" where
  "user_map [] = Inr []"
| "user_map (u # us) =
     bindR (dindex u ''id'') (\<lambda>i. bindR (hashable i) (\<lambda>_. bindR (user_map us) (\<lambda>rest. Inr (rest @ [(i, u)]))))"

fun row_values :: "string \<Rightarrow> row list \<Rightarrow> pyval list result" where
  "row_values k [] = Inr []"
| "row_values k (r # rs) = bindR (dindex r k) (\<lambda>v. bindR (row_values k rs) (\<lambda>vs. Inr (v # vs)))"

definition users_by_ids :: "site \<Rightarrow> pyval list \<Rightarrow> (sworld, (pyval \<times> row) list) action" where
  "users_by_ids es user_ids =
     (if user_ids = [] then ret []
      else
        bindA (on_rows (mem_find_many (store_ad es) ''user'' [WhereOp ''id'' (VList user_ids) OIn]
                 (Some (int (length user_ids))) None None [])) (\<lambda>users. liftR (user_map users)))"

text \<open>The members whose user is there.\<close>

fun shape_members :: "organization_plugin \<Rightarrow> (pyval \<times> row) list \<Rightarrow> row list \<Rightarrow> row list result" where
  "shape_members og users [] = Inr []"
| "shape_members og users (m # ms) =
     bindR (dindex m ''userId'') (\<lambda>uid. bindR (hashable uid) (\<lambda>_.
       case find (\<lambda>(i, _). py_eq i uid) users of
         None \<Rightarrow> shape_members og users ms
       | Some (_, u) \<Rightarrow>
           bindR (shape_member og m u) (\<lambda>s. bindR (shape_members og users ms) (\<lambda>rest. Inr (s # rest)))))"

definition members_with_users :: "site \<Rightarrow> organization_plugin \<Rightarrow> row list \<Rightarrow> (sworld, row list) action" where
  "members_with_users es og ms =
     bindA (liftR (row_values ''userId'' ms)) (\<lambda>ids.
     bindA (users_by_ids es ids) (\<lambda>users. liftR (shape_members og users ms)))"

fun orgs_of_members ::
    "site \<Rightarrow> organization_plugin \<Rightarrow> pyval list \<Rightarrow> row list \<Rightarrow> (sworld, row list) action" where
  "orgs_of_members es og seen [] = ret []"
| "orgs_of_members es og seen (m # ms) =
     bindA (liftR (bindR (dindex m ''organizationId'') (\<lambda>i. bindR (hashable i) (\<lambda>_. Inr i)))) (\<lambda>org.
       if list_ex (py_eq org) seen then orgs_of_members es og seen ms
       else
         bindA (find_org_by_id es og org) (\<lambda>found.
         bindA (orgs_of_members es og (org # seen) ms) (\<lambda>rest.
           ret (case found of None \<Rightarrow> rest | Some r \<Rightarrow> r # rest))))"

definition list_orgs :: "site \<Rightarrow> organization_plugin \<Rightarrow> pyval \<Rightarrow> (sworld, row list) action" where
  "list_orgs es og uid =
     bindA (on_rows (mem_find_many (store_ad es) ''member'' [Where ''userId'' uid] None None None []))
       (orgs_of_members es og [])"

text \<open>A page of the members with their users, and how many there are in all.\<close>

definition list_members ::
    "site \<Rightarrow> organization_plugin \<Rightarrow> pyval \<Rightarrow> int option \<Rightarrow> int option \<Rightarrow> sort_by option \<Rightarrow> clause option \<Rightarrow>
     (sworld, row list \<times> int) action" where
  "list_members es og org limit offset order extra =
     (let wh = Where ''organizationId'' org # (case extra of None \<Rightarrow> [] | Some c \<Rightarrow> [c]);
          most = (case limit of Some n \<Rightarrow> n | None \<Rightarrow> default_members_limit og);
          skipped = (case offset of Some n \<Rightarrow> n | None \<Rightarrow> 0)
      in bindA (on_rows (mem_find_many (store_ad es) ''member'' wh (Some most) order (Some skipped) [])) (\<lambda>ms.
         bindA (on_rows (mem_count ''member'' wh)) (\<lambda>total.
         bindA (members_with_users es og ms) (\<lambda>shaped. ret (shaped, total)))))"

definition update_org ::
    "site \<Rightarrow> organization_plugin \<Rightarrow> env \<Rightarrow> pyval \<Rightarrow> row \<Rightarrow> (sworld, row option) action" where
  "update_org es og ev org data =
     (let update = (case dget data ''metadata'' of
            VDict d \<Rightarrow> dset ''metadata'' (VStr (og_dumps og (VDict d))) data
          | _ \<Rightarrow> data)
      in bindA (on_rows (mem_update (store_ad es) ev ''organization'' [Where ''id'' org] update)) (\<lambda>updated.
           case updated of
             None \<Rightarrow> ret None
           | Some r \<Rightarrow>
               bindA (liftR (with_parsed_metadata og (org_output og ''organization'' r))) (\<lambda>shown. ret (Some shown))))"

definition update_member ::
    "site \<Rightarrow> organization_plugin \<Rightarrow> env \<Rightarrow> pyval \<Rightarrow> pyval \<Rightarrow> (sworld, row option) action" where
  "update_member es og ev i role =
     bindA (on_rows (mem_update (store_ad es) ev ''member'' [Where ''id'' i] [(''role'', role)])) (\<lambda>m.
       ret (map_option (org_output og ''member'') m))"

section \<open>Teams\<close>

definition create_team :: "site \<Rightarrow> organization_plugin \<Rightarrow> env \<Rightarrow> row \<Rightarrow> (sworld, row) action" where
  "create_team es og ev data =
     bindA (on_rows (mem_create (store_ad es) ev ''team'' (dset ''memberCount'' (VInt 0) data) [])) (\<lambda>team.
       ret (org_output og ''team'' team))"

definition list_team_members :: "site \<Rightarrow> organization_plugin \<Rightarrow> pyval \<Rightarrow> (sworld, row list) action" where
  "list_team_members es og team =
     bindA (on_rows (mem_find_many (store_ad es) ''teamMember'' [Where ''teamId'' team] None None None [])) (\<lambda>ms.
       ret (map (org_output og ''teamMember'') ms))"

definition find_team_by_id ::
    "site \<Rightarrow> organization_plugin \<Rightarrow> pyval \<Rightarrow> pyval \<Rightarrow> (sworld, row option) action" where
  "find_team_by_id es og team org =
     bindA (on_rows (mem_find_one (store_ad es) ''team''
              (Where ''id'' team # (if py_truthy org then [Where ''organizationId'' org] else [])) [])) (\<lambda>found.
       ret (map_option (org_output og ''team'') found))"

definition update_team ::
    "site \<Rightarrow> organization_plugin \<Rightarrow> env \<Rightarrow> pyval \<Rightarrow> row \<Rightarrow> (sworld, row option) action" where
  "update_team es og ev team data =
     bindA (on_rows (mem_update (store_ad es) ev ''team'' [Where ''id'' team]
              (dset ''updatedAt'' (VDate (now ev)) (ddrop ''organizationId'' (ddrop ''id'' data))))) (\<lambda>r.
       ret (map_option (org_output og ''team'') r))"

definition delete_team :: "site \<Rightarrow> pyval \<Rightarrow> (sworld, unit) action" where
  "delete_team es team =
     bindA (on_rows (mem_delete_many ''teamMember'' [Where ''teamId'' team])) (\<lambda>_.
       on_rows (mem_delete ''team'' [Where ''id'' team]))"

definition list_teams :: "site \<Rightarrow> organization_plugin \<Rightarrow> pyval \<Rightarrow> (sworld, row list) action" where
  "list_teams es og org =
     bindA (on_rows (mem_find_many (store_ad es) ''team'' [Where ''organizationId'' org] None None None [])) (\<lambda>ts.
       ret (map (org_output og ''team'') ts))"

definition team_member_row :: "site \<Rightarrow> pyval \<Rightarrow> pyval \<Rightarrow> (sworld, row option) action" where
  "team_member_row es team uid =
     on_rows (mem_find_one (store_ad es) ''teamMember'' [Where ''teamId'' team, Where ''userId'' uid] [])"

definition find_team_member ::
    "site \<Rightarrow> organization_plugin \<Rightarrow> pyval \<Rightarrow> pyval \<Rightarrow> (sworld, row option) action" where
  "find_team_member es og team uid =
     bindA (team_member_row es team uid) (\<lambda>m. ret (map_option (org_output og ''teamMember'') m))"

definition team_membership_key :: "organization_plugin \<Rightarrow> pyval \<Rightarrow> pyval \<Rightarrow> string" where
  "team_membership_key og team uid = b64url_encode_nopad (og_sha256 og (og_dumps og (VList [team, uid])))"

definition find_team_member_by_key_or_pair ::
    "site \<Rightarrow> organization_plugin \<Rightarrow> pyval \<Rightarrow> pyval \<Rightarrow> (sworld, row option) action" where
  "find_team_member_by_key_or_pair es og team uid =
     bindA (on_rows (mem_find_one (store_ad es) ''teamMember''
              [Where ''membershipKey'' (VStr (team_membership_key og team uid))] [])) (\<lambda>by_key.
       case by_key of Some r \<Rightarrow> ret (Some r) | None \<Rightarrow> team_member_row es team uid)"

section \<open>The seats of a team\<close>

definition sync_team_member_count :: "site \<Rightarrow> env \<Rightarrow> pyval \<Rightarrow> (store, unit) action" where
  "sync_team_member_count es ev team =
     bindA (mem_count ''teamMember'' [Where ''teamId'' team]) (\<lambda>n.
     bindA (mem_increment_one (store_ad es) ev ''team''
              [Where ''id'' team, WhereOp ''memberCount'' (VInt n) OLt] None (Some [(''memberCount'', VInt n)]))
       (\<lambda>_. ret ()))"

definition reserve_team_seat :: "site \<Rightarrow> env \<Rightarrow> pyval \<Rightarrow> int \<Rightarrow> (store, bool) action" where
  "reserve_team_seat es ev team maximum =
     bindA (mem_increment_one (store_ad es) ev ''team''
              [Where ''id'' team, WhereOp ''memberCount'' (VInt maximum) OLt] (Some [(''memberCount'', VInt 1)]) None)
       (\<lambda>r. ret (r \<noteq> None))"

definition increment_team_member_count :: "site \<Rightarrow> env \<Rightarrow> pyval \<Rightarrow> (store, unit) action" where
  "increment_team_member_count es ev team =
     bindA (mem_increment_one (store_ad es) ev ''team'' [Where ''id'' team] (Some [(''memberCount'', VInt 1)]) None)
       (\<lambda>_. ret ())"

definition release_team_seats :: "site \<Rightarrow> env \<Rightarrow> pyval \<Rightarrow> int \<Rightarrow> (store, unit) action" where
  "release_team_seats es ev team count =
     (if count \<le> 0 then ret ()
      else
        bindA (mem_increment_one (store_ad es) ev ''team''
                 [Where ''id'' team, WhereOp ''memberCount'' (VInt count) OGte] (Some [(''memberCount'', VInt (- count))]) None)
          (\<lambda>_. ret ()))"

text \<open>A membership that is there, or a new one; whether it is new.\<close>

definition create_team_member_with_key ::
    "site \<Rightarrow> organization_plugin \<Rightarrow> env \<Rightarrow> pyval \<Rightarrow> pyval \<Rightarrow> (sworld, bool \<times> row) action" where
  "create_team_member_with_key es og ev team uid =
     bindA (find_team_member_by_key_or_pair es og team uid) (\<lambda>existing.
       case existing of
         Some r \<Rightarrow> ret (False, r)
       | None \<Rightarrow>
           bindA (on_rows (mem_create (store_ad es) ev ''teamMember''
                    [(''teamId'', team), (''userId'', uid), (''membershipKey'', VStr (team_membership_key og team uid)),
                     (''createdAt'', VDate (now ev))] [])) (\<lambda>m. ret (True, m)))"

definition find_or_create_team_member ::
    "site \<Rightarrow> organization_plugin \<Rightarrow> env \<Rightarrow> pyval \<Rightarrow> pyval \<Rightarrow> (sworld, row) action" where
  "find_or_create_team_member es og ev team uid =
     bindA (find_team_member_by_key_or_pair es og team uid) (\<lambda>existing.
       case existing of
         Some r \<Rightarrow> ret (org_output og ''teamMember'' r)
       | None \<Rightarrow>
           bindA (on_rows (sync_team_member_count es ev team)) (\<lambda>_.
           bindA (create_team_member_with_key es og ev team uid) (\<lambda>(created, m).
           bindA (if created then on_rows (increment_team_member_count es ev team) else ret ()) (\<lambda>_.
             ret (org_output og ''teamMember'' m)))))"

text \<open>A seat is taken before the row is written, and given back when no row was; \<open>None\<close> when none is free.\<close>

definition add_team_member_with_limit ::
    "site \<Rightarrow> organization_plugin \<Rightarrow> env \<Rightarrow> pyval \<Rightarrow> pyval \<Rightarrow> int \<Rightarrow> (sworld, row option) action" where
  "add_team_member_with_limit es og ev team uid maximum =
     bindA (find_team_member_by_key_or_pair es og team uid) (\<lambda>existing.
       case existing of
         Some r \<Rightarrow> ret (Some (org_output og ''teamMember'' r))
       | None \<Rightarrow>
           bindA (on_rows (sync_team_member_count es ev team)) (\<lambda>_.
           bindA (on_rows (reserve_team_seat es ev team maximum)) (\<lambda>seat.
             if \<not> seat then ret None
             else
               bindA (catchA (create_team_member_with_key es og ev team uid)
                        (\<lambda>e. bindA (on_rows (release_team_seats es ev team 1)) (\<lambda>_. raise e))) (\<lambda>(created, m).
               bindA (if created then ret () else on_rows (release_team_seats es ev team 1)) (\<lambda>_.
                 ret (Some (org_output og ''teamMember'' m)))))))"

definition remove_team_member_row :: "site \<Rightarrow> env \<Rightarrow> pyval \<Rightarrow> pyval \<Rightarrow> (store, unit) action" where
  "remove_team_member_row es ev team uid =
     bindA (mem_delete_many ''teamMember'' [Where ''teamId'' team, Where ''userId'' uid]) (\<lambda>n.
       release_team_seats es ev team n)"

fun teams_of_members ::
    "site \<Rightarrow> organization_plugin \<Rightarrow> pyval list \<Rightarrow> row list \<Rightarrow> (sworld, row list) action" where
  "teams_of_members es og seen [] = ret []"
| "teams_of_members es og seen (m # ms) =
     bindA (liftR (bindR (dindex m ''teamId'') (\<lambda>i. bindR (hashable i) (\<lambda>_. Inr i)))) (\<lambda>team.
       if list_ex (py_eq team) seen then teams_of_members es og seen ms
       else
         bindA (find_team_by_id es og team VNone) (\<lambda>found.
         bindA (teams_of_members es og (team # seen) ms) (\<lambda>rest.
           ret (case found of None \<Rightarrow> rest | Some r \<Rightarrow> r # rest))))"

definition list_teams_by_user :: "site \<Rightarrow> organization_plugin \<Rightarrow> pyval \<Rightarrow> (sworld, row list) action" where
  "list_teams_by_user es og uid =
     bindA (on_rows (mem_find_many (store_ad es) ''teamMember'' [Where ''userId'' uid] None None None []))
       (teams_of_members es og [])"

definition session_value :: "validated \<Rightarrow> pyval" where
  "session_value v = VDict [(''session'', VDict (va_session v)), (''user'', VDict (va_user v))]"

definition resolve_maximum_teams :: "organization_plugin \<Rightarrow> pyval \<Rightarrow> validated \<Rightarrow> int option result" where
  "resolve_maximum_teams og org v =
     (case og_max_teams og of
        NoLimit \<Rightarrow> Inr None
      | AtMost n \<Rightarrow> Inr (Some n)
      | LimitBy f \<Rightarrow> bindR (f [(''organizationId'', org), (''session'', session_value v)]) (\<lambda>n. Inr (Some n)))"

definition resolve_max_members_per_team ::
    "organization_plugin \<Rightarrow> pyval \<Rightarrow> pyval \<Rightarrow> validated \<Rightarrow> int option result" where
  "resolve_max_members_per_team og team org v =
     (case og_max_team_members og of
        NoLimit \<Rightarrow> Inr None
      | AtMost n \<Rightarrow> Inr (Some n)
      | LimitBy f \<Rightarrow>
          bindR (f [(''teamId'', team), (''session'', session_value v), (''organizationId'', org)]) (\<lambda>n. Inr (Some n)))"

section \<open>The end of a membership and of an organization\<close>

fun leave_teams :: "site \<Rightarrow> env \<Rightarrow> pyval \<Rightarrow> row list \<Rightarrow> (sworld, unit) action" where
  "leave_teams es ev uid [] = ret ()"
| "leave_teams es ev uid (t # ts) =
     bindA (liftR (dindex t ''id'')) (\<lambda>team.
     bindA (on_rows (remove_team_member_row es ev team uid)) (\<lambda>_. leave_teams es ev uid ts))"

definition delete_member ::
    "site \<Rightarrow> organization_plugin \<Rightarrow> env \<Rightarrow> pyval \<Rightarrow> pyval \<Rightarrow> pyval \<Rightarrow> (sworld, unit) action" where
  "delete_member es og ev i org uid =
     bindA (on_rows (mem_delete ''member'' [Where ''id'' i])) (\<lambda>_.
       if og_teams og \<and> py_truthy org \<and> py_truthy uid
       then bindA (list_teams es og org) (leave_teams es ev uid)
       else ret ())"

definition delete_org :: "site \<Rightarrow> pyval \<Rightarrow> (sworld, unit) action" where
  "delete_org es org =
     bindA (on_rows (mem_delete_many ''member'' [Where ''organizationId'' org])) (\<lambda>_.
     bindA (on_rows (mem_delete_many ''invitation'' [Where ''organizationId'' org])) (\<lambda>_.
       on_rows (mem_delete ''organization'' [Where ''id'' org])))"

section \<open>Invitations\<close>

definition org_expiry :: "organization_plugin \<Rightarrow> env \<Rightarrow> pyval" where
  "org_expiry og ev = VDate (now ev + og_expires_in og * 1000000)"

definition require_verified_for_invitation :: "organization_plugin \<Rightarrow> bool" where
  "require_verified_for_invitation og = (case og_require_verified og of Some b \<Rightarrow> b | None \<Rightarrow> False)"

definition find_invitation_by_id ::
    "site \<Rightarrow> organization_plugin \<Rightarrow> pyval \<Rightarrow> (sworld, row option) action" where
  "find_invitation_by_id es og i =
     bindA (on_rows (mem_find_one (store_ad es) ''invitation'' [Where ''id'' i] [])) (\<lambda>inv.
       ret (map_option (org_output og ''invitation'') inv))"

text \<open>The invitations of a list that have not expired.\<close>

fun unexpired :: "organization_plugin \<Rightarrow> env \<Rightarrow> row list \<Rightarrow> row list result" where
  "unexpired og ev [] = Inr []"
| "unexpired og ev (r # rs) =
     bindR (date_of r ''expiresAt'') (\<lambda>x. bindR (unexpired og ev rs) (\<lambda>rest.
       Inr (if x > now ev then org_output og ''invitation'' r # rest else rest)))"

definition find_pending_invitation ::
    "site \<Rightarrow> organization_plugin \<Rightarrow> env \<Rightarrow> string \<Rightarrow> pyval \<Rightarrow> (sworld, row list) action" where
  "find_pending_invitation es og ev email org =
     bindA (on_rows (mem_find_many (store_ad es) ''invitation''
              [Where ''email'' (VStr (str_lower email)), Where ''organizationId'' org, Where ''status'' (VStr ''pending'')]
              None None None [])) (\<lambda>rs. liftR (unexpired og ev rs))"

definition find_pending_invitations ::
    "site \<Rightarrow> organization_plugin \<Rightarrow> env \<Rightarrow> pyval \<Rightarrow> (sworld, row list) action" where
  "find_pending_invitations es og ev org =
     bindA (on_rows (mem_find_many (store_ad es) ''invitation''
              [Where ''organizationId'' org, Where ''status'' (VStr ''pending'')] None None None []))
       (\<lambda>rs. liftR (unexpired og ev rs))"

definition list_invitation_rows ::
    "site \<Rightarrow> organization_plugin \<Rightarrow> pyval \<Rightarrow> (sworld, row list) action" where
  "list_invitation_rows es og org =
     bindA (on_rows (mem_find_many (store_ad es) ''invitation'' [Where ''organizationId'' org] None None None [])) (\<lambda>rs.
       ret (map (org_output og ''invitation'') rs))"

fun with_org_names :: "site \<Rightarrow> organization_plugin \<Rightarrow> row list \<Rightarrow> (sworld, row list) action" where
  "with_org_names es og [] = ret []"
| "with_org_names es og (r # rs) =
     bindA (liftR (dindex r ''organizationId'')) (\<lambda>org.
     bindA (on_rows (mem_find_one (store_ad es) ''organization'' [Where ''id'' org] [])) (\<lambda>found.
     bindA (liftR (case found of None \<Rightarrow> Inr VNone | Some og_row \<Rightarrow> dindex og_row ''name'')) (\<lambda>name.
     bindA (with_org_names es og rs) (\<lambda>rest.
       ret (dset ''organizationName'' name (org_output og ''invitation'' r) # rest)))))"

definition list_user_invitation_rows ::
    "site \<Rightarrow> organization_plugin \<Rightarrow> string \<Rightarrow> (sworld, row list) action" where
  "list_user_invitation_rows es og email =
     bindA (on_rows (mem_find_many (store_ad es) ''invitation'' [Where ''email'' (VStr (str_lower email))] None None None []))
       (with_org_names es og)"

definition create_invitation ::
    "site \<Rightarrow> organization_plugin \<Rightarrow> env \<Rightarrow> row \<Rightarrow> pyval \<Rightarrow> (sworld, row) action" where
  "create_invitation es og ev invitation uid =
     bindA (on_rows (mem_create (store_ad es) ev ''invitation''
              (dmerge [(''status'', VStr ''pending''), (''expiresAt'', org_expiry og ev), (''createdAt'', VDate (now ev)),
                 (''inviterId'', uid)] invitation) [])) (\<lambda>inv.
       ret (org_output og ''invitation'' inv))"

text \<open>Sets the status; with \<open>from_status\<close> only from that one, in one guarded step.\<close>

definition update_invitation ::
    "site \<Rightarrow> organization_plugin \<Rightarrow> env \<Rightarrow> pyval \<Rightarrow> string \<Rightarrow> string option \<Rightarrow> (sworld, row option) action" where
  "update_invitation es og ev i status from_status =
     bindA (on_rows (mem_increment_one (store_ad es) ev ''invitation''
              (Where ''id'' i # (case from_status of Some s \<Rightarrow> [Where ''status'' (VStr s)] | None \<Rightarrow> []))
              None (Some [(''status'', VStr status)]))) (\<lambda>updated.
       ret (map_option (org_output og ''invitation'') updated))"

text \<open>A removed team leaves the pending invitations that name it.\<close>

definition drop_team_of :: "site \<Rightarrow> env \<Rightarrow> pyval \<Rightarrow> row \<Rightarrow> (sworld, unit) action" where
  "drop_team_of es ev team r =
     (if \<not> py_truthy (dget r ''teamId'') then ret ()
      else
        bindA (liftR (text_value (dget r ''teamId''))) (\<lambda>s.
          let teams = split_on CHR '','' s; remaining = filter (\<lambda>t. VStr t \<noteq> team) teams
          in if remaining = teams then ret ()
             else
               bindA (liftR (dindex r ''id'')) (\<lambda>i.
               bindA (on_rows (mem_update (store_ad es) ev ''invitation'' [Where ''id'' i]
                        [(''teamId'', if remaining = [] then VNone else VStr (join_parts '','' remaining))])) (\<lambda>_.
                 ret ()))))"

fun drop_team_from :: "site \<Rightarrow> env \<Rightarrow> pyval \<Rightarrow> row list \<Rightarrow> (sworld, unit) action" where
  "drop_team_from es ev team [] = ret ()"
| "drop_team_from es ev team (r # rs) = bindA (drop_team_of es ev team r) (\<lambda>_. drop_team_from es ev team rs)"

definition drop_team_from_pending_invitations ::
    "site \<Rightarrow> organization_plugin \<Rightarrow> env \<Rightarrow> pyval \<Rightarrow> pyval \<Rightarrow> (sworld, unit) action" where
  "drop_team_from_pending_invitations es og ev org team =
     bindA (find_pending_invitations es og ev org) (drop_team_from es ev team)"

end
