(* ===== verification/Org_Routes.thy ===== *)
theory Org_Routes
  imports Org_Store Admin
begin

text \<open>
  The routes of \<open>plugins_ext/organization.py\<close> for organizations and their members. The ids that a call may
  draw are numbered: organization, member, team, team member.
\<close>

section \<open>Creating\<close>

definition user_may_create :: "organization_plugin \<Rightarrow> row \<Rightarrow> bool result" where
  "user_may_create og user = (case og_may_create og of Inl b \<Rightarrow> Inr b | Inr f \<Rightarrow> f user)"

definition org_limit_reached :: "organization_plugin \<Rightarrow> row \<Rightarrow> row list \<Rightarrow> bool result" where
  "org_limit_reached og user orgs =
     (case og_limit og of
        NoLimit \<Rightarrow> Inr False
      | AtMost n \<Rightarrow> Inr (int (length orgs) \<ge> n)
      | LimitBy f \<Rightarrow> f user)"

text \<open>The additional fields of a model that a body gives.\<close>

definition extra_given :: "organization_plugin \<Rightarrow> string \<Rightarrow> row \<Rightarrow> row" where
  "extra_given og model b =
     List.map_filter (\<lambda>(k, _). if has_key b k then Some (k, dget b k) else None) (og_extra og model)"

definition is_dict :: "pyval \<Rightarrow> bool" where
  "is_dict v = (case v of VDict _ \<Rightarrow> True | _ \<Rightarrow> False)"

definition new_org_values :: "organization_plugin \<Rightarrow> env \<Rightarrow> string \<Rightarrow> string \<Rightarrow> row \<Rightarrow> row" where
  "new_org_values og ev name slug b =
     dmerge ([(''name'', VStr name), (''slug'', VStr slug), (''createdAt'', VDate (now ev))] @
         (if has_key b ''logo'' then [(''logo'', dget b ''logo'')] else []) @
         (if dget b ''metadata'' \<noteq> VNone then [(''metadata'', dget b ''metadata'')] else []))
       (extra_given og ''organization'' b)"

text \<open>The creator becomes a member with the creator role.\<close>

definition add_creator ::
    "site \<Rightarrow> organization_plugin \<Rightarrow> env \<Rightarrow> row \<Rightarrow> pyval \<Rightarrow> row \<Rightarrow> (sworld, row) action" where
  "add_creator es og ev user uid organization =
     bindA (liftR (dindex organization ''id'')) (\<lambda>org.
     let data = [(''userId'', uid), (''organizationId'', org), (''role'', VStr (creator_role_of og))];
         payload = [(''user'', VDict user), (''organization'', VDict organization)]
     in bindA (run_before_hook og ''before_add_member'' ((''member'', VDict data) # payload)) (\<lambda>merged.
        bindA (create_member es og ev (merge_hook data merged)) (\<lambda>m.
        bindA (run_after_hook og ''after_add_member'' ((''member'', VDict m) # payload)) (\<lambda>_. ret m))))"

text \<open>The first team of the organization, and the creator in it; the membership.\<close>

definition create_default_team ::
    "site \<Rightarrow> organization_plugin \<Rightarrow> env \<Rightarrow> (nat \<Rightarrow> string) \<Rightarrow> row \<Rightarrow> pyval \<Rightarrow> row \<Rightarrow> (sworld, row option) action" where
  "create_default_team es og ev ids user uid organization =
     (if \<not> (og_teams og \<and> og_default_team og) then ret None
      else
        bindA (liftR (dindex organization ''id'')) (\<lambda>org.
        bindA (liftR (dindex organization ''name'')) (\<lambda>name.
        let seed = [(''organizationId'', org), (''name'', name)];
            payload = [(''user'', VDict user), (''organization'', VDict organization)]
        in bindA (run_before_hook og ''before_create_team'' ((''team'', VDict seed) # payload)) (\<lambda>merged.
           bindA (case og_custom_team og of
                    Some custom \<Rightarrow> custom organization
                  | None \<Rightarrow> create_team es og (row_env ev ids 2)
                      (merge_hook (seed @ [(''createdAt'', VDate (now ev))]) merged)) (\<lambda>team.
           bindA (liftR (dindex team ''id'')) (\<lambda>team_id.
           bindA (find_or_create_team_member es og (row_env ev ids 3) team_id uid) (\<lambda>m.
           bindA (run_after_hook og ''after_create_team'' ((''team'', VDict team) # payload)) (\<lambda>_.
             ret (Some m)))))))))"

definition activate_new_org ::
    "site \<Rightarrow> env \<Rightarrow> validated \<Rightarrow> row \<Rightarrow> row option \<Rightarrow> (sworld, unit) action" where
  "activate_new_org es ev v organization team_member =
     bindA (liftR (dindex organization ''id'')) (\<lambda>org.
     bindA (set_active_org es ev v org) (\<lambda>_.
       case team_member of
         None \<Rightarrow> ret ()
       | Some m \<Rightarrow>
           bindA (liftR (dindex m ''teamId'')) (\<lambda>team. bindA (set_active_team es ev v team) (\<lambda>_. ret ()))))"

definition org_create ::
    "site \<Rightarrow> organization_plugin \<Rightarrow> env \<Rightarrow> request \<Rightarrow> body \<Rightarrow> (nat \<Rightarrow> string) \<Rightarrow> (sworld, response) action" where
  "org_create es og ev rq b ids =
     bindA (liftR (request_json b)) (\<lambda>d.
     bindA (liftR (required_nonempty_str d ''name'')) (\<lambda>name.
     bindA (liftR (required_nonempty_str d ''slug'')) (\<lambda>slug.
     bindA (liftR (if dget d ''metadata'' \<noteq> VNone \<and> \<not> is_dict (dget d ''metadata'')
                   then Inl (invalid_body ''metadata must be an object'') else Inr ())) (\<lambda>_.
     bindA (org_session es ev rq) (\<lambda>v.
     bindA (liftR (user_may_create og (va_user v))) (\<lambda>can.
     bindA (if can then ret () else raise (org_err 403 ''YOU_ARE_NOT_ALLOWED_TO_CREATE_A_NEW_ORGANIZATION'')) (\<lambda>_.
     bindA (liftR (asker_id v)) (\<lambda>uid.
     bindA (list_orgs es og uid) (\<lambda>orgs.
     bindA (liftR (org_limit_reached og (va_user v) orgs)) (\<lambda>full.
     bindA (if full then raise (org_err 403 ''YOU_HAVE_REACHED_THE_MAXIMUM_NUMBER_OF_ORGANIZATIONS'') else ret ()) (\<lambda>_.
     bindA (find_org_by_slug es og (VStr slug)) (\<lambda>taken.
     bindA (if real_row taken \<noteq> None then raise (org_err 400 ''ORGANIZATION_ALREADY_EXISTS'') else ret ()) (\<lambda>_.
     let data = new_org_values og ev name slug d
     in bindA (run_before_hook og ''before_create_organization''
                 [(''organization'', VDict data), (''user'', VDict (va_user v))]) (\<lambda>merged.
        bindA (create_org es og (row_env ev ids 0) (merge_hook data merged)) (\<lambda>organization.
        bindA (add_creator es og (row_env ev ids 1) (va_user v) uid organization) (\<lambda>member.
        bindA (create_default_team es og ev ids (va_user v) uid organization) (\<lambda>team_member.
        bindA (run_after_hook og ''after_create_organization''
                 [(''organization'', VDict organization), (''user'', VDict (va_user v)), (''member'', VDict member)]) (\<lambda>_.
        bindA (if py_truthy (dget d ''keepCurrentActiveOrganization'') then ret ()
               else activate_new_org es ev v organization team_member) (\<lambda>_.
          ret (reply (dset ''members'' (VList [VDict member]) organization)))))))))))))))))))))"

definition org_check_slug :: "site \<Rightarrow> organization_plugin \<Rightarrow> body \<Rightarrow> (sworld, response) action" where
  "org_check_slug es og b =
     bindA (liftR (bindR (request_json b) (\<lambda>d. required_str d ''slug''))) (\<lambda>slug.
     bindA (find_org_by_slug es og (VStr slug)) (\<lambda>found.
       if found = None then ret (reply [(''status'', VBool True)])
       else raise (org_err 400 ''ORGANIZATION_SLUG_ALREADY_TAKEN'')))"

section \<open>Changing and deleting\<close>

definition filled_text :: "row \<Rightarrow> string \<Rightarrow> unit result" where
  "filled_text d k =
     (if has_key d k \<and> \<not> (case dget d k of VStr s \<Rightarrow> s \<noteq> [] | _ \<Rightarrow> False)
      then Inl (invalid_body (k @ '' must not be empty'')) else Inr ())"

text \<open>The values of an update that a body may give.\<close>

definition org_update_values :: "organization_plugin \<Rightarrow> row \<Rightarrow> row result" where
  "org_update_values og b =
     (case dget b ''data'' of
        VDict d \<Rightarrow>
          bindR (filled_text d ''name'') (\<lambda>_.
          bindR (filled_text d ''slug'') (\<lambda>_.
            if dget d ''metadata'' \<noteq> VNone \<and> \<not> is_dict (dget d ''metadata'')
            then Inl (invalid_body ''metadata must be an object'')
            else Inr (filter (\<lambda>(k, _). k \<in> {''name'', ''slug'', ''logo'', ''metadata''} \<or> k \<in> fst ` set (og_extra og ''organization'')) d)))
      | _ \<Rightarrow> Inl (invalid_body ''data is required''))"

definition row_value :: "row option \<Rightarrow> pyval" where
  "row_value r = (case r of None \<Rightarrow> VNone | Some d \<Rightarrow> VDict d)"

text \<open>No other organization has the slug.\<close>

definition slug_is_free :: "site \<Rightarrow> organization_plugin \<Rightarrow> pyval \<Rightarrow> pyval \<Rightarrow> (sworld, unit) action" where
  "slug_is_free es og slug org =
     (case slug of
        VStr s \<Rightarrow>
          bindA (find_org_by_slug es og slug) (\<lambda>existing.
            case existing of
              None \<Rightarrow> ret ()
            | Some r \<Rightarrow>
                bindA (liftR (dindex r ''id'')) (\<lambda>i.
                  if py_eq i org then ret () else raise (org_err 400 ''ORGANIZATION_SLUG_ALREADY_TAKEN'')))
      | _ \<Rightarrow> ret ())"

definition org_update ::
    "site \<Rightarrow> organization_plugin \<Rightarrow> env \<Rightarrow> request \<Rightarrow> body \<Rightarrow> (sworld, response) action" where
  "org_update es og ev rq b =
     bindA (liftR (request_json b)) (\<lambda>d.
     bindA (liftR (org_update_values og d)) (\<lambda>data.
     bindA (org_session es ev rq) (\<lambda>v.
     bindA (liftR (chosen_org (dget d ''organizationId'') v (org_err 400 ''ORGANIZATION_NOT_FOUND''))) (\<lambda>org.
     bindA (asking_member es og v org (org_err 400 ''USER_IS_NOT_A_MEMBER_OF_THE_ORGANIZATION'')) (\<lambda>member.
     bindA (member_must es og member (org_grant ''organization'' ''update'') org
              (org_err 403 ''YOU_ARE_NOT_ALLOWED_TO_UPDATE_THIS_ORGANIZATION'')) (\<lambda>_.
     bindA (slug_is_free es og (dget data ''slug'') org) (\<lambda>_.
     let shared = [(''user'', VDict (va_user v)), (''member'', VDict member)]
     in bindA (run_before_hook og ''before_update_organization'' ((''organization'', VDict data) # shared)) (\<lambda>merged.
        bindA (update_org es og ev org (merge_hook data merged)) (\<lambda>updated.
        bindA (run_after_hook og ''after_update_organization'' ((''organization'', row_value updated) # shared)) (\<lambda>_.
          ret (reply_value (row_value updated))))))))))))"

definition org_delete ::
    "site \<Rightarrow> organization_plugin \<Rightarrow> env \<Rightarrow> request \<Rightarrow> body \<Rightarrow> (sworld, response) action" where
  "org_delete es og ev rq b =
     (if og_no_deletion og then raise (api_error 404 ''ORGANIZATION_DELETION_DISABLED'' ''Organization deletion is disabled'')
      else
        bindA (org_session es ev rq) (\<lambda>v.
        bindA (liftR (request_json b)) (\<lambda>d.
        let org = dget d ''organizationId''
        in if \<not> py_truthy org then raise (org_err 400 ''ORGANIZATION_NOT_FOUND'')
           else
             bindA (asking_member es og v org (org_err 400 ''USER_IS_NOT_A_MEMBER_OF_THE_ORGANIZATION'')) (\<lambda>member.
             bindA (member_must es og member (org_grant ''organization'' ''delete'') org
                      (org_err 403 ''YOU_ARE_NOT_ALLOWED_TO_DELETE_THIS_ORGANIZATION'')) (\<lambda>_.
             bindA (if py_eq org (active_org v) then bindA (set_active_org es ev v VNone) (\<lambda>_. ret ()) else ret ()) (\<lambda>_.
             bindA (find_org_by_id es og org) (\<lambda>found.
               case found of
                 None \<Rightarrow> raise (bad_request ''Organization not found'')
               | Some r \<Rightarrow>
                   let payload = [(''organization'', VDict r), (''user'', VDict (va_user v))]
                   in bindA (run_after_hook og ''before_delete_organization'' payload) (\<lambda>_.
                      bindA (delete_org es org) (\<lambda>_.
                      bindA (run_after_hook og ''after_delete_organization'' payload) (\<lambda>_.
                        ret (reply r)))))))))))"

section \<open>Reading\<close>

definition full_org ::
    "site \<Rightarrow> organization_plugin \<Rightarrow> pyval \<Rightarrow> bool \<Rightarrow> int option \<Rightarrow> (sworld, row option) action" where
  "full_org es og key is_slug members_limit =
     bindA (on_rows (mem_find_one (store_ad es) ''organization'' [Where (if is_slug then ''slug'' else ''id'') key] [])) (\<lambda>found.
       case found of
         None \<Rightarrow> ret None
       | Some r \<Rightarrow>
           bindA (liftR (dindex r ''id'')) (\<lambda>org.
           let most = (case members_limit of Some n \<Rightarrow> if n \<noteq> 0 then n else default_members_limit og
                                           | None \<Rightarrow> default_members_limit og)
           in bindA (on_rows (mem_find_many (store_ad es) ''member'' [Where ''organizationId'' org] (Some most) None None [])) (\<lambda>ms.
              bindA (members_with_users es og ms) (\<lambda>shaped.
              bindA (list_invitation_rows es og org) (\<lambda>invitations.
              let result = dmerge (org_output og ''organization'' r)
                    [(''members'', VList (map VDict shaped)), (''invitations'', VList (map VDict invitations))]
              in if og_teams og
                 then bindA (list_teams es og org) (\<lambda>teams. ret (Some (dset ''teams'' (VList (map VDict teams)) result)))
                 else ret (Some result))))))"

text \<open>Whoever asks for an organization without being a member loses the active one.\<close>

definition member_or_deactivate :: "site \<Rightarrow> env \<Rightarrow> validated \<Rightarrow> pyval \<Rightarrow> (sworld, unit) action" where
  "member_or_deactivate es ev v org =
     bindA (liftR (asker_id v)) (\<lambda>uid.
     bindA (check_membership es uid org) (\<lambda>m.
       if m = None
       then bindA (set_active_org es ev v VNone) (\<lambda>_. raise (org_err 403 ''USER_IS_NOT_A_MEMBER_OF_THE_ORGANIZATION''))
       else ret ()))"

text \<open>The organization that a query names by slug or id, or the active one.\<close>

definition queried_org :: "request \<Rightarrow> validated \<Rightarrow> pyval" where
  "queried_org rq v =
     py_or (py_or (query_value rq ''organizationSlug'') (query_value rq ''organizationId'')) (active_org v)"

definition query_int :: "request \<Rightarrow> string \<Rightarrow> int option result" where
  "query_int rq k =
     (case map_of (rq_query rq) k of
        Some (c # cs) \<Rightarrow> (case parse_int (c # cs) of Some n \<Rightarrow> Inr (Some n) | None \<Rightarrow> Inl ValueError)
      | _ \<Rightarrow> Inr None)"

definition org_get_full ::
    "site \<Rightarrow> organization_plugin \<Rightarrow> env \<Rightarrow> request \<Rightarrow> (sworld, response) action" where
  "org_get_full es og ev rq =
     bindA (org_session es ev rq) (\<lambda>v.
     let key = queried_org rq v
     in if \<not> py_truthy key then ret (reply_value VNone)
        else
          bindA (liftR (query_int rq ''membersLimit'')) (\<lambda>limit.
          bindA (full_org es og key (py_truthy (query_value rq ''organizationSlug'')) limit) (\<lambda>found.
            case found of
              None \<Rightarrow> raise (org_err 400 ''ORGANIZATION_NOT_FOUND'')
            | Some full \<Rightarrow>
                bindA (liftR (dindex full ''id'')) (\<lambda>org.
                bindA (member_or_deactivate es ev v org) (\<lambda>_. ret (reply full))))))"

definition org_get ::
    "site \<Rightarrow> organization_plugin \<Rightarrow> env \<Rightarrow> request \<Rightarrow> (sworld, response) action" where
  "org_get es og ev rq =
     bindA (org_session es ev rq) (\<lambda>v.
     let key = queried_org rq v
     in if \<not> py_truthy key then ret (reply_value VNone)
        else
          bindA (if py_truthy (query_value rq ''organizationSlug'') then find_org_by_slug es og key
                 else find_org_by_id es og key) (\<lambda>found.
            case found of
              None \<Rightarrow> raise (org_err 400 ''ORGANIZATION_NOT_FOUND'')
            | Some r \<Rightarrow>
                bindA (liftR (dindex r ''id'')) (\<lambda>org.
                bindA (member_or_deactivate es ev v org) (\<lambda>_. ret (reply r)))))"

definition org_list ::
    "site \<Rightarrow> organization_plugin \<Rightarrow> env \<Rightarrow> request \<Rightarrow> (sworld, response) action" where
  "org_list es og ev rq =
     bindA (org_session es ev rq) (\<lambda>v.
     bindA (liftR (asker_id v)) (\<lambda>uid.
     bindA (list_orgs es og uid) (\<lambda>orgs. ret (reply_value (VList (map VDict orgs))))))"

section \<open>The active organization\<close>

text \<open>The id that a request asks to activate: given, that of a slug, or the one already active.\<close>

definition org_to_activate ::
    "site \<Rightarrow> organization_plugin \<Rightarrow> validated \<Rightarrow> row \<Rightarrow> (sworld, pyval option) action" where
  "org_to_activate es og v d =
     (let org = dget d ''organizationId''; slug = dget d ''organizationSlug''
      in if py_truthy org then ret (Some org)
         else if py_truthy slug then
           bindA (find_org_by_slug es og slug) (\<lambda>found.
             case found of
               None \<Rightarrow> raise (org_err 400 ''ORGANIZATION_NOT_FOUND'')
             | Some r \<Rightarrow>
                 bindA (liftR (dindex r ''id'')) (\<lambda>i.
                   if py_truthy i then ret (Some i) else raise (org_err 400 ''ORGANIZATION_NOT_FOUND'')))
         else if py_truthy (active_org v) then ret (Some (active_org v))
         else ret None)"

definition clear_active_org ::
    "site \<Rightarrow> env \<Rightarrow> request \<Rightarrow> validated \<Rightarrow> (sworld, response) action" where
  "clear_active_org es ev rq v =
     (if \<not> py_truthy (active_org v) then ret (reply_value VNone)
      else
        bindA (set_active_org es ev v VNone) (\<lambda>updated.
          liftR (apply_session_cookie es ev rq v updated (reply_value VNone))))"

definition org_set_active ::
    "site \<Rightarrow> organization_plugin \<Rightarrow> env \<Rightarrow> request \<Rightarrow> body \<Rightarrow> (sworld, response) action" where
  "org_set_active es og ev rq b =
     bindA (org_session es ev rq) (\<lambda>v.
     bindA (liftR (request_json b)) (\<lambda>d.
     bindA (liftR (session_token v)) (\<lambda>_.
       if has_key d ''organizationId'' \<and> dget d ''organizationId'' = VNone then clear_active_org es ev rq v
       else
         bindA (org_to_activate es og v d) (\<lambda>chosen.
           case chosen of
             None \<Rightarrow> ret (reply_value VNone)
           | Some org \<Rightarrow>
               bindA (member_or_deactivate es ev v org) (\<lambda>_.
               bindA (org_must_exist es og org) (\<lambda>r.
               bindA (liftR (dindex r ''id'')) (\<lambda>i.
               bindA (set_active_org es ev v i) (\<lambda>updated.
                 liftR (apply_session_cookie es ev rq v updated (reply r))))))))))"

section \<open>Members\<close>

text \<open>The owners among the members of the organization that one query returns.\<close>

definition org_owners :: "site \<Rightarrow> organization_plugin \<Rightarrow> pyval \<Rightarrow> (sworld, row list) action" where
  "org_owners es og org =
     bindA (on_rows (mem_find_many (store_ad es) ''member'' [Where ''organizationId'' org] None None None []))
       (\<lambda>ms. liftR (holders (creator_role_of og) ms))"

definition leave_active ::
    "site \<Rightarrow> env \<Rightarrow> validated \<Rightarrow> pyval \<Rightarrow> (sworld, unit) action" where
  "leave_active es ev v org =
     (if py_eq (active_org v) org then bindA (set_active_org es ev v VNone) (\<lambda>_. ret ()) else ret ())"

definition org_leave ::
    "site \<Rightarrow> organization_plugin \<Rightarrow> env \<Rightarrow> request \<Rightarrow> body \<Rightarrow> (sworld, response) action" where
  "org_leave es og ev rq b =
     bindA (org_session es ev rq) (\<lambda>v.
     bindA (liftR (bindR (request_json b) (\<lambda>d. required_str d ''organizationId''))) (\<lambda>org.
     bindA (asking_member es og v (VStr org) (org_err 400 ''MEMBER_NOT_FOUND'')) (\<lambda>member.
     bindA (liftR (member_holds (creator_role_of og) member)) (\<lambda>owner.
     bindA (if \<not> owner then ret ()
            else bindA (org_owners es og (VStr org)) (\<lambda>owners.
              if length owners \<le> 1 then raise (org_err 400 ''YOU_CANNOT_LEAVE_THE_ORGANIZATION_AS_THE_ONLY_OWNER'')
              else ret ())) (\<lambda>_.
     bindA (liftR (dindex member ''id'')) (\<lambda>i.
     bindA (liftR (dindex member ''userId'')) (\<lambda>uid.
     bindA (delete_member es og ev i (VStr org) uid) (\<lambda>_.
     bindA (leave_active es ev v (VStr org)) (\<lambda>_.
       ret (reply member))))))))))"

definition member_page ::
    "request \<Rightarrow> (int option \<times> int option \<times> sort_by option \<times> clause option) result" where
  "member_page rq =
     (let q = map_of (rq_query rq)
      in bindR (query_int rq ''limit'') (\<lambda>limit.
         bindR (query_int rq ''offset'') (\<lambda>offset.
           Inr (limit, offset, list_order q,
             case q ''filterField'' of
               Some (c # cs) \<Rightarrow>
                 Some (WhereOp (c # cs) (query_value rq ''filterValue'') (oper_named (or_text (q ''filterOperator'') ''eq'')))
             | _ \<Rightarrow> None))))"

definition org_list_members ::
    "site \<Rightarrow> organization_plugin \<Rightarrow> env \<Rightarrow> request \<Rightarrow> (sworld, response) action" where
  "org_list_members es og ev rq =
     bindA (org_session es ev rq) (\<lambda>v.
     bindA (if py_truthy (query_value rq ''organizationSlug'') then
              bindA (find_org_by_slug es og (query_value rq ''organizationSlug'')) (\<lambda>found.
                case found of
                  None \<Rightarrow> raise (org_err 400 ''ORGANIZATION_NOT_FOUND'')
                | Some r \<Rightarrow> liftR (dindex r ''id''))
            else ret (py_or (query_value rq ''organizationId'') (active_org v))) (\<lambda>org.
     if \<not> py_truthy org then raise (org_err 400 ''NO_ACTIVE_ORGANIZATION'')
     else
       bindA (asking_member es og v org (org_err 403 ''YOU_ARE_NOT_A_MEMBER_OF_THIS_ORGANIZATION'')) (\<lambda>_.
       bindA (liftR (member_page rq)) (\<lambda>(limit, offset, order, extra).
       bindA (list_members es og org limit offset order extra) (\<lambda>(ms, total).
         ret (reply [(''members'', VList (map VDict ms)), (''total'', VInt total)]))))))"

definition member_to_remove ::
    "site \<Rightarrow> organization_plugin \<Rightarrow> string \<Rightarrow> pyval \<Rightarrow> (sworld, row) action" where
  "member_to_remove es og id_or_email org =
     bindA (if CHR ''@'' \<in> set id_or_email then find_member_by_email es og id_or_email org
            else bindA (find_member_by_id es og (VStr id_or_email)) (\<lambda>found.
                   ret (map_option (ddrop ''user'') (real_row found)))) (\<lambda>found.
       case found of None \<Rightarrow> raise (org_err 400 ''MEMBER_NOT_FOUND'') | Some m \<Rightarrow> ret m)"

text \<open>An owner is removed only by an owner, and never as the last of the members listed.\<close>

definition may_remove_owner ::
    "site \<Rightarrow> organization_plugin \<Rightarrow> row \<Rightarrow> row \<Rightarrow> pyval \<Rightarrow> (sworld, unit) action" where
  "may_remove_owner es og actor to_remove org =
     bindA (liftR (member_holds (creator_role_of og) to_remove)) (\<lambda>owner.
       if \<not> owner then ret ()
       else
         bindA (liftR (bindR (dindex actor ''role'') text_value)) (\<lambda>r.
           if creator_role_of og \<notin> strip ` set (split_on CHR '','' r)
           then raise (org_err 400 ''YOU_CANNOT_LEAVE_THE_ORGANIZATION_AS_THE_ONLY_OWNER'')
           else
             bindA (list_members es og org None None None None) (\<lambda>(listed, _).
             bindA (liftR (holders (creator_role_of og) listed)) (\<lambda>owners.
               if length owners \<le> 1 then raise (org_err 400 ''YOU_CANNOT_LEAVE_THE_ORGANIZATION_AS_THE_ONLY_OWNER'')
               else ret ()))))"

definition user_must_exist :: "site \<Rightarrow> pyval \<Rightarrow> (sworld, row) action" where
  "user_must_exist es uid =
     bindA (find_user es uid) (\<lambda>found.
       case found of None \<Rightarrow> raise (bad_request ''User not found'') | Some u \<Rightarrow> ret u)"

text \<open>The removal itself, once it is allowed.\<close>

definition remove_checked ::
    "site \<Rightarrow> organization_plugin \<Rightarrow> env \<Rightarrow> validated \<Rightarrow> row \<Rightarrow> pyval \<Rightarrow> (sworld, response) action" where
  "remove_checked es og ev v m org =
     bindA (org_must_exist es og org) (\<lambda>organization.
     bindA (liftR (dindex m ''userId'')) (\<lambda>uid.
     bindA (user_must_exist es uid) (\<lambda>user.
     let payload = [(''member'', VDict m), (''user'', VDict user), (''organization'', VDict organization)]
     in bindA (run_after_hook og ''before_remove_member'' payload) (\<lambda>_.
        bindA (liftR (dindex m ''id'')) (\<lambda>i.
        bindA (liftR (dindex m ''organizationId'')) (\<lambda>home.
        bindA (delete_member es og ev i home uid) (\<lambda>_.
        bindA (liftR (asker_id v)) (\<lambda>own.
        bindA (if py_eq own uid then leave_active es ev v home else ret ()) (\<lambda>_.
        bindA (run_after_hook og ''after_remove_member'' payload) (\<lambda>_.
          ret (reply [(''member'', VDict m)])))))))))))"

definition org_remove_member ::
    "site \<Rightarrow> organization_plugin \<Rightarrow> env \<Rightarrow> request \<Rightarrow> body \<Rightarrow> (sworld, response) action" where
  "org_remove_member es og ev rq b =
     bindA (org_session es ev rq) (\<lambda>v.
     bindA (liftR (request_json b)) (\<lambda>d.
     bindA (liftR (chosen_org (dget d ''organizationId'') v (org_err 400 ''NO_ACTIVE_ORGANIZATION''))) (\<lambda>org.
     bindA (asking_member es og v org (org_err 400 ''MEMBER_NOT_FOUND'')) (\<lambda>actor.
     bindA (liftR (required_str d ''memberIdOrEmail'')) (\<lambda>asked.
     bindA (member_to_remove es og asked org) (\<lambda>m.
     bindA (may_remove_owner es og actor m org) (\<lambda>_.
     bindA (member_must es og actor (org_grant ''member'' ''delete'') org
              (org_err 401 ''YOU_ARE_NOT_ALLOWED_TO_DELETE_THIS_MEMBER'')) (\<lambda>_.
     bindA (liftR (dindex m ''organizationId'')) (\<lambda>home.
       if \<not> py_eq home org then raise (org_err 400 ''MEMBER_NOT_FOUND'')
       else remove_checked es og ev v m org)))))))))"

section \<open>Roles of members\<close>

definition role_items :: "pyval \<Rightarrow> pyval list" where
  "role_items v = (case v of VList vs \<Rightarrow> vs | _ \<Rightarrow> [v])"

text \<open>The roles that a request sets: the parts of its texts.\<close>

definition roles_to_set :: "pyval \<Rightarrow> string list" where
  "roles_to_set v = concat (map (\<lambda>x. case x of VStr s \<Rightarrow> role_parts s | _ \<Rightarrow> []) (role_items v))"

text \<open>Only an owner changes an owner or makes one; the only owner stays one.\<close>

definition may_change_role ::
    "site \<Rightarrow> organization_plugin \<Rightarrow> row \<Rightarrow> row \<Rightarrow> string list \<Rightarrow> pyval \<Rightarrow> (sworld, unit) action" where
  "may_change_role es og actor target roles org =
     (let sets_owner = (creator_role_of og \<in> set roles)
      in bindA (liftR (member_holds (creator_role_of og) actor)) (\<lambda>by_owner.
         bindA (liftR (member_holds (creator_role_of og) target)) (\<lambda>of_owner.
           if (of_owner \<or> sets_owner) \<and> \<not> by_owner then raise (org_err 403 ''YOU_ARE_NOT_ALLOWED_TO_UPDATE_THIS_MEMBER'')
           else
             bindA (liftR (dindex actor ''id'')) (\<lambda>i.
             bindA (liftR (dindex target ''id'')) (\<lambda>j.
               if by_owner \<and> py_eq i j then
                 bindA (org_owners es og org) (\<lambda>owners.
                   if length owners \<le> 1 \<and> \<not> sets_owner
                   then raise (org_err 400 ''YOU_CANNOT_LEAVE_THE_ORGANIZATION_WITHOUT_AN_OWNER'')
                   else ret ())
               else ret ())))))"

definition member_to_change ::
    "site \<Rightarrow> organization_plugin \<Rightarrow> row \<Rightarrow> string \<Rightarrow> pyval \<Rightarrow> (sworld, row) action" where
  "member_to_change es og actor member_id org =
     bindA (liftR (dindex actor ''id'')) (\<lambda>i.
     bindA (if i = VStr member_id then ret (Some actor) else find_member_by_id es og (VStr member_id)) (\<lambda>found.
       case found of
         None \<Rightarrow> raise (org_err 400 ''MEMBER_NOT_FOUND'')
       | Some m \<Rightarrow>
           bindA (liftR (dindex m ''organizationId'')) (\<lambda>home.
             if \<not> py_eq home org then raise (org_err 403 ''YOU_ARE_NOT_ALLOWED_TO_UPDATE_THIS_MEMBER'') else ret m)))"

definition change_role ::
    "site \<Rightarrow> organization_plugin \<Rightarrow> env \<Rightarrow> row \<Rightarrow> string \<Rightarrow> string list \<Rightarrow> pyval \<Rightarrow> (sworld, response) action" where
  "change_role es og ev target member_id roles org =
     bindA (org_must_exist es og org) (\<lambda>organization.
     bindA (liftR (dindex target ''userId'')) (\<lambda>uid.
     bindA (user_must_exist es uid) (\<lambda>user.
     bindA (liftR (dindex target ''role'')) (\<lambda>previous.
     let new_role = VStr (join_parts '','' roles);
         shared = [(''user'', VDict user), (''organization'', VDict organization)]
     in bindA (run_before_hook og ''before_update_member_role''
                 ([(''member'', VDict target), (''newRole'', new_role)] @ shared)) (\<lambda>merged.
        let value = (case merged of Some d \<Rightarrow> if has_key d ''role'' then dget d ''role'' else new_role | None \<Rightarrow> new_role)
        in bindA (update_member es og ev (VStr member_id) value) (\<lambda>updated.
             case updated of
               None \<Rightarrow> raise (org_err 400 ''MEMBER_NOT_FOUND'')
             | Some m \<Rightarrow>
                 bindA (run_after_hook og ''after_update_member_role''
                          ([(''member'', VDict m), (''previousRole'', previous)] @ shared)) (\<lambda>_.
                   ret (reply m))))))))"

definition org_update_member_role ::
    "site \<Rightarrow> organization_plugin \<Rightarrow> env \<Rightarrow> request \<Rightarrow> body \<Rightarrow> (sworld, response) action" where
  "org_update_member_role es og ev rq b =
     bindA (org_session es ev rq) (\<lambda>v.
     bindA (liftR (request_json b)) (\<lambda>d.
     bindA (if py_truthy (dget d ''role'') then ret () else raise (invalid_body ''role is required'')) (\<lambda>_.
     bindA (liftR (chosen_org (dget d ''organizationId'') v (org_err 400 ''NO_ACTIVE_ORGANIZATION''))) (\<lambda>org.
     bindA (liftR (required_str d ''memberId'')) (\<lambda>member_id.
     let roles = roles_to_set (dget d ''role'')
     in if roles = [] then raise (invalid_body ''role is required'')
        else
          bindA (asking_member es og v org (org_err 400 ''MEMBER_NOT_FOUND'')) (\<lambda>actor.
          bindA (member_to_change es og actor member_id org) (\<lambda>target.
          bindA (may_change_role es og actor target roles org) (\<lambda>_.
          bindA (member_may es og actor (org_grant ''member'' ''update'') org True) (\<lambda>ok.
            if \<not> ok then raise (org_err 403 ''YOU_ARE_NOT_ALLOWED_TO_UPDATE_THIS_MEMBER'')
            else
              bindA (roles_must_exist es og org roles ''ROLE_NOT_FOUND'') (\<lambda>_.
                change_role es og ev target member_id roles org))))))))))"

definition org_get_active_member ::
    "site \<Rightarrow> organization_plugin \<Rightarrow> env \<Rightarrow> request \<Rightarrow> (sworld, response) action" where
  "org_get_active_member es og ev rq =
     bindA (org_session es ev rq) (\<lambda>v.
       if \<not> py_truthy (active_org v) then raise (org_err 400 ''NO_ACTIVE_ORGANIZATION'')
       else bindA (asking_member es og v (active_org v) (org_err 400 ''MEMBER_NOT_FOUND'')) (\<lambda>m. ret (reply m)))"

definition org_has_permission ::
    "site \<Rightarrow> organization_plugin \<Rightarrow> env \<Rightarrow> request \<Rightarrow> body \<Rightarrow> (sworld, response) action" where
  "org_has_permission es og ev rq b =
     bindA (org_session es ev rq) (\<lambda>v.
     bindA (liftR (request_json b)) (\<lambda>d.
     bindA (liftR (chosen_org (dget d ''organizationId'') v (org_err 400 ''NO_ACTIVE_ORGANIZATION''))) (\<lambda>org.
     bindA (asking_member es og v org (org_err 401 ''USER_IS_NOT_A_MEMBER_OF_THE_ORGANIZATION'')) (\<lambda>m.
     bindA (member_may_value es og m
              (if dget d ''permissions'' = VNone then dget d ''permission'' else dget d ''permissions'') org) (\<lambda>ok.
       ret (reply [(''error'', VNone), (''success'', VBool ok)]))))))"

end
