(* ===== verification/Org_Invitations.thy ===== *)
theory Org_Invitations
  imports Org_Routes
begin

text \<open>
  The invitations of \<open>plugins_ext/organization.py\<close>: a member who may invite asks an address in, and the user
  with that address accepts or rejects. Accepting claims the invitation in one guarded step before anything
  else is written, and releases it when the rest fails.
\<close>

section \<open>Inviting\<close>

definition send_invitation :: "organization_plugin \<Rightarrow> row \<Rightarrow> row \<Rightarrow> row \<Rightarrow> row \<Rightarrow> (sworld, unit) action" where
  "send_invitation og invitation organization member user =
     (case og_send_invitation og of
        None \<Rightarrow> ret ()
      | Some send \<Rightarrow>
          bindA (liftR (dindex invitation ''id'')) (\<lambda>i.
          bindA (liftR (dindex invitation ''role'')) (\<lambda>role.
          bindA (liftR (bindR (dindex invitation ''email'') lower_arg)) (\<lambda>email.
          let payload = [(''id'', i), (''role'', role), (''email'', VStr email), (''organization'', VDict organization),
                (''inviter'', VDict (dset ''user'' (VDict user) member)), (''invitation'', VDict invitation)]
          in notify (PluginCall ''send_invitation_email'' [VDict payload]) (send payload)))))"

definition invitation_limit :: "organization_plugin \<Rightarrow> row \<Rightarrow> row \<Rightarrow> row \<Rightarrow> int result" where
  "invitation_limit og user organization member =
     (case og_invitations og of
        NoLimit \<Rightarrow> Inr 100
      | AtMost n \<Rightarrow> Inr n
      | LimitBy f \<Rightarrow> f [(''user'', VDict user), (''organization'', VDict organization), (''member'', VDict member)])"

text \<open>
  The roles of a new invitation: they exist, and the creator role, compared with the parts as they are, is
  given only by a member who has it.
\<close>

definition invited_roles ::
    "site \<Rightarrow> organization_plugin \<Rightarrow> row \<Rightarrow> pyval \<Rightarrow> pyval \<Rightarrow> (sworld, string) action" where
  "invited_roles es og member raw org =
     (if \<not> py_truthy raw then raise (invalid_body ''role is required'')
      else
        bindA (liftR (bindR (join_roles raw) text_value)) (\<lambda>roles.
        bindA (roles_must_exist es og org (role_parts roles) ''Role not found'') (\<lambda>_.
        bindA (liftR (bindR (dindex member ''role'') text_value)) (\<lambda>own.
          if creator_role_of og \<notin> strip ` set (split_on CHR '','' own) \<and> creator_role_of og \<in> set (split_on CHR '','' roles)
          then raise (org_err 403 ''YOU_ARE_NOT_ALLOWED_TO_INVITE_USER_WITH_THIS_ROLE'')
          else ret roles))))"

text \<open>The teams that a new invitation names.\<close>

fun any_comma :: "pyval list \<Rightarrow> bool result" where
  "any_comma [] = Inr False"
| "any_comma (t # ts) =
     bindR (case t of
              VStr s \<Rightarrow> Inr (CHR '','' \<in> set s)
            | VList vs \<Rightarrow> Inr (VStr '','' \<in> set vs)
            | VDict d \<Rightarrow> Inr ('','' \<in> fst ` set d)
            | _ \<Rightarrow> Inl TypeError) (\<lambda>found. if found then Inr True else any_comma ts)"

definition asked_teams :: "pyval \<Rightarrow> pyval list result" where
  "asked_teams v =
     (case v of
        VStr s \<Rightarrow> Inr [VStr s]
      | VList vs \<Rightarrow> Inr vs
      | VDict d \<Rightarrow> Inr (map (\<lambda>(k, _). VStr k) d)
      | _ \<Rightarrow> Inl TypeError)"

fun teams_in_org :: "site \<Rightarrow> organization_plugin \<Rightarrow> pyval \<Rightarrow> pyval list \<Rightarrow> (sworld, unit) action" where
  "teams_in_org es og org [] = ret ()"
| "teams_in_org es og org (t # ts) =
     bindA (find_team_by_id es og t org) (\<lambda>found.
       if found = None then raise (org_err 400 ''TEAM_NOT_FOUND'') else teams_in_org es og org ts)"

fun teams_have_room ::
    "site \<Rightarrow> organization_plugin \<Rightarrow> validated \<Rightarrow> pyval \<Rightarrow> pyval list \<Rightarrow> (sworld, unit) action" where
  "teams_have_room es og v org [] = ret ()"
| "teams_have_room es og v org (t # ts) =
     bindA (find_team_by_id es og t org) (\<lambda>found.
       if found = None then raise (org_err 400 ''TEAM_NOT_FOUND'')
       else
         bindA (list_team_members es og t) (\<lambda>ms.
         bindA (liftR (resolve_max_members_per_team og t org v)) (\<lambda>resolved.
           case resolved of
             None \<Rightarrow> teams_have_room es og v org ts
           | Some n \<Rightarrow>
               if int (length ms) \<ge> n then raise (org_err 403 ''TEAM_MEMBER_LIMIT_REACHED'')
               else teams_have_room es og v org ts)))"

definition invited_teams ::
    "site \<Rightarrow> organization_plugin \<Rightarrow> validated \<Rightarrow> pyval \<Rightarrow> pyval \<Rightarrow> (sworld, pyval list) action" where
  "invited_teams es og v raw org =
     (if \<not> (og_teams og \<and> py_truthy raw) then ret []
      else
        bindA (liftR (asked_teams raw)) (\<lambda>teams.
        bindA (liftR (any_comma teams)) (\<lambda>comma.
          if comma then raise (org_err 400 ''INVALID_TEAM_ID'')
          else
            bindA (teams_in_org es og org teams) (\<lambda>_.
            bindA (case og_max_team_members og of NoLimit \<Rightarrow> ret () | _ \<Rightarrow> teams_have_room es og v org teams) (\<lambda>_.
              ret teams)))))"

definition team_column :: "pyval list \<Rightarrow> pyval result" where
  "team_column teams =
     (if teams = [] then Inr VNone else bindR (all_texts teams) (\<lambda>ts. Inr (VStr (join_parts '','' ts))))"

definition resend_invitation ::
    "site \<Rightarrow> organization_plugin \<Rightarrow> env \<Rightarrow> row \<Rightarrow> row \<Rightarrow> row \<Rightarrow> row \<Rightarrow> (sworld, response) action" where
  "resend_invitation es og ev existing organization member user =
     bindA (liftR (dindex existing ''id'')) (\<lambda>i.
     bindA (on_rows (mem_update (store_ad es) ev ''invitation'' [Where ''id'' i] [(''expiresAt'', org_expiry og ev)])) (\<lambda>_.
     let updated = dset ''expiresAt'' (org_expiry og ev) existing
     in bindA (send_invitation og updated organization member user) (\<lambda>_. ret (reply updated))))"

text \<open>The row of a new invitation, its hook and its mail.\<close>

definition write_invitation ::
    "site \<Rightarrow> organization_plugin \<Rightarrow> env \<Rightarrow> validated \<Rightarrow> row \<Rightarrow> string \<Rightarrow> string \<Rightarrow> pyval \<Rightarrow> pyval list \<Rightarrow> row \<Rightarrow> row \<Rightarrow>
     (sworld, response) action" where
  "write_invitation es og ev v d roles email org teams organization member =
     bindA (liftR (asker_id v)) (\<lambda>uid.
     let user = va_user v;
         data = dmerge [(''role'', VStr roles), (''email'', VStr email), (''organizationId'', org)]
                  (extra_given og ''invitation'' d);
         shared = [(''inviter'', VDict user), (''organization'', VDict organization)];
         shown = dmerge data [(''inviterId'', uid), (''teamId'', case teams of t # _ \<Rightarrow> t | [] \<Rightarrow> VNone)]
     in bindA (run_before_hook og ''before_create_invitation'' ((''invitation'', VDict shown) # shared)) (\<lambda>merged.
        bindA (liftR (if og_teams og then bindR (team_column teams) (\<lambda>t. Inr (dset ''teamId'' t (merge_hook data merged)))
                      else Inr (merge_hook data merged))) (\<lambda>row_data.
        bindA (create_invitation es og ev row_data uid) (\<lambda>invitation.
        bindA (send_invitation og invitation organization member user) (\<lambda>_.
        bindA (run_after_hook og ''after_create_invitation'' ((''invitation'', VDict invitation) # shared)) (\<lambda>_.
          ret (reply invitation)))))))"

text \<open>A new invitation, once the invited address is free and the caller may invite.\<close>

definition invite_fresh ::
    "site \<Rightarrow> organization_plugin \<Rightarrow> env \<Rightarrow> validated \<Rightarrow> row \<Rightarrow> string \<Rightarrow> string \<Rightarrow> pyval \<Rightarrow> row list \<Rightarrow> row \<Rightarrow> row \<Rightarrow>
     (sworld, response) action" where
  "invite_fresh es og ev v d roles email org already organization member =
     bindA (case already of
              first # _ \<Rightarrow>
                if og_cancel_pending og
                then bindA (liftR (dindex first ''id'')) (\<lambda>i. bindA (update_invitation es og ev i ''canceled'' None) (\<lambda>_. ret ()))
                else ret ()
            | [] \<Rightarrow> ret ()) (\<lambda>_.
     bindA (liftR (invitation_limit og (va_user v) organization member)) (\<lambda>most.
     bindA (find_pending_invitations es og ev org) (\<lambda>pending.
       if int (length pending) \<ge> most then raise (org_err 403 ''INVITATION_LIMIT_REACHED'')
       else
         bindA (invited_teams es og v (dget d ''teamId'') org) (\<lambda>teams.
           write_invitation es og ev v d roles email org teams organization member))))"

definition org_invite_member ::
    "site \<Rightarrow> organization_plugin \<Rightarrow> env \<Rightarrow> request \<Rightarrow> body \<Rightarrow> (sworld, response) action" where
  "org_invite_member es og ev rq b =
     bindA (org_session es ev rq) (\<lambda>v.
     bindA (liftR (request_json b)) (\<lambda>d.
     bindA (liftR (chosen_org (dget d ''organizationId'') v (org_err 400 ''ORGANIZATION_NOT_FOUND''))) (\<lambda>org.
     bindA (liftR (bindR (required_str d ''email'') (\<lambda>e. validate_email (VStr e)))) (\<lambda>email.
     bindA (asking_member es og v org (org_err 400 ''MEMBER_NOT_FOUND'')) (\<lambda>member.
     bindA (member_must es og member (org_grant ''invitation'' ''create'') org
              (org_err 403 ''YOU_ARE_NOT_ALLOWED_TO_INVITE_USERS_TO_THIS_ORGANIZATION'')) (\<lambda>_.
     bindA (invited_roles es og member (dget d ''role'') org) (\<lambda>roles.
     bindA (find_member_by_email es og email org) (\<lambda>there.
     if there \<noteq> None then raise (org_err 400 ''USER_IS_ALREADY_A_MEMBER_OF_THIS_ORGANIZATION'')
     else
       bindA (find_pending_invitation es og ev email org) (\<lambda>already.
       if already \<noteq> [] \<and> \<not> py_truthy (dget d ''resend'') \<and> \<not> og_cancel_pending og
       then raise (org_err 400 ''USER_IS_ALREADY_INVITED_TO_THIS_ORGANIZATION'')
       else
         bindA (org_must_exist es og org) (\<lambda>organization.
           if already \<noteq> [] \<and> py_truthy (dget d ''resend'')
           then resend_invitation es og ev (hd already) organization member (va_user v)
           else invite_fresh es og ev v d roles email org already organization member))))))))))"

section \<open>Accepting\<close>

definition recipient_must ::
    "organization_plugin \<Rightarrow> row \<Rightarrow> row \<Rightarrow> string \<Rightarrow> unit result" where
  "recipient_must og invitation user unverified =
     bindR (bindR (dindex invitation ''email'') lower_arg) (\<lambda>to.
     bindR (bindR (dindex user ''email'') lower_arg) (\<lambda>own.
       if to \<noteq> own then Inl (org_err 403 ''YOU_ARE_NOT_THE_RECIPIENT_OF_THE_INVITATION'')
       else if require_verified_for_invitation og \<and> \<not> py_truthy (dget user ''emailVerified'')
       then Inl (org_err 403 unverified)
       else Inr ()))"

text \<open>An invitation that can be accepted now.\<close>

definition invitation_open :: "env \<Rightarrow> row option \<Rightarrow> row option result" where
  "invitation_open ev found =
     (case found of
        None \<Rightarrow> Inr None
      | Some offer \<Rightarrow>
          bindR (date_of offer ''expiresAt'') (\<lambda>x.
            if x < now ev then Inr None
            else bindR (dindex offer ''status'') (\<lambda>s. Inr (if s = VStr ''pending'' then Some offer else None))))"

definition membership_limit_of :: "organization_plugin \<Rightarrow> row \<Rightarrow> row \<Rightarrow> int result" where
  "membership_limit_of og user organization =
     (case og_members og of
        NoLimit \<Rightarrow> Inr 100
      | AtMost n \<Rightarrow> Inr (if n = 0 then 100 else n)
      | LimitBy f \<Rightarrow> f user organization)"

text \<open>The user joins each team that the invitation names.\<close>

fun join_teams ::
    "site \<Rightarrow> organization_plugin \<Rightarrow> env \<Rightarrow> (nat \<Rightarrow> string) \<Rightarrow> validated \<Rightarrow> pyval \<Rightarrow> pyval \<Rightarrow> nat \<Rightarrow> string list \<Rightarrow>
     (sworld, unit) action" where
  "join_teams es og ev ids v org uid n [] = ret ()"
| "join_teams es og ev ids v org uid n (t # ts) =
     bindA (find_team_by_id es og (VStr t) org) (\<lambda>found.
       if found = None then raise (org_err 400 ''TEAM_NOT_FOUND'')
       else
         bindA (liftR (resolve_max_members_per_team og (VStr t) org v)) (\<lambda>resolved.
         bindA (case resolved of
                  Some most \<Rightarrow>
                    bindA (add_team_member_with_limit es og (row_env ev ids n) (VStr t) uid most) (\<lambda>added.
                      if added = None then raise (org_err 403 ''TEAM_MEMBER_LIMIT_REACHED'') else ret ())
                | None \<Rightarrow>
                    bindA (find_or_create_team_member es og (row_env ev ids n) (VStr t) uid) (\<lambda>_. ret ())) (\<lambda>_.
           join_teams es og ev ids v org uid (Suc n) ts)))"

text \<open>The memberships of an accepted invitation: in its teams, and in the organization.\<close>

definition join_invited_teams ::
    "site \<Rightarrow> organization_plugin \<Rightarrow> env \<Rightarrow> (nat \<Rightarrow> string) \<Rightarrow> validated \<Rightarrow> row \<Rightarrow> pyval \<Rightarrow> pyval \<Rightarrow>
     (sworld, row option) action" where
  "join_invited_teams es og ev ids v accepted org uid =
     (if \<not> (og_teams og \<and> py_truthy (dget accepted ''teamId'')) then ret None
      else
        bindA (liftR (text_value (dget accepted ''teamId''))) (\<lambda>s.
        let teams = split_on CHR '','' s
        in bindA (join_teams es og ev ids v org uid 1 teams) (\<lambda>_.
             case teams of
               [t] \<Rightarrow> set_active_team es ev v (VStr t)
             | _ \<Rightarrow> ret None)))"

definition join_accepted ::
    "site \<Rightarrow> organization_plugin \<Rightarrow> env \<Rightarrow> (nat \<Rightarrow> string) \<Rightarrow> validated \<Rightarrow> row \<Rightarrow> (sworld, row \<times> row option) action" where
  "join_accepted es og ev ids v accepted =
     bindA (liftR (asker_id v)) (\<lambda>uid.
     bindA (liftR (dindex accepted ''organizationId'')) (\<lambda>org.
     bindA (join_invited_teams es og ev ids v accepted org uid) (\<lambda>team_session.
     bindA (liftR (dindex accepted ''role'')) (\<lambda>role.
     bindA (create_member es og (row_env ev ids 0)
              [(''userId'', uid), (''organizationId'', org), (''role'', role)]) (\<lambda>m.
     bindA (set_active_org es ev v org) (\<lambda>_. ret (m, team_session)))))))"

text \<open>\<open>pending\<close> becomes \<open>accepted\<close>; when the memberships fail, \<open>accepted\<close> becomes \<open>pending\<close> again.\<close>

definition claim_and_join ::
    "site \<Rightarrow> organization_plugin \<Rightarrow> env \<Rightarrow> (nat \<Rightarrow> string) \<Rightarrow> validated \<Rightarrow> string \<Rightarrow>
     (sworld, row \<times> row \<times> row option) action" where
  "claim_and_join es og ev ids v i =
     bindA (update_invitation es og ev (VStr i) ''accepted'' (Some ''pending'')) (\<lambda>claimed.
       case claimed of
         None \<Rightarrow> raise (org_err 400 ''INVITATION_NOT_FOUND'')
       | Some accepted \<Rightarrow>
           bindA (catchA (join_accepted es og ev ids v accepted)
                    (\<lambda>e. bindA (update_invitation es og ev (VStr i) ''pending'' (Some ''accepted'')) (\<lambda>_. raise e)))
             (\<lambda>(m, team_session). ret (accepted, m, team_session)))"

definition org_accept_invitation ::
    "site \<Rightarrow> organization_plugin \<Rightarrow> env \<Rightarrow> request \<Rightarrow> body \<Rightarrow> (nat \<Rightarrow> string) \<Rightarrow> (sworld, response) action" where
  "org_accept_invitation es og ev rq b ids =
     bindA (org_session es ev rq) (\<lambda>v.
     bindA (liftR (bindR (request_json b) (\<lambda>d. required_str d ''invitationId''))) (\<lambda>i.
     bindA (find_invitation_by_id es og (VStr i)) (\<lambda>found.
     bindA (liftR (invitation_open ev found)) (\<lambda>current.
     case current of
       None \<Rightarrow> raise (org_err 400 ''INVITATION_NOT_FOUND'')
     | Some invitation \<Rightarrow>
         bindA (liftR (recipient_must og invitation (va_user v)
                  ''EMAIL_VERIFICATION_REQUIRED_BEFORE_ACCEPTING_OR_REJECTING_INVITATION'')) (\<lambda>_.
         bindA (liftR (dindex invitation ''organizationId'')) (\<lambda>org.
         bindA (on_rows (mem_count ''member'' [Where ''organizationId'' org])) (\<lambda>count.
         bindA (org_must_exist es og org) (\<lambda>organization.
         bindA (liftR (membership_limit_of og (va_user v) organization)) (\<lambda>most.
         if count \<ge> most then raise (org_err 403 ''ORGANIZATION_MEMBERSHIP_LIMIT_REACHED'')
         else
           let shared = [(''user'', VDict (va_user v)), (''organization'', VDict organization)]
           in bindA (run_before_hook og ''before_accept_invitation'' ((''invitation'', VDict invitation) # shared)) (\<lambda>_.
              bindA (claim_and_join es og ev ids v i) (\<lambda>(accepted, m, team_session).
              bindA (run_after_hook og ''after_accept_invitation''
                       ([(''invitation'', VDict accepted), (''member'', VDict m)] @ shared)) (\<lambda>_.
                let rs = reply [(''invitation'', VDict accepted), (''member'', VDict m)]
                in case team_session of
                     None \<Rightarrow> ret rs
                   | Some s \<Rightarrow> liftR (apply_session_cookie es ev rq v (Some s) rs)))))))))))))"

section \<open>Rejecting and cancelling\<close>

text \<open>Both set the status of the row that is there then, whatever it has become.\<close>

definition org_reject_invitation ::
    "site \<Rightarrow> organization_plugin \<Rightarrow> env \<Rightarrow> request \<Rightarrow> body \<Rightarrow> (sworld, response) action" where
  "org_reject_invitation es og ev rq b =
     bindA (org_session es ev rq) (\<lambda>v.
     bindA (liftR (bindR (request_json b) (\<lambda>d. required_str d ''invitationId''))) (\<lambda>i.
     bindA (find_invitation_by_id es og (VStr i)) (\<lambda>found.
     bindA (liftR (case found of
              None \<Rightarrow> Inr None
            | Some offer \<Rightarrow> bindR (dindex offer ''status'') (\<lambda>s. Inr (if s = VStr ''pending'' then Some offer else None)))) (\<lambda>current.
     case current of
       None \<Rightarrow> raise (api_error 400 ''INVITATION_NOT_FOUND'' ''Invitation not found!'')
     | Some invitation \<Rightarrow>
         bindA (liftR (recipient_must og invitation (va_user v)
                  ''EMAIL_VERIFICATION_REQUIRED_BEFORE_ACCEPTING_OR_REJECTING_INVITATION'')) (\<lambda>_.
         bindA (liftR (dindex invitation ''organizationId'')) (\<lambda>org.
         bindA (org_must_exist es og org) (\<lambda>organization.
         let shared = [(''user'', VDict (va_user v)), (''organization'', VDict organization)]
         in bindA (run_before_hook og ''before_reject_invitation'' ((''invitation'', VDict invitation) # shared)) (\<lambda>_.
            bindA (update_invitation es og ev (VStr i) ''rejected'' None) (\<lambda>rejected.
            bindA (run_after_hook og ''after_reject_invitation''
                     ((''invitation'', VDict (case real_row rejected of Some r \<Rightarrow> r | None \<Rightarrow> invitation)) # shared)) (\<lambda>_.
              ret (reply [(''invitation'', row_value rejected), (''member'', VNone)])))))))))))"

definition org_cancel_invitation ::
    "site \<Rightarrow> organization_plugin \<Rightarrow> env \<Rightarrow> request \<Rightarrow> body \<Rightarrow> (sworld, response) action" where
  "org_cancel_invitation es og ev rq b =
     bindA (org_session es ev rq) (\<lambda>v.
     bindA (liftR (bindR (request_json b) (\<lambda>d. required_str d ''invitationId''))) (\<lambda>i.
     bindA (find_invitation_by_id es og (VStr i)) (\<lambda>found.
     case found of
       None \<Rightarrow> raise (org_err 400 ''INVITATION_NOT_FOUND'')
     | Some invitation \<Rightarrow>
         bindA (liftR (dindex invitation ''organizationId'')) (\<lambda>org.
         bindA (asking_member es og v org (org_err 400 ''MEMBER_NOT_FOUND'')) (\<lambda>member.
         bindA (member_must es og member (org_grant ''invitation'' ''cancel'') org
                  (org_err 403 ''YOU_ARE_NOT_ALLOWED_TO_CANCEL_THIS_INVITATION'')) (\<lambda>_.
         bindA (org_must_exist es og org) (\<lambda>organization.
         let shared = [(''cancelledBy'', VDict (va_user v)), (''organization'', VDict organization)]
         in bindA (run_before_hook og ''before_cancel_invitation'' ((''invitation'', VDict invitation) # shared)) (\<lambda>_.
            bindA (update_invitation es og ev (VStr i) ''canceled'' None) (\<lambda>canceled.
            bindA (run_after_hook og ''after_cancel_invitation''
                     ((''invitation'', VDict (case real_row canceled of Some r \<Rightarrow> r | None \<Rightarrow> invitation)) # shared)) (\<lambda>_.
              ret (reply_value (row_value canceled))))))))))))"

section \<open>Reading\<close>

definition org_get_invitation ::
    "site \<Rightarrow> organization_plugin \<Rightarrow> env \<Rightarrow> request \<Rightarrow> (sworld, response) action" where
  "org_get_invitation es og ev rq =
     bindA (org_session es ev rq) (\<lambda>v.
     let i = query_value rq ''id''
     in if \<not> py_truthy i then raise (bad_request ''id is required'')
        else
          bindA (find_invitation_by_id es og i) (\<lambda>found.
          bindA (liftR (case found of
                   None \<Rightarrow> Inr None
                 | Some offer \<Rightarrow>
                     bindR (dindex offer ''status'') (\<lambda>s.
                       if s \<noteq> VStr ''pending'' then Inr None
                       else bindR (date_of offer ''expiresAt'') (\<lambda>x. Inr (if x < now ev then None else Some offer))))) (\<lambda>current.
          case current of
            None \<Rightarrow> raise (bad_request ''Invitation not found!'')
          | Some invitation \<Rightarrow>
              bindA (liftR (recipient_must og invitation (va_user v) ''EMAIL_VERIFICATION_REQUIRED_FOR_INVITATION'')) (\<lambda>_.
              bindA (liftR (dindex invitation ''organizationId'')) (\<lambda>org.
              bindA (org_must_exist es og org) (\<lambda>organization.
              bindA (liftR (dindex invitation ''inviterId'')) (\<lambda>inviter_id.
              bindA (find_member_by_org es og inviter_id org) (\<lambda>inviter.
                case inviter of
                  None \<Rightarrow> raise (org_err 400 ''INVITER_IS_NO_LONGER_A_MEMBER_OF_THE_ORGANIZATION'')
                | Some m \<Rightarrow>
                    bindA (liftR (dindex organization ''name'')) (\<lambda>name.
                    bindA (liftR (dindex organization ''slug'')) (\<lambda>slug.
                    bindA (liftR (dindex (sub_dict m ''user'') ''email'')) (\<lambda>email.
                      ret (reply (dmerge invitation [(''organizationName'', name), (''organizationSlug'', slug),
                        (''inviterEmail'', email)])))))))))))))"

definition org_list_invitations ::
    "site \<Rightarrow> organization_plugin \<Rightarrow> env \<Rightarrow> request \<Rightarrow> (sworld, response) action" where
  "org_list_invitations es og ev rq =
     bindA (org_session es ev rq) (\<lambda>v.
     bindA (liftR (chosen_org (query_value rq ''organizationId'') v (bad_request ''Organization ID is required''))) (\<lambda>org.
     bindA (asking_member es og v org (api_error 403 ''FORBIDDEN'' ''You are not a member of this organization'')) (\<lambda>_.
     bindA (list_invitation_rows es og org) (\<lambda>rs. ret (reply_value (VList (map VDict rs)))))))"

fun pending_only :: "row list \<Rightarrow> row list result" where
  "pending_only [] = Inr []"
| "pending_only (r # rs) =
     bindR (dindex r ''status'') (\<lambda>s. bindR (pending_only rs) (\<lambda>rest.
       Inr (if s = VStr ''pending'' then r # rest else rest)))"

definition org_list_user_invitations ::
    "site \<Rightarrow> organization_plugin \<Rightarrow> env \<Rightarrow> request \<Rightarrow> (sworld, response) action" where
  "org_list_user_invitations es og ev rq =
     bindA (load_session es ev rq) (\<lambda>found.
       if py_truthy (query_value rq ''email'')
       then raise (bad_request ''User email cannot be passed for client side API calls.'')
       else
         bindA (liftR (case found of
                  None \<Rightarrow> Inr VNone
                | Some v \<Rightarrow>
                    if \<not> py_truthy (dget (va_user v) ''emailVerified'')
                    then Inl (org_err 403 ''EMAIL_VERIFICATION_REQUIRED_FOR_INVITATION'')
                    else dindex (va_user v) ''email'')) (\<lambda>email.
           if \<not> py_truthy email then raise (bad_request ''Missing session headers, or email query parameter.'')
           else
             bindA (liftR (text_value email)) (\<lambda>e.
             bindA (list_user_invitation_rows es og e) (\<lambda>rs.
             bindA (liftR (pending_only rs)) (\<lambda>pending.
               ret (reply_value (VList (map VDict pending))))))))"

end
