(* ===== verification/Org_Teams.thy ===== *)
theory Org_Teams
  imports Org_Invitations
begin

text \<open>
  The teams of an organization, \<open>plugins_ext/organization.py\<close>: routes that exist when teams are enabled.
\<close>

section \<open>Creating, changing and removing teams\<close>

definition given_extra :: "organization_plugin \<Rightarrow> string \<Rightarrow> row \<Rightarrow> row" where
  "given_extra og model d = filter (\<lambda>(k, _). k \<in> fst ` set (og_extra og model)) d"

definition team_create ::
    "site \<Rightarrow> organization_plugin \<Rightarrow> env \<Rightarrow> request \<Rightarrow> body \<Rightarrow> (sworld, response) action" where
  "team_create es og ev rq b =
     bindA (org_session es ev rq) (\<lambda>v.
     bindA (liftR (request_json b)) (\<lambda>d.
     bindA (liftR (chosen_org (dget d ''organizationId'') v (org_err 400 ''NO_ACTIVE_ORGANIZATION''))) (\<lambda>org.
     bindA (liftR (required_str d ''name'')) (\<lambda>name.
     bindA (asking_member es og v org (org_err 403 ''YOU_ARE_NOT_ALLOWED_TO_INVITE_USERS_TO_THIS_ORGANIZATION'')) (\<lambda>member.
     bindA (member_must es og member (org_grant ''team'' ''create'') org
              (org_err 403 ''YOU_ARE_NOT_ALLOWED_TO_CREATE_TEAMS_IN_THIS_ORGANIZATION'')) (\<lambda>_.
     bindA (list_teams es og org) (\<lambda>teams.
     bindA (liftR (resolve_maximum_teams og org v)) (\<lambda>maximum.
     bindA (case maximum of
              None \<Rightarrow> ret ()
            | Some n \<Rightarrow>
                if n \<noteq> 0 \<and> int (length teams) \<ge> n then raise (org_err 400 ''YOU_HAVE_REACHED_THE_MAXIMUM_NUMBER_OF_TEAMS'')
                else ret ()) (\<lambda>_.
     bindA (org_must_exist es og org) (\<lambda>organization.
     let extra = given_extra og ''team'' d;
         shared = [(''user'', VDict (va_user v)), (''organization'', VDict organization)];
         shown = dmerge [(''name'', VStr name), (''organizationId'', org)] extra;
         data = dmerge [(''name'', VStr name), (''organizationId'', org), (''createdAt'', VDate (now ev)),
                  (''updatedAt'', VDate (now ev))] extra
     in bindA (run_before_hook og ''before_create_team'' ((''team'', VDict shown) # shared)) (\<lambda>merged.
        bindA (create_team es og ev (merge_hook data merged)) (\<lambda>team.
        bindA (run_after_hook og ''after_create_team'' ((''team'', VDict team) # shared)) (\<lambda>_.
          ret (reply team))))))))))))))"

text \<open>A team of the organization, which a route cannot do without.\<close>

definition team_must_exist ::
    "site \<Rightarrow> organization_plugin \<Rightarrow> pyval \<Rightarrow> pyval \<Rightarrow> (sworld, row) action" where
  "team_must_exist es og team org =
     bindA (find_team_by_id es og team org) (\<lambda>found.
       case found of None \<Rightarrow> raise (org_err 400 ''TEAM_NOT_FOUND'') | Some t \<Rightarrow> ret t)"

definition own_team ::
    "site \<Rightarrow> organization_plugin \<Rightarrow> pyval \<Rightarrow> pyval \<Rightarrow> (sworld, row) action" where
  "own_team es og team org =
     bindA (team_must_exist es og team org) (\<lambda>t.
     bindA (liftR (dindex t ''organizationId'')) (\<lambda>home.
       if py_eq home org then ret t else raise (org_err 400 ''TEAM_NOT_FOUND'')))"

text \<open>What the hook gives replaces the update as a whole.\<close>

definition team_update ::
    "site \<Rightarrow> organization_plugin \<Rightarrow> env \<Rightarrow> request \<Rightarrow> body \<Rightarrow> (sworld, response) action" where
  "team_update es og ev rq b =
     bindA (org_session es ev rq) (\<lambda>v.
     bindA (liftR (request_json b)) (\<lambda>d.
     bindA (liftR (required_str d ''teamId'')) (\<lambda>team_id.
     bindA (liftR (case dget d ''data'' of VDict x \<Rightarrow> Inr x | _ \<Rightarrow> Inl (invalid_body ''data is required''))) (\<lambda>data.
     bindA (liftR (chosen_org (dget data ''organizationId'') v (org_err 400 ''NO_ACTIVE_ORGANIZATION''))) (\<lambda>org.
     bindA (asking_member es og v org (org_err 403 ''YOU_ARE_NOT_ALLOWED_TO_UPDATE_THIS_TEAM'')) (\<lambda>member.
     bindA (member_must es og member (org_grant ''team'' ''update'') org
              (org_err 403 ''YOU_ARE_NOT_ALLOWED_TO_UPDATE_THIS_TEAM'')) (\<lambda>_.
     bindA (own_team es og (VStr team_id) org) (\<lambda>team.
     bindA (org_must_exist es og org) (\<lambda>organization.
     let updates = ddrop ''id'' (ddrop ''organizationId'' data);
         shared = [(''user'', VDict (va_user v)), (''organization'', VDict organization)]
     in bindA (run_before_hook og ''before_update_team''
                 ([(''team'', VDict team), (''updates'', VDict updates)] @ shared)) (\<lambda>merged.
        bindA (liftR (dindex team ''id'')) (\<lambda>i.
        bindA (update_team es og ev i (case merged of Some m \<Rightarrow> m | None \<Rightarrow> updates)) (\<lambda>updated.
        bindA (run_after_hook og ''after_update_team'' ((''team'', row_value updated) # shared)) (\<lambda>_.
          ret (reply_value (row_value updated)))))))))))))))"

definition may_remove_team ::
    "site \<Rightarrow> organization_plugin \<Rightarrow> pyval \<Rightarrow> (sworld, unit) action" where
  "may_remove_team es og org =
     (if og_remove_all_teams og then ret ()
      else
        bindA (list_teams es og org) (\<lambda>teams.
          if length teams \<le> 1 then raise (org_err 400 ''UNABLE_TO_REMOVE_LAST_TEAM'') else ret ()))"

definition team_remove ::
    "site \<Rightarrow> organization_plugin \<Rightarrow> env \<Rightarrow> request \<Rightarrow> body \<Rightarrow> (sworld, response) action" where
  "team_remove es og ev rq b =
     bindA (org_session es ev rq) (\<lambda>v.
     bindA (liftR (request_json b)) (\<lambda>d.
     bindA (liftR (required_str d ''teamId'')) (\<lambda>team_id.
     bindA (liftR (chosen_org (dget d ''organizationId'') v (org_err 400 ''NO_ACTIVE_ORGANIZATION''))) (\<lambda>org.
     bindA (asking_member es og v org (org_err 403 ''YOU_ARE_NOT_ALLOWED_TO_DELETE_THIS_TEAM'')) (\<lambda>member.
     if dget (va_session v) ''activeTeamId'' = VStr team_id
     then raise (org_err 403 ''YOU_ARE_NOT_ALLOWED_TO_DELETE_THIS_TEAM'')
     else
       bindA (member_must es og member (org_grant ''team'' ''delete'') org
                (org_err 403 ''YOU_ARE_NOT_ALLOWED_TO_DELETE_TEAMS_IN_THIS_ORGANIZATION'')) (\<lambda>_.
       bindA (own_team es og (VStr team_id) org) (\<lambda>team.
       bindA (may_remove_team es og org) (\<lambda>_.
       bindA (org_must_exist es og org) (\<lambda>organization.
       let payload = [(''team'', VDict team), (''user'', VDict (va_user v)), (''organization'', VDict organization)]
       in bindA (run_after_hook og ''before_delete_team'' payload) (\<lambda>_.
          bindA (liftR (dindex team ''id'')) (\<lambda>i.
          bindA (delete_team es i) (\<lambda>_.
          bindA (drop_team_from_pending_invitations es og ev org i) (\<lambda>_.
          bindA (run_after_hook og ''after_delete_team'' payload) (\<lambda>_.
            ret (reply [(''message'', VStr ''Team removed successfully.'')])))))))))))))))"

section \<open>Reading and activating teams\<close>

definition team_list ::
    "site \<Rightarrow> organization_plugin \<Rightarrow> env \<Rightarrow> request \<Rightarrow> (sworld, response) action" where
  "team_list es og ev rq =
     bindA (org_session es ev rq) (\<lambda>v.
     bindA (liftR (chosen_org (query_value rq ''organizationId'') v (org_err 400 ''NO_ACTIVE_ORGANIZATION''))) (\<lambda>org.
     bindA (asking_member es og v org (org_err 403 ''YOU_ARE_NOT_ALLOWED_TO_ACCESS_THIS_ORGANIZATION'')) (\<lambda>_.
     bindA (list_teams es og org) (\<lambda>teams. ret (reply_value (VList (map VDict teams)))))))"

definition active_team :: "validated \<Rightarrow> pyval" where
  "active_team v = dget (va_session v) ''activeTeamId''"

definition activate_team ::
    "site \<Rightarrow> organization_plugin \<Rightarrow> env \<Rightarrow> request \<Rightarrow> validated \<Rightarrow> pyval \<Rightarrow> (sworld, response) action" where
  "activate_team es og ev rq v team_id =
     (if \<not> py_truthy (active_org v) then raise (org_err 400 ''NO_ACTIVE_ORGANIZATION'')
      else
        bindA (team_must_exist es og team_id (active_org v)) (\<lambda>team.
        bindA (liftR (asker_id v)) (\<lambda>uid.
        bindA (find_team_member es og team_id uid) (\<lambda>m.
          if m = None then raise (org_err 403 ''USER_IS_NOT_A_MEMBER_OF_THE_TEAM'')
          else
            bindA (liftR (dindex team ''id'')) (\<lambda>i.
            bindA (set_active_team es ev v i) (\<lambda>updated.
              liftR (apply_session_cookie es ev rq v updated (reply team))))))))"

definition team_set_active ::
    "site \<Rightarrow> organization_plugin \<Rightarrow> env \<Rightarrow> request \<Rightarrow> body \<Rightarrow> (sworld, response) action" where
  "team_set_active es og ev rq b =
     bindA (org_session es ev rq) (\<lambda>v.
     bindA (liftR (request_json b)) (\<lambda>d.
     bindA (liftR (session_token v)) (\<lambda>_.
     let chosen = py_or (dget d ''teamId'') (active_team v)
     in if has_key d ''teamId'' \<and> dget d ''teamId'' = VNone then
          if \<not> py_truthy (active_team v) then ret (reply_value VNone)
          else
            bindA (set_active_team es ev v VNone) (\<lambda>updated.
              liftR (apply_session_cookie es ev rq v updated (reply_value VNone)))
        else if \<not> py_truthy chosen then ret (reply_value VNone)
        else activate_team es og ev rq v chosen)))"

fun teams_of_org :: "pyval \<Rightarrow> row list \<Rightarrow> row list result" where
  "teams_of_org org [] = Inr []"
| "teams_of_org org (t # ts) =
     bindR (dindex t ''organizationId'') (\<lambda>home. bindR (teams_of_org org ts) (\<lambda>rest.
       Inr (if py_eq home org then t # rest else rest)))"

text \<open>The teams whose organization the user is a member of; each organization is looked up once.\<close>

fun teams_of_member ::
    "site \<Rightarrow> pyval \<Rightarrow> (pyval \<times> bool) list \<Rightarrow> row list \<Rightarrow> (sworld, row list) action" where
  "teams_of_member es uid known [] = ret []"
| "teams_of_member es uid known (t # ts) =
     bindA (liftR (bindR (dindex t ''organizationId'') (\<lambda>i. bindR (hashable i) (\<lambda>_. Inr i)))) (\<lambda>org.
     bindA (case find (\<lambda>(i, _). py_eq i org) known of
              Some (_, yes) \<Rightarrow> ret (yes, known)
            | None \<Rightarrow>
                bindA (check_membership es uid org) (\<lambda>m. ret (m \<noteq> None, (org, m \<noteq> None) # known))) (\<lambda>(yes, known').
     bindA (teams_of_member es uid known' ts) (\<lambda>rest. ret (if yes then t # rest else rest))))"

text \<open>The teams of another member, for one who may change members.\<close>

definition teams_of_other ::
    "site \<Rightarrow> organization_plugin \<Rightarrow> validated \<Rightarrow> pyval \<Rightarrow> pyval \<Rightarrow> (sworld, response) action" where
  "teams_of_other es og v target org =
     (if \<not> py_truthy org then raise (org_err 400 ''NO_ACTIVE_ORGANIZATION'')
      else
        bindA (asking_member es og v org (org_err 403 ''YOU_ARE_NOT_A_MEMBER_OF_THIS_ORGANIZATION'')) (\<lambda>requester.
        bindA (member_must es og requester (org_grant ''member'' ''update'') org
                 (org_err 403 ''YOU_ARE_NOT_ALLOWED_TO_UPDATE_THIS_MEMBER'')) (\<lambda>_.
        bindA (find_member_by_org es og target org) (\<lambda>found.
          if found = None then raise (org_err 400 ''USER_IS_NOT_A_MEMBER_OF_THE_ORGANIZATION'')
          else
            bindA (list_teams_by_user es og target) (\<lambda>teams.
            bindA (liftR (teams_of_org org teams)) (\<lambda>shown. ret (reply_value (VList (map VDict shown)))))))))"

definition team_list_of_user ::
    "site \<Rightarrow> organization_plugin \<Rightarrow> env \<Rightarrow> request \<Rightarrow> (sworld, response) action" where
  "team_list_of_user es og ev rq =
     bindA (org_session es ev rq) (\<lambda>v.
     bindA (liftR (asker_id v)) (\<lambda>own.
     let target = py_or (query_value rq ''userId'') own;
         asked = query_value rq ''organizationId'';
         org = py_or asked (active_org v)
     in if \<not> py_eq target own then teams_of_other es og v target org
        else if py_truthy asked then
          bindA (asking_member es og v org (org_err 403 ''YOU_ARE_NOT_A_MEMBER_OF_THIS_ORGANIZATION'')) (\<lambda>_.
          bindA (list_teams_by_user es og own) (\<lambda>teams.
          bindA (liftR (teams_of_org org teams)) (\<lambda>shown. ret (reply_value (VList (map VDict shown))))))
        else
          bindA (list_teams_by_user es og own) (\<lambda>teams.
          bindA (teams_of_member es own [] teams) (\<lambda>shown. ret (reply_value (VList (map VDict shown)))))))"

definition team_list_members ::
    "site \<Rightarrow> organization_plugin \<Rightarrow> env \<Rightarrow> request \<Rightarrow> (sworld, response) action" where
  "team_list_members es og ev rq =
     bindA (org_session es ev rq) (\<lambda>v.
     let team_id = py_or (query_value rq ''teamId'') (active_team v)
     in if \<not> py_truthy team_id then raise (org_err 400 ''YOU_DO_NOT_HAVE_AN_ACTIVE_TEAM'')
        else
          bindA (team_must_exist es og team_id VNone) (\<lambda>team.
          bindA (liftR (asker_id v)) (\<lambda>uid.
          bindA (liftR (dindex team ''organizationId'')) (\<lambda>org.
          bindA (check_membership es uid org) (\<lambda>m.
            if m = None then raise (org_err 400 ''USER_IS_NOT_A_MEMBER_OF_THE_TEAM'')
            else
              bindA (find_team_member es og team_id uid) (\<lambda>tm.
                if tm = None then raise (org_err 400 ''USER_IS_NOT_A_MEMBER_OF_THE_TEAM'')
                else
                  bindA (list_team_members es og team_id) (\<lambda>ms.
                    ret (reply_value (VList (map VDict ms))))))))))"

section \<open>The members of teams\<close>

text \<open>The team, the organization and the user of a change, once the caller may make it.\<close>

definition team_change ::
    "site \<Rightarrow> organization_plugin \<Rightarrow> validated \<Rightarrow> row \<Rightarrow> string \<Rightarrow> exn \<Rightarrow>
     (sworld, pyval \<times> string \<times> string \<times> row \<times> row \<times> row) action" where
  "team_change es og v d action denied =
     bindA (liftR (chosen_org (dget d ''organizationId'') v (org_err 400 ''NO_ACTIVE_ORGANIZATION''))) (\<lambda>org.
     bindA (liftR (required_str d ''teamId'')) (\<lambda>team_id.
     bindA (liftR (required_str d ''userId'')) (\<lambda>uid.
     bindA (asking_member es og v org (org_err 400 ''USER_IS_NOT_A_MEMBER_OF_THE_ORGANIZATION'')) (\<lambda>actor.
     bindA (member_must es og actor (org_grant ''member'' action) org denied) (\<lambda>_.
     bindA (find_member_by_org es og (VStr uid) org) (\<lambda>target.
       if target = None then raise (org_err 400 ''USER_IS_NOT_A_MEMBER_OF_THE_ORGANIZATION'')
       else
         bindA (team_must_exist es og (VStr team_id) org) (\<lambda>team.
         bindA (org_must_exist es og org) (\<lambda>organization.
         bindA (user_must_exist es (VStr uid)) (\<lambda>user.
           ret (org, team_id, uid, team, organization, user)))))))))) "

definition team_add_member ::
    "site \<Rightarrow> organization_plugin \<Rightarrow> env \<Rightarrow> request \<Rightarrow> body \<Rightarrow> (sworld, response) action" where
  "team_add_member es og ev rq b =
     bindA (org_session es ev rq) (\<lambda>v.
     bindA (liftR (request_json b)) (\<lambda>d.
     bindA (team_change es og v d ''update'' (org_err 403 ''YOU_ARE_NOT_ALLOWED_TO_CREATE_A_NEW_TEAM_MEMBER''))
       (\<lambda>(org, team_id, uid, team, organization, user).
     let shared = [(''team'', VDict team), (''user'', VDict user), (''organization'', VDict organization)]
     in bindA (run_after_hook og ''before_add_team_member''
                 ((''teamMember'', VDict [(''teamId'', VStr team_id), (''userId'', VStr uid)]) # shared)) (\<lambda>_.
        bindA (liftR (resolve_max_members_per_team og (VStr team_id) org v)) (\<lambda>maximum.
        bindA (case maximum of
                 Some n \<Rightarrow>
                   bindA (add_team_member_with_limit es og ev (VStr team_id) (VStr uid) n) (\<lambda>added.
                     case added of
                       None \<Rightarrow> raise (org_err 403 ''TEAM_MEMBER_LIMIT_REACHED'')
                     | Some m \<Rightarrow> ret m)
               | None \<Rightarrow> find_or_create_team_member es og ev (VStr team_id) (VStr uid)) (\<lambda>m.
        bindA (run_after_hook og ''after_add_team_member'' ((''teamMember'', VDict m) # shared)) (\<lambda>_.
          ret (reply m))))))))"

definition team_remove_member ::
    "site \<Rightarrow> organization_plugin \<Rightarrow> env \<Rightarrow> request \<Rightarrow> body \<Rightarrow> (sworld, response) action" where
  "team_remove_member es og ev rq b =
     bindA (org_session es ev rq) (\<lambda>v.
     bindA (liftR (request_json b)) (\<lambda>d.
     bindA (team_change es og v d ''delete'' (org_err 403 ''YOU_ARE_NOT_ALLOWED_TO_REMOVE_A_TEAM_MEMBER''))
       (\<lambda>(org, team_id, uid, team, organization, user).
     bindA (find_team_member es og (VStr team_id) (VStr uid)) (\<lambda>found.
     case found of
       None \<Rightarrow> raise (org_err 400 ''USER_IS_NOT_A_MEMBER_OF_THE_TEAM'')
     | Some m \<Rightarrow>
         let payload = [(''teamMember'', VDict m), (''team'', VDict team), (''user'', VDict user),
               (''organization'', VDict organization)]
         in bindA (run_after_hook og ''before_remove_team_member'' payload) (\<lambda>_.
            bindA (on_rows (remove_team_member_row es ev (VStr team_id) (VStr uid))) (\<lambda>_.
            bindA (run_after_hook og ''after_remove_team_member'' payload) (\<lambda>_.
              ret (reply [(''message'', VStr ''Team member removed successfully.'')]))))))))"

end
