(* ===== verification/Org_Roles.thy ===== *)
theory Org_Roles
  imports Org_Teams
begin

text \<open>
  The dynamic roles of an organization, \<open>plugins_ext/organization.py\<close>: routes that exist when dynamic access
  control is enabled. \<open>og_resources\<close> are the resources of the configured access control.
\<close>

section \<open>Checks\<close>

definition predefined_role_names :: "organization_plugin \<Rightarrow> string list" where
  "predefined_role_names og =
     (if op_roles (og_access og) = [] then [''owner'', ''admin'', ''member''] else map fst (op_roles (og_access og)))"

text \<open>Whether an organization with so many roles has no room for another.\<close>

definition roles_full :: "organization_plugin \<Rightarrow> pyval \<Rightarrow> int \<Rightarrow> bool result" where
  "roles_full og org count =
     (case og_max_roles og of
        NoLimit \<Rightarrow> Inr False
      | AtMost n \<Rightarrow> Inr (count \<ge> n)
      | LimitBy f \<Rightarrow> bindR (f org) (\<lambda>n. Inr (count \<ge> n)))"

text \<open>The additional fields of a role that a payload gives; one that is no object gives none, or fails.\<close>

definition role_additional :: "organization_plugin \<Rightarrow> pyval \<Rightarrow> row result" where
  "role_additional og v =
     (let keys = map fst (filter (\<lambda>(_, f). f_input f) (og_extra og ''organizationRole''))
      in case v of
           VDict d \<Rightarrow> Inr (List.map_filter (\<lambda>k. if has_key d k then Some (k, dget d k) else None) keys)
         | VStr s \<Rightarrow> if list_ex (str_contains s) keys then Inl TypeError else Inr []
         | VList vs \<Rightarrow> if list_ex (\<lambda>k. VStr k \<in> set vs) keys then Inl TypeError else Inr []
         | _ \<Rightarrow> if keys = [] then Inr [] else Inl TypeError)"

definition name_not_predefined :: "organization_plugin \<Rightarrow> string \<Rightarrow> unit result" where
  "name_not_predefined og name =
     (if name \<in> set (predefined_role_names og) then Inl (org_err 400 ''ROLE_NAME_IS_ALREADY_TAKEN'') else Inr ())"

definition name_not_stored :: "site \<Rightarrow> pyval \<Rightarrow> string \<Rightarrow> (sworld, unit) action" where
  "name_not_stored es org name =
     bindA (on_rows (mem_find_one (store_ad es) ''organizationRole''
              [Where ''organizationId'' org, Where ''role'' (VStr name)] [])) (\<lambda>existing.
       if existing = None then ret () else raise (org_err 400 ''ROLE_NAME_IS_ALREADY_TAKEN''))"

text \<open>Every resource asked for is one of the access control; a text is walked character by character.\<close>

definition resource_known :: "organization_plugin \<Rightarrow> pyval \<Rightarrow> bool result" where
  "resource_known og v =
     bindR (hashable v) (\<lambda>_. Inr (op_has_ac (og_access og) \<and> v \<in> VStr ` set (og_resources og)))"

fun resources_known :: "organization_plugin \<Rightarrow> pyval list \<Rightarrow> unit result" where
  "resources_known og [] = Inr ()"
| "resources_known og (r # rs) =
     bindR (resource_known og r) (\<lambda>ok. if ok then resources_known og rs else Inl (org_err 400 ''INVALID_RESOURCE''))"

definition check_resources :: "organization_plugin \<Rightarrow> pyval \<Rightarrow> row result" where
  "check_resources og permission =
     (case permission of
        VDict d \<Rightarrow> bindR (resources_known og (map (\<lambda>(k, _). VStr k) d)) (\<lambda>_. Inr d)
      | VList vs \<Rightarrow> bindR (resources_known og vs) (\<lambda>_. Inl AttributeError)
      | VStr s \<Rightarrow> bindR (resources_known og (map (\<lambda>c. VStr [c]) s)) (\<lambda>_. Inl AttributeError)
      | _ \<Rightarrow> Inl TypeError)"

text \<open>The actions of one resource: what iterating over the value gives.\<close>

definition action_items :: "pyval \<Rightarrow> pyval list result" where
  "action_items v =
     (case v of
        VList vs \<Rightarrow> Inr vs
      | VStr s \<Rightarrow> Inr (map (\<lambda>c. VStr [c]) s)
      | VDict d \<Rightarrow> Inr (map (\<lambda>(k, _). VStr k) d)
      | _ \<Rightarrow> Inl TypeError)"

text \<open>The pairs of a resource and an action that the member does not hold.\<close>

fun missing_actions ::
    "site \<Rightarrow> organization_plugin \<Rightarrow> row \<Rightarrow> pyval \<Rightarrow> string \<Rightarrow> pyval list \<Rightarrow> (sworld, pyval list) action" where
  "missing_actions es og member org resource [] = ret []"
| "missing_actions es og member org resource (p # ps) =
     bindA (member_may es og member [(resource, VList [p])] org False) (\<lambda>ok.
     bindA (missing_actions es og member org resource ps) (\<lambda>rest.
       ret (if ok then rest else VStr (resource @ '':'' @ f_string es p) # rest)))"

fun missing_permissions ::
    "site \<Rightarrow> organization_plugin \<Rightarrow> row \<Rightarrow> pyval \<Rightarrow> row \<Rightarrow> (sworld, pyval list) action" where
  "missing_permissions es og member org [] = ret []"
| "missing_permissions es og member org ((resource, v) # more_ps) =
     bindA (liftR (action_items v)) (\<lambda>ps.
     bindA (missing_actions es og member org resource ps) (\<lambda>here.
     bindA (missing_permissions es og member org more_ps) (\<lambda>rest. ret (here @ rest))))"

text \<open>A member grants only what the member holds; the error lists all that is missing.\<close>

definition grants_only_own ::
    "site \<Rightarrow> organization_plugin \<Rightarrow> row \<Rightarrow> pyval \<Rightarrow> row \<Rightarrow> string \<Rightarrow> (sworld, unit) action" where
  "grants_only_own es og member org permission code =
     bindA (missing_permissions es og member org permission) (\<lambda>missing.
       if missing = [] then ret ()
       else raise (APIError 403 code (case map_of ORG_ERROR_CODES code of Some m \<Rightarrow> m | None \<Rightarrow> [])
         [(''missingPermissions'', VList missing)]))"

definition role_condition :: "(string \<Rightarrow> pyval) \<Rightarrow> clause result" where
  "role_condition source =
     (if py_truthy (source ''roleName'') then Inr (Where ''role'' (source ''roleName''))
      else if py_truthy (source ''roleId'') then Inr (Where ''id'' (source ''roleId''))
      else Inl (org_err 400 ''ROLE_NOT_FOUND''))"

text \<open>The member of the organization that a request is about, once the roles allow the action.\<close>

definition role_manager ::
    "site \<Rightarrow> organization_plugin \<Rightarrow> validated \<Rightarrow> pyval \<Rightarrow> string \<Rightarrow> string \<Rightarrow> (sworld, row) action" where
  "role_manager es og v org action code =
     bindA (liftR (asker_id v)) (\<lambda>uid.
     bindA (check_membership es uid org) (\<lambda>found.
       case found of
         None \<Rightarrow> raise (org_err 403 ''YOU_ARE_NOT_A_MEMBER_OF_THIS_ORGANIZATION'')
       | Some m \<Rightarrow> bindA (member_must es og m (org_grant ''ac'' action) org (org_err 403 code)) (\<lambda>_. ret m)))"

definition loaded_permission :: "organization_plugin \<Rightarrow> row \<Rightarrow> pyval result" where
  "loaded_permission og r =
     bindR (dindex r ''permission'') (\<lambda>p.
       case p of
         VStr s \<Rightarrow> (case og_loads og s of Some x \<Rightarrow> Inr x | None \<Rightarrow> Inl ValueError)
       | _ \<Rightarrow> Inl TypeError)"

definition role_output :: "organization_plugin \<Rightarrow> row \<Rightarrow> row result" where
  "role_output og r =
     bindR (loaded_permission og r) (\<lambda>p. Inr (dset ''permission'' p (org_output og ''organizationRole'' r)))"

section \<open>Routes\<close>

definition role_create ::
    "site \<Rightarrow> organization_plugin \<Rightarrow> env \<Rightarrow> request \<Rightarrow> body \<Rightarrow> (sworld, response) action" where
  "role_create es og ev rq b =
     bindA (org_session es ev rq) (\<lambda>v.
     bindA (liftR (request_json b)) (\<lambda>d.
     bindA (liftR (case dget d ''role'' of VStr s \<Rightarrow> Inr s | _ \<Rightarrow> Inl (invalid_body ''role is required''))) (\<lambda>asked.
     bindA (liftR (case dget d ''permission'' of VDict p \<Rightarrow> Inr p | _ \<Rightarrow> Inl (invalid_body ''permission is required''))) (\<lambda>permission.
     if \<not> op_has_ac (og_access og) then raise (org_err 501 ''MISSING_AC_INSTANCE'')
     else
       bindA (liftR (chosen_org (dget d ''organizationId'') v (org_err 400 ''YOU_MUST_BE_IN_AN_ORGANIZATION_TO_CREATE_A_ROLE''))) (\<lambda>org.
       let name = str_lower asked
       in bindA (liftR (name_not_predefined og name)) (\<lambda>_.
          bindA (role_manager es og v org ''create'' ''YOU_ARE_NOT_ALLOWED_TO_CREATE_A_ROLE'') (\<lambda>member.
          bindA (on_rows (mem_count ''organizationRole'' [Where ''organizationId'' org])) (\<lambda>count.
          bindA (liftR (roles_full og org count)) (\<lambda>full.
          if full then raise (org_err 400 ''TOO_MANY_ROLES'')
          else
            bindA (liftR (check_resources og (VDict permission))) (\<lambda>_.
            bindA (grants_only_own es og member org permission ''YOU_ARE_NOT_ALLOWED_TO_CREATE_A_ROLE'') (\<lambda>_.
            bindA (name_not_stored es org name) (\<lambda>_.
            bindA (liftR (role_additional og (py_or (dget d ''additionalFields'') (VDict [])))) (\<lambda>extra.
            bindA (on_rows (mem_create (store_ad es) ev ''organizationRole''
                     (dmerge [(''organizationId'', org), (''role'', VStr name),
                        (''permission'', VStr (og_dumps og (VDict permission))), (''createdAt'', VDate (now ev))] extra) [])) (\<lambda>created.
              ret (reply [(''success'', VBool True),
                (''roleData'', VDict (dset ''permission'' (VDict permission) (org_output og ''organizationRole'' created))),
                (''statements'', VDict permission)])))))))))))))))"

text \<open>Whether a member still holds the role, among the parts between commas without their spaces.\<close>

fun role_in_use :: "string \<Rightarrow> row list \<Rightarrow> bool result" where
  "role_in_use name [] = Inr False"
| "role_in_use name (m # ms) =
     bindR (bindR (dindex m ''role'') text_value) (\<lambda>r.
       if name \<in> strip ` set (split_on CHR '','' r) then Inr True else role_in_use name ms)"

definition role_delete ::
    "site \<Rightarrow> organization_plugin \<Rightarrow> env \<Rightarrow> request \<Rightarrow> body \<Rightarrow> (sworld, response) action" where
  "role_delete es og ev rq b =
     bindA (org_session es ev rq) (\<lambda>v.
     bindA (liftR (request_json b)) (\<lambda>d.
     bindA (liftR (chosen_org (dget d ''organizationId'') v (org_err 400 ''NO_ACTIVE_ORGANIZATION''))) (\<lambda>org.
     bindA (role_manager es og v org ''delete'' ''YOU_ARE_NOT_ALLOWED_TO_DELETE_A_ROLE'') (\<lambda>_.
     if dget d ''roleName'' \<in> VStr ` set (predefined_role_names og) \<and> py_truthy (dget d ''roleName'')
     then raise (org_err 400 ''CANNOT_DELETE_A_PRE_DEFINED_ROLE'')
     else
       bindA (liftR (role_condition (dget d))) (\<lambda>condition.
       let wh = [Where ''organizationId'' org, condition]
       in bindA (on_rows (mem_find_one (store_ad es) ''organizationRole'' wh [])) (\<lambda>existing.
          case existing of
            None \<Rightarrow> raise (org_err 400 ''ROLE_NOT_FOUND'')
          | Some r \<Rightarrow>
              bindA (liftR (dindex r ''role'')) (\<lambda>name.
              bindA (on_rows (mem_find_many (store_ad es) ''member''
                       [Where ''organizationId'' org, WhereOp ''role'' name OContains] None None None [])) (\<lambda>ms.
              bindA (liftR (role_in_use (case name of VStr s \<Rightarrow> s | _ \<Rightarrow> []) ms)) (\<lambda>used.
              if used then raise (org_err 400 ''ROLE_IS_ASSIGNED_TO_MEMBERS'')
              else
                bindA (on_rows (mem_delete_many ''organizationRole'' wh)) (\<lambda>_.
                  ret (reply [(''success'', VBool True)])))))))))))"

fun role_outputs :: "organization_plugin \<Rightarrow> row list \<Rightarrow> pyval list result" where
  "role_outputs og [] = Inr []"
| "role_outputs og (r # rs) =
     bindR (role_output og r) (\<lambda>x. bindR (role_outputs og rs) (\<lambda>xs. Inr (VDict x # xs)))"

definition role_list ::
    "site \<Rightarrow> organization_plugin \<Rightarrow> env \<Rightarrow> request \<Rightarrow> (sworld, response) action" where
  "role_list es og ev rq =
     bindA (org_session es ev rq) (\<lambda>v.
     bindA (liftR (chosen_org (query_value rq ''organizationId'') v (org_err 400 ''NO_ACTIVE_ORGANIZATION''))) (\<lambda>org.
     bindA (role_manager es og v org ''read'' ''YOU_ARE_NOT_ALLOWED_TO_LIST_A_ROLE'') (\<lambda>_.
     bindA (on_rows (mem_find_many (store_ad es) ''organizationRole'' [Where ''organizationId'' org] None None None [])) (\<lambda>rs.
     bindA (liftR (role_outputs og rs)) (\<lambda>shown. ret (reply_value (VList shown)))))))"

definition role_get ::
    "site \<Rightarrow> organization_plugin \<Rightarrow> env \<Rightarrow> request \<Rightarrow> (sworld, response) action" where
  "role_get es og ev rq =
     bindA (org_session es ev rq) (\<lambda>v.
     bindA (liftR (chosen_org (query_value rq ''organizationId'') v (org_err 400 ''NO_ACTIVE_ORGANIZATION''))) (\<lambda>org.
     bindA (role_manager es og v org ''read'' ''YOU_ARE_NOT_ALLOWED_TO_READ_A_ROLE'') (\<lambda>_.
     bindA (liftR (role_condition (query_value rq))) (\<lambda>condition.
     bindA (on_rows (mem_find_one (store_ad es) ''organizationRole'' [Where ''organizationId'' org, condition] [])) (\<lambda>found.
       case found of
         None \<Rightarrow> raise (org_err 400 ''ROLE_NOT_FOUND'')
       | Some r \<Rightarrow> bindA (liftR (role_output og r)) (\<lambda>shown. ret (reply shown)))))))"

text \<open>What an update writes: the given fields, the permission, and the name in lower case.\<close>

definition role_update_values ::
    "site \<Rightarrow> organization_plugin \<Rightarrow> row \<Rightarrow> pyval \<Rightarrow> row \<Rightarrow> (sworld, row) action" where
  "role_update_values es og member org data =
     bindA (liftR (role_additional og (VDict (ddrop ''roleName'' (ddrop ''permission'' data))))) (\<lambda>extra.
     bindA (if dget data ''permission'' = VNone then ret extra
            else
              bindA (liftR (check_resources og (dget data ''permission''))) (\<lambda>p.
              bindA (grants_only_own es og member org p ''YOU_ARE_NOT_ALLOWED_TO_UPDATE_A_ROLE'') (\<lambda>_.
                ret (dset ''permission'' (VDict p) extra)))) (\<lambda>values.
     if \<not> py_truthy (dget data ''roleName'') then ret values
     else
       bindA (liftR (lower_arg (dget data ''roleName''))) (\<lambda>name.
       bindA (liftR (name_not_predefined og name)) (\<lambda>_.
       bindA (name_not_stored es org name) (\<lambda>_. ret (dset ''role'' (VStr name) values))))))"

definition role_update ::
    "site \<Rightarrow> organization_plugin \<Rightarrow> env \<Rightarrow> request \<Rightarrow> body \<Rightarrow> (sworld, response) action" where
  "role_update es og ev rq b =
     bindA (org_session es ev rq) (\<lambda>v.
     bindA (liftR (request_json b)) (\<lambda>d.
     if \<not> op_has_ac (og_access og) then raise (org_err 501 ''MISSING_AC_INSTANCE'')
     else
       bindA (liftR (chosen_org (dget d ''organizationId'') v (org_err 400 ''NO_ACTIVE_ORGANIZATION''))) (\<lambda>org.
       bindA (role_manager es og v org ''update'' ''YOU_ARE_NOT_ALLOWED_TO_UPDATE_A_ROLE'') (\<lambda>member.
       bindA (liftR (role_condition (dget d))) (\<lambda>condition.
       let wh = [Where ''organizationId'' org, condition]
       in bindA (on_rows (mem_find_one (store_ad es) ''organizationRole'' wh [])) (\<lambda>found.
          case found of
            None \<Rightarrow> raise (org_err 400 ''ROLE_NOT_FOUND'')
          | Some r \<Rightarrow>
              bindA (liftR (if py_truthy (dget r ''permission'') then loaded_permission og r else Inr VNone)) (\<lambda>old.
              bindA (liftR (case dget d ''data'' of VDict x \<Rightarrow> Inr x | _ \<Rightarrow> Inl (invalid_body ''data is required''))) (\<lambda>data.
              bindA (role_update_values es og member org data) (\<lambda>values.
              let p = dget values ''permission'';
                  update = (if p = VNone then values else dset ''permission'' (VStr (og_dumps og p)) values)
              in bindA (on_rows (mem_update_many (store_ad es) ev ''organizationRole'' wh update)) (\<lambda>_.
                 let shown = py_or p old
                 in ret (reply [(''success'', VBool True),
                      (''roleData'', VDict (dset ''permission'' (if py_truthy shown then shown else VNone) (dmerge r update)))])))))))))))"

section \<open>The route table\<close>

definition org_dispatch ::
    "site \<Rightarrow> organization_plugin \<Rightarrow> env \<Rightarrow> request \<Rightarrow> body \<Rightarrow> (nat \<Rightarrow> string) \<Rightarrow> (sworld, response) action option" where
  "org_dispatch es og ev rq b ids =
     map_of
       ([((''POST'', ''/organization/create''), org_create es og ev rq b ids),
         ((''POST'', ''/organization/update''), org_update es og ev rq b),
         ((''POST'', ''/organization/delete''), org_delete es og ev rq b),
         ((''POST'', ''/organization/set-active''), org_set_active es og ev rq b),
         ((''GET'', ''/organization/get-organization''), org_get es og ev rq),
         ((''GET'', ''/organization/get-full-organization''), org_get_full es og ev rq),
         ((''GET'', ''/organization/list''), org_list es og ev rq),
         ((''POST'', ''/organization/check-slug''), org_check_slug es og b),
         ((''POST'', ''/organization/leave''), org_leave es og ev rq b),
         ((''GET'', ''/organization/list-members''), org_list_members es og ev rq),
         ((''POST'', ''/organization/remove-member''), org_remove_member es og ev rq b),
         ((''POST'', ''/organization/update-member-role''), org_update_member_role es og ev rq b),
         ((''GET'', ''/organization/get-active-member''), org_get_active_member es og ev rq),
         ((''POST'', ''/organization/has-permission''), org_has_permission es og ev rq b),
         ((''POST'', ''/organization/invite-member''), org_invite_member es og ev rq b),
         ((''POST'', ''/organization/accept-invitation''), org_accept_invitation es og ev rq b ids),
         ((''POST'', ''/organization/reject-invitation''), org_reject_invitation es og ev rq b),
         ((''POST'', ''/organization/cancel-invitation''), org_cancel_invitation es og ev rq b),
         ((''GET'', ''/organization/get-invitation''), org_get_invitation es og ev rq),
         ((''GET'', ''/organization/list-invitations''), org_list_invitations es og ev rq),
         ((''GET'', ''/organization/list-user-invitations''), org_list_user_invitations es og ev rq)] @
        (if og_teams og then
           [((''POST'', ''/organization/create-team''), team_create es og ev rq b),
            ((''POST'', ''/organization/update-team''), team_update es og ev rq b),
            ((''POST'', ''/organization/remove-team''), team_remove es og ev rq b),
            ((''GET'', ''/organization/list-teams''), team_list es og ev rq),
            ((''POST'', ''/organization/set-active-team''), team_set_active es og ev rq b),
            ((''GET'', ''/organization/list-user-teams''), team_list_of_user es og ev rq),
            ((''GET'', ''/organization/list-team-members''), team_list_members es og ev rq),
            ((''POST'', ''/organization/add-team-member''), team_add_member es og ev rq b),
            ((''POST'', ''/organization/remove-team-member''), team_remove_member es og ev rq b)]
         else []) @
        (if op_dac_enabled (og_access og) then
           [((''POST'', ''/organization/create-role''), role_create es og ev rq b),
            ((''POST'', ''/organization/delete-role''), role_delete es og ev rq b),
            ((''GET'', ''/organization/list-roles''), role_list es og ev rq),
            ((''GET'', ''/organization/get-role''), role_get es og ev rq),
            ((''POST'', ''/organization/update-role''), role_update es og ev rq b)]
         else []))
       (rq_method rq, rq_path rq)"

end
