(* ===== verification/Reads.thy ===== *)
theory Reads
  imports Device_Claims
begin

text \<open>
  Steps that only read, as the frame of equality, and rules that follow a handler step by step.
\<close>

section \<open>Steps that only read\<close>

interpretation unchanged: frame "(=)"
  by unfold_locales auto

abbreviation reads :: "('s, 'a) action \<Rightarrow> bool" where
  "reads act \<equiv> keeps (=) act"

lemma reads_unchanged: "reads act \<Longrightarrow> act w = (res, w') \<Longrightarrow> w' = w"
  using keepsD[of "(=)" act w res w'] by simp

lemma reads_db:
  "reads (mem_find_one ad m wh select)"
  "reads (mem_find_many ad m wh limit order offset select)"
  "reads (mem_count m wh)"
  by (simp_all add: keeps_def mem_find_one_def mem_find_many_def mem_count_def)

lemma reads_on_rows: "reads act \<Longrightarrow> reads (on_rows act)"
  by (simp add: keeps_def on_rows_def on_core_def on_db_def split: prod.split) (metis snd_conv world_same)

lemmas reading = keeps_cases unchanged.keeps_ret unchanged.keeps_Pair unchanged.keeps_raise unchanged.keeps_liftR
  unchanged.keeps_bindA unchanged.keeps_catchA reads_on_rows reads_db

lemma reads_user_by_email: "reads (find_user_by_email es v)"
  unfolding find_user_by_email_def by (intro reading)

section \<open>Following a handler\<close>

text \<open>
  \<open>run_to Q act w\<close>: whatever \<open>act\<close> returns from \<open>w\<close>, the state it leaves satisfies \<open>Q\<close>. A step that reads
  hands its result on with the state as it was.
\<close>

definition run_to :: "('s \<Rightarrow> bool) \<Rightarrow> ('s, 'a) action \<Rightarrow> 's \<Rightarrow> bool" where
  "run_to Q act w \<longleftrightarrow> Q (snd (act w))"

lemma run_toD: "run_to Q act w \<Longrightarrow> act w = (res, w') \<Longrightarrow> Q w'"
  by (simp add: run_to_def)

lemma run_to_read:
  assumes "reads act" "Q w" "\<And>a. act w = (Inr a, w) \<Longrightarrow> run_to Q (f a) w"
  shows "run_to Q (bindA act f) w"
proof (cases "act w")
  case (Pair res w')
  with reads_unchanged[OF assms(1)] have "w' = w" by blast
  with Pair assms show ?thesis by (cases res) (auto simp: run_to_def bindA_def)
qed

lemma run_to_lift:
  assumes "Q w" "\<And>a. m = Inr a \<Longrightarrow> run_to Q (f a) w"
  shows "run_to Q (bindA (liftR m) f) w"
  using assms by (cases m) (simp_all add: run_to_def)

lemma run_to_end: "Q w \<Longrightarrow> run_to Q (ret a) w" "Q w \<Longrightarrow> run_to Q (raise e) w" "Q w \<Longrightarrow> run_to Q (liftR m) w"
  by (simp_all add: run_to_def)

lemma run_to_keeps:
  assumes "keeps R act" "\<And>w'. R w w' \<Longrightarrow> Q w'"
  shows "run_to Q act w"
  using assms by (simp add: run_to_def keeps_def)

lemma run_to_then:
  assumes "run_to Q act w" "\<And>a w'. act w = (Inr a, w') \<Longrightarrow> Q w' \<Longrightarrow> run_to Q (f a) w'"
  shows "run_to Q (bindA act f) w"
proof (cases "act w")
  case (Pair res w')
  with assms show ?thesis by (cases res) (auto simp: run_to_def bindA_def)
qed

section \<open>Parts of a dict\<close>

lemma map_of_filter_key: "map_of (filter (\<lambda>(k, _). P k) r) k = (if P k then map_of r k else None)"
  by (induction r) auto

section \<open>Conditions on two columns\<close>

lemma safe_fields2 [simp]: "safe [Where f v, Where g u] rs"
  using wheres(1)[of "[(f, v), (g, u)]" rs] by simp

lemma sel_field2: "sel [Where f v, Where g u] = (\<lambda>r. is_field r f v \<and> is_field r g u)"
  using wheres(2)[of "[(f, v), (g, u)]"] by simp

end
