(* ===== verification/Org_Reads.thy ===== *)
theory Org_Reads
  imports Org_Roles Reads
begin

text \<open>
  Laws of the organization plugin that its claims share: which of its steps only read, and what the members
  that it looks up have to do with the rows they are read from.
\<close>

section \<open>Steps that only read\<close>

lemma reads_find_user: "reads (find_user es uid)" "reads (find_user_by_email es v)"
  unfolding find_user_def by (intro reading reads_user_by_email)+

lemma reads_attach_found: "reads (attach_found es og m)"
  unfolding attach_found_def attach_user_def by (intro reading reads_find_user)

lemma reads_members:
  "reads (check_membership es uid org)" "reads (find_member_by_org es og uid org)"
  "reads (find_member_by_id es og i)" "reads (find_member_by_email es og e org)"
  "reads (asking_member es og v org missing)"
  unfolding asking_member_def find_member_by_org_def find_member_by_id_def find_member_by_email_def check_membership_def
  by (intro reading reads_attach_found reads_find_user)+

lemma reads_member_may: "reads (member_may es og m p org c)" "reads (member_must es og m p org denied)"
  unfolding member_must_def member_may_def has_permission_def
  by (intro reading; simp add: reading split: pyval.split)+

lemma reads_orgs: "reads (find_org_by_id es og org)" "reads (org_must_exist es og org)"
  unfolding org_must_exist_def find_org_by_id_def find_org_by_def by (intro reading)+

lemma reads_members_with_users: "reads (members_with_users es og ms)"
  unfolding members_with_users_def users_by_ids_def by (intro reading)

lemma reads_lists: "reads (list_members es og org limit offset order extra)" "reads (org_owners es og org)"
  unfolding list_members_def org_owners_def Let_def by (intro reading reads_members_with_users)+

lemma reads_user_must_exist: "reads (user_must_exist es uid)"
  unfolding user_must_exist_def by (intro reading reads_find_user)

lemma reads_roles_must_exist: "reads (roles_must_exist es og org names label)"
  unfolding roles_must_exist_def filter_dynamic_role_names_def Let_def by (intro reading)

section \<open>Members and their rows\<close>

abbreviation member_rows :: "sworld \<Rightarrow> row list" where
  "member_rows w \<equiv> table w ''member''"

text \<open>A shaped member shows values of the row, except under \<open>user\<close>.\<close>

definition shown_of :: "row \<Rightarrow> row \<Rightarrow> bool" where
  "shown_of r m \<longleftrightarrow> (\<forall>k v. k \<noteq> ''user'' \<longrightarrow> dindex m k = Inr v \<longrightarrow> dget r k = v)"

lemma shown_ofD: "shown_of r m \<Longrightarrow> dindex m k = Inr v \<Longrightarrow> k \<noteq> ''user'' \<Longrightarrow> dget r k = v"
  by (auto simp: shown_of_def)

lemma shown_of_shape: "shape_member og r u = Inr m \<Longrightarrow> shown_of r m"
  by (auto simp: shape_member_def shown_of_def org_output_def filter_output_fields_def Let_def bindR_Inr_iff
      dindex_def dget_def map_of_filter_key split: option.splits if_splits)

lemma shown_of_ddrop: "shown_of r m \<Longrightarrow> shown_of r (ddrop k m)"
  by (auto simp: shown_of_def ddrop_def dindex_def map_of_filter_key[of "\<lambda>k'. k' \<noteq> k"] split: option.splits if_splits)

lemma attach_found_Some:
  assumes "attach_found es og found w = (Inr (Some m), w')"
  obtains r where "found = Some r" "shown_of r m"
  using assms shown_of_shape
  by (auto simp: attach_found_def attach_user_def bindA_def split: option.splits sum.splits prod.splits)

lemma asking_member_row:
  assumes "native (store_ad es)" "asking_member es og v org missing w = (Inr m, w)"
  obtains r where "r \<in> set (member_rows w)" "shown_of r m" "is_field r ''organizationId'' org"
proof -
  from assms(2) obtain uid found where "find_member_by_org es og uid org w = (Inr (Some m), w)"
    unfolding asking_member_def
    by (auto simp: bindA_def liftR_def dest: reads_unchanged[OF reads_members(2)] split: sum.splits prod.splits option.splits)
  then obtain found where "check_membership es uid org w = (Inr found, w)" "attach_found es og found w = (Inr (Some m), w)"
    unfolding find_member_by_org_def by (elim bindA_InrE) (metis reads_unchanged reads_members(1))
  moreover from this(1) have "found = List.find (\<lambda>r. is_field r ''userId'' uid \<and> is_field r ''organizationId'' org) (member_rows w)"
    using find_row_step[OF assms(1), of "[Where ''userId'' uid, Where ''organizationId'' org]" w "''member''" ret]
    by (simp add: check_membership_def sel_field2)
  ultimately obtain r where "List.find (\<lambda>r. is_field r ''userId'' uid \<and> is_field r ''organizationId'' org) (member_rows w) = Some r"
      "shown_of r m"
    by (elim attach_found_Some) (metis (no_types, lifting))
  with that[of r] find_Some_in[OF this(1)] show ?thesis by simp
qed

lemma find_member_by_id_row:
  assumes "native (store_ad es)" "find_member_by_id es og i w = (Inr (Some m), w)"
  obtains r where "r \<in> set (member_rows w)" "shown_of r m" "is_field r ''id'' i"
proof -
  from assms(2) have "attach_found es og (List.find (\<lambda>r. is_field r ''id'' i) (member_rows w)) w = (Inr (Some m), w)"
    by (simp add: find_member_by_id_def find_row_step[OF assms(1)] sel_field1)
  then obtain r where "List.find (\<lambda>r. is_field r ''id'' i) (member_rows w) = Some r" "shown_of r m"
    by (elim attach_found_Some)
  with that[of r] find_Some_in[OF this(1)] show ?thesis by simp
qed

lemma find_member_by_email_row:
  assumes "native (store_ad es)" "find_member_by_email es og e org w = (Inr (Some m), w)"
  obtains r where "r \<in> set (member_rows w)" "shown_of r m" "is_field r ''organizationId'' org"
proof -
  from assms(2) obtain u uid r where "List.find (\<lambda>r. is_field r ''organizationId'' org \<and> is_field r ''userId'' uid) (member_rows w) = Some r"
      "shape_member og r u = Inr m"
    by (auto simp: find_member_by_email_def find_user_step[OF assms(1)] find_row_step[OF assms(1)] sel_field2 bind_lift
        split: option.splits sum.splits)
  with that[of r] shown_of_shape[OF this(2)] find_Some_in[OF this(1)] show ?thesis by simp
qed

section \<open>Rows with a role\<close>

definition has_role :: "string \<Rightarrow> row \<Rightarrow> bool" where
  "has_role c r \<longleftrightarrow> (\<exists>s. dget r ''role'' = VStr s \<and> c \<in> set (split_on CHR '','' s))"

lemma member_holds_Inr:
  assumes "member_holds c m = Inr h" "shown_of r m"
  shows "h \<longleftrightarrow> has_role c r"
proof -
  from assms(1) obtain v where v: "dindex m ''role'' = Inr v" "holds_role c v = Inr h"
    by (auto simp: member_holds_def bindR_Inr_iff)
  with shown_ofD[OF assms(2)] have "dget r ''role'' = v" by simp
  with v(2) show ?thesis
    by (cases v) (auto simp: holds_role_def text_value_def has_role_def)
qed

lemma shown_of_refl: "shown_of r r"
  by (simp add: shown_of_def dindex_value)

lemma holders_Inr: "holders c ms = Inr hs \<Longrightarrow> hs = filter (has_role c) ms"
  by (induction ms arbitrary: hs) (auto simp: bindR_Inr_iff dest: member_holds_Inr[OF _ shown_of_refl] split: if_splits)

lemma has_role_shape: "shape_member og r u = Inr m \<Longrightarrow> has_role c m \<Longrightarrow> has_role c r"
  by (auto simp: has_role_def shape_member_def bindR_Inr_iff org_output_def filter_output_fields_def Let_def
      dget_def map_of_filter_key split: option.splits if_splits)

lemma shape_members_role:
  "shape_members og users ms = Inr ss \<Longrightarrow> length (filter (has_role c) ss) \<le> length (filter (has_role c) ms)"
proof (induction ms arbitrary: ss)
  case (Cons m ms)
  then show ?case
    by (force simp: bindR_Inr_iff dest: has_role_shape[of og m _ _ c] split: option.splits prod.splits)
qed simp

text \<open>The owners that a query lists are no more than the owners there are.\<close>

definition owners_of :: "organization_plugin \<Rightarrow> pyval \<Rightarrow> row list \<Rightarrow> row list" where
  "owners_of og org rs = filter (has_role (creator_role_of og)) (filter (\<lambda>r. is_field r ''organizationId'' org) rs)"

lemma length_filter_take: "length (filter P (take n xs)) \<le> length (filter P xs)"
  by (metis append_take_drop_id filter_append le_add1 length_append)

lemma org_owners_bound:
  assumes "native (store_ad es)" "org_owners es og org w = (Inr hs, w)"
  shows "length hs \<le> length (owners_of og org (member_rows w))"
proof -
  from assms(2) obtain ms where "mem_find_many (store_ad es) ''member'' [Where ''organizationId'' org] None None None []
      (iw_db (sw_int w)) = (Inr ms, iw_db (sw_int w))" "holders (creator_role_of og) ms = Inr hs"
    by (auto simp: org_owners_def bindA_def on_rows_def on_core_def on_db_def mem_find_many_safe[OF assms(1)] split: sum.splits prod.splits)
  with assms(1) show ?thesis
    by (auto simp: mem_find_many_safe sel_field1 slice_to_def length_filter_take owners_of_def table_def simp del: filter_filter dest!: holders_Inr)
qed

lemma list_members_bound:
  assumes "native (store_ad es)" "list_members es og org None None None None w = (Inr (ss, n), w)"
    and "holders (creator_role_of og) ss = Inr hs"
  shows "length hs \<le> length (owners_of og org (member_rows w))"
proof -
  let ?c = "creator_role_of og"
  from assms(2) obtain ms users where ms: "ms = slice_to (default_members_limit og) (slice_from 0
        (filter (\<lambda>r. is_field r ''organizationId'' org) (member_rows w)))" and "shape_members og users ms = Inr ss"
    by (auto simp: list_members_def members_with_users_def bindA_def on_rows_def on_core_def on_db_def mem_find_many_def
        filter_rows_safe sel_field1 output_rows_native[OF assms(1)] table_def find_limit_def liftR_def
        dest!: reads_unchanged[OF reads_members_with_users] split: sum.splits prod.splits)
  from shape_members_role[OF this(2), of ?c] have "length (filter (has_role ?c) ss) \<le> length (filter (has_role ?c) ms)" .
  moreover have "length (filter (has_role ?c) ms) \<le> length (owners_of og org (member_rows w))"
    unfolding ms owners_of_def slice_to_def slice_from_def by (simp add: slice_bound_def length_filter_take del: filter_filter)
  ultimately show ?thesis using holders_Inr[OF assms(3)] by simp
qed

end
