(* ===== verification/Org_Owners.thy ===== *)
theory Org_Owners
  imports Org_Reads
begin

text \<open>
  An organization that has an owner keeps one: leaving, removing a member and changing a role, however often
  and by whomever they are who for, leave some member with the creator role.
\<close>

section \<open>Owners in the table of members\<close>

definition owner_row :: "organization_plugin \<Rightarrow> string \<Rightarrow> row \<Rightarrow> bool" where
  "owner_row og org r \<longleftrightarrow> dget r ''organizationId'' = VStr org \<and> has_role (creator_role_of og) r"

definition owned :: "organization_plugin \<Rightarrow> string \<Rightarrow> row list \<Rightarrow> bool" where
  "owned og org rs \<longleftrightarrow> (\<exists>r\<in>set rs. owner_row og org r)"

definition owners_kept :: "organization_plugin \<Rightarrow> sworld \<Rightarrow> sworld \<Rightarrow> bool" where
  "owners_kept og w w' \<longleftrightarrow> (str_ids (member_rows w) \<longrightarrow>
     str_ids (member_rows w') \<and> (\<forall>org. owned og org (member_rows w) \<longrightarrow> owned og org (member_rows w')))"

interpretation kept_owners: frame "owners_kept og" for og
  by unfold_locales (auto simp: owners_kept_def)

lemma owners_kept_same: "same_site_table ''member'' w w' \<Longrightarrow> owners_kept og w w'"
  using same_site_tableD[of "''member''" w w'] by (auto simp: owners_kept_def)

lemma keeps_owners_same: "keeps (same_site_table ''member'') act \<Longrightarrow> keeps (owners_kept og) act"
  by (auto simp: keeps_def intro: owners_kept_same)

lemma owners_of_filter: "owners_of og (VStr org) rs = filter (owner_row og org) rs"
  by (auto simp: owners_of_def owner_row_def intro!: filter_cong)

lemma str_ids_distinct: "str_ids rs \<Longrightarrow> distinct rs"
  by (simp add: str_ids_def row_ids_def distinct_map)

lemma other_owner:
  assumes "str_ids rs" "owned og org rs"
    and "owner_row og org r0 \<Longrightarrow> 2 \<le> length (owners_of og (VStr org) rs)"
  shows "\<exists>r\<in>set rs. owner_row og org r \<and> r \<noteq> r0"
proof (rule ccontr)
  assume none: "\<not> ?thesis"
  with assms(2) have r0: "owner_row og org r0" "set (filter (owner_row og org) rs) \<subseteq> {r0}"
    by (auto simp: owned_def)
  have "card (set (filter (owner_row og org) rs)) \<le> 1" using card_mono[OF _ r0(2)] by simp
  moreover have "card (set (filter (owner_row og org) rs)) = length (filter (owner_row og org) rs)"
    by (intro distinct_card distinct_filter str_ids_distinct assms(1))
  ultimately show False using assms(3)[OF r0(1)] by (simp add: owners_of_filter)
qed

lemma drop_first_keeps: "r \<in> set rs \<Longrightarrow> \<not> P r \<Longrightarrow> r \<in> set (drop_first P rs)"
  by (induction rs) auto

lemma owned_drop:
  assumes "str_ids rs" "r0 \<in> set rs" "owned og org rs"
    and "owner_row og org r0 \<Longrightarrow> 2 \<le> length (owners_of og (VStr org) rs)"
  shows "owned og org (drop_first (\<lambda>r. is_field r ''id'' (dget r0 ''id'')) rs)"
proof -
  from other_owner[OF assms(1,3,4)] obtain r where r: "r \<in> set rs" "owner_row og org r" "r \<noteq> r0" by blast
  with assms(1,2) have "\<not> is_field r ''id'' (dget r0 ''id'')"
    using str_ids_inj[OF assms(1) r(1) assms(2)] by (auto simp: str_ids_def list_all_iff is_str_iff is_field_def)
  with r drop_first_keeps[of r rs "\<lambda>r. is_field r ''id'' (dget r0 ''id'')"] show ?thesis by (auto simp: owned_def)
qed

lemma owned_update:
  assumes "str_ids rs" "r0 \<in> set rs" "dget r0 ''id'' = VStr i" "owned og org rs"
    and "owner_row og org r0 \<Longrightarrow> has_role (creator_role_of og) (dset ''role'' v []) \<or>
      (\<exists>r\<in>set rs. owner_row og org r \<and> r \<noteq> r0)"
  shows "owned og org (map_first (\<lambda>r. is_field r ''id'' (VStr i)) (\<lambda>r. dset ''role'' v r) rs)"
proof -
  have kept: "r \<in> set (map_first P f rs)" if "r \<in> set rs" "\<not> P r" for r P f and rs :: "row list"
    using that by (induction rs) auto
  have changed: "dset ''role'' v r0 \<in> set (map_first (\<lambda>r. is_field r ''id'' (VStr i)) (\<lambda>r. dset ''role'' v r) rs)"
    using assms(1-3)
  proof (induction rs)
    case (Cons r rs)
    show ?case
    proof (cases "r = r0")
      case False
      with Cons.prems have "dget r ''id'' \<noteq> VStr i" using str_ids_inj[OF Cons.prems(1), of r r0] by auto
      with Cons False show ?thesis by (auto simp: str_ids_def row_ids_def)
    qed (use Cons.prems in simp)
  qed simp
  show ?thesis
  proof (cases "\<exists>r\<in>set rs. owner_row og org r \<and> r \<noteq> r0")
    case True
    then obtain r where r: "r \<in> set rs" "owner_row og org r" "r \<noteq> r0" by blast
    with assms(1-3) have "dget r ''id'' \<noteq> VStr i" using str_ids_inj[OF assms(1) r(1) assms(2)] by auto
    with r kept[of r rs "\<lambda>r. is_field r ''id'' (VStr i)"] show ?thesis by (auto simp: owned_def)
  next
    case False
    with assms(4) have r0: "owner_row og org r0" by (auto simp: owned_def)
    with assms(5) False have "owner_row og org (dset ''role'' v r0)" by (auto simp: owner_row_def has_role_def dget_Cons)
    with changed show ?thesis by (auto simp: owned_def)
  qed
qed

section \<open>What follows a check\<close>

lemma keeps_update_session: "m \<noteq> ''session'' \<Longrightarrow> keeps (same_table m) (update_session ic ev t vs)"
  unfolding update_session_def
  by (intro keeps_int_update) (auto intro!: table_frame simp: update_session_kv_def Let_def split: if_splits)

lemma keeps_run_hook: "keeps (same_site_table m) (run_before_hook og name payload)"
    "keeps (same_site_table m) (run_after_hook og name payload)"
  unfolding run_before_hook_def run_after_hook_def by (intro site_frame)+

lemma keeps_set_active: "m \<noteq> ''session'' \<Longrightarrow> keeps (same_site_table m) (set_active_org es ev v org)"
  "m \<noteq> ''session'' \<Longrightarrow> keeps (same_site_table m) (set_active_team es ev v team)"
  unfolding set_active_org_def set_active_team_def by (intro site_frame keeps_update_session; simp)+

lemma keeps_leave_active: "m \<noteq> ''session'' \<Longrightarrow> keeps (same_site_table m) (leave_active es ev v org)"
  unfolding leave_active_def by (intro site_frame keeps_set_active)

lemma keeps_org_session: "m \<noteq> ''session'' \<Longrightarrow> keeps (same_site_table m) (org_session es ev rq)"
  unfolding org_session_def by (intro site_frame keeps_load_session)

lemma keeps_read: "reads act \<Longrightarrow> keeps (same_site_table m) act"
  unfolding keeps_def by (metis kept_site.same_refl)

lemma keeps_release: "m \<noteq> ''team'' \<Longrightarrow> keeps (same_rows m) (release_team_seats es ev t n)"
  unfolding release_team_seats_def by (intro keeps_cases kept_rows.keeps_ret kept_rows.keeps_bindA keeps_other_model) auto

lemma keeps_leave_teams:
  assumes "m \<noteq> ''team''" "m \<noteq> ''teamMember''"
  shows "keeps (same_site_table m) (leave_teams es ev uid ts)"
proof (induction ts)
  case (Cons t ts)
  have "keeps (same_rows m) (remove_team_member_row es ev t uid)" for t
    unfolding remove_team_member_row_def using assms
    by (intro kept_rows.keeps_bindA keeps_other_model keeps_release) auto
  with Cons show ?case by (auto intro!: site_frame)
qed (auto intro!: site_frame)

lemma reads_list_teams: "reads (list_teams es og org)"
  unfolding list_teams_def by (intro reading)

text \<open>Deleting a member who is no owner, or one of several.\<close>

lemma delete_member_kept:
  assumes "r0 \<in> set (member_rows w)"
    and "\<And>org. owner_row og org r0 \<Longrightarrow> 2 \<le> length (owners_of og (VStr org) (member_rows w))"
  shows "run_to (owners_kept og w) (delete_member es og ev (dget r0 ''id'') home uid) w"
  unfolding delete_member_def
proof (rule run_to_then)
  let ?P = "\<lambda>r. is_field r ''id'' (dget r0 ''id'')"
  have "snd (on_rows (mem_delete ''member'' [Where ''id'' (dget r0 ''id'')]) w) = with_rows ''member'' (drop_first ?P (member_rows w)) w"
    by (simp add: on_rows_def on_core_def on_db_def mem_delete_safe sel_field1 with_rows_def table_def)
  with owned_drop[OF _ assms(1) _ assms(2)] str_ids_drop_first[of "member_rows w" ?P]
  show "run_to (owners_kept og w) (on_rows (mem_delete ''member'' [Where ''id'' (dget r0 ''id'')])) w"
    by (auto simp: run_to_def owners_kept_def)
next
  fix a w'
  assume "owners_kept og w w'"
  moreover have "keeps (owners_kept og)
      (if og_teams og \<and> py_truthy home \<and> py_truthy uid then bindA (list_teams es og home) (leave_teams es ev uid) else ret ())"
    by (intro keeps_owners_same site_frame keeps_leave_teams keeps_read reads_list_teams) auto
  ultimately show "run_to (owners_kept og w)
      (if og_teams og \<and> py_truthy home \<and> py_truthy uid then bindA (list_teams es og home) (leave_teams es ev uid) else ret ()) w'"
    by (elim run_to_keeps) (rule kept_owners.same_trans)
qed

lemma kept_then:
  assumes "keeps (same_site_table ''member'') act" "\<And>a w1. run_to (owners_kept og w1) (f a) w1"
  shows "run_to (owners_kept og w) (bindA act f) w"
proof (rule run_to_then)
  show "run_to (owners_kept og w) act w"
    using keeps_owners_same[OF assms(1)] by (rule run_to_keeps)
next
  fix a w1
  assume "owners_kept og w w1"
  with assms(2)[of w1 a] show "run_to (owners_kept og w) (f a) w1"
    by (auto simp: run_to_def intro: kept_owners.same_trans)
qed

lemma kept_after:
  assumes "run_to (owners_kept og w) act w" "\<And>a. keeps (same_site_table ''member'') (f a)"
  shows "run_to (owners_kept og w) (bindA act f) w"
  using assms(1)
proof (rule run_to_then)
  fix a w1
  assume "owners_kept og w w1"
  with keeps_owners_same[OF assms(2)] show "run_to (owners_kept og w) (f a) w1"
    by (auto intro: run_to_keeps kept_owners.same_trans)
qed

lemmas kept_read = run_to_read[where Q = "owners_kept og w" and w = w for og w, OF _ kept_owners.same_refl]
lemmas kept_lift = run_to_lift[where Q = "owners_kept og w" and w = w for og w, OF kept_owners.same_refl]

section \<open>Leaving\<close>

lemma leave_kept:
  assumes "native (store_ad es)"
  shows "run_to (owners_kept og w) (org_leave es og ev rq b) w"
  unfolding org_leave_def
proof (rule kept_then[OF keeps_org_session[OF _]], simp, rule kept_lift, rule kept_read[OF reads_members(5)], rule kept_lift)
  fix v w org m owner
  assume m: "asking_member es og v (VStr org) (org_err 400 ''MEMBER_NOT_FOUND'') w = (Inr m, w)"
    and owner: "member_holds (creator_role_of og) m = Inr owner"
  from asking_member_row[OF assms m] obtain r where
    r: "r \<in> set (member_rows w)" "shown_of r m" "is_field r ''organizationId'' (VStr org)" .
  have tail: "keeps (same_site_table ''member'') (bindA (leave_active es ev v (VStr org)) (\<lambda>_. ret (reply m)))"
    by (intro site_frame keeps_leave_active) simp
  let ?check = "if \<not> owner then ret ()
      else bindA (org_owners es og (VStr org)) (\<lambda>owners.
        if length owners \<le> 1 then raise (org_err 400 ''YOU_CANNOT_LEAVE_THE_ORGANIZATION_AS_THE_ONLY_OWNER'') else ret ())"
  have reads: "reads ?check" by (intro reading reads_lists)
  show "run_to (owners_kept og w) (bindA ?check (\<lambda>_. bindA (liftR (dindex m ''id'')) (\<lambda>i.
      bindA (liftR (dindex m ''userId'')) (\<lambda>uid. bindA (delete_member es og ev i (VStr org) uid) (\<lambda>_.
      bindA (leave_active es ev v (VStr org)) (\<lambda>_. ret (reply m))))))) w"
  proof (rule kept_read[OF reads], rule kept_lift, rule kept_lift, rule kept_after[OF _ tail])
    fix x i uid
    assume check: "?check w = (Inr x, w)" and i: "dindex m ''id'' = Inr i"
    have two: "2 \<le> length (owners_of og (VStr org) (member_rows w))" if "has_role (creator_role_of og) r"
    proof -
      from that member_holds_Inr[OF owner r(2)] check obtain hs where "org_owners es og (VStr org) w = (Inr hs, w)" "2 \<le> length hs"
        by (auto simp: bindA_def dest: reads_unchanged[OF reads_lists(2)] split: prod.splits sum.splits if_splits)
      with org_owners_bound[OF assms] show ?thesis by fastforce
    qed
    have "run_to (owners_kept og w) (delete_member es og ev (dget r ''id'') (VStr org) uid) w"
      using two r(3) by (intro delete_member_kept[OF r(1)]) (auto simp: owner_row_def)
    with shown_ofD[OF r(2) i] show "run_to (owners_kept og w) (delete_member es og ev i (VStr org) uid) w" by simp
  qed
qed

section \<open>Removing\<close>

lemma kept_hook:
  assumes "keeps (same_site_table ''member'') act"
    and "\<And>a w1. member_rows w1 = member_rows w \<Longrightarrow> run_to (owners_kept og w1) (f a) w1"
  shows "run_to (owners_kept og w) (bindA act f) w"
proof (cases "str_ids (member_rows w)")
  case True
  show ?thesis
  proof (rule run_to_then)
    show "run_to (owners_kept og w) act w" using keeps_owners_same[OF assms(1)] by (rule run_to_keeps)
  next
    fix a w1
    assume run: "act w = (Inr a, w1)" and kept: "owners_kept og w w1"
    from same_site_tableD[OF keepsD[OF assms(1) run] True] assms(2)[of w1 a] kept
    show "run_to (owners_kept og w) (f a) w1" by (auto simp: run_to_def intro: kept_owners.same_trans)
  qed
qed (simp add: run_to_def owners_kept_def)

lemma member_to_remove_row:
  assumes "native (store_ad es)" "member_to_remove es og who org w = (Inr m, w)"
  obtains r where "r \<in> set (member_rows w)" "shown_of r m"
proof (cases "CHR ''@'' \<in> set who")
  case True
  with assms(2) have "find_member_by_email es og who org w = (Inr (Some m), w)"
    by (auto simp: member_to_remove_def bindA_def dest: reads_unchanged[OF reads_members(4)] split: sum.splits prod.splits option.splits)
  from find_member_by_email_row[OF assms(1) this] that show ?thesis by blast
next
  case False
  with assms(2) obtain m0 where m0: "find_member_by_id es og (VStr who) w = (Inr (Some m0), w)" "m = ddrop ''user'' m0"
    by (auto simp: member_to_remove_def real_row_def bindA_def dest!: reads_unchanged[OF reads_members(3)]
        split: sum.splits prod.splits option.splits list.splits)
  from find_member_by_id_row[OF assms(1) m0(1)] that shown_of_ddrop m0(2) show ?thesis by metis
qed

lemma reads_remove_checks: "reads (member_to_remove es og who org)" "reads (may_remove_owner es og actor m org)"
  unfolding member_to_remove_def may_remove_owner_def by (intro reading reads_members reads_lists)+

lemma may_remove_owner_two:
  assumes "native (store_ad es)" "may_remove_owner es og actor m org w = (Inr (), w)" "shown_of r m" "has_role (creator_role_of og) r"
  shows "2 \<le> length (owners_of og org (member_rows w))"
proof -
  let ?c = "creator_role_of og"
  from assms(2) obtain owner where "member_holds ?c m = Inr owner"
    by (auto simp: may_remove_owner_def bind_lift split: sum.splits)
  with member_holds_Inr[OF this assms(3)] assms(4) have "member_holds ?c m = Inr True" by simp
  with assms(2) obtain ss n hs where "list_members es og org None None None None w = (Inr (ss, n), w)"
      "holders ?c ss = Inr hs" "2 \<le> length hs"
    by (auto simp: may_remove_owner_def bind_lift bindA_def[of "list_members es og org None None None None"]
        dest: reads_unchanged[OF reads_lists(1)] split: sum.splits prod.splits if_splits)
  with list_members_bound[OF assms(1)] show ?thesis by fastforce
qed

lemma remove_checked_kept:
  assumes "r \<in> set (member_rows w)" "shown_of r m"
    and "\<And>org. owner_row og org r \<Longrightarrow> 2 \<le> length (owners_of og (VStr org) (member_rows w))"
  shows "run_to (owners_kept og w) (remove_checked es og ev v m org) w"
  unfolding remove_checked_def Let_def
proof (rule kept_read[OF reads_orgs(2)], rule kept_lift, rule kept_read[OF reads_user_must_exist], rule kept_hook[OF keeps_run_hook(2)],
    rule kept_lift, rule kept_lift, rule kept_after)
  fix organization uid user a w1 i home
  assume "member_rows w1 = member_rows w" "dindex m ''id'' = Inr i"
  with assms delete_member_kept[of r w1 og es ev home uid] shown_ofD[OF assms(2)]
  show "run_to (owners_kept og w1) (delete_member es og ev i home uid) w1" by auto
qed (intro site_frame keeps_leave_active keeps_run_hook, simp)

lemma remove_kept:
  assumes "native (store_ad es)"
  shows "run_to (owners_kept og w) (org_remove_member es og ev rq b) w"
  unfolding org_remove_member_def
proof (rule kept_then[OF keeps_org_session[OF _]], simp, rule kept_lift, rule kept_lift, rule kept_read[OF reads_members(5)],
    rule kept_lift, rule kept_read[OF reads_remove_checks(1)], rule kept_read[OF reads_remove_checks(2)],
    rule kept_read[OF reads_member_may(2)], rule kept_lift)
  fix v w d org actor who m x y home
  assume m: "member_to_remove es og who org w = (Inr m, w)" and may: "may_remove_owner es og actor m org w = (Inr x, w)"
    and home: "dindex m ''organizationId'' = Inr home"
  from member_to_remove_row[OF assms m] obtain r where r: "r \<in> set (member_rows w)" "shown_of r m" .
  have "run_to (owners_kept og w) (remove_checked es og ev v m org) w" if "py_eq home org"
  proof (rule remove_checked_kept[OF r])
    fix o'
    assume "owner_row og o' r"
    with shown_ofD[OF r(2) home] that have "org = VStr o'" by (auto simp: owner_row_def)
    with may_remove_owner_two[OF assms _ r(2), of og actor org w] may \<open>owner_row og o' r\<close>
    show "2 \<le> length (owners_of og (VStr o') (member_rows w))" by (auto simp: owner_row_def)
  qed
  then show "run_to (owners_kept og w) (if \<not> py_eq home org then raise (org_err 400 ''MEMBER_NOT_FOUND'')
      else remove_checked es og ev v m org) w"
    by (simp add: run_to_end kept_owners.same_refl)
qed

section \<open>Changing a role\<close>

text \<open>The table of members: updates store the values they are given.\<close>

definition member_table :: "site \<Rightarrow> bool" where
  "member_table es \<longleftrightarrow> native (store_ad es) \<and>
     (\<exists>fs. map_of (ad_schema (store_ad es)) ''member'' = Some fs \<and>
        list_all (\<lambda>(_, f). f_on_update f = None \<and> f_transform_input f = None) fs)"

lemma member_input:
  assumes "member_table es"
  shows "transform_input (store_ad es) ev ''member'' d ''update'' = Inr d"
proof -
  from assms obtain fs where fs: "map_of (ad_schema (store_ad es)) ''member'' = Some fs"
      "list_all (\<lambda>(_, f). f_on_update f = None \<and> f_transform_input f = None) fs"
    by (auto simp: member_table_def)
  have "transform_fields ev (ad_codec (store_ad es)) all_caps ''update'' fs d = Inr d"
    by (rule transform_fields_update_same) (use fs(2) in \<open>auto simp: list_all_iff\<close>)
  with assms fs(1) show ?thesis by (simp add: member_table_def transform_input_def native_def)
qed

lemma split_on_free: "c \<notin> set p \<Longrightarrow> split_on c p = [p]"
  by (induction p) auto

lemma split_join: "(\<And>p. p \<in> set ps \<Longrightarrow> c \<notin> set p) \<Longrightarrow> ps \<noteq> [] \<Longrightarrow> split_on c (join_parts [c] ps) = ps"
proof (induction "[c]" ps rule: join_parts.induct)
  case (3 p q ps)
  with split_on_append[of c p "join_parts [c] (q # ps)"] show ?case by (simp add: split_on_free)
qed (simp_all add: split_on_free)

lemma split_on_parts: "p \<in> set (split_on c s) \<Longrightarrow> c \<notin> set p"
  by (induction s arbitrary: p) (auto split: list.splits if_splits)

lemma set_strip: "set (strip s) \<subseteq> set s"
  by (auto simp: strip_def dest!: set_dropWhileD set_takeWhileD)

lemma roles_to_set_free: "r \<in> set (roles_to_set v) \<Longrightarrow> CHR '','' \<notin> set r"
  using set_strip split_on_parts by (fastforce simp: roles_to_set_def role_parts_def split: pyval.splits)

lemma set_roles_hold: "c \<in> set (roles_to_set v) \<Longrightarrow> has_role c (dset ''role'' (VStr (join_parts '','' (roles_to_set v))) r)"
  using split_join[of "roles_to_set v" "CHR '',''"] roles_to_set_free by (cases "roles_to_set v = []") (auto simp: has_role_def)

lemma reads_role_checks: "reads (member_to_change es og actor i org)" "reads (may_change_role es og actor target roles org)"
  unfolding member_to_change_def may_change_role_def Let_def by (intro reading reads_members reads_lists)+

text \<open>Whoever may change the role of an owner leaves an owner behind.\<close>

lemma may_change_role_leaves:
  assumes "native (store_ad es)" "may_change_role es og actor target roles org w = (Inr (), w)"
    and "shown_of ra actor" "ra \<in> set (member_rows w)" "is_field ra ''organizationId'' (VStr o')"
    and "shown_of rt target" "owner_row og o' rt" "org = VStr o'" "str_ids (member_rows w)"
  shows "creator_role_of og \<in> set roles \<or> (\<exists>r\<in>set (member_rows w). owner_row og o' r \<and> r \<noteq> rt)"
proof -
  let ?c = "creator_role_of og"
  from assms(2) obtain by_owner of_owner where held: "member_holds ?c actor = Inr by_owner" "member_holds ?c target = Inr of_owner"
    by (auto simp: may_change_role_def bind_lift Let_def split: sum.splits)
  with member_holds_Inr[OF held(2) assms(6)] assms(7) have "of_owner" by (auto simp: owner_row_def)
  with assms(2) held obtain i j where by_owner: "by_owner" and ids: "dindex actor ''id'' = Inr i" "dindex target ''id'' = Inr j"
    by (auto simp: may_change_role_def bind_lift Let_def split: sum.splits if_splits)
  with member_holds_Inr[OF held(1) assms(3)] assms(5) have ra: "owner_row og o' ra" by (auto simp: owner_row_def)
  show ?thesis
  proof (cases "py_eq i j \<and> ?c \<notin> set roles")
    case True
    with assms(2) held by_owner \<open>of_owner\<close> ids obtain hs where "org_owners es og org w = (Inr hs, w)" "2 \<le> length hs"
      by (auto simp: may_change_role_def bind_lift Let_def bindA_def[of "org_owners es og org"]
          dest: reads_unchanged[OF reads_lists(2)] split: sum.splits prod.splits if_splits)
    with org_owners_bound[OF assms(1)] have "2 \<le> length (owners_of og (VStr o') (member_rows w))" by (fastforce simp: assms(8))
    with other_owner[OF assms(9), of og o' rt] ra assms(4) show ?thesis by (auto simp: owned_def)
  next
    case False
    with shown_ofD[OF assms(3) ids(1)] shown_ofD[OF assms(6) ids(2)] assms(4,9) ra show ?thesis
      by (auto simp: str_ids_def list_all_iff is_str_iff)
  qed
qed

lemma member_to_change_row:
  assumes "native (store_ad es)" "member_to_change es og actor i org w = (Inr t, w)"
    and "shown_of ra actor" "ra \<in> set (member_rows w)"
  obtains rt home where "rt \<in> set (member_rows w)" "shown_of rt t" "dget rt ''id'' = VStr i"
    "dindex t ''organizationId'' = Inr home" "py_eq home org"
proof -
  from assms(2) obtain j where j: "dindex actor ''id'' = Inr j"
    by (auto simp: member_to_change_def bind_lift split: sum.splits)
  with assms(2) obtain home where home: "dindex t ''organizationId'' = Inr home" "py_eq home org"
    and t: "j = VStr i \<and> t = actor \<or> find_member_by_id es og (VStr i) w = (Inr (Some t), w)"
    by (auto simp: member_to_change_def bind_lift bindA_def[of "find_member_by_id es og (VStr i)"]
        dest: reads_unchanged[OF reads_members(3)] split: sum.splits prod.splits option.splits if_splits)
  from t show ?thesis
  proof
    assume "j = VStr i \<and> t = actor"
    with assms(3,4) shown_ofD[OF assms(3) j] home show ?thesis by (intro that[of ra home]) auto
  next
    assume "find_member_by_id es og (VStr i) w = (Inr (Some t), w)"
    from find_member_by_id_row[OF assms(1) this] obtain r where
      "r \<in> set (member_rows w)" "shown_of r t" "is_field r ''id'' (VStr i)" .
    with home show ?thesis by (intro that[of r home]) simp_all
  qed
qed

lemma change_role_kept:
  assumes table: "member_table es" and hook: "og_hooks og ''before_update_member_role'' = None"
    and rt: "rt \<in> set (member_rows w)" "dget rt ''id'' = VStr i"
    and leaves: "\<And>org. str_ids (member_rows w) \<Longrightarrow> owner_row og org rt \<Longrightarrow>
      creator_role_of og \<in> set (roles_to_set x) \<or> (\<exists>r\<in>set (member_rows w). owner_row og org r \<and> r \<noteq> rt)"
  shows "run_to (owners_kept og w) (change_role es og ev t i (roles_to_set x) org) w"
proof -
  let ?v = "VStr (join_parts '','' (roles_to_set x))"
  let ?rows = "map_first (\<lambda>r. is_field r ''id'' (VStr i)) (\<lambda>r. dset ''role'' ?v r) (member_rows w)"
  have native: "native (store_ad es)" using table by (simp add: member_table_def)
  have "snd (on_rows (mem_update (store_ad es) ev ''member'' [Where ''id'' (VStr i)] [(''role'', ?v)]) w) = with_rows ''member'' ?rows w"
    by (simp add: on_rows_def on_core_def on_db_def mem_update_ok[OF native _ safe_fields(1) member_input[OF table]]
        sel_field1 with_rows_def table_def)
  moreover have "owned og org' ?rows" if "str_ids (member_rows w)" "owned og org' (member_rows w)" for org'
  proof (rule owned_update[OF that(1) rt that(2)])
    assume "owner_row og org' rt"
    with leaves[OF that(1)] set_roles_hold[of "creator_role_of og" x "[]"]
    show "has_role (creator_role_of og) (dset ''role'' ?v []) \<or> (\<exists>r\<in>set (member_rows w). owner_row og org' r \<and> r \<noteq> rt)"
      by blast
  qed
  moreover have "row_ids ?rows = row_ids (member_rows w)"
    unfolding row_ids_def by (rule map_map_first) simp
  then have "str_ids ?rows = str_ids (member_rows w)" by (simp only: str_ids_by_ids)
  ultimately have update: "run_to (owners_kept og w)
      (on_rows (mem_update (store_ad es) ev ''member'' [Where ''id'' (VStr i)] [(''role'', ?v)])) w"
    by (simp add: run_to_def owners_kept_def)
  have "run_to (owners_kept og w) (update_member es og ev (VStr i) ?v) w"
    unfolding update_member_def using update by (rule kept_after) (intro site_frame)
  then show ?thesis
    unfolding change_role_def Let_def run_before_hook_def hook option.case bindA_ret
    by (intro kept_read[OF reads_orgs(2)] kept_lift kept_read[OF reads_user_must_exist])
      (auto intro!: kept_after[of og w "update_member es og ev (VStr i) ?v"] site_frame keeps_run_hook split: option.split)
qed

lemma update_role_kept:
  assumes table: "member_table es" and hook: "og_hooks og ''before_update_member_role'' = None"
  shows "run_to (owners_kept og w) (org_update_member_role es og ev rq b) w"
proof -
  have native: "native (store_ad es)" using table by (simp add: member_table_def)
  have change: "run_to (owners_kept og w) (bindA (member_may es og actor p org True) (\<lambda>ok.
        if \<not> ok then raise e else bindA (roles_must_exist es og org (roles_to_set x) l) (\<lambda>_.
          change_role es og ev t i (roles_to_set x) org))) w"
    if asks: "asking_member es og v org missing w = (Inr actor, w)" and to: "member_to_change es og actor i org w = (Inr t, w)"
      and may: "may_change_role es og actor t (roles_to_set x) org w = (Inr y, w)"
    for w v org missing actor i t p e l x y
  proof -
    from asking_member_row[OF native asks] obtain ra where
      ra: "ra \<in> set (member_rows w)" "shown_of ra actor" "is_field ra ''organizationId'' org" .
    from member_to_change_row[OF native to ra(2,1)] obtain rt home where
      rt: "rt \<in> set (member_rows w)" "shown_of rt t" "dget rt ''id'' = VStr i" "dindex t ''organizationId'' = Inr home" "py_eq home org" .
    have "creator_role_of og \<in> set (roles_to_set x) \<or> (\<exists>r\<in>set (member_rows w). owner_row og o' r \<and> r \<noteq> rt)"
      if "str_ids (member_rows w)" "owner_row og o' rt" for o'
    proof -
      from shown_ofD[OF rt(2,4)] that(2) rt(5) have org: "org = VStr o'" by (auto simp: owner_row_def)
      from may have "may_change_role es og actor t (roles_to_set x) org w = (Inr (), w)" by simp
      from may_change_role_leaves[OF native this ra(2,1) _ rt(2) that(2) org that(1)] ra(3) org show ?thesis by simp
    qed
    from change_role_kept[OF table hook rt(1,3) this] show ?thesis
      by (intro kept_read[OF reads_member_may(1)]) (auto intro!: kept_read[OF reads_roles_must_exist] run_to_end kept_owners.same_refl)
  qed
  have "run_to (owners_kept og w) (if roles_to_set x = [] then raise e else f) w" if "run_to (owners_kept og w) f w" for w x e and f :: "(sworld, response) action"
    using that by (simp add: run_to_end kept_owners.same_refl)
  note guard = this
  show ?thesis
    unfolding org_update_member_role_def Let_def
    by (intro kept_then[OF keeps_org_session] kept_lift kept_read[OF keeps_if[OF unchanged.keeps_ret unchanged.keeps_raise]] guard
        kept_read[OF reads_members(5)] kept_read[OF reads_role_checks(1)] kept_read[OF reads_role_checks(2)] change) auto
qed

section \<open>The claim\<close>

text \<open>
  One request after another: leaving, removing, changing a role, and whatever only adds members or leaves
  their table alone.
\<close>

inductive org_step :: "site \<Rightarrow> organization_plugin \<Rightarrow> sworld \<Rightarrow> sworld \<Rightarrow> bool" for es og where
  leaves: "org_leave es og ev rq b w = (res, w') \<Longrightarrow> org_step es og w w'"
| removes: "org_remove_member es og ev rq b w = (res, w') \<Longrightarrow> org_step es og w w'"
| changes: "org_update_member_role es og ev rq b w = (res, w') \<Longrightarrow> org_step es og w w'"
| elsewhere: "str_ids (member_rows w') \<Longrightarrow> set (member_rows w) \<subseteq> set (member_rows w') \<Longrightarrow> org_step es og w w'"

lemma org_step_kept:
  assumes "org_step es og w w'" "member_table es" "og_hooks og ''before_update_member_role'' = None"
  shows "owners_kept og w w'"
proof -
  have native: "native (store_ad es)" using assms(2) by (simp add: member_table_def)
  from assms(1) show ?thesis
  proof cases
    case (leaves ev rq b res)
    with run_toD[OF leave_kept[OF native]] show ?thesis by blast
  next
    case (removes ev rq b res)
    with run_toD[OF remove_kept[OF native]] show ?thesis by blast
  next
    case (changes ev rq b res)
    with run_toD[OF update_role_kept[OF assms(2,3)]] show ?thesis by blast
  qed (auto simp: owners_kept_def owned_def)
qed

lemma org_run_kept:
  assumes "(org_step es og)\<^sup>*\<^sup>* w w'" "member_table es" "og_hooks og ''before_update_member_role'' = None"
  shows "owners_kept og w w'"
  using assms(1) by (induction rule: rtranclp_induct)
    (auto intro: kept_owners.same_refl kept_owners.same_trans org_step_kept[OF _ assms(2,3)])

text \<open>
  C38: an organization never loses its last owner. However many requests to leave, to remove a member or to
  change a role are made one after another, by whoever, with members added and other tables changed in
  between, an organization that had a member with the creator role still has one. (No hook rewrites the new
  role, and rows of members have distinct ids.)
\<close>

theorem organization_keeps_owner:
  assumes "(org_step es og)\<^sup>*\<^sup>* w w'" "member_table es" "og_hooks og ''before_update_member_role'' = None"
    and "str_ids (table w ''member'')" "owned og org (table w ''member'')"
  shows "owned og org (table w' ''member'')"
  using org_run_kept[OF assms(1-3)] assms(4,5) by (simp add: owners_kept_def)

end
