(* ===== verification/Org_Demo.thy ===== *)
theory Org_Demo
  imports Org_Owners
begin

text \<open>A concrete organization, at which the hypotheses of the organization claims hold.\<close>

definition demo_access :: org_plugin where
  "demo_access = \<lparr>op_creator_role = ''owner'', op_roles = [], op_dac_enabled = True, op_has_ac = True\<rparr>"

definition demo_org :: organization_plugin where
  "demo_org = \<lparr>og_access = demo_access, og_resources = [''organization'', ''member'', ''invitation'', ''team'', ''ac''],
     og_may_create = Inl True, og_limit = NoLimit, og_members = AtMost 100, og_no_deletion = False, og_expires_in = 172800,
     og_invitations = AtMost 100, og_cancel_pending = False, og_require_verified = None, og_send_invitation = None,
     og_teams = False, og_default_team = True, og_custom_team = None, og_max_teams = NoLimit, og_max_team_members = NoLimit,
     og_remove_all_teams = False, og_max_roles = NoLimit, og_hooks = (\<lambda>_. None), og_extra = (\<lambda>_. []),
     og_dumps = (\<lambda>_. []), og_loads = (\<lambda>_. None), og_sha256 = (\<lambda>_. [])\<rparr>"

definition org_site :: site where
  "org_site = demo_site\<lparr>es_auth := demo_auth\<lparr>au_ic := (au_ic demo_auth)\<lparr>ic_ad := demo_adapter\<lparr>ad_schema :=
     CORE_SCHEMA @ [(m, fields_of (org_schema demo_org) m). m \<leftarrow> [''organization'', ''member'', ''invitation'', ''organizationRole'']]\<rparr>\<rparr>\<rparr>\<rparr>"

text \<open>The users Ann and Bob own the organization \<open>o\<close>.\<close>

definition demo_member :: "string \<Rightarrow> string \<Rightarrow> string \<Rightarrow> row" where
  "demo_member i uid role = [(''id'', VStr i), (''organizationId'', VStr ''o''), (''userId'', VStr uid), (''role'', VStr role),
     (''createdAt'', VDate 0)]"

definition demo_org_row :: row where
  "demo_org_row = [(''id'', VStr ''o''), (''name'', VStr ''O''), (''slug'', VStr ''o''), (''createdAt'', VDate 0)]"

definition org_world :: sworld where
  "org_world = with_rows ''organization'' [demo_org_row]
     (with_rows ''member'' [demo_member ''m1'' ''u'' ''owner'', demo_member ''m2'' ''v'' ''admin,owner''] demo_sworld)"

abbreviation ann_leaves :: "(sworld, response) action" where
  "ann_leaves \<equiv> org_leave org_site demo_org (at_us 500) (token_request ''t'') (json_body [(''organizationId'', VStr ''o'')])"

lemma ann_left: "rs_status (projr (fst (ann_leaves org_world))) = 200 \<and> length (member_rows (snd (ann_leaves org_world))) = 1"
  by code_simp

lemma org_demo: "member_table org_site" "og_hooks demo_org ''before_update_member_role'' = None"
    "str_ids (member_rows org_world)" "owned demo_org ''o'' (member_rows org_world)"
  by (simp_all add: member_table_def org_site_def demo_site_def demo_auth_def demo_adapter_def native_def demo_org_def demo_access_def
      org_world_def str_ids_def row_ids_def demo_member_def is_str_def dget_Cons owned_def owner_row_def has_role_def
      creator_role_of_def org_schema_def fields_of_def CORE_SCHEMA_def mk_field_def text_field_def)

theorem organization_keeps_owner_witness:
  "length (member_rows (snd (ann_leaves org_world))) = 1 \<and> owned demo_org ''o'' (member_rows (snd (ann_leaves org_world)))"
proof -
  have "org_step org_site demo_org org_world (snd (ann_leaves org_world))"
    by (rule org_step.leaves) (rule prod.collapse[symmetric])
  then have "(org_step org_site demo_org)\<^sup>*\<^sup>* org_world (snd (ann_leaves org_world))" by (rule r_into_rtranclp)
  from organization_keeps_owner[OF this org_demo] ann_left show ?thesis by simp
qed

end
