(* ===== verification/OAuth_Link.thy ===== *)
theory OAuth_Link
  imports Plugin_Base
begin

text \<open>
  \<open>oauth/flow.py\<close>, the decision core of social sign-in: the tokens of an account at rest, and finding,
  registering or linking the user of a provider profile (\<open>handle_oauth_user_info\<close>, \<open>link_oauth_account\<close>).

  A provider is a record of its options and of its methods, which talk to the identity provider: each is
  what it returns or raises in the call. All readings of the clock in a call are one instant. The option that
  delays the verification mail until an enclosing transaction commits, which only the SSO plugin sets, is
  left out.
\<close>

section \<open>Providers and options\<close>

text \<open>\<open>OAuthTokens\<close> and \<open>OAuthUserInfo\<close> of \<open>oauth/models.py\<close>.\<close>

record oauth_tokens =
  ot_access :: pyval
  ot_refresh :: pyval
  ot_id :: pyval
  ot_type :: pyval
  ot_scope :: pyval
  ot_scopes :: "string list"
  ot_access_expires :: pyval
  ot_refresh_expires :: pyval
  ot_raw :: row
  ot_user :: pyval
  ot_nonce :: pyval

definition no_tokens :: oauth_tokens where
  "no_tokens = \<lparr>ot_access = VNone, ot_refresh = VNone, ot_id = VNone, ot_type = VNone, ot_scope = VNone,
     ot_scopes = [], ot_access_expires = VNone, ot_refresh_expires = VNone, ot_raw = [], ot_user = VNone,
     ot_nonce = VNone\<rparr>"

record oauth_info =
  oi_id :: string
  oi_email :: pyval
  oi_name :: pyval
  oi_image :: pyval
  oi_verified :: bool
  oi_raw :: row
  oi_extra :: row

text \<open>The arguments of \<open>authorization_url\<close>.\<close>

record authorize_args =
  aa_state :: string
  aa_redirect_uri :: string
  aa_verifier :: "string option"
  aa_scopes :: pyval
  aa_login_hint :: pyval
  aa_nonce :: "string option"
  aa_params :: "(string \<times> string) list"

record oauth_provider =
  pv_id :: string
  pv_redirect_uri :: string
  pv_callback_path :: string
  pv_issuer :: string
  pv_require_issuer :: bool
  pv_binds_nonce :: bool
  pv_idp_initiated :: bool
  pv_require_verified :: bool
  pv_disable_sign_up :: bool
  pv_disable_implicit :: bool
  pv_override :: bool
  pv_refreshes :: bool
  pv_takes_id_token :: bool
  pv_ready :: "bool result"
  pv_authorize :: "authorize_args \<Rightarrow> string result"
  pv_exchange :: "string \<Rightarrow> string \<Rightarrow> pyval \<Rightarrow> oauth_tokens option result"
  pv_fetch_user :: "oauth_tokens \<Rightarrow> oauth_info result"
  pv_verify_id_token :: "pyval \<Rightarrow> pyval \<Rightarrow> row option result"
  pv_claims_info :: "row \<Rightarrow> oauth_info result"
  pv_id_token_info :: "(oauth_tokens \<Rightarrow> oauth_info result) option"
  pv_refresh :: "string \<Rightarrow> oauth_tokens result"

datatype trusted_providers = TrustedNames "string list" | TrustedBy "request \<Rightarrow> string list result"

record social_conf =
  so_providers :: "(string \<times> oauth_provider) list"
  so_encrypt_tokens :: bool
  so_update_account :: bool
  so_trusted_names :: trusted_providers
  so_linking :: bool
  so_different_emails :: bool
  so_local_verified :: bool
  so_no_implicit :: bool
  so_update_user :: bool
  so_skip_cookie :: bool
  so_error_url :: string
  so_ciphers :: ciphers
  so_sign_up_mail :: "bool option"
  so_sign_in_mail :: bool
  so_dumps :: "row \<Rightarrow> string"
  so_loads :: "string \<Rightarrow> pyval option"

definition resolve_trusted :: "social_conf \<Rightarrow> request \<Rightarrow> string list result" where
  "resolve_trusted so rq = (case so_trusted_names so of TrustedNames ps \<Rightarrow> Inr ps | TrustedBy f \<Rightarrow> f rq)"

section \<open>Tokens at rest\<close>

definition oauth_encrypt :: "social_conf \<Rightarrow> pyval \<Rightarrow> pyval result" where
  "oauth_encrypt so token =
     (if py_truthy token \<and> so_encrypt_tokens so then
        bindR (text_value token) (\<lambda>s.
        bindR (symmetric_encrypt (cx_encrypt (so_ciphers so)) (cx_secret (so_ciphers so)) s) (\<lambda>c. Inr (VStr c)))
      else Inr token)"

definition oauth_decrypt :: "social_conf \<Rightarrow> pyval \<Rightarrow> pyval result" where
  "oauth_decrypt so token =
     (if py_truthy token \<and> so_encrypt_tokens so then
        bindR (text_value token) (\<lambda>s.
          if \<not> is_likely_encrypted s then Inr token
          else bindR (open_secret (so_ciphers so) token) (\<lambda>p. Inr (VStr p)))
      else Inr token)"

definition token_fields :: "social_conf \<Rightarrow> oauth_tokens \<Rightarrow> row result" where
  "token_fields so tk =
     bindR (oauth_encrypt so (ot_access tk)) (\<lambda>access.
     bindR (oauth_encrypt so (ot_refresh tk)) (\<lambda>refresh.
       Inr [(''accessToken'', access), (''refreshToken'', refresh), (''idToken'', ot_id tk),
            (''accessTokenExpiresAt'', ot_access_expires tk), (''refreshTokenExpiresAt'', ot_refresh_expires tk),
            (''scope'', if ot_scopes tk \<noteq> [] then VStr (join_parts '','' (ot_scopes tk)) else ot_scope tk)]))"

definition fresh_token_fields :: "social_conf \<Rightarrow> oauth_tokens \<Rightarrow> row result" where
  "fresh_token_fields so tk =
     bindR (token_fields so tk) (\<lambda>fs. Inr (filter (\<lambda>(k, v). v \<noteq> VNone) (ddrop ''scope'' fs)))"

definition merge_scopes :: "pyval \<Rightarrow> string list \<Rightarrow> string result" where
  "merge_scopes stored incoming =
     bindR (parse_stored_scopes stored) (\<lambda>old.
       Inr (join_parts '','' (dedup (old @ filter (\<lambda>s. s \<noteq> []) (map strip incoming)))))"

section \<open>Redirects and checks\<close>

definition oauth_error_url :: "site \<Rightarrow> social_conf \<Rightarrow> string" where
  "oauth_error_url es so =
     (if so_error_url so \<noteq> [] then so_error_url so else oc_base_url (es_origin es) @ es_base_path es @ ''/error'')"

definition provider_redirect_uri :: "site \<Rightarrow> oauth_provider \<Rightarrow> string" where
  "provider_redirect_uri es pv =
     (let path = (if pv_callback_path pv \<noteq> [] then pv_callback_path pv else ''/callback/'' @ pv_id pv);
          path' = (if starts_with path ''/'' then path else ''/'' @ path)
      in if pv_redirect_uri pv \<noteq> [] then pv_redirect_uri pv
         else oc_base_url (es_origin es) @ es_base_path es @ path')"

text \<open>The \<open>append_query_params\<close> of \<open>oauth/flow.py\<close>: the query goes before any fragment.\<close>

definition append_params :: "string \<Rightarrow> (string \<times> string) list \<Rightarrow> string" where
  "append_params url params =
     (let query = urlencode params
      in if query = [] then url
         else case partition_at CHR ''#'' url of
                (base, hash, fragment) \<Rightarrow>
                  base @ (if CHR ''?'' \<notin> set base then ''?''
                          else if ends_with base ''?'' \<or> ends_with base ''&'' then [] else ''&'') @
                  query @ (if hash then ''#'' else []) @ fragment)"

text \<open>\<open>is_valid_account_subject\<close>, on the text of the subject.\<close>

definition valid_subject :: "string \<Rightarrow> bool" where
  "valid_subject s \<longleftrightarrow> strip s \<noteq> [] \<and> s \<noteq> ''undefined'' \<and> s \<noteq> ''null''"

definition no_user_info :: exn where
  "no_user_info = api_error 401 ''FAILED_TO_GET_USER_INFO'' ''Failed to get user info''"

definition require_subject :: "oauth_info \<Rightarrow> unit result" where
  "require_subject info = (if valid_subject (oi_id info) then Inr () else Inl no_user_info)"

definition oauth_source :: "oauth_provider \<Rightarrow> oauth_info \<Rightarrow> row" where
  "oauth_source pv info =
     [(''method'', VStr ''oauth''),
      (''oauth'', VDict [(''providerId'', VStr (pv_id pv)), (''profile'', VDict (oi_raw info))])]"

text \<open>The validator of the application, told what is about to happen.\<close>

definition check_user_info :: "site \<Rightarrow> row \<Rightarrow> row \<Rightarrow> string \<Rightarrow> unit result" where
  "check_user_info es user source what =
     assert_valid_user_info (ic_validate_user_info (core es)) user (dset ''action'' (VStr what) source)"

definition profile_fields :: "oauth_info \<Rightarrow> pyval \<Rightarrow> row" where
  "profile_fields info email =
     [(''name'', oi_name info), (''email'', email), (''emailVerified'', VBool (oi_verified info)),
      (''image'', oi_image info)]"

text \<open>The fields of the mapped profile that the user schema takes as input.\<close>

definition profile_user_fields :: "site \<Rightarrow> env \<Rightarrow> oauth_info \<Rightarrow> string \<Rightarrow> row result" where
  "profile_user_fields es ev info what =
     (let fs = fields_of (au_schema (es_auth es)) ''user'';
          allowed = filter (\<lambda>(k, v). case map_of fs k of None \<Rightarrow> True | Some f \<Rightarrow> f_input f) (oi_extra info)
      in parse_input_data (now ev) allowed (es_input_fields es ''user'') what)"

text \<open>\<open>(v or "").lower()\<close>.\<close>

definition lower_or_empty :: "pyval \<Rightarrow> string result" where
  "lower_or_empty v = (if py_truthy v then lower_arg v else Inr [])"

section \<open>Updating the user\<close>

text \<open>An unverified user is marked verified when the provider proves its address.\<close>

definition same_address :: "row \<Rightarrow> string \<Rightarrow> bool result" where
  "same_address user email =
     bindR (dindex user ''email'') (\<lambda>e. bindR (lower_or_empty e) (\<lambda>own. Inr (email = own)))"

definition promote_verified ::
    "site \<Rightarrow> env \<Rightarrow> row \<Rightarrow> oauth_info \<Rightarrow> string \<Rightarrow> (sworld, row) action" where
  "promote_verified es ev user info email =
     bindA (if user = [] \<or> \<not> oi_verified info then ret False
            else liftR (bindR (dindex user ''emailVerified'') (\<lambda>v.
                   if py_truthy v then Inr False else same_address user email))) (\<lambda>heal.
       if \<not> heal then ret user
       else
         bindA (liftR (dindex user ''id'')) (\<lambda>uid.
         bindA (on_core (update_row (core es) ev ''user'' [Where ''id'' uid]
                  [(''emailVerified'', VBool True), (''updatedAt'', VDate (now ev))])) (\<lambda>_.
           ret (dset ''emailVerified'' (VBool True) user))))"

definition or_updated :: "row option \<Rightarrow> row \<Rightarrow> row" where
  "or_updated updated user = (case real_row updated of Some u \<Rightarrow> u | None \<Rightarrow> user)"

definition update_info_on_link :: "site \<Rightarrow> env \<Rightarrow> row \<Rightarrow> oauth_info \<Rightarrow> (sworld, row) action" where
  "update_info_on_link es ev user info =
     bindA (liftR (profile_user_fields es ev info ''update'')) (\<lambda>extra.
     let updates = dmerge ((''updatedAt'', VDate (now ev)) #
           (if py_truthy (oi_name info) then [(''name'', oi_name info)] else []) @
           (if py_truthy (oi_image info) then [(''image'', oi_image info)] else [])) extra
     in bindA (liftR (dindex user ''id'')) (\<lambda>uid.
        bindA (on_core (update_row (core es) ev ''user'' [Where ''id'' uid] updates)) (\<lambda>updated.
          ret (or_updated updated (dmerge user updates)))))"

text \<open>A verified address stays verified when the provider reports the same one.\<close>

definition override_verified :: "row \<Rightarrow> oauth_info \<Rightarrow> string \<Rightarrow> pyval result" where
  "override_verified user info email =
     bindR (same_address user email) (\<lambda>same.
       if same then bindR (dindex user ''emailVerified'') (\<lambda>v. Inr (py_or v (VBool (oi_verified info))))
       else Inr (VBool (oi_verified info)))"

definition override_user_info ::
    "site \<Rightarrow> env \<Rightarrow> row \<Rightarrow> oauth_info \<Rightarrow> string \<Rightarrow> (sworld, row) action" where
  "override_user_info es ev user info email =
     bindA (liftR (override_verified user info email)) (\<lambda>verified.
     bindA (liftR (profile_user_fields es ev info ''update'')) (\<lambda>extra.
     bindA (if email \<noteq> [] then ret (VStr email) else liftR (dindex user ''email'')) (\<lambda>address.
     let updates = dmerge
           (dmerge ((''name'', py_or (oi_name info) (VStr [])) #
              (if oi_image info \<noteq> VNone then [(''image'', oi_image info)] else [])) extra)
           [(''email'', address), (''emailVerified'', verified), (''updatedAt'', VDate (now ev))]
     in bindA (liftR (dindex user ''id'')) (\<lambda>uid.
        bindA (on_core (update_row (core es) ev ''user'' [Where ''id'' uid] updates)) (\<lambda>updated.
          ret (case updated of None \<Rightarrow> user | Some u \<Rightarrow> u))))))"

section \<open>Finding, registering or linking\<close>

text \<open>
  The keyword arguments of \<open>handle_oauth_user_info\<close>; \<open>lo_selected\<close> is the user that a resolver of the
  application chose, and whether its profile is to be updated.
\<close>

record link_options =
  lo_disable_sign_up :: bool
  lo_trusted :: bool
  lo_by_name :: bool
  lo_override :: "bool option"
  lo_source :: row
  lo_callback :: pyval
  lo_selected :: "(pyval \<times> bool) option"
  lo_exact_binding :: bool

definition lo_exact :: "link_options \<Rightarrow> bool" where
  "lo_exact lo \<longleftrightarrow> lo_selected lo \<noteq> None \<or> lo_exact_binding lo"

definition exact_binding :: "row option \<Rightarrow> oauth_provider \<Rightarrow> oauth_info \<Rightarrow> pyval \<Rightarrow> unit result" where
  "exact_binding r pv info user_id =
     (case r of
        None \<Rightarrow> Inr ()
      | Some a \<Rightarrow>
          if py_eq (dget a ''accountId'') (VStr (oi_id info)) \<and> py_eq (dget a ''providerId'') (VStr (pv_id pv)) \<and>
             py_eq (dget a ''userId'') user_id then Inr ()
          else Inl (api_error 409 ''account_hook_binding_conflict''
            ''Account hook changed the selected authentication binding''))"

definition apply_profile_policy ::
    "site \<Rightarrow> env \<Rightarrow> row \<Rightarrow> oauth_info \<Rightarrow> string \<Rightarrow> bool \<Rightarrow> (pyval \<times> bool) option \<Rightarrow> (sworld, row) action" where
  "apply_profile_policy es ev user info email override selected =
     (if \<not> (case selected of Some (_, update) \<Rightarrow> update | None \<Rightarrow> override) then ret user
      else
        bindA (override_user_info es ev user info email) (\<lambda>updated.
          case selected of
            None \<Rightarrow> ret updated
          | Some (chosen, _) \<Rightarrow>
              bindA (liftR (dindex updated ''id'')) (\<lambda>uid.
                if \<not> py_eq uid chosen then
                  raise (api_error 409 ''user_hook_selection_conflict'' ''User hook changed the selected user'')
                else ret updated)))"

text \<open>A mail that cannot be sent is logged.\<close>

definition dispatch_mail :: "site \<Rightarrow> env \<Rightarrow> row \<Rightarrow> pyval \<Rightarrow> (sworld, unit) action" where
  "dispatch_mail es ev user callback_url =
     attempt (bindA (send_verification_email es ev user (or_root callback_url)) (\<lambda>_. ret ())) ()"

definition require_verified ::
    "site \<Rightarrow> social_conf \<Rightarrow> env \<Rightarrow> oauth_provider \<Rightarrow> row \<Rightarrow> bool \<Rightarrow> pyval \<Rightarrow> (sworld, unit) action" where
  "require_verified es so ev pv user is_register callback_url =
     (if py_truthy (dget user ''emailVerified'') then ret ()
      else
        let required = (case map_of (so_providers so) (pv_id pv) of Some p \<Rightarrow> pv_require_verified p | None \<Rightarrow> False);
            on_sign_up = (case so_sign_up_mail so of Some b \<Rightarrow> b | None \<Rightarrow> required)
        in bindA (if is_register \<and> on_sign_up then dispatch_mail es ev user callback_url else ret ()) (\<lambda>_.
             if \<not> required then ret ()
             else bindA (if \<not> is_register \<and> so_sign_in_mail so then dispatch_mail es ev user callback_url else ret ())
                    (\<lambda>_. raise (OAuthLinkError ''email_not_verified'' None))))"

definition account_row ::
    "env \<Rightarrow> string \<Rightarrow> oauth_provider \<Rightarrow> oauth_info \<Rightarrow> row \<Rightarrow> pyval \<Rightarrow> row" where
  "account_row ev i pv info fs user_id =
     dmerge [(''id'', VStr i), (''accountId'', VStr (oi_id info)), (''providerId'', VStr (pv_id pv)),
             (''userId'', user_id)]
       (fs @ [(''createdAt'', VDate (now ev)), (''updatedAt'', VDate (now ev))])"

definition create_oauth_account ::
    "site \<Rightarrow> env \<Rightarrow> string \<Rightarrow> oauth_provider \<Rightarrow> oauth_info \<Rightarrow> row \<Rightarrow> pyval \<Rightarrow> (iworld, row option) action" where
  "create_oauth_account es ev i pv info fs user_id =
     create_row (core es) ev ''account'' (account_row ev i pv info fs user_id) True"

text \<open>The profile is that of a user who signed in with this account before.\<close>

definition refresh_account ::
    "site \<Rightarrow> social_conf \<Rightarrow> env \<Rightarrow> oauth_provider \<Rightarrow> oauth_info \<Rightarrow> oauth_tokens \<Rightarrow> link_options \<Rightarrow> row \<Rightarrow> pyval \<Rightarrow>
     (sworld, unit) action" where
  "refresh_account es so ev pv info tk lo account uid =
     (if \<not> so_update_account so then ret ()
      else
        bindA (liftR (fresh_token_fields so tk)) (\<lambda>fresh.
        bindA (liftR (dindex account ''id'')) (\<lambda>aid.
        bindA (on_core (update_row (core es) ev ''account'' [Where ''id'' aid]
                 (dset ''updatedAt'' (VDate (now ev)) (dmerge [(''providerId'', VStr (pv_id pv))] fresh)))) (\<lambda>updated.
          case updated of
            None \<Rightarrow> raise (OAuthLinkError ''unable_to_update_account'' None)
          | Some a \<Rightarrow> if lo_exact lo then liftR (exact_binding (Some a) pv info uid) else ret ()))))"

definition returning_user ::
    "site \<Rightarrow> social_conf \<Rightarrow> env \<Rightarrow> oauth_provider \<Rightarrow> oauth_info \<Rightarrow> oauth_tokens \<Rightarrow> link_options \<Rightarrow> string \<Rightarrow> row \<Rightarrow>
     row option \<Rightarrow> (sworld, pyval \<times> bool) action" where
  "returning_user es so ev pv info tk lo email account found =
     (case found of
        None \<Rightarrow> raise (OAuthLinkError ''unable_to_link_account'' None)
      | Some user \<Rightarrow>
          bindA (liftR (dindex user ''id'')) (\<lambda>uid.
          bindA (case lo_selected lo of
                   Some (chosen, _) \<Rightarrow>
                     if \<not> py_eq uid chosen then
                       raise (api_error 409 ''account_ownership_conflict'' ''Account is already linked to another user'')
                     else ret ()
                 | None \<Rightarrow> ret ()) (\<lambda>_.
          bindA (liftR (check_user_info es (dset ''id'' uid (profile_fields info (VStr email))) (lo_source lo) ''sign-in'')) (\<lambda>_.
          bindA (refresh_account es so ev pv info tk lo account uid) (\<lambda>_.
          bindA (if lo_selected lo = None then promote_verified es ev user info email else ret user) (\<lambda>user.
          bindA (apply_profile_policy es ev user info email
                   (case lo_override lo of None \<Rightarrow> pv_override pv | Some b \<Rightarrow> b) (lo_selected lo)) (\<lambda>user.
          bindA (require_verified es so ev pv user False (lo_callback lo)) (\<lambda>_.
          bindA (liftR (dindex account ''userId'')) (\<lambda>owner.
            ret (owner, False))))))))))"

text \<open>Nobody has this account or address: the user and the account are created together.\<close>

record oauth_draws =
  od_state :: string
  od_verifier :: string
  od_nonce :: string
  od_draws :: draws

definition register_user ::
    "site \<Rightarrow> social_conf \<Rightarrow> env \<Rightarrow> draws \<Rightarrow> oauth_provider \<Rightarrow> oauth_info \<Rightarrow> oauth_tokens \<Rightarrow> link_options \<Rightarrow> string \<Rightarrow>
     (sworld, pyval \<times> bool) action" where
  "register_user es so ev dr pv info tk lo email =
     (if lo_disable_sign_up lo then raise (OAuthLinkError ''signup_disabled'' None)
      else
        bindA (liftR (token_fields so tk)) (\<lambda>fs.
        bindA (liftR (profile_user_fields es ev info ''create'')) (\<lambda>extra.
        let user_data = dmerge (dmerge [(''name'', py_or (oi_name info) (VStr [])), (''image'', oi_image info)] extra)
              [(''email'', VStr email), (''emailVerified'', VBool (oi_verified info)),
               (''createdAt'', VDate (now ev)), (''updatedAt'', VDate (now ev))];
            register =
              bindA (liftR (check_user_info es user_data (lo_source lo) ''create-user'')) (\<lambda>_.
              bindA (create_row (core es) ev ''user'' (dmerge [(''id'', VStr (dr_user_id dr))] user_data) True) (\<lambda>created.
              case created of
                None \<Rightarrow> raise (RuntimeError ''user creation was aborted'')
              | Some u \<Rightarrow>
                  bindA (liftR (dindex u ''id'')) (\<lambda>uid.
                  bindA (create_oauth_account es ev (dr_account_id dr) pv info fs uid) (\<lambda>account.
                    ret (u, account)))))
        in bindA (catchA (on_core (int_transaction (core es) ev register))
                   (\<lambda>e. case e of APIError _ _ _ _ \<Rightarrow> raise e
                            | _ \<Rightarrow> raise (OAuthLinkError ''unable_to_create_user'' None))) (\<lambda>(u, account).
           bindA (liftR (dindex u ''id'')) (\<lambda>uid.
           bindA (if lo_exact lo then liftR (exact_binding account pv info uid) else ret ()) (\<lambda>_.
           bindA (require_verified es so ev pv u True (lo_callback lo)) (\<lambda>_.
             ret (uid, True))))))))"

text \<open>The gate of implicit linking: the address of the profile is that of a user without this account.\<close>

definition trusted_provider :: "social_conf \<Rightarrow> request \<Rightarrow> oauth_provider \<Rightarrow> link_options \<Rightarrow> bool result" where
  "trusted_provider so rq pv lo =
     (if lo_trusted lo then Inr True
      else if lo_by_name lo then bindR (resolve_trusted so rq) (\<lambda>names. Inr (pv_id pv \<in> set names))
      else Inr False)"

definition refuses_link ::
    "social_conf \<Rightarrow> oauth_info \<Rightarrow> link_options \<Rightarrow> bool \<Rightarrow> row \<Rightarrow> bool result" where
  "refuses_link so info lo trusted user =
     (if lo_selected lo \<noteq> None then Inr False
      else if \<not> trusted \<and> \<not> oi_verified info then Inr True
      else bindR (if so_local_verified so then bindR (dindex user ''emailVerified'') (\<lambda>v. Inr (\<not> py_truthy v)) else Inr False)
             (\<lambda>unverified. Inr (unverified \<or> \<not> so_linking so \<or> so_no_implicit so)))"

definition link_existing ::
    "site \<Rightarrow> social_conf \<Rightarrow> env \<Rightarrow> request \<Rightarrow> draws \<Rightarrow> oauth_provider \<Rightarrow> oauth_info \<Rightarrow> oauth_tokens \<Rightarrow> link_options \<Rightarrow>
     string \<Rightarrow> row \<Rightarrow> (sworld, pyval \<times> bool) action" where
  "link_existing es so ev rq dr pv info tk lo email user =
     bindA (liftR (trusted_provider so rq pv lo)) (\<lambda>trusted.
     bindA (liftR (refuses_link so info lo trusted user)) (\<lambda>refused.
       if refused then raise (OAuthLinkError ''account_not_linked'' None)
       else
         bindA (liftR (dindex user ''id'')) (\<lambda>uid.
         bindA (liftR (check_user_info es (dset ''id'' uid (profile_fields info (VStr email))) (lo_source lo) ''link-account'')) (\<lambda>_.
         bindA (catchA
                  (bindA (liftR (token_fields so tk)) (\<lambda>fs.
                     on_core (create_oauth_account es ev (dr_account_id dr) pv info fs uid)))
                  (\<lambda>e. case e of APIError _ _ _ _ \<Rightarrow> raise e | _ \<Rightarrow> ret None)) (\<lambda>linked.
         if linked = None then raise (OAuthLinkError ''unable_to_link_account'' None)
         else
           bindA (if lo_exact lo then liftR (exact_binding linked pv info uid) else ret ()) (\<lambda>_.
           bindA (if lo_selected lo \<noteq> None then ret user
                  else bindA (promote_verified es ev user info email) (\<lambda>user.
                         if so_update_user so then update_info_on_link es ev user info else ret user)) (\<lambda>user.
           bindA (apply_profile_policy es ev user info email
                    (case lo_override lo of None \<Rightarrow> pv_override pv | Some b \<Rightarrow> b) (lo_selected lo)) (\<lambda>user.
           bindA (require_verified es so ev pv user False (lo_callback lo)) (\<lambda>_.
           bindA (liftR (dindex user ''id'')) (\<lambda>uid.
             ret (uid, False)))))))))))"

definition database_error :: "site \<Rightarrow> social_conf \<Rightarrow> exn" where
  "database_error es so = OAuthLinkError ''internal_server_error'' (Some (oauth_error_url es so))"

definition handle_oauth_user_info ::
    "site \<Rightarrow> social_conf \<Rightarrow> env \<Rightarrow> request \<Rightarrow> draws \<Rightarrow> oauth_provider \<Rightarrow> oauth_info \<Rightarrow> oauth_tokens \<Rightarrow> link_options \<Rightarrow>
     (sworld, pyval \<times> bool) action" where
  "handle_oauth_user_info es so ev rq dr pv info tk lo =
     bindA (liftR (lower_or_empty (oi_email info))) (\<lambda>email.
     bindA (catchA (on_core (find_account_owner_by_key (core es) (pv_id pv) (oi_id info)))
              (\<lambda>_. raise (database_error es so))) (\<lambda>owner.
     case owner of
       Some (account, user) \<Rightarrow> returning_user es so ev pv info tk lo email account user
     | None \<Rightarrow>
         bindA (catchA
                  (case lo_selected lo of
                     Some (chosen, _) \<Rightarrow> on_rows (mem_find_one (store_ad es) ''user'' [Where ''id'' chosen] [])
                   | None \<Rightarrow> if email \<noteq> [] then find_user_by_email es (VStr email) else ret None)
                  (\<lambda>_. raise (database_error es so))) (\<lambda>found.
         case found of
           None \<Rightarrow>
             if lo_selected lo \<noteq> None then raise (api_error 404 ''user_not_found'' ''User not found'')
             else register_user es so ev dr pv info tk lo email
         | Some user \<Rightarrow> link_existing es so ev rq dr pv info tk lo email user)))"

section \<open>Explicit linking\<close>

definition link_refusal :: "social_conf \<Rightarrow> request \<Rightarrow> oauth_provider \<Rightarrow> oauth_info \<Rightarrow> bool result" where
  "link_refusal so rq pv info =
     bindR (resolve_trusted so rq) (\<lambda>names.
       Inr ((pv_id pv \<notin> set names \<and> \<not> oi_verified info) \<or> \<not> so_linking so))"

definition other_address :: "social_conf \<Rightarrow> oauth_info \<Rightarrow> pyval \<Rightarrow> bool result" where
  "other_address so info email =
     bindR (lower_or_empty (oi_email info)) (\<lambda>a.
     bindR (lower_or_empty email) (\<lambda>b. Inr (a \<noteq> b \<and> \<not> so_different_emails so)))"

text \<open>The scopes of a linked account only grow.\<close>

definition relink_account ::
    "site \<Rightarrow> social_conf \<Rightarrow> env \<Rightarrow> oauth_provider \<Rightarrow> oauth_tokens \<Rightarrow> row \<Rightarrow> bool \<Rightarrow> (sworld, unit) action" where
  "relink_account es so ev pv tk existing grow =
     bindA (liftR (fresh_token_fields so tk)) (\<lambda>fresh.
     bindA (if grow then liftR (merge_scopes (dget existing ''scope'') (ot_scopes tk)) else ret []) (\<lambda>merged.
     let fs = dset ''providerId'' (VStr (pv_id pv)) fresh;
         fs' = (if merged \<noteq> [] then dset ''scope'' (VStr merged) fs else fs)
     in bindA (liftR (dindex existing ''id'')) (\<lambda>aid.
        bindA (on_core (update_row (core es) ev ''account'' [Where ''id'' aid]
                 (dset ''updatedAt'' (VDate (now ev)) fs'))) (\<lambda>_. ret ()))))"

text \<open>The answer is the code of a refusal, or \<open>None\<close> once linked.\<close>

definition attach_account ::
    "site \<Rightarrow> social_conf \<Rightarrow> env \<Rightarrow> draws \<Rightarrow> oauth_provider \<Rightarrow> oauth_info \<Rightarrow> oauth_tokens \<Rightarrow> pyval \<Rightarrow> (sworld, string option) action" where
  "attach_account es so ev dr pv info tk uid =
     bindA (on_core (find_account_by_key (core es) (pv_id pv) (oi_id info))) (\<lambda>found.
     case found of
       Some existing \<Rightarrow>
         bindA (liftR (dindex existing ''userId'')) (\<lambda>owner.
           if \<not> py_eq owner uid then ret (Some ''account_already_linked_to_different_user'')
           else bindA (relink_account es so ev pv tk existing True) (\<lambda>_. ret None))
     | None \<Rightarrow>
         bindA (liftR (token_fields so tk)) (\<lambda>fs.
         bindA (on_core (create_oauth_account es ev (dr_account_id dr) pv info fs uid)) (\<lambda>created.
           ret (if created = None then Some ''unable_to_link_account'' else None))))"

definition link_oauth_account ::
    "site \<Rightarrow> social_conf \<Rightarrow> env \<Rightarrow> request \<Rightarrow> draws \<Rightarrow> oauth_provider \<Rightarrow> oauth_info \<Rightarrow> oauth_tokens \<Rightarrow> row \<Rightarrow>
     (sworld, string option) action" where
  "link_oauth_account es so ev rq dr pv info tk link =
     bindA (liftR (dindex link ''userId'')) (\<lambda>uid.
     bindA (liftR (check_user_info es (dset ''id'' uid (profile_fields info (py_or (oi_email info) (VStr []))))
              (dmerge [(''action'', VStr ''link-account'')] (oauth_source pv info)) ''link-account'')) (\<lambda>_.
     bindA (liftR (link_refusal so rq pv info)) (\<lambda>refused.
       if refused then ret (Some ''unable_to_link_account'')
       else
         bindA (liftR (other_address so info (dget link ''email''))) (\<lambda>other.
           if other then ret (Some ''email_does_not_match'')
           else
             bindA (attach_account es so ev dr pv info tk uid) (\<lambda>error.
               if error \<noteq> None then ret error
               else
                 bindA (if so_update_user so
                        then bindA (on_rows (mem_find_one (store_ad es) ''user'' [Where ''id'' uid] [])) (\<lambda>user.
                               case user of None \<Rightarrow> ret () | Some u \<Rightarrow> bindA (update_info_on_link es ev u info) (\<lambda>_. ret ()))
                        else ret ()) (\<lambda>_. ret None))))))"

end
