(* ===== verification/OAuth_Flow.thy ===== *)
theory OAuth_Flow
  imports OAuth_Link
begin

text \<open>
  \<open>oauth/flow.py\<close>, the routes of social sign-in: starting a flow, the callback, sign-in and linking with a
  token of the provider, and the tokens of a linked account.

  The state of a flow is a verification value with a signed cookie. What \<open>get_oauth_state\<close> gives afterwards
  is the payload that \<open>create_state\<close> and \<open>parse_state\<close> return; \<open>server\<close> is what before-hooks attached to the
  request with \<open>add_oauth_server_context\<close>.
\<close>

section \<open>The state of a flow\<close>

definition STATE_EXPIRES_IN :: int where
  "STATE_EXPIRES_IN = 600"

definition INTERNAL_STATE_KEYS :: "string list" where
  "INTERNAL_STATE_KEYS =
     [''callbackURL'', ''codeVerifier'', ''errorURL'', ''newUserURL'', ''expiresAt'', ''oauthState'', ''link'',
      ''requestSignUp'', ''idTokenNonce'', ''serverContext'']"

definition add_server_context :: "row \<Rightarrow> row \<Rightarrow> row" where
  "add_server_context current values = dmerge current values"

definition get_provider :: "social_conf \<Rightarrow> pyval \<Rightarrow> oauth_provider option result" where
  "get_provider so provider_id =
     (case py_or provider_id (VStr []) of
        VStr i \<Rightarrow>
          (case map_of (so_providers so) i of
             None \<Rightarrow> Inr None
           | Some pv \<Rightarrow> bindR (pv_ready pv) (\<lambda>ready. Inr (if ready then Some pv else None)))
      | VList _ \<Rightarrow> Inl TypeError
      | VDict _ \<Rightarrow> Inl TypeError
      | _ \<Rightarrow> Inr None)"

definition RESERVED_PARAMS :: "string list" where
  "RESERVED_PARAMS =
     [''state'', ''client_id'', ''redirect_uri'', ''response_type'', ''code_challenge'', ''code_challenge_method'',
      ''nonce'', ''scope'']"

text \<open>\<open>additionalParams\<close> of a body: texts, none of them reserved.\<close>

definition invalid_params :: "string \<Rightarrow> exn" where
  "invalid_params message = api_error 400 ''VALIDATION_ERROR'' (''[body.additionalParams] '' @ message)"

fun text_entries :: "row \<Rightarrow> (string \<times> string) list option" where
  "text_entries [] = Some []"
| "text_entries ((k, v) # r) =
     (case (v, text_entries r) of (VStr s, Some ps) \<Rightarrow> Some ((k, s) # ps) | _ \<Rightarrow> None)"

definition additional_params :: "row \<Rightarrow> (string \<times> string) list result" where
  "additional_params d =
     (case dget d ''additionalParams'' of
        VNone \<Rightarrow> Inr []
      | VDict r \<Rightarrow>
          (case text_entries r of
             None \<Rightarrow> Inl (invalid_params ''Invalid input'')
           | Some ps \<Rightarrow>
               if \<exists>k\<in>fst ` set ps. k \<in> set RESERVED_PARAMS then
                 Inl (invalid_params (''additionalParams cannot include reserved OAuth parameters: '' @
                        join_parts '', '' RESERVED_PARAMS))
               else Inr ps)
      | _ \<Rightarrow> Inl (invalid_params ''Invalid input''))"

definition mint_nonce :: "oauth_provider \<Rightarrow> oauth_draws \<Rightarrow> string option" where
  "mint_nonce pv od = (if pv_binds_nonce pv then Some (od_nonce od) else None)"

text \<open>What the caller of \<open>_create_state\<close> gives; a value that is \<open>None\<close> is left out of the payload.\<close>

record flow_start =
  fl_callback :: pyval
  fl_error :: pyval
  fl_new_user :: pyval
  fl_link :: pyval
  fl_additional :: pyval
  fl_nonce :: "string option"
  fl_sign_up :: pyval

definition flow_keys :: "env \<Rightarrow> oauth_draws \<Rightarrow> row \<Rightarrow> flow_start \<Rightarrow> row" where
  "flow_keys ev od server fl =
     [(''callbackURL'', fl_callback fl), (''codeVerifier'', VStr (od_verifier od)), (''errorURL'', fl_error fl),
      (''newUserURL'', fl_new_user fl), (''link'', fl_link fl),
      (''serverContext'', if server = [] then VNone else VDict server),
      (''expiresAt'', VInt (dt_ms (now ev) + STATE_EXPIRES_IN * 1000)), (''requestSignUp'', fl_sign_up fl),
      (''idTokenNonce'', case fl_nonce fl of Some n \<Rightarrow> if n = [] then VNone else VStr n | None \<Rightarrow> VNone)]"

text \<open>The keys of the client come first, and never under a name of the flow.\<close>

definition client_keys :: "flow_start \<Rightarrow> row" where
  "client_keys fl = (case fl_additional fl of VDict d \<Rightarrow> filter (\<lambda>(k, v). k \<notin> set INTERNAL_STATE_KEYS) d | _ \<Rightarrow> [])"

definition state_payload :: "env \<Rightarrow> oauth_draws \<Rightarrow> row \<Rightarrow> flow_start \<Rightarrow> row" where
  "state_payload ev od server fl = dmerge (client_keys fl) (filter (\<lambda>(k, v). v \<noteq> VNone) (flow_keys ev od server fl))"

definition no_verification :: exn where
  "no_verification = api_error 500 ''INTERNAL_SERVER_ERROR'' ''Unable to create verification''"

definition create_state ::
    "site \<Rightarrow> social_conf \<Rightarrow> env \<Rightarrow> oauth_draws \<Rightarrow> row \<Rightarrow> flow_start \<Rightarrow> (sworld, row) action" where
  "create_state es so ev od server fl =
     (let payload = state_payload ev od server fl
      in bindA (attempt (on_core (create_verification_value (core es) ev
                  [(''identifier'', VStr (od_state od)),
                   (''value'', VStr (so_dumps so (dset ''oauthState'' (VStr (od_state od)) payload))),
                   (''expiresAt'', VDate (now ev + STATE_EXPIRES_IN * 1000000))] False)) None) (\<lambda>created.
           if created = None then raise no_verification else ret payload))"

definition state_cookie :: "site \<Rightarrow> string \<Rightarrow> string" where
  "state_cookie es st =
     build_cookie (es_auth es) (sign_value (au_hmac (es_auth es)) (au_secret (es_auth es)) st) (Some 300) ''state'' True"

text \<open>The state and the redirect of a flow that a request starts.\<close>

definition authorize ::
    "site \<Rightarrow> oauth_provider \<Rightarrow> oauth_draws \<Rightarrow> row \<Rightarrow> (string \<times> string) list \<Rightarrow> string option \<Rightarrow> string result" where
  "authorize es pv od d params nonce =
     pv_authorize pv \<lparr>aa_state = od_state od, aa_redirect_uri = provider_redirect_uri es pv,
       aa_verifier = Some (od_verifier od), aa_scopes = dget d ''scopes'', aa_login_hint = dget d ''loginHint'',
       aa_nonce = nonce, aa_params = params\<rparr>"

definition start_flow ::
    "site \<Rightarrow> social_conf \<Rightarrow> env \<Rightarrow> oauth_draws \<Rightarrow> row \<Rightarrow> oauth_provider \<Rightarrow> row \<Rightarrow> pyval \<Rightarrow> pyval \<Rightarrow> pyval \<Rightarrow>
     (sworld, response) action" where
  "start_flow es so ev od server pv d callback_url new_user_url link =
     bindA (liftR (additional_params d)) (\<lambda>params.
     bindA (create_state es so ev od server
              \<lparr>fl_callback = callback_url, fl_error = dget d ''errorCallbackURL'', fl_new_user = new_user_url,
               fl_link = link, fl_additional = dget d ''additionalData'', fl_nonce = mint_nonce pv od,
               fl_sign_up = dget d ''requestSignUp''\<rparr>) (\<lambda>_.
     bindA (liftR (authorize es pv od d params (mint_nonce pv od))) (\<lambda>url.
       ret (add_cookies [state_cookie es (od_state od)]
         (reply [(''url'', VStr url), (''redirect'', VBool (\<not> py_truthy (dget d ''disableRedirect'')))])))))"

definition provider_missing :: exn where
  "provider_missing = api_error 404 ''PROVIDER_NOT_FOUND'' ''Provider not found''"

definition chosen_provider :: "social_conf \<Rightarrow> row \<Rightarrow> oauth_provider result" where
  "chosen_provider so d =
     bindR (get_provider so (dget d ''provider'')) (\<lambda>found.
       case found of None \<Rightarrow> Inl provider_missing | Some pv \<Rightarrow> Inr pv)"

definition trusted_if_given :: "site \<Rightarrow> pyval \<Rightarrow> unit result" where
  "trusted_if_given es url = (if py_truthy url then ensure_trusted_url es url else Inr ())"

section \<open>Signing in with a token of the provider\<close>

definition token_of :: "row \<Rightarrow> pyval" where
  "token_of id_token = py_or (dget id_token ''token'') (VStr [])"

text \<open>The profile of a token that the client holds: of its claims, or what the provider resolves.\<close>

definition id_token_info :: "oauth_provider \<Rightarrow> row \<Rightarrow> row \<Rightarrow> oauth_info result" where
  "id_token_info pv claims id_token =
     (case pv_id_token_info pv of
        None \<Rightarrow> pv_claims_info pv claims
      | Some resolve \<Rightarrow>
          (case resolve (no_tokens\<lparr>ot_id := dget id_token ''token'', ot_access := dget id_token ''accessToken'',
                           ot_refresh := dget id_token ''refreshToken'', ot_user := dget id_token ''user''\<rparr>) of
             Inr info \<Rightarrow> Inr info
           | Inl (OAuthFetchError _) \<Rightarrow> Inl no_user_info
           | Inl HttpError \<Rightarrow> Inl no_user_info
           | Inl ValueError \<Rightarrow> Inl no_user_info
           | Inl e \<Rightarrow> Inl e))"

text \<open>A value used as a dict: \<open>v.get(..)\<close> on anything else is an \<open>AttributeError\<close>.\<close>

definition dict_of :: "pyval \<Rightarrow> row result" where
  "dict_of v = (case v of VDict d \<Rightarrow> Inr d | _ \<Rightarrow> Inl AttributeError)"

definition proven_profile :: "oauth_provider \<Rightarrow> pyval \<Rightarrow> string \<Rightarrow> (row \<times> oauth_info) result" where
  "proven_profile pv submitted unsupported =
     (if \<not> pv_takes_id_token pv then Inl (api_error 404 ''ID_TOKEN_NOT_SUPPORTED'' unsupported)
      else
        bindR (dict_of submitted) (\<lambda>id_token.
        bindR (pv_verify_id_token pv (token_of id_token) (dget id_token ''nonce'')) (\<lambda>claims.
        case claims of
          None \<Rightarrow> Inl (api_error 401 ''INVALID_TOKEN'' ''Invalid id token'')
        | Some c \<Rightarrow>
            bindR (id_token_info pv c id_token) (\<lambda>info.
              if \<not> py_truthy (oi_email info) then
                Inl (api_error 401 ''USER_EMAIL_NOT_FOUND'' ''Provider did not return an email'')
              else bindR (require_subject info) (\<lambda>_. Inr (id_token, info))))))"

definition link_error_api :: "string \<Rightarrow> exn" where
  "link_error_api code =
     (if code = ''email_not_verified'' then api_error 403 ''EMAIL_NOT_VERIFIED'' ''Email not verified''
      else api_error 401 ''OAUTH_LINK_ERROR'' (map (\<lambda>c. if c = CHR ''_'' then CHR '' '' else c) code))"

definition sign_up_closed :: "oauth_provider \<Rightarrow> pyval \<Rightarrow> bool" where
  "sign_up_closed pv request_sign_up \<longleftrightarrow>
     (pv_disable_implicit pv \<and> \<not> py_truthy request_sign_up) \<or> pv_disable_sign_up pv"

text \<open>The arguments that the routes of this file give to the decision.\<close>

definition social_options :: "oauth_provider \<Rightarrow> oauth_info \<Rightarrow> bool \<Rightarrow> pyval \<Rightarrow> link_options" where
  "social_options pv info closed callback_url =
     \<lparr>lo_disable_sign_up = closed, lo_trusted = False, lo_by_name = True, lo_override = None,
      lo_source = oauth_source pv info, lo_callback = callback_url, lo_selected = None, lo_exact_binding = False\<rparr>"

definition id_token_sign_in ::
    "site \<Rightarrow> social_conf \<Rightarrow> env \<Rightarrow> request \<Rightarrow> oauth_draws \<Rightarrow> oauth_provider \<Rightarrow> row \<Rightarrow> (sworld, response) action" where
  "id_token_sign_in es so ev rq od pv d =
     bindA (liftR (proven_profile pv (dget d ''idToken'') ''id_token sign-in not supported'')) (\<lambda>(id_token, info).
     bindA (catchA
              (handle_oauth_user_info es so ev rq (od_draws od) pv info
                 (no_tokens\<lparr>ot_access := dget id_token ''accessToken'', ot_id := token_of id_token\<rparr>)
                 (social_options pv info (sign_up_closed pv (dget d ''requestSignUp'')) (dget d ''callbackURL'')))
              (\<lambda>e. case e of OAuthLinkError code _ \<Rightarrow> raise (link_error_api code) | _ \<Rightarrow> raise e)) (\<lambda>(uid, _).
     bindA (start_session es ev rq uid True (od_draws od)) (\<lambda>(session, cookies).
     bindA (on_rows (mem_find_one (store_ad es) ''user'' [Where ''id'' uid] [])) (\<lambda>user.
     bindA (liftR (dindex session ''token'')) (\<lambda>token.
       ret (add_cookies cookies
         (reply [(''redirect'', VBool False), (''token'', token),
                 (''user'', case real_row user of Some u \<Rightarrow> user_output es u | None \<Rightarrow> VNone)])))))))"

definition sign_in_social ::
    "site \<Rightarrow> social_conf \<Rightarrow> env \<Rightarrow> request \<Rightarrow> body \<Rightarrow> oauth_draws \<Rightarrow> row \<Rightarrow> (sworld, response) action" where
  "sign_in_social es so ev rq b od server =
     bindA (liftR (request_json b)) (\<lambda>d.
     bindA (liftR (chosen_provider so d)) (\<lambda>pv.
       if py_truthy (dget d ''idToken'') then id_token_sign_in es so ev rq od pv d
       else
         let callback_url = or_root (dget d ''callbackURL'')
         in bindA (liftR (ensure_trusted_url es callback_url)) (\<lambda>_.
            bindA (liftR (trusted_if_given es (dget d ''errorCallbackURL''))) (\<lambda>_.
            bindA (liftR (trusted_if_given es (dget d ''newUserCallbackURL''))) (\<lambda>_.
              start_flow es so ev od server pv d callback_url (dget d ''newUserCallbackURL'') VNone)))))"

section \<open>The callback\<close>

definition flow_error_redirect :: "site \<Rightarrow> social_conf \<Rightarrow> string \<Rightarrow> pyval \<Rightarrow> string \<Rightarrow> response result" where
  "flow_error_redirect es so error error_url description =
     bindR (text_value (py_or error_url (VStr (oauth_error_url es so)))) (\<lambda>target.
       Inr (redirect_to (append_params target ((''error'', error) #
              (if description \<noteq> [] then [(''error_description'', description)] else [])))))"

text \<open>A form body is UTF-8 text.\<close>

definition callback_params :: "request \<Rightarrow> body \<Rightarrow> (string \<times> string) list" where
  "callback_params rq b =
     dmerge (rq_query rq)
       (if rq_method rq = ''POST'' \<and> \<not> bd_empty b \<and>
           str_contains ''application/x-www-form-urlencoded'' (header rq ''content-type'')
        then bd_form b else [])"

definition param :: "(string \<times> string) list \<Rightarrow> string \<Rightarrow> string" where
  "param ps k = (case map_of ps k of Some v \<Rightarrow> v | None \<Rightarrow> [])"

definition callback_user :: "social_conf \<Rightarrow> string \<Rightarrow> pyval" where
  "callback_user so raw =
     (if raw = [] then VNone else case so_loads so raw of Some (VDict d) \<Rightarrow> VDict d | _ \<Rightarrow> VNone)"

text \<open>\<open>int(v or 0)\<close> of a JSON value.\<close>

definition state_expiry :: "pyval \<Rightarrow> int result" where
  "state_expiry v =
     (if \<not> py_truthy v then Inr 0
      else case v of
             VInt n \<Rightarrow> Inr n
           | VBool _ \<Rightarrow> Inr 1
           | VStr t \<Rightarrow> (case parse_int t of Some n \<Rightarrow> Inr n | None \<Rightarrow> Inl ValueError)
           | _ \<Rightarrow> Inl TypeError)"

text \<open>Keys that an older state keeps under \<open>additionalData\<close> move to the top, behind the keys that are there.\<close>

definition lift_legacy :: "row \<Rightarrow> row" where
  "lift_legacy data =
     (case dget data ''additionalData'' of
        VDict d \<Rightarrow> data @ filter (\<lambda>(k, v). k \<notin> set INTERNAL_STATE_KEYS \<and> k \<notin> fst ` set data) d
      | _ \<Rightarrow> data)"

definition cookie_matches :: "site \<Rightarrow> request \<Rightarrow> string \<Rightarrow> bool" where
  "cookie_matches es rq st \<longleftrightarrow>
     (case get_cookie (es_auth es) rq ''state'' of
        None \<Rightarrow> False
      | Some raw \<Rightarrow> unsign_value (au_hmac (es_auth es)) (au_secret (es_auth es)) raw = Some st)"

text \<open>The payload of a stored state that the request may use, with the error URL of the flow.\<close>

definition state_data :: "site \<Rightarrow> social_conf \<Rightarrow> row \<Rightarrow> row result" where
  "state_data es so r =
     bindR (dindex r ''value'') (\<lambda>v.
       case v of
         VStr t \<Rightarrow>
           (case so_loads so t of
              Some (VDict d) \<Rightarrow> Inr d
            | _ \<Rightarrow> Inl (StateError ''internal_server_error'' (VStr (oauth_error_url es so)) False))
       | _ \<Rightarrow> Inl (StateError ''internal_server_error'' (VStr (oauth_error_url es so)) False))"

definition parse_state ::
    "site \<Rightarrow> social_conf \<Rightarrow> env \<Rightarrow> request \<Rightarrow> string \<Rightarrow> bool option \<Rightarrow> (sworld, row) action" where
  "parse_state es so ev rq st skip_cookie =
     bindA (on_core (find_verification_value (core es) ev st)) (\<lambda>found.
     case found of
       None \<Rightarrow> raise (StateError ''state_mismatch'' (VStr (oauth_error_url es so)) False)
     | Some r \<Rightarrow>
         bindA (liftR (state_data es so r)) (\<lambda>data.
         let error_url = py_or (dget data ''errorURL'') (VStr (oauth_error_url es so));
             own = dget data ''oauthState'';
             skip = (case skip_cookie of Some k \<Rightarrow> k | None \<Rightarrow> so_skip_cookie so)
         in if own \<noteq> VNone \<and> \<not> py_eq own (VStr st) then raise (StateError ''state_mismatch'' error_url False)
            else if \<not> skip \<and> \<not> cookie_matches es rq st then raise (StateError ''state_mismatch'' error_url False)
            else
              bindA (on_core (delete_verification_by_identifier (core es) st)) (\<lambda>_.
              bindA (liftR (state_expiry (dget data ''expiresAt''))) (\<lambda>expires.
                if expires < dt_ms (now ev) then raise (StateError ''state_mismatch'' error_url True)
                else ret (lift_legacy (dset ''errorURL'' error_url data))))))"

definition idp_initiated_bounce ::
    "site \<Rightarrow> social_conf \<Rightarrow> env \<Rightarrow> oauth_draws \<Rightarrow> row \<Rightarrow> oauth_provider \<Rightarrow> (sworld, response) action" where
  "idp_initiated_bounce es so ev od server pv =
     bindA (create_state es so ev od server
              \<lparr>fl_callback = VStr (oc_base_url (es_origin es)), fl_error = VNone, fl_new_user = VNone, fl_link = VNone,
               fl_additional = VNone, fl_nonce = mint_nonce pv od, fl_sign_up = VNone\<rparr>) (\<lambda>_.
     bindA (liftR (authorize es pv od [] [] (mint_nonce pv od))) (\<lambda>url.
       ret (add_cookies [state_cookie es (od_state od)] (redirect_to url))))"

text \<open>What the provider says about the user who comes back.\<close>

definition callback_provider ::
    "social_conf \<Rightarrow> string \<Rightarrow> (string \<times> string) list \<Rightarrow> row \<Rightarrow> oauth_provider result" where
  "callback_provider so provider_id ps data =
     (if param ps ''error'' \<noteq> [] then Inl (CallbackError (param ps ''error'') VNone (param ps ''error_description''))
      else if param ps ''code'' = [] then Inl (CallbackError ''no_code'' VNone [])
      else
        bindR (get_provider so (VStr provider_id)) (\<lambda>found.
        case found of
          None \<Rightarrow> Inl (CallbackError ''oauth_provider_not_found'' VNone [])
        | Some pv \<Rightarrow>
            let iss = param ps ''iss''
            in if iss \<noteq> [] \<and> pv_issuer pv \<noteq> [] \<and> iss \<noteq> pv_issuer pv then Inl (CallbackError ''issuer_mismatch'' VNone [])
               else if iss = [] \<and> pv_issuer pv \<noteq> [] \<and> pv_require_issuer pv then
                 Inl (CallbackError ''issuer_missing'' VNone [])
               else if pv_binds_nonce pv \<and> \<not> py_truthy (dget data ''idTokenNonce'') then
                 Inl (CallbackError ''nonce_binding_missing'' VNone [])
               else Inr pv))"

definition callback_tokens ::
    "site \<Rightarrow> social_conf \<Rightarrow> oauth_provider \<Rightarrow> (string \<times> string) list \<Rightarrow> row \<Rightarrow> oauth_tokens result" where
  "callback_tokens es so pv ps data =
     (case pv_exchange pv (param ps ''code'') (provider_redirect_uri es pv) (dget data ''codeVerifier'') of
        Inr (Some tk) \<Rightarrow>
          Inr (tk\<lparr>ot_user := callback_user so (param ps ''user''), ot_nonce := dget data ''idTokenNonce''\<rparr>)
      | _ \<Rightarrow> Inl (CallbackError ''invalid_code'' VNone []))"

definition callback_info :: "oauth_provider \<Rightarrow> oauth_tokens \<Rightarrow> oauth_info result" where
  "callback_info pv tk =
     (case pv_fetch_user pv tk of
        Inr info \<Rightarrow>
          if valid_subject (oi_id info) then Inr info
          else Inl (CallbackError ''unable_to_get_user_info'' VNone [])
      | Inl HttpError \<Rightarrow> Inl (CallbackError ''unable_to_get_user_info'' VNone [])
      | Inl (OAuthFetchError _) \<Rightarrow> Inl (CallbackError ''unable_to_get_user_info'' VNone [])
      | Inl ValueError \<Rightarrow> Inl (CallbackError ''unable_to_get_user_info'' VNone [])
      | Inl e \<Rightarrow> Inl e)"

text \<open>An error of the application keeps its code.\<close>

definition api_to_callback :: "exn \<Rightarrow> exn" where
  "api_to_callback e =
     (case e of APIError _ code message _ \<Rightarrow> CallbackError code VNone message | _ \<Rightarrow> e)"

definition flow_to_callback :: "exn \<Rightarrow> exn" where
  "flow_to_callback e =
     (case e of
        OAuthLinkError code url \<Rightarrow> CallbackError code (case url of Some u \<Rightarrow> VStr u | None \<Rightarrow> VNone) []
      | _ \<Rightarrow> api_to_callback e)"

definition absolute_value :: "site \<Rightarrow> pyval \<Rightarrow> string result" where
  "absolute_value es v = bindR (text_value v) (\<lambda>u. Inr (absolute_url es u))"

definition callback_link ::
    "site \<Rightarrow> social_conf \<Rightarrow> env \<Rightarrow> request \<Rightarrow> oauth_draws \<Rightarrow> oauth_provider \<Rightarrow> oauth_info \<Rightarrow> oauth_tokens \<Rightarrow> pyval \<Rightarrow> row \<Rightarrow>
     (sworld, response) action" where
  "callback_link es so ev rq od pv info tk link data =
     bindA (liftR (case link of VDict d \<Rightarrow> Inr d | _ \<Rightarrow> Inl TypeError)) (\<lambda>target.
     bindA (catchA (link_oauth_account es so ev rq (od_draws od) pv info tk target)
              (\<lambda>e. raise (api_to_callback e))) (\<lambda>error.
     case error of
       Some code \<Rightarrow> raise (CallbackError code VNone [])
     | None \<Rightarrow>
         bindA (liftR (absolute_value es (or_root (dget data ''callbackURL'')))) (\<lambda>url. ret (redirect_to url))))"

definition callback_sign_in ::
    "site \<Rightarrow> social_conf \<Rightarrow> env \<Rightarrow> request \<Rightarrow> oauth_draws \<Rightarrow> oauth_provider \<Rightarrow> oauth_info \<Rightarrow> oauth_tokens \<Rightarrow> row \<Rightarrow>
     (sworld, response) action" where
  "callback_sign_in es so ev rq od pv info tk data =
     (if \<not> py_truthy (oi_email info) then raise (CallbackError ''email_not_found'' VNone [])
      else
        let callback_url = or_root (dget data ''callbackURL'')
        in bindA (catchA
                    (bindA (handle_oauth_user_info es so ev rq (od_draws od) pv info tk
                              (social_options pv info (sign_up_closed pv (dget data ''requestSignUp'')) callback_url))
                       (\<lambda>(uid, is_new).
                     bindA (start_session es ev rq uid True (od_draws od)) (\<lambda>(_, cookies). ret (is_new, cookies))))
                    (\<lambda>e. raise (flow_to_callback e))) (\<lambda>(is_new, cookies).
           bindA (liftR (absolute_value es (if is_new then py_or (dget data ''newUserURL'') callback_url else callback_url)))
             (\<lambda>url. ret (add_cookies cookies (redirect_to url)))))"

definition complete_callback ::
    "site \<Rightarrow> social_conf \<Rightarrow> env \<Rightarrow> request \<Rightarrow> oauth_draws \<Rightarrow> string \<Rightarrow> (string \<times> string) list \<Rightarrow> row \<Rightarrow>
     (sworld, response) action" where
  "complete_callback es so ev rq od provider_id ps data =
     bindA (liftR (callback_provider so provider_id ps data)) (\<lambda>pv.
     bindA (liftR (callback_tokens es so pv ps data)) (\<lambda>tk.
     bindA (liftR (callback_info pv tk)) (\<lambda>info.
       if dget data ''link'' \<noteq> VNone then callback_link es so ev rq od pv info tk (dget data ''link'') data
       else callback_sign_in es so ev rq od pv info tk data)))"

definition drop_state_cookie :: "site \<Rightarrow> response \<Rightarrow> response" where
  "drop_state_cookie es rs = add_cookies [clear_cookie (es_auth es) ''state''] rs"

definition may_bounce :: "social_conf \<Rightarrow> string \<Rightarrow> (string \<times> string) list \<Rightarrow> oauth_provider option result" where
  "may_bounce so provider_id ps =
     (if map_of ps ''state'' = None \<and> param ps ''code'' \<noteq> [] then
        bindR (get_provider so (VStr provider_id)) (\<lambda>found.
          Inr (case found of Some pv \<Rightarrow> if pv_idp_initiated pv then Some pv else None | None \<Rightarrow> None))
      else Inr None)"

text \<open>The callback of a state that the request may use.\<close>

definition run_callback ::
    "site \<Rightarrow> social_conf \<Rightarrow> env \<Rightarrow> request \<Rightarrow> oauth_draws \<Rightarrow> string \<Rightarrow> (string \<times> string) list \<Rightarrow> row \<Rightarrow>
     (sworld, response) action" where
  "run_callback es so ev rq od provider_id ps data =
     bindA (catchA (complete_callback es so ev rq od provider_id ps data)
              (\<lambda>e. case e of
                     CallbackError code url description \<Rightarrow>
                       liftR (flow_error_redirect es so code (py_or url (dget data ''errorURL'')) description)
                   | _ \<Rightarrow> raise e)) (\<lambda>rs. ret (drop_state_cookie es rs))"

definition oauth_callback ::
    "site \<Rightarrow> social_conf \<Rightarrow> env \<Rightarrow> request \<Rightarrow> body \<Rightarrow> oauth_draws \<Rightarrow> row \<Rightarrow> string \<Rightarrow> (sworld, response) action" where
  "oauth_callback es so ev rq b od server provider_id =
     (let ps = callback_params rq b; st = param ps ''state''
      in bindA (liftR (may_bounce so provider_id ps)) (\<lambda>bounce.
         case bounce of
           Some pv \<Rightarrow> idp_initiated_bounce es so ev od server pv
         | None \<Rightarrow>
             if st = [] then liftR (flow_error_redirect es so ''state_not_found'' VNone [])
             else
               bindA (catchA (bindA (parse_state es so ev rq st None) (\<lambda>data. ret (Inr data)))
                        (\<lambda>e. case e of
                               StateError code url expired \<Rightarrow>
                                 bindA (liftR (flow_error_redirect es so code url [])) (\<lambda>rs.
                                   ret (Inl (if expired then drop_state_cookie es rs else rs)))
                             | _ \<Rightarrow> raise e)) (\<lambda>outcome.
               case outcome of
                 Inl rs \<Rightarrow> ret rs
               | Inr data \<Rightarrow> run_callback es so ev rq od provider_id ps data)))"

section \<open>Linking from a session\<close>

definition linked_reply :: response where
  "linked_reply = reply [(''url'', VStr []), (''status'', VBool True), (''redirect'', VBool False)]"

definition refresh_info_on_link ::
    "site \<Rightarrow> social_conf \<Rightarrow> env \<Rightarrow> row \<Rightarrow> oauth_info \<Rightarrow> (sworld, response) action" where
  "refresh_info_on_link es so ev user info =
     bindA (if so_update_user so then bindA (update_info_on_link es ev user info) (\<lambda>_. ret ()) else ret ())
       (\<lambda>_. ret linked_reply)"

definition link_social_id_token ::
    "site \<Rightarrow> social_conf \<Rightarrow> env \<Rightarrow> request \<Rightarrow> oauth_draws \<Rightarrow> oauth_provider \<Rightarrow> row \<Rightarrow> row \<Rightarrow> (sworld, response) action" where
  "link_social_id_token es so ev rq od pv d user =
     bindA (liftR (proven_profile pv (dget d ''idToken'') ''id_token linking not supported'')) (\<lambda>(id_token, info).
     let tk = no_tokens\<lparr>ot_access := dget id_token ''accessToken'', ot_refresh := dget id_token ''refreshToken'',
                        ot_id := token_of id_token\<rparr>
     in bindA (on_core (find_account_by_key (core es) (pv_id pv) (oi_id info))) (\<lambda>found.
        bindA (liftR (dindex user ''id'')) (\<lambda>uid.
        bindA (case found of
                 None \<Rightarrow> ret False
               | Some existing \<Rightarrow> liftR (has_field ''userId'' uid existing)) (\<lambda>own.
        case found of
          Some existing \<Rightarrow>
            if own then
              bindA (relink_account es so ev pv tk existing False) (\<lambda>_. refresh_info_on_link es so ev user info)
            else raise (api_error 409 ''SOCIAL_ACCOUNT_ALREADY_LINKED'' ''Social account already linked'')
        | None \<Rightarrow>
            bindA (liftR (link_refusal so rq pv info)) (\<lambda>refused.
              if refused then raise (api_error 401 ''LINKING_NOT_ALLOWED'' ''Account not linked - linking not allowed'')
              else
                bindA (liftR (bindR (dindex user ''email'') (other_address so info))) (\<lambda>other.
                  if other then
                    raise (api_error 401 ''LINKING_DIFFERENT_EMAILS_NOT_ALLOWED''
                      ''Account not linked - different emails not allowed'')
                  else
                    bindA (liftR (token_fields so tk)) (\<lambda>fs.
                    bindA (on_core (create_oauth_account es ev (dr_account_id (od_draws od)) pv info fs uid)) (\<lambda>_.
                      refresh_info_on_link es so ev user info))))))))"

definition link_social ::
    "site \<Rightarrow> social_conf \<Rightarrow> env \<Rightarrow> request \<Rightarrow> body \<Rightarrow> oauth_draws \<Rightarrow> row \<Rightarrow> (sworld, response) action" where
  "link_social es so ev rq b od server =
     bindA (require_login es ev rq) (\<lambda>login.
     bindA (liftR (request_json b)) (\<lambda>d.
     bindA (liftR (chosen_provider so d)) (\<lambda>pv.
     let user = va_user login
     in if py_truthy (dget d ''idToken'') then link_social_id_token es so ev rq od pv d user
        else
          let callback_url = or_root (dget d ''callbackURL'')
          in bindA (liftR (ensure_trusted_url es callback_url)) (\<lambda>_.
             bindA (liftR (trusted_if_given es (dget d ''errorCallbackURL''))) (\<lambda>_.
             bindA (liftR (dindex user ''id'')) (\<lambda>uid.
             bindA (liftR (dindex user ''email'')) (\<lambda>email.
               start_flow es so ev od server pv d callback_url (dget d ''newUserCallbackURL'')
                 (VDict [(''userId'', uid), (''email'', email)]))))))))"

section \<open>Tokens of a linked account\<close>

definition provider_unsupported :: "site \<Rightarrow> pyval \<Rightarrow> exn" where
  "provider_unsupported es provider_id =
     api_error 400 ''PROVIDER_NOT_SUPPORTED'' (''Provider '' @ f_string es provider_id @ '' is not supported.'')"

definition refresh_unsupported :: "site \<Rightarrow> pyval \<Rightarrow> exn" where
  "refresh_unsupported es provider_id =
     api_error 400 ''TOKEN_REFRESH_NOT_SUPPORTED''
       (''Provider '' @ f_string es provider_id @ '' does not support token refreshing.'')"

text \<open>\<open>social_providers.get\<close>; an unhashable key is a \<open>TypeError\<close>.\<close>

definition provider_of :: "site \<Rightarrow> social_conf \<Rightarrow> pyval \<Rightarrow> oauth_provider result" where
  "provider_of es so provider_id =
     (case provider_id of
        VStr i \<Rightarrow> (case map_of (so_providers so) i of Some pv \<Rightarrow> Inr pv | None \<Rightarrow> Inl (provider_unsupported es provider_id))
      | VList _ \<Rightarrow> Inl TypeError
      | VDict _ \<Rightarrow> Inl TypeError
      | _ \<Rightarrow> Inl (provider_unsupported es provider_id))"

definition refreshing_provider :: "site \<Rightarrow> social_conf \<Rightarrow> pyval \<Rightarrow> bool \<Rightarrow> oauth_provider result" where
  "refreshing_provider es so provider_id require =
     bindR (provider_of es so provider_id) (\<lambda>pv.
       if require \<and> \<not> pv_refreshes pv then Inl (refresh_unsupported es provider_id) else Inr pv)"

definition select_user_account ::
    "site \<Rightarrow> social_conf \<Rightarrow> pyval \<Rightarrow> row \<Rightarrow> bool \<Rightarrow> (sworld, row) action" where
  "select_user_account es so user_id d require_refresh =
     (if \<not> (es_legacy_selection es \<and> has_key d ''providerId'') then
        bindA (liftR (account_selection d)) (\<lambda>selection. resolve_user_account es user_id selection)
      else
        bindA (liftR (refreshing_provider es so (dget d ''providerId'') require_refresh)) (\<lambda>_.
        bindA (user_accounts es user_id) (\<lambda>accounts.
        bindA (liftR (first_matching (\<lambda>a. both (has_field ''providerId'' (dget d ''providerId'') a)
                 (if \<not> py_truthy (dget d ''accountId'') then Inr True
                  else has_field ''accountId'' (dget d ''accountId'') a)) accounts)) (\<lambda>found.
          case found of Some a \<Rightarrow> ret a | None \<Rightarrow> raise account_not_found))))"

text \<open>The tokens that a refresh gave, as they are written; what it did not give stays.\<close>

definition refreshed_fields :: "social_conf \<Rightarrow> env \<Rightarrow> oauth_tokens \<Rightarrow> row \<Rightarrow> row result" where
  "refreshed_fields so ev tk account =
     bindR (oauth_encrypt so (ot_access tk)) (\<lambda>access.
     bindR (if py_truthy (ot_refresh tk) then oauth_encrypt so (ot_refresh tk) else Inr (dget account ''refreshToken''))
       (\<lambda>refresh.
         Inr [(''accessToken'', access), (''refreshToken'', refresh),
              (''accessTokenExpiresAt'', ot_access_expires tk),
              (''refreshTokenExpiresAt'', py_or (ot_refresh_expires tk) (dget account ''refreshTokenExpiresAt'')),
              (''idToken'', py_or (ot_id tk) (dget account ''idToken'')), (''updatedAt'', VDate (now ev))]))"

definition store_refreshed ::
    "site \<Rightarrow> social_conf \<Rightarrow> env \<Rightarrow> oauth_tokens \<Rightarrow> row \<Rightarrow> (sworld, row option) action" where
  "store_refreshed es so ev tk account =
     bindA (liftR (dindex account ''id'')) (\<lambda>aid.
     bindA (liftR (refreshed_fields so ev tk account)) (\<lambda>fs.
       on_core (update_row (core es) ev ''account'' [Where ''id'' aid] fs)))"

text \<open>Calling the provider with the refresh token in the clear.\<close>

definition call_refresh :: "social_conf \<Rightarrow> oauth_provider \<Rightarrow> pyval \<Rightarrow> oauth_tokens result" where
  "call_refresh so pv stored =
     bindR (oauth_decrypt so stored) (\<lambda>token. bindR (text_value (py_or token (VStr []))) (pv_refresh pv))"

definition fetch_failed :: "string \<Rightarrow> string \<Rightarrow> 'a result \<Rightarrow> 'a result" where
  "fetch_failed code message res =
     (case res of Inl (OAuthFetchError _) \<Rightarrow> Inl (api_error 400 code message) | _ \<Rightarrow> res)"

definition shown_scope :: "row option \<Rightarrow> row \<Rightarrow> pyval" where
  "shown_scope updated account =
     (let scope = (case updated of Some a \<Rightarrow> dget a ''scope'' | None \<Rightarrow> VNone)
      in if scope = VNone then dget account ''scope'' else scope)"

definition refresh_token ::
    "site \<Rightarrow> social_conf \<Rightarrow> env \<Rightarrow> request \<Rightarrow> body \<Rightarrow> (sworld, response) action" where
  "refresh_token es so ev rq b =
     bindA (require_login es ev rq) (\<lambda>login.
     bindA (liftR (dindex (va_user login) ''id'')) (\<lambda>uid.
     bindA (liftR (request_json b)) (\<lambda>d.
     bindA (select_user_account es so uid d True) (\<lambda>account.
     bindA (liftR (dindex account ''providerId'')) (\<lambda>provider_id.
     bindA (liftR (refreshing_provider es so provider_id True)) (\<lambda>pv.
     let refresh = dget account ''refreshToken''
     in if \<not> py_truthy refresh then raise (api_error 400 ''REFRESH_TOKEN_NOT_FOUND'' ''Refresh token not found'')
        else
          bindA (liftR (fetch_failed ''FAILED_TO_REFRESH_ACCESS_TOKEN'' ''Failed to refresh access token''
                   (call_refresh so pv refresh))) (\<lambda>tk.
          bindA (store_refreshed es so ev tk account) (\<lambda>updated.
          bindA (if py_truthy (ot_refresh tk) then ret (ot_refresh tk) else liftR (oauth_decrypt so refresh)) (\<lambda>shown.
          bindA (liftR (dindex account ''id'')) (\<lambda>aid.
            ret (reply [(''accessToken'', ot_access tk), (''refreshToken'', shown),
                  (''accessTokenExpiresAt'', ot_access_expires tk),
                  (''refreshTokenExpiresAt'', py_or (ot_refresh_expires tk) (dget account ''refreshTokenExpiresAt'')),
                  (''scope'', shown_scope updated account),
                  (''idToken'', py_or (ot_id tk) (dget account ''idToken'')),
                  (''providerId'', provider_id), (''accountId'', aid)])))))))))))"

text \<open>Within five seconds of its expiry, an access token is renewed first.\<close>

definition near_expiry :: "env \<Rightarrow> pyval \<Rightarrow> bool result" where
  "near_expiry ev v =
     (case v of VNone \<Rightarrow> Inr False | VDate t \<Rightarrow> Inr (t - now ev < 5000000) | _ \<Rightarrow> Inl TypeError)"

definition shown_tokens :: "social_conf \<Rightarrow> oauth_tokens option \<Rightarrow> row \<Rightarrow> row result" where
  "shown_tokens so fresh account =
     bindR (case fresh of
              Some tk \<Rightarrow> Inr (ot_access tk)
            | None \<Rightarrow> oauth_decrypt so (py_or (dget account ''accessToken'') (VStr []))) (\<lambda>access.
     bindR (parse_stored_scopes (dget account ''scope'')) (\<lambda>scopes.
       Inr [(''accessToken'', access),
            (''accessTokenExpiresAt'',
             case fresh of Some tk \<Rightarrow> ot_access_expires tk | None \<Rightarrow> dget account ''accessTokenExpiresAt''),
            (''scopes'', VList (map VStr scopes)),
            (''idToken'', py_or (case fresh of Some tk \<Rightarrow> ot_id tk | None \<Rightarrow> VNone) (dget account ''idToken''))]))"

definition valid_access_token ::
    "site \<Rightarrow> social_conf \<Rightarrow> env \<Rightarrow> row \<Rightarrow> oauth_provider \<Rightarrow> (sworld, row) action" where
  "valid_access_token es so ev account pv =
     bindA (liftR (near_expiry ev (dget account ''accessTokenExpiresAt''))) (\<lambda>expired.
     bindA (if py_truthy (dget account ''refreshToken'') \<and> expired \<and> pv_refreshes pv then
              bindA (liftR (call_refresh so pv (dget account ''refreshToken''))) (\<lambda>tk.
              bindA (store_refreshed es so ev tk account) (\<lambda>_. ret (Some tk)))
            else ret None) (\<lambda>fresh.
       liftR (shown_tokens so fresh account)))"

definition get_access_token ::
    "site \<Rightarrow> social_conf \<Rightarrow> env \<Rightarrow> request \<Rightarrow> body \<Rightarrow> (sworld, response) action" where
  "get_access_token es so ev rq b =
     bindA (require_login es ev rq) (\<lambda>login.
     bindA (liftR (dindex (va_user login) ''id'')) (\<lambda>uid.
     bindA (liftR (request_json b)) (\<lambda>d.
     bindA (select_user_account es so uid d False) (\<lambda>account.
     bindA (liftR (bindR (dindex account ''providerId'') (provider_of es so))) (\<lambda>pv.
     bindA (catchA (valid_access_token es so ev account pv)
              (\<lambda>e. case e of
                     OAuthFetchError _ \<Rightarrow>
                       raise (api_error 400 ''FAILED_TO_GET_ACCESS_TOKEN'' ''Failed to get a valid access token'')
                   | _ \<Rightarrow> raise e)) (\<lambda>shown.
       ret (reply shown)))))))"

end
