(* ===== verification/OAuth_Claims.thy ===== *)
theory OAuth_Claims
  imports OAuth_Flow Reads Verif_Values
begin

text \<open>
  Social sign-in: who a profile signs in as, and that a callback does nothing without the state of a flow
  that this browser started.
\<close>

section \<open>The account of a profile\<close>

abbreviation account_rows :: "sworld \<Rightarrow> row list" where
  "account_rows w \<equiv> table w ''account''"

definition of_subject :: "oauth_provider \<Rightarrow> oauth_info \<Rightarrow> row \<Rightarrow> bool" where
  "of_subject pv info r \<longleftrightarrow> dget r ''providerId'' = VStr (pv_id pv) \<and> dget r ''accountId'' = VStr (oi_id info)"

lemma find_account_step:
  assumes "native (store_ad es)"
  shows "on_core (find_account_by_key (core es) (pv_id pv) (oi_id info)) w =
    (let rs = slice_to (find_limit (store_ad es) (Some 2)) (filter (of_subject pv info) (account_rows w))
     in if length rs > 1 then Inl (BetterAuthError ''Multiple accounts match the same accountId for provider'')
        else Inr (case rs of [] \<Rightarrow> None | r # _ \<Rightarrow> Some r), w)"
proof -
  have "(\<lambda>r. is_field r ''providerId'' (VStr (pv_id pv)) \<and> is_field r ''accountId'' (VStr (oi_id info))) = of_subject pv info"
    by (rule ext) (simp add: of_subject_def)
  then show ?thesis
    using assms by (simp add: find_account_by_key_def on_core_def on_db_def bindA_def mem_find_many_safe sel_field2
        table_def Let_def)
qed

lemma find_account_cases:
  assumes "native (store_ad es)" "on_core (find_account_by_key (core es) (pv_id pv) (oi_id info)) w = (Inr found, w')"
  shows "w' = w \<and> filter (of_subject pv info) (account_rows w) = (case found of None \<Rightarrow> [] | Some r \<Rightarrow> [r])"
  using assms
  by (auto simp: find_account_step find_limit_def slice_to_def slice_bound_def Let_def take_Cons' split: if_splits list.splits)

lemma filter_single: "filter P xs = [x] \<Longrightarrow> x \<in> set xs \<and> P x"
  by (metis list.set_intros(1) mem_Collect_eq set_filter)

lemma find_owner_cases:
  assumes "native (store_ad es)" "on_core (find_account_owner_by_key (core es) (pv_id pv) (oi_id info)) w = (Inr found, w')"
  shows "w' = w \<and> (case found of
      None \<Rightarrow> filter (of_subject pv info) (account_rows w) = []
    | Some (a, user) \<Rightarrow> filter (of_subject pv info) (account_rows w) = [a] \<and>
        user = List.find (\<lambda>u. is_field u ''id'' (dget a ''userId'')) (table w ''user''))"
proof -
  obtain res w1 where find: "find_account_by_key (core es) (pv_id pv) (oi_id info) (sw_int w) = (res, w1)"
    by (cases "find_account_by_key (core es) (pv_id pv) (oi_id info) (sw_int w)")
  with assms(2) obtain f where res: "res = Inr f"
    by (cases res) (auto simp: find_account_owner_by_key_def on_core_def bindA_def)
  with find have "on_core (find_account_by_key (core es) (pv_id pv) (oi_id info)) w = (Inr f, w\<lparr>sw_int := w1\<rparr>)"
    by (simp add: on_core_def)
  from find_account_cases[OF assms(1) this] have "w\<lparr>sw_int := w1\<rparr> = w"
    and f: "filter (of_subject pv info) (account_rows w) = (case f of None \<Rightarrow> [] | Some r \<Rightarrow> [r])" by auto
  from arg_cong[OF this(1), of sw_int] have w1: "w1 = sw_int w" by simp
  with assms(2) find res f show ?thesis
    by (auto simp: find_account_owner_by_key_def on_core_def on_db_def bindA_def liftR_def mem_find_one_safe[OF assms(1)] sel_field1
        table_def dindex_value split: option.splits sum.splits)
qed

section \<open>Whose sign-in it is\<close>

text \<open>The profile of the provider is not copied over that of the user.\<close>

definition keeps_profile :: "social_conf \<Rightarrow> oauth_provider \<Rightarrow> link_options \<Rightarrow> bool" where
  "keeps_profile so pv lo \<longleftrightarrow>
     \<not> so_update_user so \<and> lo_selected lo = None \<and> \<not> (case lo_override lo of None \<Rightarrow> pv_override pv | Some b \<Rightarrow> b)"

lemma promote_keeps_id:
  assumes "promote_verified es ev user info email w = (Inr u, w')"
  shows "dget u ''id'' = dget user ''id''"
  using assms by (auto simp: promote_verified_def bindA_def split: sum.splits prod.splits if_splits)

lemma apply_policy_off: "keeps_profile so pv lo \<Longrightarrow>
    apply_profile_policy es ev user info email (case lo_override lo of None \<Rightarrow> pv_override pv | Some b \<Rightarrow> b) (lo_selected lo) = ret user"
  by (simp add: keeps_profile_def apply_profile_policy_def)

lemma catch_raise:
  assumes "catchA m (\<lambda>_. raise e) w = (Inr a, w')"
  shows "m w = (Inr a, w')"
  using assms by (auto simp: catchA_def split: prod.splits sum.splits)

lemma returning_identified:
  assumes "returning_user es so ev pv info tk lo email account found w = (Inr (uid, is_new), w')"
  shows "found \<noteq> None \<and> \<not> is_new \<and> uid = dget account ''userId''"
proof (cases found)
  case (Some user)
  from assms[unfolded Some returning_user_def option.case] obtain owner where
    "dindex account ''userId'' = Inr owner" "uid = owner" "\<not> is_new"
    by (elim bind_liftE bindA_InrE) simp
  with Some show ?thesis by (simp add: dindex_value)
qed (use assms in \<open>simp add: returning_user_def\<close>)

lemma register_identified:
  assumes "register_user es so ev dr pv info tk lo email w = (Inr (uid, is_new), w')"
  shows "is_new \<and> \<not> lo_disable_sign_up lo"
proof (cases "lo_disable_sign_up lo")
  case False
  from assms[unfolded register_user_def Let_def] False have "is_new"
    by (simp only: if_False) (elim bind_liftE bindA_InrE, auto elim!: bind_liftE bindA_InrE split: prod.splits)
  with False show ?thesis by simp
qed (use assms in \<open>simp add: register_user_def\<close>)

lemma link_identified:
  assumes "link_existing es so ev rq dr pv info tk lo email user w = (Inr (uid, is_new), w')" "keeps_profile so pv lo"
  obtains trusted where "trusted_provider so rq pv lo = Inr trusted" "refuses_link so info lo trusted user = Inr False"
    "\<not> is_new" "uid = dget user ''id''"
proof -
  have keep: "lo_selected lo = None" "\<not> so_update_user so" using assms(2) by (auto simp: keeps_profile_def)
  from assms(1)[unfolded link_existing_def apply_policy_off[OF assms(2)] keep if_False not_False_eq_True simp_thms]
  obtain trusted refused where t: "trusted_provider so rq pv lo = Inr trusted" "refuses_link so info lo trusted user = Inr refused"
    "\<not> refused"
    by (elim bind_liftE bindA_InrE) (simp split: if_splits)
  from assms(1)[unfolded link_existing_def apply_policy_off[OF assms(2)]] t keep obtain u w1 w2 where
    "promote_verified es ev user info email w1 = (Inr u, w2)" "dindex u ''id'' = Inr uid" "\<not> is_new"
    by (auto elim!: bind_liftE bindA_InrE split: if_splits)
  with t that[of trusted] show thesis by (auto dest!: promote_keeps_id simp: dindex_value)
qed

text \<open>When the gate of implicit linking lets a profile through.\<close>

lemma refuses_link_False:
  assumes "refuses_link so info lo trusted user = Inr False" "lo_selected lo = None"
  shows "(trusted \<or> oi_verified info) \<and> so_linking so \<and> \<not> so_no_implicit so \<and>
    (so_local_verified so \<longrightarrow> py_truthy (dget user ''emailVerified''))"
  using assms by (auto simp: refuses_link_def bindR_Inr_iff dindex_value split: if_splits)

section \<open>Tables that the steps leave alone\<close>

lemma keeps_attempt: "keeps (same_site_table m) act \<Longrightarrow> keeps (same_site_table m) (attempt act a)"
  unfolding attempt_def by (intro site_frame)

lemma keeps_session_create:
  assumes "m \<noteq> ''session''"
  shows "keeps (same_table m) (session_create au ev rq uid remember_me user record fresh)"
  unfolding session_create_def find_user_row_def Let_def
  using assms by (intro table_frame keeps_rows) auto

lemma keeps_start_session:
  assumes "m \<noteq> ''session''"
  shows "keeps (same_site_table m) (start_session es ev rq uid remember_me dr)"
  unfolding start_session_def by (intro site_frame keeps_session_create keeps_outside assms) simp

lemma keeps_find_account:
  "keeps (same_table m) (find_account_by_key ic p a)" "keeps (same_table m) (find_account_owner_by_key ic p a)"
  unfolding find_account_owner_by_key_def find_account_by_key_def by (intro table_frame)+

lemma keeps_dispatch_mail: "keeps (same_site_table m) (dispatch_mail es ev user url)"
  unfolding dispatch_mail_def send_verification_email_def Let_def by (intro keeps_attempt site_frame)

lemma keeps_require_verified: "keeps (same_site_table m) (require_verified es so ev pv user new url)"
  unfolding require_verified_def Let_def by (intro site_frame keeps_dispatch_mail)

lemma keeps_user_updates:
  assumes "m \<noteq> ''user''"
  shows "keeps (same_site_table m) (promote_verified es ev user info email)"
    "keeps (same_site_table m) (update_info_on_link es ev user info)"
    "keeps (same_site_table m) (override_user_info es ev user info email)"
    "keeps (same_site_table m) (apply_profile_policy es ev user info email override selected)"
  unfolding promote_verified_def update_info_on_link_def apply_profile_policy_def override_user_info_def Let_def
  by (intro site_frame keeps_rows; use assms in auto)+

lemma keeps_accounts:
  assumes "m \<noteq> ''account''"
  shows "keeps (same_table m) (create_oauth_account es ev i pv info fs uid)"
    "keeps (same_site_table m) (refresh_account es so ev pv info tk lo account uid)"
    "keeps (same_site_table m) (relink_account es so ev pv tk existing grow)"
    "keeps (same_site_table m) (attach_account es so ev dr pv info tk uid)"
proof -
  show create: "keeps (same_table m) (create_oauth_account es ev i pv info fs uid)" for es ev i pv info fs uid
    unfolding create_oauth_account_def using assms by (intro keeps_rows) auto
  show "keeps (same_site_table m) (refresh_account es so ev pv info tk lo account uid)"
    unfolding refresh_account_def using assms by (intro site_frame keeps_rows) auto
  show relink: "keeps (same_site_table m) (relink_account es so ev pv tk existing grow)" for es so ev pv tk existing grow
    unfolding relink_account_def Let_def using assms by (intro site_frame keeps_rows) auto
  show "keeps (same_site_table m) (attach_account es so ev dr pv info tk uid)"
    unfolding attach_account_def by (intro site_frame keeps_find_account create relink)
qed

lemma keeps_api_error:
  "(\<And>st code message body. e = APIError st code message body \<Longrightarrow> keeps R (f st code message body)) \<Longrightarrow> keeps R g \<Longrightarrow>
   keeps R (case e of APIError st code message body \<Rightarrow> f st code message body | _ \<Rightarrow> g)"
  by (cases e) simp_all

lemma keeps_returning:
  assumes "m \<noteq> ''user''" "m \<noteq> ''account''"
  shows "keeps (same_site_table m) (returning_user es so ev pv info tk lo email account found)"
  unfolding returning_user_def
  by (intro site_frame keeps_user_updates keeps_accounts keeps_require_verified assms)

lemma keeps_register:
  assumes "m \<noteq> ''user''" "m \<noteq> ''account''"
  shows "keeps (same_site_table m) (register_user es so ev dr pv info tk lo email)"
proof -
  have "keeps (same_table m) (bindA (liftR r) (\<lambda>_. bindA (create_row (core es) ev ''user'' d True) (\<lambda>created.
      case created of
        None \<Rightarrow> raise (RuntimeError ''user creation was aborted'')
      | Some u \<Rightarrow> bindA (liftR (dindex u ''id'')) (\<lambda>uid.
          bindA (create_oauth_account es ev i pv info fs uid) (\<lambda>account. ret (u, account))))))" for r d i fs
    using assms by (intro table_frame keeps_rows keeps_accounts) auto
  then show ?thesis
    unfolding register_user_def Let_def
    by (intro site_frame keeps_int_transaction keeps_api_error keeps_require_verified)
qed

lemma keeps_link_existing:
  assumes "m \<noteq> ''user''" "m \<noteq> ''account''"
  shows "keeps (same_site_table m) (link_existing es so ev rq dr pv info tk lo email user)"
  unfolding link_existing_def
  by (intro site_frame keeps_user_updates keeps_accounts keeps_api_error keeps_require_verified assms)

lemma keeps_handle_user_info:
  assumes "m \<noteq> ''user''" "m \<noteq> ''account''"
  shows "keeps (same_site_table m) (handle_oauth_user_info es so ev rq dr pv info tk lo)"
  unfolding handle_oauth_user_info_def find_user_by_email_def
  by (intro site_frame keeps_find_account keeps_returning keeps_register keeps_link_existing assms)

lemma keeps_link_account:
  assumes "m \<noteq> ''user''" "m \<noteq> ''account''"
  shows "keeps (same_site_table m) (link_oauth_account es so ev rq dr pv info tk link)"
  unfolding link_oauth_account_def by (intro site_frame keeps_user_updates keeps_accounts assms)

lemma keeps_complete_callback:
  assumes "m \<notin> {''user'', ''account'', ''session''}"
  shows "keeps (same_site_table m) (complete_callback es so ev rq od provider_id ps data)"
  unfolding complete_callback_def callback_link_def callback_sign_in_def Let_def
  using assms by (intro site_frame keeps_handle_user_info keeps_link_account keeps_start_session) auto

section \<open>A registered user\<close>

lemma parse_fields_keys:
  "parse_fields t data action fs p = Inr out \<Longrightarrow> map_of p k = None \<Longrightarrow> map_of fs k = None \<Longrightarrow> map_of out k = None"
  by (induction t data action fs p rule: parse_fields.induct) (auto split: option.splits if_splits)

text \<open>The memory adapter with a user table that takes the id and the address as they are, and no hooks.\<close>

definition plain_user_table :: "site \<Rightarrow> bool" where
  "plain_user_table es \<longleftrightarrow>
     native (store_ad es) \<and> ic_hooks (core es) = [] \<and> ''id'' \<notin> fst ` set (es_input_fields es ''user'') \<and>
     (case map_of (ad_schema (store_ad es)) ''user'' of
        None \<Rightarrow> False
      | Some fs \<Rightarrow> distinct (map fst fs) \<and> (case map_of fs ''email'' of None \<Rightarrow> True | Some f \<Rightarrow> f_transform_input f = None))"

lemma created_user:
  assumes "plain_user_table es" "map_of d ''id'' = Some (VStr i)" "map_of d ''email'' = Some (VStr e)"
  shows "\<exists>u. dget u ''id'' = VStr i \<and> dget u ''email'' = VStr e \<and>
    (\<forall>w. create_row (core es) ev ''user'' d True w =
      (Inr (Some u), w\<lparr>iw_db := set_rows ''user'' (rows_of (iw_db w) ''user'' @ [u]) (iw_db w)\<rparr>))"
proof -
  obtain fs where some: "map_of (ad_schema (store_ad es)) ''user'' = Some fs"
    using assms(1) by (cases "map_of (ad_schema (store_ad es)) ''user''") (auto simp: plain_user_table_def)
  with assms(1) have fs: "map_of (ad_schema (store_ad es)) ''user'' = Some fs" "distinct (map fst fs)"
      "\<And>f. map_of fs ''email'' = Some f \<Longrightarrow> f_transform_input f = None"
    and plain: "native (store_ad es)" "ic_hooks (core es) = []"
    by (simp_all add: plain_user_table_def)
  from transform_fields_spec[OF fs(2), of ev "ad_codec (store_ad es)" "''create''" d] obtain u where
    u: "transform_fields ev (ad_codec (store_ad es)) all_caps ''create'' fs d = Inr u"
      "\<And>k. map_of u k = (case map_of fs k of None \<Rightarrow> map_of d k | Some f \<Rightarrow> field_value ev ''create'' k f (map_of d k))"
    by blast
  have "transform_input (store_ad es) ev ''user'' d ''create'' = Inr u"
    using u(1) plain(1) fs(1) assms(2) by (simp add: transform_input_def native_def has_key_def)
  from mem_create_ok[OF plain(1) this] have "create_row (core es) ev ''user'' d True w =
      (Inr (Some u), w\<lparr>iw_db := set_rows ''user'' (rows_of (iw_db w) ''user'' @ [u]) (iw_db w)\<rparr>)" for w
    using plain(2) by (simp add: create_row_def int_create_def bindA_def on_db_def)
  moreover have "dget u ''id'' = VStr i" "dget u ''email'' = VStr e"
    using u(2)[of "''id''"] u(2)[of "''email''"] fs(3) assms(2,3)
    by (auto simp: dget_def field_value_def split: option.splits)
  ultimately show ?thesis by blast
qed

text \<open>A transaction that adds one row under a fresh id.\<close>

lemma by_id_append:
  assumes "str_ids (rs @ [u])"
  shows "by_id rs (dget u ''id'') = None"
proof -
  obtain i where i: "dget u ''id'' = VStr i" using assms by (auto simp: str_ids_def is_str_iff)
  have "\<not> py_eq (dget x ''id'') (dget u ''id'')" if "x \<in> set rs" for x
    using assms that by (auto simp: i str_ids_def row_ids_def) (metis imageI)
  then show ?thesis by (auto simp: by_id_def find_None_all)
qed

lemma merge_rows_append:
  assumes "str_ids (rs @ [u])"
  shows "merge_rows rs rs (rs @ [u]) = rs @ [u]"
proof -
  have ids: "str_ids rs" using assms by (simp add: str_ids_def row_ids_def)
  have clone: "by_id (rs @ [u]) (dget r ''id'') = Some r" if "r \<in> set rs" for r
    using by_id_unique[OF assms, of r] that by simp
  have "merge_live rs rs (rs @ [u]) = List.map_filter Some rs"
    unfolding merge_live_def
    by (rule map_filter_cong_set) (simp add: by_id_unique[OF ids] clone Let_def)
  also have "\<dots> = rs" by (induction rs) (simp_all add: map_filter_simps)
  finally have live: "merge_live rs rs (rs @ [u]) = rs" .
  have "\<not> placed_id rs rs (rs @ [u]) (dget u ''id'')"
    using by_id_append[OF assms] by (auto simp: placed_id_def by_id_def find_None_all list_ex_iff)
  then show ?thesis
    using by_id_append[OF assms] by_id_unique[OF ids] by (auto simp: merge_rows_def live filter_empty_conv)
qed

lemma transaction_appends:
  assumes ids: "str_ids (rows_of (iw_db w) m @ [u])"
    and out: "int_transaction ic ev act w = (Inr a, w')"
    and run: "\<And>w1 w2. iw_db w1 = iw_db w \<Longrightarrow> act w1 = (Inr a, w2) \<Longrightarrow>
      rows_of (iw_db w2) m = rows_of (iw_db w) m @ [u] \<and> map_of (iw_db w2) m \<noteq> None"
  shows "rows_of (iw_db w') m = rows_of (iw_db w) m @ [u]"
proof -
  obtain w1 where w1: "w1 = (if iw_queue w = None then w\<lparr>iw_queue := Some []\<rparr> else w)" by blast
  then have db1: "iw_db w1 = iw_db w" by simp
  obtain res w2 where act: "act w1 = (res, w2)" by (cases "act w1")
  let ?w3 = "w2\<lparr>iw_db := merge_transaction_into (iw_db w) (iw_db w) (iw_db w2)\<rparr>"
  have int: "int_transaction ic ev act w = (case res of
      Inl e \<Rightarrow> (Inl e, w2\<lparr>iw_db := iw_db w, iw_queue := (if iw_queue w = None then None else iw_queue w2)\<rparr>)
    | Inr b \<Rightarrow> if iw_queue w = None
        then bindA (flush ic ev (case iw_queue w2 of Some q \<Rightarrow> q | None \<Rightarrow> [])) (\<lambda>_. ret b) (?w3\<lparr>iw_queue := None\<rparr>)
        else (Inr b, ?w3))"
    using act unfolding int_transaction_def Let_def w1
    by (cases "iw_queue w") (simp_all split: sum.split)
  with out obtain b where b: "res = Inr b" by (cases res) (simp_all split: if_splits)
  have "b = a"
  proof (cases "iw_queue w")
    case None
    with int out b have "bindA (flush ic ev (case iw_queue w2 of Some q \<Rightarrow> q | None \<Rightarrow> [])) (\<lambda>_. ret b) (?w3\<lparr>iw_queue := None\<rparr>) = (Inr a, w')"
      by simp
    from bindA_const[OF this] show ?thesis by simp
  qed (use int out b in simp)
  from run[OF db1 act[unfolded b this]] have r: "rows_of (iw_db w2) m = rows_of (iw_db w) m @ [u]" "map_of (iw_db w2) m \<noteq> None"
    by simp_all
  have "m \<in> set (remdups (map fst (iw_db w) @ map fst (iw_db w2)))"
    using r(2) by (auto simp: map_of_eq_None_iff)
  from merge_models_rows[OF distinct_remdups this r(2)] merge_rows_append[OF ids] r(1)
  have merged: "rows_of (iw_db ?w3) m = rows_of (iw_db w) m @ [u]"
    by (simp add: merge_transaction_into_def)
  show ?thesis
  proof (cases "iw_queue w")
    case None
    let ?w4 = "?w3\<lparr>iw_queue := None\<rparr>"
    have "keeps (same_table m) (bindA (flush ic ev q) (\<lambda>_. ret b))" for q
      by (intro kept_table.keeps_bindA keeps_flush kept_table.keeps_ret)
    from keepsD[OF this, of "case iw_queue w2 of Some q \<Rightarrow> q | None \<Rightarrow> []" ?w4 "Inr a" w'] None int out b
    have "same_table m ?w4 w'" by simp
    then show ?thesis using merged ids by (simp add: same_table_def same_rows_def)
  qed (use int out b merged in simp)
qed

lemma transaction_result:
  assumes out: "int_transaction ic ev act w = (Inr a, w')"
    and run: "\<And>w1 w2. iw_db w1 = iw_db w \<Longrightarrow> act w1 = (Inr a, w2) \<Longrightarrow> Q a"
  shows "Q a"
proof -
  obtain w1 where w1: "w1 = (if iw_queue w = None then w\<lparr>iw_queue := Some []\<rparr> else w)" by blast
  obtain res w2 where act: "act w1 = (res, w2)" by (cases "act w1")
  have "res = Inr a"
    using out act by (cases res) (auto simp: int_transaction_def Let_def w1[symmetric] split: if_splits dest: bindA_const)
  moreover have "iw_db w1 = iw_db w" by (simp add: w1)
  ultimately show ?thesis using run act by blast
qed

lemma catch_raises:
  assumes "catchA m h w = (Inr a, w')" "\<And>e w1. fst (h e w1) \<noteq> Inr a"
  shows "m w = (Inr a, w')"
  using assms by (auto simp: catchA_def split: prod.splits sum.splits) (metis fst_conv)

text \<open>What a registration leaves in the user table.\<close>

lemma register_stores:
  assumes reg: "register_user es so ev dr pv info tk lo email w = (Inr (uid, is_new), w')"
    and plain: "plain_user_table es" "str_ids (table w ''user'')" "VStr (dr_user_id dr) \<notin> set (row_ids (table w ''user''))"
  shows "uid = VStr (dr_user_id dr) \<and>
    (\<exists>u. table w' ''user'' = table w ''user'' @ [u] \<and> dget u ''id'' = uid \<and> dget u ''email'' = VStr email)"
proof -
  have "\<not> lo_disable_sign_up lo" using reg by (auto simp: register_user_def)
  with reg obtain fs extra where fs: "token_fields so tk = Inr fs" and extra: "profile_user_fields es ev info ''create'' = Inr extra"
    by (auto simp: register_user_def elim!: bind_liftE)
  let ?data = "dmerge (dmerge [(''name'', py_or (oi_name info) (VStr [])), (''image'', oi_image info)] extra)
      [(''email'', VStr email), (''emailVerified'', VBool (oi_verified info)), (''createdAt'', VDate (now ev)), (''updatedAt'', VDate (now ev))]"
  let ?row = "dmerge [(''id'', VStr (dr_user_id dr))] ?data"
  let ?register = "bindA (liftR (check_user_info es ?data (lo_source lo) ''create-user'')) (\<lambda>_.
      bindA (create_row (core es) ev ''user'' ?row True) (\<lambda>created.
        case created of
          None \<Rightarrow> raise (RuntimeError ''user creation was aborted'')
        | Some u \<Rightarrow> bindA (liftR (dindex u ''id'')) (\<lambda>uid.
            bindA (create_oauth_account es ev (dr_account_id dr) pv info fs uid) (\<lambda>account. ret (u, account)))))"
  have "map_of (es_input_fields es ''user'') ''id'' = None" using plain(1) by (simp add: map_of_eq_None_iff plain_user_table_def)
  then have "map_of extra ''id'' = None"
    using parse_fields_keys[of "now ev" _ "''create''" "es_input_fields es ''user''" "[]" extra "''id''"] extra
    by (simp add: profile_user_fields_def parse_input_data_def Let_def)
  then have no_id: "map_of (dmerge [(''name'', py_or (oi_name info) (VStr [])), (''image'', oi_image info)] extra) ''id'' = None"
    by (simp add: map_of_eq_None_iff keys_dmerge del: dmerge.simps)
  have "distinct (map fst ?data)" by (intro distinct_dmerge) simp
  then have row: "map_of ?row ''id'' = Some (VStr (dr_user_id dr))" "map_of ?row ''email'' = Some (VStr email)"
    using no_id by (simp_all add: map_of_dmerge map_add_def del: dmerge.simps)
  from created_user[OF plain(1) row, of ev] obtain u where
    u: "dget u ''id'' = VStr (dr_user_id dr)" "dget u ''email'' = VStr email"
    and created: "\<And>w. create_row (core es) ev ''user'' ?row True w =
      (Inr (Some u), w\<lparr>iw_db := set_rows ''user'' (rows_of (iw_db w) ''user'' @ [u]) (iw_db w)\<rparr>)" by blast
  have uid_u: "dindex u ''id'' = Inr (VStr (dr_user_id dr))" using u(1) by (intro dindex_dget) simp_all
  have ids: "str_ids (table w ''user'' @ [u])"
    using plain(2,3) u(1) by (auto simp: str_ids_def row_ids_def is_str_def)
  have run: "p = (u, snd p) \<and> rows_of (iw_db w2) ''user'' = table w ''user'' @ [u] \<and> map_of (iw_db w2) ''user'' \<noteq> None"
    if same: "iw_db w1 = iw_db (sw_int w)" and act: "?register w1 = (Inr p, w2)" for w1 w2 p
  proof -
    let ?wu = "w1\<lparr>iw_db := set_rows ''user'' (rows_of (iw_db w1) ''user'' @ [u]) (iw_db w1)\<rparr>"
    from act obtain account where acc: "create_oauth_account es ev (dr_account_id dr) pv info fs (VStr (dr_user_id dr)) ?wu = (Inr account, w2)"
        and p: "p = (u, account)"
      by (auto simp: bindA_def[of "create_row ic ev m d f" for ic ev m d f] created uid_u ret_def elim!: bind_liftE bindA_InrE simp del: dmerge.simps)
    have rows: "rows_of (iw_db ?wu) ''user'' = table w ''user'' @ [u]" by (simp add: same table_def)
    have "same_table ''user'' ?wu w2" by (rule keepsD[OF keeps_accounts(1) acc]) simp
    then have "same_rows ''user'' (iw_db ?wu) (iw_db w2)" using ids rows by (simp add: same_table_def)
    with rows p show ?thesis by (simp add: same_rows_def set_rows_def)
  qed
  have "bindA (catchA (on_core (int_transaction (core es) ev ?register))
      (\<lambda>e. case e of APIError _ _ _ _ \<Rightarrow> raise e | _ \<Rightarrow> raise (OAuthLinkError ''unable_to_create_user'' None)))
      (\<lambda>(u, account). bindA (liftR (dindex u ''id'')) (\<lambda>uid.
        bindA (if lo_exact lo then liftR (exact_binding account pv info uid) else ret ()) (\<lambda>_.
        bindA (require_verified es so ev pv u True (lo_callback lo)) (\<lambda>_. ret (uid, True))))) w = (Inr (uid, is_new), w')"
    using reg \<open>\<not> lo_disable_sign_up lo\<close> by (simp add: register_user_def fs extra Let_def bind_lift del: dmerge.simps)
  from bindA_InrE[OF this] obtain p wa where
    caught: "catchA (on_core (int_transaction (core es) ev ?register))
        (\<lambda>e. case e of APIError _ _ _ _ \<Rightarrow> raise e | _ \<Rightarrow> raise (OAuthLinkError ''unable_to_create_user'' None)) w = (Inr p, wa)"
    and rest: "(case p of (u, account) \<Rightarrow> bindA (liftR (dindex u ''id'')) (\<lambda>uid.
        bindA (if lo_exact lo then liftR (exact_binding account pv info uid) else ret ()) (\<lambda>_.
        bindA (require_verified es so ev pv u True (lo_callback lo)) (\<lambda>_. ret (uid, True))))) wa = (Inr (uid, is_new), w')" .
  have tx: "on_core (int_transaction (core es) ev ?register) w = (Inr p, wa)"
    by (rule catch_raises[OF caught]) (simp split: exn.split)
  then obtain wi where int: "int_transaction (core es) ev ?register (sw_int w) = (Inr p, wi)" and wa: "wa = w\<lparr>sw_int := wi\<rparr>"
    by (auto simp: on_core_def split: prod.splits)
  have "rows_of (iw_db wi) ''user'' = rows_of (iw_db (sw_int w)) ''user'' @ [u]"
    by (rule transaction_appends[OF _ int]) (use ids run in \<open>auto simp: table_def\<close>)
  then have rows: "table wa ''user'' = table w ''user'' @ [u]" by (simp add: wa table_def)
  have p: "fst p = u"
  proof (rule transaction_result[OF int, where Q = "\<lambda>p. fst p = u"])
    fix w1 w2 assume "iw_db w1 = iw_db (sw_int w)" "?register w1 = (Inr p, w2)"
    from run[OF this] have "p = (u, snd p)" by blast
    then show "fst p = u" by (metis fst_conv)
  qed
  from rest p obtain w3 where uid: "uid = VStr (dr_user_id dr)" and req: "require_verified es so ev pv u True (lo_callback lo) wa = (Inr (), w3)"
    and w3: "w3 = w'"
    by (cases p) (auto simp: uid_u elim!: bind_liftE bindA_InrE split: if_splits)
  have "same_site_table ''user'' wa w'" using keepsD[OF keeps_require_verified req] w3 by simp
  from same_site_tableD[OF this] rows ids have "table w' ''user'' = table w ''user'' @ [u]" by simp
  with uid u show ?thesis by auto
qed

text \<open>
  C32: Whom social sign-in signs in. When a provider profile is accepted, then either its account, by the
  exact pair of provider and subject, was there and the sign-in is that of its user; or there was no such
  account, the address belonged to nobody, sign-up was open and a user is registered; or there was no such
  account, the address was that of a user, and linking was allowed: the provider vouches for the address
  or is trusted by name, and the user had proved the address too where that is required. On the memory
  adapter without database hooks and with a fresh id drawn, registering adds exactly one row to the user
  table, with that id and the profile's address, and the sign-in is that of this new user. (The options that
  copy the profile over the user are off, and no resolver chose a user.)
\<close>

theorem social_user_identified:
  assumes "native (store_ad es)" "keeps_profile so pv lo"
    and "handle_oauth_user_info es so ev rq dr pv info tk lo w = (Inr (uid, is_new), w')"
  shows "\<exists>email. lower_or_empty (oi_email info) = Inr email \<and>
    ((\<exists>a. filter (of_subject pv info) (table w ''account'') = [a] \<and> \<not> is_new \<and> uid = dget a ''userId'' \<and>
        (\<exists>u\<in>set (table w ''user''). is_field u ''id'' uid)) \<or>
     filter (of_subject pv info) (table w ''account'') = [] \<and> is_new \<and> \<not> lo_disable_sign_up lo \<and>
        (email \<noteq> [] \<longrightarrow> (\<forall>u\<in>set (table w ''user''). dget u ''email'' \<noteq> VStr email)) \<and>
        (plain_user_table es \<longrightarrow> str_ids (table w ''user'') \<longrightarrow> VStr (dr_user_id dr) \<notin> set (row_ids (table w ''user'')) \<longrightarrow>
           uid = VStr (dr_user_id dr) \<and>
           (\<exists>u. table w' ''user'' = table w ''user'' @ [u] \<and> dget u ''id'' = uid \<and> dget u ''email'' = VStr email)) \<or>
     filter (of_subject pv info) (table w ''account'') = [] \<and> \<not> is_new \<and> email \<noteq> [] \<and>
        so_linking so \<and> \<not> so_no_implicit so \<and> (trusted_provider so rq pv lo = Inr True \<or> oi_verified info) \<and>
        (\<exists>u\<in>set (table w ''user''). dget u ''email'' = VStr email \<and> uid = dget u ''id'' \<and>
           (so_local_verified so \<longrightarrow> py_truthy (dget u ''emailVerified''))))"
proof -
  have unselected: "lo_selected lo = None" using assms(2) by (simp add: keeps_profile_def)
  from assms(3)[unfolded handle_oauth_user_info_def unselected option.case] obtain email owner w1 where
    email: "lower_or_empty (oi_email info) = Inr email"
    and tried: "catchA (on_core (find_account_owner_by_key (core es) (pv_id pv) (oi_id info)))
        (\<lambda>_. raise (database_error es so)) w = (Inr owner, w1)"
    and rest: "(case owner of
        Some (account, user) \<Rightarrow> returning_user es so ev pv info tk lo email account user
      | None \<Rightarrow>
          bindA (catchA (if email \<noteq> [] then find_user_by_email es (VStr email) else ret None) (\<lambda>_. raise (database_error es so)))
            (\<lambda>found. case found of
               None \<Rightarrow> if (None :: (pyval \<times> bool) option) \<noteq> None then raise (api_error 404 ''user_not_found'' ''User not found'')
                 else register_user es so ev dr pv info tk lo email
             | Some user \<Rightarrow> link_existing es so ev rq dr pv info tk lo email user)) w1 = (Inr (uid, is_new), w')"
    by (elim bind_liftE bindA_InrE) (rule that, assumption+)
  note found = find_owner_cases[OF assms(1) catch_raise[OF tried]]
  show ?thesis
  proof (cases owner)
    case (Some p)
    obtain account user where p: "p = (account, user)" by (cases p)
    with rest Some have "returning_user es so ev pv info tk lo email account user w1 = (Inr (uid, is_new), w')" by simp
    from returning_identified[OF this] found Some p email find_Some_in[of _ "table w ''user''"] show ?thesis by auto
  next
    case None
    with found have w1: "w1 = w" and new: "filter (of_subject pv info) (account_rows w) = []" by auto
    let ?u = "if email \<noteq> [] then List.find (\<lambda>u. is_field u ''email'' (VStr email)) (table w ''user'') else None"
    have "catchA (if email \<noteq> [] then find_user_by_email es (VStr email) else ret None) (\<lambda>_. raise (database_error es so)) w
        = (Inr ?u, w)"
      using find_user_step[OF assms(1), of "VStr email" ret w] by (auto simp: catchA_def bindA_def ret_def split: prod.splits sum.splits)
    with rest None w1 have run: "(case ?u of None \<Rightarrow> register_user es so ev dr pv info tk lo email
        | Some user \<Rightarrow> link_existing es so ev rq dr pv info tk lo email user) w = (Inr (uid, is_new), w')"
      by (simp add: bindA_def)
    show ?thesis
    proof (cases ?u)
      case None
      with run have "register_user es so ev dr pv info tk lo email w = (Inr (uid, is_new), w')" by simp
      from register_identified[OF this] register_stores[OF this] None new email show ?thesis
        by (auto simp: find_None_iff split: if_splits)
    next
      case (Some u)
      with run have "link_existing es so ev rq dr pv info tk lo email u w = (Inr (uid, is_new), w')" by simp
      from link_identified[OF this assms(2)] obtain trusted where t: "trusted_provider so rq pv lo = Inr trusted"
          "refuses_link so info lo trusted u = Inr False" "\<not> is_new" "uid = dget u ''id''" .
      from refuses_link_False[OF t(2) unselected] t Some new email find_Some_in[of _ "table w ''user''" u] show ?thesis
        by (auto split: if_splits)
    qed
  qed
qed

section \<open>The state of a flow\<close>

lemma find_value_plain:
  assumes "plain_values (core es)" "date_column ''createdAt'' (table w ''verification'')"
  shows "on_core (find_verification_value (core es) ev st) w = (Inr (latest_row (table w ''verification'') st), w)"
proof -
  note plain = plain_valuesD[OF assms(1)]
  have "latest_verification (core es) st (sw_int w) = (Inr (latest_row (verif_rows (sw_int w)) st), sw_int w)"
    using latest_verification_eq[OF plain(1)] assms(2) by (simp add: verif_rows_def table_def)
  then show ?thesis
    using plain by (simp add: find_verification_value_def on_core_def bindA_def id_is_set_def verif_rows_def table_def)
qed

lemma delete_value_plain:
  assumes "plain_values (core es)"
  shows "on_core (delete_verification_by_identifier (core es) st) w =
    (Inr (), with_rows ''verification'' (without st (table w ''verification'')) w)"
proof -
  note plain = plain_valuesD[OF assms]
  have aborts: "any_aborts (core es) m rs = Inr False" for m rs
    using plain(2) by (induction rs) (simp_all add: run_before_def map_filter_simps)
  have each: "queue_after_each (core es) m rs u = (Inr (), u)" for m rs u
    using plain(2) by (induction rs) (simp_all add: queue_after_def after_fns_def map_filter_simps bindA_def)
  have sel: "sel [Where ''identifier'' (VStr st)] = has_identifier st"
    by (rule ext) (simp add: has_identifier_def)
  show ?thesis
    using plain by (simp add: delete_verification_by_identifier_def int_delete_many_def bindA_def on_core_def on_db_def catchA_def
        mem_find_many_safe mem_delete_many_safe aborts each sel[unfolded has_identifier_def[abs_def]] has_identifier_def without_def with_rows_def table_def)
qed

text \<open>A state that is not there, not of this browser or not readable leaves everything as it is.\<close>

definition state_usable :: "site \<Rightarrow> social_conf \<Rightarrow> env \<Rightarrow> request \<Rightarrow> row list \<Rightarrow> string \<Rightarrow> bool" where
  "state_usable es so ev rq rs st \<longleftrightarrow>
     (so_skip_cookie so \<or> cookie_matches es rq st) \<and>
     (\<exists>r d x. latest_row rs st = Some r \<and> state_data es so r = Inr d \<and> state_expiry (dget d ''expiresAt'') = Inr x \<and>
        dt_ms (now ev) \<le> x)"

lemma parse_state_cases:
  assumes "plain_values (core es)" "date_column ''createdAt'' (table w ''verification'')"
    and "parse_state es so ev rq st None w = (res, w')"
  shows "(\<exists>e. res = Inl e) \<and> (w' = w \<or> w' = with_rows ''verification'' (without st (table w ''verification'')) w) \<or>
    state_usable es so ev rq (table w ''verification'') st \<and>
    w' = with_rows ''verification'' (without st (table w ''verification'')) w"
proof (cases "latest_row (table w ''verification'') st")
  case None
  with assms find_value_plain[OF assms(1,2)] show ?thesis by (auto simp: parse_state_def bindA_def)
next
  case (Some r)
  note run = assms(3)[unfolded parse_state_def bindA_def[of "on_core m" for m] find_value_plain[OF assms(1,2)] Some]
  show ?thesis
  proof (cases "state_data es so r")
    case (Inl e)
    with run have "res = Inl e" "w' = w" by (simp_all add: bind_lift)
    then show ?thesis by blast
  next
    case (Inr d)
    with run Some delete_value_plain[OF assms(1)] show ?thesis
      by (auto simp: bind_lift state_usable_def Let_def split: sum.splits if_splits)
  qed
qed

lemma keeps_verification_writes:
  assumes "m \<noteq> ''verification''"
  shows "keeps (same_site_table m) (idp_initiated_bounce es so ev od server pv)"
    "keeps (same_site_table m) (parse_state es so ev rq st skip)"
proof -
  have kv: "keeps (same_table m) (store_verification_kv (core es) ev i v)" for i v
    unfolding store_verification_kv_def Let_def by (intro table_frame)
  have create: "keeps (same_table m) (create_verification_value (core es) ev d f)" for d f
    unfolding create_verification_value_def Let_def
    by (intro table_frame) (use assms kv in \<open>auto split: pyval.split intro!: table_frame keeps_int_create split: if_splits\<close>)
  show "keeps (same_site_table m) (idp_initiated_bounce es so ev od server pv)"
    unfolding idp_initiated_bounce_def create_state_def Let_def by (intro site_frame keeps_attempt create)
  have "keeps (same_table m) (find_verification_value (core es) ev st)"
    unfolding find_verification_value_def latest_verification_def cached_verification_def Let_def
    by (intro table_frame)
  moreover have "keeps (same_table m) (delete_verification_by_identifier (core es) st)"
    unfolding delete_verification_by_identifier_def Let_def using assms by (intro table_frame keeps_int_delete_many) auto
  ultimately show "keeps (same_site_table m) (parse_state es so ev rq st skip)"
    unfolding parse_state_def Let_def by (intro site_frame)
qed

lemma keeps_run_callback:
  assumes "m \<notin> {''user'', ''account'', ''session''}"
  shows "keeps (same_site_table m) (run_callback es so ev rq od provider_id ps data)"
proof -
  have "keeps (same_site_table m) (case e of CallbackError code url description \<Rightarrow> liftR (f code url description) | _ \<Rightarrow> raise e)"
    for e f by (cases e) (simp_all add: kept_site.keeps_raise kept_site.keeps_liftR)
  then show ?thesis unfolding run_callback_def by (intro site_frame keeps_complete_callback assms)
qed

text \<open>
  A callback gets past its state only with a usable one, and then the rows of the state are gone.
\<close>

lemma callback_cases:
  assumes "plain_values (core es)" "date_column ''createdAt'' (table w ''verification'')"
    and "oauth_callback es so ev rq b od server provider_id w = (res, w')"
  shows "(\<forall>m. m \<noteq> ''verification'' \<longrightarrow> same_site_table m w w') \<or>
    (\<exists>w1. state_usable es so ev rq (table w ''verification'') (param (callback_params rq b) ''state'') \<and>
      w1 = with_rows ''verification'' (without (param (callback_params rq b) ''state'') (table w ''verification'')) w \<and>
      same_site_table ''verification'' w1 w')"
proof -
  let ?st = "param (callback_params rq b) ''state''"
  let ?gone = "with_rows ''verification'' (without ?st (table w ''verification'')) w"
  have same: "same_site_table m w ?gone" if "m \<noteq> ''verification''" for m
    using that same_rows_set[of "''verification''" m] by (simp add: same_site_table_def same_table_def with_rows_def)
  obtain pres w1 where parse: "parse_state es so ev rq ?st None w = (pres, w1)" by (cases "parse_state es so ev rq ?st None w")
  have w1: "(\<exists>e. pres = Inl e) \<and> (w1 = w \<or> w1 = ?gone) \<or> state_usable es so ev rq (table w ''verification'') ?st \<and> w1 = ?gone"
    by (rule parse_state_cases[OF assms(1,2) parse])
  consider (quiet) "w' = w" | (bounce) pv where "idp_initiated_bounce es so ev od server pv w = (res, w')"
    | (refused) e where "pres = Inl e" "w' = w1"
    | (goes) data where "pres = Inr data" "run_callback es so ev rq od provider_id (callback_params rq b) data w1 = (res, w')"
  proof (cases "may_bounce so provider_id (callback_params rq b)")
    case (Inr found)
    show ?thesis
    proof (cases "found = None \<and> ?st \<noteq> []")
      case True
      then show ?thesis
        using assms(3) Inr that(3,4) parse
        by (cases pres) (auto simp: oauth_callback_def bindA_def catchA_def Let_def split: exn.splits prod.splits sum.splits)
    qed (use assms(3) Inr that(1,2) in \<open>auto simp: oauth_callback_def bind_lift Let_def split: option.splits if_splits\<close>)
  qed (use assms(3) that(1) in \<open>simp add: oauth_callback_def bind_lift Let_def\<close>)
  then show ?thesis
  proof cases
    case bounce
    then show ?thesis using keepsD[OF keeps_verification_writes(1)] by blast
  next
    case refused
    with w1 same show ?thesis by (auto intro: kept_site.same_refl)
  next
    case goes
    with w1 have "w1 = ?gone" "state_usable es so ev rq (table w ''verification'') ?st" by auto
    moreover have "same_site_table ''verification'' w1 w'" using keepsD[OF keeps_run_callback goes(2)] by simp
    ultimately show ?thesis by blast
  qed (auto intro: kept_site.same_refl)
qed

text \<open>
  C33: a callback needs a flow that this browser started, and uses it up. When a callback changes anything
  besides verification values, its state is stored and has not expired, and, unless the options say
  \<open>skip_state_cookie_check\<close>, the request carries the cookie signed for that very state; afterwards the state is gone, and another callback with it, from any browser
  and at any time, changes nothing besides verification values.
\<close>

theorem callback_needs_state:
  assumes "plain_values (core es)" "date_column ''createdAt'' (table w ''verification'')"
    and "str_ids (table w ''verification'')"
    and "oauth_callback es so ev rq b od server provider_id w = (res, w')"
    and "m \<noteq> ''verification''" "\<not> same_site_table m w w'"
  shows "(so_skip_cookie so \<or> (case get_cookie (es_auth es) rq ''state'' of
      None \<Rightarrow> False
    | Some raw \<Rightarrow> unsign_value (au_hmac (es_auth es)) (au_secret (es_auth es)) raw = Some (param (callback_params rq b) ''state''))) \<and>
    (\<exists>r d x. r \<in> set (table w ''verification'') \<and> dget r ''identifier'' = VStr (param (callback_params rq b) ''state'') \<and>
      state_data es so r = Inr d \<and> state_expiry (dget d ''expiresAt'') = Inr x \<and> dt_ms (now ev) \<le> x) \<and>
    (\<forall>r\<in>set (table w' ''verification''). dget r ''identifier'' \<noteq> VStr (param (callback_params rq b) ''state'')) \<and>
    (\<forall>ev' rq' b' od' server' provider_id' m'. param (callback_params rq' b') ''state'' = param (callback_params rq b) ''state'' \<longrightarrow>
      m' \<noteq> ''verification'' \<longrightarrow>
      same_site_table m' w' (snd (oauth_callback es so ev' rq' b' od' server' provider_id' w')))"
proof -
  let ?st = "param (callback_params rq b) ''state''"
  from callback_cases[OF assms(1,2,4)] assms(5,6) obtain w1 where
    usable: "state_usable es so ev rq (table w ''verification'') ?st"
    and w1: "w1 = with_rows ''verification'' (without ?st (table w ''verification'')) w" "same_site_table ''verification'' w1 w'"
    by blast
  have rows: "table w' ''verification'' = without ?st (table w ''verification'')"
    using same_site_tableD[OF w1(2)] str_ids_filter[OF assms(3)] by (simp add: w1(1) without_def)
  then have gone: "\<not> has_identifier ?st r" if "r \<in> set (table w' ''verification'')" for r
    using that by (simp add: without_def)
  have dates: "date_column ''createdAt'' (table w' ''verification'')"
    using assms(2) rows by (auto simp: date_column_def without_def list_all_iff)
  have again: "same_site_table m' w' (snd (oauth_callback es so ev' rq' b' od' server' provider_id' w'))"
    if "param (callback_params rq' b') ''state'' = ?st" "m' \<noteq> ''verification''" for ev' rq' b' od' server' provider_id' m'
  proof (cases "oauth_callback es so ev' rq' b' od' server' provider_id' w'")
    case (Pair res' w'')
    have "\<not> state_usable es so ev' rq' (table w' ''verification'') ?st"
      using gone latest_row_in by (fastforce simp: state_usable_def)
    with callback_cases[OF assms(1) dates Pair] that show ?thesis by (auto simp: Pair)
  qed
  from usable latest_row_in gone again show ?thesis
    unfolding state_usable_def cookie_matches_def has_identifier_def by blast
qed

section \<open>A flow can be finished\<close>

definition state_row :: "env \<Rightarrow> string \<Rightarrow> string \<Rightarrow> string \<Rightarrow> int \<Rightarrow> row" where
  "state_row ev rid st v x =
     [(''createdAt'', VDate (now ev)), (''updatedAt'', VDate (now ev)), (''identifier'', VStr st), (''value'', VStr v),
      (''expiresAt'', VDate x), (''id'', VStr rid)]"

lemma state_input:
  assumes "plain_values ic" "resolve_generated_id ev ''verification'' (ad_generate_id (ic_ad ic)) = Some rid"
  shows "transform_input (ic_ad ic) ev ''verification''
      (ddrop ''id'' (dset ''identifier'' (VStr st) (stamped ev [(''identifier'', VStr st), (''value'', VStr v), (''expiresAt'', VDate x)])))
    ''create'' = Inr (state_row ev rid st v x)"
  using assms
  by (simp add: plain_values_def transform_input_def native_def CORE_SCHEMA_def Let_def mk_field_def id_field_def has_key_def
      created_at_field_def updated_at_field_def stamped_def state_row_def dset_Cons ddrop_def has_default_def)

lemma create_state_plain:
  assumes "plain_values (core es)" "resolve_generated_id ev ''verification'' (ad_generate_id (store_ad es)) = Some rid"
  shows "create_state es so ev od server fl w =
    (Inr (state_payload ev od server fl),
     with_rows ''verification'' (table w ''verification'' @
       [state_row ev rid (od_state od) (so_dumps so (dset ''oauthState'' (VStr (od_state od)) (state_payload ev od server fl)))
          (now ev + STATE_EXPIRES_IN * 1000000)]) w)"
proof -
  note plain = plain_valuesD[OF assms(1)]
  have "queue_after (core es) m oper p u = (Inr (), u)" for m oper p u
    using plain(2) by (simp add: queue_after_def after_fns_def map_filter_simps)
  moreover have "run_before (core es) m oper d = Inr (d, False)" for m oper d
    using plain(2) by (simp add: run_before_def map_filter_simps)
  ultimately show ?thesis
    using mem_create_ok[OF plain(1) state_input[OF assms]] plain(3,6)
    by (simp add: create_state_def attempt_def catchA_def create_verification_value_def int_create_def bindA_def on_core_def
        on_db_def with_rows_def table_def dindex_def Let_def)
qed

text \<open>What the payload says under the keys of the flow, whatever the client sends.\<close>

lemma payload_own:
  "dget (state_payload ev od server fl) ''callbackURL'' = fl_callback fl"
  "dget (state_payload ev od server fl) ''codeVerifier'' = VStr (od_verifier od)"
  "dget (state_payload ev od server fl) ''errorURL'' = fl_error fl"
  "dget (state_payload ev od server fl) ''link'' = fl_link fl"
  "dget (state_payload ev od server fl) ''requestSignUp'' = fl_sign_up fl"
  "dget (state_payload ev od server fl) ''serverContext'' = (if server = [] then VNone else VDict server)"
  "dget (state_payload ev od server fl) ''expiresAt'' = VInt (dt_ms (now ev) + STATE_EXPIRES_IN * 1000)"
  "dget (state_payload ev od server fl) ''oauthState'' = VNone"
proof -
  have client: "dget (client_keys fl) k = VNone" if "k \<in> set INTERNAL_STATE_KEYS" for k
    using that by (auto simp: client_keys_def dget_def map_of_filter_key split: pyval.split)
  have distinct: "distinct (map fst (flow_keys ev od server fl))" by (simp add: flow_keys_def)
  have given: "map_of (filter (\<lambda>(k, v). v \<noteq> VNone) own) k = (case map_of own k of Some v \<Rightarrow> if v = VNone then None else Some v | None \<Rightarrow> None)"
    if "distinct (map fst own)" for own :: row and k
    using that by (induction own) (auto simp: map_of_eq_None_iff split: option.splits)
  have own: "dget (state_payload ev od server fl) k = dget (flow_keys ev od server fl) k" if "k \<in> set INTERNAL_STATE_KEYS" for k
    using client[OF that] dget_dmerge[OF distinct_map_filter[OF distinct], of "client_keys fl" "\<lambda>(k, v). v \<noteq> VNone" k]
    by (auto simp: state_payload_def given[OF distinct] dget_def split: option.split)
  show "dget (state_payload ev od server fl) ''callbackURL'' = fl_callback fl"
    "dget (state_payload ev od server fl) ''codeVerifier'' = VStr (od_verifier od)"
    "dget (state_payload ev od server fl) ''errorURL'' = fl_error fl"
    "dget (state_payload ev od server fl) ''link'' = fl_link fl"
    "dget (state_payload ev od server fl) ''requestSignUp'' = fl_sign_up fl"
    "dget (state_payload ev od server fl) ''serverContext'' = (if server = [] then VNone else VDict server)"
    "dget (state_payload ev od server fl) ''expiresAt'' = VInt (dt_ms (now ev) + STATE_EXPIRES_IN * 1000)"
    "dget (state_payload ev od server fl) ''oauthState'' = VNone"
    by (simp_all add: own INTERNAL_STATE_KEYS_def flow_keys_def dget_Cons)
qed

lemma latest_row_new:
  assumes "\<forall>r\<in>set rs. \<not> has_identifier st r" "has_identifier st r"
  shows "latest_row (rs @ [r]) st = Some r"
  using assms by (simp add: latest_row_def)

lemma lift_legacy_own:
  assumes "k \<in> set INTERNAL_STATE_KEYS"
  shows "dget (lift_legacy d) k = dget d k"
proof -
  have "map_of (filter (\<lambda>(k, v). k \<notin> set INTERNAL_STATE_KEYS \<and> k \<notin> fst ` set d) x) k = None" for x :: row
    using assms map_of_filter_key[of "\<lambda>k. k \<notin> set INTERNAL_STATE_KEYS \<and> k \<notin> fst ` set d" x k] by simp
  then show ?thesis by (auto simp: lift_legacy_def dget_def map_add_def split: pyval.split option.split)
qed

text \<open>
  C34: a flow that was started can be finished. Where a state is written, any later callback with it, within
  its ten minutes and from the browser that holds its cookie, gets past the state, and finds what the server
  put there: the callback and error URLs, the PKCE verifier, the user to link, whether sign-up was asked
  for, and the server's own context. Nothing that the client sends as additional data changes these.
\<close>

theorem started_flow_resumes:
  assumes "plain_values (core es)" "date_column ''createdAt'' (table w ''verification'')"
    and "resolve_generated_id ev ''verification'' (ad_generate_id (store_ad es)) = Some rid"
    and "\<forall>r\<in>set (table w ''verification''). dget r ''identifier'' \<noteq> VStr (od_state od)"
    and "stored = dset ''oauthState'' (VStr (od_state od)) (state_payload ev od server fl)"
    and "so_loads so (so_dumps so stored) = Some (VDict stored)"
    and "hmac_256 (au_hmac (es_auth es))" "od_state od \<noteq> []" "\<forall>c\<in>set (od_state od). (of_char c :: nat) < 128"
    and "get_cookie (es_auth es) rq' ''state'' =
      Some (sign_value (au_hmac (es_auth es)) (au_secret (es_auth es)) (od_state od))"
    and "dt_ms (now ev') \<le> dt_ms (now ev) + STATE_EXPIRES_IN * 1000"
  shows "\<exists>payload w1 data w2. create_state es so ev od server fl w = (Inr payload, w1) \<and>
    parse_state es so ev' rq' (od_state od) None w1 = (Inr data, w2) \<and>
    dget data ''callbackURL'' = fl_callback fl \<and> dget data ''codeVerifier'' = VStr (od_verifier od) \<and>
    dget data ''errorURL'' = py_or (fl_error fl) (VStr (oauth_error_url es so)) \<and> dget data ''link'' = fl_link fl \<and>
    dget data ''requestSignUp'' = fl_sign_up fl \<and>
    dget data ''serverContext'' = (if server = [] then VNone else VDict server)"
proof -
  let ?row = "state_row ev rid (od_state od) (so_dumps so stored) (now ev + STATE_EXPIRES_IN * 1000000)"
  let ?w1 = "with_rows ''verification'' (table w ''verification'' @ [?row]) w"
  have create: "create_state es so ev od server fl w = (Inr (state_payload ev od server fl), ?w1)"
    using create_state_plain[OF assms(1,3)] assms(5) by simp
  have dates: "date_column ''createdAt'' (table ?w1 ''verification'')"
    using assms(2) by (simp add: date_column_def state_row_def dget_Cons is_date_def)
  have latest: "latest_row (table ?w1 ''verification'') (od_state od) = Some ?row"
    using latest_row_new[of "table w ''verification''" "od_state od" ?row] assms(4)
    by (simp add: has_identifier_def state_row_def dget_Cons)
  have data: "state_data es so ?row = Inr stored"
    using assms(6) by (simp add: state_data_def state_row_def dindex_def)
  have cookie: "cookie_matches es rq' (od_state od)"
    using unsign_sign[OF assms(7-9)] assms(10) by (simp add: cookie_matches_def)
  have expiry: "state_expiry (dget stored ''expiresAt'') = Inr (dt_ms (now ev) + STATE_EXPIRES_IN * 1000)"
    by (simp add: assms(5) payload_own state_expiry_def)
  define url where "url = py_or (dget stored ''errorURL'') (VStr (oauth_error_url es so))"
  let ?data = "lift_legacy (dset ''errorURL'' url stored)"
  have parse: "\<exists>w2. parse_state es so ev' rq' (od_state od) None ?w1 = (Inr ?data, w2)"
    using find_value_plain[OF assms(1) dates] delete_value_plain[OF assms(1)] latest data cookie expiry assms(5,11)
    by (simp add: parse_state_def bindA_def[of "on_core m" for m] bind_lift Let_def url_def payload_own)
  have keys: "dget ?data k = (if k = ''errorURL'' then url else dget stored k)" if "k \<in> set INTERNAL_STATE_KEYS" for k
    using lift_legacy_own[OF that] by simp
  have "dget ?data ''callbackURL'' = fl_callback fl" "dget ?data ''codeVerifier'' = VStr (od_verifier od)"
    "dget ?data ''errorURL'' = py_or (fl_error fl) (VStr (oauth_error_url es so))" "dget ?data ''link'' = fl_link fl"
    "dget ?data ''requestSignUp'' = fl_sign_up fl"
    "dget ?data ''serverContext'' = (if server = [] then VNone else VDict server)"
    by (simp_all only: keys[unfolded INTERNAL_STATE_KEYS_def] list.set insert_iff simp_thms refl if_True)
      (simp_all add: assms(5) payload_own url_def)
  with create parse show ?thesis by blast
qed

end
