(* ===== verification/OAuth_Demo.thy ===== *)
theory OAuth_Demo
  imports OAuth_Claims Endpoint_Demo
begin

text \<open>A concrete provider, at which the hypotheses of the claims on social sign-in hold.\<close>

definition demo_profile :: oauth_info where
  "demo_profile = \<lparr>oi_id = ''77'', oi_email = VStr ''Ann@a.io'', oi_name = VStr ''Ann'', oi_image = VNone, oi_verified = True,
     oi_raw = [], oi_extra = []\<rparr>"

definition demo_provider :: oauth_provider where
  "demo_provider = \<lparr>pv_id = ''github'', pv_redirect_uri = [], pv_callback_path = [], pv_issuer = [], pv_require_issuer = False,
     pv_binds_nonce = False, pv_idp_initiated = False, pv_require_verified = False, pv_disable_sign_up = False,
     pv_disable_implicit = False, pv_override = False, pv_refreshes = True, pv_takes_id_token = False, pv_ready = Inr True,
     pv_authorize = (\<lambda>_. Inr ''https://github.com/login''), pv_exchange = (\<lambda>_ _ _. Inr (Some no_tokens)),
     pv_fetch_user = (\<lambda>_. Inr demo_profile), pv_verify_id_token = (\<lambda>_ _. Inr None),
     pv_claims_info = (\<lambda>_. Inr demo_profile), pv_id_token_info = None, pv_refresh = (\<lambda>_. Inr no_tokens)\<rparr>"

definition demo_state :: row where
  "demo_state = [(''callbackURL'', VStr ''/home''), (''codeVerifier'', VStr ''ver''), (''expiresAt'', VInt 900000),
     (''oauthState'', VStr ''xyz'')]"

definition demo_social :: social_conf where
  "demo_social = \<lparr>so_providers = [(''github'', demo_provider)], so_encrypt_tokens = False, so_update_account = False,
     so_trusted_names = TrustedNames [], so_linking = True, so_different_emails = False, so_local_verified = True,
     so_no_implicit = False, so_update_user = False, so_skip_cookie = False, so_error_url = [],
     so_ciphers = \<lparr>cx_secret = PlainSecret ''k'', cx_encrypt = (\<lambda>_ s. s), cx_decrypt = (\<lambda>_ s. Inr s), cx_sha256 = (\<lambda>_. [])\<rparr>,
     so_sign_up_mail = None, so_sign_in_mail = False, so_dumps = (\<lambda>_. ''{}''), so_loads = (\<lambda>_. Some (VDict demo_state))\<rparr>"

abbreviation demo_options :: link_options where
  "demo_options \<equiv> social_options demo_provider demo_profile False VNone"

lemma demo_keeps_profile: "keeps_profile demo_social demo_provider demo_options"
  by (simp add: keeps_profile_def demo_social_def demo_provider_def social_options_def)

section \<open>Ann signs in with her account\<close>

definition state_gone :: sworld where
  "state_gone = with_rows ''verification'' [] demo_sworld"

abbreviation ann_signs_in :: "(sworld, pyval \<times> bool) action" where
  "ann_signs_in \<equiv> handle_oauth_user_info demo_site demo_social (at_us 500) (token_request []) demo_draws demo_provider demo_profile
     no_tokens demo_options"

lemma ann_found: "on_core (find_account_owner_by_key (core demo_site) (pv_id demo_provider) (oi_id demo_profile)) state_gone =
    (Inr (Some (ann_github, Some ann)), state_gone)"
  by code_simp

lemma ann_returns:
  "returning_user demo_site demo_social (at_us 500) demo_provider demo_profile tk (social_options demo_provider demo_profile c u)
     ''ann@a.io'' ann_github (Some ann) w = (Inr (VStr ''u'', False), w)"
  by (simp add: returning_user_def check_user_info_def assert_valid_user_info_def refresh_account_def promote_verified_def
      apply_profile_policy_def require_verified_def social_options_def demo_site_def demo_auth_def demo_social_def
      demo_provider_def demo_profile_def ann_def ann_github_def dindex_def dget_Cons bindA_def)

lemma ann_by_github:
  "handle_oauth_user_info demo_site demo_social (at_us 500) rq dr demo_provider demo_profile tk
     (social_options demo_provider demo_profile c u) state_gone = (Inr (VStr ''u'', False), state_gone)"
proof -
  have "lower_or_empty (oi_email demo_profile) = Inr ''ann@a.io''" by code_simp
  then show ?thesis using ann_found ann_returns by (simp add: handle_oauth_user_info_def bindA_def catchA_def)
qed

theorem social_user_identified_witness:
  "\<exists>a. filter (of_subject demo_provider demo_profile) (table state_gone ''account'') = [a] \<and> dget a ''userId'' = VStr ''u''"
proof -
  have "filter (of_subject demo_provider demo_profile) (table state_gone ''account'') = [ann_github]" by code_simp
  with social_user_identified[OF demo_native demo_keeps_profile ann_by_github] show ?thesis by auto
qed

section \<open>A callback with a state\<close>

definition state_world :: sworld where
  "state_world = with_rows ''verification'' [[(''id'', VStr ''v1''), (''identifier'', VStr ''xyz''), (''value'', VStr ''{}''),
     (''expiresAt'', VDate 900000000), (''createdAt'', VDate 0)]] demo_sworld"

definition callback_request :: request where
  "callback_request = (token_request [])\<lparr>rq_query := [(''state'', ''xyz''), (''code'', ''c'')],
     rq_cookies := [(cookie_name (es_auth demo_site) ''state'',
       sign_value (au_hmac (es_auth demo_site)) (au_secret (es_auth demo_site)) ''xyz'')]\<rparr>"

definition oauth_demo_draws :: oauth_draws where
  "oauth_demo_draws = \<lparr>od_state = ''xyz'', od_verifier = ''ver'', od_nonce = ''n'', od_draws = demo_draws\<rparr>"

abbreviation demo_callback :: "(sworld, response) action" where
  "demo_callback \<equiv> oauth_callback demo_site demo_social (at_us 500) callback_request (json_body []) oauth_demo_draws [] ''github''"

lemma plain_values_demo: "plain_values (core demo_site)"
  by (simp add: plain_values_def demo_site_def demo_auth_def demo_adapter_def native_def)

definition demo_data :: row where
  "demo_data = demo_state @ [(''errorURL'', VStr ''https://a.io/api/error'')]"

lemma demo_parsed: "parse_state demo_site demo_social (at_us 500) callback_request ''xyz'' None state_world = (Inr demo_data, state_gone)"
proof -
  have "fst (parse_state demo_site demo_social (at_us 500) callback_request ''xyz'' None state_world) = Inr demo_data"
    "snd (parse_state demo_site demo_social (at_us 500) callback_request ''xyz'' None state_world) = state_gone"
    by code_simp+
  then show ?thesis by (metis prod.collapse)
qed

lemma demo_params: "callback_params callback_request (json_body []) = [(''state'', ''xyz''), (''code'', ''c'')]"
  by code_simp

lemma demo_provider_found: "get_provider demo_social (VStr ''github'') = Inr (Some demo_provider)"
  by (simp add: get_provider_def py_or_def demo_social_def demo_provider_def)

lemma demo_said:
  "callback_tokens demo_site demo_social demo_provider [(''state'', ''xyz''), (''code'', ''c'')] demo_data =
     Inr (no_tokens\<lparr>ot_user := VNone, ot_nonce := VNone\<rparr>)"
  "callback_info demo_provider tk = Inr demo_profile"
proof -
  have "valid_subject (oi_id demo_profile)" "dget demo_data ''idTokenNonce'' = VNone" by code_simp+
  then show "callback_tokens demo_site demo_social demo_provider [(''state'', ''xyz''), (''code'', ''c'')] demo_data =
      Inr (no_tokens\<lparr>ot_user := VNone, ot_nonce := VNone\<rparr>)" "callback_info demo_provider tk = Inr demo_profile"
    by (simp_all add: callback_tokens_def callback_info_def demo_provider_def callback_user_def param_def)
qed

lemma demo_started:
  "case start_session demo_site (at_us 500) callback_request (VStr ''u'') True demo_draws state_gone of
     (Inr _, w) \<Rightarrow> length (table w ''session'') = 2 | (Inl _, w) \<Rightarrow> False"
  by code_simp

lemma demo_session_added: "length (table (snd (demo_callback state_world)) ''session'') = 2"
proof -
  let ?ps = "[(''state'', ''xyz''), (''code'', ''c'')]"
  obtain s cs w where started: "start_session demo_site (at_us 500) callback_request (VStr ''u'') True demo_draws state_gone = (Inr (s, cs), w)"
    and two: "length (table w ''session'') = 2"
    using demo_started by (auto split: prod.splits sum.splits)
  have facts: "dget demo_data ''link'' = VNone" "py_truthy (oi_email demo_profile)" "param ?ps ''error'' = []" "param ?ps ''code'' = ''c''"
      "param ?ps ''state'' = ''xyz''" "or_root (dget demo_data ''callbackURL'') = VStr ''/home''" "dget demo_data ''newUserURL'' = VNone"
      "absolute_value demo_site (VStr ''/home'') = Inr ''https://a.io/home''" "param ?ps ''iss'' = []"
    by code_simp+
  have provider: "pv_issuer demo_provider = []" "\<not> pv_binds_nonce demo_provider"
    by (simp_all add: demo_provider_def)
  have od: "od_draws oauth_demo_draws = demo_draws" by (simp add: oauth_demo_draws_def)
  have "complete_callback demo_site demo_social (at_us 500) callback_request oauth_demo_draws ''github'' ?ps demo_data state_gone =
      (Inr (add_cookies cs (redirect_to ''https://a.io/home'')), w)"
    using started
    by (simp add: complete_callback_def callback_sign_in_def callback_provider_def demo_provider_found demo_said facts provider od
        ann_by_github bindA_def catchA_def Let_def)
  then have "demo_callback state_world = (Inr (drop_state_cookie demo_site (add_cookies cs (redirect_to ''https://a.io/home''))), w)"
    using demo_parsed by (simp add: oauth_callback_def run_callback_def demo_params may_bounce_def facts bindA_def catchA_def Let_def)
  with two show ?thesis by simp
qed

theorem callback_needs_state_witness:
  "\<not> state_usable demo_site demo_social (at_us 500) callback_request (table (snd (demo_callback state_world)) ''verification'') ''xyz''"
proof -
  have world: "date_column ''createdAt'' (table state_world ''verification'')" "str_ids (table state_world ''verification'')"
      "str_ids (table state_world ''session'')" "length (table state_world ''session'') = 1"
      "param (callback_params callback_request (json_body [])) ''state'' = ''xyz''"
    by code_simp+
  have changed: "\<not> same_site_table ''session'' state_world (snd (demo_callback state_world))"
    using same_site_tableD[of "''session''" state_world "snd (demo_callback state_world)"] world(3,4) demo_session_added by auto
  have run: "demo_callback state_world = (fst (demo_callback state_world), snd (demo_callback state_world))" by simp
  have "''session'' \<noteq> (''verification'' :: string)" by simp
  from callback_needs_state[OF plain_values_demo world(1,2) run this changed]
  show ?thesis by (auto simp: world(5) state_usable_def has_identifier_def dest!: latest_row_in)
qed

section \<open>A flow that resumes\<close>

abbreviation demo_start :: flow_start where
  "demo_start \<equiv> \<lparr>fl_callback = VStr ''/home'', fl_error = VNone, fl_new_user = VNone, fl_link = VNone,
     fl_additional = VDict [(''codeVerifier'', VStr ''forged''), (''theme'', VStr ''dark'')], fl_nonce = None, fl_sign_up = VNone\<rparr>"

definition demo_json :: social_conf where
  "demo_json = demo_social\<lparr>so_loads := (\<lambda>_. Some (VDict (dset ''oauthState'' (VStr ''xyz'')
     (state_payload (at_us 500) oauth_demo_draws [] demo_start))))\<rparr>"

theorem started_flow_resumes_witness:
  "\<exists>data w'. parse_state demo_site demo_json (at_us 600) callback_request ''xyz'' None
      (snd (create_state demo_site demo_json (at_us 500) oauth_demo_draws [] demo_start demo_sworld)) = (Inr data, w') \<and>
    dget data ''codeVerifier'' = VStr ''ver''"
proof -
  have world: "date_column ''createdAt'' (table demo_sworld ''verification'')"
      "list_all (\<lambda>r. dget r ''identifier'' \<noteq> VStr (od_state oauth_demo_draws)) (table demo_sworld ''verification'')"
      "list_all (\<lambda>c. (of_char c :: nat) < 128) (od_state oauth_demo_draws)" "od_state oauth_demo_draws = ''xyz''"
      "od_verifier oauth_demo_draws = ''ver''"
    by code_simp+
  have rid: "resolve_generated_id (at_us 500) ''verification'' (ad_generate_id (store_ad demo_site)) = Some ''r''"
    by (simp add: demo_site_def demo_auth_def demo_adapter_def resolve_generated_id_def at_us_def)
  have loads: "so_loads demo_json t = Some (VDict (dset ''oauthState'' (VStr (od_state oauth_demo_draws))
      (state_payload (at_us 500) oauth_demo_draws [] demo_start)))" for t
    by (simp add: demo_json_def world(4))
  have hmac: "hmac_256 (au_hmac (es_auth demo_site))"
    by (simp add: demo_site_def demo_auth_def hmac_256_demo)
  have cookie: "get_cookie (es_auth demo_site) callback_request ''state'' =
      Some (sign_value (au_hmac (es_auth demo_site)) (au_secret (es_auth demo_site)) (od_state oauth_demo_draws))"
    by (simp add: get_cookie_def callback_request_def world(4))
  have "dt_ms (now (at_us 600)) \<le> dt_ms (now (at_us 500)) + STATE_EXPIRES_IN * 1000" by code_simp
  from started_flow_resumes[OF plain_values_demo world(1) rid _ refl loads hmac _ _ cookie this] world(2-5)
  show ?thesis by (auto simp: list_all_iff)
qed

end
