(* ===== verification/Spec2Isabelle.thy ===== *)
theory Spec2Isabelle
  imports Adapter_Props RateLimit_Claims AccessControl Crypto_Props Internal_Claims Hooks_Claims Session_Cache
    Origin Cookie_Props ApiKey_Owner Endpoint_Demo Device_Claims Email_Otp Admin
    Multi_Session Anonymous Session_Hooks Username Phone_Number Org_Demo OAuth_Demo
begin

text \<open>
  A verification library of better-auth for Python, the authentication server in \<open>src/src/better_auth\<close>.

  The program. A request comes in through a web framework, passes the rate limiter and the origin check, and
  reaches a handler: a core endpoint or the route of a plugin. Handlers read the session of the request from a
  signed cookie (or from a cached copy that is signed too), read and write users, sessions, accounts and
  verification values through the internal adapter, which runs the hooks of the application and may keep
  sessions and values in a key-value store besides the database, and answer with a body, cookies or a redirect.
  The internal adapter rests on a database adapter: conditions, a transform pipeline and atomic operations,
  which a backend has natively or gets from guarded fallbacks. Plugins read and write tables of their own.

  How the model follows the code. Python values are \<open>pyval\<close>, rows and bodies are association lists from
  keys to values, instants are microseconds since the epoch. A function that may raise returns \<open>exn + 'a\<close>; one
  that changes state is an action \<open>'s \<Rightarrow> 'a result \<times> 's\<close>, and an exception keeps the changes made before it. The
  state grows with the layers: \<open>store\<close> (the tables), \<open>iworld\<close> (with the key-value store, the queue of deferred
  work and the log of hooks) and \<open>sworld\<close> (with the calls of application callbacks and the new session of the
  request). An \<open>await\<close> is a point where another request may run: what is one action here does not await in
  between, and the claims about concurrency are about step relations whose steps are such actions, in any order.

  Theories and the files they model (under \<open>src/src/better_auth\<close>).
  \<^item> \<open>BA_Prelude\<close>: values, exceptions, actions, dicts, strings; \<open>py_simps\<close> evaluates them.
  \<^item> \<open>Schema\<close> (\<open>schema.py\<close>), \<open>Adapter\<close> (\<open>adapters/base.py\<close>, \<open>transform.py\<close>, \<open>memory.py\<close>), \<open>Fallback\<close> (the
    atomic fallbacks of \<open>base.py\<close>); \<open>Adapter_Facts\<close> has the laws of the memory adapter, \<open>Interleaving\<close> and
    \<open>Adapter_Props\<close> the fallbacks under concurrency.
  \<^item> \<open>KV\<close> (\<open>secondary_storage.py\<close>), \<open>RateLimit\<close> (\<open>rate_limit.py\<close>, \<open>adapters/rate_limit.py\<close>) with \<open>RateLimit_Props\<close>
    and \<open>RateLimit_Claims\<close>.
  \<^item> \<open>AccessControl\<close> (\<open>access_control.py\<close>), \<open>Crypto\<close> and \<open>Crypto_Props\<close> (\<open>crypto.py\<close>), \<open>Ip\<close> (\<open>ip.py\<close>), \<open>Urls\<close> and
    \<open>Origin\<close> (\<open>base_url.py\<close>, \<open>origin.py\<close>).
  \<^item> \<open>Internal\<close> and \<open>Internal_Ops\<close> (\<open>internal_adapter.py\<close>) with \<open>Internal_Props\<close>, \<open>Internal_Claims\<close>, \<open>Hooks_Claims\<close>
    and \<open>Frames\<close>; \<open>Session\<close> (\<open>session.py\<close>, \<open>cookie_cache.py\<close>) with \<open>Session_Props\<close>, \<open>Session_Cache\<close>,
    \<open>Session_Frames\<close> and \<open>Cookie_Props\<close>.
  \<^item> \<open>Endpoint_Base\<close>, \<open>Email_Endpoints\<close>, \<open>Account_Endpoints\<close>, \<open>User_Endpoints\<close> (\<open>endpoints.py\<close>) with
    \<open>Endpoint_Props\<close>, \<open>Endpoint_Claims\<close>, \<open>Sign_Up_Claims\<close>, \<open>Reset_Claims\<close>; \<open>Endpoint_Demo\<close> is a concrete site.
  \<^item> Plugins (\<open>plugins_ext\<close>): \<open>ApiKey\<close> and \<open>ApiKey_Routes\<close> (\<open>api_key.py\<close>) with \<open>ApiKey_Props\<close>, \<open>ApiKey_Claims\<close>,
    \<open>ApiKey_Verify\<close>, \<open>ApiKey_Mint\<close>, \<open>ApiKey_Owner\<close>; \<open>Two_Factor\<close> (\<open>two_factor.py\<close>) with \<open>Budget\<close> and
    \<open>Two_Factor_Claims\<close>; \<open>Magic_Link\<close>, \<open>One_Time_Token\<close>, \<open>Email_Otp\<close>, \<open>Username\<close>, \<open>Phone_Number\<close>, \<open>Anonymous\<close>,
    \<open>Multi_Session\<close>; \<open>Session_Hooks\<close> (\<open>bearer.py\<close>, \<open>custom_session.py\<close>, \<open>last_login_method.py\<close>);
    \<open>Device_Authorization\<close> and \<open>Device_Claims\<close> (\<open>device_authorization.py\<close>); \<open>Admin\<close> (\<open>admin.py\<close>);
    \<open>OrgAccess\<close>, \<open>Org_Base\<close>, \<open>Org_Store\<close>, \<open>Org_Routes\<close>, \<open>Org_Invitations\<close>, \<open>Org_Teams\<close>, \<open>Org_Roles\<close>
    (\<open>organization.py\<close>) with \<open>Org_Reads\<close>, \<open>Org_Owners\<close>, \<open>Org_Demo\<close>. \<open>Plugin_Base\<close>, \<open>Verif_Values\<close> and \<open>Reads\<close> are what they share.
  \<^item> Social sign-in: \<open>OAuth_Link\<close> (whose sign-in a profile is) and \<open>OAuth_Flow\<close> (state, callback, tokens) model
    \<open>oauth/flow.py\<close>, with \<open>OAuth_Claims\<close>; \<open>OAuth_Demo\<close> is a concrete provider.

  Interfaces. \<open>raw_deletes\<close> and \<open>raw_updates\<close> (\<open>Interleaving\<close>) are what the guarded fallbacks ask of a backend, and
  the memory adapter provides them; \<open>kv_store\<close> (\<open>KV\<close>) is the contract of the secondary storage, provided by the
  in-memory store; \<open>rate_limiter\<close> is the contract of one atomic attempt, provided by the memory and the database
  storages, from which their bounds follow; \<open>metered\<close> (\<open>ApiKey_Props\<close>) is a guarded counter under stale
  copies, provided by the refills and by the rate limit of a key; \<open>counted_row\<close> (\<open>Budget\<close>) is an attempt budget
  in a row that attempts take and put back, provided by the challenge of the second factor (its TOTP and
  backup codes; mailed codes count in a row of their own); \<open>frame\<close> (\<open>Frames\<close>)
  is any preorder of states that actions keep, provided by the tables an action leaves alone, by the approvals
  of the device grant, by the owners of an organization and by equality, for actions that only read.

  What the groups of theorems show. The fallbacks lose no update and consume a row once; the limiters never
  grant more than their budget, and the database limiter decides as the reference rule does; verification values
  and backup codes are used once; a transaction, whose callback is any script of reads and
  writes of the internal adapter, runs its hooks after the commit and keeps its writes when one raises; signed values, envelopes, keys
  and caches give back what was put in, and signed values accept nothing else; a session answers
  only for its own token, user and time; requests with cookies come from trusted origins, and so do the targets
  of redirects; a key verifies only while it is admissible, and is used no more than it may be; signing in
  needs the password, a refusal does not tell why, a reset token works once; the second factor cannot be
  skipped, and its attempts are bounded; a device code is redeemed once, for whoever approved it; leaving, removing
  and changing roles, one after another, keep an owner in every organization; a profile signs in the user of its account or one it may be linked to, and a social
  sign-in ends only in the browser that started it, unless that check is switched off.

  Bounds, fuel and exactness. Loops over rows and texts are structural. The retry loops of the fallbacks and of
  the rate limit take the attempts of the code (\<open>rounds\<close>, which the code bounds too, and the claims of
  termination say that the bound is enough when nobody interferes); a loop that draws until an id is
  free takes the list of draws as an argument. Integers are Python's, unbounded; addresses are words of 32 and
  128 bits. Durations are whole seconds or milliseconds of exact arithmetic: floats are not modelled, and where
  the code divides it is on whole numbers. Text is ASCII.

  Parameters. SHA-256, HMAC, scrypt, the ciphers, the JSON codec, writing and reading the ISO
  text of an instant (what JSON keeps of it: it is read back in milliseconds), PyJWT and the signer of the cookie
  cache, the IP and URL library
  functions that parse brackets, callbacks and validators of the application, the random draws and the clock of a
  call are arguments of the definitions that use them. The hypotheses on them are named (\<open>hmac_256\<close>, \<open>native\<close>,
  \<open>plain_site\<close>, \<open>plain_sessions\<close> and the like) and hold at the concrete sites of the witnesses.

  Not modelled. The SQLAlchemy adapter, whose meaning is that of the database behind it, and the web
  integrations, which translate between frameworks; the provider table, the OAuth provider, SSO and generic
  OAuth (exchanges over HTTP with parties outside the program, on JWT and XML libraries); the JWT, passkey
  and wallet plugins (signature libraries), and with them the check of a cache cookie against a published key set; the captcha and breach checks (HTTP calls); the client. The manifest
  lists each with its reason.
\<close>

end
